(* ===== verification/JsPrelude.thy ===== *)
theory JsPrelude
  imports Complex_Main "HOL-Library.Sublist" "HOL-Library.AList" "HOL-Library.Code_Target_Nat"
begin

text \<open>
  Strings, characters and association lists as the TypeScript code uses them.
  A JavaScript string is an Isabelle \<open>string\<close> (a \<open>char list\<close>): the model covers strings whose
  code units are below 256 and folds case for the ASCII letters only.
  An object or a \<open>Map\<close> is an association list in insertion order.
\<close>

named_theorems js_simps "evaluation rules of the JavaScript value model"
named_theorems store_frame "which fields of the control plane store an operation leaves alone"

section \<open>Results: a thrown error or a value\<close>

text \<open>An \<open>Error\<close> with its \<open>message\<close> and the optional \<open>statusCode\<close> the code attaches to it.\<close>

record js_error =
  message :: string
  statusCode :: "nat option"

type_synonym 'a res = "js_error + 'a"

definition js_throw :: "string \<Rightarrow> 'a res" where
  "js_throw m = Inl \<lparr>message = m, statusCode = None\<rparr>"

definition js_throw_status :: "nat \<Rightarrow> string \<Rightarrow> 'a res" where
  "js_throw_status c m = Inl \<lparr>message = m, statusCode = Some c\<rparr>"

definition rbind :: "'a res \<Rightarrow> ('a \<Rightarrow> 'b res) \<Rightarrow> 'b res" where
  "rbind r f = (case r of Inl e \<Rightarrow> Inl e | Inr x \<Rightarrow> f x)"

definition is_ok :: "'a res \<Rightarrow> bool" where
  "is_ok r = (case r of Inl _ \<Rightarrow> False | Inr _ \<Rightarrow> True)"

fun res_map :: "('a \<Rightarrow> 'b res) \<Rightarrow> 'a list \<Rightarrow> 'b list res" where
  "res_map f [] = Inr []"
| "res_map f (x # xs) = rbind (f x) (\<lambda>y. rbind (res_map f xs) (\<lambda>ys. Inr (y # ys)))"

text \<open>A loop over a list that threads a state and may throw.\<close>

fun res_fold :: "('s \<Rightarrow> 'a \<Rightarrow> 's res) \<Rightarrow> 's \<Rightarrow> 'a list \<Rightarrow> 's res" where
  "res_fold f s [] = Inr s"
| "res_fold f s (x # xs) = rbind (f s x) (\<lambda>s'. res_fold f s' xs)"

lemma rbind_simps [simp]:
  "rbind (Inl e) f = Inl e"
  "rbind (Inr x) f = f x"
  by (simp_all add: rbind_def)

lemma is_ok_simps [simp]:
  "is_ok (Inr x)"
  "\<not> is_ok (Inl e)"
  by (simp_all add: is_ok_def)

lemma js_throw_neq [simp]:
  "js_throw m \<noteq> Inr x"
  "js_throw_status c m \<noteq> Inr x"
  "Inr x \<noteq> js_throw m"
  "Inr x \<noteq> js_throw_status c m"
  by (simp_all add: js_throw_def js_throw_status_def)

lemma is_ok_throw [simp]:
  "\<not> is_ok (js_throw m)"
  "\<not> is_ok (js_throw_status c m)"
  by (simp_all add: js_throw_def js_throw_status_def)

lemma rbind_Inr_iff: "rbind r f = Inr y \<longleftrightarrow> (\<exists>x. r = Inr x \<and> f x = Inr y)"
  by (cases r) simp_all

lemma res_map_Inr_set:
  "res_map f xs = Inr ys \<Longrightarrow> y \<in> set ys \<Longrightarrow> \<exists>x \<in> set xs. f x = Inr y"
  by (induction xs arbitrary: ys) (auto simp: rbind_Inr_iff)

lemma res_map_Inr_length: "res_map f xs = Inr ys \<Longrightarrow> length ys = length xs"
  by (induction xs arbitrary: ys) (auto simp: rbind_Inr_iff)

section \<open>Characters\<close>

definition code_of :: "char \<Rightarrow> nat" where
  "code_of c = of_char c"

definition is_upper :: "char \<Rightarrow> bool" where
  "is_upper c = (65 \<le> code_of c \<and> code_of c \<le> 90)"

definition is_lower :: "char \<Rightarrow> bool" where
  "is_lower c = (97 \<le> code_of c \<and> code_of c \<le> 122)"

definition is_digit :: "char \<Rightarrow> bool" where
  "is_digit c = (48 \<le> code_of c \<and> code_of c \<le> 57)"

definition is_word :: "char \<Rightarrow> bool" where
  "is_word c = (is_upper c \<or> is_lower c \<or> is_digit c \<or> code_of c = 95)"

definition is_space :: "char \<Rightarrow> bool" where
  "is_space c = ((9 \<le> code_of c \<and> code_of c \<le> 13) \<or> code_of c = 32 \<or> code_of c = 160)"

definition lower_char :: "char \<Rightarrow> char" where
  "lower_char c = (if is_upper c then char_of (code_of c + 32) else c)"

definition upper_char :: "char \<Rightarrow> char" where
  "upper_char c = (if is_lower c then char_of (code_of c - 32) else c)"

lemma code_of_char_of: "n < 256 \<Longrightarrow> code_of (char_of n) = n"
  by (simp add: code_of_def)

lemma code_of_inject [simp]: "code_of c = code_of d \<longleftrightarrow> c = d"
  by (simp add: code_of_def)

lemma code_of_lower_char:
  "code_of (lower_char c) = (if is_upper c then code_of c + 32 else code_of c)"
  by (auto simp: lower_char_def is_upper_def code_of_char_of)

lemma code_of_upper_char:
  "code_of (upper_char c) = (if is_lower c then code_of c - 32 else code_of c)"
  by (auto simp: upper_char_def is_lower_def code_of_char_of)

lemma not_upper_lower_char [simp]: "\<not> is_upper (lower_char c)"
  by (simp add: is_upper_def code_of_lower_char)

lemma lower_char_idem [simp]: "lower_char (lower_char c) = lower_char c"
  using not_upper_lower_char[of c] by (simp add: lower_char_def[of "lower_char c"])

lemma is_space_lower_char [simp]: "is_space (lower_char c) = is_space c"
  by (auto simp: is_space_def code_of_lower_char is_upper_def)

lemma lower_char_eq_space: "is_space c \<Longrightarrow> lower_char c = c"
  by (auto simp: lower_char_def is_space_def is_upper_def)

section \<open>The string methods the code calls\<close>

definition str_lower :: "string \<Rightarrow> string" where
  "str_lower = map lower_char"

definition str_upper :: "string \<Rightarrow> string" where
  "str_upper = map upper_char"

definition str_trim :: "string \<Rightarrow> string" where
  "str_trim s = rev (dropWhile is_space (rev (dropWhile is_space s)))"

text \<open>\<open>s.slice(0, n)\<close>, \<open>s.slice(n)\<close> and \<open>s.slice(-n)\<close> with \<open>n\<close> a natural number.\<close>

definition str_prefix :: "nat \<Rightarrow> string \<Rightarrow> string" where
  "str_prefix n s = take n s"

definition str_from :: "nat \<Rightarrow> string \<Rightarrow> string" where
  "str_from n s = drop n s"

definition str_last :: "nat \<Rightarrow> string \<Rightarrow> string" where
  "str_last n s = drop (length s - n) s"

definition starts_with :: "string \<Rightarrow> string \<Rightarrow> bool" where
  "starts_with s p = prefix p s"

definition ends_with :: "string \<Rightarrow> string \<Rightarrow> bool" where
  "ends_with s p = suffix p s"

fun str_includes :: "string \<Rightarrow> string \<Rightarrow> bool" where
  "str_includes [] p = (p = [])"
| "str_includes (c # cs) p = (prefix p (c # cs) \<or> str_includes cs p)"

text \<open>\<open>s.indexOf(c)\<close> for one character; \<open>None\<close> stands for -1.\<close>

fun char_index :: "char \<Rightarrow> string \<Rightarrow> nat option" where
  "char_index c [] = None"
| "char_index c (d # ds) = (if c = d then Some 0 else map_option Suc (char_index c ds))"

text \<open>\<open>s.split(c)\<close> at one character.\<close>

fun str_split :: "char \<Rightarrow> string \<Rightarrow> string list" where
  "str_split c [] = [[]]"
| "str_split c (d # ds) =
     (if c = d then [] # str_split c ds
      else (case str_split c ds of [] \<Rightarrow> [[d]] | w # ws \<Rightarrow> (d # w) # ws))"

fun str_join :: "string \<Rightarrow> string list \<Rightarrow> string" where
  "str_join sep [] = []"
| "str_join sep [w] = w"
| "str_join sep (w # v # ws) = w @ sep @ str_join sep (v # ws)"

definition replace_char :: "char \<Rightarrow> char \<Rightarrow> string \<Rightarrow> string" where
  "replace_char a b = map (\<lambda>c. if c = a then b else c)"

lemma str_lower_idem [simp]: "str_lower (str_lower s) = str_lower s"
  by (simp add: str_lower_def comp_def)

lemma str_lower_append: "str_lower (s @ t) = str_lower s @ str_lower t"
  by (simp add: str_lower_def)

lemma length_str_lower [simp]: "length (str_lower s) = length s"
  by (simp add: str_lower_def)

lemma dropWhile_space_map_lower:
  "dropWhile is_space (map lower_char s) = map lower_char (dropWhile is_space s)"
  by (induction s) auto

lemma str_trim_lower: "str_trim (str_lower s) = str_lower (str_trim s)"
  by (simp add: str_trim_def str_lower_def dropWhile_space_map_lower rev_map)

lemma set_str_trim: "set (str_trim s) \<subseteq> set s"
  unfolding str_trim_def by (metis set_dropWhileD set_rev subsetI)

lemma dropWhile_rev_dropWhile:
  "dropWhile P (rev (dropWhile P (rev (dropWhile P s)))) = rev (dropWhile P (rev (dropWhile P s)))"
proof (cases "rev (dropWhile P (rev (dropWhile P s)))")
  case Nil
  show ?thesis unfolding Nil by simp
next
  case (Cons c cs)
  define u where "u = dropWhile P s"
  have "prefix (rev (dropWhile P (rev u))) u"
    by (metis rev_rev_ident suffix_dropWhile suffix_to_prefix)
  with Cons have "\<exists>v. u = c # v"
    by (auto simp: u_def prefix_def)
  then have "\<not> P c"
    unfolding u_def by (metis dropWhile_eq_Cons_conv)
  then show ?thesis unfolding Cons by simp
qed

lemma str_trim_idem [simp]: "str_trim (str_trim s) = str_trim s"
  by (simp add: str_trim_def dropWhile_rev_dropWhile)

lemma starts_with_append [simp]: "starts_with (p @ s) p"
  by (simp add: starts_with_def)

lemma str_includes_prefix: "prefix p s \<Longrightarrow> str_includes s p"
  by (cases s) auto

lemma str_includes_append: "str_includes t p \<Longrightarrow> str_includes (s @ t) p"
  by (induction s) auto

lemma str_includes_iff_sublist: "str_includes s p \<longleftrightarrow> sublist p s"
  by (induction s) (auto simp: sublist_Cons_right)

lemma str_split_nonempty [simp]: "str_split c s \<noteq> []"
  by (cases s) (auto split: list.splits)

lemma join_split: "str_join [c] (str_split c s) = s"
proof (induction s)
  case (Cons d ds)
  then show ?case
    by (cases "str_split c ds"; cases "tl (str_split c ds)") (auto split: list.splits)
qed simp

lemma split_no_sep: "c \<notin> set s \<Longrightarrow> str_split c s = [s]"
  by (induction s) auto

lemma split_cons_sep: "c \<notin> set s \<Longrightarrow> str_split c (s @ c # t) = s # str_split c t"
  by (induction s) auto

lemma char_index_Some_split:
  "char_index c s = Some i \<Longrightarrow> s = take i s @ c # drop (Suc i) s \<and> c \<notin> set (take i s)"
  by (induction s arbitrary: i) (auto split: if_splits)

lemma char_index_append: "c \<notin> set s \<Longrightarrow> char_index c (s @ c # t) = Some (length s)"
  by (induction s) auto

lemma str_prefix_length: "length (str_prefix n s) \<le> n"
  by (simp add: str_prefix_def)

section \<open>Decimal digits\<close>

definition digit_char :: "nat \<Rightarrow> char" where
  "digit_char n = char_of (48 + n)"

fun nat_str :: "nat \<Rightarrow> string" where
  "nat_str n = (if n < 10 then [digit_char n] else nat_str (n div 10) @ [digit_char (n mod 10)])"

declare nat_str.simps [simp del]

definition digit_val :: "char \<Rightarrow> nat" where
  "digit_val c = code_of c - 48"

definition str_nat :: "string \<Rightarrow> nat" where
  "str_nat s = foldl (\<lambda>n c. 10 * n + digit_val c) 0 s"

definition int_str :: "int \<Rightarrow> string" where
  "int_str i = (if i < 0 then CHR ''-'' # nat_str (nat (- i)) else nat_str (nat i))"

lemma digit_char_props:
  assumes "n < 10"
  shows "is_digit (digit_char n)" and "digit_val (digit_char n) = n"
  using assms by (simp_all add: is_digit_def digit_char_def digit_val_def code_of_char_of)

lemma nat_str_nonempty [simp]: "nat_str n \<noteq> []"
  by (subst nat_str.simps) simp

lemma nat_str_digits: "c \<in> set (nat_str n) \<Longrightarrow> is_digit c"
proof (induction n rule: nat_str.induct)
  case (1 n)
  then show ?case
    by (cases "n < 10") (auto simp: nat_str.simps[of n] digit_char_props(1))
qed

lemma str_nat_append: "str_nat (s @ [c]) = 10 * str_nat s + digit_val c"
  by (simp add: str_nat_def)

lemma str_nat_nat_str [simp]: "str_nat (nat_str n) = n"
proof (induction n rule: nat_str.induct)
  case (1 n)
  show ?case
  proof (cases "n < 10")
    case True
    then show ?thesis
      by (simp add: nat_str.simps[of n] str_nat_def digit_char_props(2))
  next
    case False
    with 1 show ?thesis
      by (simp add: nat_str.simps[of n] str_nat_append digit_char_props(2))
  qed
qed

lemma nat_str_inject [simp]: "nat_str m = nat_str n \<longleftrightarrow> m = n"
  by (metis str_nat_nat_str)

text \<open>\<open>String(n).padStart(k, '0')\<close>, the fixed width fields of an ISO timestamp.\<close>

fun pad_nat :: "nat \<Rightarrow> nat \<Rightarrow> string" where
  "pad_nat 0 n = []"
| "pad_nat (Suc k) n = pad_nat k (n div 10) @ [digit_char (n mod 10)]"

lemma length_pad_nat [simp]: "length (pad_nat k n) = k"
  by (induction k arbitrary: n) auto

lemma pad_nat_digits: "c \<in> set (pad_nat k n) \<Longrightarrow> is_digit c"
  by (induction k arbitrary: n) (auto simp: digit_char_props(1))

lemma str_nat_pad_nat: "n < 10 ^ k \<Longrightarrow> str_nat (pad_nat k n) = n"
proof (induction k arbitrary: n)
  case 0
  then show ?case by (simp add: str_nat_def)
next
  case (Suc k)
  then have "n div 10 < 10 ^ k"
    by (simp add: less_mult_imp_div_less mult.commute)
  with Suc.IH show ?case
    by (simp add: str_nat_append digit_char_props(2))
qed

section \<open>Induction over non-empty lists\<close>

lemma list_nonempty_induct' [consumes 1, case_names single cons]:
  assumes "xs \<noteq> []" and "\<And>x. P [x]" and "\<And>x y ys. P (y # ys) \<Longrightarrow> P (x # y # ys)"
  shows "P xs"
  using assms(1)
proof (induction xs)
  case (Cons x xs)
  then show ?case using assms(2,3) by (cases xs) auto
qed simp

section \<open>Association lists in insertion order\<close>

text \<open>
  \<open>Object.assign(a, b)\<close>, the spread \<open>{...a, ...b}\<close> and \<open>map.set(k, v)\<close>: an existing key keeps
  its place, a new one goes to the end.
\<close>

definition alist_merge :: "('k \<times> 'v) list \<Rightarrow> ('k \<times> 'v) list \<Rightarrow> ('k \<times> 'v) list" where
  "alist_merge a b = fold (\<lambda>(k, v) m. AList.update k v m) b a"

lemma alist_merge_simps [simp]:
  "alist_merge a [] = a"
  "alist_merge a ((k, v) # b) = alist_merge (AList.update k v a) b"
  by (simp_all add: alist_merge_def)

lemma map_of_alist_merge:
  "map_of (alist_merge a b) k = (case map_of (rev b) k of Some v \<Rightarrow> Some v | None \<Rightarrow> map_of a k)"
proof (induction b arbitrary: a)
  case (Cons p b)
  obtain j v where p: "p = (j, v)" by fastforce
  show ?case
    by (auto simp: p Cons.IH AList.update_conv map_add_def split: option.splits)
qed simp

lemma keys_alist_merge: "fst ` set (alist_merge a b) = fst ` set a \<union> fst ` set b"
proof (induction b arbitrary: a)
  case (Cons p b)
  then show ?case
    by (cases p) (simp add: AList.dom_update)
qed simp

lemma distinct_alist_merge:
  "distinct (map fst a) \<Longrightarrow> distinct (map fst (alist_merge a b))"
  by (induction b arbitrary: a) (auto simp: AList.distinct_update)

lemma map_of_filter_key:
  "map_of (filter (\<lambda>(k, v). P k) al) k = (if P k then map_of al k else None)"
  by (induction al) auto

lemma map_of_map_filter_key:
  "map_of (filter (\<lambda>p. P (fst p)) al) k = (if P k then map_of al k else None)"
  by (induction al) auto

lemma set_alist_update_subset: "set (AList.update k v al) \<subseteq> insert (k, v) (set al)"
  by (induction al) auto

end
