(* ===== verification/JsValue.thy ===== *)
theory JsValue
  imports JsPrelude
begin

text \<open>
  The dynamically typed values of the TypeScript code (\<open>Record<string, any>\<close>, \<open>any\<close>) and the
  operators it applies to them: truthiness, \<open>||\<close>, \<open>??\<close>, \<open>===\<close>, \<open>String(v)\<close>, \<open>Number(v)\<close>,
  property access, spread, \<open>delete\<close>, \<open>Object.entries\<close> and the JSON round trip \<open>deepClone\<close>.
  Numbers are exact rationals with the two infinities and NaN, so rounding of doubles is left
  out. An object is the association list of its own properties in insertion order; its keys
  are no array indices, and no own key is \<open>__proto__\<close>. A read of a missing property, or of a
  property of a value that is no object, is \<open>undefined\<close> (the code's \<open>?.\<close>).
\<close>

section \<open>Values\<close>

datatype jnum = Fin rat | PosInf | NegInf | NaN

text \<open>\<open>JHost n\<close> is the function \<open>Object.prototype[n]\<close>, which a lookup table answers for an
  inherited name.\<close>

datatype jsv =
  JUndef
| JNull
| JBool bool
| JNum jnum
| JStr string
| JArr "jsv list"
| JObj "(string \<times> jsv) list"
| JHost string

abbreviation jnat :: "nat \<Rightarrow> jsv" where
  "jnat n \<equiv> JNum (Fin (of_nat n))"

abbreviation jint :: "int \<Rightarrow> jsv" where
  "jint i \<equiv> JNum (Fin (of_int i))"

definition truthy :: "jsv \<Rightarrow> bool" where
  "truthy v = (case v of
      JUndef \<Rightarrow> False | JNull \<Rightarrow> False | JBool b \<Rightarrow> b
    | JNum n \<Rightarrow> (case n of Fin q \<Rightarrow> q \<noteq> 0 | NaN \<Rightarrow> False | _ \<Rightarrow> True)
    | JStr s \<Rightarrow> s \<noteq> [] | _ \<Rightarrow> True)"

definition jor :: "jsv \<Rightarrow> jsv \<Rightarrow> jsv" where
  "jor a b = (if truthy a then a else b)"

definition is_nullish :: "jsv \<Rightarrow> bool" where
  "is_nullish v = (v = JUndef \<or> v = JNull)"

definition jnullish :: "jsv \<Rightarrow> jsv \<Rightarrow> jsv" where
  "jnullish a b = (if is_nullish a then b else a)"

text \<open>A parameter default \<open>p = d\<close> replaces \<open>undefined\<close> only.\<close>

definition jdefault :: "jsv \<Rightarrow> jsv \<Rightarrow> jsv" where
  "jdefault a d = (if a = JUndef then d else a)"

text \<open>\<open>typeof v === 'object'\<close>, which \<open>null\<close> satisfies too.\<close>

definition typeof_object :: "jsv \<Rightarrow> bool" where
  "typeof_object v = (case v of JNull \<Rightarrow> True | JArr _ \<Rightarrow> True | JObj _ \<Rightarrow> True | _ \<Rightarrow> False)"

definition is_jstr :: "jsv \<Rightarrow> bool" where
  "is_jstr v = (case v of JStr _ \<Rightarrow> True | _ \<Rightarrow> False)"

definition is_jarr :: "jsv \<Rightarrow> bool" where
  "is_jarr v = (case v of JArr _ \<Rightarrow> True | _ \<Rightarrow> False)"

text \<open>\<open>a === b\<close>: objects and arrays are equal only as references, and the code compares
  separately built ones with nothing, so two of them are never equal here.\<close>

definition strict_eq :: "jsv \<Rightarrow> jsv \<Rightarrow> bool" where
  "strict_eq a b = (case a of
      JArr _ \<Rightarrow> False | JObj _ \<Rightarrow> False | JNum NaN \<Rightarrow> False | _ \<Rightarrow> a = b)"

section \<open>Conversions\<close>

fun frac_digits :: "nat \<Rightarrow> rat \<Rightarrow> string" where
  "frac_digits 0 r = []"
| "frac_digits (Suc k) r =
     (if r = 0 then [] else digit_char (nat \<lfloor>10 * r\<rfloor>) # frac_digits k (10 * r - of_int \<lfloor>10 * r\<rfloor>))"

text \<open>\<open>String(n)\<close>: exact for integers and for fractions of at most 16 decimal places.\<close>

definition num_str :: "jnum \<Rightarrow> string" where
  "num_str n = (case n of
      PosInf \<Rightarrow> ''Infinity'' | NegInf \<Rightarrow> ''-Infinity'' | NaN \<Rightarrow> ''NaN''
    | Fin q \<Rightarrow>
        (if of_int \<lfloor>q\<rfloor> = q then int_str \<lfloor>q\<rfloor>
         else (let a = \<bar>q\<bar> in
           (if q < 0 then ''-'' else []) @ int_str \<lfloor>a\<rfloor> @ ''.'' @ frac_digits 16 (a - of_int \<lfloor>a\<rfloor>))))"

fun to_str :: "jsv \<Rightarrow> string"
and to_str_items :: "jsv list \<Rightarrow> string list" where
  "to_str JUndef = ''undefined''"
| "to_str JNull = ''null''"
| "to_str (JBool b) = (if b then ''true'' else ''false'')"
| "to_str (JNum n) = num_str n"
| "to_str (JStr s) = s"
| "to_str (JArr vs) = str_join '','' (to_str_items vs)"
| "to_str (JObj kvs) = ''[object Object]''"
| "to_str (JHost n) = ''function '' @ n @ ''() { [native code] }''"
| "to_str_items [] = []"
| "to_str_items (v # vs) = (if v = JUndef \<or> v = JNull then [] else to_str v) # to_str_items vs"

definition all_digits :: "string \<Rightarrow> bool" where
  "all_digits s = (s \<noteq> [] \<and> list_all is_digit s)"

text \<open>The unsigned decimal literals \<open>12\<close>, \<open>12.\<close>, \<open>12.5\<close>, \<open>.5\<close>.\<close>

definition parse_decimal :: "string \<Rightarrow> rat option" where
  "parse_decimal s = (case char_index CHR ''.'' s of
      None \<Rightarrow> (if all_digits s then Some (of_nat (str_nat s)) else None)
    | Some i \<Rightarrow>
        (let a = take i s; b = drop (Suc i) s in
         if list_all is_digit a \<and> list_all is_digit b \<and> (a \<noteq> [] \<or> b \<noteq> [])
         then Some (of_nat (str_nat a) + of_nat (str_nat b) / 10 ^ length b) else None))"

definition parse_sign :: "string \<Rightarrow> bool \<times> string" where
  "parse_sign s = (case s of
      c # cs \<Rightarrow> if c = CHR ''-'' then (True, cs) else if c = CHR ''+'' then (False, cs) else (False, s)
    | [] \<Rightarrow> (False, []))"

text \<open>\<open>Number(s)\<close> on a string: white space around, a sign, a decimal literal with an optional
  exponent, or \<open>Infinity\<close>; the empty string is 0. The prefixed forms \<open>0x\<close>, \<open>0o\<close> and \<open>0b\<close> are
  read as NaN.\<close>

definition parse_exponent :: "string \<Rightarrow> rat option" where
  "parse_exponent s = (case char_index CHR ''e'' (str_lower s) of
      None \<Rightarrow> parse_decimal s
    | Some i \<Rightarrow>
        (let (neg, d) = parse_sign (drop (Suc i) s) in
         case parse_decimal (take i s) of
           None \<Rightarrow> None
         | Some m \<Rightarrow>
             (if all_digits d
              then Some (if neg then m / 10 ^ str_nat d else m * 10 ^ str_nat d) else None)))"

definition num_of_str :: "string \<Rightarrow> jnum" where
  "num_of_str s0 = (let s = str_trim s0 in
     if s = [] then Fin 0 else
       (let (neg, u) = parse_sign s in
        if u = ''Infinity'' then (if neg then NegInf else PosInf)
        else (case parse_exponent u of None \<Rightarrow> NaN | Some q \<Rightarrow> Fin (if neg then - q else q))))"

definition to_num :: "jsv \<Rightarrow> jnum" where
  "to_num v = (case v of
      JUndef \<Rightarrow> NaN | JNull \<Rightarrow> Fin 0 | JBool b \<Rightarrow> Fin (if b then 1 else 0) | JNum n \<Rightarrow> n
    | JStr s \<Rightarrow> num_of_str s | JArr _ \<Rightarrow> num_of_str (to_str v) | JObj _ \<Rightarrow> NaN | JHost _ \<Rightarrow> NaN)"

definition is_finite :: "jnum \<Rightarrow> bool" where
  "is_finite n = (case n of Fin _ \<Rightarrow> True | _ \<Rightarrow> False)"

definition is_integer :: "jnum \<Rightarrow> bool" where
  "is_integer n = (case n of Fin q \<Rightarrow> of_int \<lfloor>q\<rfloor> = q | _ \<Rightarrow> False)"

section \<open>Arithmetic and comparison of numbers\<close>

definition num_less :: "jnum \<Rightarrow> jnum \<Rightarrow> bool" where
  "num_less a b = (case a of
      NaN \<Rightarrow> False | PosInf \<Rightarrow> False
    | NegInf \<Rightarrow> (case b of NegInf \<Rightarrow> False | NaN \<Rightarrow> False | _ \<Rightarrow> True)
    | Fin p \<Rightarrow> (case b of Fin q \<Rightarrow> p < q | PosInf \<Rightarrow> True | _ \<Rightarrow> False))"

definition num_le :: "jnum \<Rightarrow> jnum \<Rightarrow> bool" where
  "num_le a b = (num_less a b \<or> (a = b \<and> a \<noteq> NaN))"

definition num_add :: "jnum \<Rightarrow> jnum \<Rightarrow> jnum" where
  "num_add a b = (case a of
      NaN \<Rightarrow> NaN
    | PosInf \<Rightarrow> (case b of NegInf \<Rightarrow> NaN | NaN \<Rightarrow> NaN | _ \<Rightarrow> PosInf)
    | NegInf \<Rightarrow> (case b of PosInf \<Rightarrow> NaN | NaN \<Rightarrow> NaN | _ \<Rightarrow> NegInf)
    | Fin p \<Rightarrow> (case b of Fin q \<Rightarrow> Fin (p + q) | _ \<Rightarrow> b))"

definition num_neg :: "jnum \<Rightarrow> jnum" where
  "num_neg a = (case a of Fin p \<Rightarrow> Fin (- p) | PosInf \<Rightarrow> NegInf | NegInf \<Rightarrow> PosInf | NaN \<Rightarrow> NaN)"

definition num_sub :: "jnum \<Rightarrow> jnum \<Rightarrow> jnum" where
  "num_sub a b = num_add a (num_neg b)"

text \<open>\<open>x * c\<close> and \<open>x / c\<close> with a positive constant \<open>c\<close>, the only products the code forms.\<close>

definition num_scale :: "rat \<Rightarrow> jnum \<Rightarrow> jnum" where
  "num_scale c a = (case a of Fin p \<Rightarrow> Fin (c * p) | _ \<Rightarrow> a)"

text \<open>\<open>a * b\<close>, and \<open>2 ** n\<close> for a natural number \<open>n\<close> (\<open>n\<close> not integral is not modelled: NaN).\<close>

definition num_sign :: "jnum \<Rightarrow> rat" where
  "num_sign a = (case a of Fin q \<Rightarrow> sgn q | PosInf \<Rightarrow> 1 | NegInf \<Rightarrow> - 1 | NaN \<Rightarrow> 0)"

definition num_mul :: "jnum \<Rightarrow> jnum \<Rightarrow> jnum" where
  "num_mul a b = (case (a, b) of
      (Fin p, Fin q) \<Rightarrow> Fin (p * q)
    | (NaN, _) \<Rightarrow> NaN | (_, NaN) \<Rightarrow> NaN
    | _ \<Rightarrow> (let s = num_sign a * num_sign b in if s = 0 then NaN else if 0 < s then PosInf else NegInf))"

definition num_pow2 :: "jnum \<Rightarrow> jnum" where
  "num_pow2 n = (case n of
      Fin q \<Rightarrow> if of_int \<lfloor>q\<rfloor> = q \<and> 0 \<le> q then Fin (2 ^ nat \<lfloor>q\<rfloor>) else NaN
    | PosInf \<Rightarrow> PosInf | NegInf \<Rightarrow> Fin 0 | NaN \<Rightarrow> NaN)"

text \<open>\<open>Math.max\<close> and \<open>Math.min\<close>: NaN if either is.\<close>

definition num_max :: "jnum \<Rightarrow> jnum \<Rightarrow> jnum" where
  "num_max a b = (if a = NaN \<or> b = NaN then NaN else if num_less a b then b else a)"

definition num_min :: "jnum \<Rightarrow> jnum \<Rightarrow> jnum" where
  "num_min a b = (if a = NaN \<or> b = NaN then NaN else if num_less b a then b else a)"

definition num_floor :: "jnum \<Rightarrow> jnum" where
  "num_floor a = (case a of Fin p \<Rightarrow> Fin (of_int \<lfloor>p\<rfloor>) | _ \<Rightarrow> a)"

lemma num_less_Fin [simp]: "num_less (Fin p) (Fin q) \<longleftrightarrow> p < q"
  by (simp add: num_less_def)

lemma num_le_Fin [simp]: "num_le (Fin p) (Fin q) \<longleftrightarrow> p \<le> q"
  by (auto simp: num_le_def)

lemma num_add_Fin [simp]: "num_add (Fin p) (Fin q) = Fin (p + q)"
  by (simp add: num_add_def)

lemma num_max_Fin [simp]: "num_max (Fin p) (Fin q) = Fin (max p q)"
  by (simp add: num_max_def max_def)

lemma num_min_Fin [simp]: "num_min (Fin p) (Fin q) = Fin (min p q)"
  by (simp add: num_min_def min_def)

lemma num_less_irrefl [simp]: "\<not> num_less a a"
  by (cases a) (simp_all add: num_less_def)

lemma num_less_NaN [simp]: "\<not> num_less NaN b" "\<not> num_less a NaN"
  by (cases a; simp add: num_less_def)+

lemma num_less_trans: "num_less a b \<Longrightarrow> num_less b c \<Longrightarrow> num_less a c"
  by (cases a; cases b; cases c) (auto simp: num_less_def)

lemma num_max_le: "num_max a b = c \<Longrightarrow> a \<noteq> NaN \<Longrightarrow> b \<noteq> NaN \<Longrightarrow> num_le a c \<and> num_le b c"
  by (cases a; cases b) (auto simp: num_max_def num_le_def num_less_def split: if_splits)

text \<open>The order \<open>sort((a, b) => a - b)\<close> puts numbers in; NaN, on which it says nothing, goes last.\<close>

instantiation jnum :: linorder
begin

definition less_eq_jnum :: "jnum \<Rightarrow> jnum \<Rightarrow> bool" where
  "a \<le> b \<longleftrightarrow> b = NaN \<or> num_le a b"

definition less_jnum :: "jnum \<Rightarrow> jnum \<Rightarrow> bool" where
  "a < b \<longleftrightarrow> a \<le> b \<and> a \<noteq> (b :: jnum)"

instance
proof
  fix a b c :: jnum
  show "a < b \<longleftrightarrow> a \<le> b \<and> \<not> b \<le> a"
    by (cases a; cases b) (auto simp: less_eq_jnum_def less_jnum_def num_le_def num_less_def)
  show "a \<le> a" by (cases a) (auto simp: less_eq_jnum_def num_le_def)
  show "a \<le> b \<Longrightarrow> b \<le> c \<Longrightarrow> a \<le> c"
    by (cases a; cases b; cases c) (auto simp: less_eq_jnum_def num_le_def num_less_def)
  show "a \<le> b \<Longrightarrow> b \<le> a \<Longrightarrow> a = b"
    by (cases a; cases b) (auto simp: less_eq_jnum_def num_le_def num_less_def)
  show "a \<le> b \<or> b \<le> a"
    by (cases a; cases b) (auto simp: less_eq_jnum_def num_le_def num_less_def)
qed

end

lemma jnum_le_Fin [simp]: "Fin p \<le> Fin q \<longleftrightarrow> p \<le> q" "Fin p < Fin q \<longleftrightarrow> p < q"
  by (auto simp: less_eq_jnum_def less_jnum_def)

section \<open>Objects and arrays\<close>

definition entries :: "jsv \<Rightarrow> (string \<times> jsv) list" where
  "entries v = (case v of JObj kvs \<Rightarrow> kvs | _ \<Rightarrow> [])"

definition jget :: "jsv \<Rightarrow> string \<Rightarrow> jsv" where
  "jget v k = (case map_of (entries v) k of Some x \<Rightarrow> x | None \<Rightarrow> JUndef)"

text \<open>\<open>v.k\<close> where the code does not guard \<open>v\<close>: \<open>undefined\<close> and \<open>null\<close> throw.\<close>

definition jread :: "jsv \<Rightarrow> string \<Rightarrow> jsv res" where
  "jread v k = (if is_nullish v
     then js_throw (''Cannot read properties of '' @ (if v = JNull then ''null'' else ''undefined'') @
       '' (reading '' @ [CHR 0x27] @ k @ [CHR 0x27] @ '')'')
     else Inr (jget v k))"

definition has_own :: "jsv \<Rightarrow> string \<Rightarrow> bool" where
  "has_own v k = (k \<in> fst ` set (entries v))"

definition jset :: "jsv \<Rightarrow> string \<Rightarrow> jsv \<Rightarrow> jsv" where
  "jset v k x = JObj (AList.update k x (entries v))"

definition jdelete :: "jsv \<Rightarrow> string \<Rightarrow> jsv" where
  "jdelete v k = JObj (filter (\<lambda>p. fst p \<noteq> k) (entries v))"

text \<open>\<open>{...a, ...b}\<close>\<close>

definition jspread :: "jsv \<Rightarrow> jsv \<Rightarrow> jsv" where
  "jspread a b = JObj (alist_merge (entries a) (entries b))"

text \<open>\<open>{...a, k: v, ...}\<close>\<close>

definition jwith :: "jsv \<Rightarrow> (string \<times> jsv) list \<Rightarrow> jsv" where
  "jwith a kvs = jspread a (JObj kvs)"

definition items :: "jsv \<Rightarrow> jsv list" where
  "items v = (case v of JArr vs \<Rightarrow> vs | _ \<Rightarrow> [])"

text \<open>The keys every object inherits from \<open>Object.prototype\<close>.\<close>

definition proto_keys :: "string list" where
  "proto_keys = [''constructor'', ''__defineGetter__'', ''__defineSetter__'', ''hasOwnProperty'',
     ''__lookupGetter__'', ''__lookupSetter__'', ''isPrototypeOf'', ''propertyIsEnumerable'',
     ''toString'', ''valueOf'', ''__proto__'', ''toLocaleString'']"

text \<open>\<open>TABLE[key]\<close> with a computed key: the object's own property, or the inherited one.\<close>

definition table_get :: "(string \<times> jsv) list \<Rightarrow> string \<Rightarrow> jsv" where
  "table_get tbl k = (case map_of tbl k of
      Some x \<Rightarrow> x
    | None \<Rightarrow> (if k \<in> set proto_keys then JHost k else JUndef))"

fun deep_clone :: "jsv \<Rightarrow> jsv"
and clone_items :: "jsv list \<Rightarrow> jsv list"
and clone_fields :: "(string \<times> jsv) list \<Rightarrow> (string \<times> jsv) list" where
  "deep_clone (JArr vs) = JArr (clone_items vs)"
| "deep_clone (JObj kvs) = JObj (clone_fields kvs)"
| "deep_clone (JNum n) = (case n of Fin _ \<Rightarrow> JNum n | _ \<Rightarrow> JNull)"
| "deep_clone v = v"
| "clone_items [] = []"
| "clone_items (v # vs) =
     (case v of JUndef \<Rightarrow> JNull | JHost _ \<Rightarrow> JNull | _ \<Rightarrow> deep_clone v) # clone_items vs"
| "clone_fields [] = []"
| "clone_fields ((k, v) # kvs) =
     (case v of JUndef \<Rightarrow> clone_fields kvs | JHost _ \<Rightarrow> clone_fields kvs
      | _ \<Rightarrow> (k, deep_clone v) # clone_fields kvs)"

section \<open>Laws of the operators\<close>

lemma truthy_simps [simp]:
  "\<not> truthy JUndef" "\<not> truthy JNull" "truthy (JBool b) = b" "truthy (JStr s) = (s \<noteq> [])"
  "truthy (JArr vs)" "truthy (JObj kvs)" "truthy (JHost h)" "truthy (JNum (Fin q)) = (q \<noteq> 0)"
  "\<not> truthy (JNum NaN)" "truthy (JNum PosInf)" "truthy (JNum NegInf)"
  by (simp_all add: truthy_def)

lemma truthy_not_nullish: "truthy v \<Longrightarrow> v \<noteq> JUndef \<and> v \<noteq> JNull"
  by auto

lemma jor_truthy [simp]: "truthy a \<Longrightarrow> jor a b = a"
  and jor_falsy [simp]: "\<not> truthy a \<Longrightarrow> jor a b = b"
  by (simp_all add: jor_def)

lemma truthy_jor: "truthy (jor a b) \<longleftrightarrow> truthy a \<or> truthy b"
  by (simp add: jor_def)

lemma jor_assoc: "jor (jor a b) c = jor a (jor b c)"
  by (simp add: jor_def)

lemma to_str_jor_JStr [simp]: "to_str (jor (JStr s) (JStr [])) = s"
  by (simp add: jor_def)

lemma jdefault_simps [simp]: "jdefault JUndef d = d" "a \<noteq> JUndef \<Longrightarrow> jdefault a d = a"
  by (simp_all add: jdefault_def)

lemma strict_eq_JStr [simp]:
  "strict_eq (JStr s) v \<longleftrightarrow> v = JStr s"
  "strict_eq v (JStr s) \<longleftrightarrow> v = JStr s"
  by (auto simp: strict_eq_def split: jsv.splits jnum.splits)

lemma strict_eq_JBool [simp]:
  "strict_eq (JBool b) v \<longleftrightarrow> v = JBool b"
  "strict_eq v (JBool b) \<longleftrightarrow> v = JBool b"
  by (auto simp: strict_eq_def split: jsv.splits jnum.splits)

lemma entries_JObj [simp]: "entries (JObj kvs) = kvs"
  by (simp add: entries_def)

lemma entries_others [simp]:
  "entries JUndef = []" "entries JNull = []" "entries (JStr s) = []" "entries (JBool b) = []"
  "entries (JNum n) = []" "entries (JArr vs) = []" "entries (JHost h) = []"
  by (simp_all add: entries_def)

lemma items_simps [simp]:
  "items (JArr vs) = vs" "items JUndef = []" "items JNull = []" "items (JObj kvs) = []"
  by (simp_all add: items_def)

lemma jget_JObj_Cons [simp]:
  "jget (JObj ((k, v) # kvs)) j = (if j = k then v else jget (JObj kvs) j)"
  by (simp add: jget_def)

lemma jget_empty [simp]:
  "jget (JObj []) k = JUndef" "jget JUndef k = JUndef" "jget JNull k = JUndef"
  "jget (JStr s) k = JUndef"
  by (simp_all add: jget_def)

lemma jget_jset [simp]: "jget (jset v k x) j = (if j = k then x else jget v j)"
  by (simp add: jget_def jset_def AList.update_conv)

lemma jget_jdelete [simp]: "jget (jdelete v k) j = (if j = k then JUndef else jget v j)"
  by (simp add: jget_def jdelete_def map_of_map_filter_key[where P = "\<lambda>a. a \<noteq> k"])

lemma jget_jwith_Nil [simp]: "jget (jwith v []) j = jget v j"
  by (simp add: jwith_def jspread_def jget_def)

lemma jwith_Cons: "jwith v ((k, x) # kvs) = jwith (jset v k x) kvs"
  by (simp add: jwith_def jspread_def jset_def)

lemma jget_jspread:
  "jget (jspread a b) k =
     (case map_of (rev (entries b)) k of Some x \<Rightarrow> x | None \<Rightarrow> jget a k)"
  by (simp add: jspread_def jget_def map_of_alist_merge split: option.splits)

lemma jget_jspread_distinct:
  assumes "distinct (map fst (entries b))"
  shows "jget (jspread a b) k = (if has_own b k then jget b k else jget a k)"
proof -
  have "map_of (rev (entries b)) = map_of (entries b)"
    using assms by (simp add: map_of_inject_set rev_map[symmetric])
  moreover have "has_own b k \<longleftrightarrow> map_of (entries b) k \<noteq> None"
    by (simp add: has_own_def map_of_eq_None_iff)
  ultimately show ?thesis
    by (cases "map_of (entries b) k") (simp_all add: jget_jspread jget_def[of b])
qed

lemma has_own_jset [simp]: "has_own (jset v k x) j \<longleftrightarrow> j = k \<or> has_own v j"
  by (auto simp: has_own_def jset_def AList.dom_update)

lemma has_own_jdelete [simp]: "has_own (jdelete v k) j \<longleftrightarrow> j \<noteq> k \<and> has_own v j"
  by (auto simp: has_own_def jdelete_def image_iff split_beta) (metis fst_conv)

lemma has_own_jspread [simp]: "has_own (jspread a b) j \<longleftrightarrow> has_own a j \<or> has_own b j"
  by (simp add: has_own_def jspread_def keys_alist_merge)

lemma has_own_JObj [simp]: "has_own (JObj kvs) k \<longleftrightarrow> k \<in> fst ` set kvs"
  by (simp add: has_own_def)

lemma jget_not_own: "\<not> has_own v k \<Longrightarrow> jget v k = JUndef"
  by (auto simp: has_own_def jget_def split: option.splits dest!: map_of_SomeD) (force)

lemma jget_own_mem: "jget v k \<noteq> JUndef \<Longrightarrow> (k, jget v k) \<in> set (entries v)"
  by (auto simp: jget_def split: option.splits dest: map_of_SomeD)

lemma has_own_entry: "(k, x) \<in> set (entries v) \<Longrightarrow> has_own v k"
  by (force simp: has_own_def)

lemma entries_jset: "entries (jset v k x) = AList.update k x (entries v)"
  by (simp add: jset_def)

lemma set_clone_fields_keys: "fst ` set (clone_fields kvs) \<subseteq> fst ` set kvs"
proof (induction kvs)
  case (Cons p kvs)
  then show ?case
    by (cases p; cases "snd p") auto
qed simp

lemma table_get_own: "map_of tbl k = Some x \<Longrightarrow> table_get tbl k = x"
  by (simp add: table_get_def)

lemma jget_append: "jget (JObj (e @ f)) k = (if k \<in> fst ` set e then jget (JObj e) k else jget (JObj f) k)"
proof (cases "map_of e k")
  case None
  then have "k \<notin> fst ` set e" by (simp add: map_of_eq_None_iff)
  then show ?thesis using None by (simp add: jget_def map_add_def split: option.split)
next
  case (Some v)
  then have "k \<in> fst ` set e" by (metis map_of_eq_None_iff option.distinct(1))
  then show ?thesis using Some by (simp add: jget_def map_add_def split: option.split)
qed

section \<open>Reading updated and copied objects\<close>

lemma clone_field:
  "distinct (map fst kvs) \<Longrightarrow> jget (JObj (clone_fields kvs)) k =
     (case jget (JObj kvs) k of JUndef \<Rightarrow> JUndef | JHost _ \<Rightarrow> JUndef | v \<Rightarrow> deep_clone v)"
proof (induction kvs)
  case (Cons p kvs)
  obtain j v where p: "p = (j, v)" by (cases p)
  have "k \<notin> fst ` set kvs \<Longrightarrow> jget (JObj (clone_fields kvs)) k = JUndef"
    using set_clone_fields_keys[of kvs] by (intro jget_not_own) auto
  with Cons show ?case by (cases v) (auto simp: p)
qed simp

lemma jget_deep_clone:
  "v = JObj kvs \<Longrightarrow> distinct (map fst kvs) \<Longrightarrow> jget (deep_clone v) k =
     (case jget v k of JUndef \<Rightarrow> JUndef | JHost _ \<Rightarrow> JUndef | x \<Rightarrow> deep_clone x)"
  by (simp add: clone_field)

lemma distinct_clone_fields: "distinct (map fst kvs) \<Longrightarrow> distinct (map fst (clone_fields kvs))"
proof (induction kvs)
  case (Cons p kvs)
  then show ?case using set_clone_fields_keys[of kvs]
    by (cases p; cases "snd p") auto
qed simp

definition record_object :: "jsv \<Rightarrow> bool" where
  "record_object v = ((\<exists>kvs. v = JObj kvs) \<and> distinct (map fst (entries v)))"

lemma record_object_jset: "record_object v \<Longrightarrow> record_object (jset v k x)"
  by (auto simp: record_object_def jset_def AList.distinct_update)

lemma record_object_jwith: "record_object v \<Longrightarrow> record_object (jwith v kvs)"
  by (auto simp: record_object_def jwith_def jspread_def distinct_alist_merge)

lemma record_object_clone: "record_object v \<Longrightarrow> record_object (deep_clone v)"
  by (auto simp: record_object_def distinct_clone_fields)

lemma jget_clone:
  "record_object v \<Longrightarrow> jget (deep_clone v) k =
     (case jget v k of JUndef \<Rightarrow> JUndef | JHost _ \<Rightarrow> JUndef | x \<Rightarrow> deep_clone x)"
  by (auto simp: record_object_def intro: jget_deep_clone)

lemmas jsv_defs = jor_def jnullish_def jdefault_def is_nullish_def truthy_def strict_eq_def

end
