(* ===== verification/Clock.thy ===== *)
theory Clock
  imports JsValue
begin

text \<open>
  Instants and their ISO text: \<open>new Date(ms).toISOString()\<close>, \<open>Date.parse\<close> on the ISO forms the
  code writes, and the helpers \<open>dateMillis\<close>/\<open>isoTimestamp\<close> of \<open>workflows.ts\<close>. An instant is the
  integer number of milliseconds since 1970. The wall clock is an argument of the operations that
  read it; one operation reads one instant.
\<close>

section \<open>The proleptic Gregorian calendar, days counted from 1 March of year 0\<close>

definition shifted_year :: "int \<Rightarrow> int" where
  "shifted_year z = (let
     era = z div 146097; doe = z mod 146097;
     c = min 3 (doe div 36524); r = doe - 36524 * c;
     q = min 24 (r div 1461); r2 = r - 1461 * q;
     a = min 3 (r2 div 365)
   in 400 * era + 100 * c + 4 * q + a)"

definition year_start :: "int \<Rightarrow> int" where
  "year_start y = 365 * y + y div 4 - y div 100 + y div 400"

definition civil_of_days :: "int \<Rightarrow> int \<times> int \<times> int" where
  "civil_of_days d = (let
     z = d + 719468; y = shifted_year z; doy = z - year_start y;
     mp = (5 * doy + 2) div 153; day = doy - (153 * mp + 2) div 5 + 1;
     m = (if mp < 10 then mp + 3 else mp - 9)
   in (if m \<le> 2 then y + 1 else y, m, day))"

definition days_of_civil :: "int \<Rightarrow> int \<Rightarrow> int \<Rightarrow> int" where
  "days_of_civil y m day = (let
     y' = (if m \<le> 2 then y - 1 else y); mp = (if m > 2 then m - 3 else m + 9)
   in year_start y' + (153 * mp + 2) div 5 + (day - 1) - 719468)"

lemma year_start_split:
  assumes "0 \<le> c" "c \<le> 3" "0 \<le> q" "q \<le> 24" "0 \<le> a" "a \<le> 3"
  shows "year_start (400 * e + 100 * c + 4 * q + a) = 146097 * e + 36524 * c + 1461 * q + 365 * a"
proof -
  have "(400 * e + 100 * c + 4 * q + a) div 4 = 100 * e + 25 * c + q"
    by (rule int_div_pos_eq[where r = a]) (use assms in simp_all)
  moreover have "(400 * e + 100 * c + 4 * q + a) div 100 = 4 * e + c"
    by (rule int_div_pos_eq[where r = "4 * q + a"]) (use assms in simp_all)
  moreover have "(400 * e + 100 * c + 4 * q + a) div 400 = e"
    by (rule int_div_pos_eq[where r = "100 * c + 4 * q + a"]) (use assms in simp_all)
  ultimately
  show ?thesis by (simp add: year_start_def)
qed

lemma capped_division:
  fixes x n k :: int
  assumes "0 < n" "0 \<le> x" "0 \<le> k"
  shows "0 \<le> min k (x div n)" "min k (x div n) \<le> k" "0 \<le> x - n * min k (x div n)"
    "x - n * min k (x div n) \<le> max (n - 1) (x - n * k)"
proof -
  have x: "x = n * (x div n) + x mod n" by simp
  have m: "0 \<le> x mod n" "x mod n < n" using assms by simp_all
  show "0 \<le> min k (x div n)" "min k (x div n) \<le> k"
    using assms by (simp_all add: pos_imp_zdiv_nonneg_iff)
  show "0 \<le> x - n * min k (x div n)"
  proof -
    have "n * min k (x div n) \<le> n * (x div n)" using assms by (intro mult_left_mono) auto
    with x m show ?thesis by linarith
  qed
  show "x - n * min k (x div n) \<le> max (n - 1) (x - n * k)"
    using m minus_mult_div_eq_mod[of x n] by (cases "k \<le> x div n") (auto simp: min_def)
qed

lemma shifted_year_bounds:
  "0 \<le> z - year_start (shifted_year z) \<and> z - year_start (shifted_year z) \<le> 365"
proof -
  define e where "e = z div 146097"
  define doe where "doe = z mod 146097"
  define c where "c = min 3 (doe div 36524)"
  define r where "r = doe - 36524 * c"
  define q where "q = min 24 (r div 1461)"
  define r2 where "r2 = r - 1461 * q"
  define a where "a = min 3 (r2 div 365)"
  have z: "z = 146097 * e + doe" and doe: "0 \<le> doe" "doe \<le> 146096"
    by (simp_all add: e_def doe_def)
  have c: "0 \<le> c" "c \<le> 3" and r: "0 \<le> r" "r \<le> 36524"
    using capped_division[of 36524 doe 3] doe unfolding c_def[symmetric] r_def[symmetric] by simp_all
  have q: "0 \<le> q" "q \<le> 24" and r2: "0 \<le> r2" "r2 \<le> 1460"
    using capped_division[of 1461 r 24] r unfolding q_def[symmetric] r2_def[symmetric] by simp_all
  have a: "0 \<le> a" "a \<le> 3" and d: "0 \<le> r2 - 365 * a" "r2 - 365 * a \<le> 365"
    using capped_division[of 365 r2 3] r2 unfolding a_def[symmetric] by simp_all
  have "shifted_year z = 400 * e + 100 * c + 4 * q + a"
    unfolding shifted_year_def Let_def e_def doe_def c_def r_def q_def r2_def a_def by (rule refl)
  then have "z - year_start (shifted_year z) = r2 - 365 * a"
    using year_start_split[OF c q a, of e] by (simp add: z r2_def r_def)
  with d show ?thesis by simp
qed

lemma civil_of_days_parts:
  assumes "civil_of_days d = (y, m, day)"
  obtains Y doy mp where "year_start Y = d + 719468 - doy" "0 \<le> doy" "doy \<le> 365"
    "mp = (5 * doy + 2) div 153" "0 \<le> mp" "mp \<le> 11" "day = doy - (153 * mp + 2) div 5 + 1"
    "m = (if mp < 10 then mp + 3 else mp - 9)" "y = (if m \<le> 2 then Y + 1 else Y)"
proof -
  define Y where "Y = shifted_year (d + 719468)"
  define doy where "doy = d + 719468 - year_start Y"
  define mp where "mp = (5 * doy + 2) div 153"
  have doy: "0 \<le> doy" "doy \<le> 365"
    using shifted_year_bounds[of "d + 719468"] by (simp_all add: doy_def Y_def)
  then have mp: "0 \<le> mp" "mp \<le> 11" unfolding mp_def by linarith+
  have "day = doy - (153 * mp + 2) div 5 + 1" "m = (if mp < 10 then mp + 3 else mp - 9)"
    "y = (if m \<le> 2 then Y + 1 else Y)"
    using assms unfolding civil_of_days_def Let_def Y_def[symmetric] doy_def[symmetric] mp_def[symmetric]
    by auto
  moreover have "year_start Y = d + 719468 - doy" by (simp add: doy_def)
  ultimately show ?thesis using that doy mp mp_def by blast
qed

lemma civil_of_days_bounds:
  assumes "civil_of_days d = (y, m, day)"
  shows "1 \<le> m" "m \<le> 12" "1 \<le> day" "day \<le> 31"
proof -
  obtain Y doy mp where p: "mp = (5 * doy + 2) div 153" "0 \<le> mp" "mp \<le> 11"
    "day = doy - (153 * mp + 2) div 5 + 1" "m = (if mp < 10 then mp + 3 else mp - 9)"
    using civil_of_days_parts[OF assms] by metis
  from p(2,3) show "1 \<le> m" "m \<le> 12" by (auto simp: p(5))
  define k where "k = (153 * mp + 2) div 5"
  have k: "5 * k \<le> 153 * mp + 2" "153 * mp + 2 < 5 * k + 5" unfolding k_def by linarith+
  have "153 * mp \<le> 5 * doy + 2" "5 * doy + 2 < 153 * mp + 153" unfolding p(1) by linarith+
  with k have "k \<le> doy" "doy - k \<le> 30" by linarith+
  then show "1 \<le> day" "day \<le> 31" unfolding p(4) k_def[symmetric] by simp_all
qed

lemma days_of_civil_of_days:
  assumes "civil_of_days d = (y, m, day)"
  shows "days_of_civil y m day = d"
proof -
  obtain Y doy mp where p: "year_start Y = d + 719468 - doy" "0 \<le> mp" "mp \<le> 11"
    "day = doy - (153 * mp + 2) div 5 + 1" "m = (if mp < 10 then mp + 3 else mp - 9)"
    "y = (if m \<le> 2 then Y + 1 else Y)"
    using civil_of_days_parts[OF assms] by metis
  have "(if m \<le> 2 then y - 1 else y) = Y" by (simp add: p(6))
  moreover have "(if m > 2 then m - 3 else m + 9) = mp" using p(2,3) by (auto simp: p(5))
  ultimately have "days_of_civil y m day = year_start Y + (153 * mp + 2) div 5 + (day - 1) - 719468"
    unfolding days_of_civil_def Let_def by (simp only:)
  then show ?thesis by (simp add: p(1,4))
qed

section \<open>The ISO text of an instant\<close>

definition year_text :: "int \<Rightarrow> string" where
  "year_text y = (if 0 \<le> y \<and> y \<le> 9999 then pad_nat 4 (nat y)
     else (if y < 0 then ''-'' else ''+'') @ pad_nat 6 (nat \<bar>y\<bar>))"

definition iso :: "int \<Rightarrow> string" where
  "iso t = (let (y, m, d) = civil_of_days (t div 86400000); r = nat (t mod 86400000) in
     year_text y @ ''-'' @ pad_nat 2 (nat m) @ ''-'' @ pad_nat 2 (nat d) @ ''T'' @
     pad_nat 2 (r div 3600000) @ '':'' @ pad_nat 2 (r div 60000 mod 60) @ '':'' @
     pad_nat 2 (r div 1000 mod 60) @ ''.'' @ pad_nat 3 (r mod 1000) @ ''Z'')"

text \<open>The fields \<open>YYYY-MM-DD\<close>, \<open>HH:MM:SS\<close> and \<open>.mmm\<close>; the last two may be missing.\<close>

definition field :: "nat \<Rightarrow> nat \<Rightarrow> string \<Rightarrow> nat" where
  "field i n s = str_nat (take n (drop i s))"

definition at_char :: "nat \<Rightarrow> char \<Rightarrow> string \<Rightarrow> bool" where
  "at_char i c s = (take 1 (drop i s) = [c])"

definition digits_at :: "nat \<Rightarrow> nat \<Rightarrow> string \<Rightarrow> bool" where
  "digits_at i n s = list_all is_digit (take n (drop i s))"

definition date_part :: "string \<Rightarrow> int option" where
  "date_part s = (if digits_at 0 4 s \<and> at_char 4 CHR ''-'' s \<and> digits_at 5 2 s \<and>
       at_char 7 CHR ''-'' s \<and> digits_at 8 2 s \<and>
       1 \<le> field 5 2 s \<and> field 5 2 s \<le> 12 \<and> 1 \<le> field 8 2 s \<and> field 8 2 s \<le> 31
     then Some (days_of_civil (int (field 0 4 s)) (int (field 5 2 s)) (int (field 8 2 s)) * 86400000)
     else None)"

definition time_part :: "string \<Rightarrow> int option" where
  "time_part s = (if at_char 10 CHR ''T'' s \<and> digits_at 11 2 s \<and> at_char 13 CHR '':'' s \<and>
       digits_at 14 2 s \<and> at_char 16 CHR '':'' s \<and> digits_at 17 2 s \<and>
       field 11 2 s < 24 \<and> field 14 2 s < 60 \<and> field 17 2 s < 60
     then Some (int (field 11 2 s * 3600000 + field 14 2 s * 60000 + field 17 2 s * 1000))
     else None)"

text \<open>\<open>Date.parse\<close> on the forms \<open>2026-01-31\<close>, \<open>2026-01-31T10:20:30Z\<close> and
  \<open>2026-01-31T10:20:30.123Z\<close>; any other text reads as NaN (\<open>None\<close>).\<close>

definition date_parse :: "string \<Rightarrow> int option" where
  "date_parse s =
     (if length s = 10 then date_part s
      else if length s = 20 \<and> at_char 19 CHR ''Z'' s then
        (case (date_part s, time_part s) of (Some d, Some h) \<Rightarrow> Some (d + h) | _ \<Rightarrow> None)
      else if length s = 24 \<and> at_char 19 CHR ''.'' s \<and> digits_at 20 3 s \<and> at_char 23 CHR ''Z'' s then
        (case (date_part s, time_part s) of
           (Some d, Some h) \<Rightarrow> Some (d + h + int (field 20 3 s)) | _ \<Rightarrow> None)
      else None)"

lemma list_all_pad_nat [simp]: "list_all is_digit (pad_nat k n)"
  by (auto simp: list_all_iff dest: pad_nat_digits)

text \<open>The text of an instant of the years 0 to 9999 parses back to the instant.\<close>

lemma date_part_text:
  assumes "y < 10000" "1 \<le> m" "m \<le> 12" "1 \<le> d" "d \<le> 31"
  shows "date_part (pad_nat 4 y @ ''-'' @ pad_nat 2 m @ ''-'' @ pad_nat 2 d @ rest) =
    Some (days_of_civil (int y) (int m) (int d) * 86400000)"
proof -
  have "str_nat (pad_nat 4 y) = y" "str_nat (pad_nat 2 m) = m" "str_nat (pad_nat 2 d) = d"
    using assms by (auto intro!: str_nat_pad_nat)
  with assms show ?thesis
    by (simp add: date_part_def digits_at_def at_char_def field_def)
qed

lemma time_part_text:
  assumes "length day = 10" "h < 24" "mi < 60" "s < 60"
  shows "time_part (day @ ''T'' @ pad_nat 2 h @ '':'' @ pad_nat 2 mi @ '':'' @ pad_nat 2 s @ rest) =
    Some (int (h * 3600000 + mi * 60000 + s * 1000))"
proof -
  have "str_nat (pad_nat 2 h) = h" "str_nat (pad_nat 2 mi) = mi" "str_nat (pad_nat 2 s) = s"
    using assms by (auto intro!: str_nat_pad_nat)
  with assms show ?thesis
    by (simp add: time_part_def digits_at_def at_char_def field_def)
qed

lemma iso_fields:
  assumes "civil_of_days (t div 86400000) = (y, m, d)" and "0 \<le> y" "y \<le> 9999"
  shows "date_parse (iso t) = Some t"
proof -
  define r where "r = nat (t mod 86400000)"
  define h mi s ms where "h = r div 3600000" and "mi = r div 60000 mod 60"
    and "s = r div 1000 mod 60" and "ms = r mod 1000"
  have "r < 86400000" by (simp add: r_def nat_less_iff)
  then have bounds: "h < 24" "mi < 60" "s < 60" "ms < 1000"
    by (simp_all add: h_def mi_def s_def ms_def less_mult_imp_div_less)
  have sum: "h * 3600000 + mi * 60000 + s * 1000 + ms = r"
  proof -
    have "r = 1000 * (r div 1000) + ms" by (simp add: ms_def)
    moreover have "r div 1000 = 60 * (r div 60000) + s"
      by (simp add: s_def div_mult2_eq[of r 1000 60, simplified])
    moreover have "r div 60000 = 60 * h + mi"
      by (simp add: h_def mi_def div_mult2_eq[of r 60000 60, simplified])
    ultimately show ?thesis by linarith
  qed
  have md: "1 \<le> m" "m \<le> 12" "1 \<le> d" "d \<le> 31"
    using civil_of_days_bounds[OF assms(1)] by auto
  let ?day = "pad_nat 4 (nat y) @ ''-'' @ pad_nat 2 (nat m) @ ''-'' @ pad_nat 2 (nat d)"
  let ?tail = "''.'' @ pad_nat 3 ms @ ''Z''"
  have shape: "iso t = ?day @ ''T'' @ pad_nat 2 h @ '':'' @ pad_nat 2 mi @ '':'' @ pad_nat 2 s @ ?tail"
    using assms unfolding h_def mi_def s_def ms_def r_def by (simp add: iso_def year_text_def Let_def)
  have day: "date_part (iso t) = Some (t div 86400000 * 86400000)"
    using date_part_text[of "nat y" "nat m" "nat d"] assms md days_of_civil_of_days[OF assms(1)]
    unfolding shape by (simp add: nat_le_iff le_nat_iff)
  have time: "time_part (iso t) = Some (int (h * 3600000 + mi * 60000 + s * 1000))"
    unfolding shape by (rule time_part_text) (use bounds in simp_all)
  have ms: "length (iso t) = 24" "at_char 19 CHR ''.'' (iso t)" "digits_at 20 3 (iso t)"
    "at_char 23 CHR ''Z'' (iso t)" "field 20 3 (iso t) = ms"
    using str_nat_pad_nat[of ms 3] bounds(4)
    unfolding shape by (simp_all add: digits_at_def at_char_def field_def)
  have "date_parse (iso t) =
      Some (t div 86400000 * 86400000 + int (h * 3600000 + mi * 60000 + s * 1000) + int ms)"
    by (simp only: date_parse_def ms day time) simp
  also have "\<dots> = Some (t div 86400000 * 86400000 + int r)"
    using sum by (simp only: add.assoc flip: of_nat_add)
  also have "\<dots> = Some t" by (simp add: r_def)
  finally show ?thesis .
qed

definition max_instant :: int where
  "max_instant = 253402300799999"

lemma year_start_rough:
  "146097 * y - 700 \<le> 400 * year_start y" "400 * year_start y \<le> 146097 * y + 700"
  by (simp_all add: year_start_def)

lemma civil_year_range:
  assumes "0 \<le> d" "d \<le> 2932896" "civil_of_days d = (y, m, day)"
  shows "0 \<le> y" "y \<le> 9999"
proof -
  obtain Y doy mp where p: "year_start Y = d + 719468 - doy" "0 \<le> doy" "doy \<le> 365"
    "mp = (5 * doy + 2) div 153" "m = (if mp < 10 then mp + 3 else mp - 9)"
    "y = (if m \<le> 2 then Y + 1 else Y)"
    using civil_of_days_parts[OF assms(3)] by metis
  have Y: "0 \<le> Y" "Y \<le> 9999" using year_start_rough[of Y] p(1-3) assms(1,2) by linarith+
  moreover have "Y \<le> 9998" if "m \<le> 2"
  proof -
    have "10 \<le> mp" using that p(4) p(2) by (auto simp: p(5) split: if_splits)
    then have "306 \<le> doy" unfolding p(4) by linarith
    then have "Y \<noteq> 9999" using p(1) assms(2) by (auto simp: year_start_def)
    with Y show ?thesis by simp
  qed
  ultimately show "0 \<le> y" "y \<le> 9999" unfolding p(6) by (auto split: if_splits)
qed

lemma date_parse_iso:
  assumes "0 \<le> t" "t \<le> max_instant"
  shows "date_parse (iso t) = Some t"
proof -
  obtain y m d where c: "civil_of_days (t div 86400000) = (y, m, d)" by (metis prod_cases3)
  have "0 \<le> t div 86400000" "t div 86400000 \<le> 253402300799999 div 86400000"
    using assms by (auto simp: max_instant_def pos_imp_zdiv_nonneg_iff intro: zdiv_mono1)
  then have "0 \<le> t div 86400000" "t div 86400000 \<le> 2932896" by simp_all
  with c show ?thesis
    using iso_fields[OF c] civil_year_range[OF _ _ c] by blast
qed

lemma iso_inject:
  assumes "0 \<le> s" "s \<le> max_instant" "0 \<le> t" "t \<le> max_instant" "iso s = iso t"
  shows "s = t"
  using date_parse_iso[OF assms(1,2)] date_parse_iso[OF assms(3,4)] assms(5)
  by (metis option.inject)

section \<open>The helpers of workflows.ts\<close>

text \<open>\<open>new Date(n).toISOString()\<close> throws a \<open>RangeError\<close> beyond 8.64e15 ms and on NaN.\<close>

definition iso_of_num :: "jnum \<Rightarrow> string res" where
  "iso_of_num n = (case n of
      Fin q \<Rightarrow> (if \<bar>q\<bar> \<le> 8640000000000000
                then Inr (iso (if 0 \<le> q then \<lfloor>q\<rfloor> else - \<lfloor>- q\<rfloor>))
                else js_throw ''Invalid time value'')
    | _ \<Rightarrow> js_throw ''Invalid time value'')"

definition dateMillis :: "jsv \<Rightarrow> jnum" where
  "dateMillis v = (case v of
      JNum n \<Rightarrow> n
    | _ \<Rightarrow> (case date_parse (to_str v) of Some t \<Rightarrow> Fin (of_int t) | None \<Rightarrow> Fin 0))"

definition isoTimestamp :: "jsv \<Rightarrow> string res" where
  "isoTimestamp v = iso_of_num (dateMillis v)"

lemma dateMillis_num [simp]: "dateMillis (JNum n) = n"
  by (simp add: dateMillis_def)

lemma dateMillis_iso: "0 \<le> t \<Longrightarrow> t \<le> max_instant \<Longrightarrow> dateMillis (JStr (iso t)) = Fin (of_int t)"
  by (simp add: dateMillis_def date_parse_iso)

lemma iso_of_num_int: "0 \<le> t \<Longrightarrow> t \<le> max_instant \<Longrightarrow> iso_of_num (Fin (of_int t)) = Inr (iso t)"
proof -
  assume "0 \<le> t" "t \<le> max_instant"
  then have "t \<le> 8640000000000000" by (simp add: max_instant_def)
  then have "(of_int t :: rat) \<le> of_int 8640000000000000" by (simp only: of_int_le_iff)
  with \<open>0 \<le> t\<close> show ?thesis by (simp add: iso_of_num_def)
qed

lemma isoTimestamp_int: "0 \<le> t \<Longrightarrow> t \<le> max_instant \<Longrightarrow> isoTimestamp (jint t) = Inr (iso t)"
  by (simp add: isoTimestamp_def iso_of_num_int)

lemma isoTimestamp_iso: "0 \<le> t \<Longrightarrow> t \<le> max_instant \<Longrightarrow> isoTimestamp (JStr (iso t)) = Inr (iso t)"
  by (simp add: isoTimestamp_def dateMillis_iso iso_of_num_int)

end
