(* ===== verification/Regex.thy ===== *)
theory Regex
  imports JsPrelude
begin

text \<open>
  The regular expressions of the code, with the backtracking semantics of JavaScript: a matcher
  returns its successes in the order the engine tries them, greedy before lazy and left before
  right, and a search takes the first success at the leftmost position.
  A state is the text before the position (reversed), the text after it, and the groups
  captured so far.
\<close>

datatype rx =
  REps
| RCls "char \<Rightarrow> bool"
| RSeq rx rx
| RAlt rx rx
| RStar rx
| RLazy rx
| RGrp nat rx
| RBol
| REol
| RWordB

type_synonym rx_state = "string \<times> string \<times> (nat \<times> string) list"

definition at_word_boundary :: "string \<Rightarrow> string \<Rightarrow> bool" where
  "at_word_boundary pre post =
     ((pre \<noteq> [] \<and> is_word (hd pre)) \<noteq> (post \<noteq> [] \<and> is_word (hd post)))"

definition shorter :: "string \<Rightarrow> rx_state \<Rightarrow> bool" where
  "shorter q st = (length (fst (snd st)) < length q)"

function rmatch :: "rx \<Rightarrow> rx_state \<Rightarrow> rx_state list" where
  "rmatch REps st = [st]"
| "rmatch (RCls P) (p, q, g) =
     (case q of [] \<Rightarrow> [] | c # cs \<Rightarrow> if P c then [(c # p, cs, g)] else [])"
| "rmatch (RSeq a b) st = concat (map (rmatch b) (rmatch a st))"
| "rmatch (RAlt a b) st = rmatch a st @ rmatch b st"
| "rmatch (RStar r) (p, q, g) =
     concat (map (rmatch (RStar r)) (filter (shorter q) (rmatch r (p, q, g)))) @ [(p, q, g)]"
| "rmatch (RLazy r) (p, q, g) =
     (p, q, g) # concat (map (rmatch (RLazy r)) (filter (shorter q) (rmatch r (p, q, g))))"
| "rmatch (RGrp n r) (p, q, g) =
     map (\<lambda>(p', q', g'). (p', q', (n, rev (take (length p' - length p) p')) # g')) (rmatch r (p, q, g))"
| "rmatch RBol (p, q, g) = (if p = [] then [(p, q, g)] else [])"
| "rmatch REol (p, q, g) = (if q = [] then [(p, q, g)] else [])"
| "rmatch RWordB (p, q, g) = (if at_word_boundary p q then [(p, q, g)] else [])"
  by pat_completeness auto
termination
  by (relation "(\<lambda>(r, st). size r) <*mlex*> measure (\<lambda>(r, st). length (fst (snd st)))")
    (auto intro: wf_mlex mlex_less mlex_leq simp: shorter_def)

text \<open>The two iterations unfold without end on a symbolic text, so they are no simplification rules.\<close>

declare rmatch.simps(5,6) [simp del]

section \<open>Searching and replacing\<close>

fun rsearch :: "rx \<Rightarrow> string \<Rightarrow> string \<Rightarrow> (string \<times> rx_state) option" where
  "rsearch r p [] = (case rmatch r (p, [], []) of [] \<Rightarrow> None | m # _ \<Rightarrow> Some (p, m))"
| "rsearch r p (c # cs) =
     (case rmatch r (p, c # cs, []) of
        m # _ \<Rightarrow> Some (p, m)
      | [] \<Rightarrow> rsearch r (c # p) cs)"

text \<open>\<open>re.test(s)\<close>\<close>

definition rtest :: "rx \<Rightarrow> string \<Rightarrow> bool" where
  "rtest r s = (rsearch r [] s \<noteq> None)"

text \<open>\<open>s.match(re)\<close>: the groups of the first match, group 0 the whole match.\<close>

definition rexec :: "rx \<Rightarrow> string \<Rightarrow> (nat \<times> string) list option" where
  "rexec r s = (case rsearch r [] s of
      None \<Rightarrow> None
    | Some (p0, (p, q, g)) \<Rightarrow> Some ((0, rev (take (length p - length p0) p)) # g))"

definition rgroup :: "(nat \<times> string) list \<Rightarrow> nat \<Rightarrow> string" where
  "rgroup g n = (case map_of g n of Some s \<Rightarrow> s | None \<Rightarrow> [])"

text \<open>\<open>s.replace(re, f)\<close> without and with the flag \<open>g\<close>; the replacement reads the groups.\<close>

definition rreplace1 :: "rx \<Rightarrow> ((nat \<times> string) list \<Rightarrow> string) \<Rightarrow> string \<Rightarrow> string" where
  "rreplace1 r f s = (case rsearch r [] s of
      None \<Rightarrow> s
    | Some (p0, (p, q, g)) \<Rightarrow>
        rev p0 @ f ((0, rev (take (length p - length p0) p)) # g) @ q)"

fun rreplace_from :: "nat \<Rightarrow> rx \<Rightarrow> ((nat \<times> string) list \<Rightarrow> string) \<Rightarrow> string \<Rightarrow> string \<Rightarrow> string" where
  "rreplace_from 0 r f p s = s"
| "rreplace_from (Suc n) r f p s = (case rsearch r p s of
      None \<Rightarrow> s
    | Some (p0, (p1, q, g)) \<Rightarrow>
        rev (take (length p0 - length p) p0) @ f ((0, rev (take (length p1 - length p0) p1)) # g) @
        (if length p1 = length p0
         then (case q of [] \<Rightarrow> [] | c # cs \<Rightarrow> c # rreplace_from n r f (c # p1) cs)
         else rreplace_from n r f p1 q))"

text \<open>Every round consumes a character, so one more than the length is enough fuel.\<close>

definition rreplace :: "rx \<Rightarrow> ((nat \<times> string) list \<Rightarrow> string) \<Rightarrow> string \<Rightarrow> string" where
  "rreplace r f s = rreplace_from (Suc (length s)) r f [] s"

section \<open>Building expressions\<close>

definition RPlus :: "rx \<Rightarrow> rx" where
  "RPlus r = RSeq r (RStar r)"

definition RLazyPlus :: "rx \<Rightarrow> rx" where
  "RLazyPlus r = RSeq r (RLazy r)"

definition ROpt :: "rx \<Rightarrow> rx" where
  "ROpt r = RAlt r REps"

definition RChr :: "char \<Rightarrow> rx" where
  "RChr c = RCls (\<lambda>d. d = c)"

text \<open>A literal string, as written and under the flag \<open>i\<close>.\<close>

definition RLit :: "string \<Rightarrow> rx" where
  "RLit s = foldr (\<lambda>c. RSeq (RChr c)) s REps"

definition RLitI :: "string \<Rightarrow> rx" where
  "RLitI s = foldr (\<lambda>c. RSeq (RCls (\<lambda>d. lower_char d = lower_char c))) s REps"

definition RAlts :: "rx list \<Rightarrow> rx" where
  "RAlts rs = foldr RAlt rs (RCls (\<lambda>_. False))"

definition RSeqs :: "rx list \<Rightarrow> rx" where
  "RSeqs rs = foldr RSeq rs REps"

definition ROneOf :: "string \<Rightarrow> rx" where
  "ROneOf s = RCls (\<lambda>c. c \<in> set s)"

definition RNoneOf :: "string \<Rightarrow> rx" where
  "RNoneOf s = RCls (\<lambda>c. c \<notin> set s)"

definition RSpace :: rx where
  "RSpace = RCls is_space"

lemmas rx_build = RPlus_def RLazyPlus_def ROpt_def RChr_def RLit_def RLitI_def RAlts_def RSeqs_def
  ROneOf_def RNoneOf_def RSpace_def

section \<open>Matching one run of a class\<close>

lemma rmatch_star_cls:
  "\<exists>rest. rmatch (RStar (RCls P)) (p, q, g) =
     (rev (takeWhile P q) @ p, dropWhile P q, g) # rest"
proof (induction q arbitrary: p)
  case (Cons c cs)
  show ?case
  proof (cases "P c")
    case True
    from Cons.IH[of "c # p"] obtain rest where
      "rmatch (RStar (RCls P)) (c # p, cs, g) =
         (rev (takeWhile P cs) @ c # p, dropWhile P cs, g) # rest"
      by blast
    with True show ?thesis
      by (simp add: rmatch.simps(5)[of _ p] shorter_def)
  qed (simp add: rmatch.simps(5) shorter_def)
qed (simp add: rmatch.simps(5) shorter_def)

lemma rmatch_plus_cls:
  "rmatch (RPlus (RCls P)) (p, q, g) =
     (case q of [] \<Rightarrow> []
      | c # cs \<Rightarrow> if P c then rmatch (RStar (RCls P)) (c # p, cs, g) else [])"
  by (simp add: RPlus_def split: list.splits)

lemma rmatch_plus_cls_Cons:
  assumes "P c"
  shows "\<exists>rest. rmatch (RPlus (RCls P)) (p, c # cs, g) =
     (rev (takeWhile P (c # cs)) @ p, dropWhile P (c # cs), g) # rest"
  using rmatch_star_cls[of P "c # p" cs g] assms by (simp add: rmatch_plus_cls)

text \<open>Where a run of the class starts, and what replacing every run by a word computes.\<close>

lemma rsearch_plus_cls:
  "rsearch (RPlus (RCls P)) p s =
     (case dropWhile (\<lambda>c. \<not> P c) s of
        [] \<Rightarrow> None
      | c # cs \<Rightarrow> Some (rev (takeWhile (\<lambda>c. \<not> P c) s) @ p,
          (rev (takeWhile P (c # cs)) @ rev (takeWhile (\<lambda>c. \<not> P c) s) @ p, dropWhile P (c # cs), [])))"
proof (induction s arbitrary: p)
  case Nil
  then show ?case by (simp add: rmatch_plus_cls)
next
  case (Cons c cs)
  show ?case
  proof (cases "P c")
    case True
    with rmatch_plus_cls_Cons[of P c p cs "[]"] show ?thesis
      by auto
  next
    case False
    with Cons.IH show ?thesis
      by (simp add: rmatch_plus_cls cong: list.case_cong)
  qed
qed

fun replace_runs :: "(char \<Rightarrow> bool) \<Rightarrow> string \<Rightarrow> bool \<Rightarrow> string \<Rightarrow> string" where
  "replace_runs P w inside [] = []"
| "replace_runs P w inside (c # cs) =
     (if P c then (if inside then [] else w) @ replace_runs P w True cs
      else c # replace_runs P w False cs)"

lemma replace_runs_skip:
  "replace_runs P w True s = replace_runs P w False (dropWhile P s)"
  by (induction s) auto

lemma replace_runs_keep:
  "replace_runs P w False s =
     takeWhile (\<lambda>c. \<not> P c) s @ replace_runs P w False (dropWhile (\<lambda>c. \<not> P c) s)"
  by (induction s) auto

lemma rreplace_from_plus_cls:
  "length s < n \<Longrightarrow>
   rreplace_from n (RPlus (RCls P)) (\<lambda>_. w) p s = replace_runs P w False s"
proof (induction n arbitrary: p s)
  case (Suc n)
  let ?k = "takeWhile (\<lambda>c. \<not> P c) s" and ?d = "dropWhile (\<lambda>c. \<not> P c) s"
  show ?case
  proof (cases ?d)
    case Nil
    then have "\<forall>c \<in> set s. \<not> P c"
      by (simp add: dropWhile_eq_Nil_conv)
    then have "replace_runs P w False s = s"
      by (induction s) auto
    then show ?thesis
      by (subst rreplace_from.simps, subst rsearch_plus_cls) (simp only: Nil list.case option.case)
  next
    case (Cons c cs)
    then have P: "P c"
      by (metis dropWhile_eq_Cons_conv)
    have len: "length (dropWhile P cs) < n"
    proof -
      have "length (dropWhile P cs) \<le> length cs" by (rule length_dropWhile_le)
      also have "length cs < length ?d" using Cons by simp
      also have "\<dots> \<le> length s" by (rule length_dropWhile_le)
      finally show ?thesis using Suc.prems by simp
    qed
    have "replace_runs P w False s = ?k @ w @ replace_runs P w False (dropWhile P cs)"
      by (subst replace_runs_keep) (simp add: Cons P replace_runs_skip)
    with Cons P Suc.IH[OF len] show ?thesis
      by (simp add: rsearch_plus_cls)
  qed
qed simp

text \<open>\<open>s.replace(/[class]+/g, w)\<close> replaces every maximal run of the class by \<open>w\<close>.\<close>

theorem rreplace_plus_cls:
  "rreplace (RPlus (RCls P)) (\<lambda>_. w) s = replace_runs P w False s"
  unfolding rreplace_def by (rule rreplace_from_plus_cls) simp

lemma set_replace_runs: "set (replace_runs P w b s) \<subseteq> {c \<in> set s. \<not> P c} \<union> set w"
  by (induction s arbitrary: b) auto

lemma replace_runs_id: "\<forall>c \<in> set s. \<not> P c \<Longrightarrow> replace_runs P w b s = s"
  by (induction s arbitrary: b) auto

section \<open>Trimming and whole-string tests of one class\<close>

lemma rsearch_bol:
  assumes "\<And>p q g. p \<noteq> [] \<Longrightarrow> rmatch r (p, q, g) = []"
  shows "rsearch r [] s = (case rmatch r ([], s, []) of [] \<Rightarrow> None | m # _ \<Rightarrow> Some ([], m))"
proof -
  have later: "p \<noteq> [] \<Longrightarrow> rsearch r p q = None" for p q
    by (induction q arbitrary: p) (simp_all add: assms)
  show ?thesis
    by (cases s) (auto simp: later split: list.splits)
qed

lemma rmatch_bol_seq: "p \<noteq> [] \<Longrightarrow> rmatch (RSeq RBol r) (p, q, g) = []"
  by simp

lemma rtest_bol: "rtest (RSeq RBol r) s \<longleftrightarrow> rmatch r ([], s, []) \<noteq> []"
  by (subst rtest_def, subst rsearch_bol) (auto split: list.splits)

lemma rmatch_star_cls_set:
  "set (rmatch (RStar (RCls P)) (p, q, g)) =
     {(rev u @ p, v, g) | u v. q = u @ v \<and> list_all P u}"
proof (induction q arbitrary: p)
  case Nil
  then show ?case by (auto simp: rmatch.simps(5) shorter_def)
next
  case (Cons c cs)
  have split: "{(rev u @ p, v, g) | u v. c # cs = u @ v \<and> list_all P u} =
      insert (p, c # cs, g)
        (if P c then {(rev u @ c # p, v, g) | u v. cs = u @ v \<and> list_all P u} else {})"
    (is "?A = ?B")
  proof (rule set_eqI, rule iffI)
    fix x
    assume "x \<in> ?A"
    then obtain u v where "x = (rev u @ p, v, g)" "c # cs = u @ v" "list_all P u" by blast
    then show "x \<in> ?B" by (cases u) auto
  next
    fix x
    assume "x \<in> ?B"
    then consider "x = (p, c # cs, g)"
      | u v where "P c" "x = (rev u @ c # p, v, g)" "cs = u @ v" "list_all P u"
      by (auto split: if_splits)
    then show "x \<in> ?A"
    proof cases
      case 1
      then have "x = (rev [] @ p, c # cs, g) \<and> c # cs = [] @ c # cs \<and> list_all P []" by simp
      then show ?thesis by blast
    next
      case 2
      then have "x = (rev (c # u) @ p, v, g) \<and> c # cs = (c # u) @ v \<and> list_all P (c # u)" by simp
      then show ?thesis by blast
    qed
  qed
  show ?case
    unfolding split
    by (subst rmatch.simps(5)) (simp add: shorter_def Cons.IH insert_commute)
qed

lemma rmatch_cls_star_eol:
  "rmatch (RSeq (RStar (RCls P)) REol) ([], q, []) \<noteq> [] \<longleftrightarrow> list_all P q"
proof -
  have "rmatch (RSeq (RStar (RCls P)) REol) ([], q, []) \<noteq> [] \<longleftrightarrow>
      (\<exists>st \<in> set (rmatch (RStar (RCls P)) ([], q, [])). rmatch REol st \<noteq> [])"
    by (auto simp: concat_eq_Nil_conv)
  also have "\<dots> \<longleftrightarrow> list_all P q"
    by (auto simp: rmatch_star_cls_set split: if_splits)
  finally show ?thesis .
qed

section \<open>Replacing the runs at both ends\<close>

definition trim_both :: "(char \<Rightarrow> bool) \<Rightarrow> string \<Rightarrow> string" where
  "trim_both P s = rev (dropWhile P (rev (dropWhile P s)))"

text \<open>\<open>s.replace(/^[class]+|[class]+$/g, '')\<close>\<close>

definition RTrim :: "(char \<Rightarrow> bool) \<Rightarrow> rx" where
  "RTrim P = RAlt (RSeq RBol (RPlus (RCls P))) (RSeq (RPlus (RCls P)) REol)"

lemma rmatch_star_cls_step:
  "rmatch (RStar (RCls P)) (p, q, g) =
     (case q of [] \<Rightarrow> [] | c # cs \<Rightarrow> if P c then rmatch (RStar (RCls P)) (c # p, cs, g) else [])
     @ [(p, q, g)]"
  by (subst rmatch.simps(5)) (simp add: shorter_def split: list.splits)

lemma rmatch_star_eol:
  "concat (map (rmatch REol) (rmatch (RStar (RCls P)) (p, q, g))) =
     (if list_all P q then [(rev q @ p, [], g)] else [])"
proof (induction q arbitrary: p)
  case Nil
  show ?case by (subst rmatch_star_cls_step) simp
next
  case (Cons c cs)
  show ?case
    by (subst rmatch_star_cls_step, cases "P c")
      (simp_all only: list.case if_True if_False map_append concat_append Cons.IH, simp_all)
qed

lemma rmatch_plus_eol:
  "rmatch (RSeq (RPlus (RCls P)) REol) (p, q, g) =
     (if q \<noteq> [] \<and> list_all P q then [(rev q @ p, [], g)] else [])"
proof (cases q)
  case (Cons c cs)
  then show ?thesis
    by (cases "P c") (simp_all only: rmatch.simps(3) rmatch_plus_cls list.case if_True if_False rmatch_star_eol,
        simp_all)
qed (simp add: rmatch_plus_cls)

lemma rmatch_trim_later:
  "p \<noteq> [] \<Longrightarrow> rmatch (RTrim P) (p, q, g) =
     (if q \<noteq> [] \<and> list_all P q then [(rev q @ p, [], g)] else [])"
  by (simp only: RTrim_def rmatch.simps(4) rmatch_plus_eol) simp

lemma rsearch_trim_later:
  "p \<noteq> [] \<Longrightarrow> rsearch (RTrim P) p s =
     (if s \<noteq> [] \<and> P (last s)
      then Some (dropWhile P (rev s) @ p, (rev s @ p, [], [])) else None)"
proof (induction s arbitrary: p)
  case Nil
  then show ?case by (simp add: rmatch_trim_later)
next
  case (Cons c cs)
  have drop: "list_all P (c # cs) \<Longrightarrow> dropWhile P (rev (c # cs)) = []"
    by (simp add: list_all_iff)
  have keep: "\<not> list_all P (c # cs) \<Longrightarrow> dropWhile P (rev (c # cs)) = dropWhile P (rev cs) @ [c]"
    by (auto simp: list_all_iff dropWhile_append)
  show ?case
  proof (cases "list_all P (c # cs)")
    case True
    then have "P (last (c # cs))" by (metis last_in_set list.discI list_all_iff)
    with True Cons.prems drop[OF True] show ?thesis
      by (simp add: rmatch_trim_later)
  next
    case False
    then have "cs = [] \<Longrightarrow> \<not> P c" by simp
    with False Cons keep[OF False] show ?thesis
      by (auto simp: rmatch_trim_later)
  qed
qed

lemma rreplace_trim_later:
  assumes "p \<noteq> []" "0 < n"
  shows "rreplace_from n (RTrim P) (\<lambda>_. []) p s = rev (dropWhile P (rev s))"
proof -
  obtain k where n: "n = Suc k" using assms(2) by (cases n) auto
  show ?thesis
  proof (cases "s \<noteq> [] \<and> P (last s)")
    case True
    then obtain c cs where s: "rev s = c # cs" "P c"
      by (metis hd_rev list.exhaust list.sel(1) rev_is_Nil_conv)
    let ?d = "dropWhile P (rev s)"
    have "length ?d \<le> length cs" using s by (simp add: length_dropWhile_le)
    then have "length (?d @ p) \<noteq> length (rev s @ p)" using s(1) by (simp del: length_rev)
    moreover have "rreplace_from k (RTrim P) (\<lambda>_. []) (rev s @ p) [] = []"
      using assms by (cases k) (simp_all add: rsearch_trim_later rmatch_trim_later)
    ultimately show ?thesis
      using True assms by (simp add: n rsearch_trim_later)
  next
    case False
    then have "dropWhile P (rev s) = rev s"
      by (cases s rule: rev_cases) auto
    with False assms show ?thesis
      by (simp add: n rsearch_trim_later)
  qed
qed

theorem rreplace_trim: "rreplace (RTrim P) (\<lambda>_. []) s = trim_both P s"
proof (cases s)
  case Nil
  then show ?thesis
    by (simp add: rreplace_def RTrim_def rmatch_plus_cls rmatch_plus_eol trim_both_def
       )
next
  case (Cons c cs)
  show ?thesis
  proof (cases "P c")
    case True
    let ?run = "rev (takeWhile P s)"
    obtain rest where "rmatch (RPlus (RCls P)) ([], s, []) = (?run, dropWhile P s, []) # rest"
      using rmatch_plus_cls_Cons[of P c "[]" cs "[]"] True Cons by auto
    then have "\<exists>rest'. rmatch (RTrim P) ([], s, []) = (?run, dropWhile P s, []) # rest'"
      by (simp add: RTrim_def)
    then have found: "rsearch (RTrim P) [] s = Some ([], (?run, dropWhile P s, []))"
      by (auto simp: Cons simp del: takeWhile.simps dropWhile.simps)
    have run: "?run \<noteq> []" using True Cons by simp
    have "rreplace (RTrim P) (\<lambda>_. []) s =
        rreplace_from (length s) (RTrim P) (\<lambda>_. []) ?run (dropWhile P s)"
      using run by (simp add: rreplace_def found)
    also have "\<dots> = trim_both P s"
      using rreplace_trim_later[OF run, of "length s"] Cons by (simp add: trim_both_def)
    finally show ?thesis .
  next
    case False
    then have none: "rmatch (RTrim P) ([], s, []) = []"
      using Cons by (simp add: RTrim_def rmatch_plus_cls rmatch_plus_eol)
    then have here: "rsearch (RTrim P) [] s = rsearch (RTrim P) [c] cs"
      by (simp add: Cons)
    have "0 < length s" by (simp add: Cons)
    have "rreplace (RTrim P) (\<lambda>_. []) s = c # rev (dropWhile P (rev cs))"
    proof (cases "cs \<noteq> [] \<and> P (last cs)")
      case True
      then show ?thesis
        using rreplace_trim_later[of "rev cs @ [c]" "length s" P "[]"] \<open>0 < length s\<close>
        unfolding rreplace_def
        by (subst rreplace_from.simps(2)) (simp add: here rsearch_trim_later del: rreplace_from.simps)
    next
      case last: False
      then have "rsearch (RTrim P) [] s = None"
        by (auto simp: here rsearch_trim_later)
      moreover have "dropWhile P (rev cs) = rev cs"
        using last by (cases cs rule: rev_cases) auto
      ultimately show ?thesis
        unfolding rreplace_def by (subst rreplace_from.simps(2)) (simp add: Cons)
    qed
    also have "\<dots> = trim_both P s"
      using False by (cases "list_all P cs") (auto simp: trim_both_def Cons dropWhile_append list_all_iff)
    finally show ?thesis .
  qed
qed

lemma dropWhile_hd: "\<not> P (hd s) \<Longrightarrow> dropWhile P s = s"
  by (cases s) auto

lemma str_trim_trim_both: "str_trim s = trim_both is_space s"
  by (simp add: str_trim_def trim_both_def)

lemma set_trim_both: "set (trim_both P s) \<subseteq> set s"
  unfolding trim_both_def by (metis set_dropWhileD set_rev subsetI)

lemma trim_both_hd: "trim_both P s \<noteq> [] \<Longrightarrow> \<not> P (hd (trim_both P s))"
  by (metis trim_both_def dropWhile_rev_dropWhile hd_dropWhile)

lemma trim_both_last: "trim_both P s \<noteq> [] \<Longrightarrow> \<not> P (last (trim_both P s))"
  unfolding trim_both_def by (metis hd_dropWhile last_rev rev_is_Nil_conv)

lemma trim_both_id:
  "s \<noteq> [] \<Longrightarrow> \<not> P (hd s) \<Longrightarrow> \<not> P (last s) \<Longrightarrow> trim_both P s = s"
  by (simp add: trim_both_def dropWhile_hd hd_rev)

lemma trim_both_Nil [simp]: "trim_both P [] = []"
  by (simp add: trim_both_def)

section \<open>Soundness of the matcher\<close>

text \<open>A success consumes a prefix of the text and moves it, reversed, before the position.\<close>

lemma star_success:
  assumes "m \<in> set (rmatch R (p, q, g))" "R = RStar r \<or> R = RLazy r" "m \<noteq> (p, q, g)"
  shows "\<exists>p1 q1 g1. (p1, q1, g1) \<in> set (rmatch r (p, q, g)) \<and> shorter q (p1, q1, g1) \<and>
     m \<in> set (rmatch R (p1, q1, g1))"
proof -
  have "m \<in> set (concat (map (rmatch R) (filter (shorter q) (rmatch r (p, q, g)))))"
    using assms by (elim disjE) (simp_all add: rmatch.simps(5,6)[of r p q g])
  then have "\<exists>st \<in> set (rmatch r (p, q, g)). shorter q st \<and> m \<in> set (rmatch R st)"
    by auto
  then show ?thesis by (metis prod_cases3)
qed

lemma rmatch_consumes:
  "(p', q', g') \<in> set (rmatch r (p, q, g)) \<Longrightarrow> \<exists>u. q = u @ q' \<and> p' = rev u @ p"
proof (induction r "(p, q, g)" arbitrary: p q g p' q' g' rule: rmatch.induct)
  case (3 a b p q g)
  then obtain p1 q1 g1 where st: "(p1, q1, g1) \<in> set (rmatch a (p, q, g))"
    "(p', q', g') \<in> set (rmatch b (p1, q1, g1))" by auto
  obtain u where "q = u @ q1" "p1 = rev u @ p" using 3(1)[OF st(1)] by blast
  moreover obtain v where "q1 = v @ q'" "p' = rev v @ p1" using 3(2)[OF st] by blast
  ultimately have "q = (u @ v) @ q' \<and> p' = rev (u @ v) @ p" by simp
  then show ?case by blast
next
  case (5 r p q g)
  then show ?case
  proof (cases "(p', q', g') = (p, q, g)")
    case False
    obtain p1 q1 g1 where st: "(p1, q1, g1) \<in> set (rmatch r (p, q, g))" "shorter q (p1, q1, g1)"
      "(p', q', g') \<in> set (rmatch (RStar r) (p1, q1, g1))"
      using star_success[OF 5(3) _ False, of r] by blast
    obtain u where "q = u @ q1" "p1 = rev u @ p" using 5(1)[OF st(1)] by blast
    moreover obtain v where "q1 = v @ q'" "p' = rev v @ p1"
      using 5(2)[OF _ st(3)] st(1,2) by auto
    ultimately have "q = (u @ v) @ q' \<and> p' = rev (u @ v) @ p" by simp
    then show ?thesis by blast
  qed simp
next
  case (6 r p q g)
  then show ?case
  proof (cases "(p', q', g') = (p, q, g)")
    case False
    obtain p1 q1 g1 where st: "(p1, q1, g1) \<in> set (rmatch r (p, q, g))" "shorter q (p1, q1, g1)"
      "(p', q', g') \<in> set (rmatch (RLazy r) (p1, q1, g1))"
      using star_success[OF 6(3) _ False, of r] by blast
    obtain u where "q = u @ q1" "p1 = rev u @ p" using 6(1)[OF st(1)] by blast
    moreover obtain v where "q1 = v @ q'" "p' = rev v @ p1"
      using 6(2)[OF _ st(3)] st(1,2) by auto
    ultimately have "q = (u @ v) @ q' \<and> p' = rev (u @ v) @ p" by simp
    then show ?thesis by blast
  qed simp
qed (auto split: list.splits if_splits)

lemma rsearch_consumes:
  "rsearch r p s = Some (p0, (p1, q, g)) \<Longrightarrow>
   \<exists>u v. s = u @ v @ q \<and> p0 = rev u @ p \<and> p1 = rev v @ p0 \<and> (p1, q, g) \<in> set (rmatch r (p0, v @ q, []))"
proof (induction s arbitrary: p)
  case Nil
  then have "(p1, q, g) \<in> set (rmatch r (p, [], []))" "p0 = p" by (auto split: list.splits)
  moreover from rmatch_consumes[OF this(1)] have "q = []" "p1 = p" by auto
  ultimately show ?case by auto
next
  case (Cons c cs)
  show ?case
  proof (cases "rmatch r (p, c # cs, [])")
    case Nil
    with Cons.prems have "rsearch r (c # p) cs = Some (p0, (p1, q, g))" by simp
    from Cons.IH[OF this] obtain u v where "cs = u @ v @ q" "p0 = rev u @ c # p" "p1 = rev v @ p0"
      "(p1, q, g) \<in> set (rmatch r (p0, v @ q, []))" by blast
    then have "c # cs = (c # u) @ v @ q \<and> p0 = rev (c # u) @ p \<and> p1 = rev v @ p0 \<and>
        (p1, q, g) \<in> set (rmatch r (p0, v @ q, []))" by simp
    then show ?thesis by blast
  next
    case (Cons m ms)
    with Cons.prems have m: "(p1, q, g) \<in> set (rmatch r (p, c # cs, []))" "p0 = p" by auto
    from rmatch_consumes[OF m(1)] obtain v where "c # cs = v @ q" "p1 = rev v @ p" by blast
    with m have "c # cs = [] @ v @ q \<and> p0 = rev [] @ p \<and> p1 = rev v @ p0 \<and>
        (p1, q, g) \<in> set (rmatch r (p0, v @ q, []))" by simp
    then show ?thesis by blast
  qed
qed

text \<open>Deleting the first match leaves the text as it is or shortens it.\<close>

lemma rreplace1_delete_length:
  "rreplace1 r (\<lambda>_. []) s = s \<or> length (rreplace1 r (\<lambda>_. []) s) < length s"
proof (cases "rsearch r [] s")
  case (Some m)
  obtain p0 p1 q g where m: "m = (p0, (p1, q, g))" by (cases m) auto
  from rsearch_consumes[OF Some[unfolded m]] obtain u v where "s = u @ v @ q" "p0 = rev u" by auto
  then show ?thesis using Some m by (cases v) (auto simp: rreplace1_def)
qed (simp add: rreplace1_def)

lemma set_rreplace1_delete: "set (rreplace1 r (\<lambda>_. []) s) \<subseteq> set s"
proof (cases "rsearch r [] s")
  case (Some m)
  obtain p0 p1 q g where m: "m = (p0, (p1, q, g))" by (cases m) auto
  from rsearch_consumes[OF Some[unfolded m]] show ?thesis using Some m by (auto simp: rreplace1_def)
qed (simp add: rreplace1_def)

text \<open>A literal matches exactly its own text.\<close>

lemma rmatch_lit:
  "rmatch (RLit w) (p, q, g) = (if prefix w q then [(rev w @ p, drop (length w) q, g)] else [])"
proof (induction w arbitrary: p q)
  case (Cons c w)
  then show ?case by (cases q) (auto simp: RLit_def RChr_def)
qed (simp add: RLit_def)

lemma rtest_bol_lit: "rtest (RSeqs (RBol # RLit w # rs)) s \<Longrightarrow> prefix w s"
  by (auto simp: RSeqs_def rtest_bol rmatch_lit split: if_splits)

section \<open>Tests as statements about substrings\<close>

lemma rsearch_None_iff:
  "rsearch r p s = None \<longleftrightarrow> (\<forall>u v. s = u @ v \<longrightarrow> rmatch r (rev u @ p, v, []) = [])"
proof (induction s arbitrary: p)
  case Nil
  then show ?case by (auto split: list.splits)
next
  case (Cons c cs)
  have "(\<forall>u v. c # cs = u @ v \<longrightarrow> rmatch r (rev u @ p, v, []) = []) \<longleftrightarrow>
      rmatch r (p, c # cs, []) = [] \<and> (\<forall>u v. cs = u @ v \<longrightarrow> rmatch r (rev u @ c # p, v, []) = [])"
    (is "?all \<longleftrightarrow> ?here \<and> ?later")
  proof
    assume all: ?all
    have "rmatch r (rev (c # u) @ p, v, []) = []" if "cs = u @ v" for u v
      using all that by (metis append_Cons)
    moreover have "rmatch r (rev [] @ p, c # cs, []) = []" using all by (metis append_Nil)
    ultimately show "?here \<and> ?later" by simp
  next
    assume "?here \<and> ?later"
    then show ?all by (auto simp: Cons_eq_append_conv)
  qed
  with Cons show ?case by (auto split: list.splits)
qed

lemma rtest_iff: "rtest r s \<longleftrightarrow> (\<exists>u v. s = u @ v \<and> rmatch r (rev u, v, []) \<noteq> [])"
  by (auto simp: rtest_def rsearch_None_iff)

lemma rtest_alts: "rtest (RAlts rs) s \<longleftrightarrow> list_ex (\<lambda>r. rtest r s) rs"
proof -
  have "rmatch (RAlts rs) st \<noteq> [] \<longleftrightarrow> list_ex (\<lambda>r. rmatch r st \<noteq> []) rs" for st
    by (induction rs) (auto simp: RAlts_def split: prod.splits list.splits intro: prod_cases3[of st])
  then show ?thesis by (auto simp: rtest_iff list_ex_iff)
qed

lemma rtest_alt: "rtest (RAlt a b) s \<longleftrightarrow> rtest a s \<or> rtest b s"
  by (auto simp: rtest_iff)

lemma rmatch_litI:
  "rmatch (RLitI w) (p, q, g) =
     (if prefix (str_lower w) (str_lower q) then [(rev (take (length w) q) @ p, drop (length w) q, g)] else [])"
proof (induction w arbitrary: p q)
  case (Cons c w)
  then show ?case by (cases q) (auto simp: RLitI_def str_lower_def)
qed (simp add: RLitI_def str_lower_def)

lemma rtest_litI: "rtest (RLitI w) s \<longleftrightarrow> str_includes (str_lower s) (str_lower w)"
proof
  assume "rtest (RLitI w) s"
  then obtain u v where "s = u @ v" "prefix (str_lower w) (str_lower v)"
    by (auto simp: rtest_iff rmatch_litI split: if_splits)
  then show "str_includes (str_lower s) (str_lower w)"
    by (simp add: str_lower_append str_includes_append str_includes_prefix)
next
  assume "str_includes (str_lower s) (str_lower w)"
  then obtain u v where uv: "str_lower s = u @ str_lower w @ v"
    by (auto simp: str_includes_iff_sublist sublist_def)
  define s1 s2 where "s1 = take (length u) s" and "s2 = drop (length u) s"
  have "s = s1 @ s2" "str_lower s2 = str_lower w @ v"
    using uv by (simp_all add: s1_def s2_def str_lower_def drop_map[symmetric] del: drop_map)
  then have "s = s1 @ s2 \<and> rmatch (RLitI w) (rev s1, s2, []) \<noteq> []"
    by (simp add: rmatch_litI)
  then show "rtest (RLitI w) s" unfolding rtest_iff by blast
qed

text \<open>Two literals with an optional separator between them are three literals.\<close>

lemma some_state:
  "(\<exists>p q g. (p, q, g) \<in> set ms) \<longleftrightarrow> ms \<noteq> []" "(\<forall>p q g. (p, q, g) \<notin> set ms) \<longleftrightarrow> ms = []"
  by (cases ms; fastforce)+

lemma rmatch_sep_lits:
  assumes "\<And>c. c \<in> set seps \<Longrightarrow> lower_char c = c" "\<And>c d. c \<in> set seps \<Longrightarrow> lower_char d = c \<Longrightarrow> d = c"
  shows "rmatch (RSeqs [RLitI a, ROpt (ROneOf seps), RLitI b]) (p, q, g) \<noteq> [] \<longleftrightarrow>
     (\<exists>sep \<in> set ([] # map (\<lambda>c. [c]) seps). rmatch (RLitI (a @ sep @ b)) (p, q, g) \<noteq> [])"
proof (induction a arbitrary: p q g)
  case Nil
  have lit0: "RLitI [] = REps" by (simp add: RLitI_def)
  have lit: "rmatch (RLitI (c # b)) (p, q, g) \<noteq> [] \<longleftrightarrow>
      (\<exists>cs. q = c # cs \<and> rmatch (RLitI b) (c # p, cs, g) \<noteq> [])" if "c \<in> set seps" for c
  proof -
    have "lower_char d = lower_char c \<longleftrightarrow> d = c" for d
      using assms(1)[OF that] assms(2)[OF that, of d] by auto
    then show ?thesis by (cases q) (auto simp: RLitI_def)
  qed
  show ?case
  proof (cases q)
    case Nil
    have "rmatch (RSeqs [RLitI [], ROpt (ROneOf seps), RLitI b]) (p, [], g) \<noteq> [] \<longleftrightarrow>
        rmatch (RLitI b) (p, [], g) \<noteq> []"
      by (auto simp: RSeqs_def ROpt_def ROneOf_def lit0 some_state)
    moreover have "rmatch (RLitI (c # b)) (p, [], g) = []" for c by (simp add: RLitI_def)
    ultimately show ?thesis using Nil by auto
  next
    case (Cons c cs)
    with lit show ?thesis
      by (cases "c \<in> set seps") (auto simp: RSeqs_def ROpt_def ROneOf_def lit0 some_state)
  qed
next
  case (Cons x a)
  have lit: "rmatch (RLitI (x # w)) (p, q, g) \<noteq> [] \<longleftrightarrow>
      (\<exists>c cs. q = c # cs \<and> lower_char c = lower_char x \<and> rmatch (RLitI w) (c # p, cs, g) \<noteq> [])" for w
    by (cases q) (auto simp: RLitI_def)
  have "rmatch (RSeqs [RLitI (x # a), ROpt (ROneOf seps), RLitI b]) (p, q, g) \<noteq> [] \<longleftrightarrow>
      (\<exists>c cs. q = c # cs \<and> lower_char c = lower_char x \<and>
        rmatch (RSeqs [RLitI a, ROpt (ROneOf seps), RLitI b]) (c # p, cs, g) \<noteq> [])"
    by (cases q) (auto simp: RSeqs_def RLitI_def[of "x # a"] RLitI_def[of a])
  with lit Cons show ?case by (auto; blast)
qed

text \<open>Sequences step by step, as existence statements.\<close>

lemma rmatch_seq_iff:
  "rmatch (RSeq a b) st \<noteq> [] \<longleftrightarrow> (\<exists>st' \<in> set (rmatch a st). rmatch b st' \<noteq> [])"
  by (auto simp: concat_eq_Nil_conv)

lemma rmatch_seq_eps: "rmatch (RSeq a REps) st = rmatch a st"
proof -
  have "rmatch REps = (\<lambda>st. [st])" by (rule ext) simp
  then show ?thesis by (simp add: concat_map_singleton[of "\<lambda>x. x", simplified])
qed

lemma rmatch_cls_iff:
  "st' \<in> set (rmatch (RCls P) (p, q, g)) \<longleftrightarrow> (\<exists>c cs. q = c # cs \<and> P c \<and> st' = (c # p, cs, g))"
  by (cases q) auto

lemma rmatch_eol_iff: "rmatch REol (p, q, g) \<noteq> [] \<longleftrightarrow> q = []"
  by simp

section \<open>One class between other parts: all ways to match, in order\<close>

lemma rmatch_lazy_cls:
  "list_all P u \<Longrightarrow> v = [] \<or> \<not> P (hd v) \<Longrightarrow>
   rmatch (RLazy (RCls P)) (p, u @ v, g) = map (\<lambda>i. (rev (take i u) @ p, drop i u @ v, g)) [0..<Suc (length u)]"
proof (induction u arbitrary: p)
  case Nil
  then have "rmatch (RCls P) (p, v, g) = []" by (cases v) auto
  then show ?case by (subst append_Nil, subst rmatch.simps(6)) simp
next
  case (Cons c u)
  have "rmatch (RLazy (RCls P)) (p, (c # u) @ v, g) = (p, c # u @ v, g) # rmatch (RLazy (RCls P)) (c # p, u @ v, g)"
    using Cons.prems by (subst rmatch.simps(6)) (simp add: shorter_def)
  also have "rmatch (RLazy (RCls P)) (c # p, u @ v, g) =
      map (\<lambda>i. (rev (take i u) @ c # p, drop i u @ v, g)) [0..<Suc (length u)]"
    using Cons by simp
  also have "\<dots> = map (\<lambda>i. (rev (take i (c # u)) @ p, drop i (c # u) @ v, g)) (map Suc [0..<Suc (length u)])"
    by (simp add: comp_def)
  also have "map Suc [0..<Suc (length u)] = [1..<Suc (length (c # u))]" by (simp add: map_Suc_upt)
  also have "(p, c # u @ v, g) # map (\<lambda>i. (rev (take i (c # u)) @ p, drop i (c # u) @ v, g)) [1..<Suc (length (c # u))] =
      map (\<lambda>i. (rev (take i (c # u)) @ p, drop i (c # u) @ v, g)) [0..<Suc (length (c # u))]"
    by (simp add: upt_conv_Cons del: upt_Suc)
  finally show ?case .
qed

text \<open>The first success of a sequence, when the continuation fails on all earlier states.\<close>

lemma concat_map_first:
  "i < length xs \<Longrightarrow> \<forall>j < i. f (xs ! j) = [] \<Longrightarrow> f (xs ! i) = y # ys \<Longrightarrow> \<exists>r. concat (map f xs) = y # r"
proof (induction xs arbitrary: i)
  case (Cons x xs)
  show ?case
  proof (cases i)
    case 0
    with Cons.prems show ?thesis by simp
  next
    case (Suc k)
    with Cons.prems have "f x = []" by force
    moreover have "\<exists>r. concat (map f xs) = y # r" using Cons.IH[of k] Cons.prems Suc by force
    ultimately show ?thesis by simp
  qed
qed simp


lemma rmatch_star_cls_list:
  "list_all P u \<Longrightarrow> v = [] \<or> \<not> P (hd v) \<Longrightarrow>
   rmatch (RStar (RCls P)) (p, u @ v, g) = rev (map (\<lambda>i. (rev (take i u) @ p, drop i u @ v, g)) [0..<Suc (length u)])"
proof (induction u arbitrary: p)
  case Nil
  then show ?case by (subst append_Nil, subst rmatch_star_cls_step) (cases v; simp)
next
  case (Cons c u)
  have "map (\<lambda>i. (rev (take i u) @ c # p, drop i u @ v, g)) [0..<Suc (length u)] =
      map (\<lambda>i. (rev (take i (c # u)) @ p, drop i (c # u) @ v, g)) (map Suc [0..<Suc (length u)])"
    by (simp add: comp_def)
  then have step: "map (\<lambda>i. (rev (take i (c # u)) @ p, drop i (c # u) @ v, g)) [0..<Suc (length (c # u))] =
      (p, c # u @ v, g) # map (\<lambda>i. (rev (take i u) @ c # p, drop i u @ v, g)) [0..<Suc (length u)]"
    by (simp only: map_Suc_upt) (simp add: upt_conv_Cons del: upt_Suc)
  have "rmatch (RStar (RCls P)) (p, (c # u) @ v, g) =
      rmatch (RStar (RCls P)) (c # p, u @ v, g) @ [(p, c # u @ v, g)]"
    using Cons.prems by (subst rmatch_star_cls_step) simp
  then show ?case using Cons by (simp only: step) simp
qed

text \<open>A group of one class up to a character outside it matches in one way.\<close>

lemma rmatch_group_until:
  assumes "list_all P u" "u \<noteq> []" "\<not> P c"
  shows "rmatch (RSeq (RGrp n (RPlus (RCls P))) (RSeq (RLit [c]) T)) (p, u @ c # q, g) =
    rmatch T (c # rev u @ p, q, (n, u) # g)"
proof -
  obtain a w where u: "u = a # w" using assms(2) by (cases u) auto
  have "rmatch (RPlus (RCls P)) (p, u @ c # q, g) = rmatch (RStar (RCls P)) (a # p, w @ c # q, g)"
    using assms(1) by (simp add: rmatch_plus_cls u)
  also have "\<dots> = rev (map (\<lambda>i. (rev (take i w) @ a # p, drop i w @ c # q, g)) [0..<Suc (length w)])"
    using assms by (intro rmatch_star_cls_list) (simp_all add: u)
  finally have plus: "rmatch (RPlus (RCls P)) (p, u @ c # q, g) =
      (rev u @ p, c # q, g) # rev (map (\<lambda>i. (rev (take i w) @ a # p, drop i w @ c # q, g)) [0..<length w])"
    by (simp add: u)
  let ?B = "RSeq (RLit [c]) T"
  let ?rest = "map (\<lambda>(p', q', g'). (p', q', (n, rev (take (length p' - length p) p')) # g'))
    (rev (map (\<lambda>i. (rev (take i w) @ a # p, drop i w @ c # q, g)) [0..<length w]))"
  have grp: "rmatch (RGrp n (RPlus (RCls P))) (p, u @ c # q, g) = (rev u @ p, c # q, (n, u) # g) # ?rest"
    unfolding rmatch.simps(7) plus by simp
  have "rmatch ?B (x, drop i w @ c # q, h) = []" if "i < length w" for i x h
  proof -
    have "w ! i \<noteq> c" using that assms by (auto simp: u list_all_length)
    then have "rmatch (RLit [c]) (x, drop i w @ c # q, h) = []"
      using that by (simp add: rmatch_lit Cons_nth_drop_Suc[symmetric] del: rmatch.simps(2))
    then show ?thesis by simp
  qed
  then have "concat (map (rmatch ?B) ?rest) = []" by (auto simp: concat_eq_Nil_conv simp del: rmatch.simps(3))
  moreover have "rmatch ?B (rev u @ p, c # q, h) = rmatch T (c # rev u @ p, q, h)" for h by (simp add: rmatch_lit)
  ultimately show ?thesis unfolding rmatch.simps(3)[of "RGrp n (RPlus (RCls P))"] grp by simp
qed


lemma rmatch_lazy_group:
  assumes "list_all P u" "1 \<le> i" "i \<le> length u"
    and "\<forall>j. 1 \<le> j \<longrightarrow> j < i \<longrightarrow> rmatch T (rev (take j u) @ p, drop j u, (n, take j u) # g) = []"
    and "rmatch T (rev (take i u) @ p, drop i u, (n, take i u) # g) = y # ys"
  shows "\<exists>r. rmatch (RSeq (RGrp n (RLazyPlus (RCls P))) T) (p, u, g) = y # r"
proof -
  obtain a w where u: "u = a # w" using assms(2,3) by (cases u) auto
  have "rmatch (RLazyPlus (RCls P)) (p, u, g) = rmatch (RLazy (RCls P)) (a # p, w @ [], g)"
    using assms(1) by (simp add: RLazyPlus_def u)
  also have "\<dots> = map (\<lambda>i. (rev (take i w) @ a # p, drop i w @ [], g)) [0..<Suc (length w)]"
    using assms(1) by (intro rmatch_lazy_cls) (simp_all add: u)
  finally have grp: "rmatch (RGrp n (RLazyPlus (RCls P))) (p, u, g) =
      map (\<lambda>k. (rev (take (Suc k) u) @ p, drop (Suc k) u, (n, take (Suc k) u) # g)) [0..<Suc (length w)]"
    unfolding rmatch.simps(7) by (simp add: u comp_def del: upt_Suc)
  let ?f = "\<lambda>k. (rev (take (Suc k) u) @ p, drop (Suc k) u, (n, take (Suc k) u) # g)"
  have nth: "map ?f [0..<Suc (length w)] ! k = ?f k" if "k < length u" for k
    using that by (simp add: u del: upt_Suc)
  show ?thesis
    unfolding rmatch.simps(3)[of "RGrp n (RLazyPlus (RCls P))"] grp
  proof (rule concat_map_first[of "i - 1"])
    show "i - 1 < length (map ?f [0..<Suc (length w)])" using assms(2,3) by (simp add: u del: upt_Suc)
    show "\<forall>j < i - 1. rmatch T (map ?f [0..<Suc (length w)] ! j) = []"
      using assms(3) assms(4)[rule_format, of "Suc j" for j] by (auto simp: nth simp del: upt_Suc)
    show "rmatch T (map ?f [0..<Suc (length w)] ! (i - 1)) = y # ys"
      using assms(2,3,5) nth[of "i - 1"] by simp
  qed
qed

lemma rexec_bol:
  "rmatch (RSeq RBol r) ([], s, []) = (p, q, g) # ms \<Longrightarrow> rexec (RSeq RBol r) s = Some ((0, rev p) # g)"
  "rmatch (RSeq RBol r) ([], s, []) = [] \<Longrightarrow> rexec (RSeq RBol r) s = None"
  by (simp_all add: rexec_def rsearch_bol[of "RSeq RBol r"] )

section \<open>Replacing every character of a class\<close>

lemma rsearch_cls:
  "rsearch (RCls P) p s = (case dropWhile (\<lambda>c. \<not> P c) s of [] \<Rightarrow> None
     | c # cs \<Rightarrow> Some (rev (takeWhile (\<lambda>c. \<not> P c) s) @ p, (c # rev (takeWhile (\<lambda>c. \<not> P c) s) @ p, cs, [])))"
proof (induction s arbitrary: p)
  case (Cons a s)
  then show ?case by (cases "P a"; cases "dropWhile (\<lambda>c. \<not> P c) s") (simp_all del: dropWhile_eq_Nil_conv)
qed simp

lemma rreplace_from_cls:
  "length s < n \<Longrightarrow> rreplace_from n (RCls P) (\<lambda>_. w) p s = concat (map (\<lambda>c. if P c then w else [c]) s)"
proof (induction n arbitrary: p s)
  case (Suc n)
  let ?u = "takeWhile (\<lambda>c. \<not> P c) s"
  have plain: "concat (map (\<lambda>c. if P c then w else [c]) t) = t" if "\<forall>c \<in> set t. \<not> P c" for t
    using that by (induction t) auto
  show ?case
  proof (cases "dropWhile (\<lambda>c. \<not> P c) s")
    case Nil
    then have "\<forall>c \<in> set s. \<not> P c" by (simp add: dropWhile_eq_Nil_conv)
    from plain[OF this] show ?thesis
      by (simp only: rsearch_cls rreplace_from.simps Nil list.case option.case)
  next
    case (Cons c cs)
    then have c: "P c" by (simp add: dropWhile_eq_Cons_conv)
    have s: "s = ?u @ c # cs" using Cons by (metis takeWhile_dropWhile_id)
    have "length s = length (?u @ c # cs)" using s by (rule arg_cong)
    also have "\<dots> = length ?u + Suc (length cs)" by simp
    finally have "length cs < n" using Suc.prems by linarith
    then have "rreplace_from n (RCls P) (\<lambda>_. w) q cs = concat (map (\<lambda>c. if P c then w else [c]) cs)" for q
      by (rule Suc.IH)
    then have "rreplace_from (Suc n) (RCls P) (\<lambda>_. w) p s = ?u @ w @ concat (map (\<lambda>c. if P c then w else [c]) cs)"
      using Cons by (simp add: rsearch_cls)
    also have "\<dots> = concat (map (\<lambda>c. if P c then w else [c]) (?u @ c # cs))"
    proof -
      have "\<forall>c \<in> set ?u. \<not> P c" by (auto dest: set_takeWhileD)
      from plain[OF this] c show ?thesis by simp
    qed
    finally show ?thesis unfolding s[symmetric] .
  qed
qed simp

lemma rreplace_cls: "rreplace (RCls P) (\<lambda>_. w) s = concat (map (\<lambda>c. if P c then w else [c]) s)"
  unfolding rreplace_def by (rule rreplace_from_cls) simp

end
