(* ===== verification/Ids.thy ===== *)
theory Ids
  imports Clock Regex
begin

text \<open>
  Identifiers and scopes: \<open>ids.ts\<close> (\<open>slugify\<close>, \<open>stableId\<close>, \<open>nowIso\<close>; \<open>deepClone\<close> is
  \<open>deep_clone\<close> of the value theory), \<open>scope.ts\<close>, and the tables of \<open>constants.ts\<close>.
  The lemmas characterise the text \<open>slugify\<close> returns and when an identifier determines its parts.
\<close>

section \<open>ids.ts\<close>

abbreviation dash :: char where
  "dash \<equiv> CHR ''-''"

definition slug_char :: "char \<Rightarrow> bool" where
  "slug_char c = (is_lower c \<or> is_digit c)"

definition slugify :: "jsv \<Rightarrow> string \<Rightarrow> string" where
  "slugify v fallback = (let
     s0 = str_lower (str_trim (to_str (jnullish v (JStr []))));
     s1 = rreplace (RPlus (RCls (\<lambda>c. \<not> slug_char c))) (\<lambda>_. ''-'') s0;
     s2 = rreplace (RTrim (\<lambda>c. c = dash)) (\<lambda>_. []) s1;
     slug = str_prefix 63 s2
   in if slug = [] then fallback else slug)"

definition stableId :: "string \<Rightarrow> jsv list \<Rightarrow> string" where
  "stableId pre parts = (let base = str_join ''-'' (map (\<lambda>p. slugify p ''x'') parts)
     in slugify (JStr (pre @ ''-'' @ base)) pre)"

definition nowIso :: "int \<Rightarrow> jsv" where
  "nowIso t = JStr (iso t)"

text \<open>The words \<open>slugify\<close> leaves unchanged: DNS labels of lower case letters and digits.\<close>

fun single_dashes :: "string \<Rightarrow> bool" where
  "single_dashes (a # b # s) = (\<not> (a = dash \<and> b = dash) \<and> single_dashes (b # s))"
| "single_dashes _ = True"

definition slug_text :: "string \<Rightarrow> bool" where
  "slug_text s = (list_all (\<lambda>c. slug_char c \<or> c = dash) s \<and> single_dashes s \<and>
     (s \<noteq> [] \<longrightarrow> hd s \<noteq> dash))"

definition is_label :: "string \<Rightarrow> bool" where
  "is_label s = (s \<noteq> [] \<and> length s \<le> 63 \<and> slug_text s \<and> last s \<noteq> dash)"

definition slug_core :: "string \<Rightarrow> string" where
  "slug_core s = trim_both (\<lambda>c. c = dash)
     (replace_runs (\<lambda>c. \<not> slug_char c) ''-'' False (str_lower (str_trim s)))"

lemma slugify_core [code]:
  "slugify v fallback = (let slug = take 63 (slug_core (to_str (jnullish v (JStr []))))
     in if slug = [] then fallback else slug)"
  by (simp add: slugify_def rreplace_plus_cls rreplace_trim slug_core_def str_prefix_def)

lemma not_slug_char_dash [simp]: "\<not> slug_char dash"
  by (simp add: slug_char_def is_lower_def is_digit_def code_of_def)

lemma slug_char_not_space: "slug_char c \<Longrightarrow> \<not> is_space c"
  by (auto simp: slug_char_def is_lower_def is_digit_def is_space_def)

lemma slug_char_lower [simp]: "slug_char c \<Longrightarrow> lower_char c = c"
  by (auto simp: slug_char_def lower_char_def is_upper_def is_lower_def is_digit_def)

lemma dash_not_space [simp]: "\<not> is_space dash"
  by (simp add: is_space_def code_of_def)

lemma lower_dash [simp]: "lower_char dash = dash"
  by (simp add: lower_char_def is_upper_def code_of_def)

lemma single_dashes_Cons:
  "single_dashes (c # s) \<longleftrightarrow> single_dashes s \<and> \<not> (c = dash \<and> s \<noteq> [] \<and> hd s = dash)"
  by (cases s) auto

lemma single_dashes_append:
  "single_dashes (s @ t) \<Longrightarrow> single_dashes s \<and> single_dashes t"
  by (induction s) (auto simp: single_dashes_Cons)

lemma single_dashes_sublist:
  "sublist s t \<Longrightarrow> single_dashes t \<Longrightarrow> single_dashes s"
  by (auto simp: sublist_def dest!: single_dashes_append)

lemma sublist_trim_both: "sublist (trim_both P s) s"
proof -
  have "suffix (dropWhile P s) s" by (rule suffix_dropWhile)
  moreover have "prefix (trim_both P s) (dropWhile P s)"
    unfolding trim_both_def by (metis rev_rev_ident suffix_dropWhile suffix_to_prefix)
  ultimately show ?thesis
    by (meson prefix_imp_sublist sublist_order.order_trans suffix_imp_sublist)
qed

lemma replace_runs_single:
  "single_dashes (replace_runs (\<lambda>c. \<not> slug_char c) ''-'' b s) \<and>
   (b \<longrightarrow> replace_runs (\<lambda>c. \<not> slug_char c) ''-'' b s \<noteq> [] \<longrightarrow>
      hd (replace_runs (\<lambda>c. \<not> slug_char c) ''-'' b s) \<noteq> dash)"
proof (induction s arbitrary: b)
  case (Cons c s)
  have "slug_char c \<Longrightarrow> c \<noteq> dash" by auto
  with Cons[of True] Cons[of False] show ?case
    by (cases b; cases "slug_char c") (auto simp: single_dashes_Cons)
qed simp

lemma slug_text_core: "slug_text (slug_core s)"
proof -
  let ?r = "replace_runs (\<lambda>c. \<not> slug_char c) ''-'' False (str_lower (str_trim s))"
  have "set (slug_core s) \<subseteq> set ?r"
    unfolding slug_core_def by (rule set_trim_both)
  also have "\<dots> \<subseteq> {c. slug_char c} \<union> {dash}"
    using set_replace_runs[of "\<lambda>c. \<not> slug_char c" "''-''" False] by fastforce
  finally have "list_all (\<lambda>c. slug_char c \<or> c = dash) (slug_core s)"
    by (auto simp: list_all_iff)
  moreover have "single_dashes (slug_core s)"
    unfolding slug_core_def
    by (rule single_dashes_sublist[OF sublist_trim_both]) (simp add: replace_runs_single)
  moreover have "slug_core s \<noteq> [] \<longrightarrow> hd (slug_core s) \<noteq> dash"
    unfolding slug_core_def by (intro impI trim_both_hd[where P = "\<lambda>c. c = dash"])
  ultimately show ?thesis by (simp add: slug_text_def)
qed

lemma slug_text_take:
  assumes "slug_text s"
  shows "slug_text (take n s)"
proof -
  have "single_dashes (take n s)"
    using assms single_dashes_append[of "take n s" "drop n s"] by (simp add: slug_text_def)
  moreover have "take n s \<noteq> [] \<Longrightarrow> hd (take n s) = hd s"
    by (cases s; cases n) auto
  moreover have "take n s \<noteq> [] \<Longrightarrow> s \<noteq> []" by auto
  ultimately show ?thesis
    using assms by (auto simp: slug_text_def list_all_iff dest: in_set_takeD)
qed

lemma slug_core_last: "slug_core s \<noteq> [] \<Longrightarrow> last (slug_core s) \<noteq> dash"
  unfolding slug_core_def by (rule trim_both_last)

lemma replace_runs_label:
  "list_all (\<lambda>c. slug_char c \<or> c = dash) s \<Longrightarrow> single_dashes s \<Longrightarrow>
   (b \<longrightarrow> s \<noteq> [] \<longrightarrow> hd s \<noteq> dash) \<Longrightarrow>
   replace_runs (\<lambda>c. \<not> slug_char c) ''-'' b s = s"
  by (induction s arbitrary: b) (auto simp: single_dashes_Cons)

lemma slug_core_label:
  assumes "is_label s"
  shows "slug_core s = s"
proof -
  have chars: "\<forall>c \<in> set s. slug_char c \<or> c = dash"
    using assms by (simp add: is_label_def slug_text_def list_all_iff)
  have "s \<noteq> []" using assms by (simp add: is_label_def)
  then have "\<not> is_space (hd s)" "\<not> is_space (last s)"
    using chars slug_char_not_space dash_not_space hd_in_set[of s] last_in_set[of s] by metis+
  with \<open>s \<noteq> []\<close> have "str_trim s = s"
    unfolding str_trim_trim_both by (rule trim_both_id)
  moreover have "str_lower s = s"
    unfolding str_lower_def using chars by (intro map_idI) auto
  ultimately show ?thesis
    using assms
    by (simp add: slug_core_def is_label_def slug_text_def replace_runs_label trim_both_id)
qed

text \<open>The shape of every slug, and the labels it is the identity on.\<close>

lemma slugify_shape:
  "slugify v fallback = fallback \<or>
   slugify v fallback \<noteq> [] \<and> length (slugify v fallback) \<le> 63 \<and> slug_text (slugify v fallback)"
  by (simp add: slugify_core Let_def slug_text_take slug_text_core)

lemma slugify_label: "is_label s \<Longrightarrow> slugify (JStr s) fallback = s"
  by (simp add: slugify_core slug_core_label jnullish_def is_nullish_def)
    (simp add: is_label_def)

lemma slugify_short_label:
  assumes "length (slug_core (to_str (jnullish v (JStr [])))) \<le> 63" "is_label fallback"
  shows "is_label (slugify v fallback)"
  using assms slug_core_last slug_text_core by (auto simp: slugify_core is_label_def Let_def)

section \<open>Identifiers that determine their parts\<close>

definition plain_word :: "string \<Rightarrow> bool" where
  "plain_word s = (s \<noteq> [] \<and> list_all slug_char s)"

lemma plain_word_no_dash: "plain_word s \<Longrightarrow> dash \<notin> set s"
  by (auto simp: plain_word_def list_all_iff)

lemma single_dashes_no_dash: "dash \<notin> set s \<Longrightarrow> single_dashes s"
  by (induction s rule: single_dashes.induct) auto

lemma plain_word_ends: "plain_word s \<Longrightarrow> s \<noteq> [] \<and> hd s \<noteq> dash \<and> last s \<noteq> dash"
  using plain_word_no_dash[of s] by (metis hd_in_set last_in_set plain_word_def)

lemma plain_word_slug_text: "plain_word s \<Longrightarrow> slug_text s"
  using plain_word_no_dash[of s] plain_word_ends[of s]
  by (auto simp: slug_text_def plain_word_def list_all_iff intro: single_dashes_no_dash)

lemma plain_word_label: "plain_word s \<Longrightarrow> length s \<le> 63 \<Longrightarrow> is_label s"
  using plain_word_ends[of s] by (simp add: is_label_def plain_word_slug_text)

lemma slug_text_join:
  "ws \<noteq> [] \<Longrightarrow> list_all plain_word ws \<Longrightarrow>
   slug_text (str_join ''-'' ws) \<and> str_join ''-'' ws \<noteq> [] \<and> last (str_join ''-'' ws) \<noteq> dash"
proof (induction ws rule: list_nonempty_induct')
  case (single w)
  then show ?case by (simp add: plain_word_slug_text plain_word_ends)
next
  case (cons w v ws)
  let ?t = "str_join ''-'' (v # ws)"
  have t: "slug_text ?t" "?t \<noteq> []" "last ?t \<noteq> dash" using cons by auto
  have w: "plain_word w" using cons by simp
  have "single_dashes (u @ dash # ?t)" if "dash \<notin> set u" for u
    using that t by (induction u) (auto simp: single_dashes_Cons slug_text_def hd_append)
  with t w plain_word_no_dash[OF w] plain_word_ends[OF w] show ?case
    by (auto simp: slug_text_def plain_word_def list_all_iff)
qed

lemma split_join_plain:
  "ws \<noteq> [] \<Longrightarrow> list_all plain_word ws \<Longrightarrow> str_split dash (str_join ''-'' ws) = ws"
proof (induction ws rule: list_nonempty_induct')
  case (single w)
  then show ?case by (simp add: split_no_sep plain_word_no_dash)
next
  case (cons w v ws)
  then show ?case by (simp add: split_cons_sep plain_word_no_dash)
qed

lemma stableId_plain:
  assumes "plain_word p" "list_all plain_word ws" "ws \<noteq> []" "length (str_join ''-'' (p # ws)) \<le> 63"
  shows "stableId p (map JStr ws) = str_join ''-'' (p # ws)"
proof -
  have short: "length w \<le> length (str_join sep us)" if "w \<in> set us" for w sep us
    using that by (induction sep us rule: str_join.induct) auto
  have "slugify (JStr w) ''x'' = w" if "w \<in> set ws" for w
  proof (rule slugify_label)
    have "plain_word w" using that assms(2) by (simp add: list_all_iff)
    moreover have "length w \<le> 63" using short[of w "p # ws" "''-''"] that assms(4) by simp
    ultimately show "is_label w" by (rule plain_word_label)
  qed
  then have "map (\<lambda>q. slugify q ''x'') (map JStr ws) = ws"
    by (simp add: map_idI)
  moreover have "p @ ''-'' @ str_join ''-'' ws = str_join ''-'' (p # ws)"
    using assms(3) by (cases ws) auto
  moreover have "is_label (str_join ''-'' (p # ws))"
    using slug_text_join[of "p # ws"] assms by (auto simp: is_label_def)
  ultimately show ?thesis
    by (simp add: stableId_def slugify_label)
qed

section \<open>scope.ts\<close>

definition organizationScopeFromProjectInput :: "jsv \<Rightarrow> jsv \<Rightarrow> jsv" where
  "organizationScopeFromProjectInput input subject =
     jor (jget input ''organizationId'')
       (jor (jget input ''orgId'')
         (jor (jget (jget input ''organization'') ''id'')
           (jor (jget (jget input ''organization'') ''slug'')
             (jor (jget input ''organizationSlug'')
               (jor (jget subject ''organizationId'') (JStr ''default''))))))"

definition projectScopeFromInput :: "jsv \<Rightarrow> jsv" where
  "projectScopeFromInput input =
     jor (jget input ''projectId'')
       (jor (jget (jget input ''project'') ''id'') (jor (jget (jget input ''project'') ''slug'') JNull))"

lemma organizationScope_truthy: "truthy (organizationScopeFromProjectInput input subject)"
  by (simp add: organizationScopeFromProjectInput_def truthy_jor)

section \<open>constants.ts\<close>

definition SERVICE_TYPES :: "string list" where
  "SERVICE_TYPES = [''web'', ''private'', ''worker'', ''cron'', ''job'']"

definition SOURCE_TYPES :: "string list" where
  "SOURCE_TYPES = [''github'', ''zip'', ''image'', ''local'']"

definition BUILD_MODES :: "string list" where
  "BUILD_MODES = [''auto'', ''dockerfile'', ''buildpack'', ''custom'', ''prebuilt-image'']"

definition DEFAULT_PORT :: nat where
  "DEFAULT_PORT = 8080"

definition DEFAULT_REGISTRY :: string where
  "DEFAULT_REGISTRY = ''registry.raibitserver.local''"

definition DEFAULT_DOMAIN :: string where
  "DEFAULT_DOMAIN = ''raibitserver.app''"

section \<open>Properties\<close>

text \<open>\<open>slugify\<close> returns its fallback or a text of 1 to 63 lower case letters, digits and
  single dashes that does not start with a dash, and it returns DNS labels unchanged.\<close>

theorem slugify_text:
  "(slugify v fallback = fallback \<or>
    slugify v fallback \<noteq> [] \<and> length (slugify v fallback) \<le> 63 \<and> slug_text (slugify v fallback)) \<and>
   (is_label s \<longrightarrow> slugify (JStr s) fallback = s)"
  using slugify_shape slugify_label by blast

theorem slugify_text_witness:
  "slugify (JStr ''my-app-2'') ''item'' = ''my-app-2''"
proof -
  have "is_label ''my-app-2''" by code_simp
  with slugify_text[of JUndef "''item''" "''my-app-2''"] show ?thesis by blast
qed

text \<open>the identifier \<open>stableId\<close> builds from plain words (letters and digits, 63 characters in
  all) splits back at the dashes into its prefix and its parts, so such identifiers are distinct for
  distinct parts.\<close>

theorem stableId_parts:
  assumes "plain_word p" "list_all plain_word ws" "ws \<noteq> []" "length (str_join ''-'' (p # ws)) \<le> 63"
  shows "str_split dash (stableId p (map JStr ws)) = p # ws"
  using assms split_join_plain[of "p # ws"] by (simp add: stableId_plain)

theorem stableId_parts_witness:
  "str_split dash (stableId ''prj'' (map JStr [''default'', ''shop''])) = [''prj'', ''default'', ''shop'']"
  by (rule stableId_parts) code_simp+

end
