(* ===== verification/Catalog.thy ===== *)
theory Catalog
  imports Ids
begin

text \<open>
  \<open>catalog.ts\<close>: the catalog of managed resources, \<open>normalizeResourceEngine\<close>, \<open>getCatalogEntry\<close>
  and \<open>listCatalog\<close>. An entry is an object with the source's members in the source's order.
\<close>

definition catalog_entry ::
  "string \<Rightarrow> string \<Rightarrow> string \<Rightarrow> string \<Rightarrow> nat \<Rightarrow> string \<Rightarrow> string list \<Rightarrow> string list \<Rightarrow> jsv" where
  "catalog_entry type engine displayName defaultVersion priority operator env features = JObj [
     (''type'', JStr type), (''engine'', JStr engine), (''displayName'', JStr displayName),
     (''defaultVersion'', JStr defaultVersion), (''priority'', jnat priority), (''operator'', JStr operator),
     (''env'', JArr (map JStr env)), (''features'', JArr (map JStr features))]"

definition RESOURCE_CATALOG :: "(string \<times> jsv) list" where
  "RESOURCE_CATALOG = [
    (''postgresql'', catalog_entry ''database'' ''postgresql'' ''PostgreSQL'' ''16'' 1 ''CloudNativePG''
       [''DATABASE_URL'', ''POSTGRES_URL'', ''PGHOST'', ''PGPORT'', ''PGDATABASE'', ''PGUSER'', ''PGPASSWORD'']
       [''shared-provider'', ''sql-editor'', ''table-browser'', ''extensions'', ''backup-restore'', ''pitr'',
        ''read-replica'', ''pooling'', ''per-role-limits'']),
    (''mysql'', catalog_entry ''database'' ''mysql'' ''MySQL'' ''8'' 1 ''Percona Operator for MySQL''
       [''MYSQL_URL'', ''MYSQL_HOST'', ''MYSQL_PORT'', ''MYSQL_DATABASE'', ''MYSQL_USER'', ''MYSQL_PASSWORD'']
       [''shared-provider'', ''sql-editor'', ''table-browser'', ''indexes'', ''slow-query-logs'', ''backup-restore'']),
    (''mariadb'', catalog_entry ''database'' ''mariadb'' ''MariaDB'' ''11'' 2
       ''MariaDB Operator or Percona-compatible profile''
       [''MARIADB_URL'', ''MYSQL_URL'', ''MYSQL_HOST'', ''MYSQL_PORT'', ''MYSQL_DATABASE'', ''MYSQL_USER'',
        ''MYSQL_PASSWORD'']
       [''shared-provider'', ''sql-editor'', ''table-browser'', ''backup-restore'']),
    (''mongodb'', catalog_entry ''database'' ''mongodb'' ''MongoDB'' ''7'' 2
       ''MongoDB Kubernetes Operator / Atlas Operator''
       [''MONGODB_URI'', ''MONGO_URL'', ''MONGO_HOST'', ''MONGO_DATABASE'', ''MONGO_USER'', ''MONGO_PASSWORD'']
       [''shared-provider'', ''collection-browser'', ''document-editor'', ''index-management'', ''backup-restore'']),
    (''sqlite'', catalog_entry ''database'' ''sqlite'' ''SQLite'' ''3'' 3 ''PVC-backed file database provider''
       [''DATABASE_URL'', ''SQLITE_PATH'']
       [''sql-editor'', ''table-browser'', ''pvc-mount'', ''single-writer-warning'']),
    (''redis'', catalog_entry ''cache'' ''redis'' ''Redis'' ''7'' 1
       ''Redis Operator / Redis Enterprise Operator / Upstash adapter''
       [''REDIS_URL'', ''REDIS_HOST'', ''REDIS_PORT'', ''REDIS_USERNAME'', ''REDIS_PASSWORD'', ''REDIS_KEY_PREFIX'']
       [''shared-provider'', ''acl-key-prefix'', ''key-browser'', ''ttl'', ''memory-usage'', ''eviction-policy'',
        ''pubsub-monitoring'']),
    (''valkey'', catalog_entry ''cache'' ''valkey'' ''Valkey'' ''8'' 1 ''Valkey/Redis-compatible provider adapter''
       [''REDIS_URL'', ''VALKEY_URL'', ''REDIS_HOST'', ''REDIS_PORT'', ''REDIS_USERNAME'', ''REDIS_PASSWORD'',
        ''REDIS_KEY_PREFIX'', ''VALKEY_KEY_PREFIX'']
       [''shared-provider'', ''acl-key-prefix'', ''key-browser'', ''ttl'', ''memory-usage'', ''pubsub-monitoring'']),
    (''object-storage'', catalog_entry ''storage'' ''s3-compatible'' ''Object Storage'' ''s3'' 1
       ''MinIO / S3-compatible provider adapter''
       [''S3_ENDPOINT'', ''S3_BUCKET'', ''S3_REGION'', ''S3_ACCESS_KEY'', ''S3_SECRET_KEY'']
       [''bucket-management'', ''presigned-url'', ''cors'', ''public-private-policy'', ''cdn-ready'']),
    (''vector-db'', catalog_entry ''vector'' ''qdrant-compatible'' ''Vector Database'' ''latest'' 3
       ''Qdrant/Weaviate/Milvus provider adapter''
       [''VECTOR_DB_URL'', ''VECTOR_DB_API_KEY'', ''VECTOR_DB_COLLECTION'']
       [''collection-management'', ''embedding-dimensions'', ''similarity-search-test'', ''usage-monitoring'']),
    (''qdrant'', catalog_entry ''vector'' ''qdrant'' ''Qdrant'' ''latest'' 2 ''Qdrant local/provider adapter''
       [''VECTOR_DB_URL'', ''VECTOR_DB_API_KEY'', ''VECTOR_DB_COLLECTION'']
       [''collection-management'', ''similarity-search-test'', ''usage-monitoring'']),
    (''nats'', catalog_entry ''queue'' ''nats'' ''NATS'' ''latest'' 2 ''NATS local/provider adapter''
       [''QUEUE_URL'', ''QUEUE_USERNAME'', ''QUEUE_PASSWORD'', ''QUEUE_TOPIC'']
       [''subjects'', ''jetstream-connection-info'', ''usage-monitoring'']),
    (''message-queue'', catalog_entry ''queue'' ''nats-compatible'' ''Message Queue'' ''latest'' 4
       ''NATS/Kafka/Redpanda/RabbitMQ provider adapter''
       [''QUEUE_URL'', ''QUEUE_USERNAME'', ''QUEUE_PASSWORD'', ''QUEUE_TOPIC'']
       [''topic-management'', ''consumer-lag'', ''dead-letter-queue'', ''usage-monitoring''])]"

definition listCatalog :: "jsv list" where
  "listCatalog = map (\<lambda>(key, v). jspread (JObj [(''key'', JStr key)]) v) RESOURCE_CATALOG"

text \<open>The aliases, tried in the source's order.\<close>

definition engine_aliases :: "(string list \<times> string) list" where
  "engine_aliases = [
    ([''postgres'', ''postgresql'', ''pg''], ''postgresql''), ([''mysql''], ''mysql''),
    ([''mariadb''], ''mariadb''), ([''mongo'', ''mongodb''], ''mongodb''), ([''redis''], ''redis''),
    ([''valkey''], ''valkey''), ([''sqlite'', ''sqlite3''], ''sqlite''),
    ([''s3'', ''minio'', ''object'', ''object-storage'', ''storage''], ''object-storage''),
    ([''qdrant''], ''qdrant''), ([''vector'', ''vector-db'', ''weaviate'', ''milvus''], ''vector-db''),
    ([''nats''], ''nats''), ([''queue'', ''message-queue'', ''kafka'', ''redpanda'', ''rabbitmq''], ''message-queue'')]"

definition engine_text :: "jsv \<Rightarrow> string" where
  "engine_text engine = replace_char CHR ''_'' CHR ''-'' (str_lower (to_str (jor engine (JStr []))))"

definition normalizeResourceEngine :: "jsv \<Rightarrow> string" where
  "normalizeResourceEngine engine = (let v = engine_text engine in
     case find (\<lambda>(names, _). v \<in> set names) engine_aliases of Some (_, n) \<Rightarrow> n | None \<Rightarrow> v)"

definition getCatalogEntry :: "jsv \<Rightarrow> jsv res" where
  "getCatalogEntry engine = (let key = normalizeResourceEngine engine; entry = table_get RESOURCE_CATALOG key in
     if \<not> truthy entry then js_throw (''unsupported resource engine: '' @ to_str engine)
     else Inr (jspread (JObj [(''key'', JStr key)]) entry))"

section \<open>Lemmas\<close>

lemma replace_char_idem [simp]:
  "a \<noteq> b \<Longrightarrow> replace_char a b (replace_char a b s) = replace_char a b s"
  by (simp add: replace_char_def)

lemma replace_char_no: "a \<noteq> b \<Longrightarrow> a \<notin> set (replace_char a b s)"
  by (auto simp: replace_char_def)

lemma engine_text_idem [simp]: "engine_text (JStr (engine_text v)) = engine_text v"
proof -
  have low: "str_lower (replace_char CHR ''_'' CHR ''-'' s) = replace_char CHR ''_'' CHR ''-'' (str_lower s)"
    if "str_lower s = s" for s
    using that by (induction s)
      (auto simp: str_lower_def replace_char_def lower_char_def is_upper_def code_of_def)
  define u where "u = str_lower (to_str (jor v (JStr [])))"
  have "engine_text v = replace_char CHR ''_'' CHR ''-'' u" by (simp add: engine_text_def u_def)
  moreover have "str_lower u = u" by (simp add: u_def)
  ultimately show ?thesis by (simp add: engine_text_def low)
qed

lemma alias_targets:
  "\<forall>(names, n) \<in> set engine_aliases. normalizeResourceEngine (JStr n) = n \<and> map_of RESOURCE_CATALOG n \<noteq> None"
  by code_simp

lemma normalizeResourceEngine_cases:
  obtains (listed) names n where "(names, n) \<in> set engine_aliases" "normalizeResourceEngine v = n"
    | (other) "normalizeResourceEngine v = engine_text v"
        "find (\<lambda>(names, _). engine_text v \<in> set names) engine_aliases = None"
proof (cases "find (\<lambda>(names, _). engine_text v \<in> set names) engine_aliases")
  case None
  with other show ?thesis by (simp add: normalizeResourceEngine_def Let_def)
next
  case (Some p)
  then have "p \<in> set engine_aliases" by (metis find_Some_iff nth_mem)
  with Some listed show ?thesis
    by (cases p) (simp add: normalizeResourceEngine_def Let_def)
qed

lemma normalizeResourceEngine_idem:
  "normalizeResourceEngine (JStr (normalizeResourceEngine v)) = normalizeResourceEngine v"
proof (cases rule: normalizeResourceEngine_cases[of v])
  case (listed names n)
  then show ?thesis using alias_targets by fastforce
next
  case other
  then show ?thesis by (simp add: normalizeResourceEngine_def[of "JStr (engine_text v)"] Let_def)
qed

lemma catalog_keys_normal: "\<forall>k \<in> fst ` set RESOURCE_CATALOG. normalizeResourceEngine (JStr k) = k"
  by code_simp

lemma catalog_entry_truthy: "\<forall>(k, v) \<in> set RESOURCE_CATALOG. truthy v"
  by code_simp

section \<open>Properties\<close>

text \<open>\<open>normalizeResourceEngine\<close> is idempotent; \<open>getCatalogEntry\<close> accepts a name exactly when
  its normal form is a key of the catalog (or the name of an inherited member), depends on the normal
  form only, and returns the catalog's entry under its own key.\<close>

theorem getCatalogEntry_normal:
  "normalizeResourceEngine (JStr (normalizeResourceEngine v)) = normalizeResourceEngine v \<and>
   (is_ok (getCatalogEntry v) \<longleftrightarrow> normalizeResourceEngine v \<in> fst ` set RESOURCE_CATALOG \<union> set proto_keys) \<and>
   (map_of RESOURCE_CATALOG (normalizeResourceEngine v) = Some entry \<longrightarrow>
      getCatalogEntry v = Inr (jspread (JObj [(''key'', JStr (normalizeResourceEngine v))]) entry))"
proof (intro conjI)
  let ?k = "normalizeResourceEngine v"
  show "normalizeResourceEngine (JStr ?k) = ?k" by (rule normalizeResourceEngine_idem)
  have t: "truthy x" if "map_of RESOURCE_CATALOG ?k = Some x" for x
    using bspec[OF catalog_entry_truthy map_of_SomeD[OF that]] by simp
  then show "map_of RESOURCE_CATALOG ?k = Some entry \<longrightarrow>
      getCatalogEntry v = Inr (jspread (JObj [(''key'', JStr ?k)]) entry)"
    by (simp add: getCatalogEntry_def table_get_def Let_def)
  show "is_ok (getCatalogEntry v) \<longleftrightarrow> ?k \<in> fst ` set RESOURCE_CATALOG \<union> set proto_keys"
  proof (cases "map_of RESOURCE_CATALOG ?k")
    case None
    then have "?k \<notin> fst ` set RESOURCE_CATALOG" by (simp add: map_of_eq_None_iff)
    with None show ?thesis by (simp add: getCatalogEntry_def table_get_def Let_def)
  next
    case (Some x)
    then have "?k \<in> fst ` set RESOURCE_CATALOG" by (force dest: map_of_SomeD)
    with Some t[OF Some] show ?thesis by (simp add: getCatalogEntry_def table_get_def Let_def)
  qed
qed

theorem getCatalogEntry_normal_witness:
  "is_ok (getCatalogEntry (JStr ''Object_Storage'')) \<and>
   normalizeResourceEngine (JStr ''Object_Storage'') = ''object-storage''"
proof -
  have n: "normalizeResourceEngine (JStr ''Object_Storage'') = ''object-storage''" by code_simp
  moreover have "''object-storage'' \<in> fst ` set RESOURCE_CATALOG" by code_simp
  ultimately show ?thesis
    using getCatalogEntry_normal[of "JStr ''Object_Storage''"] by (simp only: n) blast
qed

end
