(* ===== verification/Secrets.thy ===== *)
theory Secrets
  imports Ids
begin

text \<open>
  \<open>secrets.ts\<close> (which keys are secret, masking of values, the sealed form
  \<open>raibit:v1:aes-256-gcm:iv:tag:text\<close>) and \<open>secret-vault.ts\<close>.
  The primitives of \<open>node:crypto\<close> and the \<open>base64url\<close> codec are a record of functions; what the
  code relies on is \<open>crypto_ok\<close>: decryption undoes encryption under the same key, and
  \<open>base64url\<close> text decodes to what was encoded, has no colon and is empty only for no bytes.
  The initialisation vector drawn by \<open>randomBytes(12)\<close> is an argument.
\<close>

section \<open>Which keys are secret\<close>

definition RSep :: rx where
  "RSep = ROpt (ROneOf ''_-'')"

definition secret_plain_words :: "string list" where
  "secret_plain_words = [''secret'', ''password'', ''token'', ''private'', ''credential'']"

definition secret_word_pairs :: "(string \<times> string) list" where
  "secret_word_pairs = [(''api'', ''key''), (''access'', ''key''), (''database'', ''url''),
     (''connection'', ''url''), (''mongodb'', ''uri''), (''redis'', ''url''), (''mysql'', ''url''),
     (''mariadb'', ''url''), (''postgres'', ''url''), (''postgresql'', ''url'')]"

definition SECRET_KEY_RE :: rx where
  "SECRET_KEY_RE = RAlts (map RLitI secret_plain_words @
     map (\<lambda>(a, b). RSeqs [RLitI a, RSep, RLitI b]) secret_word_pairs @ [RLitI ''dsn''])"

definition COUNT_KEY_RE :: rx where
  "COUNT_KEY_RE = RSeqs [RAlt RBol (ROneOf ''_-''),
     RAlts (map RLitI [''secret'', ''password'', ''token'', ''credential'']), ROpt (RLitI ''s''), RSep,
     RLitI ''count'', REol]"

definition COUNTER_NAME_RE :: rx where
  "COUNTER_NAME_RE = RAlt (RLitI ''secretCount'') (RLitI ''plainCount'')"

definition isSecretKey :: "jsv \<Rightarrow> bool" where
  "isSecretKey key = (let v = to_str (jor key (JStr [])) in
     if rtest COUNT_KEY_RE v \<or> rtest COUNTER_NAME_RE v then False else rtest SECRET_KEY_RE v)"

text \<open>The same test as a search for fixed words in the lower case text, which evaluates fast.\<close>

definition SECRET_WORDS :: "string list" where
  "SECRET_WORDS = secret_plain_words @
     concat (map (\<lambda>(a, b). [a @ b, a @ ''_'' @ b, a @ ''-'' @ b]) secret_word_pairs) @ [''dsn'']"

lemma lower_char_eq: "lower_char d = c \<Longrightarrow> \<not> is_lower c \<Longrightarrow> d = c"
  by (auto simp: lower_char_def is_lower_def is_upper_def code_of_char_of split: if_splits)

lemma rtest_sep_lits:
  "rtest (RSeqs [RLitI a, RSep, RLitI b]) s \<longleftrightarrow>
     rtest (RLitI (a @ b)) s \<or> rtest (RLitI (a @ ''_'' @ b)) s \<or> rtest (RLitI (a @ ''-'' @ b)) s"
proof -
  have seps: "c \<in> set ''_-'' \<Longrightarrow> \<not> is_lower c \<and> \<not> is_upper c" for c
    by (auto simp: is_lower_def is_upper_def code_of_def)
  then have "rmatch (RSeqs [RLitI a, RSep, RLitI b]) (p, q, g) \<noteq> [] \<longleftrightarrow>
     (\<exists>sep \<in> set ([] # map (\<lambda>c. [c]) ''_-''). rmatch (RLitI (a @ sep @ b)) (p, q, g) \<noteq> [])" for p q g
    unfolding RSep_def
  proof (intro rmatch_sep_lits)
    show "lower_char c = c" if "c \<in> set ''_-''" for c
      using seps[OF that] by (simp add: lower_char_def)
    show "d = c" if "c \<in> set ''_-''" "lower_char d = c" for c d
      using seps[OF that(1)] lower_char_eq[OF that(2)] by simp
  qed
  then show ?thesis by (auto simp: rtest_iff)
qed

lemma secret_words: "rtest SECRET_KEY_RE s = list_ex (str_includes (str_lower s)) SECRET_WORDS"
proof -
  have "rtest SECRET_KEY_RE s = list_ex (\<lambda>w. rtest (RLitI w) s) SECRET_WORDS"
  proof -
    have "list_ex (\<lambda>r. rtest r s) (map RLitI ws) = list_ex (\<lambda>w. rtest (RLitI w) s) ws" for ws
      by (induction ws) auto
    moreover have "list_ex (\<lambda>r. rtest r s) (map (\<lambda>(a, b). RSeqs [RLitI a, RSep, RLitI b]) ps) =
        list_ex (\<lambda>w. rtest (RLitI w) s) (concat (map (\<lambda>(a, b). [a @ b, a @ ''_'' @ b, a @ ''-'' @ b]) ps))" for ps
      by (induction ps) (auto simp: rtest_sep_lits)
    ultimately show ?thesis
      by (simp only: SECRET_KEY_RE_def SECRET_WORDS_def rtest_alts list_ex_append list_ex_Cons_iff list_ex_Nil_iff)
  qed
  also have "\<dots> = list_ex (\<lambda>w. str_includes (str_lower s) (str_lower w)) SECRET_WORDS"
    by (simp add: rtest_litI)
  also have "\<dots> = list_ex (str_includes (str_lower s)) SECRET_WORDS"
  proof -
    have "\<forall>w \<in> set SECRET_WORDS. str_lower w = w" by code_simp
    then show ?thesis by (auto simp: list_ex_iff)
  qed
  finally show ?thesis .
qed

lemma isSecretKey_words [code]:
  "isSecretKey key = (let v = to_str (jor key (JStr [])); l = str_lower v in
     if rtest COUNT_KEY_RE v \<or> str_includes l ''secretcount'' \<or> str_includes l ''plaincount'' then False
     else list_ex (str_includes l) SECRET_WORDS)"
proof -
  have "str_lower ''secretCount'' = ''secretcount''" "str_lower ''plainCount'' = ''plaincount''"
    by code_simp+
  then show ?thesis
    by (simp only: isSecretKey_def Let_def COUNTER_NAME_RE_def rtest_alt rtest_litI secret_words)
qed

section \<open>Masking\<close>

definition mask_text :: "string \<Rightarrow> string" where
  "mask_text s = (if length s \<le> 4 then ''****'' else str_prefix 2 s @ ''****'' @ str_last 2 s)"

definition maskSecretValue :: "jsv \<Rightarrow> jsv" where
  "maskSecretValue v = (if v = JNull \<or> v = JUndef then v else JStr (mask_text (to_str v)))"

definition SECRET_VALUE_RE :: rx where
  "SECRET_VALUE_RE = RSeqs [RWordB,
     RAlts [RSeq (RLitI ''postgres'') (ROpt (RLitI ''ql'')), RLitI ''mysql'', RLitI ''mariadb'',
       RSeq (RLitI ''mongodb'') (ROpt (RLitI ''+srv'')), RLitI ''redis'', RLitI ''rediss'',
       RLitI ''nats'', RSeq (RLitI ''amqp'') (ROpt (RLitI ''s'')), RLitI ''s3''],
     RLit ''://'', RPlus (RCls (\<lambda>c. \<not> is_space c \<and> c \<notin> {CHR 0x27, CHR 0x22, CHR '','', CHR '')''}))]"

definition maskSecretLikeString :: "string \<Rightarrow> string" where
  "maskSecretLikeString s = rreplace SECRET_VALUE_RE (\<lambda>g. mask_text (rgroup g 0)) s"

definition masks_here :: "string \<Rightarrow> jsv \<Rightarrow> bool" where
  "masks_here k v = (isSecretKey (JStr k) \<and> v \<noteq> JNull \<and> v \<noteq> JUndef \<and> \<not> typeof_object v)"

text \<open>The walk that \<open>maskSecrets\<close>, \<open>sanitizeLogRecord\<close> and \<open>sanitizeWorkflowValue\<close> all make; they
  differ in what they do to a string.\<close>

fun mask_tree :: "(string \<Rightarrow> string) \<Rightarrow> jsv \<Rightarrow> jsv"
and mask_items :: "(string \<Rightarrow> string) \<Rightarrow> jsv list \<Rightarrow> jsv list"
and mask_fields :: "(string \<Rightarrow> string) \<Rightarrow> (string \<times> jsv) list \<Rightarrow> (string \<times> jsv) list" where
  "mask_tree f (JArr vs) = JArr (mask_items f vs)"
| "mask_tree f (JStr s) = JStr (f s)"
| "mask_tree f (JObj kvs) = JObj (mask_fields f kvs)"
| "mask_tree f v = v"
| "mask_items f [] = []"
| "mask_items f (v # vs) = mask_tree f v # mask_items f vs"
| "mask_fields f [] = []"
| "mask_fields f ((k, v) # kvs) =
     (k, if masks_here k v then maskSecretValue v else mask_tree f v) # mask_fields f kvs"

definition maskSecrets :: "jsv \<Rightarrow> jsv" where
  "maskSecrets v = mask_tree maskSecretLikeString v"

section \<open>Sealing under AES-256-GCM\<close>

record crypto =
  sha256 :: "string \<Rightarrow> string"
  gcm_encrypt :: "string \<Rightarrow> string \<Rightarrow> string \<Rightarrow> string \<times> string"
  gcm_decrypt :: "string \<Rightarrow> string \<Rightarrow> string \<Rightarrow> string \<Rightarrow> string option"
  b64url :: "string \<Rightarrow> string"
  unb64url :: "string \<Rightarrow> string"

definition crypto_ok :: "crypto \<Rightarrow> bool" where
  "crypto_ok c =
     ((\<forall>k iv m. gcm_decrypt c k iv (snd (gcm_encrypt c k iv m)) (fst (gcm_encrypt c k iv m)) = Some m) \<and>
      (\<forall>k iv m. snd (gcm_encrypt c k iv m) \<noteq> []) \<and>
      (\<forall>k iv m. fst (gcm_encrypt c k iv m) = [] \<longleftrightarrow> m = []) \<and>
      (\<forall>b. unb64url c (b64url c b) = b) \<and> (\<forall>b. b64url c b = [] \<longleftrightarrow> b = []) \<and>
      (\<forall>b. CHR '':'' \<notin> set (b64url c b)))"

definition LOCAL_DEV_SECRET_KEY :: string where
  "LOCAL_DEV_SECRET_KEY = ''raibitserver-local-development-secret-key-for-local-e2e-only''"

definition SEALED_PREFIX :: string where
  "SEALED_PREFIX = ''raibit:v1:aes-256-gcm''"

definition configured_key :: "jsv \<Rightarrow> jsv" where
  "configured_key env = jor (jget env ''ENCRYPTION_KEY'') (jget env ''RAIBITSERVER_SECRET_ENCRYPTION_KEY'')"

definition is_production :: "jsv \<Rightarrow> bool" where
  "is_production env = (str_lower (to_str (jor (jget env ''NODE_ENV'') (JStr []))) = ''production'')"

definition secretKeySource :: "jsv \<Rightarrow> string res" where
  "secretKeySource env = (let configured = configured_key env in
     if truthy configured \<and> length (to_str configured) \<ge> 32 then Inr ''runtime''
     else if is_production env then js_throw
       ''RAIBITSERVER_SECRET_ENCRYPTION_KEY or ENCRYPTION_KEY with at least 32 characters is required in production''
     else Inr ''local-dev'')"

definition secretCipherKey :: "crypto \<Rightarrow> jsv \<Rightarrow> string res" where
  "secretCipherKey c env = rbind (secretKeySource env) (\<lambda>src.
     Inr (sha256 c (if src = ''runtime'' then to_str (configured_key env) else LOCAL_DEV_SECRET_KEY)))"

definition sealSecretValue :: "crypto \<Rightarrow> string \<Rightarrow> jsv \<Rightarrow> jsv \<Rightarrow> jsv res" where
  "sealSecretValue c iv v env = (let text = to_str (jnullish v (JStr [])) in
     rbind (secretCipherKey c env) (\<lambda>key.
       let (encrypted, tag) = gcm_encrypt c key iv text in
       Inr (JObj [
         (''sealedValue'', JStr (str_join '':'' [SEALED_PREFIX, b64url c iv, b64url c tag, b64url c encrypted])),
         (''valueMasked'', maskSecretValue (JStr text)),
         (''encrypted'', JBool True),
         (''keySource'', JStr (if truthy (configured_key env) then ''runtime'' else ''local-dev''))])))"

text \<open>The \<open>i\<close>-th element of a destructured array, \<open>undefined\<close> beyond its end.\<close>

definition part :: "string list \<Rightarrow> nat \<Rightarrow> jsv" where
  "part ps i = (if i < length ps then JStr (ps ! i) else JUndef)"

definition decrypt_parts :: "crypto \<Rightarrow> string res \<Rightarrow> string \<Rightarrow> string \<Rightarrow> string \<Rightarrow> string res" where
  "decrypt_parts c key iv tag text = rbind key (\<lambda>k.
     case gcm_decrypt c k (unb64url c iv) (unb64url c tag) (unb64url c text) of
       Some m \<Rightarrow> Inr m
     | None \<Rightarrow> js_throw ''Unsupported state or unable to authenticate data'')"

definition unsealSecretValue :: "crypto \<Rightarrow> jsv \<Rightarrow> jsv \<Rightarrow> string res" where
  "unsealSecretValue c sealed env = (let ps = str_split CHR '':'' (to_str (jor sealed (JStr []))) in
     if to_str (part ps 0) @ '':'' @ to_str (part ps 1) @ '':'' @ to_str (part ps 2) \<noteq> SEALED_PREFIX
        \<or> \<not> truthy (part ps 3) \<or> \<not> truthy (part ps 4) \<or> \<not> truthy (part ps 5)
     then js_throw ''unsupported sealed secret format''
     else decrypt_parts c (secretCipherKey c env)
       (to_str (part ps 3)) (to_str (part ps 4)) (to_str (part ps 5)))"

section \<open>secret-vault.ts\<close>

definition DEV_KEY :: string where
  "DEV_KEY = ''raibitserver-local-dev-encryption-key-32b''"

text \<open>\<open>env\<close> is \<open>process.env\<close>; \<open>secret\<close> is the argument, whose default applies to \<open>undefined\<close>.\<close>

definition keyMaterial :: "crypto \<Rightarrow> jsv \<Rightarrow> jsv \<Rightarrow> string res" where
  "keyMaterial c env arg = (let
     configured = configured_key env;
     secret = jdefault arg (jor configured (JStr DEV_KEY));
     usingRuntimeDefault = (\<not> truthy secret \<or> secret = JStr DEV_KEY \<or> strict_eq secret configured)
   in if usingRuntimeDefault \<and> (\<not> truthy configured \<or> length (to_str configured) < 32) \<and> is_production env
      then js_throw
        ''RAIBITSERVER_SECRET_ENCRYPTION_KEY or ENCRYPTION_KEY with at least 32 characters is required in production''
      else Inr (sha256 c (to_str secret)))"

definition sealSecret :: "crypto \<Rightarrow> string \<Rightarrow> jsv \<Rightarrow> jsv \<Rightarrow> jsv \<Rightarrow> string res" where
  "sealSecret c iv env v options = rbind (keyMaterial c env (jget options ''encryptionKey'')) (\<lambda>key.
     let (ciphertext, tag) = gcm_encrypt c key iv (to_str (jnullish v (JStr []))) in
     Inr (str_join '':'' [''aes256gcm'', ''v1'', b64url c iv, b64url c tag, b64url c ciphertext]))"

definition openSecret :: "crypto \<Rightarrow> jsv \<Rightarrow> jsv \<Rightarrow> jsv \<Rightarrow> string res" where
  "openSecret c env sealed options = (let ps = str_split CHR '':'' (to_str (jor sealed (JStr []))) in
     if part ps 0 \<noteq> JStr ''aes256gcm'' \<or> part ps 1 \<noteq> JStr ''v1''
     then js_throw ''unsupported sealed secret format''
     else decrypt_parts c (keyMaterial c env (jget options ''encryptionKey''))
       (to_str (part ps 2)) (to_str (part ps 3)) (to_str (part ps 4)))"

definition publicSecretRecord :: "jsv \<Rightarrow> jsv" where
  "publicSecretRecord row = JObj [
     (''id'', jget row ''id''), (''scopeType'', jget row ''scopeType''),
     (''scopeId'', jget row ''scopeId''), (''key'', jget row ''key''),
     (''valueMasked'', jor (jget row ''valueMasked'') (maskSecretValue (jget row ''value''))),
     (''metadata'', jor (jget row ''metadata'') (JObj [])),
     (''createdAt'', jget row ''createdAt''), (''updatedAt'', jget row ''updatedAt'')]"

section \<open>Lemmas on masking\<close>

lemma mask_text_length: "length (mask_text s) \<le> 8"
  by (simp add: mask_text_def str_prefix_def str_last_def)

lemma mask_text_idem [simp]: "mask_text (mask_text s) = mask_text s"
proof (cases "length s \<le> 4")
  case False
  let ?a = "take 2 s" and ?b = "drop (length s - 2) s"
  have m: "mask_text s = ?a @ ''****'' @ ?b" "length ?a = 2" "length ?b = 2"
    using False by (simp_all add: mask_text_def str_prefix_def str_last_def)
  then show ?thesis
    by (simp add: mask_text_def str_prefix_def str_last_def)
qed (simp add: mask_text_def)

lemma maskSecretValue_idem [simp]: "maskSecretValue (maskSecretValue v) = maskSecretValue v"
  by (simp add: maskSecretValue_def)

text \<open>At most four characters of the value reach the mask, two from each end.\<close>

lemma mask_text_hides:
  "mask_text s = ''****'' \<or> (\<exists>a b. length a = 2 \<and> length b = 2 \<and> mask_text s = a @ ''****'' @ b)"
proof (cases "length s \<le> 4")
  case False
  then have "length (take 2 s) = 2 \<and> length (drop (length s - 2) s) = 2 \<and>
      mask_text s = take 2 s @ ''****'' @ drop (length s - 2) s"
    by (simp add: mask_text_def str_prefix_def str_last_def)
  then show ?thesis by blast
qed (simp add: mask_text_def)

text \<open>A mask, as a reader of a log knows it: four stars, alone or between two characters on each side.\<close>

definition mask_form :: "string \<Rightarrow> bool" where
  "mask_form s = (s = ''****'' \<or> length s = 8 \<and> take 4 (drop 2 s) = ''****'')"

definition scalar :: "jsv \<Rightarrow> bool" where
  "scalar v = (case v of JBool _ \<Rightarrow> True | JNum _ \<Rightarrow> True | JStr _ \<Rightarrow> True | JHost _ \<Rightarrow> True | _ \<Rightarrow> False)"

definition masked_value :: "jsv \<Rightarrow> bool" where
  "masked_value v = (case v of JStr s \<Rightarrow> mask_form s | _ \<Rightarrow> \<not> scalar v)"

text \<open>No scalar below a secret key, at any depth, is anything but a mask. The elements of an array below a
  secret key have no key of their own, so they are not among these scalars.\<close>

fun secrets_masked :: "jsv \<Rightarrow> bool"
and items_masked :: "jsv list \<Rightarrow> bool"
and fields_masked :: "(string \<times> jsv) list \<Rightarrow> bool" where
  "secrets_masked (JArr vs) = items_masked vs"
| "secrets_masked (JObj kvs) = fields_masked kvs"
| "secrets_masked _ = True"
| "items_masked [] = True"
| "items_masked (v # vs) = (secrets_masked v \<and> items_masked vs)"
| "fields_masked [] = True"
| "fields_masked ((k, v) # kvs) =
     ((isSecretKey (JStr k) \<longrightarrow> masked_value v) \<and> secrets_masked v \<and> fields_masked kvs)"

text \<open>Two values that differ only in scalars below secret keys, and there agree on the two characters at each
  end of a text of more than four characters\<close>

definition visible_ends :: "string \<Rightarrow> (string \<times> string) option" where
  "visible_ends s = (if length s \<le> 4 then None else Some (take 2 s, drop (length s - 2) s))"

fun same_but_secrets :: "jsv \<Rightarrow> jsv \<Rightarrow> bool"
and same_items :: "jsv list \<Rightarrow> jsv list \<Rightarrow> bool"
and same_fields :: "(string \<times> jsv) list \<Rightarrow> (string \<times> jsv) list \<Rightarrow> bool" where
  "same_but_secrets (JArr vs) w = (case w of JArr ws \<Rightarrow> same_items vs ws | _ \<Rightarrow> False)"
| "same_but_secrets (JObj kvs) w = (case w of JObj lws \<Rightarrow> same_fields kvs lws | _ \<Rightarrow> False)"
| "same_but_secrets v w = (v = w)"
| "same_items [] ws = (ws = [])"
| "same_items (v # vs) ws = (case ws of [] \<Rightarrow> False | w # ws' \<Rightarrow> same_but_secrets v w \<and> same_items vs ws')"
| "same_fields [] lws = (lws = [])"
| "same_fields ((k, v) # kvs) lws = (case lws of [] \<Rightarrow> False | (l, w) # lws' \<Rightarrow> k = l \<and>
     (if isSecretKey (JStr k) \<and> scalar v \<and> scalar w then visible_ends (to_str v) = visible_ends (to_str w)
      else same_but_secrets v w) \<and> same_fields kvs lws')"

lemma masks_here_scalar: "masks_here k v \<longleftrightarrow> isSecretKey (JStr k) \<and> scalar v"
  by (cases v) (simp_all add: masks_here_def scalar_def typeof_object_def)

lemma mask_text_form: "mask_form (mask_text s)"
  using mask_text_hides[of s] by (auto simp: mask_form_def)

lemma masked_maskSecretValue [simp]: "masked_value (maskSecretValue v)"
  by (simp add: maskSecretValue_def masked_value_def scalar_def mask_text_form)

lemma maskSecretValue_scalar: "masks_here k v \<Longrightarrow> secrets_masked (maskSecretValue v)"
  by (simp add: maskSecretValue_def)

lemma mask_text_visible: "visible_ends s = visible_ends t \<Longrightarrow> mask_text s = mask_text t"
  by (auto simp: visible_ends_def mask_text_def str_prefix_def str_last_def split: if_splits)

lemma mask_visible:
  "scalar v \<Longrightarrow> scalar w \<Longrightarrow> visible_ends (to_str v) = visible_ends (to_str w) \<Longrightarrow> maskSecretValue v = maskSecretValue w"
  using mask_text_visible[of "to_str v" "to_str w"] by (auto simp: maskSecretValue_def scalar_def)

lemma same_scalar: "same_but_secrets v w \<Longrightarrow> scalar v \<longleftrightarrow> scalar w"
  by (cases v; cases w) (simp_all add: scalar_def)

lemma mask_tree_type: "typeof_object (mask_tree f v) = typeof_object v"
  "(mask_tree f v = JNull) = (v = JNull)" "(mask_tree f v = JUndef) = (v = JUndef)"
  by (cases v; simp add: typeof_object_def)+

lemma masked_mask_tree: "\<not> scalar v \<Longrightarrow> masked_value (mask_tree f v)"
  by (cases v) (simp_all add: masked_value_def scalar_def)

lemma secrets_masked_mask_tree:
  "secrets_masked (mask_tree f v)" "items_masked (mask_items f vs)" "fields_masked (mask_fields f kvs)"
  by (induction f v and f vs and f kvs rule: mask_tree_mask_items_mask_fields.induct)
    (auto simp: maskSecretValue_scalar masks_here_scalar masked_mask_tree)

text \<open>The mask of a value depends on nothing else of its secrets.\<close>

lemma mask_tree_same:
  "same_but_secrets v w \<Longrightarrow> mask_tree f v = mask_tree f w" "same_items vs ws \<Longrightarrow> mask_items f vs = mask_items f ws"
  "same_fields kvs lws \<Longrightarrow> mask_fields f kvs = mask_fields f lws"
  by (induction v w and vs ws and kvs lws rule: same_but_secrets_same_items_same_fields.induct)
    (auto simp: masks_here_scalar dest: same_scalar mask_visible split: jsv.split_asm list.split_asm if_split_asm)

text \<open>Masking keeps the structure: the same keys in the same order, arrays of the same length.\<close>

lemma keys_mask_fields: "map fst (mask_fields f kvs) = map fst kvs"
  by (induction kvs) auto

lemma length_mask_items [simp]: "length (mask_items f vs) = length vs"
  by (induction vs) auto

lemma jget_mask_fields:
  "jget (mask_tree f (JObj kvs)) k =
     (if masks_here k (jget (JObj kvs) k) then maskSecretValue (jget (JObj kvs) k)
      else mask_tree f (jget (JObj kvs) k))"
  by (induction kvs) (auto simp: masks_here_def)

section \<open>Lemmas on sealing\<close>

lemma split_five:
  assumes "CHR '':'' \<notin> set a" "CHR '':'' \<notin> set b" "CHR '':'' \<notin> set d" "CHR '':'' \<notin> set e" "CHR '':'' \<notin> set f"
  shows "str_split CHR '':'' (str_join '':'' [a, b, d, e, f]) = [a, b, d, e, f]"
  using assms by (simp add: split_cons_sep split_no_sep)

lemma decrypt_parts_sealed:
  assumes "crypto_ok c" "gcm_encrypt c key iv m = (ct, tag)"
  shows "decrypt_parts c (Inr key) (b64url c iv) (b64url c tag) (b64url c ct) = Inr m"
proof -
  have "gcm_decrypt c key iv tag ct = Some m"
    using assms unfolding crypto_ok_def by (metis fst_conv snd_conv)
  with assms(1) show ?thesis by (simp add: decrypt_parts_def crypto_ok_def)
qed

lemma sealSecretValue_ok:
  "sealSecretValue c iv v env = Inr r \<Longrightarrow>
   \<exists>key ct tag. secretCipherKey c env = Inr key \<and>
     gcm_encrypt c key iv (to_str (jnullish v (JStr []))) = (ct, tag) \<and>
     jget r ''sealedValue'' =
       JStr (str_join '':'' [SEALED_PREFIX, b64url c iv, b64url c tag, b64url c ct])"
  by (auto simp: sealSecretValue_def rbind_Inr_iff split_beta Let_def) (metis prod.collapse)

lemma unseal_parts:
  assumes "iv \<noteq> []" "tag \<noteq> []" "ct \<noteq> []" "crypto_ok c"
  shows "unsealSecretValue c (JStr (str_join '':'' [SEALED_PREFIX, b64url c iv, b64url c tag, b64url c ct])) env =
    decrypt_parts c (secretCipherKey c env) (b64url c iv) (b64url c tag) (b64url c ct)"
proof -
  have no: "CHR '':'' \<notin> set (b64url c b)" for b using assms(4) by (simp add: crypto_ok_def)
  have "str_split CHR '':'' (str_join '':'' [SEALED_PREFIX, b64url c iv, b64url c tag, b64url c ct]) =
      [''raibit'', ''v1'', ''aes-256-gcm'', b64url c iv, b64url c tag, b64url c ct]"
    by (simp add: SEALED_PREFIX_def split_cons_sep split_no_sep no)
  moreover have "b64url c b = [] \<longleftrightarrow> b = []" for b using assms(4) by (simp add: crypto_ok_def)
  moreover have "str_join '':'' [SEALED_PREFIX, b64url c iv, b64url c tag, b64url c ct] \<noteq> []"
    by (simp add: SEALED_PREFIX_def)
  ultimately show ?thesis
    using assms by (simp add: unsealSecretValue_def part_def Let_def SEALED_PREFIX_def del: str_join.simps)
qed

lemma unseal_empty:
  assumes "crypto_ok c"
  shows "unsealSecretValue c (JStr (str_join '':'' [SEALED_PREFIX, b64url c iv, b64url c tag, b64url c []])) env =
    js_throw ''unsupported sealed secret format''"
proof -
  have no: "CHR '':'' \<notin> set (b64url c b)" for b using assms by (simp add: crypto_ok_def)
  have "b64url c [] = []" using assms by (simp add: crypto_ok_def)
  then have "str_split CHR '':'' (str_join '':'' [SEALED_PREFIX, b64url c iv, b64url c tag, b64url c []]) =
      [''raibit'', ''v1'', ''aes-256-gcm'', b64url c iv, b64url c tag, []]"
    by (simp add: SEALED_PREFIX_def split_cons_sep split_no_sep no)
  moreover have "str_join '':'' [SEALED_PREFIX, b64url c iv, b64url c tag, b64url c []] \<noteq> []"
    by (simp add: SEALED_PREFIX_def)
  ultimately show ?thesis
    by (simp add: unsealSecretValue_def part_def Let_def del: str_join.simps)
qed

section \<open>A concrete instance of the primitives\<close>

definition hex_text :: "string \<Rightarrow> string" where
  "hex_text b = concat (map (\<lambda>c. [char_of (97 + code_of c div 16), char_of (97 + code_of c mod 16)]) b)"

fun unhex_text :: "string \<Rightarrow> string" where
  "unhex_text (x # y # s) = char_of ((code_of x - 97) * 16 + (code_of y - 97)) # unhex_text s"
| "unhex_text _ = []"

definition sample_crypto :: crypto where
  "sample_crypto = \<lparr>sha256 = (\<lambda>s. s),
     gcm_encrypt = (\<lambda>k iv m. (rev m, ''t'' @ k @ iv)),
     gcm_decrypt = (\<lambda>k iv tag ct. if tag = ''t'' @ k @ iv then Some (rev ct) else None),
     b64url = hex_text, unb64url = unhex_text\<rparr>"

lemma code_of_less: "code_of c < 256"
  unfolding code_of_def by (metis of_char_mod_256 mod_less_divisor zero_less_numeral)

lemma unhex_hex: "unhex_text (hex_text b) = b"
proof (induction b)
  case (Cons c b)
  have "code_of c div 16 < 16" using code_of_less[of c] by (simp add: less_mult_imp_div_less)
  moreover have "code_of c mod 16 < 16" by simp
  moreover have "char_of (code_of c) = c" by (simp add: code_of_def)
  ultimately show ?case
    using Cons by (simp add: hex_text_def code_of_char_of)
qed (simp add: hex_text_def)

lemma colon_not_hex: "CHR '':'' \<notin> set (hex_text b)"
proof -
  have "\<forall>x \<in> set (hex_text b). code_of x \<noteq> 58"
  proof (induction b)
    case (Cons c b)
    have "code_of c div 16 < 16" using code_of_less[of c] by (simp add: less_mult_imp_div_less)
    moreover have "code_of c mod 16 < 16" by simp
    ultimately show ?case using Cons by (simp add: hex_text_def code_of_char_of)
  qed (simp add: hex_text_def)
  moreover have "code_of CHR '':'' = 58" by (simp add: code_of_def)
  ultimately show ?thesis by blast
qed

lemma sample_crypto_ok: "crypto_ok sample_crypto"
proof -
  have "hex_text b = [] \<longleftrightarrow> b = []" for b by (cases b) (simp_all add: hex_text_def)
  then show ?thesis
    by (simp add: crypto_ok_def sample_crypto_def unhex_hex colon_not_hex)
qed

section \<open>Properties\<close>

definition sample_secrets :: "string \<Rightarrow> jsv" where
  "sample_secrets password = JObj [(''port'', jint 5432), (''nested'', JArr [JObj [(''dbPassword'', JStr password)]])]"

text \<open>C22: After \<open>maskSecrets\<close> every scalar stored under a secret key, at any depth of objects and arrays, is
  four stars with at most two characters on each side; and the result is the same for any two inputs that
  differ only in such scalars and agree on the two characters at each end, if these are longer than four. The
  elements of an array under a secret key are not masked.\<close>

theorem maskSecrets_masks:
  assumes "same_but_secrets v w"
  shows "secrets_masked (maskSecrets v) \<and> maskSecrets v = maskSecrets w"
  using assms by (simp add: maskSecrets_def secrets_masked_mask_tree mask_tree_same(1)[OF assms])

theorem maskSecrets_masks_witness:
  "maskSecrets (sample_secrets ''hunter22'') = maskSecrets (sample_secrets ''hu-other-secret-22'')"
proof -
  have "same_but_secrets (sample_secrets ''hunter22'') (sample_secrets ''hu-other-secret-22'')" by code_simp
  from maskSecrets_masks[OF this] show ?thesis by (rule conjunct2)
qed

text \<open>C28: a value sealed by \<open>sealSecretValue\<close> is opened by \<open>unsealSecretValue\<close> in the same
  environment to the text that was sealed, provided it is not the empty text; the sealed empty text
  is refused as an unsupported format.\<close>

theorem seal_unseal:
  assumes "crypto_ok c" "iv \<noteq> []" "sealSecretValue c iv v env = Inr r"
  shows "unsealSecretValue c (jget r ''sealedValue'') env =
    (if to_str (jnullish v (JStr [])) \<noteq> [] then Inr (to_str (jnullish v (JStr [])))
     else js_throw ''unsupported sealed secret format'')"
proof -
  let ?m = "to_str (jnullish v (JStr []))"
  obtain key ct tag where r: "secretCipherKey c env = Inr key" "gcm_encrypt c key iv ?m = (ct, tag)"
    "jget r ''sealedValue'' = JStr (str_join '':'' [SEALED_PREFIX, b64url c iv, b64url c tag, b64url c ct])"
    using sealSecretValue_ok[OF assms(3)] by blast
  have tag: "tag \<noteq> []" and ct: "ct = [] \<longleftrightarrow> ?m = []"
    using assms(1) r(2) unfolding crypto_ok_def by (metis fst_conv snd_conv)+
  show ?thesis
  proof (cases "?m = []")
    case True
    then show ?thesis using ct r(3) unseal_empty[OF assms(1)] by simp
  next
    case False
    then show ?thesis
      using ct unseal_parts[OF assms(2) tag _ assms(1)] decrypt_parts_sealed[OF assms(1) r(2)] r by simp
  qed
qed

theorem seal_unseal_witness:
  "unsealSecretValue sample_crypto
     (jget (projr (sealSecretValue sample_crypto ''iv'' (JStr ''pw'') (JObj []))) ''sealedValue'') (JObj []) =
   Inr ''pw''"
proof -
  have "sealSecretValue sample_crypto ''iv'' (JStr ''pw'') (JObj []) =
      Inr (projr (sealSecretValue sample_crypto ''iv'' (JStr ''pw'') (JObj [])))"
    by code_simp
  from seal_unseal[OF sample_crypto_ok _ this] show ?thesis
    by (simp add: jnullish_def is_nullish_def)
qed

text \<open>\<open>openSecret\<close> returns the text \<open>sealSecret\<close> was given under the same environment and
  options, the empty text included.\<close>

theorem open_sealed_secret:
  assumes "crypto_ok c" "sealSecret c iv env v options = Inr sealed"
  shows "openSecret c env (JStr sealed) options = Inr (to_str (jnullish v (JStr [])))"
proof -
  let ?m = "to_str (jnullish v (JStr []))"
  obtain key ct tag where r: "keyMaterial c env (jget options ''encryptionKey'') = Inr key"
    "gcm_encrypt c key iv ?m = (ct, tag)"
    "sealed = str_join '':'' [''aes256gcm'', ''v1'', b64url c iv, b64url c tag, b64url c ct]"
    using assms(2) by (auto simp: sealSecret_def rbind_Inr_iff split_beta Let_def) (metis prod.collapse)
  have no: "CHR '':'' \<notin> set (b64url c b)" for b using assms(1) by (simp add: crypto_ok_def)
  have "str_split CHR '':'' sealed = [''aes256gcm'', ''v1'', b64url c iv, b64url c tag, b64url c ct]"
    unfolding r(3) by (rule split_five) (simp_all add: no)
  moreover have "sealed \<noteq> []" by (simp add: r(3))
  ultimately show ?thesis
    using r(1) decrypt_parts_sealed[OF assms(1) r(2)]
    by (simp add: openSecret_def part_def Let_def)
qed

theorem open_sealed_secret_witness:
  "openSecret sample_crypto (JObj []) (JStr (projr (sealSecret sample_crypto ''iv'' (JObj []) (JStr ''pw'') JUndef)))
     JUndef = Inr ''pw''"
proof -
  have "sealSecret sample_crypto ''iv'' (JObj []) (JStr ''pw'') JUndef =
      Inr (projr (sealSecret sample_crypto ''iv'' (JObj []) (JStr ''pw'') JUndef))"
    by code_simp
  from open_sealed_secret[OF sample_crypto_ok this] show ?thesis
    by (simp add: jnullish_def is_nullish_def)
qed

end
