(* ===== verification/ResourceSanitizer.thy ===== *)
theory ResourceSanitizer
  imports Secrets
begin

text \<open>
  \<open>resource-sanitizer.ts\<close>: the keys a tenant may set on a resource, the test for keys that carry
  connection data, the walk that removes them at every depth, and the paths of provider owned
  SQLite files. \<open>path.resolve\<close> and \<open>path.join\<close> are the POSIX ones over a working directory \<open>cwd\<close>.
\<close>

definition SAFE_RESOURCE_KEYS :: "string list" where
  "SAFE_RESOURCE_KEYS = [''projectId'', ''name'', ''slug'', ''type'', ''engine'', ''provider'', ''plan'',
     ''region'', ''version'', ''status'', ''storageMb'', ''storageGb'', ''databaseName'', ''database'',
     ''username'', ''bucket'', ''collection'', ''topic'', ''backup'', ''desiredSpec'']"

definition BLOCKED_CONNECTION_KEYS :: "string list" where
  "BLOCKED_CONNECTION_KEYS = [''providerconnection'', ''providercredentials'', ''providercredential'',
     ''connection'', ''credentials'', ''credential'', ''connectionurl'', ''connectionsecretname'',
     ''connectionstring'', ''dsn'', ''databaseurl'', ''databaseuri'', ''dburl'', ''dburi'', ''pgurl'', ''pguri'',
     ''pgdsn'', ''pgconnectionstring'', ''pgconnectionurl'', ''pgconnectionuri'', ''jdbcurl'', ''odbcurl'',
     ''postgresurl'', ''postgresqlurl'', ''postgresuri'', ''postgresqluri'', ''sqlitepath'', ''mysqlurl'',
     ''mysqluri'', ''mariadburl'', ''mariadburi'', ''mongodburi'', ''mongouri'', ''mongoconnectionuri'',
     ''redisurl'', ''redisuri'', ''valkeyurl'', ''valkeyuri'', ''url'', ''uri'', ''password'', ''token'', ''secret'',
     ''apikey'', ''accesskey'', ''secretkey'']"

definition connection_prefixes :: "string list" where
  "connection_prefixes = [''database'', ''db'', ''postgres'', ''postgresql'', ''mysql'', ''mariadb'', ''mongo'',
     ''mongodb'', ''redis'', ''valkey'', ''sqlite'', ''jdbc'', ''odbc'']"

definition provider_prefixes :: "string list" where
  "provider_prefixes = [''database'', ''db'', ''pg'', ''postgres'', ''postgresql'', ''mysql'', ''mariadb'', ''mongo'',
     ''mongodb'', ''redis'', ''valkey'', ''sqlite'', ''jdbc'', ''odbc'']"

definition connection_suffixes :: "string list" where
  "connection_suffixes = [''url'', ''uri'', ''dsn'', ''string'', ''connstr'', ''connectionstring'']"

definition CONNECTION_PREFIX_RE :: rx where
  "CONNECTION_PREFIX_RE = RSeqs [RAlts (RBol # map RLit connection_prefixes), RLit ''connection'']"

definition CONNECTION_SUFFIX_RE :: rx where
  "CONNECTION_SUFFIX_RE = RSeqs [RAlts (map RLit connection_suffixes), REol]"

definition PROVIDER_PREFIX_RE :: rx where
  "PROVIDER_PREFIX_RE = RSeqs [RBol, RAlts (map RLit provider_prefixes)]"

definition CONNECTION_RE :: rx where
  "CONNECTION_RE = RSeqs [RBol, RLit ''connection'', RStar (RNoneOf [CHR 0x0A, CHR 0x0D]),
     RAlts (map RLit [''url'', ''uri'', ''dsn'', ''string'']), REol]"

definition alnum :: "char \<Rightarrow> bool" where
  "alnum c = (is_upper c \<or> is_lower c \<or> is_digit c)"

definition isBlockedConnectionKey :: "string \<Rightarrow> bool" where
  "isBlockedConnectionKey raw = (let normalized = str_lower (filter alnum raw) in
     if normalized \<in> set BLOCKED_CONNECTION_KEYS \<or> isSecretKey (JStr raw) \<or> isSecretKey (JStr normalized) then True
     else (let
       hasConnectionPrefix = (rtest CONNECTION_PREFIX_RE normalized \<or> starts_with normalized ''connection'');
       hasConnectionSuffix = rtest CONNECTION_SUFFIX_RE normalized;
       hasProviderPrefix = rtest PROVIDER_PREFIX_RE normalized
     in (hasConnectionPrefix \<and> hasConnectionSuffix) \<or> (hasProviderPrefix \<and> hasConnectionSuffix) \<or>
        rtest CONNECTION_RE normalized))"

fun sanitizeResourceValue :: "jsv \<Rightarrow> jsv"
and sanitize_res_items :: "jsv list \<Rightarrow> jsv list"
and sanitize_res_fields :: "(string \<times> jsv) list \<Rightarrow> (string \<times> jsv) list" where
  "sanitizeResourceValue (JArr vs) = JArr (sanitize_res_items vs)"
| "sanitizeResourceValue (JObj kvs) = JObj (sanitize_res_fields kvs)"
| "sanitizeResourceValue v = v"
| "sanitize_res_items [] = []"
| "sanitize_res_items (v # vs) = sanitizeResourceValue v # sanitize_res_items vs"
| "sanitize_res_fields [] = []"
| "sanitize_res_fields ((k, v) # kvs) =
     (if isBlockedConnectionKey k then sanitize_res_fields kvs
      else (k, sanitizeResourceValue v) # sanitize_res_fields kvs)"

definition sanitizeTenantResourceInput :: "jsv \<Rightarrow> jsv" where
  "sanitizeTenantResourceInput input = JObj (map (\<lambda>(k, v). (k, sanitizeResourceValue v))
     (filter (\<lambda>(k, v). k \<in> set SAFE_RESOURCE_KEYS \<and> \<not> isBlockedConnectionKey k) (entries input)))"

section \<open>Provider owned SQLite files\<close>

text \<open>The segments of an absolute path, with \<open>.\<close> and \<open>..\<close> resolved.\<close>

definition push_segment :: "string \<Rightarrow> string list \<Rightarrow> string list" where
  "push_segment seg acc = (if seg = [] \<or> seg = ''.'' then acc
     else if seg = ''..'' then butlast acc else acc @ [seg])"

definition path_segments :: "string \<Rightarrow> string list" where
  "path_segments p = fold push_segment (str_split CHR ''/'' p) []"

definition path_text :: "string list \<Rightarrow> string" where
  "path_text segs = ''/'' @ str_join ''/'' segs"

definition path_resolve :: "string \<Rightarrow> string \<Rightarrow> string" where
  "path_resolve cwd p = path_text (path_segments (if starts_with p ''/'' then p else cwd @ ''/'' @ p))"

definition providerOwnedSqliteRoot :: "string \<Rightarrow> string" where
  "providerOwnedSqliteRoot cwd = path_resolve cwd ''.raibitserver-work/sqlite''"

definition file_char :: "char \<Rightarrow> char" where
  "file_char c = (if alnum c \<or> c \<in> set ''_.-'' then c else CHR ''-'')"

definition providerOwnedSqlitePath :: "string \<Rightarrow> jsv \<Rightarrow> string" where
  "providerOwnedSqlitePath cwd resourceId = (let
     cut = str_prefix 120 (map file_char (to_str (jor resourceId (JStr ''resource''))));
     name = (if cut = [] then ''resource'' else cut)
   in path_text (path_segments (providerOwnedSqliteRoot cwd @ ''/'' @ name @ ''.sqlite'')))"

definition isProviderOwnedSqlitePath :: "string \<Rightarrow> string \<Rightarrow> bool" where
  "isProviderOwnedSqlitePath cwd candidate = (if candidate = [] \<or> candidate = '':memory:'' then True
     else (let resolved = path_resolve cwd candidate; base = providerOwnedSqliteRoot cwd in
       resolved = base \<or> starts_with resolved (base @ ''/'')))"

section \<open>The key test as a search for words\<close>

lemma rmatch_alts_lit:
  "st \<in> set (rmatch (RAlts (map RLit ws)) (p, q, g)) \<longleftrightarrow>
     (\<exists>w \<in> set ws. prefix w q \<and> st = (rev w @ p, drop (length w) q, g))"
  by (induction ws) (auto simp: RAlts_def rmatch_lit)

lemma suffix_test: "rtest (RSeqs [RAlts (map RLit ws), REol]) s \<longleftrightarrow> list_ex (ends_with s) ws"
proof -
  have "rmatch (RSeqs [RAlts (map RLit ws), REol]) (p, q, g) \<noteq> [] \<longleftrightarrow> q \<in> set ws" for p q g
    unfolding RSeqs_def list.map foldr.simps comp_apply rmatch_seq_iff
    by (auto simp: rmatch_alts_lit Bex_def prefix_def some_state split: if_splits)
  then show ?thesis by (auto simp: rtest_iff list_ex_iff ends_with_def suffix_def)
qed

lemma prefix_test: "rtest (RSeqs [RBol, RAlts (map RLit ws)]) s \<longleftrightarrow> list_ex (starts_with s) ws"
proof -
  have "rmatch (RSeq (RAlts (map RLit ws)) REps) ([], s, []) \<noteq> [] \<longleftrightarrow> list_ex (starts_with s) ws"
    unfolding rmatch_seq_iff by (auto simp: rmatch_alts_lit Bex_def list_ex_iff starts_with_def)
  then show ?thesis by (simp add: RSeqs_def rtest_bol)
qed

lemma connection_prefix_test:
  "rtest CONNECTION_PREFIX_RE s \<longleftrightarrow> starts_with s ''connection'' \<or>
     list_ex (\<lambda>w. str_includes s (w @ ''connection'')) connection_prefixes"
proof -
  have two: "prefix w q \<and> prefix v (drop (length w) q) \<longleftrightarrow> prefix (w @ v) q" for w v q :: string
    by (auto simp: prefix_def)
  have step: "rmatch CONNECTION_PREFIX_RE (p, q, g) \<noteq> [] \<longleftrightarrow>
      p = [] \<and> prefix ''connection'' q \<or> (\<exists>w \<in> set connection_prefixes. prefix (w @ ''connection'') q)" for p q g
  proof -
    have "rmatch CONNECTION_PREFIX_RE (p, q, g) \<noteq> [] \<longleftrightarrow>
        (\<exists>st \<in> set (rmatch (RAlts (RBol # map RLit connection_prefixes)) (p, q, g)).
          rmatch (RLit ''connection'') st \<noteq> [])"
      unfolding CONNECTION_PREFIX_RE_def
      by (simp only: RSeqs_def foldr.simps comp_apply id_apply rmatch_seq_iff rmatch_seq_eps)
    also have "\<dots> \<longleftrightarrow> p = [] \<and> rmatch (RLit ''connection'') (p, q, g) \<noteq> [] \<or>
        (\<exists>st \<in> set (rmatch (RAlts (map RLit connection_prefixes)) (p, q, g)). rmatch (RLit ''connection'') st \<noteq> [])"
      by (auto simp: RAlts_def)
    also have "\<dots> \<longleftrightarrow> p = [] \<and> prefix ''connection'' q \<or>
        (\<exists>w \<in> set connection_prefixes. prefix w q \<and> prefix ''connection'' (drop (length w) q))"
      unfolding Bex_def rmatch_alts_lit by (auto simp: rmatch_lit)
    finally show ?thesis unfolding two .
  qed
  have inside: "(\<exists>u v. s = u @ v \<and> prefix x v) \<longleftrightarrow> str_includes s x" for x
    by (auto simp: str_includes_iff_sublist sublist_def prefix_def)
  have "rtest CONNECTION_PREFIX_RE s \<longleftrightarrow> prefix ''connection'' s \<or>
      (\<exists>w \<in> set connection_prefixes. \<exists>u v. s = u @ v \<and> prefix (w @ ''connection'') v)"
    unfolding rtest_iff step by auto
  also have "\<dots> \<longleftrightarrow> prefix ''connection'' s \<or> (\<exists>w \<in> set connection_prefixes. str_includes s (w @ ''connection''))"
    unfolding inside ..
  finally show ?thesis by (simp only: starts_with_def list_ex_iff)
qed

lemma connection_re_implies:
  assumes "rtest CONNECTION_RE s"
  shows "starts_with s ''connection'' \<and> list_ex (ends_with s) connection_suffixes"
proof -
  let ?w = "RLit ''connection''" and ?a = "RStar (RNoneOf [CHR 0x0A, CHR 0x0D])"
    and ?b = "RAlts (map RLit [''url'', ''uri'', ''dsn'', ''string''])"
  have "rmatch (RSeq ?w (RSeq ?a (RSeq ?b REol))) ([], s, []) \<noteq> []"
  proof -
    have "rmatch (RSeq ?w (RSeq ?a (RSeq ?b (RSeq REol REps)))) ([], s, []) \<noteq> []"
      using assms unfolding CONNECTION_RE_def by (simp only: RSeqs_def foldr.simps comp_apply id_apply rtest_bol not_False_eq_True)
    then show ?thesis unfolding rmatch_seq_iff rmatch_seq_eps .
  qed
  then obtain st where st: "st \<in> set (rmatch ?w ([], s, []))" "rmatch (RSeq ?a (RSeq ?b REol)) st \<noteq> []"
    unfolding rmatch_seq_iff by blast
  then have pre: "prefix ''connection'' s" by (auto simp: rmatch_lit split: if_splits)
  from st(2) obtain p1 q1 g1 where st1: "(p1, q1, g1) \<in> set (rmatch ?a st)" "rmatch (RSeq ?b REol) (p1, q1, g1) \<noteq> []"
    unfolding rmatch_seq_iff by (metis prod_cases3)
  obtain p0 q0 g0 where st0: "st = (p0, q0, g0)" by (cases st)
  from rmatch_consumes[of p1 q1 g1 ?a p0 q0 g0] st1(1) have "suffix q1 q0"
    unfolding st0 suffix_def by blast
  moreover from rmatch_consumes[of p0 q0 g0 ?w "[]" s "[]"] st(1) have "suffix q0 s"
    unfolding st0 suffix_def by blast
  ultimately have "suffix q1 s" by (rule suffix_order.trans)
  moreover have "q1 \<in> set [''url'', ''uri'', ''dsn'', ''string'']"
  proof -
    from st1(2) obtain w where "w \<in> set [''url'', ''uri'', ''dsn'', ''string'']" "prefix w q1" "drop (length w) q1 = []"
      unfolding rmatch_seq_iff Bex_def rmatch_alts_lit by (auto split: if_splits)
    then show ?thesis by (auto simp: prefix_def)
  qed
  moreover have "set [''url'', ''uri'', ''dsn'', ''string''] \<subseteq> set connection_suffixes" by code_simp
  ultimately show ?thesis
    using pre unfolding starts_with_def ends_with_def list_ex_iff by blast
qed

definition blocked_words :: "string \<Rightarrow> bool" where
  "blocked_words raw = (let n = str_lower (filter alnum raw) in
     n \<in> set BLOCKED_CONNECTION_KEYS \<or> isSecretKey (JStr raw) \<or> isSecretKey (JStr n) \<or>
     list_ex (ends_with n) connection_suffixes \<and>
       (starts_with n ''connection'' \<or> list_ex (starts_with n) provider_prefixes \<or>
        list_ex (\<lambda>w. str_includes n (w @ ''connection'')) connection_prefixes))"

lemma isBlockedConnectionKey_words [code]: "isBlockedConnectionKey raw = blocked_words raw"
proof -
  define n where "n = str_lower (filter alnum raw)"
  show ?thesis
    unfolding isBlockedConnectionKey_def blocked_words_def Let_def n_def[symmetric] connection_prefix_test
      CONNECTION_SUFFIX_RE_def PROVIDER_PREFIX_RE_def suffix_test prefix_test
    using connection_re_implies[of n] by auto
qed

section \<open>What sanitised values contain\<close>

fun no_blocked :: "jsv \<Rightarrow> bool"
and no_blocked_items :: "jsv list \<Rightarrow> bool"
and no_blocked_fields :: "(string \<times> jsv) list \<Rightarrow> bool" where
  "no_blocked (JArr vs) = no_blocked_items vs"
| "no_blocked (JObj kvs) = no_blocked_fields kvs"
| "no_blocked v = True"
| "no_blocked_items [] = True"
| "no_blocked_items (v # vs) = (no_blocked v \<and> no_blocked_items vs)"
| "no_blocked_fields [] = True"
| "no_blocked_fields ((k, v) # kvs) = (\<not> isBlockedConnectionKey k \<and> no_blocked v \<and> no_blocked_fields kvs)"

lemma no_blocked_sanitize:
  "no_blocked (sanitizeResourceValue v)"
  "no_blocked_items (sanitize_res_items vs)"
  "no_blocked_fields (sanitize_res_fields kvs)"
  by (induction v and vs and kvs rule: sanitizeResourceValue_sanitize_res_items_sanitize_res_fields.induct) auto

lemma sanitize_id:
  "no_blocked v \<Longrightarrow> sanitizeResourceValue v = v"
  "no_blocked_items vs \<Longrightarrow> sanitize_res_items vs = vs"
  "no_blocked_fields kvs \<Longrightarrow> sanitize_res_fields kvs = kvs"
  by (induction v and vs and kvs rule: sanitizeResourceValue_sanitize_res_items_sanitize_res_fields.induct) auto

lemma no_blocked_fields_iff:
  "no_blocked_fields kvs \<longleftrightarrow> (\<forall>(k, v) \<in> set kvs. \<not> isBlockedConnectionKey k \<and> no_blocked v)"
  by (induction kvs) auto

section \<open>Paths\<close>

abbreviation slash :: char where "slash \<equiv> CHR ''/''"

definition normal_segment :: "string \<Rightarrow> bool" where
  "normal_segment seg = (seg \<noteq> [] \<and> seg \<noteq> ''.'' \<and> seg \<noteq> ''..'' \<and> slash \<notin> set seg)"

lemma split_parts_no_sep: "w \<in> set (str_split c s) \<Longrightarrow> c \<notin> set w"
  by (induction s arbitrary: w) (auto split: if_splits list.splits)

lemma split_append_sep: "str_split c (a @ c # b) = str_split c a @ str_split c b"
  by (induction a) (auto split: list.splits)

lemma fold_push_normal:
  "list_all (\<lambda>s. slash \<notin> set s) segs \<Longrightarrow> list_all normal_segment acc \<Longrightarrow>
   list_all normal_segment (fold push_segment segs acc)"
proof (induction segs arbitrary: acc)
  case (Cons seg segs)
  then have "list_all normal_segment (push_segment seg acc)"
    by (auto simp: push_segment_def normal_segment_def[of seg] list_all_iff dest: in_set_butlastD)
  with Cons show ?case by simp
qed simp

lemma path_segments_normal: "list_all normal_segment (path_segments p)"
  unfolding path_segments_def by (rule fold_push_normal) (auto simp: list_all_iff dest: split_parts_no_sep)

lemma fold_push_append: "list_all normal_segment segs \<Longrightarrow> fold push_segment segs acc = acc @ segs"
  by (induction segs arbitrary: acc) (auto simp: push_segment_def normal_segment_def)

lemma split_join_segments:
  "segs \<noteq> [] \<Longrightarrow> list_all normal_segment segs \<Longrightarrow> str_split slash (str_join ''/'' segs) = segs"
  by (induction segs rule: list_nonempty_induct')
    (auto simp: normal_segment_def split_cons_sep split_no_sep)

lemma split_path_text:
  "list_all normal_segment segs \<Longrightarrow>
   str_split slash (path_text segs) = [] # (if segs = [] then [[]] else segs)"
  by (simp add: path_text_def split_join_segments)

lemma path_segments_text: "list_all normal_segment segs \<Longrightarrow> path_segments (path_text segs) = segs"
  unfolding path_segments_def split_path_text
  by (auto simp: fold_push_append) (simp_all add: push_segment_def fold_push_append)

lemma path_segments_append: "path_segments (a @ slash # b) = fold push_segment (str_split slash b) (path_segments a)"
  by (simp add: path_segments_def split_append_sep)

lemma str_join_snoc: "ws \<noteq> [] \<Longrightarrow> str_join sep (ws @ [w]) = str_join sep ws @ sep @ w"
  by (induction ws rule: list_nonempty_induct') auto

lemma path_text_snoc: "segs \<noteq> [] \<Longrightarrow> path_text (segs @ [seg]) = path_text segs @ slash # seg"
  by (simp add: path_text_def str_join_snoc)

lemma path_text_below:
  assumes "list_all normal_segment segs" "list_all normal_segment base" "base \<noteq> []"
    and "path_text segs = path_text base \<or> starts_with (path_text segs) (path_text base @ ''/'')"
  shows "prefix base segs"
proof (cases "path_text segs = path_text base")
  case True
  then have "base = segs" using path_segments_text[OF assms(1)] path_segments_text[OF assms(2)] by metis
  then show ?thesis by simp
next
  case False
  with assms(4) obtain rest where "path_text segs = path_text base @ slash # rest"
    by (auto simp: starts_with_def prefix_def)
  then have "str_split slash (path_text segs) = str_split slash (path_text base) @ str_split slash rest"
    by (simp only: split_append_sep)
  then have parts: "(if segs = [] then [[]] else segs) = base @ str_split slash rest"
    unfolding split_path_text[OF assms(1)] split_path_text[OF assms(2)] using assms(3) by (simp only: if_False append_Cons list.inject simp_thms)
  obtain b bs where b: "base = b # bs" "b \<noteq> []"
    using assms(2,3) by (cases base) (simp_all add: normal_segment_def)
  have "segs \<noteq> []"
  proof
    assume "segs = []"
    then have "[[]] = base @ str_split slash rest" using parts by simp
    then show False using b by simp
  qed
  then show ?thesis using parts by (simp add: prefix_def)
qed

definition root_segments :: "string \<Rightarrow> string list" where
  "root_segments cwd = path_segments (cwd @ ''/.raibitserver-work/sqlite'')"

lemma root_segments:
  "providerOwnedSqliteRoot cwd = path_text (root_segments cwd)"
  "list_all normal_segment (root_segments cwd)" "root_segments cwd \<noteq> []"
proof -
  show "providerOwnedSqliteRoot cwd = path_text (root_segments cwd)"
    by (simp add: providerOwnedSqliteRoot_def path_resolve_def root_segments_def starts_with_def)
  show "list_all normal_segment (root_segments cwd)"
    unfolding root_segments_def by (rule path_segments_normal)
  have "str_split slash ''.raibitserver-work/sqlite'' = [''.raibitserver-work'', ''sqlite'']"
    and "list_all normal_segment [''.raibitserver-work'', ''sqlite'']" by code_simp+
  then show "root_segments cwd \<noteq> []"
    unfolding root_segments_def using path_segments_append[of cwd "''.raibitserver-work/sqlite''"]
    by (simp only: fold_push_append append_Cons append_Nil)
      (simp only: append_is_Nil_conv list.distinct simp_thms)
qed

lemma owned_path:
  "\<exists>f. normal_segment f \<and> providerOwnedSqlitePath cwd i = path_text (root_segments cwd @ [f])"
proof -
  define f0 where "f0 = str_prefix 120 (map file_char (to_str (jor i (JStr ''resource''))))"
  define f where "f = (if f0 = [] then ''resource'' else f0) @ ''.sqlite''"
  have "slash \<notin> set f0"
    by (auto simp: f0_def str_prefix_def file_char_def alnum_def is_upper_def is_lower_def is_digit_def code_of_def
        dest!: in_set_takeD)
  then have "slash \<notin> set f" by (auto simp: f_def)
  moreover have "length f > 2" by (simp add: f_def)
  ultimately have f: "normal_segment f" by (auto simp: normal_segment_def)
  have "path_segments (path_text (root_segments cwd) @ slash # f) = root_segments cwd @ [f]"
    unfolding path_segments_append path_segments_text[OF root_segments(2)]
    using f split_no_sep[of slash f] by (simp add: normal_segment_def push_segment_def)
  then have "providerOwnedSqlitePath cwd i = path_text (root_segments cwd @ [f])"
    by (simp add: providerOwnedSqlitePath_def Let_def root_segments(1) f0_def[symmetric] f_def)
  with f show ?thesis by blast
qed

section \<open>Properties\<close>

text \<open>C24: A sanitised tenant resource has only the allowed keys, no key that names connection data at
  any depth, and sanitising it again changes nothing.\<close>

theorem resource_input_clean:
  "no_blocked (sanitizeTenantResourceInput input) \<and>
   fst ` set (entries (sanitizeTenantResourceInput input)) \<subseteq> set SAFE_RESOURCE_KEYS \<and>
   sanitizeTenantResourceInput (sanitizeTenantResourceInput input) = sanitizeTenantResourceInput input"
proof -
  let ?kvs = "entries (sanitizeTenantResourceInput input)"
  have fields: "\<forall>(k, v) \<in> set ?kvs. k \<in> set SAFE_RESOURCE_KEYS \<and> \<not> isBlockedConnectionKey k \<and> no_blocked v"
    by (auto simp: sanitizeTenantResourceInput_def no_blocked_sanitize)
  then have keep: "filter (\<lambda>(k, v). k \<in> set SAFE_RESOURCE_KEYS \<and> \<not> isBlockedConnectionKey k) ?kvs = ?kvs"
    by (intro filter_True) auto
  have same: "map (\<lambda>(k, v). (k, sanitizeResourceValue v)) ?kvs = ?kvs"
    using fields by (intro map_idI) (auto simp: sanitize_id)
  have obj: "sanitizeTenantResourceInput input = JObj ?kvs"
    by (simp add: sanitizeTenantResourceInput_def)
  have "sanitizeTenantResourceInput (sanitizeTenantResourceInput input) = JObj ?kvs"
    unfolding sanitizeTenantResourceInput_def[of "sanitizeTenantResourceInput input"] keep same ..
  moreover have "no_blocked (JObj ?kvs)" using fields by (auto simp: no_blocked_fields_iff)
  ultimately show ?thesis using fields obj by auto
qed

text \<open>The regular expressions that recognise connection keys compute a search for fixed words in
  the lower case letters and digits of the key: a connection suffix together with a provider
  prefix, a leading \<open>connection\<close> or a provider name before \<open>connection\<close>, or a listed name, or a secret.\<close>

theorem connection_keys_as_words:
  "isBlockedConnectionKey raw = blocked_words raw"
  by (rule isBlockedConnectionKey_words)

text \<open>C32: The path made for a resource is accepted as provider owned, and every accepted path other
  than the empty one and \<open>:memory:\<close> resolves to a place below the provider's directory.\<close>

theorem sqlite_path_confined:
  "isProviderOwnedSqlitePath cwd (providerOwnedSqlitePath cwd i) \<and>
   (isProviderOwnedSqlitePath cwd c \<longrightarrow> c = [] \<or> c = '':memory:'' \<or>
      prefix (path_segments (providerOwnedSqliteRoot cwd)) (path_segments (path_resolve cwd c)))"
proof (intro conjI impI)
  obtain f where f: "normal_segment f" "providerOwnedSqlitePath cwd i = path_text (root_segments cwd @ [f])"
    using owned_path by blast
  have n: "list_all normal_segment (root_segments cwd @ [f])" using f(1) root_segments(2) by simp
  have abs: "starts_with (path_text segs) ''/''" for segs by (simp add: path_text_def starts_with_def)
  have "path_resolve cwd (path_text (root_segments cwd @ [f])) = path_text (root_segments cwd @ [f])"
    using path_segments_text[OF n] abs by (simp add: path_resolve_def)
  moreover have "starts_with (path_text (root_segments cwd @ [f])) (path_text (root_segments cwd) @ ''/'')"
    using root_segments(3) by (simp add: path_text_snoc starts_with_def)
  ultimately show "isProviderOwnedSqlitePath cwd (providerOwnedSqlitePath cwd i)"
    unfolding f(2) isProviderOwnedSqlitePath_def root_segments(1) Let_def by simp
next
  assume owned: "isProviderOwnedSqlitePath cwd c"
  show "c = [] \<or> c = '':memory:'' \<or>
      prefix (path_segments (providerOwnedSqliteRoot cwd)) (path_segments (path_resolve cwd c))"
  proof (cases "c = [] \<or> c = '':memory:''")
    case False
    define segs where "segs = path_segments (if starts_with c ''/'' then c else cwd @ ''/'' @ c)"
    have n: "list_all normal_segment segs" unfolding segs_def by (rule path_segments_normal)
    have r: "path_resolve cwd c = path_text segs" by (simp add: path_resolve_def segs_def)
    have "path_text segs = path_text (root_segments cwd) \<or>
        starts_with (path_text segs) (path_text (root_segments cwd) @ ''/'')"
      using owned False unfolding isProviderOwnedSqlitePath_def Let_def r root_segments(1) by (simp split: if_splits)
    from path_text_below[OF n root_segments(2,3) this] show ?thesis
      unfolding r root_segments(1) path_segments_text[OF n] path_segments_text[OF root_segments(2)] by simp
  qed blast
qed

theorem sqlite_path_confined_witness:
  "prefix (path_segments (providerOwnedSqliteRoot ''/srv/app''))
     (path_segments (path_resolve ''/srv/app'' ''.raibitserver-work/./sqlite/x/../r1.sqlite'')) \<and>
   \<not> isProviderOwnedSqlitePath ''/srv/app'' ''.raibitserver-work/sqlite/../../etc/passwd''"
proof -
  let ?c = "''.raibitserver-work/./sqlite/x/../r1.sqlite''"
  have owned: "isProviderOwnedSqlitePath ''/srv/app'' ?c" by code_simp
  have "?c \<noteq> []" "?c \<noteq> '':memory:''" by code_simp+
  with sqlite_path_confined[THEN conjunct2, rule_format, OF owned]
  have "prefix (path_segments (providerOwnedSqliteRoot ''/srv/app'')) (path_segments (path_resolve ''/srv/app'' ?c))"
    by blast
  moreover have "\<not> isProviderOwnedSqlitePath ''/srv/app'' ''.raibitserver-work/sqlite/../../etc/passwd''"
    by code_simp
  ultimately show ?thesis ..
qed

end
