(* ===== verification/Commands.thy ===== *)
theory Commands
  imports JsValue Regex
begin

text \<open>
  \<open>command-runner.ts\<close>: quoting of words for a POSIX shell, the printed form of a command, redaction of its
  output, and \<open>runCommand\<close>. What the spawned process answers (exit code, output, error output) is a parameter;
  the timeout and the signals to the process group are left out.
\<close>

record command_spec =
  executable :: string
  cmdArgs :: "string list"
  cmdCwd :: jsv
  cmdEnv :: "(string \<times> string) list"
  cmdStdin :: string
  redacted :: string

section \<open>Quoting\<close>

abbreviation apostrophe :: char where
  "apostrophe \<equiv> CHR 0x27"

definition shell_plain :: "char \<Rightarrow> bool" where
  "shell_plain c = (is_upper c \<or> is_lower c \<or> is_digit c \<or> c \<in> set ''_@%+=:,./-'')"

text \<open>\<open>/^[a-zA-Z0-9_@%+=:,./-]+$/\<close>\<close>

definition SHELL_PLAIN_RE :: rx where
  "SHELL_PLAIN_RE = RSeqs [RBol, RPlus (RCls shell_plain), REol]"

text \<open>The replacement of an apostrophe: \<open>'"'"'\<close>.\<close>

definition escaped_apostrophe :: string where
  "escaped_apostrophe = [apostrophe, CHR 0x22, apostrophe, CHR 0x22, apostrophe]"

definition shellQuote :: "string \<Rightarrow> string" where
  "shellQuote s = (if rtest SHELL_PLAIN_RE s then s
     else [apostrophe] @ rreplace (RChr apostrophe) (\<lambda>_. escaped_apostrophe) s @ [apostrophe])"

definition commandToString :: "command_spec \<Rightarrow> string" where
  "commandToString c = (if redacted c \<noteq> [] then redacted c
     else str_join '' '' (map shellQuote (executable c # cmdArgs c)))"

section \<open>Redacting output\<close>

definition env_word :: "char \<Rightarrow> bool" where
  "env_word c = (is_upper c \<or> is_lower c \<or> is_digit c \<or> c = CHR ''_'')"

definition ASSIGNED_SECRET_RE :: rx where
  "ASSIGNED_SECRET_RE = RSeqs [RGrp 1 (RSeqs [RStar (RCls env_word),
     RAlts (map RLitI [''SECRET'', ''PASSWORD'', ''TOKEN'', ''KEY'', ''DATABASE_URL'', ''MONGODB_URI'', ''REDIS_URL'']),
     RStar (RCls env_word), RLit ''='']), RGrp 2 (RPlus (RCls (\<lambda>c. \<not> is_space c)))]"

definition token_char :: "char \<Rightarrow> bool" where
  "token_char c = (is_upper c \<or> is_lower c \<or> is_digit c \<or> c \<in> set ''_-'')"

definition TOKEN_RE :: rx where
  "TOKEN_RE = RSeqs [RGrp 1 (RAlts [RLit ''ghp_'', RLit ''github_pat_'', RLit ''glpat-'',
     RSeq (RLit ''sk-'') (RStar (RCls token_char)), RSeqs [RLit ''xox'', ROneOf ''baprs'', RLit ''-'']]),
     RPlus (RCls token_char)]"

definition redactCommandText :: "string \<Rightarrow> string" where
  "redactCommandText s = (let mask = (\<lambda>g. rgroup g 1 @ ''****'') in
     rreplace TOKEN_RE mask (rreplace ASSIGNED_SECRET_RE mask s))"

section \<open>Running\<close>

type_synonym process = "command_spec \<Rightarrow> int \<times> string \<times> string"

definition run_result :: "command_spec \<Rightarrow> bool \<Rightarrow> int \<Rightarrow> string \<Rightarrow> string \<Rightarrow> jsv" where
  "run_result c dryRun code out err = JObj [
     (''command'', JStr (commandToString c)), (''executable'', JStr (executable c)),
     (''args'', JArr (map JStr (cmdArgs c))), (''cwd'', cmdCwd c), (''dryRun'', JBool dryRun),
     (''exitCode'', jint code), (''stdout'', JStr out), (''stderr'', JStr err)]"

definition runCommand :: "process \<Rightarrow> command_spec \<Rightarrow> bool \<Rightarrow> jsv res" where
  "runCommand proc c dryRun = (if dryRun then Inr (run_result c True 0 [] [])
     else (case proc c of (code, out, err) \<Rightarrow> let safeOut = redactCommandText out; safeErr = redactCommandText err in
       if code \<noteq> 0 then js_throw (''command failed ('' @ int_str code @ ''): '' @ commandToString c @ [CHR 0x0A] @
         (if safeErr \<noteq> [] then safeErr else safeOut))
       else Inr (run_result c False code safeOut safeErr)))"

definition commandExists :: "process \<Rightarrow> string \<Rightarrow> bool" where
  "commandExists proc name = is_ok (runCommand proc
     \<lparr>executable = name, cmdArgs = [''--version''], cmdCwd = JUndef, cmdEnv = [], cmdStdin = [], redacted = []\<rparr> False)"

section \<open>What a shell reads\<close>

text \<open>The characters that a POSIX shell (XCU 2.2) does not take for themselves outside quotes, those of its
  patterns and reserved words, and every character that is not printable ASCII; \<open>=\<close> and \<open>%\<close> only matter in an
  assignment and to job control.\<close>

definition shell_special :: "char \<Rightarrow> bool" where
  "shell_special c = (let n = code_of c in n \<le> 32 \<or> n \<ge> 127 \<or>
     n \<in> set [33, 34, 35, 36, 38, 39, 40, 41, 42, 59, 60, 62, 63, 91, 92, 93, 94, 96, 123, 124, 125, 126])"

text \<open>The words of a line, each with whether all of it was outside quotes: \<open>None\<close> when a quote is not closed, or a
  character is met that means more than itself. The state is the word being read, if any.\<close>

datatype quote_state = Bare | Single | Double

fun sh_read :: "quote_state \<Rightarrow> (bool \<times> string) option \<Rightarrow> string \<Rightarrow> (bool \<times> string) list option" where
  "sh_read Bare w [] = Some (case w of None \<Rightarrow> [] | Some u \<Rightarrow> [u])"
| "sh_read Single w [] = None"
| "sh_read Double w [] = None"
| "sh_read Bare w (c # cs) = (let (b, u) = (case w of None \<Rightarrow> (True, []) | Some u \<Rightarrow> u) in
     if c = CHR '' '' then map_option ((@) (case w of None \<Rightarrow> [] | Some u \<Rightarrow> [u])) (sh_read Bare None cs)
     else if c = apostrophe then sh_read Single (Some (False, u)) cs
     else if c = CHR 0x22 then sh_read Double (Some (False, u)) cs
     else if shell_special c then None else sh_read Bare (Some (b, u @ [c])) cs)"
| "sh_read Single w (c # cs) = (let (b, u) = (case w of None \<Rightarrow> (True, []) | Some u \<Rightarrow> u) in
     if c = apostrophe then sh_read Bare (Some (b, u)) cs else sh_read Single (Some (b, u @ [c])) cs)"
| "sh_read Double w (c # cs) = (let (b, u) = (case w of None \<Rightarrow> (True, []) | Some u \<Rightarrow> u) in
     if c = CHR 0x22 then sh_read Bare (Some (b, u)) cs
     else if code_of c \<in> {36, 92, 96} then None else sh_read Double (Some (b, u @ [c])) cs)"

text \<open>An unquoted first word may be a reserved word, or an assignment \<open>name=value\<close> before the command; then the
  line is no call of the first word.\<close>

definition SHELL_RESERVED :: "string list" where
  "SHELL_RESERVED = [''if'', ''then'', ''else'', ''elif'', ''fi'', ''do'', ''done'', ''case'', ''esac'', ''while'', ''until'', ''for'',
     ''{'', ''}'', ''!'']"

definition assignment_word :: "string \<Rightarrow> bool" where
  "assignment_word w = (let n = takeWhile (\<lambda>c. c \<noteq> CHR ''='') w in CHR ''='' \<in> set w \<and> n \<noteq> [] \<and>
     \<not> is_digit (hd n) \<and> list_all (\<lambda>c. is_upper c \<or> is_lower c \<or> is_digit c \<or> c = CHR ''_'') n)"

text \<open>The arguments of the call that a line makes, the name of the program first\<close>

definition sh_call :: "string \<Rightarrow> string list option" where
  "sh_call s = (case sh_read Bare None s of None \<Rightarrow> None | Some [] \<Rightarrow> None
     | Some ((b, w) # ws) \<Rightarrow> if b \<and> (w \<in> set SHELL_RESERVED \<or> assignment_word w) then None else Some (w # map snd ws))"

section \<open>Lemmas\<close>

lemma shell_plain_test: "rtest SHELL_PLAIN_RE s \<longleftrightarrow> s \<noteq> [] \<and> list_all shell_plain s"
proof -
  have "rmatch (RSeq REol REps) = rmatch REol" by (rule ext) (rule rmatch_seq_eps)
  then have "rmatch (RSeq (RPlus (RCls shell_plain)) (RSeq REol REps)) ([], s, []) =
      rmatch (RSeq (RPlus (RCls shell_plain)) REol) ([], s, [])"
    by (simp only: rmatch.simps(3)[of "RPlus (RCls shell_plain)"])
  then show ?thesis
    by (simp add: SHELL_PLAIN_RE_def RSeqs_def rtest_bol rmatch_plus_eol del: rmatch.simps(3))
qed

lemma shell_plain_bare: "shell_plain c \<Longrightarrow> c \<noteq> CHR '' '' \<and> c \<noteq> apostrophe \<and> c \<noteq> CHR 0x22 \<and> \<not> shell_special c"
  by (auto simp: shell_plain_def shell_special_def is_upper_def is_lower_def is_digit_def code_of_def Let_def)

lemma read_plain: "list_all shell_plain s \<Longrightarrow> sh_read Bare (Some (b, u)) (s @ t) = sh_read Bare (Some (b, u @ s)) t"
  by (induction s arbitrary: u) (auto simp: Let_def shell_plain_bare)

lemma read_single:
  "sh_read Single (Some (False, u)) (concat (map (\<lambda>c. if c = apostrophe then escaped_apostrophe else [c]) s) @ apostrophe # t) =
   sh_read Bare (Some (False, u @ s)) t"
proof (induction s arbitrary: u)
  case (Cons c s)
  have "sh_read Single (Some (False, u)) (escaped_apostrophe @ x) = sh_read Single (Some (False, u @ [apostrophe])) x" for x
    by (simp add: escaped_apostrophe_def Let_def code_of_def)
  with Cons show ?case by (cases "c = apostrophe") (simp_all add: Let_def)
qed (simp add: Let_def)

lemma read_quoted: "sh_read Bare None (shellQuote s @ t) = sh_read Bare (Some (rtest SHELL_PLAIN_RE s, s)) t"
proof (cases "rtest SHELL_PLAIN_RE s")
  case True
  then obtain c cs where s: "s = c # cs" "shell_plain c" "list_all shell_plain cs"
    by (cases s) (auto simp: shell_plain_test)
  then show ?thesis using True read_plain[OF s(3), of True "[c]"] shell_plain_bare[OF s(2)]
    by (simp add: shellQuote_def Let_def)
next
  case False
  then show ?thesis
    using read_single[of "[]" s t] by (simp add: shellQuote_def RChr_def rreplace_cls Let_def)
qed

lemma read_words:
  "ws \<noteq> [] \<Longrightarrow> sh_read Bare None (str_join '' '' (map shellQuote ws)) = Some (map (\<lambda>w. (rtest SHELL_PLAIN_RE w, w)) ws)"
proof (induction ws rule: list_nonempty_induct)
  case (single w)
  then show ?case using read_quoted[of w "[]"] by simp
next
  case (cons w ws)
  then have "str_join '' '' (map shellQuote (w # ws)) = shellQuote w @ CHR '' '' # str_join '' '' (map shellQuote ws)"
    by (cases ws) auto
  then show ?case using read_quoted[of w] cons by (simp add: Let_def)
qed

text \<open>A token that starts with \<open>sk-\<close> loses only its last character.\<close>

lemma sk_token_kept: "redactCommandText ''key sk-live0123456789'' = ''key sk-live012345678****''"
  by code_simp

lemma ghp_token_masked: "redactCommandText ''key ghp_0123456789'' = ''key ghp_****''"
  by code_simp

section \<open>Properties\<close>

text \<open>C37: A shell reads the line \<open>commandToString\<close> prints for a command without a redacted form as the call of
  exactly its executable with its arguments, whatever characters they hold: no character outside quotes is
  special, and quoting leaves no way to add words or commands. Only an executable named like a reserved word
  or an assignment is read otherwise.\<close>

theorem shell_quoting_roundtrip:
  assumes "redacted c = []" "executable c \<notin> set SHELL_RESERVED" "\<not> assignment_word (executable c)"
  shows "sh_call (commandToString c) = Some (executable c # cmdArgs c)"
  unfolding commandToString_def sh_call_def
  using assms read_words[of "executable c # cmdArgs c"] by (simp add: comp_def)

theorem shell_quoting_roundtrip_witness:
  "sh_call (commandToString \<lparr>executable = ''sh'', cmdArgs = [''-lc'', ''rm $HOME; echo '' @ [apostrophe], []],
     cmdCwd = JUndef, cmdEnv = [], cmdStdin = [], redacted = []\<rparr>) = Some [''sh'', ''-lc'', ''rm $HOME; echo '' @ [apostrophe], []]"
  by (subst shell_quoting_roundtrip) (simp_all add: SHELL_RESERVED_def assignment_word_def)

end
