(* ===== verification/Uri.thy ===== *)
theory Uri
  imports JsPrelude
begin

text \<open>
  \<open>encodeURIComponent\<close> on texts of code units below 256 (two UTF-8 bytes from 128 on), which the log-in plan of
  \<open>github-integration.ts\<close> and the connection addresses of \<open>resource-providers.ts\<close> use.
\<close>

definition hex_digit :: "nat \<Rightarrow> char" where
  "hex_digit n = (if n < 10 then digit_char n else char_of (55 + n))"

definition percent :: "nat \<Rightarrow> string" where
  "percent b = [CHR ''%'', hex_digit (b div 16), hex_digit (b mod 16)]"

definition uri_plain :: "char \<Rightarrow> bool" where
  "uri_plain c = (is_upper c \<or> is_lower c \<or> is_digit c \<or> c \<in> set ''-_.!~*()'' \<or> c = CHR 0x27)"

definition encodeURIComponent :: "string \<Rightarrow> string" where
  "encodeURIComponent s = concat (map (\<lambda>c. let n = code_of c in
     if uri_plain c then [c] else if n < 128 then percent n
     else percent (192 + n div 64) @ percent (128 + n mod 64)) s)"

lemma hex_digit_char: "n < 16 \<Longrightarrow> is_digit (hex_digit n) \<or> is_upper (hex_digit n)"
  by (auto simp: hex_digit_def digit_char_def is_digit_def is_upper_def code_of_char_of)

lemma percent_chars:
  assumes "n < 256" "c \<in> set (percent n)"
  shows "c = CHR ''%'' \<or> is_digit c \<or> is_upper c"
proof -
  have "n div 16 < 16" using assms(1) by (simp add: less_mult_imp_div_less)
  from hex_digit_char[OF this] hex_digit_char[of "n mod 16"] assms(2) show ?thesis by (auto simp: percent_def)
qed

text \<open>An encoded text has no character that separates the parts of an address.\<close>

lemma encoded_chars:
  assumes "c \<in> set (encodeURIComponent s)"
  shows "uri_plain c \<or> c = CHR ''%''"
proof -
  have up: "is_digit c \<or> is_upper c \<Longrightarrow> uri_plain c" by (auto simp: uri_plain_def)
  from assms obtain d where "c \<in> set (let n = code_of d in if uri_plain d then [d] else if n < 128 then percent n
      else percent (192 + n div 64) @ percent (128 + n mod 64))"
    unfolding encodeURIComponent_def set_concat set_map by blast
  then consider "uri_plain c" | "code_of d < 128" "c \<in> set (percent (code_of d))"
    | "c \<in> set (percent (192 + code_of d div 64))" | "c \<in> set (percent (128 + code_of d mod 64))"
    by (auto simp: Let_def split: if_splits)
  then show ?thesis
  proof cases
    case 2
    then show ?thesis using percent_chars[of "code_of d" c] up by auto
  next
    case 3
    have "code_of d < 256" by (simp add: code_of_def)
    then have "192 + code_of d div 64 < 256" by (simp add: less_mult_imp_div_less)
    then show ?thesis using percent_chars[OF _ 3] up by auto
  next
    case 4
    have "128 + code_of d mod 64 < 256" using mod_less_divisor[of 64 "code_of d"] by linarith
    then show ?thesis using percent_chars[OF _ 4] up by auto
  qed blast
qed

end
