(* ===== verification/Providers.thy ===== *)
theory Providers
  imports EnvInjection ResourceSanitizer Commands Uri
begin

text \<open>
  \<open>resource-providers.ts\<close>: names, limits and quoting for the PostgreSQL provider, its plan and its provisioning,
  and the plans, commands and consoles of the other engines. \<open>penv\<close> is \<open>process.env\<close>, \<open>cwd\<close> the working
  directory, \<open>rnd k\<close> the \<open>k\<close>-th secret drawn in a call, and \<open>proc\<close> the outcome of a spawned process.
\<close>

section \<open>Names\<close>

definition underscore_slug :: "jsv \<Rightarrow> string" where
  "underscore_slug v = replace_char dash CHR ''_'' (slugify v ''item'')"

definition sql_start :: "char \<Rightarrow> bool" where
  "sql_start c = (is_lower c \<or> c = CHR ''_'')"

definition sql_char :: "char \<Rightarrow> bool" where
  "sql_char c = (is_lower c \<or> is_digit c \<or> c = CHR ''_'')"

text \<open>\<open>/^[a-z_][a-z0-9_]{0,62}$/\<close>\<close>

definition SQL_IDENTIFIER_RE :: "string \<Rightarrow> bool" where
  "SQL_IDENTIFIER_RE s = (case s of [] \<Rightarrow> False | c # cs \<Rightarrow> sql_start c \<and> list_all sql_char cs \<and> length cs \<le> 62)"

definition safeSqlIdentifier :: "jsv \<Rightarrow> string res" where
  "safeSqlIdentifier v = (let
     cut = str_prefix 63 (underscore_slug (JStr (to_str (jor v (JStr ''app'')))));
     normalized = (if cut = [] then ''app'' else cut);
     withPrefix = (if sql_start (hd normalized) then normalized else ''r_'' @ normalized)
   in if SQL_IDENTIFIER_RE withPrefix then Inr withPrefix
      else js_throw (''unsafe PostgreSQL identifier: '' @ to_str v))"

definition providerTenantScope :: "jsv \<Rightarrow> jsv \<Rightarrow> string" where
  "providerTenantScope resource options = (let
     explicit = jor (jget options ''projectSlug'') (jor (jget resource ''projectSlug'') (jget resource ''project''))
   in if truthy explicit then slugify explicit ''item'' else
     (let parts = map (\<lambda>v. slugify v ''item'')
        (filter (\<lambda>v. v \<noteq> JUndef \<and> v \<noteq> JNull \<and> to_str v \<noteq> [])
          [jget resource ''organizationId'', jget resource ''projectId'', jget resource ''id''])
      in if parts \<noteq> [] then str_prefix 48 (str_join ''-'' parts) else ''project''))"

definition tenantResourceName :: "jsv \<Rightarrow> string \<Rightarrow> string \<Rightarrow> string" where
  "tenantResourceName resource fallback tenantScope = (let
     project = underscore_slug (jor (JStr tenantScope) (jor (jget resource ''projectSlug'')
       (jor (jget resource ''project'') (JStr ''project''))));
     name = underscore_slug (jor (jget resource ''name'') (jor (JStr fallback) (JStr ''resource'')))
   in str_prefix 55 (project @ ''_'' @ name))"

definition safeRedisKeyPrefix :: "jsv \<Rightarrow> string" where
  "safeRedisKeyPrefix v = (let
     cut = str_prefix 128 (map prefix_char (to_str (jor v (JStr ''project:cache:''))));
     raw = (if cut = [] then ''project:cache:'' else cut)
   in if ends_with raw '':'' then raw else raw @ '':'')"

section \<open>Quoting\<close>

definition quote_with :: "char \<Rightarrow> string \<Rightarrow> string" where
  "quote_with q s = [q] @ rreplace (RChr q) (\<lambda>_. [q, q]) s @ [q]"

definition quoteIdent :: "string \<Rightarrow> string" where
  "quoteIdent s = quote_with CHR 0x22 s"

definition quoteLiteral :: "string \<Rightarrow> string" where
  "quoteLiteral s = quote_with apostrophe s"

section \<open>Limits\<close>

definition num_trunc :: "jnum \<Rightarrow> jnum" where
  "num_trunc n = (case n of Fin q \<Rightarrow> Fin (of_int (if q < 0 then - \<lfloor>- q\<rfloor> else \<lfloor>q\<rfloor>)) | _ \<Rightarrow> n)"

definition clampInteger :: "jsv \<Rightarrow> int \<Rightarrow> int \<Rightarrow> int \<Rightarrow> jnum" where
  "clampInteger v lo hi fallback = (let n = to_num v in
     if \<not> is_finite n then Fin (of_int fallback)
     else num_trunc (num_min (Fin (of_int hi)) (num_max (Fin (of_int lo)) n)))"

definition clamp :: "jsv \<Rightarrow> int \<Rightarrow> int \<Rightarrow> int \<Rightarrow> jnum" where
  "clamp v lo hi fallback = (let n = to_num v in
     if \<not> is_finite n then Fin (of_int fallback)
     else num_min (Fin (of_int hi)) (num_max (Fin (of_int lo)) n))"

definition postgresTenantLimits :: "jsv \<Rightarrow> jsv \<Rightarrow> jsv" where
  "postgresTenantLimits resource options = (let
     spec = jspread (jspread (jspread (jor (jget resource ''desiredSpec'') (JObj []))
       (jor (jget resource ''desiredState'') (JObj []))) resource) options
   in JObj [
     (''connectionLimit'', JNum (clampInteger (jnullish (jget spec ''connectionLimit'') (jget spec ''maxConnections'')) 1 100 20)),
     (''statementTimeoutMs'', JNum (clampInteger (jget spec ''statementTimeoutMs'') 1000 300000 30000)),
     (''idleInTransactionSessionTimeoutMs'', JNum (clampInteger (jget spec ''idleInTransactionSessionTimeoutMs'') 1000 300000 30000)),
     (''lockTimeoutMs'', JNum (clampInteger (jget spec ''lockTimeoutMs'') 500 120000 5000))])"

section \<open>Shared parts of the plans\<close>

definition connectionSecretSummary :: "jsv \<Rightarrow> jsv" where
  "connectionSecretSummary env = JObj [
     (''providerOwned'', JBool True), (''keys'', JArr (map (\<lambda>(k, _). JStr k) (entries env))),
     (''valuesMasked'', JObj (map (\<lambda>(k, v). (k, maskSecretValue (JStr (to_str v)))) (entries env)))]"

definition masked :: "string \<Rightarrow> string" where
  "masked s = to_str (maskSecretValue (JStr s))"

definition shellCommand :: "string \<Rightarrow> command_spec" where
  "shellCommand text = \<lparr>executable = ''sh'', cmdArgs = [''-lc'', text], cmdCwd = JUndef, cmdEnv = [], cmdStdin = [], redacted = text\<rparr>"

definition psqlCommand :: "string \<Rightarrow> string list \<Rightarrow> string \<Rightarrow> command_spec" where
  "psqlCommand databaseUrl args stdin = \<lparr>executable = ''psql'', cmdArgs = databaseUrl # args, cmdCwd = JUndef, cmdEnv = [],
     cmdStdin = stdin, redacted = ''psql '' @ masked databaseUrl @ '' '' @ str_join '' '' args\<rparr>"

definition redisLike :: "string \<Rightarrow> bool" where
  "redisLike engine = (engine = ''redis'' \<or> engine = ''valkey'')"

definition databaseLike :: "string \<Rightarrow> bool" where
  "databaseLike engine = (engine \<in> set [''postgresql'', ''mysql'', ''mariadb'', ''mongodb'', ''sqlite''])"

definition sharedProviderRiskControls :: "string \<Rightarrow> jsv" where
  "sharedProviderRiskControls engine = JArr (map JStr ([''plan quotas and per-resource usage metering'',
     ''provider-owned credentials only'', ''backup/restore scoped to the tenant primitive'',
     ''monitor noisy-neighbor saturation before promoting tenants to dedicated plans''] @
    (if engine = ''postgresql'' then [''PgBouncer in front of PostgreSQL to reduce connection memory'',
       ''per-role timeouts and connection limits'', ''pg_dump -Fc per database for project-level restore'']
     else if engine = ''mysql'' \<or> engine = ''mariadb'' then [''per-user grants scoped to one database'',
       ''database-level dumps for project-level restore'']
     else if engine = ''mongodb'' then [''per-database users and mongodump --db for restore boundaries'']
     else if redisLike engine then [''Redis ACL key patterns must match REDIS_KEY_PREFIX'',
       ''delete uses SCAN MATCH prefix + UNLINK, never FLUSHDB/FLUSHALL'',
       ''prefix restore is best-effort and must be tested before production'']
     else [])))"

text \<open>A public plan has neither the internal nor the secret part, and masked values.\<close>

definition publicProviderPlan :: "jsv \<Rightarrow> jsv" where
  "publicProviderPlan plan = maskSecrets (jdelete (jdelete plan ''internal'') ''secret'')"

definition publicResourceProviderPlan :: "jsv \<Rightarrow> jsv" where
  "publicResourceProviderPlan plan = maskSecrets (jdelete plan ''internal'')"

section \<open>The PostgreSQL provider\<close>

text \<open>The members of the plan's hidden \<open>internal\<close> object are fields beside the visible plan.\<close>

record postgres_plan =
  pgView :: jsv
  pgAdminUrl :: jsv
  pgDatabase :: string
  pgUser :: string
  pgPassword :: string
  pgStatements :: "string list"
  pgDatabaseUrl :: string
  pgEnv :: jsv
  pgAdminCommand :: command_spec
  pgTestCommand :: command_spec

definition provider_password :: "string \<Rightarrow> jsv \<Rightarrow> jsv \<Rightarrow> string" where
  "provider_password random resource options = to_str (jor (jget options ''password'')
     (jor (jget resource ''generatedPassword'') (jor (jget resource ''password'')
       (JStr (if jget options ''generatePassword'' = JBool True then random else ''<generated-provider-password>'')))))"

definition provider_host :: "jsv \<Rightarrow> jsv \<Rightarrow> jsv" where
  "provider_host resource options = jor (jget options ''providerHost'') (jor (jget resource ''providerHost'')
     (jor (jget resource ''sharedHost'') (jor (jget resource ''host'') (jor (jget resource ''internalHost'')
       (JStr ''postgresql.shared-providers.svc.cluster.local'')))))"

definition pooler_host :: "jsv \<Rightarrow> jsv \<Rightarrow> jsv \<Rightarrow> jsv res" where
  "pooler_host penv resource options = (let
     given = jor (jget options ''poolerHost'') (jor (jget resource ''poolerHost'')
       (jget penv ''RAIBITSERVER_POSTGRES_POOLER_HOST''));
     provider = provider_host resource options
   in if truthy given then Inr given
      else if \<not> is_jstr provider then js_throw ''providerHost.replace is not a function''
      else Inr (JStr (rreplace1 (RSeq RBol (RLit ''postgresql.'')) (\<lambda>_. ''pgbouncer.'') (to_str provider))))"

definition postgres_url :: "string \<Rightarrow> string \<Rightarrow> jsv \<Rightarrow> jnum \<Rightarrow> string \<Rightarrow> string" where
  "postgres_url username password host port databaseName = ''postgresql://'' @ encodeURIComponent username @ '':'' @
     encodeURIComponent password @ ''@'' @ to_str host @ '':'' @ num_str port @ ''/'' @ databaseName"

definition admin_url :: "jsv \<Rightarrow> jsv \<Rightarrow> jsv" where
  "admin_url penv options = jor (jget options ''adminUrl'') (jor (jget options ''providerAdminUrl'')
     (jor (jget penv ''RAIBITSERVER_POSTGRES_PROVIDER_URL'') (jor (jget penv ''POSTGRES_PROVIDER_URL'') JNull)))"

definition set_timeout :: "string \<Rightarrow> string \<Rightarrow> string \<Rightarrow> jsv \<Rightarrow> string" where
  "set_timeout username databaseName setting ms = ''ALTER ROLE '' @ quoteIdent username @ '' IN DATABASE '' @
     quoteIdent databaseName @ '' SET '' @ setting @ '' = '' @ quoteLiteral (to_str ms @ ''ms'')"

definition postgres_statements :: "string \<Rightarrow> string \<Rightarrow> string \<Rightarrow> jsv \<Rightarrow> string list" where
  "postgres_statements username password databaseName limits = [
     ''CREATE USER '' @ quoteIdent username @ '' WITH PASSWORD '' @ quoteLiteral password,
     ''ALTER ROLE '' @ quoteIdent username @ '' CONNECTION LIMIT '' @ to_str (jget limits ''connectionLimit''),
     ''CREATE DATABASE '' @ quoteIdent databaseName @ '' OWNER '' @ quoteIdent username,
     ''GRANT ALL PRIVILEGES ON DATABASE '' @ quoteIdent databaseName @ '' TO '' @ quoteIdent username,
     set_timeout username databaseName ''statement_timeout'' (jget limits ''statementTimeoutMs''),
     set_timeout username databaseName ''idle_in_transaction_session_timeout''
       (jget limits ''idleInTransactionSessionTimeoutMs''),
     set_timeout username databaseName ''lock_timeout'' (jget limits ''lockTimeoutMs'')]"

definition mask_password :: "string \<Rightarrow> string \<Rightarrow> string" where
  "mask_password password statement =
     rreplace1 (RLit (quoteLiteral password)) (\<lambda>_. quoteLiteral ''****'') statement"

definition postgres_commands :: "jsv \<Rightarrow> command_spec \<Rightarrow> command_spec \<Rightarrow> string \<Rightarrow> string \<Rightarrow> string \<Rightarrow> string \<Rightarrow> jsv" where
  "postgres_commands adminUrl adminCommand testCommand databaseUrl backupPath databaseName username = JObj [
     (''create'', JStr (commandToString adminCommand)), (''test'', JStr (commandToString testCommand)),
     (''backup'', JStr (''pg_dump --dbname '' @ masked databaseUrl @ '' --format=custom --file '' @ backupPath)),
     (''restore'', JStr (''pg_restore --dbname '' @ masked databaseUrl @ '' --clean --if-exists '' @ backupPath)),
     (''delete'', JStr (''psql '' @ masked (to_str (jor adminUrl (JStr ''<provider-admin-url>''))) @
        '' --set ON_ERROR_STOP=1 --command '' @ [CHR 0x22] @ ''DROP DATABASE IF EXISTS '' @ databaseName @
        ''; DROP USER IF EXISTS '' @ username @ '';'' @ [CHR 0x22]))]"

definition postgres_shared_provider :: "jsv \<Rightarrow> jsv" where
  "postgres_shared_provider providerHost = JObj [
     (''model'', JStr ''shared-postgresql-cluster''), (''providerHost'', providerHost),
     (''connectionPath'', JStr ''service -> PgBouncer -> PostgreSQL''),
     (''tenantPrimitive'', JStr ''database + cluster-level role''),
     (''namingWarning'', JStr ''PostgreSQL roles are cluster-level; keep generated usernames globally unique per provider.''),
     (''memoryGuidance'', JArr (map JStr [
        ''cap max_connections at the provider and prefer PgBouncer transaction pooling'',
        ''reduce shared_buffers/work_mem/hash_mem_multiplier when OOM pressure appears'',
        ''set per-role statement_timeout and idle_in_transaction_session_timeout for shared-small tenants'']))]"

definition buildPostgresProviderPlan :: "jsv \<Rightarrow> string \<Rightarrow> jsv \<Rightarrow> jsv \<Rightarrow> postgres_plan res" where
  "buildPostgresProviderPlan penv random resource options =
     rbind (safeSqlIdentifier (jor (jget resource ''databaseName'') (jor (jget resource ''database'')
       (JStr (tenantResourceName resource ''db'' (providerTenantScope resource options)))))) (\<lambda>databaseName.
     rbind (safeSqlIdentifier (jor (jget resource ''username'') (JStr (databaseName @ ''_app'')))) (\<lambda>username.
     rbind (pooler_host penv resource options) (\<lambda>host. let
       password = provider_password random resource options;
       port = to_num (jor (jget options ''port'') (jor (jget resource ''port'') (jint 5432)));
       limits = postgresTenantLimits resource options;
       databaseUrl = postgres_url username password host port databaseName;
       adminUrl = admin_url penv options;
       statements = postgres_statements username password databaseName limits;
       nl = [CHR 0x0A];
       sql = str_join ('';'' @ nl) statements @ '';'' @ nl;
       adminCommand = psqlCommand (to_str (jor adminUrl (JStr ''<provider-admin-url>''))) [''--set'', ''ON_ERROR_STOP=1''] sql;
       testCommand = psqlCommand databaseUrl [''--command'', ''SELECT 1 AS raibitserver_connection_test''] [];
       backupPath = to_str (jor (jget options ''backupPath'') (JStr (''/backups/'' @
         slugify (jor (jget resource ''name'') (JStr databaseName)) ''item'' @ ''-1970-01-01.dump'')));
       env = JObj [(''DATABASE_URL'', JStr databaseUrl), (''POSTGRES_URL'', JStr databaseUrl), (''PGHOST'', host),
         (''PGPORT'', JStr (num_str port)), (''PGDATABASE'', JStr databaseName), (''PGUSER'', JStr username),
         (''PGPASSWORD'', JStr password)];
       view = JObj [
         (''engine'', JStr ''postgresql''),
         (''provider'', jor (jget options ''provider'') (jor (jget resource ''provider'') (JStr ''postgresql-direct''))),
         (''sharedProvider'', postgres_shared_provider (provider_host resource options)), (''tenantLimits'', limits),
         (''databaseName'', JStr databaseName), (''username'', JStr username), (''host'', host), (''port'', JNum port),
         (''databaseUrlMasked'', maskSecretValue (JStr databaseUrl)),
         (''sqlStatements'', JArr (map (\<lambda>s. JStr (mask_password password s)) statements)),
         (''commands'', postgres_commands adminUrl adminCommand testCommand databaseUrl backupPath databaseName username),
         (''secret'', JObj [(''key'', JStr ''DATABASE_URL''), (''valueMasked'', maskSecretValue (JStr databaseUrl)),
            (''providerOwned'', JBool True)]),
         (''connectionSecret'', connectionSecretSummary env), (''riskControls'', sharedProviderRiskControls ''postgresql''),
         (''lifecycle'', JArr (map JStr [''shared-provider-select'', ''create-user'', ''set-role-limits'',
            ''create-database'', ''grant-privileges'', ''store-provider-secret'', ''connection-pooler'',
            ''connection-test'', ''backup-plan'', ''restore-plan'', ''delete-plan'']))]
     in Inr \<lparr>pgView = view, pgAdminUrl = adminUrl, pgDatabase = databaseName, pgUser = username, pgPassword = password,
       pgStatements = statements, pgDatabaseUrl = databaseUrl, pgEnv = env, pgAdminCommand = adminCommand,
       pgTestCommand = testCommand\<rparr>)))"

text \<open>The visible result of provisioning, and its hidden members \<open>databaseUrl\<close> and \<open>connectionEnv\<close>.\<close>

record provider_result =
  prView :: jsv
  prDatabaseUrl :: jsv
  prConnectionEnv :: jsv

definition step_of :: "string \<Rightarrow> jsv \<Rightarrow> jsv" where
  "step_of type result = jspread (JObj [(''type'', JStr type)]) result"

definition live_postgres :: "jsv \<Rightarrow> bool" where
  "live_postgres penv = (jget penv ''RAIBITSERVER_ENABLE_LIVE_PROVIDER_PROVISIONING'' = JStr ''true'')"

definition provisionPostgresProvider :: "process \<Rightarrow> jsv \<Rightarrow> string \<Rightarrow> jsv \<Rightarrow> jsv \<Rightarrow> provider_result res" where
  "provisionPostgresProvider proc penv random resource options = (let
     sanitized = jwith options (map (\<lambda>k. (k, JUndef))
       [''providerHost'', ''host'', ''poolerHost'', ''port'', ''adminUrl'', ''providerAdminUrl'']);
     wants = (jget options ''execute'' = JBool True \<and> jget options ''dryRun'' = JBool False);
     dryRun = (\<not> wants \<or> \<not> live_postgres penv)
   in rbind (buildPostgresProviderPlan penv random resource
        (jspread (JObj [(''generatePassword'', JBool True)]) sanitized)) (\<lambda>plan.
      if wants \<and> \<not> live_postgres penv then js_throw (''live PostgreSQL provisioning is disabled; set '' @
        ''RAIBITSERVER_ENABLE_LIVE_PROVIDER_PROVISIONING=true to allow execute=true'')
      else if \<not> dryRun \<and> \<not> truthy (pgAdminUrl plan) then js_throw (''RAIBITSERVER_POSTGRES_PROVIDER_URL or '' @
        ''POSTGRES_PROVIDER_URL is required for live PostgreSQL provisioning'')
      else rbind (runCommand proc (pgAdminCommand plan) dryRun) (\<lambda>r1.
      rbind (runCommand proc (pgTestCommand plan) dryRun) (\<lambda>r2. let
        view = pgView plan;
        steps = [step_of ''postgres-create-user-database-grants'' r1, step_of ''postgres-connection-test'' r2]
      in Inr \<lparr>prView = JObj [
          (''engine'', JStr ''postgresql''), (''provider'', jget view ''provider''), (''status'', JStr ''ready''),
          (''dryRun'', JBool dryRun), (''databaseName'', jget view ''databaseName''), (''username'', jget view ''username''),
          (''databaseUrlMasked'', jget view ''databaseUrlMasked''), (''connectionSecret'', jget view ''connectionSecret''),
          (''backup'', JObj [(''command'', jget (jget view ''commands'') ''backup'')]),
          (''restore'', JObj [(''command'', jget (jget view ''commands'') ''restore'')]),
          (''steps'', JArr (map maskSecrets steps)), (''plan'', publicProviderPlan view)],
        prDatabaseUrl = JStr (pgDatabaseUrl plan), prConnectionEnv = pgEnv plan\<rparr>))))"

section \<open>The other engines\<close>

definition random_secret :: "jsv \<Rightarrow> string \<Rightarrow> jsv" where
  "random_secret given random = jor given (JStr random)"

definition prepareResourceForEnv :: "string \<Rightarrow> (nat \<Rightarrow> string) \<Rightarrow> jsv \<Rightarrow> jsv \<Rightarrow> jsv" where
  "prepareResourceForEnv cwd rnd resource options = (let
     engine = resource_engine resource;
     name = slugify (jor (jget resource ''name'') (jor (JStr engine) (JStr ''resource''))) ''item'';
     tenantScope = providerTenantScope resource options;
     tenantName = tenantResourceName resource name tenantScope;
     dashed = JStr (replace_char CHR ''_'' dash tenantName);
     prepared = jwith resource [
       (''engine'', JStr engine),
       (''password'', random_secret (jor (jget options ''password'') (jor (jget resource ''password'')
          (jget resource ''generatedPassword''))) (rnd 0)),
       (''apiKey'', random_secret (jor (jget options ''apiKey'') (jget resource ''apiKey'')) (rnd 1)),
       (''accessKey'', jor (jget options ''accessKey'') (jor (jget resource ''accessKey'') (JStr (''ak-'' @ name)))),
       (''secretKey'', random_secret (jor (jget options ''secretKey'') (jget resource ''secretKey'')) (rnd 2)),
       (''databaseName'', jor (jget resource ''databaseName'') (jor (jget resource ''database'') (JStr tenantName))),
       (''username'', jor (jget resource ''username'') (JStr (str_prefix 63 (tenantName @ ''_app'')))),
       (''keyPrefix'', JStr (safeRedisKeyPrefix (jor (jget resource ''keyPrefix'') (JStr (tenantScope @ '':'' @ name @ '':''))))),
       (''bucket'', jor (jget resource ''bucket'') dashed), (''collection'', jor (jget resource ''collection'') dashed),
       (''topic'', jor (jget resource ''topic'') dashed)]
   in if engine = ''sqlite''
      then jset prepared ''sqlitePath'' (jor (jget resource ''sqlitePath'') (jor (jget (jget resource ''desiredSpec'') ''sqlitePath'')
        (JStr (providerOwnedSqlitePath cwd (jor (jget resource ''id'') (JStr name))))))
      else prepared)"

definition providerConnectionEnvForResource :: "jsv \<Rightarrow> string \<Rightarrow> (nat \<Rightarrow> string) \<Rightarrow> jsv \<Rightarrow> jsv \<Rightarrow> jsv res" where
  "providerConnectionEnvForResource penv cwd rnd resource options = (let
     prepared = prepareResourceForEnv cwd rnd resource options
   in connectionEnvForResource penv prepared (jor (jget prepared ''projectSlug'')
        (jor (jget options ''projectSlug'') (JStr ''project''))))"

definition primaryConnectionValue :: "jsv \<Rightarrow> string \<Rightarrow> jsv" where
  "primaryConnectionValue env engine =
    (if engine = ''postgresql'' then jor (jget env ''DATABASE_URL'') (jget env ''POSTGRES_URL'')
     else if engine = ''mysql'' then jget env ''MYSQL_URL''
     else if engine = ''mariadb'' then jor (jget env ''MARIADB_URL'') (jget env ''MYSQL_URL'')
     else if engine = ''mongodb'' then jor (jget env ''MONGODB_URI'') (jget env ''MONGO_URL'')
     else if engine = ''redis'' then jget env ''REDIS_URL''
     else if engine = ''valkey'' then jor (jget env ''VALKEY_URL'') (jget env ''REDIS_URL'')
     else if engine = ''sqlite'' then jor (jget env ''DATABASE_URL'') (jget env ''SQLITE_PATH'')
     else if engine = ''object-storage'' then jget env ''S3_ENDPOINT''
     else if engine = ''qdrant'' \<or> engine = ''vector-db'' then jget env ''VECTOR_DB_URL''
     else if engine = ''nats'' \<or> engine = ''message-queue'' then jget env ''QUEUE_URL''
     else (case find (\<lambda>(_, v). is_jstr v) (entries env) of Some (_, v) \<Rightarrow> v | None \<Rightarrow> JUndef))"

definition sq :: "string \<Rightarrow> string" where
  "sq s = [apostrophe] @ s @ [apostrophe]"

definition dq :: "string \<Rightarrow> string" where
  "dq s = [CHR 0x22] @ s @ [CHR 0x22]"

definition five_commands :: "string \<Rightarrow> string \<Rightarrow> string \<Rightarrow> string \<Rightarrow> string \<Rightarrow> (string \<times> command_spec) list" where
  "five_commands create test backup restore delete = [(''create'', shellCommand create), (''test'', shellCommand test),
     (''backup'', shellCommand backup), (''restore'', shellCommand restore), (''delete'', shellCommand delete)]"

definition mysql_commands :: "string \<Rightarrow> string \<Rightarrow> string \<Rightarrow> string \<Rightarrow> (string \<times> command_spec) list" where
  "mysql_commands url database username backupPath = (let user = sq username @ ''@'' @ sq ''%'' in five_commands
     (''mysql --execute '' @ dq (''CREATE DATABASE IF NOT EXISTS '' @ database @ ''; CREATE USER IF NOT EXISTS '' @ user @
        '' IDENTIFIED BY '' @ sq ''<provider-password>'' @ ''; GRANT ALL PRIVILEGES ON '' @ database @ ''.* TO '' @ user @ '';''))
     (''mysql '' @ url @ '' --execute '' @ dq ''SELECT 1 AS raibitserver_connection_test'')
     (''mysqldump '' @ url @ '' > '' @ backupPath @ ''.sql'') (''mysql '' @ url @ '' < '' @ backupPath @ ''.sql'')
     (''mysql --execute '' @ dq (''DROP DATABASE IF EXISTS '' @ database @ ''; DROP USER IF EXISTS '' @ user @ '';'')))"

definition mongodb_commands :: "string \<Rightarrow> string \<Rightarrow> string \<Rightarrow> string \<Rightarrow> (string \<times> command_spec) list" where
  "mongodb_commands url database username backupPath = (let sibling = ''db = db.getSiblingDB('' @ sq database @ ''); '' in
     five_commands
     (''mongosh '' @ url @ '' --eval '' @ dq (sibling @ ''db.createUser({ user: '' @ sq username @ '', pwd: '' @
        sq ''<provider-password>'' @ '', roles: [{ role: '' @ sq ''readWrite'' @ '', db: '' @ sq database @
        '' }] }); db.createCollection('' @ sq ''health'' @ '')''))
     (''mongosh '' @ url @ '' --eval '' @ dq ''db.runCommand({ ping: 1 })'')
     (''mongodump --uri '' @ url @ '' --db '' @ database @ '' --out '' @ backupPath)
     (''mongorestore --uri '' @ url @ '' --db '' @ database @ '' '' @ backupPath @ ''/'' @ database)
     (''mongosh '' @ url @ '' --eval '' @ dq (sibling @ ''db.dropDatabase()'')))"

definition backslash :: string where
  "backslash = [CHR 0x5C]"

definition redis_commands :: "string \<Rightarrow> string \<Rightarrow> string \<Rightarrow> string \<Rightarrow> (string \<times> command_spec) list" where
  "redis_commands url username keyPrefix backupPath = (let
     cli = ''redis-cli -u '' @ url; keys = sq (keyPrefix @ ''*''); line = sq (''%s'' @ backslash @ ''n'')
   in five_commands
     (cli @ '' ACL SETUSER '' @ username @ '' on '' @ backslash @ ''>'' @ sq ''<provider-password>'' @ '' '' @
        sq (''~'' @ keyPrefix @ ''*'') @ '' +@read +@write +@connection +@pubsub +@transaction -@admin -@dangerous '' @
        ''-FLUSHALL -FLUSHDB && '' @ cli @ '' PING'')
     (cli @ '' PING'') (cli @ '' --scan --pattern '' @ keys @ '' > '' @ backupPath @ ''.keys'')
     (cli @ '' --pipe < '' @ backupPath @ ''.resp # prefix-scoped restore only for keys under '' @ keyPrefix)
     (''cursor=0; while :; do reply=$('' @ cli @ '' SCAN '' @ dq ''$cursor'' @ '' MATCH '' @ keys @
        '' COUNT 500); cursor=$(printf '' @ line @ '' '' @ dq ''$reply'' @ '' | sed -n '' @ sq ''1p'' @ ''); keys=$(printf '' @
        line @ '' '' @ dq ''$reply'' @ '' | sed '' @ sq ''1d'' @ ''); [ -n '' @ dq ''$keys'' @ '' ] && printf '' @ line @ '' '' @
        dq ''$keys'' @ '' | xargs -r '' @ cli @ '' UNLINK; [ '' @ dq ''$cursor'' @ '' = '' @ dq ''0'' @ '' ] && break; done''))"

text \<open>\<open>path.dirname\<close> of a POSIX path without trailing slashes.\<close>

definition path_dirname :: "string \<Rightarrow> string" where
  "path_dirname p = (let segs = butlast (str_split CHR ''/'' p) in
     if segs = [] then ''.'' else if list_all (\<lambda>s. s = []) segs then ''/'' else str_join ''/'' segs)"

definition sqlite_commands :: "string \<Rightarrow> string \<Rightarrow> (string \<times> command_spec) list" where
  "sqlite_commands file backupPath = five_commands (''mkdir -p '' @ path_dirname file @ '' && touch '' @ file)
     (''sqlite3 '' @ file @ '' '' @ dq ''SELECT 1'') (''cp '' @ file @ '' '' @ backupPath @ ''.sqlite'')
     (''cp '' @ backupPath @ ''.sqlite '' @ file) (''rm -f '' @ file)"

definition storage_commands :: "string \<Rightarrow> string \<Rightarrow> (string \<times> command_spec) list" where
  "storage_commands bucket backupPath = (let b = ''raibit/'' @ bucket in five_commands
     (''mc mb --ignore-existing '' @ b) (''mc ls '' @ b) (''mc mirror '' @ b @ '' '' @ backupPath)
     (''mc mirror '' @ backupPath @ '' '' @ b) (''mc rm --recursive --force '' @ b))"

definition vector_commands :: "string \<Rightarrow> string \<Rightarrow> (string \<times> command_spec) list" where
  "vector_commands url collection = (let c = url @ ''/collections/'' @ collection in five_commands
     (''curl -X PUT '' @ c) (''curl '' @ url @ ''/collections'') (''curl '' @ c @ ''/snapshots'')
     (''curl -X POST '' @ c @ ''/snapshots/recover'') (''curl -X DELETE '' @ c))"

definition queue_commands :: "string \<Rightarrow> string \<Rightarrow> (string \<times> command_spec) list" where
  "queue_commands topic backupPath = five_commands (''nats stream add '' @ topic @ '' --subjects '' @ topic @ ''.>'')
     ''nats server check connection'' (''nats stream backup '' @ topic @ '' '' @ backupPath)
     (''nats stream restore '' @ backupPath) (''nats stream rm '' @ topic @ '' --force'')"

record command_context =
  ctxEnv :: jsv
  ctxDatabase :: string
  ctxUser :: string
  ctxKeyPrefix :: string
  ctxBucket :: string
  ctxCollection :: string
  ctxTopic :: string
  ctxBackup :: string
  ctxSqlite :: string

definition providerCommands :: "string \<Rightarrow> command_context \<Rightarrow> (string \<times> command_spec) list" where
  "providerCommands engine c = (let
     url = masked (to_str (jor (primaryConnectionValue (ctxEnv c) engine) (JStr ''<provider-owned-connection>'')));
     vectorUrl = masked (to_str (jor (jget (ctxEnv c) ''VECTOR_DB_URL'') (JStr ''<qdrant-url>'')))
   in if engine = ''mysql'' \<or> engine = ''mariadb'' then mysql_commands url (ctxDatabase c) (ctxUser c) (ctxBackup c)
      else if engine = ''mongodb'' then mongodb_commands url (ctxDatabase c) (ctxUser c) (ctxBackup c)
      else if redisLike engine then redis_commands url (ctxUser c) (ctxKeyPrefix c) (ctxBackup c)
      else if engine = ''sqlite'' then sqlite_commands (ctxSqlite c) (ctxBackup c)
      else if engine = ''object-storage'' then storage_commands (ctxBucket c) (ctxBackup c)
      else if engine = ''qdrant'' \<or> engine = ''vector-db'' then vector_commands vectorUrl (ctxCollection c)
      else if engine = ''nats'' \<or> engine = ''message-queue'' then queue_commands (ctxTopic c) (ctxBackup c)
      else [(''create'', shellCommand (''echo reconcile '' @ engine)), (''test'', shellCommand (''echo test '' @ engine))])"

section \<open>Plans of the other engines\<close>

definition sharedProviderModelFor :: "string \<Rightarrow> jsv \<Rightarrow> jsv" where
  "sharedProviderModelFor engine keyPrefix = JObj
    (if engine \<in> set [''postgresql'', ''mysql'', ''mariadb''] then
       [(''model'', JStr (''shared-'' @ engine @ ''-server'')), (''tenantPrimitive'', JStr ''database + user''),
        (''isolation'', JStr ''shared process, WAL/binlog, buffer pool/cache, disk I/O, and backup substrate'')]
     else if engine = ''mongodb'' then
       [(''model'', JStr ''shared-mongodb-server''), (''tenantPrimitive'', JStr ''database + user''),
        (''isolation'', JStr ''shared process, cache, journal, disk I/O, and backup substrate'')]
     else if redisLike engine then
       [(''model'', JStr (''shared-'' @ engine @ ''-server'')), (''tenantPrimitive'', JStr ''ACL user + key prefix''),
        (''keyPrefix'', keyPrefix),
        (''isolation'', JStr ''shared event loop, memory, eviction policy, persistence, and network I/O'')]
     else if engine = ''object-storage'' then
       [(''model'', JStr ''shared-object-storage-provider''), (''tenantPrimitive'', JStr ''bucket + IAM-style credentials'')]
     else if engine = ''qdrant'' \<or> engine = ''vector-db'' then
       [(''model'', JStr ''shared-vector-provider''), (''tenantPrimitive'', JStr ''collection + API key'')]
     else if engine = ''nats'' \<or> engine = ''message-queue'' then
       [(''model'', JStr ''shared-queue-provider''), (''tenantPrimitive'', JStr ''stream/subject + credentials'')]
     else [(''model'', JStr (engine @ ''-provider'')), (''tenantPrimitive'', JStr ''provider-owned resource'')])"

definition defaultProvider :: "string \<Rightarrow> string" where
  "defaultProvider engine =
    (if engine = ''sqlite'' then ''local-pvc'' else if engine = ''object-storage'' then ''minio-s3''
     else if engine = ''valkey'' then ''valkey-operator''
     else if engine = ''qdrant'' \<or> engine = ''vector-db'' then ''qdrant-provider''
     else if engine = ''nats'' \<or> engine = ''message-queue'' then ''nats-provider'' else engine @ ''-operator'')"

definition defaultConsoleSeed :: "string \<Rightarrow> string \<Rightarrow> string \<Rightarrow> string \<Rightarrow> jsv" where
  "defaultConsoleSeed engine bucket collection topic = JObj
    (if engine = ''redis'' \<or> engine = ''valkey'' then
       [(''keys'', JArr [JStr ''health:ready'']), (''values'', JObj [(''health:ready'', JStr ''ok'')]),
        (''ttl'', JObj [(''health:ready'', jint (-1))])]
     else if engine = ''object-storage'' then
       [(''bucket'', JStr bucket), (''buckets'', JArr [JStr bucket]), (''objects'', JArr [])]
     else if engine = ''mongodb'' then
       [(''collections'', JArr [JStr collection]), (''documents'', JObj [(collection, JArr [])])]
     else if engine = ''qdrant'' \<or> engine = ''vector-db'' then
       [(''collection'', JStr collection), (''collections'', JArr [JStr collection])]
     else if engine = ''nats'' \<or> engine = ''message-queue'' then
       [(''topic'', JStr topic), (''subjects'', JArr [JStr (topic @ ''.>'')])]
     else if engine = ''mysql'' \<or> engine = ''mariadb'' then [(''schemas'', JArr [JUndef]), (''tables'', JArr [])]
     else [])"

definition lifecycleFor :: "string \<Rightarrow> string list" where
  "lifecycleFor engine =
    (if engine = ''sqlite'' then [''create-provider-path'', ''store-provider-secret'', ''connection-test'', ''file-backup'',
       ''file-restore'', ''delete-cleanup'']
     else if engine \<in> set [''mysql'', ''mariadb'', ''postgresql''] then [''create-database'', ''create-user'',
       ''grant-privileges'', ''store-provider-secret'', ''connection-test'', ''backup-plan'', ''restore-plan'', ''delete-cleanup'']
     else if engine = ''mongodb'' then [''create-database'', ''create-user'', ''store-provider-secret'', ''ping-test'',
       ''collection-browser'', ''backup-plan'', ''delete-cleanup'']
     else if engine = ''redis'' \<or> engine = ''valkey'' then [''create-cache'', ''store-provider-secret'', ''ping-test'',
       ''key-browser'', ''ttl-view'', ''backup-plan'', ''delete-cleanup'']
     else if engine = ''object-storage'' then [''create-bucket'', ''store-provider-secret'', ''object-browser'',
       ''upload-download-delete'', ''backup-plan'', ''delete-cleanup'']
     else if engine = ''qdrant'' \<or> engine = ''vector-db'' then [''create-collection'', ''store-provider-secret'',
       ''collection-browser'', ''search-test'', ''delete-cleanup'']
     else if engine = ''nats'' \<or> engine = ''message-queue'' then [''create-stream-or-subject'', ''store-provider-secret'',
       ''connection-info'', ''publish-subscribe-smoke'', ''delete-cleanup'']
     else [''desired-state-write'', ''provider-reconcile''])"

definition maskedProviderConnection :: "jsv \<Rightarrow> string \<Rightarrow> jsv" where
  "maskedProviderConnection connection engine = (let
     es = filter (\<lambda>(k, _). k \<noteq> ''live'' \<and> k \<noteq> ''mode'') (entries connection);
     live = (jget connection ''live'' = JBool True)
   in if es = [] then JUndef else JObj [
     (''engine'', JStr engine), (''live'', JBool live),
     (''mode'', JStr (if live then ''live-provider'' else ''provider-contract'')),
     (''values'', JObj (map (\<lambda>(k, v). (k, maskSecretValue (JStr (to_str v)))) es))])"

definition console_keys :: "jsv \<Rightarrow> jsv \<Rightarrow> jsv list" where
  "console_keys options desired = (if is_jarr (jget options ''keys'') then items (jget options ''keys'')
     else if is_jarr (jget desired ''keys'') then items (jget desired ''keys'') else [])"

definition cut_items :: "jnum \<Rightarrow> 'a list \<Rightarrow> 'a list" where
  "cut_items n xs = (case n of Fin q \<Rightarrow> take (nat \<lfloor>q\<rfloor>) xs | _ \<Rightarrow> xs)"

definition or_single :: "jsv \<Rightarrow> jsv \<Rightarrow> jsv" where
  "or_single listed one = jor listed (if truthy one then JArr [one] else JArr [])"

definition contract_surface :: "string \<Rightarrow> (string \<times> jsv) list \<Rightarrow> jsv \<Rightarrow> string \<Rightarrow> string \<Rightarrow> jsv" where
  "contract_surface engine fs info command warning = JObj ([(''engine'', JStr engine)] @ fs @
     [(''connectionInfo'', info), (''mode'', JStr ''provider-contract''), (''command'', JStr command),
      (''warning'', JStr warning)])"

definition providerConsoleSurface :: "jsv \<Rightarrow> jsv \<Rightarrow> jsv" where
  "providerConsoleSurface resource options = (let
     engine = resource_engine resource;
     desired = jspread (jor (jget resource ''desiredSpec'') (JObj [])) (jor (jget resource ''desiredState'') (JObj []));
     info = maskedProviderConnection (jor (jget resource ''providerConnection'') (JObj [])) engine;
     keys = console_keys options desired;
     listed = (\<lambda>k. jor (jget desired k) (JArr []))
   in if engine = ''redis'' \<or> engine = ''valkey'' then JObj [
          (''engine'', JStr engine),
          (''keys'', JArr (cut_items (clamp (jget options ''limit'') 1 1000 100) (map (\<lambda>k. JStr (to_str k)) keys))),
          (''connectionInfo'', info),
          (''mode'', JStr (if keys \<noteq> [] then ''deterministic-adapter'' else ''provider-contract'')),
          (''command'', JStr ''SCAN 0 MATCH * COUNT 100''),
          (''warning'', if keys \<noteq> [] then JUndef else JStr (engine @
             '' key browser requires provider-owned REDIS_URL/VALKEY_URL or adapter-supplied keys''))]
      else if engine = ''mysql'' \<or> engine = ''mariadb'' then contract_surface engine
        [(''tables'', listed ''tables''), (''schemas'', listed ''schemas'')] info
        (''mysql --batch --execute '' @ dq ''SHOW TABLES'')
        (engine @ '' console uses provider-owned MYSQL_URL/MARIADB_URL with mysql CLI adapter when configured'')
      else if engine = ''mongodb'' then contract_surface engine
        [(''collections'', listed ''collections''), (''documents'', jor (jget desired ''documents'') (JObj []))] info
        (''mongosh --eval '' @ dq ''db.getCollectionNames()'')
        ''MongoDB collection browser uses provider-owned MONGODB_URI when configured''
      else if engine = ''object-storage'' then contract_surface engine
        [(''buckets'', or_single (jget desired ''buckets'') (jget desired ''bucket'')), (''objects'', listed ''objects'')] info
        ''mc ls <alias>/<bucket>'' ''MinIO/S3 bucket browser uses provider-owned endpoint credentials when configured''
      else if engine = ''qdrant'' \<or> engine = ''vector-db'' then contract_surface ''qdrant''
        [(''collections'', or_single (jget desired ''collections'') (jget desired ''collection''))] info
        ''GET /collections'' ''Qdrant collection/search uses provider-owned QDRANT_URL/API key when configured''
      else if engine = ''nats'' \<or> engine = ''message-queue'' then contract_surface ''nats''
        [(''streams'', listed ''streams''), (''subjects'', or_single (jget desired ''subjects'') (jget desired ''topic''))] info
        ''nats stream ls'' ''NATS browser uses provider-owned QUEUE_URL/NATS_URL when configured''
      else JObj [(''engine'', JStr engine), (''connectionInfo'', info), (''mode'', JStr ''provider-contract''),
        (''warning'', JStr (engine @ '' provider console adapter is not configured''))])"

text \<open>A plan with its hidden environment and commands.\<close>

record provider_plan =
  ppView :: jsv
  ppEnv :: jsv
  ppCommands :: "(string \<times> command_spec) list"

definition postgres_as_plan :: "postgres_plan \<Rightarrow> provider_plan" where
  "postgres_as_plan p = \<lparr>ppView = pgView p, ppEnv = pgEnv p,
     ppCommands = [(''create'', pgAdminCommand p), (''test'', pgTestCommand p)]\<rparr>"

definition when_engine :: "bool \<Rightarrow> string \<Rightarrow> jsv" where
  "when_engine b v = (if b then JStr v else JUndef)"

definition buildResourceProviderPlan :: "jsv \<Rightarrow> string \<Rightarrow> (nat \<Rightarrow> string) \<Rightarrow> jsv \<Rightarrow> jsv \<Rightarrow> provider_plan res" where
  "buildResourceProviderPlan penv cwd rnd resource options = (let engine = resource_engine resource in
     if engine = ''postgresql'' then rbind (buildPostgresProviderPlan penv (rnd 0) resource
         (jspread (JObj [(''generatePassword'', JBool True)]) options)) (\<lambda>p. Inr (postgres_as_plan p))
     else (let
       prepared = prepareResourceForEnv cwd rnd resource options;
       name = slugify (jor (jget prepared ''name'') (jor (JStr engine) (JStr ''resource''))) ''item'';
       database = underscore_slug (jor (jget prepared ''databaseName'') (jor (jget prepared ''database'')
         (jor (jget prepared ''name'') (JStr ''app''))));
       username = underscore_slug (jor (jget prepared ''username'') (jor (jget prepared ''name'')
         (jor (JStr engine) (JStr ''app''))));
       keyPrefix = safeRedisKeyPrefix (jor (jget prepared ''keyPrefix'') (JStr (slugify (jor (jget prepared ''projectSlug'')
         (jor (jget resource ''project'') (JStr ''project''))) ''item'' @ '':'' @ name @ '':'')));
       bucket = slugify (jor (jget prepared ''bucket'') (jor (jget prepared ''name'') (JStr ''bucket''))) ''item'';
       collection = slugify (jor (jget prepared ''collection'') (jor (jget prepared ''name'') (JStr ''collection''))) ''item'';
       topic = slugify (jor (jget prepared ''topic'') (jor (jget prepared ''name'') (JStr ''events''))) ''item'';
       backupPath = to_str (jor (jget options ''backupPath'') (JStr (''/backups/'' @ name @ ''-1970-01-01'')))
     in rbind (providerConnectionEnvForResource penv cwd rnd prepared options) (\<lambda>env. let
       commands = providerCommands engine \<lparr>ctxEnv = env, ctxDatabase = database, ctxUser = username,
         ctxKeyPrefix = keyPrefix, ctxBucket = bucket, ctxCollection = collection, ctxTopic = topic,
         ctxBackup = backupPath, ctxSqlite = to_str (jget prepared ''sqlitePath'')\<rparr>;
       seeded = jspread (jor (jget resource ''desiredSpec'') (JObj [])) (defaultConsoleSeed engine bucket collection topic)
     in Inr \<lparr>ppView = JObj [
         (''engine'', JStr engine),
         (''provider'', jor (jget options ''provider'') (jor (jget resource ''provider'') (JStr (defaultProvider engine)))),
         (''sharedProvider'', sharedProviderModelFor engine (when_engine (redisLike engine) keyPrefix)),
         (''resourceName'', JStr name), (''databaseName'', JStr database),
         (''username'', when_engine (databaseLike engine \<or> engine = ''nats'' \<or> engine = ''message-queue'') username),
         (''keyPrefix'', when_engine (redisLike engine) keyPrefix),
         (''bucket'', when_engine (engine = ''object-storage'') bucket),
         (''collection'', when_engine (engine \<in> set [''qdrant'', ''vector-db'', ''mongodb'']) collection),
         (''topic'', when_engine (engine \<in> set [''nats'', ''message-queue'']) topic),
         (''sqlitePath'', if engine = ''sqlite'' then jget prepared ''sqlitePath'' else JUndef),
         (''connectionSecret'', connectionSecretSummary env),
         (''commands'', JObj (map (\<lambda>(k, c). (k, JStr (commandToString c))) commands)),
         (''consoleSurface'', providerConsoleSurface
            (jwith resource [(''engine'', JStr engine), (''desiredSpec'', seeded)]) (JObj [])),
         (''riskControls'', sharedProviderRiskControls engine), (''lifecycle'', JArr (map JStr (lifecycleFor engine)))],
       ppEnv = env, ppCommands = commands\<rparr>)))"

definition run_step :: "process \<Rightarrow> bool \<Rightarrow> string \<Rightarrow> command_spec option \<Rightarrow> jsv list res" where
  "run_step proc dryRun type cmd = (case cmd of None \<Rightarrow> Inr []
     | Some c \<Rightarrow> rbind (runCommand proc c dryRun) (\<lambda>r. Inr [step_of type r]))"

definition provisionResourceProvider ::
  "process \<Rightarrow> jsv \<Rightarrow> string \<Rightarrow> (nat \<Rightarrow> string) \<Rightarrow> jsv \<Rightarrow> jsv \<Rightarrow> provider_result res" where
  "provisionResourceProvider proc penv cwd rnd resource options = (let engine = resource_engine resource in
     if engine = ''postgresql'' then provisionPostgresProvider proc penv (rnd 0) resource options
     else rbind (buildResourceProviderPlan penv cwd rnd resource (jspread (JObj [(''generatePassword'', JBool True)]) options))
       (\<lambda>plan. let dryRun = (jget options ''dryRun'' \<noteq> JBool False \<or> jget options ''execute'' \<noteq> JBool True); view = ppView plan in
       rbind (run_step proc dryRun (engine @ ''-create'') (map_of (ppCommands plan) ''create'')) (\<lambda>s1.
       rbind (run_step proc dryRun (engine @ ''-connection-test'') (map_of (ppCommands plan) ''test'')) (\<lambda>s2.
       Inr \<lparr>prView = JObj [
           (''engine'', JStr engine), (''provider'', jget view ''provider''), (''status'', JStr ''ready''),
           (''dryRun'', JBool dryRun), (''connectionSecret'', jget view ''connectionSecret''),
           (''backup'', JObj [(''command'', jget (jget view ''commands'') ''backup'')]),
           (''restore'', JObj [(''command'', jget (jget view ''commands'') ''restore'')]),
           (''steps'', JArr (map maskSecrets (s1 @ s2))), (''plan'', publicResourceProviderPlan view)],
         prDatabaseUrl = primaryConnectionValue (ppEnv plan) engine, prConnectionEnv = ppEnv plan\<rparr>))))"

section \<open>What the database reads outside quotes\<close>

text \<open>The characters of an SQL text outside identifiers in double quotes and literals in single quotes, and the
  quote left open at the end; a doubled quote closes and opens again.\<close>

fun sql_outside :: "char option \<Rightarrow> string \<Rightarrow> string \<times> char option" where
  "sql_outside st [] = ([], st)"
| "sql_outside None (c # cs) = (if c = apostrophe \<or> c = CHR 0x22 then sql_outside (Some c) cs
     else (case sql_outside None cs of (o', st) \<Rightarrow> (c # o', st)))"
| "sql_outside (Some q) (c # cs) = (if c = q then sql_outside None cs else sql_outside (Some q) cs)"

definition bare_sql :: "string \<Rightarrow> bool" where
  "bare_sql s = list_all (\<lambda>c. c \<noteq> apostrophe \<and> c \<noteq> CHR 0x22) s"

lemma outside_bare: "bare_sql s \<Longrightarrow> sql_outside None (s @ t) = (s @ fst (sql_outside None t), snd (sql_outside None t))"
  by (induction s) (auto simp: bare_sql_def split: prod.splits)

lemma outside_quoted: "q = apostrophe \<or> q = CHR 0x22 \<Longrightarrow> sql_outside None (quote_with q s @ t) = sql_outside None t"
proof -
  assume q: "q = apostrophe \<or> q = CHR 0x22"
  have "sql_outside (Some q) (concat (map (\<lambda>c. if c = q then [q, q] else [c]) s) @ q # t) = sql_outside None t"
    using q by (induction s) auto
  then show ?thesis using q by (auto simp: quote_with_def RChr_def rreplace_cls)
qed

lemma outside_ident: "sql_outside None (quoteIdent s @ t) = sql_outside None t"
  and outside_literal: "sql_outside None (quoteLiteral s @ t) = sql_outside None t"
  by (simp_all add: quoteIdent_def quoteLiteral_def outside_quoted)

lemma bare_sql_append: "bare_sql (s @ t) \<longleftrightarrow> bare_sql s \<and> bare_sql t"
  by (simp add: bare_sql_def)

lemma clampInteger_range:
  assumes "lo \<le> fallback" "fallback \<le> hi"
  shows "\<exists>n. clampInteger v lo hi fallback = Fin (of_int n) \<and> lo \<le> n \<and> n \<le> hi"
proof (cases "to_num v")
  case (Fin q)
  let ?m = "min (of_int hi) (max (of_int lo) q) :: rat"
  have m: "of_int lo \<le> ?m" "?m \<le> of_int hi" using assms by (auto simp: min_def max_def)
  show ?thesis
  proof (cases "?m < 0")
    case True
    have "(of_int lo :: rat) \<le> of_int \<lceil>?m\<rceil>" using m(1) le_of_int_ceiling by (rule order_trans)
    then have "lo \<le> - \<lfloor>- ?m\<rfloor>" unfolding of_int_le_iff ceiling_def .
    moreover have "- \<lfloor>- ?m\<rfloor> \<le> hi" using m(2) by (metis ceiling_def ceiling_le_iff)
    ultimately show ?thesis using Fin True
      by (intro exI[of _ "- \<lfloor>- ?m\<rfloor>"]) (simp add: clampInteger_def is_finite_def num_trunc_def)
  next
    case False
    have "lo \<le> \<lfloor>?m\<rfloor>" "\<lfloor>?m\<rfloor> \<le> hi" using m by (simp_all add: le_floor_iff floor_le_iff)
    then show ?thesis using Fin False
      by (intro exI[of _ "\<lfloor>?m\<rfloor>"]) (simp add: clampInteger_def is_finite_def num_trunc_def)
  qed
qed (use assms in \<open>auto simp: clampInteger_def is_finite_def\<close>)

lemma int_str_bare: "bare_sql (num_str (Fin (of_int n)))"
proof -
  have d: "is_digit c \<Longrightarrow> c \<noteq> apostrophe \<and> c \<noteq> CHR 0x22" for c by (auto simp: is_digit_def code_of_def)
  show ?thesis
    using nat_str_digits d by (auto simp: bare_sql_def num_str_def int_str_def list_all_iff)
qed

lemma safeSqlIdentifier_ok: "safeSqlIdentifier v = Inr s \<Longrightarrow> SQL_IDENTIFIER_RE s"
  by (auto simp: safeSqlIdentifier_def Let_def split: if_splits)


text \<open>The statements with nothing between their quotes.\<close>

definition timeout_skeleton :: "string \<Rightarrow> string" where
  "timeout_skeleton setting = ''ALTER ROLE  IN DATABASE  SET '' @ setting @ '' = ''"

definition statement_skeletons :: "jsv \<Rightarrow> string list" where
  "statement_skeletons limits = [''CREATE USER  WITH PASSWORD '',
     ''ALTER ROLE  CONNECTION LIMIT '' @ to_str (jget limits ''connectionLimit''),
     ''CREATE DATABASE  OWNER '', ''GRANT ALL PRIVILEGES ON DATABASE  TO '', timeout_skeleton ''statement_timeout'',
     timeout_skeleton ''idle_in_transaction_session_timeout'', timeout_skeleton ''lock_timeout'']"

definition script_skeleton :: "jsv \<Rightarrow> string" where
  "script_skeleton limits = str_join ('';'' @ [CHR 0x0A]) (statement_skeletons limits) @ '';'' @ [CHR 0x0A]"

text \<open>Text \<open>s\<close> reads as \<open>k\<close> and leaves no quote open, whatever follows.\<close>

definition reads_as :: "string \<Rightarrow> string \<Rightarrow> bool" where
  "reads_as s k = (\<forall>t. sql_outside None (s @ t) = (k @ fst (sql_outside None t), snd (sql_outside None t)))"

lemma reads_bare: "bare_sql s \<Longrightarrow> reads_as s s"
  by (simp add: reads_as_def outside_bare)

lemma reads_quoted: "reads_as (quoteIdent s) []" "reads_as (quoteLiteral s) []"
  by (simp_all add: reads_as_def outside_ident outside_literal)

lemma reads_append: "reads_as s k \<Longrightarrow> reads_as t l \<Longrightarrow> reads_as (s @ t) (k @ l)"
  by (simp add: reads_as_def)

lemma reads_join: "list_all2 reads_as ss ks \<Longrightarrow> bare_sql sep \<Longrightarrow> reads_as (str_join sep ss) (str_join sep ks)"
proof (induction rule: list_all2_induct)
  case (Cons s ss k ks)
  then show ?case
    by (cases ss; cases ks) (auto intro!: reads_append simp: reads_bare)
qed (simp add: reads_as_def)

lemma bare_words: "bare_sql ''CREATE USER ''" "bare_sql '' WITH PASSWORD ''" "bare_sql ''ALTER ROLE ''"
  "bare_sql '' CONNECTION LIMIT ''" "bare_sql ''CREATE DATABASE ''" "bare_sql '' OWNER ''"
  "bare_sql ''GRANT ALL PRIVILEGES ON DATABASE ''" "bare_sql '' TO ''" "bare_sql '' IN DATABASE ''" "bare_sql '' SET ''"
  "bare_sql '' = ''" "bare_sql ''statement_timeout''" "bare_sql ''idle_in_transaction_session_timeout''"
  "bare_sql ''lock_timeout''" "bare_sql ('';'' @ [CHR 0x0A])"
  by code_simp+

lemmas reads_rules = reads_append reads_quoted reads_bare bare_words

lemma reads_as_eq: "reads_as s k \<Longrightarrow> k = k' \<Longrightarrow> reads_as s k'"
  by simp

lemma reads_timeout: "bare_sql setting \<Longrightarrow> reads_as (set_timeout u d setting ms) (timeout_skeleton setting)"
  unfolding set_timeout_def by (rule reads_as_eq, (rule reads_rules | assumption)+) (simp add: timeout_skeleton_def)

lemma reads_statements:
  assumes "bare_sql (to_str (jget limits ''connectionLimit''))"
  shows "list_all2 reads_as (postgres_statements u pw d limits) (statement_skeletons limits)"
proof -
  have 1: "reads_as (''CREATE USER '' @ quoteIdent u @ '' WITH PASSWORD '' @ quoteLiteral pw) ''CREATE USER  WITH PASSWORD ''"
    by (rule reads_as_eq, (rule reads_rules)+) simp
  have 2: "reads_as (''ALTER ROLE '' @ quoteIdent u @ '' CONNECTION LIMIT '' @ to_str (jget limits ''connectionLimit''))
      (''ALTER ROLE  CONNECTION LIMIT '' @ to_str (jget limits ''connectionLimit''))"
    by (rule reads_as_eq, (rule reads_rules assms)+) simp
  have 3: "reads_as (''CREATE DATABASE '' @ quoteIdent d @ '' OWNER '' @ quoteIdent u) ''CREATE DATABASE  OWNER ''"
    by (rule reads_as_eq, (rule reads_rules)+) simp
  have 4: "reads_as (''GRANT ALL PRIVILEGES ON DATABASE '' @ quoteIdent d @ '' TO '' @ quoteIdent u)
      ''GRANT ALL PRIVILEGES ON DATABASE  TO ''"
    by (rule reads_as_eq, (rule reads_rules)+) simp
  show ?thesis
    unfolding postgres_statements_def statement_skeletons_def
    by (intro list.rel_intros 1 2 3 4 reads_timeout bare_words)
qed

lemma outside_script:
  assumes "bare_sql (to_str (jget limits ''connectionLimit''))"
  shows "sql_outside None (str_join ('';'' @ [CHR 0x0A]) (postgres_statements u pw d limits) @ '';'' @ [CHR 0x0A]) =
    (script_skeleton limits, None)"
proof -
  have "reads_as (str_join ('';'' @ [CHR 0x0A]) (postgres_statements u pw d limits) @ '';'' @ [CHR 0x0A]) (script_skeleton limits)"
    unfolding script_skeleton_def
    by (intro reads_append[of _ _ "'';'' @ [CHR 0x0A]"] reads_join reads_statements assms reads_bare bare_words)
  from this[unfolded reads_as_def, rule_format, of "[]"] show ?thesis by (simp only: append_Nil2 sql_outside.simps fst_conv snd_conv)
qed

lemma connection_limit:
  "\<exists>n. jget (postgresTenantLimits resource options) ''connectionLimit'' = jint n \<and> 1 \<le> n \<and> n \<le> 100"
  using clampInteger_range[of 1 20 100] by (simp add: postgresTenantLimits_def Let_def)

lemma plan_script:
  assumes "buildPostgresProviderPlan penv random resource options = Inr plan"
  shows "SQL_IDENTIFIER_RE (pgDatabase plan)" "SQL_IDENTIFIER_RE (pgUser plan)"
    "jget (pgView plan) ''tenantLimits'' = postgresTenantLimits resource options"
    "cmdStdin (pgAdminCommand plan) = str_join ('';'' @ [CHR 0x0A]) (postgres_statements (pgUser plan) (pgPassword plan)
       (pgDatabase plan) (postgresTenantLimits resource options)) @ '';'' @ [CHR 0x0A]"
  using assms unfolding buildPostgresProviderPlan_def rbind_Inr_iff Let_def
  by (auto simp: psqlCommand_def dest: safeSqlIdentifier_ok)

section \<open>Properties\<close>

text \<open>C18: Whatever database, user, password and limits a resource asks for, the script \<open>psql\<close> runs as the
  administrator reads, outside quotes, as the same seven statements: the names are valid identifiers, the password
  cannot leave its literal, and the connection limit is an integer from 1 to 100.\<close>

theorem postgres_script_safe:
  assumes "buildPostgresProviderPlan penv random resource options = Inr plan"
  shows "SQL_IDENTIFIER_RE (pgDatabase plan) \<and> SQL_IDENTIFIER_RE (pgUser plan) \<and>
    sql_outside None (cmdStdin (pgAdminCommand plan)) = (script_skeleton (jget (pgView plan) ''tenantLimits''), None) \<and>
    (\<exists>n. jget (jget (pgView plan) ''tenantLimits'') ''connectionLimit'' = jint n \<and> 1 \<le> n \<and> n \<le> 100)"
proof -
  obtain n where n: "jget (postgresTenantLimits resource options) ''connectionLimit'' = jint n" "1 \<le> n" "n \<le> 100"
    using connection_limit by blast
  then have "bare_sql (to_str (jget (postgresTenantLimits resource options) ''connectionLimit''))"
    using int_str_bare[of n] by simp
  then show ?thesis
    using plan_script[OF assms] n unfolding plan_script(3,4)[OF assms] by (simp only: outside_script) blast
qed

lemma is_ok_rbind: "is_ok m \<Longrightarrow> (\<And>x. is_ok (g x)) \<Longrightarrow> is_ok (rbind m g)"
  by (cases m) simp_all

definition evil_resource :: jsv where
  "evil_resource = JObj [(''name'', JStr ''shop''), (''password'', JStr ([apostrophe] @ ''; DROP TABLE users; --'')),
     (''username'', JStr ([CHR 0x22] @ ''; x'')), (''connectionLimit'', JStr ''1e9'')]"

theorem postgres_script_safe_witness:
  "fst (sql_outside None (cmdStdin (pgAdminCommand (projr (buildPostgresProviderPlan (JObj []) [] evil_resource (JObj [])))))) =
   script_skeleton (jget (pgView (projr (buildPostgresProviderPlan (JObj []) [] evil_resource (JObj [])))) ''tenantLimits'')"
proof -
  let ?r = "buildPostgresProviderPlan (JObj []) [] evil_resource (JObj [])"
  have "is_ok (safeSqlIdentifier (jor (jget evil_resource ''databaseName'') (jor (jget evil_resource ''database'')
      (JStr (tenantResourceName evil_resource ''db'' (providerTenantScope evil_resource (JObj [])))))))"
    "\<And>d. is_ok (safeSqlIdentifier (jor (jget evil_resource ''username'') (JStr (d @ ''_app''))))"
    "is_ok (pooler_host (JObj []) evil_resource (JObj []))"
    by code_simp+
  then have "is_ok ?r" unfolding buildPostgresProviderPlan_def Let_def by (intro is_ok_rbind) simp_all
  then have "?r = Inr (projr ?r)" by (simp add: is_ok_def split: sum.splits)
  from postgres_script_safe[OF this] show ?thesis by (metis fst_conv)
qed

end
