(* ===== verification/StoreHelpers.thy ===== *)
theory StoreHelpers
  imports Providers
begin

text \<open>
  \<open>store-helpers.ts\<close>: what the control plane store computes from its rows without changing them
  (environment of a provider connection, quota metrics, resource requests, build and run times).
\<close>

section \<open>Objects without some keys\<close>

text \<open>The rest pattern \<open>{ a, b, ...rest }\<close>.\<close>

definition jrest :: "jsv \<Rightarrow> string list \<Rightarrow> jsv" where
  "jrest v ks = JObj (filter (\<lambda>p. fst p \<notin> set ks) (entries v))"

lemma has_own_jrest [simp]: "has_own (jrest v ks) k \<longleftrightarrow> has_own v k \<and> k \<notin> set ks"
  by (auto simp: has_own_def jrest_def image_iff) (metis fst_conv)

lemma jget_jrest [simp]: "jget (jrest v ks) k = (if k \<in> set ks then JUndef else jget v k)"
  by (simp add: jget_def jrest_def map_of_map_filter_key[where P = "\<lambda>a. a \<notin> set ks"])

section \<open>Dates\<close>

text \<open>\<open>new Date(v).getTime()\<close>, \<open>None\<close> for NaN: a number is an instant in milliseconds, \<open>null\<close> and
  booleans convert to numbers, anything else is read as text.\<close>

definition date_value :: "jsv \<Rightarrow> int option" where
  "date_value v = (case v of
      JUndef \<Rightarrow> None | JNull \<Rightarrow> Some 0 | JBool b \<Rightarrow> Some (if b then 1 else 0)
    | JNum n \<Rightarrow> (case n of
        Fin q \<Rightarrow> if \<bar>q\<bar> \<le> 8640000000000000 then Some (if 0 \<le> q then \<lfloor>q\<rfloor> else - \<lfloor>- q\<rfloor>) else None
      | _ \<Rightarrow> None)
    | _ \<Rightarrow> date_parse (to_str v))"

definition dateMs :: "jsv \<Rightarrow> int" where
  "dateMs v = (if truthy v then (case date_value v of Some t \<Rightarrow> t | None \<Rightarrow> 0) else 0)"

definition utc_day :: "int \<Rightarrow> int \<times> int \<times> int" where
  "utc_day t = civil_of_days (t div 86400000)"

definition isSameUtcDay :: "jsv \<Rightarrow> jsv \<Rightarrow> bool" where
  "isSameUtcDay left right = (case (date_value left, date_value right) of
      (Some a, Some b) \<Rightarrow> utc_day a = utc_day b | _ \<Rightarrow> False)"

section \<open>Resources and their connection environment\<close>

definition resourceTypeForEngine :: "string \<Rightarrow> string" where
  "resourceTypeForEngine engine =
    (if engine \<in> set [''redis'', ''valkey''] then ''cache'' else if engine = ''object-storage'' then ''storage''
     else if engine \<in> set [''qdrant'', ''vector-db''] then ''vector''
     else if engine \<in> set [''nats'', ''message-queue''] then ''queue'' else ''database'')"

definition prefixEnv :: "jsv \<Rightarrow> jsv \<Rightarrow> jsv" where
  "prefixEnv env envPrefix = (let
     s0 = str_trim (to_str (jor envPrefix (JStr [])));
     s1 = rreplace (RPlus (RCls (\<lambda>c. \<not> alnum c))) (\<lambda>_. ''_'') s0;
     pre = str_upper (rreplace (RTrim (\<lambda>c. c = CHR ''_'')) (\<lambda>_. []) s1)
   in if pre = [] then JObj (entries env)
      else JObj (map (\<lambda>(key, v). (pre @ ''_'' @ key, v)) (entries env)))"

text \<open>\<open>/^[A-Z0-9_]+$/.test(key) && typeof value === 'string'\<close>\<close>

definition env_field :: "string \<times> jsv \<Rightarrow> bool" where
  "env_field e = (fst e \<noteq> [] \<and> list_all (\<lambda>c. is_upper c \<or> is_digit c \<or> c = CHR ''_'') (fst e) \<and> is_jstr (snd e))"

definition providerEnvFromConnection :: "jsv \<Rightarrow> string \<Rightarrow> (nat \<Rightarrow> string) \<Rightarrow> jsv \<Rightarrow> jsv \<Rightarrow> jsv res" where
  "providerEnvFromConnection penv cwd rnd consoleResource resource = (let
     env = filter env_field (entries (jor (jget consoleResource ''providerConnection'') (JObj [])))
   in if env \<noteq> [] then Inr (JObj env) else providerConnectionEnvForResource penv cwd rnd resource (JObj []))"

definition first_env :: "jsv \<Rightarrow> string list \<Rightarrow> jsv" where
  "first_env env ks = (case find truthy (map (jget env) ks) of Some v \<Rightarrow> v | None \<Rightarrow> JUndef)"

definition connection_field :: "string \<Rightarrow> (string \<times> string list) option" where
  "connection_field engine =
    (if engine = ''postgresql'' then Some (''databaseUrl'', [''DATABASE_URL'', ''POSTGRES_URL'', ''POSTGRESQL_URL''])
     else if engine = ''mysql'' then Some (''url'', [''MYSQL_URL''])
     else if engine = ''mariadb'' then Some (''url'', [''MARIADB_URL'', ''MYSQL_URL''])
     else if engine = ''mongodb'' then Some (''uri'', [''MONGODB_URI'', ''MONGO_URL''])
     else if engine = ''redis'' then Some (''url'', [''REDIS_URL''])
     else if engine = ''valkey'' then Some (''url'', [''VALKEY_URL'', ''REDIS_URL''])
     else if engine = ''sqlite'' then Some (''databaseUrl'', [''DATABASE_URL''])
     else if engine = ''object-storage'' then Some (''url'', [''S3_ENDPOINT''])
     else if engine = ''qdrant'' \<or> engine = ''vector-db'' then Some (''url'', [''VECTOR_DB_URL'', ''QDRANT_URL''])
     else if engine = ''nats'' \<or> engine = ''message-queue'' then Some (''url'', [''QUEUE_URL'', ''NATS_URL''])
     else None)"

definition providerConnectionFromEnv :: "jsv \<Rightarrow> jsv \<Rightarrow> bool \<Rightarrow> jsv" where
  "providerConnectionFromEnv env engine live = (let
     connection = jwith env [(''live'', JBool live),
       (''mode'', JStr (if live then ''live-provider'' else ''provider-contract''))]
   in case connection_field (normalizeResourceEngine engine) of
        None \<Rightarrow> connection
      | Some (name, ks) \<Rightarrow> jset connection name (first_env env ks))"

definition isProviderConnectionSecret :: "jsv \<Rightarrow> jsv \<Rightarrow> bool" where
  "isProviderConnectionSecret secret resourceId = (truthy secret \<and>
     jget secret ''scopeType'' = JStr ''resource-provider-connection'' \<and>
     to_str (jget secret ''scopeId'') = to_str resourceId \<and> truthy (jget secret ''key''))"

section \<open>Quota metrics\<close>

definition lower_text :: "jsv \<Rightarrow> string" where
  "lower_text v = str_lower (to_str (jor v (JStr [])))"

definition resourceQuotaMetric :: "jsv \<Rightarrow> string" where
  "resourceQuotaMetric resource =
    (if lower_text (jget resource ''type'') = ''storage'' \<or> str_includes (lower_text (jget resource ''engine'')) ''object''
     then ''maxObjectStorageMb'' else ''maxDbStorageMb'')"

definition resourceStorageMb :: "jsv \<Rightarrow> bool \<Rightarrow> jnum" where
  "resourceStorageMb resource includeDesiredState = (let
     spec = (if includeDesiredState
       then jspread (jspread (JObj (entries (jor (jget resource ''desiredSpec'') (JObj []))))
         (jor (jget resource ''desiredState'') (JObj []))) resource
       else resource)
   in if jget spec ''storageMb'' \<noteq> JUndef then to_num (jor (jget spec ''storageMb'') (jint 0))
      else if jget spec ''storageGb'' \<noteq> JUndef then num_scale 1024 (to_num (jor (jget spec ''storageGb'') (jint 0)))
      else Fin 1)"

definition num_sum :: "('a \<Rightarrow> jnum) \<Rightarrow> 'a list \<Rightarrow> jnum" where
  "num_sum f xs = foldl (\<lambda>sum x. num_add sum (f x)) (Fin 0) xs"

definition usageMetricSum :: "jsv list \<Rightarrow> string list \<Rightarrow> jnum" where
  "usageMetricSum records aliases = (let names = map str_lower aliases in
     num_sum (\<lambda>record. to_num (jor (jget record ''value'') (jint 0)))
       (filter (\<lambda>record. lower_text (jget record ''metric'') \<in> set names) records))"

definition span_ms :: "int \<Rightarrow> int \<Rightarrow> int \<Rightarrow> jnum" where
  "span_ms start stop unit = (if start \<noteq> 0 \<and> stop \<noteq> 0 \<and> start < stop
     then Fin (of_int (stop - start) / of_int unit) else Fin 0)"

definition deploymentBuildMinutes :: "jsv \<Rightarrow> jnum" where
  "deploymentBuildMinutes deployment = span_ms
     (dateMs (jor (jget deployment ''buildStartedAt'') (jget deployment ''startedAt'')))
     (dateMs (jor (jget deployment ''buildFinishedAt'') (jget deployment ''finishedAt''))) 60000"

definition deploymentRuntimeHours :: "int \<Rightarrow> jsv \<Rightarrow> jnum" where
  "deploymentRuntimeHours now deployment = (let
     finished = dateMs (jget deployment ''finishedAt'')
   in span_ms (dateMs (jget deployment ''deployedAt'')) (if finished \<noteq> 0 then finished else now) 3600000)"

section \<open>Requested processor and memory\<close>

definition num_or_zero :: "jnum \<Rightarrow> jnum" where
  "num_or_zero n = (if truthy (JNum n) then n else Fin 0)"

definition parseCpuMillicores :: "jsv \<Rightarrow> jnum" where
  "parseCpuMillicores v = (if v = JNull \<or> v = JUndef \<or> v = JStr [] then Fin 0 else
     (let t = str_trim (to_str v) in
      if ends_with t ''m'' then num_or_zero (num_of_str (butlast t))
      else (let n = num_of_str t in if is_finite n then num_scale 1000 n else Fin 0)))"

definition parseMemoryMb :: "jsv \<Rightarrow> jnum" where
  "parseMemoryMb v = (if v = JNull \<or> v = JUndef \<or> v = JStr [] then Fin 0 else
     (let t = str_lower (str_trim (to_str v)); n = num_of_str (rev (dropWhile is_lower (rev t))) in
      if \<not> is_finite n then Fin 0
      else if ends_with t ''gi'' \<or> ends_with t ''gib'' then num_scale 1024 n
      else if ends_with t ''gb'' then num_scale 1000 n
      else if ends_with t ''ki'' \<or> ends_with t ''kib'' then num_scale (1 / 1024) n
      else if ends_with t ''kb'' then num_scale (1 / 1000) n
      else n))"

definition service_spec :: "jsv \<Rightarrow> jsv" where
  "service_spec service = jor (jget service ''desiredSpec'') (jor (jget service ''desiredState'') service)"

definition requested :: "jsv \<Rightarrow> string \<Rightarrow> jsv" where
  "requested spec name = (let r = jget spec ''resources'' in
     jor (jget (jget r ''requests'') name) (jget (jget r ''limits'') name))"

definition serviceCpuMillicores :: "jsv \<Rightarrow> jnum" where
  "serviceCpuMillicores service = (let spec = service_spec service in
     parseCpuMillicores (jor (jget spec ''cpu'') (jor (jget spec ''cpuRequest'') (requested spec ''cpu''))))"

definition serviceMemoryMb :: "jsv \<Rightarrow> jnum" where
  "serviceMemoryMb service = (let spec = service_spec service in
     parseMemoryMb (jor (jget spec ''memory'') (jor (jget spec ''memoryMb'') (jor (jget spec ''memoryRequest'')
       (requested spec ''memory'')))))"

end
