(* ===== verification/Rbac.thy ===== *)
theory Rbac
  imports Secrets
begin

text \<open>
  \<open>rbac.ts\<close> (the role table, \<open>can\<close>, \<open>assertCan\<close>, \<open>visibleEnvironment\<close>) and \<open>env-policy.ts\<close>
  (who may write secret environment keys). A role is any value; \<open>ROLE_PERMISSIONS[role]\<close> reads the
  inherited members of \<open>Object.prototype\<close> too, on which \<open>.includes\<close> throws.
\<close>

section \<open>rbac.ts\<close>

definition TEAM_ROLES :: "string list" where
  "TEAM_ROLES = [''owner'', ''admin'', ''developer'', ''viewer'', ''billing-manager'', ''db-admin'']"

definition PROJECT_ROLES :: "string list" where
  "PROJECT_ROLES = [''project-owner'', ''maintainer'', ''developer'', ''viewer'']"

definition ROLE_PERMISSIONS :: "(string \<times> string list) list" where
  "ROLE_PERMISSIONS = [
    (''owner'', [''*'']),
    (''admin'', [''project:read'', ''project:create'', ''project:update'', ''project:delete'',
       ''service:create'', ''service:update'', ''deploy:run'', ''env:write'', ''env:read'', ''db:create'',
       ''db:delete'', ''db:schema:read'', ''team:invite'', ''audit:read'', ''billing:read'', ''logs:read'',
       ''metrics:read'']),
    (''developer'', [''project:read'', ''deploy:run'', ''logs:read'', ''metrics:read'',
       ''env:write-limited'', ''db:schema:read'']),
    (''viewer'', [''project:read'', ''logs:read'', ''metrics:read'']),
    (''billing-manager'', [''project:read'', ''billing:read'', ''billing:write'', ''usage:read'']),
    (''db-admin'', [''project:read'', ''db:create'', ''db:delete'', ''db:connect'', ''db:schema:read'',
       ''db:data:read'', ''db:query'', ''db:query:write'', ''backup:restore'']),
    (''project-owner'', [''project:*'']),
    (''maintainer'', [''project:read'', ''project:update'', ''service:create'', ''service:update'',
       ''deploy:run'', ''env:write'', ''env:read'', ''db:connect'', ''db:schema:read'', ''db:data:read'',
       ''logs:read'', ''metrics:read''])]"

definition permits :: "string list \<Rightarrow> string \<Rightarrow> bool" where
  "permits ps action =
    (if action = ''env:write-limited'' \<and> ''env:write'' \<in> set ps then True
     else if action = ''db:connect-limited'' \<and> ''db:connect'' \<in> set ps then True
     else if action = ''db:schema:read'' \<and> (''db:connect'' \<in> set ps \<or> ''db:data:read'' \<in> set ps) then True
     else if action = ''db:data:read'' \<and> ''db:connect'' \<in> set ps then True
     else if action = ''db:query:write'' \<and> ''db:query'' \<in> set ps then True
     else ''*'' \<in> set ps \<or> action \<in> set ps \<or>
       list_ex (\<lambda>p. ends_with p '':*'' \<and> starts_with action (str_prefix (length p - 1) p)) ps)"

definition can :: "jsv \<Rightarrow> string \<Rightarrow> bool res" where
  "can role action = (case map_of ROLE_PERMISSIONS (to_str role) of
      Some ps \<Rightarrow> Inr (permits ps action)
    | None \<Rightarrow>
        (if to_str role \<in> set proto_keys then js_throw ''permissions.includes is not a function''
         else Inr (permits [] action)))"

definition assertCan :: "jsv \<Rightarrow> string \<Rightarrow> bool res" where
  "assertCan role action = rbind (can role action) (\<lambda>b.
     if b then Inr True
     else js_throw_status 403 (''role '' @ to_str role @ '' cannot perform '' @ action))"

definition visibleEnvironment :: "jsv \<Rightarrow> jsv \<Rightarrow> jsv res" where
  "visibleEnvironment environment role0 = (let role = jdefault role0 (JStr ''viewer'') in
     rbind (can role ''env:read'') (\<lambda>r. if r then Inr environment else
     rbind (can role ''env:write-limited'') (\<lambda>w.
     rbind (if w then Inr True else can role ''db:schema:read'') (\<lambda>l.
       Inr (if l then JObj (map (\<lambda>(k, _). (k, JStr ''<restricted>'')) (entries environment)) else JObj [])))))"

section \<open>env-policy.ts\<close>

definition secretEnvironmentKeys :: "jsv list \<Rightarrow> jsv list" where
  "secretEnvironmentKeys es =
     map (\<lambda>e. jget e ''key'') (filter (\<lambda>e. jget e ''isSecret'' = JBool True \<or> isSecretKey (jget e ''key'')) es)"

definition assertEnvironmentWriteAllowed :: "jsv \<Rightarrow> jsv list \<Rightarrow> bool res" where
  "assertEnvironmentWriteAllowed subject es =
     rbind (can (jget subject ''role'') ''env:write'') (\<lambda>b. if b then Inr True else
       (let secretKeys = secretEnvironmentKeys es in
        if secretKeys \<noteq> [] then js_throw_status 403 (''role '' @ to_str (jget subject ''role'') @
          '' requires env:write to modify secret environment keys: '' @
          str_join '', '' (to_str_items secretKeys))
        else Inr True))"

section \<open>Lemmas\<close>

lemma can_known: "map_of ROLE_PERMISSIONS r = Some ps \<Longrightarrow> can (JStr r) action = Inr (permits ps action)"
  by (simp add: can_def)

lemma permits_Nil [simp]: "\<not> permits [] action"
  by (simp add: permits_def)

lemma can_cases:
  assumes "can role a = Inr b"
  obtains (known) ps where "map_of ROLE_PERMISSIONS (to_str role) = Some ps" "b = permits ps a"
      "\<And>x. can role x = Inr (permits ps x)"
    | (unknown) "\<not> b" "\<And>x. can role x = Inr False"
  using assms by (cases "map_of ROLE_PERMISSIONS (to_str role)") (auto simp: can_def split: if_splits)

text \<open>The whole table: the roles without a wildcard allow finitely many actions.\<close>

lemmas permits_eval = permits_def ends_with_def starts_with_def str_prefix_def

definition derived_actions :: "string list" where
  "derived_actions = [''env:write-limited'', ''db:connect-limited'', ''db:schema:read'', ''db:data:read'',
     ''db:query:write'']"

lemma permits_listed:
  assumes "''*'' \<notin> set ps" "\<forall>p \<in> set ps. \<not> ends_with p '':*''" "permits ps a"
  shows "a \<in> set ps \<or> a \<in> set derived_actions"
proof (rule ccontr)
  assume n: "\<not> (a \<in> set ps \<or> a \<in> set derived_actions)"
  then have a: "a \<notin> set ps" "a \<noteq> ''env:write-limited''" "a \<noteq> ''db:connect-limited''"
    "a \<noteq> ''db:schema:read''" "a \<noteq> ''db:data:read''" "a \<noteq> ''db:query:write''"
    by (simp_all only: derived_actions_def list.set insert_iff simp_thms de_Morgan_disj)
  with assms(3) have "''*'' \<in> set ps \<or> list_ex (\<lambda>p. ends_with p '':*'' \<and> starts_with a (str_prefix (length p - 1) p)) ps"
    unfolding permits_def by (simp only: a if_False simp_thms)
  with assms(1,2) show False by (auto simp only: list_ex_iff)
qed

definition listed_actions :: "string \<Rightarrow> string list" where
  "listed_actions r = (case map_of ROLE_PERMISSIONS r of None \<Rightarrow> []
     | Some ps \<Rightarrow> filter (permits ps) (remdups (ps @ derived_actions)))"

lemma can_listed:
  assumes "map_of ROLE_PERMISSIONS r = Some ps" "''*'' \<notin> set ps" "\<forall>p \<in> set ps. \<not> ends_with p '':*''"
  shows "can (JStr r) a = Inr (a \<in> set (listed_actions r))"
proof -
  have "permits ps a \<longleftrightarrow> a \<in> set (listed_actions r)"
    using permits_listed[OF assms(2,3), of a] assms(1) by (auto simp: listed_actions_def)
  with assms(1) show ?thesis by (simp add: can_def)
qed

lemma role_lists:
  "listed_actions ''viewer'' = [''project:read'', ''logs:read'', ''metrics:read'']"
  "listed_actions ''developer'' = [''project:read'', ''deploy:run'', ''logs:read'', ''metrics:read'',
     ''env:write-limited'', ''db:schema:read'']"
  "listed_actions ''billing-manager'' = [''project:read'', ''billing:read'', ''billing:write'', ''usage:read'']"
  by code_simp+

lemma role_no_wildcard:
  "\<forall>(r, ps) \<in> set ROLE_PERMISSIONS. r \<noteq> ''owner'' \<and> r \<noteq> ''project-owner'' \<longrightarrow>
     ''*'' \<notin> set ps \<and> (\<forall>p \<in> set ps. \<not> ends_with p '':*'')"
  by code_simp

lemma no_role_allows_unknown:
  "\<forall>(r, ps) \<in> set ROLE_PERMISSIONS. r \<noteq> ''owner'' \<longrightarrow> \<not> permits ps ''unlisted''"
  by code_simp

section \<open>Properties\<close>

text \<open>the permission table: \<open>owner\<close> alone may perform every action, \<open>viewer\<close>, \<open>developer\<close> and
  \<open>billing-manager\<close> may perform exactly the listed ones, \<open>project-owner\<close> exactly the actions of the
  \<open>project:\<close> family, and a role outside the table nothing.\<close>

theorem can_decision_table:
  "((\<forall>a. can (JStr r) a = Inr True) \<longleftrightarrow> r = ''owner'') \<and>
   can (JStr ''viewer'') a = Inr (a \<in> {''project:read'', ''logs:read'', ''metrics:read''}) \<and>
   can (JStr ''developer'') a = Inr (a \<in> {''project:read'', ''deploy:run'', ''logs:read'',
     ''metrics:read'', ''env:write-limited'', ''db:schema:read''}) \<and>
   can (JStr ''billing-manager'') a = Inr (a \<in> {''project:read'', ''billing:read'', ''billing:write'', ''usage:read''}) \<and>
   can (JStr ''project-owner'') a = Inr (starts_with a ''project:'' \<or> a = ''project:*'') \<and>
   (map_of ROLE_PERMISSIONS r = None \<longrightarrow> can (JStr r) a \<noteq> Inr True)"
proof (intro conjI)
  show "(\<forall>a. can (JStr r) a = Inr True) \<longleftrightarrow> r = ''owner''"
  proof
    assume all: "\<forall>a. can (JStr r) a = Inr True"
    then obtain ps where "map_of ROLE_PERMISSIONS r = Some ps" "permits ps ''unlisted''"
      by (metis can_cases to_str.simps(5) sum.inject(2))
    then show "r = ''owner''" using no_role_allows_unknown by (fastforce dest: map_of_SomeD)
  next
    assume "r = ''owner''"
    then show "\<forall>a. can (JStr r) a = Inr True"
      by (simp add: can_def ROLE_PERMISSIONS_def permits_def)
  qed
  have "can (JStr q) a = Inr (a \<in> set (listed_actions q))"
    if "q \<in> {''viewer'', ''developer'', ''billing-manager''}" for q
  proof -
    have "\<forall>q \<in> {''viewer'', ''developer'', ''billing-manager''}. map_of ROLE_PERMISSIONS q \<noteq> None \<and>
        q \<noteq> ''owner'' \<and> q \<noteq> ''project-owner''" by code_simp
    with that obtain ps where ps: "map_of ROLE_PERMISSIONS q = Some ps" "q \<noteq> ''owner'' \<and> q \<noteq> ''project-owner''"
      by blast
    then show ?thesis
      using role_no_wildcard map_of_SomeD[OF ps(1)] by (intro can_listed[OF ps(1)]) blast+
  qed
  then show "can (JStr ''viewer'') a = Inr (a \<in> {''project:read'', ''logs:read'', ''metrics:read''})"
    "can (JStr ''developer'') a = Inr (a \<in> {''project:read'', ''deploy:run'', ''logs:read'',
     ''metrics:read'', ''env:write-limited'', ''db:schema:read''})"
    "can (JStr ''billing-manager'') a = Inr (a \<in> {''project:read'', ''billing:read'', ''billing:write'', ''usage:read''})"
    by (simp_all only: role_lists list.set insert_iff simp_thms)
  show "can (JStr ''project-owner'') a = Inr (starts_with a ''project:'' \<or> a = ''project:*'')"
    by (simp add: can_def ROLE_PERMISSIONS_def permits_eval suffix_def) (auto simp: prefix_def)
  show "map_of ROLE_PERMISSIONS r = None \<longrightarrow> can (JStr r) a \<noteq> Inr True"
    by (simp add: can_def)
qed

theorem can_decision_table_witness:
  "can (JStr ''nobody'') ''project:read'' \<noteq> Inr True"
proof -
  have "map_of ROLE_PERMISSIONS ''nobody'' = None" by code_simp
  with can_decision_table[of "''nobody''" "''project:read''"] show ?thesis by blast
qed

text \<open>a role that may not read the environment never sees a value of it: every entry
  \<open>visibleEnvironment\<close> returns is the marker \<open><restricted>\<close> under a key of the environment.\<close>

theorem visibleEnvironment_restricted:
  assumes "visibleEnvironment environment role = Inr v" "can (jdefault role (JStr ''viewer'')) ''env:read'' = Inr False"
  shows "\<forall>(k, x) \<in> set (entries v). x = JStr ''<restricted>'' \<and> has_own environment k"
  using assms by (auto simp: visibleEnvironment_def Let_def rbind_Inr_iff has_own_entry split: if_splits)

theorem visibleEnvironment_restricted_witness:
  "jget (projr (visibleEnvironment (JObj [(''TOKEN'', JStr ''abc'')]) (JStr ''developer''))) ''TOKEN'' =
   JStr ''<restricted>''"
proof -
  have "visibleEnvironment (JObj [(''TOKEN'', JStr ''abc'')]) (JStr ''developer'') =
      Inr (JObj [(''TOKEN'', JStr ''<restricted>'')])" by code_simp
  moreover from this have "\<forall>(k, x) \<in> set (entries (JObj [(''TOKEN'', JStr ''<restricted>'')])).
      x = JStr ''<restricted>'' \<and> has_own (JObj [(''TOKEN'', JStr ''abc'')]) k"
    by (rule visibleEnvironment_restricted) code_simp
  ultimately show ?thesis by simp
qed

text \<open>\<open>assertEnvironmentWriteAllowed\<close> accepts exactly the writers that hold \<open>env:write\<close> and the
  writes that name no secret key and set no secret flag; every other write is refused with status
  403.\<close>

theorem environment_write_policy:
  assumes "can (jget subject ''role'') ''env:write'' = Inr b"
  shows "(assertEnvironmentWriteAllowed subject es = Inr True \<longleftrightarrow>
      b \<or> (\<forall>e \<in> set es. jget e ''isSecret'' \<noteq> JBool True \<and> \<not> isSecretKey (jget e ''key''))) \<and>
    (\<forall>e. assertEnvironmentWriteAllowed subject es = Inl e \<longrightarrow> statusCode e = Some 403)"
  using assms
  by (auto simp: assertEnvironmentWriteAllowed_def secretEnvironmentKeys_def filter_empty_conv
      js_throw_status_def Let_def split: if_splits)

theorem environment_write_policy_witness:
  "assertEnvironmentWriteAllowed (JObj [(''role'', JStr ''developer'')])
     [JObj [(''key'', JStr ''PORT''), (''value'', JStr ''80'')]] = Inr True"
proof -
  have "can (jget (JObj [(''role'', JStr ''developer'')]) ''role'') ''env:write'' = Inr False" by code_simp
  moreover have "\<not> isSecretKey (JStr ''PORT'')" by code_simp
  ultimately show ?thesis
    using environment_write_policy[of "JObj [(''role'', JStr ''developer'')]" False
      "[JObj [(''key'', JStr ''PORT''), (''value'', JStr ''80'')]]"] by simp
qed

end
