(* ===== verification/Sanitize.thy ===== *)
theory Sanitize
  imports Rbac
begin

text \<open>
  The first half of \<open>security.ts\<close>: the redaction of log text, the sanitizers that reduce tenant
  input to a fixed set of keys, the git URL policy, and the guards of database queries.
  \<open>process.env\<close> and the platform's URL parser (\<open>new URL\<close>, read as protocol, host name and path
  name) are arguments.
\<close>

section \<open>Redaction of log text\<close>

definition RKeyChars :: rx where
  "RKeyChars = RStar (RCls (\<lambda>c. is_word c))"

definition RSecretWords :: rx where
  "RSecretWords = RAlts (map RLitI [''SECRET'', ''PASSWORD'', ''TOKEN'', ''KEY'', ''DATABASE_URL'',
     ''MONGODB_URI'', ''REDIS_URL''])"

definition RQuotes :: rx where
  "RQuotes = ROneOf [CHR 0x22, CHR 0x27]"

definition ASSIGN_RE :: rx where
  "ASSIGN_RE = RSeqs [RGrp 1 (RSeqs [RKeyChars, RSecretWords, RKeyChars, RChr CHR ''='']),
     RGrp 2 (RPlus (RCls (\<lambda>c. \<not> is_space c)))]"

definition QUOTED_RE :: rx where
  "QUOTED_RE = RSeqs [RGrp 1 (RSeqs [ROpt RQuotes, RKeyChars, RSecretWords, RKeyChars, ROpt RQuotes,
       RStar RSpace, ROneOf '':='', RStar RSpace, RQuotes]),
     RGrp 2 (RPlus (RCls (\<lambda>c. \<not> is_space c \<and> c \<notin> set [CHR 0x22, CHR 0x27, CHR '','', CHR ''}''])))]"

definition BEARER_RE :: rx where
  "BEARER_RE = RSeqs [RWordB, RGrp 1 (RAlt (RLitI ''Bearer'') (RLitI ''Token'')), RPlus RSpace,
     RPlus (RCls (\<lambda>c. is_upper c \<or> is_lower c \<or> is_digit c \<or> c \<in> set ''._~+/-'')), RStar (RChr CHR ''='')]"

definition CREDENTIAL_URL_RE :: "rx \<Rightarrow> rx" where
  "CREDENTIAL_URL_RE scheme = RSeqs [
     RGrp 1 (RSeqs [scheme, RLit ''://'', RPlus (RCls (\<lambda>c. \<not> is_space c \<and> c \<notin> set '':/@'')), RChr CHR '':'']),
     RGrp 2 (RPlus (RCls (\<lambda>c. \<not> is_space c \<and> c \<noteq> CHR ''@''))), RGrp 3 (RChr CHR ''@'')]"

definition REDIS_RE :: rx where
  "REDIS_RE = RSeqs [RLitI ''redis'', RLit ''://:'', RPlus (RCls (\<lambda>c. \<not> is_space c \<and> c \<noteq> CHR ''@'')), RChr CHR ''@'']"

definition sanitizeLogString :: "string \<Rightarrow> string" where
  "sanitizeLogString s0 = (let
     s1 = rreplace ASSIGN_RE (\<lambda>g. rgroup g 1 @ ''****'') s0;
     s2 = rreplace QUOTED_RE (\<lambda>g. rgroup g 1 @ ''****'') s1;
     s3 = rreplace BEARER_RE (\<lambda>g. rgroup g 1 @ '' ****'') s2;
     s4 = rreplace (CREDENTIAL_URL_RE (RSeq (RLitI ''postgres'') (ROpt (RLitI ''ql''))))
            (\<lambda>g. rgroup g 1 @ ''****'' @ rgroup g 3) s3;
     s5 = rreplace (CREDENTIAL_URL_RE (RLitI ''mysql'')) (\<lambda>g. rgroup g 1 @ ''****'' @ rgroup g 3) s4
   in rreplace REDIS_RE (\<lambda>g. ''redis://:****@'') s5)"

definition sanitizeLogRecord :: "jsv \<Rightarrow> jsv" where
  "sanitizeLogRecord r = mask_tree sanitizeLogString r"

definition splitEnvForSecret :: "jsv \<Rightarrow> jsv" where
  "splitEnvForSecret environment = (let text = map (\<lambda>(k, v). (k, JStr (to_str v))) (entries environment) in
     JObj [(''plain'', JObj (filter (\<lambda>(k, _). \<not> isSecretKey (JStr k)) text)),
           (''secret'', JObj (filter (\<lambda>(k, _). isSecretKey (JStr k)) text))])"

section \<open>Picking the keys a tenant may set\<close>

definition SAFE_SERVICE_KEYS :: "string list" where
  "SAFE_SERVICE_KEYS = [''projectId'', ''name'', ''slug'', ''type'', ''runtimeType'', ''sourceType'',
     ''buildMode'', ''repoUrl'', ''repositoryUrl'', ''githubRepositoryId'', ''githubRepository'',
     ''githubIntegrationId'', ''branch'', ''rootDirectory'', ''buildContext'', ''localPath'',
     ''dockerfilePath'', ''installCommand'', ''buildCommand'', ''startCommand'', ''outputDirectory'',
     ''image'', ''imageUrl'', ''port'', ''resources'', ''scaling'', ''healthCheck'', ''schedule'',
     ''concurrencyPolicy'', ''backoffLimit'', ''availability'', ''sleepPolicy'', ''environment'', ''env'',
     ''attachedResources'', ''desiredSpec'']"

definition SAFE_RESOURCE_API_KEYS :: "string list" where
  "SAFE_RESOURCE_API_KEYS = [''projectId'', ''name'', ''slug'', ''type'', ''engine'', ''provider'', ''plan'',
     ''region'', ''version'', ''storageMb'', ''storageGb'', ''databaseName'', ''database'', ''username'',
     ''bucket'', ''collection'', ''topic'', ''backup'', ''desiredSpec'']"

definition SAFE_DEPLOYMENT_CREATE_KEYS :: "string list" where
  "SAFE_DEPLOYMENT_CREATE_KEYS = [''serviceId'', ''projectId'', ''commitHash'', ''commitSha'', ''imageUrl'',
     ''image'', ''imageDigest'', ''deploymentType'', ''type'', ''branch'', ''previewUrl'', ''triggerType'',
     ''pullRequestNumber'']"

definition SAFE_DEPLOYMENT_STATUS_KEYS :: "string list" where
  "SAFE_DEPLOYMENT_STATUS_KEYS = [''status'', ''imageUrl'', ''image'', ''imageDigest'', ''buildStartedAt'',
     ''buildFinishedAt'', ''deployedAt'', ''finishedAt'', ''errorCode'', ''errorMessage'', ''previewUrl'',
     ''eventType'', ''message'', ''metadata'']"

definition pickKnown :: "jsv \<Rightarrow> string list \<Rightarrow> jsv" where
  "pickKnown input allowed =
     JObj (map (\<lambda>(k, v). (k, sanitizeLogRecord v)) (filter (\<lambda>(k, _). k \<in> set allowed) (entries input)))"

definition badRequest :: "string \<Rightarrow> 'a res" where
  "badRequest m = js_throw_status 400 m"

section \<open>Where a service may come from\<close>

definition FILE_URL_RE :: rx where
  "FILE_URL_RE = RSeqs [RBol, RLitI ''file'', RLit ''://'']"

definition isLocalOrFileSource :: "jsv \<Rightarrow> bool" where
  "isLocalOrFileSource v = (let text = str_trim (to_str (jor v (JStr []))) in
     starts_with text ''/'' \<or> starts_with text ''./'' \<or> starts_with text ''../'' \<or> rtest FILE_URL_RE text)"

definition tenantLocalSourceAllowed :: "jsv \<Rightarrow> bool" where
  "tenantLocalSourceAllowed env = (jget env ''RAIBITSERVER_ALLOW_LOCAL_SOURCE'' = JStr ''1'' \<or>
     jget env ''NODE_ENV'' \<noteq> JStr ''production'')"

definition DEFAULT_ALLOWED_GIT_HOSTS :: "string list" where
  "DEFAULT_ALLOWED_GIT_HOSTS = [''github.com'', ''gitlab.com'', ''bitbucket.org'']"

definition CREDENTIALED_RE :: rx where
  "CREDENTIALED_RE = RSeqs [RBol, RLitI ''https'', RLit ''://'', RPlus (RCls (\<lambda>c. \<not> is_space c \<and> c \<notin> set ''/@'')),
     RChr CHR ''@'']"

definition SSH_URL_RE :: rx where
  "SSH_URL_RE = RSeqs [RBol, RLitI ''git'', RLit ''@'', RGrp 1 (RPlus (RNoneOf '':'')), RLit '':'',
     RPlus (RCls (\<lambda>c. \<not> is_space c \<and> c \<noteq> CHR ''/'')), RLit ''/'',
     RPlus (RCls (\<lambda>c. \<not> is_space c \<and> c \<noteq> CHR ''/'')), ROpt (RSeq (RLit ''.'') (RLitI ''git'')), REol]"

definition OWNER_REPO_RE :: rx where
  "OWNER_REPO_RE = RSeqs [RLit ''/'', RPlus (RNoneOf ''/''), RLit ''/'', RPlus (RNoneOf ''/'')]"

definition allowed_git_hosts :: "jsv \<Rightarrow> string list" where
  "allowed_git_hosts env = DEFAULT_ALLOWED_GIT_HOSTS @
     filter (\<lambda>h. h \<noteq> []) (map (\<lambda>h. str_lower (str_trim h))
       (str_split CHR '','' (to_str (jor (jget env ''RAIBITSERVER_ALLOWED_GIT_HOSTS'') (JStr [])))))"

type_synonym url_parser = "string \<Rightarrow> (string \<times> string \<times> string) option"

definition normalizeTenantGitUrl :: "url_parser \<Rightarrow> jsv \<Rightarrow> jsv \<Rightarrow> jsv \<Rightarrow> string res" where
  "normalizeTenantGitUrl parse_url penv repoUrl options = (let
     value = str_trim (to_str (jor repoUrl (JStr [])));
     env = jor (jget options ''env'') penv
   in if value = [] then Inr value
      else if rtest CREDENTIALED_RE value then
        badRequest ''credentialed git URLs are not allowed; pass tokens through integration secrets''
      else if isLocalOrFileSource (JStr value) then
        (if tenantLocalSourceAllowed env then Inr value
         else badRequest ''local/file git URLs are not allowed for tenant API requests'')
      else (case rexec SSH_URL_RE value of
          Some g \<Rightarrow> (let host = str_lower (rgroup g 1) in
            if host \<notin> set (allowed_git_hosts env) then badRequest (''git host is not allowed: '' @ host)
            else Inr value)
        | None \<Rightarrow> (case parse_url value of
            None \<Rightarrow> badRequest (''unsupported git URL: '' @ value)
          | Some (protocol, hostname, pathname) \<Rightarrow>
              if protocol \<noteq> ''https:'' then badRequest ''git URLs must use https''
              else (let host = str_lower hostname in
                if host \<notin> set (allowed_git_hosts env) then badRequest (''git host is not allowed: '' @ host)
                else if \<not> rtest OWNER_REPO_RE pathname then badRequest (''unsupported git URL: '' @ value)
                else Inr value))))"

section \<open>The sanitizers of the tenant API\<close>

definition tidy_name :: "jsv \<Rightarrow> jsv" where
  "tidy_name o1 = (if jget o1 ''name'' \<noteq> JUndef
     then jset o1 ''name'' (JStr (str_trim (to_str (jor (jget o1 ''name'') (JStr []))))) else o1)"

definition tidy_source_type :: "jsv \<Rightarrow> jsv" where
  "tidy_source_type o1 = (if jget o1 ''sourceType'' \<noteq> JUndef
     then jset o1 ''sourceType'' (JStr (str_lower (to_str (jor (jget o1 ''sourceType'') (JStr ''github''))))) else o1)"

definition tidy_port :: "jsv \<Rightarrow> jsv" where
  "tidy_port o1 = (if jget o1 ''port'' \<noteq> JUndef \<and> jget o1 ''port'' \<noteq> JNull \<and> jget o1 ''port'' \<noteq> JStr []
     then jset o1 ''port'' (JNum (to_num (jget o1 ''port''))) else o1)"

definition tidy_spec :: "jsv \<Rightarrow> jsv" where
  "tidy_spec o1 = (let spec = jget o1 ''desiredSpec'' in
     if truthy spec \<and> typeof_object spec
     then jset o1 ''desiredSpec'' (jdelete (jdelete (pickKnown spec SAFE_SERVICE_KEYS) ''status'') ''desiredState'')
     else o1)"

definition is_local_request :: "jsv \<Rightarrow> bool" where
  "is_local_request o1 =
     (str_lower (to_str (jor (jget o1 ''sourceType'') (JStr ''github''))) = ''local'' \<or>
      truthy (jget o1 ''localPath'') \<or>
      isLocalOrFileSource (jor (jget o1 ''repoUrl'') (jor (jget o1 ''buildContext'') (JStr []))))"

definition sanitizeTenantServiceInput :: "url_parser \<Rightarrow> jsv \<Rightarrow> jsv \<Rightarrow> jsv \<Rightarrow> jsv res" where
  "sanitizeTenantServiceInput parse_url penv input options = (let
     o1 = tidy_port (tidy_source_type (tidy_name (pickKnown input SAFE_SERVICE_KEYS)));
     repo = jor (jget o1 ''repoUrl'') (jget o1 ''repositoryUrl'')
   in rbind (if truthy repo
             then rbind (normalizeTenantGitUrl parse_url penv repo options) (\<lambda>u. Inr (jset o1 ''repoUrl'' (JStr u)))
             else Inr o1) (\<lambda>o2.
      let o3 = (if truthy (jget o2 ''repositoryUrl'') then jdelete o2 ''repositoryUrl'' else o2) in
      if is_local_request o3 \<and> \<not> tenantLocalSourceAllowed (jor (jget options ''env'') penv)
      then js_throw_status 400 ''local service sources are disabled for tenant API requests''
      else Inr (jdelete (jdelete (jdelete (tidy_spec o3) ''status'') ''desiredState'') ''id'')))"

definition sanitizeTenantServiceUpdate :: "url_parser \<Rightarrow> jsv \<Rightarrow> jsv \<Rightarrow> jsv \<Rightarrow> jsv res" where
  "sanitizeTenantServiceUpdate parse_url penv input options =
     rbind (sanitizeTenantServiceInput parse_url penv input options) (\<lambda>out. Inr (jdelete out ''projectId''))"

definition sanitizeTenantResourceApiInput :: "jsv \<Rightarrow> jsv" where
  "sanitizeTenantResourceApiInput input =
     jdelete (jdelete (jdelete (pickKnown input SAFE_RESOURCE_API_KEYS) ''status'') ''desiredState'')
       ''connectionSecretName''"

definition sanitizeTenantResourceApiUpdate :: "jsv \<Rightarrow> jsv" where
  "sanitizeTenantResourceApiUpdate input = jdelete (sanitizeTenantResourceApiInput input) ''projectId''"

definition sanitizeTenantDeploymentCreate :: "jsv \<Rightarrow> jsv" where
  "sanitizeTenantDeploymentCreate input = (let
     o1 = pickKnown input SAFE_DEPLOYMENT_CREATE_KEYS;
     o2 = (if jget o1 ''deploymentType'' = JUndef \<and> jget o1 ''type'' \<noteq> JUndef
           then jset o1 ''deploymentType'' (jget o1 ''type'') else o1)
   in jdelete (jdelete (jdelete (jdelete o2 ''type'') ''id'') ''status'') ''workflowJob'')"

definition sanitizeDeploymentStatusInput :: "jsv \<Rightarrow> jsv" where
  "sanitizeDeploymentStatusInput input = jdelete (pickKnown input SAFE_DEPLOYMENT_STATUS_KEYS) ''workflowJob''"

definition assertSystemDeploymentActor :: "jsv \<Rightarrow> bool res" where
  "assertSystemDeploymentActor subject =
    (if jget subject ''authMode'' = JStr ''disabled'' \<or>
        jget (jget subject ''claims'') ''system'' = JBool True \<or> jget subject ''role'' = JStr ''system''
     then Inr True
     else js_throw_status 403 ''deployment status updates require a builder/system actor'')"

section \<open>Database queries\<close>

definition LINE_COMMENT_RE :: rx where
  "LINE_COMMENT_RE = RSeqs [RBol, RStar RSpace, RLit ''--'', RStar (RNoneOf [CHR 0x0A]), RAlt (RChr CHR 0x0A) REol]"

definition BLOCK_COMMENT_RE :: rx where
  "BLOCK_COMMENT_RE = RSeqs [RBol, RStar RSpace, RLit ''/*'', RLazy (RCls (\<lambda>_. True)), RLit ''*/'']"

definition strip_comment :: "string \<Rightarrow> string" where
  "strip_comment s = rreplace1 BLOCK_COMMENT_RE (\<lambda>_. []) (rreplace1 LINE_COMMENT_RE (\<lambda>_. []) s)"

lemma strip_comment_length: "strip_comment s = s \<or> length (strip_comment s) < length s"
  unfolding strip_comment_def
  using rreplace1_delete_length[of LINE_COMMENT_RE s]
    rreplace1_delete_length[of BLOCK_COMMENT_RE "rreplace1 LINE_COMMENT_RE (\<lambda>_. []) s"]
  by (elim disjE) auto

function stripLeadingSqlComments :: "string \<Rightarrow> string" where
  "stripLeadingSqlComments s = (let nxt = strip_comment s in
     if nxt \<noteq> s then stripLeadingSqlComments (dropWhile is_space nxt) else s)"
  by pat_completeness auto
termination
proof (relation "measure length")
  fix s nxt
  assume "nxt = strip_comment s" "nxt \<noteq> s"
  then have "length nxt < length s" using strip_comment_length by blast
  then show "(dropWhile is_space nxt, s) \<in> measure length"
    using length_dropWhile_le[of is_space nxt] by simp
qed simp

declare stripLeadingSqlComments.simps [simp del]

definition SQL_WRITE_RE :: rx where
  "SQL_WRITE_RE = RSeqs [RWordB, RAlts [RSeqs [RLit ''FOR'', RPlus RSpace, RLit ''UPDATE''],
     RSeqs [RLit ''INTO'', RPlus RSpace, ROpt (RAlt (RLit ''OUTFILE'') (RLit ''DUMPFILE''))],
     RLit ''COPY'', RLit ''DO''], RWordB]"

definition sql_text :: "string \<Rightarrow> string" where
  "sql_text q = str_trim (rreplace1 (RSeqs [RPlus (RChr CHR '';''), RStar RSpace, REol]) (\<lambda>_. [])
     (stripLeadingSqlComments (str_trim q)))"

definition isReadOnlyDatabaseQuery :: "jsv \<Rightarrow> bool" where
  "isReadOnlyDatabaseQuery query = (let text = sql_text (to_str (jor query (JStr []))) in
     if text = [] \<or> CHR '';'' \<in> set text then False else
     (let normalized = str_upper (rreplace (RPlus RSpace) (\<lambda>_. '' '') text) in
      if rtest (RSeqs [RBol, RLit ''SELECT'', RWordB]) normalized then \<not> rtest SQL_WRITE_RE normalized
      else if rtest (RSeqs [RBol, RLit ''SHOW'', RWordB]) normalized \<or>
         rtest (RSeqs [RBol, RLit ''DESCRIBE'', RWordB]) normalized then True
      else if rtest (RSeqs [RBol, RLit ''EXPLAIN'', RPlus RSpace, RLit ''SELECT'', RWordB]) normalized then True
      else if rtest (RSeqs [RBol, RLit ''PRAGMA'', RWordB]) normalized then \<not> rtest (ROneOf ''=;'') normalized
      else False))"

definition query_verdict :: "bool \<Rightarrow> string \<Rightarrow> bool \<Rightarrow> jsv" where
  "query_verdict allowed reason destructive = JObj [(''allowed'', JBool allowed), (''reason'', JStr reason),
     (''destructive'', JBool destructive)]"

definition guardDatabaseQuery :: "jsv \<Rightarrow> jsv \<Rightarrow> jsv res" where
  "guardDatabaseQuery query options = (let
     confirmed = jdefault (jget options ''confirmed'') (JBool False);
     role = jdefault (jget options ''role'') (JStr ''developer'');
     text = str_trim (to_str (jor query (JStr [])));
     readOnly = isReadOnlyDatabaseQuery (JStr text);
     destructive = (\<not> readOnly)
   in if text = [] then Inr (jset (query_verdict False ''query is required'' False) ''readOnly'' (JBool False))
      else rbind (if readOnly then can role ''db:data:read'' else Inr True) (\<lambda>r.
        if readOnly \<and> \<not> r then Inr (jset (query_verdict False
          (''role '' @ to_str role @ '' requires db:data:read permission for read-only queries'') destructive)
          ''readOnly'' (JBool readOnly))
        else rbind (if destructive then can role ''db:query:write'' else Inr True) (\<lambda>w.
          if destructive \<and> \<not> w then Inr (jset (query_verdict False
            (''role '' @ to_str role @ '' requires db:query:write permission for destructive queries'') destructive)
            ''readOnly'' (JBool readOnly))
          else if destructive \<and> \<not> truthy confirmed
            then Inr (query_verdict False ''destructive query requires explicit confirmation'' destructive)
          else Inr (jset (query_verdict True ''query accepted'' destructive) ''readOnly'' (JBool readOnly)))))"

text \<open>The ellipsis of the redacted statement is written as its three UTF-8 bytes.\<close>

definition redactDbConsoleStatement :: "jsv \<Rightarrow> string" where
  "redactDbConsoleStatement statement = (let
     s0 = to_str (jor statement (JStr []));
     s1 = rreplace (RSeqs [RChr CHR 0x27, RStar (RAlt (RNoneOf [CHR 0x27]) (RLit [CHR 0x27, CHR 0x27])), RChr CHR 0x27])
            (\<lambda>_. [CHR 0x27, CHR ''?'', CHR 0x27]) s0;
     s2 = rreplace (RSeqs [RChr CHR 0x22, RStar (RAlt (RNoneOf [CHR 0x22]) (RLit [CHR 0x22, CHR 0x22])), RChr CHR 0x22])
            (\<lambda>_. [CHR 0x22, CHR ''?'', CHR 0x22]) s1;
     text = str_prefix 160 (sanitizeLogString (str_trim (rreplace (RPlus RSpace) (\<lambda>_. '' '') s2)))
   in if text \<noteq> [] then text @ (if length s0 > 160 then [CHR 0xE2, CHR 0x80, CHR 0xA6] else []) else [])"

section \<open>Lemmas on the sanitizers\<close>

definition keys_within :: "jsv \<Rightarrow> string list \<Rightarrow> bool" where
  "keys_within v ks = (\<forall>k. has_own v k \<longrightarrow> k \<in> set ks)"


lemma keys_within_jset [intro]: "keys_within v ks \<Longrightarrow> k \<in> set ks \<Longrightarrow> keys_within (jset v k x) ks"
  by (auto simp: keys_within_def)

lemma keys_within_jdelete [intro]: "keys_within v ks \<Longrightarrow> keys_within (jdelete v k) ks"
  by (auto simp: keys_within_def)


lemma secrets_masked_JObj: "v = JObj kvs \<Longrightarrow> secrets_masked v = fields_masked kvs"
  by simp

















section \<open>Lemmas on local sources\<close>






section \<open>Lemmas on queries\<close>

lemma set_stripLeadingSqlComments: "set (stripLeadingSqlComments u) \<subseteq> set u"
proof (induction u rule: stripLeadingSqlComments.induct)
  case (1 u)
  have "set (strip_comment u) \<subseteq> set u"
    unfolding strip_comment_def using set_rreplace1_delete by (meson subset_trans)
  then show ?case
    using 1 by (subst stripLeadingSqlComments.simps) (auto simp: Let_def dest!: set_dropWhileD)
qed

lemma set_sql_text: "set (sql_text s) \<subseteq> set s"
  unfolding sql_text_def
  using set_str_trim set_rreplace1_delete set_stripLeadingSqlComments by (meson subset_trans)

text \<open>A comment at the start of a text, after blanks: up to the end of its line, or up to the first \<open>*/\<close>.\<close>

definition leading_comment :: "string \<Rightarrow> bool" where
  "leading_comment s = (let u = dropWhile is_space s in
     prefix ''--'' u \<or> prefix ''/*'' u \<and> sublist ''*/'' (drop 2 u))"

lemma rreplace1_bol:
  assumes "\<And>p q g. p \<noteq> [] \<Longrightarrow> rmatch r (p, q, g) = []"
  shows "suffix (rreplace1 r (\<lambda>_. []) s) s"
    and "rmatch r ([], s, []) \<noteq> [] \<Longrightarrow> \<forall>m \<in> set (rmatch r ([], s, [])). length (fst (snd m)) < length s \<Longrightarrow>
      length (rreplace1 r (\<lambda>_. []) s) < length s"
proof -
  have "suffix q s" if "(p, q, g) \<in> set (rmatch r ([], s, []))" for p q g
    using rmatch_consumes[OF that] by (auto simp: suffix_def)
  then show "suffix (rreplace1 r (\<lambda>_. []) s) s"
    by (cases "rmatch r ([], s, [])") (auto simp: rreplace1_def rsearch_bol[OF assms])
  show "length (rreplace1 r (\<lambda>_. []) s) < length s"
    if "rmatch r ([], s, []) \<noteq> []" "\<forall>m \<in> set (rmatch r ([], s, [])). length (fst (snd m)) < length s"
    using that by (cases "rmatch r ([], s, [])") (auto simp: rreplace1_def rsearch_bol[OF assms])
qed

lemma comment_anchored:
  "p \<noteq> [] \<Longrightarrow> rmatch LINE_COMMENT_RE (p, q, g) = []" "p \<noteq> [] \<Longrightarrow> rmatch BLOCK_COMMENT_RE (p, q, g) = []"
  by (simp_all add: LINE_COMMENT_RE_def BLOCK_COMMENT_RE_def RSeqs_def)

text \<open>What a start, blanks, a word and a rest match: something, and never nothing\<close>

lemma opened_matches:
  assumes "w \<noteq> []" "R = RSeqs (RBol # RStar RSpace # RLit w # rs)"
  shows "\<forall>m \<in> set (rmatch R ([], s, [])). length (fst (snd m)) < length s"
    and "prefix w (dropWhile is_space s) \<Longrightarrow> rmatch (RSeqs rs) (rev (takeWhile is_space s @ w), drop (length w) (dropWhile is_space s), []) \<noteq> [] \<Longrightarrow>
      rmatch R ([], s, []) \<noteq> []"
proof -
  let ?tail = "RSeq (RLit w) (RSeqs rs)"
  have R: "rmatch R ([], s, []) = concat (map (rmatch ?tail) (rmatch (RStar (RCls is_space)) ([], s, [])))"
    by (simp add: assms(2) RSeqs_def RSpace_def)
  show "\<forall>m \<in> set (rmatch R ([], s, [])). length (fst (snd m)) < length s"
  proof
    fix m
    assume "m \<in> set (rmatch R ([], s, []))"
    then obtain u v where "s = u @ v" "m \<in> set (rmatch ?tail (rev u, v, []))"
      unfolding R by (auto simp: rmatch_star_cls_set simp del: rmatch.simps(3))
    moreover obtain p q g where "m = (p, q, g)" by (cases m)
    ultimately obtain x where "prefix w v" "drop (length w) v = x @ q"
      using rmatch_consumes by (fastforce simp: rmatch_lit split: if_splits)
    moreover from this have "length q \<le> length v - length w" by (metis length_append length_drop le_add2)
    ultimately have "length q + length w \<le> length v" using prefix_length_le by fastforce
    then show "length (fst (snd m)) < length s" using assms(1) \<open>s = u @ v\<close> \<open>m = (p, q, g)\<close> by (cases w) auto
  qed
  assume "prefix w (dropWhile is_space s)"
    and rest: "rmatch (RSeqs rs) (rev (takeWhile is_space s @ w), drop (length w) (dropWhile is_space s), []) \<noteq> []"
  then have "rmatch ?tail (rev (takeWhile is_space s), dropWhile is_space s, []) \<noteq> []" by (simp add: rmatch_lit)
  moreover have "(rev (takeWhile is_space s), dropWhile is_space s, []) \<in> set (rmatch (RStar (RCls is_space)) ([], s, []))"
    using rmatch_star_cls[of is_space "[]" s "[]"] by auto
  ultimately show "rmatch R ([], s, []) \<noteq> []" unfolding R by (auto simp: concat_eq_Nil_conv simp del: rmatch.simps(3))
qed

lemma line_comment_matches: "prefix ''--'' (dropWhile is_space s) \<Longrightarrow> rmatch LINE_COMMENT_RE ([], s, []) \<noteq> []"
proof (rule opened_matches(2)[OF _ LINE_COMMENT_RE_def])
  have "rmatch (RSeqs [RStar (RNoneOf [CHR 0x0A]), RAlt (RChr CHR 0x0A) REol]) (p, q, g) \<noteq> []" for p q g
  proof -
    let ?P = "\<lambda>c. c \<notin> set [CHR 0x0A]"
    have "rmatch (RAlt (RChr CHR 0x0A) REol) (rev (takeWhile ?P q) @ p, dropWhile ?P q, g) \<noteq> []"
      by (cases "dropWhile ?P q") (use hd_dropWhile[of ?P q] in \<open>auto simp: RChr_def split: if_splits\<close>)
    moreover have "(rev (takeWhile ?P q) @ p, dropWhile ?P q, g) \<in> set (rmatch (RStar (RCls ?P)) (p, q, g))"
      using rmatch_star_cls[of ?P p q g] by auto
    ultimately show ?thesis
      unfolding RSeqs_def RNoneOf_def foldr.simps o_apply id_apply rmatch_seq_iff rmatch_seq_eps by blast
  qed
  then show "rmatch (RSeqs [RStar (RNoneOf [CHR 0x0A]), RAlt (RChr CHR 0x0A) REol])
      (rev (takeWhile is_space s @ ''--''), drop (length ''--'') (dropWhile is_space s), []) \<noteq> []" .
qed simp_all

lemma block_comment_matches:
  assumes "prefix ''/*'' (dropWhile is_space s)" "sublist ''*/'' (drop 2 (dropWhile is_space s))"
  shows "rmatch BLOCK_COMMENT_RE ([], s, []) \<noteq> []"
proof (rule opened_matches(2)[OF _ BLOCK_COMMENT_RE_def assms(1)])
  have "rmatch (RSeqs [RLazy (RCls (\<lambda>_. True)), RLit ''*/'']) (p, a @ ''*/'' @ b, g) \<noteq> []" for p a b g
  proof -
    let ?u = "a @ ''*/'' @ b"
    have all: "rmatch (RLazy (RCls (\<lambda>_. True))) (p, ?u, g) = map (\<lambda>i. (rev (take i ?u) @ p, drop i ?u, g)) [0..<Suc (length ?u)]"
      using rmatch_lazy_cls[of "\<lambda>_. True" ?u "[]"] by (simp add: list_all_iff)
    have "(rev a @ p, ''*/'' @ b, g) \<in> set (rmatch (RLazy (RCls (\<lambda>_. True))) (p, ?u, g))"
      unfolding all set_map by (rule image_eqI[of _ _ "length a"]) auto
    moreover have "rmatch (RLit ''*/'') (rev a @ p, ''*/'' @ b, g) \<noteq> []" by (simp only: rmatch_lit prefix_def) simp
    ultimately show ?thesis
      unfolding RSeqs_def foldr.simps o_apply id_apply by (simp only: rmatch_seq_eps rmatch_seq_iff) blast
  qed
  moreover obtain a b where "drop (length ''/*'') (dropWhile is_space s) = a @ ''*/'' @ b"
    using assms(2) by (auto simp: sublist_def numeral_2_eq_2)
  ultimately show "rmatch (RSeqs [RLazy (RCls (\<lambda>_. True)), RLit ''*/''])
      (rev (takeWhile is_space s @ ''/*''), drop (length ''/*'') (dropWhile is_space s), []) \<noteq> []"
    by (simp only: simp_thms)
qed simp

lemma strip_line:
  "suffix (rreplace1 LINE_COMMENT_RE (\<lambda>_. []) s) s" "suffix (rreplace1 BLOCK_COMMENT_RE (\<lambda>_. []) s) s"
  by (rule rreplace1_bol(1), rule comment_anchored, assumption)+

lemma uncommented: "leading_comment s \<Longrightarrow> strip_comment s \<noteq> s"
proof -
  assume c: "leading_comment s"
  have less: "rmatch LINE_COMMENT_RE ([], s, []) \<noteq> [] \<Longrightarrow> length (rreplace1 LINE_COMMENT_RE (\<lambda>_. []) s) < length s"
    "rmatch BLOCK_COMMENT_RE ([], s, []) \<noteq> [] \<Longrightarrow> length (rreplace1 BLOCK_COMMENT_RE (\<lambda>_. []) s) < length s"
    by (rule rreplace1_bol(2), rule comment_anchored, assumption, assumption,
      rule opened_matches(1)[OF _ LINE_COMMENT_RE_def] opened_matches(1)[OF _ BLOCK_COMMENT_RE_def], simp)+
  show ?thesis
  proof (cases "rreplace1 LINE_COMMENT_RE (\<lambda>_. []) s = s")
    case True
    then have "rmatch BLOCK_COMMENT_RE ([], s, []) \<noteq> []"
      using c less(1) line_comment_matches block_comment_matches by (fastforce simp: leading_comment_def Let_def)
    then show ?thesis using less(2) True by (auto simp: strip_comment_def)
  next
    case False
    then have "length (rreplace1 LINE_COMMENT_RE (\<lambda>_. []) s) < length s"
      using rreplace1_delete_length[of LINE_COMMENT_RE s] by blast
    moreover have "length (strip_comment s) \<le> length (rreplace1 LINE_COMMENT_RE (\<lambda>_. []) s)"
      unfolding strip_comment_def using strip_line(2) by (rule suffix_length_le)
    ultimately show ?thesis by auto
  qed
qed

lemma comment_fixpoint: "strip_comment (stripLeadingSqlComments s) = stripLeadingSqlComments s"
  by (induction s rule: stripLeadingSqlComments.induct) (subst (1 2) stripLeadingSqlComments.simps, simp add: Let_def)

lemma comment_suffix: "suffix (stripLeadingSqlComments s) s"
proof (induction s rule: stripLeadingSqlComments.induct)
  case (1 s)
  have "suffix (strip_comment s) s" unfolding strip_comment_def using strip_line suffix_order.trans by blast
  then have "suffix (dropWhile is_space (strip_comment s)) s" using suffix_dropWhile suffix_order.trans by blast
  then show ?case using 1 by (subst stripLeadingSqlComments.simps) (auto simp: Let_def intro: suffix_order.trans)
qed

lemma comment_rounds: "\<exists>n \<le> length s. ((\<lambda>u. dropWhile is_space (strip_comment u)) ^^ n) s = stripLeadingSqlComments s"
proof (induction s rule: stripLeadingSqlComments.induct)
  case (1 s)
  show ?case
  proof (cases "strip_comment s = s")
    case True
    then show ?thesis by (subst stripLeadingSqlComments.simps) (auto simp: Let_def intro: exI[of _ 0])
  next
    case False
    let ?n = "dropWhile is_space (strip_comment s)"
    have "length ?n < length s"
      using strip_comment_length[of s] False length_dropWhile_le[of is_space "strip_comment s"] by simp
    moreover have "stripLeadingSqlComments s = stripLeadingSqlComments ?n"
      using False by (subst stripLeadingSqlComments.simps) (simp add: Let_def)
    moreover obtain n where "n \<le> length ?n"
      "((\<lambda>u. dropWhile is_space (strip_comment u)) ^^ n) ?n = stripLeadingSqlComments ?n"
      using "1.IH"[OF refl] False by blast
    ultimately show ?thesis by (intro exI[of _ "Suc n"]) (simp add: funpow_Suc_right del: funpow.simps)
  qed
qed

text \<open>The statements accepted as read only begin with one of five words.\<close>

lemma readonly_keyword:
  assumes "isReadOnlyDatabaseQuery query"
  defines "text \<equiv> sql_text (to_str (jor query (JStr [])))"
  defines "normal \<equiv> str_upper (rreplace (RPlus RSpace) (\<lambda>_. '' '') text)"
  shows "CHR '';'' \<notin> set text \<and> list_ex (starts_with normal) [''SELECT'', ''SHOW'', ''DESCRIBE'', ''EXPLAIN'', ''PRAGMA'']"
proof -
  have "CHR '';'' \<notin> set text" using assms by (auto simp: isReadOnlyDatabaseQuery_def Let_def split: if_splits)
  moreover have "rtest (RSeqs [RBol, RLit ''SELECT'', RWordB]) normal \<or> rtest (RSeqs [RBol, RLit ''SHOW'', RWordB]) normal \<or>
      rtest (RSeqs [RBol, RLit ''DESCRIBE'', RWordB]) normal \<or>
      rtest (RSeqs [RBol, RLit ''EXPLAIN'', RPlus RSpace, RLit ''SELECT'', RWordB]) normal \<or>
      rtest (RSeqs [RBol, RLit ''PRAGMA'', RWordB]) normal"
    using assms(1) unfolding isReadOnlyDatabaseQuery_def Let_def text_def[symmetric] normal_def[symmetric]
    by (simp only: simp_thms split: if_splits) (elim disjE; simp only: simp_thms)
  ultimately show ?thesis
    using rtest_bol_lit by (simp only: list_ex_Cons_iff list_ex_Nil_iff starts_with_def simp_thms) blast
qed

section \<open>Properties\<close>







text \<open>C38: The loop of \<open>stripLeadingSqlComments\<close> ends on every query, after at most as many rounds as the
  query has characters. What is left is an end of the query, and after its blanks it begins neither with
  \<open>--\<close> nor with a \<open>/*\<close> that a later \<open>*/\<close> closes.\<close>

theorem comment_loop_ends:
  "(\<exists>n \<le> length s. ((\<lambda>u. dropWhile is_space (strip_comment u)) ^^ n) s = stripLeadingSqlComments s) \<and>
   suffix (stripLeadingSqlComments s) s \<and> \<not> leading_comment (stripLeadingSqlComments s)"
  using comment_rounds comment_suffix comment_fixpoint uncommented by metis

text \<open>\<open>guardDatabaseQuery\<close> allows a query only if it is read only and the role may read data, or
  it is confirmed and the role may write; what it takes for read only contains no statement separator
  and begins with SELECT, SHOW, DESCRIBE, EXPLAIN or PRAGMA.\<close>

theorem query_guard:
  assumes "guardDatabaseQuery query options = Inr v" "jget v ''allowed'' = JBool True"
  defines "role \<equiv> jdefault (jget options ''role'') (JStr ''developer'')"
  defines "text \<equiv> str_trim (to_str (jor query (JStr [])))"
  shows "(isReadOnlyDatabaseQuery (JStr text) \<and> can role ''db:data:read'' = Inr True \<and>
      CHR '';'' \<notin> set (sql_text text) \<and>
      list_ex (starts_with (str_upper (rreplace (RPlus RSpace) (\<lambda>_. '' '') (sql_text text))))
        [''SELECT'', ''SHOW'', ''DESCRIBE'', ''EXPLAIN'', ''PRAGMA'']) \<or>
    (\<not> isReadOnlyDatabaseQuery (JStr text) \<and> can role ''db:query:write'' = Inr True \<and>
      truthy (jget options ''confirmed''))"
proof (cases "isReadOnlyDatabaseQuery (JStr text)")
  case True
  then have "can role ''db:data:read'' = Inr True"
    using assms(1,2) unfolding guardDatabaseQuery_def Let_def role_def[symmetric] text_def[symmetric]
    by (auto simp: query_verdict_def rbind_Inr_iff split: if_splits)
  with True readonly_keyword[OF True] show ?thesis by simp
next
  case False
  then have "can role ''db:query:write'' = Inr True \<and>
      truthy (jdefault (jget options ''confirmed'') (JBool False))"
    using assms(1,2) unfolding guardDatabaseQuery_def Let_def role_def[symmetric] text_def[symmetric]
    by (auto simp: query_verdict_def rbind_Inr_iff split: if_splits)
  with False show ?thesis by (cases "jget options ''confirmed'' = JUndef") auto
qed

theorem query_guard_witness:
  "can (JStr ''db-admin'') ''db:query:write'' = Inr True \<and>
   guardDatabaseQuery (JStr ''DROP TABLE t'') (JObj [(''role'', JStr ''db-admin''), (''confirmed'', JBool True)]) =
     Inr (JObj [(''allowed'', JBool True), (''reason'', JStr ''query accepted''), (''destructive'', JBool True),
       (''readOnly'', JBool False)])"
proof -
  let ?o = "JObj [(''role'', JStr ''db-admin''), (''confirmed'', JBool True)]"
  let ?v = "JObj [(''allowed'', JBool True), (''reason'', JStr ''query accepted''), (''destructive'', JBool True),
       (''readOnly'', JBool False)]"
  have g: "guardDatabaseQuery (JStr ''DROP TABLE t'') ?o = Inr ?v" by code_simp
  have "\<not> isReadOnlyDatabaseQuery (JStr (str_trim (to_str (jor (JStr ''DROP TABLE t'') (JStr [])))))" by code_simp
  with query_guard[OF g] have "can (jdefault (jget ?o ''role'') (JStr ''developer'')) ''db:query:write'' = Inr True"
    by simp
  with g show ?thesis by simp
qed

end
