(* ===== verification/Security.thy ===== *)
theory Security
  imports Sanitize
begin

text \<open>
  The rest of \<open>security.ts\<close>: the check of a service's security settings, the hardened container
  defaults, the authentication mode, and the fixed window rate limiter as a state machine whose state
  is the map of windows; the clock is an argument of each call.
\<close>

section \<open>Security contexts\<close>

definition DEFAULT_CONTAINER_SECURITY_CONTEXT :: jsv where
  "DEFAULT_CONTAINER_SECURITY_CONTEXT = JObj [
     (''runAsNonRoot'', JBool True), (''runAsUser'', jint 10001), (''allowPrivilegeEscalation'', JBool False),
     (''readOnlyRootFilesystem'', JBool True), (''capabilities'', JObj [(''drop'', JArr [JStr ''ALL''])]),
     (''seccompProfile'', JObj [(''type'', JStr ''RuntimeDefault'')])]"

definition DEFAULT_POD_SECURITY_CONTEXT :: jsv where
  "DEFAULT_POD_SECURITY_CONTEXT = JObj [
     (''fsGroup'', jint 10001), (''seccompProfile'', JObj [(''type'', JStr ''RuntimeDefault'')])]"

definition sec_finding :: "string \<Rightarrow> string \<Rightarrow> string \<Rightarrow> jsv" where
  "sec_finding level code msg = JObj [(''level'', JStr level), (''code'', JStr code), (''message'', JStr msg)]"

definition block_if :: "bool \<Rightarrow> string \<Rightarrow> string \<Rightarrow> jsv list" where
  "block_if b code msg = (if b then [sec_finding ''block'' code msg] else [])"

definition volume_findings :: "jsv \<Rightarrow> jsv list" where
  "volume_findings volume = block_if (truthy (jget volume ''hostPath'')) ''NO_HOST_PATH''
     (''hostPath mount is not allowed: '' @ to_str (jor (jget volume ''name'') (jget volume ''hostPath'')))"

definition mount_findings :: "jsv \<Rightarrow> jsv list" where
  "mount_findings mount = block_if
     (jget mount ''readOnly'' \<noteq> JBool True \<and> jget mount ''mountPath'' \<noteq> JStr ''/tmp'') ''WRITABLE_PATH_NOT_ALLOWED''
     (''writable mount path is not allowed: '' @ to_str (jor (jget mount ''mountPath'') (jget mount ''name'')))"

definition context_findings :: "jsv \<Rightarrow> jsv \<Rightarrow> jsv list" where
  "context_findings service context =
     block_if (jget service ''runAsRoot'' = JBool True \<or> jget context ''runAsUser'' = jint 0 \<or>
        jget context ''runAsNonRoot'' = JBool False) ''NO_ROOT'' ''runtime containers must not run as root'' @
     block_if (jget context ''allowPrivilegeEscalation'' = JBool True) ''NO_PRIVILEGE_ESCALATION''
        ''allowPrivilegeEscalation must be false'' @
     block_if (jget context ''readOnlyRootFilesystem'' = JBool False) ''READ_ONLY_ROOT_REQUIRED''
        ''readOnlyRootFilesystem must remain true'' @
     block_if (is_jarr (jget (jget context ''capabilities'') ''add'') \<and>
        items (jget (jget context ''capabilities'') ''add'') \<noteq> []) ''NO_CAPABILITY_ADD''
        ''Linux capabilities.add is not allowed'' @
     block_if (truthy (jget context ''seccompProfile'') \<and>
        jget (jget context ''seccompProfile'') ''type'' \<noteq> JStr ''RuntimeDefault'')
        ''RUNTIME_DEFAULT_SECCOMP_REQUIRED'' ''seccompProfile.type must be RuntimeDefault''"

definition service_findings :: "jsv \<Rightarrow> jsv list" where
  "service_findings service = (let
     context = jor (jget service ''securityContext'') (JObj []);
     limits = jget (jget service ''resources'') ''limits''
   in block_if (jget service ''privileged'' = JBool True \<or>
        jget (jget service ''securityContext'') ''privileged'' = JBool True) ''NO_PRIVILEGED''
        ''privileged containers are not allowed'' @
      block_if (jget service ''hostNetwork'' = JBool True) ''NO_HOST_NETWORK''
        ''hostNetwork is not allowed for tenant workloads'' @
      block_if (jget service ''hostPID'' = JBool True) ''NO_HOST_PID'' ''hostPID is not allowed for tenant workloads'' @
      block_if (jget service ''hostIPC'' = JBool True) ''NO_HOST_IPC'' ''hostIPC is not allowed for tenant workloads'' @
      block_if (jget service ''automountServiceAccountToken'' = JBool True) ''NO_SERVICE_ACCOUNT_TOKEN''
        ''tenant workloads cannot automount Kubernetes service account tokens'' @
      concat (map volume_findings (items (jor (jget service ''volumes'') (JArr [])))) @
      concat (map mount_findings (items (jor (jget service ''volumeMounts'') (JArr [])))) @
      (if \<not> truthy (jget limits ''cpu'') \<or> \<not> truthy (jget limits ''memory'')
       then [sec_finding ''warn'' ''RESOURCE_LIMITS_REQUIRED'' ''CPU and memory limits should be configured'']
       else []) @
      context_findings service context)"

definition blocks :: "jsv list \<Rightarrow> bool" where
  "blocks findings = list_ex (\<lambda>f. jget f ''level'' = JStr ''block'') findings"

definition validateServiceSecurity :: "jsv \<Rightarrow> jsv" where
  "validateServiceSecurity service = (let findings = service_findings service in
     JObj [(''ok'', JBool (\<not> blocks findings)),
           (''findings'', JArr findings)])"

definition positive_integer :: "jnum \<Rightarrow> bool" where
  "positive_integer n = (is_integer n \<and> num_less (Fin 0) n)"

definition secureContainerDefaults :: "jsv \<Rightarrow> jsv" where
  "secureContainerDefaults service = (let
     requested = to_num (jnullish (jget service ''runAsUser'') (jget (jget service ''securityContext'') ''runAsUser''));
     user = (if positive_integer requested then requested else Fin 10001)
   in JObj [(''runAsNonRoot'', JBool True), (''runAsUser'', JNum user), (''privileged'', JBool False),
       (''allowPrivilegeEscalation'', JBool False), (''readOnlyRootFilesystem'', JBool True),
       (''capabilities'', JObj [(''drop'', JArr [JStr ''ALL''])]),
       (''seccompProfile'', JObj [(''type'', JStr ''RuntimeDefault'')])])"

section \<open>Authentication mode and response headers\<close>

definition unsafeDisabledAuthAllowed :: "jsv \<Rightarrow> bool" where
  "unsafeDisabledAuthAllowed env =
    (if jget env ''RAIBITSERVER_AUTH_DISABLED'' \<noteq> JStr ''1'' then False
     else if jget env ''NODE_ENV'' = JStr ''production'' then False
     else jget env ''RAIBITSERVER_AUTH_DISABLED_CONFIRM'' = JStr ''I_UNDERSTAND_THIS_GRANTS_GLOBAL_OWNER'')"

definition safeAuthModeFromEnv :: "jsv \<Rightarrow> string" where
  "safeAuthModeFromEnv env = (if unsafeDisabledAuthAllowed env then ''disabled'' else ''jwt'')"

definition securityHeaders :: "(string \<times> string) list" where
  "securityHeaders = [(''x-content-type-options'', ''nosniff''), (''x-frame-options'', ''DENY''),
     (''referrer-policy'', ''no-referrer''),
     (''permissions-policy'', ''camera=(), microphone=(), geolocation=()''),
     (''content-security-policy'', ''default-src '' @ [CHR 0x27] @ ''none'' @ [CHR 0x27] @
        ''; frame-ancestors '' @ [CHR 0x27] @ ''none'' @ [CHR 0x27] @ ''; base-uri '' @ [CHR 0x27] @ ''none'' @ [CHR 0x27]),
     (''cache-control'', ''no-store'')]"

section \<open>The fixed window rate limiter\<close>

record rate_window =
  hits :: int
  resetAt :: int

record rate_limiter =
  limit :: int
  windowMs :: int
  windows :: "(string \<times> rate_window) list"

record rate_result =
  allowed :: bool
  remaining :: int
  windowReset :: int

definition createFixedWindowRateLimiter :: "int option \<Rightarrow> int option \<Rightarrow> rate_limiter" where
  "createFixedWindowRateLimiter l w = \<lparr>limit = (case l of None \<Rightarrow> 10 | Some x \<Rightarrow> x),
     windowMs = (case w of None \<Rightarrow> 60000 | Some x \<Rightarrow> x), windows = []\<rparr>"

definition rate_key :: "jsv \<Rightarrow> string" where
  "rate_key key = to_str (jor key (JStr ''global''))"

definition fresh_window :: "rate_window option \<Rightarrow> int \<Rightarrow> bool" where
  "fresh_window w now = (case w of None \<Rightarrow> True | Some c \<Rightarrow> resetAt c \<le> now)"

definition rate_check :: "rate_limiter \<Rightarrow> int \<Rightarrow> jsv \<Rightarrow> rate_result \<times> rate_limiter" where
  "rate_check l now key = (let k = rate_key key; current = map_of (windows l) k in
     if fresh_window current now then
       (let row = \<lparr>hits = 1, resetAt = now + windowMs l\<rparr> in
        (\<lparr>allowed = True, remaining = max 0 (limit l - 1), windowReset = resetAt row\<rparr>,
         l\<lparr>windows := AList.update k row (windows l)\<rparr>))
     else
       (let row = (the current)\<lparr>hits := hits (the current) + 1\<rparr> in
        (\<lparr>allowed = (hits row \<le> limit l), remaining = max 0 (limit l - hits row), windowReset = resetAt row\<rparr>,
         l\<lparr>windows := AList.update k row (windows l)\<rparr>)))"

definition rate_reset :: "rate_limiter \<Rightarrow> jsv \<Rightarrow> rate_limiter" where
  "rate_reset l key = l\<lparr>windows := filter (\<lambda>p. fst p \<noteq> rate_key key) (windows l)\<rparr>"

text \<open>The refusal is the error with status 429 and its \<open>retryAfterSeconds\<close>, for which the code reads
  the clock a second time (\<open>later\<close>).\<close>

definition assertRateLimit ::
  "rate_limiter \<Rightarrow> int \<Rightarrow> int \<Rightarrow> jsv \<Rightarrow> ((js_error \<times> int) + rate_result) \<times> rate_limiter" where
  "assertRateLimit l now later key = (case rate_check l now key of (r, l') \<Rightarrow>
     (if \<not> allowed r
      then Inl (\<lparr>message = ''rate_limit_exceeded'', statusCode = Some 429\<rparr>,
        max 1 (- ((later - windowReset r) div 1000)))
      else Inr r, l'))"

text \<open>A sequence of checks, each with its instant and key, and the answers of those for one key.\<close>

fun rate_run :: "rate_limiter \<Rightarrow> (int \<times> jsv) list \<Rightarrow> (string \<times> bool) list" where
  "rate_run l [] = []"
| "rate_run l ((now, key) # cs) =
     (case rate_check l now key of (r, l') \<Rightarrow> (rate_key key, allowed r) # rate_run l' cs)"

definition granted :: "string \<Rightarrow> (string \<times> bool) list \<Rightarrow> nat" where
  "granted k rs = length (filter (\<lambda>r. r = (k, True)) rs)"

section \<open>Lemmas on findings\<close>

lemma blocks_block_if: "blocks (block_if b code msg) = b"
  by (simp add: blocks_def block_if_def sec_finding_def)

lemma blocks_append: "blocks (xs @ ys) \<longleftrightarrow> blocks xs \<or> blocks ys"
  by (simp add: blocks_def)

lemma blocks_warn: "\<not> blocks (if b then [sec_finding ''warn'' code msg] else [])"
  by (simp add: blocks_def sec_finding_def)

lemma blocks_volumes:
  "blocks (concat (map volume_findings vs)) \<longleftrightarrow> \<not> list_all (\<lambda>v. \<not> truthy (jget v ''hostPath'')) vs"
proof (induction vs)
  case (Cons v vs)
  then show ?case by (simp add: blocks_append volume_findings_def blocks_block_if)
qed (simp add: blocks_def)

lemma blocks_mounts:
  "blocks (concat (map mount_findings ms)) \<longleftrightarrow>
     \<not> list_all (\<lambda>m. jget m ''readOnly'' = JBool True \<or> jget m ''mountPath'' = JStr ''/tmp'') ms"
proof (induction ms)
  case (Cons m ms)
  then show ?case by (simp add: blocks_append mount_findings_def blocks_block_if)
qed (simp add: blocks_def)

text \<open>What a service that passes the check cannot ask for.\<close>

definition safe_context :: "jsv \<Rightarrow> bool" where
  "safe_context c = (jget c ''runAsUser'' \<noteq> jint 0 \<and> jget c ''runAsNonRoot'' \<noteq> JBool False \<and>
     jget c ''allowPrivilegeEscalation'' \<noteq> JBool True \<and> jget c ''readOnlyRootFilesystem'' \<noteq> JBool False \<and>
     (is_jarr (jget (jget c ''capabilities'') ''add'') \<longrightarrow> items (jget (jget c ''capabilities'') ''add'') = []) \<and>
     (truthy (jget c ''seccompProfile'') \<longrightarrow> jget (jget c ''seccompProfile'') ''type'' = JStr ''RuntimeDefault''))"

definition safe_service :: "jsv \<Rightarrow> bool" where
  "safe_service s = (
     list_all (\<lambda>k. jget s k \<noteq> JBool True)
       [''privileged'', ''hostNetwork'', ''hostPID'', ''hostIPC'', ''automountServiceAccountToken'', ''runAsRoot''] \<and>
     jget (jget s ''securityContext'') ''privileged'' \<noteq> JBool True \<and>
     list_all (\<lambda>v. \<not> truthy (jget v ''hostPath'')) (items (jor (jget s ''volumes'') (JArr []))) \<and>
     list_all (\<lambda>m. jget m ''readOnly'' = JBool True \<or> jget m ''mountPath'' = JStr ''/tmp'')
       (items (jor (jget s ''volumeMounts'') (JArr []))) \<and>
     safe_context (jor (jget s ''securityContext'') (JObj [])))"

lemma context_findings_safe:
  "blocks (context_findings s c) \<longleftrightarrow>
     jget s ''runAsRoot'' = JBool True \<or> \<not> safe_context c"
  unfolding context_findings_def safe_context_def blocks_append blocks_block_if by blast

lemma validate_safe: "jget (validateServiceSecurity s) ''ok'' = JBool True \<longleftrightarrow> safe_service s"
proof -
  have "jget (validateServiceSecurity s) ''ok'' = JBool True \<longleftrightarrow> \<not> blocks (service_findings s)"
    by (simp add: validateServiceSecurity_def Let_def)
  also have "\<dots> \<longleftrightarrow> safe_service s"
    unfolding service_findings_def Let_def safe_service_def blocks_append blocks_block_if blocks_volumes
      blocks_mounts context_findings_safe
    by (simp only: list.pred_inject blocks_warn simp_thms de_Morgan_disj) blast
  finally show ?thesis .
qed

lemma defaults_safe_context: "safe_context (secureContainerDefaults s)"
  by (auto simp: safe_context_def secureContainerDefaults_def Let_def positive_integer_def is_jarr_def)

section \<open>Lemmas on the limiter\<close>

definition key_window :: "rate_limiter \<Rightarrow> string \<Rightarrow> rate_window option" where
  "key_window l k = map_of (windows l) k"

lemma rate_check_other:
  "rate_check l now key = (r, l') \<Longrightarrow> rate_key key \<noteq> k \<Longrightarrow> key_window l' k = key_window l k"
  by (auto simp: rate_check_def Let_def key_window_def AList.update_conv split: if_splits)

lemma rate_check_settings:
  "rate_check l now key = (r, l') \<Longrightarrow> limit l' = limit l \<and> windowMs l' = windowMs l"
  by (auto simp: rate_check_def Let_def split: if_splits)

lemma rate_check_fresh:
  "rate_check l now key = (r, l') \<Longrightarrow> fresh_window (key_window l (rate_key key)) now \<Longrightarrow>
   allowed r \<and> key_window l' (rate_key key) = Some \<lparr>hits = 1, resetAt = now + windowMs l\<rparr>"
  by (auto simp: rate_check_def Let_def key_window_def AList.update_conv)

lemma rate_check_running:
  "rate_check l now key = (r, l') \<Longrightarrow> key_window l (rate_key key) = Some w \<Longrightarrow> now < resetAt w \<Longrightarrow>
   (allowed r \<longleftrightarrow> hits w + 1 \<le> limit l) \<and> key_window l' (rate_key key) = Some (w\<lparr>hits := hits w + 1\<rparr>)"
  by (auto simp: rate_check_def Let_def key_window_def fresh_window_def AList.update_conv)

lemma granted_Cons: "granted k (r # rs) = (if r = (k, True) then 1 else 0) + granted k rs"
  by (simp add: granted_def)

text \<open>Within a running window the limiter grants what is left of the limit.\<close>

lemma granted_running:
  "key_window l k = Some w \<Longrightarrow> \<forall>(now, _) \<in> set cs. now < resetAt w \<Longrightarrow>
   int (granted k (rate_run l cs)) \<le> max 0 (limit l - hits w)"
proof (induction cs arbitrary: l w)
  case (Cons c cs)
  obtain now key where c: "c = (now, key)" by (cases c)
  obtain r l' where r: "rate_check l now key = (r, l')" by (cases "rate_check l now key")
  have now: "now < resetAt w" using Cons.prems(2) by (simp add: c)
  show ?case
  proof (cases "rate_key key = k")
    case True
    with rate_check_running[OF r _ now] Cons.prems(1)
    have "allowed r \<longleftrightarrow> hits w + 1 \<le> limit l" "key_window l' k = Some (w\<lparr>hits := hits w + 1\<rparr>)" by auto
    with Cons.IH[of l' "w\<lparr>hits := hits w + 1\<rparr>"] Cons.prems(2) rate_check_settings[OF r] True show ?thesis
      by (auto simp: c r granted_Cons max_def split: if_splits)
  next
    case False
    with Cons.IH[of l' w] rate_check_other[OF r] rate_check_settings[OF r] Cons.prems show ?thesis
      by (simp add: c r granted_Cons)
  qed
qed (simp add: granted_def)

lemma granted_fresh:
  "fresh_window (key_window l k) start \<Longrightarrow> \<forall>(now, _) \<in> set cs. start \<le> now \<and> now < start + windowMs l \<Longrightarrow>
   int (granted k (rate_run l cs)) \<le> max 1 (limit l)"
proof (induction cs arbitrary: l)
  case (Cons c cs)
  obtain now key where c: "c = (now, key)" by (cases c)
  obtain r l' where r: "rate_check l now key = (r, l')" by (cases "rate_check l now key")
  have now: "start \<le> now" "now < start + windowMs l" using Cons.prems(2) by (simp_all add: c)
  show ?case
  proof (cases "rate_key key = k")
    case True
    have "fresh_window (key_window l (rate_key key)) now"
      using Cons.prems(1) now True by (auto simp: fresh_window_def split: option.splits)
    from rate_check_fresh[OF r this] True
    have a: "allowed r" "key_window l' k = Some \<lparr>hits = 1, resetAt = now + windowMs l\<rparr>" by auto
    have "\<forall>(n, _) \<in> set cs. n < now + windowMs l" using Cons.prems(2) now by (fastforce simp: c)
    with granted_running[OF a(2)] have "int (granted k (rate_run l' cs)) \<le> max 0 (limit l' - 1)" by simp
    with a True rate_check_settings[OF r] show ?thesis by (simp add: c r granted_Cons)
  next
    case False
    with Cons.IH[of l'] rate_check_other[OF r] rate_check_settings[OF r] Cons.prems show ?thesis
      by (simp add: c r granted_Cons)
  qed
qed (simp add: granted_def)

section \<open>Properties\<close>

text \<open>\<open>validateServiceSecurity\<close> says \<open>ok\<close> exactly for the services that ask for no host access,
  privilege, root user, escalation, added capability, other seccomp profile, host path or writable
  mount outside \<open>/tmp\<close>; the context \<open>secureContainerDefaults\<close> builds for any service passes it.\<close>

theorem validateServiceSecurity_exact:
  "(jget (validateServiceSecurity s) ''ok'' = JBool True \<longleftrightarrow> safe_service s) \<and>
   jget (validateServiceSecurity (JObj [(''securityContext'', secureContainerDefaults s)])) ''ok'' = JBool True \<and>
   (\<exists>n. jget (secureContainerDefaults s) ''runAsUser'' = JNum n \<and> positive_integer n)"
proof (intro conjI)
  show "jget (validateServiceSecurity s) ''ok'' = JBool True \<longleftrightarrow> safe_service s" by (rule validate_safe)
  have "truthy (secureContainerDefaults s)" "jget (secureContainerDefaults s) ''privileged'' = JBool False"
    by (simp_all add: secureContainerDefaults_def Let_def)
  then have "safe_service (JObj [(''securityContext'', secureContainerDefaults s)])"
    by (simp add: safe_service_def defaults_safe_context)
  then show "jget (validateServiceSecurity (JObj [(''securityContext'', secureContainerDefaults s)])) ''ok'' = JBool True"
    by (simp add: validate_safe)
  show "\<exists>n. jget (secureContainerDefaults s) ''runAsUser'' = JNum n \<and> positive_integer n"
    by (auto simp: secureContainerDefaults_def Let_def) (simp add: positive_integer_def is_integer_def)
qed

text \<open>C30: whatever the order of the checks and the other keys, the limiter grants a key at most
  \<open>max 1 limit\<close> checks within one window length after an instant at which the key has no running
  window.\<close>

theorem rate_limit_bound:
  assumes "fresh_window (key_window l k) start"
    "\<forall>(now, key) \<in> set cs. start \<le> now \<and> now < start + windowMs l"
  shows "int (granted k (rate_run l cs)) \<le> max 1 (limit l)"
  using granted_fresh[OF assms(1)] assms(2) by auto

theorem rate_limit_bound_witness:
  "int (granted ''login'' (rate_run (createFixedWindowRateLimiter (Some 2) (Some 1000))
     [(5, JStr ''login''), (6, JStr ''other''), (7, JStr ''login''), (9, JStr ''login'')])) \<le> 2"
proof -
  let ?l = "createFixedWindowRateLimiter (Some 2) (Some 1000)"
  let ?cs = "[(5, JStr ''login''), (6, JStr ''other''), (7, JStr ''login''), (9, JStr ''login'')]"
  have "fresh_window (key_window ?l ''login'') 0" by code_simp
  moreover have "\<forall>(now, key) \<in> set ?cs. 0 \<le> now \<and> now < 0 + windowMs ?l" by code_simp
  ultimately have "int (granted ''login'' (rate_run ?l ?cs)) \<le> max 1 (limit ?l)" by (rule rate_limit_bound)
  moreover have "max 1 (limit ?l) = 2" by code_simp
  ultimately show ?thesis by simp
qed

end
