(* ===== verification/Auth.thy ===== *)
theory Auth
  imports Rbac
begin

text \<open>
  \<open>auth.ts\<close>: signing and verifying HS256 tokens, the subject of a request, and authorisation by role
  and by scope. HMAC-SHA256 under base64url, the JSON text of a value, base64url and the random
  token id are the members of a \<open>jwt_lib\<close>; \<open>t\<close> is \<open>Date.now()\<close>.
\<close>

record jwt_lib =
  hmac :: "string \<Rightarrow> string \<Rightarrow> string"
  json_text :: "jsv \<Rightarrow> string"
  json_parse :: "string \<Rightarrow> jsv option"
  seg_encode :: "string \<Rightarrow> string"
  seg_decode :: "string \<Rightarrow> string"

definition unauthorized :: "string \<Rightarrow> 'a res" where
  "unauthorized m = js_throw_status 401 m"

definition forbidden :: "string \<Rightarrow> 'a res" where
  "forbidden m = js_throw_status 403 m"

definition parseJsonSegment :: "jwt_lib \<Rightarrow> string \<Rightarrow> jsv res" where
  "parseJsonSegment L segment = (case json_parse L (seg_decode L segment) of
      Some v \<Rightarrow> Inr v | None \<Rightarrow> unauthorized ''invalid bearer token payload'')"

section \<open>Signing\<close>

definition reserved_claims :: "string list" where
  "reserved_claims = [''exp'', ''iat'', ''nbf'', ''iss'', ''aud'', ''jti'']"

definition token_ttl :: "jsv \<Rightarrow> jnum" where
  "token_ttl expiresInSeconds =
     num_max (Fin 60) (num_min (to_num (jor expiresInSeconds (jint 3600))) (Fin 86400))"

definition token_body :: "jsv \<Rightarrow> jsv \<Rightarrow> string \<Rightarrow> int \<Rightarrow> jsv" where
  "token_body payload options jti t = (let
     now = t div 1000;
     safePayload = JObj (filter (\<lambda>p. fst p \<notin> set reserved_claims) (entries (jor payload (JObj []))))
   in jwith safePayload [
     (''iss'', jdefault (jget options ''issuer'') (JStr ''raibitserver'')),
     (''aud'', jdefault (jget options ''audience'') (JStr ''raibitserver-api'')),
     (''jti'', JStr jti), (''iat'', jint now),
     (''exp'', JNum (num_add (Fin (of_int now))
        (token_ttl (jdefault (jget options ''expiresInSeconds'') (jint 3600)))))])"

definition token_header :: jsv where
  "token_header = JObj [(''alg'', JStr ''HS256''), (''typ'', JStr ''JWT'')]"

definition signed_text :: "jwt_lib \<Rightarrow> jsv \<Rightarrow> string" where
  "signed_text L body = seg_encode L (json_text L token_header) @ ''.'' @ seg_encode L (json_text L body)"

definition signJwtHs256 :: "jwt_lib \<Rightarrow> jsv \<Rightarrow> jsv \<Rightarrow> jsv \<Rightarrow> string \<Rightarrow> int \<Rightarrow> string res" where
  "signJwtHs256 L payload secret options jti t =
    (if \<not> truthy secret then js_throw ''jwt secret is required''
     else (let text = signed_text L (token_body payload options jti t) in
       Inr (text @ ''.'' @ hmac L (to_str secret) text)))"

section \<open>Verifying\<close>

definition segment :: "string list \<Rightarrow> nat \<Rightarrow> string" where
  "segment ps i = (if i < length ps then ps ! i else [])"

definition check :: "bool \<Rightarrow> string \<Rightarrow> unit res" where
  "check b m = (if b then Inr () else unauthorized m)"

definition check_claims :: "jsv \<Rightarrow> jsv \<Rightarrow> jsv \<Rightarrow> int \<Rightarrow> jsv res" where
  "check_claims payload issuer audience t = (let now = Fin (of_int (t div 1000)) in
     rbind (jread payload ''exp'') (\<lambda>expiry.
     rbind (check (truthy expiry) ''missing bearer token expiration'') (\<lambda>_.
     rbind (check (\<not> num_le (to_num expiry) now) ''expired bearer token'') (\<lambda>_.
     rbind (check (\<not> (truthy (jget payload ''nbf'') \<and> num_less now (to_num (jget payload ''nbf''))))
       ''bearer token is not active yet'') (\<lambda>_.
     rbind (check (\<not> (truthy issuer \<and> (\<not> truthy (jget payload ''iss'') \<or> \<not> strict_eq (jget payload ''iss'') issuer)))
       ''invalid token issuer'') (\<lambda>_.
     rbind (check (\<not> (truthy audience \<and> (\<not> truthy (jget payload ''aud'') \<or> \<not> strict_eq (jget payload ''aud'') audience)))
       ''invalid token audience'') (\<lambda>_.
     rbind (check (truthy (jget payload ''jti'')) ''missing token id'') (\<lambda>_. Inr payload))))))))"

definition verifyJwtHs256 :: "jwt_lib \<Rightarrow> jsv \<Rightarrow> jsv \<Rightarrow> jsv \<Rightarrow> int \<Rightarrow> jsv res" where
  "verifyJwtHs256 L token secret options t = (let
     ps = str_split CHR ''.'' (to_str (jor token (JStr [])));
     headerSegment = segment ps 0; payloadSegment = segment ps 1; signature = segment ps 2
   in rbind (check (truthy secret) ''jwt auth is not configured'') (\<lambda>_.
      rbind (check (headerSegment \<noteq> [] \<and> payloadSegment \<noteq> [] \<and> signature \<noteq> []) ''invalid bearer token'') (\<lambda>_.
      rbind (parseJsonSegment L headerSegment) (\<lambda>header.
      rbind (jread header ''alg'') (\<lambda>alg.
      rbind (check (alg = JStr ''HS256'') ''unsupported jwt algorithm'') (\<lambda>_.
      rbind (check (signature = hmac L (to_str secret) (headerSegment @ ''.'' @ payloadSegment))
        ''invalid bearer token signature'') (\<lambda>_.
      rbind (parseJsonSegment L payloadSegment) (\<lambda>payload.
        check_claims payload (jdefault (jget options ''issuer'') (JStr ''raibitserver''))
          (jdefault (jget options ''audience'') (JStr ''raibitserver-api'')) t))))))))"

section \<open>The subject of a request\<close>

definition bearer_token :: "jsv \<Rightarrow> jsv" where
  "bearer_token req = (let
     headers = jor (jget req ''headers'') (JObj []);
     authorization = to_str (jor (jget headers ''authorization'') (jor (jget headers ''Authorization'') (JStr [])))
   in if starts_with authorization ''Bearer '' then JStr (str_from 7 authorization) else JNull)"

definition dev_subject :: "jsv \<Rightarrow> jsv" where
  "dev_subject headers = JObj [
     (''id'', jor (jget headers ''x-raibitserver-user'') (JStr ''dev-user'')),
     (''role'', jor (jget headers ''x-raibitserver-role'') (JStr ''developer'')),
     (''organizationId'', jor (jget headers ''x-raibitserver-organization'') JNull),
     (''projectId'', jor (jget headers ''x-raibitserver-project'') JNull),
     (''authMode'', JStr ''dev-header'')]"

definition token_subject :: "jsv \<Rightarrow> jsv" where
  "token_subject payload = JObj [
     (''id'', jor (jget payload ''sub'') (jor (jget payload ''userId'') (jor (jget payload ''email'') (JStr ''user'')))),
     (''role'', jor (jget payload ''role'') (jor (jget payload ''orgRole'') (JStr ''viewer''))),
     (''organizationId'', jor (jget payload ''organizationId'') (jor (jget payload ''orgId'') JNull)),
     (''organizationIds'', jor (jget payload ''organizationIds'') JNull),
     (''projectId'', jor (jget payload ''projectId'') JNull),
     (''projectIds'', jor (jget payload ''projectIds'') JNull),
     (''global'', JBool (jget payload ''global'' = JBool True)),
     (''authMode'', JStr ''jwt''),
     (''accountType'', jor (jget payload ''accountType'') JNull),
     (''approvalStatus'', jor (jget payload ''approvalStatus'') JNull),
     (''userRole'', jor (jget payload ''userRole'') JNull),
     (''claims'', payload)]"

definition subjectFromRequest :: "jwt_lib \<Rightarrow> jsv \<Rightarrow> jsv \<Rightarrow> int \<Rightarrow> jsv res" where
  "subjectFromRequest L req auth t =
    (if jor (jget auth ''mode'') (JStr ''jwt'') = JStr ''disabled'' then
       (if jget auth ''allowDisabled'' \<noteq> JBool True
        then unauthorized ''disabled auth mode requires explicit allowDisabled=true''
        else Inr (JObj [(''id'', JStr ''system''), (''role'', jor (jget auth ''defaultRole'') (JStr ''owner'')),
          (''authMode'', JStr ''disabled''), (''global'', JBool True)]))
     else (let token = bearer_token req in
       if \<not> truthy token \<and> truthy (jget auth ''allowDevHeaders'')
       then Inr (dev_subject (jor (jget req ''headers'') (JObj [])))
       else if \<not> truthy token then unauthorized ''missing bearer token''
       else rbind (verifyJwtHs256 L token (jget auth ''jwtSecret'')
           (JObj [(''issuer'', jor (jget auth ''issuer'') (JStr ''raibitserver'')),
                  (''audience'', jor (jget auth ''audience'') (JStr ''raibitserver-api''))]) t)
         (\<lambda>payload. Inr (token_subject payload))))"

section \<open>Authorisation\<close>

definition requireAction :: "jsv \<Rightarrow> string \<Rightarrow> bool res" where
  "requireAction subject action = rbind (can (jget subject ''role'') action) (\<lambda>b.
     if b then Inr True
     else js_throw_status 403 (''role '' @ to_str (jget subject ''role'') @ '' cannot perform '' @ action))"

definition matchesScope :: "jsv \<Rightarrow> jsv \<Rightarrow> jsv \<Rightarrow> bool" where
  "matchesScope single many expected =
    (if truthy single \<and> to_str single = to_str expected then True
     else is_jarr many \<and> to_str expected \<in> set (map to_str (items many)))"

definition unscoped :: "jsv \<Rightarrow> bool" where
  "unscoped subject = (jget subject ''global'' = JBool True \<or>
     jget (jget subject ''claims'') ''global'' = JBool True \<or> jget subject ''authMode'' = JStr ''disabled'')"

definition requireScope :: "jsv \<Rightarrow> jsv \<Rightarrow> bool res" where
  "requireScope subject scope = (if unscoped subject then Inr True else (let
     organizationId = jor (jget scope ''organizationId'') (jor (jget scope ''orgId'') JNull);
     projectId = jor (jget scope ''projectId'') JNull
   in if truthy organizationId \<and>
        \<not> matchesScope (jget subject ''organizationId'') (jget subject ''organizationIds'') organizationId
      then forbidden (''subject is not scoped to organization '' @ to_str organizationId)
      else if truthy projectId \<and> \<not> matchesScope (jget subject ''projectId'') (jget subject ''projectIds'') projectId
      then forbidden (''subject is not scoped to project '' @ to_str projectId)
      else Inr True))"

definition authorizeRequest :: "jwt_lib \<Rightarrow> jsv \<Rightarrow> string \<Rightarrow> jsv \<Rightarrow> jsv \<Rightarrow> int \<Rightarrow> jsv res" where
  "authorizeRequest L req action auth scope t =
     rbind (subjectFromRequest L req auth t) (\<lambda>subject.
     rbind (requireAction subject action) (\<lambda>_.
     rbind (requireScope subject (jspread (jspread (JObj []) (jor (jget req ''params'') (JObj []))) scope)) (\<lambda>_.
       Inr subject)))"

section \<open>Lemmas\<close>

lemma check_ok [simp]: "check b m = Inr u \<longleftrightarrow> b"
  by (simp add: check_def unauthorized_def)

lemma check_True [simp]: "check True m = Inr ()"
  by (simp add: check_def)

lemma parse_segment_ok: "parseJsonSegment L s = Inr v \<longleftrightarrow> json_parse L (seg_decode L s) = Some v"
  by (auto simp: parseJsonSegment_def unauthorized_def split: option.splits)

lemma jread_ok: "jread v k = Inr x \<longleftrightarrow> \<not> is_nullish v \<and> x = jget v k"
  by (auto simp: jread_def)

lemma check_bind: "rbind (check b m) (\<lambda>_. r) = Inr v \<longleftrightarrow> b \<and> r = Inr v"
  by (simp add: rbind_Inr_iff)

lemma read_bind: "rbind (jread v k) f = Inr x \<longleftrightarrow> \<not> is_nullish v \<and> f (jget v k) = Inr x"
  by (auto simp: rbind_Inr_iff jread_ok)

lemma parse_bind:
  "rbind (parseJsonSegment L s) f = Inr x \<longleftrightarrow> (\<exists>v. json_parse L (seg_decode L s) = Some v \<and> f v = Inr x)"
  by (auto simp: rbind_Inr_iff parse_segment_ok)

definition live_claims :: "jsv \<Rightarrow> jsv \<Rightarrow> jsv \<Rightarrow> int \<Rightarrow> bool" where
  "live_claims payload issuer audience t = (
     truthy (jget payload ''exp'') \<and> \<not> num_le (to_num (jget payload ''exp'')) (Fin (of_int (t div 1000))) \<and>
     (truthy (jget payload ''nbf'') \<longrightarrow> \<not> num_less (Fin (of_int (t div 1000))) (to_num (jget payload ''nbf''))) \<and>
     (truthy issuer \<longrightarrow> strict_eq (jget payload ''iss'') issuer) \<and>
     (truthy audience \<longrightarrow> strict_eq (jget payload ''aud'') audience) \<and> truthy (jget payload ''jti''))"

lemma check_claims_iff:
  "check_claims payload issuer audience t = Inr v \<longleftrightarrow>
     v = payload \<and> \<not> is_nullish payload \<and> live_claims payload issuer audience t \<and>
     (truthy issuer \<longrightarrow> truthy (jget payload ''iss'')) \<and> (truthy audience \<longrightarrow> truthy (jget payload ''aud''))"
  unfolding check_claims_def Let_def read_bind check_bind live_claims_def by auto

text \<open>A token that carries the signature of its first two segments and live claims.\<close>

definition genuine :: "jwt_lib \<Rightarrow> jsv \<Rightarrow> jsv \<Rightarrow> jsv \<Rightarrow> jsv \<Rightarrow> int \<Rightarrow> jsv \<Rightarrow> bool" where
  "genuine L token secret issuer audience t payload = (truthy secret \<and> (let ps = str_split CHR ''.'' (to_str token) in
     segment ps 2 = hmac L (to_str secret) (segment ps 0 @ ''.'' @ segment ps 1) \<and>
     json_parse L (seg_decode L (segment ps 1)) = Some payload \<and> live_claims payload issuer audience t))"

lemma verify_genuine:
  assumes "verifyJwtHs256 L token secret options t = Inr payload"
  shows "genuine L (jor token (JStr [])) secret (jdefault (jget options ''issuer'') (JStr ''raibitserver''))
     (jdefault (jget options ''audience'') (JStr ''raibitserver-api'')) t payload"
  using assms
  unfolding verifyJwtHs256_def Let_def check_bind parse_bind read_bind check_claims_iff genuine_def
  by auto

definition in_scope :: "jsv \<Rightarrow> jsv \<Rightarrow> bool" where
  "in_scope subject scope = (
     (let org = jor (jget scope ''organizationId'') (jget scope ''orgId'') in truthy org \<longrightarrow>
        matchesScope (jget subject ''organizationId'') (jget subject ''organizationIds'') org) \<and>
     (truthy (jget scope ''projectId'') \<longrightarrow>
        matchesScope (jget subject ''projectId'') (jget subject ''projectIds'') (jget scope ''projectId'')))"

lemma jor_null: "truthy (jor a JNull) \<longleftrightarrow> truthy a" "truthy a \<Longrightarrow> jor a JNull = a"
  by (simp_all add: jor_def)

lemma require_scope_ok:
  assumes "requireScope subject scope = Inr b" "\<not> unscoped subject"
  shows "in_scope subject scope"
  using assms
  by (auto simp: requireScope_def in_scope_def Let_def forbidden_def jor_null jor_assoc[symmetric] split: if_splits)

lemma require_action_ok: "requireAction subject action = Inr b \<Longrightarrow> can (jget subject ''role'') action = Inr True"
  by (auto simp: requireAction_def rbind_Inr_iff split: if_splits)

lemma subject_genuine:
  assumes "subjectFromRequest L req auth t = Inr subject"
    and "jget auth ''mode'' \<noteq> JStr ''disabled''" and "\<not> truthy (jget auth ''allowDevHeaders'')"
  shows "\<exists>payload. subject = token_subject payload \<and>
     genuine L (bearer_token req) (jget auth ''jwtSecret'') (jor (jget auth ''issuer'') (JStr ''raibitserver''))
       (jor (jget auth ''audience'') (JStr ''raibitserver-api'')) t payload"
proof -
  have "jor (jget auth ''mode'') (JStr ''jwt'') \<noteq> JStr ''disabled''"
    using assms(2) by (simp add: jor_def)
  then have token: "truthy (bearer_token req)"
    using assms(1,3) by (auto simp: subjectFromRequest_def Let_def unauthorized_def split: if_splits)
  then have "\<exists>payload. verifyJwtHs256 L (bearer_token req) (jget auth ''jwtSecret'')
        (JObj [(''issuer'', jor (jget auth ''issuer'') (JStr ''raibitserver'')),
               (''audience'', jor (jget auth ''audience'') (JStr ''raibitserver-api''))]) t = Inr payload \<and>
      subject = token_subject payload"
    using assms(1,3) \<open>jor _ _ \<noteq> _\<close> by (auto simp: subjectFromRequest_def Let_def rbind_Inr_iff split: if_splits)
  moreover have "jdefault (jget (JObj [(''issuer'', i), (''audience'', a)]) ''issuer'') (JStr ''raibitserver'') = i"
      "jdefault (jget (JObj [(''issuer'', i), (''audience'', a)]) ''audience'') (JStr ''raibitserver-api'') = a"
    if "i \<noteq> JUndef" "a \<noteq> JUndef" for i a
    using that by simp_all
  moreover have "jor x (JStr w) \<noteq> JUndef" for x w by (auto simp: jor_def)
  ultimately show ?thesis
    using verify_genuine[of L "bearer_token req"] token by (metis jor_truthy)
qed

section \<open>Signed tokens verify\<close>

definition lib_ok :: "jwt_lib \<Rightarrow> bool" where
  "lib_ok L = ((\<forall>s. seg_decode L (seg_encode L s) = s) \<and> (\<forall>s. CHR ''.'' \<notin> set (seg_encode L s)) \<and>
     (\<forall>s. seg_encode L s = [] \<longleftrightarrow> s = []) \<and> (\<forall>k m. CHR ''.'' \<notin> set (hmac L k m) \<and> hmac L k m \<noteq> []))"

text \<open>The JSON text of a value is not empty and parses to the value as JSON represents it.\<close>

definition json_ok :: "jwt_lib \<Rightarrow> jsv \<Rightarrow> bool" where
  "json_ok L v = (json_text L v \<noteq> [] \<and> json_parse L (json_text L v) = Some (deep_clone v))"

lemma split_three:
  assumes "CHR ''.'' \<notin> set a" "CHR ''.'' \<notin> set b" "CHR ''.'' \<notin> set c"
  shows "str_split CHR ''.'' ((a @ ''.'' @ b) @ ''.'' @ c) = [a, b, c]"
  using assms by (simp add: split_cons_sep split_no_sep)

lemma header_clone: "deep_clone token_header = token_header"
  by (simp add: token_header_def)

lemma filter_distinct_fields: "distinct (map fst kvs) \<Longrightarrow> record_object (JObj (filter P kvs))"
  by (simp add: record_object_def distinct_map_filter)

lemma body_record:
  assumes "record_object payload"
  shows "record_object (token_body payload options jti t)"
  using assms by (auto simp: token_body_def Let_def record_object_def intro!: record_object_jwith[unfolded record_object_def] distinct_map_filter)

lemma token_body_claims:
  "jget (token_body payload options jti t) ''iss'' = jdefault (jget options ''issuer'') (JStr ''raibitserver'')"
  "jget (token_body payload options jti t) ''aud'' = jdefault (jget options ''audience'') (JStr ''raibitserver-api'')"
  "jget (token_body payload options jti t) ''jti'' = JStr jti"
  "jget (token_body payload options jti t) ''exp'' = JNum (num_add (Fin (of_int (t div 1000)))
     (token_ttl (jdefault (jget options ''expiresInSeconds'') (jint 3600))))"
  by (simp_all add: token_body_def Let_def jwith_Cons)

lemma jget_filter_fields:
  "jget (JObj (filter (\<lambda>p. fst p \<notin> set ks) kvs)) k = (if k \<in> set ks then JUndef else jget (JObj kvs) k)"
  by (simp add: jget_def map_of_map_filter_key[where P = "\<lambda>a. a \<notin> set ks"])

lemma token_body_nbf: "jget (token_body payload options jti t) ''nbf'' = JUndef"
proof -
  have "''nbf'' \<in> set reserved_claims" by code_simp
  then show ?thesis by (simp add: token_body_def Let_def jwith_Cons jget_filter_fields)
qed

lemma token_body_payload:
  assumes "truthy payload" "k \<notin> set reserved_claims"
  shows "jget (token_body payload options jti t) k = jget payload k"
  using assms by (simp add: token_body_def Let_def jwith_Cons jget_filter_fields) (auto simp: reserved_claims_def jget_def)

lemma token_ttl_range:
  assumes "token_ttl x \<noteq> NaN"
  shows "\<exists>q. token_ttl x = Fin q \<and> 60 \<le> q \<and> q \<le> 86400"
proof (cases "to_num (jor x (jint 3600))")
  case (Fin q)
  then have "token_ttl x = Fin (max 60 (min q 86400))" by (simp add: token_ttl_def)
  then show ?thesis by simp
next
  case NaN
  then have "token_ttl x = NaN" by (simp add: token_ttl_def num_min_def num_max_def)
  then show ?thesis using assms by simp
qed (simp_all add: token_ttl_def num_min_def num_max_def num_less_def)

lemma clone_scalar:
  assumes "record_object v" "jget v k = JStr s \<or> jget v k = JNum (Fin q)"
  shows "jget (deep_clone v) k = jget v k"
  using assms(2) by (elim disjE) (simp_all add: jget_clone[OF assms(1)])

lemma clone_undef: "record_object v \<Longrightarrow> jget v k = JUndef \<Longrightarrow> jget (deep_clone v) k = JUndef"
  by (simp add: jget_clone)

lemma body_live:
  assumes "record_object payload"
    and "jdefault (jget options ''issuer'') (JStr ''raibitserver'') = JStr i"
    and "jdefault (jget options ''audience'') (JStr ''raibitserver-api'') = JStr a"
    and "token_ttl (jdefault (jget options ''expiresInSeconds'') (jint 3600)) = Fin ttl"
    and "of_int (t' div 1000) < of_int (t div 1000) + ttl" "0 \<le> t" "jti \<noteq> []"
  shows "live_claims (deep_clone (token_body payload options jti t)) (JStr i) (JStr a) t'"
proof -
  let ?b = "token_body payload options jti t"
  have b: "record_object ?b" using body_record[OF assms(1)] .
  have "60 \<le> ttl" using token_ttl_range assms(4) by (metis jnum.distinct(5) jnum.inject)
  moreover have "(0::rat) \<le> of_int (t div 1000)" using assms(6) by simp
  ultimately have pos: "of_int (t div 1000) + ttl \<noteq> 0" by linarith
  have exp: "jget (deep_clone ?b) ''exp'' = JNum (Fin (of_int (t div 1000) + ttl))"
    using clone_scalar[OF b, of "''exp''" _ "of_int (t div 1000) + ttl"] assms(4) by (simp add: token_body_claims)
  moreover have "jget (deep_clone ?b) ''iss'' = JStr i" "jget (deep_clone ?b) ''aud'' = JStr a" "jget (deep_clone ?b) ''jti'' = JStr jti"
    using clone_scalar[OF b] assms(2,3) by (simp_all add: token_body_claims)
  moreover have "jget (deep_clone ?b) ''nbf'' = JUndef" using clone_undef[OF b token_body_nbf] .
  ultimately show ?thesis
    using pos assms(5,7) by (simp add: live_claims_def to_num_def)
qed

lemma authorize_facts:
  assumes "authorizeRequest L req action auth scope t = Inr subject"
  shows "can (jget subject ''role'') action = Inr True"
    and "unscoped subject \<or> in_scope subject (jspread (jspread (JObj []) (jor (jget req ''params'') (JObj []))) scope)"
    and "jget auth ''mode'' = JStr ''disabled'' \<or> truthy (jget auth ''allowDevHeaders'') \<or>
      (\<exists>payload. subject = token_subject payload \<and>
        genuine L (bearer_token req) (jget auth ''jwtSecret'') (jor (jget auth ''issuer'') (JStr ''raibitserver''))
          (jor (jget auth ''audience'') (JStr ''raibitserver-api'')) t payload)"
proof -
  from assms have sub: "subjectFromRequest L req auth t = Inr subject"
    and act: "\<exists>b. requireAction subject action = Inr b"
    and sco: "\<exists>b. requireScope subject (jspread (jspread (JObj []) (jor (jget req ''params'') (JObj []))) scope) = Inr b"
    by (auto simp: authorizeRequest_def rbind_Inr_iff)
  show "can (jget subject ''role'') action = Inr True" using act require_action_ok by blast
  show "unscoped subject \<or> in_scope subject (jspread (jspread (JObj []) (jor (jget req ''params'') (JObj []))) scope)"
    using sco require_scope_ok by blast
  show "jget auth ''mode'' = JStr ''disabled'' \<or> truthy (jget auth ''allowDevHeaders'') \<or>
      (\<exists>payload. subject = token_subject payload \<and>
        genuine L (bearer_token req) (jget auth ''jwtSecret'') (jor (jget auth ''issuer'') (JStr ''raibitserver''))
          (jor (jget auth ''audience'') (JStr ''raibitserver-api'')) t payload)"
    using subject_genuine[OF sub] by blast
qed

section \<open>Properties\<close>

text \<open>C33: A token signed for a payload verifies under the same secret, issuer and audience until its
  lifetime of at most 24 hours ends, and gives back the payload's own claims.\<close>

theorem jwt_roundtrip:
  assumes "lib_ok L" "json_ok L token_header" "json_ok L (token_body payload options jti t)"
    and "record_object payload" "truthy secret" "0 \<le> t" "jti \<noteq> []"
    and "jdefault (jget options ''issuer'') (JStr ''raibitserver'') = JStr i" "i \<noteq> []"
    and "jdefault (jget options ''audience'') (JStr ''raibitserver-api'') = JStr a" "a \<noteq> []"
    and "token_ttl (jdefault (jget options ''expiresInSeconds'') (jint 3600)) = Fin ttl"
    and "of_int (t' div 1000) < of_int (t div 1000) + ttl"
  shows "\<exists>token payload'. signJwtHs256 L payload secret options jti t = Inr token \<and>
     verifyJwtHs256 L (JStr token) secret options t' = Inr payload' \<and> ttl \<le> 86400 \<and>
     (\<forall>k. k \<in> set reserved_claims \<or> jget payload' k = jget (deep_clone payload) k)"
proof -
  let ?b = "token_body payload options jti t"
  let ?h = "seg_encode L (json_text L token_header)" and ?p = "seg_encode L (json_text L ?b)"
  let ?sig = "hmac L (to_str secret) (?h @ ''.'' @ ?p)"
  let ?token = "(?h @ ''.'' @ ?p) @ ''.'' @ ?sig"
  have sign: "signJwtHs256 L payload secret options jti t = Inr ?token"
    using assms(5) by (simp add: signJwtHs256_def signed_text_def Let_def)
  have parts: "str_split CHR ''.'' ?token = [?h, ?p, ?sig]"
    using assms(1) unfolding lib_ok_def by (intro split_three) blast+
  have full: "?h \<noteq> []" "?p \<noteq> []" "?sig \<noteq> []"
    using assms(1-3) unfolding lib_ok_def json_ok_def by blast+
  have json: "json_parse L (seg_decode L ?h) = Some token_header" "json_parse L (seg_decode L ?p) = Some (deep_clone ?b)"
    using assms(1-3) header_clone unfolding lib_ok_def json_ok_def by metis+
  have live: "live_claims (deep_clone ?b) (JStr i) (JStr a) t'"
    using body_live[OF assms(4,8,10,12,13,6,7)] .
  have b: "record_object ?b" using body_record[OF assms(4)] .
  have "record_object (deep_clone ?b)" using record_object_clone[OF b] .
  then have obj: "\<not> is_nullish (deep_clone ?b)" by (auto simp: record_object_def is_nullish_def)
  have claims: "check_claims (deep_clone ?b) (JStr i) (JStr a) t' = Inr (deep_clone ?b)"
    using live obj assms(9,11) by (auto simp: check_claims_iff live_claims_def)
  have header: "\<not> is_nullish token_header" "jget token_header ''alg'' = JStr ''HS256''"
    by (simp_all add: token_header_def is_nullish_def)
  have tok: "to_str (jor (JStr ?token) (JStr [])) = ?token" by simp
  have "verifyJwtHs256 L (JStr ?token) secret options t' = Inr (deep_clone ?b)"
    unfolding verifyJwtHs256_def Let_def tok parts check_bind parse_bind read_bind assms(8,10)
    using full json header claims assms(5) by (simp add: segment_def)
  moreover have "jget (deep_clone ?b) k = jget (deep_clone payload) k" if "k \<notin> set reserved_claims" for k
  proof -
    have "truthy payload" using assms(4) by (auto simp: record_object_def)
    then have "jget ?b k = jget payload k" using token_body_payload that by blast
    then show ?thesis by (simp add: jget_clone[OF b] jget_clone[OF assms(4)])
  qed
  moreover have "ttl \<le> 86400" using token_ttl_range assms(12) by (metis jnum.distinct(5) jnum.inject)
  ultimately show ?thesis using sign by blast
qed

text \<open>A library in which \<open>hmac\<close> keeps key and text apart and JSON knows two values.\<close>

definition sample_jwt :: "jsv \<Rightarrow> jwt_lib" where
  "sample_jwt body = \<lparr>hmac = (\<lambda>k m. hex_text (k @ '':'' @ m)),
     json_text = (\<lambda>v. if v = token_header then ''h'' else ''b''),
     json_parse = (\<lambda>s. if s = ''h'' then Some token_header else if s = ''b'' then Some (deep_clone body) else None),
     seg_encode = hex_text, seg_decode = unhex_text\<rparr>"

lemma dot_not_hex: "CHR ''.'' \<notin> set (hex_text b)"
proof -
  have "\<forall>x \<in> set (hex_text b). code_of x \<noteq> 46"
  proof (induction b)
    case (Cons c b)
    have "code_of c div 16 < 16" using code_of_less[of c] by (simp add: less_mult_imp_div_less)
    moreover have "code_of c mod 16 < 16" by simp
    ultimately show ?case using Cons by (simp add: hex_text_def code_of_char_of)
  qed (simp add: hex_text_def)
  moreover have "code_of CHR ''.'' = 46" by (simp add: code_of_def)
  ultimately show ?thesis by blast
qed

lemma sample_jwt_ok: "lib_ok (sample_jwt body)" "json_ok (sample_jwt body) token_header"
  "body \<noteq> token_header \<Longrightarrow> json_ok (sample_jwt body) body"
proof -
  have "hex_text b = [] \<longleftrightarrow> b = []" for b by (cases b) (simp_all add: hex_text_def)
  then show "lib_ok (sample_jwt body)"
    by (simp add: lib_ok_def sample_jwt_def unhex_hex dot_not_hex)
qed (simp_all add: json_ok_def sample_jwt_def header_clone)

definition sample_claims :: jsv where
  "sample_claims = JObj [(''sub'', JStr ''u1''), (''role'', JStr ''developer''), (''exp'', jint 5),
     (''organizationId'', JStr ''acme'')]"

theorem jwt_roundtrip_witness:
  "\<exists>token payload'. signJwtHs256 (sample_jwt (token_body sample_claims (JObj []) ''id1'' 1000)) sample_claims
       (JStr ''s3'') (JObj []) ''id1'' 1000 = Inr token \<and>
     verifyJwtHs256 (sample_jwt (token_body sample_claims (JObj []) ''id1'' 1000)) (JStr token) (JStr ''s3'')
       (JObj []) 3600999 = Inr payload' \<and> jget payload' ''role'' = JStr ''developer''"
proof -
  let ?b = "token_body sample_claims (JObj []) ''id1'' 1000"
  have ne: "?b \<noteq> token_header" by code_simp
  have obj: "record_object sample_claims" by (simp add: sample_claims_def record_object_def)
  have facts: "truthy (JStr ''s3'')" "(0::int) \<le> 1000" "''id1'' \<noteq> []"
    "jdefault (jget (JObj []) ''issuer'') (JStr ''raibitserver'') = JStr ''raibitserver''" "''raibitserver'' \<noteq> []"
    "jdefault (jget (JObj []) ''audience'') (JStr ''raibitserver-api'') = JStr ''raibitserver-api''"
    "''raibitserver-api'' \<noteq> []"
    by simp_all
  have ttl: "token_ttl (jdefault (jget (JObj []) ''expiresInSeconds'') (jint 3600)) = Fin 3600"
    by (simp add: token_ttl_def to_num_def jor_def)
  have time: "of_int (3600999 div 1000) < (of_int (1000 div 1000) + 3600 :: rat)" by simp
  have "''role'' \<notin> set reserved_claims" "jget (deep_clone sample_claims) ''role'' = JStr ''developer''" by code_simp+
  with jwt_roundtrip[OF sample_jwt_ok(1) sample_jwt_ok(2) sample_jwt_ok(3)[OF ne] obj facts ttl time]
  show ?thesis by metis
qed

text \<open>C17: A request is authorised only for a role that holds the permission and, unless the subject is
  global, inside the organization and project of the request; and without the disabled and the
  development header modes its subject comes from a token with a valid signature and live claims.\<close>

theorem authorize_sound:
  assumes "authorizeRequest L req action auth scope t = Inr subject"
  shows "can (jget subject ''role'') action = Inr True \<and>
    (unscoped subject \<or> in_scope subject (jspread (jspread (JObj []) (jor (jget req ''params'') (JObj []))) scope)) \<and>
    (jget auth ''mode'' = JStr ''disabled'' \<or> truthy (jget auth ''allowDevHeaders'') \<or>
      (\<exists>payload. subject = token_subject payload \<and>
        genuine L (bearer_token req) (jget auth ''jwtSecret'') (jor (jget auth ''issuer'') (JStr ''raibitserver''))
          (jor (jget auth ''audience'') (JStr ''raibitserver-api'')) t payload))"
  using authorize_facts[OF assms] by (intro conjI)

definition sample_request :: jsv where
  "sample_request = JObj [(''headers'', JObj [(''x-raibitserver-role'', JStr ''developer''),
     (''x-raibitserver-organization'', JStr ''acme'')])]"

theorem authorize_sound_witness:
  "\<exists>subject. authorizeRequest (sample_jwt JNull) sample_request ''deploy:run'' (JObj [(''allowDevHeaders'', JBool True)])
       (JObj [(''organizationId'', JStr ''acme'')]) 0 = Inr subject \<and>
     can (jget subject ''role'') ''deploy:run'' = Inr True \<and>
     \<not> is_ok (authorizeRequest (sample_jwt JNull) sample_request ''deploy:run'' (JObj [(''allowDevHeaders'', JBool True)])
       (JObj [(''organizationId'', JStr ''other'')]) 0)"
proof -
  let ?r = "\<lambda>org. authorizeRequest (sample_jwt JNull) sample_request ''deploy:run''
    (JObj [(''allowDevHeaders'', JBool True)]) (JObj [(''organizationId'', JStr org)]) 0"
  have ok: "?r ''acme'' = Inr (projr (?r ''acme''))" by code_simp
  have "\<not> is_ok (?r ''other'')" by code_simp
  with ok authorize_sound[OF ok] show ?thesis by blast
qed

end
