(* ===== verification/Identity.thy ===== *)
theory Identity
  imports Auth Clock Ids
begin

text \<open>
  \<open>identity.ts\<close>: e-mail and password checks, password hashes, session tokens, account types, the
  sign-up policy and the promotion of the first user. \<open>scrypt\<close> (with \<open>None\<close> where \<open>scryptSync\<close>
  throws) and \<open>localeCompare\<close> are parameters; \<open>penv\<close> is \<open>process.env\<close>.
\<close>

definition plain_char :: "char \<Rightarrow> bool" where
  "plain_char c = (\<not> is_space c \<and> c \<noteq> CHR ''@'')"

definition EMAIL_RE :: rx where
  "EMAIL_RE = RSeqs [RBol, RPlus (RCls plain_char), RChr CHR ''@'', RPlus (RCls plain_char), RChr CHR ''.'',
     RPlus (RCls plain_char), REol]"

definition ACCOUNT_TYPE_ALIASES :: "(string \<times> jsv) list" where
  "ACCOUNT_TYPE_ALIASES = [(''CLUB'', JStr ''CLUB_MEMBER''), (''CLUB_MEMBER'', JStr ''CLUB_MEMBER''),
     (''CLUBMEMBER'', JStr ''CLUB_MEMBER''), (''NON_CLUB'', JStr ''NON_CLUB''), (''NONCLUB'', JStr ''NON_CLUB''),
     (''NON_MEMBER'', JStr ''NON_CLUB''), (''NONMEMBER'', JStr ''NON_CLUB'')]"

definition DEFAULT_SESSION_TTL_SECONDS :: int where
  "DEFAULT_SESSION_TTL_SECONDS = 3600"

definition MAX_SESSION_TTL_SECONDS :: int where
  "MAX_SESSION_TTL_SECONDS = 24 * 60 * 60"

definition normalizeEmail :: "jsv \<Rightarrow> string res" where
  "normalizeEmail email = (let v = str_lower (str_trim (to_str (jor email (JStr [])))) in
     if \<not> rtest EMAIL_RE v then js_throw_status 400 ''valid email is required'' else Inr v)"

definition assertPasswordStrength :: "jsv \<Rightarrow> bool res" where
  "assertPasswordStrength password = (if length (to_str (jor password (JStr []))) < 8
     then js_throw_status 400 ''password must be at least 8 characters'' else Inr True)"

section \<open>Password hashes\<close>

type_synonym kdf = "string \<Rightarrow> string \<Rightarrow> jnum \<Rightarrow> string option"

definition derive :: "kdf \<Rightarrow> string \<Rightarrow> string \<Rightarrow> jnum \<Rightarrow> string res" where
  "derive scrypt password salt cost = (case scrypt password salt cost of
      Some h \<Rightarrow> Inr h | None \<Rightarrow> js_throw ''Invalid scrypt params'')"

definition hashPassword :: "kdf \<Rightarrow> string \<Rightarrow> jsv \<Rightarrow> jsv \<Rightarrow> string res" where
  "hashPassword scrypt randomSalt password options = rbind (assertPasswordStrength password) (\<lambda>_. let
     salt = to_str (jor (jget options ''salt'') (JStr randomSalt));
     cost = to_num (jor (jget options ''cost'') (jint 16384))
   in rbind (derive scrypt (to_str password) salt cost) (\<lambda>h.
     Inr (str_join '':'' [''scrypt'', ''v1'', num_str cost, salt, h])))"

definition verifyPassword :: "kdf \<Rightarrow> jsv \<Rightarrow> jsv \<Rightarrow> bool res" where
  "verifyPassword scrypt password encoded = (let
     ps = str_split CHR '':'' (to_str (jor encoded (JStr [])));
     salt = to_str (jor (part ps 3) (JStr [])); expected = to_str (jor (part ps 4) (JStr []))
   in if part ps 0 \<noteq> JStr ''scrypt'' \<or> part ps 1 \<noteq> JStr ''v1'' \<or> salt = [] \<or> expected = [] then Inr False
      else rbind (derive scrypt (to_str (jor password (JStr []))) salt (to_num (jor (part ps 2) (jint 16384))))
        (\<lambda>actual. Inr (actual = expected)))"

section \<open>Sessions\<close>

definition sessionPayloadForUser :: "jsv \<Rightarrow> jsv list \<Rightarrow> jsv" where
  "sessionPayloadForUser user memberships = (let
     organizationIds = filter truthy (map (\<lambda>m. jget m ''organizationId'') memberships);
     first = (case memberships of [] \<Rightarrow> JUndef | m # _ \<Rightarrow> jget m ''role'')
   in JObj [
     (''sub'', jget user ''id''), (''email'', jget user ''email''),
     (''role'', jor first (JStr ''developer'')),
     (''organizationId'', jor (case organizationIds of [] \<Rightarrow> JUndef | i # _ \<Rightarrow> i) JNull),
     (''organizationIds'', JArr organizationIds),
     (''accountType'', jor (jget user ''accountType'') (JStr ''NON_CLUB'')),
     (''approvalStatus'', jor (jget user ''approvalStatus'') (JStr ''PENDING'')),
     (''userRole'', jor (jget user ''role'') (JStr ''USER''))])"

definition sessionTtlSeconds :: "jsv \<Rightarrow> jsv \<Rightarrow> jnum" where
  "sessionTtlSeconds penv options = (let
     configured = to_num (jor (jget options ''sessionTtlSeconds'') (jor (jget options ''expiresInSeconds'')
       (jor (jget penv ''RAIBITSERVER_SESSION_TTL_SECONDS'') (jint DEFAULT_SESSION_TTL_SECONDS))))
   in if \<not> is_finite configured \<or> num_le configured (Fin 0) then Fin (of_int DEFAULT_SESSION_TTL_SECONDS)
      else num_max (Fin 60) (num_min (num_floor configured) (Fin (of_int MAX_SESSION_TTL_SECONDS))))"

definition createSessionToken ::
  "jwt_lib \<Rightarrow> jsv \<Rightarrow> jsv \<Rightarrow> jsv list \<Rightarrow> jsv \<Rightarrow> jsv \<Rightarrow> string \<Rightarrow> int \<Rightarrow> string res" where
  "createSessionToken L penv user memberships jwtSecret options jti t =
     signJwtHs256 L (sessionPayloadForUser user memberships) jwtSecret
       (JObj [(''expiresInSeconds'', JNum (sessionTtlSeconds penv options)),
              (''issuer'', jor (jget options ''issuer'') (JStr ''raibitserver''))]) jti t"

definition personalOrganizationSlug :: "jsv \<Rightarrow> string" where
  "personalOrganizationSlug email =
     slugify (jor (part (str_split CHR ''@'' (to_str email)) 0) (JStr ''user'')) ''item''"

section \<open>Account types and the sign-up policy\<close>

definition normalizeAccountType :: "jsv \<Rightarrow> jsv \<Rightarrow> jsv res" where
  "normalizeAccountType v fallback0 = (let
     fallback = jdefault fallback0 (JStr ''NON_CLUB'');
     raw = (if v = JUndef \<or> v = JNull \<or> str_trim (to_str v) = [] then fallback else v);
     normalized = rreplace (RPlus (RCls (\<lambda>c. is_space c \<or> c = CHR ''-''))) (\<lambda>_. ''_'')
       (str_upper (str_trim (to_str (jor raw fallback))));
     accountType = table_get ACCOUNT_TYPE_ALIASES normalized
   in if \<not> truthy accountType then js_throw_status 400 ''accountType must be CLUB_MEMBER or NON_CLUB''
      else Inr accountType)"

definition configuredAdminEmails :: "jsv \<Rightarrow> string list" where
  "configuredAdminEmails env = filter (\<lambda>v. v \<noteq> []) (map (\<lambda>v. str_lower (str_trim v))
     (str_split CHR '','' (to_str (jor (jget env ''ADMIN_EMAILS'') (JStr [])))))"

definition signup_policy :: "bool \<Rightarrow> jsv \<Rightarrow> jsv" where
  "signup_policy admin reason = JObj [
     (''isAdminBootstrap'', JBool admin), (''bootstrapReason'', reason),
     (''role'', JStr (if admin then ''ADMIN'' else ''USER'')), (''accountType'', JStr ''NON_CLUB''),
     (''approvalStatus'', JStr (if admin then ''APPROVED'' else ''PENDING''))]"

definition bootstrap_token :: "jsv \<Rightarrow> string" where
  "bootstrap_token input =
     to_str (jor (jget input ''bootstrapToken'') (jor (jget input ''adminBootstrapToken'') (JStr [])))"

definition expected_token :: "jsv \<Rightarrow> string" where
  "expected_token env = to_str (jor (jget env ''RAIBITSERVER_ADMIN_BOOTSTRAP_TOKEN'') (JStr []))"

definition is_admin_email :: "jsv \<Rightarrow> jsv \<Rightarrow> bool" where
  "is_admin_email env email = (str_lower (to_str (jor email (JStr []))) \<in> set (configuredAdminEmails env))"

definition signupPolicyForAccount :: "jsv \<Rightarrow> jsv \<Rightarrow> jsv \<Rightarrow> jsv \<Rightarrow> jsv" where
  "signupPolicyForAccount penv input email options = (let
     env = jor (jget options ''env'') penv;
     production = (jget env ''NODE_ENV'' = JStr ''production'');
     isAdminEmail = is_admin_email env email;
     firstUser = (jget options ''firstUser'' = JBool True)
   in if production then
        (let token = bootstrap_token input; expected = expected_token env;
           tokenOk = (expected \<noteq> [] \<and> token \<noteq> [] \<and> token = expected);
           admin = (tokenOk \<and> isAdminEmail)
         in signup_policy admin (if admin then JStr ''admin-invite-token'' else JNull))
      else if firstUser \<or> isAdminEmail then
        signup_policy True (JStr (if firstUser then ''first-user'' else ''admin-email''))
      else signup_policy False JNull)"

section \<open>Promotion of the first user\<close>

definition sameUser :: "jsv \<Rightarrow> jsv \<Rightarrow> bool" where
  "sameUser a b =
    (if truthy (jget a ''id'') \<and> truthy (jget b ''id'') \<and> to_str (jget a ''id'') = to_str (jget b ''id'') then True
     else truthy (jget a ''email'') \<and> truthy (jget b ''email'') \<and>
       str_lower (to_str (jget a ''email'')) = str_lower (to_str (jget b ''email'')))"

definition creation_time :: "jsv \<Rightarrow> int" where
  "creation_time u = (case date_parse (to_str (jor (jget u ''createdAt'') (JStr []))) of Some t \<Rightarrow> t | None \<Rightarrow> 0)"

definition user_label :: "jsv \<Rightarrow> string" where
  "user_label u = to_str (jor (jget u ''id'') (jor (jget u ''email'') (JStr [])))"

definition compareUsersByCreation :: "(string \<Rightarrow> string \<Rightarrow> int) \<Rightarrow> jsv \<Rightarrow> jsv \<Rightarrow> int" where
  "compareUsersByCreation localeCompare a b =
    (if creation_time a \<noteq> creation_time b then creation_time a - creation_time b
     else localeCompare (user_label a) (user_label b))"

text \<open>The stable \<open>sort\<close> with a comparison function.\<close>

fun insert_by :: "('a \<Rightarrow> 'a \<Rightarrow> int) \<Rightarrow> 'a \<Rightarrow> 'a list \<Rightarrow> 'a list" where
  "insert_by cmp x [] = [x]"
| "insert_by cmp x (y # ys) = (if cmp x y \<le> 0 then x # y # ys else y # insert_by cmp x ys)"

definition sort_by :: "('a \<Rightarrow> 'a \<Rightarrow> int) \<Rightarrow> 'a list \<Rightarrow> 'a list" where
  "sort_by cmp xs = foldr (insert_by cmp) xs []"

definition shouldPromoteFirstLogin :: "(string \<Rightarrow> string \<Rightarrow> int) \<Rightarrow> jsv \<Rightarrow> jsv \<Rightarrow> jsv list \<Rightarrow> bool" where
  "shouldPromoteFirstLogin localeCompare penv user users =
    (if jget penv ''NODE_ENV'' = JStr ''production'' then False
     else if \<not> truthy user \<or> jget user ''role'' = JStr ''ADMIN'' then False
     else (case users of [] \<Rightarrow> False | _ \<Rightarrow>
       (if list_ex (\<lambda>c. jget c ''role'' = JStr ''ADMIN'') users then False
        else (case sort_by (compareUsersByCreation localeCompare) users of
           [] \<Rightarrow> False | first # _ \<Rightarrow> truthy first \<and> sameUser first user))))"

section \<open>Lemmas\<close>

lemma session_ttl_range:
  "\<exists>n :: int. sessionTtlSeconds penv options = Fin (of_int n) \<and> 60 \<le> n \<and> n \<le> MAX_SESSION_TTL_SECONDS"
proof -
  define c where "c = to_num (jor (jget options ''sessionTtlSeconds'') (jor (jget options ''expiresInSeconds'')
       (jor (jget penv ''RAIBITSERVER_SESSION_TTL_SECONDS'') (jint DEFAULT_SESSION_TTL_SECONDS))))"
  have s: "sessionTtlSeconds penv options = (if \<not> is_finite c \<or> num_le c (Fin 0) then Fin 3600
      else num_max (Fin 60) (num_min (num_floor c) (Fin 86400)))"
    by (simp add: sessionTtlSeconds_def Let_def c_def DEFAULT_SESSION_TTL_SECONDS_def MAX_SESSION_TTL_SECONDS_def)
  have default: "Fin 3600 = Fin (rat_of_int 3600) \<and> 60 \<le> (3600::int) \<and> (3600::int) \<le> MAX_SESSION_TTL_SECONDS"
    by (simp add: MAX_SESSION_TTL_SECONDS_def)
  show ?thesis
  proof (cases "\<not> is_finite c \<or> num_le c (Fin 0)")
    case True
    then have "sessionTtlSeconds penv options = Fin 3600" using s by simp
    then show ?thesis using default by metis
  next
    case False
    then obtain q where q: "c = Fin q" by (cases c) (auto simp: is_finite_def)
    have "sessionTtlSeconds penv options = Fin (max 60 (min (of_int \<lfloor>q\<rfloor>) 86400))"
      using s False by (simp add: q num_floor_def)
    also have "max 60 (min (of_int \<lfloor>q\<rfloor>) 86400) = (of_int (max 60 (min \<lfloor>q\<rfloor> 86400)) :: rat)"
      by (simp add: min_def max_def)
    finally show ?thesis
      by (intro exI[of _ "max 60 (min \<lfloor>q\<rfloor> 86400)"]) (simp add: MAX_SESSION_TTL_SECONDS_def)
  qed
qed

lemma strength_ok: "assertPasswordStrength p = Inr b \<Longrightarrow> truthy p"
  by (rule ccontr) (simp add: assertPasswordStrength_def)

lemma split_four:
  assumes "CHR '':'' \<notin> set b" "CHR '':'' \<notin> set c" "CHR '':'' \<notin> set d"
  shows "str_split CHR '':'' (str_join '':'' [''scrypt'', ''v1'', b, c, d]) = [''scrypt'', ''v1'', b, c, d]"
  using assms split_cons_sep[of "CHR '':''" b] split_cons_sep[of "CHR '':''" c] by (simp add: split_no_sep)

text \<open>A stored hash accepts the password it was made from, for the default cost.\<close>

lemma password_roundtrip:
  assumes "hashPassword scrypt randomSalt password options = Inr h" "\<not> truthy (jget options ''cost'')"
    and "CHR '':'' \<notin> set (to_str (jor (jget options ''salt'') (JStr randomSalt)))"
    and "to_str (jor (jget options ''salt'') (JStr randomSalt)) \<noteq> []"
    and "\<And>p s c d. scrypt p s c = Some d \<Longrightarrow> d \<noteq> [] \<and> CHR '':'' \<notin> set d"
  shows "verifyPassword scrypt password (JStr h) = Inr True"
proof -
  define salt where "salt = to_str (jor (jget options ''salt'') (JStr randomSalt))"
  have cost: "to_num (jint 16384) = Fin 16384" "num_str (Fin 16384) = ''16384''" "num_of_str ''16384'' = Fin 16384"
    by code_simp+
  obtain d where d: "scrypt (to_str password) salt (Fin 16384) = Some d"
    and h: "h = str_join '':'' [''scrypt'', ''v1'', ''16384'', salt, d]"
    and p: "\<exists>b. assertPasswordStrength password = Inr b"
    using assms(1,2) cost
    by (auto simp: hashPassword_def Let_def derive_def rbind_Inr_iff salt_def split: option.splits)
  have parts: "str_split CHR '':'' h = [''scrypt'', ''v1'', ''16384'', salt, d]"
    unfolding h using assms(3,5) d by (intro split_four) (auto simp: salt_def)
  have "truthy password" using p strength_ok by blast
  moreover have "d \<noteq> []" using assms(5) d by blast
  ultimately show ?thesis
    using assms(4) d cost
    by (simp add: verifyPassword_def Let_def parts part_def salt_def[symmetric] derive_def to_num_def)
qed

section \<open>Properties\<close>

text \<open>In production a sign-up makes an administrator exactly when it shows the configured, non-empty
  bootstrap token for a configured administrator address; elsewhere exactly for the first user or such
  an address. Every other account is a pending user, and nobody chooses the account type.\<close>

theorem signup_admin_rule:
  "let env = jor (jget options ''env'') penv; policy = signupPolicyForAccount penv input email options in
   (jget policy ''role'' = JStr ''ADMIN'' \<longleftrightarrow>
     (if jget env ''NODE_ENV'' = JStr ''production''
      then expected_token env \<noteq> [] \<and> bootstrap_token input = expected_token env \<and> is_admin_email env email
      else jget options ''firstUser'' = JBool True \<or> is_admin_email env email)) \<and>
   (jget policy ''approvalStatus'' = JStr ''APPROVED'' \<longleftrightarrow> jget policy ''role'' = JStr ''ADMIN'') \<and>
   jget policy ''accountType'' = JStr ''NON_CLUB''"
  by (auto simp: signupPolicyForAccount_def Let_def signup_policy_def)

end
