(* ===== verification/GitHub.thy ===== *)
theory GitHub
  imports Secrets Uri
begin

text \<open>
  \<open>github-integration.ts\<close>: repository names, the summary of an integration, webhook signatures, the plan of
  what a webhook asks for and of what is reported back, and the OAuth log-in plan. SHA-256 and HMAC-SHA256 in
  hexadecimal and the random state are the members of a \<open>github_lib\<close>.
\<close>

record github_lib =
  sha256_hex :: "string \<Rightarrow> string"
  hmac_hex :: "string \<Rightarrow> string \<Rightarrow> string"

section \<open>Repositories\<close>

definition segment_char :: "char \<Rightarrow> bool" where
  "segment_char c = (c \<noteq> CHR ''/'' \<and> \<not> is_space c)"

definition repo_char :: "char \<Rightarrow> bool" where
  "repo_char c = (c \<notin> set ''/#?'' \<and> \<not> is_space c)"

text \<open>The class \<open>.\<close>: anything but a line end.\<close>

definition no_line_end :: "char \<Rightarrow> bool" where
  "no_line_end c = (code_of c \<noteq> 10 \<and> code_of c \<noteq> 13)"

definition GITHUB_HTTPS_RE :: rx where
  "GITHUB_HTTPS_RE = RSeqs [RBol, RLitI ''https://github.com/'', RGrp 1 (RPlus (RCls segment_char)), RLit ''/'',
     RGrp 2 (RLazyPlus (RCls repo_char)), ROpt (RLitI ''.git''),
     ROpt (RSeq (ROneOf ''?#'') (RStar (RCls no_line_end))), REol]"

definition GITHUB_SSH_RE :: rx where
  "GITHUB_SSH_RE = RSeqs [RBol, RLitI ''git@github.com:'', RGrp 1 (RPlus (RCls segment_char)), RLit ''/'',
     RGrp 2 (RLazyPlus (RCls repo_char)), ROpt (RLitI ''.git''), REol]"

definition GITHUB_SLUG_RE :: rx where
  "GITHUB_SLUG_RE = RSeqs [RBol, RGrp 1 (RPlus (RCls segment_char)), RLit ''/'',
     RGrp 2 (RPlus (RCls segment_char)), REol]"

definition GIT_SUFFIX_RE :: rx where
  "GIT_SUFFIX_RE = RSeq (RLitI ''.git'') REol"

definition repository :: "string \<Rightarrow> string \<Rightarrow> jsv" where
  "repository owner repo = JObj [(''owner'', JStr owner), (''repo'', JStr repo),
     (''fullName'', JStr (owner @ ''/'' @ repo)),
     (''repoUrl'', JStr (''https://github.com/'' @ owner @ ''/'' @ repo @ ''.git''))]"

definition repository_text :: "jsv \<Rightarrow> jsv res" where
  "repository_text input = (if is_jstr input then Inr input
     else rbind (jread input ''repoUrl'') (\<lambda>url. Inr (jor url (jor (jget input ''repositoryUrl'')
       (JStr (to_str (jget input ''owner'') @ ''/'' @ to_str (jget input ''repo'')))))))"

definition first_match :: "rx list \<Rightarrow> string \<Rightarrow> (nat \<times> string) list option" where
  "first_match rs s = foldr (\<lambda>r rest. case rexec r s of Some g \<Rightarrow> Some g | None \<Rightarrow> rest) rs None"

definition parseGitHubRepository :: "jsv \<Rightarrow> jsv res" where
  "parseGitHubRepository input = rbind (repository_text input) (\<lambda>v. let text = str_trim (to_str (jor v (JStr []))) in
     case first_match [GITHUB_HTTPS_RE, GITHUB_SSH_RE, GITHUB_SLUG_RE] text of
       None \<Rightarrow> js_throw_status 400 (''unsupported GitHub repository: '' @ text)
     | Some g \<Rightarrow> Inr (repository (rgroup g 1) (rreplace1 GIT_SUFFIX_RE (\<lambda>_. []) (rgroup g 2))))"

section \<open>Integrations\<close>

definition githubTokenFingerprint :: "github_lib \<Rightarrow> jsv \<Rightarrow> string" where
  "githubTokenFingerprint L token = str_prefix 16 (sha256_hex L (to_str (jor token (JStr []))))"

definition githubIntegrationSummary :: "github_lib \<Rightarrow> jsv \<Rightarrow> jsv" where
  "githubIntegrationSummary L input = (let token = jget input ''token'' in JObj [
     (''provider'', JStr ''github''),
     (''accountLogin'', jor (jget input ''accountLogin'') (jor (jget input ''owner'') JNull)),
     (''installationId'', jor (jget input ''installationId'') JNull),
     (''tokenPreview'', if truthy token then maskSecretValue token else jor (jget input ''tokenPreview'') JNull),
     (''tokenFingerprint'', if truthy token then JStr (githubTokenFingerprint L token)
        else jor (jget input ''tokenFingerprint'') JNull),
     (''scopes'', jor (jget input ''scopes'') (JArr [JStr ''repo:read'']))])"

definition githubCloneOptionsFromIntegration :: "jsv \<Rightarrow> jsv \<Rightarrow> jsv \<Rightarrow> jsv res" where
  "githubCloneOptionsFromIntegration integration repo options = rbind (parseGitHubRepository repo) (\<lambda>r.
     Inr (JObj [
       (''repoUrl'', jget r ''repoUrl''),
       (''branch'', jor (jget options ''branch'') (jor (jget integration ''defaultBranch'') (JStr ''main''))),
       (''token'', jor (jget options ''token'') (jor (jget integration ''token'') JUndef)),
       (''redactedToken'', jor (jget integration ''tokenPreview'')
          (if truthy (jget integration ''token'') then maskSecretValue (jget integration ''token'') else JNull))]))"

section \<open>Webhooks\<close>

text \<open>The comparison of the two buffers is that of the texts.\<close>

definition verifyGitHubWebhookSignature :: "github_lib \<Rightarrow> string \<Rightarrow> jsv \<Rightarrow> jsv \<Rightarrow> bool" where
  "verifyGitHubWebhookSignature L body header secret = (if \<not> truthy secret then False
     else to_str (jor header (JStr [])) = ''sha256='' @ hmac_hex L (to_str secret) body)"

definition webhookRepository :: "jsv \<Rightarrow> jsv res" where
  "webhookRepository payload = (let
     repo = jget payload ''repository''; owner = jget (jget repo ''owner'') ''login''; name = jget repo ''name'';
     fullName = jor (jget repo ''full_name'') (jor (jget repo ''fullName'') (jget repo ''nameWithOwner''))
   in if truthy fullName then rbind (parseGitHubRepository (JStr (to_str fullName))) (\<lambda>r. Inr (jget r ''fullName''))
      else if truthy owner \<and> truthy name
        then rbind (parseGitHubRepository (JStr (to_str owner @ ''/'' @ to_str name))) (\<lambda>r. Inr (jget r ''fullName''))
      else Inr (JStr []))"

definition action_plan :: "string \<Rightarrow> jsv \<Rightarrow> string \<Rightarrow> jsv \<Rightarrow> jsv \<Rightarrow> jsv \<Rightarrow> (string \<times> jsv) list \<Rightarrow> jsv" where
  "action_plan kind event action repo branch commitSha number = JObj ([(''kind'', JStr kind), (''event'', event),
     (''action'', JStr action), (''repository'', repo), (''branch'', branch), (''commitSha'', commitSha)] @ number)"

definition push_branch :: "jsv \<Rightarrow> jsv" where
  "push_branch payload = jor (JStr (rreplace1 (RSeq RBol (RLit ''refs/heads/'')) (\<lambda>_. [])
       (to_str (jor (jget payload ''ref'') (JStr [])))))
     (jor (jget (jget payload ''repository'') ''default_branch'') (JStr ''main''))"

definition pull_number :: "jsv \<Rightarrow> jsv \<Rightarrow> (string \<times> jsv) list" where
  "pull_number payload pr = [(''pullRequestNumber'',
     JNum (to_num (jor (jget payload ''number'') (jor (jget pr ''number'') (jint 0)))))]"

definition githubWebhookActionPlan :: "jsv \<Rightarrow> jsv \<Rightarrow> jsv res" where
  "githubWebhookActionPlan event payload0 = (let payload = jdefault payload0 (JObj []) in
     rbind (if truthy event then Inr event else rbind (jread payload ''event'') (\<lambda>e. Inr (jor e (JStr [])))) (\<lambda>ev.
     rbind (jread payload ''action'') (\<lambda>act. let
       eventName = str_lower (to_str ev);
       action = str_lower (to_str (jor act (JStr (if eventName = ''push'' then ''push'' else []))));
       pr = jor (jget payload ''pull_request'') (JObj []);
       branch = jor (jget (jget pr ''head'') ''ref'') (jor (jget payload ''branch'') (JStr ''preview''));
       sha = jget (jget pr ''head'') ''sha''
     in rbind (webhookRepository payload) (\<lambda>repo.
       Inr (if eventName = ''push'' then action_plan ''production-deploy'' (JStr eventName) ''push'' repo (push_branch payload)
              (jor (jget payload ''after'') (jor (jget (jget payload ''head_commit'') ''id'') JNull)) []
            else if eventName = ''pull_request'' \<and> action \<in> {''opened'', ''synchronize'', ''reopened''}
            then action_plan ''preview-deploy'' (JStr eventName) action repo branch
              (jor sha (jor (jget payload ''after'') JNull)) (pull_number payload pr)
            else if eventName = ''pull_request'' \<and> action = ''closed''
            then action_plan ''preview-cleanup'' (JStr eventName) action repo branch (jor sha JNull) (pull_number payload pr)
            else action_plan ''ignored'' (jor (JStr eventName) (JStr ''unknown'')) action repo JNull JNull
              [(''pullRequestNumber'', JNull)])))))"

definition preview_of :: "jsv list \<Rightarrow> jsv" where
  "preview_of actions = (case find (\<lambda>a. truthy (jget a ''previewUrl'')) actions of
      Some a \<Rightarrow> jor (jget a ''previewUrl'') JNull | None \<Rightarrow> JNull)"

definition comment_body :: "jsv list \<Rightarrow> jsv \<Rightarrow> string" where
  "comment_body actions previewUrl = (if actions \<noteq> []
     then ''RAIBITSERVER queued '' @ str_join '', '' (to_str_items (map (\<lambda>a. jget a ''type'') actions)) @ ''.'' @
       (if truthy previewUrl then '' Preview: '' @ to_str previewUrl else [])
     else ''RAIBITSERVER found no attached service for this repository.'')"

definition githubWebhookOutboundPlan :: "jsv \<Rightarrow> jsv list \<Rightarrow> jsv" where
  "githubWebhookOutboundPlan actionPlan actions = (let
     queued = (actions \<noteq> []); previewUrl = preview_of actions;
     cleanup = (jget actionPlan ''kind'' = JStr ''preview-cleanup'');
     description = JStr (if queued then nat_str (length actions) @ '' RAIBITSERVER workflow action(s) queued''
       else ''No RAIBITSERVER service is attached to this repository'')
   in JObj [
     (''commitStatus'', JObj [(''state'', JStr (if queued then ''pending'' else ''success'')),
        (''context'', JStr (if cleanup then ''raibitserver/preview-cleanup'' else ''raibitserver/deploy'')),
        (''description'', description), (''targetUrl'', previewUrl)]),
     (''checkRun'', JObj [
        (''name'', JStr (if cleanup then ''RAIBITSERVER preview cleanup'' else ''RAIBITSERVER deployment'')),
        (''status'', JStr (if queued then ''queued'' else ''completed'')),
        (''conclusion'', if queued then JNull else JStr ''neutral''),
        (''output'', JObj [(''title'', JStr ''RAIBITSERVER''), (''summary'', description)])]),
     (''pullRequestComment'', if truthy (jget actionPlan ''pullRequestNumber'')
        then JObj [(''pullRequestNumber'', jget actionPlan ''pullRequestNumber''),
          (''body'', JStr (comment_body actions previewUrl))]
        else JNull)])"

section \<open>Logging in\<close>

definition githubOAuthLoginPlan :: "jsv \<Rightarrow> string \<Rightarrow> jsv \<Rightarrow> jsv" where
  "githubOAuthLoginPlan penv random options = (let
     clientId = jor (jget options ''clientId'') (jor (jget penv ''GITHUB_CLIENT_ID'')
       (jor (jget penv ''RAIBITSERVER_GITHUB_CLIENT_ID'') (JStr [])));
     redirectUri = jor (jget options ''redirectUri'') (jor (jget penv ''RAIBITSERVER_GITHUB_REDIRECT_URI'') (JStr []));
     state = jor (jget options ''state'') (JStr random);
     scope = jor (jget options ''scope'') (JStr ''read:user user:email'');
     configured = (truthy clientId \<and> truthy redirectUri);
     part = (\<lambda>k v. k @ ''='' @ encodeURIComponent (to_str v))
   in JObj [
     (''provider'', JStr ''github''), (''configured'', JBool configured),
     (''oauthUrl'', if configured then JStr (''https://github.com/login/oauth/authorize?'' @ str_join ''&''
        [part ''client_id'' clientId, part ''redirect_uri'' redirectUri, part ''scope'' scope, part ''state'' state])
        else JNull),
     (''state'', state), (''mode'', JStr (if configured then ''redirect'' else ''configuration-required''))])"

definition deterministicGitHubCallbackAllowed :: "jsv \<Rightarrow> jsv \<Rightarrow> bool" where
  "deterministicGitHubCallbackAllowed input env =
    (if jget env ''RAIBITSERVER_GITHUB_OAUTH_LOCAL_CALLBACK'' = JStr ''1'' then True
     else if jget env ''NODE_ENV'' = JStr ''production'' then False
     else jget input ''localDev'' = JStr ''1'' \<or> jget input ''mode'' = JStr ''deterministic-local-callback'' \<or>
       truthy (jget input ''email'') \<or> truthy (jget input ''githubEmail'') \<or> truthy (jget input ''userEmail''))"

section \<open>Plain repository names\<close>

definition name_char :: "char \<Rightarrow> bool" where
  "name_char c = (is_word c \<or> c \<in> set ''-.'')"

definition plain_name :: "string \<Rightarrow> bool" where
  "plain_name s = (s \<noteq> [] \<and> list_all name_char s)"

lemma name_char_classes: "name_char c \<Longrightarrow> repo_char c \<and> segment_char c \<and> \<not> is_space c \<and> c \<notin> set ''/#?:@''"
  by (auto simp: name_char_def repo_char_def segment_char_def is_space_def is_word_def is_upper_def is_lower_def
    is_digit_def code_of_def)

lemma name_chars: "list_all name_char s \<Longrightarrow> list_all repo_char s \<and> list_all segment_char s"
  by (simp add: list_all_iff name_char_classes)

definition after_name :: "rx list \<Rightarrow> bool" where
  "after_name rs = (\<forall>p q g. list_all name_char q \<longrightarrow> rmatch (RSeqs rs) (p, q, g) = (if q = [] then [(p, q, g)] else []))"

lemma after_eol: "after_name [REol]"
  by (simp add: after_name_def RSeqs_def)

lemma after_query: "after_name [ROpt (RSeq (ROneOf ''?#'') (RStar (RCls no_line_end))), REol]"
proof -
  have "rmatch (ROneOf ''?#'') (p, q, g) = []" if "list_all name_char q" for p q g
    using that name_char_classes by (cases q) (auto simp: ROneOf_def)
  then show ?thesis by (simp add: after_name_def RSeqs_def ROpt_def)
qed

lemma after_suffix:
  assumes "after_name rs" "list_all name_char q"
  shows "rmatch (RSeqs (ROpt (RLitI ''.git'') # rs)) (p, q, g) =
    (if q = [] \<or> str_lower q = ''.git'' then [(rev q @ p, [], g)] else [])"
proof -
  have low: "str_lower ''.git'' = ''.git''" by code_simp
  have "list_all name_char (drop 4 q)" using assms(2) by (auto simp: list_all_iff dest: in_set_dropD)
  then have rest: "rmatch (RSeqs rs) (x, drop 4 q, g) = (if drop 4 q = [] then [(x, [], g)] else [])" for x
    using assms(1) by (simp add: after_name_def)
  have whole: "prefix ''.git'' (str_lower q) \<and> drop 4 q = [] \<longleftrightarrow> str_lower q = ''.git''"
  proof
    assume l: "prefix ''.git'' (str_lower q) \<and> drop 4 q = []"
    then obtain z where z: "str_lower q = ''.git'' @ z" by (auto simp: prefix_def)
    then have "length (''.git'' @ z) \<le> 4" using l by (metis drop_eq_Nil length_str_lower)
    with z show "str_lower q = ''.git''" by simp
  next
    assume l: "str_lower q = ''.git''"
    then have "length (str_lower q) = length ''.git''" by (rule arg_cong)
    then have "length q = 4" by simp
    with l show "prefix ''.git'' (str_lower q) \<and> drop 4 q = []" by simp
  qed
  have lit: "rmatch (RLitI ''.git'') (p, q, g) =
      (if prefix ''.git'' (str_lower q) then [(rev (take 4 q) @ p, drop 4 q, g)] else [])"
  proof -
    have "length ''.git'' = 4" by simp
    then show ?thesis using rmatch_litI[of "''.git''" p q g] unfolding low by metis
  qed
  have "rmatch (RSeqs (ROpt (RLitI ''.git'') # rs)) (p, q, g) =
      concat (map (rmatch (RSeqs rs)) (rmatch (RLitI ''.git'') (p, q, g))) @ rmatch (RSeqs rs) (p, q, g)"
    by (simp add: RSeqs_def ROpt_def)
  also have "\<dots> = (if str_lower q = ''.git'' then [(rev q @ p, [], g)] else []) @ (if q = [] then [(p, q, g)] else [])"
  proof -
    have "rmatch (RSeqs rs) (p, q, g) = (if q = [] then [(p, q, g)] else [])"
      using assms by (simp add: after_name_def)
    moreover have "concat (map (rmatch (RSeqs rs)) (rmatch (RLitI ''.git'') (p, q, g))) =
        (if str_lower q = ''.git'' then [(rev q @ p, [], g)] else [])"
      unfolding lit whole[symmetric] using rest by auto
    ultimately show ?thesis by (simp only:)
  qed
  also have "\<dots> = (if q = [] \<or> str_lower q = ''.git'' then [(rev q @ p, [], g)] else [])"
    by (cases "q = []") (auto simp: str_lower_def)
  finally show ?thesis .
qed


text \<open>A name that does not end in \<open>.git\<close>, and the tail of both expressions that take it.\<close>

definition repo_name :: "string \<Rightarrow> bool" where
  "repo_name r = (plain_name r \<and> \<not> suffix ''.git'' (str_lower r))"

lemma name_tail:
  assumes "after_name rs" "repo_name r" "s = r \<or> s = r @ ''.git''"
  shows "\<exists>z ms. rmatch (RSeq (RGrp 2 (RLazyPlus (RCls repo_char))) (RSeqs (ROpt (RLitI ''.git'') # rs))) (p, s, g) =
    (z, [], (2, r) # g) # ms"
proof -
  have git: "list_all name_char ''.git''" "str_lower ''.git'' = ''.git''" by code_simp+
  have r: "r \<noteq> []" "list_all name_char r" "\<not> suffix ''.git'' (str_lower r)"
    using assms(2) by (auto simp: repo_name_def plain_name_def)
  have s: "list_all name_char s" using assms(3) r(2) git(1) by auto
  have len: "length r \<le> length s" "take (length r) s = r" using assms(3) by auto
  have drop: "list_all name_char (drop j s)" for j using s by (auto simp: list_all_iff dest: in_set_dropD)
  have here: "drop (length r) s = [] \<or> str_lower (drop (length r) s) = ''.git''"
    using assms(3) git(2) by auto
  have early: "drop j s \<noteq> [] \<and> str_lower (drop j s) \<noteq> ''.git''" if "j < length r" for j
  proof
    show "drop j s \<noteq> []" using that len(1) by simp
    show "str_lower (drop j s) \<noteq> ''.git''"
    proof
      assume l: "str_lower (drop j s) = ''.git''"
      then have "length (str_lower (drop j s)) = length ''.git''" by (rule arg_cong)
      then have n: "length s - j = length ''.git''" by simp
      from assms(3) show False
      proof
        assume "s = r"
        then have "str_lower r = str_lower (take j s) @ ''.git''"
          using l by (metis append_take_drop_id str_lower_append)
        then show False using r(3) by (metis suffixI)
      next
        assume "s = r @ ''.git''"
        then show False using n that by simp
      qed
    qed
  qed
  have "\<exists>ms. rmatch (RSeq (RGrp 2 (RLazyPlus (RCls repo_char))) (RSeqs (ROpt (RLitI ''.git'') # rs))) (p, s, g) =
      (rev (drop (length r) s) @ rev (take (length r) s) @ p, [], (2, take (length r) s) # g) # ms"
  proof (rule rmatch_lazy_group[where i = "length r" and ys = "[]"])
    show "list_all repo_char s" using name_chars[OF s] by simp
    show "1 \<le> length r" "length r \<le> length s" using r(1) len(1) by (cases r; simp)+
    show "\<forall>j. 1 \<le> j \<longrightarrow> j < length r \<longrightarrow> rmatch (RSeqs (ROpt (RLitI ''.git'') # rs))
        (rev (take j s) @ p, drop j s, (2, take j s) # g) = []"
      using early by (simp only: after_suffix[OF assms(1) drop]) simp
    show "rmatch (RSeqs (ROpt (RLitI ''.git'') # rs))
        (rev (take (length r) s) @ p, drop (length r) s, (2, take (length r) s) # g) =
      (rev (drop (length r) s) @ rev (take (length r) s) @ p, [], (2, take (length r) s) # g) # []"
      using here by (simp only: after_suffix[OF assms(1) drop] if_True)
  qed
  then show ?thesis unfolding len(2) by blast
qed

definition host_re :: "string \<Rightarrow> rx list \<Rightarrow> rx" where
  "host_re h rs = RSeqs ([RBol, RLitI h, RGrp 1 (RPlus (RCls segment_char)), RLit ''/'',
     RGrp 2 (RLazyPlus (RCls repo_char)), ROpt (RLitI ''.git'')] @ rs)"

lemma host_match:
  assumes "after_name rs" "plain_name owner" "repo_name r" "s = r \<or> s = r @ ''.git''"
  shows "\<exists>x. rexec (host_re h rs) (h @ owner @ ''/'' @ s) = Some [(0, x), (2, r), (1, owner)]"
proof -
  let ?T = "RSeq (RGrp 2 (RLazyPlus (RCls repo_char))) (RSeqs (ROpt (RLitI ''.git'') # rs))"
  have o: "list_all segment_char owner" "owner \<noteq> []" "\<not> segment_char CHR ''/''"
    using assms(2) name_chars by (auto simp: plain_name_def segment_char_def)
  have shape: "host_re h rs = RSeq RBol (RSeq (RLitI h) (RSeq (RGrp 1 (RPlus (RCls segment_char))) (RSeq (RLit ''/'') ?T)))"
    by (simp add: host_re_def RSeqs_def)
  obtain z ms where m: "rmatch ?T (CHR ''/'' # rev owner @ rev h, s, [(1, owner)]) = (z, [], [(2, r), (1, owner)]) # ms"
    using name_tail[OF assms(1,3,4)] by blast
  have "rmatch (RLitI h) ([], h @ owner @ ''/'' @ s, []) = [(rev h @ [], owner @ CHR ''/'' # s, [])]"
    by (simp add: rmatch_litI str_lower_append)
  then have "rmatch (RSeq RBol (RSeq (RLitI h) (RSeq (RGrp 1 (RPlus (RCls segment_char))) (RSeq (RLit ''/'') ?T))))
      ([], h @ owner @ ''/'' @ s, []) =
    rmatch (RSeq (RGrp 1 (RPlus (RCls segment_char))) (RSeq (RLit ''/'') ?T)) (rev h @ [], owner @ CHR ''/'' # s, [])"
    by (simp del: rmatch.simps(3) add: rmatch.simps(3)[of RBol] rmatch.simps(3)[of "RLitI h"])
  also have "\<dots> = (z, [], [(2, r), (1, owner)]) # ms" by (simp only: append_Nil2 rmatch_group_until[OF o] m)
  finally show ?thesis unfolding shape by (intro exI, rule rexec_bol(1))
qed

lemma host_miss: "\<not> prefix (str_lower h) (str_lower s) \<Longrightarrow> rexec (host_re h rs) s = None"
  unfolding host_re_def RSeqs_def append_Cons foldr.simps o_apply
  by (rule rexec_bol(2)) (simp add: rmatch_litI)


lemma slug_match:
  assumes "plain_name owner" "plain_name r"
  shows "\<exists>x. rexec GITHUB_SLUG_RE (owner @ ''/'' @ r) = Some [(0, x), (2, r), (1, owner)]"
proof -
  let ?N = "RGrp 2 (RPlus (RCls segment_char))"
  have o: "list_all segment_char owner" "owner \<noteq> []" "\<not> segment_char CHR ''/''" and
    r: "list_all segment_char r" "r \<noteq> []"
    using assms name_chars by (auto simp: plain_name_def segment_char_def)
  obtain c w where w: "r = c # w" using r(2) by (cases r) auto
  have "rmatch (RPlus (RCls segment_char)) (p, r, g) = rmatch (RStar (RCls segment_char)) (c # p, w @ [], g)" for p g
    using r(1) by (simp add: rmatch_plus_cls w)
  also have "\<And>p g. rmatch (RStar (RCls segment_char)) (c # p, w @ [], g) = (rev w @ c # p, [], g) #
      rev (map (\<lambda>i. (rev (take i w) @ c # p, drop i w @ [], g)) [0..<length w])"
    using r(1) by (subst rmatch_star_cls_list) (simp_all add: w)
  finally have "\<exists>ms. rmatch (RSeq ?N (RSeq REol REps)) (p, r, g) = (rev r @ p, [], (2, r) # g) # ms" for p g
    by (simp add: w)
  then obtain ms where m: "rmatch (RSeq ?N (RSeq REol REps)) (CHR ''/'' # rev owner, r, [(1, owner)]) =
      (rev r @ CHR ''/'' # rev owner, [], [(2, r), (1, owner)]) # ms" by blast
  have shape: "GITHUB_SLUG_RE = RSeq RBol (RSeq (RGrp 1 (RPlus (RCls segment_char))) (RSeq (RLit ''/'') (RSeq ?N (RSeq REol REps))))"
    by (simp add: GITHUB_SLUG_RE_def RSeqs_def)
  have "rmatch GITHUB_SLUG_RE ([], owner @ ''/'' @ r, []) =
      rmatch (RSeq (RGrp 1 (RPlus (RCls segment_char))) (RSeq (RLit ''/'') (RSeq ?N (RSeq REol REps)))) ([], owner @ CHR ''/'' # r, [])"
    unfolding shape by (simp del: rmatch.simps(3) add: rmatch.simps(3)[of RBol])
  also have "\<dots> = (rev r @ CHR ''/'' # rev owner, [], [(2, r), (1, owner)]) # ms"
    by (simp only: rmatch_group_until[OF o] append_Nil2 m)
  finally show ?thesis unfolding shape by (intro exI, rule rexec_bol(1))
qed

lemma strip_suffix_id: "repo_name r \<Longrightarrow> rreplace1 GIT_SUFFIX_RE (\<lambda>_. []) r = r"
proof -
  assume r: "repo_name r"
  have low: "str_lower ''.git'' = ''.git''" by code_simp
  have "rmatch GIT_SUFFIX_RE (rev u @ [], v, []) = []" if "r = u @ v" for u v
  proof (rule ccontr)
    assume "rmatch GIT_SUFFIX_RE (rev u @ [], v, []) \<noteq> []"
    then have "prefix ''.git'' (str_lower v)" "drop (length ''.git'') v = []"
      unfolding GIT_SUFFIX_RE_def rmatch_seq_iff rmatch_litI low by (auto split: if_splits)
    then have "str_lower v = ''.git''"
      by (metis append_Nil2 append_eq_conv_conj drop_eq_Nil length_str_lower prefix_def take_all)
    then have "str_lower r = str_lower u @ ''.git''" by (simp only: that str_lower_append)
    then show False using r unfolding repo_name_def by (metis suffixI)
  qed
  then have "rsearch GIT_SUFFIX_RE [] r = None" unfolding rsearch_None_iff by blast
  then show ?thesis by (simp add: rreplace1_def)
qed

lemma https_re: "GITHUB_HTTPS_RE = host_re ''https://github.com/'' [ROpt (RSeq (ROneOf ''?#'') (RStar (RCls no_line_end))), REol]"
  and ssh_re: "GITHUB_SSH_RE = host_re ''git@github.com:'' [REol]"
  unfolding GITHUB_HTTPS_RE_def GITHUB_SSH_RE_def host_re_def append.simps by (rule refl)+

lemma trim_plain: "\<forall>c \<in> set s. \<not> is_space c \<Longrightarrow> str_trim s = s"
proof -
  have d: "dropWhile is_space t = t" if "\<forall>c \<in> set t. \<not> is_space c" for t
    using that by (cases t) auto
  assume "\<forall>c \<in> set s. \<not> is_space c"
  then show ?thesis unfolding str_trim_def by (simp add: d)
qed

lemma host_spaces: "\<forall>c \<in> set ''https://github.com/.git@:''. \<not> is_space c"
  by code_simp

lemma plain_spaces: "plain_name s \<Longrightarrow> \<forall>c \<in> set s. \<not> is_space c"
  using name_char_classes by (auto simp: plain_name_def list_all_iff)


lemma parse_text:
  assumes "first_match [GITHUB_HTTPS_RE, GITHUB_SSH_RE, GITHUB_SLUG_RE] s = Some [(0, x), (2, r), (1, owner)]"
    "repo_name r" "\<forall>c \<in> set s. \<not> is_space c"
  shows "parseGitHubRepository (JStr s) = Inr (repository owner r)"
proof -
  have "to_str (jor (JStr s) (JStr [])) = s" by simp
  moreover have "is_jstr (JStr s)" by (simp add: is_jstr_def)
  ultimately show ?thesis
    unfolding parseGitHubRepository_def repository_text_def Let_def
    by (simp only: if_True rbind_simps trim_plain[OF assms(3)] assms(1) option.case)
      (simp add: rgroup_def strip_suffix_id[OF assms(2)])
qed

lemma first_match_step:
  "rexec a s = Some g \<Longrightarrow> first_match (a # rs) s = Some g"
  "rexec a s = None \<Longrightarrow> first_match (a # rs) s = first_match rs s"
  by (simp_all add: first_match_def)

section \<open>Properties\<close>

text \<open>C36: A repository with plain owner and name (letters, digits, \<open>_\<close>, \<open>-\<close>, \<open>.\<close>; the name not ending in
  \<open>.git\<close>) is the same one whether it is given as \<open>owner/name\<close>, as an https or ssh address with or without
  \<open>.git\<close>, or as an object; and parsing the address it normalises to gives it back.\<close>

theorem repository_notations:
  assumes "plain_name owner" "repo_name name"
    and "input \<in> {JStr (owner @ ''/'' @ name), JStr (''https://github.com/'' @ owner @ ''/'' @ name),
      JStr (''https://github.com/'' @ owner @ ''/'' @ name @ ''.git''), JStr (''git@github.com:'' @ owner @ ''/'' @ name),
      JStr (''git@github.com:'' @ owner @ ''/'' @ name @ ''.git''),
      JObj [(''owner'', JStr owner), (''repo'', JStr name)], repository owner name}"
  shows "parseGitHubRepository input = Inr (repository owner name)"
proof -
  have names: "plain_name name" using assms(2) by (simp add: repo_name_def)
  have sp: "\<forall>c \<in> set owner \<union> set name. \<not> is_space c" using plain_spaces[OF assms(1)] plain_spaces[OF names] by blast
  have colon: "CHR '':'' \<notin> set (owner @ ''/'' @ name)"
    using assms(1) names name_char_classes by (fastforce simp: plain_name_def list_all_iff)
  have slug: "parseGitHubRepository (JStr (owner @ ''/'' @ name)) = Inr (repository owner name)"
  proof -
    have miss: "rexec (host_re h rs) (owner @ ''/'' @ name) = None" if "CHR '':'' \<in> set h" for h rs
    proof (rule host_miss, rule notI)
      assume "prefix (str_lower h) (str_lower (owner @ ''/'' @ name))"
      moreover have "lower_char CHR '':'' = CHR '':''" by code_simp
      then have "CHR '':'' \<in> set (str_lower h)" using that by (force simp: str_lower_def)
      ultimately have "CHR '':'' \<in> set (str_lower (owner @ ''/'' @ name))" by (meson set_mono_prefix subsetD)
      then obtain c where c: "c \<in> set (owner @ ''/'' @ name)" "lower_char c = CHR '':''"
        unfolding str_lower_def by force
      have "\<not> is_lower CHR '':''" by code_simp
      then have "c = CHR '':''" using lower_char_eq[OF c(2)] by blast
      then show False using c(1) colon by blast
    qed
    obtain x where x: "rexec GITHUB_SLUG_RE (owner @ ''/'' @ name) = Some [(0, x), (2, name), (1, owner)]"
      using slug_match[OF assms(1) names] by blast
    have "first_match [GITHUB_HTTPS_RE, GITHUB_SSH_RE, GITHUB_SLUG_RE] (owner @ ''/'' @ name) =
        Some [(0, x), (2, name), (1, owner)]"
      unfolding https_re ssh_re by (simp only: first_match_step(2)[OF miss] first_match_step(1)[OF x] list.set insert_iff simp_thms)
    then show ?thesis by (rule parse_text[OF _ assms(2)]) (use sp host_spaces in auto)
  qed
  have https: "parseGitHubRepository (JStr (''https://github.com/'' @ owner @ ''/'' @ s)) = Inr (repository owner name)"
    if s: "s = name \<or> s = name @ ''.git''" for s
  proof -
    obtain x where x: "rexec GITHUB_HTTPS_RE (''https://github.com/'' @ owner @ ''/'' @ s) = Some [(0, x), (2, name), (1, owner)]"
      using host_match[OF after_query assms(1,2) s] unfolding https_re by blast
    show ?thesis
      by (rule parse_text[OF first_match_step(1)[OF x] assms(2)]) (use s sp host_spaces in auto)
  qed
  have ssh: "parseGitHubRepository (JStr (''git@github.com:'' @ owner @ ''/'' @ s)) = Inr (repository owner name)"
    if s: "s = name \<or> s = name @ ''.git''" for s
  proof -
    obtain x where x: "rexec GITHUB_SSH_RE (''git@github.com:'' @ owner @ ''/'' @ s) = Some [(0, x), (2, name), (1, owner)]"
      using host_match[OF after_eol assms(1,2) s] unfolding ssh_re by blast
    have "rexec GITHUB_HTTPS_RE (''git@github.com:'' @ owner @ ''/'' @ s) = None"
      unfolding https_re by (rule host_miss) (simp add: str_lower_def lower_char_def is_upper_def code_of_def)
    note miss = first_match_step(2)[OF this, of "[GITHUB_SSH_RE, GITHUB_SLUG_RE]"]
    show ?thesis
      by (rule parse_text[OF miss[unfolded first_match_step(1)[OF x]] assms(2)]) (use s sp host_spaces in auto)
  qed
  have object: "repository_text (JObj [(''owner'', JStr owner), (''repo'', JStr name)]) =
      repository_text (JStr (owner @ ''/'' @ name))"
    "repository_text (repository owner name) = repository_text (JStr (''https://github.com/'' @ owner @ ''/'' @ name @ ''.git''))"
    by (simp_all add: repository_text_def is_jstr_def jread_def is_nullish_def repository_def)
  show ?thesis
    using assms(3) slug https ssh object
    by (elim insertE emptyE) (simp_all only: parseGitHubRepository_def simp_thms)
qed

theorem repository_notations_witness:
  "parseGitHubRepository (JStr ''git@github.com:acme/web.app.git'') = Inr (repository ''acme'' ''web.app'') \<and>
   parseGitHubRepository (JObj [(''owner'', JStr ''acme''), (''repo'', JStr ''web.app'')]) = Inr (repository ''acme'' ''web.app'')"
proof -
  have names: "plain_name ''acme''" "repo_name ''web.app''" by code_simp+
  have "JStr ''git@github.com:acme/web.app.git'' = JStr (''git@github.com:'' @ ''acme'' @ ''/'' @ ''web.app'' @ ''.git'')"
    by simp
  then show ?thesis
    using repository_notations[OF names, of "JStr (''git@github.com:'' @ ''acme'' @ ''/'' @ ''web.app'' @ ''.git'')"]
      repository_notations[OF names, of "JObj [(''owner'', JStr ''acme''), (''repo'', JStr ''web.app'')]"]
    by (simp only: insert_iff simp_thms)
qed

end
