(* ===== verification/Store.thy ===== *)
theory Store
  imports StoreHelpers Security Identity GitHub
begin

text \<open>
  The control plane store of \<open>store.ts\<close>: its state, the audit trail, and the operations on
  organizations, users, members, projects and services. A \<open>Map\<close> is a list of keys and rows in
  insertion order. An operation maps a state to a result and the next state, which it keeps when it
  throws. What it takes from its surroundings is a \<open>world\<close>: the instant of \<open>Date.now()\<close> (one per
  operation), the cipher, \<open>process.env\<close>, the working directory, the random draws (the \<open>k\<close>-th draw
  made when the audit trail has \<open>n\<close> rows), SHA-256 with HMAC, and the processes it starts. An argument that the code
  destructures is an object. Rows are values, so handing out a row is handing out a copy; the code
  copies with \<open>deepClone\<close>, which also drops \<open>undefined\<close> fields.
\<close>

section \<open>State and operations\<close>

type_synonym jmap = "(jsv \<times> jsv) list"

record store =
  organizations :: jmap
  users :: jmap
  members :: "jsv list"
  projects :: jmap
  services :: jmap
  deployments :: jmap
  resources :: jmap
  domains :: jmap
  usageRecords :: "jsv list"
  auditLogs :: "jsv list"
  workflowJobs :: "jsv list"
  secrets :: jmap
  environmentVariables :: jmap
  githubIntegrations :: jmap
  webhookEvents :: jmap
  buildLogs :: "jsv list"
  runtimeLogs :: "jsv list"
  deploymentEvents :: "jsv list"
  quotas :: jmap
  resourceAttachments :: "jsv list"

definition empty_store :: store where
  "empty_store = \<lparr>organizations = [], users = [], members = [], projects = [], services = [], deployments = [],
     resources = [], domains = [], usageRecords = [], auditLogs = [], workflowJobs = [], secrets = [],
     environmentVariables = [], githubIntegrations = [], webhookEvents = [], buildLogs = [], runtimeLogs = [],
     deploymentEvents = [], quotas = [], resourceAttachments = []\<rparr>"

record world =
  wNow :: int
  wCrypto :: crypto
  wEnv :: jsv
  wCwd :: string
  wDraw :: "nat \<Rightarrow> nat \<Rightarrow> string"
  wGitHub :: github_lib
  wProcess :: process

text \<open>\<open>map.get(k)\<close>, \<open>map.set(k, v)\<close>, \<open>map.delete(k)\<close>, \<open>[...map.values()]\<close>\<close>

definition mget :: "jmap \<Rightarrow> jsv \<Rightarrow> jsv" where
  "mget m k = (case map_of m k of Some v \<Rightarrow> v | None \<Rightarrow> JUndef)"

definition mput :: "jsv \<Rightarrow> jsv \<Rightarrow> jmap \<Rightarrow> jmap" where
  "mput k v m = AList.update k v m"

definition mdrop :: "jsv \<Rightarrow> jmap \<Rightarrow> jmap" where
  "mdrop k m = filter (\<lambda>p. fst p \<noteq> k) m"

definition mvalues :: "jmap \<Rightarrow> jsv list" where
  "mvalues m = map snd m"

type_synonym 'a op = "store \<Rightarrow> 'a res \<times> store"

definition sret :: "'a \<Rightarrow> 'a op" where
  "sret x = (\<lambda>s. (Inr x, s))"

definition slift :: "'a res \<Rightarrow> 'a op" where
  "slift r = (\<lambda>s. (r, s))"

definition sget :: "(store \<Rightarrow> 'a) \<Rightarrow> 'a op" where
  "sget f = (\<lambda>s. (Inr (f s), s))"

definition smod :: "(store \<Rightarrow> store) \<Rightarrow> unit op" where
  "smod f = (\<lambda>s. (Inr (), f s))"

definition sbind :: "'a op \<Rightarrow> ('a \<Rightarrow> 'b op) \<Rightarrow> 'b op" where
  "sbind m f = (\<lambda>s. case m s of (Inl e, s') \<Rightarrow> (Inl e, s') | (Inr x, s') \<Rightarrow> f x s')"

definition sthen :: "'a op \<Rightarrow> 'b op \<Rightarrow> 'b op" where
  "sthen m k = sbind m (\<lambda>_. k)"

fun sfor :: "('a \<Rightarrow> 'b op) \<Rightarrow> 'a list \<Rightarrow> 'b list op" where
  "sfor f [] = sret []"
| "sfor f (x # xs) = sbind (f x) (\<lambda>y. sbind (sfor f xs) (\<lambda>ys. sret (y # ys)))"

definition swhen :: "bool \<Rightarrow> unit op \<Rightarrow> unit op" where
  "swhen b m = (if b then m else sret ())"

section \<open>Errors and lookups\<close>

definition notFound :: "string \<Rightarrow> 'a res" where
  "notFound m = js_throw_status 404 m"

definition forbidden :: "string \<Rightarrow> 'a res" where
  "forbidden m = js_throw_status 403 m"

definition unauthorized :: "string \<Rightarrow> 'a res" where
  "unauthorized m = js_throw_status 401 m"

text \<open>\<open>const row = this.rows.get(id); if (!row) throw notFound(`row not found: ${id}`)\<close>\<close>

definition sfind :: "(store \<Rightarrow> jmap) \<Rightarrow> string \<Rightarrow> jsv \<Rightarrow> jsv op" where
  "sfind rows kind i = sbind (sget (\<lambda>s. mget (rows s) i)) (\<lambda>row.
     slift (if truthy row then Inr row else notFound (kind @ '' not found: '' @ to_str i)))"

definition same_text :: "jsv \<Rightarrow> jsv \<Rightarrow> bool" where
  "same_text a b = (to_str a = to_str b)"

primrec first_index :: "('a \<Rightarrow> bool) \<Rightarrow> 'a list \<Rightarrow> nat option" where
  "first_index P [] = None"
| "first_index P (x # xs) = (if P x then Some 0 else map_option Suc (first_index P xs))"

definition row_or_null :: "jsv \<Rightarrow> jsv" where
  "row_or_null v = deep_clone (jor v JNull)"

section \<open>The audit trail\<close>

definition audit_row :: "world \<Rightarrow> nat \<Rightarrow> jsv \<Rightarrow> string \<Rightarrow> jsv \<Rightarrow> jsv \<Rightarrow> jsv \<Rightarrow> jsv" where
  "audit_row w n actorUserId action targetType targetId metadata = JObj [
     (''id'', JStr (stableId ''aud'' [JStr action, targetId, jint (wNow w), jnat n])),
     (''actorUserId'', actorUserId), (''action'', JStr action), (''targetType'', targetType), (''targetId'', targetId),
     (''metadata'', maskSecrets (jdefault metadata (JObj []))), (''createdAt'', nowIso (wNow w))]"

definition audit :: "world \<Rightarrow> jsv \<Rightarrow> string \<Rightarrow> jsv \<Rightarrow> jsv \<Rightarrow> jsv \<Rightarrow> unit op" where
  "audit w actorUserId action targetType targetId metadata = smod (\<lambda>s. s\<lparr>auditLogs := auditLogs s @
     [audit_row w (length (auditLogs s)) actorUserId action targetType targetId metadata]\<rparr>)"

abbreviation system :: jsv where
  "system \<equiv> JStr ''system''"

section \<open>Organizations, users and members\<close>

definition createOrganization :: "world \<Rightarrow> jsv \<Rightarrow> jsv op" where
  "createOrganization w input = (let
     name = jget input ''name''; slug = jget input ''slug''; plan = jdefault (jget input ''plan'') (JStr ''free'');
     i = JStr (stableId ''org'' [jor slug name]);
     org = JObj [(''id'', i), (''name'', name), (''slug'', JStr (slugify (jor slug name) ''item'')), (''plan'', plan),
       (''createdAt'', nowIso (wNow w))]
   in sthen (smod (organizations_update (mput i org)))
      (sthen (audit w system ''organization:create'' (JStr ''organization'') i
         (JObj [(''slug'', jget org ''slug''), (''plan'', plan)]))
      (sret (deep_clone org))))"

definition find_row :: "(jsv \<Rightarrow> bool) \<Rightarrow> jmap \<Rightarrow> jsv" where
  "find_row P m = (case find P (mvalues m) of Some v \<Rightarrow> v | None \<Rightarrow> JUndef)"

definition findOrganizationBySlug :: "jsv \<Rightarrow> jsv op" where
  "findOrganizationBySlug slug = (let normalized = slugify slug ''item'' in
     sget (\<lambda>s. row_or_null (find_row (\<lambda>c. jget c ''slug'' = JStr normalized) (organizations s))))"

definition redactUser :: "jsv \<Rightarrow> jsv" where
  "redactUser user = jrest user [''passwordHash'']"

definition createUser :: "world \<Rightarrow> jsv \<Rightarrow> jsv op" where
  "createUser w input = (let
     name = jget input ''name''; email = jget input ''email'';
     i = JStr (stableId ''usr'' [jor email name])
   in sbind (slift (normalizeAccountType (jdefault (jget input ''accountType'') (JStr ''NON_CLUB'')) JUndef)) (\<lambda>accountType.
     let user = JObj [(''id'', i), (''name'', name), (''email'', JStr (lower_text email)),
       (''avatarUrl'', jdefault (jget input ''avatarUrl'') JNull), (''githubId'', jdefault (jget input ''githubId'') JNull),
       (''passwordHash'', jdefault (jget input ''passwordHash'') JNull),
       (''role'', jdefault (jget input ''role'') (JStr ''USER'')), (''accountType'', accountType),
       (''approvalStatus'', jdefault (jget input ''approvalStatus'') (JStr ''PENDING'')),
       (''createdAt'', nowIso (wNow w)), (''updatedAt'', nowIso (wNow w))]
     in sthen (smod (users_update (mput i user))) (sret (deep_clone (redactUser user)))))"

definition findUserByEmail :: "jsv \<Rightarrow> jsv op" where
  "findUserByEmail email = sget (\<lambda>s. row_or_null (find_row (\<lambda>c. jget c ''email'' = JStr (lower_text email)) (users s)))"

definition findUserByGitHubId :: "jsv \<Rightarrow> jsv op" where
  "findUserByGitHubId githubId = (let i = str_trim (to_str (jor githubId (JStr []))) in
     if i = [] then sret JNull
     else sget (\<lambda>s. row_or_null (find_row (\<lambda>c. to_str (jor (jget c ''githubId'') (JStr [])) = i) (users s))))"

definition given_text :: "jsv \<Rightarrow> bool" where
  "given_text v = (\<not> is_nullish v \<and> str_trim (to_str v) \<noteq> [])"

definition set_given :: "string \<Rightarrow> jsv \<Rightarrow> jsv \<Rightarrow> jsv" where
  "set_given k v row = (if given_text v then jset row k (JStr (to_str v)) else row)"

definition linkGitHubUser :: "world \<Rightarrow> jsv \<Rightarrow> jsv \<Rightarrow> jsv op" where
  "linkGitHubUser w userId input = (let githubId = jdefault (jget input ''githubId'') JNull in
     sbind (sfind users ''user'' userId) (\<lambda>user.
     sbind (if truthy githubId then findUserByGitHubId githubId else sret JNull) (\<lambda>existing.
     sthen (slift (if truthy existing \<and> \<not> same_text (jget existing ''id'') userId
         then forbidden ''github account is already linked to another user'' else Inr ()))
     (let linked = jset (set_given ''name'' (jget input ''name'') (set_given ''avatarUrl'' (jget input ''avatarUrl'')
            (set_given ''githubId'' githubId user))) ''updatedAt'' (nowIso (wNow w))
      in sthen (smod (users_update (mput userId linked)))
         (sthen (audit w (jdefault (jget input ''actorUserId'') system) ''user.github:link'' (JStr ''user'') userId
            (JObj [(''githubId'', jor (jget linked ''githubId'') JNull), (''githubLogin'', jor (jget input ''githubLogin'') JNull)]))
         (sret (redactUser (deep_clone linked))))))))"

definition addMember :: "world \<Rightarrow> jsv \<Rightarrow> jsv op" where
  "addMember w input = (let
     organizationId = jget input ''organizationId''; userId = jget input ''userId'';
     role = jdefault (jget input ''role'') (JStr ''developer'')
   in sbind (sget members) (\<lambda>rows.
     case first_index (\<lambda>m. strict_eq (jget m ''organizationId'') organizationId \<and> strict_eq (jget m ''userId'') userId) rows of
       Some i \<Rightarrow> (let member = jset (rows ! i) ''role'' (jor role (jget (rows ! i) ''role'')) in
         sthen (smod (members_update (\<lambda>ms. ms[i := member]))) (sret (deep_clone member)))
     | None \<Rightarrow> (let member = JObj [(''organizationId'', organizationId), (''userId'', userId), (''role'', role),
           (''createdAt'', nowIso (wNow w))] in
         sthen (smod (members_update (\<lambda>ms. ms @ [member])))
         (sthen (audit w userId ''organization.member:add'' (JStr ''organization'') organizationId (JObj [(''role'', role)]))
         (sret (deep_clone member))))))"

definition listMembershipsForUser :: "jsv \<Rightarrow> jsv list op" where
  "listMembershipsForUser userId = sget (\<lambda>s. map deep_clone (filter (\<lambda>m. same_text (jget m ''userId'') userId) (members s)))"

section \<open>Projects and services\<close>

definition createProject :: "world \<Rightarrow> jsv \<Rightarrow> jsv op" where
  "createProject w input = (let
     organizationId = jget input ''organizationId''; name = jget input ''name''; slug = jget input ''slug'';
     i = JStr (stableId ''prj'' [organizationId, jor slug name]);
     project = JObj [(''id'', i), (''organizationId'', organizationId), (''name'', name),
       (''slug'', JStr (slugify (jor slug name) ''item'')), (''description'', jdefault (jget input ''description'') (JStr [])),
       (''status'', jdefault (jget input ''status'') (JStr ''active'')), (''createdAt'', nowIso (wNow w)),
       (''updatedAt'', nowIso (wNow w))]
   in sthen (smod (projects_update (mput i project)))
      (sthen (audit w system ''project:create'' (JStr ''project'') i
         (JObj [(''organizationId'', organizationId), (''slug'', jget project ''slug'')]))
      (sret (deep_clone project))))"

definition getProject :: "jsv \<Rightarrow> jsv op" where
  "getProject projectId = sget (\<lambda>s. row_or_null (mget (projects s) projectId))"

definition updateProject :: "world \<Rightarrow> jsv \<Rightarrow> jsv \<Rightarrow> jsv op" where
  "updateProject w projectId updates = sbind (sget (\<lambda>s. mget (projects s) projectId)) (\<lambda>current.
     if \<not> truthy current then sret JNull
     else (let nxt = jwith (jspread current (maskSecrets updates)) [
             (''slug'', if truthy (jget updates ''slug'') then JStr (slugify (jget updates ''slug'') ''item'')
                else jget current ''slug''),
             (''updatedAt'', nowIso (wNow w))]
           in sthen (smod (projects_update (mput projectId nxt)))
              (sthen (audit w system ''project:update'' (JStr ''project'') projectId (maskSecrets updates))
              (sret (deep_clone nxt)))))"

definition createService :: "world \<Rightarrow> jsv \<Rightarrow> jsv op" where
  "createService w input = (let
     projectId = jget input ''projectId''; name = jget input ''name'';
     type = jdefault (jget input ''type'') (JStr ''web'');
     image = jdefault (jget input ''image'') JNull; imageUrl = jdefault (jget input ''imageUrl'') JNull;
     rest = jrest input [''projectId'', ''name'', ''type'', ''runtimeType'', ''sourceType'', ''image'', ''imageUrl'',
       ''id'', ''desiredState''];
     i = JStr (stableId ''svc'' [projectId, name]);
     service = jspread (JObj [(''id'', i), (''projectId'', projectId), (''name'', name),
       (''slug'', JStr (slugify name ''item'')), (''type'', type),
       (''runtimeType'', jdefault (jget input ''runtimeType'') (JStr ''container'')),
       (''sourceType'', jdefault (jget input ''sourceType'') (JStr ''github'')),
       (''image'', jor image (jor imageUrl JUndef)), (''imageUrl'', jor imageUrl (jor image JUndef)),
       (''status'', JStr ''created''), (''createdAt'', nowIso (wNow w))]) rest
   in sthen (smod (services_update (mput i service)))
      (sthen (audit w system ''service:create'' (JStr ''service'') i (JObj [(''projectId'', projectId), (''type'', type)]))
      (sret (deep_clone service))))"

definition getService :: "jsv \<Rightarrow> jsv op" where
  "getService serviceId = sget (\<lambda>s. row_or_null (mget (services s) serviceId))"

definition jset_if :: "bool \<Rightarrow> string \<Rightarrow> jsv \<Rightarrow> jsv \<Rightarrow> jsv" where
  "jset_if b k v row = (if b then jset row k v else row)"

definition service_updates :: "jsv \<Rightarrow> jsv" where
  "service_updates updates = (let
     n0 = jrest (maskSecrets (JObj (entries updates))) [''id'', ''projectId'', ''desiredState''];
     n1 = jset_if (truthy (jget n0 ''slug'')) ''slug'' (JStr (slugify (jget n0 ''slug'') ''item'')) n0;
     n2 = jset_if (truthy (jget n1 ''image'') \<and> \<not> truthy (jget n1 ''imageUrl'')) ''imageUrl'' (jget n1 ''image'') n1
   in jset_if (truthy (jget n2 ''imageUrl'') \<and> \<not> truthy (jget n2 ''image'')) ''image'' (jget n2 ''imageUrl'') n2)"

definition updateService :: "world \<Rightarrow> jsv \<Rightarrow> jsv \<Rightarrow> jsv op" where
  "updateService w serviceId updates = sbind (sget (\<lambda>s. mget (services s) serviceId)) (\<lambda>current.
     if \<not> truthy current then sret JNull
     else (let nxt = jwith (jspread current (service_updates updates)) [(''updatedAt'', nowIso (wNow w))] in
       sthen (smod (services_update (mput serviceId nxt)))
       (sthen (audit w system ''service:update'' (JStr ''service'') serviceId (maskSecrets updates))
       (sret (deep_clone nxt)))))"

section \<open>Laws of the operations\<close>

lemma mget_mput [simp]: "mget (mput k v m) j = (if j = k then v else mget m j)"
  by (simp add: mget_def mput_def AList.update_conv)

lemma mget_mdrop [simp]: "mget (mdrop k m) j = (if j = k then JUndef else mget m j)"
  by (simp add: mget_def mdrop_def map_of_map_filter_key[where P = "\<lambda>a. a \<noteq> k"])

lemma mget_Nil [simp]: "mget [] k = JUndef"
  by (simp add: mget_def)

lemma mget_mem: "mget m k \<noteq> JUndef \<Longrightarrow> (k, mget m k) \<in> set m"
  by (auto simp: mget_def dest: map_of_SomeD split: option.splits)

lemma set_mput: "set (mput k v m) \<subseteq> insert (k, v) (set m)"
  unfolding mput_def by (rule set_alist_update_subset)

lemma set_mdrop [simp]: "set (mdrop k m) = {p \<in> set m. fst p \<noteq> k}"
  by (auto simp: mdrop_def)

lemma distinct_mput: "distinct (map fst m) \<Longrightarrow> distinct (map fst (mput k v m))"
  by (simp add: mput_def AList.distinct_update)

lemma distinct_mdrop: "distinct (map fst m) \<Longrightarrow> distinct (map fst (mdrop k m))"
  by (auto simp: mdrop_def distinct_map inj_on_def)

lemma record_object_JObj: "record_object (JObj kvs) \<longleftrightarrow> distinct (map fst kvs)"
  by (simp add: record_object_def)

lemma record_object_jspread: "record_object a \<Longrightarrow> record_object (jspread a b)"
  by (auto simp: record_object_def jspread_def distinct_alist_merge)

lemma record_object_jset_if: "record_object a \<Longrightarrow> record_object (jset_if b k v a)"
  by (simp add: jset_if_def record_object_jset)

lemma jget_jset_if [simp]: "jget (jset_if b k v r) j = (if b \<and> j = k then v else jget r j)"
  by (simp add: jset_if_def)

lemma jget_jspread_other: "\<not> has_own b k \<Longrightarrow> jget (jspread a b) k = jget a k"
  by (auto simp: jget_jspread has_own_def split: option.split dest!: map_of_SomeD) (force)

lemma has_own_jset_if [simp]: "has_own (jset_if b k v r) j \<longleftrightarrow> b \<and> j = k \<or> has_own r j"
  by (auto simp: jset_if_def)

text \<open>Running an operation built from the primitives.\<close>

lemma run_simps [simp]:
  "sret x s = (Inr x, s)" "slift r s = (r, s)" "sget f s = (Inr (f s), s)" "smod g s = (Inr (), g s)"
  "sthen m k s = sbind m (\<lambda>_. k) s" "swhen b u s = (if b then u s else (Inr (), s))"
  by (simp_all add: sret_def slift_def sget_def smod_def sthen_def swhen_def)

lemma sbind_run:
  "sbind m f s = (case m s of (Inl e, s') \<Rightarrow> (Inl e, s') | (Inr x, s') \<Rightarrow> f x s')"
  by (simp add: sbind_def)

lemma sbind_simps [simp]:
  "sbind (sret x) f s = f x s" "sbind (sget g) f s = f (g s) s" "sbind (smod h) k s = k () (h s)"
  "sbind (slift (Inr x)) f s = f x s" "sbind (slift (Inl e)) f s = (Inl e, s)"
  "sbind (sthen m n) f s = sbind m (\<lambda>_. sbind n f) s"
  by (simp_all add: sbind_run sthen_def split: prod.splits sum.splits)

lemma sbind_assoc: "sbind (sbind m f) g s = sbind m (\<lambda>x. sbind (f x) g) s"
  by (simp add: sbind_run split: prod.splits sum.splits)

lemma sbind_Inr:
  "sbind m f s = (Inr y, s') \<longleftrightarrow> (\<exists>x s1. m s = (Inr x, s1) \<and> f x s1 = (Inr y, s'))"
  by (auto simp: sbind_run split: prod.splits sum.splits)

lemma slift_Inr: "slift r s = (Inr y, s') \<longleftrightarrow> r = Inr y \<and> s' = s"
  by auto

lemma sfind_run:
  "sfind rows kind i s = (if truthy (mget (rows s) i) then Inr (mget (rows s) i)
     else notFound (kind @ '' not found: '' @ to_str i), s)"
  by (simp add: sfind_def)

lemma sfind_Inr: "sfind rows kind i s = (Inr row, s') \<longleftrightarrow> truthy row \<and> row = mget (rows s) i \<and> s' = s"
  by (auto simp: sfind_run notFound_def)

lemma audit_run:
  "audit w a act tt ti meta s = (Inr (), s\<lparr>auditLogs := auditLogs s @
     [audit_row w (length (auditLogs s)) a act tt ti meta]\<rparr>)"
  by (simp add: audit_def)

lemma sbind_audit [simp]:
  "sbind (audit w a act tt ti meta) f s = f () (s\<lparr>auditLogs := auditLogs s @
     [audit_row w (length (auditLogs s)) a act tt ti meta]\<rparr>)"
  by (simp add: sbind_run audit_run)

section \<open>What operations do to the state\<close>

text \<open>Every outcome of \<open>m\<close>, thrown errors included, relates the states before and after by \<open>R\<close>.\<close>

definition keeps :: "(store \<Rightarrow> store \<Rightarrow> bool) \<Rightarrow> 'a op \<Rightarrow> bool" where
  "keeps R m = (\<forall>s. R s (snd (m s)))"

locale store_relation =
  fixes R :: "store \<Rightarrow> store \<Rightarrow> bool"
  assumes refl: "R s s" and trans: "R s t \<Longrightarrow> R t u \<Longrightarrow> R s u"
begin

lemma keeps_pure: "keeps R (sret x)" "keeps R (slift r)" "keeps R (sget f)" "keeps R (sfind rows kind i)"
  by (simp_all add: keeps_def refl sfind_run)

lemma keeps_sbind: "keeps R m \<Longrightarrow> (\<And>x. keeps R (f x)) \<Longrightarrow> keeps R (sbind m f)"
  unfolding keeps_def sbind_run by (auto split: prod.splits sum.splits intro: refl dest: trans)
    (metis snd_conv trans)+

lemma keeps_sthen: "keeps R m \<Longrightarrow> keeps R k \<Longrightarrow> keeps R (sthen m k)"
  unfolding sthen_def by (rule keeps_sbind)

lemma keeps_swhen: "(b \<Longrightarrow> keeps R m) \<Longrightarrow> keeps R (swhen b m)"
  by (auto simp: swhen_def keeps_pure)

lemma keeps_sfor: "(\<And>x. x \<in> set xs \<Longrightarrow> keeps R (f x)) \<Longrightarrow> keeps R (sfor f xs)"
  by (induction xs) (auto intro!: keeps_sbind keeps_pure)

lemma keeps_if: "(b \<Longrightarrow> keeps R m) \<Longrightarrow> (\<not> b \<Longrightarrow> keeps R k) \<Longrightarrow> keeps R (if b then m else k)"
  by simp

lemma keeps_let: "(\<And>x. x = v \<Longrightarrow> keeps R (f x)) \<Longrightarrow> keeps R (Let v f)"
  by simp

lemma keeps_option: "keeps R m \<Longrightarrow> (\<And>x. keeps R (f x)) \<Longrightarrow> keeps R (case v of None \<Rightarrow> m | Some x \<Rightarrow> f x)"
  by (simp split: option.split)

lemma keeps_pair: "(\<And>x y. keeps R (f x y)) \<Longrightarrow> keeps R (case v of (x, y) \<Rightarrow> f x y)"
  by (simp split: prod.split)

lemmas keeps_intros = keeps_pure keeps_sthen keeps_swhen keeps_sfor keeps_if keeps_let keeps_option keeps_pair
  keeps_sbind

end

lemma keeps_smod: "(\<And>s. R s (g s)) \<Longrightarrow> keeps R (smod g)"
  by (simp add: keeps_def)

lemma keepsD: "keeps R m \<Longrightarrow> m s = (r, s') \<Longrightarrow> R s s'"
  by (metis keeps_def snd_conv)

text \<open>The audit trail grows, and the metadata of every new row is masked.\<close>

definition masked_row :: "jsv \<Rightarrow> bool" where
  "masked_row r = secrets_masked (jget r ''metadata'')"

definition audited :: "store \<Rightarrow> store \<Rightarrow> bool" where
  "audited s s' = (\<exists>new. auditLogs s' = auditLogs s @ new \<and> list_all masked_row new)"

interpretation audit_trail: store_relation audited
  by unfold_locales (auto simp: audited_def)

lemma masked_audit_row: "masked_row (audit_row w n a act tt ti meta)"
  by (simp add: masked_row_def audit_row_def maskSecrets_def secrets_masked_mask_tree)

lemma audited_audit: "keeps audited (audit w a act tt ti meta)"
  unfolding audit_def by (rule keeps_smod) (auto simp: audited_def masked_audit_row)

lemma audited_same: "(\<And>s. auditLogs (g s) = auditLogs s) \<Longrightarrow> keeps audited (smod g)"
  by (rule keeps_smod) (simp add: audited_def)

lemmas audited_intros = audit_trail.keeps_intros audited_audit audited_same

lemma audited_base:
  "keeps audited (createOrganization w x)" "keeps audited (findOrganizationBySlug x)"
  "keeps audited (createUser w x)" "keeps audited (findUserByEmail x)" "keeps audited (findUserByGitHubId x)"
  "keeps audited (addMember w x)" "keeps audited (listMembershipsForUser x)"
  "keeps audited (createProject w x)" "keeps audited (getProject x)" "keeps audited (updateProject w x y)"
  "keeps audited (createService w x)" "keeps audited (getService x)" "keeps audited (updateService w x y)"
  unfolding createOrganization_def findOrganizationBySlug_def createUser_def findUserByEmail_def
    findUserByGitHubId_def addMember_def listMembershipsForUser_def createProject_def getProject_def
    updateProject_def createService_def getService_def updateService_def
  by (intro audited_intros; simp)+

lemma audited_link: "keeps audited (linkGitHubUser w x y)"
  unfolding linkGitHubUser_def by (intro audited_intros audited_base; simp)

section \<open>A concrete world\<close>

definition sample_world :: world where
  "sample_world = \<lparr>wNow = 1700000000000, wCrypto = sample_crypto, wEnv = JObj [], wCwd = ''/srv'',
     wDraw = (\<lambda>n k. ''r'' @ nat_str n @ ''-'' @ nat_str k),
     wGitHub = \<lparr>sha256_hex = (\<lambda>s. s), hmac_hex = (\<lambda>k b. k @ ''-'' @ b)\<rparr>, wProcess = (\<lambda>_. (0, [], []))\<rparr>"

end
