(* ===== verification/EnvFile.thy ===== *)
theory EnvFile
  imports Secrets
begin

text \<open>
  \<open>env-file.ts\<close>: the parser of \<open>.env\<close> texts, \<open>normalizeEnvEntries\<close> for JSON input, and
  \<open>maskEnvEntries\<close>. The error the parser throws carries the error list in its message; the copy of
  the list it attaches as a property is left out.
\<close>

abbreviation LF :: char where "LF \<equiv> CHR 0x0A"
abbreviation CR :: char where "CR \<equiv> CHR 0x0D"
abbreviation DQ :: char where "DQ \<equiv> CHR 0x22"
abbreviation SQ :: char where "SQ \<equiv> CHR 0x27"
abbreviation BSLASH :: char where "BSLASH \<equiv> CHR 0x5C"

definition key_start :: "char \<Rightarrow> bool" where
  "key_start c = (is_upper c \<or> is_lower c \<or> c = CHR ''_'')"

definition ENV_KEY_RE :: rx where
  "ENV_KEY_RE = RSeqs [RBol, RCls key_start, RStar (RCls is_word), REol]"

text \<open>\<open>text.split(/\r?\n/)\<close>\<close>

fun split_lines :: "string \<Rightarrow> string list" where
  "split_lines [] = [[]]"
| "split_lines (c # cs) =
     (if c = LF then [] # split_lines cs
      else if c = CR \<and> cs \<noteq> [] \<and> hd cs = LF then split_lines cs
      else (case split_lines cs of [] \<Rightarrow> [[c]] | w # ws \<Rightarrow> (c # w) # ws))"

definition TRAILING_COMMENT_RE :: rx where
  "TRAILING_COMMENT_RE = RSeqs [RPlus RSpace, RChr CHR ''#'', RStar (RNoneOf [LF, CR]), REol]"

definition quoted_by :: "char \<Rightarrow> string \<Rightarrow> bool" where
  "quoted_by q s = (starts_with s [q] \<and> ends_with s [q])"

definition unescape :: "char \<Rightarrow> char \<Rightarrow> string \<Rightarrow> string" where
  "unescape letter c s = rreplace (RLit [BSLASH, letter]) (\<lambda>_. [c]) s"

definition unquoteEnvValue :: "string \<Rightarrow> string" where
  "unquoteEnvValue v = (let trimmed = rreplace1 TRAILING_COMMENT_RE (\<lambda>_. []) v in
     if quoted_by DQ trimmed \<or> quoted_by SQ trimmed then
       (let inner = butlast (tl trimmed) in
        if starts_with trimmed [DQ]
        then unescape CHR ''t'' CHR 0x09 (unescape CHR ''r'' CR (unescape CHR ''n'' LF inner))
        else inner)
     else trimmed)"

section \<open>Entries\<close>

definition env_entry :: "string \<Rightarrow> string \<Rightarrow> bool \<Rightarrow> jsv \<Rightarrow> jsv" where
  "env_entry key v isSecret source = JObj [(''key'', JStr key), (''value'', JStr v),
     (''isSecret'', JBool isSecret),
     (''valueMasked'', if isSecret then maskSecretValue (JStr v) else JStr v), (''source'', source)]"

definition line_error :: "nat \<Rightarrow> (string \<times> jsv) list \<Rightarrow> string \<Rightarrow> string \<Rightarrow> jsv" where
  "line_error index key code msg = JObj ([(''line'', jnat (Suc index))] @ key @
     [(''code'', JStr code), (''message'', JStr msg)])"

text \<open>One round of the loop: nothing, an error or an entry.\<close>

datatype line_result = Skip | Bad jsv | Entry jsv

definition strip_export :: "string \<Rightarrow> string" where
  "strip_export s = (if starts_with s ''export '' then str_trim (str_from 7 s) else s)"

definition parse_env_line :: "jsv \<Rightarrow> nat \<Rightarrow> string \<Rightarrow> line_result" where
  "parse_env_line source index rawLine = (let trimmed = str_trim rawLine in
     if trimmed = [] \<or> starts_with trimmed ''#'' then Skip
     else (let withoutExport = strip_export trimmed in
       case char_index CHR ''='' withoutExport of
         None \<Rightarrow> Bad (line_error index [] ''INVALID_ENV_LINE'' ''expected KEY=value'')
       | Some 0 \<Rightarrow> Bad (line_error index [] ''INVALID_ENV_LINE'' ''expected KEY=value'')
       | Some eq \<Rightarrow> (let
           key = str_trim (str_prefix eq withoutExport);
           v = unquoteEnvValue (str_trim (str_from (Suc eq) withoutExport))
         in if \<not> rtest ENV_KEY_RE key
            then Bad (line_error index [(''key'', JStr key)] ''INVALID_ENV_KEY''
              ''environment keys must match /^[A-Za-z_][A-Za-z0-9_]*$/'')
            else Entry (env_entry key v (isSecretKey (JStr key)) source))))"

fun parse_env_lines :: "jsv \<Rightarrow> nat \<Rightarrow> string list \<Rightarrow> jsv list \<times> jsv list" where
  "parse_env_lines source index [] = ([], [])"
| "parse_env_lines source index (l # ls) =
     (let (es, bad) = parse_env_lines source (Suc index) ls in
      case parse_env_line source index l of
        Skip \<Rightarrow> (es, bad)
      | Bad e \<Rightarrow> (es, e # bad)
      | Entry e \<Rightarrow> (e # es, bad))"

definition count_secret :: "bool \<Rightarrow> jsv list \<Rightarrow> nat" where
  "count_secret b es = length (filter (\<lambda>e. truthy (jget e ''isSecret'') = b) es)"

definition parseDotEnv :: "jsv \<Rightarrow> jsv \<Rightarrow> jsv res" where
  "parseDotEnv text options = (let
     source = jor (jget options ''source'') (JStr ''.env'');
     (es, bad) = parse_env_lines source 0 (split_lines (to_str (jor text (JStr []))))
   in if bad \<noteq> [] \<and> jget options ''throwOnError'' \<noteq> JBool False
      then js_throw_status 400 (''invalid .env content: '' @ str_join '', ''
        (map (\<lambda>e. ''line '' @ to_str (jget e ''line'') @ '' '' @ to_str (jget e ''code'')) bad))
      else Inr (JObj [(''entries'', JArr es), (''errors'', JArr bad),
        (''plainCount'', jnat (count_secret False es)), (''secretCount'', jnat (count_secret True es))]))"

definition normalize_env_entry :: "jsv \<Rightarrow> jsv \<Rightarrow> jsv res" where
  "normalize_env_entry source e = rbind (jread e ''key'') (\<lambda>k. let key = str_trim (to_str (jor k (JStr []))) in
     if \<not> rtest ENV_KEY_RE key then js_throw_status 400 (''invalid environment key: '' @ key)
     else (let v = to_str (jnullish (jget e ''value'') (JStr [])) in
       Inr (env_entry key v (jget e ''isSecret'' = JBool True \<or> isSecretKey (JStr key))
         (jor (jget e ''source'') source))))"

definition normalizeEnvEntries :: "jsv \<Rightarrow> jsv \<Rightarrow> jsv list res" where
  "normalizeEnvEntries input options =
    (if is_jstr input then rbind (parseDotEnv input options) (\<lambda>r. Inr (items (jget r ''entries'')))
     else res_map (normalize_env_entry (jor (jget options ''source'') (JStr ''json'')))
       (if is_jarr input then items input
        else map (\<lambda>(k, v). JObj [(''key'', JStr k), (''value'', v)]) (entries input)))"

definition maskEnvEntries :: "jsv list \<Rightarrow> jsv list res" where
  "maskEnvEntries es = res_map (\<lambda>e. rbind (jread e ''key'') (\<lambda>key. Inr (JObj [
     (''key'', key),
     (''isSecret'', JBool (jget e ''isSecret'' = JBool True)),
     (''value'', if truthy (jget e ''isSecret'') then JUndef else jget e ''value''),
     (''valueMasked'', if truthy (jget e ''isSecret'')
        then jor (jget e ''valueMasked'') (maskSecretValue (jget e ''value''))
        else JStr (to_str (jnullish (jget e ''value'') (JStr [])))),
     (''source'', jor (jget e ''source'') (JStr ''api'')),
     (''updatedAt'', jor (jget e ''updatedAt'') JNull)]))) es"

section \<open>Lemmas\<close>

definition env_key :: "string \<Rightarrow> bool" where
  "env_key k = (k \<noteq> [] \<and> key_start (hd k) \<and> list_all is_word (tl k))"

lemma ENV_KEY_RE_iff: "rtest ENV_KEY_RE k \<longleftrightarrow> env_key k"
  unfolding ENV_KEY_RE_def RSeqs_def list.map foldr.simps comp_apply rtest_bol rmatch_seq_iff
    bex_simps Bex_def rmatch_cls_iff
  by (cases k) (auto simp: env_key_def rmatch_star_cls_set)

lemma ENV_KEY_RE_code [code_unfold]: "rtest ENV_KEY_RE = env_key"
  by (rule ext) (rule ENV_KEY_RE_iff)

lemma env_key_word: "env_key k \<Longrightarrow> c \<in> set k \<Longrightarrow> is_word c"
  by (cases k) (auto simp: env_key_def list_all_iff key_start_def is_word_def code_of_def)

lemma is_word_not:
  assumes "is_word c"
  shows "\<not> is_space c" "c \<noteq> CHR ''=''" "c \<noteq> CHR '' ''" "c \<noteq> CHR ''#''" "c \<noteq> LF" "c \<noteq> CR"
  using assms by (auto simp: is_word_def is_upper_def is_lower_def is_digit_def is_space_def code_of_def)

lemma str_trim_id:
  "s = [] \<or> \<not> is_space (hd s) \<and> \<not> is_space (last s) \<Longrightarrow> str_trim s = s"
  by (cases "s = []") (auto simp: str_trim_trim_both intro: trim_both_id)

lemma env_key_trim: "env_key k \<Longrightarrow> str_trim k = k"
  using env_key_word[of k "hd k"] env_key_word[of k "last k"]
  by (intro str_trim_id) (auto simp: env_key_def is_word_not)

lemma no_comment:
  assumes "CHR ''#'' \<notin> set v"
  shows "rreplace1 TRAILING_COMMENT_RE f v = v"
proof -
  have none: "rmatch TRAILING_COMMENT_RE (p, q, g) = []" if "CHR ''#'' \<notin> set q" for p q g
  proof -
    have "rmatch (RSeq (RChr CHR ''#'') r) st = []" if st: "st \<in> set (rmatch (RPlus RSpace) (p, q, g))" for st r
    proof -
      obtain p1 q1 g1 where st1: "st = (p1, q1, g1)" by (cases st)
      have "CHR ''#'' \<notin> set q1"
        using rmatch_consumes[OF st[unfolded st1]] \<open>CHR ''#'' \<notin> set q\<close> by auto
      then show ?thesis by (cases q1) (auto simp: RChr_def st1)
    qed
    then have "\<not> (\<exists>st \<in> set (rmatch (RPlus RSpace) (p, q, g)). rmatch (RSeq (RChr CHR ''#'') r) st \<noteq> [])" for r
      by blast
    then show ?thesis
      unfolding TRAILING_COMMENT_RE_def RSeqs_def list.map foldr.simps comp_apply
        rmatch_seq_iff[symmetric] by blast
  qed
  have "rsearch TRAILING_COMMENT_RE [] v = None"
    using assms none unfolding rsearch_None_iff by auto
  then show ?thesis by (simp add: rreplace1_def)
qed

section \<open>Rendering and reading back\<close>

definition plain_value :: "string \<Rightarrow> bool" where
  "plain_value v = (str_trim v = v \<and> list_all (\<lambda>c. c \<notin> {LF, CR, CHR ''#''}) v \<and>
     (v \<noteq> [] \<longrightarrow> hd v \<notin> {DQ, SQ}))"

definition env_line :: "string \<times> string \<Rightarrow> string" where
  "env_line e = fst e @ ''='' @ snd e"

definition source_entry :: "jsv \<Rightarrow> string \<times> string \<Rightarrow> jsv" where
  "source_entry source e = env_entry (fst e) (snd e) (isSecretKey (JStr (fst e))) source"

lemma starts_with_single: "starts_with v [c] \<longleftrightarrow> v \<noteq> [] \<and> hd v = c"
  by (cases v) (auto simp: starts_with_def)

lemma unquote_plain: "plain_value v \<Longrightarrow> unquoteEnvValue v = v"
proof -
  assume v: "plain_value v"
  then have "CHR ''#'' \<notin> set v" by (auto simp: plain_value_def list_all_iff)
  then have "rreplace1 TRAILING_COMMENT_RE (\<lambda>_. []) v = v" by (rule no_comment)
  moreover have "v \<noteq> [] \<longrightarrow> hd v \<notin> {DQ, SQ}"
    using v unfolding plain_value_def by (elim conjE)
  then have "\<not> starts_with v [DQ]" "\<not> starts_with v [SQ]"
    by (auto simp: starts_with_single)
  ultimately show ?thesis unfolding unquoteEnvValue_def quoted_by_def Let_def by simp
qed

lemma not_export:
  assumes "env_key k"
  shows "\<not> starts_with (k @ CHR ''='' # v) ''export ''"
proof
  assume "starts_with (k @ CHR ''='' # v) ''export ''"
  then have p: "prefix ''export '' (k @ CHR ''='' # v)" by (simp add: starts_with_def)
  have q: "prefix (k @ [CHR ''='']) (k @ CHR ''='' # v)" by (simp add: prefix_def)
  from prefix_same_cases[OF p q] show False
  proof
    assume "prefix ''export '' (k @ [CHR ''=''])"
    then have "CHR '' '' \<in> set (k @ [CHR ''=''])" using set_mono_prefix by fastforce
    then show False using env_key_word[OF assms, of "CHR '' ''"] is_word_not by auto
  next
    assume "prefix (k @ [CHR ''='']) ''export ''"
    then have "CHR ''='' \<in> set ''export ''" using set_mono_prefix by fastforce
    then show False by simp
  qed
qed

lemma env_line_trim:
  assumes "env_key k" "plain_value v"
  shows "str_trim (k @ CHR ''='' # v) = k @ CHR ''='' # v"
proof (rule str_trim_id, rule disjI2, rule conjI)
  show "\<not> is_space (hd (k @ CHR ''='' # v))"
    using assms(1) env_key_word[OF assms(1), of "hd k"] by (auto simp: env_key_def is_word_not)
  have "v \<noteq> [] \<Longrightarrow> \<not> is_space (last v)"
    using assms(2) trim_both_last[of is_space v] by (simp add: plain_value_def str_trim_trim_both)
  then show "\<not> is_space (last (k @ CHR ''='' # v))"
    by (auto simp: is_space_def code_of_def)
qed

lemma parse_plain_line:
  assumes "env_key k" "plain_value v"
  shows "parse_env_line source i (k @ CHR ''='' # v) = Entry (source_entry source (k, v))"
proof -
  have ne: "k \<noteq> []" using assms(1) by (simp add: env_key_def)
  then obtain n where n: "length k = Suc n" by (cases k) auto
  have "is_word (hd k)" using env_key_word[OF assms(1), of "hd k"] ne by simp
  then have "hd k \<noteq> CHR ''#''" by (rule is_word_not)
  then have hash: "\<not> starts_with (k @ CHR ''='' # v) ''#''"
    using ne by (cases k) (auto simp: starts_with_def)
  have idx: "char_index CHR ''='' (k @ CHR ''='' # v) = Some (Suc n)"
    using char_index_append[of "CHR ''=''" k v] env_key_word[OF assms(1)] is_word_not(2) n by auto
  have trim: "str_trim (k @ CHR ''='' # v) = k @ CHR ''='' # v" using env_line_trim[OF assms] .
  have parts: "str_trim (str_prefix (Suc n) (k @ CHR ''='' # v)) = k"
      "str_trim (str_from (Suc (Suc n)) (k @ CHR ''='' # v)) = v"
    using assms env_key_trim[OF assms(1)] n[symmetric]
    by (simp_all add: str_prefix_def str_from_def plain_value_def)
  show ?thesis
    unfolding parse_env_line_def trim Let_def strip_export_def
    using hash not_export[OF assms(1), of v] assms(1) unquote_plain[OF assms(2)]
    by (simp add: idx parts ENV_KEY_RE_iff source_entry_def)
qed

lemma parse_plain_lines:
  "list_all (\<lambda>(k, v). env_key k \<and> plain_value v) kvs \<Longrightarrow>
   parse_env_lines source i (map env_line kvs) = (map (source_entry source) kvs, [])"
  by (induction kvs arbitrary: i) (auto simp: env_line_def parse_plain_line)

lemma split_lines_line:
  "LF \<notin> set l \<Longrightarrow> CR \<notin> set l \<Longrightarrow> split_lines (l @ LF # t) = l # split_lines t"
  by (induction l) auto

lemma split_lines_single: "LF \<notin> set l \<Longrightarrow> CR \<notin> set l \<Longrightarrow> split_lines l = [l]"
  by (induction l) auto

lemma split_join_lines:
  "ls \<noteq> [] \<Longrightarrow> list_all (\<lambda>l. LF \<notin> set l \<and> CR \<notin> set l) ls \<Longrightarrow> split_lines (str_join [LF] ls) = ls"
  by (induction ls rule: list_nonempty_induct') (auto simp: split_lines_line split_lines_single)

lemma env_line_chars:
  "env_key k \<Longrightarrow> plain_value v \<Longrightarrow> LF \<notin> set (env_line (k, v)) \<and> CR \<notin> set (env_line (k, v))"
  using env_key_word[of k LF] env_key_word[of k CR] is_word_not(5,6)
  by (auto simp: env_line_def plain_value_def list_all_iff)

section \<open>Well-formed entries\<close>

definition entry_wf :: "jsv \<Rightarrow> bool" where
  "entry_wf e = (\<exists>k v b src. e = env_entry k v b src \<and> env_key k \<and> (isSecretKey (JStr k) \<longrightarrow> b))"

lemma parse_env_line_wf: "parse_env_line source i l = Entry e \<Longrightarrow> entry_wf e"
  by (auto simp: parse_env_line_def entry_wf_def Let_def ENV_KEY_RE_iff
      split: if_splits option.splits nat.splits)

lemma parse_env_lines_wf: "e \<in> set (fst (parse_env_lines source i ls)) \<Longrightarrow> entry_wf e"
proof (induction ls arbitrary: i)
  case (Cons l ls)
  obtain es bad where ls: "parse_env_lines source (Suc i) ls = (es, bad)" by fastforce
  with Cons.IH[of "Suc i"] Cons.prems show ?case
    by (cases "parse_env_line source i l") (auto dest: parse_env_line_wf)
qed simp

lemma parseDotEnv_wf: "parseDotEnv text options = Inr r \<Longrightarrow> list_all entry_wf (items (jget r ''entries''))"
proof -
  assume r: "parseDotEnv text options = Inr r"
  define source where "source = jor (jget options ''source'') (JStr ''.env'')"
  obtain es bad where p: "parse_env_lines source 0 (split_lines (to_str (jor text (JStr [])))) = (es, bad)"
    by fastforce
  have "list_all entry_wf es"
    using parse_env_lines_wf[of _ source 0 "split_lines (to_str (jor text (JStr [])))"] p
    by (simp add: list_all_iff)
  then show ?thesis
    using r p by (auto simp: parseDotEnv_def Let_def source_def[symmetric] split: if_splits)
qed

lemma normalize_env_entry_wf: "normalize_env_entry source e = Inr r \<Longrightarrow> entry_wf r"
  by (auto simp: normalize_env_entry_def rbind_Inr_iff Let_def entry_wf_def ENV_KEY_RE_iff split: if_splits)

section \<open>Properties\<close>

text \<open>Every entry that \<open>parseDotEnv\<close> or \<open>normalizeEnvEntries\<close> returns has a key of letters,
  digits and underscores that does not start with a digit, a text value, and a masked value which is
  the mask of the value whenever the key names a secret.\<close>

theorem env_entries_typed:
  "(parseDotEnv text options = Inr r \<longrightarrow> list_all entry_wf (items (jget r ''entries''))) \<and>
   (normalizeEnvEntries input options = Inr es \<longrightarrow> list_all entry_wf es)"
proof (rule conjI; rule impI)
  assume "normalizeEnvEntries input options = Inr es"
  then show "list_all entry_wf es"
    unfolding normalizeEnvEntries_def
    by (auto simp: rbind_Inr_iff list_all_iff dest!: res_map_Inr_set normalize_env_entry_wf
        dest: parseDotEnv_wf[unfolded list_all_iff] split: if_splits)
qed (rule parseDotEnv_wf)

theorem env_entries_typed_witness:
  "list_all entry_wf [env_entry ''API_TOKEN'' ''t0'' True (JStr ''.env'')] \<and>
   (\<exists>es. normalizeEnvEntries (JStr ''API_TOKEN=t0'') (JObj []) = Inr es \<and> list_all entry_wf es)"
proof -
  have p: "parseDotEnv (JStr ''API_TOKEN=t0'') (JObj []) =
      Inr (JObj [(''entries'', JArr [env_entry ''API_TOKEN'' ''t0'' True (JStr ''.env'')]),
        (''errors'', JArr []), (''plainCount'', jnat 0), (''secretCount'', jnat 1)])"
    by code_simp
  have n: "normalizeEnvEntries (JStr ''API_TOKEN=t0'') (JObj []) =
      Inr [env_entry ''API_TOKEN'' ''t0'' True (JStr ''.env'')]"
    by code_simp
  show ?thesis
    using env_entries_typed[THEN conjunct1, rule_format, OF p]
      env_entries_typed[THEN conjunct2, rule_format, OF n] n by simp
qed

text \<open>C31: A \<open>.env\<close> text with one \<open>KEY=value\<close> line per variable, its keys valid and its values free
  of line breaks, surrounding blanks, leading quotes and the comment sign, parses without an error
  to exactly those variables in that order, classified by their keys.\<close>

theorem dotenv_roundtrip:
  assumes "list_all (\<lambda>(k, v). env_key k \<and> plain_value v) kvs"
  shows "\<exists>r. parseDotEnv (JStr (str_join [LF] (map env_line kvs))) options = Inr r \<and>
     items (jget r ''entries'') = map (source_entry (jor (jget options ''source'') (JStr ''.env''))) kvs \<and>
     items (jget r ''errors'') = []"
proof -
  let ?s = "jor (jget options ''source'') (JStr ''.env'')"
  have "parse_env_lines ?s 0 (split_lines (str_join [LF] (map env_line kvs))) =
      (map (source_entry ?s) kvs, [])"
  proof (cases kvs)
    case Nil
    then show ?thesis by (simp add: parse_env_line_def str_trim_def)
  next
    case (Cons p ps)
    have "list_all (\<lambda>l. LF \<notin> set l \<and> CR \<notin> set l) (map env_line kvs)"
      using assms env_line_chars by (fastforce simp: list_all_iff)
    then have "split_lines (str_join [LF] (map env_line kvs)) = map env_line kvs"
      using Cons by (intro split_join_lines) simp_all
    then show ?thesis using parse_plain_lines[OF assms] by simp
  qed
  then show ?thesis by (simp add: parseDotEnv_def Let_def)
qed

theorem dotenv_roundtrip_witness:
  "\<exists>r. parseDotEnv (JStr (''PORT=8080'' @ [LF] @ ''GREETING=hello world'')) (JObj []) = Inr r \<and>
     items (jget r ''entries'') = [env_entry ''PORT'' ''8080'' False (JStr ''.env''),
       env_entry ''GREETING'' ''hello world'' False (JStr ''.env'')]"
proof -
  let ?kvs = "[(''PORT'', ''8080''), (''GREETING'', ''hello world'')]"
  have wf: "list_all (\<lambda>(k, v). env_key k \<and> plain_value v) ?kvs" by code_simp
  have shown: "str_join [LF] (map env_line ?kvs) = ''PORT=8080'' @ [LF] @ ''GREETING=hello world''"
    by code_simp
  have es: "map (source_entry (jor (jget (JObj []) ''source'') (JStr ''.env''))) ?kvs =
      [env_entry ''PORT'' ''8080'' False (JStr ''.env''), env_entry ''GREETING'' ''hello world'' False (JStr ''.env'')]"
    by code_simp
  show ?thesis using dotenv_roundtrip[OF wf, of "JObj []"] unfolding shown es by blast
qed

end
