(* ===== verification/StoreSecrets.thy ===== *)
theory StoreSecrets
  imports Store EnvFile
begin

text \<open>
  The secrets and the environment of services in \<open>store.ts\<close>: sealed secrets, the connection secrets
  of a resource, and the variables of a service. Draw 3 is the text of \<open>secureRandomSecret(18)\<close>, draw
  4 the initialisation vector of a sealed value, draws 0 to 2 the generated provider credentials.
\<close>

section \<open>Secrets\<close>

definition draw :: "world \<Rightarrow> nat \<Rightarrow> store \<Rightarrow> string" where
  "draw w k s = wDraw w (length (auditLogs s)) k"

definition publicSecret :: "jsv \<Rightarrow> jsv" where
  "publicSecret row = publicSecretRecord row"

definition same_secret :: "jsv \<Rightarrow> jsv \<Rightarrow> jsv \<Rightarrow> jsv \<Rightarrow> bool" where
  "same_secret scopeType scopeId key row = (strict_eq (jget row ''scopeType'') scopeType \<and>
     strict_eq (jget row ''scopeId'') scopeId \<and> strict_eq (jget row ''key'') key)"

definition secret_row :: "world \<Rightarrow> jsv \<Rightarrow> jsv \<Rightarrow> jsv \<Rightarrow> jsv \<Rightarrow> string \<Rightarrow> jsv \<Rightarrow> jsv \<Rightarrow> jsv \<Rightarrow> jsv" where
  "secret_row w i scopeType scopeId key sealed v metadata createdAt = JObj [(''id'', i), (''scopeType'', scopeType),
     (''scopeId'', scopeId), (''key'', key), (''sealedValue'', JStr sealed), (''valueMasked'', maskSecretValue v),
     (''metadata'', maskSecrets metadata), (''createdAt'', jor createdAt (nowIso (wNow w))),
     (''updatedAt'', nowIso (wNow w))]"

definition createSecret :: "world \<Rightarrow> jsv \<Rightarrow> jsv op" where
  "createSecret w input = (let
     scopeType = jdefault (jget input ''scopeType'') (JStr ''service''); scopeId = jget input ''scopeId'';
     key = jget input ''key''; v = jget input ''value''
   in sbind (sget (\<lambda>s. find_row (same_secret scopeType scopeId key) (secrets s))) (\<lambda>existing.
      sbind (sget (\<lambda>s. jor (jget existing ''id'') (JStr (''sec_'' @ draw w 3 s)))) (\<lambda>i.
      sbind (sget (draw w 4)) (\<lambda>iv.
      sbind (slift (sealSecret (wCrypto w) iv (wEnv w) v (JObj []))) (\<lambda>sealed.
      let row = secret_row w i scopeType scopeId key sealed v (jdefault (jget input ''metadata'') (JObj []))
            (jget existing ''createdAt'')
      in sthen (smod (secrets_update (mput i row)))
         (sthen (audit w (jdefault (jget input ''actorUserId'') system) ''secret:upsert'' scopeType scopeId
            (JObj [(''key'', key), (''secretId'', i)]))
         (sret (publicSecret row))))))))"

definition getSecretValue :: "world \<Rightarrow> jsv \<Rightarrow> jsv op" where
  "getSecretValue w secretId = sbind (sget (\<lambda>s. jget (mget (secrets s) secretId) ''sealedValue'')) (\<lambda>sealed.
     if truthy sealed then slift (rbind (openSecret (wCrypto w) (wEnv w) sealed (JObj [])) (\<lambda>v. Inr (JStr v)))
     else sret JNull)"

section \<open>Provider connections\<close>

definition connection_entries :: "jsv \<Rightarrow> (string \<times> jsv) list" where
  "connection_entries env = filter (\<lambda>(_, v). v \<noteq> JUndef \<and> v \<noteq> JNull \<and> to_str v \<noteq> []) (entries (jor env (JObj [])))"

fun attach_each :: "world \<Rightarrow> (string \<Rightarrow> jsv \<Rightarrow> jsv) \<Rightarrow> jsv \<Rightarrow> (string \<times> jsv) list \<Rightarrow> jsv op" where
  "attach_each w mk first [] = sret first"
| "attach_each w mk first ((key, v) # es) = sbind (createSecret w (mk key v)) (\<lambda>secret.
     attach_each w mk (if truthy first then first else jget secret ''id'') es)"

definition attachProviderConnectionSecrets :: "world \<Rightarrow> jsv \<Rightarrow> jsv op" where
  "attachProviderConnectionSecrets w input = (let
     resourceId = jget input ''resourceId''; env = jdefault (jget input ''env'') (JObj []);
     actorUserId = jdefault (jget input ''actorUserId'') (JStr ''provider'');
     live = jdefault (jget input ''live'') (JBool False);
     providerMode = jdefault (jget input ''providerMode'') (JStr ''provider-contract'');
     mk = (\<lambda>key v. JObj [(''scopeType'', JStr ''resource-provider-connection''), (''scopeId'', resourceId),
       (''key'', JStr key), (''value'', JStr (to_str v)), (''actorUserId'', actorUserId),
       (''metadata'', JObj [(''providerOwned'', JBool True), (''live'', JBool (live = JBool True)),
          (''providerMode'', providerMode)])])
   in sbind (sfind resources ''resource'' resourceId) (\<lambda>resource.
      if connection_entries env = [] then slift (js_throw ''provider connection env is required'')
      else sbind (attach_each w mk (jor (jget resource ''connectionSecretName'') JNull) (connection_entries env)) (\<lambda>first.
        let nxt = jwith resource [(''connectionSecretName'', first), (''updatedAt'', nowIso (wNow w))]
        in sthen (smod (resources_update (mput resourceId nxt)))
           (sthen (audit w actorUserId ''resource.provider-connection:attach'' (JStr ''resource'') resourceId
             (JObj [(''connectionSecretName'', first), (''envKeys'', JArr (map (\<lambda>(k, _). JStr k) (connection_entries env))),
               (''providerMode'', providerMode)]))
           (sret (deep_clone nxt))))))"

definition attachProviderConnectionSecret :: "world \<Rightarrow> jsv \<Rightarrow> jsv op" where
  "attachProviderConnectionSecret w input = (let
     v = jor (jget input ''databaseUrl'') (jget input ''connectionUrl'');
     live = jdefault (jget input ''live'') (JBool True)
   in if \<not> truthy v then slift (js_throw ''provider connection URL is required'')
      else attachProviderConnectionSecrets w (JObj [(''resourceId'', jget input ''resourceId''),
        (''env'', JObj [(to_str (jdefault (jget input ''key'') (JStr ''DATABASE_URL'')), v)]),
        (''actorUserId'', jdefault (jget input ''actorUserId'') (JStr ''provider'')), (''live'', live),
        (''providerMode'', JStr (if live = JBool False then ''provider-contract'' else ''live-provider''))]))"

section \<open>The environment of a service\<close>

definition service_of_project :: "jsv \<Rightarrow> jsv \<Rightarrow> jsv op" where
  "service_of_project projectId serviceId = sbind (sfind services ''service'' serviceId) (\<lambda>service.
     slift (if same_text (jget service ''projectId'') projectId then Inr service
            else forbidden ''service does not belong to project''))"

definition env_id :: "jsv \<Rightarrow> jsv \<Rightarrow> jsv" where
  "env_id serviceId key = JStr (stableId ''env'' [serviceId, key])"

definition env_row :: "world \<Rightarrow> jsv \<Rightarrow> jsv \<Rightarrow> jsv \<Rightarrow> jsv \<Rightarrow> jsv \<Rightarrow> jsv" where
  "env_row w projectId serviceId source entry secretId = (let b = truthy (jget entry ''isSecret'') in JObj [
     (''id'', env_id serviceId (jget entry ''key'')), (''projectId'', projectId), (''serviceId'', serviceId),
     (''key'', jget entry ''key''), (''value'', if b then JNull else jget entry ''value''),
     (''isSecret'', jget entry ''isSecret''), (''secretId'', secretId), (''valueMasked'', jget entry ''valueMasked''),
     (''source'', jor (jget entry ''source'') source), (''updatedAt'', nowIso (wNow w))])"

fun upsert_each :: "world \<Rightarrow> jsv \<Rightarrow> jsv \<Rightarrow> jsv \<Rightarrow> jsv \<Rightarrow> jsv \<Rightarrow> jsv list \<Rightarrow> (jsv \<times> jsv list) op" where
  "upsert_each w projectId serviceId actor source environment [] = sret (environment, [])"
| "upsert_each w projectId serviceId actor source environment (entry # es) =
     sbind (if truthy (jget entry ''isSecret'')
        then sbind (createSecret w (JObj [(''scopeType'', JStr ''service''), (''scopeId'', serviceId),
            (''key'', jget entry ''key''), (''value'', jget entry ''value''), (''actorUserId'', actor),
            (''metadata'', JObj [(''source'', jget entry ''source'')])])) (\<lambda>secret. sret (jget secret ''id''))
        else sret JNull) (\<lambda>secretId.
     let env' = jset environment (to_str (jget entry ''key''))
           (if truthy (jget entry ''isSecret'') then JStr (''secret:'' @ to_str secretId) else jget entry ''value'');
         row = env_row w projectId serviceId source entry secretId
     in sthen (smod (environmentVariables_update (mput (jget row ''id'') row)))
        (sbind (upsert_each w projectId serviceId actor source env' es) (\<lambda>(environment', rows).
           sret (environment', row # rows))))"

definition env_summary :: "jsv \<Rightarrow> jsv list \<Rightarrow> jsv res" where
  "env_summary serviceId rows = rbind (maskEnvEntries rows) (\<lambda>masked. Inr (JObj [
     (''serviceId'', serviceId), (''entries'', JArr masked),
     (''plainCount'', jnat (count_secret False rows)), (''secretCount'', jnat (count_secret True rows))]))"

definition upsertServiceEnvironment :: "world \<Rightarrow> jsv \<Rightarrow> jsv op" where
  "upsertServiceEnvironment w input = (let
     projectId = jget input ''projectId''; serviceId = jget input ''serviceId'';
     actor = jdefault (jget input ''actorUserId'') system; source = jdefault (jget input ''source'') (JStr ''api'')
   in sbind (service_of_project projectId serviceId) (\<lambda>service.
      sbind (slift (normalizeEnvEntries (jget input ''entries'') (JObj [(''source'', source)]))) (\<lambda>normalized.
      sbind (upsert_each w projectId serviceId actor source
          (JObj (entries (jor (jget service ''environment'') (JObj [])))) normalized) (\<lambda>(environment, rows).
      sthen (updateService w serviceId (JObj [(''environment'', environment)]))
      (sthen (audit w actor ''service.env:upsert'' (JStr ''service'') serviceId
         (JObj [(''keys'', JArr (map (\<lambda>e. jget e ''key'') normalized)), (''source'', source)]))
      (slift (env_summary serviceId rows)))))))"

definition importServiceEnvFile :: "world \<Rightarrow> jsv \<Rightarrow> jsv op" where
  "importServiceEnvFile w input = (let source = jdefault (jget input ''source'') (JStr ''.env'') in
     sbind (slift (parseDotEnv (JStr (to_str (jor (jget input ''content'') (JStr [])))) (JObj [(''source'', source)]))) (\<lambda>parsed.
     sbind (upsertServiceEnvironment w (JObj [(''projectId'', jget input ''projectId''),
        (''serviceId'', jget input ''serviceId''), (''entries'', jget parsed ''entries''),
        (''actorUserId'', jdefault (jget input ''actorUserId'') system), (''source'', source)])) (\<lambda>result.
     sret (jwith result [(''source'', source), (''parsed'', JObj [(''plainCount'', jget parsed ''plainCount''),
        (''secretCount'', jget parsed ''secretCount''), (''errors'', jget parsed ''errors'')])]))))"

definition listServiceEnvironment :: "jsv \<Rightarrow> jsv op" where
  "listServiceEnvironment input = (let serviceId = jget input ''serviceId'' in
     sbind (service_of_project (jget input ''projectId'') serviceId) (\<lambda>service.
     sbind (sget (\<lambda>s. filter (\<lambda>row. same_text (jget row ''serviceId'') serviceId) (mvalues (environmentVariables s)))) (\<lambda>rows.
     slift (env_summary serviceId rows))))"

end
