(* ===== verification/StoreResources.thy ===== *)
theory StoreResources
  imports StoreSecrets
begin

text \<open>
  Managed resources in \<open>store.ts\<close>: creation, update and deletion, attachment to a service, live or
  dry provisioning (awaited, and read here as one step), and the deletion of services and projects
  with what belongs to them.
\<close>

section \<open>Creation and update\<close>

definition resource_env :: "world \<Rightarrow> jsv \<Rightarrow> jsv op" where
  "resource_env w resource = (\<lambda>s. (providerConnectionEnvForResource (wEnv w) (wCwd w) (\<lambda>k. draw w k s) resource (JObj []), s))"

definition attach_contract :: "world \<Rightarrow> jsv \<Rightarrow> jsv \<Rightarrow> jsv op" where
  "attach_contract w resourceId resource = sbind (resource_env w resource) (\<lambda>env.
     attachProviderConnectionSecrets w (JObj [(''resourceId'', resourceId), (''env'', env), (''actorUserId'', system),
       (''live'', JBool False), (''providerMode'', JStr ''provider-contract'')]))"

definition resource_record :: "world \<Rightarrow> jsv \<Rightarrow> jsv" where
  "resource_record w input = (let
     provider = jdefault (jget input ''provider'') (JStr ''shared-provider'');
     plan = jdefault (jget input ''plan'') (JStr ''shared-small''); region = jdefault (jget input ''region'') (JStr ''local'');
     status = jdefault (jget input ''status'') (JStr ''provisioning'');
     rest = jrest input [''projectId'', ''name'', ''type'', ''engine'', ''provider'', ''plan'', ''region'', ''status''];
     safe = sanitizeTenantResourceInput (jspread (JObj [(''projectId'', jget input ''projectId''), (''name'', jget input ''name''),
       (''type'', jdefault (jget input ''type'') (JStr ''database'')), (''engine'', jget input ''engine''),
       (''provider'', provider), (''plan'', plan), (''region'', region), (''status'', status)]) rest);
     engine = normalizeResourceEngine (jor (jget safe ''engine'') (jget safe ''type''));
     i = JStr (stableId ''res'' [jget safe ''projectId'', jget safe ''name'']);
     sqlitePath = (if engine = ''sqlite'' then JStr (providerOwnedSqlitePath (wCwd w) i) else JNull);
     spec = JObj (entries (jor (jget safe ''desiredSpec'') (JObj [])));
     desiredSpec = jset_if (truthy sqlitePath) ''sqlitePath'' sqlitePath spec;
     desiredState = jwith safe [(''engine'', JStr engine), (''desiredSpec'', desiredSpec), (''sqlitePath'', jor sqlitePath JUndef)]
   in jwith (jspread (JObj [(''id'', i), (''projectId'', jget safe ''projectId''),
       (''type'', jor (jget safe ''type'') (JStr (resourceTypeForEngine engine))), (''name'', jget safe ''name''),
       (''slug'', JStr (slugify (jor (jget safe ''slug'') (jget safe ''name'')) ''item'')), (''engine'', JStr engine),
       (''provider'', jor (jget safe ''provider'') provider), (''status'', jor (jget safe ''status'') status),
       (''plan'', jor (jget safe ''plan'') plan), (''region'', jor (jget safe ''region'') region),
       (''createdAt'', nowIso (wNow w)), (''updatedAt'', nowIso (wNow w))]) safe)
     [(''desiredSpec'', desiredSpec), (''desiredState'', desiredState), (''sqlitePath'', jor sqlitePath JUndef)])"

definition createResource :: "world \<Rightarrow> jsv \<Rightarrow> jsv op" where
  "createResource w input = (let resource = resource_record w input; i = jget resource ''id'' in
     sthen (smod (resources_update (mput i resource)))
     (sthen (attach_contract w i resource)
     (sthen (audit w system ''resource:create'' (JStr ''resource'') i (JObj [(''projectId'', jget resource ''projectId''),
        (''engine'', jget resource ''engine''), (''provider'', jget resource ''provider'')]))
     (sget (\<lambda>s. deep_clone (mget (resources s) i))))))"

definition getResource :: "jsv \<Rightarrow> jsv op" where
  "getResource resourceId = sget (\<lambda>s. row_or_null (mget (resources s) resourceId))"

definition resource_update :: "world \<Rightarrow> jsv \<Rightarrow> jsv \<Rightarrow> jsv \<Rightarrow> jsv" where
  "resource_update w resourceId current updates = (let
     safe = sanitizeTenantResourceInput (jwith updates [(''projectId'', jget current ''projectId''),
       (''name'', jor (jget updates ''name'') (jget current ''name'')),
       (''engine'', jor (jget updates ''engine'') (jget current ''engine'')),
       (''type'', jor (jget updates ''type'') (jget current ''type''))]);
     engine = normalizeResourceEngine (jor (jget safe ''engine'') (jget current ''engine''));
     sqlitePath = (if engine = ''sqlite''
       then jor (jget current ''sqlitePath'') (JStr (providerOwnedSqlitePath (wCwd w) resourceId)) else JUndef);
     spec = jspread (JObj (entries (jor (jget current ''desiredSpec'') (JObj [])))) (jor (jget safe ''desiredSpec'') (JObj []));
     desiredSpec = jset_if (truthy sqlitePath) ''sqlitePath'' sqlitePath spec;
     state = jspread (JObj (entries (jor (jget current ''desiredState'') (JObj [])))) safe
   in jwith (jspread current safe) [(''engine'', JStr engine),
       (''slug'', if truthy (jget safe ''slug'') then JStr (slugify (jget safe ''slug'') ''item'')
          else if truthy (jget safe ''name'') then JStr (slugify (jget safe ''name'') ''item'') else jget current ''slug''),
       (''desiredSpec'', desiredSpec),
       (''desiredState'', jwith state [(''desiredSpec'', desiredSpec), (''sqlitePath'', sqlitePath)]),
       (''sqlitePath'', sqlitePath), (''updatedAt'', nowIso (wNow w))])"

definition updateResource :: "world \<Rightarrow> jsv \<Rightarrow> jsv \<Rightarrow> jsv op" where
  "updateResource w resourceId updates = sbind (sget (\<lambda>s. mget (resources s) resourceId)) (\<lambda>current.
     if \<not> truthy current then sret JNull
     else (let nxt = resource_update w resourceId current updates in
       sthen (smod (resources_update (mput resourceId nxt)))
       (sthen (if list_ex (\<lambda>k. truthy (jget updates k)) [''engine'', ''name'', ''provider'', ''desiredSpec'']
               then attach_contract w resourceId nxt else sret JNull)
       (sthen (audit w system ''resource:update'' (JStr ''resource'') resourceId (maskSecrets updates))
       (sget (\<lambda>s. deep_clone (mget (resources s) resourceId)))))))"

section \<open>Attachment to a service\<close>

definition open_connection :: "world \<Rightarrow> jsv \<Rightarrow> jsv \<times> bool \<Rightarrow> jsv \<Rightarrow> (jsv \<times> bool) res" where
  "open_connection w resourceId acc secret = (case acc of (env, live) \<Rightarrow>
     if \<not> isProviderConnectionSecret secret resourceId then Inr (env, live)
     else rbind (if truthy (jget secret ''sealedValue'')
         then rbind (openSecret (wCrypto w) (wEnv w) (jget secret ''sealedValue'') (JObj [])) (\<lambda>v.
           Inr (jset env (to_str (jget secret ''key'')) (JStr v)))
         else Inr env) (\<lambda>env'.
       Inr (env', live \<or> jget (jget secret ''metadata'') ''live'' = JBool True)))"

definition resourceForConsole :: "world \<Rightarrow> jsv \<Rightarrow> jsv op" where
  "resourceForConsole w resource = sbind (sget (\<lambda>s. mvalues (secrets s))) (\<lambda>rows.
     slift (rbind (res_fold (open_connection w (jget resource ''id'')) (JObj [], False) rows) (\<lambda>(env, live).
       Inr (if entries env = [] then resource
            else jwith resource [(''providerConnection'', providerConnectionFromEnv env (jget resource ''engine'') live)]))))"

definition attach_env :: "world \<Rightarrow> jsv \<Rightarrow> jsv \<Rightarrow> jsv op" where
  "attach_env w resource envPrefix = sbind (resourceForConsole w resource) (\<lambda>view. \<lambda>s.
     (rbind (providerEnvFromConnection (wEnv w) (wCwd w) (\<lambda>k. draw w k s) view resource) (\<lambda>env.
        Inr (prefixEnv env envPrefix)), s))"

definition resource_source :: "jsv \<Rightarrow> jsv" where
  "resource_source resourceId = JStr (''resource:'' @ to_str resourceId)"

definition put_attachment :: "jsv \<Rightarrow> jsv \<Rightarrow> jsv \<Rightarrow> jsv op" where
  "put_attachment resourceId serviceId row = sbind (sget resourceAttachments) (\<lambda>rows.
     case first_index (\<lambda>c. same_text (jget c ''resourceId'') resourceId \<and> same_text (jget c ''serviceId'') serviceId) rows of
       None \<Rightarrow> sthen (smod (resourceAttachments_update (\<lambda>rs. rs @ [row]))) (sret row)
     | Some i \<Rightarrow> (let row' = jwith (jspread (rows ! i) row)
             [(''createdAt'', jor (jget (rows ! i) ''createdAt'') (jget row ''createdAt''))]
         in sthen (smod (resourceAttachments_update (\<lambda>rs. rs[i := row']))) (sret row')))"

definition attachResource :: "world \<Rightarrow> jsv \<Rightarrow> jsv op" where
  "attachResource w input = (let
     resourceId = jget input ''resourceId''; serviceId = jget input ''serviceId'';
     envPrefix = jdefault (jget input ''envPrefix'') JNull; actor = jdefault (jget input ''actorUserId'') system
   in sbind (sfind resources ''resource'' resourceId) (\<lambda>resource.
      sbind (sfind services ''service'' serviceId) (\<lambda>service.
      sthen (slift (if strict_eq (jget resource ''projectId'') (jget service ''projectId'') then Inr ()
         else forbidden ''resource and service must be in the same project''))
      (sbind (attach_env w resource envPrefix) (\<lambda>injectedEnv.
      sbind (put_attachment resourceId serviceId (JObj [(''id'', JStr (stableId ''attach'' [resourceId, serviceId])),
         (''resourceId'', resourceId), (''serviceId'', serviceId), (''envPrefix'', envPrefix),
         (''injectedEnv'', maskSecrets injectedEnv), (''createdAt'', nowIso (wNow w)), (''updatedAt'', nowIso (wNow w))])) (\<lambda>row.
      sthen (upsertServiceEnvironment w (JObj [(''projectId'', jget service ''projectId''), (''serviceId'', serviceId),
         (''entries'', JArr (map (\<lambda>(key, v). JObj [(''key'', JStr key), (''value'', JStr (to_str v)),
            (''isSecret'', JBool True), (''source'', resource_source resourceId)]) (entries injectedEnv))),
         (''actorUserId'', actor), (''source'', resource_source resourceId)]))
      (sthen (audit w actor ''resource:attach'' (JStr ''service'') serviceId (JObj [(''resourceId'', resourceId),
         (''envPrefix'', envPrefix), (''envKeys'', JArr (map (\<lambda>(k, _). JStr k) (entries injectedEnv)))]))
      (sret (deep_clone row)))))))))"

section \<open>Deletion\<close>

fun remove_keys :: "jsv \<Rightarrow> jsv \<Rightarrow> jsv \<Rightarrow> string list \<Rightarrow> jsv op" where
  "remove_keys serviceId resourceId environment [] = sret environment"
| "remove_keys serviceId resourceId environment (key # ks) = (let i = env_id serviceId (JStr key) in
     sbind (sget (\<lambda>s. mget (environmentVariables s) i)) (\<lambda>row.
     if jget row ''source'' \<noteq> resource_source resourceId then remove_keys serviceId resourceId environment ks
     else (let secretId = jor (jget row ''secretRef'') (jget row ''secretId'') in
       sthen (swhen (truthy secretId) (smod (secrets_update (mdrop secretId))))
       (sthen (smod (environmentVariables_update (mdrop i)))
       (remove_keys serviceId resourceId (jdelete environment key) ks)))))"

definition removeResourceInjectedEnvironment :: "world \<Rightarrow> jsv \<Rightarrow> unit op" where
  "removeResourceInjectedEnvironment w attachment = (let serviceId = jget attachment ''serviceId'' in
     sbind (sget (\<lambda>s. mget (services s) serviceId)) (\<lambda>service.
     sbind (remove_keys serviceId (jget attachment ''resourceId'')
        (JObj (entries (jor (jget service ''environment'') (JObj []))))
        (map fst (entries (jor (jget attachment ''injectedEnv'') (JObj []))))) (\<lambda>environment.
     swhen (truthy service) (smod (services_update (mput (jget service ''id'')
        (jwith service [(''environment'', environment), (''updatedAt'', nowIso (wNow w))])))))))"

definition deleteResource :: "world \<Rightarrow> jsv \<Rightarrow> jsv op" where
  "deleteResource w resourceId = sbind (sget (\<lambda>s. mget (resources s) resourceId)) (\<lambda>current.
     if \<not> truthy current then sret JNull
     else sbind (sget (\<lambda>s. filter (\<lambda>row. same_text (jget row ''resourceId'') resourceId) (resourceAttachments s))) (\<lambda>attachments.
       sthen (sfor (removeResourceInjectedEnvironment w) attachments)
       (sthen (smod (resourceAttachments_update (filter (\<lambda>row. \<not> same_text (jget row ''resourceId'') resourceId))))
       (sthen (smod (secrets_update (filter (\<lambda>(_, secret). \<not> (jget secret ''scopeType'' = JStr ''resource-provider-connection'' \<and>
           same_text (jget secret ''scopeId'') resourceId)))))
       (sthen (smod (resources_update (mdrop resourceId)))
       (sthen (audit w system ''resource:delete'' (JStr ''resource'') resourceId
          (JObj [(''projectId'', jget current ''projectId''), (''engine'', jget current ''engine'')]))
       (sret (deep_clone current))))))))"

definition of_service :: "jsv \<Rightarrow> jsv \<Rightarrow> bool" where
  "of_service serviceId row = same_text (jget row ''serviceId'') serviceId"

definition deleteService :: "world \<Rightarrow> jsv \<Rightarrow> jsv op" where
  "deleteService w serviceId = sbind (sget (\<lambda>s. mget (services s) serviceId)) (\<lambda>current.
     if \<not> truthy current then sret JNull
     else sbind (sget (\<lambda>s. map (\<lambda>d. to_str (jget d ''id'')) (filter (of_service serviceId) (mvalues (deployments s))))) (\<lambda>ids.
       let other = (\<lambda>row. to_str (jget row ''deploymentId'') \<notin> set ids) in
       sthen (smod (deployments_update (filter (\<lambda>(k, _). k \<notin> JStr ` set ids))))
       (sthen (smod (buildLogs_update (filter other)))
       (sthen (smod (deploymentEvents_update (filter other)))
       (sthen (smod (runtimeLogs_update (filter (\<lambda>row. \<not> of_service serviceId row))))
       (sthen (smod (environmentVariables_update (filter (\<lambda>(_, row). \<not> of_service serviceId row))))
       (sthen (smod (resourceAttachments_update (filter (\<lambda>row. \<not> of_service serviceId row))))
       (sthen (smod (services_update (mdrop serviceId)))
       (sthen (audit w system ''service:delete'' (JStr ''service'') serviceId (JObj [(''projectId'', jget current ''projectId'')]))
       (sret (deep_clone current)))))))))))"

definition of_project :: "jsv \<Rightarrow> jsv \<Rightarrow> bool" where
  "of_project projectId row = same_text (jget row ''projectId'') projectId"

definition deleteProject :: "world \<Rightarrow> jsv \<Rightarrow> jsv op" where
  "deleteProject w projectId = sbind (sget (\<lambda>s. mget (projects s) projectId)) (\<lambda>current.
     if \<not> truthy current then sret JNull
     else sbind (sget (\<lambda>s. filter (of_project projectId) (mvalues (services s)))) (\<lambda>svcs.
       sthen (sfor (\<lambda>service. deleteService w (jget service ''id'')) svcs)
       (sbind (sget (\<lambda>s. filter (of_project projectId) (mvalues (resources s)))) (\<lambda>rs.
       sthen (sfor (\<lambda>resource. deleteResource w (jget resource ''id'')) rs)
       (sthen (smod (projects_update (mdrop projectId)))
       (sthen (audit w system ''project:delete'' (JStr ''project'') projectId
          (JObj [(''organizationId'', jget current ''organizationId'')]))
       (sret (deep_clone current))))))))"

section \<open>Provisioning\<close>

definition storeProvisionResourceProvider :: "world \<Rightarrow> jsv \<Rightarrow> jsv op" where
  "storeProvisionResourceProvider w input = (let
     resourceId = jget input ''resourceId''; actor = jdefault (jget input ''actorUserId'') (JStr ''provider'');
     options = jrest input [''resourceId'', ''actorUserId'']
   in sbind (sfind resources ''resource'' resourceId) (\<lambda>resource.
      sbind (\<lambda>s. (provisionResourceProvider (wProcess w) (wEnv w) (wCwd w) (\<lambda>k. draw w k s) resource options, s)) (\<lambda>result.
      sbind (if truthy (prConnectionEnv result) then sret (prConnectionEnv result) else resource_env w resource) (\<lambda>env.
      let view = prView result; dryRun = jget view ''dryRun'' in
      sbind (attachProviderConnectionSecrets w (JObj [(''resourceId'', resourceId), (''env'', env), (''actorUserId'', actor),
         (''live'', JBool (dryRun \<noteq> JBool True)),
         (''providerMode'', JStr (if truthy dryRun then ''provider-contract'' else ''live-provider''))])) (\<lambda>attached.
      let nxt = jwith attached [(''status'', JStr ''ready''), (''provider'', jget view ''provider''),
            (''desiredState'', jwith (JObj (entries (jor (jget attached ''desiredState'') (JObj []))))
               [(''providerResult'', jget view ''plan'')]), (''updatedAt'', nowIso (wNow w))]
      in sthen (smod (resources_update (mput resourceId nxt)))
         (sthen (audit w actor ''resource.provider:provision'' (JStr ''resource'') resourceId (JObj [
            (''engine'', jget view ''engine''), (''provider'', jget view ''provider''), (''dryRun'', dryRun),
            (''connectionSecret'', jget view ''connectionSecret'')]))
         (sret (JObj [(''resource'', deep_clone nxt),
            (''result'', maskSecrets (jwith view [(''databaseUrl'', JUndef), (''connectionEnv'', JUndef)]))]))))))))"

section \<open>The audit trail\<close>

lemma audited_attach_each: "keeps audited (createSecret w x)" "keeps audited (attach_each w mk f0 es)"
proof -
  show s: "keeps audited (createSecret w x)" for x
    unfolding createSecret_def by (intro audited_intros; simp)
  show "keeps audited (attach_each w mk f0 es)"
    by (induction es arbitrary: f0) (auto intro!: audited_intros s)
qed

lemma audited_connections:
  "keeps audited (attachProviderConnectionSecrets w x)" "keeps audited (getSecretValue w i)"
  unfolding attachProviderConnectionSecrets_def getSecretValue_def
  by (intro audited_intros audited_attach_each; simp)+

lemma audited_connection: "keeps audited (attachProviderConnectionSecret w x)"
  unfolding attachProviderConnectionSecret_def
  by (intro audited_intros audited_connections)

lemma audited_upsert_each: "keeps audited (upsert_each w p s a src env es)"
  by (induction es arbitrary: env) (auto intro!: audited_intros audited_attach_each simp: Let_def)

lemma audited_environment:
  "keeps audited (upsertServiceEnvironment w x)" "keeps audited (listServiceEnvironment x)"
  unfolding upsertServiceEnvironment_def listServiceEnvironment_def service_of_project_def
  by (intro audited_intros audited_upsert_each audited_base; simp)+

lemma audited_import: "keeps audited (importServiceEnvFile w x)"
  unfolding importServiceEnvFile_def by (intro audited_intros audited_environment)

lemma audited_reads: "keeps audited (resource_env w r)" "keeps audited (resourceForConsole w r)" "keeps audited (attach_env w r p)"
proof -
  show "keeps audited (resource_env w r)" by (simp add: resource_env_def keeps_def audited_def)
  show c: "keeps audited (resourceForConsole w r)"
    unfolding resourceForConsole_def by (intro audited_intros)
  show "keeps audited (attach_env w r p)"
    unfolding attach_env_def by (intro audited_intros c) (simp add: keeps_def audited_def)
qed

lemma audited_resources:
  "keeps audited (createResource w x)" "keeps audited (getResource x)" "keeps audited (updateResource w i x)"
  unfolding createResource_def getResource_def updateResource_def attach_contract_def
  by (intro audited_intros audited_connections audited_reads; simp)+

lemma audited_attach: "keeps audited (attachResource w x)"
  unfolding attachResource_def put_attachment_def
  by (intro audited_intros audited_environment audited_reads; simp)

lemma audited_remove: "keeps audited (remove_keys s r env ks)"
  by (induction ks arbitrary: env) (auto intro!: audited_intros simp: Let_def)

lemma audited_deletes: "keeps audited (deleteResource w x)" "keeps audited (deleteService w x)"
  unfolding deleteResource_def deleteService_def removeResourceInjectedEnvironment_def
  by (intro audited_intros audited_remove; simp)+

lemma audited_delete_project: "keeps audited (deleteProject w x)"
  unfolding deleteProject_def by (intro audited_intros audited_deletes; simp)

lemma audited_provision: "keeps audited (storeProvisionResourceProvider w x)"
  unfolding storeProvisionResourceProvider_def
  by (intro audited_intros audited_connections audited_reads; simp add: keeps_def audited_def)

end
