(* ===== verification/SqlPolicy.thy ===== *)
theory SqlPolicy
  imports ResourceSanitizer Providers
begin

text \<open>
  The statement policies of the database console in \<open>db-console.ts\<close>: the scanner that blanks quoted
  text and comments before the SQLite policy looks for statements that reach the file system, the
  limits added to a \<open>SELECT\<close>, and the quoting of table names.
\<close>

section \<open>Blanking quoted text and comments\<close>

text \<open>The text after the end of a block comment, as the inner loop leaves it.\<close>

fun after_block :: "string \<Rightarrow> string" where
  "after_block [] = []"
| "after_block (c # cs) = (if c = CHR ''*'' \<and> starts_with cs ''/'' then tl cs else after_block cs)"

lemma after_block_length: "length (after_block s) \<le> length s"
  by (induction s) (auto simp: le_SucI)

definition sql_quotes :: string where
  "sql_quotes = [CHR 0x27, CHR 0x22, CHR 0x60]"

text \<open>The loop of \<open>normalizeSqlForPolicy\<close>; the first argument is the variable \<open>quote\<close>.\<close>

function scan_sql :: "char option \<Rightarrow> string \<Rightarrow> string" where
  "scan_sql quote [] = []"
| "scan_sql (Some q) (c # cs) = CHR '' '' #
     (if c = q \<and> starts_with cs [q] \<and> q \<noteq> CHR '']'' then scan_sql (Some q) (tl cs)
      else if c = q then scan_sql None cs else scan_sql (Some q) cs)"
| "scan_sql None (c # cs) =
     (if c = CHR ''-'' \<and> starts_with cs ''-'' then CHR '' '' # scan_sql None (tl (dropWhile (\<lambda>d. d \<noteq> CHR 0x0A) cs))
      else if c = CHR ''/'' \<and> starts_with cs ''*'' then CHR '' '' # scan_sql None (after_block (tl cs))
      else if c \<in> set sql_quotes then CHR '' '' # scan_sql (Some c) cs
      else if c = CHR ''['' then CHR '' '' # scan_sql (Some CHR '']'') cs
      else c # scan_sql None cs)"
  by pat_completeness auto
termination
proof (relation "measure (\<lambda>(_, s). length s)")
  fix c cs
  have "length (dropWhile (\<lambda>d. d \<noteq> CHR 0x0A) cs) \<le> length cs" by (rule length_dropWhile_le)
  then show "((None, tl (dropWhile (\<lambda>d. d \<noteq> CHR 0x0A) cs)), (None, c # cs)) \<in> measure (\<lambda>(_, s). length s)"
    by simp
  have "length (after_block (tl cs)) \<le> length (tl cs)" by (rule after_block_length)
  then show "((None, after_block (tl cs)), (None, c # cs)) \<in> measure (\<lambda>(_, s). length s)"
    by simp
qed simp_all

record policy_sql =
  spaced :: string
  compact :: string

definition normalizeSqlForPolicy :: "jsv \<Rightarrow> policy_sql" where
  "normalizeSqlForPolicy query = (let output = scan_sql None (to_str (jor query (JStr []))) in
     \<lparr>spaced = str_upper (str_trim (rreplace (RPlus RSpace) (\<lambda>_. '' '') output)),
      compact = str_upper (str_trim (rreplace (RPlus RSpace) (\<lambda>_. []) output))\<rparr>)"

section \<open>The SQLite policy\<close>

definition ATTACH_RE :: rx where
  "ATTACH_RE = RSeqs [RWordB, RAlts (map RLit [''ATTACH'', ''DETACH'']), RWordB]"

definition not_newline :: "char \<Rightarrow> bool" where
  "not_newline c = (c \<noteq> CHR 0x0A \<and> c \<noteq> CHR 0x0D)"

definition VACUUM_RE :: rx where
  "VACUUM_RE = RSeqs [RWordB, RLit ''VACUUM'', RWordB, RPlus (RCls not_newline), RWordB, RLit ''INTO'', RWordB]"

definition PRAGMA_RE :: rx where
  "PRAGMA_RE = RSeqs [RBol, RLit ''PRAGMA'',
     ROpt (RSeqs [RCls (\<lambda>c. is_upper c \<or> c = CHR ''_''), RStar (RCls (\<lambda>c. is_upper c \<or> is_digit c \<or> c = CHR ''_'')), RChr CHR ''.'']),
     RAlts (map RLit [''WRITABLE_SCHEMA'', ''JOURNAL_MODE'', ''TEMP_STORE_DIRECTORY'', ''DATA_STORE_DIRECTORY'', ''TRUSTED_SCHEMA'']),
     RAlts [RWordB, RChr CHR ''='', RChr CHR ''('', RChr CHR '';'', REol]]"

definition sqlite_blocked :: "jsv \<Rightarrow> bool" where
  "sqlite_blocked query = (let policySql = normalizeSqlForPolicy query in
     rtest ATTACH_RE (spaced policySql) \<or> rtest VACUUM_RE (spaced policySql) \<or>
     str_includes (compact policySql) ''LOAD_EXTENSION('' \<or> rtest PRAGMA_RE (compact policySql))"

definition assertSqliteStatementAllowed :: "jsv \<Rightarrow> unit res" where
  "assertSqliteStatementAllowed query = (if \<not> sqlite_blocked query then Inr ()
     else js_throw_status 403 ''sqlite console statement is blocked by filesystem safety policy'')"

section \<open>Limits and identifiers\<close>

definition clampNumber :: "jsv \<Rightarrow> int \<Rightarrow> int \<Rightarrow> int \<Rightarrow> jnum" where
  "clampNumber v lo hi defaultValue = (let number = to_num v in
     if \<not> is_finite number then Fin (of_int defaultValue)
     else num_min (Fin (of_int hi)) (num_max (Fin (of_int lo)) number))"

definition SELECT_RE :: rx where
  "SELECT_RE = RSeqs [RBol, RLitI ''SELECT'', RWordB]"

definition limitSqlQuery :: "string \<Rightarrow> jsv \<Rightarrow> string" where
  "limitSqlQuery query maximum = (
     if rtest (RSeqs [RWordB, RLitI ''LIMIT'', RPlus RSpace, RPlus (RCls is_digit), RWordB]) query then query
     else if \<not> rtest SELECT_RE query then query
     else query @ '' LIMIT '' @ num_str (clampNumber maximum 1 500 100))"

definition drop_semicolon :: "string \<Rightarrow> string" where
  "drop_semicolon s = rreplace1 (RSeqs [RChr CHR '';'', REol]) (\<lambda>_. []) s"

text \<open>The limit that \<open>runSqlite\<close> adds itself.\<close>

definition sqlite_limited :: "string \<Rightarrow> jsv \<Rightarrow> string" where
  "sqlite_limited s maximum = (if rtest (RSeqs [RWordB, RLitI ''LIMIT'', RWordB]) s then drop_semicolon s
     else drop_semicolon s @ '' LIMIT '' @ num_str (num_min (to_num (jor maximum (jint 100))) (Fin 500)))"

definition ident_first :: "char \<Rightarrow> bool" where
  "ident_first c = (is_upper c \<or> is_lower c \<or> c = CHR ''_'')"

definition ident_char :: "char \<Rightarrow> bool" where
  "ident_char c = (ident_first c \<or> is_digit c \<or> c = CHR ''-'')"

definition IDENT_RE :: rx where
  "IDENT_RE = RSeqs [RBol, RCls ident_first, RStar (RCls ident_char), REol]"

definition quote_part :: "char \<Rightarrow> string \<Rightarrow> string res" where
  "quote_part q name = (if \<not> rtest IDENT_RE name then js_throw ''invalid table identifier''
     else Inr (quote_with q name))"

definition quoteSqlIdentifier :: "string \<Rightarrow> string \<Rightarrow> string res" where
  "quoteSqlIdentifier identifier engine = (let
     parts = filter (\<lambda>p. p \<noteq> []) (map str_trim (str_split CHR ''.'' identifier));
     q = (if engine = ''mysql'' then CHR 0x60 else CHR 0x22)
   in if parts = [] \<or> length parts > 2 then js_throw ''invalid table identifier''
      else rbind (res_map (quote_part q) parts) (\<lambda>quoted. Inr (str_join ''.'' quoted)))"

section \<open>The scanner against the pieces of a statement\<close>

text \<open>A statement as the pieces it is written in; a quote inside quoted text is doubled.\<close>

datatype sql_piece = Plain char | Quoted char string | LineNote string | BlockNote string

definition closing :: "char \<Rightarrow> char" where
  "closing q = (if q = CHR ''['' then CHR '']'' else q)"

definition quoted_body :: "char \<Rightarrow> string \<Rightarrow> string" where
  "quoted_body q b = concat (map (\<lambda>c. if c = q \<and> q \<noteq> CHR '']'' then [c, c] else [c]) b)"

primrec piece_text :: "sql_piece \<Rightarrow> string" where
  "piece_text (Plain c) = [c]"
| "piece_text (Quoted q b) = q # quoted_body (closing q) b @ [closing q]"
| "piece_text (LineNote b) = ''--'' @ b @ [CHR 0x0A]"
| "piece_text (BlockNote b) = ''/*'' @ b @ ''*/''"

primrec piece_blank :: "sql_piece \<Rightarrow> string" where
  "piece_blank (Plain c) = [c]"
| "piece_blank (Quoted q b) = replicate (length b + 2) CHR '' ''"
| "piece_blank (LineNote b) = '' ''"
| "piece_blank (BlockNote b) = '' ''"

definition sql_text_of :: "sql_piece list \<Rightarrow> string" where
  "sql_text_of ps = concat (map piece_text ps)"

fun sql_pieces :: "sql_piece list \<Rightarrow> bool" where
  "sql_pieces [] = True"
| "sql_pieces (Plain c # ps) = (c \<notin> set sql_quotes \<and> c \<noteq> CHR ''['' \<and>
     \<not> (c = CHR ''-'' \<and> starts_with (sql_text_of ps) ''-'') \<and>
     \<not> (c = CHR ''/'' \<and> starts_with (sql_text_of ps) ''*'') \<and> sql_pieces ps)"
| "sql_pieces (Quoted q b # ps) = ((q \<in> set sql_quotes \<and> \<not> starts_with (sql_text_of ps) [q] \<or>
     q = CHR ''['' \<and> CHR '']'' \<notin> set b) \<and> sql_pieces ps)"
| "sql_pieces (LineNote b # ps) = (CHR 0x0A \<notin> set b \<and> sql_pieces ps)"
| "sql_pieces (BlockNote b # ps) = (\<not> str_includes (b @ ''*'') ''*/'' \<and> sql_pieces ps)"

lemma sql_text_of_simps [simp]: "sql_text_of [] = []" "sql_text_of (p # ps) = piece_text p @ sql_text_of ps"
  by (simp_all add: sql_text_of_def)

lemma starts_with_Cons [simp]: "starts_with (c # cs) [d] \<longleftrightarrow> c = d" "\<not> starts_with [] [d]"
  by (auto simp: starts_with_def)

lemma scan_quoted:
  assumes "q \<noteq> CHR '']'' \<and> \<not> starts_with t [q] \<or> q = CHR '']'' \<and> q \<notin> set b"
  shows "scan_sql (Some q) (quoted_body q b @ q # t) = replicate (Suc (length b)) CHR '' '' @ scan_sql None t"
  using assms
proof (induction b)
  case Nil
  then show ?case by (auto simp: quoted_body_def)
next
  case (Cons c b)
  then show ?case by (auto simp: quoted_body_def)
qed

lemma after_block_end: "\<not> str_includes (b @ ''*'') ''*/'' \<Longrightarrow> after_block (b @ ''*/'' @ t) = t"
proof (induction b)
  case Nil
  then show ?case by (simp add: starts_with_def)
next
  case (Cons c b)
  have "\<not> (c = CHR ''*'' \<and> starts_with (b @ ''*/'' @ t) ''/'')"
    using Cons.prems by (cases b) auto
  with Cons show ?case by auto
qed

lemma scan_pieces: "sql_pieces ps \<Longrightarrow> scan_sql None (sql_text_of ps) = concat (map piece_blank ps)"
proof (induction ps rule: sql_pieces.induct)
  case (3 q b ps)
  have q: "q = CHR ''['' \<or> q \<in> set sql_quotes" "CHR '']'' \<notin> set sql_quotes" "CHR ''['' \<notin> set sql_quotes"
    "CHR ''-'' \<notin> set sql_quotes" "CHR ''/'' \<notin> set sql_quotes"
    using 3 by (auto simp: sql_quotes_def)
  then have "scan_sql None (q # quoted_body (closing q) b @ closing q # sql_text_of ps) =
      CHR '' '' # scan_sql (Some (closing q)) (quoted_body (closing q) b @ closing q # sql_text_of ps)"
    by (auto simp: closing_def)
  also have "\<dots> = CHR '' '' # replicate (Suc (length b)) CHR '' '' @ scan_sql None (sql_text_of ps)"
    using 3 q by (subst scan_quoted) (auto simp: closing_def)
  finally show ?case using 3 by simp
next
  case (4 b ps)
  then have "dropWhile (\<lambda>d. d \<noteq> CHR 0x0A) (CHR ''-'' # b @ CHR 0x0A # sql_text_of ps) = CHR 0x0A # sql_text_of ps"
    by (subst append_Cons[symmetric], subst dropWhile_append2) auto
  with 4 show ?case by simp
next
  case (5 b ps)
  then show ?case using after_block_end[of b "sql_text_of ps"] by simp
qed auto

section \<open>Words of the policy\<close>

lemma is_word_upper [simp]: "is_word (upper_char c) = is_word c"
  by (auto simp: is_word_def upper_char_def is_upper_def is_lower_def is_digit_def code_of_char_of)

definition word_end :: "string \<Rightarrow> bool" where
  "word_end s = (s \<noteq> [] \<and> is_word (last s))"

definition word_start :: "string \<Rightarrow> bool" where
  "word_start s = (s \<noteq> [] \<and> is_word (hd s))"

lemma replace_runs_append:
  "w \<noteq> [] \<Longrightarrow> \<forall>c \<in> set w. \<not> P c \<Longrightarrow>
   replace_runs P r b (u @ w @ v) = replace_runs P r b u @ w @ replace_runs P r False v"
proof (induction u arbitrary: b)
  case Nil
  have "replace_runs P r b (w @ v) = w @ replace_runs P r False v" if "w \<noteq> []" "\<forall>c \<in> set w. \<not> P c" for b
    using that by (induction w arbitrary: b) (auto, metis append_Nil neq_Nil_conv)
  with Nil show ?case by simp
qed simp

lemma space_no_word: "is_space c \<Longrightarrow> \<not> is_word c"
  by (auto simp: is_space_def is_word_def is_upper_def is_lower_def is_digit_def)

lemma blank_no_word [simp]: "\<not> is_word CHR '' ''"
  by code_simp

lemma word_start_runs: "word_start (replace_runs is_space '' '' False s) = word_start s"
  by (cases s) (auto simp: word_start_def space_no_word)

lemma runs_nonempty: "replace_runs is_space '' '' False s = [] \<longleftrightarrow> s = []"
  by (cases s) auto

lemma space_end_runs: "is_space c \<Longrightarrow> \<not> word_end (replace_runs is_space '' '' b (s @ [c]))"
proof (induction s arbitrary: b)
  case (Cons d s)
  then show ?case using runs_nonempty[of "s @ [c]"] by (auto simp: word_end_def)
qed (simp add: word_end_def)

lemma word_end_runs: "word_end (replace_runs is_space '' '' False s) = word_end s"
proof (cases s rule: rev_cases)
  case (snoc s' c)
  show ?thesis
  proof (cases "is_space c")
    case False
    then have "replace_runs is_space '' '' False (s' @ [c] @ []) = replace_runs is_space '' '' False s' @ [c]"
      by (subst replace_runs_append) simp_all
    with snoc show ?thesis by (simp add: word_end_def)
  next
    case True
    then show ?thesis using space_end_runs[OF True, of False s'] space_no_word[OF True] snoc by (simp add: word_end_def)
  qed
qed (simp add: word_end_def)

lemma dropWhile_suffix_end: "word_end (dropWhile is_space s) \<Longrightarrow> word_end s"
  by (induction s) (auto simp: word_end_def split: if_splits)

lemma trimmed_word:
  assumes "w \<noteq> []" "\<forall>c \<in> set w. \<not> is_space c"
  obtains a b where "str_trim (u @ w @ v) = a @ w @ b" "word_end a \<longrightarrow> word_end u" "word_start b \<longrightarrow> word_start v"
proof -
  obtain c cs where w: "w = c # cs" using assms(1) by (cases w) auto
  obtain d ds where d: "rev w = d # ds" using assms(1) by (cases "rev w") auto
  have "\<not> is_space c" "\<not> is_space d" using assms(2) w d by (simp, metis list.set_intros(1) set_rev)
  then have l: "dropWhile is_space (u @ w @ v) = dropWhile is_space u @ w @ v"
    "dropWhile is_space (rev v @ rev w @ rev (dropWhile is_space u)) = dropWhile is_space (rev v) @ rev w @ rev (dropWhile is_space u)"
    using w d by (simp_all add: dropWhile_append3)
  have "str_trim (u @ w @ v) = dropWhile is_space u @ w @ rev (dropWhile is_space (rev v))"
    unfolding str_trim_def l(1) using l(2) by simp
  moreover have "word_start (rev (dropWhile is_space (rev v))) \<longrightarrow> word_start v"
    using dropWhile_suffix_end[of "rev v"] by (auto simp: word_start_def word_end_def hd_rev last_rev)
  ultimately show ?thesis using that dropWhile_suffix_end by blast
qed

lemma word_end_upper: "word_end (str_upper s) = word_end s" "word_start (str_upper s) = word_start s"
  by (auto simp: word_end_def word_start_def str_upper_def last_map hd_map)

definition all_word :: "string \<Rightarrow> bool" where
  "all_word w = (w \<noteq> [] \<and> list_all is_word w)"

lemma all_word_upper: "all_word (str_upper w) = all_word w"
  by (simp add: all_word_def str_upper_def list_all_iff)

lemma all_word_ends: "all_word w \<Longrightarrow> w \<noteq> [] \<and> is_word (hd w) \<and> is_word (last w) \<and> (\<forall>c \<in> set w. \<not> is_space c)"
  using space_no_word by (auto simp: all_word_def list_all_iff)

lemma word_found:
  assumes "W \<in> set ws" "all_word W" "\<not> word_end a" "\<not> word_start b"
  shows "rtest (RSeqs [RWordB, RAlts (map RLit ws), RWordB]) (a @ W @ b)"
proof -
  note W = all_word_ends[OF assms(2)]
  have "at_word_boundary (rev a) (W @ b)" "at_word_boundary (rev W @ rev a) b"
    using W assms(3,4) by (auto simp: at_word_boundary_def word_end_def word_start_def hd_rev)
  moreover have "(rev W @ rev a, b, []) \<in> set (rmatch (RAlts (map RLit ws)) (rev a, W @ b, []))"
    unfolding rmatch_alts_lit using assms(1) by (intro bexI[of _ W]) simp_all
  ultimately have "rmatch (RSeqs [RWordB, RAlts (map RLit ws), RWordB]) (rev a, W @ b, []) \<noteq> []"
    by (force simp: RSeqs_def)
  then show ?thesis unfolding rtest_iff by blast
qed

text \<open>The SQLite policy blocks every statement in which \<open>ATTACH\<close> or \<open>DETACH\<close>, in any letter case,
  stands as a word outside quoted text and comments, wherever it stands and however the pieces
  around it are written.\<close>

theorem attach_blocked:
  assumes "sql_pieces (us @ map Plain w @ vs)" "str_upper w \<in> set [''ATTACH'', ''DETACH'']"
    "\<not> word_end (concat (map piece_blank us))" "\<not> word_start (concat (map piece_blank vs))"
  shows "assertSqliteStatementAllowed (JStr (sql_text_of (us @ map Plain w @ vs))) =
    js_throw_status 403 ''sqlite console statement is blocked by filesystem safety policy''"
proof -
  let ?u = "concat (map piece_blank us)" and ?v = "concat (map piece_blank vs)"
  have "\<forall>W \<in> set [''ATTACH'', ''DETACH'']. all_word W" by code_simp
  then have w: "all_word w" using assms(2) all_word_upper by blast
  note ends = all_word_ends[OF w]
  have "sql_text_of (us @ map Plain w @ vs) \<noteq> []" using ends by (auto simp: sql_text_of_def)
  then have o: "scan_sql None (to_str (jor (JStr (sql_text_of (us @ map Plain w @ vs))) (JStr []))) = ?u @ w @ ?v"
    using scan_pieces[OF assms(1)] by (simp add: comp_def)
  have "replace_runs is_space '' '' False (?u @ w @ ?v) =
      replace_runs is_space '' '' False ?u @ w @ replace_runs is_space '' '' False ?v"
    using ends by (intro replace_runs_append) simp_all
  then obtain a b where ab: "str_trim (replace_runs is_space '' '' False (?u @ w @ ?v)) = a @ w @ b"
    "\<not> word_end a" "\<not> word_start b"
    using trimmed_word[of w "replace_runs is_space '' '' False ?u" "replace_runs is_space '' '' False ?v"]
      ends assms(3,4) by (metis word_end_runs word_start_runs)
  then have "rtest ATTACH_RE (str_upper (a @ w @ b))"
    using word_found[OF assms(2), of "str_upper a" "str_upper b"] w all_word_upper word_end_upper
    unfolding ATTACH_RE_def by (simp add: str_upper_def)
  then have "sqlite_blocked (JStr (sql_text_of (us @ map Plain w @ vs)))"
    unfolding sqlite_blocked_def normalizeSqlForPolicy_def Let_def o RSpace_def rreplace_plus_cls ab(1) by simp
  then show ?thesis by (simp add: assertSqliteStatementAllowed_def)
qed

theorem attach_blocked_witness:
  "assertSqliteStatementAllowed (JStr (''SELECT '' @ [CHR 0x27] @ ''it'' @ [CHR 0x27] @ ''; --x'' @ [CHR 0x0A] @ ''Attach y'')) =
    js_throw_status 403 ''sqlite console statement is blocked by filesystem safety policy''"
proof -
  let ?us = "map Plain ''SELECT '' @ [Quoted CHR 0x27 ''it''] @ map Plain ''; '' @ [LineNote ''x'']"
  let ?vs = "map Plain '' y''"
  have "sql_pieces (?us @ map Plain ''Attach'' @ ?vs)" "str_upper ''Attach'' \<in> set [''ATTACH'', ''DETACH'']"
    "\<not> word_end (concat (map piece_blank ?us))" "\<not> word_start (concat (map piece_blank ?vs))" by code_simp+
  note t = attach_blocked[OF this]
  have "sql_text_of (?us @ map Plain ''Attach'' @ ?vs) =
    ''SELECT '' @ [CHR 0x27] @ ''it'' @ [CHR 0x27] @ ''; --x'' @ [CHR 0x0A] @ ''Attach y''" by code_simp
  with t show ?thesis by (simp only:)
qed

section \<open>Table names\<close>

definition plain_name :: "string \<Rightarrow> bool" where
  "plain_name n = (n \<noteq> [] \<and> ident_first (hd n) \<and> list_all ident_char n)"

lemma star_to_end: "(\<exists>st \<in> set (rmatch (RStar (RCls P)) (p, q, g)). rmatch REol st \<noteq> []) \<longleftrightarrow> list_all P q"
  by (auto simp: rmatch_star_cls_set split: if_splits)

lemma ident_plain: "rtest IDENT_RE n \<longleftrightarrow> plain_name n"
proof (cases n)
  case (Cons c cs)
  have "rtest IDENT_RE n \<longleftrightarrow> ident_first c \<and> (\<exists>st \<in> set (rmatch (RStar (RCls ident_char)) ([c], cs, [])). rmatch REol st \<noteq> [])"
    unfolding IDENT_RE_def RSeqs_def foldr.simps o_apply id_apply rtest_bol Cons
    by (simp only: rmatch_seq_iff rmatch_seq_eps) (auto simp: rmatch_cls_iff rmatch_seq_eps rmatch_seq_iff simp del: rmatch.simps)
  then show ?thesis by (auto simp: star_to_end plain_name_def Cons ident_char_def)
qed (simp add: IDENT_RE_def RSeqs_def rtest_bol plain_name_def)

lemma doubled_id: "c \<notin> set n \<Longrightarrow> concat (map (\<lambda>d. if d = c then [c, c] else [d]) n) = n"
  by (induction n) auto

text \<open>A table name that \<open>quoteSqlIdentifier\<close> accepts is one or two names of letters, digits, underscores
  and hyphens, each in quotes: no input closes a quote or adds a statement.\<close>

theorem quoted_identifier:
  assumes "quoteSqlIdentifier identifier engine = Inr q"
  shows "\<exists>names. names \<noteq> [] \<and> length names \<le> 2 \<and> list_all plain_name names \<and>
    q = str_join ''.'' (map (\<lambda>n. let c = (if engine = ''mysql'' then CHR 0x60 else CHR 0x22) in [c] @ n @ [c]) names)"
proof -
  define c where "c = (if engine = ''mysql'' then CHR 0x60 else CHR 0x22)"
  let ?names = "filter (\<lambda>p. p \<noteq> []) (map str_trim (str_split CHR ''.'' identifier))"
  have "\<not> ident_char c" by (cases "engine = ''mysql''") (simp_all add: c_def, code_simp+)
  then have id: "quote_part c n = Inr v \<longleftrightarrow> plain_name n \<and> v = [c] @ n @ [c]" for n v
    using doubled_id[of c n]
    by (auto simp: quote_part_def ident_plain quote_with_def RChr_def rreplace_cls plain_name_def list_all_iff)
  have all: "res_map (quote_part c) ns = Inr qs \<Longrightarrow> list_all plain_name ns \<and> qs = map (\<lambda>n. [c] @ n @ [c]) ns" for ns qs
    by (induction ns arbitrary: qs) (auto simp: rbind_Inr_iff id)
  show ?thesis
    using assms all by (intro exI[of _ ?names])
      (auto simp: quoteSqlIdentifier_def Let_def c_def[symmetric] rbind_Inr_iff split: if_splits)
qed

theorem quoted_identifier_witness:
  "quoteSqlIdentifier ''public. user_2'' ''postgresql'' = Inr ([CHR 0x22] @ ''public'' @ [CHR 0x22, CHR ''.'', CHR 0x22] @ ''user_2'' @ [CHR 0x22]) \<and>
   (\<exists>names. length names \<le> 2 \<and> list_all plain_name names)"
proof -
  have q: "quoteSqlIdentifier ''public. user_2'' ''postgresql'' =
    Inr ([CHR 0x22] @ ''public'' @ [CHR 0x22, CHR ''.'', CHR 0x22] @ ''user_2'' @ [CHR 0x22])" by code_simp
  with quoted_identifier[OF q] show ?thesis by blast
qed

end
