(* ===== verification/Json.thy ===== *)
theory Json
  imports JsValue
begin

text \<open>
  \<open>JSON.stringify\<close> of the standard library on a value: fields that are \<open>undefined\<close> or functions are
  left out, in an array they are \<open>null\<close>, as are the numbers that are not finite. A bare \<open>undefined\<close>
  has no text; the code never asks for it.
\<close>

definition hex_char :: "nat \<Rightarrow> char" where
  "hex_char n = (if n < 10 then char_of (48 + n) else char_of (87 + n))"

definition json_char :: "char \<Rightarrow> string" where
  "json_char c = (let n = code_of c; esc = (\<lambda>x. [CHR 0x5C, x]) in
     if n = 34 \<or> n = 92 then esc c
     else if n = 8 then esc CHR ''b'' else if n = 9 then esc CHR ''t'' else if n = 10 then esc CHR ''n''
     else if n = 12 then esc CHR ''f'' else if n = 13 then esc CHR ''r''
     else if n < 32 then esc CHR ''u'' @ ''00'' @ [hex_char (n div 16), hex_char (n mod 16)]
     else [c])"

definition json_string :: "string \<Rightarrow> string" where
  "json_string s = [CHR 0x22] @ concat (map json_char s) @ [CHR 0x22]"

fun json_stringify :: "jsv \<Rightarrow> string"
and json_items :: "jsv list \<Rightarrow> string list"
and json_fields :: "(string \<times> jsv) list \<Rightarrow> string list" where
  "json_stringify (JBool b) = (if b then ''true'' else ''false'')"
| "json_stringify (JNum n) = (if is_finite n then num_str n else ''null'')"
| "json_stringify (JStr s) = json_string s"
| "json_stringify (JArr vs) = ''['' @ str_join '','' (json_items vs) @ '']''"
| "json_stringify (JObj kvs) = ''{'' @ str_join '','' (json_fields kvs) @ ''}''"
| "json_stringify v = ''null''"
| "json_items [] = []"
| "json_items (v # vs) = json_stringify v # json_items vs"
| "json_fields [] = []"
| "json_fields ((k, v) # kvs) = (case v of JUndef \<Rightarrow> json_fields kvs | JHost _ \<Rightarrow> json_fields kvs
     | _ \<Rightarrow> (json_string k @ '':'' @ json_stringify v) # json_fields kvs)"

end
