(* ===== verification/Effects.thy ===== *)
theory Effects
  imports JsValue
begin

text \<open>
  Programs that call what is outside of them: drivers, processes, the file system. A run appends its
  calls to a trace, and a \<open>responder\<close> answers a call from the trace before it, or throws. \<open>makes_calls P\<close>
  says that a run makes only calls that satisfy \<open>P\<close>, whatever the answers are.
\<close>

record 'c responder =
  answer :: "'c list \<Rightarrow> 'c \<Rightarrow> jsv res"

type_synonym ('c, 'a) run = "'c list \<Rightarrow> 'a res \<times> 'c list"

definition run_ret :: "'a res \<Rightarrow> ('c, 'a) run" where
  "run_ret r = (\<lambda>tr. (r, tr))"

definition run_bind :: "('c, 'a) run \<Rightarrow> ('a \<Rightarrow> ('c, 'b) run) \<Rightarrow> ('c, 'b) run" where
  "run_bind m f = (\<lambda>tr. case m tr of (Inl e, tr') \<Rightarrow> (Inl e, tr') | (Inr x, tr') \<Rightarrow> f x tr')"

definition call :: "('c, 'z) responder_scheme \<Rightarrow> 'c \<Rightarrow> ('c, jsv) run" where
  "call d c = (\<lambda>tr. (answer d tr c, tr @ [c]))"

text \<open>\<open>try { m } finally { f }\<close>: an error of \<open>f\<close> replaces the result.\<close>

definition run_finally :: "('c, 'b) run \<Rightarrow> ('c, 'a) run \<Rightarrow> ('c, 'a) run" where
  "run_finally f m = (\<lambda>tr. case m tr of (r, tr') \<Rightarrow> run_bind f (\<lambda>_. run_ret r) tr')"

text \<open>\<open>m.catch(() => undefined)\<close>\<close>

definition run_quiet :: "('c, jsv) run \<Rightarrow> ('c, jsv) run" where
  "run_quiet m = (\<lambda>tr. case m tr of (Inl _, tr') \<Rightarrow> (Inr JUndef, tr') | x \<Rightarrow> x)"

definition run_when :: "bool \<Rightarrow> ('c, jsv) run \<Rightarrow> ('c, jsv) run" where
  "run_when b m = (if b then m else run_ret (Inr JUndef))"

section \<open>The calls of a run\<close>

definition makes_calls :: "('c \<Rightarrow> bool) \<Rightarrow> ('c, 'a) run \<Rightarrow> bool" where
  "makes_calls P m = (\<forall>tr. \<exists>cs. snd (m tr) = tr @ cs \<and> list_all P cs)"

lemma makes_calls_ret: "makes_calls P (run_ret r)"
  by (simp add: makes_calls_def run_ret_def)

lemma makes_calls_call: "P c \<Longrightarrow> makes_calls P (call d c)"
  by (simp add: makes_calls_def call_def)

lemma makes_calls_bind:
  assumes "makes_calls P m" "\<And>x tr tr'. m tr = (Inr x, tr') \<Longrightarrow> makes_calls P (f x)"
  shows "makes_calls P (run_bind m f)"
  unfolding makes_calls_def
proof
  fix tr
  obtain cs where cs: "snd (m tr) = tr @ cs" "list_all P cs" using assms(1) by (auto simp: makes_calls_def)
  show "\<exists>cs. snd (run_bind m f tr) = tr @ cs \<and> list_all P cs"
  proof (cases "fst (m tr)")
    case (Inl e)
    then show ?thesis using cs by (auto simp: run_bind_def split: prod.splits)
  next
    case (Inr x)
    then have m: "m tr = (Inr x, tr @ cs)" using cs(1) by (simp add: prod_eq_iff)
    have "\<exists>cs'. snd (f x (tr @ cs)) = (tr @ cs) @ cs' \<and> list_all P cs'"
      using assms(2)[OF m] unfolding makes_calls_def by blast
    then show ?thesis using m cs by (auto simp: run_bind_def)
  qed
qed

lemma makes_calls_finally:
  assumes "makes_calls P m" "makes_calls P f"
  shows "makes_calls P (run_finally f m)"
  unfolding makes_calls_def
proof
  fix tr
  obtain r cs where m: "m tr = (r, tr @ cs)" "list_all P cs"
    using assms(1) unfolding makes_calls_def by (metis prod.collapse)
  have "makes_calls P (run_bind f (\<lambda>_. run_ret r))" by (intro makes_calls_bind assms(2) makes_calls_ret)
  then obtain cs' where "snd (run_bind f (\<lambda>_. run_ret r) (tr @ cs)) = (tr @ cs) @ cs'" "list_all P cs'"
    unfolding makes_calls_def by blast
  then show "\<exists>cs. snd (run_finally f m tr) = tr @ cs \<and> list_all P cs"
    using m by (intro exI[of _ "cs @ cs'"]) (simp add: run_finally_def)
qed

lemma makes_calls_quiet: "makes_calls P m \<Longrightarrow> makes_calls P (run_quiet m)"
  unfolding makes_calls_def run_quiet_def by (simp add: split_beta split: sum.split)

lemma makes_calls_when: "(b \<Longrightarrow> makes_calls P m) \<Longrightarrow> makes_calls P (run_when b m)"
  by (simp add: run_when_def makes_calls_ret)

lemma makes_calls_if: "(b \<Longrightarrow> makes_calls P m) \<Longrightarrow> (\<not> b \<Longrightarrow> makes_calls P n) \<Longrightarrow> makes_calls P (if b then m else n)"
  by simp

lemmas makes_calls_intros = makes_calls_if makes_calls_when makes_calls_ret makes_calls_bind makes_calls_finally
  makes_calls_quiet makes_calls_call

lemma makes_calls_trace: "makes_calls P m \<Longrightarrow> m [] = (r, tr) \<Longrightarrow> list_all P tr"
  unfolding makes_calls_def by (metis append_Nil snd_conv)

lemma run_ret_Inr: "run_ret r tr = (Inr x, tr') \<longleftrightarrow> r = Inr x \<and> tr' = tr"
  by (auto simp: run_ret_def)

lemma run_bind_Inr: "run_bind m f tr = (Inr y, tr') \<longleftrightarrow> (\<exists>x tr1. m tr = (Inr x, tr1) \<and> f x tr1 = (Inr y, tr'))"
  by (auto simp: run_bind_def split: prod.splits sum.splits)

lemma run_bind_Inr_ret [simp]: "run_bind (run_ret (Inr x)) f = f x" "run_bind (run_ret (Inl e)) g = run_ret (Inl e)"
  by (simp_all add: run_bind_def run_ret_def fun_eq_iff)

lemma run_bindE:
  assumes "run_bind m f tr = (r, tr')"
  obtains e where "m tr = (Inl e, tr')" "r = Inl e" | x tr1 where "m tr = (Inr x, tr1)" "f x tr1 = (r, tr')"
  using assms by (auto simp: run_bind_def split: prod.splits sum.splits)

lemma makes_calls_from: "makes_calls P m \<Longrightarrow> m tr = (r, tr') \<Longrightarrow> list_all P tr \<Longrightarrow> list_all P tr'"
  unfolding makes_calls_def by (metis list_all_append snd_conv)

end
