(* ===== verification/Host.thy ===== *)
theory Host
  imports Effects ResourceSanitizer Commands
begin

text \<open>
  The surroundings of the build tools: paths of the standard library module \<open>path\<close> (POSIX), the file
  system and the processes a run starts. A host answers the calls; what a spawned process answers may
  depend on the calls before it. Timeouts are left out.
\<close>

section \<open>Paths\<close>

text \<open>\<open>path.dirname\<close> of the standard library.\<close>

definition path_dirname :: "string \<Rightarrow> string" where
  "path_dirname p = (if p = [] then ''.''
     else (let before = dropWhile (\<lambda>c. c \<noteq> CHR ''/'') (dropWhile (\<lambda>c. c = CHR ''/'') (rev (tl p))) in
       if before = [] then (if hd p = CHR ''/'' then ''/'' else ''.'')
       else if hd p = CHR ''/'' \<and> length before = 1 then ''//''
       else take (length before) p))"

text \<open>\<open>path.basename(p, suffix)\<close>\<close>

definition path_basename :: "string \<Rightarrow> string \<Rightarrow> string" where
  "path_basename p ext = (let base = last ([] # filter (\<lambda>s. s \<noteq> []) (str_split CHR ''/'' p)) in
     if base \<noteq> ext \<and> ends_with base ext then take (length base - length ext) base
     else if p = ext then [] else base)"

text \<open>\<open>path.normalize\<close>, on the segments of a path; a relative path keeps leading parents.\<close>

definition normalize_segment :: "bool \<Rightarrow> string \<Rightarrow> string list \<Rightarrow> string list" where
  "normalize_segment absolute seg acc = (if seg = [] \<or> seg = ''.'' then acc
     else if seg = ''..'' then
       (if acc \<noteq> [] \<and> last acc \<noteq> ''..'' then butlast acc else if absolute then acc else acc @ [''..''])
     else acc @ [seg])"

definition path_normalize :: "string \<Rightarrow> string" where
  "path_normalize p = (let absolute = starts_with p ''/'';
     body = str_join ''/'' (fold (normalize_segment absolute) (str_split CHR ''/'' p) []);
     tail = (if ends_with p ''/'' \<and> body \<noteq> [] then ''/'' else [])
   in if absolute then ''/'' @ body @ tail
      else if body = [] then (if ends_with p ''/'' then ''./'' else ''.'') else body @ tail)"

definition path_join :: "string \<Rightarrow> string \<Rightarrow> string" where
  "path_join a b = (let parts = filter (\<lambda>s. s \<noteq> []) [a, b] in if parts = [] then ''.'' else path_normalize (str_join ''/'' parts))"

primrec common_prefix :: "string list \<Rightarrow> string list \<Rightarrow> nat" where
  "common_prefix [] ys = 0"
| "common_prefix (x # xs) ys = (case ys of [] \<Rightarrow> 0 | y # ys' \<Rightarrow> if x = y then Suc (common_prefix xs ys') else 0)"

text \<open>\<open>path.relative\<close> of two resolved paths\<close>

definition path_relative :: "string \<Rightarrow> string \<Rightarrow> string" where
  "path_relative from to = (let a = path_segments from; b = path_segments to; n = common_prefix a b in
     str_join ''/'' (replicate (length a - n) ''..'' @ drop n b))"

section \<open>Calls\<close>

datatype host_call =
  Spawn command_spec
| MakeDir string
| MakeTempDir string
| WriteFile string string
| SetMode string
| RemoveFile string
| ReadFile string

fun no_spawn :: "host_call \<Rightarrow> bool" where
  "no_spawn (Spawn c) = False"
| "no_spawn c = True"

record host = "host_call responder" +
  spawned :: "host_call list \<Rightarrow> process"
  hostPid :: nat

type_synonym 'a host_run = "(host_call, 'a) run"

definition run_command :: "host \<Rightarrow> command_spec \<Rightarrow> bool \<Rightarrow> jsv host_run" where
  "run_command h c dryRun = (\<lambda>tr. if dryRun then (runCommand (spawned h tr) c True, tr)
     else (runCommand (spawned h tr) c False, tr @ [Spawn c]))"

lemma makes_calls_command: "(\<not> dryRun \<Longrightarrow> P (Spawn c)) \<Longrightarrow> makes_calls P (run_command h c dryRun)"
  by (simp add: makes_calls_def run_command_def)

lemmas host_calls_intros = makes_calls_intros makes_calls_command

end
