(* ===== verification/DbConsole.thy ===== *)
theory DbConsole
  imports SqlPolicy Sanitize Json Host
begin

text \<open>
  The database console of \<open>db-console.ts\<close>. The drivers (\<open>node:sqlite\<close>, the Prisma client, the file
  system) are a parameter, a responder to calls. \<open>late\<close> says after which traces the timer of
  \<open>withTimeout\<close> wins the race.
  A driver hands out rows as an array of objects, and values that the code indexes by a computed key
  are objects. Characters are bytes, so the length of a text is its length in bytes.
\<close>

section \<open>Calls to the drivers\<close>

datatype db_call =
  Import string
| MakeDirectory string
| OpenFile string
| ExecSql string
| AllRows string
| CloseFile
| Connect string
| BeginTransaction jnum
| RunSql string
| QuerySql string
| CommitTransaction
| RollbackTransaction
| Disconnect

record driver = "db_call responder" +
  late :: "db_call list \<Rightarrow> bool"

type_synonym 'a db_run = "(db_call, 'a) run"

definition withTimeout :: "driver \<Rightarrow> 'a db_run \<Rightarrow> jnum \<Rightarrow> 'a db_run" where
  "withTimeout d promise timeoutMs = (\<lambda>tr. case promise tr of (r, tr') \<Rightarrow>
     (if late d tr' then js_throw (''database console query timed out after '' @ num_str timeoutMs @ ''ms'') else r, tr'))"

section \<open>Results\<close>

definition desired_state :: "jsv \<Rightarrow> jsv" where
  "desired_state resource = jspread (jspread (JObj []) (jor (jget resource ''desiredSpec'') (JObj [])))
     (jor (jget resource ''desiredState'') (JObj []))"

definition arrayStrings :: "jsv \<Rightarrow> jsv list" where
  "arrayStrings value = (if is_jarr value then map (\<lambda>v. JStr (to_str v)) (items value) else [])"

definition arrayRows :: "jsv \<Rightarrow> jsv list" where
  "arrayRows value = (if is_jarr value then items value else [])"

text \<open>\<open>rows[0] ? Object.keys(rows[0]) : []\<close>\<close>

definition row_fields :: "jsv list \<Rightarrow> jsv" where
  "row_fields rows = (case rows of [] \<Rightarrow> JArr []
     | row # _ \<Rightarrow> if truthy row then JArr (map (\<lambda>(k, _). JStr k) (entries row)) else JArr [])"

text \<open>The loop of \<open>trimResultRows\<close> on the rows that are left and the bytes already used.\<close>

primrec kept_rows :: "rat \<Rightarrow> rat \<Rightarrow> jsv list \<Rightarrow> jsv list" where
  "kept_rows byteLimit used [] = []"
| "kept_rows byteLimit used (row # rows) = (let bytes = of_nat (length (json_stringify row)) in
     if used + bytes > byteLimit then [] else row # kept_rows byteLimit (used + bytes + 1) rows)"

definition byte_limit :: "jsv \<Rightarrow> rat" where
  "byte_limit maxBytes = (case clampNumber maxBytes 1024 2000000 512000 of Fin q \<Rightarrow> q | _ \<Rightarrow> 0)"

definition trimResultRows :: "jsv \<Rightarrow> jsv \<Rightarrow> jsv" where
  "trimResultRows rows maxBytes = (if \<not> is_jarr rows then rows else JArr (kept_rows (byte_limit maxBytes) 2 (items rows)))"

definition rowsResult :: "string \<Rightarrow> jsv \<Rightarrow> jsv \<Rightarrow> jsv" where
  "rowsResult engine rows guard = (let listed = arrayRows rows in JObj [(''engine'', JStr engine), (''rows'', JArr listed),
     (''fields'', row_fields listed), (''rowCount'', jnat (length listed)), (''guard'', guard)])"

definition liveConnectionRequired :: "string \<Rightarrow> jsv \<Rightarrow> jsv" where
  "liveConnectionRequired engine guard = JObj [(''engine'', JStr engine), (''mode'', JStr ''connection-info''),
     (''rows'', JArr []), (''fields'', JArr []),
     (''warning'', JStr (engine @ '' console requires a live provider-owned connection URL on the resource'')),
     (''guard'', guard)]"

definition throwGuard :: "jsv \<Rightarrow> 'a res" where
  "throwGuard guard = js_throw_status 403 (to_str (jget guard ''reason''))"

definition resourceConnectionUrl :: "jsv \<Rightarrow> string list \<Rightarrow> string option" where
  "resourceConnectionUrl resource envKeys = (let providerConnection = jor (jget resource ''providerConnection'') (JObj []) in
     if jget providerConnection ''live'' = JBool False \<or> jget providerConnection ''mode'' = JStr ''provider-contract'' then None
     else (case find (\<lambda>v. is_jstr v \<and> str_trim (to_str v) \<noteq> []) (map (jget providerConnection)
        ([''connectionUrl'', ''databaseUrl'', ''url'', ''uri'', ''connectionString''] @ envKeys)) of
        Some v \<Rightarrow> Some (str_trim (to_str v)) | None \<Rightarrow> None))"

section \<open>SQLite\<close>

definition providerSqlitePath :: "string \<Rightarrow> jsv \<Rightarrow> string res" where
  "providerSqlitePath cwd resource = (let
     candidate = jor (jget resource ''sqlitePath'') (jor (jget (jget resource ''desiredSpec'') ''sqlitePath'') (JStr '':memory:''))
   in if \<not> is_jstr candidate then js_throw ''The path argument must be of type string''
      else if \<not> isProviderOwnedSqlitePath cwd (to_str candidate)
        then js_throw_status 403 ''sqlite console path must be provider-owned''
      else Inr (to_str candidate))"

definition ensureSqliteDirectory :: "driver \<Rightarrow> string \<Rightarrow> jsv db_run" where
  "ensureSqliteDirectory d dbPath = (if dbPath = [] \<or> dbPath = '':memory:'' then run_ret (Inr JUndef)
     else call d (MakeDirectory (path_dirname dbPath)))"

definition sqlite_rows :: "string \<Rightarrow> jsv \<Rightarrow> jsv \<Rightarrow> jsv" where
  "sqlite_rows dbPath rows guard = JObj [(''engine'', JStr ''sqlite''), (''dbPath'', JStr dbPath), (''rows'', rows),
     (''fields'', row_fields (items rows)), (''rowCount'', jnat (length (items rows))), (''guard'', guard)]"

definition sqlite_statement :: "driver \<Rightarrow> string \<Rightarrow> jsv \<Rightarrow> jsv \<Rightarrow> jsv \<Rightarrow> jsv db_run" where
  "sqlite_statement d dbPath query options guard = (let txt = str_trim (to_str (jor query (JStr []))) in
     run_bind (call d (ExecSql ''PRAGMA busy_timeout=1000'')) (\<lambda>_.
     run_bind (run_ret (assertSqliteStatementAllowed (JStr txt))) (\<lambda>_.
     if rtest SELECT_RE txt then
       run_bind (call d (AllRows (sqlite_limited txt (jget options ''limit'')))) (\<lambda>rows.
       run_ret (Inr (sqlite_rows dbPath (trimResultRows rows (jget options ''maxResultBytes'')) guard)))
     else if rtest (RSeqs [RBol, RLitI ''PRAGMA'', RWordB]) txt then
       run_bind (call d (AllRows (drop_semicolon txt))) (\<lambda>rows.
       run_ret (Inr (sqlite_rows dbPath (trimResultRows rows (jget options ''maxResultBytes'')) guard)))
     else run_bind (call d (ExecSql txt)) (\<lambda>_.
       run_ret (Inr (JObj [(''engine'', JStr ''sqlite''), (''dbPath'', JStr dbPath), (''rows'', JArr []), (''fields'', JArr []),
         (''rowCount'', jnat 0), (''changed'', JBool True), (''guard'', guard)]))))))"

definition with_sqlite :: "driver \<Rightarrow> string \<Rightarrow> jsv \<Rightarrow> (string \<Rightarrow> jsv db_run) \<Rightarrow> jsv db_run" where
  "with_sqlite d cwd resource body = run_bind (call d (Import ''node:sqlite'')) (\<lambda>_.
     run_bind (run_ret (providerSqlitePath cwd resource)) (\<lambda>dbPath.
     run_bind (ensureSqliteDirectory d dbPath) (\<lambda>_.
     run_bind (call d (OpenFile dbPath)) (\<lambda>_. run_finally (call d CloseFile) (body dbPath)))))"

definition runSqlite :: "driver \<Rightarrow> string \<Rightarrow> jsv \<Rightarrow> jsv \<Rightarrow> jsv \<Rightarrow> jsv \<Rightarrow> jsv db_run" where
  "runSqlite d cwd resource query options guard =
     with_sqlite d cwd resource (\<lambda>dbPath. sqlite_statement d dbPath query options guard)"

section \<open>PostgreSQL\<close>

definition postgres_keys :: "string list" where
  "postgres_keys = [''DATABASE_URL'', ''POSTGRES_URL'', ''POSTGRESQL_URL'']"

definition prismaClientFor :: "driver \<Rightarrow> string \<Rightarrow> jsv db_run" where
  "prismaClientFor d connectionUrl = run_bind (call d (Import ''@prisma/client'')) (\<lambda>m.
     if \<not> truthy (jget m ''PrismaClient'') then run_ret (js_throw
       ''@prisma/client PrismaClient export is required for live PostgreSQL console queries'')
     else call d (Connect connectionUrl))"

text \<open>The client runs the body once between the begin and the end of the transaction.\<close>

definition transaction :: "driver \<Rightarrow> jnum \<Rightarrow> jsv db_run \<Rightarrow> jsv db_run" where
  "transaction d timeout body = run_bind (call d (BeginTransaction timeout)) (\<lambda>_. \<lambda>tr.
     case body tr of
       (Inr x, tr') \<Rightarrow> run_bind (call d CommitTransaction) (\<lambda>_. run_ret (Inr x)) tr'
     | (Inl e, tr') \<Rightarrow> (Inl e, tr' @ [RollbackTransaction]))"

definition set_timeout :: "string \<Rightarrow> jnum \<Rightarrow> string" where
  "set_timeout scope timeoutMs = ''SET '' @ scope @ ''statement_timeout = '' @ num_str (num_floor timeoutMs)"

definition queryPostgresReadOnly :: "driver \<Rightarrow> string \<Rightarrow> jnum \<Rightarrow> jsv db_run" where
  "queryPostgresReadOnly d sql timeoutMs = withTimeout d (transaction d (num_add timeoutMs (Fin 1000))
     (run_bind (call d (RunSql ''SET TRANSACTION READ ONLY'')) (\<lambda>_.
      run_bind (call d (RunSql (set_timeout ''LOCAL '' timeoutMs))) (\<lambda>_.
      call d (QuerySql sql))))) (num_add timeoutMs (Fin 1500))"

definition strip_semicolons :: "string \<Rightarrow> string" where
  "strip_semicolons s = rreplace1 (RSeqs [RPlus (RChr CHR '';''), RStar RSpace, REol]) (\<lambda>_. []) s"

definition postgres_statement :: "driver \<Rightarrow> jsv \<Rightarrow> jsv \<Rightarrow> jsv \<Rightarrow> jsv db_run" where
  "postgres_statement d query options guard = (let
     timeoutMs = clampNumber (jget options ''timeoutMs'') 250 30000 5000;
     txt = strip_semicolons (str_trim (to_str (jor query (JStr []))))
   in if jget guard ''readOnly'' = JBool True \<and> isReadOnlyDatabaseQuery (JStr txt)
      then run_bind (queryPostgresReadOnly d (limitSqlQuery txt (jget options ''limit'')) timeoutMs) (\<lambda>rows.
        run_ret (Inr (rowsResult ''postgresql'' (trimResultRows rows (jget options ''maxResultBytes'')) guard)))
      else run_bind (call d (RunSql (set_timeout [] timeoutMs))) (\<lambda>_.
        run_bind (withTimeout d (call d (RunSql txt)) timeoutMs) (\<lambda>rowCount.
        run_ret (Inr (JObj [(''engine'', JStr ''postgresql''), (''rows'', JArr []), (''fields'', JArr []),
          (''rowCount'', JNum (to_num (jor rowCount (jint 0)))), (''changed'', JBool True), (''guard'', guard)])))))"

definition runPostgres :: "driver \<Rightarrow> jsv \<Rightarrow> jsv \<Rightarrow> jsv \<Rightarrow> jsv \<Rightarrow> jsv db_run" where
  "runPostgres d resource query options guard = (case resourceConnectionUrl resource postgres_keys of
     None \<Rightarrow> run_ret (Inr (liveConnectionRequired ''postgresql'' guard))
   | Some connectionUrl \<Rightarrow> run_bind (prismaClientFor d connectionUrl) (\<lambda>_.
       run_finally (call d Disconnect) (postgres_statement d query options guard)))"

definition tables_query :: "jsv \<Rightarrow> string" where
  "tables_query maximum = (let nl = [CHR 0x0A]; q = (\<lambda>s. [CHR 0x27] @ s @ [CHR 0x27]) in
     nl @ ''      SELECT table_schema AS schema, table_name AS name, table_type AS type'' @
     nl @ ''      FROM information_schema.tables'' @
     nl @ ''      WHERE table_schema NOT IN ('' @ q ''pg_catalog'' @ '', '' @ q ''information_schema'' @ '')'' @
     nl @ ''      ORDER BY table_schema, table_name'' @
     nl @ ''      LIMIT '' @ num_str (clampNumber maximum 1 500 100) @ nl @ ''    '')"

definition console_connection :: "jsv \<Rightarrow> jsv" where
  "console_connection resource = jget (providerConsoleSurface resource (JObj [])) ''connectionInfo''"

definition browsePostgres :: "driver \<Rightarrow> jsv \<Rightarrow> jsv \<Rightarrow> jsv db_run" where
  "browsePostgres d resource options = (case resourceConnectionUrl resource postgres_keys of
     None \<Rightarrow> run_ret (Inr (JObj [(''engine'', JStr ''postgresql''), (''tables'', JArr []), (''schemas'', JArr []),
       (''connectionInfo'', console_connection resource),
       (''warning'', JStr ''PostgreSQL browser requires provider-owned live DATABASE_URL/POSTGRES_URL on the resource'')]))
   | Some connectionUrl \<Rightarrow> run_bind (prismaClientFor d connectionUrl) (\<lambda>_. run_finally (call d Disconnect)
       (run_bind (queryPostgresReadOnly d (tables_query (jget options ''limit''))
          (clampNumber (jget options ''timeoutMs'') 250 30000 5000)) (\<lambda>tables.
        run_ret (Inr (JObj [(''engine'', JStr ''postgresql''),
          (''schemas'', JArr (rev (remdups (rev (map (\<lambda>table. jget table ''schema'') (items tables)))))),
          (''tables'', tables), (''connectionInfo'', console_connection resource)]))))))"

section \<open>Commands for the providers without a driver\<close>

definition READ_COMMANDS :: "string list" where
  "READ_COMMANDS = [''SCAN'', ''KEYS'', ''GET'', ''TTL'', ''INFO'', ''SELECT'', ''SHOW'', ''DESCRIBE'', ''EXPLAIN'', ''FIND'',
     ''LIST'', ''LS'', ''BROWSE'', ''COLLECTIONS'', ''SUBJECTS'', ''STREAMS'', ''DB.GETCOLLECTIONNAMES'']"

definition READ_COMMAND_RE :: rx where
  "READ_COMMAND_RE = RSeqs [RBol, RAlts (map RLit READ_COMMANDS @ [
     RSeqs [RLit ''DB.'', RPlus (RCls (\<lambda>c. is_upper c \<or> is_digit c \<or> c = CHR ''_'' \<or> c = CHR ''-'')), RLit ''.FIND''],
     RSeqs [RLit ''NATS'', RPlus RSpace, RAlts [RSeqs [RLit ''STREAM'', RPlus RSpace, RLit ''LS''],
       RSeqs [RLit ''SUB'', RPlus RSpace, RLit ''LS''], RSeqs [RLit ''SERVER'', RPlus RSpace, RLit ''CHECK'']]],
     RSeqs [RLit ''CURL'', RPlus RSpace, ROpt (RSeqs [RLit ''-X'', RPlus RSpace, RLit ''GET'', RPlus RSpace])]])]"

definition WRITE_WORDS :: "string list" where
  "WRITE_WORDS = [''DELETE'', ''DEL'', ''DROP'', ''UPDATE'', ''INSERT'', ''CREATE'', ''ALTER'', ''TRUNCATE'', ''FLUSH'', ''PUT'',
     ''POST'', ''UPLOAD'', ''RM'', ''PUBLISH'', ''PUB'']"

definition isProviderReadOnly :: "jsv \<Rightarrow> bool" where
  "isProviderReadOnly command = (let txt = str_upper (str_trim (to_str (jor command (JStr [])))) in
     rtest READ_COMMAND_RE txt \<and> \<not> rtest (RSeqs [RWordB, RAlts (map RLit WRITE_WORDS), RWordB]) txt)"

definition command_verdict :: "bool \<Rightarrow> string \<Rightarrow> bool \<Rightarrow> bool \<Rightarrow> jsv" where
  "command_verdict allowed reason destructive readOnly = JObj [(''allowed'', JBool allowed), (''reason'', JStr reason),
     (''destructive'', JBool destructive), (''readOnly'', JBool readOnly), (''providerCommand'', JBool True)]"

definition confirmed_option :: "jsv \<Rightarrow> bool" where
  "confirmed_option options = (jget options ''confirmed'' = JBool True \<or> jget options ''confirmed'' = JStr ''true'')"

definition guardProviderCommand :: "string \<Rightarrow> jsv \<Rightarrow> jsv res" where
  "guardProviderCommand command options = (let
     role = jor (jget options ''role'') (JStr ''developer''); readOnly = isProviderReadOnly (JStr command)
   in if command = [] then Inr (command_verdict False ''query is required'' False False)
      else rbind (if readOnly then can role ''db:data:read'' else Inr True) (\<lambda>r.
        if readOnly \<and> \<not> r then Inr (command_verdict False
          (''role '' @ to_str role @ '' requires db:data:read permission for read-only provider commands'') False readOnly)
        else rbind (if \<not> readOnly then can role ''db:query:write'' else Inr True) (\<lambda>w.
          if \<not> readOnly \<and> \<not> w then Inr (command_verdict False
            (''role '' @ to_str role @ '' requires db:query:write permission for destructive queries'') True readOnly)
          else if \<not> readOnly \<and> \<not> confirmed_option options
            then Inr (command_verdict False ''destructive query requires explicit confirmation'' True readOnly)
          else Inr (command_verdict True ''provider console command accepted'' (\<not> readOnly) readOnly))))"

definition database_guard :: "jsv \<Rightarrow> jsv \<Rightarrow> jsv res" where
  "database_guard query options = guardDatabaseQuery query (JObj [
     (''role'', jor (jget options ''role'') (JStr ''developer'')), (''confirmed'', JBool (confirmed_option options))])"

section \<open>Answers from the state of the resource\<close>

definition contract_result :: "string \<Rightarrow> jsv \<Rightarrow> jsv list \<Rightarrow> (string \<times> jsv) list \<Rightarrow> jsv \<Rightarrow> jsv \<Rightarrow> jsv" where
  "contract_result engine mode rows extra surface guard = JObj ([(''engine'', JStr engine), (''mode'', mode),
     (''rows'', JArr rows), (''fields'', row_fields rows), (''rowCount'', jnat (length rows))] @ extra @
     [(''warning'', jget surface ''warning''), (''connectionInfo'', jget surface ''connectionInfo''), (''guard'', guard)])"

definition surface_mode :: "jsv \<Rightarrow> jsv" where
  "surface_mode surface = jor (jget surface ''mode'') (JStr ''provider-contract'')"

text \<open>\<open>(value || []).map(f)\<close>\<close>

definition map_listed :: "(jsv \<Rightarrow> jsv res) \<Rightarrow> jsv \<Rightarrow> jsv list res" where
  "map_listed f value = (let v = jor value (JArr []) in
     if is_jarr v then res_map f (items v) else js_throw ''map is not a function'')"

definition table_row :: "jsv \<Rightarrow> jsv res" where
  "table_row table = (if is_jstr table then Inr (JObj [(''table'', table)])
     else rbind (jread table ''name'') (\<lambda>name. Inr (JObj [(''table'', jor name (JStr (to_str table)))])))"

definition table_char :: "char \<Rightarrow> bool" where
  "table_char c = (c \<in> set [CHR 0x60, CHR 0x22, CHR ''.'', CHR ''-''] \<or> is_word c)"

definition table_name :: "string \<Rightarrow> string" where
  "table_name query = (case rexec (RSeqs [RLitI ''FROM'', RPlus RSpace, RGrp 1 (RPlus (RCls table_char))]) query of
     None \<Rightarrow> ''table''
   | Some g \<Rightarrow> (let name = rreplace (ROneOf [CHR 0x60, CHR 0x22]) (\<lambda>_. []) (rgroup g 1) in if name = [] then ''table'' else name))"

definition contract_rows :: "jsv \<Rightarrow> string \<Rightarrow> jsv list" where
  "contract_rows resource query = (let
     rows = jor (jget (jget resource ''desiredState'') ''rows'') (jor (jget (jget resource ''desiredSpec'') ''rows'')
       (jor (jget resource ''rows'') (JObj [])))
   in arrayRows (jor (table_get (entries rows) (table_name query)) (JArr [])))"

definition SELECT_ONE_RE :: rx where
  "SELECT_ONE_RE = RSeqs [RBol, RLit ''SELECT'', RPlus RSpace, RLit ''1'', ROpt (RSeqs [RPlus RSpace, RLit ''AS'', RPlus RSpace,
     RGrp 1 (RSeqs [RCls (\<lambda>c. is_upper c \<or> c = CHR ''_''), RStar (RCls (\<lambda>c. is_upper c \<or> is_digit c \<or> c = CHR ''_''))])]), REol]"

definition SELECT_ALL_RE :: rx where
  "SELECT_ALL_RE = RSeqs [RBol, RLit ''SELECT'', RPlus RSpace, RChr CHR ''*'', RPlus RSpace, RLit ''FROM'', RPlus RSpace,
     RPlus (RCls (\<lambda>c. c \<in> set [CHR 0x60, CHR 0x22, CHR ''.'', CHR ''-'', CHR ''_''] \<or> is_upper c \<or> is_digit c))]"

definition runSqlContract :: "jsv \<Rightarrow> string \<Rightarrow> jsv \<Rightarrow> jsv \<Rightarrow> string \<Rightarrow> jsv res" where
  "runSqlContract resource query options providerGuard engine = rbind (database_guard (JStr query) options) (\<lambda>sqlGuard.
     if jget sqlGuard ''allowed'' \<noteq> JBool True then throwGuard sqlGuard
     else (let surface = providerConsoleSurface resource options; u = str_upper (str_trim (strip_semicolons query))
       in rbind
         (if rtest SELECT_ONE_RE u then Inr [JObj [(''raibitserver_connection_test'', jint 1)]]
          else if rtest SELECT_ALL_RE u then Inr (contract_rows resource query)
          else if rtest (RSeqs [RBol, RLit ''SHOW'', RPlus RSpace, RLit ''TABLES'']) u
            then map_listed table_row (jget surface ''tables'')
          else if rtest (RSeqs [RBol, RLit ''SHOW'', RPlus RSpace, RLit ''DATABASES'']) u \<or>
              rtest (RSeqs [RBol, RLit ''SHOW'', RPlus RSpace, RLit ''SCHEMAS'']) u
            then map_listed (\<lambda>schema. Inr (JObj [(''schema'', schema)])) (jget surface ''schemas'')
          else Inr []) (\<lambda>rows.
       Inr (contract_result engine (JStr ''provider-contract'') rows [] surface
         (jwith providerGuard [(''sql'', sqlGuard)])))))"

definition first_key :: "string list \<Rightarrow> jsv list \<Rightarrow> string" where
  "first_key rest keys = (if rest \<noteq> [] \<and> hd rest \<noteq> [] then hd rest
     else if keys \<noteq> [] \<and> to_str (hd keys) \<noteq> [] then to_str (hd keys) else ''health:ready'')"

text \<open>\<open>command.split(/\s+/)\<close>\<close>

definition split_spaces :: "string \<Rightarrow> string list" where
  "split_spaces s = str_split CHR '' '' (rreplace (RPlus RSpace) (\<lambda>_. '' '') s)"

definition redis_rows :: "jsv \<Rightarrow> string \<Rightarrow> jsv \<Rightarrow> jsv list" where
  "redis_rows resource command options = (let
     state = desired_state resource; keys = arrayStrings (jget state ''keys'');
     words = split_spaces command; rest = tl words; u = str_upper (hd words); key = first_key rest keys;
     value = (\<lambda>k. table_get (entries (jor (jget state k) (JObj []))) key)
   in if u = ''SCAN'' \<or> u = ''KEYS''
        then map (\<lambda>k. JObj [(''key'', k)]) (cut_items (clampNumber (jget options ''limit'') 1 1000 100) keys)
      else if u = ''GET'' then [JObj [(''key'', JStr key), (''value'', jnullish (value ''values'') (JStr ''<provider-owned-value>''))]]
      else if u = ''TTL'' then [JObj [(''key'', JStr key), (''ttl'', let n = to_num (value ''ttl'') in if is_finite n then JNum n else jint (-1))]]
      else if u = ''INFO'' then [JObj [(''section'', JStr (if rest \<noteq> [] \<and> hd rest \<noteq> [] then hd rest else ''memory'')),
        (''used_memory_human'', jor (jget state ''memory'') (JStr ''provider-managed''))]]
      else if u = ''DEL'' then [JObj [(''deleted'', jnat (length rest)), (''keys'', JArr (map JStr rest))]]
      else [])"

definition runRedisContract :: "jsv \<Rightarrow> string \<Rightarrow> jsv \<Rightarrow> jsv \<Rightarrow> string \<Rightarrow> jsv" where
  "runRedisContract resource command options guard engine = (let surface = providerConsoleSurface resource options in
     contract_result engine (surface_mode surface) (redis_rows resource command options)
       [(''keys'', JArr (arrayStrings (jget (desired_state resource) ''keys''))), (''command'', jget surface ''command'')] surface guard)"

definition name_chars :: rx where
  "name_chars = RPlus (RCls (\<lambda>c. is_word c \<or> c = CHR ''-''))"

definition mongo_collection :: "string \<Rightarrow> jsv list \<Rightarrow> string" where
  "mongo_collection command collections = (let
     fallback = (if collections \<noteq> [] \<and> to_str (hd collections) \<noteq> [] then to_str (hd collections) else ''documents'');
     found = (case rexec (RSeqs [ROpt (RLit ''db.''), RGrp 1 name_chars, RLit ''.find'', RStar RSpace, RChr CHR ''('']) command of
        Some g \<Rightarrow> Some g
      | None \<Rightarrow> rexec (RSeqs [RBol, RLitI ''find'', RPlus RSpace, RGrp 1 name_chars]) command)
   in case found of Some g \<Rightarrow> rgroup g 1 | None \<Rightarrow> fallback)"

definition COLLECTIONS_RE :: rx where
  "COLLECTIONS_RE = RAlts [RLitI ''getCollectionNames'', RLitI ''collections'', RSeqs [RLitI ''show'', RPlus RSpace, RLitI ''collections'']]"

definition runMongoContract :: "jsv \<Rightarrow> string \<Rightarrow> jsv \<Rightarrow> jsv \<Rightarrow> jsv" where
  "runMongoContract resource command options guard = (let
     surface = providerConsoleSurface resource options; state = desired_state resource;
     collections = arrayStrings (jor (jget surface ''collections'') (jget state ''collections''));
     collection = mongo_collection command collections;
     documents = jor (table_get (entries (jget state ''documents'')) collection) (jor (jget state ''documents'') (JArr []));
     rows = (if rtest COLLECTIONS_RE command then map (\<lambda>name. JObj [(''collection'', name)]) collections
       else cut_items (clampNumber (jget options ''limit'') 1 500 100) (arrayRows documents))
   in contract_result ''mongodb'' (surface_mode surface) rows [(''collections'', JArr collections)] surface guard)"

definition first_or :: "string \<Rightarrow> jsv list \<Rightarrow> jsv" where
  "first_or fallback names = (if names = [] then JStr fallback else jor (hd names) (JStr fallback))"

definition object_action :: "string \<Rightarrow> jsv list \<Rightarrow> jsv \<Rightarrow> jsv list" where
  "object_action action buckets options = [JObj [(action, JBool True), (''bucket'', first_or ''bucket'' buckets),
     (''key'', jor (jget options ''key'') (JStr ''object''))]]"

definition runObjectStorageContract :: "jsv \<Rightarrow> string \<Rightarrow> jsv \<Rightarrow> jsv \<Rightarrow> jsv" where
  "runObjectStorageContract resource command options guard = (let
     surface = providerConsoleSurface resource options; buckets = arrayStrings (jget surface ''buckets'');
     objects = arrayRows (jget surface ''objects''); lower = str_lower command;
     rows = (if rtest (RAlts (map RLit [''upload'', ''put'', ''cp''])) lower then object_action ''uploaded'' buckets options
       else if rtest (RAlts (map RLit [''delete'', ''rm''])) lower then object_action ''deleted'' buckets options
       else map (\<lambda>v. if is_jstr v then JObj [(''key'', v)] else v) objects)
   in contract_result ''object-storage'' (surface_mode surface) rows
        [(''buckets'', JArr buckets), (''objects'', JArr objects)] surface guard)"

definition runVectorContract :: "jsv \<Rightarrow> string \<Rightarrow> jsv \<Rightarrow> jsv \<Rightarrow> string \<Rightarrow> jsv" where
  "runVectorContract resource command options guard engine = (let
     surface = providerConsoleSurface resource options; collections = arrayStrings (jget surface ''collections'');
     rows = (if rtest (RLit ''search'') (str_lower command)
       then [JObj [(''collection'', first_or ''default'' collections), (''score'', jint 1), (''id'', JStr ''contract-vector-1'')]]
       else map (\<lambda>collection. JObj [(''collection'', collection)]) collections)
   in contract_result (if engine = ''vector-db'' then ''qdrant'' else engine) (surface_mode surface) rows
        [(''collections'', JArr collections)] surface guard)"

definition runQueueContract :: "jsv \<Rightarrow> string \<Rightarrow> jsv \<Rightarrow> jsv \<Rightarrow> string \<Rightarrow> jsv" where
  "runQueueContract resource command options guard engine = (let
     surface = providerConsoleSurface resource options; subjects = arrayStrings (jget surface ''subjects'');
     streams = arrayStrings (jget surface ''streams'');
     rows = (if rtest (RAlts (map RLit [''publish'', ''pub''])) (str_lower command)
       then [JObj [(''published'', JBool True), (''subject'', first_or ''events'' subjects)]]
       else [JObj [(''connected'', JBool True), (''subjects'', JArr subjects), (''streams'', JArr streams)]])
   in contract_result (if engine = ''message-queue'' then ''nats'' else engine) (surface_mode surface) rows
        [(''subjects'', JArr subjects), (''streams'', JArr streams)] surface guard)"

definition console_engine :: "jsv \<Rightarrow> string" where
  "console_engine resource = str_lower (to_str (jor (jget resource ''engine'')
     (jor (jget (jget resource ''desiredSpec'') ''engine'') (JStr []))))"

definition runProviderConsole :: "jsv \<Rightarrow> jsv \<Rightarrow> jsv \<Rightarrow> jsv res" where
  "runProviderConsole resource command options = (let
     engine = console_engine resource; txt = str_trim (to_str (jor command (JStr [])))
   in rbind (guardProviderCommand txt options) (\<lambda>guard.
     if jget guard ''allowed'' \<noteq> JBool True then throwGuard guard
     else if engine = ''mysql'' \<or> engine = ''mariadb'' then runSqlContract resource txt options guard engine
     else if engine = ''redis'' \<or> engine = ''valkey'' then Inr (runRedisContract resource txt options guard engine)
     else if engine = ''mongodb'' then Inr (runMongoContract resource txt options guard)
     else if engine = ''object-storage'' then Inr (runObjectStorageContract resource txt options guard)
     else if engine = ''qdrant'' \<or> engine = ''vector-db'' then Inr (runVectorContract resource txt options guard engine)
     else if engine = ''nats'' \<or> engine = ''message-queue'' then Inr (runQueueContract resource txt options guard engine)
     else (let surface = providerConsoleSurface resource options in Inr (JObj [
       (''engine'', JStr engine), (''mode'', surface_mode surface), (''rows'', JArr []), (''fields'', JArr []),
       (''warning'', jor (jget surface ''warning'') (JStr (engine @ '' console uses provider-owned adapter contract''))),
       (''command'', jget surface ''command''), (''connectionInfo'', jget surface ''connectionInfo''), (''guard'', guard)]))))"

section \<open>The entry points\<close>

definition is_postgres :: "string \<Rightarrow> bool" where
  "is_postgres engine = (engine = ''postgresql'' \<or> engine = ''postgres'')"

definition runDbConsoleQuery :: "driver \<Rightarrow> string \<Rightarrow> jsv \<Rightarrow> jsv \<Rightarrow> jsv \<Rightarrow> jsv db_run" where
  "runDbConsoleQuery d cwd resource query options = (let engine = console_engine resource in
     if engine \<noteq> ''sqlite'' \<and> \<not> is_postgres engine then run_ret (runProviderConsole resource query options)
     else run_bind (run_ret (database_guard query options)) (\<lambda>guard.
       if jget guard ''allowed'' \<noteq> JBool True then run_ret (throwGuard guard)
       else if engine = ''sqlite'' then runSqlite d cwd resource query options guard
       else runPostgres d resource query options guard))"

definition plain_engine :: "jsv \<Rightarrow> string" where
  "plain_engine resource = str_lower (to_str (jor (jget resource ''engine'') (JStr [])))"

definition sqlite_tables_query :: string where
  "sqlite_tables_query = ''SELECT name FROM sqlite_master WHERE type='' @ [CHR 0x27] @ ''table'' @ [CHR 0x27] @ '' ORDER BY name''"

definition browseDbConsole :: "driver \<Rightarrow> string \<Rightarrow> jsv \<Rightarrow> jsv \<Rightarrow> jsv db_run" where
  "browseDbConsole d cwd resource options = (let engine = plain_engine resource in
     if is_postgres engine then browsePostgres d resource options
     else if engine \<noteq> ''sqlite'' then run_ret (Inr (providerConsoleSurface resource options))
     else with_sqlite d cwd resource (\<lambda>dbPath. run_bind (call d (AllRows sqlite_tables_query)) (\<lambda>rows.
       run_ret (Inr (JObj [(''engine'', JStr ''sqlite''), (''dbPath'', JStr dbPath),
         (''tables'', JArr (map (\<lambda>row. jget row ''name'') (items rows)))])))))"

definition view_part :: "jsv \<Rightarrow> string \<Rightarrow> string \<times> jsv" where
  "view_part surface k = (k, jor (jget surface k) (JArr []))"

definition view_end :: "jsv \<Rightarrow> (string \<times> jsv) list" where
  "view_end surface = [(''connectionInfo'', jget surface ''connectionInfo''), (''warning'', jget surface ''warning''),
     (''mode'', jget surface ''mode'')]"

definition table_view :: "driver \<Rightarrow> string \<Rightarrow> jsv \<Rightarrow> jsv \<Rightarrow> jsv \<Rightarrow> string \<Rightarrow> jsv db_run" where
  "table_view d cwd resource options surface engine = (let
     table = str_trim (to_str (jor (jget options ''table'') (jor (jget options ''name'') (JStr []))));
     viewer = jwith options [(''role'', jor (jget options ''role'') (JStr ''viewer''))];
     all_rows = (\<lambda>dialect. rbind (quoteSqlIdentifier table dialect) (\<lambda>q. Inr (JStr (''SELECT * FROM '' @ q))))
   in if table = [] then run_ret (Inr (JObj [(''engine'', JStr engine), (''rows'', JArr []), (''fields'', JArr []),
          (''rowCount'', jint 0), (''warning'', JStr ''table view requires a table query parameter''),
          (''connectionInfo'', jget surface ''connectionInfo''), (''mode'', jget surface ''mode'')]))
      else if engine = ''sqlite'' then run_bind (run_ret (all_rows ''sqlite'')) (\<lambda>q. runDbConsoleQuery d cwd resource q viewer)
      else if is_postgres engine then run_bind (run_ret (all_rows ''postgresql'')) (\<lambda>q. runDbConsoleQuery d cwd resource q viewer)
      else if engine = ''mysql'' \<or> engine = ''mariadb''
        then run_ret (rbind (all_rows ''mysql'') (\<lambda>q. runProviderConsole resource q viewer))
      else run_ret (Inr (JObj [(''engine'', JStr engine), (''mode'', surface_mode surface), (''rows'', JArr []),
          (''fields'', JArr []), (''rowCount'', jint 0),
          (''warning'', JStr (engine @ '' table data grid is not available for this resource type'')),
          (''connectionInfo'', jget surface ''connectionInfo'')])))"

definition surface_view :: "jsv \<Rightarrow> jsv \<Rightarrow> string \<Rightarrow> jsv" where
  "surface_view surface engine view = (
     if view = ''schema'' then JObj ([(''engine'', engine), (''schema'', JObj (map (view_part surface)
         [''schemas'', ''tables'', ''collections'', ''keys'', ''buckets'', ''objects'', ''streams'', ''subjects'']))] @ view_end surface)
     else if view = ''tables''
       then JObj ([(''engine'', engine), view_part surface ''schemas'', view_part surface ''tables''] @ view_end surface)
     else if view = ''collections'' then JObj ([(''engine'', engine), view_part surface ''collections''] @ view_end surface)
     else if view = ''keys'' then JObj ([(''engine'', engine), view_part surface ''keys''] @ view_end surface @
       [(''command'', jget surface ''command'')])
     else surface)"

definition resourceConsoleView :: "driver \<Rightarrow> string \<Rightarrow> jsv \<Rightarrow> string \<Rightarrow> jsv \<Rightarrow> jsv db_run" where
  "resourceConsoleView d cwd resource view options = run_bind (browseDbConsole d cwd resource options) (\<lambda>surface.
     let engine = jor (jget surface ''engine'') (JStr (plain_engine resource)) in
     if view = ''table'' \<or> view = ''rows'' \<or> view = ''data''
     then table_view d cwd resource options surface (to_str engine)
     else run_ret (Inr (surface_view surface engine view)))"

section \<open>The calls of a run\<close>

lemma makes_calls_timeout: "makes_calls P m \<Longrightarrow> makes_calls P (withTimeout d m t)"
  by (simp add: makes_calls_def withTimeout_def split_beta)

lemma makes_calls_transaction:
  assumes "makes_calls P m" "P (BeginTransaction t)" "P CommitTransaction" "P RollbackTransaction"
  shows "makes_calls P (transaction d t m)"
  unfolding transaction_def
proof (intro makes_calls_bind makes_calls_call assms(2))
  show "makes_calls P (\<lambda>tr. case m tr of (Inr x, tr') \<Rightarrow> run_bind (call d CommitTransaction) (\<lambda>_. run_ret (Inr x)) tr'
     | (Inl e, tr') \<Rightarrow> (Inl e, tr' @ [RollbackTransaction]))"
    unfolding makes_calls_def
  proof
    fix tr
    obtain cs where cs: "snd (m tr) = tr @ cs" "list_all P cs" using assms(1) by (auto simp: makes_calls_def)
    then show "\<exists>cs. snd (case m tr of (Inr x, tr') \<Rightarrow> run_bind (call d CommitTransaction) (\<lambda>_. run_ret (Inr x)) tr'
     | (Inl e, tr') \<Rightarrow> (Inl e, tr' @ [RollbackTransaction])) = tr @ cs \<and> list_all P cs"
      using assms(3,4) by (cases "m tr") (auto simp: run_bind_def call_def run_ret_def split: sum.splits)
  qed
qed

lemmas db_calls_intros = makes_calls_intros makes_calls_timeout makes_calls_transaction

definition console_text :: "jsv \<Rightarrow> string" where
  "console_text query = str_trim (to_str (jor query (JStr [])))"

definition permitted :: "jsv \<Rightarrow> jsv \<Rightarrow> bool" where
  "permitted query options = (let role = jor (jget options ''role'') (JStr ''developer'') in
     isReadOnlyDatabaseQuery (JStr (console_text query)) \<and> can role ''db:data:read'' = Inr True \<or>
     can role ''db:query:write'' = Inr True \<and> confirmed_option options)"

fun console_call :: "string \<Rightarrow> jsv \<Rightarrow> jsv \<Rightarrow> db_call \<Rightarrow> bool" where
  "console_call cwd query options (OpenFile p) = isProviderOwnedSqlitePath cwd p"
| "console_call cwd query options (ExecSql q) = (q = ''PRAGMA busy_timeout=1000'' \<or>
     permitted query options \<and> q = console_text query \<and> \<not> sqlite_blocked (JStr q))"
| "console_call cwd query options (AllRows q) = (permitted query options \<and> \<not> sqlite_blocked (JStr (console_text query)) \<and>
     (q = sqlite_limited (console_text query) (jget options ''limit'') \<or> q = drop_semicolon (console_text query)))"
| "console_call cwd query options (RunSql q) = (q = ''SET TRANSACTION READ ONLY'' \<or>
     (let t = clampNumber (jget options ''timeoutMs'') 250 30000 5000 in q = set_timeout ''LOCAL '' t \<or> q = set_timeout [] t) \<or>
     permitted query options \<and> q = strip_semicolons (console_text query))"
| "console_call cwd query options (QuerySql q) = (let s = strip_semicolons (console_text query) in
     permitted query options \<and> isReadOnlyDatabaseQuery (JStr s) \<and> q = limitSqlQuery s (jget options ''limit''))"
| "console_call cwd query options c = True"

lemma assert_allowed: "assertSqliteStatementAllowed q = Inr x \<longleftrightarrow> \<not> sqlite_blocked q"
  by (simp add: assertSqliteStatementAllowed_def)

lemma sqlite_path_owned: "providerSqlitePath cwd resource = Inr p \<Longrightarrow> isProviderOwnedSqlitePath cwd p"
  by (auto simp: providerSqlitePath_def Let_def split: if_splits)

lemma guard_permits:
  assumes "database_guard query options = Inr v" "jget v ''allowed'' = JBool True"
  shows "permitted query options"
proof -
  have role: "jor (jget options ''role'') (JStr ''developer'') \<noteq> JUndef"
    by (cases "truthy (jget options ''role'')") (auto simp: jor_def)
  show ?thesis
    using query_guard[OF assms(1)[unfolded database_guard_def] assms(2)] role
    by (auto simp: permitted_def console_text_def Let_def)
qed

lemma sqlite_calls:
  assumes "permitted query options"
  shows "makes_calls (console_call cwd query options) (runSqlite d cwd resource query options guard)"
  unfolding runSqlite_def with_sqlite_def ensureSqliteDirectory_def sqlite_statement_def Let_def console_text_def[symmetric]
  by (intro db_calls_intros) (auto simp: run_ret_Inr assert_allowed assms dest: sqlite_path_owned)

lemma postgres_calls:
  assumes "permitted query options"
  shows "makes_calls (console_call cwd query options) (runPostgres d resource query options guard)"
proof (cases "resourceConnectionUrl resource postgres_keys")
  case None
  then show ?thesis unfolding runPostgres_def by (simp add: makes_calls_ret)
next
  case (Some u)
  show ?thesis
    unfolding runPostgres_def prismaClientFor_def postgres_statement_def queryPostgresReadOnly_def Let_def
      console_text_def[symmetric] Some option.case
    by (intro db_calls_intros) (simp_all add: assms Let_def)
qed

text \<open>C16: A console query reaches a driver only if it is read only and the role may read data, or the role
  may write and the query is confirmed. SQLite files are opened only at paths the provider owns, a
  statement the SQLite policy blocks is never sent, and a query sent as a read to PostgreSQL is read
  only; no other statement is sent than the query itself, with a limit added, and the settings of
  the session.\<close>

theorem console_confined:
  assumes "runDbConsoleQuery d cwd resource query options [] = (r, tr)"
  shows "(tr = [] \<or> permitted query options) \<and> list_all (console_call cwd query options) tr"
proof (cases "permitted query options")
  case True
  have "makes_calls (console_call cwd query options) (runDbConsoleQuery d cwd resource query options)"
    unfolding runDbConsoleQuery_def Let_def
    by (intro makes_calls_if makes_calls_ret makes_calls_bind sqlite_calls[OF True] postgres_calls[OF True])
  then have "list_all (console_call cwd query options) tr" using assms by (rule makes_calls_trace)
  with True show ?thesis by simp
next
  case False
  then have "tr = []"
    using assms guard_permits[of query options]
    by (auto simp: runDbConsoleQuery_def Let_def run_ret_def run_bind_def split: if_splits sum.splits)
  then show ?thesis by simp
qed

definition quiet_driver :: driver where
  "quiet_driver = \<lparr>answer = (\<lambda>_ _. Inr (JArr [])), late = (\<lambda>_. False)\<rparr>"

theorem console_confined_witness:
  "list_all (console_call ''/srv'' (JStr ''DROP TABLE t'') (JObj [(''role'', JStr ''db-admin''), (''confirmed'', JBool True)]))
    [Import ''node:sqlite'', MakeDirectory ''.raibitserver-work/sqlite'', OpenFile ''.raibitserver-work/sqlite/a.sqlite'',
     ExecSql ''PRAGMA busy_timeout=1000'', ExecSql ''DROP TABLE t'', CloseFile]"
proof -
  let ?r = "runDbConsoleQuery quiet_driver ''/srv'' (JObj [(''engine'', JStr ''sqlite''),
      (''sqlitePath'', JStr ''.raibitserver-work/sqlite/a.sqlite'')]) (JStr ''DROP TABLE t'')
      (JObj [(''role'', JStr ''db-admin''), (''confirmed'', JBool True)]) []"
  have "snd ?r = [Import ''node:sqlite'', MakeDirectory ''.raibitserver-work/sqlite'', OpenFile ''.raibitserver-work/sqlite/a.sqlite'',
     ExecSql ''PRAGMA busy_timeout=1000'', ExecSql ''DROP TABLE t'', CloseFile]" by code_simp
  then have "?r = (fst ?r, [Import ''node:sqlite'', MakeDirectory ''.raibitserver-work/sqlite'',
     OpenFile ''.raibitserver-work/sqlite/a.sqlite'', ExecSql ''PRAGMA busy_timeout=1000'', ExecSql ''DROP TABLE t'', CloseFile])"
    by (simp only: prod_eq_iff fst_conv snd_conv)
  from console_confined[OF this] show ?thesis by (rule conjunct2)
qed

section \<open>Reads of PostgreSQL\<close>

lemma reads_run:
  assumes "snd (queryPostgresReadOnly d sql t tr) = tr @ cs" "QuerySql q \<in> set cs"
  shows "prefix [BeginTransaction (num_add t (Fin 1000)), RunSql ''SET TRANSACTION READ ONLY'',
    RunSql (set_timeout ''LOCAL '' t), QuerySql q] cs"
  using assms
  by (auto simp: queryPostgresReadOnly_def withTimeout_def transaction_def run_bind_def call_def run_ret_def
    split_beta split: sum.splits)

section \<open>Trimmed results\<close>

lemma json_items_length: "length (str_join '','' (json_items rows)) =
    (\<Sum>row \<leftarrow> rows. length (json_stringify row)) + (length rows - 1)"
  by (induction rows rule: induct_list012) auto

lemma kept_prefix: "prefix (kept_rows byteLimit used rows) rows"
  by (induction rows arbitrary: used) (auto simp: Let_def)

lemma kept_bytes:
  "kept_rows byteLimit used rows \<noteq> [] \<Longrightarrow>
   used + of_nat ((\<Sum>row \<leftarrow> kept_rows byteLimit used rows. length (json_stringify row)) +
     (length (kept_rows byteLimit used rows) - 1)) \<le> byteLimit"
proof (induction rows arbitrary: used)
  case (Cons row rows)
  let ?b = "of_nat (length (json_stringify row)) :: rat"
  let ?k = "kept_rows byteLimit (used + ?b + 1) rows"
  have fits: "used + ?b \<le> byteLimit" using Cons.prems by (auto simp: Let_def split: if_splits)
  show ?case
  proof (cases "?k = []")
    case True
    then show ?thesis using fits by (simp add: Let_def)
  next
    case False
    then have "length ?k = Suc (length ?k - 1)" by simp
    with Cons.IH[OF False] fits show ?thesis by (simp add: Let_def algebra_simps)
  qed
qed simp

lemma byte_limit_bounds: "1024 \<le> byte_limit m" "byte_limit m \<le> 2000000"
  by (auto simp: byte_limit_def clampNumber_def Let_def is_finite_def split: jnum.splits)

text \<open>The rows a console query hands out are a prefix of the rows of the driver, and their JSON text has
  at most the requested number of bytes, at most two million.\<close>

theorem trimmed_rows:
  "prefix (items (trimResultRows (JArr rows) maxBytes)) rows \<and>
   of_nat (length (json_stringify (trimResultRows (JArr rows) maxBytes))) \<le> byte_limit maxBytes \<and>
   byte_limit maxBytes \<le> 2000000"
proof -
  let ?k = "kept_rows (byte_limit maxBytes) 2 rows"
  have "of_nat (length (json_stringify (JArr ?k))) \<le> byte_limit maxBytes"
  proof (cases "?k = []")
    case True
    then show ?thesis using byte_limit_bounds(1)[of maxBytes] by simp
  next
    case False
    from kept_bytes[OF this] show ?thesis by (simp add: json_items_length)
  qed
  then show ?thesis using kept_prefix byte_limit_bounds(2) by (simp add: trimResultRows_def is_jarr_def)
qed

end
