(* ===== verification/StoreConsole.thy ===== *)
theory StoreConsole
  imports StoreResources DbConsole
begin

text \<open>
  The database console of the store: a query, a command, the browser and the views of a resource run
  on the resource with its open connection, against the drivers \<open>d\<close>, and leave a row in the audit
  trail that shows the redacted statement.
\<close>

definition console_run :: "(jsv \<Rightarrow> jsv db_run) \<Rightarrow> world \<Rightarrow> jsv \<Rightarrow> jsv op" where
  "console_run run w resourceId = sbind (sfind resources ''resource'' resourceId) (\<lambda>resource.
     sbind (resourceForConsole w resource) (\<lambda>view. slift (fst (run view []))))"

definition result_rows :: "jsv \<Rightarrow> jsv" where
  "result_rows result = jor (jget result ''rowCount'') (jor (jnat (length (items (jget result ''rows'')))) (jint 0))"

definition statement_bytes :: "jsv \<Rightarrow> jsv" where
  "statement_bytes statement = jnat (length (to_str (jor statement (JStr []))))"

definition runResourceConsoleQuery :: "driver \<Rightarrow> world \<Rightarrow> jsv \<Rightarrow> jsv \<Rightarrow> jsv \<Rightarrow> jsv op" where
  "runResourceConsoleQuery d w resourceId query options =
     sbind (console_run (\<lambda>view. runDbConsoleQuery d (wCwd w) view query options) w resourceId) (\<lambda>result.
     sthen (audit w (jor (jget options ''actorUserId'') system) ''resource.console:query'' (JStr ''resource'') resourceId
       (JObj [(''queryPreview'', JStr (redactDbConsoleStatement query)), (''queryBytes'', statement_bytes query),
         (''resultRows'', result_rows result)]))
     (sret result))"

definition runResourceConsoleCommand :: "driver \<Rightarrow> world \<Rightarrow> jsv \<Rightarrow> jsv \<Rightarrow> jsv \<Rightarrow> jsv op" where
  "runResourceConsoleCommand d w resourceId command options =
     sbind (console_run (\<lambda>view. runDbConsoleQuery d (wCwd w) view command
       (jwith options [(''providerCommand'', JBool True)])) w resourceId) (\<lambda>result.
     sthen (audit w (jor (jget options ''actorUserId'') system) ''resource.console:command'' (JStr ''resource'') resourceId
       (JObj [(''commandPreview'', JStr (redactDbConsoleStatement command)), (''commandBytes'', statement_bytes command),
         (''mode'', jget result ''mode''), (''rowCount'', result_rows result)]))
     (sret result))"

definition browseResourceConsole :: "driver \<Rightarrow> world \<Rightarrow> jsv \<Rightarrow> jsv \<Rightarrow> jsv op" where
  "browseResourceConsole d w resourceId options =
     console_run (\<lambda>view. browseDbConsole d (wCwd w) view options) w resourceId"

definition storeConsoleView :: "driver \<Rightarrow> world \<Rightarrow> jsv \<Rightarrow> string \<Rightarrow> jsv \<Rightarrow> jsv op" where
  "storeConsoleView d w resourceId view options =
     console_run (\<lambda>resource. resourceConsoleView d (wCwd w) resource view options) w resourceId"

lemma audited_console_run: "keeps audited (console_run run w i)"
  unfolding console_run_def by (intro audited_intros audited_reads)

lemma audited_console:
  "keeps audited (runResourceConsoleQuery d w i q x)" "keeps audited (runResourceConsoleCommand d w i q x)"
  "keeps audited (browseResourceConsole d w i x)" "keeps audited (storeConsoleView d w i v x)"
  unfolding runResourceConsoleQuery_def runResourceConsoleCommand_def browseResourceConsole_def storeConsoleView_def
  by (intro audited_intros audited_console_run)+

end
