(* ===== verification/ErrorSpec.thy ===== *)
theory ErrorSpec
  imports Sanitize
begin

text \<open>\<open>error-spec.ts\<close>: the catalog of error codes and the normal form of an infrastructure error. An
  error is a value; what \<open>String(error)\<close> gives for an \<open>Error\<close> object is read from its message.\<close>

definition error_entry :: "string \<Rightarrow> string \<Rightarrow> string \<Rightarrow> bool \<Rightarrow> string \<Rightarrow> string \<times> jsv" where
  "error_entry code area severity retryable userMessage = (code, JObj [(''code'', JStr code), (''area'', JStr area),
     (''severity'', JStr severity), (''retryable'', JBool retryable), (''userMessage'', JStr userMessage)])"

definition ERROR_CODE_CATALOG :: "(string \<times> jsv) list" where
  "ERROR_CODE_CATALOG = [
     error_entry ''BUILD_FAILED'' ''build'' ''error'' True
       ''The image build failed. Check build logs, Dockerfile, and configured build commands.'',
     error_entry ''ROLLOUT_FAILED'' ''orchestrator'' ''error'' True
       ''The Kubernetes rollout failed. Check runtime logs, image pull status, probes, and resource limits.'',
     error_entry ''KUBERNETES_RECONCILE_FAILED'' ''orchestrator'' ''error'' True
       ''The orchestrator could not reconcile the desired Kubernetes state.'',
     error_entry ''IMAGE_PULL_BACKOFF'' ''orchestrator'' ''error'' True
       ''Kubernetes could not pull the container image. Verify registry credentials, image name, and tag/digest.'',
     error_entry ''INSUFFICIENT_QUOTA'' ''quota'' ''error'' False
       ''The requested operation exceeds the current organization or user quota.'',
     error_entry ''PROVIDER_CREDENTIAL_FAILED'' ''provisioner'' ''error'' True
       ''The resource provider could not create or store credentials for the managed resource.'',
     error_entry ''DEPLOYMENT_CANCELLED'' ''deployment'' ''info'' False ''Deployment cancellation was requested.'',
     error_entry ''WORKFLOW_HANDLER_MISSING'' ''workflow'' ''error'' False
       ''No worker handler is registered for this workflow type.'',
     error_entry ''UNKNOWN_INFRA_ERROR'' ''unknown'' ''error'' False ''An unexpected infrastructure error occurred.'']"

definition normalizeErrorCode :: "jsv \<Rightarrow> string" where
  "normalizeErrorCode code = (let
     normalized = rreplace1 (RSeqs [RBol, RLit ''ERR_'']) (\<lambda>_. []) (str_upper (str_trim (to_str (jor code (JStr [])))))
   in if normalized = [] then ''UNKNOWN_INFRA_ERROR''
      else if str_includes normalized ''IMAGE_PULL'' \<or> str_includes normalized ''IMAGEPULLBACKOFF''
        then ''IMAGE_PULL_BACKOFF''
      else normalized)"

definition errorSpecForCode :: "jsv \<Rightarrow> jsv" where
  "errorSpecForCode code =
     jor (table_get ERROR_CODE_CATALOG (normalizeErrorCode code)) (table_get ERROR_CODE_CATALOG ''UNKNOWN_INFRA_ERROR'')"

definition sanitizeErrorMetadata :: "jsv \<Rightarrow> jsv" where
  "sanitizeErrorMetadata input = (if \<not> truthy input \<or> \<not> typeof_object input then JObj [] else
     JObj (map (\<lambda>(k, v). (k, if is_jstr v then sanitizeLogRecord v else v))
       (filter (\<lambda>(k, v). v \<noteq> JUndef) (entries input))))"

definition normalizeInfrastructureError :: "jsv \<Rightarrow> jsv \<Rightarrow> jsv" where
  "normalizeInfrastructureError error fallbackCode = (let
     code = normalizeErrorCode (jor (jget error ''code'') (jor (jget error ''errorCode'')
       (jdefault fallbackCode (JStr ''UNKNOWN_INFRA_ERROR''))));
     spec = errorSpecForCode (JStr code);
     rawMessage = jor (jget error ''message'') (jor (jget error ''errorMessage'')
       (JStr (to_str (jor error (jget spec ''userMessage'')))))
   in jwith spec [(''code'', jget spec ''code''), (''message'', sanitizeLogRecord rawMessage),
       (''metadata'', sanitizeErrorMetadata (jor (jget error ''metadata'') (JObj [])))])"

section \<open>Lemmas\<close>

definition no_lower :: "string \<Rightarrow> bool" where
  "no_lower s = (\<forall>c \<in> set s. \<not> is_lower c)"

lemma no_lower_upper: "no_lower (str_upper s)"
  by (auto simp: no_lower_def str_upper_def is_lower_def code_of_upper_char)

lemma normalizeErrorCode_no_lower: "no_lower (normalizeErrorCode code)"
proof -
  have "no_lower ''UNKNOWN_INFRA_ERROR''" "no_lower ''IMAGE_PULL_BACKOFF''" by code_simp+
  moreover have "no_lower (rreplace1 r (\<lambda>_. []) (str_upper s))" for r s
    using no_lower_upper[of s] set_rreplace1_delete[of r "str_upper s"] unfolding no_lower_def by blast
  ultimately show ?thesis by (simp add: normalizeErrorCode_def Let_def)
qed

lemma proto_keys_lower: "\<forall>k \<in> set proto_keys. \<not> no_lower k"
  by code_simp

lemma catalog_entries:
  "\<forall>(k, v) \<in> set ERROR_CODE_CATALOG. truthy v \<and> jget v ''code'' = JStr k"
  "map_of ERROR_CODE_CATALOG ''UNKNOWN_INFRA_ERROR'' \<noteq> None"
  by code_simp+

lemma errorSpecForCode_entry:
  "\<exists>k. (k, errorSpecForCode code) \<in> set ERROR_CODE_CATALOG \<and> jget (errorSpecForCode code) ''code'' = JStr k"
proof -
  have "normalizeErrorCode code \<notin> set proto_keys"
    using normalizeErrorCode_no_lower proto_keys_lower by blast
  moreover obtain u where u: "map_of ERROR_CODE_CATALOG ''UNKNOWN_INFRA_ERROR'' = Some u"
    using catalog_entries(2) by blast
  moreover have "truthy v" if "map_of ERROR_CODE_CATALOG k = Some v" for k v
    using bspec[OF catalog_entries(1) map_of_SomeD[OF that]] by simp
  ultimately have "\<exists>k. map_of ERROR_CODE_CATALOG k = Some (errorSpecForCode code)"
    by (cases "map_of ERROR_CODE_CATALOG (normalizeErrorCode code)")
      (auto simp: errorSpecForCode_def table_get_def)
  then obtain k where "(k, errorSpecForCode code) \<in> set ERROR_CODE_CATALOG" by (auto dest: map_of_SomeD)
  with catalog_entries(1) show ?thesis by blast
qed

section \<open>Properties\<close>

text \<open>whatever error it is given, \<open>normalizeInfrastructureError\<close> returns an entry of the catalog,
  with that entry's code, area and retry flag and a sanitized message.\<close>

theorem infrastructure_error_in_catalog:
  "\<exists>k v m. (k, v) \<in> set ERROR_CODE_CATALOG \<and>
     jget (normalizeInfrastructureError e fallback) ''code'' = JStr k \<and>
     jget (normalizeInfrastructureError e fallback) ''retryable'' = jget v ''retryable'' \<and>
     jget (normalizeInfrastructureError e fallback) ''area'' = jget v ''area'' \<and>
     jget (normalizeInfrastructureError e fallback) ''message'' = sanitizeLogRecord m"
proof -
  obtain code m md where n: "normalizeInfrastructureError e fallback = jwith (errorSpecForCode code)
      [(''code'', jget (errorSpecForCode code) ''code''), (''message'', sanitizeLogRecord m), (''metadata'', md)]"
    by (metis normalizeInfrastructureError_def)
  obtain k where "(k, errorSpecForCode code) \<in> set ERROR_CODE_CATALOG"
    "jget (errorSpecForCode code) ''code'' = JStr k"
    using errorSpecForCode_entry by blast
  then show ?thesis unfolding n by (intro exI[of _ k] exI[of _ "errorSpecForCode code"] exI[of _ m])
    (simp add: jwith_Cons)
qed

end
