(* ===== verification/Workflows.thy ===== *)
theory Workflows
  imports ErrorSpec
begin

text \<open>
  \<open>workflows.ts\<close>: workflow job records and their life cycle, the claim of the next due job, the
  replacement of a job, and \<open>processNextWorkflowJob\<close>, a client of a queue interface. The interface
  is the locale \<open>workflow_queue\<close>; the array queue of this file interprets it here, the control plane
  store in its own theory. \<open>t\<close> is the instant of \<open>Date.now()\<close>. A handler may change the queue's
  state while it runs, so it maps the state too.
\<close>

section \<open>Statuses\<close>

definition WORKFLOW_TYPES :: "string list" where
  "WORKFLOW_TYPES = [''build-and-deploy'', ''preview-deploy'', ''kubernetes-apply'', ''provision-resource'']"

definition WORKFLOW_STATUSES :: "string list" where
  "WORKFLOW_STATUSES = [''queued'', ''running'', ''succeeded'', ''failed'', ''cancelled'']"

definition TERMINAL_STATUSES :: "string list" where
  "TERMINAL_STATUSES = [''succeeded'', ''failed'', ''cancelled'']"

definition normalizeWorkflowStatus :: "jsv \<Rightarrow> string" where
  "normalizeWorkflowStatus status = (let n = str_lower (str_trim (to_str (jor status (JStr ''queued'')))) in
     if n = ''completed'' \<or> n = ''complete'' \<or> n = ''success'' then ''succeeded''
     else if n = ''pending'' \<or> n = ''retrying'' then ''queued''
     else n)"

definition isWorkflowTerminal :: "jsv \<Rightarrow> bool" where
  "isWorkflowTerminal job = (normalizeWorkflowStatus (jget job ''status'') \<in> set TERMINAL_STATUSES)"

section \<open>Jobs\<close>

definition sanitizeWorkflowValue :: "jsv \<Rightarrow> jsv" where
  "sanitizeWorkflowValue v = mask_tree (\<lambda>s. to_str (sanitizeLogRecord (JStr s))) v"

definition workflowErrorMessage :: "jsv \<Rightarrow> jsv" where
  "workflowErrorMessage error =
    (if \<not> truthy error then JStr ''workflow failed''
     else if is_jstr error then sanitizeLogRecord error
     else sanitizeLogRecord (jor (jget error ''message'') (JStr (to_str error))))"

definition job_attempts :: "jsv \<Rightarrow> jnum" where
  "job_attempts job = num_max (Fin 0) (to_num (jor (jget job ''attempts'') (jint 0)))"

definition job_max :: "jsv \<Rightarrow> jnum" where
  "job_max job = num_max (Fin 1) (to_num (jor (jget job ''maxAttempts'') (jint 3)))"

definition iso_value :: "jsv \<Rightarrow> jsv res" where
  "iso_value v = rbind (isoTimestamp v) (\<lambda>s. Inr (JStr s))"

definition createWorkflowJobRecord :: "jsv \<Rightarrow> int \<Rightarrow> jsv res" where
  "createWorkflowJobRecord input t = (let
     type = jor (jget input ''type'') (JStr ''build-and-deploy'');
     targetType = jor (jget input ''targetType'') (JStr ''deployment'');
     targetId = jor (jget input ''targetId'') (jor (jget input ''deploymentId'') (jget input ''serviceId''));
     createdAt = jor (jget input ''createdAt'') (nowIso t)
   in if \<not> truthy targetId then js_throw ''workflow job targetId is required''
      else rbind (if truthy (jget input ''runAfter'') then iso_value (jget input ''runAfter'') else Inr (nowIso t)) (\<lambda>runAfter.
        rbind (if truthy (jget input ''lockedAt'') then iso_value (jget input ''lockedAt'') else Inr JNull) (\<lambda>lockedAt.
        Inr (JObj [
          (''id'', jor (jget input ''id'') (JStr (stableId ''job'' [type, targetType, targetId, createdAt]))),
          (''type'', type),
          (''status'', JStr (normalizeWorkflowStatus (jor (jget input ''status'') (JStr ''queued'')))),
          (''targetType'', targetType), (''targetId'', targetId),
          (''payload'', sanitizeWorkflowValue (jor (jget input ''payload'') (JObj []))),
          (''attempts'', JNum (job_attempts input)), (''maxAttempts'', JNum (job_max input)),
          (''runAfter'', runAfter), (''lockedBy'', jor (jget input ''lockedBy'') JNull), (''lockedAt'', lockedAt),
          (''createdAt'', createdAt), (''updatedAt'', jor (jget input ''updatedAt'') (nowIso t))]))))"

definition option_now :: "jsv \<Rightarrow> int \<Rightarrow> jsv" where
  "option_now options t = jor (jget options ''now'') (jint t)"

definition isWorkflowLockExpired :: "jsv \<Rightarrow> jsv \<Rightarrow> int \<Rightarrow> bool" where
  "isWorkflowLockExpired job options t = (if \<not> truthy (jget job ''lockedAt'') then True else
     (let leaseMs = to_num (jnullish (jget options ''leaseMs'')
            (JNum (num_scale 1000 (to_num (jor (jget options ''leaseSeconds'') (jint 300)))))) in
      num_le (num_add (dateMillis (jget job ''lockedAt'')) leaseMs) (dateMillis (option_now options t))))"

definition isWorkflowJobReady :: "jsv \<Rightarrow> jsv \<Rightarrow> int \<Rightarrow> bool" where
  "isWorkflowJobReady job options t = (let
     now = dateMillis (option_now options t);
     runAfter = dateMillis (jor (jget job ''runAfter'') (jint 0))
   in if normalizeWorkflowStatus (jget job ''status'') \<noteq> ''queued'' then False
      else if num_less now runAfter then False
      else if \<not> truthy (jget job ''lockedAt'') then True
      else isWorkflowLockExpired job options t)"

definition claimWorkflowJobRecord :: "jsv \<Rightarrow> jsv \<Rightarrow> int \<Rightarrow> jsv option res" where
  "claimWorkflowJobRecord job options t =
    (if \<not> isWorkflowJobReady job options t then Inr None
     else rbind (iso_value (option_now options t)) (\<lambda>now.
       Inr (Some (jwith job [
         (''status'', JStr ''running''),
         (''attempts'', JNum (num_add (job_attempts job) (Fin 1))),
         (''maxAttempts'', JNum (job_max job)),
         (''lockedBy'', jor (jget options ''workerId'') (jor (jget options ''worker'') (JStr ''workflow-worker''))),
         (''lockedAt'', now), (''updatedAt'', now)]))))"

definition completeWorkflowJobRecord :: "jsv \<Rightarrow> jsv \<Rightarrow> jsv \<Rightarrow> int \<Rightarrow> jsv res" where
  "completeWorkflowJobRecord job result options t =
     rbind (iso_value (option_now options t)) (\<lambda>now.
       Inr (jwith job [
         (''status'', JStr ''succeeded''),
         (''payload'', jwith (jor (jget job ''payload'') (JObj []))
            [(''lastResult'', sanitizeWorkflowValue result), (''completedAt'', now)]),
         (''lockedBy'', JNull), (''lockedAt'', JNull), (''updatedAt'', now)]))"

definition retryDelayMs :: "jnum \<Rightarrow> jsv \<Rightarrow> jnum" where
  "retryDelayMs attempts options = (let
     base = to_num (jnullish (jget options ''retryDelayMs'') (jint 1000));
     cap = to_num (jnullish (jget options ''maxRetryDelayMs'') (jint 60000))
   in num_min cap (num_mul base (num_max (Fin 1) (num_pow2 (num_max (Fin 0) (num_sub attempts (Fin 1)))))))"

definition is_retryable :: "jsv \<Rightarrow> jsv \<Rightarrow> bool" where
  "is_retryable job options =
     (jget options ''retryable'' \<noteq> JBool False \<and> num_less (job_attempts job) (job_max job))"

definition fallback_code :: "jsv \<Rightarrow> jsv \<Rightarrow> jsv res" where
  "fallback_code safeError options =
    (if truthy (jget options ''errorCode'') then Inr (jget options ''errorCode'')
     else if \<not> is_jstr safeError then js_throw ''safeError.includes is not a function''
     else Inr (JStr (if str_includes (to_str safeError) ''no workflow handler registered''
       then ''WORKFLOW_HANDLER_MISSING'' else ''UNKNOWN_INFRA_ERROR'')))"

definition failWorkflowJobRecord :: "jsv \<Rightarrow> jsv \<Rightarrow> jsv \<Rightarrow> int \<Rightarrow> jsv res" where
  "failWorkflowJobRecord job error options t = (let
     now = dateMillis (option_now options t);
     retryable = is_retryable job options;
     safeError = workflowErrorMessage error
   in rbind (if retryable
             then rbind (iso_of_num (num_add now (retryDelayMs (job_attempts job) options))) (\<lambda>s. Inr (JStr s))
             else iso_value (JNum now)) (\<lambda>nextRunAt.
      rbind (fallback_code safeError options) (\<lambda>code.
      rbind (iso_value (JNum now)) (\<lambda>stamp.
       Inr (jwith job [
         (''status'', JStr (if retryable then ''queued'' else ''failed'')),
         (''payload'', jwith (jor (jget job ''payload'') (JObj []))
            [(''lastError'', safeError), (''lastErrorSpec'', normalizeInfrastructureError error code),
             (''failedAt'', stamp)]),
         (''runAfter'', nextRunAt), (''lockedBy'', JNull), (''lockedAt'', JNull), (''updatedAt'', stamp)])))))"

section \<open>The array queue\<close>

definition due_time :: "jsv \<Rightarrow> jnum" where
  "due_time job = dateMillis (jor (jget job ''runAfter'') (jor (jget job ''createdAt'') (jint 0)))"

definition ready_jobs :: "jsv list \<Rightarrow> jsv \<Rightarrow> int \<Rightarrow> (nat \<times> jsv) list" where
  "ready_jobs jobs options t =
     filter (\<lambda>(i, job). isWorkflowJobReady job options t) (zip [0..<length jobs] jobs)"

definition claimNextWorkflowJobFromList :: "jsv list \<Rightarrow> jsv \<Rightarrow> int \<Rightarrow> (jsv option \<times> jsv list) res" where
  "claimNextWorkflowJobFromList jobs options t =
    (case sort_key (\<lambda>p. due_time (snd p)) (ready_jobs jobs options t) of
       [] \<Rightarrow> Inr (None, jobs)
     | (i, job) # _ \<Rightarrow> rbind (claimWorkflowJobRecord job options t) (\<lambda>claimed.
         case claimed of
           None \<Rightarrow> Inr (None, jobs)
         | Some c \<Rightarrow> Inr (Some (deep_clone c), jobs[i := c])))"

definition same_id :: "jsv \<Rightarrow> jsv \<Rightarrow> bool" where
  "same_id a b = (to_str (jget a ''id'') = to_str (jget b ''id''))"

fun replace_first :: "jsv \<Rightarrow> jsv list \<Rightarrow> jsv list option" where
  "replace_first nxt [] = None"
| "replace_first nxt (j # js) =
     (if same_id j nxt then Some (nxt # js) else map_option (Cons j) (replace_first nxt js))"

definition replaceWorkflowJob :: "jsv list \<Rightarrow> jsv \<Rightarrow> (jsv \<times> jsv list) res" where
  "replaceWorkflowJob jobs nxt = (case replace_first nxt jobs of
      None \<Rightarrow> js_throw (''workflow job not found: '' @ to_str (jget nxt ''id''))
    | Some js \<Rightarrow> Inr (deep_clone nxt, js))"

section \<open>Processing one job of a queue\<close>

text \<open>What \<open>processNextWorkflowJob\<close> calls of a queue: \<open>claimFromQueue\<close>, \<open>completeInQueue\<close> and
  \<open>failInQueue\<close>; the last two get the claimed job and the next record. An error of \<open>completeInQueue\<close> is caught,
  so it comes with the state it leaves.\<close>

record 'q queue_ops =
  claimFromQueue :: "'q \<Rightarrow> jsv \<Rightarrow> int \<Rightarrow> (jsv option \<times> 'q) res"
  completeInQueue :: "'q \<Rightarrow> jsv \<Rightarrow> jsv \<Rightarrow> jsv \<Rightarrow> int \<Rightarrow> unit res \<times> 'q"
  failInQueue :: "'q \<Rightarrow> jsv \<Rightarrow> jsv \<Rightarrow> jsv \<Rightarrow> int \<Rightarrow> 'q res"

type_synonym 'q handler = "jsv \<Rightarrow> jsv \<Rightarrow> 'q \<Rightarrow> jsv res \<times> 'q"

text \<open>\<open>handlers[claim.type]\<close> also finds the members that the object of the handlers inherits. Called on their own,
  \<open>constructor\<close> returns its argument, \<open>toString\<close> the name of \<open>undefined\<close>, and the others throw; the message is
  the engine's. \<open>__proto__\<close> is an object and no function.\<close>

definition OBJECT_METHODS :: "string list" where
  "OBJECT_METHODS = [''constructor'', ''toString'', ''toLocaleString'', ''valueOf'', ''hasOwnProperty'', ''isPrototypeOf'',
     ''propertyIsEnumerable'', ''__defineGetter__'', ''__defineSetter__'', ''__lookupGetter__'', ''__lookupSetter__'']"

definition inherited_handler :: "string \<Rightarrow> 'q handler" where
  "inherited_handler name claim context q = ((if name = ''constructor'' then Inr claim
     else if name = ''toString'' then Inr (JStr ''[object Undefined]'')
     else js_throw ''Cannot convert undefined or null to object''), q)"

definition handler_for :: "(string \<times> 'q handler) list \<Rightarrow> jsv \<Rightarrow> 'q handler option" where
  "handler_for handlers type = (case map_of handlers (to_str type) of
      Some h \<Rightarrow> Some h
    | None \<Rightarrow> if to_str type = ''__proto__'' then None
        else if to_str type \<in> set OBJECT_METHODS then Some (inherited_handler (to_str type))
        else map_of handlers ''default'')"

lemma handler_cases:
  assumes "handler_for handlers type = Some h"
  obtains (own) n where "(n, h) \<in> set handlers" | (inherited) n where "h = inherited_handler n"
  using assms by (auto simp: handler_for_def split: option.splits if_splits dest!: map_of_SomeD)

definition error_value :: "js_error \<Rightarrow> jsv" where
  "error_value e = JObj [(''message'', JStr (message e))]"

definition fail_claim :: "'q queue_ops \<Rightarrow> 'q \<Rightarrow> jsv \<Rightarrow> jsv \<Rightarrow> jsv \<Rightarrow> jsv \<Rightarrow> int \<Rightarrow> (jsv \<times> 'q) res" where
  "fail_claim ops q claim error failOptions options t =
     rbind (failWorkflowJobRecord claim error failOptions t) (\<lambda>failed.
     rbind (failInQueue ops q claim failed options t) (\<lambda>q'.
       Inr (JObj [(''processed'', JBool True), (''ok'', JBool False), (''job'', deep_clone failed),
         (''error'', jget (jget failed ''payload'') ''lastError'')], q')))"

definition run_claim :: "'q queue_ops \<Rightarrow> 'q handler \<Rightarrow> 'q \<Rightarrow> jsv \<Rightarrow> jsv \<Rightarrow> int \<Rightarrow> (jsv \<times> 'q) res" where
  "run_claim ops h q claim options t = (case h (deep_clone claim)
       (JObj [(''workerId'', jor (jget options ''workerId'') (jor (jget options ''worker'') (jget claim ''lockedBy''))),
              (''signal'', jget options ''signal'')]) q of
     (Inl e, q1) \<Rightarrow> fail_claim ops q1 claim (error_value e) options options t
   | (Inr result, q1) \<Rightarrow>
       (case completeWorkflowJobRecord claim result options t of
          Inl e \<Rightarrow> fail_claim ops q1 claim (error_value e) options options t
        | Inr completed \<Rightarrow> (case completeInQueue ops q1 claim completed options t of
            (Inl e, q2) \<Rightarrow> fail_claim ops q2 claim (error_value e) options options t
          | (Inr _, q2) \<Rightarrow> Inr (JObj [(''processed'', JBool True), (''ok'', JBool True), (''job'', deep_clone completed),
              (''result'', sanitizeWorkflowValue result)], q2))))"

definition processNextWorkflowJob ::
  "'q queue_ops \<Rightarrow> (string \<times> 'q handler) list \<Rightarrow> 'q \<Rightarrow> jsv \<Rightarrow> int \<Rightarrow> (jsv \<times> 'q) res" where
  "processNextWorkflowJob ops handlers q options t =
     rbind (claimFromQueue ops q options t) (\<lambda>(claimed, q0). case claimed of
       None \<Rightarrow> Inr (JObj [(''processed'', JBool False), (''ok'', JBool True),
         (''reason'', JStr ''no_ready_workflow_jobs'')], q0)
     | Some claim \<Rightarrow> (case handler_for handlers (jget claim ''type'') of
         None \<Rightarrow> fail_claim ops q0 claim
           (JObj [(''message'', JStr (''no workflow handler registered for '' @ to_str (jget claim ''type'')))])
           (jwith options [(''retryable'', JBool False)]) options t
       | Some h \<Rightarrow> run_claim ops h q0 claim options t))"

definition only_effect :: "'a res \<times> 'q \<Rightarrow> unit res \<times> 'q" where
  "only_effect p = (case p of (Inl e, q) \<Rightarrow> (Inl e, q) | (Inr _, q) \<Rightarrow> (Inr (), q))"

definition list_queue :: "jsv list queue_ops" where
  "list_queue = \<lparr>claimFromQueue = claimNextWorkflowJobFromList,
     completeInQueue = (\<lambda>jobs claimed completed options t. case replaceWorkflowJob jobs completed of
        Inl e \<Rightarrow> (Inl e, jobs) | Inr (_, js) \<Rightarrow> (Inr (), js)),
     failInQueue = (\<lambda>jobs claimed failed options t. rbind (replaceWorkflowJob jobs failed) (\<lambda>(_, js). Inr js))\<rparr>"

end
