(* ===== verification/WorkflowQueue.thy ===== *)
theory WorkflowQueue
  imports Workflows
begin

text \<open>
  What the workflow operations guarantee: the effect of a claim, the invariant of a set of jobs, and,
  in the locale \<open>workflow_queue\<close>, the effect of processing one job of any queue whose operations obey
  the laws of \<open>claimNextWorkflowJobFromList\<close> and \<open>replaceWorkflowJob\<close>.
\<close>

section \<open>The records of the life cycle\<close>

lemma ready_queued:
  "isWorkflowJobReady job options t \<Longrightarrow> normalizeWorkflowStatus (jget job ''status'') = ''queued''"
  by (simp add: isWorkflowJobReady_def Let_def split: if_splits)

lemma status_normal:
  "normalizeWorkflowStatus (JStr ''running'') = ''running''"
  "normalizeWorkflowStatus (JStr ''queued'') = ''queued''"
  "normalizeWorkflowStatus (JStr ''succeeded'') = ''succeeded''"
  "normalizeWorkflowStatus (JStr ''failed'') = ''failed''"
  by code_simp+

lemma claim_record:
  assumes "claimWorkflowJobRecord job options t = Inr (Some c)"
  shows "isWorkflowJobReady job options t" "jget c ''status'' = JStr ''running''"
    "jget c ''attempts'' = JNum (num_add (job_attempts job) (Fin 1))"
    "jget c ''maxAttempts'' = JNum (job_max job)" "jget c ''id'' = jget job ''id''"
    "record_object job \<Longrightarrow> record_object c"
  using assms
  by (auto simp: claimWorkflowJobRecord_def rbind_Inr_iff jwith_Cons record_object_jset
      record_object_jwith split: if_splits)




lemma claim_record_None: "claimWorkflowJobRecord job options t = Inr None \<Longrightarrow> \<not> isWorkflowJobReady job options t"
  by (auto simp: claimWorkflowJobRecord_def rbind_Inr_iff split: if_splits)

lemma complete_record:
  assumes "completeWorkflowJobRecord job result options t = Inr c"
  shows "jget c ''status'' = JStr ''succeeded''" "jget c ''attempts'' = jget job ''attempts''"
    "jget c ''maxAttempts'' = jget job ''maxAttempts''" "jget c ''id'' = jget job ''id''"
    "record_object job \<Longrightarrow> record_object c"
  using assms
  by (auto simp: completeWorkflowJobRecord_def rbind_Inr_iff jwith_Cons record_object_jset record_object_jwith)

lemma fail_record:
  assumes "failWorkflowJobRecord job error options t = Inr c"
  shows "jget c ''status'' = JStr (if is_retryable job options then ''queued'' else ''failed'')"
    "jget c ''attempts'' = jget job ''attempts''" "jget c ''maxAttempts'' = jget job ''maxAttempts''"
    "jget c ''id'' = jget job ''id''" "record_object job \<Longrightarrow> record_object c"
  using assms
  by (auto simp: failWorkflowJobRecord_def rbind_Inr_iff jwith_Cons record_object_jset record_object_jwith Let_def)

text \<open>A job handed out is not handed out again while it runs, whatever the options and the clock.\<close>

lemma running_not_ready: "jget job ''status'' = JStr ''running'' \<Longrightarrow> \<not> isWorkflowJobReady job options t"
  using ready_queued status_normal(1) by fastforce

section \<open>The invariant of a job\<close>

text \<open>Attempts and their bound are whole numbers, attempts never exceed the bound, and a job that is
  still queued has an attempt left.\<close>

definition job_wf :: "jsv \<Rightarrow> bool" where
  "job_wf j = (record_object j \<and> is_jstr (jget j ''id'') \<and>
     (\<exists>a m :: int. job_attempts j = Fin (of_int a) \<and> job_max j = Fin (of_int m) \<and> a \<le> m \<and>
       (normalizeWorkflowStatus (jget j ''status'') = ''queued'' \<longrightarrow> a < m)))"

definition job_id :: "jsv \<Rightarrow> string" where
  "job_id j = to_str (jget j ''id'')"

definition jobs_wf :: "jsv list \<Rightarrow> bool" where
  "jobs_wf js = (list_all job_wf js \<and> distinct (map job_id js))"

lemma job_attempts_nonneg: "job_attempts j = Fin q \<Longrightarrow> 0 \<le> q"
  by (auto simp: job_attempts_def num_max_def num_less_def split: if_splits jnum.splits)

lemma job_max_pos: "job_max j = Fin q \<Longrightarrow> 1 \<le> q"
  by (auto simp: job_max_def num_max_def num_less_def split: if_splits jnum.splits)

lemma job_attempts_num: "jget j ''attempts'' = JNum (Fin q) \<Longrightarrow> 0 \<le> q \<Longrightarrow> job_attempts j = Fin q"
  by (auto simp: job_attempts_def jor_def to_num_def)

lemma job_max_num: "jget j ''maxAttempts'' = JNum (Fin q) \<Longrightarrow> 1 \<le> q \<Longrightarrow> job_max j = Fin q"
  by (auto simp: job_max_def jor_def to_num_def)

lemma job_counts_cong:
  "jget i ''attempts'' = jget j ''attempts'' \<Longrightarrow> job_attempts i = job_attempts j"
  "jget i ''maxAttempts'' = jget j ''maxAttempts'' \<Longrightarrow> job_max i = job_max j"
  by (simp_all add: job_attempts_def job_max_def)

lemma claim_wf:
  assumes "claimWorkflowJobRecord j options t = Inr (Some c)" "job_wf j"
  shows "job_wf c \<and> job_id c = job_id j \<and> job_attempts c = num_add (job_attempts j) (Fin 1) \<and>
    job_max c = job_max j"
proof -
  note c = claim_record[OF assms(1)]
  obtain a m :: int where am: "job_attempts j = Fin (of_int a)" "job_max j = Fin (of_int m)" "a < m"
    using assms(2) ready_queued[OF c(1)] by (auto simp: job_wf_def)
  have "jget c ''attempts'' = JNum (Fin (of_int (a + 1)))" using c(3) am(1) by simp
  then have ca: "job_attempts c = Fin (of_int (a + 1))"
    using job_attempts_nonneg[OF am(1)] by (intro job_attempts_num) simp_all
  have cm: "job_max c = Fin (of_int m)"
    using c(4) am(2) job_max_pos[OF am(2)] by (intro job_max_num) simp_all
  moreover have "a + 1 \<le> m" using am(3) by simp
  moreover have "normalizeWorkflowStatus (jget c ''status'') \<noteq> ''queued''"
    unfolding c(2) status_normal by simp
  ultimately have "job_wf c"
    using ca c(5,6) assms(2) unfolding job_wf_def by metis
  with ca cm c(5) am(1,2) show ?thesis by (simp add: job_id_def)
qed

lemma clone_wf:
  assumes "job_wf j" "jget j ''status'' = JStr s"
    "jget j ''attempts'' = JNum (Fin p)" "jget j ''maxAttempts'' = JNum (Fin q)"
  shows "record_object (deep_clone j) \<and> jget (deep_clone j) ''id'' = jget j ''id'' \<and>
    jget (deep_clone j) ''attempts'' = jget j ''attempts'' \<and>
    jget (deep_clone j) ''maxAttempts'' = jget j ''maxAttempts''"
proof -
  have r: "record_object j" "is_jstr (jget j ''id'')" using assms(1) by (auto simp: job_wf_def)
  then show ?thesis
    using assms(2-4) jget_clone[OF r(1)] record_object_clone[OF r(1)]
    by (auto simp: is_jstr_def split: jsv.splits)
qed

text \<open>What a finished attempt leaves of the claimed job.\<close>

definition attempt_over :: "jsv \<Rightarrow> bool" where
  "attempt_over j = (jget j ''status'' = JStr ''succeeded'' \<or> jget j ''status'' = JStr ''failed'' \<or>
     jget j ''status'' = JStr ''queued'' \<and> num_less (job_attempts j) (job_max j))"

definition attempt_result :: "jsv \<Rightarrow> jsv \<Rightarrow> bool" where
  "attempt_result claim final = (record_object final \<and> jget final ''id'' = jget claim ''id'' \<and>
     job_attempts final = job_attempts claim \<and> job_max final = job_max claim \<and> attempt_over final)"

lemma complete_attempt:
  assumes "completeWorkflowJobRecord j result options t = Inr c" "record_object j"
  shows "attempt_result j c"
  unfolding attempt_result_def attempt_over_def
  using complete_record[OF assms(1)] assms(2)
    job_counts_cong(1)[OF complete_record(2)[OF assms(1)]] job_counts_cong(2)[OF complete_record(3)[OF assms(1)]]
  by blast

lemma fail_attempt:
  assumes "failWorkflowJobRecord j error options t = Inr c" "record_object j"
  shows "attempt_result j c"
proof -
  have "is_retryable j options \<Longrightarrow> num_less (job_attempts j) (job_max j)" by (simp add: is_retryable_def)
  then show ?thesis
    unfolding attempt_result_def attempt_over_def
    using fail_record[OF assms(1)] assms(2)
      job_counts_cong(1)[OF fail_record(2)[OF assms(1)]] job_counts_cong(2)[OF fail_record(3)[OF assms(1)]]
    by (cases "is_retryable j options") (simp_all only: if_True if_False simp_thms)
qed

lemma attempt_wf:
  assumes "attempt_result claim final" "job_attempts claim = Fin (of_int a)" "job_max claim = Fin (of_int m)"
    "a \<le> m" "is_jstr (jget claim ''id'')"
  shows "job_wf final"
proof -
  have f: "record_object final" "jget final ''id'' = jget claim ''id''" "job_attempts final = Fin (of_int a)"
    "job_max final = Fin (of_int m)"
    using assms(1-3) by (simp_all only: attempt_result_def)
  have "a < m" if "normalizeWorkflowStatus (jget final ''status'') = ''queued''"
  proof -
    have "''succeeded'' \<noteq> ''queued''" "''failed'' \<noteq> ''queued''" by simp_all
    with that have "num_less (job_attempts final) (job_max final)"
      using assms(1) status_normal(3,4) unfolding attempt_result_def attempt_over_def by metis
    then show ?thesis by (simp add: f)
  qed
  with f assms(4,5) show ?thesis unfolding job_wf_def by metis
qed

section \<open>The claim of the next due job\<close>

lemma ready_jobs_mem:
  "(i, job) \<in> set (ready_jobs jobs options t) \<longleftrightarrow>
     i < length jobs \<and> job = jobs ! i \<and> isWorkflowJobReady job options t"
  by (auto simp: ready_jobs_def in_set_zip intro!: exI[of _ i])

lemma sorted_ready: "sorted (map fst (ready_jobs jobs options t))"
proof -
  have "sorted (map fst (filter P (zip [0..<length jobs] jobs)))" for P
    by (intro sorted_filter) simp
  then show ?thesis by (simp add: ready_jobs_def)
qed

lemma sort_key_head:
  assumes "sort_key f xs = x # rest"
  shows "x \<in> set xs" "\<forall>y \<in> set xs. f x \<le> f y" "filter (\<lambda>y. f y = f x) xs = x # filter (\<lambda>y. f y = f x) rest"
proof -
  have "set (sort_key f xs) = set xs" by simp
  then show "x \<in> set xs" using assms by (metis list.set_intros(1))
  have "sorted (map f (sort_key f xs))" by simp
  then show "\<forall>y \<in> set xs. f x \<le> f y"
    using assms \<open>set (sort_key f xs) = set xs\<close> by (auto simp: assms)
  have "filter (\<lambda>y. f y = f x) (sort_key f xs) = filter (\<lambda>y. f y = f x) xs"
    by (rule sort_key_stable)
  then show "filter (\<lambda>y. f y = f x) xs = x # filter (\<lambda>y. f y = f x) rest" by (simp add: assms)
qed

text \<open>The claimed job is the first of those due earliest.\<close>

definition first_due :: "jsv list \<Rightarrow> jsv \<Rightarrow> int \<Rightarrow> nat \<Rightarrow> bool" where
  "first_due jobs options t i = (i < length jobs \<and> isWorkflowJobReady (jobs ! i) options t \<and>
     (\<forall>k < length jobs. isWorkflowJobReady (jobs ! k) options t \<longrightarrow>
        due_time (jobs ! i) < due_time (jobs ! k) \<or> due_time (jobs ! i) = due_time (jobs ! k) \<and> i \<le> k))"


lemma claim_from_list:
  assumes "claimNextWorkflowJobFromList jobs options t = Inr (r, jobs')"
  shows "(r = None \<and> jobs' = jobs \<and> (\<forall>j \<in> set jobs. \<not> isWorkflowJobReady j options t)) \<or>
    (\<exists>i c. first_due jobs options t i \<and> claimWorkflowJobRecord (jobs ! i) options t = Inr (Some c) \<and>
       r = Some (deep_clone c) \<and> jobs' = jobs[i := c])"
proof (cases "sort_key (\<lambda>p. due_time (snd p)) (ready_jobs jobs options t)")
  case Nil
  then have "ready_jobs jobs options t = []" by (metis length_0_conv length_sort)
  then have "\<not> isWorkflowJobReady j options t" if "j \<in> set jobs" for j
    using that ready_jobs_mem by (metis in_set_conv_nth list.set(1) empty_iff)
  with Nil assms show ?thesis by (simp add: claimNextWorkflowJobFromList_def)
next
  case (Cons p rest)
  obtain i job where p: "p = (i, job)" by (cases p)
  note head = sort_key_head[OF Cons]
  have mem: "i < length jobs" "job = jobs ! i" "isWorkflowJobReady job options t"
    using head(1) unfolding p ready_jobs_mem by auto
  have "first_due jobs options t i"
    unfolding first_due_def
  proof (intro conjI allI impI mem(1))
    show "isWorkflowJobReady (jobs ! i) options t" using mem(3) unfolding mem(2) .
    fix k
    assume k: "k < length jobs" "isWorkflowJobReady (jobs ! k) options t"
    then have kmem: "(k, jobs ! k) \<in> set (ready_jobs jobs options t)" by (simp add: ready_jobs_mem)
    from bspec[OF head(2) kmem] have "due_time (jobs ! i) \<le> due_time (jobs ! k)" by (simp add: p mem)
    moreover have "i \<le> k" if "due_time (jobs ! i) = due_time (jobs ! k)"
    proof -
      let ?eq = "\<lambda>y. due_time (snd y) = due_time (snd p)"
      have "(k, jobs ! k) \<in> set (filter ?eq (ready_jobs jobs options t))"
        using kmem that by (simp add: p mem)
      moreover have "sorted (map fst (filter ?eq (ready_jobs jobs options t)))"
        using sorted_ready by (rule sorted_filter)
      ultimately show ?thesis unfolding head(3) by (auto simp: p)
    qed
    ultimately show "due_time (jobs ! i) < due_time (jobs ! k) \<or> due_time (jobs ! i) = due_time (jobs ! k) \<and> i \<le> k"
      by (auto simp: order_le_less)
  qed
  moreover obtain claimed where c: "claimWorkflowJobRecord job options t = Inr claimed"
    using assms Cons p by (auto simp: claimNextWorkflowJobFromList_def rbind_Inr_iff)
  moreover have "claimed \<noteq> None" using claim_record_None[of job options t] c mem(3) by auto
  ultimately show ?thesis
    using assms Cons p mem by (auto simp: claimNextWorkflowJobFromList_def)
qed

lemma replace_first_update:
  assumes "i < length js" "distinct (map job_id js)" "job_id (js ! i) = job_id nxt"
  shows "replace_first nxt js = Some (js[i := nxt])"
  using assms
proof (induction js arbitrary: i)
  case (Cons j js)
  show ?case
  proof (cases i)
    case 0
    with Cons.prems show ?thesis by (simp add: same_id_def job_id_def)
  next
    case (Suc k)
    with Cons.prems have "job_id j \<noteq> job_id nxt" by (metis Cons.prems(2) distinct.simps(2) length_Cons
        list.simps(9) nth_Cons_Suc nth_map nth_mem Suc_less_eq length_map)
    with Suc Cons show ?thesis by (simp add: same_id_def job_id_def)
  qed
qed simp

lemma job_ids_update: "i < length js \<Longrightarrow> job_id c = job_id (js ! i) \<Longrightarrow> map job_id (js[i := c]) = map job_id js"
  by (metis list_update_id map_update nth_map)

lemma jobs_wf_update: "jobs_wf js \<Longrightarrow> i < length js \<Longrightarrow> job_id c = job_id (js ! i) \<Longrightarrow> job_wf c \<Longrightarrow> jobs_wf (js[i := c])"
  by (auto simp: jobs_wf_def job_ids_update list_all_iff dest: set_update_subset_insert[THEN subsetD])

section \<open>Any queue that obeys the laws of the array queue\<close>

locale workflow_queue =
  fixes ops :: "'q queue_ops"
    and jobs :: "'q \<Rightarrow> jsv list"
  assumes claim_law: "claimFromQueue ops q options t = Inr (r, q') \<Longrightarrow>
      claimNextWorkflowJobFromList (jobs q) options t = Inr (r, jobs q')"
    and complete_law: "completeInQueue ops q claimed nxt options t = (Inr u, q') \<Longrightarrow> same_id claimed nxt \<Longrightarrow>
      truthy nxt \<Longrightarrow> replace_first nxt (jobs q) = Some (jobs q')"
    and refuse_law: "completeInQueue ops q claimed nxt options t = (Inl e, q') \<Longrightarrow> same_id claimed nxt \<Longrightarrow>
      truthy nxt \<Longrightarrow> jobs q' = jobs q"
    and fail_law: "failInQueue ops q claimed nxt options t = Inr q' \<Longrightarrow> same_id claimed nxt \<Longrightarrow>
      truthy nxt \<Longrightarrow> replace_first nxt (jobs q) = Some (jobs q')"
begin

text \<open>A handler that leaves the jobs of the queue alone.\<close>

definition quiet :: "'q handler \<Rightarrow> bool" where
  "quiet h = (\<forall>claim opts q. jobs (snd (h claim opts q)) = jobs q)"

lemma fail_claim_outcome:
  assumes "fail_claim ops q claim e fo options t = Inr (out, q')" "record_object claim"
    "jobs_wf (jobs q)" "i < length (jobs q)" "job_id (jobs q ! i) = job_id claim"
  shows "\<exists>final. attempt_result claim final \<and> jobs q' = (jobs q)[i := final]"
proof -
  obtain failed where f: "failWorkflowJobRecord claim e fo t = Inr failed"
    "failInQueue ops q claim failed options t = Inr q'"
    using assms(1) by (auto simp: fail_claim_def rbind_Inr_iff)
  have r: "attempt_result claim failed" by (rule fail_attempt[OF f(1) assms(2)])
  then have id: "job_id failed = job_id claim" by (simp add: attempt_result_def job_id_def)
  have "replace_first failed (jobs q) = Some (jobs q')"
    by (rule fail_law[OF f(2)]) (use id r in \<open>auto simp: same_id_def job_id_def attempt_result_def record_object_def\<close>)
  moreover have "replace_first failed (jobs q) = Some ((jobs q)[i := failed])"
    using assms(3-5) id by (intro replace_first_update) (simp_all add: jobs_wf_def)
  ultimately show ?thesis using r by auto
qed

lemma run_claim_outcome:
  assumes "run_claim ops h q claim options t = Inr (out, q')" "record_object claim"
    "jobs_wf (jobs q)" "i < length (jobs q)" "job_id (jobs q ! i) = job_id claim" "quiet h"
  shows "\<exists>final. attempt_result claim final \<and> jobs q' = (jobs q)[i := final]"
proof -
  let ?o = "JObj [(''workerId'', jor (jget options ''workerId'') (jor (jget options ''worker'') (jget claim ''lockedBy''))),
              (''signal'', jget options ''signal'')]"
  obtain res q1 where h: "h (deep_clone claim) ?o q = (res, q1)" by (cases "h (deep_clone claim) ?o q")
  have q1: "jobs q1 = jobs q" using assms(6) h unfolding quiet_def by (metis snd_conv)
  have fail: "\<exists>final. attempt_result claim final \<and> jobs q' = (jobs q)[i := final]"
    if "fail_claim ops q2 claim e options options t = Inr (out, q')" "jobs q2 = jobs q" for q2 e
    using fail_claim_outcome[OF that(1) assms(2)] assms(3-5) by (simp add: that(2))
  show ?thesis
  proof (cases res)
    case (Inl e)
    with assms(1) h fail[OF _ q1] show ?thesis by (simp add: run_claim_def)
  next
    case (Inr result)
    show ?thesis
    proof (cases "completeWorkflowJobRecord claim result options t")
      case (Inl e)
      with assms(1) h \<open>res = Inr result\<close> fail[OF _ q1] show ?thesis by (simp add: run_claim_def)
    next
      case (Inr c)
      have r: "attempt_result claim c" by (rule complete_attempt[OF Inr assms(2)])
      then have id: "job_id c = job_id claim" by (simp add: attempt_result_def job_id_def)
      have c: "same_id claim c" "truthy c" using id r by (auto simp: same_id_def job_id_def attempt_result_def record_object_def)
      obtain stored q2 where q2: "completeInQueue ops q1 claim c options t = (stored, q2)" by (cases "completeInQueue ops q1 claim c options t")
      show ?thesis
      proof (cases stored)
        case (Inl e)
        then have "jobs q2 = jobs q" using refuse_law[OF q2[unfolded Inl] c] q1 by simp
        moreover have "fail_claim ops q2 claim (error_value e) options options t = Inr (out, q')"
          using assms(1) h \<open>res = Inr result\<close> \<open>completeWorkflowJobRecord claim result options t = Inr c\<close> q2 Inl by (simp add: run_claim_def)
        ultimately show ?thesis by (rule fail[rotated])
      next
        case (Inr u)
        have "q' = q2"
          using assms(1) h \<open>res = Inr result\<close> \<open>completeWorkflowJobRecord claim result options t = Inr c\<close> q2 Inr by (simp add: run_claim_def)
        then have "replace_first c (jobs q) = Some (jobs q')" using complete_law[OF q2[unfolded Inr] c] q1 by simp
        moreover have "replace_first c (jobs q) = Some ((jobs q)[i := c])"
          using assms(3-5) id by (intro replace_first_update) (simp_all add: jobs_wf_def)
        ultimately show ?thesis using r by auto
      qed
    qed
  qed
qed

text \<open>Processing touches no job but the one due first, which ends its attempt.\<close>

lemma process_outcome:
  assumes "processNextWorkflowJob ops handlers q options t = Inr (out, q')"
    "jobs_wf (jobs q)" "\<forall>(n, h) \<in> set handlers. quiet h"
  shows "(jobs q' = jobs q \<and> (\<forall>j \<in> set (jobs q). \<not> isWorkflowJobReady j options t)) \<or>
    (\<exists>i final. first_due (jobs q) options t i \<and> jobs q' = (jobs q)[i := final] \<and> job_wf final \<and>
       job_id final = job_id (jobs q ! i) \<and>
       job_attempts final = num_add (job_attempts (jobs q ! i)) (Fin 1) \<and> attempt_over final)"
proof -
  obtain claimed q0 where c: "claimFromQueue ops q options t = Inr (claimed, q0)"
    and rest: "(case claimed of None \<Rightarrow> Inr (JObj [(''processed'', JBool False), (''ok'', JBool True),
         (''reason'', JStr ''no_ready_workflow_jobs'')], q0)
     | Some claim \<Rightarrow> (case handler_for handlers (jget claim ''type'') of
         None \<Rightarrow> fail_claim ops q0 claim
           (JObj [(''message'', JStr (''no workflow handler registered for '' @ to_str (jget claim ''type'')))])
           (jwith options [(''retryable'', JBool False)]) options t
       | Some h \<Rightarrow> run_claim ops h q0 claim options t)) = Inr (out, q')"
    using assms(1) unfolding processNextWorkflowJob_def rbind_Inr_iff split_paired_Ex case_prod_conv by blast
  note list = claim_law[OF c]
  from claim_from_list[OF list] show ?thesis
  proof
    assume none: "claimed = None \<and> jobs q0 = jobs q \<and> (\<forall>j \<in> set (jobs q). \<not> isWorkflowJobReady j options t)"
    with rest have "q' = q0" by simp
    with none show ?thesis by simp
  next
    assume "\<exists>i c. first_due (jobs q) options t i \<and> claimWorkflowJobRecord (jobs q ! i) options t = Inr (Some c) \<and>
       claimed = Some (deep_clone c) \<and> jobs q0 = (jobs q)[i := c]"
    then obtain i c where ic: "first_due (jobs q) options t i"
      "claimWorkflowJobRecord (jobs q ! i) options t = Inr (Some c)" "claimed = Some (deep_clone c)"
      "jobs q0 = (jobs q)[i := c]" by blast
    have i: "i < length (jobs q)" and wf: "job_wf (jobs q ! i)"
      using ic(1) assms(2) by (auto simp: first_due_def jobs_wf_def list_all_iff)
    note cw = claim_wf[OF ic(2) wf]
    obtain a m :: int where am: "job_attempts c = Fin (of_int a)" "job_max c = Fin (of_int m)" "a \<le> m"
      using cw unfolding job_wf_def by blast
    have nums: "jget c ''attempts'' = JNum (job_attempts c)" "jget c ''maxAttempts'' = JNum (job_max c)"
      using claim_record(3,4)[OF ic(2)] cw by simp_all
    have cl: "record_object (deep_clone c) \<and> jget (deep_clone c) ''id'' = jget c ''id'' \<and>
        jget (deep_clone c) ''attempts'' = jget c ''attempts'' \<and>
        jget (deep_clone c) ''maxAttempts'' = jget c ''maxAttempts''"
      using clone_wf[OF _ claim_record(2)[OF ic(2)]] cw nums[unfolded am] by blast
    then have clone: "record_object (deep_clone c)" "jget (deep_clone c) ''id'' = jget c ''id''"
      "job_attempts (deep_clone c) = job_attempts c" "job_max (deep_clone c) = job_max c"
      by (simp_all only: job_attempts_def job_max_def)
    have q0: "jobs_wf (jobs q0)" "i < length (jobs q0)" "job_id (jobs q0 ! i) = job_id (deep_clone c)"
      using jobs_wf_update[OF assms(2) i, of c] cw i clone(2) by (simp_all add: ic(4) job_id_def)
    have "\<exists>final. attempt_result (deep_clone c) final \<and> jobs q' = (jobs q0)[i := final]"
    proof (cases "handler_for handlers (jget (deep_clone c) ''type'')")
      case None
      with rest ic(3) fail_claim_outcome[OF _ clone(1) q0] show ?thesis by auto
    next
      case (Some h)
      then have "quiet h" by (cases rule: handler_cases) (use assms(3) in \<open>auto simp: quiet_def inherited_handler_def\<close>)
      with rest ic(3) Some run_claim_outcome[OF _ clone(1) q0] show ?thesis by auto
    qed
    then obtain final where final: "attempt_result (deep_clone c) final" "jobs q' = (jobs q0)[i := final]" by blast
    have "is_jstr (jget (deep_clone c) ''id'')" using cw clone(2) by (auto simp: job_wf_def)
    then have "job_wf final" using attempt_wf[OF final(1)] am clone by simp
    moreover have "job_id final = job_id (jobs q ! i)"
      using final(1) clone(2) cw by (simp add: attempt_result_def job_id_def)
    moreover have "job_attempts final = num_add (job_attempts (jobs q ! i)) (Fin 1)"
      using final(1) clone(3) cw by (simp add: attempt_result_def)
    moreover have "jobs q' = (jobs q)[i := final]" by (simp add: final(2) ic(4))
    moreover have "attempt_over final" using final(1) by (simp add: attempt_result_def)
    ultimately show ?thesis using ic(1) by blast
  qed
qed

lemma process_wf:
  assumes "processNextWorkflowJob ops handlers q options t = Inr (out, q')"
    "jobs_wf (jobs q)" "\<forall>(n, h) \<in> set handlers. quiet h"
  shows "jobs_wf (jobs q') \<and> length (jobs q') = length (jobs q)"
  using process_outcome[OF assms]
proof (elim disjE exE conjE)
  fix i final
  assume "first_due (jobs q) options t i" "jobs q' = (jobs q)[i := final]" "job_wf final"
    "job_id final = job_id (jobs q ! i)"
  then show ?thesis using jobs_wf_update[OF assms(2)] by (simp add: first_due_def)
qed (use assms(2) in simp)

end

section \<open>The array queue obeys the laws\<close>

interpretation lq: workflow_queue list_queue "\<lambda>jobs. jobs"
  by unfold_locales
    (auto simp: list_queue_def replaceWorkflowJob_def rbind_Inr_iff js_throw_def split: option.splits)

section \<open>Runs of one job\<close>

text \<open>Any sequence of claims, completions and failures of a job, with the number of claims.\<close>

inductive job_run :: "jsv \<Rightarrow> nat \<Rightarrow> jsv \<Rightarrow> bool" for j where
  start: "job_run j 0 j"
| claim: "job_run j n k \<Longrightarrow> claimWorkflowJobRecord k options t = Inr (Some c) \<Longrightarrow> job_run j (Suc n) c"
| complete: "job_run j n k \<Longrightarrow> completeWorkflowJobRecord k result options t = Inr c \<Longrightarrow> job_run j n c"
| fail: "job_run j n k \<Longrightarrow> failWorkflowJobRecord k error options t = Inr c \<Longrightarrow> job_run j n c"

inductive_cases job_runE: "job_run j n k"

lemma attempt_result_wf:
  assumes "attempt_result k c" "job_wf k"
  shows "job_wf c \<and> job_attempts c = job_attempts k \<and> job_max c = job_max k"
proof -
  obtain a m :: int where "job_attempts k = Fin (of_int a)" "job_max k = Fin (of_int m)" "a \<le> m"
    using assms(2) unfolding job_wf_def by blast
  moreover have "is_jstr (jget k ''id'')" using assms(2) by (simp add: job_wf_def)
  ultimately have "job_wf c" by (rule attempt_wf[OF assms(1)])
  with assms(1) show ?thesis by (simp add: attempt_result_def)
qed

lemma job_wf_record: "job_wf k \<Longrightarrow> record_object k"
  by (simp add: job_wf_def)

lemma job_run_invariant:
  "job_run j n k \<Longrightarrow> job_wf j \<Longrightarrow>
   job_wf k \<and> job_attempts k = num_add (job_attempts j) (Fin (of_nat n)) \<and> job_max k = job_max j"
proof (induction rule: job_run.induct)
  case start
  then show ?case by (auto simp: job_wf_def)
next
  case (claim n k options t c)
  with claim_wf[OF claim.hyps(2)] show ?case
    by (cases "job_attempts j") (auto simp: num_add_def)
next
  case (complete n k result options t c)
  with attempt_result_wf[OF complete_attempt[OF complete.hyps(2)]] job_wf_record show ?case by simp
next
  case (fail n k error options t c)
  with attempt_result_wf[OF fail_attempt[OF fail.hyps(2)]] job_wf_record show ?case by simp
qed

lemma job_run_claims:
  assumes "job_run j n k" "job_wf j"
  shows "num_le (num_add (job_attempts j) (Fin (of_nat n))) (job_max j)"
proof -
  note inv = job_run_invariant[OF assms]
  then obtain a m :: int where "job_attempts k = Fin (of_int a)" "job_max k = Fin (of_int m)" "a \<le> m"
    unfolding job_wf_def by blast
  with inv show ?thesis by (metis num_le_Fin of_int_le_iff)
qed

section \<open>Properties\<close>


definition sample_job :: "string \<Rightarrow> int \<Rightarrow> jsv" where
  "sample_job i t = JObj [(''id'', JStr i), (''type'', JStr ''build-and-deploy''), (''status'', JStr ''queued''),
     (''attempts'', jint 0), (''maxAttempts'', jint 2), (''runAfter'', jint t), (''lockedAt'', JNull)]"



text \<open>\<open>processNextWorkflowJob\<close> on an array queue with handlers that leave the queue alone either
  finds no ready job and changes nothing, or ends one attempt of the job due first: that job keeps its
  id, has one attempt more, never more than its maximum, and is succeeded, failed, or queued again with
  an attempt left; every other job is unchanged.\<close>

theorem process_array_queue:
  assumes "processNextWorkflowJob list_queue handlers jobs options t = Inr (out, jobs')" "jobs_wf jobs"
    "\<forall>(n, h) \<in> set handlers. \<forall>claim opts q. snd (h claim opts q) = q"
  shows "(jobs' = jobs \<and> (\<forall>j \<in> set jobs. \<not> isWorkflowJobReady j options t)) \<or>
    (\<exists>i final. first_due jobs options t i \<and> jobs' = jobs[i := final] \<and> job_wf final \<and>
       job_id final = job_id (jobs ! i) \<and>
       job_attempts final = num_add (job_attempts (jobs ! i)) (Fin 1) \<and> attempt_over final)"
proof -
  have "\<forall>(n, h) \<in> set handlers. lq.quiet h" using assms(3) by (auto simp: lq.quiet_def)
  from lq.process_outcome[OF assms(1,2) this] show ?thesis .
qed

lemma sample_jobs_wf: "jobs_wf [sample_job ''late'' 90, sample_job ''soon'' 10]"
proof -
  have "job_attempts (sample_job i t) = Fin (of_int 0)" "job_max (sample_job i t) = Fin (of_int 2)" for i t
    by (simp_all add: sample_job_def job_attempts_def job_max_def to_num_def jor_def)
  moreover have "record_object (sample_job i t)" "is_jstr (jget (sample_job i t) ''id'')" for i t
    by (simp_all add: sample_job_def record_object_def is_jstr_def)
  ultimately have "job_wf (sample_job i t)" for i t
    unfolding job_wf_def by (metis zero_less_numeral order_less_imp_le)
  moreover have "job_id (sample_job i t) = i" for i t by (simp add: job_id_def sample_job_def)
  ultimately show ?thesis by (simp add: jobs_wf_def)
qed

definition small_job :: jsv where
  "small_job = JObj [(''id'', JStr ''j''), (''maxAttempts'', jint 2)]"

lemma small_job_wf: "jobs_wf [small_job]"
proof -
  have "job_attempts small_job = Fin (of_int 0)" "job_max small_job = Fin (of_int 2)"
    by (simp_all add: small_job_def job_attempts_def job_max_def to_num_def jor_def)
  moreover have "record_object small_job" "is_jstr (jget small_job ''id'')"
    by (simp_all add: small_job_def record_object_def is_jstr_def)
  ultimately have "job_wf small_job"
    unfolding job_wf_def by (metis zero_less_numeral order_less_imp_le)
  then show ?thesis by (simp add: jobs_wf_def)
qed

lemma sample_process:
  "is_ok (processNextWorkflowJob list_queue [(''default'', \<lambda>claim opts q. (Inr JNull, q))]
     [small_job] (JObj []) 0)"
  by code_simp

theorem process_array_queue_witness:
  "\<exists>jobs'. length jobs' = 1 \<and> processNextWorkflowJob list_queue [(''default'', \<lambda>claim opts q. (Inr JNull, q))]
     [small_job] (JObj []) 0 \<in> Inr ` (UNIV \<times> {jobs'})"
proof -
  obtain out jobs' where p: "processNextWorkflowJob list_queue [(''default'', \<lambda>claim opts q. (Inr JNull, q))]
     [small_job] (JObj []) 0 = Inr (out, jobs')"
    using sample_process by (auto simp: is_ok_def split: sum.splits)
  from process_array_queue[OF p small_job_wf] have "length jobs' = length [small_job]"
    by (auto simp del: list_update.simps list.size)
  then have "length jobs' = 1" by simp
  with p show ?thesis by auto
qed

text \<open>C27: in any sequence of claims, completions and failures, a well-formed job is claimed at most as
  often as it has attempts left, and its recorded attempts are exactly its claims.\<close>

theorem job_claims_bounded:
  assumes "job_run j n k" "job_wf j"
  shows "num_le (num_add (job_attempts j) (Fin (of_nat n))) (job_max j) \<and>
    job_attempts k = num_add (job_attempts j) (Fin (of_nat n)) \<and> job_max k = job_max j"
  using job_run_claims[OF assms] job_run_invariant[OF assms] by simp

theorem job_claims_bounded_witness:
  "\<exists>k. job_run (sample_job ''j'' 10) 1 k \<and> num_le (Fin 1) (job_max k)"
proof -
  have wf: "job_wf (sample_job ''soon'' 10)" using sample_jobs_wf by (simp add: jobs_wf_def)
  have "is_ok (claimWorkflowJobRecord (sample_job ''j'' 10) (JObj []) 100) \<and>
      projr (claimWorkflowJobRecord (sample_job ''j'' 10) (JObj []) 100) \<noteq> None" by code_simp
  then obtain k where "claimWorkflowJobRecord (sample_job ''j'' 10) (JObj []) 100 = Inr (Some k)"
    by (auto simp: is_ok_def split: sum.splits)
  then have run: "job_run (sample_job ''j'' 10) (Suc 0) k" by (rule job_run.claim[OF job_run.start])
  have wf: "job_wf (sample_job ''j'' 10)"
    using sample_jobs_wf by (simp add: jobs_wf_def sample_job_def job_wf_def record_object_def is_jstr_def
      job_attempts_def job_max_def)
  have "job_attempts (sample_job ''j'' 10) = Fin 0" by code_simp
  with job_claims_bounded[OF run wf] run show ?thesis by auto
qed

text \<open>with the default settings the delay before retry number \<open>n\<close> is \<open>1000 * 2 ^ (n - 1)\<close>
  milliseconds, capped at one minute; with any settings it never exceeds the configured maximum.\<close>

theorem retry_delay:
  "retryDelayMs (Fin (of_nat (Suc n))) (JObj []) = Fin (min 60000 (1000 * 2 ^ n)) \<and>
   (retryDelayMs a options \<noteq> NaN \<longrightarrow>
     num_le (retryDelayMs a options) (to_num (jnullish (jget options ''maxRetryDelayMs'') (jint 60000))))"
proof
  have "num_max (Fin 0) (num_sub (Fin (of_nat (Suc n))) (Fin 1)) = Fin (of_nat n)"
    by (simp add: num_sub_def num_neg_def)
  moreover have "num_pow2 (Fin (of_nat n)) = Fin (2 ^ n)" by (simp add: num_pow2_def)
  moreover have "max 1 (2 ^ n) = (2 ^ n :: rat)" by (simp add: max_def)
  ultimately show "retryDelayMs (Fin (of_nat (Suc n))) (JObj []) = Fin (min 60000 (1000 * 2 ^ n))"
    unfolding retryDelayMs_def by (simp add: jnullish_def is_nullish_def to_num_def num_mul_def)
  have "num_min c d \<noteq> NaN \<Longrightarrow> num_le (num_min c d) c" for c d
    by (cases c; cases d) (auto simp: num_min_def num_le_def num_less_def)
  then show "retryDelayMs a options \<noteq> NaN \<longrightarrow>
     num_le (retryDelayMs a options) (to_num (jnullish (jget options ''maxRetryDelayMs'') (jint 60000)))"
    unfolding retryDelayMs_def Let_def by blast
qed

theorem retry_delay_witness:
  "num_le (retryDelayMs (Fin 3) (JObj [(''maxRetryDelayMs'', jint 500)])) (Fin 500)"
proof -
  have "retryDelayMs (Fin 3) (JObj [(''maxRetryDelayMs'', jint 500)]) \<noteq> NaN" by code_simp
  with retry_delay[of 0 "Fin 3" "JObj [(''maxRetryDelayMs'', jint 500)]"] show ?thesis
    by (simp add: jnullish_def is_nullish_def to_num_def)
qed

end
