(* ===== verification/StoreJobs.thy ===== *)
theory StoreJobs
  imports Store WorkflowQueue
begin

text \<open>
  Logs, deployment events and the workflow queue of \<open>store.ts\<close>. The store's queue obeys the laws of
  the locale \<open>workflow_queue\<close>, so the results on processing a job hold for it.
\<close>

section \<open>Logs and events\<close>

definition appendBuildLog :: "world \<Rightarrow> jsv \<Rightarrow> jsv op" where
  "appendBuildLog w input = (let deploymentId = jget input ''deploymentId'' in
     sbind (sget (\<lambda>s. JObj [
        (''id'', JStr (stableId ''blog'' [deploymentId, jnat (length (buildLogs s))])), (''deploymentId'', deploymentId),
        (''step'', jdefault (jget input ''step'') (JStr ''build'')),
        (''line'', sanitizeLogRecord (JStr (to_str (jnullish (jget input ''line'') (JStr []))))),
        (''level'', jdefault (jget input ''level'') (JStr ''info'')), (''timestamp'', nowIso (wNow w))])) (\<lambda>row.
     sthen (smod (buildLogs_update (\<lambda>rows. rows @ [row]))) (sret (deep_clone row))))"

definition appendRuntimeLog :: "world \<Rightarrow> jsv \<Rightarrow> jsv op" where
  "appendRuntimeLog w input = (let serviceId = jget input ''serviceId'' in
     sbind (sget (\<lambda>s. JObj [
        (''id'', JStr (stableId ''rlog'' [serviceId, jnat (length (runtimeLogs s))])), (''serviceId'', serviceId),
        (''deploymentId'', jdefault (jget input ''deploymentId'') JNull),
        (''podName'', jdefault (jget input ''podName'') (JStr ''local-pod'')),
        (''containerName'', jdefault (jget input ''containerName'') (JStr ''app'')),
        (''line'', sanitizeLogRecord (JStr (to_str (jnullish (jget input ''line'') (JStr []))))),
        (''level'', jdefault (jget input ''level'') (JStr ''info'')), (''timestamp'', nowIso (wNow w))])) (\<lambda>row.
     sthen (smod (runtimeLogs_update (\<lambda>rows. rows @ [row]))) (sret (deep_clone row))))"

definition appendDeploymentEvent :: "world \<Rightarrow> jsv \<Rightarrow> jsv op" where
  "appendDeploymentEvent w input = (let deploymentId = jget input ''deploymentId'' in
     sbind (sget (\<lambda>s. JObj [
        (''id'', JStr (stableId ''devevt'' [deploymentId, jnat (length (deploymentEvents s))])),
        (''deploymentId'', deploymentId), (''type'', jget input ''type''),
        (''message'', sanitizeLogRecord (JStr (to_str (jnullish (jget input ''message'') (JStr []))))),
        (''metadata'', maskSecrets (jdefault (jget input ''metadata'') (JObj []))),
        (''timestamp'', nowIso (wNow w))])) (\<lambda>row.
     sthen (smod (deploymentEvents_update (\<lambda>rows. rows @ [row]))) (sret (deep_clone row))))"

definition rows_of :: "string \<Rightarrow> jsv \<Rightarrow> jsv list \<Rightarrow> jsv list" where
  "rows_of k v rows = map deep_clone (filter (\<lambda>row. strict_eq (jget row k) v) rows)"

definition listDeploymentLogs :: "jsv \<Rightarrow> jsv list op" where
  "listDeploymentLogs deploymentId = sget (\<lambda>s. rows_of ''deploymentId'' deploymentId (buildLogs s))"

definition listRuntimeLogs :: "jsv \<Rightarrow> jsv list op" where
  "listRuntimeLogs serviceId = sget (\<lambda>s. rows_of ''serviceId'' serviceId (runtimeLogs s))"

definition listDeploymentEvents :: "jsv \<Rightarrow> jsv list op" where
  "listDeploymentEvents deploymentId = sget (\<lambda>s. rows_of ''deploymentId'' deploymentId (deploymentEvents s))"

section \<open>The workflow queue\<close>

definition job_summary :: "jsv \<Rightarrow> (string \<times> jsv) list \<Rightarrow> jsv" where
  "job_summary job more_fields = JObj ([(''workflowJobId'', jget job ''id''), (''type'', jget job ''type'')] @ more_fields)"

definition enqueueWorkflowJob :: "world \<Rightarrow> jsv \<Rightarrow> jsv op" where
  "enqueueWorkflowJob w input = sbind (slift (createWorkflowJobRecord input (wNow w))) (\<lambda>row.
     sthen (smod (workflowJobs_update (\<lambda>rows. rows @ [row])))
     (sthen (audit w system ''workflow:enqueue'' (jget row ''targetType'') (jget row ''targetId'')
        (job_summary row [(''status'', jget row ''status'')]))
     (sret (deep_clone row))))"

definition worker_name :: "jsv \<Rightarrow> jsv" where
  "worker_name options = jor (jget options ''workerId'') (jor (jget options ''worker'') (JStr ''workflow-worker''))"

definition claimNextWorkflowJob :: "world \<Rightarrow> jsv \<Rightarrow> jsv option op" where
  "claimNextWorkflowJob w options = sbind (sget workflowJobs) (\<lambda>jobs.
     sbind (slift (claimNextWorkflowJobFromList jobs options (wNow w))) (\<lambda>(claimed, jobs').
     sthen (smod (workflowJobs_update (\<lambda>_. jobs')))
     (case claimed of
        None \<Rightarrow> sret None
      | Some c \<Rightarrow> sthen (audit w (worker_name options) ''workflow:claim'' (jget c ''targetType'') (jget c ''targetId'')
           (job_summary c [(''attempt'', jget c ''attempts'')])) (sret (Some c)))))"

text \<open>The private \<open>replaceWorkflowJob\<close>\<close>

definition replaceStoredJob :: "jsv \<Rightarrow> unit op" where
  "replaceStoredJob nxt = sbind (sget workflowJobs) (\<lambda>jobs. case replace_first nxt jobs of
      None \<Rightarrow> slift (notFound (''workflow job not found: '' @ to_str (jget nxt ''id'')))
    | Some jobs' \<Rightarrow> smod (workflowJobs_update (\<lambda>_. jobs')))"

definition find_job :: "jsv \<Rightarrow> jsv op" where
  "find_job jobId = sbind (sget workflowJobs) (\<lambda>jobs.
     case find (\<lambda>j. same_text (jget j ''id'') jobId) jobs of
       None \<Rightarrow> slift (notFound (''workflow job not found: '' @ to_str jobId))
     | Some job \<Rightarrow> sret job)"

definition completeWorkflowJob :: "world \<Rightarrow> jsv \<Rightarrow> jsv \<Rightarrow> jsv \<Rightarrow> jsv op" where
  "completeWorkflowJob w jobId result options = sbind (find_job jobId) (\<lambda>current.
     sbind (slift (if truthy (jget options ''record'') then Inr (jget options ''record'')
        else completeWorkflowJobRecord current (jdefault result (JObj [])) options (wNow w))) (\<lambda>nxt.
     sthen (replaceStoredJob nxt)
     (sthen (audit w (worker_name options) ''workflow:complete'' (jget nxt ''targetType'') (jget nxt ''targetId'')
        (job_summary nxt [(''status'', jget nxt ''status'')]))
     (sret (deep_clone nxt)))))"

definition failWorkflowJob :: "world \<Rightarrow> jsv \<Rightarrow> jsv \<Rightarrow> jsv \<Rightarrow> jsv op" where
  "failWorkflowJob w jobId error options = sbind (find_job jobId) (\<lambda>current.
     sbind (slift (if truthy (jget options ''record'') then Inr (jget options ''record'')
        else failWorkflowJobRecord current error options (wNow w))) (\<lambda>nxt.
     sthen (replaceStoredJob nxt)
     (sthen (audit w (worker_name options) ''workflow:fail'' (jget nxt ''targetType'') (jget nxt ''targetId'')
        (job_summary nxt [(''status'', jget nxt ''status''), (''retryAt'', jget nxt ''runAfter'')]))
     (sret (deep_clone nxt)))))"

text \<open>What \<open>claimFromQueue\<close>, \<open>completeInQueue\<close> and \<open>failInQueue\<close> call on a store.\<close>

definition as_result :: "'a res \<times> store \<Rightarrow> ('a \<times> store) res" where
  "as_result p = (case p of (Inl e, _) \<Rightarrow> Inl e | (Inr x, s) \<Rightarrow> Inr (x, s))"

definition with_record :: "jsv \<Rightarrow> jsv \<Rightarrow> jsv" where
  "with_record options job = jwith options [(''record'', job)]"

definition store_queue :: "world \<Rightarrow> store queue_ops" where
  "store_queue w = \<lparr>
     claimFromQueue = (\<lambda>s options t. as_result (claimNextWorkflowJob (w\<lparr>wNow := t\<rparr>) options s)),
     completeInQueue = (\<lambda>s claimed completed options t. only_effect (completeWorkflowJob (w\<lparr>wNow := t\<rparr>)
        (jget claimed ''id'') (jget (jget completed ''payload'') ''lastResult'') (with_record options completed) s)),
     failInQueue = (\<lambda>s claimed failed options t. rbind (as_result (failWorkflowJob (w\<lparr>wNow := t\<rparr>)
        (jget claimed ''id'') (jget (jget failed ''payload'') ''lastError'') (with_record options failed) s))
        (\<lambda>(_, s'). Inr s'))\<rparr>"

definition processStoreWorkflowJob :: "world \<Rightarrow> (string \<times> store handler) list \<Rightarrow> jsv \<Rightarrow> store \<Rightarrow> (jsv \<times> store) res" where
  "processStoreWorkflowJob w handlers options s = processNextWorkflowJob (store_queue w) handlers s options (wNow w)"

section \<open>Laws\<close>

lemma replaceStoredJob_Inr:
  "replaceStoredJob nxt s = (Inr u, s') \<longleftrightarrow>
     (\<exists>jobs'. replace_first nxt (workflowJobs s) = Some jobs' \<and> s' = s\<lparr>workflowJobs := jobs'\<rparr>)"
  by (auto simp: replaceStoredJob_def notFound_def split: option.splits)

lemma claim_store:
  "claimNextWorkflowJob w options s = (Inr c, s') \<Longrightarrow>
   claimNextWorkflowJobFromList (workflowJobs s) options (wNow w) = Inr (c, workflowJobs s')"
  by (auto simp: claimNextWorkflowJob_def sbind_Inr audit_run split: option.splits)

lemma record_of [simp]: "jget (with_record options job) ''record'' = job"
  by (simp add: with_record_def jwith_Cons)

lemma complete_store:
  "completeWorkflowJob w i result options s = (Inr r, s') \<Longrightarrow> truthy (jget options ''record'') \<Longrightarrow>
   replace_first (jget options ''record'') (workflowJobs s) = Some (workflowJobs s')"
  by (auto simp: completeWorkflowJob_def find_job_def sbind_Inr audit_run replaceStoredJob_Inr notFound_def
      split: option.splits)

lemma fail_store:
  "failWorkflowJob w i err options s = (Inr r, s') \<Longrightarrow> truthy (jget options ''record'') \<Longrightarrow>
   replace_first (jget options ''record'') (workflowJobs s) = Some (workflowJobs s')"
  by (auto simp: failWorkflowJob_def find_job_def sbind_Inr audit_run replaceStoredJob_Inr notFound_def
      split: option.splits)

lemma complete_refused:
  "completeWorkflowJob w i result options s = (Inl e, s') \<Longrightarrow> s' = s"
  by (auto simp: completeWorkflowJob_def find_job_def sbind_run slift_def audit_run replaceStoredJob_def notFound_def
      split: option.splits sum.splits prod.splits if_splits)

interpretation stq: workflow_queue "store_queue w" workflowJobs for w
  by unfold_locales
    (auto simp: store_queue_def as_result_def only_effect_def rbind_Inr_iff dest!: claim_store complete_store complete_refused
      fail_store split: prod.splits sum.splits)

section \<open>The audit trail\<close>

lemma audited_logs:
  "keeps audited (appendBuildLog w x)" "keeps audited (appendRuntimeLog w x)"
  "keeps audited (appendDeploymentEvent w x)" "keeps audited (listDeploymentLogs x)"
  "keeps audited (listRuntimeLogs x)" "keeps audited (listDeploymentEvents x)"
  unfolding appendBuildLog_def appendRuntimeLog_def appendDeploymentEvent_def listDeploymentLogs_def
    listRuntimeLogs_def listDeploymentEvents_def
  by (intro audited_intros; simp)+

lemma audited_replace: "keeps audited (replaceStoredJob x)" "keeps audited (find_job x)"
  unfolding replaceStoredJob_def find_job_def by (intro audited_intros; simp)+

lemma audited_jobs:
  "keeps audited (enqueueWorkflowJob w x)" "keeps audited (claimNextWorkflowJob w x)"
  "keeps audited (completeWorkflowJob w x y z)" "keeps audited (failWorkflowJob w x y z)"
  unfolding enqueueWorkflowJob_def claimNextWorkflowJob_def completeWorkflowJob_def failWorkflowJob_def
  by (intro audited_intros audited_replace; simp)+

end
