(* ===== verification/Deployments.thy ===== *)
theory Deployments
  imports Ids
begin

text \<open>
  \<open>deployments.ts\<close>: the statuses of a deployment, the aliases \<open>normalizeDeploymentStatus\<close> accepts,
  the table of allowed transitions, and the runs it admits. A status is any value; the tables are
  plain objects, so a status that names a member of \<open>Object.prototype\<close> reads it.
\<close>

section \<open>Statuses and aliases\<close>

definition DEPLOYMENT_STATUSES :: "string list" where
  "DEPLOYMENT_STATUSES = [''queued'', ''BUILDING'', ''IMAGE_READY'', ''DEPLOYING'', ''READY'',
     ''BUILD_FAILED'', ''FAILED'', ''CANCELLED'', ''PREVIEW_CLEANUP_REQUESTED'']"

definition STATUS_ALIASES :: "(string \<times> string) list" where
  "STATUS_ALIASES = [
    (''queued'', ''queued''), (''pending'', ''queued''), (''build_queued'', ''queued''),
    (''building'', ''BUILDING''), (''build'', ''BUILDING''),
    (''image_ready'', ''IMAGE_READY''), (''imageready'', ''IMAGE_READY''), (''deploy_ready'', ''IMAGE_READY''),
    (''deploying'', ''DEPLOYING''), (''rollout'', ''DEPLOYING''),
    (''ready'', ''READY''), (''succeeded'', ''READY''), (''success'', ''READY''),
    (''build_failed'', ''BUILD_FAILED''), (''buildfailed'', ''BUILD_FAILED''),
    (''failed'', ''FAILED''), (''error'', ''FAILED''),
    (''cancelled'', ''CANCELLED''), (''canceled'', ''CANCELLED''),
    (''preview_cleanup_requested'', ''PREVIEW_CLEANUP_REQUESTED'')]"

definition ALLOWED_TRANSITIONS :: "(string \<times> string list) list" where
  "ALLOWED_TRANSITIONS = [
    (''queued'', [''BUILDING'', ''CANCELLED'', ''FAILED'']),
    (''BUILDING'', [''IMAGE_READY'', ''BUILD_FAILED'', ''FAILED'', ''CANCELLED'']),
    (''IMAGE_READY'', [''DEPLOYING'', ''READY'', ''FAILED'', ''CANCELLED'']),
    (''DEPLOYING'', [''READY'', ''FAILED'', ''CANCELLED'']),
    (''READY'', [''PREVIEW_CLEANUP_REQUESTED'', ''CANCELLED'']),
    (''BUILD_FAILED'', [''BUILDING'', ''CANCELLED'']),
    (''FAILED'', [''BUILDING'', ''CANCELLED'']),
    (''PREVIEW_CLEANUP_REQUESTED'', [''CANCELLED'']),
    (''CANCELLED'', [])]"

text \<open>\<open>.replace(/[\s-]+/g, '_')\<close>\<close>

definition underscored :: "string \<Rightarrow> string" where
  "underscored s = rreplace (RPlus (RCls (\<lambda>c. is_space c \<or> c = CHR ''-''))) (\<lambda>_. ''_'') s"

lemma underscored_runs [code]:
  "underscored s = replace_runs (\<lambda>c. is_space c \<or> c = CHR ''-'') ''_'' False s"
  by (simp add: underscored_def rreplace_plus_cls)

definition raw_status :: "jsv \<Rightarrow> string" where
  "raw_status status = str_trim (to_str (jor status (JStr ''queued'')))"

definition normalizeDeploymentStatus :: "jsv \<Rightarrow> jsv" where
  "normalizeDeploymentStatus status = (let raw = raw_status status; key = underscored (str_lower raw) in
     jor (table_get (map (\<lambda>(k, v). (k, JStr v)) STATUS_ALIASES) key) (JStr raw))"

definition canTransitionDeployment :: "jsv \<Rightarrow> jsv \<Rightarrow> bool res" where
  "canTransitionDeployment from to = (let
     current = normalizeDeploymentStatus from; nxt = normalizeDeploymentStatus to in
     if strict_eq current nxt then Inr True
     else (case map_of ALLOWED_TRANSITIONS (to_str current) of
         Some allowed \<Rightarrow> Inr (is_jstr nxt \<and> to_str nxt \<in> set allowed)
       | None \<Rightarrow>
           (if to_str current \<in> set proto_keys then js_throw ''ALLOWED_TRANSITIONS[current]?.has is not a function''
            else Inr False)))"

definition assertDeploymentTransition :: "jsv \<Rightarrow> jsv \<Rightarrow> bool res" where
  "assertDeploymentTransition from to = rbind (canTransitionDeployment from to) (\<lambda>b.
     if b then Inr True
     else js_throw (''invalid deployment status transition: '' @ to_str (normalizeDeploymentStatus from) @
       '' -> '' @ to_str (normalizeDeploymentStatus to)))"

definition isDeploymentTerminal :: "jsv \<Rightarrow> bool" where
  "isDeploymentTerminal status = (let n = normalizeDeploymentStatus status in
     n = JStr ''READY'' \<or> n = JStr ''BUILD_FAILED'' \<or> n = JStr ''FAILED'' \<or> n = JStr ''CANCELLED'')"

section \<open>Lemmas on the tables\<close>

lemma alias_values: "\<forall>(k, v) \<in> set STATUS_ALIASES. v \<in> set DEPLOYMENT_STATUSES"
  by code_simp

lemma normalize_canonical: "s \<in> set DEPLOYMENT_STATUSES \<Longrightarrow> normalizeDeploymentStatus (JStr s) = JStr s"
proof -
  have "\<forall>s \<in> set DEPLOYMENT_STATUSES. normalizeDeploymentStatus (JStr s) = JStr s" by code_simp
  then show "s \<in> set DEPLOYMENT_STATUSES \<Longrightarrow> ?thesis" by blast
qed

lemma table_get_strings:
  "table_get (map (\<lambda>(k, v). (k, JStr v)) tbl) key =
     (case map_of tbl key of Some v \<Rightarrow> JStr v
      | None \<Rightarrow> if key \<in> set proto_keys then JHost key else JUndef)"
  by (simp add: table_get_def map_of_map split: option.splits)

lemma normalize_cases:
  obtains (canonical) s where "s \<in> set DEPLOYMENT_STATUSES" "normalizeDeploymentStatus status = JStr s"
    | (inherited) h where "normalizeDeploymentStatus status = JHost h"
    | (other) "normalizeDeploymentStatus status = JStr (raw_status status)"
        "map_of STATUS_ALIASES (underscored (str_lower (raw_status status))) = None"
        "underscored (str_lower (raw_status status)) \<notin> set proto_keys"
proof -
  let ?key = "underscored (str_lower (raw_status status))"
  show thesis
  proof (cases "map_of STATUS_ALIASES ?key")
    case (Some v)
    then have v: "v \<in> set DEPLOYMENT_STATUSES" using alias_values by (fastforce dest: map_of_SomeD)
    then have "v \<noteq> []" by (auto simp: DEPLOYMENT_STATUSES_def)
    with Some v canonical show thesis
      by (simp add: normalizeDeploymentStatus_def table_get_strings Let_def)
  next
    case None
    with inherited other show thesis
      by (cases "?key \<in> set proto_keys") (simp_all add: normalizeDeploymentStatus_def table_get_strings Let_def)
  qed
qed

definition successors :: "string \<Rightarrow> string list" where
  "successors a = (case map_of ALLOWED_TRANSITIONS a of Some bs \<Rightarrow> bs | None \<Rightarrow> [])"

lemma transitions_total: "\<forall>a \<in> set DEPLOYMENT_STATUSES. map_of ALLOWED_TRANSITIONS a \<noteq> None"
  by code_simp

lemma canTransition_canonical:
  assumes "a \<in> set DEPLOYMENT_STATUSES" "b \<in> set DEPLOYMENT_STATUSES"
  shows "canTransitionDeployment (JStr a) (JStr b) = Inr (a = b \<or> b \<in> set (successors a))"
proof -
  obtain bs where "map_of ALLOWED_TRANSITIONS a = Some bs"
    using assms(1) transitions_total by blast
  then show ?thesis
    using normalize_canonical[OF assms(1)] normalize_canonical[OF assms(2)]
    by (simp add: canTransitionDeployment_def is_jstr_def successors_def Let_def)
qed

section \<open>Runs of a deployment\<close>

text \<open>One accepted change of status, and the statuses a deployment passes through, last first.\<close>

inductive deploy_step :: "string \<Rightarrow> string \<Rightarrow> bool" where
  step: "a \<in> set DEPLOYMENT_STATUSES \<Longrightarrow> b \<in> set DEPLOYMENT_STATUSES \<Longrightarrow>
    canTransitionDeployment (JStr a) (JStr b) = Inr True \<Longrightarrow> deploy_step a b"

inductive deploy_run :: "string list \<Rightarrow> bool" where
  start: "deploy_run [''queued'']"
| more: "deploy_run (a # visited) \<Longrightarrow> deploy_step a b \<Longrightarrow> deploy_run (b # a # visited)"

inductive_cases deploy_stepE: "deploy_step a b"
inductive_simps deploy_run_Cons: "deploy_run (b # a # visited)"

lemma deploy_step_iff:
  "deploy_step a b \<longleftrightarrow> a \<in> set DEPLOYMENT_STATUSES \<and> b \<in> set DEPLOYMENT_STATUSES \<and>
     (a = b \<or> b \<in> set (successors a))"
  using canTransition_canonical[of a b] by (auto simp: deploy_step.simps)

text \<open>What the table says of single steps, checked by evaluating it.\<close>

definition needs_build :: "string \<Rightarrow> bool" where
  "needs_build s = (s \<in> {''IMAGE_READY'', ''DEPLOYING'', ''READY'', ''PREVIEW_CLEANUP_REQUESTED''})"

definition dead_end :: "string \<Rightarrow> bool" where
  "dead_end s = (s \<in> {''CANCELLED'', ''PREVIEW_CLEANUP_REQUESTED''})"

lemma table_steps:
  "\<forall>a \<in> set DEPLOYMENT_STATUSES. \<forall>b \<in> set (successors a). needs_build b \<longrightarrow> b = ''IMAGE_READY'' \<or> needs_build a"
  "\<forall>a \<in> set DEPLOYMENT_STATUSES. ''IMAGE_READY'' \<in> set (successors a) \<longrightarrow> a = ''BUILDING''"
  "\<forall>a \<in> set DEPLOYMENT_STATUSES. ''PREVIEW_CLEANUP_REQUESTED'' \<in> set (successors a) \<longrightarrow> a = ''READY''"
  "\<forall>a \<in> set DEPLOYMENT_STATUSES. dead_end a \<longrightarrow> list_all dead_end (successors a)"
  "successors ''CANCELLED'' = []"
  by code_simp+

lemma cancelled_absorbing: "deploy_step ''CANCELLED'' b \<Longrightarrow> b = ''CANCELLED''"
  by (simp only: deploy_step_iff table_steps(5) list.set empty_iff simp_thms)

lemma needs_build_step: "deploy_step a b \<Longrightarrow> needs_build b \<Longrightarrow> b = ''IMAGE_READY'' \<or> needs_build a"
  unfolding deploy_step_iff using table_steps(1) by metis

lemma step_into_image: "deploy_step a ''IMAGE_READY'' \<Longrightarrow> a = ''IMAGE_READY'' \<or> a = ''BUILDING''"
  unfolding deploy_step_iff using table_steps(2) by metis

lemma step_into_cleanup:
  "deploy_step a ''PREVIEW_CLEANUP_REQUESTED'' \<Longrightarrow> a = ''PREVIEW_CLEANUP_REQUESTED'' \<or> a = ''READY''"
  unfolding deploy_step_iff using table_steps(3) by metis

lemma dead_end_step: "deploy_step a b \<Longrightarrow> dead_end a \<Longrightarrow> dead_end b"
  unfolding deploy_step_iff using table_steps(4) by (metis list_all_iff)

text \<open>The milestones a run has behind it in each status.\<close>

definition milestones :: "string list \<Rightarrow> bool" where
  "milestones vs = (
     (needs_build (hd vs) \<longrightarrow> ''IMAGE_READY'' \<in> set vs) \<and>
     (''IMAGE_READY'' \<in> set vs \<longrightarrow> ''BUILDING'' \<in> set vs) \<and>
     (hd vs = ''PREVIEW_CLEANUP_REQUESTED'' \<longrightarrow> ''READY'' \<in> set vs))"

lemma deploy_run_milestones: "deploy_run vs \<Longrightarrow> milestones vs"
proof (induction rule: deploy_run.induct)
  case start
  then show ?case by code_simp
next
  case (more a visited b)
  have "needs_build b \<Longrightarrow> b = ''IMAGE_READY'' \<or> needs_build a"
    using more.hyps(2) by (rule needs_build_step)
  moreover have "b = ''IMAGE_READY'' \<Longrightarrow> a = ''IMAGE_READY'' \<or> a = ''BUILDING''"
    using more.hyps(2) step_into_image by metis
  moreover have "b = ''PREVIEW_CLEANUP_REQUESTED'' \<Longrightarrow> a = ''PREVIEW_CLEANUP_REQUESTED'' \<or> a = ''READY''"
    using more.hyps(2) step_into_cleanup by metis
  ultimately show ?case
    using more.IH by (simp only: milestones_def list.sel list.set insert_iff) argo
qed

lemma deploy_run_cancelled:
  "deploy_run vs \<Longrightarrow> ''CANCELLED'' \<in> set vs \<Longrightarrow> hd vs = ''CANCELLED''"
proof (induction rule: deploy_run.induct)
  case (more a visited b)
  then have "a = ''CANCELLED'' \<or> b = ''CANCELLED''" by auto
  with more.hyps(2) show ?case using cancelled_absorbing by (metis list.sel(1))
qed simp

section \<open>Reaching READY\<close>

lemma pipeline_steps:
  "deploy_step ''queued'' ''BUILDING''" "deploy_step ''BUILDING'' ''IMAGE_READY''"
  "deploy_step ''IMAGE_READY'' ''READY''"
  unfolding deploy_step_iff by code_simp+

lemma sample_run: "deploy_run [''READY'', ''IMAGE_READY'', ''BUILDING'', ''queued'']"
  by (intro deploy_run.intros pipeline_steps)

lemma dead_end_stuck: "deploy_step\<^sup>*\<^sup>* a b \<Longrightarrow> dead_end a \<Longrightarrow> dead_end b"
  by (induction rule: rtranclp_induct) (auto dest: dead_end_step)

lemma table_to_ready:
  "\<forall>s \<in> set DEPLOYMENT_STATUSES. dead_end s \<or> s = ''READY'' \<or> s = ''BUILDING'' \<or>
     ''READY'' \<in> set (successors s) \<or> ''BUILDING'' \<in> set (successors s)"
  "''READY'' \<in> set DEPLOYMENT_STATUSES" "''BUILDING'' \<in> set DEPLOYMENT_STATUSES" "\<not> dead_end ''READY''"
  by code_simp+

lemma reach_via:
  assumes "step\<^sup>*\<^sup>* b r" "s = r \<or> s = b \<or> step s r \<or> step s b"
  shows "step\<^sup>*\<^sup>* s r"
  using assms by (auto intro: converse_rtranclp_into_rtranclp)

lemma ready_reachable:
  assumes "s \<in> set DEPLOYMENT_STATUSES"
  shows "deploy_step\<^sup>*\<^sup>* s ''READY'' \<longleftrightarrow> \<not> dead_end s"
proof
  assume "deploy_step\<^sup>*\<^sup>* s ''READY''"
  from dead_end_stuck[OF this] table_to_ready(4) show "\<not> dead_end s" by (rule contrapos_nn[rotated])
next
  assume n: "\<not> dead_end s"
  have "deploy_step\<^sup>*\<^sup>* ''IMAGE_READY'' ''READY''"
    by (rule r_into_rtranclp[where r = deploy_step, OF pipeline_steps(3)])
  then have build: "deploy_step\<^sup>*\<^sup>* ''BUILDING'' ''READY''"
    by (rule converse_rtranclp_into_rtranclp[where r = deploy_step, OF pipeline_steps(2)])
  show "deploy_step\<^sup>*\<^sup>* s ''READY''"
  proof (rule reach_via[OF build])
    show "s = ''READY'' \<or> s = ''BUILDING'' \<or> deploy_step s ''READY'' \<or> deploy_step s ''BUILDING''"
      using bspec[OF table_to_ready(1) assms] n assms
      by (simp only: deploy_step_iff table_to_ready(2,3) simp_thms) (elim disjE; simp only: simp_thms)
  qed
qed

lemma dead_end_iff: "dead_end s \<longleftrightarrow> s = ''CANCELLED'' \<or> s = ''PREVIEW_CLEANUP_REQUESTED''"
  by (simp only: dead_end_def insert_iff empty_iff simp_thms)

section \<open>Properties\<close>

text \<open>\<open>normalizeDeploymentStatus\<close> is idempotent on every status that names no inherited member
  and is not blank, and its result is then one of the nine statuses or the trimmed text itself.\<close>

theorem normalizeDeploymentStatus_idem:
  assumes "is_jstr (normalizeDeploymentStatus s)" "normalizeDeploymentStatus s \<noteq> JStr []"
  shows "normalizeDeploymentStatus (normalizeDeploymentStatus s) = normalizeDeploymentStatus s \<and>
    (to_str (normalizeDeploymentStatus s) \<in> set DEPLOYMENT_STATUSES \<or>
     normalizeDeploymentStatus s = JStr (raw_status s))"
proof (cases rule: normalize_cases[of s])
  case (canonical c)
  then show ?thesis by (simp add: normalize_canonical)
next
  case (inherited h)
  with assms show ?thesis by (simp add: is_jstr_def)
next
  case other
  with assms have "raw_status s \<noteq> []" by auto
  then have "raw_status (JStr (raw_status s)) = raw_status s"
    by (simp add: raw_status_def)
  with other show ?thesis
    by (simp add: normalizeDeploymentStatus_def[of "JStr (raw_status s)"] table_get_strings Let_def)
qed

theorem normalizeDeploymentStatus_idem_witness:
  "normalizeDeploymentStatus (normalizeDeploymentStatus (JStr '' Image-Ready '')) = JStr ''IMAGE_READY''"
proof -
  have n: "normalizeDeploymentStatus (JStr '' Image-Ready '') = JStr ''IMAGE_READY''" by code_simp
  with normalizeDeploymentStatus_idem[of "JStr '' Image-Ready ''"] show ?thesis by (simp add: is_jstr_def)
qed

text \<open>C21: every run of accepted status changes from \<open>queued\<close> keeps the order of the pipeline: a
  deployment is built before its image is ready, the image is ready before it is deploying or ready,
  a preview is cleaned up only after it was ready, and a cancelled deployment stays cancelled.\<close>

theorem deploy_run_order:
  assumes "deploy_run vs"
  shows "(needs_build (hd vs) \<longrightarrow> ''IMAGE_READY'' \<in> set vs) \<and>
    (''IMAGE_READY'' \<in> set vs \<longrightarrow> ''BUILDING'' \<in> set vs) \<and>
    (hd vs = ''PREVIEW_CLEANUP_REQUESTED'' \<longrightarrow> ''READY'' \<in> set vs) \<and>
    (''CANCELLED'' \<in> set vs \<longrightarrow> hd vs = ''CANCELLED'')"
  using deploy_run_milestones[OF assms] deploy_run_cancelled[OF assms] by (simp add: milestones_def)

theorem deploy_run_order_witness:
  "''BUILDING'' \<in> set [''READY'', ''IMAGE_READY'', ''BUILDING'', ''queued'']"
  using deploy_run_order[OF sample_run] by simp

text \<open>C29: cancelling is accepted in every status, and some sequence of accepted changes leads from
  a status to \<open>READY\<close> unless it is \<open>PREVIEW_CLEANUP_REQUESTED\<close> or \<open>CANCELLED\<close>.\<close>

theorem deployment_liveness:
  assumes "s \<in> set DEPLOYMENT_STATUSES"
  shows "canTransitionDeployment (JStr s) (JStr ''CANCELLED'') = Inr True \<and>
    (deploy_step\<^sup>*\<^sup>* s ''READY'' \<longleftrightarrow> s \<noteq> ''CANCELLED'' \<and> s \<noteq> ''PREVIEW_CLEANUP_REQUESTED'')"
proof (intro conjI)
  have "\<forall>s \<in> set DEPLOYMENT_STATUSES. canTransitionDeployment (JStr s) (JStr ''CANCELLED'') = Inr True"
    by code_simp
  from bspec[OF this assms] show "canTransitionDeployment (JStr s) (JStr ''CANCELLED'') = Inr True" .
  show "deploy_step\<^sup>*\<^sup>* s ''READY'' \<longleftrightarrow> s \<noteq> ''CANCELLED'' \<and> s \<noteq> ''PREVIEW_CLEANUP_REQUESTED''"
    by (simp only: ready_reachable[OF assms] dead_end_iff de_Morgan_disj)
qed

theorem deployment_liveness_witness:
  "deploy_step\<^sup>*\<^sup>* ''FAILED'' ''READY''"
proof -
  have "''FAILED'' \<in> set DEPLOYMENT_STATUSES" by code_simp
  moreover have "''FAILED'' \<noteq> ''CANCELLED'' \<and> ''FAILED'' \<noteq> ''PREVIEW_CLEANUP_REQUESTED''" by code_simp
  ultimately show ?thesis using deployment_liveness[of "''FAILED''"] by simp
qed

end
