(* ===== verification/StoreDeployments.thy ===== *)
theory StoreDeployments
  imports StoreJobs Deployments
begin

text \<open>
  Deployments in \<open>store.ts\<close>: creation, updates, status transitions, cancellation and rollback. The
  status of a stored deployment is refined by the table of transitions of \<open>deployments.ts\<close>.
\<close>

section \<open>Creation\<close>

definition cleaned_message :: "jsv \<Rightarrow> jsv" where
  "cleaned_message v = (if truthy v then sanitizeLogRecord v else JNull)"

definition deployment_row :: "world \<Rightarrow> jsv \<Rightarrow> jsv \<Rightarrow> jsv" where
  "deployment_row w service input = (let
     serviceId = jget input ''serviceId'';
     commitHash = jdefault (jget input ''commitHash'') JNull;
     sha = jor (jdefault (jget input ''commitSha'') JNull) (jor commitHash JNull);
     resolvedImageUrl = jor (jget input ''imageUrl'') (jor (jdefault (jget input ''image'') JNull) JNull);
     pullRequestNumber = jdefault (jget input ''pullRequestNumber'') JNull;
     rest = jrest input [''id'', ''serviceId'', ''commitHash'', ''commitSha'', ''imageUrl'', ''image'', ''imageDigest'',
       ''status'', ''deploymentType'', ''branch'', ''previewUrl'', ''triggerType'', ''pullRequestNumber'', ''errorCode'',
       ''errorMessage'']
   in jspread (JObj [
     (''id'', jor (jget input ''id'') (JStr (stableId ''dep'' [serviceId, jor sha (jor resolvedImageUrl (jint (wNow w)))]))),
     (''serviceId'', serviceId),
     (''projectId'', jor (jget rest ''projectId'') (jor (jget service ''projectId'') JNull)),
     (''commitHash'', jor commitHash sha), (''commitSha'', sha), (''imageUrl'', resolvedImageUrl),
     (''imageDigest'', jdefault (jget input ''imageDigest'') JNull),
     (''status'', normalizeDeploymentStatus (jdefault (jget input ''status'') (JStr ''queued''))),
     (''deploymentType'', jdefault (jget input ''deploymentType'') (JStr ''production'')),
     (''branch'', jdefault (jget input ''branch'') (JStr ''main'')),
     (''previewUrl'', jdefault (jget input ''previewUrl'') JNull),
     (''triggerType'', jdefault (jget input ''triggerType'') (JStr ''manual'')),
     (''pullRequestNumber'', if truthy pullRequestNumber then JNum (to_num pullRequestNumber) else JNull),
     (''errorCode'', jdefault (jget input ''errorCode'') JNull),
     (''errorMessage'', cleaned_message (jget input ''errorMessage'')),
     (''buildStartedAt'', JNull), (''buildFinishedAt'', JNull), (''deployedAt'', JNull),
     (''startedAt'', nowIso (wNow w)), (''createdAt'', nowIso (wNow w)), (''updatedAt'', nowIso (wNow w)),
     (''finishedAt'', JNull)]) (maskSecrets rest))"

definition createDeployment :: "world \<Rightarrow> jsv \<Rightarrow> jsv op" where
  "createDeployment w input = (let serviceId = jget input ''serviceId'' in
     sbind (sget (\<lambda>s. deployment_row w (mget (services s) serviceId) input)) (\<lambda>deployment.
     let i = jget deployment ''id'' in
     sthen (smod (deployments_update (mput i deployment)))
     (sthen (audit w system ''deployment:create'' (JStr ''deployment'') i
        (JObj [(''serviceId'', serviceId), (''status'', jdefault (jget input ''status'') (JStr ''queued''))]))
     (sthen (appendDeploymentEvent w (JObj [(''deploymentId'', i), (''type'', JStr ''deployment.queued''),
        (''message'', JStr (''Deployment queued for '' @ to_str serviceId))]))
     (sret (deep_clone deployment))))))"

definition getDeployment :: "jsv \<Rightarrow> jsv op" where
  "getDeployment deploymentId = sget (\<lambda>s. row_or_null (mget (deployments s) deploymentId))"

section \<open>Updates\<close>

definition stamp_unless :: "bool \<Rightarrow> string \<Rightarrow> jsv \<Rightarrow> jsv \<Rightarrow> jsv" where
  "stamp_unless b k v row = jset_if (b \<and> \<not> truthy (jget row k)) k v row"

definition ready_stamps :: "jsv \<Rightarrow> jsv \<Rightarrow> jsv \<Rightarrow> jsv \<Rightarrow> jsv" where
  "ready_stamps updates current timestamp n0 = (let
     n1 = jset_if (\<not> truthy (jget n0 ''deployedAt'')) ''deployedAt'' (jor (jget current ''deployedAt'') timestamp) n0;
     n2 = stamp_unless True ''finishedAt'' timestamp n1;
     n3 = jset_if (\<not> has_own updates ''errorCode'') ''errorCode'' JNull n2
   in jset_if (\<not> has_own updates ''errorMessage'') ''errorMessage'' JNull n3)"

definition status_stamps :: "jsv \<Rightarrow> jsv \<Rightarrow> jsv \<Rightarrow> jsv \<Rightarrow> jsv" where
  "status_stamps updates current timestamp n = (let
     status = normalizeDeploymentStatus (jget n ''status'');
     n0 = jset n ''status'' status;
     n1 = stamp_unless (status = JStr ''BUILDING'' \<and> \<not> truthy (jget current ''buildStartedAt'')) ''buildStartedAt'' timestamp n0;
     n2 = stamp_unless (status = JStr ''IMAGE_READY'') ''buildFinishedAt'' timestamp n1;
     n3 = stamp_unless (status = JStr ''DEPLOYING'' \<and> \<not> truthy (jget current ''deployedAt'')) ''deployedAt'' timestamp n2;
     n4 = (if status = JStr ''READY'' then ready_stamps updates current timestamp n3 else n3)
   in stamp_unless (status = JStr ''FAILED'' \<or> status = JStr ''BUILD_FAILED'' \<or> status = JStr ''CANCELLED'')
        ''finishedAt'' timestamp n4)"

definition normalizeDeploymentUpdates :: "world \<Rightarrow> jsv \<Rightarrow> jsv \<Rightarrow> jsv" where
  "normalizeDeploymentUpdates w updates current = (let
     n0 = JObj (map (\<lambda>(k, v). (k, if v = JStr [] then JNull else v)) (entries updates));
     n1 = jset_if (truthy (jget n0 ''image'') \<and> \<not> truthy (jget n0 ''imageUrl'')) ''imageUrl'' (jget n0 ''image'') n0
   in if has_own n1 ''status'' then status_stamps updates current (nowIso (wNow w)) n1 else n1)"

definition status_change :: "jsv \<Rightarrow> jsv \<Rightarrow> string" where
  "status_change from to = ''Deployment status changed: '' @ to_str (normalizeDeploymentStatus from) @ '' -> '' @ to_str to"

definition next_updates :: "world \<Rightarrow> jsv \<Rightarrow> jsv \<Rightarrow> jsv" where
  "next_updates w updates current = (let
     n0 = normalizeDeploymentUpdates w (maskSecrets (jor updates (JObj []))) current;
     n1 = jset_if (has_own n0 ''status'') ''status'' (normalizeDeploymentStatus (jget n0 ''status'')) n0
   in jset_if (has_own n1 ''errorMessage'') ''errorMessage''
        (sanitizeLogRecord (jor (jget n1 ''errorMessage'') (JStr []))) n1)"

definition updateDeployment :: "world \<Rightarrow> jsv \<Rightarrow> jsv \<Rightarrow> jsv \<Rightarrow> jsv op" where
  "updateDeployment w deploymentId updates options = sbind (sget (\<lambda>s. mget (deployments s) deploymentId)) (\<lambda>current.
     if \<not> truthy current then sret JNull
     else (let
       changes = next_updates w updates current;
       from = normalizeDeploymentStatus (jget current ''status'');
       nxt = jwith (jspread current changes) [(''updatedAt'', nowIso (wNow w))];
       to = normalizeDeploymentStatus (jget nxt ''status'')
     in sthen (if has_own changes ''status'' \<and> jget options ''validateTransition'' = JBool True
               then slift (assertDeploymentTransition (jget current ''status'') (jget changes ''status'')) else sret True)
        (sthen (smod (deployments_update (mput deploymentId nxt)))
        (sthen (audit w (jor (jget options ''actorUserId'') system) ''deployment:update'' (JStr ''deployment'') deploymentId
           (JObj [(''updates'', changes)]))
        (sthen (if ((has_own changes ''status'' \<and> \<not> strict_eq from to) \<or> truthy (jget options ''eventType'')) \<and>
              jget options ''appendEvent'' \<noteq> JBool False
           then appendDeploymentEvent w (JObj [(''deploymentId'', deploymentId),
             (''type'', jor (jget options ''eventType'') (JStr ''deployment.status.changed'')),
             (''message'', jor (jget options ''message'') (JStr (status_change (jget current ''status'') to))),
             (''metadata'', jspread (JObj [(''from'', from), (''to'', to), (''imageUrl'', jor (jget nxt ''imageUrl'') JNull),
                (''imageDigest'', jor (jget nxt ''imageDigest'') JNull), (''errorCode'', jor (jget nxt ''errorCode'') JNull)])
                (jor (jget options ''metadata'') (JObj [])))]) else sret JNull)
        (sret (deep_clone nxt)))))))"

definition transitionDeployment :: "world \<Rightarrow> jsv \<Rightarrow> jsv \<Rightarrow> jsv \<Rightarrow> jsv \<Rightarrow> jsv op" where
  "transitionDeployment w deploymentId status updates options = (let nextStatus = normalizeDeploymentStatus status in
     sbind (sfind deployments ''deployment'' deploymentId) (\<lambda>current.
     sthen (slift (assertDeploymentTransition (jget current ''status'') nextStatus))
     (sbind (updateDeployment w deploymentId (jwith updates [(''status'', nextStatus)])
         (jwith options [(''validateTransition'', JBool False), (''appendEvent'', JBool False)])) (\<lambda>deployment.
     sthen (appendDeploymentEvent w (JObj [(''deploymentId'', deploymentId),
        (''type'', jor (jget options ''eventType'') (JStr ''deployment.status.changed'')),
        (''message'', jor (jget options ''message'') (JStr (status_change (jget current ''status'') nextStatus))),
        (''metadata'', jspread (JObj [(''from'', normalizeDeploymentStatus (jget current ''status'')), (''to'', nextStatus)])
           (jor (jget options ''metadata'') (JObj [])))]))
     (sret deployment)))))"

section \<open>Cancellation and rollback\<close>

definition cancelDeployment :: "world \<Rightarrow> jsv \<Rightarrow> jsv \<Rightarrow> jsv op" where
  "cancelDeployment w deploymentId input = (let requestedText = JStr ''Deployment cancellation requested'' in
     sbind (transitionDeployment w deploymentId (JStr ''CANCELLED'') (JObj [
        (''finishedAt'', nowIso (wNow w)),
        (''errorCode'', jor (jget input ''errorCode'') (JStr ''DEPLOYMENT_CANCELLED'')),
        (''errorMessage'', jor (jget input ''reason'') (jor (jget input ''errorMessage'') requestedText))]) (JObj [
        (''actorUserId'', jor (jget input ''actorUserId'') system), (''eventType'', JStr ''deployment.cancelled''),
        (''message'', jor (jget input ''reason'') requestedText)])) (\<lambda>deployment.
     sbind (enqueueWorkflowJob w (JObj [(''type'', JStr ''deployment-cancel''), (''targetType'', JStr ''deployment''),
        (''targetId'', jget deployment ''id''), (''payload'', JObj [(''deploymentId'', jget deployment ''id''),
          (''serviceId'', jget deployment ''serviceId''), (''projectId'', jget deployment ''projectId''),
          (''reason'', jor (jget input ''reason'') (JStr ''requested''))])])) (\<lambda>workflowJob.
     sret (JObj [(''deployment'', deployment), (''workflowJob'', workflowJob)]))))"

definition ready_time :: "jsv \<Rightarrow> int" where
  "ready_time d = dateMs (jor (jget d ''deployedAt'') (jor (jget d ''finishedAt'') (jget d ''createdAt'')))"

definition latestReadyDeploymentForService :: "jsv list \<Rightarrow> jsv \<Rightarrow> jsv" where
  "latestReadyDeploymentForService rows current = (case sort_key (\<lambda>d. - ready_time d) (filter (\<lambda>d.
       \<not> same_text (jget d ''id'') (jget current ''id'') \<and> same_text (jget d ''serviceId'') (jget current ''serviceId'') \<and>
       normalizeDeploymentStatus (jget d ''status'') = JStr ''READY'' \<and>
       (truthy (jget d ''imageUrl'') \<or> truthy (jget d ''image''))) rows) of
     [] \<Rightarrow> JNull | d # _ \<Rightarrow> d)"

definition rollback_input :: "world \<Rightarrow> jsv \<Rightarrow> jsv \<Rightarrow> jsv \<Rightarrow> jsv \<Rightarrow> jsv \<Rightarrow> jsv" where
  "rollback_input w input current previous imageUrl imageDigest = JObj [
     (''id'', JStr (stableId ''dep'' [jget current ''serviceId'', JStr ''rollback'', jget current ''id'', nowIso (wNow w)])),
     (''serviceId'', jget current ''serviceId''), (''projectId'', jget current ''projectId''),
     (''commitSha'', jor (jget previous ''commitSha'') (jor (jget current ''commitSha'') JNull)),
     (''imageUrl'', imageUrl), (''imageDigest'', imageDigest), (''status'', JStr ''IMAGE_READY''),
     (''deploymentType'', jor (jget current ''deploymentType'') (JStr ''production'')),
     (''triggerType'', JStr ''rollback''),
     (''branch'', jor (jget input ''branch'') (jor (jget current ''branch'') (jor (jget previous ''branch'') (JStr ''main'')))),
     (''previousDeploymentId'', jor (jget previous ''id'') JNull), (''rollbackOfDeploymentId'', jget current ''id'')]"

definition rollbackDeployment :: "world \<Rightarrow> jsv \<Rightarrow> jsv \<Rightarrow> jsv op" where
  "rollbackDeployment w deploymentId input = sbind (sfind deployments ''deployment'' deploymentId) (\<lambda>current.
     sbind (sget (\<lambda>s. if truthy (jget input ''previousDeploymentId'')
        then mget (deployments s) (JStr (to_str (jget input ''previousDeploymentId'')))
        else latestReadyDeploymentForService (mvalues (deployments s)) current)) (\<lambda>previous.
     let imageUrl = jor (jget input ''imageUrl'') (jor (jget previous ''imageUrl'') (jor (jget previous ''image'') JNull));
         imageDigest = jor (jget input ''imageDigest'') (jor (jget previous ''imageDigest'') JNull);
         previousId = jor (jget previous ''id'') JNull; currentId = jget current ''id''
     in if \<not> truthy imageUrl
        then slift (js_throw_status 409 ''no previous READY deployment image is available for rollback'')
        else sbind (createDeployment w (rollback_input w input current previous imageUrl imageDigest)) (\<lambda>rollback.
          let rollbackId = jget rollback ''id'' in
          sthen (appendDeploymentEvent w (JObj [(''deploymentId'', currentId), (''type'', JStr ''deployment.rollback.requested''),
             (''message'', JStr (''Rollback requested to '' @ to_str imageUrl)),
             (''metadata'', JObj [(''rollbackDeploymentId'', rollbackId), (''previousDeploymentId'', previousId),
                (''imageUrl'', imageUrl), (''imageDigest'', imageDigest)])]))
          (sthen (appendDeploymentEvent w (JObj [(''deploymentId'', rollbackId), (''type'', JStr ''deployment.rollback.created''),
             (''message'', JStr (''Rollback deployment created from '' @ to_str currentId)),
             (''metadata'', JObj [(''rollbackOfDeploymentId'', currentId), (''previousDeploymentId'', previousId),
                (''imageUrl'', imageUrl), (''imageDigest'', imageDigest)])]))
          (sbind (enqueueWorkflowJob w (JObj [(''type'', JStr ''rollback-deploy''), (''targetType'', JStr ''deployment''),
             (''targetId'', rollbackId), (''payload'', JObj [(''deploymentId'', rollbackId),
               (''rollbackOfDeploymentId'', currentId), (''previousDeploymentId'', previousId),
               (''serviceId'', jget rollback ''serviceId''), (''projectId'', jget rollback ''projectId''),
               (''imageUrl'', imageUrl), (''imageDigest'', imageDigest)])])) (\<lambda>workflowJob.
           sret (JObj [(''deployment'', rollback), (''rollbackOfDeploymentId'', currentId),
             (''previousDeployment'', if truthy previous then deep_clone previous else JNull),
             (''workflowJob'', workflowJob)])))))))"

section \<open>The audit trail\<close>

lemma audited_deployment_updates:
  "keeps audited (createDeployment w x)" "keeps audited (getDeployment x)" "keeps audited (updateDeployment w x y z)"
  unfolding createDeployment_def getDeployment_def updateDeployment_def
  by (intro audited_intros audited_logs; simp)+

lemma audited_deployments:
  "keeps audited (transitionDeployment w x y z u)" "keeps audited (rollbackDeployment w x y)"
  unfolding transitionDeployment_def rollbackDeployment_def
  by (intro audited_intros audited_logs audited_jobs audited_deployment_updates; simp)+

lemma audited_cancel: "keeps audited (cancelDeployment w x y)"
  unfolding cancelDeployment_def
  by (intro audited_intros audited_jobs audited_deployments; simp)

end
