(* ===== verification/DomainRouter.thy ===== *)
theory DomainRouter
  imports Ids
begin

text \<open>
  \<open>domain-router.ts\<close> and \<open>preview-deployments.ts\<close>: host names of services, consoles and resources,
  the domain plan of a project, and the runtime plan of a preview deployment. The destructured
  parameters are the fields of one object, each with its default.
\<close>

definition SUBDOMAIN_ZONES :: jsv where
  "SUBDOMAIN_ZONES = JObj [(''DASHBOARD'', JStr ''app''), (''API'', JStr ''api''), (''ADMIN'', JStr ''admin''),
     (''APPS'', JStr ''apps''), (''PREVIEW'', JStr ''preview''), (''CONSOLE'', JStr ''console''),
     (''RESOURCES'', JStr ''resources''), (''LOGS'', JStr ''logs''), (''METRICS'', JStr ''metrics'')]"

definition zone :: "string \<Rightarrow> string" where
  "zone z = to_str (jget SUBDOMAIN_ZONES z)"

definition joinLabel :: "jsv list \<Rightarrow> string" where
  "joinLabel parts = str_join ''--'' (map (\<lambda>p. slugify p ''item'') (filter truthy parts))"

text \<open>A destructured field with its default.\<close>

definition arg :: "jsv \<Rightarrow> string \<Rightarrow> jsv \<Rightarrow> jsv" where
  "arg opts k d = jdefault (jget opts k) d"

definition base_domain :: "jsv \<Rightarrow> string" where
  "base_domain opts = to_str (arg opts ''baseDomain'' (JStr DEFAULT_DOMAIN))"

definition serviceHostname :: "jsv \<Rightarrow> jsv" where
  "serviceHostname opts = (let
     customDomain = arg opts ''customDomain'' JNull;
     preview = arg opts ''preview'' JNull
   in if truthy customDomain then customDomain
      else JStr (joinLabel [preview, arg opts ''serviceName'' (JStr ''service''),
          arg opts ''projectSlug'' (JStr ''project''), arg opts ''organizationSlug'' (JStr ''org'')] @
        ''.'' @ (if truthy preview then zone ''PREVIEW'' else zone ''APPS'') @ ''.'' @ base_domain opts))"

definition serviceConsoleHostname :: "jsv \<Rightarrow> string" where
  "serviceConsoleHostname opts =
     joinLabel [arg opts ''serviceName'' (JStr ''service''), arg opts ''projectSlug'' (JStr ''project''),
       arg opts ''organizationSlug'' (JStr ''org'')] @ ''.'' @ zone ''CONSOLE'' @ ''.'' @ base_domain opts"

definition resourceConsoleHostname :: "jsv \<Rightarrow> string" where
  "resourceConsoleHostname opts =
     joinLabel [arg opts ''resourceName'' (JStr ''resource''), arg opts ''projectSlug'' (JStr ''project''),
       arg opts ''organizationSlug'' (JStr ''org'')] @ ''.'' @ zone ''RESOURCES'' @ ''.'' @ base_domain opts"

definition projectConsoleHostname :: "jsv \<Rightarrow> string" where
  "projectConsoleHostname opts =
     joinLabel [arg opts ''projectSlug'' (JStr ''project''), arg opts ''organizationSlug'' (JStr ''org'')] @
     ''.'' @ zone ''CONSOLE'' @ ''.'' @ base_domain opts"

definition workspaceConsoleHostname :: "jsv \<Rightarrow> string" where
  "workspaceConsoleHostname opts =
     slugify (arg opts ''organizationSlug'' (JStr ''org'')) ''item'' @ ''.'' @ zone ''CONSOLE'' @ ''.'' @ base_domain opts"

definition internalServiceHostname :: "jsv \<Rightarrow> string" where
  "internalServiceHostname opts = slugify (arg opts ''serviceName'' (JStr ''service'')) ''item'' @ ''.'' @
     slugify (arg opts ''projectSlug'' (JStr ''project'')) ''item'' @ ''.svc.cluster.local''"

section \<open>The domain plan\<close>

definition plan_organization :: "jsv \<Rightarrow> jsv" where
  "plan_organization spec = jor (jget spec ''organization'')
     (JObj [(''slug'', jor (jget spec ''organizationSlug'') (JStr ''default''))])"

definition plan_project :: "jsv \<Rightarrow> jsv" where
  "plan_project spec = jor (jget spec ''project'')
     (JObj [(''name'', jor (jget spec ''name'') (JStr ''project'')),
            (''slug'', jor (jget spec ''slug'') (jor (jget spec ''name'') (JStr ''project'')))])"

definition service_domains :: "string \<Rightarrow> string \<Rightarrow> jsv \<Rightarrow> jsv \<Rightarrow> jsv" where
  "service_domains organizationSlug projectSlug baseDomain service = (let
     scope = [(''organizationSlug'', JStr organizationSlug), (''projectSlug'', JStr projectSlug)];
     named = scope @ [(''serviceName'', jget service ''name''), (''baseDomain'', baseDomain)]
   in JObj [
     (''name'', JStr (slugify (jget service ''name'') ''item'')),
     (''type'', jor (jget service ''type'') (JStr ''web'')),
     (''publicHostname'', if jget service ''type'' = JStr ''web'' \<or> \<not> truthy (jget service ''type'')
        then serviceHostname (JObj (named @ [(''customDomain'', jor (jget service ''domain'') JNull)])) else JNull),
     (''previewPattern'', JStr (''pr-{number}--'' @
        joinLabel [jget service ''name'', JStr projectSlug, JStr organizationSlug] @ ''.'' @ zone ''PREVIEW'' @
        ''.'' @ to_str baseDomain)),
     (''consoleHostname'', JStr (serviceConsoleHostname (JObj named))),
     (''internalHostname'', JStr (internalServiceHostname
        (JObj [(''projectSlug'', JStr projectSlug), (''serviceName'', jget service ''name'')])))])"

definition resource_domains :: "string \<Rightarrow> string \<Rightarrow> jsv \<Rightarrow> jsv \<Rightarrow> jsv" where
  "resource_domains organizationSlug projectSlug baseDomain resource = JObj [
     (''name'', JStr (slugify (jget resource ''name'') ''item'')),
     (''engine'', jget resource ''engine''),
     (''consoleHostname'', JStr (resourceConsoleHostname (JObj [(''organizationSlug'', JStr organizationSlug),
        (''projectSlug'', JStr projectSlug), (''resourceName'', jget resource ''name''), (''baseDomain'', baseDomain)]))),
     (''internalHostname'', JStr (slugify (jget resource ''name'') ''item'' @ ''.'' @ projectSlug @ ''.svc.cluster.local''))]"

definition domainPlanForProject :: "jsv \<Rightarrow> jsv" where
  "domainPlanForProject spec = (let
     organization = plan_organization spec; project = plan_project spec;
     organizationSlug = slugify (jor (jget organization ''slug'') (jor (jget organization ''name'') (JStr ''org''))) ''item'';
     projectSlug = slugify (jor (jget project ''slug'') (jor (jget project ''name'') (JStr ''project''))) ''item'';
     baseDomain = jor (jget spec ''baseDomain'') (JStr DEFAULT_DOMAIN);
     sub = (\<lambda>z. JStr (zone z @ ''.'' @ to_str baseDomain));
     wild = (\<lambda>z. JStr (''*.'' @ zone z @ ''.'' @ to_str baseDomain))
   in JObj [
     (''baseDomain'', baseDomain),
     (''zones'', SUBDOMAIN_ZONES),
     (''platform'', JObj [(''dashboard'', sub ''DASHBOARD''), (''api'', sub ''API''), (''admin'', sub ''ADMIN''),
        (''logs'', sub ''LOGS''), (''metrics'', sub ''METRICS'')]),
     (''workspace'', JStr (workspaceConsoleHostname
        (JObj [(''organizationSlug'', JStr organizationSlug), (''baseDomain'', baseDomain)]))),
     (''project'', JStr (projectConsoleHostname (JObj [(''organizationSlug'', JStr organizationSlug),
        (''projectSlug'', JStr projectSlug), (''baseDomain'', baseDomain)]))),
     (''services'', JArr (map (service_domains organizationSlug projectSlug baseDomain) (items (jget spec ''services'')))),
     (''resources'', JArr (map (resource_domains organizationSlug projectSlug baseDomain) (items (jget spec ''resources'')))),
     (''wildcardTls'', JArr [wild ''APPS'', wild ''PREVIEW'', wild ''CONSOLE'', wild ''RESOURCES''])])"

section \<open>Preview deployments\<close>

definition previewKey :: "jsv \<Rightarrow> string" where
  "previewKey pullRequestNumber = (let n = to_num (jor pullRequestNumber (jint 0)) in
     ''pr-'' @ num_str (if is_finite n \<and> num_less (Fin 0) n then n else Fin 0))"

record preview_identity =
  pvService :: jsv
  pvProject :: jsv
  pvNumber :: jnum
  pvKey :: string
  pvServiceName :: string
  pvProjectSlug :: string
  pvOrganizationSlug :: string
  pvWorkload :: string

definition previewIdentity :: "jsv \<Rightarrow> preview_identity" where
  "previewIdentity input = (let
     service = jor (jget input ''service'') (JObj []);
     project = jor (jget input ''project'') (JObj []);
     organization = jor (jget input ''organization'') (JObj []);
     n = to_num (jor (jget input ''pullRequestNumber'') (jor (jget input ''prNumber'') (jint 0)));
     preview = previewKey (JNum n);
     serviceName = slugify (jor (jget service ''slug'') (jor (jget service ''name'')
       (jor (jget service ''id'') (JStr ''service'')))) ''item''
   in \<lparr>pvService = service, pvProject = project, pvNumber = n, pvKey = preview, pvServiceName = serviceName,
       pvProjectSlug = slugify (jor (jget project ''slug'') (jor (jget project ''name'')
         (jor (jget project ''id'') (JStr ''project'')))) ''item'',
       pvOrganizationSlug = slugify (jor (jget organization ''slug'') (jor (jget organization ''name'')
         (jor (jget project ''organizationSlug'') (jor (jget project ''organizationId'') (JStr ''org''))))) ''item'',
       pvWorkload = preview @ ''-'' @ serviceName\<rparr>)"

definition previewWorkloadName :: "jsv \<Rightarrow> jsv \<Rightarrow> string" where
  "previewWorkloadName service pullRequestNumber = pvWorkload (previewIdentity
     (JObj [(''service'', jdefault service (JObj [])), (''pullRequestNumber'', pullRequestNumber)]))"

definition preview_number :: "preview_identity \<Rightarrow> jsv" where
  "preview_number p = JNum (if is_finite (pvNumber p) then pvNumber p else Fin 0)"

definition preview_labels :: "preview_identity \<Rightarrow> jsv \<Rightarrow> (string \<times> jsv) list" where
  "preview_labels p deploymentId = [
     (''app.kubernetes.io/name'', JStr (pvWorkload p)),
     (''app.kubernetes.io/managed-by'', JStr ''raibitserver''),
     (''raibitserver.io/project'', JStr (pvProjectSlug p)),
     (''raibitserver.io/service'', JStr (pvServiceName p)),
     (''raibitserver.io/preview'', JStr ''true''),
     (''raibitserver.io/pull-request'', JStr (to_str (preview_number p)))] @
     (if truthy deploymentId then [(''raibitserver.io/deployment'', JStr (to_str deploymentId))] else [])"

definition previewRuntimePlan :: "jsv \<Rightarrow> jsv" where
  "previewRuntimePlan input = (let
     p = previewIdentity input;
     baseDomain = jor (jget input ''baseDomain'') (jor (jget (pvService p) ''baseDomain'')
       (jor (jget (pvProject p) ''baseDomain'') (JStr DEFAULT_DOMAIN)));
     host = serviceHostname (JObj [(''organizationSlug'', JStr (pvOrganizationSlug p)),
       (''projectSlug'', JStr (pvProjectSlug p)), (''serviceName'', JStr (pvServiceName p)),
       (''baseDomain'', baseDomain), (''preview'', JStr (pvKey p))]);
     deploymentId = jor (jget input ''deploymentId'') (jor (jget (jget input ''deployment'') ''id'') JNull);
     labels = preview_labels p deploymentId;
     name = JStr (pvWorkload p)
   in JObj [
     (''kind'', JStr ''PreviewDeploymentPlan''),
     (''action'', jor (jget input ''action'') (JStr ''apply'')),
     (''safe'', JBool True),
     (''pullRequestNumber'', preview_number p),
     (''deploymentId'', deploymentId),
     (''url'', JStr (''https://'' @ to_str host)),
     (''host'', host),
     (''kubernetes'', JObj [
        (''namespace'', JStr (pvOrganizationSlug p @ ''-'' @ pvProjectSlug p)),
        (''workloadName'', name), (''deploymentName'', name), (''serviceName'', name), (''ingressName'', name),
        (''labels'', JObj labels),
        (''cleanupSelector'', JStr (str_join '','' (map (\<lambda>(k, v). k @ ''='' @ to_str v) labels)))])])"

section \<open>Lemmas\<close>

lemma label_single: "is_label s \<Longrightarrow> single_dashes s \<and> s \<noteq> [] \<and> last s \<noteq> dash \<and> hd s \<noteq> dash"
  by (auto simp: is_label_def slug_text_def)

lemma label_chars: "is_label s \<Longrightarrow> c \<in> set s \<Longrightarrow> slug_char c \<or> c = dash"
  by (auto simp: is_label_def slug_text_def list_all_iff)

lemma double_dash_split:
  assumes "is_label a" "is_label a'" "a @ ''--'' @ b = a' @ ''--'' @ b'"
  shows "a = a' \<and> b = b'"
proof -
  have no: False if la: "is_label (x @ z)" and z: "z \<noteq> []" and eq: "z @ ''--'' @ t = ''--'' @ u" for x z t u
  proof -
    obtain c z1 where z1: "z = c # z1" using z by (cases z) auto
    then have c: "c = dash" using eq by simp
    show False
    proof (cases z1)
      case Nil
      then show False using label_single[OF la] z1 c by simp
    next
      case (Cons d z2)
      then have "d = dash" using eq z1 by simp
      then have "sublist ''--'' (x @ z)" unfolding z1 Cons c sublist_def by (metis append_Cons append_Nil)
      then have "single_dashes ''--''" using single_dashes_sublist label_single[OF la] by blast
      then show False by simp
    qed
  qed
  from assms(3) obtain z where "a = a' @ z \<and> z @ ''--'' @ b = ''--'' @ b' \<or> a @ z = a' \<and> ''--'' @ b = z @ ''--'' @ b'"
    by (auto simp: append_eq_append_conv2)
  then have "z = []" using no[of a' z b b'] no[of a z b' b] assms(1,2) by metis
  then show ?thesis using \<open>a = a' @ z \<and> _ \<or> _\<close> by auto
qed

lemma joined_label_unique:
  assumes "length ws = length ws'" "list_all is_label ws" "list_all is_label ws'" "str_join ''--'' ws = str_join ''--'' ws'"
  shows "ws = ws'"
  using assms
proof (induction ws ws' rule: list_induct2)
  case (Cons w ws w' ws')
  show ?case
  proof (cases ws)
    case Nil
    then show ?thesis using Cons by simp
  next
    case (Cons v vs)
    then obtain v' vs' where "ws' = v' # vs'" using \<open>length ws = length ws'\<close> by (cases ws') auto
    with Cons have "w @ ''--'' @ str_join ''--'' ws = w' @ ''--'' @ str_join ''--'' ws'"
      using Cons.prems(3) by simp
    with double_dash_split[of w w'] Cons.prems(1,2) have "w = w' \<and> str_join ''--'' ws = str_join ''--'' ws'" by simp
    then show ?thesis using Cons.IH Cons.prems(1,2) by simp
  qed
qed simp

lemma joinLabel_labels: "list_all is_label ws \<Longrightarrow> joinLabel (map JStr ws) = str_join ''--'' ws"
proof -
  assume ws: "list_all is_label ws"
  then have "filter truthy (map JStr ws) = map JStr ws"
    by (intro filter_True) (auto simp: list_all_iff is_label_def)
  moreover have "map (\<lambda>p. slugify p ''item'') (map JStr ws) = ws"
    using ws by (intro nth_equalityI) (auto simp: list_all_iff slugify_label)
  ultimately show ?thesis by (simp add: joinLabel_def)
qed

lemma joined_no_dot: "list_all is_label ws \<Longrightarrow> CHR ''.'' \<notin> set (str_join ''--'' ws)"
proof (induction "''--''" ws rule: str_join.induct)
  case (2 w)
  then show ?case using label_chars[of w "CHR ''.''"] by (auto simp: slug_char_def is_lower_def is_digit_def code_of_def)
next
  case (3 w v ws)
  then show ?case using label_chars[of w "CHR ''.''"] by (auto simp: slug_char_def is_lower_def is_digit_def code_of_def)
qed simp

lemma before_dot:
  assumes "CHR ''.'' \<notin> set a" "CHR ''.'' \<notin> set a'" "a @ ''.'' @ t = a' @ ''.'' @ t'"
  shows "a = a' \<and> t = t'"
  using split_cons_sep[OF assms(1), of t] split_cons_sep[OF assms(2), of t'] assms(3)
  by (metis append_Cons append_Nil list.inject same_append_eq)

section \<open>Properties\<close>

definition scoped :: "string \<Rightarrow> string \<Rightarrow> string \<Rightarrow> jsv" where
  "scoped s p org = JObj [(''serviceName'', JStr s), (''projectSlug'', JStr p), (''organizationSlug'', JStr org)]"

lemma service_host_labels:
  assumes "list_all is_label [s, p, org]"
  shows "serviceHostname (scoped s p org) =
    JStr (str_join ''--'' [s, p, org] @ ''.'' @ zone ''APPS'' @ ''.'' @ DEFAULT_DOMAIN)"
proof -
  have "joinLabel [JNull, JStr s, JStr p, JStr org] = joinLabel (map JStr [s, p, org])"
    by (simp add: joinLabel_def)
  then show ?thesis
    using joinLabel_labels[OF assms] by (simp add: serviceHostname_def scoped_def arg_def base_domain_def Let_def)
qed

text \<open>Two services whose names, projects and organizations are DNS labels have the same default
  host name only when all three are the same: no tenant's service answers for another's host.\<close>

theorem service_hosts_distinct:
  assumes "list_all is_label [s, p, org]" "list_all is_label [s', p', org']"
    and "serviceHostname (scoped s p org) = serviceHostname (scoped s' p' org')"
  shows "s = s' \<and> p = p' \<and> org = org'"
proof -
  have "str_join ''--'' [s, p, org] @ ''.'' @ zone ''APPS'' @ ''.'' @ DEFAULT_DOMAIN =
      str_join ''--'' [s', p', org'] @ ''.'' @ zone ''APPS'' @ ''.'' @ DEFAULT_DOMAIN"
    using assms(3) unfolding service_host_labels[OF assms(1)] service_host_labels[OF assms(2)] by blast
  then have "str_join ''--'' [s, p, org] = str_join ''--'' [s', p', org']"
    using before_dot[OF joined_no_dot[OF assms(1)] joined_no_dot[OF assms(2)]] by blast
  from joined_label_unique[OF _ assms(1,2) this] show ?thesis by simp
qed

theorem service_hosts_distinct_witness:
  "serviceHostname (scoped ''api'' ''shop-eu'' ''acme'') \<noteq> serviceHostname (scoped ''api-shop'' ''eu'' ''acme'')"
proof
  assume eq: "serviceHostname (scoped ''api'' ''shop-eu'' ''acme'') = serviceHostname (scoped ''api-shop'' ''eu'' ''acme'')"
  have "list_all is_label [''api'', ''shop-eu'', ''acme'']" "list_all is_label [''api-shop'', ''eu'', ''acme'']"
    by code_simp+
  from service_hosts_distinct[OF this eq] show False by simp
qed

end
