(* ===== verification/StoreGitHub.thy ===== *)
theory StoreGitHub
  imports StoreDeployments StoreSecrets DomainRouter Json
begin

text \<open>
  The GitHub side of \<open>store.ts\<close>: integrations and their repositories, the import and the
  synchronisation of a repository, and the webhook that queues deployments, previews and clean-ups.
\<close>

section \<open>Repositories\<close>

definition normalizeRepositoryId :: "jsv \<Rightarrow> string" where
  "normalizeRepositoryId v = (let t = str_trim (to_str (jor v (JStr []))) in
     if t = [] then [] else
       (case parseGitHubRepository (JStr t) of
          Inr r \<Rightarrow> str_lower (to_str (jget r ''fullName''))
        | Inl _ \<Rightarrow> (let l = str_lower t in if starts_with l ''github:'' then str_from 7 l else l)))"

definition organizationScopeSet :: "jsv \<Rightarrow> string list" where
  "organizationScopeSet scope = map to_str (filter given_text
     (jget scope ''organizationId'' # items (jget scope ''organizationIds'')))"

definition github_state :: "jsv \<Rightarrow> string \<Rightarrow> jsv" where
  "github_state service k = jget (jget (jget service ''desiredState'') ''github'') k"

definition service_repository :: "jsv \<Rightarrow> jsv" where
  "service_repository service = jor (jget service ''githubRepository'')
     (jor (github_state service ''repository'') (jor (jget service ''repoUrl'') (JStr [])))"

definition repositorySummaryFromService :: "jsv \<Rightarrow> jsv res" where
  "repositorySummaryFromService service = (let repo = normalizeRepositoryId (service_repository service) in
     if repo = [] then Inr JNull
     else rbind (parseGitHubRepository (JStr repo)) (\<lambda>parsed. Inr (JObj [
       (''id'', JStr (stableId ''ghr'' [jget parsed ''fullName''])), (''fullName'', jget parsed ''fullName''),
       (''repoUrl'', jget parsed ''repoUrl''), (''defaultBranch'', jor (jget service ''branch'') (JStr ''main'')),
       (''serviceIds'', JArr [jget service ''id''])])))"

text \<open>\<open>[...new Set(xs)]\<close>: the first occurrence of each value.\<close>

definition first_occurrences :: "'a list \<Rightarrow> 'a list" where
  "first_occurrences xs = rev (fold (\<lambda>x acc. if x \<in> set acc then acc else x # acc) xs [])"

definition add_repository :: "jsv \<Rightarrow> (string \<times> jsv) list \<Rightarrow> (string \<times> jsv) list" where
  "add_repository repo m = (let
     key = normalizeRepositoryId (jor (jget repo ''fullName'') (jget repo ''repoUrl''))
   in AList.update key (case map_of m key of
        None \<Rightarrow> repo
      | Some old \<Rightarrow> jwith old [(''serviceIds'', JArr (first_occurrences
          (items (jget old ''serviceIds'') @ items (jget repo ''serviceIds''))))]) m)"

definition uniqueRepositories :: "jsv list \<Rightarrow> jsv list" where
  "uniqueRepositories repos = map snd (fold add_repository (filter truthy repos) [])"

definition githubRepositoriesForIntegration :: "jsv \<Rightarrow> jsv list op" where
  "githubRepositoriesForIntegration integrationId = sbind (sget (\<lambda>s. filter (\<lambda>service.
       to_str (jor (jget service ''githubIntegrationId'') (jor (github_state service ''integrationId'') (JStr []))) =
       to_str integrationId) (mvalues (services s)))) (\<lambda>rows.
     slift (rbind (res_map repositorySummaryFromService rows) (\<lambda>repos. Inr (filter truthy repos))))"

definition in_scope :: "store \<Rightarrow> string list \<Rightarrow> jsv \<Rightarrow> bool" where
  "in_scope s ids service = (if ids = [] then True else
     (let project = mget (projects s) (jget service ''projectId'') in
      if truthy project then to_str (jget project ''organizationId'') \<in> set ids else False))"

definition servicesForGitHubRepository :: "jsv \<Rightarrow> jsv \<Rightarrow> jsv list op" where
  "servicesForGitHubRepository repo scope = (let
     normalized = normalizeRepositoryId repo; ids = organizationScopeSet scope
   in sget (\<lambda>s. filter (in_scope s ids) (filter (\<lambda>service.
        normalizeRepositoryId (service_repository service) = normalized) (mvalues (services s)))))"

section \<open>Integrations\<close>

definition createGitHubIntegration :: "world \<Rightarrow> jsv \<Rightarrow> jsv op" where
  "createGitHubIntegration w input = (let
     organizationId = jget input ''organizationId''; userId = jdefault (jget input ''userId'') JNull;
     installationId = jdefault (jget input ''installationId'') JNull; token = jdefault (jget input ''token'') JNull;
     scopes = jdefault (jget input ''scopes'') (JArr [JStr ''repo:read'']);
     summary = githubIntegrationSummary (wGitHub w) (JObj [(''accountLogin'', jget input ''accountLogin''),
       (''installationId'', installationId), (''token'', token), (''scopes'', scopes)]);
     i = JStr (stableId ''ghi'' [organizationId, jor (jget summary ''accountLogin'') (jor installationId
       (jor (jget summary ''tokenFingerprint'') (jint (wNow w))))])
   in if \<not> truthy organizationId then slift (js_throw ''organizationId is required for GitHub integration'')
      else sbind (if truthy token then sbind (createSecret w (JObj [(''scopeType'', JStr ''github-integration''),
          (''scopeId'', i), (''key'', JStr ''GITHUB_TOKEN''), (''value'', token), (''actorUserId'', jor userId system)]))
          (\<lambda>secret. sret (jget secret ''id'')) else sret JNull) (\<lambda>tokenSecretId.
        let row = jwith (jspread (JObj [(''id'', i), (''organizationId'', organizationId), (''userId'', userId)]) summary) [
              (''tokenSecretId'', tokenSecretId),
              (''defaultBranch'', jdefault (jget input ''defaultBranch'') (JStr ''main'')),
              (''createdAt'', nowIso (wNow w)), (''updatedAt'', nowIso (wNow w))]
        in sthen (smod (githubIntegrations_update (mput i row)))
           (sthen (audit w (jor userId system) ''github:connect'' (JStr ''organization'') organizationId (JObj [
              (''integrationId'', i), (''accountLogin'', jget summary ''accountLogin''), (''installationId'', installationId)]))
           (sret (deep_clone row)))))"

definition listGitHubIntegrations :: "jsv \<Rightarrow> jsv list op" where
  "listGitHubIntegrations input = sget (\<lambda>s. map deep_clone (filter (\<lambda>row.
     same_text (jget row ''organizationId'') (jget input ''organizationId'')) (mvalues (githubIntegrations s))))"

definition find_integration :: "jsv \<Rightarrow> jsv \<Rightarrow> jsv op" where
  "find_integration integrationId project = sbind (sget (\<lambda>s.
       if truthy integrationId then mget (githubIntegrations s) integrationId else JNull)) (\<lambda>integration.
     slift (if truthy integration \<and> \<not> same_text (jget integration ''organizationId'') (jget project ''organizationId'')
       then forbidden ''GitHub integration does not belong to project organization'' else Inr integration))"

definition integration_ref :: "jsv \<Rightarrow> jsv \<Rightarrow> jsv" where
  "integration_ref integration integrationId = jor (jget integration ''id'') (jor integrationId JNull)"

definition github_view :: "jsv \<Rightarrow> jsv \<Rightarrow> jsv \<Rightarrow> jsv" where
  "github_view ref repo branch = JObj [(''integrationId'', ref), (''repository'', jget repo ''fullName''),
     (''repoUrl'', jget repo ''repoUrl''), (''branch'', branch)]"

definition attachGitHubRepositoryToService :: "world \<Rightarrow> jsv \<Rightarrow> jsv op" where
  "attachGitHubRepositoryToService w input = (let
     projectId = jget input ''projectId''; serviceId = jget input ''serviceId''; integrationId = jget input ''integrationId'';
     branch = jdefault (jget input ''branch'') (JStr ''main'')
   in sbind (service_of_project projectId serviceId) (\<lambda>service.
      sbind (sfind projects ''project'' projectId) (\<lambda>project.
      sbind (find_integration integrationId project) (\<lambda>integration.
      sbind (slift (parseGitHubRepository (jget input ''repoUrl''))) (\<lambda>repo.
      let ref = integration_ref integration integrationId in
      sbind (updateService w serviceId (JObj [(''sourceType'', JStr ''github''), (''repoUrl'', jget repo ''repoUrl''),
         (''branch'', branch), (''githubIntegrationId'', ref), (''githubRepository'', jget repo ''fullName'')])) (\<lambda>updated.
      sthen (audit w (jdefault (jget input ''actorUserId'') system) ''github:attach-repository'' (JStr ''service'') serviceId
         (JObj [(''integrationId'', ref), (''repository'', jget repo ''fullName''), (''branch'', branch)]))
      (sret (JObj [(''service'', updated), (''github'', github_view ref repo branch)]))))))))"

definition listGitHubInstallations :: "jsv \<Rightarrow> jsv op" where
  "listGitHubInstallations input = sbind (listGitHubIntegrations input) (\<lambda>integrations.
     sbind (sfor (\<lambda>integration. sbind (githubRepositoriesForIntegration (jget integration ''id'')) (\<lambda>repos.
         let i = JStr (to_str (jget integration ''installationId'')) in
         sret (JObj [(''id'', i), (''installationId'', i), (''integrationId'', jget integration ''id''),
           (''accountLogin'', jget integration ''accountLogin''), (''organizationId'', jget integration ''organizationId''),
           (''repositoryCount'', jnat (length repos))])))
       (filter (\<lambda>integration. truthy (jget integration ''installationId'')) integrations)) (\<lambda>installations.
     sret (JObj [(''installations'', JArr installations)])))"

definition listGitHubInstallationRepositories :: "jsv \<Rightarrow> jsv op" where
  "listGitHubInstallationRepositories input = (let
     installationId = jget input ''installationId''; ids = organizationScopeSet input
   in sbind (sget (\<lambda>s. filter (\<lambda>i. ids = [] \<or> to_str (jget i ''organizationId'') \<in> set ids)
        (filter (\<lambda>i. same_text (jget i ''installationId'') installationId) (mvalues (githubIntegrations s))))) (\<lambda>integrations.
      sbind (sfor (\<lambda>i. githubRepositoriesForIntegration (jget i ''id'')) integrations) (\<lambda>repos.
      sret (JObj [(''installationId'', JStr (to_str installationId)),
        (''repositories'', JArr (uniqueRepositories (concat repos)))]))))"

definition importGitHubRepository :: "world \<Rightarrow> jsv \<Rightarrow> jsv op" where
  "importGitHubRepository w input = (let
     projectId = jget input ''projectId''; integrationId = jdefault (jget input ''integrationId'') JNull;
     branch = jdefault (jget input ''branch'') (JStr ''main'')
   in sbind (sfind projects ''project'' projectId) (\<lambda>project.
      sbind (slift (parseGitHubRepository (jor (jget input ''repoUrl'') (jget input ''repository'')))) (\<lambda>repo.
      sbind (find_integration integrationId project) (\<lambda>integration.
      let ref = integration_ref integration integrationId; fullName = jget repo ''fullName'' in
      sbind (createService w (JObj [(''projectId'', projectId),
         (''name'', jor (jdefault (jget input ''serviceName'') JNull) (jget repo ''repo'')), (''type'', JStr ''web''),
         (''runtimeType'', JStr ''container''), (''sourceType'', JStr ''github''), (''repoUrl'', jget repo ''repoUrl''),
         (''branch'', branch), (''githubIntegrationId'', ref), (''githubRepository'', fullName),
         (''desiredState'', JObj [(''github'', JObj [(''repository'', fullName), (''integrationId'', ref),
            (''imported'', JBool True)])])])) (\<lambda>service.
      sthen (audit w (jdefault (jget input ''actorUserId'') system) ''github:import-repository'' (JStr ''project'') projectId
         (JObj [(''repository'', fullName), (''integrationId'', ref)]))
      (sret (JObj [(''service'', service), (''github'', github_view ref repo branch)])))))))"

definition service_ids :: "jsv list \<Rightarrow> jsv" where
  "service_ids rows = JArr (map (\<lambda>service. jget service ''id'') rows)"

definition syncGitHubRepository :: "world \<Rightarrow> jsv \<Rightarrow> jsv op" where
  "syncGitHubRepository w input = (let
     normalized = JStr (normalizeRepositoryId (jor (jget input ''repository'') (jget input ''repositoryId'')))
   in sbind (servicesForGitHubRepository normalized input) (\<lambda>rows.
      sbind (enqueueWorkflowJob w (JObj [(''type'', JStr ''github-repository-sync''), (''targetType'', JStr ''github-repository''),
         (''targetId'', normalized), (''payload'', JObj [(''repository'', normalized), (''serviceIds'', service_ids rows)])])) (\<lambda>workflowJob.
      sthen (audit w (jdefault (jget input ''actorUserId'') system) ''github:repository-sync'' (JStr ''github-repository'')
         normalized (JObj [(''serviceIds'', service_ids rows)]))
      (sret (JObj [(''repository'', normalized), (''services'', JArr (map deep_clone rows)), (''workflowJob'', workflowJob)])))))"

end
