(* ===== verification/StoreWebhook.thy ===== *)
theory StoreWebhook
  imports StoreGitHub
begin

text \<open>
  \<open>handleGitHubWebhook\<close> of \<open>store.ts\<close>: the signature and the record of deliveries come first, then
  every service of the repository gets a production deployment, a preview or a clean-up.
\<close>

section \<open>What one service gets\<close>

definition webhook_source :: "(string \<times> jsv) list \<Rightarrow> jsv \<Rightarrow> (string \<times> jsv) list \<Rightarrow> jsv" where
  "webhook_source first service more_fields = JObj ([(''serviceId'', jget service ''id''),
     (''projectId'', jget service ''projectId'')] @ first @ more_fields)"

definition production_deploy :: "world \<Rightarrow> jsv \<Rightarrow> jsv \<Rightarrow> jsv op" where
  "production_deploy w plan service =
     sbind (createDeployment w (JObj [(''serviceId'', jget service ''id''), (''commitSha'', jget plan ''commitSha''),
        (''status'', JStr ''queued''), (''deploymentType'', JStr ''production''), (''triggerType'', JStr ''github_push''),
        (''branch'', jget plan ''branch'')])) (\<lambda>deployment.
     sbind (enqueueWorkflowJob w (JObj [(''type'', JStr ''build-and-deploy''), (''targetType'', JStr ''deployment''),
        (''targetId'', jget deployment ''id''), (''payload'', webhook_source [(''deploymentId'', jget deployment ''id'')] service
          [(''repository'', jget plan ''repository''), (''commitSha'', jget plan ''commitSha''),
           (''branch'', jget plan ''branch''), (''source'', JStr ''github-webhook'')])])) (\<lambda>workflowJob.
     sret (JObj [(''type'', JStr ''production-deployment-enqueued''), (''serviceId'', jget service ''id''),
        (''deploymentId'', jget deployment ''id''), (''workflowJobId'', jget workflowJob ''id'')])))"

definition preview_input :: "jsv \<Rightarrow> jsv \<times> jsv \<Rightarrow> jsv \<Rightarrow> (string \<times> jsv) list \<Rightarrow> jsv" where
  "preview_input service owner plan more_fields = JObj ([(''service'', service), (''project'', fst owner),
     (''organization'', snd owner), (''pullRequestNumber'', jget plan ''pullRequestNumber'')] @ more_fields)"

definition owner_of :: "jsv \<Rightarrow> (jsv \<times> jsv) op" where
  "owner_of service = sget (\<lambda>s. let project = mget (projects s) (jget service ''projectId'') in
     (project, if truthy project then mget (organizations s) (jget project ''organizationId'') else JNull))"

definition preview_deploy :: "world \<Rightarrow> jsv \<Rightarrow> jsv \<Rightarrow> jsv op" where
  "preview_deploy w plan service = sbind (owner_of service) (\<lambda>owner. let
       number = jget plan ''pullRequestNumber'';
       previewPlan = previewRuntimePlan (preview_input service owner plan [])
     in sbind (createDeployment w (JObj [(''serviceId'', jget service ''id''), (''commitSha'', jget plan ''commitSha''),
          (''status'', JStr ''queued''), (''deploymentType'', JStr ''preview''), (''triggerType'', JStr ''github_pull_request''),
          (''branch'', jget plan ''branch''), (''pullRequestNumber'', number), (''previewUrl'', jget previewPlan ''url'')])) (\<lambda>deployment. let
       preview = previewRuntimePlan (preview_input service owner plan [(''deploymentId'', jget deployment ''id'')]);
       kubernetes = jget preview ''kubernetes''
     in sbind (enqueueWorkflowJob w (JObj [(''type'', JStr ''preview-deploy''), (''targetType'', JStr ''deployment''),
          (''targetId'', jget deployment ''id''), (''payload'', webhook_source [(''deploymentId'', jget deployment ''id'')] service
            [(''repository'', jget plan ''repository''), (''pullRequestNumber'', number), (''commitSha'', jget plan ''commitSha''),
             (''branch'', jget plan ''branch''), (''source'', JStr ''github-webhook''), (''preview'', preview),
             (''kubernetes'', kubernetes)])])) (\<lambda>workflowJob.
        sthen (appendDeploymentEvent w (JObj [(''deploymentId'', jget deployment ''id''),
          (''type'', JStr ''preview.workload.queued''),
          (''message'', JStr (''Preview Kubernetes workload queued for PR #'' @ to_str number)),
          (''metadata'', JObj [(''previewUrl'', jget preview ''url''), (''workloadName'', jget kubernetes ''workloadName''),
             (''namespace'', jget kubernetes ''namespace'')])]))
        (sret (JObj [(''type'', JStr ''preview-deployment-enqueued''), (''serviceId'', jget service ''id''),
          (''deploymentId'', jget deployment ''id''), (''workflowJobId'', jget workflowJob ''id''),
          (''pullRequestNumber'', number), (''previewUrl'', jget preview ''url''),
          (''previewWorkloadName'', jget kubernetes ''workloadName'')])))))"

definition is_preview_of :: "jsv \<Rightarrow> jsv \<Rightarrow> jsv \<Rightarrow> bool" where
  "is_preview_of service plan d = (strict_eq (jget d ''serviceId'') (jget service ''id'') \<and>
     jget d ''deploymentType'' = JStr ''preview'' \<and>
     strict_eq (JNum (to_num (jget d ''pullRequestNumber''))) (JNum (to_num (jget plan ''pullRequestNumber''))))"

definition request_cleanup :: "world \<Rightarrow> jsv \<Rightarrow> jsv \<Rightarrow> jsv \<times> jsv \<Rightarrow> jsv \<Rightarrow> jsv op" where
  "request_cleanup w plan service owner deployment = (let
     cleanupPlan = previewRuntimePlan (preview_input service owner plan
       [(''deploymentId'', jget deployment ''id''), (''action'', JStr ''delete'')]);
     kubernetes = jget cleanupPlan ''kubernetes''
   in sthen (smod (deployments_update (mput (jget deployment ''id'') (jwith deployment
        [(''status'', JStr ''PREVIEW_CLEANUP_REQUESTED''), (''updatedAt'', nowIso (wNow w))]))))
      (appendDeploymentEvent w (JObj [(''deploymentId'', jget deployment ''id''), (''type'', JStr ''preview.cleanup.requested''),
        (''message'', JStr (''Preview cleanup requested for PR #'' @ to_str (jget plan ''pullRequestNumber''))),
        (''metadata'', JObj [(''repository'', jget plan ''repository''), (''workloadName'', jget kubernetes ''workloadName''),
           (''cleanupSelector'', jget kubernetes ''cleanupSelector'')])])))"

definition preview_cleanup :: "world \<Rightarrow> jsv \<Rightarrow> jsv \<Rightarrow> jsv op" where
  "preview_cleanup w plan service = sbind (owner_of service) (\<lambda>owner. let
       number = jget plan ''pullRequestNumber'';
       preview = previewRuntimePlan (preview_input service owner plan [(''action'', JStr ''delete'')])
     in sbind (enqueueWorkflowJob w (JObj [(''type'', JStr ''preview-cleanup''), (''targetType'', JStr ''service''),
          (''targetId'', jget service ''id''), (''payload'', webhook_source [] service
            [(''repository'', jget plan ''repository''), (''pullRequestNumber'', number), (''branch'', jget plan ''branch''),
             (''source'', JStr ''github-webhook''), (''preview'', preview), (''kubernetes'', jget preview ''kubernetes'')])])) (\<lambda>workflowJob.
        sbind (sget (\<lambda>s. filter (is_preview_of service plan) (mvalues (deployments s)))) (\<lambda>rows.
        sthen (sfor (request_cleanup w plan service owner) rows)
        (sret (JObj [(''type'', JStr ''preview-cleanup-enqueued''), (''serviceId'', jget service ''id''),
          (''workflowJobId'', jget workflowJob ''id''), (''pullRequestNumber'', number),
          (''deploymentIds'', service_ids rows)])))))"

definition one_action :: "jsv op \<Rightarrow> jsv list op" where
  "one_action m = sbind m (\<lambda>a. sret [a])"

definition webhook_actions :: "world \<Rightarrow> jsv \<Rightarrow> jsv \<Rightarrow> jsv list op" where
  "webhook_actions w plan service = (let kind = jget plan ''kind'' in
     if kind = JStr ''production-deploy'' then one_action (production_deploy w plan service)
     else if kind = JStr ''preview-deploy'' then one_action (preview_deploy w plan service)
     else if kind = JStr ''preview-cleanup'' then one_action (preview_cleanup w plan service)
     else sret [])"

section \<open>The webhook\<close>

definition webhook_secret :: "world \<Rightarrow> jsv \<Rightarrow> jsv" where
  "webhook_secret w input = jdefault (jget input ''secret'') (jor (jget (wEnv w) ''RAIBITSERVER_GITHUB_WEBHOOK_SECRET'')
     (jor (jget (wEnv w) ''GITHUB_WEBHOOK_SECRET'') (JStr [])))"

definition webhook_payload :: "jsv \<Rightarrow> jsv" where
  "webhook_payload input = jor (jget input ''payload'') (JObj [])"

definition webhook_body :: "jsv \<Rightarrow> string" where
  "webhook_body input = (if is_jstr (jget input ''body'') then to_str (jget input ''body'')
     else json_stringify (webhook_payload input))"

definition webhook_id :: "jsv \<Rightarrow> string" where
  "webhook_id input = to_str (jor (jget input ''deliveryId'')
     (JStr (stableId ''ghdel'' [jget input ''event'', JStr (webhook_body input)])))"

definition accept_webhook :: "world \<Rightarrow> jsv \<Rightarrow> jsv op" where
  "accept_webhook w input = (let event = jget input ''event''; i = JStr (webhook_id input) in
     sbind (slift (githubWebhookActionPlan event (webhook_payload input))) (\<lambda>plan.
     sthen (smod (webhookEvents_update (mput i (JObj [(''id'', JStr (stableId ''whe'' [JStr ''github'', i])),
        (''provider'', JStr ''github''), (''eventType'', JStr (to_str (jor event (JStr ''unknown'')))), (''deliveryId'', i),
        (''payload'', maskSecrets (webhook_payload input)), (''handled'', JBool True), (''createdAt'', nowIso (wNow w))]))))
     (sbind (servicesForGitHubRepository (jget plan ''repository'') (JObj [])) (\<lambda>rows.
      sbind (sfor (webhook_actions w plan) rows) (\<lambda>done_actions.
      let actions = concat done_actions in
      sthen (audit w (JStr ''github-webhook'') ''github:webhook'' (JStr ''github-delivery'') i (JObj [(''event'', event),
         (''repository'', jget plan ''repository''), (''action'', jget plan ''action''),
         (''actions'', JArr (map (\<lambda>a. jget a ''type'') actions))]))
      (sret (JObj [(''accepted'', JBool True), (''duplicate'', JBool False), (''deliveryId'', i), (''event'', event),
         (''action'', jget plan ''action''), (''repository'', jget plan ''repository''),
         (''matchedServiceCount'', jnat (length rows)), (''actions'', JArr actions),
         (''outbound'', githubWebhookOutboundPlan plan actions)])))))))"

definition handleGitHubWebhook :: "world \<Rightarrow> jsv \<Rightarrow> jsv op" where
  "handleGitHubWebhook w input = (let secret = webhook_secret w input; i = JStr (webhook_id input) in
     if \<not> truthy secret then slift (js_throw_status 503 ''GitHub webhook secret is not configured'')
     else if \<not> verifyGitHubWebhookSignature (wGitHub w) (webhook_body input) (jget input ''signature'') secret
       then slift (unauthorized ''invalid GitHub webhook signature'')
     else sbind (sget (\<lambda>s. i \<in> fst ` set (webhookEvents s))) (\<lambda>seen.
       if seen then sret (JObj [(''accepted'', JBool True), (''duplicate'', JBool True), (''deliveryId'', i), (''actions'', JArr [])])
       else accept_webhook w input))"

section \<open>The audit trail\<close>

lemma audited_secret: "keeps audited (createSecret w x)"
  unfolding createSecret_def by (intro audited_intros; simp)

lemma audited_lookup:
  "keeps audited (githubRepositoriesForIntegration x)" "keeps audited (servicesForGitHubRepository x y)"
  "keeps audited (find_integration x y)" "keeps audited (service_of_project x y)" "keeps audited (listGitHubIntegrations x)"
  unfolding githubRepositoriesForIntegration_def servicesForGitHubRepository_def find_integration_def
    service_of_project_def listGitHubIntegrations_def
  by (intro audited_intros)+

lemma audited_github:
  "keeps audited (createGitHubIntegration w x)" "keeps audited (attachGitHubRepositoryToService w x)"
  "keeps audited (listGitHubInstallations x)" "keeps audited (listGitHubInstallationRepositories x)"
  "keeps audited (importGitHubRepository w x)" "keeps audited (syncGitHubRepository w x)"
  unfolding createGitHubIntegration_def attachGitHubRepositoryToService_def listGitHubInstallations_def
    listGitHubInstallationRepositories_def importGitHubRepository_def syncGitHubRepository_def
  by (intro audited_intros audited_lookup audited_base audited_secret audited_jobs; simp)+

lemma audited_cleanup: "keeps audited (request_cleanup w p s i d)"
  unfolding request_cleanup_def by (intro audited_intros audited_logs; simp)

lemma audited_actions: "keeps audited (webhook_actions w p s)"
  unfolding webhook_actions_def one_action_def production_deploy_def preview_deploy_def preview_cleanup_def owner_of_def
  by (intro audited_intros audited_cleanup audited_logs audited_jobs audited_deployment_updates; simp)

lemma audited_webhook: "keeps audited (handleGitHubWebhook w x)"
  unfolding handleGitHubWebhook_def accept_webhook_def
  by (intro audited_intros audited_actions audited_lookup; simp)

section \<open>Rejected and repeated deliveries\<close>

text \<open>C15: A delivery whose signature is not the HMAC of its body under the configured secret, and a delivery
  whose identifier was handled before, change nothing: no deployment, job, log, event or audit row.\<close>

theorem webhook_guard:
  assumes "handleGitHubWebhook w input s = (r, s')"
    and "to_str (jor (jget input ''signature'') (JStr [])) \<noteq>
           ''sha256='' @ hmac_hex (wGitHub w) (to_str (webhook_secret w input)) (webhook_body input) \<or>
         JStr (webhook_id input) \<in> fst ` set (webhookEvents s) \<or> \<not> truthy (webhook_secret w input)"
  shows "s' = s \<and> (is_ok r \<longrightarrow> jget (projr r) ''duplicate'' = JBool True)"
  using assms by (auto simp: handleGitHubWebhook_def Let_def verifyGitHubWebhookSignature_def unauthorized_def
      js_throw_status_def split: if_splits)

theorem webhook_guard_witness:
  "snd (handleGitHubWebhook sample_world (JObj [(''body'', JStr ''x''), (''signature'', JStr ''sha256=bad''),
      (''secret'', JStr ''key'')]) empty_store) = empty_store"
proof -
  let ?i = "JObj [(''body'', JStr ''x''), (''signature'', JStr ''sha256=bad''), (''secret'', JStr ''key'')]"
  have "to_str (jor (jget ?i ''signature'') (JStr [])) \<noteq>
      ''sha256='' @ hmac_hex (wGitHub sample_world) (to_str (webhook_secret sample_world ?i)) (webhook_body ?i)"
    by code_simp
  then show ?thesis by (intro webhook_guard[THEN conjunct1]) (auto intro: prod.collapse[symmetric])
qed

end
