(* ===== verification/StoreQuota.thy ===== *)
theory StoreQuota
  imports Store
begin

text \<open>
  Domains, usage, quotas and the approval of users in \<open>store.ts\<close>: the usage of a user is summed over
  the rows the user's organizations own, and \<open>enforceUserCan\<close> blocks what would exceed the quota.
\<close>

section \<open>Domains, usage records and quotas\<close>

definition attachDomain :: "world \<Rightarrow> jsv \<Rightarrow> jsv op" where
  "attachDomain w input = (let domain = jget input ''domain''; i = JStr (stableId ''dom'' [domain]);
     row = JObj [(''id'', i), (''projectId'', jget input ''projectId''), (''serviceId'', jget input ''serviceId''),
       (''domain'', domain), (''verified'', jdefault (jget input ''verified'') (JBool False)),
       (''tlsStatus'', jdefault (jget input ''tlsStatus'') (JStr ''pending'')), (''createdAt'', nowIso (wNow w))]
   in sthen (smod (domains_update (mput i row))) (sret (deep_clone row)))"

definition recordUsage :: "world \<Rightarrow> jsv \<Rightarrow> jsv op" where
  "recordUsage w rec = (let row = jwith (jspread (JObj [(''id'', JStr (stableId ''use''
       [jget rec ''organizationId'', jget rec ''metric'', jint (wNow w)]))]) rec)
       [(''recordedAt'', jor (jget rec ''recordedAt'') (nowIso (wNow w)))]
   in sthen (smod (usageRecords_update (\<lambda>rows. rows @ [row]))) (sret (deep_clone row)))"

definition default_limits :: "(string \<times> int) list" where
  "default_limits = [(''maxProjects'', 1), (''maxServices'', 2), (''maxDeploymentsPerDay'', 3), (''maxPreviewDeployments'', 1),
     (''maxCpuMillicores'', 500), (''maxMemoryMb'', 512), (''maxDbStorageMb'', 512), (''maxObjectStorageMb'', 1024),
     (''maxBuildMinutesPerMonth'', 60), (''maxRuntimeHoursPerMonth'', 120)]"

definition setQuota :: "world \<Rightarrow> jsv \<Rightarrow> jsv op" where
  "setQuota w input = (let
     userId = jget input ''userId''; limits = jrest input [''userId'', ''accountType'']
   in sbind (slift (normalizeAccountType (jdefault (jget input ''accountType'') (JStr ''NON_CLUB'')) JUndef)) (\<lambda>accountType.
      let i = JStr (stableId ''quota'' [userId, accountType]) in
      sbind (sget (\<lambda>s. jget (mget (quotas s) i) ''createdAt'')) (\<lambda>created.
      let row = jwith (jspread (JObj ([(''id'', i), (''userId'', userId), (''accountType'', accountType)] @
            map (\<lambda>(k, n). (k, jint n)) default_limits)) limits)
            [(''createdAt'', jor created (nowIso (wNow w))), (''updatedAt'', nowIso (wNow w))]
      in sthen (smod (quotas_update (mput i row)))
         (sthen (audit w system ''quota:set'' (JStr ''user'') userId
            (JObj [(''accountType'', accountType), (''limits'', limits)]))
         (sret (deep_clone row))))))"

section \<open>Approval\<close>

definition approveUser :: "world \<Rightarrow> jsv \<Rightarrow> jsv \<Rightarrow> jsv op" where
  "approveUser w userId input = sbind (sfind users ''user'' userId) (\<lambda>user.
     sbind (slift (normalizeAccountType (jget input ''accountType'')
        (jor (jget user ''accountType'') (JStr ''NON_CLUB'')))) (\<lambda>accountType.
     let role = jdefault (jget input ''role'') JNull;
         approved = jset (jset_if (truthy role) ''role'' role (jset (jset user ''approvalStatus'' (JStr ''APPROVED''))
           ''accountType'' accountType)) ''updatedAt'' (nowIso (wNow w))
     in sthen (smod (users_update (mput userId approved)))
        (sthen (if accountType = JStr ''NON_CLUB''
           then setQuota w (JObj [(''userId'', userId), (''accountType'', accountType)]) else sret JNull)
        (sthen (audit w (jdefault (jget input ''actorUserId'') system) ''user:approve'' (JStr ''user'') userId
           (JObj [(''accountType'', accountType)]))
        (sret (redactUser (deep_clone approved)))))))"

definition rejectUser :: "world \<Rightarrow> jsv \<Rightarrow> jsv \<Rightarrow> jsv op" where
  "rejectUser w userId input = sbind (sfind users ''user'' userId) (\<lambda>user.
     let rejected = jset (jset user ''approvalStatus'' (JStr ''REJECTED'')) ''updatedAt'' (nowIso (wNow w))
     in sthen (smod (users_update (mput userId rejected)))
        (sthen (audit w (jdefault (jget input ''actorUserId'') system) ''user:reject'' (JStr ''user'') userId (JObj []))
        (sret (redactUser (deep_clone rejected)))))"

section \<open>The usage of a user\<close>

definition id_texts :: "string \<Rightarrow> jsv list \<Rightarrow> string list" where
  "id_texts k rows = map (\<lambda>row. to_str (jget row k)) rows"

definition refers :: "string \<Rightarrow> string list \<Rightarrow> jsv \<Rightarrow> bool" where
  "refers k ids row = (to_str (jget row k) \<in> set ids)"

definition user_organizations :: "store \<Rightarrow> jsv \<Rightarrow> string list" where
  "user_organizations s userId = id_texts ''organizationId'' (filter (\<lambda>m. same_text (jget m ''userId'') userId) (members s))"

definition user_projects :: "store \<Rightarrow> jsv \<Rightarrow> jsv list" where
  "user_projects s userId = filter (refers ''organizationId'' (user_organizations s userId)) (mvalues (projects s))"

definition user_services :: "store \<Rightarrow> jsv \<Rightarrow> jsv list" where
  "user_services s userId = filter (refers ''projectId'' (id_texts ''id'' (user_projects s userId))) (mvalues (services s))"

definition user_resources :: "store \<Rightarrow> jsv \<Rightarrow> jsv list" where
  "user_resources s userId = filter (refers ''projectId'' (id_texts ''id'' (user_projects s userId))) (mvalues (resources s))"

definition user_deployments :: "store \<Rightarrow> jsv \<Rightarrow> jsv list" where
  "user_deployments s userId = filter (refers ''serviceId'' (id_texts ''id'' (user_services s userId))) (mvalues (deployments s))"

definition todays_deployments :: "world \<Rightarrow> store \<Rightarrow> jsv \<Rightarrow> jsv list" where
  "todays_deployments w s userId = filter (\<lambda>d. isSameUtcDay (jor (jget d ''createdAt'') (jget d ''startedAt'')) (nowIso (wNow w)))
     (user_deployments s userId)"

definition user_usage :: "store \<Rightarrow> jsv \<Rightarrow> jsv list" where
  "user_usage s userId = filter (\<lambda>r. to_str (jor (jget r ''userId'') (JStr [])) = to_str userId \<or>
     refers ''organizationId'' (user_organizations s userId) r \<or>
     refers ''projectId'' (id_texts ''id'' (user_projects s userId)) r \<or>
     refers ''serviceId'' (id_texts ''id'' (user_services s userId)) r \<or>
     refers ''resourceId'' (id_texts ''id'' (user_resources s userId)) r) (usageRecords s)"

definition stored_mb :: "string \<Rightarrow> jsv list \<Rightarrow> jnum" where
  "stored_mb metric rows = num_sum (\<lambda>r. resourceStorageMb r False) (filter (\<lambda>r. resourceQuotaMetric r = metric) rows)"

definition quotaUsageForUser :: "world \<Rightarrow> jsv \<Rightarrow> store \<Rightarrow> (string \<times> jnum) list" where
  "quotaUsageForUser w userId s = (let
     count = (\<lambda>rows. Fin (of_nat (length rows))); svcs = user_services s userId; rs = user_resources s userId;
     today = todays_deployments w s userId; every = user_deployments s userId; usage = user_usage s userId
   in [(''maxProjects'', count (user_projects s userId)), (''maxServices'', count svcs),
     (''maxDeploymentsPerDay'', count today),
     (''maxPreviewDeployments'', count (filter (\<lambda>d. jget d ''deploymentType'' = JStr ''preview'') today)),
     (''maxDbStorageMb'', stored_mb ''maxDbStorageMb'' rs), (''maxObjectStorageMb'', stored_mb ''maxObjectStorageMb'' rs),
     (''maxBuildMinutesPerMonth'', num_add
        (usageMetricSum usage [''build-minutes'', ''build_minutes'', ''buildMinutes'', ''maxBuildMinutesPerMonth''])
        (num_sum deploymentBuildMinutes every)),
     (''maxRuntimeHoursPerMonth'', num_add
        (usageMetricSum usage [''runtime-hours'', ''runtime_hours'', ''runtimeHours'', ''app-runtime-hours'', ''maxRuntimeHoursPerMonth''])
        (num_sum (deploymentRuntimeHours (wNow w)) every)),
     (''maxCpuMillicores'', num_sum serviceCpuMillicores svcs), (''maxMemoryMb'', num_sum serviceMemoryMb svcs)])"

section \<open>Enforcement\<close>

text \<open>\<open>usage[metric] || 0\<close>; a name that \<open>Object.prototype\<close> has reads a function, which counts as NaN.\<close>

definition usage_of :: "(string \<times> jnum) list \<Rightarrow> string \<Rightarrow> jnum" where
  "usage_of usage metric = to_num (jor (table_get (map (\<lambda>(k, n). (k, JNum n)) usage) metric) (jint 0))"

definition block :: "world \<Rightarrow> jsv \<Rightarrow> jsv \<Rightarrow> jsv \<Rightarrow> jsv \<Rightarrow> string \<Rightarrow> bool op" where
  "block w userId action target metadata m = sthen (audit w userId ''quota:block''
     (jor action (JStr ''action'')) target metadata) (slift (forbidden m))"

definition check_metric :: "world \<Rightarrow> jsv \<Rightarrow> jsv \<Rightarrow> jsv \<Rightarrow> jsv \<Rightarrow> jsv \<Rightarrow> bool op" where
  "check_metric w userId action metric increment quota = (let
     limit_value = table_get (entries quota) (to_str metric); extra = to_num (jor increment (jint 0))
   in if \<not> truthy metric \<or> limit_value = JUndef then sret True
      else sbind (sget (\<lambda>s. usage_of (quotaUsageForUser w userId s) (to_str metric))) (\<lambda>current.
        let wanted = num_add current extra in
        if num_less (to_num limit_value) wanted
        then block w userId action metric (JObj [(''current'', JNum current), (''increment'', JNum extra),
            (''limit'', limit_value)])
          (''quota exceeded: '' @ to_str metric @ '' ('' @ num_str wanted @ ''/'' @ to_str limit_value @ '')'')
        else sret True))"

definition enforceUserCan :: "world \<Rightarrow> jsv \<Rightarrow> bool op" where
  "enforceUserCan w input = (let
     userId = jget input ''userId''; action = jget input ''action''; metric = jdefault (jget input ''metric'') JNull;
     increment = jdefault (jget input ''increment'') (jint 1)
   in sbind (sget (\<lambda>s. mget (users s) userId)) (\<lambda>user.
      let status = jor (jget user ''approvalStatus'') (JStr ''PENDING'') in
      if \<not> truthy user then sret True
      else if jget user ''role'' = JStr ''ADMIN'' \<or> jget user ''accountType'' = JStr ''CLUB_MEMBER'' then sret True
      else if jget user ''approvalStatus'' \<noteq> JStr ''APPROVED''
      then block w userId action (jor metric (jor action (JStr ''unknown''))) (JObj [(''reason'', status)])
        (''user '' @ to_str userId @ '' is '' @ to_str status @ '' and cannot '' @ to_str action)
      else sbind (sget (\<lambda>s. find_row (\<lambda>row. strict_eq (jget row ''userId'') userId) (quotas s))) (\<lambda>stored.
        sbind (if truthy stored then sret stored
           else setQuota w (JObj [(''userId'', userId),
             (''accountType'', jor (jget user ''accountType'') (JStr ''NON_CLUB''))])) (\<lambda>quota.
        check_metric w userId action metric increment quota))))"

section \<open>The audit trail\<close>

lemma audited_quota:
  "keeps audited (attachDomain w x)" "keeps audited (recordUsage w x)" "keeps audited (setQuota w x)"
  "keeps audited (rejectUser w u x)" "keeps audited (check_metric w u a m i q)"
  unfolding attachDomain_def recordUsage_def setQuota_def rejectUser_def check_metric_def block_def
  by (intro audited_intros; simp)+

lemma audited_approval: "keeps audited (approveUser w u x)" "keeps audited (enforceUserCan w x)"
  unfolding approveUser_def enforceUserCan_def block_def
  by (intro audited_intros audited_quota; simp)+

end
