(* ===== verification/StoreHistory.thy ===== *)
theory StoreHistory
  imports StoreConsole StoreWebhook StoreQuota
begin

text \<open>
  The store as a state machine: one rule for every operation that changes it, whatever its arguments
  and its surroundings, and whether it returns or throws; the snapshot \<open>GET /state\<close> hands out; and the
  invariants of every store the operations can reach.
\<close>

section \<open>The snapshot\<close>

definition snapshot :: "jsv op" where
  "snapshot = (\<lambda>s. (rbind (maskEnvEntries (mvalues (environmentVariables s))) (\<lambda>variables. Inr (deep_clone (JObj [
     (''organizations'', JArr (mvalues (organizations s))), (''users'', JArr (map redactUser (mvalues (users s)))),
     (''members'', JArr (members s)), (''projects'', JArr (mvalues (projects s))), (''services'', JArr (mvalues (services s))),
     (''deployments'', JArr (mvalues (deployments s))), (''resources'', JArr (mvalues (resources s))),
     (''domains'', JArr (mvalues (domains s))), (''usageRecords'', JArr (usageRecords s)), (''auditLogs'', JArr (auditLogs s)),
     (''workflowJobs'', JArr (workflowJobs s)), (''secrets'', JArr (map publicSecret (mvalues (secrets s)))),
     (''environmentVariables'', JArr variables), (''githubIntegrations'', JArr (mvalues (githubIntegrations s))),
     (''webhookEvents'', JArr (mvalues (webhookEvents s))), (''buildLogs'', JArr (buildLogs s)),
     (''runtimeLogs'', JArr (runtimeLogs s)), (''deploymentEvents'', JArr (deploymentEvents s)),
     (''quotas'', JArr (mvalues (quotas s))), (''resourceAttachments'', JArr (resourceAttachments s))]))), s))"

section \<open>Steps and reachable stores\<close>

definition outcome :: "'a op \<Rightarrow> store \<Rightarrow> store" where
  "outcome m s = snd (m s)"

inductive store_step :: "store \<Rightarrow> store \<Rightarrow> bool" where
  "store_step s (outcome (createOrganization w x) s)"
| "store_step s (outcome (createUser w x) s)"
| "store_step s (outcome (linkGitHubUser w i x) s)"
| "store_step s (outcome (addMember w x) s)"
| "store_step s (outcome (createProject w x) s)"
| "store_step s (outcome (updateProject w i x) s)"
| "store_step s (outcome (deleteProject w i) s)"
| "store_step s (outcome (createService w x) s)"
| "store_step s (outcome (updateService w i x) s)"
| "store_step s (outcome (deleteService w i) s)"
| "store_step s (outcome (createResource w x) s)"
| "store_step s (outcome (updateResource w i x) s)"
| "store_step s (outcome (deleteResource w i) s)"
| "store_step s (outcome (attachResource w x) s)"
| "store_step s (outcome (createDeployment w x) s)"
| "store_step s (outcome (updateDeployment w i x y) s)"
| "store_step s (outcome (transitionDeployment w i x y z) s)"
| "store_step s (outcome (cancelDeployment w i x) s)"
| "store_step s (outcome (rollbackDeployment w i x) s)"
| "store_step s (outcome (appendBuildLog w x) s)"
| "store_step s (outcome (appendRuntimeLog w x) s)"
| "store_step s (outcome (appendDeploymentEvent w x) s)"
| "store_step s (outcome (enqueueWorkflowJob w x) s)"
| "store_step s (outcome (claimNextWorkflowJob w x) s)"
| "store_step s (outcome (completeWorkflowJob w i x y) s)"
| "store_step s (outcome (failWorkflowJob w i x y) s)"
| "store_step s (outcome (createSecret w x) s)"
| "store_step s (outcome (storeProvisionResourceProvider w x) s)"
| "store_step s (outcome (attachProviderConnectionSecret w x) s)"
| "store_step s (outcome (attachProviderConnectionSecrets w x) s)"
| "store_step s (outcome (upsertServiceEnvironment w x) s)"
| "store_step s (outcome (importServiceEnvFile w x) s)"
| "store_step s (outcome (createGitHubIntegration w x) s)"
| "store_step s (outcome (attachGitHubRepositoryToService w x) s)"
| "store_step s (outcome (importGitHubRepository w x) s)"
| "store_step s (outcome (syncGitHubRepository w x) s)"
| "store_step s (outcome (handleGitHubWebhook w x) s)"
| "store_step s (outcome (attachDomain w x) s)"
| "store_step s (outcome (recordUsage w x) s)"
| "store_step s (outcome (setQuota w x) s)"
| "store_step s (outcome (approveUser w i x) s)"
| "store_step s (outcome (rejectUser w i x) s)"
| "store_step s (outcome (enforceUserCan w x) s)"
| "store_step s (outcome (runResourceConsoleQuery d w i x y) s)"
| "store_step s (outcome (runResourceConsoleCommand d w i x y) s)"

inductive evolves :: "store \<Rightarrow> store \<Rightarrow> bool" for s where
  refl: "evolves s s"
| step: "evolves s t \<Longrightarrow> store_step t u \<Longrightarrow> evolves s u"

abbreviation reachable :: "store \<Rightarrow> bool" where
  "reachable s \<equiv> evolves empty_store s"

lemma evolves_trans: "evolves t u \<Longrightarrow> evolves s t \<Longrightarrow> evolves s u"
  by (induction rule: evolves.induct) (auto intro: evolves.intros)

section \<open>The audit trail\<close>

lemma step_audited: "store_step s s' \<Longrightarrow> audited s s'"
  by (induction rule: store_step.induct)
    (simp_all only: outcome_def keeps_def[THEN iffD1, rule_format] audited_base audited_link audited_logs audited_jobs
      audited_deployment_updates audited_deployments audited_cancel audited_secret audited_connections audited_connection
      audited_environment audited_import audited_resources audited_attach audited_deletes audited_delete_project
      audited_provision audited_github audited_webhook audited_quota audited_approval
      audited_console)

lemma evolves_audited: "evolves s s' \<Longrightarrow> audited s s'"
  by (induction rule: evolves.induct) (auto intro: audit_trail.refl audit_trail.trans step_audited)

text \<open>C2: The audit trail is append-only over every history of operations, failed ones included: no later
  operation removes or changes a row. In every reachable store the metadata of each audit row is masked:
  below a key that names a secret no scalar but a mask is kept, at any depth.\<close>

theorem audit_append_only:
  assumes "reachable s" "evolves s s'"
  shows "prefix (auditLogs s) (auditLogs s') \<and> list_all masked_row (auditLogs s')"
proof -
  obtain old where "auditLogs s = auditLogs empty_store @ old" "list_all masked_row old"
    using evolves_audited[OF assms(1)] by (auto simp: audited_def)
  moreover obtain new where "auditLogs s' = auditLogs s @ new" "list_all masked_row new"
    using evolves_audited[OF assms(2)] by (auto simp: audited_def)
  ultimately show ?thesis by (simp add: empty_store_def)
qed

lemma reachable_first: "store_step empty_store s \<Longrightarrow> reachable s"
  by (rule evolves.step[OF evolves.refl])

theorem audit_append_only_witness:
  "prefix (auditLogs (outcome (createOrganization sample_world (JObj [(''name'', JStr ''Acme'')])) empty_store))
     (auditLogs (outcome (deleteProject sample_world (JStr ''p''))
        (outcome (createOrganization sample_world (JObj [(''name'', JStr ''Acme'')])) empty_store)))"
  by (rule audit_append_only[THEN conjunct1])
    (rule reachable_first store_step.intros evolves.step[OF evolves.refl])+

end
