(* ===== verification/StoreInvariants.thy ===== *)
theory StoreInvariants
  imports StoreHistory
begin

text \<open>
  Invariants of the reachable stores: the identifiers of rows are the keys they are stored under, and
  no plain text of a secret is kept.
\<close>

section \<open>Preserving a predicate on stores\<close>

definition kept :: "(store \<Rightarrow> bool) \<Rightarrow> store \<Rightarrow> store \<Rightarrow> bool" where
  "kept I s s' = (I s \<longrightarrow> I s')"

locale store_invariant =
  fixes I :: "store \<Rightarrow> bool"
  assumes initial: "I empty_store"
begin

sublocale store_relation "kept I"
  by unfold_locales (auto simp: kept_def)

lemma kept_smod: "(\<And>s. I s \<Longrightarrow> I (g s)) \<Longrightarrow> keeps (kept I) (smod g)"
  by (rule keeps_smod) (simp add: kept_def)

lemma kept_audit:
  assumes "\<And>s l. I s \<Longrightarrow> I (s\<lparr>auditLogs := l\<rparr>)"
  shows "keeps (kept I) (audit w a act tt ti meta)"
  unfolding audit_def by (rule kept_smod) (rule assms)

text \<open>What is read satisfies what the invariant says of it.\<close>

lemma kept_read: "(\<And>s. I s \<Longrightarrow> keeps (kept I) (k (f s))) \<Longrightarrow> keeps (kept I) (sbind (sget f) k)"
  by (simp add: keeps_def kept_def)

lemma kept_find:
  "(\<And>s. I s \<Longrightarrow> truthy (mget (rows s) i) \<Longrightarrow> keeps (kept I) (k (mget (rows s) i))) \<Longrightarrow>
   keeps (kept I) (sbind (sfind rows kind i) k)"
  by (simp add: keeps_def kept_def sbind_run sfind_run notFound_def js_throw_status_def refl)

lemma kept_post:
  assumes "\<And>s r s'. I s \<Longrightarrow> m s = (Inr r, s') \<Longrightarrow> Q r" "keeps (kept I) m" "\<And>r. Q r \<Longrightarrow> keeps (kept I) (k r)"
  shows "keeps (kept I) (sbind m k)"
  unfolding keeps_def kept_def sbind_run
proof (intro allI impI)
  fix s
  assume s: "I s"
  obtain res s1 where m: "m s = (res, s1)" by (cases "m s")
  have s1: "I s1" using assms(2) s m unfolding keeps_def kept_def by (metis snd_conv)
  show "I (snd (case m s of (Inl e, s') \<Rightarrow> (Inl e, s') | (Inr x, s') \<Rightarrow> k x s'))"
  proof (cases res)
    case (Inl e)
    with m s1 show ?thesis by simp
  next
    case (Inr r)
    with m s1 assms(3)[OF assms(1)[OF s]] show ?thesis by (simp add: keeps_def kept_def)
  qed
qed

lemma kept_evolves:
  assumes "\<And>s s'. store_step s s' \<Longrightarrow> kept I s s'" "evolves s s'" "I s"
  shows "I s'"
  using assms(2,1,3) by (induction rule: evolves.induct) (auto simp: kept_def)

end

section \<open>Keys and identifiers\<close>

definition keyed_row :: "jsv \<times> jsv \<Rightarrow> bool" where
  "keyed_row p = (record_object (snd p) \<and> jget (snd p) ''id'' = fst p \<and> is_jstr (fst p))"

definition keyed :: "jmap \<Rightarrow> bool" where
  "keyed m = (list_all keyed_row m \<and> distinct (map fst m))"

definition ids_ok :: "store \<Rightarrow> bool" where
  "ids_ok s = (keyed (organizations s) \<and> keyed (users s) \<and> keyed (services s) \<and> keyed (resources s) \<and> keyed (secrets s))"

lemma keyed_mput: "keyed m \<Longrightarrow> keyed_row (k, row) \<Longrightarrow> keyed (mput k row m)"
  using set_mput[of k row m] by (auto simp: keyed_def list_all_iff distinct_mput)

lemma keyed_filter: "keyed m \<Longrightarrow> keyed (filter P m)"
  by (auto simp: keyed_def list_all_iff distinct_map_filter)

lemma keyed_mdrop: "keyed m \<Longrightarrow> keyed (mdrop k m)"
  unfolding mdrop_def by (rule keyed_filter)

lemma keyed_mget: "keyed m \<Longrightarrow> truthy (mget m k) \<Longrightarrow> keyed_row (k, mget m k)"
  using mget_mem[of m k] by (fastforce simp: keyed_def list_all_iff)

lemma keyed_value: "keyed m \<Longrightarrow> v \<in> set (mvalues m) \<Longrightarrow> keyed_row (jget v ''id'', v)"
  by (auto simp: keyed_def list_all_iff mvalues_def keyed_row_def)

lemma id_set_given: "jget (set_given k v r) ''id'' = (if k = ''id'' \<and> given_text v then JStr (to_str v) else jget r ''id'')"
  by (simp add: set_given_def)

lemma record_set_given: "record_object r \<Longrightarrow> record_object (set_given k v r)"
  by (simp add: set_given_def record_object_jset)

lemmas row_rules = record_object_jset record_object_jwith record_object_jspread record_object_jset_if record_set_given

interpretation ids: store_invariant ids_ok
  by unfold_locales (simp add: ids_ok_def empty_store_def keyed_def)

lemma ids_frame:
  "\<lbrakk>\<And>s. organizations (g s) = organizations s; \<And>s. users (g s) = users s; \<And>s. services (g s) = services s;
    \<And>s. resources (g s) = resources s; \<And>s. secrets (g s) = secrets s\<rbrakk> \<Longrightarrow> keeps (kept ids_ok) (smod g)"
  by (rule ids.kept_smod) (simp add: ids_ok_def)

lemma ids_audit: "keeps (kept ids_ok) (audit w a act tt ti meta)"
  by (rule ids.kept_audit) (simp add: ids_ok_def)

lemma ids_puts:
  "keyed_row (k, r) \<Longrightarrow> keeps (kept ids_ok) (smod (organizations_update (mput k r)))"
  "keyed_row (k, r) \<Longrightarrow> keeps (kept ids_ok) (smod (users_update (mput k r)))"
  "keyed_row (k, r) \<Longrightarrow> keeps (kept ids_ok) (smod (services_update (mput k r)))"
  "keyed_row (k, r) \<Longrightarrow> keeps (kept ids_ok) (smod (resources_update (mput k r)))"
  "keyed_row (k, r) \<Longrightarrow> keeps (kept ids_ok) (smod (secrets_update (mput k r)))"
  by (auto intro!: ids.kept_smod simp: ids_ok_def keyed_mput)

lemma ids_drops:
  "keeps (kept ids_ok) (smod (services_update (mdrop k)))" "keeps (kept ids_ok) (smod (resources_update (mdrop k)))"
  "keeps (kept ids_ok) (smod (secrets_update (mdrop k)))" "keeps (kept ids_ok) (smod (secrets_update (filter P)))"
  by (auto intro!: ids.kept_smod simp: ids_ok_def keyed_mdrop keyed_filter)

lemmas ids_intros = ids.keeps_pure ids.keeps_sthen ids.keeps_swhen ids.keeps_sfor ids.keeps_if ids.keeps_let
  ids.keeps_option ids.keeps_pair ids.keeps_sbind ids_audit ids_puts ids_drops ids_frame

lemma id_literal: "distinct (map fst (kv # kvs)) \<Longrightarrow> kv = (''id'', JStr i) \<Longrightarrow> keyed_row (JStr i, JObj (kv # kvs))"
  by (simp add: keyed_row_def record_object_JObj is_jstr_def)

lemma ids_base:
  "keeps (kept ids_ok) (createOrganization w x)" "keeps (kept ids_ok) (createUser w x)"
  "keeps (kept ids_ok) (addMember w x)" "keeps (kept ids_ok) (createProject w x)" "keeps (kept ids_ok) (updateProject w i x)"
  "keeps (kept ids_ok) (findUserByGitHubId x)"
  unfolding createOrganization_def createUser_def addMember_def createProject_def updateProject_def findUserByGitHubId_def
  by (intro ids_intros; simp add: id_literal)+

lemma ids_user_row: "ids_ok s \<Longrightarrow> truthy (mget (users s) k) \<Longrightarrow> keyed_row (k, mget (users s) k)"
  and ids_service_row: "ids_ok s \<Longrightarrow> truthy (mget (services s) k) \<Longrightarrow> keyed_row (k, mget (services s) k)"
  and ids_resource_row: "ids_ok s \<Longrightarrow> truthy (mget (resources s) k) \<Longrightarrow> keyed_row (k, mget (resources s) k)"
  by (simp_all add: ids_ok_def keyed_mget)

text \<open>Updates of other fields leave the identifier of a row alone.\<close>

lemma keyed_jset: "keyed_row (k, r) \<Longrightarrow> j \<noteq> ''id'' \<Longrightarrow> keyed_row (k, jset r j v)"
  by (simp add: keyed_row_def record_object_jset)

lemma keyed_jset_if: "keyed_row (k, r) \<Longrightarrow> j \<noteq> ''id'' \<Longrightarrow> keyed_row (k, jset_if b j v r)"
  by (simp add: jset_if_def keyed_jset)

lemma keyed_set_given: "keyed_row (k, r) \<Longrightarrow> j \<noteq> ''id'' \<Longrightarrow> keyed_row (k, set_given j v r)"
  by (simp add: set_given_def keyed_jset)

lemma keyed_jspread: "keyed_row (k, r) \<Longrightarrow> \<not> has_own b ''id'' \<Longrightarrow> keyed_row (k, jspread r b)"
  by (simp add: keyed_row_def record_object_jspread jget_jspread_other)

lemma keyed_jwith: "keyed_row (k, r) \<Longrightarrow> ''id'' \<notin> fst ` set kvs \<Longrightarrow> keyed_row (k, jwith r kvs)"
  unfolding jwith_def by (rule keyed_jspread) simp_all

lemmas keyed_updates = keyed_jset keyed_jset_if keyed_set_given keyed_jspread keyed_jwith

lemma ids_link: "keeps (kept ids_ok) (linkGitHubUser w i x)"
  unfolding linkGitHubUser_def
  apply (intro ids.keeps_let ids.kept_find)
  apply (drule (1) ids_user_row)
  apply (intro ids_intros ids_base; simp add: keyed_updates)
  done

lemma ids_create_service: "keeps (kept ids_ok) (createService w x)"
  unfolding createService_def
  by (intro ids_intros)
    (simp_all add: keyed_row_def jget_jspread_other record_object_JObj is_jstr_def record_object_jspread)

lemma no_id_updates: "\<not> has_own (service_updates x) ''id''"
  by (simp add: service_updates_def jset_if_def Let_def)

lemma ids_update_service: "keeps (kept ids_ok) (updateService w i x)"
  unfolding updateService_def
  apply (rule ids.kept_read)
  apply (intro ids_intros)
  apply (frule ids_service_row, simp)
  apply (simp add: keyed_updates no_id_updates)
  done

lemma find_row_id: "keyed m \<Longrightarrow> is_jstr (jor (jget (find_row P m) ''id'') (JStr t))"
proof (cases "find P (mvalues m)")
  case None
  then show ?thesis by (simp add: find_row_def jor_def is_jstr_def)
next
  case (Some v)
  assume "keyed m"
  moreover from Some have "v \<in> set (mvalues m)" by (metis find_Some_iff nth_mem)
  ultimately have "keyed_row (jget v ''id'', v)" by (rule keyed_value)
  with Some show ?thesis by (simp add: find_row_def jor_def keyed_row_def is_jstr_def)
qed

lemma keyed_secret: "is_jstr i \<Longrightarrow> keyed_row (i, secret_row w i a b c d e f g)"
  by (simp add: keyed_row_def secret_row_def record_object_JObj)

lemma ids_secret: "keeps (kept ids_ok) (createSecret w x)"
  unfolding createSecret_def
  apply (intro ids.keeps_let ids.kept_read)
  apply (intro ids_intros)
  apply (simp add: keyed_secret find_row_id ids_ok_def)
  done

lemma ids_attach_each: "keeps (kept ids_ok) (attach_each w mk f0 es)"
  by (induction es arbitrary: f0) (auto intro!: ids_intros ids_secret)

lemma ids_connections: "keeps (kept ids_ok) (attachProviderConnectionSecrets w x)"
  unfolding attachProviderConnectionSecrets_def
  apply (intro ids.keeps_let ids.kept_find)
  apply (drule (1) ids_resource_row)
  apply (intro ids_intros ids_attach_each)
  apply (simp add: keyed_updates)
  done

lemma keyed_clone: "keyed_row (k, r) \<Longrightarrow> keyed_row (k, deep_clone r)"
  by (auto simp: keyed_row_def record_object_clone jget_clone is_jstr_def split: jsv.splits)

lemma connections_result:
  assumes "ids_ok s" "attachProviderConnectionSecrets w x s = (Inr r, s')"
  shows "keyed_row (jget x ''resourceId'', r)"
proof -
  obtain resource first where "truthy (mget (resources s) (jget x ''resourceId''))"
    "resource = mget (resources s) (jget x ''resourceId'')"
    "r = deep_clone (jwith resource [(''connectionSecretName'', first), (''updatedAt'', nowIso (wNow w))])"
    using assms(2) by (auto simp: attachProviderConnectionSecrets_def Let_def sbind_Inr sfind_Inr audit_run split: if_splits)
  with ids_resource_row[OF assms(1)] show ?thesis by (simp add: keyed_clone keyed_updates)
qed

lemma ids_connection: "keeps (kept ids_ok) (attachProviderConnectionSecret w x)"
  unfolding attachProviderConnectionSecret_def by (intro ids_intros ids_connections)

lemma ids_upsert_each: "keeps (kept ids_ok) (upsert_each w p s a src env es)"
  by (induction es arbitrary: env) (auto intro!: ids_intros ids_secret simp: Let_def)

lemma ids_environment:
  "keeps (kept ids_ok) (upsertServiceEnvironment w x)" "keeps (kept ids_ok) (listServiceEnvironment x)"
  unfolding upsertServiceEnvironment_def listServiceEnvironment_def service_of_project_def
  by (intro ids_intros ids_upsert_each ids_update_service; simp)+

lemma ids_import: "keeps (kept ids_ok) (importServiceEnvFile w x)"
  unfolding importServiceEnvFile_def by (intro ids_intros ids_environment)

lemma ids_reads: "keeps (kept ids_ok) (resource_env w r)" "keeps (kept ids_ok) (resourceForConsole w r)" "keeps (kept ids_ok) (attach_env w r p)"
proof -
  show "keeps (kept ids_ok) (resource_env w r)" by (simp add: resource_env_def keeps_def kept_def)
  show c: "keeps (kept ids_ok) (resourceForConsole w r)"
    unfolding resourceForConsole_def by (intro ids_intros)
  show "keeps (kept ids_ok) (attach_env w r p)"
    unfolding attach_env_def by (intro ids_intros c) (simp add: keeps_def kept_def)
qed

lemma no_id_resource: "\<not> has_own (sanitizeTenantResourceInput x) ''id''"
  by (auto simp: has_own_def sanitizeTenantResourceInput_def SAFE_RESOURCE_KEYS_def image_iff)

lemma keyed_let: "(\<And>x. x = v \<Longrightarrow> keyed_row (k, f x)) \<Longrightarrow> keyed_row (k, Let v f)"
  by simp

lemma keyed_let_ex: "(\<And>x. x = v \<Longrightarrow> \<exists>i. keyed_row (i, f x)) \<Longrightarrow> \<exists>i. keyed_row (i, Let v f)"
  by simp

lemma keyed_literal: "distinct (map fst ((''id'', i) # kvs)) \<Longrightarrow> is_jstr i \<Longrightarrow> keyed_row (i, JObj ((''id'', i) # kvs))"
  by (simp add: keyed_row_def record_object_JObj)

lemma keyed_resource: "keyed_row (jget (resource_record w x) ''id'', resource_record w x)"
proof -
  have "\<exists>i. keyed_row (i, resource_record w x)"
    unfolding resource_record_def
    apply (intro keyed_let_ex)
    apply (rule exI, rule keyed_jwith, rule keyed_jspread, rule keyed_literal)
       apply (simp (no_asm))
      apply (simp only: is_jstr_def jsv.case)
     apply (simp only: no_id_resource not_False_eq_True)
    apply (simp (no_asm))
    done
  then show ?thesis by (auto simp: keyed_row_def)
qed

lemma ids_contract: "keeps (kept ids_ok) (attach_contract w i r)"
  unfolding attach_contract_def by (intro ids_intros ids_connections ids_reads)

lemma ids_create_resource: "keeps (kept ids_ok) (createResource w x)"
  unfolding createResource_def by (intro ids_intros ids_contract) (simp add: keyed_resource)

lemma ids_update_resource: "keeps (kept ids_ok) (updateResource w i x)"
  unfolding updateResource_def
  apply (rule ids.kept_read)
  apply (intro ids_intros ids_contract)
  apply (frule ids_resource_row, simp)
  apply (simp only: resource_update_def)
  apply (intro keyed_let)
  apply (rule keyed_jwith, rule keyed_jspread, assumption)
   apply (simp only: no_id_resource not_False_eq_True)
  apply (simp (no_asm))
  done

lemma ids_attach: "keeps (kept ids_ok) (attachResource w x)"
  unfolding attachResource_def put_attachment_def by (intro ids_intros ids_environment ids_reads; simp)

lemma ids_remove: "keeps (kept ids_ok) (remove_keys s r env ks)"
  by (induction ks arbitrary: env) (auto intro!: ids_intros simp: Let_def)

lemma ids_remove_environment: "keeps (kept ids_ok) (removeResourceInjectedEnvironment w a)"
  unfolding removeResourceInjectedEnvironment_def
  apply (intro ids.keeps_let ids.kept_read)
  apply (intro ids_intros ids_remove)
  apply (frule ids_service_row, simp)
  apply (simp add: keyed_row_def jwith_Cons row_rules)
  done

lemma ids_deletes: "keeps (kept ids_ok) (deleteResource w x)" "keeps (kept ids_ok) (deleteService w x)"
  unfolding deleteResource_def deleteService_def by (intro ids_intros ids_remove_environment; simp)+

lemma ids_delete_project: "keeps (kept ids_ok) (deleteProject w x)"
  unfolding deleteProject_def by (intro ids_intros ids_deletes; simp)

lemma ids_provision: "keeps (kept ids_ok) (storeProvisionResourceProvider w x)"
  unfolding storeProvisionResourceProvider_def
  apply (intro ids.keeps_let)
  apply (rule ids.keeps_sbind, rule ids.keeps_pure)
  apply (rule ids.keeps_sbind, simp add: keeps_def kept_def)
  apply (rule ids.keeps_sbind, intro ids_intros ids_reads)
  apply (intro ids.keeps_let)
  apply (rule ids.kept_post[OF connections_result ids_connections], assumption+)
  apply (intro ids_intros; simp add: keyed_updates)
  done

lemma ids_logs:
  "keeps (kept ids_ok) (appendBuildLog w x)" "keeps (kept ids_ok) (appendRuntimeLog w x)"
  "keeps (kept ids_ok) (appendDeploymentEvent w x)"
  unfolding appendBuildLog_def appendRuntimeLog_def appendDeploymentEvent_def by (intro ids_intros; simp)+

lemma ids_jobs:
  "keeps (kept ids_ok) (enqueueWorkflowJob w x)" "keeps (kept ids_ok) (claimNextWorkflowJob w x)"
  "keeps (kept ids_ok) (completeWorkflowJob w x y z)" "keeps (kept ids_ok) (failWorkflowJob w x y z)"
  unfolding enqueueWorkflowJob_def claimNextWorkflowJob_def completeWorkflowJob_def failWorkflowJob_def
    replaceStoredJob_def find_job_def
  by (intro ids_intros; simp)+

lemma ids_deployment_updates:
  "keeps (kept ids_ok) (createDeployment w x)" "keeps (kept ids_ok) (updateDeployment w x y z)"
  unfolding createDeployment_def updateDeployment_def by (intro ids_intros ids_logs; simp)+

lemma ids_deployments:
  "keeps (kept ids_ok) (transitionDeployment w x y z u)" "keeps (kept ids_ok) (rollbackDeployment w x y)"
  unfolding transitionDeployment_def rollbackDeployment_def
  by (intro ids_intros ids_logs ids_jobs ids_deployment_updates; simp)+

lemma ids_cancel: "keeps (kept ids_ok) (cancelDeployment w x y)"
  unfolding cancelDeployment_def by (intro ids_intros ids_jobs ids_deployments; simp)

lemma ids_lookup:
  "keeps (kept ids_ok) (githubRepositoriesForIntegration x)" "keeps (kept ids_ok) (servicesForGitHubRepository x y)"
  "keeps (kept ids_ok) (find_integration x y)" "keeps (kept ids_ok) (service_of_project x y)"
  unfolding githubRepositoriesForIntegration_def servicesForGitHubRepository_def find_integration_def service_of_project_def
  by (intro ids_intros)+

lemma ids_github:
  "keeps (kept ids_ok) (createGitHubIntegration w x)" "keeps (kept ids_ok) (attachGitHubRepositoryToService w x)"
  "keeps (kept ids_ok) (importGitHubRepository w x)" "keeps (kept ids_ok) (syncGitHubRepository w x)"
  unfolding createGitHubIntegration_def attachGitHubRepositoryToService_def
    importGitHubRepository_def syncGitHubRepository_def
  by (intro ids_intros ids_lookup ids_create_service ids_update_service ids_secret ids_jobs; simp)+

lemma ids_cleanup: "keeps (kept ids_ok) (request_cleanup w p s i d)"
  unfolding request_cleanup_def by (intro ids_intros ids_logs; simp)

lemma ids_actions: "keeps (kept ids_ok) (webhook_actions w p s)"
  unfolding webhook_actions_def one_action_def production_deploy_def preview_deploy_def preview_cleanup_def owner_of_def
  by (intro ids_intros ids_cleanup ids_logs ids_jobs ids_deployment_updates; simp)

lemma ids_webhook: "keeps (kept ids_ok) (handleGitHubWebhook w x)"
  unfolding handleGitHubWebhook_def accept_webhook_def by (intro ids_intros ids_actions ids_lookup; simp)

lemma ids_quota:
  "keeps (kept ids_ok) (attachDomain w x)" "keeps (kept ids_ok) (recordUsage w x)" "keeps (kept ids_ok) (setQuota w x)"
  "keeps (kept ids_ok) (check_metric w u a m i q)"
  unfolding attachDomain_def recordUsage_def setQuota_def check_metric_def block_def by (intro ids_intros; simp)+

lemma ids_approval:
  "keeps (kept ids_ok) (approveUser w i x)" "keeps (kept ids_ok) (rejectUser w i x)" "keeps (kept ids_ok) (enforceUserCan w x)"
  unfolding approveUser_def rejectUser_def enforceUserCan_def block_def
    apply (intro ids.keeps_let ids.kept_find, drule (1) ids_user_row, intro ids_intros ids_quota; simp add: keyed_updates)
   apply (intro ids.keeps_let ids.kept_find, drule (1) ids_user_row, intro ids_intros ids_quota; simp add: keyed_updates)
  apply (intro ids_intros ids_quota)
  done

lemma ids_console:
  "keeps (kept ids_ok) (runResourceConsoleQuery d w i q x)" "keeps (kept ids_ok) (runResourceConsoleCommand d w i q x)"
  unfolding runResourceConsoleQuery_def runResourceConsoleCommand_def console_run_def
  by (intro ids_intros ids_reads)+

lemmas ids_all = ids_base ids_link ids_create_service ids_update_service ids_secret ids_connections ids_connection
  ids_environment ids_import ids_create_resource ids_update_resource ids_attach ids_deletes ids_delete_project ids_provision
  ids_logs ids_jobs ids_deployment_updates ids_deployments ids_cancel ids_github ids_webhook ids_quota ids_approval ids_console

lemma ids_step: "store_step s s' \<Longrightarrow> kept ids_ok s s'"
  by (induction rule: store_step.induct) (simp_all only: outcome_def keeps_def[THEN iffD1, rule_format] ids_all)

text \<open>C12: In every store the operations can reach, each row of the maps of organizations, users, services,
  resources and secrets is an object with distinct fields whose \<open>id\<close> is the text it is stored under, and
  no key occurs twice.\<close>

theorem reachable_ids: "reachable s \<Longrightarrow> ids_ok s"
  by (rule ids.kept_evolves[OF ids_step]) (auto simp: ids.initial)

theorem reachable_ids_witness:
  "ids_ok (outcome (createService sample_world (JObj [(''projectId'', JStr ''p''), (''name'', JStr ''web'')])) empty_store)"
  by (rule reachable_ids, rule reachable_first, rule store_step.intros)

end
