(* ===== verification/StoreRefinement.thy ===== *)
theory StoreRefinement
  imports StoreHistory
begin

text \<open>
  The statuses of stored deployments refine the state machine of \<open>deployments.ts\<close>: what the store
  holds is abstracted to a status for each deployment, and a transition of the store is a step of the
  machine or changes nothing.
\<close>

section \<open>The abstraction\<close>

definition status_of :: "store \<Rightarrow> jsv \<Rightarrow> jsv option" where
  "status_of s i = (let d = mget (deployments s) i in
     if truthy d then Some (normalizeDeploymentStatus (jget d ''status'')) else None)"

lemma status_of_frame: "deployments s' = deployments s \<Longrightarrow> status_of s' = status_of s"
  by (rule ext) (simp add: status_of_def)

lemma status_of_mput:
  "truthy d \<Longrightarrow> status_of (deployments_update (mput i d) s) =
     (status_of s)(i \<mapsto> normalizeDeploymentStatus (jget d ''status''))"
  by (rule ext) (simp add: status_of_def Let_def)

section \<open>What an update does to the status\<close>

lemma record_object_mask: "record_object v \<Longrightarrow> record_object (maskSecrets v)"
  by (auto simp: record_object_def maskSecrets_def keys_mask_fields)

lemma record_object_map: "record_object (JObj kvs) \<Longrightarrow> record_object (JObj (map (\<lambda>(k, v). (k, f v)) kvs))"
  by (simp add: record_object_def comp_def split_beta)

lemma jget_map:
  "jget (JObj (map (\<lambda>(k, v). (k, f v)) kvs)) k = (if k \<in> fst ` set kvs then f (jget (JObj kvs) k) else JUndef)"
  by (induction kvs) force+

lemmas stamp_defs = stamp_unless_def ready_stamps_def status_stamps_def Let_def

lemma record_object_stamps: "record_object n \<Longrightarrow> record_object (status_stamps u c t n)"
  by (simp add: stamp_defs record_object_jset_if record_object_jset)

lemma status_stamps_status:
  "jget (status_stamps u c t n) ''status'' = normalizeDeploymentStatus (jget n ''status'')"
  "has_own (status_stamps u c t n) ''status''"
  by (simp_all add: stamp_defs)

lemma masked_status: "b \<in> set DEPLOYMENT_STATUSES \<Longrightarrow> maskSecretLikeString b = b"
proof -
  have "\<forall>b \<in> set DEPLOYMENT_STATUSES. maskSecretLikeString b = b" by code_simp
  then show "b \<in> set DEPLOYMENT_STATUSES \<Longrightarrow> ?thesis" by blast
qed

lemma status_no_secret: "\<not> masks_here ''status'' v"
proof -
  have "\<not> isSecretKey (JStr ''status'')" by code_simp
  then show ?thesis by (simp add: masks_here_def)
qed

lemma mask_keeps_status:
  assumes "b \<in> set DEPLOYMENT_STATUSES"
  shows "jget (maskSecrets (jwith u [(''status'', JStr b)])) ''status'' = JStr b"
    "has_own (maskSecrets (jwith u [(''status'', JStr b)])) ''status''"
proof -
  obtain kvs where k: "jwith u [(''status'', JStr b)] = JObj kvs" by (simp add: jwith_def jspread_def)
  have j: "jget (JObj kvs) ''status'' = JStr b" using k[symmetric] by (simp add: jwith_Cons)
  show "jget (maskSecrets (jwith u [(''status'', JStr b)])) ''status'' = JStr b"
    unfolding k maskSecrets_def jget_mask_fields by (simp add: j status_no_secret masked_status[OF assms])
  then show "has_own (maskSecrets (jwith u [(''status'', JStr b)])) ''status''"
    using jget_not_own by fastforce
qed

lemma next_updates_status:
  assumes "b \<in> set DEPLOYMENT_STATUSES" "record_object u"
  shows "record_object (next_updates w (jwith u [(''status'', JStr b)]) c)"
    "jget (next_updates w (jwith u [(''status'', JStr b)]) c) ''status'' = JStr b"
    "has_own (next_updates w (jwith u [(''status'', JStr b)]) c) ''status''"
proof -
  let ?u = "maskSecrets (jwith u [(''status'', JStr b)])"
  let ?n0 = "JObj (map (\<lambda>(k, v). (k, if v = JStr [] then JNull else v)) (entries ?u))"
  let ?n1 = "jset_if (truthy (jget ?n0 ''image'') \<and> \<not> truthy (jget ?n0 ''imageUrl'')) ''imageUrl'' (jget ?n0 ''image'') ?n0"
  let ?n2 = "status_stamps ?u c (nowIso (wNow w)) ?n1"
  note canon = normalize_canonical[OF assms(1)]
  have ne: "b \<noteq> []" using assms(1) by (auto simp: DEPLOYMENT_STATUSES_def)
  have tr: "jor (jwith u [(''status'', JStr b)]) (JObj []) = jwith u [(''status'', JStr b)]"
    by (simp add: jwith_def jspread_def)
  obtain kvs where kvs: "?u = JObj kvs" by (simp add: jwith_def jspread_def maskSecrets_def)
  have st: "jget ?n0 ''status'' = JStr b"
    using mask_keeps_status[OF assms(1), of u] ne unfolding jget_map by (simp add: kvs)
  have own: "has_own ?n0 ''status''"
    using mask_keeps_status(2)[OF assms(1), of u] by (force simp: kvs image_iff)
  have n: "normalizeDeploymentUpdates w ?u c = ?n2"
    unfolding normalizeDeploymentUpdates_def Let_def using own by simp
  have rec: "record_object ?n0"
    using record_object_map[of kvs] record_object_mask[OF record_object_jwith[OF assms(2)], of "[(''status'', JStr b)]"]
    by (simp add: kvs)
  have s2: "jget ?n2 ''status'' = JStr b" "has_own ?n2 ''status''"
    using status_stamps_status[of ?u c "nowIso (wNow w)" ?n1] canon st by simp_all
  have r2: "record_object ?n2" using rec by (intro record_object_stamps record_object_jset_if)
  show "record_object (next_updates w (jwith u [(''status'', JStr b)]) c)"
    "jget (next_updates w (jwith u [(''status'', JStr b)]) c) ''status'' = JStr b"
    "has_own (next_updates w (jwith u [(''status'', JStr b)]) c) ''status''"
    unfolding next_updates_def Let_def tr n using r2 s2 canon
    by (simp_all add: record_object_jset_if)
qed

section \<open>Accepted transitions\<close>

lemma can_step:
  assumes "normalizeDeploymentStatus f = JStr a" "a \<in> set DEPLOYMENT_STATUSES" "b \<in> set DEPLOYMENT_STATUSES"
  shows "canTransitionDeployment f (JStr b) = Inr (deploy_step a b)"
proof -
  have "canTransitionDeployment f (JStr b) = canTransitionDeployment (JStr a) (JStr b)"
    using assms by (simp add: canTransitionDeployment_def normalize_canonical)
  with assms show ?thesis by (simp add: canTransition_canonical deploy_step_iff)
qed

lemma successors_canonical: "\<forall>a \<in> set DEPLOYMENT_STATUSES. set (successors a) \<subseteq> set DEPLOYMENT_STATUSES"
  by code_simp

lemma can_other:
  assumes "normalizeDeploymentStatus f = JStr a" "a \<in> set DEPLOYMENT_STATUSES"
    "normalizeDeploymentStatus t = JStr b" "b \<notin> set DEPLOYMENT_STATUSES"
  shows "canTransitionDeployment f t = Inr False"
proof -
  obtain bs where bs: "map_of ALLOWED_TRANSITIONS a = Some bs" using assms(2) transitions_total by blast
  then have "set bs \<subseteq> set DEPLOYMENT_STATUSES"
    using successors_canonical assms(2) by (force simp: successors_def)
  then have "b \<notin> set bs" "b \<noteq> a" using assms(2,4) by blast+
  then show ?thesis using assms(1,3) bs by (simp add: canTransitionDeployment_def Let_def)
qed

lemma normalize_twice:
  assumes "normalizeDeploymentStatus status = JStr b" "b \<noteq> []"
  shows "normalizeDeploymentStatus (JStr b) = JStr b"
proof (cases rule: normalize_cases[of status])
  case (canonical c)
  with assms(1) show ?thesis by (simp add: normalize_canonical)
next
  case (inherited h)
  with assms(1) show ?thesis by simp
next
  case other
  have b: "raw_status status = b" using other(1) assms(1) by simp
  have "raw_status (JStr b) = b" using assms(2) b by (auto simp: raw_status_def)
  with other b show ?thesis
    by (simp add: normalizeDeploymentStatus_def[of "JStr b"] table_get_strings Let_def)
qed

lemma assert_step:
  assumes "normalizeDeploymentStatus f = JStr a" "a \<in> set DEPLOYMENT_STATUSES"
    "normalizeDeploymentStatus status = JStr b" "b \<noteq> []"
  shows "is_ok (assertDeploymentTransition f (JStr b)) = deploy_step a b"
proof (cases "b \<in> set DEPLOYMENT_STATUSES")
  case True
  then show ?thesis using can_step[OF assms(1,2)]
    by (simp add: assertDeploymentTransition_def js_throw_def)
next
  case False
  then show ?thesis using can_other[OF assms(1,2) normalize_twice[OF assms(3,4)]]
    by (simp add: assertDeploymentTransition_def js_throw_def deploy_step_iff)
qed

section \<open>Transitions of the store\<close>

lemma event_run:
  obtains y s' where "appendDeploymentEvent w x s = (Inr y, s')" "deployments s' = deployments s"
  by (force simp: appendDeploymentEvent_def Let_def)

lemma run_event: "sbind (appendDeploymentEvent w x) k s = (r, s') \<Longrightarrow>
    (\<And>y s1. deployments s1 = deployments s \<Longrightarrow> k y s1 = (r, s') \<Longrightarrow> P) \<Longrightarrow> P"
  by (rule event_run[of w x s]) (simp add: sbind_run)

lemma update_run:
  assumes "truthy (mget (deployments s) i)" "jget opts ''validateTransition'' \<noteq> JBool True"
  obtains y s' where "updateDeployment w i u opts s = (Inr y, s')"
    "deployments s' = mput i (jwith (jspread (mget (deployments s) i) (next_updates w u (mget (deployments s) i)))
       [(''updatedAt'', nowIso (wNow w))]) (deployments s)"
proof -
  have e: "\<exists>y s'. sbind (if b then appendDeploymentEvent w x else sret JNull) (\<lambda>_. sret v) s1 = (Inr y, s') \<and> deployments s' = m"
    if "deployments s1 = m" for b x v s1 m
    using that by (cases b) (rule event_run[of w x s1], simp_all add: sbind_run)
  have "\<exists>y s'. updateDeployment w i u opts s = (Inr y, s') \<and>
    deployments s' = mput i (jwith (jspread (mget (deployments s) i) (next_updates w u (mget (deployments s) i)))
       [(''updatedAt'', nowIso (wNow w))]) (deployments s)"
    unfolding updateDeployment_def sthen_def Let_def sbind_simps
    by (simp only: assms simp_thms if_False sbind_simps not_False_eq_True sbind_audit) (rule e, simp)
  with that show ?thesis by blast
qed

lemma updated_status:
  assumes "b \<in> set DEPLOYMENT_STATUSES" "record_object u"
  shows "normalizeDeploymentStatus (jget (jwith (jspread d (next_updates w (jwith u [(''status'', JStr b)]) c))
    [(''updatedAt'', t)]) ''status'') = JStr b"
  using next_updates_status[OF assms, of w c] normalize_canonical[OF assms(1)]
  by (auto simp: jget_jwith_Nil jwith_Cons jget_jspread_distinct record_object_def)

text \<open>C11: The store refines the deployment state machine. For a deployment whose status is \<open>a\<close>, a
  transition to \<open>b\<close> succeeds exactly when \<open>a\<close> to \<open>b\<close> is a step of the machine, and then \<open>b\<close> is the
  status of that deployment and no other deployment changes its status; a refused transition
  changes nothing in the store, the audit trail included.\<close>

theorem transition_refines:
  assumes "status_of s i = Some (JStr a)" "a \<in> set DEPLOYMENT_STATUSES"
    "normalizeDeploymentStatus status = JStr b" "b \<noteq> []" "record_object updates"
    "transitionDeployment w i status updates options s = (r, s')"
  shows "if deploy_step a b then is_ok r \<and> status_of s' = (status_of s)(i \<mapsto> JStr b) else \<not> is_ok r \<and> s' = s"
proof -
  let ?d = "mget (deployments s) i" and ?a = "assertDeploymentTransition (jget (mget (deployments s) i) ''status'') (JStr b)"
  have d: "truthy ?d" "normalizeDeploymentStatus (jget ?d ''status'') = JStr a"
    using assms(1) by (auto simp: status_of_def Let_def split: if_splits)
  have ok: "is_ok ?a = deploy_step a b" by (rule assert_step[OF d(2) assms(2,3,4)])
  show ?thesis
  proof (cases ?a)
    case (Inl e)
    then have "r = Inl e" "s' = s"
      using assms(6) d(1) by (simp_all add: transitionDeployment_def assms(3) sbind_run sfind_run Let_def)
    with ok Inl show ?thesis by simp
  next
    case (Inr y)
    then have step: "deploy_step a b" using ok by simp
    then have b: "b \<in> set DEPLOYMENT_STATUSES" by (simp add: deploy_step_iff)
    let ?o = "jwith options [(''validateTransition'', JBool False), (''appendEvent'', JBool False)]"
    let ?n = "jwith (jspread ?d (next_updates w (jwith updates [(''status'', JStr b)]) ?d)) [(''updatedAt'', nowIso (wNow w))]"
    have o: "jget ?o ''validateTransition'' \<noteq> JBool True" by (simp add: jwith_Cons)
    obtain z s1 where u: "updateDeployment w i (jwith updates [(''status'', JStr b)]) ?o s = (Inr z, s1)"
      "deployments s1 = mput i ?n (deployments s)" by (rule update_run[OF d(1) o])
    have "is_ok r \<and> deployments s' = deployments s1"
      using assms(6) d(1) Inr u(1) event_run
      by (simp add: transitionDeployment_def assms(3) sbind_run[of "sfind _ _ _"] sfind_run Let_def sthen_def
        sbind_run[of "updateDeployment _ _ _ _"]) (erule run_event, force)
    moreover have "truthy ?n" by (simp add: jwith_def jspread_def)
    ultimately show ?thesis
      using step status_of_mput[of ?n i s] status_of_frame[of s' "deployments_update (mput i ?n) s"] u(2)
        updated_status[OF b assms(5)] by simp
  qed
qed

definition one_queued :: store where
  "one_queued = empty_store\<lparr>deployments := [(JStr ''dep_1'', JObj [(''id'', JStr ''dep_1''), (''status'', JStr ''queued'')])]\<rparr>"

theorem transition_refines_witness:
  "is_ok (fst (transitionDeployment sample_world (JStr ''dep_1'') (JStr ''Building'') (JObj []) JUndef one_queued)) \<and>
   snd (transitionDeployment sample_world (JStr ''dep_1'') (JStr ''READY'') (JObj []) JUndef one_queued) = one_queued"
proof -
  let ?t = "\<lambda>v. transitionDeployment sample_world (JStr ''dep_1'') (JStr v) (JObj []) JUndef one_queued"
  have s: "status_of one_queued (JStr ''dep_1'') = Some (JStr ''queued'')" by code_simp
  have q: "''queued'' \<in> set DEPLOYMENT_STATUSES" by code_simp
  have n: "normalizeDeploymentStatus (JStr ''Building'') = JStr ''BUILDING''"
    "normalizeDeploymentStatus (JStr ''READY'') = JStr ''READY''" by code_simp+
  have st: "deploy_step ''queued'' ''BUILDING''" "\<not> deploy_step ''queued'' ''READY''"
    unfolding deploy_step_iff by code_simp+
  have u: "record_object (JObj [])" by (simp add: record_object_JObj)
  have "is_ok (fst (?t ''Building''))"
    using transition_refines[OF s q n(1) _ u surjective_pairing[of "?t ''Building''"]] st(1) by simp
  moreover have "snd (?t ''READY'') = one_queued"
    using transition_refines[OF s q n(2) _ u surjective_pairing[of "?t ''READY''"]] st(2) by simp
  ultimately show ?thesis by blast
qed

end
