(* ===== verification/SourceControl.thy ===== *)
theory SourceControl
  imports Host Sanitize Ids
begin

text \<open>
  \<open>source-control.ts\<close>: the clone command, a clone with the token in a temporary script that
  \<open>GIT_ASKPASS\<close> runs, and the plan of a checkout.
\<close>

section \<open>URLs and commands\<close>

definition validateGitUrl :: "url_parser \<Rightarrow> jsv \<Rightarrow> jsv \<Rightarrow> string res" where
  "validateGitUrl parse_url penv repoUrl = (let value = str_trim (to_str (jor repoUrl (JStr []))) in
     if value = [] then js_throw ''repoUrl is required for github/git source''
     else normalizeTenantGitUrl parse_url penv (JStr value) (JObj [(''env'', penv)]))"

definition GIT_CREDENTIALS_RE :: rx where
  "GIT_CREDENTIALS_RE = RSeqs [RGrp 1 (RLitI ''https://''), RGrp 2 (RPlus (RCls (\<lambda>c. \<not> is_space c \<and> c \<notin> set ''/@''))), RChr CHR ''@'']"

definition redactGitUrl :: "string \<Rightarrow> string" where
  "redactGitUrl url = rreplace1 GIT_CREDENTIALS_RE (\<lambda>g. rgroup g 1 @ ''****@'') url"

definition withToken :: "string \<Rightarrow> jsv \<Rightarrow> string \<times> string" where
  "withToken repoUrl token = (repoUrl, if truthy token then repoUrl @ '' (auth via GIT_ASKPASS)'' else repoUrl)"

definition clone_args :: "jsv \<Rightarrow> string \<Rightarrow> string list" where
  "clone_args options url = [''clone'', ''--depth'', to_str (jdefault (jget options ''depth'') (jint 1)), ''--branch'',
     to_str (jdefault (jget options ''branch'') (JStr ''main'')), url, to_str (jget options ''destination'')] @
     map to_str (items (jdefault (jget options ''extraArgs'') (JArr [])))"

definition gitCloneCommand :: "url_parser \<Rightarrow> jsv \<Rightarrow> jsv \<Rightarrow> command_spec res" where
  "gitCloneCommand parse_url penv options = rbind (validateGitUrl parse_url penv (jget options ''repoUrl'')) (\<lambda>validated.
     case withToken validated (jget options ''token'') of (url, redactedUrl) \<Rightarrow>
     Inr \<lparr>executable = ''git'', cmdArgs = clone_args options url, cmdCwd = JUndef, cmdEnv = [(''GIT_TERMINAL_PROMPT'', ''0'')],
       cmdStdin = [], redacted = str_join '' '' (''git'' # clone_args options redactedUrl)\<rparr>)"

definition shSingleQuote :: "string \<Rightarrow> string" where
  "shSingleQuote value = [apostrophe] @ rreplace (RChr apostrophe) (\<lambda>_. escaped_apostrophe) value @ [apostrophe]"

section \<open>Cloning\<close>

definition askpass_path :: "host \<Rightarrow> string \<Rightarrow> string" where
  "askpass_path h destination = path_join (path_dirname destination) (''.raibitserver-git-askpass-'' @ nat_str (hostPid h) @ ''.sh'')"

definition askpass_body :: "string \<Rightarrow> string" where
  "askpass_body token = (let nl = [CHR 0x0A]; q = (\<lambda>s. [apostrophe] @ s @ [apostrophe]) in
     ''#!/bin/sh'' @ nl @ ''case '' @ [CHR 0x22] @ ''$1'' @ [CHR 0x22] @ '' in'' @ nl @
     ''  *Username*) printf '' @ q (''%s'' @ nl) @ '' '' @ q ''x-access-token'' @ '' ;;'' @ nl @
     ''  *) printf '' @ q (''%s'' @ nl) @ '' '' @ shSingleQuote token @ '' ;;'' @ nl @ ''esac'' @ nl)"

definition writeAskPassScript :: "host \<Rightarrow> string \<Rightarrow> string \<Rightarrow> string host_run" where
  "writeAskPassScript h destination token = (let script = askpass_path h destination in
     run_bind (call h (MakeDir (path_dirname destination))) (\<lambda>_.
     run_bind (call h (WriteFile script (askpass_body token))) (\<lambda>_.
     run_bind (call h (SetMode script)) (\<lambda>_. run_ret (Inr script)))))"

definition clone_destination :: "jsv \<Rightarrow> string \<Rightarrow> string" where
  "clone_destination options repoUrl = to_str (jor (jget options ''destination'')
     (JStr (path_join (to_str (jor (jget options ''workspaceDir'') (JStr ''.raibitserver-work'')))
       (slugify (jor (jget options ''name'') (JStr (path_basename repoUrl ''.git''))) ''item''))))"

definition checkout_command :: "jsv \<Rightarrow> string \<Rightarrow> command_spec" where
  "checkout_command commitSha destination = \<lparr>executable = ''git'', cmdArgs = [''checkout'', to_str commitSha],
     cmdCwd = JStr destination, cmdEnv = [], cmdStdin = [], redacted = []\<rparr>"

definition clone_steps :: "host \<Rightarrow> command_spec \<Rightarrow> jsv \<Rightarrow> string \<Rightarrow> bool \<Rightarrow> jsv list host_run" where
  "clone_steps h clone commitSha destination dryRun = run_bind (run_command h clone dryRun) (\<lambda>first.
     if truthy commitSha
     then run_bind (run_command h (checkout_command commitSha destination) dryRun) (\<lambda>second. run_ret (Inr [first, second]))
     else run_ret (Inr [first]))"

definition blank_script :: string where
  "blank_script = ''#!/bin/sh'' @ [CHR 0x0A] @ ''exit 1'' @ [CHR 0x0A]"

definition forget_token :: "host \<Rightarrow> string option \<Rightarrow> jsv host_run" where
  "forget_token h askPassPath = (case askPassPath of None \<Rightarrow> run_ret (Inr JUndef)
     | Some script \<Rightarrow> run_bind (run_quiet (call h (WriteFile script blank_script))) (\<lambda>_.
         run_quiet (call h (RemoveFile script))))"

definition with_askpass :: "command_spec \<Rightarrow> string option \<Rightarrow> command_spec" where
  "with_askpass clone askPassPath = (case askPassPath of None \<Rightarrow> clone
     | Some script \<Rightarrow> clone\<lparr>cmdEnv := cmdEnv clone @ [(''GIT_ASKPASS'', script)]\<rparr>)"

definition git_provider :: "string \<Rightarrow> jsv" where
  "git_provider repoUrl = JStr (if str_includes repoUrl ''github.com'' then ''github'' else ''git'')"

definition step_view :: "jsv \<Rightarrow> jsv" where
  "step_view step = JObj (map (\<lambda>k. (k, jget step k)) [''command'', ''cwd'', ''dryRun'', ''exitCode'', ''stdout'', ''stderr''])"

definition askpass_for :: "host \<Rightarrow> jsv \<Rightarrow> string \<Rightarrow> bool \<Rightarrow> string option host_run" where
  "askpass_for h token destination dryRun = (if \<not> dryRun \<and> truthy token
     then run_bind (writeAskPassScript h destination (to_str token)) (\<lambda>p. run_ret (Inr (Some p))) else run_ret (Inr None))"

definition clone_view :: "jsv \<Rightarrow> string \<Rightarrow> bool \<Rightarrow> jsv list \<Rightarrow> jsv" where
  "clone_view options repoUrl dryRun steps = JObj [
     (''provider'', git_provider repoUrl), (''repoUrl'', JStr (redactGitUrl repoUrl)),
     (''branch'', jor (jget options ''branch'') (JStr ''main'')),
     (''commitSha'', jor (jget options ''commitSha'') JNull), (''destination'', JStr (clone_destination options repoUrl)),
     (''dryRun'', JBool dryRun), (''commands'', JArr (map (\<lambda>s. jget s ''command'') steps)),
     (''steps'', JArr (map step_view steps))]"

definition cloneRepository :: "host \<Rightarrow> url_parser \<Rightarrow> jsv \<Rightarrow> jsv \<Rightarrow> jsv host_run" where
  "cloneRepository h parse_url penv options =
     run_bind (run_ret (validateGitUrl parse_url penv (jget options ''repoUrl''))) (\<lambda>repoUrl. let
       branch = jor (jget options ''branch'') (JStr ''main''); destination = clone_destination options repoUrl;
       dryRun = (jget options ''dryRun'' \<noteq> JBool False)
     in run_bind (run_when (\<not> dryRun) (call h (MakeDir (path_dirname destination)))) (\<lambda>_.
        run_bind (run_ret (gitCloneCommand parse_url penv (jwith options
          [(''repoUrl'', JStr repoUrl), (''branch'', branch), (''destination'', JStr destination)]))) (\<lambda>clone.
        run_bind (askpass_for h (jget options ''token'') destination dryRun) (\<lambda>askPassPath.
        run_bind (run_finally (forget_token h askPassPath)
          (clone_steps h (with_askpass clone askPassPath) (jget options ''commitSha'') destination dryRun)) (\<lambda>steps.
        run_ret (Inr (clone_view options repoUrl dryRun steps)))))))"

section \<open>The checkout plan\<close>

definition no_checkout :: "string \<Rightarrow> (string \<times> jsv) list \<Rightarrow> jsv" where
  "no_checkout reason fs = JObj ([(''required'', JBool False)] @ fs @ [(''reason'', JStr reason)])"

definition sourceCheckoutPlan :: "url_parser \<Rightarrow> jsv \<Rightarrow> jsv \<Rightarrow> jsv \<Rightarrow> jsv res" where
  "sourceCheckoutPlan parse_url penv service options = (let repoUrl = jor (jget service ''repoUrl'') (jget service ''repositoryUrl'') in
     if jget service ''sourceType'' = JStr ''image'' then Inr (no_checkout ''prebuilt image source does not require source checkout'' [])
     else if jget service ''sourceType'' = JStr ''local'' then Inr (no_checkout ''local source path is already available''
       [(''localPath'', jor (jget service ''localPath'') (jor (jget service ''buildContext'') (JStr ''.'')))])
     else if \<not> truthy repoUrl then Inr (no_checkout ''no repository URL configured'' [])
     else (let
       destination = jor (jget options ''destination'') (JStr (path_join
         (to_str (jor (jget options ''workspaceDir'') (JStr ''.raibitserver-work'')))
         (slugify (jor (jget service ''name'') (JStr ''service'')) ''item'')));
       branch = jor (jget service ''branch'') (JStr ''main'')
     in rbind (gitCloneCommand parse_url penv (JObj [(''repoUrl'', repoUrl), (''branch'', branch), (''destination'', destination),
          (''depth'', jor (jget service ''cloneDepth'') (jint 1)), (''token'', jget options ''token'')])) (\<lambda>command.
        if \<not> is_jstr repoUrl then js_throw ''repoUrl.includes is not a function''
        else Inr (JObj [(''required'', JBool True), (''provider'', git_provider (to_str repoUrl)),
          (''repoUrl'', JStr (redactGitUrl (to_str repoUrl))), (''branch'', branch),
          (''commitSha'', jor (jget service ''commitSha'') (jor (jget service ''commitHash'') JNull)),
          (''destination'', destination), (''command'', JStr (commandToString command))]))))"

section \<open>Where the token goes\<close>

text \<open>The calls of a clone; the commands are those of a clone that only knows that there is a token.\<close>

definition blind_clone :: "url_parser \<Rightarrow> jsv \<Rightarrow> jsv \<Rightarrow> string \<Rightarrow> command_spec res" where
  "blind_clone parse_url penv options repoUrl = gitCloneCommand parse_url penv (jwith
     (jset options ''token'' (JBool (truthy (jget options ''token''))))
     [(''repoUrl'', JStr repoUrl), (''branch'', jor (jget options ''branch'') (JStr ''main'')),
      (''destination'', JStr (clone_destination options repoUrl))])"

definition clone_script :: "host \<Rightarrow> jsv \<Rightarrow> string \<Rightarrow> string" where
  "clone_script h options repoUrl = askpass_path h (clone_destination options repoUrl)"

fun clone_call :: "host \<Rightarrow> url_parser \<Rightarrow> jsv \<Rightarrow> jsv \<Rightarrow> string \<Rightarrow> host_call \<Rightarrow> bool" where
  "clone_call h parse_url penv options url (Spawn c) = (c = checkout_command (jget options ''commitSha'') (clone_destination options url) \<or>
     (case blind_clone parse_url penv options url of Inl e \<Rightarrow> False
      | Inr clone \<Rightarrow> c = clone \<or> c = with_askpass clone (Some (clone_script h options url))))"
| "clone_call h parse_url penv options url (MakeDir p) = (p = path_dirname (clone_destination options url))"
| "clone_call h parse_url penv options url (WriteFile p s) = (p = clone_script h options url)"
| "clone_call h parse_url penv options url (SetMode p) = (p = clone_script h options url)"
| "clone_call h parse_url penv options url (RemoveFile p) = (p = clone_script h options url)"
| "clone_call h parse_url penv options url c = False"

lemma clone_blind:
  "gitCloneCommand parse_url penv (jwith options [(''repoUrl'', JStr url), (''branch'', jor (jget options ''branch'') (JStr ''main'')),
     (''destination'', JStr (clone_destination options url))]) = blind_clone parse_url penv options url"
  by (simp add: blind_clone_def gitCloneCommand_def clone_args_def withToken_def jwith_Cons)

definition revoked :: "host \<Rightarrow> jsv \<Rightarrow> string \<Rightarrow> host_call list" where
  "revoked h options url = [WriteFile (clone_script h options url) blank_script,
     RemoveFile (clone_script h options url)]"

lemma script_of: "writeAskPassScript h destination token tr = (Inr p, tr') \<Longrightarrow> p = askpass_path h destination"
  by (auto simp: writeAskPassScript_def Let_def run_bind_Inr run_ret_Inr)

lemma forget_run: "forget_token h (Some script) tr = (Inr x, tr') \<Longrightarrow>
    tr' = tr @ [WriteFile script blank_script, RemoveFile script]"
  by (auto simp: forget_token_def run_bind_def run_quiet_def call_def split: prod.splits sum.splits)

lemma forget_total: "\<exists>x tr'. forget_token h script tr = (Inr x, tr')"
  by (cases script) (auto simp: forget_token_def run_bind_def run_quiet_def call_def run_ret_def split: prod.splits sum.splits)

lemma finally_revokes:
  assumes "run_finally (forget_token h (Some script)) m tr = (r, tr')"
  shows "suffix [WriteFile script blank_script, RemoveFile script] tr'"
proof -
  obtain r1 tr1 where m: "m tr = (r1, tr1)" by fastforce
  obtain x tr2 where f: "forget_token h (Some script) tr1 = (Inr x, tr2)" using forget_total by blast
  have "tr' = tr2" using assms m f by (simp add: run_finally_def run_bind_def run_ret_def)
  then show ?thesis using forget_run[OF f] by (auto intro: suffixI)
qed

lemma script_calls:
  "makes_calls (\<lambda>c. no_spawn c \<and> (clone_call h parse_url penv options url c))
     (writeAskPassScript h (clone_destination options url) token)"
  unfolding writeAskPassScript_def Let_def
  by (intro host_calls_intros) (simp_all add: clone_script_def)

lemma clone_calls:
  assumes "blind_clone parse_url penv options url = Inr clone" "askPassPath \<in> {None, Some (clone_script h options url)}"
  shows "makes_calls (clone_call h parse_url penv options url) (run_finally (forget_token h askPassPath)
     (clone_steps h (with_askpass clone askPassPath) (jget options ''commitSha'') (clone_destination options url) dryRun))"
  unfolding clone_steps_def forget_token_def
  using assms by (cases askPassPath; intro host_calls_intros)
    (auto simp: with_askpass_def makes_calls_ret intro!: host_calls_intros)

lemma askpass_result:
  assumes "askpass_for h token destination dryRun tr = (Inr p, tr')"
  shows "p = None \<and> (dryRun \<or> \<not> truthy token) \<or> p = Some (askpass_path h destination)"
  using assms by (auto simp: askpass_for_def run_bind_Inr run_ret_Inr dest: script_of split: if_splits)

lemma dry_steps: "makes_calls no_spawn (run_finally (forget_token h None) (clone_steps h clone commitSha destination True))"
  unfolding clone_steps_def forget_token_def by (intro host_calls_intros) (auto intro!: host_calls_intros)

text \<open>C19: A clone gives a token to no process: its commands, with their arguments, environment and printed
  form, are those of a clone that only knows whether there is a token, and only one script file is
  written. When a process was started with a token, the run ends by overwriting and removing that
  file, whether the clone succeeded or not.\<close>

theorem clone_token_confined:
  assumes "cloneRepository h parse_url penv options [] = (r, tr)" "validateGitUrl parse_url penv (jget options ''repoUrl'') = Inr url"
  shows "list_all (clone_call h parse_url penv options url) tr \<and>
    (truthy (jget options ''token'') \<longrightarrow> list_all no_spawn tr \<or> suffix (revoked h options url) tr)"
proof -
  let ?C = "clone_call h parse_url penv options url" and ?d = "clone_destination options url"
  let ?dry = "jget options ''dryRun'' \<noteq> JBool False" and ?token = "jget options ''token''"
  let ?quiet = "\<lambda>c. no_spawn c \<and> ?C c"
  have mk: "makes_calls ?quiet (run_when (\<not> ?dry) (call h (MakeDir (path_dirname ?d))))"
    by (intro host_calls_intros) simp
  have ask: "makes_calls ?quiet (askpass_for h ?token ?d ?dry)"
    unfolding askpass_for_def by (intro host_calls_intros script_calls)
  have quiet: "list_all ?quiet cs \<Longrightarrow> list_all ?C cs \<and> list_all no_spawn cs" for cs by (simp add: list_all_iff)
  have "run_bind (run_when (\<not> ?dry) (call h (MakeDir (path_dirname ?d)))) (\<lambda>_.
      run_bind (run_ret (blind_clone parse_url penv options url)) (\<lambda>clone.
      run_bind (askpass_for h ?token ?d ?dry) (\<lambda>askPassPath.
      run_bind (run_finally (forget_token h askPassPath)
          (clone_steps h (with_askpass clone askPassPath) (jget options ''commitSha'') ?d ?dry)) (\<lambda>steps.
      run_ret (Inr (clone_view options url ?dry steps)))))) [] = (r, tr)"
    using assms(1) unfolding cloneRepository_def assms(2) Let_def clone_blind run_bind_Inr_ret .
  then show ?thesis
  proof (cases rule: run_bindE)
    case (1 e)
    then show ?thesis using makes_calls_trace[OF mk] quiet by blast
  next
    case (2 x tr1)
    have q1: "list_all ?quiet tr1" using makes_calls_trace[OF mk 2(1)] .
    show ?thesis
    proof (cases "blind_clone parse_url penv options url")
      case (Inl e)
      then show ?thesis using 2(2)[unfolded Inl run_bind_Inr_ret] q1 quiet by (simp add: run_ret_def)
    next
      case (Inr clone)
      from 2(2)[unfolded Inr run_bind_Inr_ret] show ?thesis
      proof (cases rule: run_bindE)
        case (1 e)
        then show ?thesis using makes_calls_from[OF ask _ q1] quiet by blast
      next
        case (2 p tr2)
        have q2: "list_all ?quiet tr2" using makes_calls_from[OF ask 2(1) q1] .
        let ?m = "run_finally (forget_token h p) (clone_steps h (with_askpass clone p) (jget options ''commitSha'') ?d ?dry)"
        obtain r3 where m: "?m tr2 = (r3, tr)" using 2(2) by (cases rule: run_bindE) (auto simp: run_ret_def)
        note p = askpass_result[OF 2(1)]
        have "list_all ?C tr"
          using makes_calls_from[OF clone_calls[OF Inr] m] p q2 quiet by (auto simp: clone_script_def)
        moreover have "list_all no_spawn tr" if "p = None" "?dry"
          using makes_calls_from[OF dry_steps, of h "with_askpass clone p"] m q2 quiet that by fastforce
        moreover have "suffix (revoked h options url) tr" if "p = Some (askpass_path h ?d)"
          using finally_revokes m that unfolding revoked_def clone_script_def by blast
        ultimately show ?thesis using p by blast
      qed
    qed
  qed
qed

definition one_host :: host where
  "one_host = \<lparr>answer = (\<lambda>_ _. Inr JUndef), spawned = (\<lambda>_ _. (0, [], [])), hostPid = 7\<rparr>"

definition tenant_clone :: jsv where
  "tenant_clone = JObj [(''repoUrl'', JStr ''git@github.com:acme/web.git''), (''token'', JStr ''tok-1''),
     (''dryRun'', JBool False), (''destination'', JStr ''/w/web'')]"

theorem clone_token_confined_witness:
  "suffix (revoked one_host tenant_clone ''git@github.com:acme/web.git'')
     (snd (cloneRepository one_host (\<lambda>_. None) (JObj []) tenant_clone []))"
proof -
  let ?run = "cloneRepository one_host (\<lambda>_. None) (JObj []) tenant_clone []"
  have u: "validateGitUrl (\<lambda>_. None) (JObj []) (jget tenant_clone ''repoUrl'') = Inr ''git@github.com:acme/web.git''" by code_simp
  have t: "truthy (jget tenant_clone ''token'')" by code_simp
  have "\<not> list_all no_spawn (snd ?run)" by code_simp
  with clone_token_confined[OF surjective_pairing u, of one_host] t show ?thesis by blast
qed

end
