(* ===== verification/Registry.thy ===== *)
theory Registry
  imports Host
begin

text \<open>
  \<open>registry.ts\<close>: image references, and the commands that log in to a registry and push an image.
\<close>

section \<open>Image references\<close>

record image_ref =
  refRegistry :: string
  refRepository :: string
  refTag :: "string option"
  refDigest :: "string option"
  refImage :: string

text \<open>\<open>lastIndexOf\<close>; minus one when the character is not there\<close>

definition last_index :: "char \<Rightarrow> string \<Rightarrow> int" where
  "last_index c s = (case char_index c (rev s) of None \<Rightarrow> -1 | Some k \<Rightarrow> int (length s) - 1 - int k)"

definition explicit_registry :: "string list \<Rightarrow> bool" where
  "explicit_registry parts = (let first = hd parts in
     length parts > 1 \<and> (CHR ''.'' \<in> set first \<or> CHR '':'' \<in> set first \<or> first = ''localhost''))"

definition name_and_digest :: "string \<Rightarrow> string \<times> string option" where
  "name_and_digest original = (case str_split CHR ''@'' original of name # digest # _ \<Rightarrow> (name, Some digest)
     | names \<Rightarrow> (hd names, None))"

text \<open>The empty digest of \<open>name@\<close> is falsy, as is no digest.\<close>

definition parseImageReference :: "jsv \<Rightarrow> image_ref res" where
  "parseImageReference img = (let original = str_trim (to_str (jor img (JStr []))) in
     if original = [] then js_throw ''image reference is required''
     else (case name_and_digest original of (name, digest) \<Rightarrow> let
       given = (case digest of Some d \<Rightarrow> d \<noteq> [] | None \<Rightarrow> False);
       slash = last_index CHR ''/'' name; colon = last_index CHR '':'' name;
       hasTag = (\<not> given \<and> colon > slash);
       bare = (if hasTag then take (nat colon) name else name);
       tag = (if hasTag then Some (drop (Suc (nat colon)) name) else if given then None else Some ''latest'');
       parts = str_split CHR ''/'' bare; explicit = explicit_registry parts
     in Inr \<lparr>refRegistry = (if explicit then hd parts else ''docker.io''),
          refRepository = str_join ''/'' (if explicit then tl parts else parts), refTag = tag, refDigest = digest,
          refImage = (if given then bare @ ''@'' @ the digest else bare @ '':'' @ the tag)\<rparr>))"

section \<open>Commands\<close>

definition dockerLoginCommand :: "jsv \<Rightarrow> command_spec res" where
  "dockerLoginCommand options = (let registry = jget options ''registry''; username = jget options ''username'';
     password = jget options ''password''
   in if \<not> truthy registry \<or> \<not> truthy username \<or> \<not> truthy password
      then js_throw ''registry, username, and password are required for docker login''
      else Inr \<lparr>executable = ''docker'',
        cmdArgs = [''login'', to_str registry, ''--username'', to_str username, ''--password-stdin''], cmdCwd = JUndef, cmdEnv = [],
        cmdStdin = to_str password,
        redacted = ''docker login '' @ to_str registry @ '' --username '' @ to_str username @ '' --password-stdin''\<rparr>)"

definition dockerPushCommand :: "jsv \<Rightarrow> command_spec" where
  "dockerPushCommand img = \<lparr>executable = ''docker'', cmdArgs = [''push'', to_str img], cmdCwd = JUndef, cmdEnv = [],
     cmdStdin = [], redacted = []\<rparr>"

definition registryLogin :: "host \<Rightarrow> jsv \<Rightarrow> jsv host_run" where
  "registryLogin h options = run_bind (run_ret (dockerLoginCommand options)) (\<lambda>command.
     run_bind (run_command h command (jget options ''dryRun'' \<noteq> JBool False)) (\<lambda>result.
     run_ret (Inr (JObj [(''registry'', jget options ''registry''), (''dryRun'', jget result ''dryRun''),
       (''command'', jget result ''command''), (''result'', result)]))))"

definition pushImage :: "host \<Rightarrow> jsv \<Rightarrow> bool \<Rightarrow> jsv host_run" where
  "pushImage h img dryRun = (if \<not> truthy img then run_ret (js_throw ''image is required for registry push'')
     else run_bind (run_command h (dockerPushCommand img) dryRun) (\<lambda>result.
       run_bind (run_ret (parseImageReference img)) (\<lambda>parsed.
       run_ret (Inr (JObj [(''image'', img), (''registry'', JStr (refRegistry parsed)), (''dryRun'', jget result ''dryRun''),
         (''command'', jget result ''command''), (''result'', result)])))))"

definition registryPushPlan :: "jsv \<Rightarrow> jsv res" where
  "registryPushPlan img = rbind (parseImageReference img) (\<lambda>parsed. Inr (JObj [(''image'', img),
     (''registry'', JStr (refRegistry parsed)), (''command'', JStr (commandToString (dockerPushCommand img)))]))"

section \<open>Normal references\<close>

lemma last_index_absent: "c \<notin> set s \<Longrightarrow> last_index c s = -1"
proof -
  have "c \<notin> set t \<Longrightarrow> char_index c t = None" for t by (induction t) auto
  then show "c \<notin> set s \<Longrightarrow> ?thesis" by (simp add: last_index_def)
qed

lemma last_index_last: "c \<notin> set t \<Longrightarrow> last_index c (s @ c # t) = int (length s)"
  using char_index_append[of c "rev t" "rev s"] by (simp add: last_index_def)

lemma last_index_split:
  assumes "last_index c s = int k"
  shows "\<exists>t. s = take k s @ c # t \<and> c \<notin> set t \<and> drop (Suc k) s = t \<and> k < length s"
proof -
  have "c \<in> set s" using assms last_index_absent[of c s] by fastforce
  then obtain u t where s: "s = u @ c # t" "c \<notin> set t" using split_list_last by metis
  then have "k = length u" using assms last_index_last[OF s(2), of u] by simp
  with s show ?thesis by simp
qed

lemma last_index_ge: "-1 \<le> last_index c s"
proof (cases "c \<in> set s")
  case True
  then obtain u v where "s = u @ c # v" "c \<notin> set v" using split_list_last by metis
  then show ?thesis using last_index_last[of c v u] by simp
qed (simp add: last_index_absent)

lemma last_index_append: "c \<notin> set t \<Longrightarrow> last_index c (s @ t) = last_index c s"
proof (cases "c \<in> set s")
  case True
  assume t: "c \<notin> set t"
  obtain u v where s: "s = u @ c # v" "c \<notin> set v" using True split_list_last by metis
  show ?thesis using last_index_last[of c "v @ t" u] last_index_last[OF s(2), of u] s t by simp
qed (simp add: last_index_absent)

lemma last_index_bound: "last_index c s < int (length s)"
proof (cases "c \<in> set s")
  case True
  then obtain u v where "s = u @ c # v" "c \<notin> set v" using split_list_last by metis
  then show ?thesis using last_index_last[of c v u] by simp
qed (simp add: last_index_absent)

lemma split_parts: "x \<in> set (str_split c s) \<Longrightarrow> c \<notin> set x"
  by (induction c s arbitrary: x rule: str_split.induct) (auto split: list.splits if_splits)

lemma digest_parts:
  "name_and_digest s = (name, Some d) \<Longrightarrow> CHR ''@'' \<notin> set name \<and> CHR ''@'' \<notin> set d"
  "name_and_digest s = (name, None) \<Longrightarrow> name = s \<and> CHR ''@'' \<notin> set s"
proof -
  have parts: "\<forall>x \<in> set (str_split CHR ''@'' s). CHR ''@'' \<notin> set x" using split_parts by blast
  show "name_and_digest s = (name, Some d) \<Longrightarrow> CHR ''@'' \<notin> set name \<and> CHR ''@'' \<notin> set d"
    using parts by (auto simp: name_and_digest_def split: list.splits)
  assume "name_and_digest s = (name, None)"
  then have "str_split CHR ''@'' s = [name]" by (auto simp: name_and_digest_def split: list.splits)
  with parts join_split[of "CHR ''@''" s] show "name = s \<and> CHR ''@'' \<notin> set s" by auto
qed

lemma digest_whole: "CHR ''@'' \<notin> set s \<Longrightarrow> name_and_digest s = (s, None)"
  "CHR ''@'' \<notin> set s \<Longrightarrow> CHR ''@'' \<notin> set d \<Longrightarrow> name_and_digest (s @ CHR ''@'' # d) = (s, Some d)"
  by (simp_all add: name_and_digest_def split_no_sep split_cons_sep)

text \<open>Parsing is idempotent on what it normalises: the normal form of an image reference parses to the same
  registry, repository, tag and digest, and is its own normal form.\<close>

theorem image_reference_normal:
  assumes "parseImageReference img = Inr r" "refDigest r \<noteq> Some []" "str_trim (refImage r) = refImage r"
  shows "parseImageReference (JStr (refImage r)) = Inr r"
proof -
  define s where "s = str_trim (to_str (jor img (JStr [])))"
  obtain name digest where nd: "name_and_digest s = (name, digest)" by fastforce
  have ne: "s \<noteq> []" using assms(1) by (auto simp: parseImageReference_def s_def[symmetric])
  note r = assms(1)[unfolded parseImageReference_def Let_def s_def[symmetric], simplified ne nd, simplified]
  show ?thesis
  proof (cases digest)
    case (Some d)
    then have d: "d \<noteq> []" using r assms(2) by auto
    then have "refImage r = name @ CHR ''@'' # d" using r Some by auto
    then show ?thesis
      using r Some d digest_whole(2)[of name d] digest_parts(1)[of s name d] nd assms(3)
      by (auto simp: parseImageReference_def Let_def)
  next
    case None
    then have n: "name = s" "CHR ''@'' \<notin> set s" using nd digest_parts(2) by auto
    show ?thesis
    proof (cases "last_index CHR '':'' s > last_index CHR ''/'' s")
      case True
      moreover have "last_index CHR '':'' s \<ge> 0"
        using True last_index_ge[of "CHR ''/''" s] by simp
      ultimately have "refImage r = s"
        using r None n last_index_split[of "CHR '':''" s "nat (last_index CHR '':'' s)"] by auto
      then show ?thesis using r None n ne nd assms(3) by (auto simp: parseImageReference_def Let_def)
    next
      case False
      then have "refImage r = s @ '':latest''" using r None n by auto
      moreover have "last_index CHR '':'' (s @ '':latest'') = int (length s)"
        using last_index_last[of "CHR '':''" "''latest''" s] by simp
      moreover have "last_index CHR ''/'' (s @ '':latest'') = last_index CHR ''/'' s"
        by (rule last_index_append) simp
      ultimately show ?thesis
        using r None n False assms(3) digest_whole(1)[of "s @ '':latest''"] last_index_bound[of "CHR ''/''" s]
        by (auto simp: parseImageReference_def Let_def)
    qed
  qed
qed

theorem image_reference_normal_witness:
  "parseImageReference (JStr ''ghcr.io:5000/acme/web'') = parseImageReference (JStr ''ghcr.io:5000/acme/web:latest'')"
proof -
  let ?r = "\<lparr>refRegistry = ''ghcr.io:5000'', refRepository = ''acme/web'', refTag = Some ''latest'', refDigest = None,
    refImage = ''ghcr.io:5000/acme/web:latest''\<rparr>"
  have p: "parseImageReference (JStr ''ghcr.io:5000/acme/web'') = Inr ?r" by code_simp
  have "refDigest ?r \<noteq> Some []" "str_trim (refImage ?r) = refImage ?r" by code_simp+
  from image_reference_normal[OF p this] p show ?thesis by simp
qed

end
