(* ===== verification/BuildStrategy.thy ===== *)
theory BuildStrategy
  imports DomainRouter
begin

text \<open>
  \<open>framework-detector.ts\<close> and \<open>build-strategy.ts\<close>: what kind of program a set of files is, and the
  build plan of a service. \<open>files\<close> maps file names to their text; \<open>parse\<close> is \<open>JSON.parse\<close>, with
  \<open>None\<close> where it throws.
\<close>

type_synonym json_parser = "string \<Rightarrow> jsv option"

section \<open>framework-detector.ts\<close>

definition parseJson :: "json_parser \<Rightarrow> jsv \<Rightarrow> jsv" where
  "parseJson parse v = (if \<not> truthy v then JObj [] else if typeof_object v then v
     else (case parse (to_str v) of Some x \<Rightarrow> x | None \<Rightarrow> JObj []))"

definition hasAnyDependency :: "jsv \<Rightarrow> string list \<Rightarrow> bool" where
  "hasAnyDependency pkg names = (let
     deps = jspread (jspread (jspread (JObj []) (jor (jget pkg ''dependencies'') (JObj [])))
        (jor (jget pkg ''devDependencies'') (JObj []))) (jor (jget pkg ''optionalDependencies'') (JObj []))
   in list_ex (has_own deps) names)"

definition fileExists :: "jsv \<Rightarrow> string \<Rightarrow> bool" where
  "fileExists files name = has_own (jor files (JObj [])) name"

definition getFile :: "jsv \<Rightarrow> string \<Rightarrow> jsv" where
  "getFile files name = jget files name"

definition detected ::
  "string \<Rightarrow> string \<Rightarrow> jsv \<Rightarrow> jsv \<Rightarrow> jsv \<Rightarrow> nat \<Rightarrow> jsv \<Rightarrow> (string \<times> jsv) list \<Rightarrow> jsv" where
  "detected framework runtime installCommand buildCommand startCommand port outputDirectory extra = JObj ([
     (''framework'', JStr framework), (''runtime'', JStr runtime), (''serviceType'', JStr ''web''),
     (''installCommand'', installCommand), (''buildCommand'', buildCommand), (''startCommand'', startCommand),
     (''port'', jnat port), (''outputDirectory'', outputDirectory)] @ extra)"

definition node_install :: "jsv \<Rightarrow> jsv res" where
  "node_install pkg = (let manager = jget pkg ''packageManager'' in
     if is_nullish manager then Inr (JStr ''npm install'')
     else if \<not> is_jstr manager then js_throw ''packageJson.packageManager?.startsWith is not a function''
     else Inr (JStr (if starts_with (to_str manager) ''pnpm'' then ''pnpm install --frozen-lockfile'' else ''npm install'')))"

definition caddy :: "(string \<times> jsv) list" where
  "caddy = [(''staticContainer'', JStr ''caddy'')]"

definition detect_node :: "jsv \<Rightarrow> jsv \<Rightarrow> jsv res" where
  "detect_node pkg scripts = (let
     build = jget scripts ''build''; start = jget scripts ''start''; npm = JStr ''npm install''
   in if hasAnyDependency pkg [''next''] then
        rbind (node_install pkg) (\<lambda>install. Inr (detected ''nextjs'' ''node'' install
          (jor build (JStr ''npm run build'')) (jor start (JStr ''npm start'')) 3000 (JStr ''.next'') []))
      else if hasAnyDependency pkg [''@nestjs/core''] then
        Inr (detected ''nestjs'' ''node'' npm (jor build (JStr ''npm run build''))
          (jor start (JStr ''npm run start:prod'')) 3000 (JStr ''dist'') [])
      else if hasAnyDependency pkg [''express'', ''fastify'', ''koa'', ''hono''] then
        Inr (detected ''node-http'' ''node'' npm (jor build JNull) (jor start (JStr ''npm start'')) 3000 JNull [])
      else if hasAnyDependency pkg [''vite'', ''@vitejs/plugin-react'', ''vue'', ''svelte''] then
        rbind (node_install pkg) (\<lambda>install. Inr (detected ''static-spa'' ''static'' install
          (jor build (JStr ''npm run build'')) JNull 80 (JStr ''dist'') caddy))
      else Inr (detected ''node-generic'' ''node'' npm (jor build JNull) (jor start (JStr ''npm start'')) 3000
        (if truthy build then JStr ''dist'' else JNull) []))"

definition mentions_fastapi :: "jsv \<Rightarrow> string \<Rightarrow> bool" where
  "mentions_fastapi files name = str_includes (str_lower (to_str (jor (getFile files name) (JStr [])))) ''fastapi''"

definition detect_other :: "jsv \<Rightarrow> jsv" where
  "detect_other files =
    (if fileExists files ''requirements.txt'' \<or> fileExists files ''pyproject.toml'' then
       (let isFastApi = (mentions_fastapi files ''requirements.txt'' \<or> mentions_fastapi files ''pyproject.toml'') in
        detected (if isFastApi then ''fastapi'' else ''python'') ''python''
          (JStr (if fileExists files ''requirements.txt'' then ''pip install -r requirements.txt'' else ''pip install .''))
          JNull (JStr (if isFastApi then ''uvicorn main:app --host 0.0.0.0 --port $PORT'' else ''python app.py''))
          8000 JNull [])
     else if fileExists files ''pom.xml'' \<or> fileExists files ''build.gradle'' \<or> fileExists files ''build.gradle.kts'' then
       detected ''java'' ''jvm'' JNull
         (JStr (if fileExists files ''pom.xml'' then ''mvn package -DskipTests'' else ''./gradlew build -x test''))
         (JStr ''java -jar app.jar'') 8080 (JStr ''target'') []
     else if fileExists files ''go.mod'' then
       detected ''go'' ''go'' JNull (JStr ''go build -o app ./...'') (JStr ''./app'') 8080 (JStr ''.'') []
     else if fileExists files ''index.html'' then
       detected ''static-html'' ''static'' JNull JNull JNull 80 (JStr ''.'') caddy
     else detected ''unknown'' ''container'' JNull JNull JNull 8080 JNull [])"

definition detectFramework :: "json_parser \<Rightarrow> jsv \<Rightarrow> jsv res" where
  "detectFramework parse files0 = (let files = jdefault files0 (JObj []);
     packageJson = parseJson parse (getFile files ''package.json'')
   in rbind (jread packageJson ''scripts'') (\<lambda>s. let scripts = jor s (JObj []) in
     if fileExists files ''package.json'' then detect_node packageJson scripts
     else Inr (detect_other files)))"

section \<open>build-strategy.ts\<close>

definition WORKLOAD_PIPELINE :: "string list" where
  "WORKLOAD_PIPELINE = [''source'', ''build'', ''image'', ''registry'', ''kubernetes-workload'', ''network-route'',
     ''domain-and-tls'']"

definition normalizeMode :: "jsv \<Rightarrow> string" where
  "normalizeMode mode = (if \<not> truthy mode then ''auto'' else (let v = str_lower (to_str mode) in
     if v \<in> set [''dockerfile'', ''docker''] then ''dockerfile''
     else if v \<in> set [''buildpack'', ''buildpacks'', ''nixpacks''] then ''buildpack''
     else if v \<in> set [''custom'', ''custom-command''] then ''custom''
     else if v \<in> set [''image'', ''prebuilt'', ''prebuilt-image''] then ''prebuilt-image''
     else ''auto''))"

definition hasDockerfile :: "jsv \<Rightarrow> jsv \<Rightarrow> bool" where
  "hasDockerfile files dockerfilePath = (has_own files (to_str (jdefault dockerfilePath (JStr ''Dockerfile''))) \<or>
     has_own files ''./Dockerfile'' \<or> has_own files ''Dockerfile'')"

definition imageFor :: "string \<Rightarrow> jsv \<Rightarrow> jsv" where
  "imageFor name service = (let
     registry = jor (jget service ''registry'') (JStr DEFAULT_REGISTRY);
     project = slugify (jor (jget service ''projectSlug'') (jor (jget service ''project'') (JStr ''project''))) ''item'';
     tag = slugify (jor (jget service ''revision'') (jor (jget service ''commitHash'') (JStr ''latest''))) ''item''
   in JStr (to_str registry @ ''/'' @ project @ ''/'' @ name @ '':'' @ tag))"

text \<open>\<open>image.includes('/') ? image.split('/') : [DEFAULT_REGISTRY, 'project']\<close>, with the default
  of the second component.\<close>

definition image_location :: "jsv \<Rightarrow> (string \<times> string) res" where
  "image_location img = (case img of
      JStr s \<Rightarrow> (if CHR ''/'' \<in> set s
         then (case str_split CHR ''/'' s of
             registry # project # _ \<Rightarrow> Inr (registry, project) | _ \<Rightarrow> Inr (s, ''project''))
         else Inr (DEFAULT_REGISTRY, ''project''))
    | JArr vs \<Rightarrow> (if JStr ''/'' \<in> set vs then js_throw ''image.split is not a function''
         else Inr (DEFAULT_REGISTRY, ''project''))
    | _ \<Rightarrow> js_throw ''image.includes is not a function'')"

definition buildPlan :: "string \<Rightarrow> string \<Rightarrow> jsv \<Rightarrow> jsv \<Rightarrow> string \<Rightarrow> jsv list \<Rightarrow> jsv \<Rightarrow> jsv \<Rightarrow> jsv res" where
  "buildPlan mode name sourceType img reason buildSteps runtime framework =
     rbind (image_location img) (\<lambda>(registry, project). Inr (JObj [
       (''service'', JStr name), (''mode'', JStr mode), (''sourceType'', sourceType), (''image'', img),
       (''reason'', JStr reason), (''framework'', framework), (''buildSteps'', JArr buildSteps),
       (''runtime'', runtime), (''pipeline'', JArr (map JStr WORKLOAD_PIPELINE)),
       (''deploymentTarget'', JObj [(''registry'', JStr registry), (''workload'', JStr ''kubernetes''),
          (''domainPattern'', serviceHostname (JObj [(''serviceName'', JStr name), (''projectSlug'', JStr project),
             (''organizationSlug'', JStr ''org''), (''baseDomain'', JStr DEFAULT_DOMAIN)])),
          (''tls'', JStr ''automatic'')]),
       (''controls'', JObj [(''buildCache'', JBool (mode \<noteq> ''prebuilt-image'')), (''logStreaming'', JBool True),
          (''timeoutSeconds'', jint 1200),
          (''resourceLimits'', JObj [(''cpu'', JStr ''2''), (''memory'', JStr ''4Gi'')]),
          (''vulnerabilityScan'', JBool (mode \<noteq> ''prebuilt-image'')), (''rollbackTags'', JBool True),
          (''previewDeployments'', JBool True)])]))"

definition build_step :: "string \<Rightarrow> (string \<times> jsv) list \<Rightarrow> jsv" where
  "build_step type fs = JObj ((''type'', JStr type) # fs)"

definition scan_step :: jsv where
  "scan_step = build_step ''image-scan'' [(''scanners'', JArr [JStr ''trivy-compatible'']), (''required'', JBool True)]"

definition push_step :: "jsv \<Rightarrow> jsv" where
  "push_step service = build_step ''push'' [(''registry'', jor (jget service ''registry'') (JStr DEFAULT_REGISTRY))]"

definition clone_step :: "jsv \<Rightarrow> jsv" where
  "clone_step service = build_step ''clone-or-upload''
     [(''rootDirectory'', jor (jget service ''rootDirectory'') (JStr ''.''))]"

definition command_step :: "string \<Rightarrow> jsv \<Rightarrow> (string \<times> jsv) list \<Rightarrow> jsv list" where
  "command_step type command extra =
     (if truthy command then [build_step type ((''command'', command) # extra)] else [])"

definition plan_runtime :: "jsv \<Rightarrow> jsv \<Rightarrow> jsv" where
  "plan_runtime port startCommand = JObj [(''port'', port), (''startCommand'', startCommand)]"

definition service_port :: "jsv \<Rightarrow> jsv" where
  "service_port service = jor (jget service ''port'') (jnat DEFAULT_PORT)"

definition dockerfile_plan :: "jsv \<Rightarrow> string \<Rightarrow> jsv \<Rightarrow> jsv res" where
  "dockerfile_plan service name sourceType = (let
     dockerfilePath = jor (jget service ''dockerfilePath'') (JStr ''Dockerfile'');
     buildContext = jor (jget service ''buildContext'') (jor (jget service ''rootDirectory'') (JStr ''.''))
   in buildPlan ''dockerfile'' name sourceType (imageFor name service)
     (if truthy (jget service ''dockerfilePath'') then ''user configured Dockerfile path''
      else ''Dockerfile detected before auto build'')
     [clone_step service,
      build_step ''docker-build'' [(''dockerfilePath'', dockerfilePath), (''buildContext'', buildContext), (''cache'', JBool True)],
      scan_step, build_step ''image-sign'' [(''signer'', JStr ''cosign-compatible''), (''required'', JBool False)],
      push_step service]
     (plan_runtime (service_port service) (jor (jget service ''startCommand'') JNull)) JNull)"

definition custom_command :: "jsv \<Rightarrow> jsv" where
  "custom_command service = jor (jget service ''buildCommand'') (jor (jget service ''customBuildCommand'') JNull)"

definition custom_plan :: "jsv \<Rightarrow> string \<Rightarrow> jsv \<Rightarrow> jsv res" where
  "custom_plan service name sourceType = (let
     start = jor (jget service ''startCommand'') (JStr ''npm start'')
   in buildPlan ''custom'' name sourceType (imageFor name service) ''custom build command configured''
     ([clone_step service] @ command_step ''install'' (jget service ''installCommand'') [] @
      [build_step ''custom-build'' [(''command'', jor (custom_command service) (JStr ''npm run build''))],
       build_step ''package-runtime'' [(''startCommand'', start),
         (''outputDirectory'', jor (jget service ''outputDirectory'') JNull)],
       scan_step, push_step service])
     (plan_runtime (service_port service) start) JNull)"

definition framework_plan :: "jsv \<Rightarrow> string \<Rightarrow> jsv \<Rightarrow> jsv \<Rightarrow> jsv res" where
  "framework_plan service name sourceType found = (let
     start = jor (jget service ''startCommand'') (jget found ''startCommand'')
   in buildPlan ''framework'' name sourceType (imageFor name service)
     (''framework detected: '' @ to_str (jget found ''framework''))
     ([clone_step service] @ command_step ''install'' (jget found ''installCommand'') [] @
      command_step ''framework-build'' (jget found ''buildCommand'') [(''framework'', jget found ''framework'')] @
      [if jget found ''runtime'' = JStr ''static''
       then build_step ''static-container'' [(''server'', jor (jget found ''staticContainer'') (JStr ''caddy'')),
         (''outputDirectory'', jor (jget found ''outputDirectory'') (JStr ''.''))]
       else build_step ''package-runtime'' [(''startCommand'', start)],
       scan_step, push_step service])
     (plan_runtime (jor (jget service ''port'') (jor (jget found ''port'') (jnat DEFAULT_PORT))) start) found)"

definition buildpack_plan :: "jsv \<Rightarrow> string \<Rightarrow> jsv \<Rightarrow> string \<Rightarrow> jsv res" where
  "buildpack_plan service name sourceType requestedMode =
     buildPlan ''buildpack'' name sourceType (imageFor name service)
       (if requestedMode = ''buildpack'' then ''buildpack explicitly configured''
        else ''fallback to Cloud Native Buildpacks/Nixpacks style builder'')
       [clone_step service,
        build_step ''buildpack-detect'' [(''builders'', JArr (map JStr [''paketo'', ''herokuish'', ''nixpacks-compatible'']))],
        build_step ''buildpack-build'' [(''cache'', JBool True),
          (''timeoutSeconds'', jor (jget service ''buildTimeoutSeconds'') (jint 1200))],
        scan_step, push_step service]
       (plan_runtime (service_port service) (jor (jget service ''startCommand'') JNull)) JNull"

definition resolveBuildStrategy :: "json_parser \<Rightarrow> jsv \<Rightarrow> jsv \<Rightarrow> jsv res" where
  "resolveBuildStrategy parse service files0 = (let
     files = jdefault files0 (JObj []);
     sourceType = jor (jget service ''sourceType'') (JStr ''github'');
     requestedMode = normalizeMode (jget service ''buildMode'');
     name = slugify (jor (jget service ''name'') (JStr ''service'')) ''item'';
     img = jor (jget service ''image'') (jor (jget service ''imageUrl'') JNull)
   in if sourceType = JStr ''image'' \<or> requestedMode = ''prebuilt-image'' then
        (if \<not> truthy img then js_throw ''prebuilt image source requires service.image or service.imageUrl''
         else buildPlan ''prebuilt-image'' name sourceType img ''prebuilt container image provided'' []
           (plan_runtime (service_port service) JNull) JNull)
      else if requestedMode = ''dockerfile'' \<or> truthy (jget service ''dockerfilePath'') \<or>
          hasDockerfile files (jor (jget service ''dockerfilePath'') (JStr ''Dockerfile'')) then
        dockerfile_plan service name sourceType
      else if requestedMode = ''custom'' \<or> truthy (custom_command service) then
        custom_plan service name sourceType
      else rbind (detectFramework parse files) (\<lambda>found.
        if requestedMode = ''auto'' \<and> jget found ''framework'' \<noteq> JStr ''unknown''
        then framework_plan service name sourceType found
        else buildpack_plan service name sourceType requestedMode))"

section \<open>Lemmas\<close>

definition step_types :: "jsv \<Rightarrow> string list" where
  "step_types plan = map (\<lambda>s. to_str (jget s ''type'')) (items (jget plan ''buildSteps''))"

lemma buildPlan_fields:
  assumes "buildPlan mode name sourceType img reason steps runtime framework = Inr plan"
  shows "jget plan ''mode'' = JStr mode" "items (jget plan ''buildSteps'') = steps" "jget plan ''image'' = img"
  using assms by (auto simp: buildPlan_def rbind_Inr_iff split: prod.splits)

lemma build_step_type [simp]: "jget (build_step type fs) ''type'' = JStr type"
  by (simp add: build_step_def)

lemma command_step_types:
  "map (\<lambda>s. to_str (jget s ''type'')) (command_step type command extra) = (if truthy command then [type] else [])"
  by (simp add: command_step_def)

text \<open>The order every plan that builds an image has: fetch first, and push directly or
  indirectly after the scan, never before it.\<close>

definition scanned :: "string list \<Rightarrow> bool" where
  "scanned types = (\<exists>a b. types = ''clone-or-upload'' # a @ ''image-scan'' # b \<and> ''push'' \<notin> set a \<and> ''push'' \<in> set b)"

lemma scannedI: "''push'' \<notin> set a \<Longrightarrow> ''push'' \<in> set b \<Longrightarrow> scanned (''clone-or-upload'' # a @ ''image-scan'' # b)"
  unfolding scanned_def by blast

lemmas step_defs = step_types_def clone_step_def scan_step_def push_step_def command_step_types

lemma plan_scanned:
  assumes "buildPlan mode name st img reason steps rt fw = Inr plan"
    and "scanned (map (\<lambda>s. to_str (jget s ''type'')) steps)"
  shows "jget plan ''mode'' = JStr mode \<and> scanned (step_types plan)"
  using buildPlan_fields[OF assms(1)] assms(2) by (simp add: step_types_def)

lemma docker_scanned: "dockerfile_plan service name st = Inr plan \<Longrightarrow>
    jget plan ''mode'' = JStr ''dockerfile'' \<and> scanned (step_types plan)"
  unfolding dockerfile_plan_def Let_def
  using scannedI[of "[''docker-build'']" "[''image-sign'', ''push'']"]
  by (elim plan_scanned) (simp add: step_defs)

lemma custom_scanned: "custom_plan service name st = Inr plan \<Longrightarrow>
    jget plan ''mode'' = JStr ''custom'' \<and> scanned (step_types plan)"
  unfolding custom_plan_def Let_def
  using scannedI[of "(if truthy (jget service ''installCommand'') then [''install''] else []) @
      [''custom-build'', ''package-runtime'']" "[''push'']"]
  by (elim plan_scanned) (simp add: step_defs)

lemma framework_scanned: "framework_plan service name st found = Inr plan \<Longrightarrow>
    jget plan ''mode'' = JStr ''framework'' \<and> scanned (step_types plan)"
  unfolding framework_plan_def Let_def
  using scannedI[of "(if truthy (jget found ''installCommand'') then [''install''] else []) @
      (if truthy (jget found ''buildCommand'') then [''framework-build''] else []) @
      [if jget found ''runtime'' = JStr ''static'' then ''static-container'' else ''package-runtime'']" "[''push'']"]
  by (elim plan_scanned) (cases "jget found ''runtime'' = JStr ''static''"; simp add: step_defs)

lemma buildpack_scanned: "buildpack_plan service name st m = Inr plan \<Longrightarrow>
    jget plan ''mode'' = JStr ''buildpack'' \<and> scanned (step_types plan)"
  unfolding buildpack_plan_def Let_def
  using scannedI[of "[''buildpack-detect'', ''buildpack-build'']" "[''push'']"]
  by (elim plan_scanned) (simp add: step_defs)

section \<open>Properties\<close>

text \<open>Every build plan either deploys a given image without building, or fetches the source, scans
  the image it built and pushes it only after the scan; and a prebuilt image request without an image
  is an error.\<close>

theorem build_plan_scanned:
  "(resolveBuildStrategy parse service files = Inr plan \<longrightarrow>
      jget plan ''mode'' = JStr ''prebuilt-image'' \<and> step_types plan = [] \<and> truthy (jget plan ''image'') \<or>
      jget plan ''mode'' \<noteq> JStr ''prebuilt-image'' \<and> scanned (step_types plan)) \<and>
   (jget service ''sourceType'' = JStr ''image'' \<longrightarrow> \<not> truthy (jget service ''image'') \<longrightarrow>
      \<not> truthy (jget service ''imageUrl'') \<longrightarrow> \<not> is_ok (resolveBuildStrategy parse service files))"
proof (intro conjI impI)
  assume r: "resolveBuildStrategy parse service files = Inr plan"
  let ?img = "jor (jget service ''image'') (jor (jget service ''imageUrl'') JNull)"
  consider (pre) name st rt where "truthy ?img"
      "buildPlan ''prebuilt-image'' name st ?img ''prebuilt container image provided'' [] rt JNull = Inr plan"
    | (docker) name st where "dockerfile_plan service name st = Inr plan"
    | (custom) name st where "custom_plan service name st = Inr plan"
    | (framework) name st found where "framework_plan service name st found = Inr plan"
    | (buildpack) name st m where "buildpack_plan service name st m = Inr plan"
    using r unfolding resolveBuildStrategy_def Let_def
    by (auto simp: rbind_Inr_iff split: if_splits)
  then show "jget plan ''mode'' = JStr ''prebuilt-image'' \<and> step_types plan = [] \<and> truthy (jget plan ''image'') \<or>
      jget plan ''mode'' \<noteq> JStr ''prebuilt-image'' \<and> scanned (step_types plan)"
  proof cases
    case pre
    then show ?thesis using buildPlan_fields[OF pre(2)] by (simp add: step_types_def)
  qed (auto dest: docker_scanned custom_scanned framework_scanned buildpack_scanned)
qed (auto simp: resolveBuildStrategy_def Let_def jor_def)

theorem build_plan_scanned_witness:
  "scanned (step_types (projr (resolveBuildStrategy (\<lambda>_. None) (JObj [(''name'', JStr ''api'')])
     (JObj [(''go.mod'', JStr ''module x'')])))) \<and>
   \<not> is_ok (resolveBuildStrategy (\<lambda>_. None) (JObj [(''sourceType'', JStr ''image'')]) (JObj []))"
proof -
  let ?r = "resolveBuildStrategy (\<lambda>_. None) (JObj [(''name'', JStr ''api'')]) (JObj [(''go.mod'', JStr ''module x'')])"
  have ok: "?r = Inr (projr ?r)" by code_simp
  have mode: "jget (projr ?r) ''mode'' \<noteq> JStr ''prebuilt-image''" by code_simp
  let ?s = "JObj [(''sourceType'', JStr ''image'')]"
  have s: "jget ?s ''sourceType'' = JStr ''image''" "\<not> truthy (jget ?s ''image'')" "\<not> truthy (jget ?s ''imageUrl'')"
    by code_simp+
  show ?thesis
    using build_plan_scanned[THEN conjunct1, rule_format, OF ok] mode
      build_plan_scanned[THEN conjunct2, rule_format, OF s] by blast
qed

end
