(* ===== verification/BuildExecutor.thy ===== *)
theory BuildExecutor
  imports SourceControl Registry BuildStrategy Json
begin

text \<open>
  \<open>build-executor.ts\<close>: the commands of \<open>docker buildx\<close> and \<open>buildctl\<close>, the cache plan, the plan of a
  build with its paths below the source directory, and the run of a build against a host.
\<close>

section \<open>Commands\<close>

definition normalizeCacheEntries :: "jsv \<Rightarrow> string list" where
  "normalizeCacheEntries value = (if \<not> truthy value then []
     else filter (\<lambda>s. s \<noteq> []) (map (\<lambda>v. if is_nullish v then [] else str_trim (to_str v)) (if is_jarr value then items value else [value])))"

text \<open>An argument with the form of it that is printed.\<close>

type_synonym shown_arg = "string \<times> string"

definition shown :: "string \<Rightarrow> shown_arg" where
  "shown s = (s, s)"

definition flag_each :: "string \<Rightarrow> string list \<Rightarrow> shown_arg list" where
  "flag_each flag values = concat (map (\<lambda>v. [shown flag, shown v]) values)"

definition flag_if :: "string \<Rightarrow> jsv \<Rightarrow> shown_arg list" where
  "flag_if flag value = (if truthy value then [shown flag, shown (to_str value)] else [])"

definition build_arg :: "string \<times> jsv \<Rightarrow> shown_arg list" where
  "build_arg kv = (case kv of (key, value) \<Rightarrow> [shown ''--build-arg'', (key @ ''='' @ to_str value,
     key @ ''='' @ to_str (if isSecretKey (JStr key) then maskSecretValue value else value))])"

definition cache_args :: "jsv \<Rightarrow> shown_arg list" where
  "cache_args options = (if \<not> truthy (jdefault (jget options ''cache'') (JBool True)) then []
     else flag_each ''--cache-from'' (normalizeCacheEntries (jget options ''cacheFrom'')) @
       (let to = normalizeCacheEntries (jget options ''cacheTo'') in
        flag_each ''--cache-to'' (if to = [] then [''type=inline''] else to)))"

definition buildx_args :: "jsv \<Rightarrow> shown_arg list" where
  "buildx_args options = map shown [''buildx'', ''build'', ''--file'', to_str (jdefault (jget options ''dockerfile'') (JStr ''Dockerfile'')),
       ''--tag'', to_str (jget options ''image'')] @
     flag_if ''--metadata-file'' (jget options ''metadataFile'') @
     (if truthy (jget options ''push'') then [shown ''--push''] else []) @
     (if truthy (jget options ''load'') then [shown ''--load''] else []) @
     cache_args options @
     flag_each ''--platform'' (map to_str (items (jget options ''platforms''))) @
     concat (map build_arg (entries (jget options ''buildArgs''))) @
     flag_if ''--target'' (jget options ''target'') @
     [shown (to_str (jdefault (jget options ''context'') (JStr ''.'')))]"

definition dockerBuildxCommand :: "jsv \<Rightarrow> command_spec res" where
  "dockerBuildxCommand options = (if \<not> truthy (jget options ''image'') then js_throw ''image is required for docker buildx''
     else Inr \<lparr>executable = ''docker'', cmdArgs = map fst (buildx_args options), cmdCwd = JUndef, cmdEnv = [], cmdStdin = [],
       redacted = str_join '' '' (''docker'' # map snd (buildx_args options))\<rparr>)"

definition buildctlCommand :: "jsv \<Rightarrow> string \<Rightarrow> string \<Rightarrow> bool \<Rightarrow> command_spec" where
  "buildctlCommand img ctx dockerfile push = \<lparr>executable = ''buildctl'', cmdArgs = [''build'',
     ''--frontend'', ''dockerfile.v0'', ''--local'', ''context='' @ ctx, ''--local'', ''dockerfile='' @ dockerfile,
     ''--output'', ''type=image,name='' @ to_str img @ '',push='' @ (if push then ''true'' else ''false'')],
     cmdCwd = JUndef, cmdEnv = [], cmdStdin = [], redacted = []\<rparr>"

section \<open>The cache plan\<close>

definition CACHE_MOUNTS :: "(string \<times> string) list" where
  "CACHE_MOUNTS = [(''npm'', ''/root/.npm''), (''pnpm'', ''/root/.pnpm-store''), (''yarn'', ''/root/.cache/yarn''),
     (''pip'', ''/root/.cache/pip'')]"

definition packageManagerCacheMounts :: "jsv \<Rightarrow> jsv" where
  "packageManagerCacheMounts service = (let
     requested = jor (jget service ''packageManager'') (jor (jget service ''framework'') (jor (jget service ''language'') (JStr ''auto'')))
   in JArr (map (\<lambda>(manager, target). JObj [(''manager'', JStr manager), (''target'', JStr target)])
        (filter (\<lambda>(manager, _). requested = JStr ''auto'' \<or> str_includes (str_lower (to_str requested)) manager) CACHE_MOUNTS)))"

definition text_list :: "string list \<Rightarrow> jsv" where
  "text_list ss = JArr (map JStr ss)"

definition buildCachePlan :: "jsv \<Rightarrow> jsv \<Rightarrow> jsv \<Rightarrow> jsv" where
  "buildCachePlan service options img = (let
     buildCache = jget service ''buildCache'';
     disabled = (jget options ''cache'' = JBool False \<or> jget service ''cache'' = JBool False \<or> buildCache = JBool False);
     registryCache = (jget options ''registryCache'' = JBool True \<or> jget service ''registryCache'' = JBool True \<or>
       buildCache = JStr ''registry'' \<or> jget buildCache ''mode'' = JStr ''registry'');
     cacheRef = jor (jget options ''cacheRef'') (jor (jget service ''cacheRef'') (jor (jget buildCache ''ref'')
       (if truthy img then JStr (to_str img @ ''-buildcache'') else JNull)));
     own = (\<lambda>mode. if registryCache \<and> truthy cacheRef then JArr [JStr (''type=registry,ref='' @ to_str cacheRef @ mode)] else JArr []);
     cacheFrom = normalizeCacheEntries (jor (jget options ''cacheFrom'') (jor (jget service ''cacheFrom'') (own [])));
     cacheTo = normalizeCacheEntries (jor (jget options ''cacheTo'') (jor (jget service ''cacheTo'') (own '',mode=max'')))
   in JObj [(''enabled'', JBool (\<not> disabled)), (''registry'', JBool registryCache), (''ref'', cacheRef),
        (''cacheFrom'', text_list cacheFrom),
        (''cacheTo'', text_list (if disabled then [] else if cacheTo \<noteq> [] then cacheTo else [''type=inline''])),
        (''packageManagerMounts'', packageManagerCacheMounts service)])"

section \<open>Paths below the source directory\<close>

definition path_arg :: "jsv \<Rightarrow> string res" where
  "path_arg v = (if is_jstr v then Inr (to_str v) else js_throw ''The path argument must be of type string'')"

definition resolvePathWithinSourceDir :: "string \<Rightarrow> string \<Rightarrow> string \<Rightarrow> string \<Rightarrow> string res" where
  "resolvePathWithinSourceDir cwd sourceDir requestedPath field_name = (let
     sourceRoot = path_resolve cwd sourceDir; resolvedPath = path_resolve sourceRoot requestedPath;
     relative = path_relative sourceRoot resolvedPath
   in if relative = [] \<or> relative = ''.'' then Inr resolvedPath
      else if starts_with relative ''..'' \<or> starts_with relative ''/''
        then js_throw (field_name @ '' must stay within source directory'')
      else Inr resolvedPath)"

section \<open>The plan of a build\<close>

text \<open>The surroundings of a build besides the host.\<close>

record tools =
  tParseJson :: json_parser
  tParseUrl :: url_parser
  tEnv :: jsv
  tCwd :: string
  tSha256 :: "string \<Rightarrow> string"

definition option_of :: "string \<Rightarrow> jsv \<Rightarrow> jsv \<Rightarrow> jsv \<Rightarrow> jsv" where
  "option_of k options service default_value = jor (jget options k) (jor (jget service k) default_value)"

definition buildx_options :: "jsv \<Rightarrow> jsv \<Rightarrow> jsv \<Rightarrow> string \<Rightarrow> string \<Rightarrow> bool \<Rightarrow> jsv \<Rightarrow> jsv" where
  "buildx_options service options img ctx dockerfile push cachePlan = JObj [
     (''image'', img), (''context'', JStr ctx), (''dockerfile'', JStr dockerfile), (''push'', JBool push), (''load'', JBool (\<not> push)),
     (''platforms'', option_of ''platforms'' options service (JArr [])), (''buildArgs'', option_of ''buildArgs'' options service (JObj [])),
     (''target'', option_of ''target'' options service JNull), (''cache'', jget cachePlan ''enabled''),
     (''cacheFrom'', jget cachePlan ''cacheFrom''), (''cacheTo'', jget cachePlan ''cacheTo''),
     (''metadataFile'', option_of ''metadataFile'' options service JNull)]"

definition plan_command :: "jsv \<Rightarrow> jsv \<Rightarrow> jsv \<Rightarrow> string \<Rightarrow> string \<Rightarrow> bool \<Rightarrow> jsv \<Rightarrow> bool \<Rightarrow> command_spec res" where
  "plan_command service options img ctx dockerfile push cachePlan buildctl = (if buildctl
     then Inr (buildctlCommand img ctx (path_dirname dockerfile) push)
     else dockerBuildxCommand (buildx_options service options img ctx dockerfile push cachePlan))"

definition buildExecutionPlan :: "tools \<Rightarrow> jsv \<Rightarrow> jsv \<Rightarrow> jsv \<Rightarrow> jsv res" where
  "buildExecutionPlan t service files options =
     rbind (resolveBuildStrategy (tParseJson t) service files) (\<lambda>buildPlan.
     rbind (sourceCheckoutPlan (tParseUrl t) (tEnv t) service options) (\<lambda>checkout.
     rbind (path_arg (jor (jget options ''sourceDir'') (jor (jget checkout ''localPath'')
       (jor (jget checkout ''destination'') (JStr ''.''))))) (\<lambda>dir.
     rbind (path_arg (jor (jget service ''buildContext'') (jor (jget service ''rootDirectory'') (JStr ''.'')))) (\<lambda>requested.
     let sourceDir = path_resolve (tCwd t) dir in
     rbind (resolvePathWithinSourceDir (tCwd t) sourceDir requested ''buildContext'') (\<lambda>ctx.
     rbind (path_arg (jor (jget service ''dockerfilePath'') (JStr ''Dockerfile''))) (\<lambda>dockerfile.
     rbind (resolvePathWithinSourceDir (tCwd t) sourceDir dockerfile ''dockerfilePath'') (\<lambda>dockerfilePath.
     let img = jget buildPlan ''image''; push = truthy (jor (jget options ''push'') (jget service ''push''));
       builder = jor (jget options ''builder'') (JStr ''docker-buildx''); cachePlan = buildCachePlan service options img
     in rbind (plan_command service options img ctx dockerfilePath push cachePlan (builder = JStr ''buildctl'')) (\<lambda>command.
        Inr (JObj [(''service'', jget buildPlan ''service''), (''image'', img), (''mode'', jget buildPlan ''mode''),
          (''checkout'', checkout), (''builder'', builder), (''sourceDir'', JStr sourceDir), (''context'', JStr ctx),
          (''dockerfile'', JStr dockerfilePath), (''push'', JBool push), (''cache'', cachePlan),
          (''buildCommand'', JStr (commandToString command)),
          (''registryPush'', if push then JNull
             else JObj [(''note'', JStr ''image can be pushed later with registry push command'')]),
          (''buildPlan'', buildPlan)])))))))))"

section \<open>Running a build\<close>

definition imageRegistry :: "jsv \<Rightarrow> string" where
  "imageRegistry img = (let first = hd (str_split CHR ''/'' (to_str img)) in
     if CHR ''.'' \<in> set first then first else ''docker.io'')"

definition deterministicImageDigest :: "tools \<Rightarrow> jsv \<Rightarrow> jsv" where
  "deterministicImageDigest t img = JStr (''sha256:'' @ tSha256 t (to_str img))"

definition metadata_digest :: "tools \<Rightarrow> jsv \<Rightarrow> jsv" where
  "metadata_digest t txt = (case (if is_jstr txt then tParseJson t (to_str txt) else None) of None \<Rightarrow> JUndef
     | Some metadata \<Rightarrow> jor (jget metadata ''containerimage.digest'') (jget (jget metadata ''containerimage.descriptor'') ''digest''))"

definition resolveBuildDigest :: "host \<Rightarrow> tools \<Rightarrow> jsv \<Rightarrow> jsv \<Rightarrow> bool \<Rightarrow> jsv host_run" where
  "resolveBuildDigest h t metadataFile img dryRun = run_bind
     (if truthy metadataFile
      then run_bind (run_quiet (call h (ReadFile (to_str metadataFile)))) (\<lambda>txt. run_ret (Inr (metadata_digest t txt)))
      else run_ret (Inr JUndef)) (\<lambda>digest.
     run_ret (Inr (if truthy digest then JStr (to_str digest)
       else if dryRun then deterministicImageDigest t img else JNull)))"

definition safeCommandOutput :: "jsv \<Rightarrow> jsv \<Rightarrow> (string \<times> jsv) list" where
  "safeCommandOutput result options = (if \<not> truthy (jget options ''includeCommandOutput'') then []
     else [(''stdout'', sanitizeLogRecord (jor (jget result ''stdout'') (JStr []))),
       (''stderr'', sanitizeLogRecord (jor (jget result ''stderr'') (JStr [])))])"

definition default_install :: string where
  "default_install = ''if [ -f pnpm-lock.yaml ]; then corepack enable && pnpm install --frozen-lockfile; elif [ -f yarn.lock ]; then corepack enable && yarn install --frozen-lockfile; elif [ -f package-lock.json ]; then npm ci; elif [ -f requirements.txt ]; then pip install --cache-dir=/root/.cache/pip -r requirements.txt; elif [ -f package.json ]; then npm install; fi''"

definition synthetic_dockerfile :: "jsv \<Rightarrow> jsv \<Rightarrow> string" where
  "synthetic_dockerfile plan service = (let nl = [CHR 0x0A];
     start = jor (jget service ''startCommand'') (jor (jget (jget (jget plan ''buildPlan'') ''runtime'') ''startCommand'') (JStr ''npm start''));
     build = jor (jget service ''buildCommand'') (jor (jget service ''customBuildCommand'') (JStr ''npm run build --if-present''));
     install = jor (jget service ''installCommand'') (JStr default_install);
     prune = jor (jget service ''pruneCommand'') (JStr ''if [ -f package.json ]; then npm prune --omit=dev; fi'')
   in ''# syntax=docker/dockerfile:1.7'' @ nl @ ''FROM node:24-alpine'' @ nl @ ''WORKDIR /app'' @ nl @ ''COPY . .'' @ nl @
      ''RUN --mount=type=cache,target=/root/.npm --mount=type=cache,target=/root/.pnpm-store --mount=type=cache,target=/root/.cache/yarn --mount=type=cache,target=/root/.cache/pip '' @
      to_str install @ nl @ ''RUN '' @ to_str build @ nl @ ''RUN '' @ to_str prune @ nl @ ''RUN chown -R node:node /app'' @ nl @
      ''ENV NODE_ENV=production'' @ nl @ ''USER node'' @ nl @
      ''CMD '' @ json_stringify (JArr [JStr ''sh'', JStr ''-lc'', start]) @ nl)"

definition ensureSyntheticDockerfileIfNeeded :: "host \<Rightarrow> jsv \<Rightarrow> jsv \<Rightarrow> bool \<Rightarrow> jsv host_run" where
  "ensureSyntheticDockerfileIfNeeded h plan service dryRun = (let dockerfile = to_str (jget plan ''dockerfile'') in
     run_when (jget plan ''mode'' \<noteq> JStr ''dockerfile'' \<and> \<not> dryRun)
       (run_bind (call h (MakeDir (path_dirname dockerfile))) (\<lambda>_. call h (WriteFile dockerfile (synthetic_dockerfile plan service)))))"

definition typed_step :: "string \<Rightarrow> jsv \<Rightarrow> jsv" where
  "typed_step type v = jspread (JObj [(''type'', JStr type)]) v"

definition clone_if :: "host \<Rightarrow> tools \<Rightarrow> jsv \<Rightarrow> jsv \<Rightarrow> jsv \<Rightarrow> bool \<Rightarrow> (jsv list \<times> jsv) host_run" where
  "clone_if h t service options plan dryRun = (let checkout = jget plan ''checkout'' in
     if truthy (jget checkout ''required'')
     then run_bind (cloneRepository h (tParseUrl t) (tEnv t) (JObj [
         (''repoUrl'', jor (jget service ''repoUrl'') (jget service ''repositoryUrl'')),
         (''branch'', jor (jget service ''branch'') (JStr ''main'')),
         (''commitSha'', jor (jget service ''commitSha'') (jor (jget service ''commitHash'') JNull)),
         (''destination'', jget checkout ''destination''), (''workspaceDir'', jget options ''workspaceDir''),
         (''token'', jor (jget options ''githubToken'') (jget options ''token'')), (''dryRun'', JBool dryRun)])) (\<lambda>clone.
       run_ret (Inr ([typed_step ''git-clone'' clone], jget clone ''destination'')))
     else run_ret (Inr ([], jor (jget options ''sourceDir'') (jget plan ''sourceDir''))))"

definition push_if :: "host \<Rightarrow> bool \<Rightarrow> jsv \<Rightarrow> bool \<Rightarrow> jsv list host_run" where
  "push_if h b img dryRun = (if b then run_bind (pushImage h img dryRun) (\<lambda>r. run_ret (Inr [typed_step ''registry-push'' r]))
     else run_ret (Inr []))"

definition tag_if :: "host \<Rightarrow> jsv \<Rightarrow> jsv \<Rightarrow> jsv \<Rightarrow> bool \<Rightarrow> jsv list host_run" where
  "tag_if h service options img dryRun = (if truthy (jget options ''retagImage'')
     then run_bind (run_command h \<lparr>executable = ''docker'', cmdArgs = [''tag'', to_str (jor (jget service ''image'') (jget service ''imageUrl'')),
         to_str img], cmdCwd = JUndef, cmdEnv = [], cmdStdin = [], redacted = []\<rparr> dryRun) (\<lambda>tag.
       run_ret (Inr [JObj [(''type'', JStr ''docker-tag''), (''command'', jget tag ''command''), (''dryRun'', jget tag ''dryRun'')]]))
     else run_ret (Inr []))"

definition login_if :: "host \<Rightarrow> jsv \<Rightarrow> jsv \<Rightarrow> bool \<Rightarrow> jsv list host_run" where
  "login_if h options img dryRun = (if truthy (jget options ''registryUsername'') \<and> truthy (jget options ''registryPassword'')
     then run_bind (registryLogin h (JObj [(''registry'', jor (jget options ''registry'') (JStr (imageRegistry img))),
         (''username'', jget options ''registryUsername''), (''password'', jget options ''registryPassword''),
         (''dryRun'', JBool dryRun)])) (\<lambda>r. run_ret (Inr [typed_step ''registry-login'' r]))
     else run_ret (Inr []))"

definition finished_build :: "jsv \<Rightarrow> jsv \<Rightarrow> bool \<Rightarrow> jsv \<Rightarrow> jsv list \<Rightarrow> jsv" where
  "finished_build plan sourceDir dryRun imageDigest steps = jwith plan [(''sourceDir'', sourceDir), (''dryRun'', JBool dryRun),
     (''imageDigest'', imageDigest), (''steps'', JArr steps)]"

definition prebuilt_image :: "host \<Rightarrow> tools \<Rightarrow> jsv \<Rightarrow> jsv \<Rightarrow> jsv \<Rightarrow> bool \<Rightarrow> jsv \<Rightarrow> jsv list \<Rightarrow> jsv host_run" where
  "prebuilt_image h t service options plan dryRun sourceDir steps = (let img = jget plan ''image'' in
     run_bind (tag_if h service options img dryRun) (\<lambda>tagged.
     run_bind (push_if h (truthy (jget options ''push'')) img dryRun) (\<lambda>pushed.
     run_ret (Inr (finished_build plan sourceDir dryRun
       (jor (jget options ''imageDigest'') (if dryRun then deterministicImageDigest t img else JNull)) (steps @ tagged @ pushed))))))"

definition cache_of_plan :: "jsv \<Rightarrow> jsv" where
  "cache_of_plan plan = JObj [(''enabled'', JBool (jget (jget plan ''cache'') ''enabled'' \<noteq> JBool False)),
     (''cacheFrom'', jor (jget (jget plan ''cache'') ''cacheFrom'') (JArr [])),
     (''cacheTo'', jor (jget (jget plan ''cache'') ''cacheTo'') (JArr []))]"

definition run_build :: "host \<Rightarrow> tools \<Rightarrow> jsv \<Rightarrow> jsv \<Rightarrow> jsv \<Rightarrow> bool \<Rightarrow> jsv \<Rightarrow> jsv list \<Rightarrow> jsv host_run" where
  "run_build h t service options plan dryRun sourceDir steps = (let
     img = jget plan ''image''; push = truthy (jget plan ''push''); metadataFile = jor (jget options ''metadataFile'') (jget service ''metadataFile'')
   in run_bind (login_if h options img dryRun) (\<lambda>logged.
      run_bind (run_ret (plan_command service options img (to_str (jget plan ''context'')) (to_str (jget plan ''dockerfile''))
        push (cache_of_plan plan) (jget options ''builder'' = JStr ''buildctl''))) (\<lambda>command.
      run_bind (ensureSyntheticDockerfileIfNeeded h plan service dryRun) (\<lambda>_.
      run_bind (run_command h command dryRun) (\<lambda>result.
      run_bind (resolveBuildDigest h t metadataFile img dryRun) (\<lambda>imageDigest.
      run_bind (push_if h (\<not> push \<and> truthy (jget options ''pushAfterBuild'')) img dryRun) (\<lambda>pushed.
      run_ret (Inr (finished_build plan sourceDir dryRun imageDigest (steps @ logged @
        [JObj ([(''type'', JStr ''buildkit-build''), (''command'', jget result ''command''), (''dryRun'', jget result ''dryRun''),
           (''imageDigest'', imageDigest)] @ safeCommandOutput result options)] @ pushed))))))))))"

definition executeBuildWorkflow :: "host \<Rightarrow> tools \<Rightarrow> jsv \<Rightarrow> jsv \<Rightarrow> jsv \<Rightarrow> jsv host_run" where
  "executeBuildWorkflow h t service files options = (let dryRun = (jget options ''dryRun'' \<noteq> JBool False) in
     run_bind (run_ret (buildExecutionPlan t service files options)) (\<lambda>plan.
     run_bind (clone_if h t service options plan dryRun) (\<lambda>(steps, sourceDir).
     if jget service ''sourceType'' = JStr ''image'' \<or> jget plan ''mode'' = JStr ''prebuilt-image''
     then prebuilt_image h t service options plan dryRun sourceDir steps
     else run_build h t service options plan dryRun sourceDir steps)))"

section \<open>Where a build reads\<close>

lemma common_prefix_take: "take (common_prefix xs ys) xs = take (common_prefix xs ys) ys \<and> common_prefix xs ys \<le> length xs"
  by (induction xs arbitrary: ys) (auto split: list.splits)

lemma path_relative_inside:
  assumes "\<not> starts_with (path_relative from to) ''..''"
  shows "prefix (path_segments from) (path_segments to)"
proof -
  let ?a = "path_segments from" and ?b = "path_segments to"
  let ?n = "common_prefix ?a ?b"
  have "length ?a - ?n = 0"
  proof (rule ccontr)
    assume "length ?a - ?n \<noteq> 0"
    then obtain k where k: "length ?a - ?n = Suc k" using not0_implies_Suc by blast
    have "starts_with (str_join ''/'' (''..'' # xs)) ''..''" for xs
      by (cases xs) (simp_all add: starts_with_def)
    with assms show False by (simp add: path_relative_def Let_def k)
  qed
  then have "?n = length ?a" using common_prefix_take[of ?a ?b] by simp
  then have "?a = take (length ?a) ?b" using common_prefix_take[of ?a ?b] by simp
  then show ?thesis by (metis take_is_prefix)
qed

lemma resolved_inside:
  assumes "resolvePathWithinSourceDir cwd sourceDir requested k = Inr p"
  shows "prefix (path_segments (path_resolve cwd sourceDir)) (path_segments p)"
proof -
  let ?r = "path_relative (path_resolve cwd sourceDir) p"
  have "?r = [] \<or> ?r = ''.'' \<or> \<not> starts_with ?r ''..''"
    using assms by (auto simp: resolvePathWithinSourceDir_def Let_def split: if_splits)
  then have "\<not> starts_with ?r ''..''" by (auto simp: starts_with_def)
  then show ?thesis by (rule path_relative_inside)
qed

lemma resolve_again: "path_segments (path_resolve cwd (path_resolve cwd dir)) = path_segments (path_resolve cwd dir)"
proof -
  have "path_resolve cwd q = path_text (path_segments q)" if "starts_with q ''/''" for q
    using that by (simp add: path_resolve_def)
  moreover have "starts_with (path_resolve cwd dir) ''/''" by (simp add: path_resolve_def path_text_def starts_with_def)
  ultimately show ?thesis using path_segments_text[OF path_segments_normal] by simp
qed

text \<open>C20: A build reads nothing outside its source directory: in every plan the build context and the Dockerfile
  resolve to paths at or below it, whatever the service asks for, and no segment of them is a parent.\<close>

theorem build_paths_confined:
  assumes "buildExecutionPlan t service files options = Inr plan"
  shows "prefix (path_segments (to_str (jget plan ''sourceDir''))) (path_segments (to_str (jget plan ''context''))) \<and>
    prefix (path_segments (to_str (jget plan ''sourceDir''))) (path_segments (to_str (jget plan ''dockerfile''))) \<and>
    ''..'' \<notin> set (path_segments (to_str (jget plan ''context''))) \<union> set (path_segments (to_str (jget plan ''dockerfile'')))"
proof -
  obtain dir ctx requested dockerfile dockerfilePath where p:
    "jget plan ''sourceDir'' = JStr (path_resolve (tCwd t) dir)" "jget plan ''context'' = JStr ctx"
    "jget plan ''dockerfile'' = JStr dockerfilePath"
    "resolvePathWithinSourceDir (tCwd t) (path_resolve (tCwd t) dir) requested ''buildContext'' = Inr ctx"
    "resolvePathWithinSourceDir (tCwd t) (path_resolve (tCwd t) dir) dockerfile ''dockerfilePath'' = Inr dockerfilePath"
    using assms unfolding buildExecutionPlan_def Let_def rbind_Inr_iff by (elim exE conjE) (rule that, auto)
  have "''..'' \<notin> set (path_segments q)" for q
    using path_segments_normal[of q] by (auto simp: list_all_iff normal_segment_def)
  then show ?thesis
    using resolved_inside[OF p(4)] resolved_inside[OF p(5)] unfolding resolve_again p(1,2,3) by simp
qed

definition plain_tools :: tools where
  "plain_tools = \<lparr>tParseJson = (\<lambda>_. None), tParseUrl = (\<lambda>_. None), tEnv = JObj [], tCwd = ''/srv'', tSha256 = (\<lambda>_. ''00'')\<rparr>"

definition local_service :: jsv where
  "local_service = JObj [(''name'', JStr ''web''), (''sourceType'', JStr ''local''), (''localPath'', JStr ''apps/web''),
     (''buildContext'', JStr ''server/../api''), (''dockerfilePath'', JStr ''docker/Dockerfile'')]"

theorem build_paths_confined_witness:
  "prefix [''srv'', ''apps'', ''web''] (path_segments (to_str (jget (projr (buildExecutionPlan plain_tools local_service (JObj []) (JObj []))) ''context''))) \<and>
   \<not> is_ok (buildExecutionPlan plain_tools (jset local_service ''buildContext'' (JStr ''../other'')) (JObj []) (JObj []))"
proof -
  let ?r = "buildExecutionPlan plain_tools local_service (JObj []) (JObj [])"
  have "is_ok ?r" by code_simp
  then have r: "?r = Inr (projr ?r)" by (auto simp: is_ok_def split: sum.splits)
  have src: "path_segments (to_str (jget (projr ?r) ''sourceDir'')) = [''srv'', ''apps'', ''web'']" by code_simp
  have "\<not> is_ok (buildExecutionPlan plain_tools (jset local_service ''buildContext'' (JStr ''../other'')) (JObj []) (JObj []))"
    by code_simp
  with build_paths_confined[OF r] show ?thesis unfolding src by blast
qed

section \<open>What a build shows\<close>

definition mask_build_args :: "jsv \<Rightarrow> jsv" where
  "mask_build_args options = jset options ''buildArgs'' (JObj (map (\<lambda>(k, v).
     (k, if isSecretKey (JStr k) then maskSecretValue v else v)) (entries (jget options ''buildArgs''))))"

text \<open>The printed form of a \<open>docker buildx\<close> command shows of the build arguments under secret keys nothing
  but their masks: it is the same when the masks stand for the values from the start.\<close>

theorem printed_build_args:
  "rbind (dockerBuildxCommand (mask_build_args options)) (\<lambda>c. Inr (commandToString c)) =
   rbind (dockerBuildxCommand options) (\<lambda>c. Inr (commandToString c))"
proof -
  have "map snd (concat (map build_arg (entries (jget (mask_build_args options) ''buildArgs'')))) =
      map snd (concat (map build_arg (entries (jget options ''buildArgs''))))"
    by (simp add: mask_build_args_def map_concat build_arg_def comp_def split_beta if_distrib[of maskSecretValue] cong: if_cong)
  then have "map snd (buildx_args (mask_build_args options)) = map snd (buildx_args options)"
    by (simp add: buildx_args_def mask_build_args_def cache_args_def)
  moreover have "str_join '' '' (''docker'' # xs) \<noteq> []" for xs by (cases xs) simp_all
  ultimately show ?thesis by (simp add: dockerBuildxCommand_def commandToString_def mask_build_args_def)
qed

section \<open>Dry runs\<close>

fun only_reads :: "host_call \<Rightarrow> bool" where
  "only_reads (ReadFile p) = True"
| "only_reads c = False"

lemma dry_clone:
  assumes "jget options ''dryRun'' = JBool True"
  shows "makes_calls only_reads (cloneRepository h parse_url penv options)"
  unfolding cloneRepository_def Let_def assms askpass_for_def clone_steps_def
  by (intro host_calls_intros) (auto simp: run_ret_Inr forget_token_def intro!: host_calls_intros)

lemma dry_parts:
  "makes_calls only_reads (push_if h b img True)" "makes_calls only_reads (tag_if h service options img True)"
  "makes_calls only_reads (login_if h options img True)" "makes_calls only_reads (resolveBuildDigest h t m img b)"
  "makes_calls only_reads (ensureSyntheticDockerfileIfNeeded h plan service True)"
  unfolding push_if_def tag_if_def login_if_def resolveBuildDigest_def ensureSyntheticDockerfileIfNeeded_def pushImage_def
    registryLogin_def Let_def
  by (intro host_calls_intros; simp)+

text \<open>Without \<open>dryRun: false\<close> a build starts no process and writes no file: all it asks of the host is to
  read the metadata file.\<close>

theorem dry_build:
  assumes "executeBuildWorkflow h t service files options [] = (r, tr)" "jget options ''dryRun'' \<noteq> JBool False"
  shows "list_all only_reads tr"
proof -
  have "makes_calls only_reads (executeBuildWorkflow h t service files options)"
    unfolding executeBuildWorkflow_def clone_if_def prebuilt_image_def run_build_def Let_def
    using assms(2) by (intro host_calls_intros dry_clone dry_parts)
      (auto intro!: host_calls_intros dry_clone dry_parts split: prod.splits)
  then show ?thesis using assms(1) by (rule makes_calls_trace)
qed

theorem dry_build_witness:
  "list_all only_reads (snd (executeBuildWorkflow one_host plain_tools local_service (JObj []) (JObj []) []))"
  by (rule dry_build[OF surjective_pairing]) simp

end
