(* ===== verification/DeploymentWorkflow.thy ===== *)
theory DeploymentWorkflow
  imports StoreRefinement BuildExecutor
begin

text \<open>
  \<open>deployment-workflow.ts\<close> over the control plane store: the builder job, which takes a deployment from
  queued to an image or to a failed build, the rollout, and both as handlers of the store's workflow
  queue. \<open>ws k\<close> is the surroundings of the \<open>k\<close>-th part of a job, so time may pass between its store
  operations. The repository is the store; the fallbacks for other repositories are left out. An option
  is data, so it is never an instance of \<open>Error\<close>.
\<close>

section \<open>Reading a job\<close>

text \<open>\<open>try { m } catch (error) { h }\<close>\<close>

definition stry :: "'a op \<Rightarrow> (js_error \<Rightarrow> 'a op) \<Rightarrow> 'a op" where
  "stry m h = (\<lambda>s. case m s of (Inl e, s') \<Rightarrow> h e s' | (Inr x, s') \<Rightarrow> (Inr x, s'))"

definition BUILD_WORKFLOW_TYPES :: "string list" where
  "BUILD_WORKFLOW_TYPES = [''build-and-deploy'', ''preview-deploy'', ''build'', ''builder'']"

definition found :: "string \<Rightarrow> jsv \<Rightarrow> jsv op \<Rightarrow> jsv op" where
  "found kind i m = sbind m (\<lambda>row.
     slift (if truthy row then Inr row else js_throw (kind @ '' not found: '' @ to_str i)))"

definition job_payload :: "jsv \<Rightarrow> jsv" where
  "job_payload job = jor (jget job ''payload'') (JObj [])"

definition job_deployment :: "jsv \<Rightarrow> jsv" where
  "job_deployment job = jor (jget (job_payload job) ''deploymentId'')
     (if jget job ''targetType'' = JStr ''deployment'' then jget job ''targetId'' else JNull)"

text \<open>The deployment, the service and the project of a job\<close>

definition resolveDeploymentWorkflowState :: "jsv \<Rightarrow> (jsv \<times> jsv \<times> jsv) op" where
  "resolveDeploymentWorkflowState job = (let payload = job_payload job; deploymentId = job_deployment job in
     sthen (slift (if truthy deploymentId then Inr ()
        else js_throw ''workflow job payload.deploymentId or deployment targetId is required''))
     (sbind (found ''deployment'' deploymentId (getDeployment deploymentId)) (\<lambda>deployment.
     let serviceId = jor (jget deployment ''serviceId'') (jget payload ''serviceId'') in
     sbind (found ''service'' serviceId (getService serviceId)) (\<lambda>service.
     let projectId = jor (jget deployment ''projectId'') (jor (jget service ''projectId'') (jget payload ''projectId'')) in
     sbind (found ''project'' projectId (getProject projectId)) (\<lambda>project.
     sret (deployment, service, project))))))"

definition buildServiceInput :: "jsv \<Rightarrow> jsv \<Rightarrow> jsv \<Rightarrow> jsv \<Rightarrow> jsv \<Rightarrow> jsv" where
  "buildServiceInput deployment service project job options = (let
     desired = jspread (jspread (JObj []) (jget service ''desiredSpec'')) (jget service ''desiredState'');
     payload = job_payload job; slug = jor (jget project ''slug'') (jget project ''name'')
   in maskSecrets (jwith (jspread desired service) [
     (''project'', slug), (''projectSlug'', slug), (''organizationId'', jget project ''organizationId''),
     (''sourceType'', jor (jget payload ''sourceType'') (jget service ''sourceType'')),
     (''buildMode'', jor (jget payload ''buildMode'') (jget service ''buildMode'')),
     (''repoUrl'', jor (jget payload ''repoUrl'') (jget service ''repoUrl'')),
     (''branch'', jor (jget payload ''branch'') (jor (jget deployment ''branch'') (jor (jget service ''branch'') (JStr ''main'')))),
     (''commitSha'', jor (jget payload ''commitSha'') (jor (jget deployment ''commitSha'') (jor (jget deployment ''commitHash'') JNull))),
     (''image'', jor (jget deployment ''imageUrl'') (jor (jget payload ''image'') (jor (jget service ''image'') (jget service ''imageUrl'')))),
     (''imageUrl'', jor (jget deployment ''imageUrl'') (jor (jget payload ''imageUrl'') (jor (jget service ''imageUrl'') (jget service ''image'')))),
     (''imageDigest'', jor (jget deployment ''imageDigest'') (jor (jget payload ''imageDigest'') JNull)),
     (''registry'', jor (jget payload ''registry'') (jor (jget options ''registry'') (jor (jget service ''registry'') (jget desired ''registry'')))),
     (''revision'', jor (jget payload ''revision'') (jor (jget payload ''commitSha'') (jor (jget deployment ''commitSha'')
        (jor (jget deployment ''commitHash'') (jget desired ''revision''))))),
     (''localPath'', jor (jget payload ''localPath'') (jor (jget service ''localPath'') (jget desired ''localPath'')))]))"

text \<open>\<open>byService[service.id] || byService[service.slug] || byService[service.name] || ...\<close>\<close>

definition by_service :: "string \<Rightarrow> jsv \<Rightarrow> jsv \<Rightarrow> jsv \<Rightarrow> jsv" where
  "by_service option_name service options otherwise = (let
     table = entries (jor (jget options option_name) (JObj []));
     row = (\<lambda>k. table_get table (to_str (jget service k)))
   in jor (row ''id'') (jor (row ''slug'') (jor (row ''name'') otherwise)))"

definition filesForService :: "jsv \<Rightarrow> jsv \<Rightarrow> jsv" where
  "filesForService service options = by_service ''filesByService'' service options (jor (jget options ''files'') (JObj []))"

definition sourceDirForService :: "jsv \<Rightarrow> jsv \<Rightarrow> jsv \<Rightarrow> jsv" where
  "sourceDirForService service job options = by_service ''sourceDirsByService'' service options
     (jor (jget (jget job ''payload'') ''sourceDir'') (jor (jget (jget job ''payload'') ''localPath'')
     (jor (jget options ''sourceDir'') (jor (jget service ''localPath'') JUndef))))"

definition metadataFileForService :: "jsv \<Rightarrow> jsv \<Rightarrow> jsv" where
  "metadataFileForService service options = by_service ''metadataFilesByService'' service options JNull"

definition errorFromOption :: "jsv \<Rightarrow> string \<Rightarrow> 'a res" where
  "errorFromOption v fallback = js_throw (if is_jstr v then to_str v else fallback)"

definition build_options :: "jsv \<Rightarrow> jsv \<Rightarrow> jsv \<Rightarrow> bool \<Rightarrow> jsv" where
  "build_options service job options dryRun = JObj [
     (''dryRun'', JBool dryRun), (''push'', JBool (jget options ''push'' = JBool True)),
     (''pushAfterBuild'', JBool (jget options ''pushAfterBuild'' = JBool True)),
     (''builder'', jor (jget options ''builder'') (jor (jget service ''builder'')
        (jor (jget (jget job ''payload'') ''builder'') (JStr ''docker-buildx'')))),
     (''workspaceDir'', jget options ''workspaceDir''), (''sourceDir'', sourceDirForService service job options),
     (''metadataFile'', jor (jget options ''metadataFile'') (metadataFileForService service options)),
     (''includeCommandOutput'', JBool (jget options ''includeCommandOutput'' = JBool True)),
     (''buildArgs'', jspread (jspread (jspread (JObj []) (jget service ''buildArgs''))
        (jget (jget job ''payload'') ''buildArgs'')) (jget options ''buildArgs'')),
     (''registryUsername'', jget options ''registryUsername''), (''registryPassword'', jget options ''registryPassword''),
     (''registry'', jor (jget options ''registry'') (jget service ''registry'')), (''timeoutMs'', jget options ''timeoutMs'')]"

section \<open>The builder\<close>

type_synonym worlds = "nat \<Rightarrow> world"

definition build_log :: "world \<Rightarrow> jsv \<Rightarrow> jsv \<Rightarrow> jsv \<Rightarrow> jsv op" where
  "build_log w deploymentId step line = appendBuildLog w (JObj [(''deploymentId'', deploymentId), (''step'', step), (''line'', line)])"

definition deployment_event :: "world \<Rightarrow> jsv \<Rightarrow> string \<Rightarrow> jsv \<Rightarrow> jsv \<Rightarrow> jsv op" where
  "deployment_event w deploymentId type text_line metadata = appendDeploymentEvent w (JObj [(''deploymentId'', deploymentId),
     (''type'', JStr type), (''message'', text_line), (''metadata'', metadata)])"

definition writeBuildLogs :: "world \<Rightarrow> jsv \<Rightarrow> jsv \<Rightarrow> jsv list op" where
  "writeBuildLogs w deploymentId build = sthen (build_log w deploymentId (JStr ''plan'')
       (JStr (to_str (jget build ''mode'') @ '' build selected for image '' @ to_str (jget build ''image''))))
     (sfor (\<lambda>step. let line = jor (jget step ''command'') (jor (jget step ''detail'') (jget step ''type'')) in
        build_log w deploymentId (jor (jget step ''type'') (JStr ''build'')) (sanitizeLogRecord (jor line (JStr []))))
      (items (jor (jget build ''steps'') (JArr []))))"

definition begin_build :: "worlds \<Rightarrow> jsv \<Rightarrow> jsv \<Rightarrow> jsv \<Rightarrow> bool \<Rightarrow> jsv op" where
  "begin_build ws i job options dryRun =
     sthen (updateDeployment (ws 0) i (JObj [(''status'', JStr ''BUILDING''), (''buildStartedAt'', nowIso (wNow (ws 0))),
        (''errorCode'', JNull), (''errorMessage'', JNull)]) JUndef)
     (sthen (deployment_event (ws 1) i ''build.started'' (JStr ''builder claimed deployment and started image workflow'')
        (JObj [(''jobId'', jget job ''id''), (''workerId'', jor (jget options ''workerId'') (jor (jget options ''worker'')
          (jor (jget job ''lockedBy'') (JStr ''typescript-builder'')))), (''dryRun'', JBool dryRun)]))
     (build_log (ws 2) i (JStr ''claim'') (JStr (''claimed workflow job '' @ to_str (jor (jget job ''id'') i)))))"

definition image_ready :: "worlds \<Rightarrow> jsv \<Rightarrow> jsv \<Rightarrow> jsv \<Rightarrow> jsv \<Rightarrow> jsv \<Rightarrow> bool \<Rightarrow> jsv op" where
  "image_ready ws deployment service project input build dryRun = (let
     i = jget deployment ''id'';
     img = jor (jget build ''image'') (jor (jget (jget build ''buildPlan'') ''image'') (jor (jget input ''image'') (jget input ''imageUrl'')));
     imageDigest = jor (jget build ''imageDigest'') (jor (jget deployment ''imageDigest'') JNull)
   in sthen (updateDeployment (ws 5) i (JObj [(''status'', JStr ''IMAGE_READY''), (''imageUrl'', img), (''imageDigest'', imageDigest),
        (''buildFinishedAt'', nowIso (wNow (ws 5))), (''errorCode'', JNull), (''errorMessage'', JNull)]) JUndef)
     (sthen (updateService (ws 6) (jget service ''id'')
        (JObj [(''image'', img), (''imageUrl'', img), (''status'', JStr ''image-ready'')]))
     (sthen (deployment_event (ws 7) i ''build.image_ready'' (JStr ''image built and ready for orchestration'')
        (JObj [(''image'', img), (''imageDigest'', imageDigest), (''dryRun'', JBool dryRun), (''mode'', jget build ''mode'')]))
     (sret (JObj [(''deploymentId'', i), (''serviceId'', jget service ''id''), (''projectId'', jget project ''id''),
        (''image'', img), (''imageDigest'', imageDigest), (''status'', JStr ''IMAGE_READY''), (''dryRun'', JBool dryRun),
        (''mode'', jget build ''mode''), (''steps'', jor (jget build ''steps'') (JArr []))])))))"

definition build_deployment :: "worlds \<Rightarrow> host \<Rightarrow> tools \<Rightarrow> jsv \<Rightarrow> jsv \<Rightarrow> jsv \<Rightarrow> jsv \<Rightarrow> jsv \<Rightarrow> bool \<Rightarrow> jsv op" where
  "build_deployment ws h t deployment service project job options dryRun = (let
     i = jget deployment ''id''; input = buildServiceInput deployment service project job options
   in sthen (slift (if truthy (jget options ''failBuild'')
        then errorFromOption (jget options ''failBuild'') ''simulated build failure'' else Inr ()))
     (sbind (slift (fst (executeBuildWorkflow h t input (filesForService service options)
        (build_options service job options dryRun) []))) (\<lambda>build.
     sthen (writeBuildLogs (ws 3) i build)
     (sthen (if jget build ''mode'' \<noteq> JStr ''dockerfile'' \<and> jget build ''mode'' \<noteq> JStr ''prebuilt-image''
         then build_log (ws 4) i (JStr ''dockerfile'')
           (JStr (''generated Dockerfile workflow selected for '' @ to_str (jget build ''mode''))) else sret JUndef)
     (image_ready ws deployment service project input build dryRun)))))"

definition safe_message :: "js_error \<Rightarrow> jsv" where
  "safe_message e = sanitizeLogRecord (if message e \<noteq> [] then JStr (message e) else JStr ''Error'')"

definition fail_build :: "worlds \<Rightarrow> jsv \<Rightarrow> jsv \<Rightarrow> bool \<Rightarrow> js_error \<Rightarrow> jsv op" where
  "fail_build ws i job dryRun e = (let errorSpec = errorSpecForCode (JStr ''BUILD_FAILED''); text_line = safe_message e in
     sthen (appendBuildLog (ws 8) (JObj [(''deploymentId'', i), (''step'', JStr ''error''), (''line'', text_line),
        (''level'', JStr ''error'')]))
     (sthen (updateDeployment (ws 9) i (JObj [(''status'', JStr ''BUILD_FAILED''), (''buildFinishedAt'', nowIso (wNow (ws 9))),
        (''errorCode'', jget errorSpec ''code''), (''errorMessage'', text_line)]) JUndef)
     (sthen (deployment_event (ws 10) i ''build.failed'' text_line
        (JObj [(''jobId'', jget job ''id''), (''dryRun'', JBool dryRun), (''errorSpec'', errorSpec)]))
     (slift (Inl e)))))"

definition processBuilderWorkflowJob :: "worlds \<Rightarrow> host \<Rightarrow> tools \<Rightarrow> jsv \<Rightarrow> jsv \<Rightarrow> jsv op" where
  "processBuilderWorkflowJob ws h t job options = (let dryRun = (jget options ''dryRun'' \<noteq> JBool False) in
     sthen (slift (if to_str (jor (jget job ''type'') (JStr ''build-and-deploy'')) \<in> set BUILD_WORKFLOW_TYPES then Inr ()
        else js_throw (''unsupported deployment workflow type: '' @ to_str (jget job ''type''))))
     (sbind (resolveDeploymentWorkflowState job) (\<lambda>(deployment, service, project).
     sthen (begin_build ws (jget deployment ''id'') job options dryRun)
     (stry (build_deployment ws h t deployment service project job options dryRun)
        (fail_build ws (jget deployment ''id'') job dryRun)))))"

section \<open>The rollout\<close>

definition runtime_line :: "world \<Rightarrow> jsv \<Rightarrow> jsv \<Rightarrow> bool \<Rightarrow> (string \<times> jsv) list \<Rightarrow> jsv op" where
  "runtime_line w service deploymentId dryRun more_fields = appendRuntimeLog w (JObj ([(''serviceId'', jget service ''id''),
     (''deploymentId'', deploymentId), (''podName'', if dryRun then JStr ''dry-run''
        else JStr (to_str (jor (jget service ''slug'') (jget service ''name'')) @ ''-pod''))] @ more_fields))"

definition rollout_image :: "jsv \<Rightarrow> jsv \<Rightarrow> jsv" where
  "rollout_image deployment service = jor (jget deployment ''imageUrl'') (jor (jget service ''imageUrl'')
     (jor (jget service ''image'') JNull))"

definition rollout_ready :: "worlds \<Rightarrow> jsv \<Rightarrow> jsv \<Rightarrow> jsv \<Rightarrow> bool \<Rightarrow> jsv \<Rightarrow> jsv op" where
  "rollout_ready ws i deployment service dryRun url_host = (let img = rollout_image deployment service in
     sthen (updateDeployment (ws 3) i (JObj [(''status'', JStr ''READY''), (''deployedAt'', nowIso (wNow (ws 3))),
        (''finishedAt'', nowIso (wNow (ws 3))), (''errorCode'', JNull), (''errorMessage'', JNull)]) JUndef)
     (sthen (updateService (ws 4) (jget service ''id'') (JObj [(''status'', JStr ''ready''), (''imageUrl'', img)]))
     (sthen (deployment_event (ws 5) i ''rollout.ready'' (JStr ''Kubernetes rollout is ready'')
        (JObj [(''dryRun'', JBool dryRun), (''host'', url_host), (''image'', img)]))
     (sret (JObj [(''processed'', JBool True), (''deploymentId'', i), (''serviceId'', jget service ''id''),
        (''status'', JStr ''READY''), (''dryRun'', JBool dryRun)])))))"

definition roll_out :: "worlds \<Rightarrow> jsv \<Rightarrow> jsv \<Rightarrow> jsv \<Rightarrow> jsv \<Rightarrow> bool \<Rightarrow> jsv op" where
  "roll_out ws i deployment service options dryRun = (let
     url_host = jor (jget options ''host'') (jor (jget options ''urlHost'') JNull)
   in sthen (if normalizeDeploymentStatus (jget deployment ''status'') \<noteq> JStr ''DEPLOYING''
        then sthen (updateDeployment (ws 0) i (JObj [(''status'', JStr ''DEPLOYING'')]) JUndef)
          (deployment_event (ws 1) i ''rollout.started'' (JStr ''orchestrator started Kubernetes rollout'')
             (JObj [(''dryRun'', JBool dryRun)])) else sret JUndef)
     (sthen (slift (if truthy (jget options ''failRollout'')
        then errorFromOption (jget options ''failRollout'') ''simulated rollout failure'' else Inr ()))
     (sthen (runtime_line (ws 2) service i dryRun [
        (''containerName'', jor (jget service ''slug'') (jor (jget service ''name'') (JStr ''app''))),
        (''line'', if truthy url_host then JStr (''HTTP 200 '' @ to_str url_host) else JStr ''rollout status ready'')])
     (rollout_ready ws i deployment service dryRun url_host))))"

definition fail_rollout :: "worlds \<Rightarrow> jsv \<Rightarrow> jsv \<Rightarrow> bool \<Rightarrow> js_error \<Rightarrow> jsv op" where
  "fail_rollout ws i service dryRun e = (let errorSpec = errorSpecForCode (JStr ''ROLLOUT_FAILED''); text_line = safe_message e in
     sthen (runtime_line (ws 6) service i dryRun [(''containerName'', JStr ''orchestrator''), (''line'', text_line),
        (''level'', JStr ''error'')])
     (sthen (updateDeployment (ws 7) i (JObj [(''status'', JStr ''FAILED''), (''finishedAt'', nowIso (wNow (ws 7))),
        (''errorCode'', jget errorSpec ''code''), (''errorMessage'', text_line)]) JUndef)
     (sthen (deployment_event (ws 8) i ''rollout.failed'' text_line (JObj [(''dryRun'', JBool dryRun), (''errorSpec'', errorSpec)]))
     (slift (Inl e)))))"

definition reconcileDeploymentRollout :: "worlds \<Rightarrow> jsv \<Rightarrow> jsv \<Rightarrow> jsv op" where
  "reconcileDeploymentRollout ws deploymentId options = (let dryRun = (jget options ''dryRun'' \<noteq> JBool False) in
     sbind (found ''deployment'' deploymentId (getDeployment deploymentId)) (\<lambda>deployment.
     let status = normalizeDeploymentStatus (jget deployment ''status'') in
     if status \<noteq> JStr ''IMAGE_READY'' \<and> status \<noteq> JStr ''DEPLOYING''
     then sret (JObj [(''processed'', JBool False), (''deploymentId'', deploymentId), (''status'', status),
        (''reason'', JStr ''deployment_not_image_ready'')])
     else sbind (found ''service'' (jget deployment ''serviceId'') (getService (jget deployment ''serviceId''))) (\<lambda>service.
       stry (roll_out ws deploymentId deployment service options dryRun) (fail_rollout ws deploymentId service dryRun))))"

definition processBuildAndRolloutWorkflowJob :: "worlds \<Rightarrow> host \<Rightarrow> tools \<Rightarrow> jsv \<Rightarrow> jsv \<Rightarrow> jsv op" where
  "processBuildAndRolloutWorkflowJob ws h t job options =
     sbind (processBuilderWorkflowJob ws h t job options) (\<lambda>build.
     sbind (reconcileDeploymentRollout (\<lambda>k. ws (k + 11)) (jget build ''deploymentId'') options) (\<lambda>rollout.
     sret (jwith build [(''rollout'', rollout), (''status'', jor (jget rollout ''status'') (jget build ''status''))])))"

text \<open>\<open>createDeploymentWorkflowHandlers\<close>: the context of a run overrides the options.\<close>

definition createDeploymentWorkflowHandlers :: "worlds \<Rightarrow> host \<Rightarrow> tools \<Rightarrow> jsv \<Rightarrow> (string \<times> store handler) list" where
  "createDeploymentWorkflowHandlers ws h t options = map (\<lambda>type. (type, \<lambda>job ctx.
     processBuilderWorkflowJob ws h t job (jspread (jspread (JObj []) options) ctx))) [''build-and-deploy'', ''preview-deploy'']"

section \<open>Jobs are histories of store operations\<close>

context store_relation
begin

lemma keeps_stry: "keeps R m \<Longrightarrow> (\<And>e. keeps R (h e)) \<Longrightarrow> keeps R (stry m h)"
  by (simp add: keeps_def stry_def split_beta split: sum.split) (metis trans)

lemma keeps_found: "keeps R m \<Longrightarrow> keeps R (found kind i m)"
  unfolding found_def by (intro keeps_intros)

lemma keeps_resolve: "keeps R (resolveDeploymentWorkflowState job)"
  unfolding resolveDeploymentWorkflowState_def Let_def getDeployment_def getService_def getProject_def
  by (intro keeps_intros keeps_found)

text \<open>A relation kept by the five operations a job uses is kept by the job.\<close>

lemma keeps_workflow:
  assumes update: "\<And>w i u. keeps R (updateDeployment w i u JUndef)" "\<And>w i u. keeps R (updateService w i u)"
    and logs: "\<And>w x. keeps R (appendBuildLog w x)" "\<And>w x. keeps R (appendRuntimeLog w x)"
      "\<And>w x. keeps R (appendDeploymentEvent w x)"
  shows "keeps R (processBuilderWorkflowJob ws h t job options)" "keeps R (reconcileDeploymentRollout ws i options)"
    "keeps R (processBuildAndRolloutWorkflowJob ws h t job options)"
proof -
  note intros = keeps_intros keeps_stry keeps_found assms
  show builder: "keeps R (processBuilderWorkflowJob ws h t job options)" for ws h t job options
    unfolding processBuilderWorkflowJob_def begin_build_def build_deployment_def image_ready_def fail_build_def
      writeBuildLogs_def build_log_def deployment_event_def Let_def
    by (intro intros keeps_resolve)
  show rollout: "keeps R (reconcileDeploymentRollout ws i options)" for ws i options
    unfolding reconcileDeploymentRollout_def roll_out_def rollout_ready_def fail_rollout_def runtime_line_def deployment_event_def
      getDeployment_def getService_def Let_def
    by (intro intros)
  show "keeps R (processBuildAndRolloutWorkflowJob ws h t job options)"
    unfolding processBuildAndRolloutWorkflowJob_def by (intro intros builder rollout)
qed

end

interpretation history: store_relation evolves
  by unfold_locales (auto intro: evolves.refl evolves_trans)

lemma evolves_op: "(\<And>s. store_step s (outcome m s)) \<Longrightarrow> keeps evolves m"
  using evolves.step[OF evolves.refl] unfolding keeps_def outcome_def by blast

lemma workflow_history:
  "keeps evolves (processBuilderWorkflowJob ws h t job options)" "keeps evolves (reconcileDeploymentRollout ws i options)"
  "keeps evolves (processBuildAndRolloutWorkflowJob ws h t job options)"
  by (rule history.keeps_workflow; rule evolves_op; rule store_step.intros)+

section \<open>What a job does to the status of its deployment\<close>

definition has_row :: "jsv \<Rightarrow> store \<Rightarrow> bool" where
  "has_row i s = record_object (mget (deployments s) i)"

text \<open>Only deployment \<open>i\<close> may change, and it stays stored.\<close>

definition only_deployment :: "jsv \<Rightarrow> store \<Rightarrow> store \<Rightarrow> bool" where
  "only_deployment i s s' = ((\<forall>j. j \<noteq> i \<longrightarrow> mget (deployments s') j = mget (deployments s) j) \<and>
     (has_row i s \<longrightarrow> has_row i s'))"

definition same_deployments :: "store \<Rightarrow> store \<Rightarrow> bool" where
  "same_deployments s s' = (deployments s' = deployments s)"

interpretation only: store_relation "only_deployment i" for i
  by unfold_locales (auto simp: only_deployment_def)

interpretation same: store_relation same_deployments
  by unfold_locales (auto simp: same_deployments_def)

lemma same_smod: "(\<And>s. deployments (g s) = deployments s) \<Longrightarrow> keeps same_deployments (smod g)"
  by (rule keeps_smod) (simp add: same_deployments_def)

lemma same_audit: "keeps same_deployments (audit w a act tt ti meta)"
  unfolding audit_def by (rule same_smod) simp

lemma same_ops:
  "keeps same_deployments (updateService w j u)" "keeps same_deployments (appendBuildLog w x)"
  "keeps same_deployments (appendRuntimeLog w x)" "keeps same_deployments (appendDeploymentEvent w x)"
  unfolding updateService_def appendBuildLog_def appendRuntimeLog_def appendDeploymentEvent_def
  by (intro same.keeps_intros same_audit same_smod; simp)+

lemma only_same: "keeps same_deployments m \<Longrightarrow> keeps (only_deployment i) m"
  by (simp add: keeps_def same_deployments_def only_deployment_def has_row_def)

lemmas only_ops = same_ops[THEN only_same]

lemma only_update: "keeps (only_deployment i) (updateDeployment w i u JUndef)"
  unfolding keeps_def
proof
  fix s
  show "only_deployment i s (snd (updateDeployment w i u JUndef s))"
  proof (cases "truthy (mget (deployments s) i)")
    case True
    have "jget JUndef ''validateTransition'' \<noteq> JBool True" by simp
    then obtain y s' where "updateDeployment w i u JUndef s = (Inr y, s')"
      "\<exists>n. (has_row i s \<longrightarrow> record_object n) \<and> deployments s' = mput i n (deployments s)"
      unfolding has_row_def
      by (rule update_run[OF True, of JUndef w u]) (blast intro: record_object_jwith record_object_jspread)
    then show ?thesis by (auto simp: only_deployment_def has_row_def)
  next
    case False
    then show ?thesis by (simp add: updateDeployment_def only.refl)
  qed
qed

text \<open>\<open>lands i Q m\<close>: run on a store with deployment \<open>i\<close>, whether \<open>m\<close> returns and the status it leaves
  deployment \<open>i\<close> with satisfy \<open>Q\<close>.\<close>

definition row_status :: "jsv \<Rightarrow> store \<Rightarrow> jsv" where
  "row_status i s = jget (mget (deployments s) i) ''status''"

definition lands :: "jsv \<Rightarrow> (bool \<Rightarrow> jsv \<Rightarrow> bool) \<Rightarrow> 'a op \<Rightarrow> bool" where
  "lands i Q m = (\<forall>s r s'. has_row i s \<longrightarrow> m s = (r, s') \<longrightarrow> has_row i s' \<and> Q (is_ok r) (row_status i s'))"

lemma only_status: "only_deployment i s s' \<Longrightarrow> j \<noteq> i \<Longrightarrow> status_of s' j = status_of s j"
  by (simp add: only_deployment_def status_of_def)

lemma truthy_record: "record_object v \<Longrightarrow> truthy v"
  by (auto simp: record_object_def)

lemma has_row_truthy: "has_row i s \<Longrightarrow> truthy (mget (deployments s) i)"
  unfolding has_row_def by (rule truthy_record)

lemma row_status_of: "has_row i s \<Longrightarrow> row_status i s = JStr b \<Longrightarrow> b \<in> set DEPLOYMENT_STATUSES \<Longrightarrow> status_of s i = Some (JStr b)"
  using has_row_truthy[of i s] by (simp add: status_of_def row_status_def normalize_canonical)

lemma lands_update:
  assumes "b \<in> set DEPLOYMENT_STATUSES" "distinct (map fst ((''status'', JStr b) # kvs))"
  shows "lands i (\<lambda>ok st. ok \<and> st = JStr b) (updateDeployment w i (JObj ((''status'', JStr b) # kvs)) JUndef)"
  unfolding lands_def
proof (intro allI impI)
  fix s s' :: store and r
  let ?u = "JObj ((''status'', JStr b) # kvs)" and ?d = "mget (deployments s) i"
  assume row: "has_row i s" and run: "updateDeployment w i ?u JUndef s = (r, s')"
  note d = has_row_truthy[OF row]
  have u: "?u = jwith ?u [(''status'', JStr b)]" by (simp add: jwith_Cons jset_def jwith_def jspread_def)
  let ?n = "jwith (jspread ?d (next_updates w ?u ?d)) [(''updatedAt'', nowIso (wNow w))]"
  have "jget JUndef ''validateTransition'' \<noteq> JBool True" by simp
  with d obtain y where y: "r = Inr y" "deployments s' = mput i ?n (deployments s)"
    by (rule update_run[of s i JUndef w ?u]) (use run in simp)
  have ru: "record_object ?u" using assms(2) by (simp add: record_object_JObj)
  have "jget ?n ''status'' = JStr b"
    using next_updates_status[OF assms(1) ru, of w ?d, folded u]
    by (auto simp: jget_jwith_Nil jwith_Cons jget_jspread_distinct record_object_def)
  moreover have "record_object ?n" using row unfolding has_row_def by (intro record_object_jwith record_object_jspread)
  ultimately show "has_row i s' \<and> is_ok r \<and> row_status i s' = JStr b" using y by (simp add: has_row_def row_status_def)
qed

lemma lands_then:
  assumes "keeps (only_deployment i) m" "lands i Q k" "(\<forall>s. is_ok (fst (m s))) \<or> (\<forall>st. Q False st)"
  shows "lands i Q (sthen m k)"
  unfolding lands_def
proof (intro allI impI)
  fix s r s'
  assume d: "has_row i s" and run: "sthen m k s = (r, s')"
  obtain x s1 where m: "m s = (x, s1)" by (cases "m s")
  have "has_row i s1" using assms(1) m d by (auto simp: only_deployment_def dest: keepsD)
  moreover have "is_ok x \<or> (\<forall>st. Q False st)" using assms(3) m by (metis fst_conv)
  ultimately show "has_row i s' \<and> Q (is_ok r) (row_status i s')"
    using run m assms(2) by (cases x) (auto simp: sbind_run lands_def)
qed

lemma lands_same:
  assumes "lands i P m" "\<And>x. keeps same_deployments (f x)" "\<And>x s. is_ok (fst (f x s)) = b"
    "\<And>ok st. P ok st \<Longrightarrow> Q (ok \<and> b) st"
  shows "lands i Q (sbind m f)"
  unfolding lands_def
proof (intro allI impI)
  fix s s' :: store and r
  assume d: "has_row i s" and run: "sbind m f s = (r, s')"
  obtain x s1 where m: "m s = (x, s1)" by (cases "m s")
  then have s1: "has_row i s1 \<and> P (is_ok x) (row_status i s1)" using assms(1) d unfolding lands_def by blast
  show "has_row i s' \<and> Q (is_ok r) (row_status i s')"
  proof (cases x)
    case (Inl e)
    with run m s1 assms(4)[of False] show ?thesis by (auto simp: sbind_run)
  next
    case (Inr y)
    then have f: "f y s1 = (r, s')" using run m by (simp add: sbind_run)
    then have "deployments s' = deployments s1" using assms(2)[of y] by (auto simp: same_deployments_def dest: keepsD)
    moreover have "is_ok r = b" using assms(3)[of y s1] f by simp
    ultimately show ?thesis using s1 Inr assms(4)[of True] by (simp add: has_row_def row_status_def)
  qed
qed

lemma lands_try:
  assumes "lands i (\<lambda>ok st. ok \<longrightarrow> Q True st) m" "keeps (only_deployment i) m" "\<And>e. lands i Q (h e)"
  shows "lands i Q (stry m h)"
  unfolding lands_def
proof (intro allI impI)
  fix s s' :: store and r
  assume d: "has_row i s" and run: "stry m h s = (r, s')"
  obtain x s1 where m: "m s = (x, s1)" by (cases "m s")
  have d1: "has_row i s1" using assms(2) m d by (auto simp: only_deployment_def dest: keepsD)
  show "has_row i s' \<and> Q (is_ok r) (row_status i s')"
  proof (cases x)
    case (Inl e)
    with run m have "h e s1 = (r, s')" by (simp add: stry_def)
    with assms(3) d1 show ?thesis unfolding lands_def by blast
  next
    case (Inr y)
    with run m assms(1) d show ?thesis by (force simp: stry_def lands_def)
  qed
qed

lemma lands_weaken: "lands i P m \<Longrightarrow> (\<And>ok st. P ok st \<Longrightarrow> Q ok st) \<Longrightarrow> lands i Q m"
  unfolding lands_def by blast

lemma lands_lift: "(\<And>x. lands i (\<lambda>ok st. ok \<longrightarrow> P st) (f x)) \<Longrightarrow> lands i (\<lambda>ok st. ok \<longrightarrow> P st) (sbind (slift r) f)"
  by (cases r) (auto simp: lands_def)

lemma ok_ops [simp]:
  "is_ok (fst (appendBuildLog w x s))" "is_ok (fst (appendRuntimeLog w x s))" "is_ok (fst (appendDeploymentEvent w x s))"
  "is_ok (fst (updateService w j u s))"
  by (simp_all add: appendBuildLog_def appendRuntimeLog_def appendDeploymentEvent_def updateService_def Let_def)

lemma ok_sbind: "is_ok (fst (m s)) \<Longrightarrow> is_ok (fst (sbind m f s)) = is_ok (fst (f (projr (fst (m s))) (snd (m s))))"
  by (auto simp: sbind_run split: prod.splits sum.splits)

lemmas statuses = DEPLOYMENT_STATUSES_def

lemmas one_update = lands_same[OF lands_update] and tail_rules = same.keeps_intros same_ops

lemma image_ready_lands:
  assumes "jget deployment ''id'' = i"
  shows "lands i (\<lambda>ok st. ok \<and> st = JStr ''IMAGE_READY'') (image_ready ws deployment service project input build dryRun)"
  unfolding image_ready_def Let_def sthen_def deployment_event_def assms
  by (rule one_update[where b = True]) (simp add: statuses, simp, intro tail_rules, simp add: ok_sbind, simp)

lemma only_logs: "keeps (only_deployment i) (writeBuildLogs w j build)" "keeps (only_deployment i) (build_log w j x y)"
  "keeps (only_deployment i) (deployment_event w j x' y z)" "keeps (only_deployment i) (runtime_line w sv j b kvs)"
  unfolding writeBuildLogs_def build_log_def deployment_event_def runtime_line_def Let_def
  by (intro only.keeps_intros only_ops)+

lemma build_lands:
  assumes "jget deployment ''id'' = i"
  shows "lands i (\<lambda>ok st. ok \<longrightarrow> st = JStr ''IMAGE_READY'') (build_deployment ws h t deployment service project job options dryRun)"
proof -
  let ?Q = "\<lambda>ok st. ok \<longrightarrow> st = JStr ''IMAGE_READY''"
  have tail: "lands i ?Q (image_ready ws deployment service project input build dryRun)" for input build
    by (rule lands_weaken[OF image_ready_lands[OF assms]]) simp
  show ?thesis
    unfolding build_deployment_def Let_def
    by (intro lands_then lands_lift tail only.keeps_intros only_logs) simp_all
qed

lemma fail_build_lands: "lands i (\<lambda>ok st. \<not> ok \<and> st = JStr ''BUILD_FAILED'') (fail_build ws i job dryRun e)"
  unfolding fail_build_def Let_def deployment_event_def
  apply (rule lands_then[OF only_ops(2)])
   apply (unfold sthen_def)
   apply (rule one_update[where b = False])
       apply (simp add: statuses)
      apply simp
     apply (intro tail_rules)
    apply (simp add: ok_sbind)
   apply simp
  apply simp
  done

lemma only_image_ready: "jget deployment ''id'' = i \<Longrightarrow>
    keeps (only_deployment i) (image_ready ws deployment service project input build dryRun)"
  unfolding image_ready_def Let_def by (simp only:) (intro only.keeps_intros only_ops only_update only_logs)

lemma only_build: "jget deployment ''id'' = i \<Longrightarrow>
    keeps (only_deployment i) (build_deployment ws h t deployment service project job options dryRun)"
  unfolding build_deployment_def Let_def by (simp only:) (intro only.keeps_intros only_logs only_image_ready)

lemma only_begin: "keeps (only_deployment i) (begin_build ws i job options dryRun)"
  and only_fail: "keeps (only_deployment i) (fail_build ws i job dryRun e)"
  unfolding begin_build_def fail_build_def Let_def by (intro only.keeps_intros only_logs only_ops only_update)+

lemma found_Inr: "found kind i m s = (Inr row, s') \<longleftrightarrow> m s = (Inr row, s') \<and> truthy row"
  by (auto simp: found_def sbind_Inr split: if_splits)

lemma truthy_row: "truthy (row_or_null v) \<Longrightarrow> truthy v \<and> row_or_null v = deep_clone v"
  by (cases "truthy v") (simp_all add: row_or_null_def jor_def)

lemma resolve_state:
  assumes "resolveDeploymentWorkflowState job s = (Inr (deployment, service, project), s')"
  shows "s' = s" "truthy (mget (deployments s) (job_deployment job))"
    "deployment = deep_clone (mget (deployments s) (job_deployment job))"
  using assms
  by (auto simp: resolveDeploymentWorkflowState_def Let_def sthen_def sbind_Inr found_Inr getDeployment_def getService_def
      getProject_def js_throw_def dest: truthy_row split: if_splits)

interpretation unchanged: store_relation "\<lambda>s s'. s' = s"
  by unfold_locales simp_all

lemma resolve_same: "snd (resolveDeploymentWorkflowState job s) = s"
  using unchanged.keeps_resolve[of job] by (simp add: keeps_def)

lemma ok_update: "is_ok (fst (updateDeployment w i u JUndef s))"
proof (cases "truthy (mget (deployments s) i)")
  case True
  have "jget JUndef ''validateTransition'' \<noteq> JBool True" by simp
  then obtain y s' where "updateDeployment w i u JUndef s = (Inr y, s')"
    by (rule update_run[OF True, of JUndef w u])
  then show ?thesis by simp
next
  case False
  then show ?thesis by (simp add: updateDeployment_def)
qed

lemma builder_lands:
  assumes "jget deployment ''id'' = i"
  shows "lands i (\<lambda>ok st. st = JStr (if ok then ''IMAGE_READY'' else ''BUILD_FAILED''))
     (sthen (begin_build ws i job options dryRun)
        (stry (build_deployment ws h t deployment service project job options dryRun) (fail_build ws i job dryRun)))"
proof (rule lands_then[OF only_begin lands_try[OF _ only_build[OF assms]]])
  show "lands i (\<lambda>ok st. ok \<longrightarrow> st = JStr (if True then ''IMAGE_READY'' else ''BUILD_FAILED''))
     (build_deployment ws h t deployment service project job options dryRun)"
    using build_lands[OF assms] by (simp only: if_True)
  show "lands i (\<lambda>ok st. st = JStr (if ok then ''IMAGE_READY'' else ''BUILD_FAILED'')) (fail_build ws i job dryRun e)" for e
    by (rule lands_weaken[OF fail_build_lands]) simp
  show "(\<forall>s. is_ok (fst (begin_build ws i job options dryRun s))) \<or>
     (\<forall>st. st = JStr (if False then ''IMAGE_READY'' else ''BUILD_FAILED''))"
    by (simp add: begin_build_def deployment_event_def build_log_def ok_sbind ok_update)
qed

text \<open>The job is one the builder takes, and its deployment, service and project are stored.\<close>

definition buildable :: "jsv \<Rightarrow> store \<Rightarrow> bool" where
  "buildable job s = (to_str (jor (jget job ''type'') (JStr ''build-and-deploy'')) \<in> set BUILD_WORKFLOW_TYPES \<and>
     is_ok (fst (resolveDeploymentWorkflowState job s)))"

definition stored_under :: "jsv \<Rightarrow> store \<Rightarrow> bool" where
  "stored_under i s = (has_row i s \<and> jget (mget (deployments s) i) ''id'' = i \<and> is_jstr i)"

lemma clone_id: "stored_under i s \<Longrightarrow> jget (deep_clone (mget (deployments s) i)) ''id'' = i"
  by (auto simp: stored_under_def has_row_def jget_clone is_jstr_def split: jsv.splits)

lemma image_ready_id: "image_ready ws deployment service project input build dryRun s = (Inr x, s') \<Longrightarrow>
    jget x ''deploymentId'' = jget deployment ''id''"
  by (auto simp: image_ready_def Let_def sthen_def sbind_Inr)

lemma build_id: "build_deployment ws h t deployment service project job options dryRun s = (Inr x, s') \<Longrightarrow>
    jget x ''deploymentId'' = jget deployment ''id''"
  unfolding build_deployment_def Let_def sthen_def sbind_Inr by (elim exE conjE) (rule image_ready_id)

lemma fail_build_Inl: "fail_build ws i job dryRun e s \<noteq> (Inr x, s')"
  unfolding fail_build_def Let_def sthen_def sbind_Inr by simp

lemma refused_job:
  assumes "processBuilderWorkflowJob ws h t job options s = (r, s')" "\<not> buildable job s"
  shows "\<not> is_ok r \<and> s' = s"
proof -
  obtain q s0 where q: "resolveDeploymentWorkflowState job s = (q, s0)" by (cases "resolveDeploymentWorkflowState job s")
  moreover have "s0 = s" using resolve_same[of job s] q by simp
  ultimately show ?thesis using assms
    by (cases q) (auto simp: processBuilderWorkflowJob_def buildable_def sbind_run js_throw_def Let_def split: if_splits)
qed

lemma built_job:
  assumes "processBuilderWorkflowJob ws h t job options s = (r, s')" "i = job_deployment job" "stored_under i s"
    "buildable job s"
  shows "only_deployment i s s' \<and> has_row i s' \<and> row_status i s' = JStr (if is_ok r then ''IMAGE_READY'' else ''BUILD_FAILED'') \<and>
    (\<forall>x. r = Inr x \<longrightarrow> jget x ''deploymentId'' = i)"
proof -
  let ?dry = "jget options ''dryRun'' \<noteq> JBool False"
  obtain q s0 where q: "resolveDeploymentWorkflowState job s = (q, s0)" by (cases "resolveDeploymentWorkflowState job s")
  have s0: "s0 = s" using resolve_same[of job s] q by simp
  obtain deployment service project where d: "q = Inr (deployment, service, project)"
    using q assms(4) by (cases q) (auto simp: buildable_def)
  have id: "jget deployment ''id'' = i"
    using clone_id[OF assms(3)] resolve_state(3)[OF q[unfolded d]] assms(2) by simp
  let ?m = "sthen (begin_build ws i job options ?dry)
      (stry (build_deployment ws h t deployment service project job options ?dry) (fail_build ws i job ?dry))"
  have run: "?m s = (r, s')"
    using assms(1,4) by (simp add: processBuilderWorkflowJob_def buildable_def Let_def
        sbind_run[of "resolveDeploymentWorkflowState job"] q d s0 id)
  have "keeps (only_deployment i) ?m"
    by (intro only.keeps_intros only.keeps_stry only_begin only_build[OF id] only_fail)
  then have "only_deployment i s s'" using run by (rule keepsD)
  moreover have "has_row i s' \<and> row_status i s' = JStr (if is_ok r then ''IMAGE_READY'' else ''BUILD_FAILED'')"
    using builder_lands[OF id] run assms(3) unfolding lands_def stored_under_def by blast
  moreover have "jget x ''deploymentId'' = i" if r: "r = Inr x" for x
  proof -
    obtain s1 where "stry (build_deployment ws h t deployment service project job options ?dry) (fail_build ws i job ?dry) s1 = (Inr x, s')"
      using run unfolding r by (auto simp: sbind_Inr)
    then show ?thesis using build_id[of ws h t deployment] id fail_build_Inl by (auto simp: stry_def split: prod.splits sum.splits)
  qed
  ultimately show ?thesis by blast
qed

section \<open>What a rollout does to the status of its deployment\<close>

lemma rollout_ready_lands:
  "lands i (\<lambda>ok st. ok \<and> st = JStr ''READY'') (rollout_ready ws i deployment service dryRun url_host)"
  unfolding rollout_ready_def Let_def sthen_def deployment_event_def
  by (rule one_update[where b = True]) (simp add: statuses, simp, intro tail_rules, simp add: ok_sbind, simp)

lemma roll_out_lands: "lands i (\<lambda>ok st. ok \<longrightarrow> st = JStr ''READY'') (roll_out ws i deployment service options dryRun)"
proof -
  have tail: "lands i (\<lambda>ok st. ok \<longrightarrow> st = JStr ''READY'') (rollout_ready ws i deployment service dryRun url_host)" for url_host
    by (rule lands_weaken[OF rollout_ready_lands]) simp
  show ?thesis
    unfolding roll_out_def Let_def
    by (intro lands_then tail only.keeps_intros only_ops only_update only_logs) simp_all
qed

lemma fail_rollout_lands: "lands i (\<lambda>ok st. \<not> ok \<and> st = JStr ''FAILED'') (fail_rollout ws i service dryRun e)"
  unfolding fail_rollout_def Let_def deployment_event_def
  apply (rule lands_then)
    apply (rule only_logs)
   apply (unfold sthen_def)
   apply (rule one_update[where b = False])
       apply (simp add: statuses)
      apply simp
     apply (intro tail_rules)
    apply (simp add: ok_sbind)
   apply simp
  apply (simp add: runtime_line_def)
  done

lemma only_roll_out: "keeps (only_deployment i) (roll_out ws i deployment service options dryRun)"
  and only_fail_rollout: "keeps (only_deployment i) (fail_rollout ws i service dryRun e)"
  unfolding roll_out_def rollout_ready_def fail_rollout_def Let_def by (intro only.keeps_intros only_logs only_ops only_update)+

lemma only_reconcile: "keeps (only_deployment i) (reconcileDeploymentRollout ws i options)"
  unfolding reconcileDeploymentRollout_def Let_def getDeployment_def getService_def
  by (intro only.keeps_intros only.keeps_found only.keeps_stry only_roll_out only_fail_rollout)

text \<open>A rollout that finds the deployment's image ready ends ready, failed, or untouched.\<close>

lemma rollout_lands:
  assumes "reconcileDeploymentRollout ws i options s = (r, s')" "has_row i s" "row_status i s = JStr ''IMAGE_READY''"
  shows "has_row i s' \<and> (if is_ok r then row_status i s' = JStr ''READY''
     else row_status i s' = JStr ''FAILED'' \<or> row_status i s' = JStr ''IMAGE_READY'')"
proof -
  let ?d = "deep_clone (mget (deployments s) i)" and ?dry = "jget options ''dryRun'' \<noteq> JBool False"
  have row: "getDeployment i s = (Inr ?d, s)" "truthy ?d"
    using has_row_truthy[OF assms(2)] truthy_record[OF record_object_clone] assms(2)
    by (simp_all add: getDeployment_def row_or_null_def jor_def has_row_def)
  have "jget ?d ''status'' = JStr ''IMAGE_READY''"
    using assms(2,3) by (simp add: jget_clone has_row_def row_status_def)
  then have st: "normalizeDeploymentStatus (jget ?d ''status'') = JStr ''IMAGE_READY''"
    by (simp add: normalize_canonical statuses)
  obtain x s1 where g: "found ''service'' (jget ?d ''serviceId'') (getService (jget ?d ''serviceId'')) s = (x, s1)"
    by (cases "found ''service'' (jget ?d ''serviceId'') (getService (jget ?d ''serviceId'')) s")
  have "keeps (\<lambda>s s'. s' = s) (found ''service'' (jget ?d ''serviceId'') (getService (jget ?d ''serviceId'')))"
    unfolding getService_def by (intro unchanged.keeps_found unchanged.keeps_intros)
  then have s1: "s1 = s" using g by (auto dest: keepsD)
  have run: "(case x of Inl e \<Rightarrow> (Inl e, s) | Inr service \<Rightarrow>
     stry (roll_out ws i ?d service options ?dry) (fail_rollout ws i service ?dry) s) = (r, s')"
    using assms(1) g unfolding reconcileDeploymentRollout_def Let_def s1
    by (simp add: found_def[of "''deployment''"] sbind_assoc sbind_run[of "getDeployment i"] row st
        sbind_run[of "found _ _ _"] split: sum.splits)
  show ?thesis
  proof (cases x)
    case (Inl e)
    with run assms show ?thesis by auto
  next
    case (Inr service)
    have "lands i (\<lambda>ok st. if ok then st = JStr ''READY'' else st = JStr ''FAILED'')
       (stry (roll_out ws i ?d service options ?dry) (fail_rollout ws i service ?dry))"
      by (rule lands_try[OF lands_weaken[OF roll_out_lands] only_roll_out lands_weaken[OF fail_rollout_lands]]) simp_all
    with run Inr assms(2) show ?thesis unfolding lands_def by (auto split: if_splits)
  qed
qed

section \<open>Properties\<close>

lemma statuses_after:
  assumes "only_deployment i s s'" "has_row i s'" "row_status i s' = JStr b" "b \<in> set DEPLOYMENT_STATUSES"
  shows "status_of s' = (status_of s)(i \<mapsto> JStr b)"
  using only_status[OF assms(1)] row_status_of[OF assms(2-4)] by auto

lemma build_statuses: "(if b then ''IMAGE_READY'' else ''BUILD_FAILED'') \<in> set DEPLOYMENT_STATUSES"
  by (simp add: statuses)

text \<open>C13: A builder job on a store either is refused and changes nothing, because its type is not one of
  the builder's or its deployment, service or project is missing, or it gives its deployment a final
  status of the build: \<open>IMAGE_READY\<close> when the job returns and \<open>BUILD_FAILED\<close> when it throws, whatever the
  build tools answer. No other deployment changes its status.\<close>

theorem builder_outcome:
  assumes "processBuilderWorkflowJob ws h t job options s = (r, s')" "i = job_deployment job" "stored_under i s"
  shows "if buildable job s
    then status_of s' = (status_of s)(i \<mapsto> JStr (if is_ok r then ''IMAGE_READY'' else ''BUILD_FAILED''))
    else \<not> is_ok r \<and> s' = s"
  using refused_job[OF assms(1)] built_job[OF assms] statuses_after[OF _ _ _ build_statuses] by (cases "buildable job s") simp_all

definition delivery_store :: store where
  "delivery_store = empty_store\<lparr>projects := [(JStr ''prj_1'', JObj [(''id'', JStr ''prj_1''), (''slug'', JStr ''shop'')])],
     services := [(JStr ''svc_1'', JObj [(''id'', JStr ''svc_1''), (''projectId'', JStr ''prj_1''), (''name'', JStr ''web'')])],
     deployments := [(JStr ''dep_1'', JObj [(''id'', JStr ''dep_1''), (''serviceId'', JStr ''svc_1''), (''status'', JStr ''queued'')])]\<rparr>"

definition delivery_job :: "string \<Rightarrow> jsv" where
  "delivery_job type = JObj [(''id'', JStr ''job_1''), (''type'', JStr type), (''targetType'', JStr ''deployment''),
     (''targetId'', JStr ''dep_1'')]"

lemma delivery_facts:
  "job_deployment (delivery_job type) = JStr ''dep_1''" "stored_under (JStr ''dep_1'') delivery_store"
  "buildable (delivery_job ''build'') delivery_store" "\<not> buildable (delivery_job ''backup'') delivery_store"
proof -
  show "job_deployment (delivery_job type) = JStr ''dep_1''" by (simp add: job_deployment_def delivery_job_def job_payload_def jor_def)
  show "stored_under (JStr ''dep_1'') delivery_store"
    by (simp add: stored_under_def has_row_def delivery_store_def mget_def record_object_JObj is_jstr_def)
  show "buildable (delivery_job ''build'') delivery_store" "\<not> buildable (delivery_job ''backup'') delivery_store" by code_simp+
qed

theorem builder_outcome_witness:
  "(\<exists>b \<in> {''IMAGE_READY'', ''BUILD_FAILED''}. status_of
     (snd (processBuilderWorkflowJob (\<lambda>_. sample_world) one_host plain_tools (delivery_job ''build'') JUndef delivery_store))
     (JStr ''dep_1'') = Some (JStr b)) \<and>
   snd (processBuilderWorkflowJob (\<lambda>_. sample_world) one_host plain_tools (delivery_job ''backup'') JUndef delivery_store) = delivery_store"
  using builder_outcome[OF surjective_pairing delivery_facts(1)[symmetric] delivery_facts(2),
      of "''build''" "\<lambda>_. sample_world" one_host plain_tools JUndef]
    builder_outcome[OF surjective_pairing delivery_facts(1)[symmetric] delivery_facts(2),
      of "''backup''" "\<lambda>_. sample_world" one_host plain_tools JUndef]
    delivery_facts(3,4) by (auto split: if_splits)

text \<open>A job that builds and rolls out ends with its deployment \<open>READY\<close> when it returns; when it throws
  after it was accepted, the deployment is \<open>BUILD_FAILED\<close>, \<open>FAILED\<close>, or keeps its image because its
  service is gone. No other deployment changes its status.\<close>

theorem delivery_outcome:
  assumes "processBuildAndRolloutWorkflowJob ws h t job options s = (r, s')" "i = job_deployment job" "stored_under i s"
    "buildable job s"
  shows "\<exists>b \<in> (if is_ok r then {''READY''} else {''BUILD_FAILED'', ''FAILED'', ''IMAGE_READY''}).
    status_of s' = (status_of s)(i \<mapsto> JStr b)"
proof -
  obtain x s1 where b: "processBuilderWorkflowJob ws h t job options s = (x, s1)"
    by (cases "processBuilderWorkflowJob ws h t job options s")
  note built = built_job[OF b assms(2-4)]
  show ?thesis
  proof (cases x)
    case (Inl e)
    then have "r = Inl e" "s' = s1" using assms(1) b by (simp_all add: processBuildAndRolloutWorkflowJob_def sbind_run)
    then show ?thesis using built Inl statuses_after[of i s s1 "''BUILD_FAILED''"] by (simp add: statuses)
  next
    case (Inr build)
    obtain y s2 where c: "reconcileDeploymentRollout (\<lambda>k. ws (k + 11)) i options s1 = (y, s2)"
      by (cases "reconcileDeploymentRollout (\<lambda>k. ws (k + 11)) i options s1")
    have r: "is_ok r = is_ok y" "s' = s2" using assms(1) b c built Inr
      by (auto simp: processBuildAndRolloutWorkflowJob_def sbind_run split: sum.splits)
    have s2: "has_row i s2 \<and> (if is_ok y then row_status i s2 = JStr ''READY''
       else row_status i s2 = JStr ''FAILED'' \<or> row_status i s2 = JStr ''IMAGE_READY'')"
      using built Inr by (intro rollout_lands[OF c]) simp_all
    have only: "only_deployment i s s2"
      using built keepsD[OF only_reconcile c] only.trans by blast
    show ?thesis
      unfolding r using s2 statuses_after[OF only, of "''READY''"] statuses_after[OF only, of "''FAILED''"]
        statuses_after[OF only, of "''IMAGE_READY''"] by (cases "is_ok y") (auto simp: statuses)
  qed
qed

theorem delivery_outcome_witness:
  "\<exists>b \<in> {''READY'', ''BUILD_FAILED'', ''FAILED'', ''IMAGE_READY''}. status_of
     (snd (processBuildAndRolloutWorkflowJob (\<lambda>_. sample_world) one_host plain_tools (delivery_job ''build'') JUndef delivery_store))
     (JStr ''dep_1'') = Some (JStr b)"
  using delivery_outcome[OF surjective_pairing delivery_facts(1)[symmetric] delivery_facts(2,3),
    of "\<lambda>_. sample_world" one_host plain_tools JUndef] by (auto split: if_splits)

text \<open>Builder and rollout jobs are histories of store operations: from a reachable store they lead to
  a reachable store, whether they return or throw, so every invariant of reachable stores holds after
  them and the audit trail only grows.\<close>

theorem workflow_reachable:
  assumes "reachable s"
  shows "reachable (snd (processBuildAndRolloutWorkflowJob ws h t job options s)) \<and>
    evolves s (snd (processBuildAndRolloutWorkflowJob ws h t job options s))"
  using evolves_trans[OF _ assms] workflow_history(3) unfolding keeps_def by blast

theorem workflow_reachable_witness:
  "reachable (snd (processBuildAndRolloutWorkflowJob ws h t job options
     (outcome (createOrganization sample_world (JObj [(''name'', JStr ''Acme'')])) empty_store)))"
  by (rule workflow_reachable[THEN conjunct1]) (rule reachable_first store_step.intros)+

interpretation queued: store_relation "\<lambda>s s'. workflowJobs s' = workflowJobs s"
  by unfold_locales simp_all

lemma queued_ops:
  "keeps (\<lambda>s s'. workflowJobs s' = workflowJobs s) (updateDeployment w i u JUndef)"
  "keeps (\<lambda>s s'. workflowJobs s' = workflowJobs s) (updateService w i u)"
  "keeps (\<lambda>s s'. workflowJobs s' = workflowJobs s) (appendBuildLog w x)"
  "keeps (\<lambda>s s'. workflowJobs s' = workflowJobs s) (appendRuntimeLog w x)"
  "keeps (\<lambda>s s'. workflowJobs s' = workflowJobs s) (appendDeploymentEvent w x)"
  unfolding updateDeployment_def updateService_def appendBuildLog_def appendRuntimeLog_def appendDeploymentEvent_def audit_def
  by (intro queued.keeps_intros keeps_smod; simp)+

lemma handlers_quiet: "\<forall>(n, f) \<in> set (createDeploymentWorkflowHandlers ws h t options). stq.quiet f"
  using queued.keeps_workflow(1)[OF queued_ops]
  by (auto simp: createDeploymentWorkflowHandlers_def stq.quiet_def keeps_def)

text \<open>Processing a job of the store's queue is a history of store operations when its handlers are.\<close>

lemma as_result_Inr: "as_result p = Inr (x, s') \<longleftrightarrow> p = (Inr x, s')"
  by (cases p) (auto simp: as_result_def split: sum.split)

lemma history_op: "m s = (r, s') \<Longrightarrow> store_step s (outcome m s) \<Longrightarrow> evolves s s'"
  using evolves.step[OF evolves.refl] by (metis outcome_def snd_conv)

lemma fail_history: "failInQueue (store_queue w) q claim c options t = Inr q' \<Longrightarrow> evolves q q'"
  by (auto simp: store_queue_def rbind_Inr_iff as_result_Inr intro: history_op[OF _ store_step.intros(26)])

lemma complete_history: "completeInQueue (store_queue w) q claim c options t = (r, q') \<Longrightarrow> evolves q q'"
  by (auto simp: store_queue_def only_effect_def split: prod.splits sum.splits intro: history_op[OF _ store_step.intros(25)])

lemma claim_history: "claimFromQueue (store_queue w) q options t = Inr (r, q') \<Longrightarrow> evolves q q'"
  by (auto simp: store_queue_def as_result_Inr intro: history_op[OF _ store_step.intros(24)])

lemma fail_claim_history: "fail_claim (store_queue w) q claim e fo options t = Inr (out, q') \<Longrightarrow> evolves q q'"
  by (auto simp: fail_claim_def rbind_Inr_iff intro: fail_history)

lemma run_claim_history:
  assumes "run_claim (store_queue w) f q claim options t = Inr (out, q')" "\<And>c o'. keeps evolves (f c o')"
  shows "evolves q q'"
proof -
  obtain c o' r q1 where f: "f c o' q = (r, q1)"
    "r = Inl e \<Longrightarrow> fail_claim (store_queue w) q1 claim (error_value e) options options t = Inr (out, q')"
    "r = Inr x \<Longrightarrow> evolves q1 q'" for e x
  proof -
    let ?o = "JObj [(''workerId'', jor (jget options ''workerId'') (jor (jget options ''worker'') (jget claim ''lockedBy''))),
              (''signal'', jget options ''signal'')]"
    obtain r q1 where f: "f (deep_clone claim) ?o q = (r, q1)" by (cases "f (deep_clone claim) ?o q")
    show thesis
    proof (rule that[OF f])
      fix e
      assume "r = Inl e"
      then show "fail_claim (store_queue w) q1 claim (error_value e) options options t = Inr (out, q')"
        using assms(1) f by (simp add: run_claim_def)
    next
      fix x
      assume r: "r = Inr x"
      show "evolves q1 q'"
      proof (cases "completeWorkflowJobRecord claim x options t")
        case (Inl e)
        with assms(1) f r have "fail_claim (store_queue w) q1 claim (error_value e) options options t = Inr (out, q')"
          by (simp add: run_claim_def)
        then show ?thesis by (rule fail_claim_history)
      next
        case (Inr c)
        obtain stored q2 where q2: "completeInQueue (store_queue w) q1 claim c options t = (stored, q2)"
          by (cases "completeInQueue (store_queue w) q1 claim c options t")
        have "evolves q2 q'" using assms(1) f r Inr q2
          by (auto simp: run_claim_def split: sum.splits intro: fail_claim_history evolves.refl)
        with complete_history[OF q2] show ?thesis by (rule history.trans)
      qed
    qed
  qed
  have "evolves q q1" using assms(2) f(1) by (rule keepsD)
  moreover have "evolves q1 q'" using f(2,3) fail_claim_history by (cases r) blast+
  ultimately show ?thesis by (rule history.trans)
qed

lemma process_history:
  assumes "processStoreWorkflowJob w handlers options s = Inr (out, s')" "\<forall>(n, f) \<in> set handlers. \<forall>c o'. keeps evolves (f c o')"
  shows "evolves s s'"
proof -
  obtain claimed q0 where c: "claimFromQueue (store_queue w) s options (wNow w) = Inr (claimed, q0)"
    and rest: "(case claimed of None \<Rightarrow> Inr (JObj [(''processed'', JBool False), (''ok'', JBool True),
         (''reason'', JStr ''no_ready_workflow_jobs'')], q0)
     | Some claim \<Rightarrow> (case handler_for handlers (jget claim ''type'') of
         None \<Rightarrow> fail_claim (store_queue w) q0 claim
           (JObj [(''message'', JStr (''no workflow handler registered for '' @ to_str (jget claim ''type'')))])
           (jwith options [(''retryable'', JBool False)]) options (wNow w)
       | Some h \<Rightarrow> run_claim (store_queue w) h q0 claim options (wNow w))) = Inr (out, s')"
    using assms(1) unfolding processStoreWorkflowJob_def processNextWorkflowJob_def rbind_Inr_iff split_paired_Ex case_prod_conv by blast
  have "evolves q0 s'"
  proof (cases claimed)
    case None
    with rest show ?thesis by (auto intro: evolves.refl)
  next
    case (Some claim)
    show ?thesis
    proof (cases "handler_for handlers (jget claim ''type'')")
      case None
      with rest Some show ?thesis by (auto intro: fail_claim_history)
    next
      case (Some f)
      then have "keeps evolves (f c o')" for c o'
        by (cases rule: handler_cases) (use assms(2) in \<open>auto simp: keeps_def inherited_handler_def intro: evolves.refl\<close>)
      with rest \<open>claimed = Some claim\<close> Some show ?thesis by (auto intro: run_claim_history)
    qed
  qed
  with claim_history[OF c] show ?thesis by (rule history.trans)
qed

text \<open>C14: A worker that processes the next job of the store's queue with the builder's handlers either
  finds no ready job and leaves the queue, or ends one attempt of the job due first: that job keeps its id, has
  one attempt more, never more than its maximum, and is succeeded, failed, or queued again with an
  attempt left; every other job is unchanged. What happens to the store is a history of its operations.\<close>

theorem worker_outcome:
  assumes "processStoreWorkflowJob w (createDeploymentWorkflowHandlers ws h t settings) options s = Inr (out, s')"
    "jobs_wf (workflowJobs s)"
  shows "evolves s s' \<and> ((workflowJobs s' = workflowJobs s \<and> (\<forall>j \<in> set (workflowJobs s). \<not> isWorkflowJobReady j options (wNow w))) \<or>
    (\<exists>i final. first_due (workflowJobs s) options (wNow w) i \<and> workflowJobs s' = (workflowJobs s)[i := final] \<and>
       job_wf final \<and> job_id final = job_id (workflowJobs s ! i) \<and>
       job_attempts final = num_add (job_attempts (workflowJobs s ! i)) (Fin 1) \<and> attempt_over final))"
proof
  have "\<forall>(n, f) \<in> set (createDeploymentWorkflowHandlers ws h t settings). \<forall>c o'. keeps evolves (f c o')"
    using workflow_history(1) by (auto simp: createDeploymentWorkflowHandlers_def)
  with assms(1) show "evolves s s'" by (rule process_history)
qed (rule stq.process_outcome[OF assms(1)[unfolded processStoreWorkflowJob_def] assms(2) handlers_quiet])

definition queue_store :: store where
  "queue_store = delivery_store\<lparr>workflowJobs := [small_job]\<rparr>"

text \<open>The store's queue takes every step the array queue of its jobs takes.\<close>

lemma claim_taken:
  assumes "claimNextWorkflowJobFromList (workflowJobs s) options (wNow w) = Inr (c, js)"
  obtains q0 where "claimFromQueue (store_queue w) s options (wNow w) = Inr (c, q0)" "workflowJobs q0 = js"
  using assms by (cases c) (force simp: store_queue_def as_result_def claimNextWorkflowJob_def)+

lemma fail_taken:
  assumes "replace_first nxt (workflowJobs s) = Some js" "jget claim ''id'' = jget nxt ''id''" "truthy nxt"
  shows "is_ok (failInQueue (store_queue w) s claim nxt options t)"
proof -
  have "replace_first nxt xs = Some js \<Longrightarrow> find (\<lambda>j. same_text (jget j ''id'') (jget nxt ''id'')) xs \<noteq> None" for xs js
    by (induction xs arbitrary: js) (auto simp: same_text_def same_id_def split: if_splits option.splits)
  then obtain row where "find (\<lambda>j. same_text (jget j ''id'') (jget nxt ''id'')) (workflowJobs s) = Some row"
    using assms(1) by blast
  then show ?thesis
    using assms by (simp add: store_queue_def as_result_def failWorkflowJob_def find_job_def replaceStoredJob_def sbind_run[of "sbind _ _"])
qed

definition early_world :: world where
  "early_world = sample_world\<lparr>wNow := 0\<rparr>"

definition missing_handler :: jsv where
  "missing_handler = JObj [(''message'', JStr ''no workflow handler registered for undefined'')]"

lemma final_failure:
  obtains f where "failWorkflowJobRecord c missing_handler (jwith (JObj []) [(''retryable'', JBool False)]) 0 = Inr f"
    "truthy f" "jget f ''id'' = jget c ''id''"
proof -
  have stamp: "is_ok (iso_value (jint 0))" by code_simp
  have "is_jstr (workflowErrorMessage missing_handler)"
    by (simp add: workflowErrorMessage_def missing_handler_def sanitizeLogRecord_def jor_def is_jstr_def)
  then have "is_ok (fallback_code (workflowErrorMessage missing_handler) (jwith (JObj []) [(''retryable'', JBool False)]))"
    by (simp add: fallback_code_def)
  then have "is_ok (failWorkflowJobRecord c missing_handler (jwith (JObj []) [(''retryable'', JBool False)]) 0)"
    using stamp by (auto simp: failWorkflowJobRecord_def Let_def is_retryable_def option_now_def rbind_def is_ok_def
        jwith_Cons dateMillis_def jor_def split: sum.splits)
  then obtain f where f: "failWorkflowJobRecord c missing_handler (jwith (JObj []) [(''retryable'', JBool False)]) 0 = Inr f"
    by (auto simp: is_ok_def split: sum.splits)
  then have "truthy f" by (auto simp: failWorkflowJobRecord_def Let_def rbind_Inr_iff jwith_def jspread_def)
  then show thesis using that f fail_record(4)[OF f] by blast
qed

lemma small_job_claim:
  "case claimNextWorkflowJobFromList [small_job] (JObj []) 0 of Inl _ \<Rightarrow> False | Inr (claim, js) \<Rightarrow>
     claim \<noteq> None \<and> jget (the claim) ''type'' = JUndef \<and> jget (the claim) ''id'' = jget (hd js) ''id'' \<and> tl js = [] \<and> js \<noteq> []"
  by code_simp

lemma queue_run: "is_ok (processStoreWorkflowJob early_world
    (createDeploymentWorkflowHandlers (\<lambda>_. sample_world) one_host plain_tools JUndef) (JObj []) queue_store)"
proof -
  obtain c j where c: "claimNextWorkflowJobFromList [small_job] (JObj []) 0 = Inr (Some c, [j])"
    "jget c ''type'' = JUndef" "jget c ''id'' = jget j ''id''"
    using small_job_claim by (auto split: sum.splits prod.splits) (metis list.collapse)
  obtain f where f: "failWorkflowJobRecord c missing_handler (jwith (JObj []) [(''retryable'', JBool False)]) 0 = Inr f"
    "truthy f" "jget f ''id'' = jget c ''id''" by (rule final_failure)
  have now: "wNow early_world = 0" by (simp add: early_world_def)
  have "claimNextWorkflowJobFromList (workflowJobs queue_store) (JObj []) (wNow early_world) = Inr (Some c, [j])"
    using c(1) by (simp add: now queue_store_def)
  then obtain q0 where q0: "claimFromQueue (store_queue early_world) queue_store (JObj []) 0 = Inr (Some c, q0)" "workflowJobs q0 = [j]"
    by (rule claim_taken) (simp add: now)
  have none: "handler_for (createDeploymentWorkflowHandlers ws h t options) (jget c ''type'') = None" for ws h t options
    using c(2) by (simp add: handler_for_def createDeploymentWorkflowHandlers_def OBJECT_METHODS_def)
  have "is_ok (failInQueue (store_queue early_world) q0 c f (JObj []) 0)"
    using f(2,3) c(3) q0(2) by (intro fail_taken[of f q0 "[f]"]) (simp_all add: same_id_def)
  then show ?thesis
    using q0(1) none c(2) f(1)
    by (auto simp: processStoreWorkflowJob_def processNextWorkflowJob_def fail_claim_def now missing_handler_def is_ok_def
        rbind_def split: sum.splits)
qed

theorem worker_outcome_witness:
  "\<exists>s'. length (workflowJobs s') = 1 \<and> evolves queue_store s'"
proof -
  obtain out s' where p: "processStoreWorkflowJob early_world
      (createDeploymentWorkflowHandlers (\<lambda>_. sample_world) one_host plain_tools JUndef) (JObj []) queue_store = Inr (out, s')"
    using queue_run by (auto simp: is_ok_def split: sum.splits)
  have "jobs_wf (workflowJobs queue_store)" using small_job_wf by (simp add: queue_store_def)
  from worker_outcome[OF p this] have "evolves queue_store s'" "length (workflowJobs s') = length (workflowJobs queue_store)"
    by (auto simp del: list.size)
  then show ?thesis by (auto simp: queue_store_def)
qed

end
