(* ===== verification/Manifest.thy ===== *)
theory Manifest
  imports EnvInjection BuildStrategy Security
begin

text \<open>
  \<open>manifest-compiler.ts\<close>: \<open>compileProject\<close> and the Kubernetes manifests it builds. \<open>penv\<close> is
  \<open>process.env\<close> and \<open>parse\<close> is \<open>JSON.parse\<close>. An object member with the value \<open>undefined\<close> is a member.
\<close>

section \<open>Parts of a manifest\<close>

definition manifest :: "string \<Rightarrow> string \<Rightarrow> (string \<times> jsv) list \<Rightarrow> (string \<times> jsv) list \<Rightarrow> jsv" where
  "manifest apiVersion kind metadata body = JObj ([(''apiVersion'', JStr apiVersion), (''kind'', JStr kind),
     (''metadata'', JObj metadata)] @ body)"

definition named :: "string \<Rightarrow> string \<Rightarrow> jsv \<Rightarrow> (string \<times> jsv) list" where
  "named name namespace labels = [(''name'', JStr name), (''namespace'', JStr namespace), (''labels'', labels)]"

definition app_name :: "string \<Rightarrow> jsv" where
  "app_name name = JObj [(''app.kubernetes.io/name'', JStr name)]"

definition namespaceManifest :: "string \<Rightarrow> string \<Rightarrow> jsv" where
  "namespaceManifest namespace projectSlug = manifest ''v1'' ''Namespace''
     [(''name'', JStr namespace), (''labels'', JObj [(''raibitserver.io/project'', JStr projectSlug),
        (''pod-security.kubernetes.io/enforce'', JStr ''restricted'')])] []"

definition labelsFor :: "string \<Rightarrow> string \<Rightarrow> jsv \<Rightarrow> jsv" where
  "labelsFor projectSlug serviceName type = JObj [
     (''app.kubernetes.io/name'', JStr serviceName), (''app.kubernetes.io/managed-by'', JStr ''raibitserver''),
     (''raibitserver.io/project'', JStr projectSlug), (''raibitserver.io/service'', JStr serviceName),
     (''raibitserver.io/service-type'', type)]"

text \<open>\<open>secretName.replace('-env', '-config')\<close> replaces the first occurrence.\<close>

definition config_name :: "string \<Rightarrow> string" where
  "config_name secretName = rreplace1 (RLit ''-env'') (\<lambda>_. ''-config'') secretName"

definition key_ref :: "string \<Rightarrow> string \<Rightarrow> string \<Rightarrow> jsv" where
  "key_ref source name key = JObj [(''name'', JStr key), (''valueFrom'', JObj [(source,
     JObj [(''name'', JStr name), (''key'', JStr key)])])]"

definition envRefs :: "jsv \<Rightarrow> jsv \<Rightarrow> string \<Rightarrow> jsv list" where
  "envRefs plain secret secretName =
     map (\<lambda>(key, _). key_ref ''configMapKeyRef'' (config_name secretName) key) (entries plain) @
     map (\<lambda>(key, _). key_ref ''secretKeyRef'' secretName key) (entries secret)"

definition httpProbe :: "jsv \<Rightarrow> jsv" where
  "httpProbe path = JObj [(''httpGet'', JObj [(''path'', path), (''port'', JStr ''http'')]),
     (''initialDelaySeconds'', jint 10), (''periodSeconds'', jint 10), (''timeoutSeconds'', jint 2),
     (''failureThreshold'', jint 3)]"

definition amounts :: "string \<Rightarrow> string \<Rightarrow> jsv" where
  "amounts cpu memory = JObj [(''cpu'', JStr cpu), (''memory'', JStr memory)]"

definition undefined_or :: "jsv \<Rightarrow> jsv" where
  "undefined_or v = jor v JUndef"

definition containerFor :: "jsv \<Rightarrow> jsv \<Rightarrow> jnum \<Rightarrow> jsv \<Rightarrow> jsv \<Rightarrow> jsv" where
  "containerFor service img port plain secret = (let
     serviceName = slugify (jget service ''name'') ''item'';
     path = jget (jget service ''healthCheck'') ''path'';
     probe = (if truthy path then httpProbe path else JUndef)
   in JObj [
     (''name'', JStr serviceName), (''image'', img), (''imagePullPolicy'', JStr ''IfNotPresent''),
     (''ports'', JArr (if truthy (JNum port)
        then [JObj [(''name'', JStr ''http''), (''containerPort'', JNum port)]] else [])),
     (''env'', JArr (envRefs plain secret (serviceName @ ''-env''))),
     (''command'', undefined_or (jget service ''command'')), (''args'', undefined_or (jget service ''args'')),
     (''resources'', jor (jget service ''resources'')
        (JObj [(''requests'', amounts ''100m'' ''128Mi''), (''limits'', amounts ''500m'' ''512Mi'')])),
     (''volumeMounts'', JArr [JObj [(''name'', JStr ''tmp''), (''mountPath'', JStr ''/tmp'')]]),
     (''securityContext'', secureContainerDefaults service),
     (''readinessProbe'', probe), (''livenessProbe'', probe)])"

definition podSpec :: "jsv \<Rightarrow> jsv \<Rightarrow> jnum \<Rightarrow> jsv \<Rightarrow> jsv \<Rightarrow> string \<Rightarrow> jsv" where
  "podSpec service img port plain secret restartPolicy = JObj [
     (''securityContext'', DEFAULT_POD_SECURITY_CONTEXT), (''restartPolicy'', JStr restartPolicy),
     (''containers'', JArr [containerFor service img port plain secret]),
     (''volumes'', JArr [JObj [(''name'', JStr ''tmp''), (''emptyDir'', JObj [])]]),
     (''automountServiceAccountToken'', JBool False)]"

section \<open>Workloads\<close>

definition deploymentManifest :: "string \<Rightarrow> jsv \<Rightarrow> jsv \<Rightarrow> jsv \<Rightarrow> jnum \<Rightarrow> jsv \<Rightarrow> jsv \<Rightarrow> jsv" where
  "deploymentManifest namespace service labels img port plain secret = (let
     serviceName = slugify (jget service ''name'') ''item'';
     replicas = (if jget service ''sleepPolicy'' = JStr ''scale-to-zero'' then jint 0
       else JNum (to_num (jnullish (jget (jget service ''scaling'') ''minReplicas'')
         (jnullish (jget service ''replicas'') (jint 1)))))
   in manifest ''apps/v1'' ''Deployment'' (named serviceName namespace labels) [(''spec'', JObj [
     (''replicas'', replicas), (''selector'', JObj [(''matchLabels'', app_name serviceName)]),
     (''strategy'', JObj [(''type'', JStr ''RollingUpdate''),
        (''rollingUpdate'', JObj [(''maxUnavailable'', jint 0), (''maxSurge'', jint 1)])]),
     (''template'', JObj [
        (''metadata'', JObj [(''labels'', labels), (''annotations'', JObj [(''raibitserver.io/sleep-policy'',
           jor (jget service ''sleepPolicy'') (JStr ''always-on''))])]),
        (''spec'', podSpec service img port plain secret ''Always'')])])])"

definition cronJobManifest :: "string \<Rightarrow> jsv \<Rightarrow> jsv \<Rightarrow> jsv \<Rightarrow> jnum \<Rightarrow> jsv \<Rightarrow> jsv \<Rightarrow> jsv" where
  "cronJobManifest namespace service labels img port plain secret = (let
     serviceName = slugify (jget service ''name'') ''item''
   in manifest ''batch/v1'' ''CronJob'' (named serviceName namespace labels) [(''spec'', JObj [
     (''schedule'', jor (jget service ''schedule'') (JStr ''0 * * * *'')),
     (''concurrencyPolicy'', jor (jget service ''concurrencyPolicy'') (JStr ''Forbid'')),
     (''successfulJobsHistoryLimit'', jint 3), (''failedJobsHistoryLimit'', jint 3),
     (''jobTemplate'', JObj [(''spec'', JObj [
        (''backoffLimit'', jnullish (jget service ''backoffLimit'') (jint 2)),
        (''template'', JObj [(''metadata'', JObj [(''labels'', labels)]),
           (''spec'', podSpec service img port plain secret ''OnFailure'')])])])])])"

definition jobManifest :: "string \<Rightarrow> jsv \<Rightarrow> jsv \<Rightarrow> jsv \<Rightarrow> jnum \<Rightarrow> jsv \<Rightarrow> jsv \<Rightarrow> jsv" where
  "jobManifest namespace service labels img port plain secret = (let
     serviceName = slugify (jget service ''name'') ''item''
   in manifest ''batch/v1'' ''Job'' (named serviceName namespace labels) [(''spec'', JObj [
     (''backoffLimit'', jnullish (jget service ''backoffLimit'') (jint 1)),
     (''template'', JObj [(''metadata'', JObj [(''labels'', labels)]),
        (''spec'', podSpec service img port plain secret ''Never'')])])])"

definition serviceManifest :: "string \<Rightarrow> string \<Rightarrow> jsv \<Rightarrow> jnum \<Rightarrow> jsv" where
  "serviceManifest namespace serviceName labels port =
     manifest ''v1'' ''Service'' (named serviceName namespace labels) [(''spec'', JObj [
       (''type'', JStr ''ClusterIP''), (''selector'', app_name serviceName),
       (''ports'', JArr [JObj [(''name'', JStr ''http''), (''port'', JNum port), (''targetPort'', JStr ''http'')]])])]"

definition ingressManifest :: "string \<Rightarrow> jsv \<Rightarrow> string \<Rightarrow> string \<Rightarrow> jsv \<Rightarrow> jsv \<Rightarrow> jnum \<Rightarrow> jsv" where
  "ingressManifest namespace service organizationSlug projectSlug baseDomain labels port = (let
     serviceName = slugify (jget service ''name'') ''item'';
     host = serviceHostname (JObj [(''organizationSlug'', JStr organizationSlug), (''projectSlug'', JStr projectSlug),
       (''serviceName'', JStr serviceName),
       (''baseDomain'', jor (jget service ''baseDomain'') (jor baseDomain (JStr DEFAULT_DOMAIN))),
       (''customDomain'', jor (jget service ''domain'') JNull)])
   in manifest ''networking.k8s.io/v1'' ''Ingress'' (named serviceName namespace labels @
       [(''annotations'', JObj [
          (''cert-manager.io/cluster-issuer'', jor (jget service ''tlsIssuer'') (JStr ''letsencrypt'')),
          (''traefik.ingress.kubernetes.io/router.entrypoints'', JStr ''websecure''),
          (''raibitserver.io/hostname'', host)])])
     [(''spec'', JObj [
        (''tls'', JArr [JObj [(''hosts'', JArr [host]), (''secretName'', JStr (serviceName @ ''-tls''))]]),
        (''rules'', JArr [JObj [(''host'', host), (''http'', JObj [(''paths'', JArr [JObj [
           (''path'', JStr ''/''), (''pathType'', JStr ''Prefix''), (''backend'', JObj [(''service'', JObj [
              (''name'', JStr serviceName), (''port'', JObj [(''number'', JNum port)])])])]])])]])])])"

definition hpaManifest :: "string \<Rightarrow> string \<Rightarrow> jsv \<Rightarrow> jsv" where
  "hpaManifest namespace serviceName scaling = manifest ''autoscaling/v2'' ''HorizontalPodAutoscaler''
     [(''name'', JStr (serviceName @ ''-hpa'')), (''namespace'', JStr namespace)] [(''spec'', JObj [
       (''scaleTargetRef'', JObj [(''apiVersion'', JStr ''apps/v1''), (''kind'', JStr ''Deployment''),
          (''name'', JStr serviceName)]),
       (''minReplicas'', jnullish (jget scaling ''minReplicas'') (jint 1)),
       (''maxReplicas'', jget scaling ''maxReplicas''),
       (''metrics'', jor (jget scaling ''metrics'') (JArr [JObj [(''type'', JStr ''Resource''),
          (''resource'', JObj [(''name'', JStr ''cpu''), (''target'', JObj [(''type'', JStr ''Utilization''),
             (''averageUtilization'', jint 70)])])]]))])]"

definition pdbManifest :: "string \<Rightarrow> string \<Rightarrow> jsv \<Rightarrow> jsv \<Rightarrow> jsv res" where
  "pdbManifest namespace serviceName labels availability =
     rbind (jread (jdefault availability (JObj [])) ''minAvailable'') (\<lambda>minAvailable.
     Inr (manifest ''policy/v1'' ''PodDisruptionBudget'' (named (serviceName @ ''-pdb'') namespace labels)
       [(''spec'', JObj [(''minAvailable'', jnullish minAvailable (jint 0)),
          (''selector'', JObj [(''matchLabels'', app_name serviceName)])])]))"

definition hasProviderManagedPlaceholder :: "jsv \<Rightarrow> bool" where
  "hasProviderManagedPlaceholder data =
     list_ex (\<lambda>(_, v). str_includes (to_str v) ''provider-managed-'') (entries (jor data (JObj [])))"

definition secretManifest :: "string \<Rightarrow> string \<Rightarrow> jsv \<Rightarrow> jsv \<Rightarrow> jsv" where
  "secretManifest namespace name labels data = manifest ''v1'' ''Secret'' (named name namespace labels @
     (if hasProviderManagedPlaceholder data
      then [(''annotations'', JObj [(''raibitserver.io/provider-contract'', JStr ''not-live-secret'')])] else []))
     [(''type'', JStr ''Opaque''), (''stringData'', data)]"

definition configMapManifest :: "string \<Rightarrow> string \<Rightarrow> jsv \<Rightarrow> jsv \<Rightarrow> jsv" where
  "configMapManifest namespace name labels data =
     manifest ''v1'' ''ConfigMap'' (named name namespace labels) [(''data'', data)]"

section \<open>Network policies\<close>

definition PRIVATE_IPV4_EGRESS_EXCEPTIONS :: "string list" where
  "PRIVATE_IPV4_EGRESS_EXCEPTIONS = [''10.0.0.0/8'', ''100.64.0.0/10'', ''169.254.0.0/16'', ''172.16.0.0/12'',
     ''192.168.0.0/16'']"

definition PRIVATE_IPV6_EGRESS_EXCEPTIONS :: "string list" where
  "PRIVATE_IPV6_EGRESS_EXCEPTIONS = [''::1/128'', ''fc00::/7'', ''fe80::/10'', ''fd00:ec2::254/128'']"

definition servicePublicEgressPolicy :: "string \<Rightarrow> string \<Rightarrow> string \<Rightarrow> jsv" where
  "servicePublicEgressPolicy namespace projectSlug serviceName = (let
     v4 = JArr (map JStr PRIVATE_IPV4_EGRESS_EXCEPTIONS); v6 = JArr (map JStr PRIVATE_IPV6_EGRESS_EXCEPTIONS);
     block = (\<lambda>cidr except. JObj [(''to'', JArr [JObj [(''ipBlock'',
        JObj [(''cidr'', JStr cidr), (''except'', except)])]])])
   in manifest ''networking.k8s.io/v1'' ''NetworkPolicy'' (named (serviceName @ ''-public-egress'') namespace
        (labelsFor projectSlug serviceName (JStr ''egress-policy'')))
     [(''spec'', JObj [
        (''podSelector'', JObj [(''matchLabels'', app_name serviceName)]),
        (''policyTypes'', JArr [JStr ''Egress'']),
        (''egress'', JArr [block ''0.0.0.0/0'' v4, block ''::/0'' v6])]),
      (''raibitserver'', JObj [(''service'', JStr serviceName), (''publicInternetEgress'', JBool True),
        (''scopedToServicePodSelector'', JBool True), (''ipv4Except'', v4), (''ipv6Except'', v6)])])"

definition namespace_peer :: "string \<Rightarrow> string \<Rightarrow> (string \<times> jsv) list" where
  "namespace_peer label v = [(''namespaceSelector'', JObj [(''matchLabels'', JObj [(label, JStr v)])])]"

definition name_list :: "jsv list \<Rightarrow> jsv" where
  "name_list xs = JArr (map (\<lambda>x. JStr (slugify (jget x ''name'') ''item'')) xs)"

text \<open>The caller sets the member \<open>publicEgressServices\<close>; it is the last argument here.\<close>

definition tenantIsolationNetworkPolicy :: "string \<Rightarrow> jsv list \<Rightarrow> jsv list \<Rightarrow> jsv \<Rightarrow> jsv" where
  "tenantIsolationNetworkPolicy namespace services resources publicEgressServices =
     manifest ''networking.k8s.io/v1'' ''NetworkPolicy''
       [(''name'', JStr ''tenant-isolation''), (''namespace'', JStr namespace)]
     [(''spec'', JObj [
        (''podSelector'', JObj []), (''policyTypes'', JArr [JStr ''Ingress'', JStr ''Egress'']),
        (''ingress'', JArr [JObj [(''from'', JArr [JObj (namespace_peer ''raibitserver.io/ingress-gateway'' ''true'')])]]),
        (''egress'', JArr [
           JObj [(''to'', JArr [JObj (namespace_peer ''kubernetes.io/metadata.name'' ''kube-system'' @
                [(''podSelector'', JObj [(''matchLabels'', JObj [(''k8s-app'', JStr ''kube-dns'')])])])]),
             (''ports'', JArr [JObj [(''protocol'', JStr ''UDP''), (''port'', jint 53)],
                JObj [(''protocol'', JStr ''TCP''), (''port'', jint 53)]])],
           JObj [(''to'', JArr [JObj (namespace_peer ''kubernetes.io/metadata.name'' namespace)])]])]),
      (''raibitserver'', JObj [
        (''ingressFromGatewayOnly'', JBool True), (''blocksSameNamespaceIngressByDefault'', JBool True),
        (''allowsSameNamespaceEgressToServices'', name_list services),
        (''allowsSameNamespaceEgressToResources'', name_list resources),
        (''allowsDnsEgress'', JBool True), (''blocksMetadataEndpoint'', JBool True),
        (''blocksControlPlane'', JBool True), (''blocksCrossProject'', JBool True),
        (''publicEgressServices'', publicEgressServices)])]"

definition wants_public_egress :: "jsv \<Rightarrow> bool" where
  "wants_public_egress service = (jget service ''allowPublicEgress'' = JBool True \<or>
     jget service ''publicEgress'' = JBool True \<or> jget (jget service ''egress'') ''publicInternet'' = JBool True)"

definition networkPolicyManifests :: "string \<Rightarrow> string \<Rightarrow> jsv list \<Rightarrow> jsv list \<Rightarrow> jsv list" where
  "networkPolicyManifests namespace projectSlug services resources = (let
     publicEgress = map (\<lambda>service. servicePublicEgressPolicy namespace projectSlug (slugify (jget service ''name'') ''item''))
       (filter wants_public_egress services)
   in tenantIsolationNetworkPolicy namespace services resources
        (JArr (map (\<lambda>p. jget (jget p ''raibitserver'') ''service'') publicEgress)) # publicEgress)"

section \<open>Image pre-pull\<close>

definition arrayStrings :: "jsv \<Rightarrow> string list" where
  "arrayStrings v = map (\<lambda>x. str_trim (to_str x))
     (filter (\<lambda>x. x \<noteq> JUndef \<and> x \<noteq> JNull \<and> str_trim (to_str x) \<noteq> []) (if is_jarr v then items v else [v]))"

text \<open>\<open>[...new Set(xs)]\<close> keeps the first of equal members.\<close>

definition js_distinct :: "'a list \<Rightarrow> 'a list" where
  "js_distinct xs = rev (remdups (rev xs))"

definition imagePrePullList :: "jsv \<Rightarrow> jsv list \<Rightarrow> string list" where
  "imagePrePullList spec buildPlans = (let
     performance = jget spec ''performance''; runtime = jget spec ''runtime'';
     explicit = jor (jget spec ''prePullImages'') (jor (jget performance ''prePullImages'')
       (jor (jget runtime ''prePullImages'') (JArr [])));
     includeBuildOutputs = (jget performance ''prePullBuildImages'' = JBool True \<or>
       jget runtime ''prePullBuildImages'' = JBool True);
     images = map JStr (arrayStrings explicit) @
       (if includeBuildOutputs then map (\<lambda>plan. jget plan ''image'') buildPlans else [])
   in take 20 (js_distinct (map to_str (filter truthy images))))"

definition prepull_container :: "string \<Rightarrow> string \<Rightarrow> (string \<times> jsv) list \<Rightarrow> jsv" where
  "prepull_container name img command = JObj ([(''name'', JStr name), (''image'', JStr img),
     (''imagePullPolicy'', JStr ''IfNotPresent'')] @ command @
     [(''resources'', JObj [(''requests'', amounts ''10m'' ''16Mi''), (''limits'', amounts ''50m'' ''64Mi'')]),
      (''securityContext'', DEFAULT_CONTAINER_SECURITY_CONTEXT)])"

definition imagePrePullDaemonSetManifest :: "string \<Rightarrow> string \<Rightarrow> string list \<Rightarrow> jsv" where
  "imagePrePullDaemonSetManifest namespace projectSlug images = (let
     labels = JObj [(''app.kubernetes.io/name'', JStr ''image-prepull''),
       (''app.kubernetes.io/managed-by'', JStr ''raibitserver''), (''raibitserver.io/project'', JStr projectSlug),
       (''raibitserver.io/performance'', JStr ''image-prepull'')]
   in manifest ''apps/v1'' ''DaemonSet'' (named ''image-prepull'' namespace labels) [(''spec'', JObj [
     (''selector'', JObj [(''matchLabels'', app_name ''image-prepull'')]),
     (''template'', JObj [
        (''metadata'', JObj [(''labels'', labels), (''annotations'',
           JObj [(''raibitserver.io/prepull-images'', JStr (str_join '','' images))])]),
        (''spec'', JObj [
           (''securityContext'', DEFAULT_POD_SECURITY_CONTEXT), (''automountServiceAccountToken'', JBool False),
           (''restartPolicy'', JStr ''Always''),
           (''initContainers'', JArr (map (\<lambda>(i, img). prepull_container (''pull-'' @ nat_str (Suc i)) img
              [(''command'', JArr [JStr ''sh'', JStr ''-lc'', JStr ''true''])]) (zip [0..<length images] images))),
           (''containers'', JArr [prepull_container ''pause'' ''registry.k8s.io/pause:3.10'' []])])])])])"

section \<open>Services and projects\<close>

definition resourcePlan :: "string \<Rightarrow> string \<Rightarrow> jsv \<Rightarrow> jsv res" where
  "resourcePlan namespace projectSlug resource = rbind (getCatalogEntry (JStr (resource_engine resource))) (\<lambda>entry.
     Inr (JObj [
       (''name'', JStr (slugify (jget resource ''name'') ''item'')), (''namespace'', JStr namespace),
       (''project'', JStr projectSlug), (''catalogKey'', jget entry ''key''),
       (''displayName'', jget entry ''displayName''), (''type'', jget entry ''type''), (''engine'', jget entry ''engine''),
       (''version'', jor (jget resource ''version'') (jget entry ''defaultVersion'')),
       (''provider'', jor (jget resource ''provider'') (JStr ''hybrid-managed'')),
       (''operator'', jget entry ''operator''),
       (''plan'', jor (jget resource ''plan'') (JStr ''shared-small'')),
       (''lifecycle'', JArr (map JStr [''provision'', ''credential'', ''backup'', ''metrics'', ''restore'', ''delete''])),
       (''env'', jget entry ''env''),
       (''backup'', jor (jget resource ''backup'')
          (JObj [(''schedule'', JStr ''daily''), (''retentionDays'', jint 7)]))]))"

definition wants_hpa :: "jsv \<Rightarrow> bool" where
  "wants_hpa service = (let scaling = jget service ''scaling'' in truthy (jget scaling ''maxReplicas'') \<and>
     num_less (to_num (jor (jget scaling ''minReplicas'') (jint 1))) (to_num (jget scaling ''maxReplicas'')))"

definition env_manifests :: "string \<Rightarrow> string \<Rightarrow> jsv \<Rightarrow> jsv \<Rightarrow> jsv \<Rightarrow> jsv list" where
  "env_manifests namespace serviceName labels plain secret =
     (if entries secret \<noteq> [] then [secretManifest namespace (serviceName @ ''-env'') labels secret] else []) @
     (if entries plain \<noteq> [] then [configMapManifest namespace (serviceName @ ''-config'') labels plain] else [])"

record compile_scope =
  csNamespace :: string
  csOrganization :: string
  csProject :: string
  csDomain :: jsv

definition running_manifests :: "compile_scope \<Rightarrow> jsv \<Rightarrow> jsv \<Rightarrow> jnum \<Rightarrow> jsv list" where
  "running_manifests c service labels port = (let
     serviceName = slugify (jget service ''name'') ''item''; type = jor (jget service ''type'') (JStr ''web'')
   in (if (type = JStr ''web'' \<or> type = JStr ''private'') \<and> truthy (JNum port)
       then [serviceManifest (csNamespace c) serviceName labels port] else []) @
      (if type = JStr ''web''
       then [ingressManifest (csNamespace c) service (csOrganization c) (csProject c) (csDomain c) labels port] else []) @
      (if wants_hpa service then [hpaManifest (csNamespace c) serviceName (jget service ''scaling'')] else []))"

definition compileService :: "jsv \<Rightarrow> compile_scope \<Rightarrow> jsv \<Rightarrow> jsv list \<Rightarrow> jsv \<Rightarrow> jsv \<Rightarrow> jsv list res" where
  "compileService penv c service resources resourceEnvByName img = (let
     serviceName = slugify (jget service ''name'') ''item'';
     type = jor (jget service ''type'') (JStr ''web'');
     port = to_num (jor (jget service ''port'') (jnat DEFAULT_PORT))
   in rbind (injectResourceEnv penv service resources (JStr (csProject c))
        (JObj [(''resourceEnvByName'', resourceEnvByName)])) (\<lambda>env. let
     plain = jget (splitEnvForSecret env) ''plain''; secret = jget (splitEnvForSecret env) ''secret'';
     labels = labelsFor (csProject c) serviceName type;
     out = env_manifests (csNamespace c) serviceName labels plain secret
   in if type = JStr ''cron'' then Inr (out @ [cronJobManifest (csNamespace c) service labels img port plain secret])
      else if type = JStr ''job'' then Inr (out @ [jobManifest (csNamespace c) service labels img port plain secret])
      else rbind (pdbManifest (csNamespace c) serviceName labels (jget service ''availability'')) (\<lambda>pdb.
        Inr (out @ [deploymentManifest (csNamespace c) service labels img port plain secret] @
          running_manifests c service labels port @ [pdb]))))"

definition full_service :: "jsv \<Rightarrow> compile_scope \<Rightarrow> jsv \<Rightarrow> jsv" where
  "full_service spec c service = jset (jspread (JObj [(''projectSlug'', JStr (csProject c)),
     (''registry'', jget spec ''registry'')]) service) ''name'' (JStr (slugify (jget service ''name'') ''item''))"

definition service_files :: "jsv \<Rightarrow> jsv \<Rightarrow> jsv" where
  "service_files filesByService service =
     jor (table_get (entries filesByService) (to_str (jget service ''name'')))
       (jor (table_get (entries filesByService) (slugify (jget service ''name'') ''item'')) (JObj []))"

definition compile_one :: "jsv \<Rightarrow> json_parser \<Rightarrow> jsv \<Rightarrow> compile_scope \<Rightarrow> jsv list \<Rightarrow> jsv \<Rightarrow> jsv \<Rightarrow> jsv \<Rightarrow>
    (jsv \<times> jsv list) res" where
  "compile_one penv parse spec c resources resourceEnvByName filesByService service = (let
     fullService = full_service spec c service
   in rbind (resolveBuildStrategy parse fullService (service_files filesByService service)) (\<lambda>plan.
      rbind (compileService penv c fullService resources resourceEnvByName (jget plan ''image'')) (\<lambda>ms.
        Inr (plan, ms))))"

definition project_scope :: "jsv \<Rightarrow> compile_scope" where
  "project_scope spec = (let
     organization = plan_organization spec; project = plan_project spec;
     projectSlug = slugify (jor (jget project ''slug'') (jget project ''name'')) ''item'';
     organizationName = jor (jget organization ''slug'') (jor (jget organization ''name'') (JStr ''org''))
   in \<lparr>csNamespace = slugify (JStr (to_str organizationName @ ''-'' @ projectSlug)) ''item'',
       csOrganization = slugify organizationName ''item'', csProject = projectSlug,
       csDomain = jor (jget spec ''baseDomain'') (JStr DEFAULT_DOMAIN)\<rparr>)"

definition named_findings :: "jsv \<Rightarrow> jsv list" where
  "named_findings service = map (\<lambda>f. jspread (JObj [(''service'', jget service ''name'')]) f)
     (items (jget (validateServiceSecurity service) ''findings''))"

definition deployment_plan ::
  "jsv \<Rightarrow> compile_scope \<Rightarrow> jsv list \<Rightarrow> string list \<Rightarrow> jsv list \<Rightarrow> jsv list \<Rightarrow> jsv list \<Rightarrow> jsv" where
  "deployment_plan spec c buildPlans images resourcePlans manifests services = (let
     organization = plan_organization spec
   in JObj [
     (''apiVersion'', JStr ''raibitserver.io/v1alpha1''), (''kind'', JStr ''ProjectDeploymentPlan''),
     (''metadata'', JObj [
        (''organization'', jor (jget organization ''slug'') (jor (jget organization ''name'') (JStr ''default''))),
        (''project'', JStr (csProject c)), (''namespace'', JStr (csNamespace c))]),
     (''buildPlans'', JArr buildPlans),
     (''prePullPlan'', JObj [(''enabled'', JBool (images \<noteq> [])), (''images'', JArr (map JStr images)),
        (''strategy'', JStr (if images \<noteq> [] then ''tenant-daemonset-init-container-cache-warmup'' else ''disabled''))]),
     (''resourcePlans'', JArr resourcePlans), (''domainPlan'', domainPlanForProject spec),
     (''manifests'', JArr manifests),
     (''security'', JObj [(''tenantNamespace'', JStr (csNamespace c)),
        (''defaults'', JObj [(''podSecurityContext'', DEFAULT_POD_SECURITY_CONTEXT),
           (''containerSecurityContext'', DEFAULT_CONTAINER_SECURITY_CONTEXT),
           (''networkPolicy'', JStr ''deny-cross-project-and-control-plane-by-default'')]),
        (''findings'', JArr (concat (map named_findings services)))])])"

definition compileProject :: "jsv \<Rightarrow> json_parser \<Rightarrow> jsv \<Rightarrow> jsv \<Rightarrow> jsv res" where
  "compileProject penv parse spec0 files0 = (let
     spec = jdefault spec0 (JObj []); filesByService = jdefault files0 (JObj []);
     c = project_scope spec;
     services = items (jget spec ''services''); resources = items (jget spec ''resources'')
   in rbind (res_map (resourcePlan (csNamespace c) (csProject c)) resources) (\<lambda>resourcePlans.
      rbind (res_map (\<lambda>r. rbind (connectionEnvForResource penv r (JStr (csProject c)))
        (\<lambda>e. Inr (to_str (jget r ''name''), e))) resources) (\<lambda>envs.
      rbind (res_map (compile_one penv parse spec c resources (JObj (alist_merge [] envs)) filesByService) services)
        (\<lambda>compiled. let
          buildPlans = map fst compiled;
          images = imagePrePullList spec buildPlans;
          manifests = [namespaceManifest (csNamespace c) (csProject c)] @ concat (map snd compiled) @
            (if images \<noteq> [] then [imagePrePullDaemonSetManifest (csNamespace c) (csProject c) images] else []) @
            networkPolicyManifests (csNamespace c) (csProject c) services resources
        in Inr (deployment_plan spec c buildPlans images resourcePlans manifests services)))))"

section \<open>Reading a manifest\<close>

text \<open>Where the pod specification of a workload stands, and what the other predicates ask of it.\<close>

definition manifest_kind :: "jsv \<Rightarrow> string" where
  "manifest_kind m = to_str (jget m ''kind'')"

definition workload_pod :: "jsv \<Rightarrow> jsv" where
  "workload_pod m = (let spec = jget m ''spec'';
     job = (if manifest_kind m = ''CronJob'' then jget (jget spec ''jobTemplate'') ''spec'' else spec)
   in jget (jget job ''template'') ''spec'')"

definition hardened_container :: "jsv \<Rightarrow> bool" where
  "hardened_container c = (let x = jget c ''securityContext'' in
     jget x ''runAsNonRoot'' = JBool True \<and> jget x ''runAsUser'' \<noteq> jint 0 \<and>
     jget x ''privileged'' \<noteq> JBool True \<and> jget x ''allowPrivilegeEscalation'' = JBool False \<and>
     jget x ''readOnlyRootFilesystem'' = JBool True \<and>
     jget x ''capabilities'' = JObj [(''drop'', JArr [JStr ''ALL''])])"

definition hardened_pod :: "jsv \<Rightarrow> bool" where
  "hardened_pod pod = (jget pod ''automountServiceAccountToken'' = JBool False \<and>
     jget (jget (jget pod ''securityContext'') ''seccompProfile'') ''type'' = JStr ''RuntimeDefault'' \<and>
     list_all (\<lambda>k. jget pod k = JUndef) [''hostNetwork'', ''hostPID'', ''hostIPC''] \<and>
     list_all (\<lambda>v. jget v ''hostPath'' = JUndef) (items (jget pod ''volumes'')) \<and> items (jget pod ''containers'') \<noteq> [] \<and>
     list_all hardened_container (items (jget pod ''initContainers'') @ items (jget pod ''containers'')))"

definition workload_kinds :: "string list" where
  "workload_kinds = [''Deployment'', ''CronJob'', ''Job'', ''DaemonSet'']"

definition manifest_safe :: "string \<Rightarrow> jsv \<Rightarrow> bool" where
  "manifest_safe namespace m =
    ((manifest_kind m \<in> set workload_kinds \<longrightarrow> hardened_pod (workload_pod m)) \<and>
     (manifest_kind m \<noteq> ''Namespace'' \<longrightarrow> jget (jget m ''metadata'') ''namespace'' = JStr namespace) \<and>
     (manifest_kind m = ''ConfigMap'' \<longrightarrow> list_all (\<lambda>(k, _). \<not> isSecretKey (JStr k)) (entries (jget m ''data''))))"

text \<open>What Kubernetes admits by a network policy: a rule admits its peers, and everything if it names none; a peer
  is a block of addresses, or the pods that a selector chooses in the namespaces that a selector chooses.
  Policies add up, so a namespace is shut off only if each of its policies is.\<close>

definition is_policy :: "jsv \<Rightarrow> bool" where
  "is_policy m = (manifest_kind m = ''NetworkPolicy'')"

definition labels_are :: "jsv \<Rightarrow> string \<Rightarrow> string \<Rightarrow> bool" where
  "labels_are selector label v = (entries selector = [(''matchLabels'', JObj [(label, JStr v)])])"

definition in_namespace :: "string \<Rightarrow> string \<Rightarrow> jsv \<Rightarrow> bool" where
  "in_namespace label v peer = (jget peer ''ipBlock'' = JUndef \<and> labels_are (jget peer ''namespaceSelector'') label v)"

definition only_peers :: "(jsv \<Rightarrow> bool) \<Rightarrow> jsv \<Rightarrow> bool" where
  "only_peers P peers = (items peers \<noteq> [] \<and> list_all P (items peers))"

definition dns_rule :: "jsv \<Rightarrow> bool" where
  "dns_rule r = (only_peers (\<lambda>peer. in_namespace ''kubernetes.io/metadata.name'' ''kube-system'' peer \<and>
       labels_are (jget peer ''podSelector'') ''k8s-app'' ''kube-dns'') (jget r ''to'') \<and>
     only_peers (\<lambda>p. jget p ''port'' = jint 53) (jget r ''ports''))"

text \<open>Traffic that stays in the namespace, but for the names\<close>

definition inner_rule :: "string \<Rightarrow> jsv \<Rightarrow> bool" where
  "inner_rule namespace r = (dns_rule r \<or> only_peers (in_namespace ''kubernetes.io/metadata.name'' namespace) (jget r ''to''))"

text \<open>Traffic to the internet that leaves out private, shared and link-local addresses, the metadata service's
  among them\<close>

definition public_block :: "jsv \<Rightarrow> bool" where
  "public_block b = (jget b ''cidr'' = JStr ''0.0.0.0/0'' \<and> list_all (\<lambda>x. JStr x \<in> set (items (jget b ''except'')))
       [''10.0.0.0/8'', ''172.16.0.0/12'', ''192.168.0.0/16'', ''100.64.0.0/10'', ''169.254.0.0/16''] \<or>
     jget b ''cidr'' = JStr ''::/0'' \<and> list_all (\<lambda>x. JStr x \<in> set (items (jget b ''except''))) [''::1/128'', ''fc00::/7'', ''fe80::/10''])"

definition internet_rule :: "jsv \<Rightarrow> bool" where
  "internet_rule r = only_peers (\<lambda>peer. public_block (jget peer ''ipBlock'')) (jget r ''to'')"

definition gateway_rule :: "jsv \<Rightarrow> bool" where
  "gateway_rule r = only_peers (in_namespace ''raibitserver.io/ingress-gateway'' ''true'') (jget r ''from'')"

text \<open>A policy of all pods of the namespace, for both directions\<close>

definition covers_namespace :: "string \<Rightarrow> jsv \<Rightarrow> bool" where
  "covers_namespace namespace m = (is_policy m \<and> jget (jget m ''metadata'') ''namespace'' = JStr namespace \<and>
     jget (jget m ''spec'') ''podSelector'' = JObj [] \<and>
     jget (jget m ''spec'') ''policyTypes'' = JArr [JStr ''Ingress'', JStr ''Egress''])"

definition leaves_namespace :: "string \<Rightarrow> jsv \<Rightarrow> bool" where
  "leaves_namespace namespace m = (is_policy m \<and> \<not> list_all (inner_rule namespace) (items (jget (jget m ''spec'') ''egress'')))"

section \<open>Lemmas\<close>

named_theorems manifest_rules "what each manifest of the compiler holds"

lemma manifest_kind [simp]: "manifest_kind (manifest a k md body) = k"
  and manifest_metadata [simp]: "jget (manifest a k md body) ''metadata'' = JObj md"
  and manifest_body: "j \<notin> {''apiVersion'', ''kind'', ''metadata''} \<Longrightarrow> jget (manifest a k md body) j = jget (JObj body) j"
  by (simp_all add: manifest_kind_def manifest_def)

lemma named_namespace: "jget (JObj (named n ns l @ more_fields)) ''namespace'' = JStr ns"
  by (simp add: named_def)

lemma named_namespace0: "jget (JObj (named n ns l)) ''namespace'' = JStr ns"
  by (simp add: named_def)

lemma default_context_hardened:
  "jget c ''securityContext'' = DEFAULT_CONTAINER_SECURITY_CONTEXT \<Longrightarrow> hardened_container c"
  by (simp add: hardened_container_def DEFAULT_CONTAINER_SECURITY_CONTEXT_def)

lemma service_context_hardened:
  "jget c ''securityContext'' = secureContainerDefaults service \<Longrightarrow> hardened_container c"
  by (auto simp: hardened_container_def secureContainerDefaults_def Let_def positive_integer_def)

lemma pod_hardened: "hardened_pod (podSpec service img port plain secret restart)"
proof -
  have "jget (containerFor service img port plain secret) ''securityContext'' = secureContainerDefaults service"
    by (simp add: containerFor_def Let_def)
  then show ?thesis by (simp add: hardened_pod_def podSpec_def service_context_hardened DEFAULT_POD_SECURITY_CONTEXT_def)
qed

lemma plain_safe:
  "k \<notin> set workload_kinds \<Longrightarrow> k \<noteq> ''ConfigMap'' \<Longrightarrow> k = ''Namespace'' \<or> jget (JObj md) ''namespace'' = JStr ns \<Longrightarrow>
   manifest_safe ns (manifest a k md body)"
  by (auto simp: manifest_safe_def)

lemma workload_safe:
  "hardened_pod (workload_pod (manifest a k md body)) \<Longrightarrow> k \<noteq> ''ConfigMap'' \<Longrightarrow>
   jget (JObj md) ''namespace'' = JStr ns \<Longrightarrow> manifest_safe ns (manifest a k md body)"
  by (simp add: manifest_safe_def)

lemma safe_namespace [manifest_rules]: "manifest_safe ns (namespaceManifest ns slug)"
  unfolding namespaceManifest_def by (rule plain_safe) (simp_all add: workload_kinds_def)

lemma safe_service [manifest_rules]: "manifest_safe ns (serviceManifest ns name labels port)"
  unfolding serviceManifest_def by (rule plain_safe) (simp_all add: workload_kinds_def named_def)

lemma safe_ingress [manifest_rules]: "manifest_safe ns (ingressManifest ns service org project domain labels port)"
  unfolding ingressManifest_def Let_def by (rule plain_safe) (simp_all add: workload_kinds_def named_def)

lemma safe_hpa [manifest_rules]: "manifest_safe ns (hpaManifest ns name scaling)"
  unfolding hpaManifest_def by (rule plain_safe) (simp_all add: workload_kinds_def)

lemma safe_secret [manifest_rules]: "manifest_safe ns (secretManifest ns name labels data)"
  unfolding secretManifest_def by (rule plain_safe) (simp_all add: workload_kinds_def named_def)

lemma safe_isolation [manifest_rules]: "manifest_safe ns (tenantIsolationNetworkPolicy ns services resources names)"
  unfolding tenantIsolationNetworkPolicy_def by (rule plain_safe) (simp_all add: workload_kinds_def)

lemma safe_egress [manifest_rules]: "manifest_safe ns (servicePublicEgressPolicy ns project name)"
  unfolding servicePublicEgressPolicy_def Let_def by (rule plain_safe) (simp_all add: workload_kinds_def named_def)

lemma pdb_safe: "pdbManifest ns name labels availability = Inr m \<Longrightarrow> manifest_safe ns m"
  unfolding pdbManifest_def rbind_Inr_iff by (elim exE conjE) (auto intro!: plain_safe simp: workload_kinds_def named_def)

lemma config_map_safe:
  "list_all (\<lambda>(k, _). \<not> isSecretKey (JStr k)) (entries data) \<Longrightarrow> manifest_safe ns (configMapManifest ns name labels data)"
  by (simp add: manifest_safe_def configMapManifest_def workload_kinds_def named_def manifest_body)

lemma safe_deployment [manifest_rules]: "manifest_safe ns (deploymentManifest ns service labels img port plain secret)"
  unfolding deploymentManifest_def Let_def
  by (rule workload_safe) (simp_all add: workload_pod_def manifest_body pod_hardened named_def)

lemma safe_cron [manifest_rules]: "manifest_safe ns (cronJobManifest ns service labels img port plain secret)"
  unfolding cronJobManifest_def Let_def
  by (rule workload_safe) (simp_all add: workload_pod_def manifest_body pod_hardened named_def)

lemma safe_job [manifest_rules]: "manifest_safe ns (jobManifest ns service labels img port plain secret)"
  unfolding jobManifest_def Let_def
  by (rule workload_safe) (simp_all add: workload_pod_def manifest_body pod_hardened named_def)

lemma prepull_hardened:
  "hardened_container (prepull_container name img [])"
  "hardened_container (prepull_container name img [(''command'', v)])"
  by (rule default_context_hardened, simp add: prepull_container_def)+

lemma safe_prepull [manifest_rules]: "manifest_safe ns (imagePrePullDaemonSetManifest ns project images)"
proof -
  have "list_all hardened_container (map (\<lambda>(i, img). prepull_container (f i) img [(''command'', v)]) xs)" for f v xs
    by (induction xs) (auto simp: prepull_hardened)
  then show ?thesis
    unfolding imagePrePullDaemonSetManifest_def Let_def
    by (intro workload_safe) (simp_all add: workload_pod_def manifest_body hardened_pod_def prepull_hardened named_def DEFAULT_POD_SECURITY_CONTEXT_def)
qed

lemma split_plain: "list_all (\<lambda>(k, _). \<not> isSecretKey (JStr k)) (entries (jget (splitEnvForSecret env) ''plain''))"
  by (auto simp: splitEnvForSecret_def Let_def list_all_iff)

lemma env_manifests_safe: "m \<in> set (env_manifests ns name labels (jget (splitEnvForSecret env) ''plain'') secret) \<Longrightarrow>
    manifest_safe ns m"
  by (auto simp: env_manifests_def config_map_safe split_plain manifest_rules split: if_splits)

lemma running_manifests_safe: "m \<in> set (running_manifests c service labels port) \<Longrightarrow> manifest_safe (csNamespace c) m"
  by (auto simp: running_manifests_def Let_def manifest_rules split: if_splits)

lemma compileService_safe:
  "compileService penv c service resources named_env img = Inr ms \<Longrightarrow> m \<in> set ms \<Longrightarrow> manifest_safe (csNamespace c) m"
  by (auto simp: compileService_def Let_def rbind_Inr_iff manifest_rules split: if_splits
    dest: env_manifests_safe running_manifests_safe pdb_safe)

lemma compile_one_manifests:
  "compile_one penv parse spec c resources named_env files service = Inr (plan, ms) \<Longrightarrow> m \<in> set ms \<Longrightarrow>
   manifest_safe (csNamespace c) m"
  by (auto simp: compile_one_def Let_def rbind_Inr_iff dest: compileService_safe)

lemma plan_manifests:
  "(Inr (deployment_plan spec c bs images rs manifests services) :: jsv res) = Inr plan \<Longrightarrow>
   items (jget plan ''manifests'') = manifests"
  by (auto simp: deployment_plan_def Let_def)

text \<open>The manifests of a compiled project: the namespace, those of each service, the pre-pull set and the policies.\<close>

definition project_manifests :: "compile_scope \<Rightarrow> (jsv \<times> jsv list) list \<Rightarrow> string list \<Rightarrow> jsv list \<Rightarrow> jsv list \<Rightarrow> jsv list" where
  "project_manifests c compiled images services resources =
     [namespaceManifest (csNamespace c) (csProject c)] @ concat (map snd compiled) @
     (if images \<noteq> [] then [imagePrePullDaemonSetManifest (csNamespace c) (csProject c) images] else []) @
     networkPolicyManifests (csNamespace c) (csProject c) services resources"

lemma compileProject_manifests:
  assumes "compileProject penv parse spec files = Inr plan" and spec: "s = jdefault spec (JObj [])" "c = project_scope s"
  shows "\<exists>compiled images resources named_env.
    res_map (compile_one penv parse s c resources named_env (jdefault files (JObj []))) (items (jget s ''services'')) =
      Inr compiled \<and>
    items (jget plan ''manifests'') = project_manifests c compiled images (items (jget s ''services'')) resources"
  using assms(1) unfolding compileProject_def Let_def rbind_Inr_iff spec(1)[symmetric] spec(2)[symmetric]
    project_manifests_def[symmetric] 
  apply (elim exE conjE)
  apply (intro exI conjI, assumption)
  apply (erule plan_manifests)
  done

lemma project_manifests_safe:
  assumes "res_map (compile_one penv parse s c resources named_env files) services = Inr compiled"
    and "m \<in> set (project_manifests c compiled images services resources)"
  shows "manifest_safe (csNamespace c) m"
proof -
  have "manifest_safe (csNamespace c) m" if "p \<in> set compiled" "m \<in> set (snd p)" for p
    using res_map_Inr_set[OF assms(1) that(1)] that(2) by (cases p) (auto dest: compile_one_manifests)
  then show ?thesis
    using assms(2) by (auto simp: project_manifests_def networkPolicyManifests_def Let_def manifest_rules split: if_splits)
qed

lemmas policy_rules = only_peers_def in_namespace_def labels_are_def dns_rule_def inner_rule_def public_block_def internet_rule_def
  gateway_rule_def covers_namespace_def leaves_namespace_def is_policy_def

lemma isolation_policy:
  "covers_namespace ns (tenantIsolationNetworkPolicy ns services resources names)"
  "\<not> leaves_namespace ns (tenantIsolationNetworkPolicy ns services resources names)"
  "list_all gateway_rule (items (jget (jget (tenantIsolationNetworkPolicy ns services resources names) ''spec'') ''ingress''))"
  by (simp_all add: policy_rules tenantIsolationNetworkPolicy_def namespace_peer_def manifest_body)

lemma public_policy:
  "list_all internet_rule (items (jget (jget (servicePublicEgressPolicy ns project name) ''spec'') ''egress''))"
  "items (jget (jget (servicePublicEgressPolicy ns project name) ''spec'') ''ingress'') = []"
  "jget (jget (servicePublicEgressPolicy ns project name) ''spec'') ''podSelector'' = JObj [(''matchLabels'', app_name name)]"
  by (simp_all add: policy_rules servicePublicEgressPolicy_def PRIVATE_IPV4_EGRESS_EXCEPTIONS_def
    PRIVATE_IPV6_EGRESS_EXCEPTIONS_def Let_def manifest_body)

section \<open>Names of configuration maps\<close>

lemma rsearch_lit_within:
  "\<exists>u' q. rsearch (RLit w) p (u @ w @ v) = Some (rev u' @ p, (rev w @ rev u' @ p, q, [])) \<and> u @ w @ v = u' @ w @ q \<and>
     length u' \<le> length u"
proof (induction u arbitrary: p)
  case Nil
  have "rmatch (RLit w) (p, w @ v, []) = [(rev w @ p, v, [])]" by (simp add: rmatch_lit)
  then have "rsearch (RLit w) p (w @ v) = Some (p, (rev w @ p, v, []))" by (cases "w @ v") auto
  then show ?case by (intro exI[of _ "[]"] exI[of _ v]) simp
next
  case (Cons c u)
  show ?case
  proof (cases "prefix w (c # u @ w @ v)")
    case True
    then obtain q where q: "c # u @ w @ v = w @ q" by (auto simp: prefix_def)
    have "rmatch (RLit w) (p, c # u @ w @ v, []) = [(rev w @ p, q, [])]"
      using True q by (simp add: rmatch_lit)
    then have "rsearch (RLit w) p (c # u @ w @ v) = Some (p, (rev w @ p, q, []))" by simp
    then show ?thesis using q by (intro exI[of _ "[]"] exI[of _ q]) simp
  next
    case False
    obtain u' q where "rsearch (RLit w) (c # p) (u @ w @ v) = Some (rev u' @ c # p, (rev w @ rev u' @ c # p, q, []))"
      "u @ w @ v = u' @ w @ q" "length u' \<le> length u" using Cons.IH by blast
    then show ?thesis using False by (intro exI[of _ "c # u'"] exI[of _ q]) (simp add: rmatch_lit)
  qed
qed

lemma config_name_split:
  assumes "s = u @ ''-env'' @ v"
  shows "\<exists>u' q. config_name s = u' @ ''-config'' @ q \<and> s = u' @ ''-env'' @ q \<and> length u' \<le> length u"
proof -
  obtain u' q where "rsearch (RLit ''-env'') [] s = Some (rev u' @ [], (rev ''-env'' @ rev u' @ [], q, []))"
      "s = u' @ ''-env'' @ q" "length u' \<le> length u"
    using rsearch_lit_within[of "''-env''" "[]" u v] assms by metis
  then show ?thesis by (intro exI[of _ u'] exI[of _ q]) (simp add: config_name_def rreplace1_def)
qed

text \<open>An occurrence cannot overlap another one.\<close>

lemma env_overlap:
  assumes "s @ ''-env'' = u @ ''-env'' @ q" "length u < length s"
  shows "\<exists>v. q = v @ ''-env'' \<and> s = u @ ''-env'' @ v"
proof -
  from assms obtain t where t: "s = u @ t" "t \<noteq> []" by (auto simp: append_eq_append_conv2)
  with assms(1) have "t @ ''-env'' = ''-env'' @ q" by simp
  then obtain us where "t = ''-env'' @ us \<and> us @ ''-env'' = q \<or> t @ us = ''-env'' \<and> ''-env'' = us @ q"
    unfolding append_eq_append_conv2[of t] by metis
  then show ?thesis
  proof (elim exE disjE conjE)
    fix us
    assume us: "t = ''-env'' @ us" "us @ ''-env'' = q"
    then show ?thesis using t(1) by (intro exI[of _ us]) simp
  next
    fix us
    assume us: "t @ us = ''-env''" "''-env'' = us @ q"
    from us(1) t(2) have "us = [] \<or> us = ''v'' \<or> us = ''nv'' \<or> us = ''env''"
      by (auto simp: append_eq_Cons_conv)
    then have "us = []" using us(2)[symmetric] by (elim disjE) simp_all
    with us have "t = ''-env''" "q = [] @ ''-env''" by simp_all
    with t(1) show ?thesis by (intro exI[of _ "[]"]) simp
  qed
qed

lemma config_name_service: "config_name (s @ ''-env'') = s @ ''-config'' \<longleftrightarrow> \<not> str_includes s ''-env''"
proof
  assume eq: "config_name (s @ ''-env'') = s @ ''-config''"
  show "\<not> str_includes s ''-env''"
  proof
    assume "str_includes s ''-env''"
    then obtain a b where s: "s = a @ ''-env'' @ b" by (auto simp: str_includes_iff_sublist sublist_def)
    then have "s @ ''-env'' = a @ ''-env'' @ b @ ''-env''" by simp
    from config_name_split[OF this] obtain u q where c: "config_name (s @ ''-env'') = u @ ''-config'' @ q"
      "s @ ''-env'' = u @ ''-env'' @ q" "length u \<le> length a" by blast
    with s env_overlap[OF c(2)] obtain v where "q = v @ ''-env''" by auto
    with c(1) eq have "last (u @ ''-config'' @ v @ ''-env'') = last (s @ ''-config'')" by simp
    then show False by simp
  qed
next
  assume no: "\<not> str_includes s ''-env''"
  from config_name_split[of "s @ ''-env''" s "[]"] obtain u q where c: "config_name (s @ ''-env'') = u @ ''-config'' @ q"
    "s @ ''-env'' = u @ ''-env'' @ q" "length u \<le> length s" by auto
  have "sublist ''-env'' s" if "length u < length s" using env_overlap[OF c(2) that] by (elim exE conjE) (simp only: sublist_appendI)
  with no have "\<not> length u < length s" unfolding str_includes_iff_sublist by blast
  with c(3) have "length u = length s" by linarith
  with c(1,2) show "config_name (s @ ''-env'') = s @ ''-config''" by simp
qed

section \<open>Kinds, and the environment of a workload\<close>

named_theorems kind_rules "the kind of each manifest of the compiler"

lemma manifest_kinds [kind_rules]:
  "manifest_kind (namespaceManifest ns slug) = ''Namespace''"
  "manifest_kind (deploymentManifest ns service labels img port plain secret) = ''Deployment''"
  "manifest_kind (cronJobManifest ns service labels img port plain secret) = ''CronJob''"
  "manifest_kind (jobManifest ns service labels img port plain secret) = ''Job''"
  "manifest_kind (serviceManifest ns name labels port) = ''Service''"
  "manifest_kind (ingressManifest ns service org project domain labels port) = ''Ingress''"
  "manifest_kind (hpaManifest ns name scaling) = ''HorizontalPodAutoscaler''"
  "manifest_kind (secretManifest ns name labels data) = ''Secret''"
  "manifest_kind (configMapManifest ns name labels data) = ''ConfigMap''"
  "manifest_kind (imagePrePullDaemonSetManifest ns project images) = ''DaemonSet''"
  "pdbManifest ns name labels availability = Inr m \<Longrightarrow> manifest_kind m = ''PodDisruptionBudget''"
  by (auto simp: namespaceManifest_def deploymentManifest_def cronJobManifest_def jobManifest_def serviceManifest_def
    ingressManifest_def hpaManifest_def secretManifest_def configMapManifest_def imagePrePullDaemonSetManifest_def
    pdbManifest_def Let_def rbind_Inr_iff)

definition workload_env :: "jsv \<Rightarrow> jsv list" where
  "workload_env m = concat (map (\<lambda>c. items (jget c ''env'')) (items (jget (workload_pod m) ''containers'')))"

definition map_key :: "string \<Rightarrow> string \<Rightarrow> jsv \<Rightarrow> jsv \<Rightarrow> bool" where
  "map_key kind data ref m = (manifest_kind m = kind \<and> jget (jget m ''metadata'') ''name'' = jget ref ''name'' \<and>
     has_own (jget m data) (to_str (jget ref ''key'')))"

text \<open>The manifest a variable refers to is there and holds the key.\<close>

definition env_ref_resolves :: "jsv list \<Rightarrow> jsv \<Rightarrow> bool" where
  "env_ref_resolves ms e = (let from_config = jget (jget e ''valueFrom'') ''configMapKeyRef'';
     from_secret = jget (jget e ''valueFrom'') ''secretKeyRef''
   in list_ex (map_key ''ConfigMap'' ''data'' from_config) ms \<or> list_ex (map_key ''Secret'' ''stringData'' from_secret) ms)"

definition reads_config :: "jsv \<Rightarrow> bool" where
  "reads_config e = (jget (jget e ''valueFrom'') ''configMapKeyRef'' \<noteq> JUndef)"

lemma pod_env:
  "concat (map (\<lambda>c. items (jget c ''env'')) (items (jget (podSpec service img port plain secret restart) ''containers''))) =
   envRefs plain secret (slugify (jget service ''name'') ''item'' @ ''-env'')"
  by (simp add: podSpec_def containerFor_def Let_def)

lemma workload_env_kinds [manifest_rules]:
  "workload_env (deploymentManifest ns service labels img port plain secret) =
     envRefs plain secret (slugify (jget service ''name'') ''item'' @ ''-env'')"
  "workload_env (cronJobManifest ns service labels img port plain secret) =
     envRefs plain secret (slugify (jget service ''name'') ''item'' @ ''-env'')"
  "workload_env (jobManifest ns service labels img port plain secret) =
     envRefs plain secret (slugify (jget service ''name'') ''item'' @ ''-env'')"
  by (simp_all add: workload_env_def workload_pod_def deploymentManifest_def cronJobManifest_def jobManifest_def Let_def
    manifest_body pod_env)

text \<open>The configuration and the secrets among the manifests of a service are those of its environment.\<close>

definition holds_env :: "jsv \<Rightarrow> bool" where
  "holds_env m = (manifest_kind m = ''ConfigMap'' \<or> manifest_kind m = ''Secret'')"

lemma running_manifests_kinds: "m \<in> set (running_manifests c service labels port) \<Longrightarrow>
    manifest_kind m \<notin> set workload_kinds \<and> \<not> holds_env m \<and> \<not> is_policy m"
  by (auto simp: running_manifests_def Let_def kind_rules workload_kinds_def holds_env_def is_policy_def split: if_splits)

lemma env_manifests_kinds: "m \<in> set (env_manifests ns name labels plain secret) \<Longrightarrow>
    manifest_kind m \<notin> set workload_kinds \<and> holds_env m \<and> \<not> is_policy m"
  by (auto simp: env_manifests_def kind_rules workload_kinds_def holds_env_def is_policy_def split: if_splits)

lemma service_shape:
  assumes "compileService penv c service resources named_env img = Inr ms" "name = slugify (jget service ''name'') ''item''"
  shows "\<exists>labels plain secret w rest. ms = env_manifests (csNamespace c) name labels plain secret @ [w] @ rest \<and>
    workload_env w = envRefs plain secret (name @ ''-env'') \<and> \<not> holds_env w \<and> \<not> is_policy w \<and>
    (\<forall>x \<in> set rest. manifest_kind x \<notin> set workload_kinds \<and> \<not> holds_env x \<and> \<not> is_policy x)"
proof -
  let ?ns = "csNamespace c" and ?type = "jor (jget service ''type'') (JStr ''web'')"
  let ?labels = "labelsFor (csProject c) name ?type" and ?port = "to_num (jor (jget service ''port'') (jnat DEFAULT_PORT))"
  from assms obtain env where "injectResourceEnv penv service resources (JStr (csProject c))
      (JObj [(''resourceEnvByName'', named_env)]) = Inr env"
    by (auto simp: compileService_def Let_def rbind_Inr_iff)
  then obtain plain secret where "ms = env_manifests ?ns name ?labels plain secret @
        [cronJobManifest ?ns service ?labels img ?port plain secret] @ [] \<or>
      ms = env_manifests ?ns name ?labels plain secret @
        [jobManifest ?ns service ?labels img ?port plain secret] @ [] \<or>
      (\<exists>pdb. pdbManifest ?ns name ?labels (jget service ''availability'') = Inr pdb \<and>
        ms = env_manifests ?ns name ?labels plain secret @
          [deploymentManifest ?ns service ?labels img ?port plain secret] @ running_manifests c service ?labels ?port @ [pdb])"
    using assms unfolding compileService_def Let_def
    by (simp only: rbind_simps rbind_Inr_iff sum.inject append_assoc append_Nil2 split: if_splits) blast+
  then show ?thesis
  proof (elim disjE exE conjE)
    assume "ms = env_manifests ?ns name ?labels plain secret @ [cronJobManifest ?ns service ?labels img ?port plain secret] @ []"
    then show ?thesis using assms(2) by (intro exI conjI) (auto simp: manifest_rules kind_rules holds_env_def is_policy_def)
  next
    assume "ms = env_manifests ?ns name ?labels plain secret @ [jobManifest ?ns service ?labels img ?port plain secret] @ []"
    then show ?thesis using assms(2) by (intro exI conjI) (auto simp: manifest_rules kind_rules holds_env_def is_policy_def)
  next
    fix pdb
    assume pdb: "pdbManifest ?ns name ?labels (jget service ''availability'') = Inr pdb"
      and ms: "ms = env_manifests ?ns name ?labels plain secret @
        [deploymentManifest ?ns service ?labels img ?port plain secret] @ running_manifests c service ?labels ?port @ [pdb]"
    have "\<forall>x \<in> set (running_manifests c service ?labels ?port @ [pdb]).
        manifest_kind x \<notin> set workload_kinds \<and> \<not> holds_env x \<and> \<not> is_policy x"
      using kind_rules(11)[OF pdb] by (auto simp: workload_kinds_def holds_env_def is_policy_def dest: running_manifests_kinds)
    then show ?thesis using assms(2) ms
      by (intro exI conjI) (auto simp: manifest_rules kind_rules holds_env_def is_policy_def)
  qed
qed

lemma service_workload:
  assumes "compileService penv c service resources named_env img = Inr ms" "m \<in> set ms"
    "manifest_kind m \<in> set workload_kinds" "name = slugify (jget service ''name'') ''item''"
  shows "\<exists>labels plain secret. workload_env m = envRefs plain secret (name @ ''-env'') \<and>
    {x \<in> set ms. holds_env x} = set (env_manifests (csNamespace c) name labels plain secret)"
proof -
  obtain labels plain secret w rest where
    ms: "ms = env_manifests (csNamespace c) name labels plain secret @ [w] @ rest" and
    w: "workload_env w = envRefs plain secret (name @ ''-env'')" "\<not> holds_env w" and
    rest: "\<forall>x \<in> set rest. manifest_kind x \<notin> set workload_kinds \<and> \<not> holds_env x"
    using service_shape[OF assms(1,4)] by (elim exE conjE) blast
  have "m = w" using assms(2,3) rest env_manifests_kinds[of m "csNamespace c" name labels plain secret] by (auto simp: ms)
  moreover have "{x \<in> set ms. holds_env x} = set (env_manifests (csNamespace c) name labels plain secret)"
    using w(2) rest env_manifests_kinds by (auto simp: ms)
  ultimately show ?thesis using w(1) by blast
qed

lemma resolves_env_only: "env_ref_resolves ms e = env_ref_resolves (filter holds_env ms) e"
  by (auto simp: env_ref_resolves_def Let_def list_ex_iff map_key_def holds_env_def)

lemma resolves_set: "set ms = set ms' \<Longrightarrow> env_ref_resolves ms e = env_ref_resolves ms' e"
  by (simp add: env_ref_resolves_def list_ex_iff)

lemma config_map_key: "map_key ''ConfigMap'' ''data'' (JObj [(''name'', JStr n), (''key'', JStr k)])
    (configMapManifest ns name labels data) \<longleftrightarrow> n = name \<and> has_own data k"
  by (auto simp: map_key_def configMapManifest_def manifest_body named_def)

lemma secret_key: "map_key ''Secret'' ''stringData'' (JObj [(''name'', JStr n), (''key'', JStr k)])
    (secretManifest ns name labels data) \<longleftrightarrow> n = name \<and> has_own data k"
  by (auto simp: map_key_def secretManifest_def manifest_body named_def)

lemma map_key_kind: "map_key kind data ref m \<Longrightarrow> manifest_kind m = kind"
  by (simp add: map_key_def)

lemma map_key_name: "map_key kind data JUndef m \<Longrightarrow> jget (jget m ''metadata'') ''name'' = JUndef"
  by (simp add: map_key_def)

lemma env_manifests_named: "m \<in> set (env_manifests ns name labels plain secret) \<Longrightarrow>
    jget (jget m ''metadata'') ''name'' \<noteq> JUndef"
  by (auto simp: env_manifests_def secretManifest_def configMapManifest_def named_def split: if_splits)

lemma config_ref_resolves:
  assumes "has_own plain k"
  shows "env_ref_resolves (env_manifests ns name labels plain secret) (key_ref ''configMapKeyRef'' n k) \<longleftrightarrow>
    n = name @ ''-config''"
proof -
  let ?ms = "env_manifests ns name labels plain secret" and ?r = "JObj [(''name'', JStr n), (''key'', JStr k)]"
  have other: "\<not> list_ex (map_key ''Secret'' ''stringData'' JUndef) ?ms"
    using map_key_name env_manifests_named by (fastforce simp: list_ex_iff)
  have "\<not> map_key ''ConfigMap'' ''data'' ?r (secretManifest ns (name @ ''-env'') labels secret)"
    by (auto dest: map_key_kind simp: kind_rules)
  then have "list_ex (map_key ''ConfigMap'' ''data'' ?r) ?ms \<longleftrightarrow> n = name @ ''-config''"
    using assms by (auto simp: env_manifests_def config_map_key has_own_def)
  with other show ?thesis by (simp add: env_ref_resolves_def key_ref_def)
qed

lemma secret_ref_resolves:
  assumes "has_own secret k"
  shows "env_ref_resolves (env_manifests ns name labels plain secret) (key_ref ''secretKeyRef'' (name @ ''-env'') k)"
  using assms by (auto simp: env_ref_resolves_def key_ref_def env_manifests_def secret_key has_own_def)

lemma refs_resolve:
  "list_all (env_ref_resolves (env_manifests ns name labels plain secret)) (envRefs plain secret (name @ ''-env'')) \<longleftrightarrow>
   \<not> str_includes name ''-env'' \<or> \<not> list_ex reads_config (envRefs plain secret (name @ ''-env''))"
proof -
  have secret: "list_all (env_ref_resolves (env_manifests ns name labels plain secret))
      (map (\<lambda>(key, _). key_ref ''secretKeyRef'' (name @ ''-env'') key) (entries secret))"
    by (auto simp: list_all_iff intro!: secret_ref_resolves has_own_entry)
  have plain: "list_all (env_ref_resolves (env_manifests ns name labels plain secret))
      (map (\<lambda>(key, _). key_ref ''configMapKeyRef'' n key) (entries plain)) \<longleftrightarrow>
      n = name @ ''-config'' \<or> entries plain = []" for n
  proof -
    have "env_ref_resolves (env_manifests ns name labels plain secret) (key_ref ''configMapKeyRef'' n (fst p)) \<longleftrightarrow>
        n = name @ ''-config''" if "p \<in> set (entries plain)" for p
      by (rule config_ref_resolves, rule has_own_entry[of _ "snd p"]) (use that in simp)
    then show ?thesis by (cases "entries plain") (auto simp: list_all_iff split_beta)
  qed
  have reads: "list_ex reads_config (envRefs plain secret n) \<longleftrightarrow> entries plain \<noteq> []" for n
    by (cases "entries plain") (auto simp: envRefs_def list_ex_iff reads_config_def key_ref_def)
  show ?thesis
    using secret plain[of "config_name (name @ ''-env'')"] reads config_name_service[of name]
    unfolding envRefs_def list_all_append by blast
qed

section \<open>Public egress\<close>

lemma service_no_policy:
  assumes "compileService penv c service resources named_env img = Inr ms" "m \<in> set ms"
  shows "\<not> is_policy m"
  using service_shape[OF assms(1) refl] assms(2)
  by (elim exE conjE) (auto dest: env_manifests_kinds)

definition egress_asked :: "jsv list \<Rightarrow> jsv \<Rightarrow> bool" where
  "egress_asked services m = list_ex (\<lambda>service. JBool True \<in> set [jget service ''allowPublicEgress'',
       jget service ''publicEgress'', jget (jget service ''egress'') ''publicInternet''] \<and>
     jget (jget m ''spec'') ''podSelector'' =
       JObj [(''matchLabels'', app_name (slugify (jget service ''name'') ''item''))]) services"

lemma project_policies:
  assumes "res_map (compile_one penv parse s c resources named_env files) services = Inr compiled"
    and "m \<in> set (project_manifests c compiled images services resources)" and "is_policy m"
  obtains (isolation) names where "m = tenantIsolationNetworkPolicy (csNamespace c) services resources names"
    | (public) service where "service \<in> set services" "wants_public_egress service"
      "m = servicePublicEgressPolicy (csNamespace c) (csProject c) (slugify (jget service ''name'') ''item'')"
proof -
  have served: "\<not> is_policy m" if "p \<in> set compiled" "m \<in> set (snd p)" for p m
    using res_map_Inr_set[OF assms(1) that(1)] that(2)
    by (cases p) (auto simp: compile_one_def Let_def rbind_Inr_iff dest: service_no_policy)
  moreover have "\<not> is_policy (namespaceManifest ns pn)" "\<not> is_policy (imagePrePullDaemonSetManifest ns pn images)" for ns pn
    by (simp_all add: is_policy_def kind_rules)
  ultimately show thesis
    using assms(2,3) that by (auto simp: project_manifests_def networkPolicyManifests_def Let_def split: if_splits)
qed

section \<open>Properties\<close>

definition project_namespace :: "jsv \<Rightarrow> string" where
  "project_namespace spec = csNamespace (project_scope (jdefault spec (JObj [])))"

definition policy_safe :: "jsv \<Rightarrow> string \<Rightarrow> jsv \<Rightarrow> bool" where
  "policy_safe spec namespace m = (is_policy m \<longrightarrow> list_all gateway_rule (items (jget (jget m ''spec'') ''ingress'')) \<and>
     (leaves_namespace namespace m \<longrightarrow> egress_asked (items (jget (jdefault spec (JObj [])) ''services'')) m \<and>
       list_all (\<lambda>r. inner_rule namespace r \<or> internet_rule r) (items (jget (jget m ''spec'') ''egress''))))"

definition plan_safe :: "jsv \<Rightarrow> jsv \<Rightarrow> bool" where
  "plan_safe spec plan = (let ms = items (jget plan ''manifests''); ns = project_namespace spec in
     list_all (manifest_safe ns) ms \<and> list_ex (covers_namespace ns) ms \<and> list_all (policy_safe spec ns) ms)"

lemma project_policy_safe:
  assumes "res_map (compile_one penv parse s c resources named_env files) (items (jget (jdefault spec (JObj [])) ''services'')) = Inr compiled"
    and "m \<in> set (project_manifests c compiled images (items (jget (jdefault spec (JObj [])) ''services'')) resources)"
  shows "policy_safe spec (csNamespace c) m"
proof (cases "is_policy m")
  case True
  from assms True show ?thesis
  proof (cases rule: project_policies)
    case (isolation names)
    then show ?thesis by (simp add: policy_safe_def isolation_policy)
  next
    case (public service)
    then have "egress_asked (items (jget (jdefault spec (JObj [])) ''services'')) m"
      unfolding egress_asked_def list_ex_iff public(3) using public(2)
      by (intro bexI[OF _ public(1)]) (auto simp: public_policy(3) wants_public_egress_def)
    then show ?thesis using public_policy(1,2) public(3) by (auto simp: policy_safe_def list_all_iff)
  qed
qed (simp add: policy_safe_def)

text \<open>C1: Whatever the project asks for, each workload \<open>compileProject\<close> emits runs without a service account
  token, root, privilege, writable root, host namespace or host path, each manifest but the namespace itself lies in the
  namespace of the project, and no configuration map holds a secret key. A network policy covers all pods of
  the namespace in both directions; every policy admits traffic into it only from the gateway, and out of
  it only to the name service, unless it selects the pods of a service that asked for the internet, and then
  not to private, shared or link-local addresses.\<close>

theorem compiled_plan_safe:
  assumes "compileProject penv parse spec files = Inr plan"
  shows "plan_safe spec plan"
proof -
  let ?s = "jdefault spec (JObj [])" and ?c = "project_scope (jdefault spec (JObj []))"
  obtain compiled images resources named_env where
    r: "res_map (compile_one penv parse ?s ?c resources named_env (jdefault files (JObj []))) (items (jget ?s ''services'')) =
      Inr compiled" and
    ms: "items (jget plan ''manifests'') = project_manifests ?c compiled images (items (jget ?s ''services'')) resources"
    using compileProject_manifests[OF assms refl refl] by blast
  have "list_ex (covers_namespace (csNamespace ?c)) (items (jget plan ''manifests''))"
    unfolding ms by (simp add: project_manifests_def networkPolicyManifests_def Let_def isolation_policy(1))
  then show ?thesis
    using project_manifests_safe[OF r] project_policy_safe[OF r]
    unfolding plan_safe_def project_namespace_def Let_def ms by (simp add: list_all_iff)
qed

definition sample_spec :: jsv where
  "sample_spec = JObj [(''name'', JStr ''shop''), (''services'', JArr [
     JObj [(''name'', JStr ''api''), (''image'', JStr ''r/api:1''), (''sourceType'', JStr ''image''),
       (''publicEgress'', JBool True)]])]"

theorem compiled_plan_safe_witness:
  "plan_safe sample_spec (projr (compileProject (JObj []) (\<lambda>_. None) sample_spec JUndef))"
proof -
  have "is_ok (compileProject (JObj []) (\<lambda>_. None) sample_spec JUndef)" by code_simp
  then have "compileProject (JObj []) (\<lambda>_. None) sample_spec JUndef =
      Inr (projr (compileProject (JObj []) (\<lambda>_. None) sample_spec JUndef))"
    by (cases "compileProject (JObj []) (\<lambda>_. None) sample_spec JUndef") simp_all
  then show ?thesis by (rule compiled_plan_safe)
qed

text \<open>C35: Every variable of a compiled workload refers to a manifest of the same service that holds its key, exactly
  when the slug of the service does not contain \<open>-env\<close> or no variable is read from the configuration map:
  \<open>envRefs\<close> builds the name of the map by replacing the first \<open>-env\<close>.\<close>

theorem service_env_resolves:
  assumes "compileService penv c service resources named_env img = Inr ms" "m \<in> set ms"
    "manifest_kind m \<in> set workload_kinds"
  shows "list_all (env_ref_resolves ms) (workload_env m) \<longleftrightarrow>
    \<not> str_includes (slugify (jget service ''name'') ''item'') ''-env'' \<or> \<not> list_ex reads_config (workload_env m)"
proof -
  let ?name = "slugify (jget service ''name'') ''item''"
  obtain labels plain secret where env: "workload_env m = envRefs plain secret (?name @ ''-env'')"
    and ms: "{x \<in> set ms. holds_env x} = set (env_manifests (csNamespace c) ?name labels plain secret)"
    using service_workload[OF assms refl] by blast
  have "env_ref_resolves ms = env_ref_resolves (env_manifests (csNamespace c) ?name labels plain secret)"
    using ms by (intro ext, subst resolves_env_only, intro resolves_set) simp
  then show ?thesis unfolding env by (simp only: refs_resolve)
qed

definition sample_env_service :: "string \<Rightarrow> jsv" where
  "sample_env_service name = JObj [(''name'', JStr name), (''type'', JStr ''job''),
     (''environment'', JObj [(''MODE'', JStr ''x''), (''API_TOKEN'', JStr ''y'')])]"

definition sample_scope :: compile_scope where
  "sample_scope = \<lparr>csNamespace = ''org-shop'', csOrganization = ''org'', csProject = ''shop'', csDomain = JStr ''d.io''\<rparr>"

theorem service_env_resolves_witness:
  "list_all (env_ref_resolves (projr (compileService (JObj []) sample_scope (sample_env_service ''worker'') [] (JObj []) JNull)))
     (workload_env (projr (compileService (JObj []) sample_scope (sample_env_service ''worker'') [] (JObj []) JNull) ! 2)) \<and>
   \<not> list_all (env_ref_resolves (projr (compileService (JObj []) sample_scope (sample_env_service ''my-env-app'') [] (JObj []) JNull)))
     (workload_env (projr (compileService (JObj []) sample_scope (sample_env_service ''my-env-app'') [] (JObj []) JNull) ! 2))"
proof -
  let ?w = "compileService (JObj []) sample_scope (sample_env_service ''worker'') [] (JObj []) JNull"
  let ?e = "compileService (JObj []) sample_scope (sample_env_service ''my-env-app'') [] (JObj []) JNull"
  have "is_ok ?w" "is_ok ?e" by code_simp+
  then have ok: "?w = Inr (projr ?w)" "?e = Inr (projr ?e)"
    by (simp add: is_ok_def split: sum.splits)+
  have "length (projr ?w) = 3" "length (projr ?e) = 3" by code_simp+
  then have mem: "projr ?w ! 2 \<in> set (projr ?w)" "projr ?e ! 2 \<in> set (projr ?e)" by (intro nth_mem, simp)+
  have kind: "manifest_kind (projr ?w ! 2) \<in> set workload_kinds" "manifest_kind (projr ?e ! 2) \<in> set workload_kinds"
    by code_simp+
  have "\<not> str_includes (slugify (jget (sample_env_service ''worker'') ''name'') ''item'') ''-env''"
    "str_includes (slugify (jget (sample_env_service ''my-env-app'') ''name'') ''item'') ''-env''"
    "list_ex reads_config (workload_env (projr ?e ! 2))"
    by code_simp+
  then show ?thesis
    using service_env_resolves[OF ok(1) mem(1) kind(1)] service_env_resolves[OF ok(2) mem(2) kind(2)] by blast
qed

end
