(* ===== verification/Kubernetes.thy ===== *)
theory Kubernetes
  imports BuildExecutor Manifest
begin

text \<open>
  \<open>kubernetes.ts\<close>: the \<open>kubectl apply\<close> command, the plan of an apply, and the run that writes the
  manifests to a file and applies it. Manifests are objects; \<open>tmp\<close> is \<open>os.tmpdir()\<close>.
\<close>

section \<open>Indented JSON text\<close>

text \<open>\<open>JSON.stringify(v, null, 2)\<close>\<close>

definition json_line :: "nat \<Rightarrow> string" where
  "json_line n = [CHR 0x0A] @ replicate (2 * n) CHR '' ''"

definition json_block :: "nat \<Rightarrow> string \<Rightarrow> string list \<Rightarrow> string \<Rightarrow> string" where
  "json_block n opening parts closing = (if parts = [] then opening @ closing
     else opening @ json_line (Suc n) @ str_join ('','' @ json_line (Suc n)) parts @ json_line n @ closing)"

fun json_pretty :: "nat \<Rightarrow> jsv \<Rightarrow> string"
and pretty_items :: "nat \<Rightarrow> jsv list \<Rightarrow> string list"
and pretty_fields :: "nat \<Rightarrow> (string \<times> jsv) list \<Rightarrow> string list" where
  "json_pretty n (JArr vs) = json_block n ''['' (pretty_items (Suc n) vs) '']''"
| "json_pretty n (JObj kvs) = json_block n ''{'' (pretty_fields (Suc n) kvs) ''}''"
| "json_pretty n v = json_stringify v"
| "pretty_items n [] = []"
| "pretty_items n (v # vs) = json_pretty n v # pretty_items n vs"
| "pretty_fields n [] = []"
| "pretty_fields n ((k, v) # kvs) = (case v of JUndef \<Rightarrow> pretty_fields n kvs | JHost _ \<Rightarrow> pretty_fields n kvs
     | _ \<Rightarrow> (json_string k @ '': '' @ json_pretty n v) # pretty_fields n kvs)"

section \<open>Commands and plans\<close>

definition flag_value :: "string \<Rightarrow> jsv \<Rightarrow> string list" where
  "flag_value flag value = (if truthy value then [flag, to_str value] else [])"

definition kubectlApplyCommand :: "jsv \<Rightarrow> command_spec" where
  "kubectlApplyCommand options = \<lparr>executable = ''kubectl'', cmdArgs = [''apply''] @
       (if truthy (jdefault (jget options ''serverSide'') (JBool True)) then [''--server-side''] else []) @
       flag_value ''--namespace'' (jget options ''namespace'') @ flag_value ''--kubeconfig'' (jget options ''kubeconfig'') @
       flag_value ''--context'' (jget options ''context'') @
       (if truthy (jget options ''dryRunMode'') then [''--dry-run='' @ to_str (jget options ''dryRunMode'')] else []) @
       (if truthy (jget options ''prune'') then [''--prune''] else []) @
       flag_value ''--selector'' (jget options ''selector'') @
       [''-f'', to_str (jdefault (jget options ''file'') (JStr ''-''))],
     cmdCwd = JUndef, cmdEnv = [], cmdStdin = [], redacted = []\<rparr>"

definition apply_namespace :: "jsv list \<Rightarrow> jsv \<Rightarrow> jsv" where
  "apply_namespace manifests options = jor (jget options ''namespace'')
     (jor (case find (\<lambda>m. jget m ''kind'' = JStr ''Namespace'') manifests of
        Some m \<Rightarrow> jget (jget m ''metadata'') ''name'' | None \<Rightarrow> JUndef) JNull)"

definition apply_options :: "jsv list \<Rightarrow> jsv \<Rightarrow> jsv \<Rightarrow> jsv \<Rightarrow> jsv" where
  "apply_options manifests options file mode = JObj [(''file'', file),
     (''namespace'', if truthy (jget options ''applyNamespace'') then apply_namespace manifests options else JNull),
     (''kubeconfig'', jget options ''kubeconfig''), (''context'', jget options ''context''),
     (''serverSide'', JBool (jget options ''serverSide'' \<noteq> JBool False)), (''dryRunMode'', jor mode JNull)]"

definition manifest_list :: "jsv list \<Rightarrow> jsv" where
  "manifest_list manifests = JObj [(''apiVersion'', JStr ''v1''), (''kind'', JStr ''List''), (''items'', JArr manifests)]"

definition kubernetesApplyPlan :: "jsv list \<Rightarrow> jsv \<Rightarrow> jsv" where
  "kubernetesApplyPlan manifests options = JObj [(''namespace'', apply_namespace manifests options),
     (''manifestCount'', jnat (length manifests)), (''serverSide'', JBool (jget options ''serverSide'' \<noteq> JBool False)),
     (''command'', JStr (commandToString (kubectlApplyCommand (apply_options manifests options
        (jor (jget options ''file'') (JStr ''<generated-json-list>'')) (jget options ''dryRunMode''))))),
     (''list'', manifest_list manifests)]"

section \<open>Applying manifests\<close>

definition work_dir :: "host \<Rightarrow> string \<Rightarrow> jsv \<Rightarrow> jsv host_run" where
  "work_dir h tmp options = (if truthy (jget options ''outputDir'') then run_ret (Inr (jget options ''outputDir''))
     else call h (MakeTempDir (path_join tmp ''raibitserver-k8s-'')))"

definition manifest_text :: "bool \<Rightarrow> jsv list \<Rightarrow> string" where
  "manifest_text dryRun manifests =
     json_pretty 0 (if dryRun then maskSecrets (manifest_list manifests) else manifest_list manifests) @ [CHR 0x0A]"

definition applied :: "jsv list \<Rightarrow> jsv \<Rightarrow> bool \<Rightarrow> string \<Rightarrow> jsv \<Rightarrow> jsv" where
  "applied manifests options dryRun file result = JObj [(''namespace'', apply_namespace manifests options),
     (''manifestFile'', if dryRun \<or> jget options ''keepManifest'' = JBool True then JStr file else JNull),
     (''manifestCount'', jnat (length manifests)), (''dryRun'', JBool dryRun), (''command'', jget result ''command''),
     (''result'', result)]"

definition applyManifests :: "host \<Rightarrow> string \<Rightarrow> jsv list \<Rightarrow> jsv \<Rightarrow> jsv host_run" where
  "applyManifests h tmp manifests options = (let dryRun = (jget options ''dryRun'' \<noteq> JBool False) in
     run_bind (work_dir h tmp options) (\<lambda>made.
     run_bind (run_ret (path_arg made)) (\<lambda>dir.
     run_bind (call h (MakeDir dir)) (\<lambda>_.
     run_bind (run_ret (path_arg (jor (jget options ''fileName'') (JStr ''manifests.json'')))) (\<lambda>name.
     let file = path_join dir name in
     run_bind (call h (WriteFile file (manifest_text dryRun manifests))) (\<lambda>_.
     run_bind (run_command h (kubectlApplyCommand (apply_options manifests options (JStr file)
        (jget options ''kubectlDryRunMode''))) dryRun) (\<lambda>result.
     run_bind (run_when (\<not> dryRun \<and> jget options ''keepManifest'' \<noteq> JBool True) (run_quiet (call h (RemoveFile file)))) (\<lambda>_.
     run_ret (Inr (applied manifests options dryRun file result))))))))))"

definition applyProject :: "host \<Rightarrow> string \<Rightarrow> jsv \<Rightarrow> json_parser \<Rightarrow> jsv \<Rightarrow> jsv \<Rightarrow> jsv \<Rightarrow> jsv host_run" where
  "applyProject h tmp penv parse spec files options =
     run_bind (run_ret (compileProject penv parse spec files)) (\<lambda>compiled.
     run_bind (applyManifests h tmp (items (jget compiled ''manifests'')) options) (\<lambda>apply.
     run_ret (Inr (JObj [(''compiled'', maskSecrets compiled), (''apply'', apply)]))))"

section \<open>What an apply hands out\<close>

text \<open>The calls of an apply: a dry run makes directories and writes the masked manifests only.\<close>

fun apply_call :: "bool \<Rightarrow> jsv list \<Rightarrow> host_call \<Rightarrow> bool" where
  "apply_call dryRun manifests (WriteFile file body) = (body = manifest_text dryRun manifests)"
| "apply_call dryRun manifests (MakeDir _) = True"
| "apply_call dryRun manifests (MakeTempDir _) = True"
| "apply_call dryRun manifests (Spawn c) = (\<not> dryRun \<and> executable c = ''kubectl'')"
| "apply_call dryRun manifests (RemoveFile _) = (\<not> dryRun)"
| "apply_call dryRun manifests _ = False"

lemma apply_calls:
  "makes_calls (apply_call (jget options ''dryRun'' \<noteq> JBool False) manifests) (applyManifests h tmp manifests options)"
  unfolding applyManifests_def work_dir_def Let_def
  by (intro host_calls_intros) (simp_all add: kubectlApplyCommand_def)

definition written_files :: "host_call list \<Rightarrow> string list" where
  "written_files tr = [file. WriteFile file _ \<leftarrow> tr]"

lemma removed_last: "run_bind (run_when True (run_quiet (call h (RemoveFile file)))) (\<lambda>_. run_ret x) tr = (x, tr @ [RemoveFile file])"
  by (auto simp: run_bind_def run_when_def run_quiet_def call_def run_ret_def split: prod.splits sum.splits)

lemma work_dir_writes: "work_dir h tmp options [] = (Inr made, tr) \<Longrightarrow> written_files tr = []"
  by (auto simp: work_dir_def run_ret_Inr call_def written_files_def split: if_splits)

lemma command_trace: "run_command h c False tr = (Inr x, tr') \<Longrightarrow> tr' = tr @ [Spawn c]"
  by (simp add: run_command_def)

lemma call_trace: "call h c tr = (r, tr') \<Longrightarrow> tr' = tr @ [c]"
  by (simp add: call_def)

text \<open>What \<open>applyManifests\<close> hands out: the only file it writes holds the manifests, with secrets masked in
  a dry run, and a dry run starts no process and removes nothing; the only program it starts is
  \<open>kubectl\<close>. A run that applied the manifests has removed their file at the end, unless the file was asked for.\<close>

theorem apply_confined:
  assumes "applyManifests h tmp manifests options [] = (r, tr)"
  shows "list_all (apply_call (jget options ''dryRun'' \<noteq> JBool False) manifests) tr \<and>
    (is_ok r \<and> jget options ''dryRun'' = JBool False \<and> jget options ''keepManifest'' \<noteq> JBool True \<longrightarrow>
      (\<exists>file. written_files tr = [file] \<and> last tr = RemoveFile file))"
proof (intro conjI impI)
  show "list_all (apply_call (jget options ''dryRun'' \<noteq> JBool False) manifests) tr"
    using apply_calls assms by (rule makes_calls_trace)
  assume a: "is_ok r \<and> jget options ''dryRun'' = JBool False \<and> jget options ''keepManifest'' \<noteq> JBool True"
  then obtain x where x: "r = Inr x" by (cases r) auto
  from a have cond: "(\<not> (jget options ''dryRun'' \<noteq> JBool False) \<and> jget options ''keepManifest'' \<noteq> JBool True) = True" by simp
  have dry: "(jget options ''dryRun'' \<noteq> JBool False) = False" using a by simp
  obtain made dir name t1 t2 t3 t4 u v result where
    s: "work_dir h tmp options [] = (Inr made, t1)" "call h (MakeDir dir) t1 = (Inr u, t2)"
    "call h (WriteFile (path_join dir name) (manifest_text False manifests)) t2 = (Inr v, t3)"
    "run_command h (kubectlApplyCommand (apply_options manifests options (JStr (path_join dir name)) (jget options ''kubectlDryRunMode'')))
       False t3 = (Inr result, t4)"
    "run_bind (run_when True (run_quiet (call h (RemoveFile (path_join dir name))))) (\<lambda>_.
       run_ret (Inr (applied manifests options False (path_join dir name) result))) t4 = (Inr x, tr)"
    using assms unfolding applyManifests_def Let_def x cond unfolding dry run_bind_Inr[of "work_dir _ _ _"]
      run_bind_Inr[of "run_ret _"] run_bind_Inr[of "call _ _"] run_bind_Inr[of "run_command _ _ _"] run_ret_Inr
    by (elim exE conjE) (rule that, auto)
  have "written_files t1 = []" by (rule work_dir_writes[OF s(1)])
  moreover have "tr = t1 @ [MakeDir dir, WriteFile (path_join dir name) (manifest_text False manifests), Spawn (kubectlApplyCommand
      (apply_options manifests options (JStr (path_join dir name)) (jget options ''kubectlDryRunMode''))), RemoveFile (path_join dir name)]"
    using call_trace[OF s(2)] call_trace[OF s(3)] command_trace[OF s(4)] s(5) unfolding removed_last by simp
  ultimately show "\<exists>file. written_files tr = [file] \<and> last tr = RemoveFile file"
    by (simp add: written_files_def)
qed

definition apply_once :: jsv where
  "apply_once = JObj [(''dryRun'', JBool False), (''outputDir'', JStr ''/w'')]"

theorem apply_confined_witness:
  "\<exists>file. written_files (snd (applyManifests one_host ''/tmp'' [] apply_once [])) = [file] \<and>
     last (snd (applyManifests one_host ''/tmp'' [] apply_once [])) = RemoveFile file"
proof -
  have "is_ok (fst (applyManifests one_host ''/tmp'' [] apply_once []))" by code_simp
  moreover have "jget apply_once ''dryRun'' = JBool False \<and> jget apply_once ''keepManifest'' \<noteq> JBool True"
    by (simp add: apply_once_def)
  ultimately show ?thesis using apply_confined[OF surjective_pairing[of "applyManifests one_host ''/tmp'' [] apply_once []"]] by blast
qed

end
