(* ===== verification/Http.thy ===== *)
theory Http
  imports Uri Auth Kubernetes StoreHelpers
begin

text \<open>
  What \<open>api.ts\<close> reads from a request and writes to a reply: the parts of the path, which
  \<open>decodeURIComponent\<close> decodes, the query and the form as \<open>URLSearchParams\<close>, the body with its limit,
  and the two kinds of replies. The parsers of addresses and of JSON are parameters; a parser answers
  an error message or a value. A body and a query are ASCII texts, so decoding their bytes is the
  identity, and texts have code units below 256.
\<close>

section \<open>Percent encoding\<close>

definition hex_value :: "char \<Rightarrow> nat option" where
  "hex_value c = (let n = code_of c in
     if is_digit c then Some (n - 48) else if 65 \<le> n \<and> n \<le> 70 then Some (n - 55)
     else if 97 \<le> n \<and> n \<le> 102 then Some (n - 87) else None)"

definition hex_pair :: "string \<Rightarrow> (nat \<times> string) option" where
  "hex_pair s = (case s of h # l # rest \<Rightarrow> (case (hex_value h, hex_value l) of
       (Some a, Some b) \<Rightarrow> Some (16 * a + b, rest) | _ \<Rightarrow> None) | _ \<Rightarrow> None)"

text \<open>One code unit behind a percent sign: an escaped byte below 128, or two that UTF-8 uses for a code
  unit below 256.\<close>

definition escaped_char :: "string \<Rightarrow> (char \<times> string) option" where
  "escaped_char s = (case hex_pair s of None \<Rightarrow> None | Some (b, rest) \<Rightarrow>
     if b < 128 then Some (char_of b, rest)
     else if b = 194 \<or> b = 195 then (case rest of p # more_text \<Rightarrow>
          if p = CHR ''%'' then (case hex_pair more_text of Some (t, after) \<Rightarrow>
              if 128 \<le> t \<and> t < 192 then Some (char_of (64 * (b - 192) + (t - 128)), after) else None
            | None \<Rightarrow> None) else None
        | [] \<Rightarrow> None)
     else None)"

lemma hex_pair_shorter: "hex_pair s = Some (b, rest) \<Longrightarrow> length rest < length s"
  by (auto simp: hex_pair_def split: list.splits option.splits)

lemma escaped_shorter: "escaped_char s = Some (c, rest) \<Longrightarrow> length rest < length s"
  by (auto simp: escaped_char_def split: option.splits if_splits list.splits dest!: hex_pair_shorter)

function decode_uri :: "string \<Rightarrow> string option" where
  "decode_uri [] = Some []"
| "decode_uri (c # cs) = (if c \<noteq> CHR ''%'' then map_option (Cons c) (decode_uri cs)
     else (case escaped_char cs of None \<Rightarrow> None | Some (d, rest) \<Rightarrow> map_option (Cons d) (decode_uri rest)))"
  by pat_completeness auto
termination by (relation "measure length") (auto dest: escaped_shorter)

definition decodeURIComponent :: "string \<Rightarrow> string res" where
  "decodeURIComponent s = (case decode_uri s of Some t \<Rightarrow> Inr t | None \<Rightarrow> js_throw ''URI malformed'')"

text \<open>\<open>application/x-www-form-urlencoded\<close>: a percent sign without two hexadecimal digits stands for itself.\<close>

function decode_form :: "string \<Rightarrow> string" where
  "decode_form [] = []"
| "decode_form (c # cs) = (if c = CHR ''+'' then CHR '' '' # decode_form cs
     else if c \<noteq> CHR ''%'' then c # decode_form cs
     else (case hex_pair cs of None \<Rightarrow> c # decode_form cs | Some (b, rest) \<Rightarrow> char_of b # decode_form rest))"
  by pat_completeness auto
termination by (relation "measure length") (auto dest: hex_pair_shorter)

definition form_pair :: "string \<Rightarrow> string \<times> jsv" where
  "form_pair s = (case char_index CHR ''='' s of None \<Rightarrow> (decode_form s, JStr [])
     | Some i \<Rightarrow> (decode_form (take i s), JStr (decode_form (drop (Suc i) s))))"

text \<open>\<open>new URLSearchParams(text)\<close>, \<open>get(k)\<close> and \<open>Object.fromEntries(params.entries())\<close>\<close>

definition search_params :: "string \<Rightarrow> (string \<times> jsv) list" where
  "search_params s = map form_pair (filter (\<lambda>p. p \<noteq> [])
     (str_split CHR ''&'' (if starts_with s ''?'' then tl s else s)))"

definition param :: "(string \<times> jsv) list \<Rightarrow> string \<Rightarrow> jsv" where
  "param ps k = (case map_of ps k of Some v \<Rightarrow> v | None \<Rightarrow> JNull)"

definition from_entries :: "(string \<times> jsv) list \<Rightarrow> jsv" where
  "from_entries ps = JObj (alist_merge [] ps)"

section \<open>Requests\<close>

text \<open>\<open>reqParts\<close> is the path with the query of \<open>new URL(req.url, 'http://localhost')\<close>.\<close>

type_synonym message_parser = "string \<Rightarrow> string + jsv"

record http_request =
  reqMethod :: string
  reqParts :: "string + string \<times> string"
  reqHeaders :: jsv
  reqChunks :: "string list"
  reqAddress :: jsv

definition request_value :: "http_request \<Rightarrow> jsv" where
  "request_value r = JObj [(''headers'', reqHeaders r)]"

definition too_large :: "'a res" where
  "too_large = js_throw_status 413 ''request_body_too_large''"

fun read_chunks :: "jnum \<Rightarrow> nat \<Rightarrow> string list \<Rightarrow> string res" where
  "read_chunks maxBytes seen [] = Inr []"
| "read_chunks maxBytes seen (chunk # chunks) = (let seen' = seen + length chunk in
     if num_less maxBytes (Fin (of_nat seen')) then too_large
     else rbind (read_chunks maxBytes seen' chunks) (\<lambda>body. Inr (chunk @ body)))"

definition max_body_bytes :: "jsv \<Rightarrow> jnum" where
  "max_body_bytes penv = to_num (jor (jget penv ''RAIBITSERVER_MAX_BODY_BYTES'') (jint (1024 * 1024)))"

definition readRaw :: "jsv \<Rightarrow> http_request \<Rightarrow> string res" where
  "readRaw penv r = read_chunks (max_body_bytes penv) 0 (reqChunks r)"

definition content_type :: "http_request \<Rightarrow> string" where
  "content_type r = lower_text (jor (jget (reqHeaders r) ''content-type'') (jget (reqHeaders r) ''Content-Type''))"

definition parse_body :: "message_parser \<Rightarrow> string \<Rightarrow> jsv res" where
  "parse_body parse body = (case parse body of Inl m \<Rightarrow> js_throw m | Inr v \<Rightarrow> Inr v)"

definition readJson :: "message_parser \<Rightarrow> jsv \<Rightarrow> http_request \<Rightarrow> jsv res" where
  "readJson parse penv r = rbind (readRaw penv r) (\<lambda>body.
     if str_trim body = [] then Inr (JObj [])
     else if str_includes (content_type r) ''application/x-www-form-urlencoded'' then Inr (from_entries (search_params body))
     else parse_body parse body)"

definition authRateKey :: "jsv \<Rightarrow> http_request \<Rightarrow> string \<Rightarrow> jsv" where
  "authRateKey penv r label = (let
     forwarded = (if jget penv ''RAIBITSERVER_TRUST_PROXY_HEADERS'' = JStr ''1''
       then str_trim (hd (str_split CHR '','' (to_str (jor (jget (reqHeaders r) ''x-forwarded-for'') (JStr []))))) else []);
     ip = jor (JStr forwarded) (jor (reqAddress r) (JStr ''local''))
   in JStr (to_str ip @ '':'' @ label))"

section \<open>Replies\<close>

datatype response = Send nat jsv | SendSse string jsv

record http_reply =
  replyStatus :: nat
  replyHeaders :: "(string \<times> string) list"
  replyBody :: string

definition utf8_length :: "string \<Rightarrow> nat" where
  "utf8_length s = sum_list (map (\<lambda>c. if code_of c < 128 then 1 else 2) s)"

definition send :: "nat \<Rightarrow> jsv \<Rightarrow> http_reply" where
  "send code body = (let payload = json_pretty 0 body in
     \<lparr>replyStatus = code, replyHeaders = alist_merge securityHeaders
        [(''content-type'', ''application/json; charset=utf-8''), (''content-length'', nat_str (utf8_length payload))],
      replyBody = payload\<rparr>)"

definition sendSseSnapshot :: "string \<Rightarrow> jsv \<Rightarrow> http_reply" where
  "sendSseSnapshot event body = (let newline = [CHR 0x0A] in
     \<lparr>replyStatus = 200, replyHeaders = alist_merge securityHeaders
        [(''content-type'', ''text/event-stream; charset=utf-8''), (''cache-control'', ''no-cache, no-transform''),
         (''connection'', ''keep-alive'')],
      replyBody = ''retry: '' @ to_str (jor (jget (jget body ''stream'') ''retryMs'') (jint 3000)) @ newline @
        ''event: '' @ event @ newline @ ''data: '' @ json_stringify body @ newline @ newline\<rparr>)"

definition reply_to :: "response \<Rightarrow> http_reply" where
  "reply_to r = (case r of Send code body \<Rightarrow> send code body | SendSse event body \<Rightarrow> sendSseSnapshot event body)"

section \<open>Properties\<close>

lemma too_large_neq [simp]: "too_large \<noteq> Inr b" "Inr b \<noteq> too_large"
  by (simp_all add: too_large_def)

lemma rbind_too_large [simp]: "rbind too_large f = too_large"
  by (simp add: too_large_def js_throw_status_def)

lemma num_less_mono: "num_less n (Fin p) \<Longrightarrow> p \<le> q \<Longrightarrow> num_less n (Fin q)"
  by (cases n) (auto simp: num_less_def)

lemma read_chunks_total:
  "chunks \<noteq> [] \<Longrightarrow> read_chunks n k chunks =
     (if num_less n (Fin (of_nat (k + length (concat chunks)))) then too_large else Inr (concat chunks))"
proof (induction chunks arbitrary: k)
  case (Cons c cs)
  show ?case
  proof (cases "num_less n (Fin (of_nat (k + length c)))")
    case True
    then have "num_less n (Fin (of_nat (k + length (concat (c # cs)))))" by (rule num_less_mono) simp
    with True show ?thesis by (simp add: Let_def)
  next
    case False
    with Cons show ?thesis by (cases "cs = []") (auto simp: Let_def add.assoc)
  qed
qed simp

text \<open>the chunks of a body are read exactly when there are none or their bytes together stay within the limit,
  as their concatenation; above it the answer is 413. A limit that is not a number admits every body.\<close>

theorem body_limit:
  "readRaw penv r = (if reqChunks r \<noteq> [] \<and> num_less (max_body_bytes penv) (Fin (of_nat (length (concat (reqChunks r)))))
     then too_large else Inr (concat (reqChunks r)))"
  by (cases "reqChunks r = []") (simp_all add: readRaw_def read_chunks_total)

lemma hex_value_digit: "n < 16 \<Longrightarrow> hex_value (hex_digit n) = Some n"
proof -
  have "list_all (\<lambda>n. hex_value (hex_digit n) = Some n) [0..<16]" by code_simp
  then show "n < 16 \<Longrightarrow> hex_value (hex_digit n) = Some n" by (auto simp: list_all_iff)
qed

lemma hex_pair_percent: "n < 256 \<Longrightarrow> hex_pair (tl (percent n) @ rest) = Some (n, rest)"
  by (simp add: percent_def hex_pair_def hex_value_digit less_mult_imp_div_less)

lemma decode_percent:
  "decode_uri (percent n @ rest) = (case escaped_char (tl (percent n) @ rest) of None \<Rightarrow> None
     | Some (d, after) \<Rightarrow> map_option (Cons d) (decode_uri after))"
proof -
  have "percent n @ rest = CHR ''%'' # (tl (percent n) @ rest)" by (simp add: percent_def)
  then show ?thesis by (simp only: decode_uri.simps) simp
qed

lemma decode_low:
  assumes "n < 128"
  shows "decode_uri (percent n @ rest) = map_option (Cons (char_of n)) (decode_uri rest)"
proof -
  have "hex_pair (tl (percent n) @ rest) = Some (n, rest)" using assms by (intro hex_pair_percent) simp
  then show ?thesis using assms by (simp add: decode_percent escaped_char_def)
qed

lemma decode_high:
  assumes "128 \<le> n" "n < 256"
  shows "decode_uri (percent (192 + n div 64) @ percent (128 + n mod 64) @ rest) = map_option (Cons (char_of n)) (decode_uri rest)"
proof -
  let ?a = "192 + n div 64" and ?b = "128 + n mod 64"
  have "n div 64 < 4" using assms(2) by (simp add: less_mult_imp_div_less)
  moreover have "2 \<le> n div 64" using div_le_mono[OF assms(1), of 64] by simp
  ultimately have "?a = 194 \<or> ?a = 195" by auto
  moreover have "?b < 192" by simp
  ultimately have bytes: "?a = 194 \<or> ?a = 195" "?b < 192" by auto
  have joined: "64 * (?a - 192) + (?b - 128) = n" by simp
  have first: "hex_pair (tl (percent ?a) @ percent ?b @ rest) = Some (?a, CHR ''%'' # (tl (percent ?b) @ rest))"
    using bytes(1) hex_pair_percent[of ?a "percent ?b @ rest"] by (auto simp: percent_def[of ?b])
  have second: "hex_pair (tl (percent ?b) @ rest) = Some (?b, rest)"
    using bytes(2) by (intro hex_pair_percent) simp
  have "escaped_char (tl (percent ?a) @ percent ?b @ rest) = Some (char_of (64 * (?a - 192) + (?b - 128)), rest)"
    unfolding escaped_char_def first using bytes by (auto simp: second)
  then show ?thesis unfolding joined by (simp add: decode_percent)
qed

lemma decode_encoded_char:
  "decode_uri ((if uri_plain c then [c] else if code_of c < 128 then percent (code_of c)
      else percent (192 + code_of c div 64) @ percent (128 + code_of c mod 64)) @ rest) = map_option (Cons c) (decode_uri rest)"
proof -
  have "uri_plain c \<Longrightarrow> c \<noteq> CHR ''%''" by (auto simp: uri_plain_def is_upper_def is_lower_def is_digit_def code_of_def)
  moreover have "char_of (code_of c) = c" "code_of c < 256" by (simp_all add: code_of_def)
  ultimately show ?thesis using decode_low[of "code_of c" rest] decode_high[of "code_of c" rest] by auto
qed

text \<open>decoding an encoded component gives back its text.\<close>

theorem uri_roundtrip: "decodeURIComponent (encodeURIComponent s) = Inr s"
proof -
  have "decode_uri (encodeURIComponent s) = Some s"
  proof (induction s)
    case (Cons c s)
    have "encodeURIComponent (c # s) = (if uri_plain c then [c] else if code_of c < 128 then percent (code_of c)
      else percent (192 + code_of c div 64) @ percent (128 + code_of c mod 64)) @ encodeURIComponent s"
      by (simp add: encodeURIComponent_def Let_def)
    then show ?case using decode_encoded_char[of c] Cons.IH by simp
  qed (simp add: encodeURIComponent_def)
  then show ?thesis by (simp add: decodeURIComponent_def)
qed

end
