(* ===== verification/Compose.thy ===== *)
theory Compose
  imports Catalog EnvFile
begin

text \<open>
  \<open>compose-importer.ts\<close>: reading docker-compose files. The YAML parser is a parameter, \<open>None\<close> where it
  throws; the small parser the code falls back to is modelled line by line. Names of services and
  properties are not array indices, so fields keep the order in which they are set.
\<close>

section \<open>Scalars\<close>

definition quote_mark :: "char \<Rightarrow> bool" where
  "quote_mark c = (c = CHR 0x27 \<or> c = CHR 0x22)"

text \<open>\<open>/^['"]|['"]$/g\<close>\<close>

definition QUOTE_ENDS_RE :: rx where
  "QUOTE_ENDS_RE = RAlt (RSeq RBol (RCls quote_mark)) (RSeq (RCls quote_mark) REol)"

definition stripQuotes :: "string \<Rightarrow> string" where
  "stripQuotes s = rreplace QUOTE_ENDS_RE (\<lambda>_. []) (str_trim s)"

text \<open>\<open>/^-?\d+(\.\d+)?$/\<close>\<close>

definition NUMBER_RE :: rx where
  "NUMBER_RE = RSeqs [RBol, RAlt (RLit ''-'') REps, RPlus (RCls is_digit),
     RAlt (RSeq (RLit ''.'') (RPlus (RCls is_digit))) REps, REol]"

definition parseScalar :: "string \<Rightarrow> jsv" where
  "parseScalar s = (let raw = stripQuotes s in
     if raw = ''true'' then JBool True else if raw = ''false'' then JBool False
     else if rtest NUMBER_RE raw then JNum (num_of_str raw) else JStr raw)"

section \<open>The small parser\<close>

text \<open>The variables of the loop; \<open>[]\<close> stands for \<open>null\<close>, which the code tests the same way.\<close>

record compose_state =
  found_services :: jsv
  in_services :: bool
  current_name :: string
  current_prop :: string
  nested_object :: string

definition compose_start :: compose_state where
  "compose_start = \<lparr>found_services = JObj [], in_services = False, current_name = [], current_prop = [], nested_object = []\<rparr>"

text \<open>\<open>const [key, ...rest] = line.split(':')\<close> with the rest joined again\<close>

definition key_and_rest :: "string \<Rightarrow> string \<times> string" where
  "key_and_rest line = (let parts = str_split CHR '':'' line in (str_trim (hd parts), str_trim (str_join '':'' (tl parts))))"

definition set_prop :: "string \<Rightarrow> string \<Rightarrow> jsv \<Rightarrow> compose_state \<Rightarrow> compose_state" where
  "set_prop name prop value st = st\<lparr>found_services :=
     jset (found_services st) name (jset (jget (found_services st) name) prop value)\<rparr>"

definition get_prop :: "string \<Rightarrow> string \<Rightarrow> compose_state \<Rightarrow> jsv" where
  "get_prop name prop st = jget (jget (found_services st) name) prop"

definition LIST_PROPS :: "string list" where
  "LIST_PROPS = [''ports'', ''environment'', ''depends_on'', ''volumes'']"

definition property_line :: "string \<Rightarrow> compose_state \<Rightarrow> compose_state" where
  "property_line line st = (case key_and_rest line of (key, value) \<Rightarrow>
     if value = []
     then (set_prop (current_name st) key (if key \<in> set LIST_PROPS then JArr [] else JObj []) st)
       \<lparr>current_prop := key, nested_object := key\<rparr>
     else (set_prop (current_name st) key (parseScalar value) st)\<lparr>current_prop := key, nested_object := []\<rparr>)"

definition scalar_kind :: "jsv \<Rightarrow> string" where
  "scalar_kind v = (case v of JStr _ \<Rightarrow> ''string'' | JNum _ \<Rightarrow> ''number'' | _ \<Rightarrow> ''boolean'')"

definition is_jobj :: "jsv \<Rightarrow> bool" where
  "is_jobj v = (case v of JObj _ \<Rightarrow> True | _ \<Rightarrow> False)"

text \<open>A field below a property: an array gives way to an object, setting a field of a scalar throws.\<close>

definition nested_field :: "string \<Rightarrow> compose_state \<Rightarrow> compose_state res" where
  "nested_field line st = (let name = current_name st; prop = current_prop st; old = get_prop name prop st in
     case key_and_rest line of (key, value) \<Rightarrow>
       if is_jarr old \<or> is_jobj old
       then Inr ((set_prop name prop (jset (if is_jarr old then JObj [] else old) key (parseScalar value)) st)\<lparr>nested_object := prop\<rparr>)
       else js_throw (''Cannot create property '' @ [CHR 0x27] @ key @ [CHR 0x27] @ '' on '' @ scalar_kind old @ '' '' @
         [CHR 0x27] @ to_str old @ [CHR 0x27]))"

definition nested_line :: "string \<Rightarrow> compose_state \<Rightarrow> compose_state res" where
  "nested_line line st = (let name = current_name st; prop = current_prop st in
     if starts_with line ''- ''
     then Inr (set_prop name prop (JArr (items (get_prop name prop st) @ [parseScalar (drop 2 line)])) st)
     else if CHR '':'' \<in> set line then nested_field line st
     else Inr (if nested_object st \<noteq> [] then set_prop name (nested_object st) (parseScalar line) st else st))"

text \<open>One line; \<open>None\<close> when the loop breaks.\<close>

definition compose_line :: "string \<Rightarrow> compose_state \<Rightarrow> compose_state option res" where
  "compose_line original st = (let line = rreplace1 TRAILING_COMMENT_RE (\<lambda>_. []) original; indent = length (takeWhile is_space line);
     trimmed = str_trim line in
     if trimmed = [] then Inr (Some st)
     else if indent = 0 \<and> trimmed = ''services:'' then Inr (Some (st\<lparr>in_services := True\<rparr>))
     else if \<not> in_services st then Inr (Some st)
     else if indent = 0 \<and> \<not> starts_with trimmed ''services:'' then Inr None
     else if indent = 2 \<and> ends_with trimmed '':'' then Inr (Some (st\<lparr>
       found_services := jset (found_services st) (butlast trimmed) (JObj []), current_name := butlast trimmed,
       current_prop := [], nested_object := []\<rparr>))
     else if current_name st = [] then Inr (Some st)
     else if indent = 4 \<and> CHR '':'' \<in> set trimmed then Inr (Some (property_line trimmed st))
     else if indent \<ge> 6 \<and> current_prop st \<noteq> [] then rbind (nested_line trimmed st) (\<lambda>st'. Inr (Some st'))
     else Inr (Some st))"

fun compose_lines :: "string list \<Rightarrow> compose_state \<Rightarrow> compose_state res" where
  "compose_lines [] st = Inr st"
| "compose_lines (line # lines) st = rbind (compose_line line st) (\<lambda>r.
     case r of None \<Rightarrow> Inr st | Some st' \<Rightarrow> compose_lines lines st')"

definition parseComposeYaml :: "(string \<Rightarrow> jsv option) \<Rightarrow> jsv \<Rightarrow> jsv res" where
  "parseComposeYaml yaml text_value = (let body = to_str (jor text_value (JStr []));
     parsed = (case yaml body of None \<Rightarrow> JUndef | Some v \<Rightarrow> jor v (JObj [])); services = jget parsed ''services''
   in if truthy parsed \<and> typeof_object parsed \<and> truthy services \<and> typeof_object services
      then Inr services
      else rbind (compose_lines (split_lines body) compose_start) (\<lambda>st. Inr (found_services st)))"

section \<open>Reading a service\<close>

text \<open>\<open>Object.entries\<close>, also of arrays and strings\<close>

definition own_entries :: "jsv \<Rightarrow> (string \<times> jsv) list" where
  "own_entries v = (case v of JObj kvs \<Rightarrow> kvs | JArr vs \<Rightarrow> zip (map nat_str [0..<length vs]) vs
     | JStr s \<Rightarrow> zip (map nat_str [0..<length s]) (map (\<lambda>c. JStr [c]) s) | _ \<Rightarrow> [])"

definition normalizeBuild :: "jsv \<Rightarrow> jsv" where
  "normalizeBuild build = (if \<not> truthy build then JNull
     else if is_jstr build then JObj [(''context'', build), (''dockerfile'', JStr ''Dockerfile'')]
     else JObj [(''context'', jor (jget build ''context'') (JStr ''.'')),
       (''dockerfile'', jor (jget build ''dockerfile'') (JStr ''Dockerfile''))])"

definition port_entry :: "jsv \<Rightarrow> jnum \<times> jnum option" where
  "port_entry port = (let parts = str_split CHR '':'' (to_str port);
     containerPort = num_of_str (hd (str_split CHR ''/'' (last parts)));
     hostPort = (if length parts > 1 then Some (num_of_str (hd parts)) else None)
   in (containerPort, case hostPort of Some n \<Rightarrow> if is_finite n then Some n else None | None \<Rightarrow> None))"

definition normalizePorts :: "jsv \<Rightarrow> (jnum \<times> jnum option) list" where
  "normalizePorts ports = filter (\<lambda>p. is_finite (fst p)) (map port_entry (items ports))"

definition env_pair :: "jsv \<Rightarrow> string \<times> jsv" where
  "env_pair e = (let parts = str_split CHR ''='' (to_str e) in (hd parts, JStr (str_join ''='' (tl parts))))"

definition normalizeEnvironment :: "jsv \<Rightarrow> jsv" where
  "normalizeEnvironment environment = (if is_jarr environment
     then JObj (alist_merge [] (map env_pair (items environment))) else JObj (own_entries environment))"

definition normalizeEnvFiles :: "jsv \<Rightarrow> jsv" where
  "normalizeEnvFiles envFile = (if \<not> truthy envFile then JArr []
     else JArr (map (\<lambda>f. JStr (to_str f)) (if is_jarr envFile then items envFile else [envFile])))"

definition normalizeDependsOn :: "jsv \<Rightarrow> jsv" where
  "normalizeDependsOn dependsOn = (if \<not> truthy dependsOn then JArr []
     else if is_jarr dependsOn then JArr (map (\<lambda>d. JStr (to_str d)) (items dependsOn))
     else if typeof_object dependsOn then JArr (map (\<lambda>(k, _). JStr k) (own_entries dependsOn))
     else JArr [JStr (to_str dependsOn)])"

text \<open>The rules in order; only the rule for MySQL asks for a whole word.\<close>

definition ENGINE_RULES :: "(string \<times> (string \<Rightarrow> bool)) list" where
  "ENGINE_RULES = (let has = (\<lambda>ws s. list_ex (str_includes s) ws) in [
     (''postgresql'', has [''postgres'', ''postgis'']),
     (''mysql'', rtest (RSeqs [RWordB, RLit ''mysql'', RWordB])),
     (''mariadb'', has [''mariadb'']), (''mongodb'', has [''mongo'', ''mongodb'']), (''redis'', has [''redis'', ''valkey'']),
     (''object-storage'', has [''minio'', ''s3'']), (''vector-db'', has [''qdrant'', ''weaviate'', ''milvus'', ''chroma'']),
     (''message-queue'', has [''kafka'', ''redpanda'', ''nats'', ''rabbitmq''])])"

definition haystack :: "string \<Rightarrow> string \<Rightarrow> string" where
  "haystack name img = str_lower (name @ '' '' @ img)"

definition detectResourceEngine :: "string \<Rightarrow> string \<Rightarrow> string option" where
  "detectResourceEngine name img =
     map_option (\<lambda>(engine, _). normalizeResourceEngine (JStr engine)) (find (\<lambda>(_, test). test (haystack name img)) ENGINE_RULES)"

definition resourceType :: "string \<Rightarrow> string" where
  "resourceType engine = (if engine \<in> {''postgresql'', ''mysql'', ''mariadb'', ''mongodb''} then ''database''
     else if engine = ''redis'' then ''cache'' else if engine = ''object-storage'' then ''storage''
     else if engine = ''vector-db'' then ''vector'' else if engine = ''message-queue'' then ''queue'' else ''resource'')"

definition inferNonHttpType :: "string \<Rightarrow> string \<Rightarrow> string" where
  "inferNonHttpType name img = (let v = haystack name img in
     if list_ex (str_includes v) [''cron'', ''schedule''] then ''cron''
     else if list_ex (str_includes v) [''worker'', ''bot'', ''consumer'', ''crawler''] then ''worker'' else ''private'')"

section \<open>The import\<close>

definition compose_resource :: "string \<Rightarrow> jsv \<Rightarrow> string \<Rightarrow> jsv" where
  "compose_resource name spec engine = JObj [(''name'', JStr (slugify (JStr name) ''item'')), (''engine'', JStr engine),
     (''type'', JStr (resourceType engine)), (''provider'', JStr ''managed-catalog''),
     (''originalCompose'', JObj [(''image'', jor (jget spec ''image'') JNull), (''ports'', jor (jget spec ''ports'') (JArr []))])]"

definition PROFILE_WARNING :: jsv where
  "PROFILE_WARNING = JStr ''compose profiles are not executed directly; profile-specific services are imported as normal desired state''"

definition compose_service :: "string \<Rightarrow> jsv \<Rightarrow> string \<Rightarrow> jsv" where
  "compose_service name spec img = (let
     build = normalizeBuild (jget spec ''build'');
     ports = normalizePorts (jor (jget spec ''ports'') (JArr []))
   in JObj [(''name'', JStr (slugify (JStr name) ''item'')),
     (''type'', JStr (if ports \<noteq> [] then ''web'' else inferNonHttpType name img)),
     (''sourceType'', JStr (if truthy build then ''local'' else if truthy (jget spec ''image'') then ''image'' else ''local'')),
     (''buildMode'', JStr (if truthy build then ''dockerfile'' else if truthy (jget spec ''image'') then ''prebuilt-image'' else ''auto'')),
     (''buildContext'', jor (jget build ''context'') (JStr ''.'')), (''dockerfilePath'', jor (jget build ''dockerfile'') JUndef),
     (''image'', jor (jget spec ''image'') JUndef),
     (''port'', if ports = [] then JUndef else jor (JNum (fst (hd ports))) JUndef),
     (''environment'', normalizeEnvironment (jor (jget spec ''environment'') (JObj []))),
     (''envFiles'', normalizeEnvFiles (jget spec ''env_file'')), (''dependsOn'', normalizeDependsOn (jget spec ''depends_on'')),
     (''command'', jget spec ''command''), (''entrypoint'', jget spec ''entrypoint''),
     (''healthCheck'', jor (jget spec ''healthcheck'') (jor (jget spec ''healthCheck'') JUndef)),
     (''composeWarnings'', JArr (if truthy (jget spec ''profiles'') then [PROFILE_WARNING] else [])),
     (''attachedResources'', JArr [])])"

text \<open>One entry of the file: a resource or a service.\<close>

definition import_entry :: "string \<times> jsv \<Rightarrow> (jsv + jsv) res" where
  "import_entry e = (case e of (name, spec) \<Rightarrow> rbind (jread spec ''image'') (\<lambda>v. let img = str_lower (to_str (jor v (JStr []))) in
     Inr (case detectResourceEngine name img of
       Some engine \<Rightarrow> Inl (compose_resource name spec engine) | None \<Rightarrow> Inr (compose_service name spec img))))"

definition importCompose :: "(string \<Rightarrow> jsv option) \<Rightarrow> jsv \<Rightarrow> jsv \<Rightarrow> jsv res" where
  "importCompose yaml text_value options = (let projectName = jdefault (jget options ''projectName'') (JStr ''compose-project'') in
     rbind (parseComposeYaml yaml text_value) (\<lambda>parsed.
     rbind (res_map import_entry (own_entries parsed)) (\<lambda>imported. let
       resources = [r. Inl r \<leftarrow> imported]; names = JArr (map (\<lambda>r. jget r ''name'') resources)
     in Inr (JObj [
       (''project'', JObj [(''name'', projectName), (''slug'', JStr (slugify projectName ''item''))]),
       (''services'', JArr [jset s ''attachedResources'' names. Inr s \<leftarrow> imported]),
       (''resources'', JArr resources),
       (''notes'', JArr [
         JStr ''docker-compose services are translated into RAIBITSERVER services/resources; compose is not executed directly'',
         JStr ''known stateful images become managed catalog resources for backup, metrics, RBAC, quota, and lifecycle control''])]))))"

section \<open>Properties\<close>

text \<open>An entry is managed when its name or image names a known engine.\<close>

definition managed :: "string \<times> jsv \<Rightarrow> bool" where
  "managed e = (detectResourceEngine (fst e) (str_lower (to_str (jor (jget (snd e) ''image'') (JStr [])))) \<noteq> None)"

definition entry_name :: "string \<times> jsv \<Rightarrow> jsv" where
  "entry_name e = JStr (slugify (JStr (fst e)) ''item'')"

lemma compose_names:
  "jget (compose_resource name spec engine) ''name'' = JStr (slugify (JStr name) ''item'')"
  "jget (compose_service name spec img) ''name'' = JStr (slugify (JStr name) ''item'')"
  by (simp_all add: compose_resource_def compose_service_def Let_def)

lemma import_entry_cases:
  assumes "import_entry (name, spec) = Inr x"
  shows "if managed (name, spec) then \<exists>r. x = Inl r \<and> jget r ''name'' = entry_name (name, spec)
    else \<exists>s. x = Inr s \<and> jget s ''name'' = entry_name (name, spec)"
proof -
  obtain v where v: "jread spec ''image'' = Inr v" "x = (case detectResourceEngine name (str_lower (to_str (jor v (JStr [])))) of
      Some engine \<Rightarrow> Inl (compose_resource name spec engine)
    | None \<Rightarrow> Inr (compose_service name spec (str_lower (to_str (jor v (JStr []))))))"
    using assms by (auto simp: import_entry_def rbind_Inr_iff Let_def)
  then have "v = jget spec ''image''" by (simp add: jread_def js_throw_def split: if_splits)
  with v(2) show ?thesis by (auto simp: managed_def entry_name_def compose_names split: option.splits)
qed

lemma imported_parts:
  assumes "res_map import_entry es = Inr xs"
  shows "map (\<lambda>r. jget r ''name'') [r. Inl r \<leftarrow> xs] = map entry_name (filter managed es)"
    "map (\<lambda>s. jget s ''name'') [s. Inr s \<leftarrow> xs] = map entry_name (filter (\<lambda>e. \<not> managed e) es)"
  using assms
proof (induction es arbitrary: xs)
  case (Cons e es)
  {
    case 1
    then obtain y ys where y: "import_entry e = Inr y" "res_map import_entry es = Inr ys" "xs = y # ys"
      by (auto simp: rbind_Inr_iff)
    with import_entry_cases[of "fst e" "snd e" y] Cons.IH(1)[OF y(2)] show ?case by (auto split: if_splits)
  next
    case 2
    then obtain y ys where y: "import_entry e = Inr y" "res_map import_entry es = Inr ys" "xs = y # ys"
      by (auto simp: rbind_Inr_iff)
    with import_entry_cases[of "fst e" "snd e" y] Cons.IH(2)[OF y(2)] show ?case by (auto split: if_splits)
  }
qed simp_all

text \<open>\<open>importCompose\<close> splits the services of a compose file: in their order, each becomes exactly one managed
  resource, when its name or image names a known engine, or one service, both under the slug of its name;
  and every service is attached to all the resources.\<close>

theorem compose_split:
  assumes "importCompose yaml file options = Inr out" "parseComposeYaml yaml file = Inr parsed"
  shows "map (\<lambda>r. jget r ''name'') (items (jget out ''resources'')) = map entry_name (filter managed (own_entries parsed)) \<and>
    map (\<lambda>s. jget s ''name'') (items (jget out ''services'')) = map entry_name (filter (\<lambda>e. \<not> managed e) (own_entries parsed)) \<and>
    (\<forall>s \<in> set (items (jget out ''services'')). jget s ''attachedResources'' =
       JArr (map (\<lambda>r. jget r ''name'') (items (jget out ''resources''))))"
proof -
  obtain xs where xs: "res_map import_entry (own_entries parsed) = Inr xs"
    "items (jget out ''resources'') = [r. Inl r \<leftarrow> xs]"
    "items (jget out ''services'') = [jset s ''attachedResources'' (JArr (map (\<lambda>r. jget r ''name'') [r. Inl r \<leftarrow> xs])). Inr s \<leftarrow> xs]"
    using assms by (auto simp: importCompose_def rbind_Inr_iff Let_def)
  have n: "map (\<lambda>s. jget s ''name'') [jset s ''attachedResources'' v. Inr s \<leftarrow> xs] = map (\<lambda>s. jget s ''name'') [s. Inr s \<leftarrow> xs]" for v xs
    by (induction xs) (auto split: sum.splits)
  have a: "\<forall>s \<in> set [jset s ''attachedResources'' v. Inr s \<leftarrow> xs]. jget s ''attachedResources'' = v" for v xs
    by (induction xs) (auto split: sum.splits)
  show ?thesis
    unfolding xs(2,3) n using imported_parts[OF xs(1)] a by blast
qed

definition sample_compose :: string where
  "sample_compose = ''services:'' @ [LF] @ ''  web:'' @ [LF] @ ''    image: nginx'' @ [LF] @ ''  db:'' @ [LF] @ ''    image: postgres:16'' @ [LF]"

lemma sample_import:
  "is_ok (importCompose (\<lambda>_. None) (JStr sample_compose) (JObj []))"
  "map (to_str \<circ> entry_name) (filter managed (own_entries (projr (parseComposeYaml (\<lambda>_. None) (JStr sample_compose))))) = [''db'']"
  by code_simp+

theorem compose_split_witness:
  "map (\<lambda>r. to_str (jget r ''name'')) (items (jget (projr (importCompose (\<lambda>_. None) (JStr sample_compose) (JObj []))) ''resources'')) = [''db'']"
proof -
  obtain out where out: "importCompose (\<lambda>_. None) (JStr sample_compose) (JObj []) = Inr out"
    using sample_import(1) by (auto simp: is_ok_def split: sum.splits)
  then obtain parsed where p: "parseComposeYaml (\<lambda>_. None) (JStr sample_compose) = Inr parsed"
    by (auto simp: importCompose_def rbind_Inr_iff Let_def)
  have "map (\<lambda>r. jget r ''name'') (items (jget out ''resources'')) = map entry_name (filter managed (own_entries parsed))"
    using compose_split[OF out p] by blast
  then have "map to_str (map (\<lambda>r. jget r ''name'') (items (jget out ''resources''))) = [''db'']"
    using sample_import(2) by (simp add: p)
  then show ?thesis by (simp add: out comp_def)
qed

end
