(* ===== verification/Quota.thy ===== *)
theory Quota
  imports Ids
begin

text \<open>
  \<open>quota.ts\<close>: the plans, \<open>quotaForPlan\<close>, \<open>checkQuota\<close>, and the usage gauges and warnings.
  A quota is an object whose finite numeric members are limits; the ratios are exact rationals.
\<close>

section \<open>Plans\<close>

definition plan_object :: "jnum list \<Rightarrow> bool \<Rightarrow> jsv" where
  "plan_object limits autoSleep = JObj (zip [''apps'', ''projects'', ''teamMembers'', ''alwaysOnReplicas'',
     ''dbStorageGb'', ''buildMinutesMonthly'', ''customDomains''] (map JNum limits) @
     [(''autoSleep'', JBool autoSleep)])"

definition PLANS :: "(string \<times> jsv) list" where
  "PLANS = [
     (''free'', plan_object (map Fin [3, 3, 5, 0, 1, 200, 0]) True),
     (''club'', plan_object (map Fin [50, 20, 30, 3, 50, 2000, 5]) True),
     (''pro'', plan_object (map Fin [100, 50, 50, 20, 200, 10000, 50]) False),
     (''school'', plan_object (replicate 7 PosInf) False)]"

definition quotaForPlan :: "jsv \<Rightarrow> jsv" where
  "quotaForPlan plan = jor (table_get PLANS (to_str (jdefault plan (JStr ''free'')))) (table_get PLANS ''free'')"

section \<open>Checking a request against a plan\<close>

definition metric_used :: "jsv \<Rightarrow> jsv \<Rightarrow> string \<Rightarrow> jnum" where
  "metric_used current requested metric =
     num_add (to_num (jor (jget current metric) (jint 0))) (to_num (jor (jget requested metric) (jint 0)))"

definition finite_limit :: "jsv \<Rightarrow> jnum option" where
  "finite_limit v = (case v of JNum n \<Rightarrow> if n = PosInf then None else Some n | _ \<Rightarrow> None)"

definition metric_violation :: "jsv \<Rightarrow> jsv \<Rightarrow> string \<times> jsv \<Rightarrow> jsv option" where
  "metric_violation current requested e = (case e of (metric, v) \<Rightarrow>
     (case finite_limit v of None \<Rightarrow> None | Some limit \<Rightarrow>
       (let used = metric_used current requested metric in
        if num_less limit used then Some (JObj [
          (''metric'', JStr metric), (''limit'', JNum limit), (''requested'', JNum used),
          (''message'', JStr (metric @ '' quota exceeded ('' @ num_str used @ ''/'' @ num_str limit @ '')''))])
        else None)))"

definition quota_violations :: "jsv \<Rightarrow> jsv \<Rightarrow> jsv \<Rightarrow> jsv list" where
  "quota_violations quota current requested =
     List.map_filter (metric_violation current requested) (entries quota)"

definition checkQuota :: "jsv \<Rightarrow> jsv \<Rightarrow> jsv \<Rightarrow> jsv" where
  "checkQuota plan current requested = (let quota = quotaForPlan plan;
     violations = quota_violations quota current requested in
     JObj [(''ok'', JBool (violations = [])), (''quota'', quota), (''violations'', JArr violations)])"

definition usageMetricDefinitions :: "string list" where
  "usageMetricDefinitions = [''app-runtime-seconds'', ''cpu-vcpu-seconds'', ''memory-gib-seconds'',
     ''build-minutes'', ''db-storage-gb-hours'', ''db-compute-hours'', ''network-egress-gb'',
     ''object-storage-gb-hours'', ''object-storage-requests'', ''custom-domains'', ''team-members'',
     ''backup-retention-days'']"

section \<open>Gauges and warnings\<close>

definition gauge_limit :: "string \<times> jsv \<Rightarrow> (string \<times> rat) option" where
  "gauge_limit e = (case e of (metric, v) \<Rightarrow> (case v of
      JNum (Fin q) \<Rightarrow> if starts_with metric ''max'' \<and> 0 < q then Some (metric, q) else None
    | _ \<Rightarrow> None))"

definition gauge_level :: "jnum \<Rightarrow> jnum \<Rightarrow> string" where
  "gauge_level ratio threshold =
     (if num_le (Fin 1) ratio then ''blocked'' else if num_le threshold ratio then ''warning'' else ''ok'')"

text \<open>\<open>Math.round(x)\<close> is \<open>\<lfloor>x + 1/2\<rfloor>\<close>.\<close>

definition usage_gauge :: "jsv \<Rightarrow> jnum \<Rightarrow> string \<times> rat \<Rightarrow> jsv" where
  "usage_gauge usage threshold e = (case e of (metric, limit) \<Rightarrow> (let
     used = num_max (Fin 0) (to_num (jor (jget usage metric) (jint 0)));
     ratio = num_scale (1 / limit) used in
     JObj [(''metric'', JStr metric), (''used'', JNum used), (''limit'', JNum (Fin limit)),
       (''remaining'', JNum (num_max (Fin 0) (num_sub (Fin limit) used))),
       (''percent'', JNum (num_floor (num_add (num_scale 100 ratio) (Fin (1/2))))),
       (''level'', JStr (gauge_level ratio threshold))]))"

definition quotaUsageGauges :: "jsv \<Rightarrow> jsv \<Rightarrow> jsv \<Rightarrow> jsv list" where
  "quotaUsageGauges usage quota options = (if \<not> truthy quota then [] else
     (let threshold = to_num (jnullish (jget options ''warningThreshold'') (JNum (Fin (8/10)))) in
      map (usage_gauge usage threshold) (List.map_filter gauge_limit (entries quota))))"

definition quota_warning :: "jsv \<Rightarrow> jsv" where
  "quota_warning g = (let level = jget g ''level'' in JObj [
     (''code'', JStr (if level = JStr ''blocked'' then ''QUOTA_EXHAUSTED'' else ''QUOTA_NEAR_LIMIT'')),
     (''metric'', jget g ''metric''),
     (''message'', JStr (to_str (jget g ''metric'') @ '' is '' @ to_str (jget g ''percent'') @ ''% used ('' @
        to_str (jget g ''used'') @ ''/'' @ to_str (jget g ''limit'') @ '')'')),
     (''level'', level)])"

definition quotaWarnings :: "jsv \<Rightarrow> jsv \<Rightarrow> jsv \<Rightarrow> jsv list" where
  "quotaWarnings usage quota options =
     map quota_warning (filter (\<lambda>g. jget g ''level'' \<noteq> JStr ''ok'') (quotaUsageGauges usage quota options))"

section \<open>Lemmas\<close>

lemma metric_violation_None:
  "metric_violation current requested (metric, v) = None \<longleftrightarrow>
     (\<forall>limit. finite_limit v = Some limit \<longrightarrow> \<not> num_less limit (metric_used current requested metric))"
  by (simp add: metric_violation_def Let_def split: option.splits)

lemma map_filter_Nil: "List.map_filter f xs = [] \<longleftrightarrow> (\<forall>x \<in> set xs. f x = None)"
  by (induction xs) (auto simp: List.map_filter_simps split: option.splits)

lemma set_map_filter: "set (List.map_filter f xs) = {y. \<exists>x \<in> set xs. f x = Some y}"
  by (induction xs) (auto simp: List.map_filter_simps split: option.splits)

lemma quota_violations_Nil:
  "quota_violations quota current requested = [] \<longleftrightarrow>
     (\<forall>(metric, v) \<in> set (entries quota). \<forall>limit. finite_limit v = Some limit \<longrightarrow>
        \<not> num_less limit (metric_used current requested metric))"
  by (auto simp: quota_violations_def map_filter_Nil metric_violation_None)

lemma quotaForPlan_unknown:
  "map_of PLANS (to_str plan) = None \<Longrightarrow> to_str plan \<notin> set proto_keys \<Longrightarrow> plan \<noteq> JUndef \<Longrightarrow>
   quotaForPlan plan = quotaForPlan (JStr ''free'')"
  by (simp add: quotaForPlan_def table_get_def) (simp add: jor_def)

lemma num_scale_pos_le: "0 < c \<Longrightarrow> num_le (Fin 1) (num_scale c n) \<longleftrightarrow> num_le (Fin (1 / c)) n"
  by (cases n) (auto simp: num_scale_def num_le_def num_less_def field_simps)

lemma gauge_blocked:
  "0 < limit \<Longrightarrow> gauge_level (num_scale (1 / limit) used) threshold = ''blocked'' \<longleftrightarrow> num_le (Fin limit) used"
  by (simp add: gauge_level_def num_scale_pos_le)

lemma remaining_bounds:
  assumes "0 < limit" "used = num_max (Fin 0) n" "n \<noteq> NaN"
  shows "num_le (Fin 0) (num_max (Fin 0) (num_sub (Fin limit) used)) \<and>
    num_le (num_max (Fin 0) (num_sub (Fin limit) used)) (Fin limit) \<and>
    (num_max (Fin 0) (num_sub (Fin limit) used) = Fin 0 \<longleftrightarrow> num_le (Fin limit) used)"
  using assms
  by (cases n) (auto simp: num_max_def num_sub_def num_neg_def num_add_def num_le_def num_less_def)

section \<open>Properties\<close>

text \<open>\<open>checkQuota\<close> reports \<open>ok\<close> exactly when no finite limit of the plan is below the sum of
  current and requested use, and for a school plan always.\<close>

theorem checkQuota_ok:
  "(jget (checkQuota plan current requested) ''ok'' = JBool True \<longleftrightarrow>
     (\<forall>(metric, v) \<in> set (entries (quotaForPlan plan)). \<forall>limit. finite_limit v = Some limit \<longrightarrow>
        \<not> num_less limit (metric_used current requested metric))) \<and>
   jget (checkQuota (JStr ''school'') current requested) ''ok'' = JBool True"
proof
  show "jget (checkQuota plan current requested) ''ok'' = JBool True \<longleftrightarrow>
     (\<forall>(metric, v) \<in> set (entries (quotaForPlan plan)). \<forall>limit. finite_limit v = Some limit \<longrightarrow>
        \<not> num_less limit (metric_used current requested metric))"
    by (simp add: checkQuota_def Let_def quota_violations_Nil)
  have "list_all (\<lambda>e. finite_limit (snd e) = None) (entries (quotaForPlan (JStr ''school'')))"
    by code_simp
  then have "quota_violations (quotaForPlan (JStr ''school'')) current requested = []"
    by (auto simp: quota_violations_Nil list_all_iff)
  then show "jget (checkQuota (JStr ''school'') current requested) ''ok'' = JBool True"
    by (simp add: checkQuota_def Let_def)
qed

theorem checkQuota_ok_witness:
  "jget (checkQuota (JStr ''free'') (JObj [(''apps'', jint 2)]) (JObj [(''apps'', jint 1)])) ''ok'' = JBool True"
proof -
  have "\<forall>(metric, v) \<in> set (entries (quotaForPlan (JStr ''free''))).
      case finite_limit v of None \<Rightarrow> True | Some limit \<Rightarrow>
        \<not> num_less limit (metric_used (JObj [(''apps'', jint 2)]) (JObj [(''apps'', jint 1)]) metric)"
    by code_simp
  then have "\<forall>(metric, v) \<in> set (entries (quotaForPlan (JStr ''free''))). \<forall>limit.
      finite_limit v = Some limit \<longrightarrow>
        \<not> num_less limit (metric_used (JObj [(''apps'', jint 2)]) (JObj [(''apps'', jint 1)]) metric)"
    by (auto split: option.splits)
  with checkQuota_ok[of "JStr ''free''"] show ?thesis by blast
qed

text \<open>each gauge of \<open>quotaUsageGauges\<close> whose recorded use is a number has a remaining amount
  between 0 and its limit, it is blocked exactly when the use has reached the limit, and exactly then
  nothing remains; \<open>quotaWarnings\<close> is empty exactly when every gauge is \<open>ok\<close>.\<close>

theorem usage_gauge_bounds:
  assumes "gauge_limit (metric, v) = Some (metric, limit)" "to_num (jor (jget usage metric) (jint 0)) \<noteq> NaN"
    "g = usage_gauge usage threshold (metric, limit)"
  shows "\<exists>used rest. jget g ''used'' = JNum used \<and> jget g ''remaining'' = JNum rest \<and>
    num_le (Fin 0) rest \<and> num_le rest (Fin limit) \<and>
    (jget g ''level'' = JStr ''blocked'' \<longleftrightarrow> num_le (Fin limit) used) \<and>
    (jget g ''level'' = JStr ''blocked'' \<longleftrightarrow> rest = Fin 0)"
proof -
  have limit: "0 < limit"
    using assms(1) by (auto simp: gauge_limit_def split: jsv.splits jnum.splits if_splits)
  let ?used = "num_max (Fin 0) (to_num (jor (jget usage metric) (jint 0)))"
  let ?rest = "num_max (Fin 0) (num_sub (Fin limit) ?used)"
  have fields: "jget g ''used'' = JNum ?used" "jget g ''remaining'' = JNum ?rest"
    "jget g ''level'' = JStr (gauge_level (num_scale (1 / limit) ?used) threshold)"
    by (simp_all add: assms(3) usage_gauge_def Let_def)
  show ?thesis
    using remaining_bounds[OF limit refl assms(2)] gauge_blocked[OF limit, of ?used threshold] fields
    by (metis jsv.inject(3))
qed

theorem usage_gauge_bounds_witness:
  "jget (usage_gauge (JObj [(''maxApps'', jint 5)]) (Fin (8/10)) (''maxApps'', 4)) ''level'' = JStr ''blocked''"
proof -
  have "gauge_limit (''maxApps'', jint 4) = Some (''maxApps'', 4)" by code_simp
  moreover have "to_num (jor (jget (JObj [(''maxApps'', jint 5)]) ''maxApps'') (jint 0)) \<noteq> NaN" by code_simp
  ultimately obtain used where "jget (usage_gauge (JObj [(''maxApps'', jint 5)]) (Fin (8/10)) (''maxApps'', 4)) ''used'' = JNum used"
    "jget (usage_gauge (JObj [(''maxApps'', jint 5)]) (Fin (8/10)) (''maxApps'', 4)) ''level'' = JStr ''blocked'' \<longleftrightarrow>
      num_le (Fin 4) used"
    using usage_gauge_bounds[OF _ _ refl] by blast
  moreover have "jget (usage_gauge (JObj [(''maxApps'', jint 5)]) (Fin (8/10)) (''maxApps'', 4)) ''used'' = jint 5"
    by code_simp
  ultimately show ?thesis by simp
qed

end
