(* ===== verification/Provisioner.thy ===== *)
theory Provisioner
  imports Providers Manifest
begin

text \<open>
  \<open>provisioner.ts\<close>: the plan and the manifests of a managed resource, those of a project, and
  \<open>provisionProjectResources\<close>, where applying the manifests is a parameter.
\<close>

definition managedKindFor :: "jsv \<Rightarrow> jsv \<Rightarrow> string" where
  "managedKindFor type key =
    (if type = JStr ''database'' then ''ManagedDatabase'' else if type = JStr ''cache'' then ''ManagedCache''
     else if type = JStr ''storage'' \<or> key = JStr ''object-storage'' then ''ManagedObjectStorage''
     else if type = JStr ''vector'' then ''ManagedVectorDatabase'' else if type = JStr ''queue'' then ''ManagedMessageQueue''
     else ''ManagedResource'')"

definition supportsUsername :: "jsv \<Rightarrow> bool" where
  "supportsUsername type = (type = JStr ''database'' \<or> type = JStr ''queue'')"

definition defaultBackup :: "jsv \<Rightarrow> jsv" where
  "defaultBackup type = (if type \<in> JStr ` set [''database'', ''storage'', ''vector'']
     then JObj [(''schedule'', JStr ''daily''), (''retentionDays'', jint 7)] else JNull)"

definition defaultStorageGb :: "string \<Rightarrow> int" where
  "defaultStorageGb engine = (if engine \<in> set [''postgresql'', ''mysql'', ''mariadb'', ''mongodb''] then 10
     else if engine = ''redis'' \<or> engine = ''valkey'' then 1 else 5)"

definition providerLifecycle :: "string \<Rightarrow> jsv \<Rightarrow> string list" where
  "providerLifecycle engine provider =
    (if engine = ''postgresql'' \<and> str_includes (to_str (jor provider (JStr []))) ''direct''
     then [''desired-state-write'', ''create-user'', ''create-database'', ''grant-privileges'', ''provider-secret'',
       ''connection-test'', ''backup-plan'', ''metrics'']
     else [''desired-state-write'', ''shared-provider-reconcile'', ''credentials-secret'', ''backup-policy'', ''metrics''])"

definition providerPlanForResource :: "jsv \<Rightarrow> string \<Rightarrow> (nat \<Rightarrow> string) \<Rightarrow> string \<Rightarrow> jsv \<Rightarrow> jsv res" where
  "providerPlanForResource penv cwd rnd engine resource =
    (if engine = ''postgresql''
     then rbind (buildPostgresProviderPlan penv (rnd 0) resource (JObj [])) (\<lambda>p. Inr (publicProviderPlan (pgView p)))
     else rbind (buildResourceProviderPlan penv cwd rnd resource (JObj [])) (\<lambda>p. Inr (publicResourceProviderPlan (ppView p))))"

definition slug_field :: "bool \<Rightarrow> jsv \<Rightarrow> jsv \<Rightarrow> string \<Rightarrow> jsv" where
  "slug_field b given name fallback = (if b then jor given (JStr (slugify (jor name (JStr fallback)) ''item'')) else JUndef)"

definition managed_spec :: "jsv \<Rightarrow> jsv \<Rightarrow> string \<Rightarrow> jsv" where
  "managed_spec resource entry name = (let key = to_str (jget entry ''key''); type = jget entry ''type'' in JObj [
     (''type'', type), (''engine'', jget entry ''key''),
     (''version'', jor (jget resource ''version'') (jget entry ''defaultVersion'')),
     (''plan'', jor (jget resource ''plan'') (JStr ''shared-small'')),
     (''region'', jor (jget resource ''region'') (JStr ''local'')),
     (''storageGb'', JNum (to_num (jor (jget resource ''storageGb'') (jint (defaultStorageGb key))))),
     (''databaseName'', slug_field (type = JStr ''database'') (jget resource ''databaseName'')
        (jor (jget resource ''database'') (jget resource ''name'')) ''app''),
     (''bucket'', slug_field (key = ''object-storage'') (jget resource ''bucket'') (jget resource ''name'') ''bucket''),
     (''collection'', slug_field (key = ''vector-db'' \<or> key = ''qdrant'') (jget resource ''collection'')
        (jget resource ''name'') ''collection''),
     (''topic'', slug_field (key = ''message-queue'' \<or> key = ''nats'') (jget resource ''topic'')
        (jget resource ''name'') ''events''),
     (''username'', slug_field (supportsUsername type) (jget resource ''username'')
        (jor (jget resource ''username'') (jget resource ''name'')) ''app''),
     (''provider'', jor (jget resource ''provider'') (JStr ''shared-provider'')),
     (''backup'', jor (jget resource ''backup'') (defaultBackup type)),
     (''credentialsSecretName'', JStr (name @ ''-connection''))])"

definition resource_labels :: "string \<Rightarrow> string \<Rightarrow> jsv \<Rightarrow> jsv" where
  "resource_labels projectSlug name entry = JObj [
     (''app.kubernetes.io/managed-by'', JStr ''raibitserver''),
     (''raibitserver.io/project'', JStr (slugify (JStr projectSlug) ''item'')), (''raibitserver.io/resource'', JStr name),
     (''raibitserver.io/resource-engine'', jget entry ''key''), (''raibitserver.io/resource-type'', jget entry ''type'')]"

definition provisioning_manifests :: "string \<Rightarrow> string \<Rightarrow> string \<Rightarrow> jsv \<Rightarrow> jsv \<Rightarrow> jsv \<Rightarrow> jsv list" where
  "provisioning_manifests namespace kind name labels spec secret =
     [manifest ''raibitserver.io/v1alpha1'' kind (named name namespace labels) [(''spec'', spec)]] @
     (if entries secret \<noteq> [] then [manifest ''v1'' ''Secret'' (named (name @ ''-connection'') namespace labels)
        [(''type'', JStr ''Opaque''), (''stringData'', secret)]] else [])"

definition compileResourceProvisioningPlan ::
  "jsv \<Rightarrow> string \<Rightarrow> (nat \<Rightarrow> string) \<Rightarrow> jsv \<Rightarrow> string \<Rightarrow> string \<Rightarrow> string \<Rightarrow> jsv res" where
  "compileResourceProvisioningPlan penv cwd rnd resource namespace projectSlug organizationSlug = (let
     engine = resource_engine resource
   in rbind (getCatalogEntry (JStr engine)) (\<lambda>entry. let
     name = slugify (jor (jget resource ''name'') (JStr engine)) ''item'';
     kind = managedKindFor (jget entry ''type'') (jget entry ''key'');
     key = to_str (jget entry ''key'')
   in rbind (connectionEnvForResource penv resource (JStr projectSlug)) (\<lambda>env.
      rbind (providerPlanForResource penv cwd rnd key resource) (\<lambda>providerPlan. Inr (JObj [
        (''name'', JStr name), (''namespace'', JStr namespace), (''organizationSlug'', JStr organizationSlug),
        (''projectSlug'', JStr projectSlug), (''catalogKey'', jget entry ''key''), (''resourceKind'', JStr kind),
        (''operator'', jget entry ''operator''), (''provider'', jor (jget resource ''provider'') (JStr ''shared-provider'')),
        (''lifecycle'', JArr (map JStr (providerLifecycle key (jget resource ''provider'')))),
        (''envKeys'', jget entry ''env''), (''providerPlan'', providerPlan),
        (''consoleSurface'', providerConsoleSurface resource (JObj [])),
        (''manifests'', JArr (provisioning_manifests namespace kind name (resource_labels projectSlug name entry)
           (managed_spec resource entry name) (jget (splitEnvForSecret env) ''secret'')))])))))"

definition spec_organization :: "jsv \<Rightarrow> jsv" where
  "spec_organization spec = jor (jget spec ''organization'')
     (JObj [(''slug'', jor (jget spec ''organizationSlug'') (JStr ''org''))])"

definition spec_project :: "jsv \<Rightarrow> jsv" where
  "spec_project spec = jor (jget spec ''project'')
     (JObj [(''slug'', jor (jget spec ''slug'') (jor (jget spec ''name'') (JStr ''project'')))])"

definition compileProjectProvisioning :: "jsv \<Rightarrow> string \<Rightarrow> (nat \<Rightarrow> string) \<Rightarrow> jsv \<Rightarrow> jsv res" where
  "compileProjectProvisioning penv cwd rnd spec = (let
     organization = spec_organization spec; project = spec_project spec;
     org = jor (jget organization ''slug'') (jor (jget organization ''name'') (JStr ''org''));
     proj = jor (jget project ''slug'') (jor (jget project ''name'') (JStr ''project''));
     namespace = slugify (JStr (to_str org @ ''-'' @ to_str proj)) ''item'';
     projectSlug = slugify proj ''item''; organizationSlug = slugify org ''item''
   in rbind (res_map (\<lambda>r. compileResourceProvisioningPlan penv cwd rnd r namespace projectSlug organizationSlug)
        (items (jor (jget spec ''resources'') (JArr [])))) (\<lambda>plans.
      Inr (JObj [(''namespace'', JStr namespace), (''projectSlug'', JStr projectSlug),
        (''organizationSlug'', JStr organizationSlug), (''plans'', JArr plans),
        (''manifests'', JArr (concat (map (\<lambda>p. items (jget p ''manifests'')) plans)))])))"

definition direct_options :: "jsv \<Rightarrow> jsv \<Rightarrow> jsv" where
  "direct_options options resource = jor (table_get (entries options) (resource_engine resource)) options"

text \<open>\<open>applier\<close> is \<open>applyManifests\<close> of \<open>kubernetes.ts\<close>; each resource provisioned directly draws its own secrets.\<close>

definition provisionProjectResources ::
  "(jsv \<Rightarrow> jsv \<Rightarrow> jsv res) \<Rightarrow> process \<Rightarrow> jsv \<Rightarrow> string \<Rightarrow> (nat \<Rightarrow> string) \<Rightarrow> jsv \<Rightarrow> jsv \<Rightarrow> jsv res" where
  "provisionProjectResources applier proc penv cwd rnd spec options =
     rbind (compileProjectProvisioning penv cwd rnd spec) (\<lambda>provisioning.
     rbind (applier (jget provisioning ''manifests'') options) (\<lambda>applied.
     rbind (if jget options ''providerMode'' = JStr ''direct'' \<or> jget options ''directProviders'' = JBool True
            then res_map (\<lambda>r. rbind (provisionResourceProvider proc penv cwd rnd
                (jwith r [(''projectSlug'', jget provisioning ''projectSlug'')]) (direct_options options r))
                (\<lambda>p. Inr (prView p))) (items (jor (jget spec ''resources'') (JArr [])))
            else Inr []) (\<lambda>results.
       Inr (JObj [(''provisioning'', maskSecrets provisioning), (''apply'', applied),
         (''providerResults'', maskSecrets (JArr results))]))))"

end
