(* ===== verification/Config.thy ===== *)
theory Config
  imports Secrets
begin

text \<open>
  \<open>config.ts\<close>: the catalog of runtime keys and their masked status, and the parser and validator of
  the API's configuration. An error made by \<open>configError\<close> carries a key and a code, so these
  functions have an error type of their own. \<open>env\<close> is the environment object.
\<close>

definition runtime_key :: "string \<Rightarrow> string \<Rightarrow> bool \<Rightarrow> bool \<Rightarrow> string \<Rightarrow> jsv" where
  "runtime_key name category required secret description = JObj [(''name'', JStr name),
     (''category'', JStr category), (''required'', JBool required), (''secret'', JBool secret),
     (''description'', JStr description)]"

definition RUNTIME_KEY_CATALOG :: "jsv list" where
  "RUNTIME_KEY_CATALOG = [
    runtime_key ''RAIBITSERVER_AUTH_JWT_SECRET'' ''auth'' True True
      ''HS256 JWT signing secret for signup/login and API sessions'',
    runtime_key ''RAIBITSERVER_AUTH_AUDIENCE'' ''auth'' False False
      ''Expected JWT audience for API session tokens'',
    runtime_key ''RAIBITSERVER_TRUST_PROXY_HEADERS'' ''auth'' False False
      ''Set to 1 only behind a trusted edge/proxy to use X-Forwarded-For for auth rate-limit keys'',
    runtime_key ''RAIBITSERVER_ADMIN_BOOTSTRAP_TOKEN'' ''auth'' False True
      ''Production-only token required to bootstrap an ADMIN account for an ADMIN_EMAILS address'',
    runtime_key ''RAIBITSERVER_SECRET_ENCRYPTION_KEY'' ''secrets'' True True
      ''32+ character key used by production secret stores before persisting credentials'',
    runtime_key ''RAIBITSERVER_GITHUB_CLIENT_ID'' ''github'' False False ''GitHub OAuth/App client id'',
    runtime_key ''RAIBITSERVER_GITHUB_CLIENT_SECRET'' ''github'' False True ''GitHub OAuth/App client secret'',
    runtime_key ''RAIBITSERVER_GITHUB_WEBHOOK_SECRET'' ''github'' False True
      ''GitHub webhook HMAC verification secret'',
    runtime_key ''RAIBITSERVER_REGISTRY_USERNAME'' ''registry'' False False ''Default image registry username'',
    runtime_key ''RAIBITSERVER_REGISTRY_PASSWORD'' ''registry'' False True ''Default image registry password/token'',
    runtime_key ''DATABASE_URL'' ''persistence'' False True
      ''PostgreSQL connection string used by Prisma persistence'',
    runtime_key ''RAIBITSERVER_POSTGRES_POOLER_HOST'' ''provider'' False False
      ''PgBouncer host used for shared PostgreSQL resource DATABASE_URL injection'']"

definition key_configured :: "jsv \<Rightarrow> bool" where
  "key_configured raw = (raw \<noteq> JUndef \<and> raw \<noteq> JNull \<and> to_str raw \<noteq> [])"

definition key_status :: "jsv \<Rightarrow> jsv \<Rightarrow> jsv" where
  "key_status env i = (let raw = jget env (to_str (jget i ''name'')) in
     jwith i [(''configured'', JBool (key_configured raw)),
       (''value'', if key_configured raw
          then (if truthy (jget i ''secret'') then maskSecretValue raw else JStr (to_str raw)) else JNull)])"

definition runtimeConfigStatus :: "jsv \<Rightarrow> jsv list" where
  "runtimeConfigStatus env = map (key_status env) RUNTIME_KEY_CATALOG"

definition assertRuntimeKeys :: "string list \<Rightarrow> jsv \<Rightarrow> bool res" where
  "assertRuntimeKeys keys env = (let missing = filter (\<lambda>k. \<not> truthy (jget env k)) keys in
     if missing \<noteq> [] then js_throw_status 500 (''missing required runtime keys: '' @ str_join '', '' missing)
     else Inr True)"

definition secretEncryptionConfigured :: "jsv \<Rightarrow> bool" where
  "secretEncryptionConfigured env = (let key = jget env ''RAIBITSERVER_SECRET_ENCRYPTION_KEY'' in
     truthy key \<and> length (to_str key) \<ge> 32)"

section \<open>Fields that may be wrong\<close>

record cfg_error =
  cfgKey :: string
  cfgCode :: string
  cfgMessage :: string

type_synonym 'a cfg = "cfg_error + 'a"

definition configError :: "string \<Rightarrow> string \<Rightarrow> string \<Rightarrow> 'a cfg" where
  "configError key code m = Inl \<lparr>cfgKey = key, cfgCode = code, cfgMessage = m\<rparr>"

definition cbind :: "'a cfg \<Rightarrow> ('a \<Rightarrow> 'b cfg) \<Rightarrow> 'b cfg" where
  "cbind r f = (case r of Inl e \<Rightarrow> Inl e | Inr x \<Rightarrow> f x)"

definition unset :: "jsv \<Rightarrow> bool" where
  "unset v = (v = JUndef \<or> v = JNull \<or> v = JStr [])"

definition optionalPositiveInteger :: "jsv \<Rightarrow> string \<Rightarrow> jsv cfg" where
  "optionalPositiveInteger v key = (if unset v then Inr JNull else (let normalized = to_num v in
     if \<not> is_integer normalized \<or> num_le normalized (Fin 0)
     then configError key ''INVALID_POSITIVE_INTEGER'' (key @ '' must be a positive integer'')
     else Inr (JNum normalized)))"

definition optionalPort :: "jsv \<Rightarrow> string \<Rightarrow> jsv cfg" where
  "optionalPort v key = (if unset v then Inr JNull else
     cbind (optionalPositiveInteger v key) (\<lambda>port.
       if port = JNull then Inr JNull
       else if num_less (Fin 65535) (to_num port)
       then configError key ''INVALID_PORT'' (key @ '' must be between 1 and 65535'')
       else Inr port))"

definition issue :: "string \<Rightarrow> string \<Rightarrow> string \<Rightarrow> jsv" where
  "issue key code m = JObj [(''key'', JStr key), (''code'', JStr code), (''message'', JStr m)]"

text \<open>\<open>capture\<close>: the issues it adds. Every error its callers can throw has a key and a code.\<close>

definition capture :: "'a cfg \<Rightarrow> jsv list" where
  "capture r = (case r of Inl e \<Rightarrow> [issue (cfgKey e) (cfgCode e) (cfgMessage e)] | Inr _ \<Rightarrow> [])"

definition stringValue :: "jsv \<Rightarrow> string" where
  "stringValue v = str_trim (to_str (jor v (JStr [])))"

definition devHeaderAuthAllowed :: "jsv \<Rightarrow> bool" where
  "devHeaderAuthAllowed env = (jget env ''RAIBITSERVER_AUTH_DEV_HEADERS'' = JStr ''1'' \<and>
     jget env ''NODE_ENV'' \<noteq> JStr ''production'' \<and> jget env ''RAIBITSERVER_DEV_HEADER_BIND_LOCAL'' = JStr ''1'')"

definition devTokenAuthAllowed :: "jsv \<Rightarrow> bool" where
  "devTokenAuthAllowed env = (jget env ''RAIBITSERVER_AUTH_DEV_TOKEN'' = JStr ''1'' \<and>
     jget env ''NODE_ENV'' \<noteq> JStr ''production'')"

definition configuredAdminEmailsFromEnv :: "jsv \<Rightarrow> string list" where
  "configuredAdminEmailsFromEnv env = filter (\<lambda>v. v \<noteq> []) (map (\<lambda>v. str_lower (str_trim v))
     (str_split CHR '','' (to_str (jor (jget env ''ADMIN_EMAILS'') (JStr [])))))"

section \<open>The configuration\<close>

definition node_env :: "jsv \<Rightarrow> string" where
  "node_env env = stringValue (jor (jget env ''NODE_ENV'') (JStr ''development''))"

definition in_production :: "jsv \<Rightarrow> bool" where
  "in_production env = (node_env env = ''production'')"

definition secret_text :: "jsv \<Rightarrow> string \<Rightarrow> string" where
  "secret_text env k = stringValue (jor (jget env k) (JStr []))"

definition auth_config :: "jsv \<Rightarrow> jsv \<Rightarrow> jsv" where
  "auth_config env rateLimit = (let
     requested = (jget env ''RAIBITSERVER_AUTH_DISABLED'' = JStr ''1'');
     confirmed = (jget env ''RAIBITSERVER_AUTH_DISABLED_CONFIRM'' = JStr ''I_UNDERSTAND_THIS_GRANTS_GLOBAL_OWNER'')
   in JObj [
     (''mode'', JStr (if requested \<and> confirmed \<and> \<not> in_production env then ''disabled'' else ''jwt'')),
     (''issuer'', JStr (stringValue (jor (jget env ''RAIBITSERVER_AUTH_ISSUER'') (JStr ''raibitserver'')))),
     (''jwtSecret'', JStr (secret_text env ''RAIBITSERVER_AUTH_JWT_SECRET'')),
     (''rateLimit'', rateLimit),
     (''allowDevHeaders'', JBool (devHeaderAuthAllowed env)),
     (''allowDevToken'', JBool (devTokenAuthAllowed env))])"

definition parseApiRuntimeConfig :: "jsv \<Rightarrow> jsv cfg" where
  "parseApiRuntimeConfig env =
     cbind (optionalPort (jget env ''PORT'') ''PORT'') (\<lambda>port.
     cbind (optionalPositiveInteger (jget env ''RAIBITSERVER_AUTH_RATE_LIMIT'') ''RAIBITSERVER_AUTH_RATE_LIMIT'') (\<lambda>rate.
     Inr (JObj [
       (''nodeEnv'', JStr (node_env env)),
       (''production'', JBool (in_production env)),
       (''port'', jnullish port (jint 3000)),
       (''auth'', auth_config env (jnullish rate (jint 10))),
       (''secrets'', JObj [(''encryptionConfigured'',
          JBool (length (secret_text env ''RAIBITSERVER_SECRET_ENCRYPTION_KEY'') \<ge> 32))]),
       (''persistence'', JObj [(''databaseUrlConfigured'', JBool (truthy (jget env ''DATABASE_URL'')))])])))"

definition issue_if :: "bool \<Rightarrow> string \<Rightarrow> string \<Rightarrow> string \<Rightarrow> jsv list" where
  "issue_if b key code m = (if b then [issue key code m] else [])"

definition config_issues :: "jsv \<Rightarrow> jsv list" where
  "config_issues env = (let production = in_production env in
     capture (optionalPort (jget env ''PORT'') ''PORT'') @
     capture (optionalPositiveInteger (jget env ''RAIBITSERVER_AUTH_RATE_LIMIT'') ''RAIBITSERVER_AUTH_RATE_LIMIT'') @
     issue_if (production \<and> jget env ''RAIBITSERVER_AUTH_DISABLED'' = JStr ''1'') ''RAIBITSERVER_AUTH_DISABLED''
       ''UNSAFE_PRODUCTION_AUTH_DISABLED'' ''RAIBITSERVER_AUTH_DISABLED is forbidden when NODE_ENV=production'' @
     issue_if (production \<and> jget env ''RAIBITSERVER_AUTH_DEV_HEADERS'' = JStr ''1'') ''RAIBITSERVER_AUTH_DEV_HEADERS''
       ''UNSAFE_PRODUCTION_DEV_HEADERS'' ''development auth headers are forbidden when NODE_ENV=production'' @
     issue_if (production \<and> jget env ''RAIBITSERVER_AUTH_DEV_TOKEN'' = JStr ''1'') ''RAIBITSERVER_AUTH_DEV_TOKEN''
       ''UNSAFE_PRODUCTION_DEV_TOKEN'' ''development token minting is forbidden when NODE_ENV=production'' @
     issue_if (production \<and> length (secret_text env ''RAIBITSERVER_AUTH_JWT_SECRET'') < 32)
       ''RAIBITSERVER_AUTH_JWT_SECRET'' ''WEAK_JWT_SECRET''
       ''RAIBITSERVER_AUTH_JWT_SECRET must be at least 32 characters in production'' @
     issue_if (production \<and> \<not> secretEncryptionConfigured env)
       ''RAIBITSERVER_SECRET_ENCRYPTION_KEY'' ''MISSING_SECRET_ENCRYPTION_KEY''
       ''RAIBITSERVER_SECRET_ENCRYPTION_KEY must be at least 32 characters in production'' @
     issue_if (production \<and> configuredAdminEmailsFromEnv env \<noteq> [] \<and>
         length (secret_text env ''RAIBITSERVER_ADMIN_BOOTSTRAP_TOKEN'') < 32)
       ''RAIBITSERVER_ADMIN_BOOTSTRAP_TOKEN'' ''MISSING_ADMIN_BOOTSTRAP_TOKEN''
       ''RAIBITSERVER_ADMIN_BOOTSTRAP_TOKEN must be at least 32 characters when ADMIN_EMAILS is configured in production'')"

definition validateApiRuntimeConfig :: "jsv \<Rightarrow> jsv cfg" where
  "validateApiRuntimeConfig env = (let issues = config_issues env in
     cbind (if issues = [] then parseApiRuntimeConfig env else Inr JNull) (\<lambda>config.
       Inr (JObj [(''ok'', JBool (issues = [])), (''issues'', JArr issues), (''config'', config)])))"

definition assertApiRuntimeConfig :: "jsv \<Rightarrow> (js_error + jsv) cfg" where
  "assertApiRuntimeConfig env = cbind (validateApiRuntimeConfig env) (\<lambda>result.
     Inr (if \<not> truthy (jget result ''ok'')
       then js_throw_status 500 (''invalid API runtime configuration: '' @ str_join '', ''
         (map (\<lambda>i. to_str (jget i ''key'') @ '' '' @ to_str (jget i ''code'')) (items (jget result ''issues''))))
       else Inr (jget result ''config'')))"

section \<open>Lemmas\<close>

lemma cbind_simps [simp]: "cbind (Inl e) f = Inl e" "cbind (Inr x) f = f x"
  by (simp_all add: cbind_def)

lemma capture_Nil: "capture r = [] \<longleftrightarrow> (\<exists>x. r = Inr x)"
  by (cases r) (auto simp: capture_def)

lemma issue_if_Nil [simp]: "issue_if b key code m = [] \<longleftrightarrow> \<not> b"
  by (simp add: issue_if_def)

lemma positive_integer_ok:
  "optionalPositiveInteger v key = Inr n \<Longrightarrow> n = JNull \<or> (\<exists>i :: int. 1 \<le> i \<and> n = jint i)"
proof (cases "unset v")
  case False
  assume "optionalPositiveInteger v key = Inr n"
  then have n: "n = JNum (to_num v)" "is_integer (to_num v)" "\<not> num_le (to_num v) (Fin 0)"
    using False by (auto simp: optionalPositiveInteger_def Let_def configError_def split: if_splits)
  then obtain q where q: "to_num v = Fin q" "of_int \<lfloor>q\<rfloor> = q" by (cases "to_num v") (auto simp: is_integer_def)
  then have "0 < q" using n(3) by simp
  then have "(0::rat) < of_int \<lfloor>q\<rfloor>" using q(2) by metis
  then have "0 < \<lfloor>q\<rfloor>" using of_int_0_less_iff by blast
  then have "1 \<le> \<lfloor>q\<rfloor>" by linarith
  moreover have "n = jint \<lfloor>q\<rfloor>" using n(1) q by metis
  ultimately show ?thesis by blast
qed (simp add: optionalPositiveInteger_def)

lemma port_ok:
  "optionalPort v key = Inr p \<Longrightarrow> p = JNull \<or> (\<exists>i :: int. 1 \<le> i \<and> i \<le> 65535 \<and> p = jint i)"
proof -
  assume p: "optionalPort v key = Inr p"
  show ?thesis
  proof (cases "unset v")
    case True
    then show ?thesis using p by (simp add: optionalPort_def)
  next
    case False
    then obtain n where n: "optionalPositiveInteger v key = Inr n"
      using p by (cases "optionalPositiveInteger v key") (auto simp: optionalPort_def)
    from positive_integer_ok[OF this] show ?thesis
    proof
      assume "n = JNull"
      then show ?thesis using p n False by (simp add: optionalPort_def)
    next
      assume "\<exists>i :: int. 1 \<le> i \<and> n = jint i"
      then obtain i :: int where i: "1 \<le> i" "n = jint i" by blast
      then have "p = jint i" "\<not> (65535 :: rat) < of_int i"
        using p n False by (auto simp: optionalPort_def configError_def to_num_def split: if_splits)
      then show ?thesis using i by auto
    qed
  qed
qed

lemma issues_Nil:
  "config_issues env = [] \<longleftrightarrow>
    (\<exists>p. optionalPort (jget env ''PORT'') ''PORT'' = Inr p) \<and>
    (\<exists>n. optionalPositiveInteger (jget env ''RAIBITSERVER_AUTH_RATE_LIMIT'') ''RAIBITSERVER_AUTH_RATE_LIMIT'' = Inr n) \<and>
    (in_production env \<longrightarrow>
      jget env ''RAIBITSERVER_AUTH_DISABLED'' \<noteq> JStr ''1'' \<and> jget env ''RAIBITSERVER_AUTH_DEV_HEADERS'' \<noteq> JStr ''1'' \<and>
      jget env ''RAIBITSERVER_AUTH_DEV_TOKEN'' \<noteq> JStr ''1'' \<and>
      32 \<le> length (secret_text env ''RAIBITSERVER_AUTH_JWT_SECRET'') \<and> secretEncryptionConfigured env \<and>
      (configuredAdminEmailsFromEnv env = [] \<or> 32 \<le> length (secret_text env ''RAIBITSERVER_ADMIN_BOOTSTRAP_TOKEN'')))"
  unfolding config_issues_def Let_def append_is_Nil_conv capture_Nil issue_if_Nil by auto

section \<open>Properties\<close>

text \<open>C34: \<open>validateApiRuntimeConfig\<close> never throws: it reports \<open>ok\<close> exactly when it found no issue, and
  then gives a configuration with a valid port which, in production, uses token authentication,
  allows no development shortcut, and has keys of at least 32 characters.\<close>

theorem valid_config_safe:
  "\<exists>r. validateApiRuntimeConfig env = Inr r \<and> (jget r ''ok'' = JBool True \<longleftrightarrow> items (jget r ''issues'') = []) \<and>
    (jget r ''ok'' = JBool True \<longrightarrow> (\<exists>config. jget r ''config'' = config \<and> parseApiRuntimeConfig env = Inr config \<and>
      (\<exists>p :: int. 1 \<le> p \<and> p \<le> 65535 \<and> jget config ''port'' = jint p) \<and>
      (jget config ''production'' = JBool True \<longrightarrow>
        jget (jget config ''auth'') ''mode'' = JStr ''jwt'' \<and>
        jget (jget config ''auth'') ''allowDevHeaders'' = JBool False \<and>
        jget (jget config ''auth'') ''allowDevToken'' = JBool False \<and>
        32 \<le> length (to_str (jget (jget config ''auth'') ''jwtSecret'')) \<and>
        32 \<le> length (to_str (jget env ''RAIBITSERVER_SECRET_ENCRYPTION_KEY'')))))"
proof (cases "config_issues env = []")
  case False
  then show ?thesis by (simp add: validateApiRuntimeConfig_def Let_def)
next
  case True
  then obtain p n where pn: "optionalPort (jget env ''PORT'') ''PORT'' = Inr p"
      "optionalPositiveInteger (jget env ''RAIBITSERVER_AUTH_RATE_LIMIT'') ''RAIBITSERVER_AUTH_RATE_LIMIT'' = Inr n"
    unfolding issues_Nil by blast
  define config where "config = projr (parseApiRuntimeConfig env)"
  have parse: "parseApiRuntimeConfig env = Inr config"
    by (simp add: config_def parseApiRuntimeConfig_def pn)
  have fields: "jget config ''port'' = jnullish p (jint 3000)" "jget config ''production'' = JBool (in_production env)"
      "jget config ''auth'' = auth_config env (jnullish n (jint 10))"
    by (simp_all add: config_def parseApiRuntimeConfig_def pn)
  have port: "\<exists>p :: int. 1 \<le> p \<and> p \<le> 65535 \<and> jget config ''port'' = jint p"
  proof -
    have d: "(1::int) \<le> 3000 \<and> (3000::int) \<le> 65535 \<and> jint 3000 = jint (3000::int)" by simp
    from port_ok[OF pn(1)] show ?thesis
    proof
      assume "p = JNull"
      then have "jget config ''port'' = jint 3000" by (simp add: fields(1) jnullish_def is_nullish_def)
      then show ?thesis using d by metis
    next
      assume "\<exists>i :: int. 1 \<le> i \<and> i \<le> 65535 \<and> p = jint i"
      then show ?thesis by (auto simp: fields(1) jnullish_def is_nullish_def)
    qed
  qed
  have prod: "jget (jget config ''auth'') ''mode'' = JStr ''jwt'' \<and>
      jget (jget config ''auth'') ''allowDevHeaders'' = JBool False \<and>
      jget (jget config ''auth'') ''allowDevToken'' = JBool False \<and>
      32 \<le> length (to_str (jget (jget config ''auth'') ''jwtSecret'')) \<and>
      32 \<le> length (to_str (jget env ''RAIBITSERVER_SECRET_ENCRYPTION_KEY''))"
    if "jget config ''production'' = JBool True"
  proof -
    have "in_production env" using that by (simp add: fields(2))
    with True show ?thesis
      unfolding issues_Nil
      by (simp add: fields(3) auth_config_def Let_def devHeaderAuthAllowed_def devTokenAuthAllowed_def
          secretEncryptionConfigured_def)
  qed
  have "validateApiRuntimeConfig env = Inr (JObj [(''ok'', JBool True), (''issues'', JArr []), (''config'', config)])"
    by (simp add: validateApiRuntimeConfig_def Let_def True parse)
  then show ?thesis using parse port prod by simp
qed

definition sample_production :: jsv where
  "sample_production = JObj [(''NODE_ENV'', JStr ''production''), (''PORT'', JStr ''8443''),
     (''RAIBITSERVER_AUTH_JWT_SECRET'', JStr ''0123456789abcdef0123456789abcdef''),
     (''RAIBITSERVER_SECRET_ENCRYPTION_KEY'', JStr ''fedcba9876543210fedcba9876543210'')]"

theorem valid_config_safe_witness:
  "\<exists>config. parseApiRuntimeConfig sample_production = Inr config \<and> jget config ''port'' = jint 8443 \<and>
     jget (jget config ''auth'') ''mode'' = JStr ''jwt''"
proof -
  let ?v = "validateApiRuntimeConfig sample_production"
  have v: "?v = Inr (projr ?v)" "jget (projr ?v) ''ok'' = JBool True"
    "jget (jget (projr ?v) ''config'') ''production'' = JBool True"
    "jget (jget (projr ?v) ''config'') ''port'' = jint 8443"
    by code_simp+
  obtain r where r: "?v = Inr r" "jget r ''ok'' = JBool True \<longrightarrow> (\<exists>config. jget r ''config'' = config \<and>
      parseApiRuntimeConfig sample_production = Inr config \<and> (\<exists>p :: int. 1 \<le> p \<and> p \<le> 65535 \<and> jget config ''port'' = jint p) \<and>
      (jget config ''production'' = JBool True \<longrightarrow> jget (jget config ''auth'') ''mode'' = JStr ''jwt'' \<and>
        jget (jget config ''auth'') ''allowDevHeaders'' = JBool False \<and>
        jget (jget config ''auth'') ''allowDevToken'' = JBool False \<and>
        32 \<le> length (to_str (jget (jget config ''auth'') ''jwtSecret'')) \<and>
        32 \<le> length (to_str (jget sample_production ''RAIBITSERVER_SECRET_ENCRYPTION_KEY''))))"
    using valid_config_safe[of sample_production] by blast
  have "projr ?v = r" using r(1) by simp
  then show ?thesis using r v by auto
qed

end
