(* ===== verification/ControlPlane.thy ===== *)
theory ControlPlane
  imports Kubernetes Compose StoreHelpers Quota Catalog Provisioner Config
begin

text \<open>
  \<open>control-plane.ts\<close> and \<open>observability.ts\<close>: the facade over the planners, which the API calls, the
  validation of a project against the security policy and the quota of its plan, and the metrics and
  alerts of a service. The planners read \<open>process.env\<close> (\<open>penv\<close>), the working directory and random
  draws; the parsers of JSON, YAML and addresses are parameters.
\<close>

section \<open>Events, metrics and alerts\<close>

definition deploymentEvent :: "int \<Rightarrow> jsv \<Rightarrow> jsv" where
  "deploymentEvent t input = (let g = jget input in JObj [
     (''id'', JStr (stableId ''evt'' [g ''organizationId'', g ''projectId'', g ''serviceId'', g ''deploymentId'', g ''type'', jint t])),
     (''organizationId'', g ''organizationId''), (''projectId'', g ''projectId''), (''serviceId'', g ''serviceId''),
     (''deploymentId'', g ''deploymentId''), (''type'', g ''type''), (''message'', g ''message''),
     (''metadata'', sanitizeLogRecord (jdefault (g ''metadata'') (JObj []))), (''createdAt'', nowIso t)])"

definition METRICS :: "(string \<times> string) list" where
  "METRICS = [(''cpu_usage'', ''cores''), (''memory_usage'', ''bytes''), (''network_in'', ''bytes''), (''network_out'', ''bytes''),
     (''request_count'', ''requests''), (''error_rate'', ''ratio''), (''response_time_p95'', ''ms'')]"

definition metricSeries :: "jsv \<Rightarrow> jsv list" where
  "metricSeries service = map (\<lambda>(metric, unit_name). JObj [(''name'', JStr metric), (''unit'', JStr unit_name),
     (''target'', jget service ''name'')]) METRICS"

definition alert_policy :: "string \<Rightarrow> string list \<Rightarrow> string \<Rightarrow> jsv" where
  "alert_policy code channels severity = JObj [(''code'', JStr code), (''channelDefaults'', JArr (map JStr channels)),
     (''severity'', JStr severity)]"

definition alertPolicies :: "jsv list" where
  "alertPolicies = [
     alert_policy ''deploy_failed'' [''email'', ''discord'', ''slack''] ''high'',
     alert_policy ''app_crash_loop'' [''email'', ''discord'', ''slack''] ''high'',
     alert_policy ''db_storage_exceeded'' [''email''] ''critical'',
     alert_policy ''memory_limit_exceeded'' [''email'', ''discord''] ''medium'',
     alert_policy ''domain_verification_failed'' [''email''] ''medium'',
     alert_policy ''tls_renewal_failed'' [''email''] ''critical'',
     alert_policy ''backup_failed'' [''email'', ''slack''] ''high'']"

section \<open>The planners\<close>

text \<open>A parameter default \<open>= {}\<close>\<close>

abbreviation or_empty :: "jsv \<Rightarrow> jsv" where
  "or_empty v \<equiv> jdefault v (JObj [])"

definition planBuild :: "json_parser \<Rightarrow> jsv \<Rightarrow> jsv \<Rightarrow> jsv res" where
  "planBuild parse service files = resolveBuildStrategy parse service (or_empty files)"

definition planSourceCheckout :: "url_parser \<Rightarrow> jsv \<Rightarrow> jsv \<Rightarrow> jsv \<Rightarrow> jsv res" where
  "planSourceCheckout parse_url penv service options = sourceCheckoutPlan parse_url penv service (or_empty options)"

definition planBuildExecution :: "tools \<Rightarrow> jsv \<Rightarrow> jsv \<Rightarrow> jsv \<Rightarrow> jsv res" where
  "planBuildExecution t service files options = buildExecutionPlan t service (or_empty files) (or_empty options)"

definition planRegistryPush :: "jsv \<Rightarrow> jsv res" where
  "planRegistryPush img = registryPushPlan img"

definition planKubernetesApply :: "jsv \<Rightarrow> json_parser \<Rightarrow> jsv \<Rightarrow> jsv \<Rightarrow> jsv \<Rightarrow> jsv res" where
  "planKubernetesApply penv parse projectSpec filesByService options =
     rbind (compileProject penv parse projectSpec (or_empty filesByService)) (\<lambda>compiled.
     Inr (JObj [(''compiled'', compiled),
       (''apply'', kubernetesApplyPlan (items (jget compiled ''manifests'')) (or_empty options))]))"

definition planProvisioning :: "jsv \<Rightarrow> string \<Rightarrow> (nat \<Rightarrow> string) \<Rightarrow> jsv \<Rightarrow> jsv res" where
  "planProvisioning penv cwd rnd projectSpec = compileProjectProvisioning penv cwd rnd projectSpec"

definition guardQuery :: "jsv \<Rightarrow> jsv \<Rightarrow> jsv res" where
  "guardQuery query options = guardDatabaseQuery query (or_empty options)"

section \<open>Validation\<close>

text \<open>\<open>(v || []).map(...)\<close>, which only arrays have.\<close>

definition array_items :: "jsv \<Rightarrow> jsv list res" where
  "array_items v = (if is_jarr v then Inr (items v) else if truthy v then js_throw ''map is not a function'' else Inr [])"

definition service_finding :: "jsv \<Rightarrow> jsv res" where
  "service_finding service = rbind (jread service ''name'') (\<lambda>name. Inr (JObj [(''service'', name),
     (''security'', validateServiceSecurity service), (''metrics'', JArr (metricSeries service))]))"

definition requested_storage :: "jsv list \<Rightarrow> jnum res" where
  "requested_storage rs = res_fold (\<lambda>sum resource. rbind (jread resource ''storageGb'') (\<lambda>gb.
     Inr (num_add sum (to_num (jor gb (jint 0)))))) (Fin 0) rs"

definition requested_amounts :: "jsv list \<Rightarrow> jnum \<Rightarrow> jsv" where
  "requested_amounts svcs storage = JObj [(''apps'', jnat (length svcs)), (''projects'', jint 1),
     (''dbStorageGb'', JNum storage), (''customDomains'', jnat (length (filter (\<lambda>s. truthy (jget s ''domain'')) svcs)))]"

definition validateProject :: "jsv \<Rightarrow> jsv res" where
  "validateProject projectSpec = rbind (jread projectSpec ''services'') (\<lambda>given.
     rbind (array_items given) (\<lambda>svcs.
     rbind (res_map service_finding svcs) (\<lambda>serviceFindings.
     rbind (array_items (jget projectSpec ''resources'')) (\<lambda>rs.
     rbind (requested_storage rs) (\<lambda>storage. let
       quota = checkQuota (jor (jget (jget projectSpec ''organization'') ''plan'') (JStr ''free''))
         (jor (jget projectSpec ''currentUsage'') (JObj [])) (requested_amounts svcs storage)
     in Inr (JObj [
       (''ok'', JBool (list_all (\<lambda>row. truthy (jget (jget row ''security'') ''ok'')) serviceFindings \<and> truthy (jget quota ''ok''))),
       (''serviceFindings'', JArr serviceFindings), (''quota'', quota), (''alertPolicies'', JArr alertPolicies)]))))))"

section \<open>Properties\<close>

lemma array_items_ok: "array_items v = Inr xs \<Longrightarrow> xs = items v"
  by (cases v) (auto simp: array_items_def is_jarr_def items_def split: if_splits)

lemma truthy_ok: "(jget (validateServiceSecurity s) ''ok'' = JBool True) = truthy (jget (validateServiceSecurity s) ''ok'')"
  "(jget (checkQuota a b c) ''ok'' = JBool True) = truthy (jget (checkQuota a b c) ''ok'')"
  by (simp_all add: validateServiceSecurity_def checkQuota_def Let_def)

lemma findings_safe:
  "res_map service_finding svcs = Inr rows \<Longrightarrow>
     list_all (\<lambda>row. truthy (jget (jget row ''security'') ''ok'')) rows = (\<forall>s \<in> set svcs. safe_service s)"
  by (induction svcs arbitrary: rows)
    (auto simp: rbind_Inr_iff service_finding_def truthy_ok(1)[symmetric] validate_safe)

text \<open>What a project asks of a metric of its plan: its current use, its services, the storage of its resources
  and its domains.\<close>

definition asked_storage :: "jsv \<Rightarrow> jnum" where
  "asked_storage spec = num_sum (\<lambda>r. to_num (jor (jget r ''storageGb'') (jint 0))) (items (jget spec ''resources''))"

definition within_plan :: "jsv \<Rightarrow> bool" where
  "within_plan spec = (\<forall>(metric, v) \<in> set (entries (quotaForPlan (jor (jget (jget spec ''organization'') ''plan'') (JStr ''free'')))).
     \<forall>n. finite_limit v = Some n \<longrightarrow> \<not> num_less n (metric_used (jor (jget spec ''currentUsage'') (JObj []))
       (requested_amounts (items (jget spec ''services'')) (asked_storage spec)) metric))"

text \<open>a project is valid exactly when every service passes the security policy and no finite limit of
  its organization's plan is below what it asks for: its current use with its services, its domains and
  the storage of all its resources.\<close>

theorem project_validation:
  assumes "validateProject spec = Inr out"
  shows "jget out ''ok'' = JBool True \<longleftrightarrow>
    (\<forall>service \<in> set (items (jget spec ''services'')). safe_service service) \<and> within_plan spec"
proof -
  let ?sum = "\<lambda>sum r. num_add sum (to_num (jor (jget r ''storageGb'') (jint 0)))"
  have fold: "res_fold (\<lambda>sum resource. rbind (jread resource ''storageGb'') (\<lambda>gb.
      Inr (num_add sum (to_num (jor gb (jint 0)))))) n rs = Inr m \<Longrightarrow> m = foldl ?sum n rs" for n m rs
    by (induction rs arbitrary: n) (auto simp: rbind_Inr_iff jread_def split: if_splits)
  obtain svcs rows rs storage where parts: "array_items (jget spec ''services'') = Inr svcs"
    "res_map service_finding svcs = Inr rows" "array_items (jget spec ''resources'') = Inr rs"
    "requested_storage rs = Inr storage"
    and out: "jget out ''ok'' = JBool (list_all (\<lambda>row. truthy (jget (jget row ''security'') ''ok'')) rows \<and>
      truthy (jget (checkQuota (jor (jget (jget spec ''organization'') ''plan'') (JStr ''free''))
        (jor (jget spec ''currentUsage'') (JObj [])) (requested_amounts svcs storage)) ''ok''))"
    using assms by (auto simp: validateProject_def rbind_Inr_iff jread_def Let_def split: if_splits)
  have storage: "storage = asked_storage spec"
    using fold parts(4) array_items_ok[OF parts(3)]
    by (simp add: requested_storage_def asked_storage_def num_sum_def)
  show ?thesis
    unfolding out findings_safe[OF parts(2)] array_items_ok[OF parts(1)] storage truthy_ok(2)[symmetric]
      checkQuota_ok[THEN conjunct1] within_plan_def jsv.inject by simp
qed

definition sample_project :: jsv where
  "sample_project = JObj [(''services'', JArr [JObj [(''name'', JStr ''web''), (''hostNetwork'', JBool True)]])]"

lemma sample_validates: "is_ok (validateProject sample_project)"
  by code_simp

theorem project_validation_witness:
  "jget (projr (validateProject sample_project)) ''ok'' \<noteq> JBool True"
proof -
  obtain out where out: "validateProject sample_project = Inr out"
    using sample_validates by (auto simp: is_ok_def split: sum.splits)
  have "\<not> safe_service (JObj [(''name'', JStr ''web''), (''hostNetwork'', JBool True)])" by code_simp
  then have "\<exists>service \<in> set (items (jget sample_project ''services'')). \<not> safe_service service"
    by (simp add: sample_project_def)
  with project_validation[OF out] show ?thesis by (simp add: out)
qed

end
