(* ===== verification/ApiAccess.thy ===== *)
theory ApiAccess
  imports Http ControlPlane DeploymentWorkflow StoreHistory
begin

text \<open>
  What the request handlers of \<open>api.ts\<close> share: the surroundings of a request, its subject, the access
  checks for projects and services, and the reading of bodies and arguments. A handler is an operation
  of the store that answers a response; the world \<open>ws k\<close> is the surroundings of its \<open>k\<close>-th store
  operation. A JSON body that is neither an object nor \<open>null\<close> is read as an object without fields.
\<close>

section \<open>A request and its surroundings\<close>

text \<open>\<open>cSalt\<close>, \<open>cTokenId\<close> and \<open>cOauthState\<close> are the random draws of a request outside of the store.\<close>

record api_call =
  cReq :: http_request
  cWorlds :: "nat \<Rightarrow> world"
  cAuth :: jsv
  cJwt :: jwt_lib
  cParse :: message_parser
  cYaml :: "string \<Rightarrow> jsv option"
  cGitUrl :: url_parser
  cSha :: "string \<Rightarrow> string"
  cKdf :: kdf
  cCompare :: "string \<Rightarrow> string \<Rightarrow> int"
  cDriver :: driver
  cSalt :: string
  cTokenId :: string
  cOauthState :: string

definition call_env :: "api_call \<Rightarrow> jsv" where
  "call_env c = wEnv (cWorlds c 0)"

definition call_time :: "api_call \<Rightarrow> int" where
  "call_time c = wNow (cWorlds c 0)"

definition call_json :: "api_call \<Rightarrow> json_parser" where
  "call_json c t = (case cParse c t of Inl m \<Rightarrow> None | Inr v \<Rightarrow> Some v)"

definition call_tools :: "api_call \<Rightarrow> tools" where
  "call_tools c = \<lparr>tParseJson = call_json c, tParseUrl = cGitUrl c, tEnv = call_env c, tCwd = wCwd (cWorlds c 0),
     tSha256 = cSha c\<rparr>"

definition call_query :: "api_call \<Rightarrow> (string \<times> jsv) list" where
  "call_query c = (case reqParts (cReq c) of Inl m \<Rightarrow> [] | Inr (_, query) \<Rightarrow> search_params query)"

definition authConfigFromEnv :: "jsv \<Rightarrow> jsv" where
  "authConfigFromEnv penv = (let mode = safeAuthModeFromEnv penv in JObj [
     (''mode'', JStr mode), (''allowDisabled'', JBool (mode = ''disabled'')),
     (''jwtSecret'', jor (jget penv ''RAIBITSERVER_AUTH_JWT_SECRET'') (JStr [])),
     (''issuer'', jor (jget penv ''RAIBITSERVER_AUTH_ISSUER'') (JStr ''raibitserver'')),
     (''audience'', jor (jget penv ''RAIBITSERVER_AUTH_AUDIENCE'') (JStr ''raibitserver-api'')),
     (''allowDevHeaders'', JBool (devHeaderAuthAllowed penv)), (''allowDevToken'', JBool (devTokenAuthAllowed penv)),
     (''defaultRole'', jor (jget penv ''RAIBITSERVER_ROLE'') (JStr ''owner'')),
     (''sessionTtlSeconds'', JNum (sessionTtlSeconds penv
        (JObj [(''sessionTtlSeconds'', jget penv ''RAIBITSERVER_SESSION_TTL_SECONDS'')])))])"

text \<open>\<open>options.auth || authConfigFromEnv()\<close>\<close>

definition api_auth :: "jsv \<Rightarrow> jsv \<Rightarrow> jsv" where
  "api_auth options penv = jor (jget options ''auth'') (authConfigFromEnv penv)"

section \<open>Subjects and access\<close>

definition matchesSubjectOrganization :: "jsv \<Rightarrow> jsv \<Rightarrow> bool" where
  "matchesSubjectOrganization subject organizationId = (let expected = to_str organizationId in
     if truthy (jget subject ''organizationId'') \<and> to_str (jget subject ''organizationId'') = expected then True
     else is_jarr (jget subject ''organizationIds'') \<and> expected \<in> set (map to_str (items (jget subject ''organizationIds''))))"

definition call_subject :: "api_call \<Rightarrow> jsv res" where
  "call_subject c = subjectFromRequest (cJwt c) (request_value (cReq c)) (cAuth c) (call_time c)"

definition authorizeAction :: "api_call \<Rightarrow> string \<Rightarrow> jsv res" where
  "authorizeAction c action = rbind (call_subject c) (\<lambda>subject. rbind (requireAction subject action) (\<lambda>_. Inr subject))"

definition authorized :: "api_call \<Rightarrow> string \<Rightarrow> jsv \<Rightarrow> jsv res" where
  "authorized c action scope = authorizeRequest (cJwt c) (request_value (cReq c)) action (cAuth c) scope (call_time c)"

definition everywhere :: "jsv \<Rightarrow> bool" where
  "everywhere subject = (jget subject ''global'' = JBool True \<or> jget subject ''authMode'' = JStr ''disabled'')"

definition assertProjectAccess :: "jsv \<Rightarrow> jsv \<Rightarrow> jsv op" where
  "assertProjectAccess projectId subject = (let known = sfind projects ''project'' projectId in
     if everywhere subject then known
     else stry (sthen (slift (requireScope subject (JObj [(''projectId'', projectId)]))) known) (\<lambda>projectScopeError.
       if \<not> truthy (jget subject ''organizationId'') \<and> \<not> is_jarr (jget subject ''organizationIds'')
       then slift (Inl projectScopeError)
       else sbind known (\<lambda>project.
         sthen (slift (requireScope subject (JObj [(''organizationId'', jget project ''organizationId'')])))
         (sret project))))"

definition assertServiceAccess :: "jsv \<Rightarrow> jsv \<Rightarrow> jsv \<Rightarrow> jsv op" where
  "assertServiceAccess projectId serviceId subject = sbind (sfind services ''service'' serviceId) (\<lambda>service.
     sthen (slift (if same_text (jget service ''projectId'') projectId then Inr ()
       else js_throw_status 403 ''service does not belong to project''))
     (assertProjectAccess projectId subject))"

definition publicUser :: "jsv \<Rightarrow> jsv" where
  "publicUser user = (if \<not> truthy user then JNull else jrest user [''passwordHash''])"

definition projectSpecFromBody :: "jsv \<Rightarrow> jsv res" where
  "projectSpecFromBody body = rbind (jread body ''projectSpec'') (\<lambda>projectSpec.
     Inr (if truthy projectSpec then projectSpec
       else if truthy (jget body ''services'') \<or> truthy (jget body ''resources'') \<or> truthy (jget body ''organization'') then body
       else jor (jget body ''project'') body))"

section \<open>Reading and answering\<close>

definition reply :: "nat \<Rightarrow> jsv \<Rightarrow> response op" where
  "reply code body = sret (Send code body)"

definition error_body :: "string \<Rightarrow> jsv" where
  "error_body e = JObj [(''error'', JStr e)]"

definition answer :: "nat \<Rightarrow> jsv op \<Rightarrow> response op" where
  "answer code m = sbind m (reply code)"

definition answer_with :: "nat \<Rightarrow> string \<Rightarrow> jsv list op \<Rightarrow> response op" where
  "answer_with code k m = sbind m (\<lambda>rows. reply code (JObj [(k, JArr rows)]))"

definition with_subject :: "api_call \<Rightarrow> string \<Rightarrow> (jsv \<Rightarrow> response op) \<Rightarrow> response op" where
  "with_subject c action f = sbind (slift (authorizeAction c action)) f"

definition with_request :: "api_call \<Rightarrow> string \<Rightarrow> jsv \<Rightarrow> (jsv \<Rightarrow> response op) \<Rightarrow> response op" where
  "with_request c action scope f = sbind (slift (authorized c action scope)) f"

definition with_json :: "api_call \<Rightarrow> (jsv \<Rightarrow> response op) \<Rightarrow> response op" where
  "with_json c f = sbind (slift (readJson (cParse c) (call_env c) (cReq c))) f"

text \<open>The first read of a field of the body, which throws for \<open>null\<close>\<close>

definition with_field :: "jsv \<Rightarrow> string \<Rightarrow> (jsv \<Rightarrow> response op) \<Rightarrow> response op" where
  "with_field body k f = sbind (slift (jread body k)) f"

definition with_arg :: "string \<Rightarrow> (jsv \<Rightarrow> response op) \<Rightarrow> response op" where
  "with_arg raw f = sbind (slift (decodeURIComponent raw)) (\<lambda>t. f (JStr t))"

text \<open>\<open>const row = store.rows.get(id); if (!row) return send(res, 404, { error })\<close>\<close>

definition with_row :: "jsv op \<Rightarrow> string \<Rightarrow> (jsv \<Rightarrow> response op) \<Rightarrow> response op" where
  "with_row m missing f = sbind m (\<lambda>row. if truthy row then f row else reply 404 (error_body missing))"

definition in_project :: "jsv \<Rightarrow> jsv \<Rightarrow> response op \<Rightarrow> response op" where
  "in_project projectId subject m = sthen (assertProjectAccess projectId subject) m"

definition in_service :: "jsv \<Rightarrow> jsv \<Rightarrow> jsv \<Rightarrow> response op \<Rightarrow> response op" where
  "in_service projectId serviceId subject m = sthen (assertServiceAccess projectId serviceId subject) m"

definition in_organization :: "jsv \<Rightarrow> jsv \<Rightarrow> response op \<Rightarrow> response op" where
  "in_organization organizationId subject m =
     sthen (slift (requireScope subject (JObj [(''organizationId'', organizationId)]))) m"

definition within_quota :: "world \<Rightarrow> jsv \<Rightarrow> string \<Rightarrow> string \<Rightarrow> jsv \<Rightarrow> response op \<Rightarrow> response op" where
  "within_quota w subject action metric increment m = sthen (enforceUserCan w (JObj [(''userId'', jget subject ''id''),
     (''action'', JStr action), (''metric'', JStr metric), (''increment'', increment)])) m"

definition rows_where :: "(store \<Rightarrow> jmap) \<Rightarrow> (jsv \<Rightarrow> bool) \<Rightarrow> jsv list op" where
  "rows_where rows P = sget (\<lambda>s. filter P (mvalues (rows s)))"

definition token_options :: "api_call \<Rightarrow> jsv" where
  "token_options c = JObj [(''issuer'', jor (jget (cAuth c) ''issuer'') (JStr ''raibitserver'')),
     (''expiresInSeconds'', jor (jget (cAuth c) ''sessionTtlSeconds'') (JNum (sessionTtlSeconds (call_env c) (cAuth c))))]"

lemmas handler_defs = reply_def answer_def answer_with_def with_subject_def with_request_def with_json_def with_field_def
  with_arg_def with_row_def in_project_def in_service_def in_organization_def within_quota_def rows_where_def

end
