(* ===== verification/ApiPlans.thy ===== *)
theory ApiPlans
  imports ApiAccess
begin

text \<open>
  The request handlers of \<open>api.ts\<close> that report, sign in and plan. None of them but signing up and
  logging in changes the store.
\<close>

section \<open>Status and accounts\<close>

definition get_health :: "api_call \<Rightarrow> response op" where
  "get_health c = reply 200 (JObj [(''status'', JStr ''ok''), (''service'', JStr ''raibitserver-control-plane''),
     (''auth'', jor (jget (cAuth c) ''mode'') (JStr ''jwt''))])"

definition get_catalog :: "api_call \<Rightarrow> response op" where
  "get_catalog c = reply 200 (JObj [(''resources'', JArr listCatalog)])"

definition get_runtime_config :: "api_call \<Rightarrow> response op" where
  "get_runtime_config c = with_request c ''audit:read'' (JObj []) (\<lambda>_.
     reply 200 (JObj [(''keys'', JArr (runtimeConfigStatus (call_env c)))]))"

definition get_github_login :: "api_call \<Rightarrow> response op" where
  "get_github_login c = reply 200 (githubOAuthLoginPlan (call_env c) (cOauthState c) (from_entries (call_query c)))"

definition get_github_callback :: "api_call \<Rightarrow> response op" where
  "get_github_callback c = (let code = param (call_query c) ''code''; state = param (call_query c) ''state'' in
     if truthy code \<and> \<not> truthy state then reply 400 (error_body ''oauth_state_required'')
     else reply 200 (JObj [(''provider'', JStr ''github''), (''received'', JBool True), (''codePresent'', JBool (truthy code)),
       (''state'', state), (''mode'', JStr ''oauth-callback-pending''), (''linked'', JBool False)]))"

definition get_me :: "api_call \<Rightarrow> response op" where
  "get_me c = sbind (slift (call_subject c)) (\<lambda>subject.
     sbind (sget (\<lambda>s. jor (mget (users s) (jget subject ''id'')) JNull)) (\<lambda>user.
     sbind (if truthy user then listMembershipsForUser (jget user ''id'') else sret []) (\<lambda>memberships.
     reply 200 (JObj [(''user'', if truthy user then publicUser user else JNull), (''subject'', subject),
       (''memberships'', JArr memberships)]))))"

definition post_logout :: "api_call \<Rightarrow> response op" where
  "post_logout c = sbind (slift (call_subject c)) (\<lambda>_. reply 200 (JObj [(''ok'', JBool True)]))"

definition dev_claims :: "jsv \<Rightarrow> jsv" where
  "dev_claims body = JObj [(''sub'', jor (jget body ''sub'') (JStr ''dev-user'')),
     (''role'', jor (jget body ''role'') (JStr ''developer'')), (''organizationId'', jor (jget body ''organizationId'') JNull),
     (''projectIds'', jor (jget body ''projectIds'') JNull), (''global'', JBool (jget body ''global'' = JBool True))]"

definition post_dev_token :: "api_call \<Rightarrow> string \<Rightarrow> response op" where
  "post_dev_token c path = (if \<not> truthy (jget (cAuth c) ''allowDevToken'')
     then reply 404 (JObj [(''error'', JStr ''not_found''), (''path'', JStr path)])
     else with_json c (\<lambda>body.
       if \<not> truthy (jget (cAuth c) ''jwtSecret'') then reply 400 (error_body ''jwt_secret_not_configured'')
       else with_field body ''sub'' (\<lambda>_.
         sbind (slift (signJwtHs256 (cJwt c) (dev_claims body) (jget (cAuth c) ''jwtSecret'') (token_options c) (cTokenId c)
           (call_time c))) (\<lambda>token. reply 201 (JObj [(''token'', JStr token)])))))"

definition get_snapshot :: "api_call \<Rightarrow> response op" where
  "get_snapshot c = with_request c ''audit:read'' (JObj []) (\<lambda>_. sbind snapshot (\<lambda>rows. reply 200 (maskSecrets rows)))"

section \<open>Plans\<close>

definition planned :: "api_call \<Rightarrow> (jsv \<Rightarrow> jsv res) \<Rightarrow> response op" where
  "planned c plan = with_request c ''project:read'' (JObj []) (\<lambda>_. with_json c (\<lambda>body. answer 200 (slift (plan body))))"

definition or_object :: "jsv \<Rightarrow> jsv" where
  "or_object v = jor v (JObj [])"

definition body_service :: "jsv \<Rightarrow> jsv res" where
  "body_service body = rbind (jread body ''service'') (\<lambda>service. Inr (jor service body))"

definition clean_service :: "api_call \<Rightarrow> jsv \<Rightarrow> jsv res" where
  "clean_service c service = sanitizeTenantServiceInput (cGitUrl c) (call_env c) service (JObj [])"

definition post_plan_build :: "api_call \<Rightarrow> response op" where
  "post_plan_build c = planned c (\<lambda>body. rbind (body_service body) (\<lambda>service.
     planBuild (call_json c) service (or_object (jget body ''files''))))"

definition post_plan_source :: "api_call \<Rightarrow> response op" where
  "post_plan_source c = planned c (\<lambda>body. rbind (body_service body) (\<lambda>given. rbind (clean_service c given) (\<lambda>service.
     planSourceCheckout (cGitUrl c) (call_env c) service (or_object (jget body ''options'')))))"

definition post_plan_build_execution :: "api_call \<Rightarrow> response op" where
  "post_plan_build_execution c = planned c (\<lambda>body. rbind (body_service body) (\<lambda>given. rbind (clean_service c given) (\<lambda>service.
     planBuildExecution (call_tools c) service (or_object (jget body ''files'')) (or_object (jget body ''options'')))))"

definition post_plan_registry_push :: "api_call \<Rightarrow> response op" where
  "post_plan_registry_push c = planned c (\<lambda>body. rbind (jread body ''image'') planRegistryPush)"

definition post_plan_kubernetes_apply :: "api_call \<Rightarrow> response op" where
  "post_plan_kubernetes_apply c = planned c (\<lambda>body. rbind (projectSpecFromBody body) (\<lambda>projectSpec.
     planKubernetesApply (call_env c) (call_json c) projectSpec (or_object (jget body ''filesByService''))
       (or_object (jget body ''options''))))"

definition post_plan_provisioning :: "api_call \<Rightarrow> response op" where
  "post_plan_provisioning c = planned c (\<lambda>body. rbind (projectSpecFromBody body) (\<lambda>projectSpec.
     planProvisioning (call_env c) (wCwd (cWorlds c 0)) (wDraw (cWorlds c 0) 0) projectSpec))"

definition post_plan_compose :: "api_call \<Rightarrow> response op" where
  "post_plan_compose c = planned c (\<lambda>body. rbind (jread body ''compose'') (\<lambda>compose.
     importCompose (cYaml c) (jor compose (jor (jget body ''text'') (JStr []))) (or_object (jget body ''options''))))"

definition post_plan_manifests :: "api_call \<Rightarrow> response op" where
  "post_plan_manifests c = planned c (\<lambda>body. rbind (projectSpecFromBody body) (\<lambda>projectSpec.
     compileProject (call_env c) (call_json c) projectSpec (or_object (jget body ''filesByService''))))"

definition post_validate :: "api_call \<Rightarrow> response op" where
  "post_validate c = planned c (\<lambda>body. rbind (projectSpecFromBody body) validateProject)"

text \<open>The options of the body override the role of the subject.\<close>

definition post_guard_query :: "api_call \<Rightarrow> response op" where
  "post_guard_query c = with_json c (\<lambda>body. with_field body ''options'' (\<lambda>options.
     with_request c (if truthy (jget options ''confirmed'') then ''db:query:write'' else ''db:data:read'')
       (or_object (jget options ''scope'')) (\<lambda>subject.
     answer 200 (slift (guardQuery (jget body ''query'')
       (jspread (JObj [(''role'', jget subject ''role'')]) (or_object options)))))))"

section \<open>Signing up and logging in\<close>

type_synonym 'a limited = "store \<times> rate_limiter \<Rightarrow> 'a res \<times> (store \<times> rate_limiter)"

text \<open>What both read before the limiter: the body, the secret of the tokens and the address. An early answer
  is \<open>Inl\<close>.\<close>

definition credentials :: "api_call \<Rightarrow> (response + jsv \<times> string) res" where
  "credentials c = rbind (readJson (cParse c) (call_env c) (cReq c)) (\<lambda>body.
     if \<not> truthy (jget (cAuth c) ''jwtSecret'') then Inr (Inl (Send 500 (error_body ''jwt_secret_not_configured'')))
     else rbind (jread body ''email'') (\<lambda>given. rbind (normalizeEmail given) (\<lambda>email. Inr (Inr (body, email)))))"

definition auth_key :: "api_call \<Rightarrow> string \<Rightarrow> string \<Rightarrow> jsv" where
  "auth_key c purpose email = authRateKey (call_env c) (cReq c) (purpose @ '':'' @ email)"

definition attempt :: "api_call \<Rightarrow> string \<Rightarrow> (jsv \<Rightarrow> string \<Rightarrow> response limited) \<Rightarrow> response limited" where
  "attempt c purpose f st = (case st of (s, l) \<Rightarrow> (case credentials c of
     Inl e \<Rightarrow> (Inl e, (s, l))
   | Inr (Inl r) \<Rightarrow> (Inr r, (s, l))
   | Inr (Inr (body, email)) \<Rightarrow> (case assertRateLimit l (call_time c) (wNow (cWorlds c 1)) (auth_key c purpose email) of
       (Inl (e, _), l') \<Rightarrow> (Inl e, (s, l')) | (Inr _, l') \<Rightarrow> f body email (s, l'))))"

definition session_token :: "api_call \<Rightarrow> jsv \<Rightarrow> jsv list \<Rightarrow> string res" where
  "session_token c user memberships = createSessionToken (cJwt c) (call_env c) user memberships (jget (cAuth c) ''jwtSecret'')
     (token_options c) (cTokenId c) (call_time c)"

definition signup_slug :: "jsv \<Rightarrow> string \<Rightarrow> jsv" where
  "signup_slug body email = jor (jget body ''organizationSlug'') (jor (jget body ''orgSlug'')
     (JStr (personalOrganizationSlug (JStr email))))"

definition signup_user :: "jsv \<Rightarrow> string \<Rightarrow> string \<Rightarrow> jsv \<Rightarrow> jsv" where
  "signup_user body email passwordHash policy = JObj [(''name'', jor (jget body ''name'') (JStr email)), (''email'', JStr email),
     (''passwordHash'', JStr passwordHash), (''role'', jget policy ''role''), (''accountType'', jget policy ''accountType''),
     (''approvalStatus'', jget policy ''approvalStatus'')]"

definition create_account :: "api_call \<Rightarrow> jsv \<Rightarrow> string \<Rightarrow> string \<Rightarrow> jsv \<Rightarrow> response op" where
  "create_account c body email passwordHash slug =
     sbind (createOrganization (cWorlds c 2) (JObj [(''name'', jor (jget body ''organizationName'') slug), (''slug'', slug),
       (''plan'', jor (jget body ''plan'') (JStr ''free''))])) (\<lambda>organization.
     sbind (sget (\<lambda>s. signupPolicyForAccount (call_env c) body (JStr email)
       (JObj [(''firstUser'', JBool (users s = []))]))) (\<lambda>policy.
     sbind (createUser (cWorlds c 3) (signup_user body email passwordHash policy)) (\<lambda>user.
     sbind (addMember (cWorlds c 4) (JObj [(''organizationId'', jget organization ''id''), (''userId'', jget user ''id''),
       (''role'', JStr ''owner'')])) (\<lambda>membership.
     sbind (slift (session_token c (jset user ''email'' (JStr email)) [membership])) (\<lambda>token.
     reply 201 (JObj [(''user'', publicUser user), (''organization'', organization), (''membership'', membership),
       (''token'', JStr token)]))))))"

definition signup_account :: "api_call \<Rightarrow> jsv \<Rightarrow> string \<Rightarrow> response op" where
  "signup_account c body email = sbind (findUserByEmail (JStr email)) (\<lambda>known.
     if truthy known then reply 409 (error_body ''user_already_exists'')
     else sbind (slift (hashPassword (cKdf c) (cSalt c) (jget body ''password'') (JObj []))) (\<lambda>passwordHash.
       let slug = signup_slug body email in
       sbind (findOrganizationBySlug slug) (\<lambda>taken.
       if truthy taken then reply 409 (error_body ''organization_slug_already_exists'')
       else create_account c body email passwordHash slug)))"

definition post_signup :: "api_call \<Rightarrow> response limited" where
  "post_signup c = attempt c ''signup'' (\<lambda>body email (s, l). case signup_account c body email s of (r, s') \<Rightarrow> (r, (s', l)))"

text \<open>The user who logs in with the memberships, or the answer to a failed attempt\<close>

definition login_account :: "api_call \<Rightarrow> jsv \<Rightarrow> string \<Rightarrow> (response + jsv \<times> jsv list) op" where
  "login_account c body email = sbind (findUserByEmail (JStr email)) (\<lambda>user.
     sbind (slift (if truthy user then verifyPassword (cKdf c) (jget body ''password'') (jget user ''passwordHash'') else Inr False)) (\<lambda>valid.
     if \<not> valid then sret (Inl (Send 401 (error_body ''invalid_credentials'')))
     else sbind (sget (\<lambda>s. mvalues (users s))) (\<lambda>everyone.
       sbind (if shouldPromoteFirstLogin (cCompare c) (call_env c) user everyone
         then approveUser (cWorlds c 2) (jget user ''id'') (JObj [(''accountType'', JStr ''NON_CLUB''), (''role'', JStr ''ADMIN'')])
         else sret user) (\<lambda>account.
       sbind (listMembershipsForUser (jget account ''id'')) (\<lambda>memberships. sret (Inr (account, memberships)))))))"

definition login_reply :: "api_call \<Rightarrow> jsv \<Rightarrow> jsv list \<Rightarrow> response res" where
  "login_reply c user memberships = rbind (session_token c user memberships) (\<lambda>token.
     Inr (Send 200 (JObj [(''user'', publicUser user), (''memberships'', JArr memberships), (''token'', JStr token)])))"

definition post_login :: "api_call \<Rightarrow> response limited" where
  "post_login c = attempt c ''login'' (\<lambda>body email (s, l). case login_account c body email s of
     (Inl e, s') \<Rightarrow> (Inl e, (s', l))
   | (Inr (Inl r), s') \<Rightarrow> (Inr r, (s', l))
   | (Inr (Inr (user, memberships)), s') \<Rightarrow>
       (login_reply c user memberships, (s', rate_reset l (auth_key c ''login'' email))))"

end
