(* ===== verification/ApiRoutes.thy ===== *)
theory ApiRoutes
  imports ApiAccess
begin

text \<open>
  The request handlers of \<open>api.ts\<close> for organizations, projects, services, resources, deployments, the
  console, the administration, the environment and GitHub. \<open>cWorlds c k\<close> surrounds the \<open>k\<close>-th store
  operation of a request. The console browser reads the body \<open>null\<close> as an object without fields.
\<close>

section \<open>Organizations and projects\<close>

definition get_organizations :: "api_call \<Rightarrow> response op" where
  "get_organizations c = with_subject c ''project:read'' (\<lambda>subject. answer_with 200 ''organizations''
     (rows_where organizations (\<lambda>org. everywhere subject \<or> matchesSubjectOrganization subject (jget org ''id''))))"

definition destructured :: "jsv \<Rightarrow> string \<Rightarrow> unit res" where
  "destructured v k = (let q = (\<lambda>t. [CHR 0x27] @ t @ [CHR 0x27]) in
     if v = JNull then js_throw (''Cannot destructure property '' @ q k @ '' of '' @ q ''object null'' @ '' as it is null.'') else Inr ())"

definition post_organizations :: "api_call \<Rightarrow> response op" where
  "post_organizations c = with_request c ''team:invite'' (JObj []) (\<lambda>_. with_json c (\<lambda>body.
     sthen (slift (destructured body ''name'')) (answer 201 (createOrganization (cWorlds c 0) body))))"

definition get_organization_projects :: "api_call \<Rightarrow> string \<Rightarrow> response op" where
  "get_organization_projects c a = with_subject c ''project:read'' (\<lambda>subject. with_arg a (\<lambda>organizationId.
     in_organization organizationId subject (answer_with 200 ''projects''
       (rows_where projects (\<lambda>p. same_text (jget p ''organizationId'') organizationId)))))"

definition post_organization_projects :: "api_call \<Rightarrow> string \<Rightarrow> response op" where
  "post_organization_projects c a = with_subject c ''project:update'' (\<lambda>subject. with_arg a (\<lambda>organizationId.
     in_organization organizationId subject
       (within_quota (cWorlds c 0) subject ''project:create'' ''maxProjects'' (jint 1) (with_json c (\<lambda>body.
         answer 201 (createProject (cWorlds c 1) (jwith body [(''organizationId'', organizationId)])))))))"

definition get_projects :: "api_call \<Rightarrow> response op" where
  "get_projects c = with_subject c ''project:read'' (\<lambda>subject. answer_with 200 ''projects''
     (rows_where projects (\<lambda>p. everywhere subject \<or> matchesSubjectOrganization subject (jget p ''organizationId''))))"

definition post_projects :: "api_call \<Rightarrow> response op" where
  "post_projects c = with_json c (\<lambda>body. with_subject c ''project:create'' (\<lambda>subject. with_field body ''organizationId'' (\<lambda>_.
     let organizationId = organizationScopeFromProjectInput body subject in
     in_organization organizationId subject
       (within_quota (cWorlds c 0) subject ''project:create'' ''maxProjects'' (jint 1)
         (answer 201 (createProject (cWorlds c 1) (jwith body [(''organizationId'', organizationId)])))))))"

definition get_project :: "api_call \<Rightarrow> string \<Rightarrow> response op" where
  "get_project c a = with_subject c ''project:read'' (\<lambda>subject. with_arg a (\<lambda>projectId.
     answer 200 (assertProjectAccess projectId subject)))"

definition patch_project :: "api_call \<Rightarrow> string \<Rightarrow> response op" where
  "patch_project c a = with_subject c ''project:create'' (\<lambda>subject. with_arg a (\<lambda>projectId. in_project projectId subject
     (with_json c (\<lambda>body. with_field body ''slug'' (\<lambda>_.
       with_row (updateProject (cWorlds c 0) projectId body) ''project_not_found'' (reply 200))))))"

definition delete_project :: "api_call \<Rightarrow> string \<Rightarrow> response op" where
  "delete_project c a = with_subject c ''project:delete'' (\<lambda>subject. with_arg a (\<lambda>projectId. in_project projectId subject
     (with_row (deleteProject (cWorlds c 0) projectId) ''project_not_found'' (\<lambda>project.
       reply 200 (JObj [(''deleted'', JBool True), (''projectId'', jget project ''id'')])))))"

section \<open>Services\<close>

definition tenant_service :: "api_call \<Rightarrow> jsv \<Rightarrow> jsv res" where
  "tenant_service c body = sanitizeTenantServiceInput (cGitUrl c) (call_env c) body (JObj [])"

definition get_project_services :: "api_call \<Rightarrow> string \<Rightarrow> response op" where
  "get_project_services c a = with_subject c ''project:read'' (\<lambda>subject. with_arg a (\<lambda>projectId. in_project projectId subject
     (answer_with 200 ''services'' (rows_where services (\<lambda>row. same_text (jget row ''projectId'') projectId)))))"

definition post_project_services :: "api_call \<Rightarrow> string \<Rightarrow> response op" where
  "post_project_services c a = with_json c (\<lambda>body. with_subject c ''service:create'' (\<lambda>subject. with_arg a (\<lambda>projectId.
     in_project projectId subject (within_quota (cWorlds c 0) subject ''service:create'' ''maxServices'' (jint 1)
       (sbind (slift (tenant_service c body)) (\<lambda>input.
         answer 201 (createService (cWorlds c 1) (jwith input [(''projectId'', projectId)]))))))))"

definition post_services :: "api_call \<Rightarrow> response op" where
  "post_services c = with_json c (\<lambda>body. with_subject c ''service:create'' (\<lambda>subject. with_field body ''projectId'' (\<lambda>projectId.
     in_project projectId subject (within_quota (cWorlds c 0) subject ''service:create'' ''maxServices'' (jint 1)
       (sbind (slift (tenant_service c body)) (\<lambda>input. answer 201 (createService (cWorlds c 1) input)))))))"

text \<open>A service or a resource of a project the subject has access to, and its identifier\<close>

definition with_service :: "api_call \<Rightarrow> string \<Rightarrow> string \<Rightarrow> (jsv \<Rightarrow> jsv \<Rightarrow> jsv \<Rightarrow> response op) \<Rightarrow> response op" where
  "with_service c action a f = with_subject c action (\<lambda>subject. with_arg a (\<lambda>serviceId.
     with_row (getService serviceId) ''service_not_found'' (\<lambda>service.
       in_project (jget service ''projectId'') subject (f subject serviceId service))))"

definition with_resource :: "api_call \<Rightarrow> string \<Rightarrow> string \<Rightarrow> (jsv \<Rightarrow> jsv \<Rightarrow> jsv \<Rightarrow> response op) \<Rightarrow> response op" where
  "with_resource c action a f = with_subject c action (\<lambda>subject. with_arg a (\<lambda>resourceId.
     with_row (getResource resourceId) ''resource_not_found'' (\<lambda>resource.
       in_project (jget resource ''projectId'') subject (f subject resourceId resource))))"

definition get_service :: "api_call \<Rightarrow> string \<Rightarrow> response op" where
  "get_service c a = with_service c ''project:read'' a (\<lambda>subject serviceId service. reply 200 service)"

definition patch_service :: "api_call \<Rightarrow> string \<Rightarrow> response op" where
  "patch_service c a = with_service c ''service:update'' a (\<lambda>subject serviceId service. with_json c (\<lambda>body.
     sbind (slift (sanitizeTenantServiceUpdate (cGitUrl c) (call_env c) body (JObj []))) (\<lambda>updates.
     answer 200 (updateService (cWorlds c 0) serviceId updates))))"

definition delete_service :: "api_call \<Rightarrow> string \<Rightarrow> response op" where
  "delete_service c a = with_service c ''project:delete'' a (\<lambda>subject serviceId service.
     sbind (deleteService (cWorlds c 0) serviceId) (\<lambda>deleted.
     reply 200 (JObj [(''deleted'', JBool True), (''serviceId'', jget deleted ''id'')])))"

section \<open>Resources\<close>

text \<open>What a resource asks of the quota: megabytes, or the number of gigabytes taken as megabytes\<close>

definition resource_increment :: "jsv \<Rightarrow> jsv" where
  "resource_increment body = JNum (to_num (jor (jget body ''storageMb'') (jor (jget body ''storageGb'') (jint 1))))"

definition get_project_resources :: "api_call \<Rightarrow> string \<Rightarrow> response op" where
  "get_project_resources c a = with_subject c ''project:read'' (\<lambda>subject. with_arg a (\<lambda>projectId. in_project projectId subject
     (answer_with 200 ''resources'' (rows_where resources (\<lambda>row. same_text (jget row ''projectId'') projectId)))))"

definition post_project_resources :: "api_call \<Rightarrow> string \<Rightarrow> response op" where
  "post_project_resources c a = with_json c (\<lambda>body. with_subject c ''db:create'' (\<lambda>subject. with_arg a (\<lambda>projectId.
     in_project projectId subject (with_field body ''storageMb'' (\<lambda>_.
       within_quota (cWorlds c 0) subject ''resource:create'' (resourceQuotaMetric body) (resource_increment body)
         (answer 201 (createResource (cWorlds c 1)
           (jwith (sanitizeTenantResourceApiInput body) [(''projectId'', projectId)]))))))))"

definition post_resources :: "api_call \<Rightarrow> response op" where
  "post_resources c = with_json c (\<lambda>body. with_subject c ''db:create'' (\<lambda>subject. with_field body ''projectId'' (\<lambda>projectId.
     in_project projectId subject
       (within_quota (cWorlds c 0) subject ''resource:create'' (resourceQuotaMetric body) (resource_increment body)
         (answer 201 (createResource (cWorlds c 1) (sanitizeTenantResourceApiInput body)))))))"

definition get_resource :: "api_call \<Rightarrow> string \<Rightarrow> response op" where
  "get_resource c a = with_resource c ''project:read'' a (\<lambda>subject resourceId resource. reply 200 resource)"

definition patch_resource :: "api_call \<Rightarrow> string \<Rightarrow> response op" where
  "patch_resource c a = with_resource c ''db:create'' a (\<lambda>subject resourceId resource. with_json c (\<lambda>body.
     answer 200 (updateResource (cWorlds c 0) resourceId (sanitizeTenantResourceApiUpdate body))))"

definition delete_resource :: "api_call \<Rightarrow> string \<Rightarrow> response op" where
  "delete_resource c a = with_resource c ''db:delete'' a (\<lambda>subject resourceId resource.
     sbind (deleteResource (cWorlds c 0) resourceId) (\<lambda>deleted.
     reply 200 (JObj [(''deleted'', JBool True), (''resourceId'', jget deleted ''id'')])))"

definition post_resource_provision :: "api_call \<Rightarrow> string \<Rightarrow> response op" where
  "post_resource_provision c a = with_resource c ''db:create'' a (\<lambda>subject resourceId resource. with_json c (\<lambda>body.
     answer 202 (storeProvisionResourceProvider (cWorlds c 0)
       (jwith body [(''resourceId'', resourceId), (''actorUserId'', jget subject ''id'')]))))"

definition post_resource_attach :: "api_call \<Rightarrow> string \<Rightarrow> response op" where
  "post_resource_attach c a = with_resource c ''db:create'' a (\<lambda>subject resourceId resource. with_json c (\<lambda>body.
     answer 200 (attachResource (cWorlds c 0)
       (jwith body [(''resourceId'', resourceId), (''actorUserId'', jget subject ''id'')]))))"

section \<open>Deployments\<close>

definition deployment_kind :: "jsv \<Rightarrow> jsv" where
  "deployment_kind body = jor (jget body ''deploymentType'') (jor (jget body ''type'') (JStr ''production''))"

definition deployment_job :: "jsv \<Rightarrow> jsv \<Rightarrow> jsv \<Rightarrow> jsv \<Rightarrow> jsv" where
  "deployment_job body serviceId projectId deployment = JObj [
     (''type'', JStr (if deployment_kind body = JStr ''preview'' then ''preview-deploy'' else ''build-and-deploy'')),
     (''targetType'', JStr ''deployment''), (''targetId'', jget deployment ''id''),
     (''payload'', JObj [(''serviceId'', serviceId), (''projectId'', projectId), (''deploymentId'', jget deployment ''id''),
        (''branch'', jor (jget body ''branch'') (JStr ''main'')),
        (''commitSha'', jor (jget body ''commitSha'') (jor (jget body ''commitHash'') JNull))])]"

text \<open>The quotas, the security policy, then the deployment and its job\<close>

definition deploy_service :: "api_call \<Rightarrow> jsv \<Rightarrow> jsv \<Rightarrow> jsv \<Rightarrow> jsv \<Rightarrow> jsv op \<Rightarrow> response op" where
  "deploy_service c subject body serviceId projectId spec_of =
     within_quota (cWorlds c 0) subject ''deployment:create'' ''maxDeploymentsPerDay'' (jint 1)
     ((if deployment_kind body = JStr ''preview''
       then within_quota (cWorlds c 1) subject ''deployment:create'' ''maxPreviewDeployments'' (jint 1) else (\<lambda>m. m))
     (sbind spec_of (\<lambda>spec. let security = validateServiceSecurity spec in
      if \<not> truthy (jget security ''ok'')
      then reply 403 (JObj [(''error'', JStr ''security_policy_violation''), (''findings'', jget security ''findings'')])
      else sbind (createDeployment (cWorlds c 2) (jwith (sanitizeTenantDeploymentCreate body)
          [(''serviceId'', serviceId), (''deploymentType'', deployment_kind body), (''status'', JStr ''queued'')])) (\<lambda>deployment.
        sbind (enqueueWorkflowJob (cWorlds c 3) (deployment_job body serviceId projectId deployment)) (\<lambda>workflowJob.
        reply 202 (jwith deployment [(''workflowJob'', workflowJob)]))))))"

definition desired_spec :: "jsv \<Rightarrow> jsv" where
  "desired_spec service = jor (jget service ''desiredState'') (jor (jget service ''desiredSpec'') service)"

definition post_service_deployments :: "api_call \<Rightarrow> string \<Rightarrow> response op" where
  "post_service_deployments c a = with_arg a (\<lambda>serviceId.
     with_row (sget (\<lambda>s. mget (services s) serviceId)) ''service_not_found'' (\<lambda>service. with_json c (\<lambda>body.
     with_field body ''deploymentType'' (\<lambda>_. with_subject c ''deploy:run'' (\<lambda>subject.
     in_project (jget service ''projectId'') subject
       (deploy_service c subject body serviceId (jget service ''projectId'') (sret (desired_spec service))))))))"

definition post_project_service_deployments :: "api_call \<Rightarrow> string \<Rightarrow> string \<Rightarrow> response op" where
  "post_project_service_deployments c a b = with_arg a (\<lambda>projectId. with_arg b (\<lambda>serviceId. with_json c (\<lambda>body.
     with_field body ''deploymentType'' (\<lambda>_. with_subject c ''deploy:run'' (\<lambda>subject.
     in_service projectId serviceId subject (deploy_service c subject body serviceId projectId
       (sget (\<lambda>s. jor (desired_spec (mget (services s) serviceId)) (JObj [])))))))))"

definition with_deployment :: "api_call \<Rightarrow> string \<Rightarrow> string \<Rightarrow> (jsv \<Rightarrow> jsv \<Rightarrow> jsv \<Rightarrow> response op) \<Rightarrow> response op" where
  "with_deployment c action a f = with_subject c action (\<lambda>subject. with_arg a (\<lambda>deploymentId.
     with_row (getDeployment deploymentId) ''deployment_not_found'' (\<lambda>deployment.
       in_project (jget deployment ''projectId'') subject (f subject deploymentId deployment))))"

definition get_deployment :: "api_call \<Rightarrow> string \<Rightarrow> response op" where
  "get_deployment c a = with_deployment c ''project:read'' a (\<lambda>subject deploymentId deployment. reply 200 deployment)"

definition actor :: "jsv \<Rightarrow> jsv" where
  "actor subject = JObj [(''actorUserId'', jget subject ''id'')]"

definition post_deployment_status :: "api_call \<Rightarrow> string \<Rightarrow> response op" where
  "post_deployment_status c a = with_deployment c ''deploy:run'' a (\<lambda>subject deploymentId deployment.
     sthen (slift (assertSystemDeploymentActor subject)) (with_json c (\<lambda>given.
     let body = sanitizeDeploymentStatusInput given in
     if has_own body ''status''
     then answer 200 (transitionDeployment (cWorlds c 0) deploymentId (jget body ''status'') (jrest body [''status'']) (actor subject))
     else answer 200 (updateDeployment (cWorlds c 0) deploymentId body (actor subject)))))"

text \<open>\<open>/deployments/:id/(cancel|rollback)\<close>\<close>

definition post_deployment_action :: "api_call \<Rightarrow> string \<Rightarrow> string \<Rightarrow> response op" where
  "post_deployment_action c a b = with_subject c ''deploy:run'' (\<lambda>subject. with_arg a (\<lambda>deploymentId. with_arg b (\<lambda>action.
     with_row (getDeployment deploymentId) ''deployment_not_found'' (\<lambda>deployment.
     in_project (jget deployment ''projectId'') subject (with_json c (\<lambda>body.
       let input = jwith body [(''actorUserId'', jget subject ''id'')] in
       answer 202 (if action = JStr ''cancel'' then cancelDeployment (cWorlds c 0) deploymentId input
         else rollbackDeployment (cWorlds c 0) deploymentId input)))))))"

definition get_deployment_logs :: "api_call \<Rightarrow> string \<Rightarrow> string \<Rightarrow> response op" where
  "get_deployment_logs c a b = with_subject c ''logs:read'' (\<lambda>_. with_arg a (\<lambda>deploymentId. with_arg b (\<lambda>kind.
     if kind = JStr ''logs'' then answer_with 200 ''logs'' (listDeploymentLogs deploymentId)
     else answer_with 200 ''events'' (listDeploymentEvents deploymentId))))"

definition sse_stream :: jsv where
  "sse_stream = JObj [(''mode'', JStr ''sse-snapshot''), (''retryMs'', jint 3000)]"

definition get_deployment_stream :: "api_call \<Rightarrow> string \<Rightarrow> response op" where
  "get_deployment_stream c a = with_deployment c ''logs:read'' a (\<lambda>subject deploymentId deployment.
     sbind (listDeploymentLogs deploymentId) (\<lambda>logs. sbind (listDeploymentEvents deploymentId) (\<lambda>events.
     sret (SendSse ''deployment.snapshot'' (JObj [(''deployment'', deployment), (''logs'', JArr logs), (''events'', JArr events),
       (''stream'', sse_stream)])))))"

definition get_service_logs :: "api_call \<Rightarrow> string \<Rightarrow> response op" where
  "get_service_logs c a = with_subject c ''logs:read'' (\<lambda>_. with_arg a (\<lambda>serviceId.
     answer_with 200 ''logs'' (listRuntimeLogs serviceId)))"

definition get_service_logs_stream :: "api_call \<Rightarrow> string \<Rightarrow> response op" where
  "get_service_logs_stream c a = with_service c ''logs:read'' a (\<lambda>subject serviceId service.
     sbind (listRuntimeLogs serviceId) (\<lambda>logs.
     sret (SendSse ''service.logs.snapshot'' (JObj [(''service'', service), (''logs'', JArr logs), (''stream'', sse_stream)]))))"

section \<open>The database console\<close>

definition stored_resource :: "jsv \<Rightarrow> jsv \<Rightarrow> (jsv \<Rightarrow> response op) \<Rightarrow> response op" where
  "stored_resource resourceId subject f = with_row (sget (\<lambda>s. mget (resources s) resourceId)) ''resource_not_found'' (\<lambda>resource.
     in_project (jget resource ''projectId'') subject (f resource))"

definition console_options :: "jsv \<Rightarrow> jsv \<Rightarrow> (string \<times> jsv) list \<Rightarrow> jsv" where
  "console_options given subject more_fields = jwith given (more_fields @ [(''role'', jget subject ''role''),
     (''actorUserId'', jget subject ''id'')])"

definition get_console_table :: "api_call \<Rightarrow> string \<Rightarrow> string \<Rightarrow> response op" where
  "get_console_table c a b = with_subject c ''db:data:read'' (\<lambda>subject. with_arg a (\<lambda>resourceId. with_arg b (\<lambda>table.
     stored_resource resourceId subject (\<lambda>_. answer 200 (storeConsoleView (cDriver c) (cWorlds c 0) resourceId ''table''
       (console_options (from_entries (call_query c)) subject [(''table'', table)]))))))"

definition get_console_view :: "api_call \<Rightarrow> string \<Rightarrow> string \<Rightarrow> response op" where
  "get_console_view c a b = with_subject c ''db:schema:read'' (\<lambda>subject. with_arg a (\<lambda>resourceId. with_arg b (\<lambda>view.
     stored_resource resourceId subject (\<lambda>_. answer 200 (storeConsoleView (cDriver c) (cWorlds c 0) resourceId (to_str view)
       (console_options (from_entries (call_query c)) subject []))))))"

definition post_console :: "api_call \<Rightarrow> string \<Rightarrow> string \<Rightarrow> response op" where
  "post_console c a b = with_arg a (\<lambda>resourceId. with_arg b (\<lambda>action.
     with_subject c (if action = JStr ''command'' then ''db:query:write'' else ''db:data:read'') (\<lambda>subject. with_json c (\<lambda>body.
     stored_resource resourceId subject (\<lambda>_.
       if action = JStr ''query'' then with_field body ''query'' (\<lambda>query. answer 200
         (runResourceConsoleQuery (cDriver c) (cWorlds c 0) resourceId query (console_options body subject [])))
       else if action = JStr ''command'' then with_field body ''command'' (\<lambda>command. answer 200
         (runResourceConsoleCommand (cDriver c) (cWorlds c 0) resourceId (jor command (jget body ''query''))
           (console_options body subject [])))
       else answer 200 (browseResourceConsole (cDriver c) (cWorlds c 0) resourceId body))))))"

section \<open>Administration and usage\<close>

definition with_admin :: "api_call \<Rightarrow> (jsv \<Rightarrow> response op) \<Rightarrow> response op" where
  "with_admin c f = with_subject c ''audit:read'' (\<lambda>subject.
     if jget subject ''userRole'' \<noteq> JStr ''ADMIN'' \<and> jget subject ''global'' \<noteq> JBool True
     then reply 403 (error_body ''admin_required'') else f subject)"

definition post_user_decision :: "api_call \<Rightarrow> string \<Rightarrow> string \<Rightarrow> response op" where
  "post_user_decision c a b = with_admin c (\<lambda>subject. with_arg a (\<lambda>userId. with_arg b (\<lambda>action. with_json c (\<lambda>body.
     answer 200 (if action = JStr ''approve''
       then approveUser (cWorlds c 0) userId (jwith body [(''actorUserId'', jget subject ''id'')])
       else rejectUser (cWorlds c 0) userId (actor subject))))))"

definition post_user_quota :: "api_call \<Rightarrow> string \<Rightarrow> response op" where
  "post_user_quota c a = with_admin c (\<lambda>subject. with_json c (\<lambda>body. with_arg a (\<lambda>userId.
     answer 200 (setQuota (cWorlds c 0) (jwith body [(''userId'', userId)])))))"

definition usage_report :: "api_call \<Rightarrow> jsv \<Rightarrow> store \<Rightarrow> jsv" where
  "usage_report c subject s = (let
     mine = (\<lambda>row. same_text (jget row ''userId'') (jget subject ''id''));
     unlimited = (jget subject ''userRole'' = JStr ''ADMIN'' \<or> jget subject ''accountType'' = JStr ''CLUB_MEMBER'');
     quota = jor (if unlimited then JNull else find_row mine (quotas s)) JNull;
     current = JObj (map (\<lambda>(k, n). (k, JNum n)) (quotaUsageForUser (cWorlds c 0) (jget subject ''id'') s))
   in JObj [(''accountType'', jget subject ''accountType''), (''approvalStatus'', jget subject ''approvalStatus''),
     (''unlimited'', JBool unlimited), (''quota'', quota), (''usage'', JArr (filter mine (usageRecords s))),
     (''current'', current), (''gauges'', JArr (quotaUsageGauges current quota (JObj []))),
     (''warnings'', JArr (quotaWarnings current quota (JObj [])))])"

definition get_usage :: "api_call \<Rightarrow> response op" where
  "get_usage c = with_subject c ''metrics:read'' (\<lambda>subject. answer 200 (sget (usage_report c subject)))"

section \<open>The environment of a service\<close>

definition get_env :: "api_call \<Rightarrow> string \<Rightarrow> string \<Rightarrow> response op" where
  "get_env c a b = with_subject c ''env:read'' (\<lambda>subject. with_arg a (\<lambda>projectId. with_arg b (\<lambda>serviceId.
     in_service projectId serviceId subject (answer 200 (listServiceEnvironment
       (JObj [(''projectId'', projectId), (''serviceId'', serviceId)]))))))"

definition env_input :: "jsv \<Rightarrow> jsv \<Rightarrow> jsv list \<Rightarrow> jsv \<Rightarrow> jsv \<Rightarrow> jsv" where
  "env_input projectId serviceId env_entries subject source = JObj [(''projectId'', projectId), (''serviceId'', serviceId),
     (''entries'', JArr env_entries), (''actorUserId'', jget subject ''id''), (''source'', source)]"

definition post_env :: "api_call \<Rightarrow> string \<Rightarrow> string \<Rightarrow> response op" where
  "post_env c a b = with_subject c ''env:write-limited'' (\<lambda>subject. with_arg a (\<lambda>projectId. with_arg b (\<lambda>serviceId.
     in_service projectId serviceId subject (with_json c (\<lambda>body. with_field body ''entries'' (\<lambda>given.
       let source = jor (jget body ''source'') (JStr ''api'') in
       sbind (slift (normalizeEnvEntries (jor given (jor (jget body ''environment'') body)) (JObj [(''source'', source)]))) (\<lambda>env_entries.
       sthen (slift (assertEnvironmentWriteAllowed subject env_entries))
       (answer 200 (upsertServiceEnvironment (cWorlds c 0) (env_input projectId serviceId env_entries subject source))))))))))"

definition post_env_file :: "api_call \<Rightarrow> string \<Rightarrow> string \<Rightarrow> response op" where
  "post_env_file c a b = with_subject c ''env:write-limited'' (\<lambda>subject. with_arg a (\<lambda>projectId. with_arg b (\<lambda>serviceId.
     in_service projectId serviceId subject (with_json c (\<lambda>body. with_field body ''filename'' (\<lambda>filename.
       let source = jor filename (JStr ''.env'') in
       sbind (slift (parseDotEnv (JStr (to_str (jor (jget body ''content'') (jor (jget body ''text'') (JStr [])))))
         (JObj [(''source'', source)]))) (\<lambda>parsed. let env_entries = items (jget parsed ''entries'') in
       sthen (slift (assertEnvironmentWriteAllowed subject env_entries))
       (sbind (upsertServiceEnvironment (cWorlds c 0) (env_input projectId serviceId env_entries subject source)) (\<lambda>result.
        reply 200 (jwith result [(''source'', source), (''parsed'', JObj [(''plainCount'', jget parsed ''plainCount''),
          (''secretCount'', jget parsed ''secretCount''), (''errors'', jget parsed ''errors'')])]))))))))))"

section \<open>GitHub\<close>

definition post_github_integration :: "api_call \<Rightarrow> response op" where
  "post_github_integration c = with_subject c ''team:invite'' (\<lambda>subject. with_json c (\<lambda>body.
     with_field body ''organizationId'' (\<lambda>given. let organizationId = jor given (jget subject ''organizationId'') in
     in_organization organizationId subject (answer 201 (createGitHubIntegration (cWorlds c 0)
       (jwith body [(''organizationId'', organizationId), (''userId'', jget subject ''id'')]))))))"

definition queried_organization :: "api_call \<Rightarrow> jsv \<Rightarrow> jsv" where
  "queried_organization c subject = jor (param (call_query c) ''organizationId'') (jget subject ''organizationId'')"

definition get_github_integrations :: "api_call \<Rightarrow> response op" where
  "get_github_integrations c = with_subject c ''project:read'' (\<lambda>subject.
     in_organization (queried_organization c subject) subject (answer_with 200 ''integrations''
       (listGitHubIntegrations (JObj [(''organizationId'', queried_organization c subject)]))))"

definition get_github_installations :: "api_call \<Rightarrow> response op" where
  "get_github_installations c = with_subject c ''project:read'' (\<lambda>subject.
     in_organization (queried_organization c subject) subject (answer 200
       (listGitHubInstallations (JObj [(''organizationId'', queried_organization c subject)]))))"

definition post_service_github :: "api_call \<Rightarrow> string \<Rightarrow> string \<Rightarrow> response op" where
  "post_service_github c a b = with_subject c ''deploy:run'' (\<lambda>subject. with_arg a (\<lambda>projectId. with_arg b (\<lambda>serviceId.
     in_service projectId serviceId subject (with_json c (\<lambda>body. with_field body ''integrationId'' (\<lambda>integrationId.
       answer 200 (attachGitHubRepositoryToService (cWorlds c 0) (JObj [(''projectId'', projectId), (''serviceId'', serviceId),
         (''integrationId'', integrationId), (''repoUrl'', jor (jget body ''repoUrl'') (jget body ''repository'')),
         (''branch'', jor (jget body ''branch'') (JStr ''main'')), (''actorUserId'', jget subject ''id'')]))))))))"

definition get_installation_repositories :: "api_call \<Rightarrow> string \<Rightarrow> response op" where
  "get_installation_repositories c a = with_subject c ''project:read'' (\<lambda>subject. with_arg a (\<lambda>installationId.
     answer 200 (listGitHubInstallationRepositories (JObj [(''installationId'', installationId),
       (''organizationId'', jget subject ''organizationId''), (''organizationIds'', jget subject ''organizationIds'')]))))"

definition webhook_input :: "http_request \<Rightarrow> string \<Rightarrow> jsv \<Rightarrow> jsv" where
  "webhook_input r body payload = JObj [(''event'', jget (reqHeaders r) ''x-github-event''),
     (''deliveryId'', jget (reqHeaders r) ''x-github-delivery''), (''signature'', jget (reqHeaders r) ''x-hub-signature-256''),
     (''body'', JStr body), (''payload'', payload)]"

definition post_github_webhooks :: "api_call \<Rightarrow> response op" where
  "post_github_webhooks c = sbind (slift (readRaw (call_env c) (cReq c))) (\<lambda>body.
     sbind (slift (if str_trim body = [] then Inr (JObj []) else parse_body (cParse c) body)) (\<lambda>payload.
     answer 202 (handleGitHubWebhook (cWorlds c 0) (webhook_input (cReq c) body payload))))"

definition post_repository_import :: "api_call \<Rightarrow> response op" where
  "post_repository_import c = with_subject c ''deploy:run'' (\<lambda>subject. with_json c (\<lambda>body.
     with_field body ''projectId'' (\<lambda>projectId. in_project projectId subject
       (answer 201 (importGitHubRepository (cWorlds c 0) (jwith body [(''actorUserId'', jget subject ''id'')]))))))"

definition post_repository_sync :: "api_call \<Rightarrow> string \<Rightarrow> response op" where
  "post_repository_sync c a = with_subject c ''deploy:run'' (\<lambda>subject. with_json c (\<lambda>body. with_arg a (\<lambda>repositoryId.
     answer 202 (syncGitHubRepository (cWorlds c 0) (jwith body [(''repositoryId'', repositoryId),
       (''actorUserId'', jget subject ''id''), (''organizationId'', jget subject ''organizationId''),
       (''organizationIds'', jget subject ''organizationIds'')])))))"

end
