(* ===== verification/StoreTenants.thy ===== *)
theory StoreTenants
  imports DeploymentWorkflow
begin

text \<open>
  Which store operations leave the accounts alone, and which can make a project disappear: a frame for
  the guarantees of the request handlers.
\<close>

definition users_same :: "store \<Rightarrow> store \<Rightarrow> bool" where
  "users_same s s' = (users s' = users s)"

definition projects_stay :: "store \<Rightarrow> store \<Rightarrow> bool" where
  "projects_stay s s' = (\<forall>p. truthy (mget (projects s) p) \<longrightarrow> truthy (mget (projects s') p))"

definition tenants_stay :: "store \<Rightarrow> store \<Rightarrow> bool" where
  "tenants_stay s s' = (users_same s s' \<and> projects_stay s s')"

interpretation accounts: store_relation users_same
  by unfold_locales (auto simp: users_same_def)

interpretation standing: store_relation projects_stay
  by unfold_locales (auto simp: projects_stay_def)

interpretation tenants: store_relation tenants_stay
  by unfold_locales (auto simp: tenants_stay_def users_same_def projects_stay_def)

lemma stays_refl [simp]: "users_same s s" "projects_stay s s"
  by (simp_all add: users_same_def projects_stay_def)

lemma tenants_parts: "keeps tenants_stay m \<Longrightarrow> keeps users_same m" "keeps tenants_stay m \<Longrightarrow> keeps projects_stay m"
  by (simp_all add: keeps_def tenants_stay_def)

lemma tenants_frame: "(\<And>s. users (g s) = users s) \<Longrightarrow> (\<And>s. projects (g s) = projects s) \<Longrightarrow> keeps tenants_stay (smod g)"
  by (rule keeps_smod) (simp add: tenants_stay_def users_same_def projects_stay_def)

lemma tenants_project: "truthy row \<Longrightarrow> keeps tenants_stay (smod (projects_update (mput k row)))"
  by (rule keeps_smod) (simp add: tenants_stay_def users_same_def projects_stay_def)

lemma tenants_audit: "keeps tenants_stay (audit w a act tt ti meta)"
  unfolding audit_def by (rule tenants_frame) simp_all

lemma truthy_jwith [simp]: "truthy (jwith v kvs)"
  by (simp add: jwith_def jspread_def)

lemmas tenants_intros = tenants.keeps_intros tenants_audit tenants_project tenants_frame

lemma tenants_base:
  "keeps tenants_stay (createOrganization w x)" "keeps tenants_stay (findOrganizationBySlug x)"
  "keeps tenants_stay (findUserByEmail x)" "keeps tenants_stay (findUserByGitHubId x)"
  "keeps tenants_stay (addMember w x)" "keeps tenants_stay (listMembershipsForUser x)"
  "keeps tenants_stay (createProject w x)" "keeps tenants_stay (getProject x)" "keeps tenants_stay (updateProject w x y)"
  "keeps tenants_stay (createService w x)" "keeps tenants_stay (getService x)" "keeps tenants_stay (updateService w x y)"
  unfolding createOrganization_def findOrganizationBySlug_def findUserByEmail_def
    findUserByGitHubId_def addMember_def listMembershipsForUser_def createProject_def getProject_def
    updateProject_def createService_def getService_def updateService_def
  by (intro tenants_intros; simp)+

lemma tenants_attach_each: "keeps tenants_stay (createSecret w x)" "keeps tenants_stay (attach_each w mk f0 es)"
proof -
  show s: "keeps tenants_stay (createSecret w x)" for x
    unfolding createSecret_def by (intro tenants_intros; simp)
  show "keeps tenants_stay (attach_each w mk f0 es)"
    by (induction es arbitrary: f0) (auto intro!: tenants_intros s)
qed

lemma tenants_connections:
  "keeps tenants_stay (attachProviderConnectionSecrets w x)" "keeps tenants_stay (getSecretValue w i)"
  unfolding attachProviderConnectionSecrets_def getSecretValue_def
  by (intro tenants_intros tenants_attach_each; simp)+

lemma tenants_connection: "keeps tenants_stay (attachProviderConnectionSecret w x)"
  unfolding attachProviderConnectionSecret_def
  by (intro tenants_intros tenants_connections)

lemma tenants_upsert_each: "keeps tenants_stay (upsert_each w p s a src env es)"
  by (induction es arbitrary: env) (auto intro!: tenants_intros tenants_attach_each simp: Let_def)

lemma tenants_environment:
  "keeps tenants_stay (upsertServiceEnvironment w x)" "keeps tenants_stay (listServiceEnvironment x)"
  unfolding upsertServiceEnvironment_def listServiceEnvironment_def service_of_project_def
  by (intro tenants_intros tenants_upsert_each tenants_base; simp)+

lemma tenants_reads: "keeps tenants_stay (resource_env w r)" "keeps tenants_stay (resourceForConsole w r)" "keeps tenants_stay (attach_env w r p)"
proof -
  show "keeps tenants_stay (resource_env w r)" by (simp add: resource_env_def keeps_def tenants_stay_def)
  show c: "keeps tenants_stay (resourceForConsole w r)"
    unfolding resourceForConsole_def by (intro tenants_intros)
  show "keeps tenants_stay (attach_env w r p)"
    unfolding attach_env_def by (intro tenants_intros c) (simp add: keeps_def tenants_stay_def)
qed

lemma tenants_resources:
  "keeps tenants_stay (createResource w x)" "keeps tenants_stay (getResource x)" "keeps tenants_stay (updateResource w i x)"
  unfolding createResource_def getResource_def updateResource_def attach_contract_def
  by (intro tenants_intros tenants_connections tenants_reads; simp)+

lemma tenants_attach: "keeps tenants_stay (attachResource w x)"
  unfolding attachResource_def put_attachment_def
  by (intro tenants_intros tenants_environment tenants_reads; simp)

lemma tenants_remove: "keeps tenants_stay (remove_keys s r env ks)"
  by (induction ks arbitrary: env) (auto intro!: tenants_intros simp: Let_def)

lemma tenants_deletes: "keeps tenants_stay (deleteResource w x)" "keeps tenants_stay (deleteService w x)"
  unfolding deleteResource_def deleteService_def removeResourceInjectedEnvironment_def
  by (intro tenants_intros tenants_remove; simp)+

lemma tenants_provision: "keeps tenants_stay (storeProvisionResourceProvider w x)"
  unfolding storeProvisionResourceProvider_def
  by (intro tenants_intros tenants_connections tenants_reads; simp add: keeps_def tenants_stay_def)

lemma tenants_logs:
  "keeps tenants_stay (appendBuildLog w x)" "keeps tenants_stay (appendRuntimeLog w x)"
  "keeps tenants_stay (appendDeploymentEvent w x)" "keeps tenants_stay (listDeploymentLogs x)"
  "keeps tenants_stay (listRuntimeLogs x)" "keeps tenants_stay (listDeploymentEvents x)"
  unfolding appendBuildLog_def appendRuntimeLog_def appendDeploymentEvent_def listDeploymentLogs_def
    listRuntimeLogs_def listDeploymentEvents_def
  by (intro tenants_intros; simp)+

lemma tenants_jobs: "keeps tenants_stay (enqueueWorkflowJob w x)"
  unfolding enqueueWorkflowJob_def by (intro tenants_intros; simp)

lemma tenants_deployment_updates:
  "keeps tenants_stay (createDeployment w x)" "keeps tenants_stay (getDeployment x)" "keeps tenants_stay (updateDeployment w x y z)"
  unfolding createDeployment_def getDeployment_def updateDeployment_def
  by (intro tenants_intros tenants_logs; simp)+

lemma tenants_deployments:
  "keeps tenants_stay (transitionDeployment w x y z u)" "keeps tenants_stay (rollbackDeployment w x y)"
  unfolding transitionDeployment_def rollbackDeployment_def
  by (intro tenants_intros tenants_logs tenants_jobs tenants_deployment_updates; simp)+

lemma tenants_cancel: "keeps tenants_stay (cancelDeployment w x y)"
  unfolding cancelDeployment_def
  by (intro tenants_intros tenants_jobs tenants_deployments; simp)

lemma tenants_lookup:
  "keeps tenants_stay (githubRepositoriesForIntegration x)" "keeps tenants_stay (servicesForGitHubRepository x y)"
  "keeps tenants_stay (find_integration x y)" "keeps tenants_stay (service_of_project x y)" "keeps tenants_stay (listGitHubIntegrations x)"
  unfolding githubRepositoriesForIntegration_def servicesForGitHubRepository_def find_integration_def
    service_of_project_def listGitHubIntegrations_def
  by (intro tenants_intros)+

lemma tenants_github:
  "keeps tenants_stay (createGitHubIntegration w x)" "keeps tenants_stay (attachGitHubRepositoryToService w x)"
  "keeps tenants_stay (listGitHubInstallations x)" "keeps tenants_stay (listGitHubInstallationRepositories x)"
  "keeps tenants_stay (importGitHubRepository w x)" "keeps tenants_stay (syncGitHubRepository w x)"
  unfolding createGitHubIntegration_def attachGitHubRepositoryToService_def listGitHubInstallations_def
    listGitHubInstallationRepositories_def importGitHubRepository_def syncGitHubRepository_def
  by (intro tenants_intros tenants_lookup tenants_base tenants_attach_each tenants_jobs; simp)+

lemma tenants_cleanup: "keeps tenants_stay (request_cleanup w p s i d)"
  unfolding request_cleanup_def by (intro tenants_intros tenants_logs; simp)

lemma tenants_actions: "keeps tenants_stay (webhook_actions w p s)"
  unfolding webhook_actions_def one_action_def production_deploy_def preview_deploy_def preview_cleanup_def owner_of_def
  by (intro tenants_intros tenants_cleanup tenants_logs tenants_jobs tenants_deployment_updates; simp)

lemma tenants_webhook: "keeps tenants_stay (handleGitHubWebhook w x)"
  unfolding handleGitHubWebhook_def accept_webhook_def
  by (intro tenants_intros tenants_actions tenants_lookup; simp)

lemma tenants_quota:
  "keeps tenants_stay (attachDomain w x)" "keeps tenants_stay (recordUsage w x)" "keeps tenants_stay (setQuota w x)"
  "keeps tenants_stay (check_metric w u a m i q)"
  unfolding attachDomain_def recordUsage_def setQuota_def check_metric_def block_def
  by (intro tenants_intros; simp)+

lemma tenants_enforce: "keeps tenants_stay (enforceUserCan w x)"
  unfolding enforceUserCan_def block_def by (intro tenants_intros tenants_quota; simp)

lemma tenants_console_run: "keeps tenants_stay (console_run run w i)"
  unfolding console_run_def by (intro tenants_intros tenants_reads)

lemma tenants_console:
  "keeps tenants_stay (runResourceConsoleQuery d w i q x)" "keeps tenants_stay (runResourceConsoleCommand d w i q x)"
  "keeps tenants_stay (browseResourceConsole d w i x)" "keeps tenants_stay (storeConsoleView d w i v x)"
  unfolding runResourceConsoleQuery_def runResourceConsoleCommand_def browseResourceConsole_def storeConsoleView_def
  by (intro tenants_intros tenants_console_run)+

section \<open>The operations on accounts, and the deletion of a project\<close>

lemma standing_users: "keeps projects_stay (smod (users_update f))"
  by (rule keeps_smod) (simp add: projects_stay_def)

lemmas standing_intros = standing.keeps_intros standing_users tenants_audit[THEN tenants_parts(2)]
  tenants_quota[THEN tenants_parts(2)]

lemma standing_accounts:
  "keeps projects_stay (createUser w x)" "keeps projects_stay (approveUser w i x)" "keeps projects_stay (rejectUser w i x)"
  unfolding createUser_def approveUser_def rejectUser_def by (intro standing_intros)+

lemma accounts_delete_project: "keeps users_same (deleteProject w i)"
  unfolding deleteProject_def
  by (intro accounts.keeps_intros tenants_deletes[THEN tenants_parts(1)] tenants_audit[THEN tenants_parts(1)] keeps_smod)
    (simp add: users_same_def)

text \<open>A deletion removes no other project.\<close>

definition others_stay :: "jsv \<Rightarrow> store \<Rightarrow> store \<Rightarrow> bool" where
  "others_stay i s s' = (\<forall>p. p \<noteq> i \<longrightarrow> truthy (mget (projects s) p) \<longrightarrow> truthy (mget (projects s') p))"

interpretation others: store_relation "others_stay i" for i
  by unfold_locales (auto simp: others_stay_def)

lemma others_tenants: "keeps tenants_stay m \<Longrightarrow> keeps (others_stay i) m"
  by (simp add: keeps_def tenants_stay_def projects_stay_def others_stay_def)

lemma others_delete_project: "keeps (others_stay i) (deleteProject w i)"
  unfolding deleteProject_def
  by (intro others.keeps_intros tenants_deletes[THEN others_tenants] tenants_audit[THEN others_tenants] keeps_smod)
    (simp add: others_stay_def)

end
