(* ===== verification/Api.thy ===== *)
theory Api
  imports ApiPlans ApiRoutes StoreTenants
begin

text \<open>
  The request handler of \<open>api.ts\<close>: the table of its routes in the order of the code, the dispatch of a
  request, and the replies to errors. Then what any request can do to the store: only what the
  operations of the store do, nothing without a subject, and neither remove a project nor change an
  account without the right to it.
\<close>

section \<open>Routes\<close>

text \<open>\<open>:id\<close> stands for the group \<open>([^/]+)\<close> and \<open>a|b\<close> for \<open>(a|b)\<close> of the expressions that match the path.\<close>

datatype path_part = Literal string | Anything | OneOf "string list"

definition pattern_part :: "string \<Rightarrow> path_part" where
  "pattern_part w = (if starts_with w '':'' then Anything
     else if CHR ''|'' \<in> set w then OneOf (str_split CHR ''|'' w) else Literal w)"

fun match_path :: "path_part list \<Rightarrow> string list \<Rightarrow> string list option" where
  "match_path [] [] = Some []"
| "match_path (Literal w # ps) (x # xs) = (if x = w then match_path ps xs else None)"
| "match_path (Anything # ps) (x # xs) = (if x = [] then None else map_option (Cons x) (match_path ps xs))"
| "match_path (OneOf ws # ps) (x # xs) = (if x \<in> set ws then map_option (Cons x) (match_path ps xs) else None)"
| "match_path _ _ = None"

definition pattern_of :: "string \<Rightarrow> path_part list" where
  "pattern_of pat = map pattern_part (str_split CHR ''/'' pat)"

datatype request_handler =
  Plain "api_call \<Rightarrow> response op"
| One "api_call \<Rightarrow> string \<Rightarrow> response op"
| Two "api_call \<Rightarrow> string \<Rightarrow> string \<Rightarrow> response op"
| Limited "api_call \<Rightarrow> response limited"

type_synonym route = "string list \<times> string \<times> request_handler"

definition ACCOUNT_ROUTES :: "route list" where
  "ACCOUNT_ROUTES = [
     ([''GET''], ''/health'', Plain get_health), ([''GET''], ''/catalog'', Plain get_catalog),
     ([''GET''], ''/config/runtime'', Plain get_runtime_config), ([''POST''], ''/auth/signup'', Limited post_signup),
     ([''POST''], ''/auth/login'', Limited post_login), ([''GET''], ''/auth/github/login'', Plain get_github_login),
     ([''GET''], ''/auth/github/callback'', Plain get_github_callback), ([''GET''], ''/auth/me'', Plain get_me),
     ([''POST''], ''/auth/logout'', Plain post_logout),
     ([''POST''], ''/auth/dev-token'', Plain (\<lambda>c. post_dev_token c ''/auth/dev-token'')),
     ([''GET''], ''/snapshot'', Plain get_snapshot)]"

definition PLAN_ROUTES :: "route list" where
  "PLAN_ROUTES = [
     ([''POST''], ''/plan/build'', Plain post_plan_build), ([''POST''], ''/plan/source'', Plain post_plan_source),
     ([''POST''], ''/plan/build-execution'', Plain post_plan_build_execution),
     ([''POST''], ''/plan/registry-push'', Plain post_plan_registry_push),
     ([''POST''], ''/plan/kubernetes-apply'', Plain post_plan_kubernetes_apply),
     ([''POST''], ''/plan/provisioning'', Plain post_plan_provisioning), ([''POST''], ''/plan/compose'', Plain post_plan_compose),
     ([''POST''], ''/plan/manifests'', Plain post_plan_manifests), ([''POST''], ''/validate'', Plain post_validate),
     ([''POST''], ''/guard/query'', Plain post_guard_query)]"

definition PROJECT_ROUTES :: "route list" where
  "PROJECT_ROUTES = [
     ([''GET''], ''/organizations'', Plain get_organizations), ([''POST''], ''/organizations'', Plain post_organizations),
     ([''GET''], ''/organizations/:id/projects'', One get_organization_projects),
     ([''POST''], ''/organizations/:id/projects'', One post_organization_projects),
     ([''GET''], ''/projects'', Plain get_projects), ([''POST''], ''/projects'', Plain post_projects),
     ([''GET''], ''/projects/:id'', One get_project), ([''PATCH''], ''/projects/:id'', One patch_project),
     ([''DELETE''], ''/projects/:id'', One delete_project),
     ([''GET''], ''/projects/:id/services'', One get_project_services),
     ([''POST''], ''/projects/:id/services'', One post_project_services), ([''POST''], ''/services'', Plain post_services),
     ([''GET''], ''/services/:id'', One get_service), ([''PATCH''], ''/services/:id'', One patch_service),
     ([''DELETE''], ''/services/:id'', One delete_service)]"

definition RESOURCE_ROUTES :: "route list" where
  "RESOURCE_ROUTES = [
     ([''GET''], ''/projects/:id/resources'', One get_project_resources),
     ([''POST''], ''/projects/:id/resources'', One post_project_resources), ([''POST''], ''/resources'', Plain post_resources),
     ([''GET''], ''/resources/:id'', One get_resource), ([''PATCH''], ''/resources/:id'', One patch_resource),
     ([''DELETE''], ''/resources/:id'', One delete_resource),
     ([''POST''], ''/resources/:id/provision'', One post_resource_provision),
     ([''POST''], ''/resources/:id/attach'', One post_resource_attach)]"

definition DEPLOYMENT_ROUTES :: "route list" where
  "DEPLOYMENT_ROUTES = [
     ([''POST''], ''/services/:id/deployments'', One post_service_deployments),
     ([''POST''], ''/projects/:id/services/:service/deployments'', Two post_project_service_deployments),
     ([''GET''], ''/deployments/:id'', One get_deployment),
     ([''PATCH'', ''POST''], ''/deployments/:id/status'', One post_deployment_status),
     ([''POST''], ''/deployments/:id/cancel|rollback'', Two post_deployment_action),
     ([''GET''], ''/deployments/:id/logs|events'', Two get_deployment_logs),
     ([''GET''], ''/deployments/:id/stream'', One get_deployment_stream),
     ([''GET''], ''/services/:id/logs'', One get_service_logs),
     ([''GET''], ''/services/:id/logs/stream'', One get_service_logs_stream)]"

definition CONSOLE_ROUTES :: "route list" where
  "CONSOLE_ROUTES = [
     ([''GET''], ''/resources/:id/console/tables/:table'', Two get_console_table),
     ([''GET''], ''/resources/:id/console/schema|tables|collections|keys'', Two get_console_view),
     ([''POST''], ''/resources/:id/console/query|browse|command'', Two post_console),
     ([''POST''], ''/admin/users/:id/approve|reject'', Two post_user_decision),
     ([''PATCH'', ''POST''], ''/admin/users/:id/quota'', One post_user_quota), ([''GET''], ''/usage/me'', Plain get_usage),
     ([''GET''], ''/projects/:id/services/:service/env'', Two get_env),
     ([''POST''], ''/projects/:id/services/:service/env'', Two post_env),
     ([''POST''], ''/projects/:id/services/:service/env-file'', Two post_env_file)]"

definition GITHUB_ROUTES :: "route list" where
  "GITHUB_ROUTES = [
     ([''POST''], ''/integrations/github'', Plain post_github_integration),
     ([''GET''], ''/integrations/github'', Plain get_github_integrations),
     ([''GET''], ''/github/installations'', Plain get_github_installations),
     ([''POST''], ''/projects/:id/services/:service/github'', Two post_service_github),
     ([''GET''], ''/github/installations/:id/repositories'', One get_installation_repositories),
     ([''POST''], ''/github/webhooks'', Plain post_github_webhooks),
     ([''POST''], ''/github/repositories/import'', Plain post_repository_import),
     ([''POST''], ''/github/repositories/:id/sync'', One post_repository_sync)]"

definition ROUTES :: "route list" where
  "ROUTES = ACCOUNT_ROUTES @ PLAN_ROUTES @ PROJECT_ROUTES @ RESOURCE_ROUTES @ DEPLOYMENT_ROUTES @ CONSOLE_ROUTES @ GITHUB_ROUTES"

fun find_route :: "string \<Rightarrow> string \<Rightarrow> route list \<Rightarrow> (request_handler \<times> string list) option" where
  "find_route request_method path [] = None"
| "find_route request_method path ((ms, pat, h) # rs) = (case match_path (pattern_of pat) (str_split CHR ''/'' path) of
     Some args \<Rightarrow> if request_method \<in> set ms then Some (h, args) else find_route request_method path rs
   | None \<Rightarrow> find_route request_method path rs)"

section \<open>Requests\<close>

definition lift_store :: "response op \<Rightarrow> response limited" where
  "lift_store m st = (case st of (s, l) \<Rightarrow> (case m s of (r, s') \<Rightarrow> (r, (s', l))))"

definition run_handler :: "request_handler \<Rightarrow> api_call \<Rightarrow> string list \<Rightarrow> response limited" where
  "run_handler h c args = (case h of Plain f \<Rightarrow> lift_store (f c) | One f \<Rightarrow> lift_store (f c (args ! 0))
     | Two f \<Rightarrow> lift_store (f c (args ! 0) (args ! 1)) | Limited f \<Rightarrow> f c)"

definition call_method :: "api_call \<Rightarrow> string" where
  "call_method c = (if reqMethod (cReq c) = [] then ''GET'' else reqMethod (cReq c))"

definition call_path :: "api_call \<Rightarrow> string" where
  "call_path c = (case reqParts (cReq c) of Inl m \<Rightarrow> [] | Inr (path, _) \<Rightarrow> path)"

definition answer_request :: "api_call \<Rightarrow> response limited" where
  "answer_request c st = (case reqParts (cReq c) of
     Inl m \<Rightarrow> (js_throw m, st)
   | Inr (path, query) \<Rightarrow> (case find_route (call_method c) path ROUTES of
       Some (h, args) \<Rightarrow> run_handler h c args st
     | None \<Rightarrow> (Inr (Send 404 (JObj [(''error'', JStr ''not_found''), (''path'', JStr path)])), st)))"

definition error_response :: "js_error \<Rightarrow> response" where
  "error_response e = Send (case statusCode e of Some code \<Rightarrow> if code = 0 then 500 else code | None \<Rightarrow> 500)
     (error_body (if message e = [] then ''internal_error'' else message e))"

definition finish_request :: "response res \<times> 's \<Rightarrow> response \<times> 's" where
  "finish_request out = (case out of (Inl e, st') \<Rightarrow> (error_response e, st') | (Inr r, st') \<Rightarrow> (r, st'))"

definition handle_request :: "api_call \<Rightarrow> store \<times> rate_limiter \<Rightarrow> response \<times> (store \<times> rate_limiter)" where
  "handle_request c st = finish_request (answer_request c st)"

definition limited_keeps :: "(store \<Rightarrow> store \<Rightarrow> bool) \<Rightarrow> response limited \<Rightarrow> bool" where
  "limited_keeps R f = (\<forall>s l. R s (fst (snd (f (s, l)))))"

text \<open>\<open>P\<close> of the operation of a handler, \<open>Q\<close> of one behind the limiter, whatever the arguments\<close>

definition each_op :: "(response op \<Rightarrow> bool) \<Rightarrow> (response limited \<Rightarrow> bool) \<Rightarrow> api_call \<Rightarrow> request_handler \<Rightarrow> bool" where
  "each_op P Q c h = (case h of Plain f \<Rightarrow> P (f c) | One f \<Rightarrow> \<forall>a. P (f c a) | Two f \<Rightarrow> \<forall>a b. P (f c a b) | Limited f \<Rightarrow> Q (f c))"

lemma each_op_intros:
  "P (p c) \<Longrightarrow> each_op P Q c (Plain p)" "(\<And>a. P (o1 c a)) \<Longrightarrow> each_op P Q c (One o1)"
  "(\<And>a b. P (o2 c a b)) \<Longrightarrow> each_op P Q c (Two o2)" "Q (lm c) \<Longrightarrow> each_op P Q c (Limited lm)"
  by (simp_all add: each_op_def)

lemma each_op_mono:
  "each_op P Q c h \<Longrightarrow> (\<And>m. P m \<Longrightarrow> P' m) \<Longrightarrow> (\<And>f. Q f \<Longrightarrow> Q' f) \<Longrightarrow> each_op P' Q' c h"
  by (cases h) (simp_all add: each_op_def)

lemma run_each:
  assumes "each_op (keeps R) (limited_keeps R) c h"
  shows "R s (fst (snd (run_handler h c args (s, l))))"
  using assms
  by (cases h) (simp_all add: each_op_def keeps_def limited_keeps_def run_handler_def lift_store_def split_beta)

lemma find_route_mem:
  "find_route m path rs = Some (h, args) \<Longrightarrow> \<exists>ms pat. (ms, pat, h) \<in> set rs \<and> m \<in> set ms \<and>
     match_path (pattern_of pat) (str_split CHR ''/'' path) = Some args"
proof (induction rs)
  case (Cons r rs)
  obtain ms pat h' where r: "r = (ms, pat, h')" by (cases r)
  show ?case
  proof (cases "match_path (pattern_of pat) (str_split CHR ''/'' path) = Some args \<and> m \<in> set ms \<and> h = h'")
    case True
    then show ?thesis by (intro exI[of _ ms] exI[of _ pat]) (simp add: r)
  next
    case False
    then have "find_route m path rs = Some (h, args)" using Cons.prems by (auto simp: r split: option.splits if_splits)
    from Cons.IH[OF this] show ?thesis by (metis list.set_intros(2))
  qed
qed simp

lemma finish_state [simp]: "snd (finish_request out) = snd out"
  by (simp add: finish_request_def split: prod.split sum.split)

text \<open>A request is answered without the store, or by the handler of a route that matches it.\<close>

lemma handled_by:
  "(\<exists>r. \<forall>st. handle_request c st = (r, st)) \<or> (\<exists>ms pat h args. (ms, pat, h) \<in> set ROUTES \<and> call_method c \<in> set ms \<and>
     match_path (pattern_of pat) (str_split CHR ''/'' (call_path c)) = Some args \<and>
     (\<forall>st. handle_request c st = finish_request (run_handler h c args st)))"
proof (cases "reqParts (cReq c)")
  case (Inl m)
  then show ?thesis
    by (intro disjI1 exI[of _ "fst (finish_request (js_throw m, ()))"])
      (simp add: handle_request_def answer_request_def finish_request_def js_throw_def)
next
  case (Inr parts)
  obtain path query where parts: "parts = (path, query)" by (cases parts)
  show ?thesis
  proof (cases "find_route (call_method c) path ROUTES")
    case None
    then show ?thesis
      by (intro disjI1 exI[of _ "Send 404 (JObj [(''error'', JStr ''not_found''), (''path'', JStr path)])"])
        (simp add: handle_request_def answer_request_def finish_request_def Inr parts)
  next
    case (Some found_route)
    obtain h args where h: "found_route = (h, args)" by (cases found_route)
    have "\<forall>st. handle_request c st = finish_request (run_handler h c args st)"
      by (simp add: handle_request_def answer_request_def Inr parts Some h)
    moreover have "call_path c = path" by (simp add: call_path_def Inr parts)
    ultimately show ?thesis using find_route_mem[OF Some[unfolded h]] by metis
  qed
qed

text \<open>What the handlers of all routes keep is kept by a request.\<close>

lemma request_keeps:
  assumes "list_all (\<lambda>(ms, pat, h). each_op (keeps R) (limited_keeps R) c h \<or> E ms pat h) ROUTES" "\<And>s. R s s"
    and "\<And>ms pat h args. E ms pat h \<Longrightarrow> call_method c \<in> set ms \<Longrightarrow>
      match_path (pattern_of pat) (str_split CHR ''/'' (call_path c)) = Some args \<Longrightarrow>
      R s (fst (snd (run_handler h c args (s, l))))"
  shows "R s (fst (snd (handle_request c (s, l))))"
  using handled_by[of c]
proof (elim disjE exE conjE)
  fix ms pat h args
  assume "(ms, pat, h) \<in> set ROUTES" and m: "call_method c \<in> set ms"
    "match_path (pattern_of pat) (str_split CHR ''/'' (call_path c)) = Some args"
    and h: "\<forall>st. handle_request c st = finish_request (run_handler h c args st)"
  then have "each_op (keeps R) (limited_keeps R) c h \<or> E ms pat h" using assms(1) by (fastforce simp: list_all_iff)
  then show ?thesis using run_each assms(3)[OF _ m] h by auto
qed (simp add: assms(2))

section \<open>Requests as store operations\<close>

text \<open>A relation kept by the operations the handlers use, those on accounts and the deletion of a project apart\<close>

locale api_relation = store_relation +
  assumes tenancy: "keeps R (createOrganization w x)" "keeps R (createProject w x)" "keeps R (updateProject w i x)"
      "keeps R (createService w x)" "keeps R (updateService w i x)" "keeps R (deleteService w i)"
    and resource_ops: "keeps R (createResource w x)" "keeps R (updateResource w i x)" "keeps R (deleteResource w i)"
      "keeps R (storeProvisionResourceProvider w x)" "keeps R (attachResource w x)"
    and deployment_ops: "keeps R (createDeployment w x)" "keeps R (updateDeployment w i x y)"
      "keeps R (transitionDeployment w i x y z)" "keeps R (cancelDeployment w i x)" "keeps R (rollbackDeployment w i x)"
      "keeps R (enqueueWorkflowJob w x)"
    and account_ops: "keeps R (addMember w x)" "keeps R (setQuota w x)" "keeps R (enforceUserCan w x)"
    and console_ops: "keeps R (runResourceConsoleQuery d w i x y)" "keeps R (runResourceConsoleCommand d w i x y)"
    and environment_ops: "keeps R (upsertServiceEnvironment w x)"
    and github_ops: "keeps R (createGitHubIntegration w x)" "keeps R (attachGitHubRepositoryToService w x)"
      "keeps R (importGitHubRepository w x)" "keeps R (syncGitHubRepository w x)" "keeps R (handleGitHubWebhook w x)"
begin

lemmas api_ops = tenancy resource_ops deployment_ops account_ops console_ops environment_ops github_ops

lemma keeps_snapshot: "keeps R snapshot"
  by (simp add: keeps_def snapshot_def refl)

lemma keeps_console_run: "keeps R (console_run run w i)"
  unfolding console_run_def resourceForConsole_def by (intro keeps_intros)

lemma keeps_reads:
  "keeps R (getService i)" "keeps R (getResource i)" "keeps R (getDeployment i)" "keeps R (findUserByEmail x)"
  "keeps R (findOrganizationBySlug x)" "keeps R (listMembershipsForUser x)" "keeps R (listDeploymentLogs x)"
  "keeps R (listDeploymentEvents x)" "keeps R (listRuntimeLogs x)" "keeps R (rows_where rows P)"
  "keeps R (browseResourceConsole d w i x)" "keeps R (storeConsoleView d w i v x)" "keeps R (listServiceEnvironment x)"
  "keeps R (listGitHubIntegrations x)" "keeps R (listGitHubInstallations x)" "keeps R (listGitHubInstallationRepositories x)"
  unfolding getService_def getResource_def getDeployment_def findUserByEmail_def findOrganizationBySlug_def
    listMembershipsForUser_def listDeploymentLogs_def listDeploymentEvents_def listRuntimeLogs_def rows_where_def
    browseResourceConsole_def storeConsoleView_def listServiceEnvironment_def service_of_project_def
    listGitHubIntegrations_def listGitHubInstallations_def listGitHubInstallationRepositories_def
    githubRepositoriesForIntegration_def
  by (intro keeps_intros keeps_console_run)+

lemma keeps_access: "keeps R (assertProjectAccess i subject)" "keeps R (assertServiceAccess i j subject)"
  unfolding assertServiceAccess_def assertProjectAccess_def Let_def by (intro keeps_intros keeps_stry)+

lemma keeps_answers:
  "keeps R (reply n v)" "keeps R m \<Longrightarrow> keeps R (answer n m)" "keeps R ms \<Longrightarrow> keeps R (answer_with n k ms)"
  unfolding reply_def answer_def answer_with_def by (intro keeps_intros; simp)+

lemma keeps_givens:
  assumes "\<And>x. keeps R (f x)"
  shows "keeps R (with_subject c action f)" "keeps R (with_request c action scope f)" "keeps R (with_json c f)"
    "keeps R (with_field body k f)" "keeps R (with_arg raw f)" "keeps R m \<Longrightarrow> keeps R (with_row m e f)"
    "keeps R (stored_resource i subject f)" "keeps R (with_admin c f)"
  unfolding with_subject_def with_request_def with_json_def with_field_def with_arg_def with_row_def stored_resource_def
    with_admin_def in_project_def reply_def
  by (intro keeps_intros keeps_access assms; simp)+

lemma keeps_checks:
  assumes "keeps R m"
  shows "keeps R (in_project i subject m)" "keeps R (in_service i j subject m)" "keeps R (in_organization i subject m)"
    "keeps R (within_quota w subject action metric n m)"
  unfolding in_project_def in_service_def in_organization_def within_quota_def
  by (intro keeps_intros keeps_access api_ops assms)+

lemma keeps_rows:
  assumes "\<And>subject i row. keeps R (f subject i row)"
  shows "keeps R (with_service c action a f)" "keeps R (with_resource c action a f)" "keeps R (with_deployment c action a f)"
  unfolding with_service_def with_resource_def with_deployment_def
  by (intro keeps_givens keeps_checks keeps_reads assms)+

lemma keeps_deploy: "keeps R spec_of \<Longrightarrow> keeps R (deploy_service c subject body i j spec_of)"
  unfolding deploy_service_def Let_def
  by (cases "deployment_kind body = JStr ''preview''")
    (simp_all only: if_True if_False simp_thms, (intro keeps_checks keeps_intros keeps_answers api_ops; assumption?)+)

lemma keeps_planned: "keeps R (planned c plan)"
  unfolding planned_def by (intro keeps_givens keeps_answers keeps_intros)

lemmas keeps_handler = keeps_givens keeps_checks keeps_rows keeps_answers keeps_deploy keeps_planned keeps_reads keeps_access
  keeps_snapshot api_ops keeps_intros

lemma keeps_account_routes:
  "keeps R (get_health c)" "keeps R (get_catalog c)" "keeps R (get_runtime_config c)"
  "keeps R (get_github_login c)" "keeps R (get_github_callback c)" "keeps R (get_me c)"
  "keeps R (post_logout c)" "keeps R (post_dev_token c a)" "keeps R (get_snapshot c)"
  unfolding get_health_def get_catalog_def get_runtime_config_def get_github_login_def get_github_callback_def
    get_me_def post_logout_def post_dev_token_def get_snapshot_def Let_def
  by (intro keeps_handler; simp?)+

lemma keeps_plan_routes:
  "keeps R (post_plan_build c)" "keeps R (post_plan_source c)" "keeps R (post_plan_build_execution c)"
  "keeps R (post_plan_registry_push c)" "keeps R (post_plan_kubernetes_apply c)" "keeps R (post_plan_provisioning c)"
  "keeps R (post_plan_compose c)" "keeps R (post_plan_manifests c)" "keeps R (post_validate c)"
  "keeps R (post_guard_query c)"
  unfolding post_plan_build_def post_plan_source_def post_plan_build_execution_def post_plan_registry_push_def
    post_plan_kubernetes_apply_def post_plan_provisioning_def post_plan_compose_def post_plan_manifests_def
    post_validate_def post_guard_query_def Let_def
  by (intro keeps_handler; simp?)+

lemma keeps_project_routes:
  "keeps R (get_organizations c)" "keeps R (post_organizations c)" "keeps R (get_organization_projects c a)"
  "keeps R (post_organization_projects c a)" "keeps R (get_projects c)" "keeps R (post_projects c)"
  "keeps R (get_project c a)" "keeps R (patch_project c a)" "keeps R (get_project_services c a)"
  "keeps R (post_project_services c a)" "keeps R (post_services c)" "keeps R (get_service c a)"
  "keeps R (patch_service c a)" "keeps R (delete_service c a)"
  unfolding get_organizations_def post_organizations_def get_organization_projects_def post_organization_projects_def
    get_projects_def post_projects_def get_project_def patch_project_def get_project_services_def
    post_project_services_def post_services_def get_service_def patch_service_def delete_service_def Let_def
  by (intro keeps_handler; simp?)+

lemma keeps_resource_routes:
  "keeps R (get_project_resources c a)" "keeps R (post_project_resources c a)" "keeps R (post_resources c)"
  "keeps R (get_resource c a)" "keeps R (patch_resource c a)" "keeps R (delete_resource c a)"
  "keeps R (post_resource_provision c a)" "keeps R (post_resource_attach c a)"
  unfolding get_project_resources_def post_project_resources_def post_resources_def get_resource_def
    patch_resource_def delete_resource_def post_resource_provision_def post_resource_attach_def Let_def
  by (intro keeps_handler; simp?)+

lemma keeps_deployment_routes:
  "keeps R (post_service_deployments c a)" "keeps R (post_project_service_deployments c a b)" "keeps R (get_deployment c a)"
  "keeps R (post_deployment_status c a)" "keeps R (post_deployment_action c a b)" "keeps R (get_deployment_logs c a b)"
  "keeps R (get_deployment_stream c a)" "keeps R (get_service_logs c a)" "keeps R (get_service_logs_stream c a)"
  unfolding post_service_deployments_def post_project_service_deployments_def get_deployment_def
    post_deployment_status_def post_deployment_action_def get_deployment_logs_def get_deployment_stream_def
    get_service_logs_def get_service_logs_stream_def Let_def
  by (intro keeps_handler; simp?)+

lemma keeps_console_routes:
  "keeps R (get_console_table c a b)" "keeps R (get_console_view c a b)" "keeps R (post_console c a b)"
  "keeps R (post_user_quota c a)" "keeps R (get_usage c)" "keeps R (get_env c a b)"
  "keeps R (post_env c a b)" "keeps R (post_env_file c a b)"
  unfolding get_console_table_def get_console_view_def post_console_def post_user_quota_def get_usage_def get_env_def
    post_env_def post_env_file_def Let_def
  by (intro keeps_handler; simp?)+

lemma keeps_github_routes:
  "keeps R (post_github_integration c)" "keeps R (get_github_integrations c)" "keeps R (get_github_installations c)"
  "keeps R (post_service_github c a b)" "keeps R (get_installation_repositories c a)" "keeps R (post_github_webhooks c)"
  "keeps R (post_repository_import c)" "keeps R (post_repository_sync c a)"
  unfolding post_github_integration_def get_github_integrations_def get_github_installations_def
    post_service_github_def get_installation_repositories_def post_github_webhooks_def post_repository_import_def
    post_repository_sync_def Let_def
  by (intro keeps_handler; simp?)+

text \<open>The four that remain\<close>

lemma keeps_delete_route: "(\<And>w i. keeps R (deleteProject w i)) \<Longrightarrow> keeps R (delete_project c a)"
  unfolding delete_project_def by (intro keeps_handler)

lemmas route_rules = keeps_account_routes keeps_plan_routes keeps_project_routes keeps_resource_routes keeps_deployment_routes keeps_console_routes keeps_github_routes

lemma keeps_attempt: "(\<And>body email. limited_keeps R (f body email)) \<Longrightarrow> limited_keeps R (attempt c purpose f)"
  by (auto simp: limited_keeps_def attempt_def refl split: sum.split prod.split)

lemma keeps_signup: "(\<And>w x. keeps R (createUser w x)) \<Longrightarrow> limited_keeps R (post_signup c)"
  unfolding post_signup_def
proof (rule keeps_attempt)
  fix body email
  assume user: "\<And>w x. keeps R (createUser w x)"
  have "keeps R (signup_account c body email)"
    unfolding signup_account_def create_account_def by (intro keeps_handler user)
  then show "limited_keeps R (\<lambda>(s, l). case signup_account c body email s of (r, s') \<Rightarrow> (r, s', l))"
    by (auto simp: limited_keeps_def keeps_def split: prod.split) (metis snd_conv)
qed

lemma keeps_login: "(\<And>w i x. keeps R (approveUser w i x)) \<Longrightarrow> limited_keeps R (post_login c)"
  unfolding post_login_def
proof (rule keeps_attempt)
  fix body email
  assume user: "\<And>w i x. keeps R (approveUser w i x)"
  have "keeps R (login_account c body email)"
    unfolding login_account_def by (intro keeps_handler user)
  then show "limited_keeps R (\<lambda>(s, l). case login_account c body email s of
       (Inl e, s') \<Rightarrow> (Inl e, s', l) | (Inr (Inl r), s') \<Rightarrow> (Inr r, s', l)
     | (Inr (Inr (user, memberships)), s') \<Rightarrow> (login_reply c user memberships, s', rate_reset l (auth_key c ''login'' email)))"
    by (auto simp: limited_keeps_def keeps_def split: prod.split sum.split) (metis snd_conv)+
qed

lemma keeps_decision:
  "(\<And>w i x. keeps R (approveUser w i x)) \<Longrightarrow> (\<And>w i x. keeps R (rejectUser w i x)) \<Longrightarrow> keeps R (post_user_decision c a b)"
  unfolding post_user_decision_def by (intro keeps_handler)

lemmas account_rules = keeps_signup keeps_login keeps_decision keeps_delete_route

end

lemmas route_tables = ACCOUNT_ROUTES_def PLAN_ROUTES_def PROJECT_ROUTES_def RESOURCE_ROUTES_def DEPLOYMENT_ROUTES_def
  CONSOLE_ROUTES_def GITHUB_ROUTES_def

section \<open>Requests are histories of store operations\<close>

interpretation requests: api_relation evolves
  by unfold_locales (rule evolves.refl evolves_trans evolves_op store_step.intros; assumption?)+

lemma evolves_accounts:
  "keeps evolves (createUser w x)" "keeps evolves (approveUser w i x)" "keeps evolves (rejectUser w i x)"
  "keeps evolves (deleteProject w i)"
  by (rule evolves_op, rule store_step.intros)+

lemma evolves_routes: "list_all (\<lambda>(ms, pat, h). each_op (keeps evolves) (limited_keeps evolves) c h \<or> False) ROUTES"
  unfolding ROUTES_def route_tables append_Cons append_Nil list.pred_inject(2) case_prod_conv simp_thms
  by (intro conjI list.pred_inject(1) each_op_intros; (rule requests.route_rules | (rule requests.account_rules; rule evolves_accounts)))

text \<open>Whatever a request asks and whoever sends it, the store after it is reached from the store before it
  by operations of the store, errors included; so the invariants of reachable stores hold at every time.\<close>

theorem request_history: "evolves s (fst (snd (handle_request c (s, l))))"
  by (rule request_keeps[OF evolves_routes]) (auto intro: evolves.refl)

end
