(* ===== verification/ApiSafety.thy ===== *)
theory ApiSafety
  imports Api
begin

text \<open>
  The guarantees of the request handler: without a subject a request changes nothing and learns nothing
  from the store, apart from signing up, logging in and webhooks; only an administrator changes accounts
  otherwise; and only who may delete a project and has access to it makes it disappear.
\<close>

section \<open>Requests without a subject\<close>

definition constant_op :: "response op \<Rightarrow> bool" where
  "constant_op m = (\<exists>r. \<forall>s. m s = (r, s))"

definition shut :: "api_call \<Rightarrow> response op \<Rightarrow> bool" where
  "shut c m = (is_ok (call_subject c) \<or> constant_op m)"

definition harmless :: "api_call \<Rightarrow> response op \<Rightarrow> bool" where
  "harmless c m = (is_ok (call_subject c) \<or> (\<forall>s. snd (m s) = s))"

lemma shut_slift: "(\<And>x. shut c (f x)) \<Longrightarrow> shut c (sbind (slift r) f)"
  by (cases r) (auto simp: shut_def constant_op_def)

lemma shut_failed: "(\<not> is_ok (call_subject c) \<Longrightarrow> \<not> is_ok r) \<Longrightarrow> shut c (sbind (slift r) f)"
  by (cases r) (auto simp: shut_def constant_op_def)

lemma no_subject:
  assumes "\<not> is_ok (call_subject c)"
  shows "\<not> is_ok (authorizeAction c action)" "\<not> is_ok (authorized c action scope)"
  using assms by (cases "call_subject c"; simp add: authorizeAction_def authorized_def authorizeRequest_def call_subject_def)+

lemma shut_access: "shut c (with_subject c action f)" "shut c (with_request c action scope f)"
  "shut c (sbind (slift (call_subject c)) f)"
  unfolding with_subject_def with_request_def by (rule shut_failed; simp add: no_subject)+

lemma shut_givens:
  assumes "\<And>x. shut c (f x)"
  shows "shut c (with_json c f)" "shut c (with_field body k f)" "shut c (with_arg raw f)"
  unfolding with_json_def with_field_def with_arg_def by (rule shut_slift assms)+

lemma shut_reply: "shut c (reply n v)" "(b \<Longrightarrow> shut c m) \<Longrightarrow> (\<not> b \<Longrightarrow> shut c k) \<Longrightarrow> shut c (if b then m else k)"
  "(\<And>x. shut c (g x)) \<Longrightarrow> shut c (Let v g)"
  by (simp_all add: shut_def constant_op_def reply_def)

lemma shut_rows: "shut c (with_service c action a f1)" "shut c (with_resource c action a f1)" "shut c (with_deployment c action a f1)"
  "shut c (with_admin c f)" "shut c (planned c plan)"
  unfolding with_service_def with_resource_def with_deployment_def with_admin_def planned_def by (rule shut_access)+

lemmas shut_intros = shut_access shut_givens shut_rows shut_reply shut_slift

lemma shut_account_routes:
  "shut c (get_health c)" "shut c (get_catalog c)" "shut c (get_runtime_config c)"
  "shut c (get_github_login c)" "shut c (get_github_callback c)" "shut c (get_me c)"
  "shut c (post_logout c)" "shut c (post_dev_token c a)" "shut c (get_snapshot c)"
  unfolding get_health_def get_catalog_def get_runtime_config_def get_github_login_def get_github_callback_def
    get_me_def post_logout_def post_dev_token_def get_snapshot_def
  by (intro shut_intros)+

lemma shut_plan_routes:
  "shut c (post_plan_build c)" "shut c (post_plan_source c)" "shut c (post_plan_build_execution c)"
  "shut c (post_plan_registry_push c)" "shut c (post_plan_kubernetes_apply c)" "shut c (post_plan_provisioning c)"
  "shut c (post_plan_compose c)" "shut c (post_plan_manifests c)" "shut c (post_validate c)"
  "shut c (post_guard_query c)"
  unfolding post_plan_build_def post_plan_source_def post_plan_build_execution_def post_plan_registry_push_def
    post_plan_kubernetes_apply_def post_plan_provisioning_def post_plan_compose_def post_plan_manifests_def
    post_validate_def post_guard_query_def
  by (intro shut_intros)+

lemma shut_project_routes:
  "shut c (get_organizations c)" "shut c (post_organizations c)" "shut c (get_organization_projects c a)"
  "shut c (post_organization_projects c a)" "shut c (get_projects c)" "shut c (post_projects c)"
  "shut c (get_project c a)" "shut c (patch_project c a)" "shut c (delete_project c a)"
  "shut c (get_project_services c a)" "shut c (post_project_services c a)" "shut c (post_services c)"
  "shut c (get_service c a)" "shut c (patch_service c a)" "shut c (delete_service c a)"
  unfolding get_organizations_def post_organizations_def get_organization_projects_def post_organization_projects_def
    get_projects_def post_projects_def get_project_def patch_project_def delete_project_def get_project_services_def
    post_project_services_def post_services_def get_service_def patch_service_def delete_service_def
  by (intro shut_intros)+

lemma shut_resource_routes:
  "shut c (get_project_resources c a)" "shut c (post_project_resources c a)" "shut c (post_resources c)"
  "shut c (get_resource c a)" "shut c (patch_resource c a)" "shut c (delete_resource c a)"
  "shut c (post_resource_provision c a)" "shut c (post_resource_attach c a)"
  unfolding get_project_resources_def post_project_resources_def post_resources_def get_resource_def
    patch_resource_def delete_resource_def post_resource_provision_def post_resource_attach_def
  by (intro shut_intros)+

lemma shut_deployment_routes:
  "shut c (post_project_service_deployments c a b)" "shut c (get_deployment c a)" "shut c (post_deployment_status c a)"
  "shut c (post_deployment_action c a b)" "shut c (get_deployment_logs c a b)" "shut c (get_deployment_stream c a)"
  "shut c (get_service_logs c a)" "shut c (get_service_logs_stream c a)"
  unfolding post_project_service_deployments_def get_deployment_def post_deployment_status_def
    post_deployment_action_def get_deployment_logs_def get_deployment_stream_def get_service_logs_def
    get_service_logs_stream_def
  by (intro shut_intros)+

lemma shut_console_routes:
  "shut c (get_console_table c a b)" "shut c (get_console_view c a b)" "shut c (post_console c a b)"
  "shut c (post_user_decision c a b)" "shut c (post_user_quota c a)" "shut c (get_usage c)"
  "shut c (get_env c a b)" "shut c (post_env c a b)" "shut c (post_env_file c a b)"
  unfolding get_console_table_def get_console_view_def post_console_def post_user_decision_def post_user_quota_def
    get_usage_def get_env_def post_env_def post_env_file_def
  by (intro shut_intros)+

lemma shut_github_routes:
  "shut c (post_github_integration c)" "shut c (get_github_integrations c)" "shut c (get_github_installations c)"
  "shut c (post_service_github c a b)" "shut c (get_installation_repositories c a)" "shut c (post_repository_import c)"
  "shut c (post_repository_sync c a)"
  unfolding post_github_integration_def get_github_integrations_def get_github_installations_def
    post_service_github_def get_installation_repositories_def post_repository_import_def post_repository_sync_def
  by (intro shut_intros)+

lemmas shut_routes = shut_account_routes shut_plan_routes shut_project_routes shut_resource_routes shut_deployment_routes shut_console_routes shut_github_routes

lemma shut_harmless: "shut c m \<Longrightarrow> harmless c m"
  by (auto simp: shut_def harmless_def constant_op_def)

lemma harmless_deployments: "harmless c (post_service_deployments c a)"
proof -
  have row: "harmless c (with_row (sget g) e f)" if "\<And>x. shut c (f x)" for g e f
    using that by (auto simp: harmless_def shut_def constant_op_def with_row_def reply_def) (metis snd_conv)
  have arg: "harmless c (with_arg raw f)" if "\<And>x. harmless c (f x)" for raw f
    using that by (cases "decodeURIComponent raw") (auto simp: harmless_def with_arg_def)
  show ?thesis unfolding post_service_deployments_def by (intro row arg shut_intros)
qed

definition PUBLIC_PATHS :: "string list" where
  "PUBLIC_PATHS = [''/auth/signup'', ''/auth/login'', ''/github/webhooks'']"

definition public_request :: "api_call \<Rightarrow> bool" where
  "public_request c = (call_method c = ''POST'' \<and> call_path c \<in> set PUBLIC_PATHS)"

text \<open>The one lookup before the authorization: \<open>POST /services/:id/deployments\<close>\<close>

definition probes_service :: "api_call \<Rightarrow> bool" where
  "probes_service c = (\<exists>i. str_split CHR ''/'' (call_path c) = [[], ''services'', i, ''deployments''])"

text \<open>What a route promises without a subject\<close>

definition anonymous_route :: "api_call \<Rightarrow> route \<Rightarrow> bool" where
  "anonymous_route c r = (case r of (ms, pat, h) \<Rightarrow> (ms = [''POST''] \<and> pat \<in> set PUBLIC_PATHS) \<or>
     each_op (shut c) (\<lambda>_. False) c h \<or>
     (pat = ''/services/:id/deployments'' \<and> each_op (harmless c) (\<lambda>_. False) c h))"

lemma anonymous_cases:
  "each_op (shut c) (\<lambda>_. False) c h \<Longrightarrow> anonymous_route c (ms, pat, h)"
  "(\<And>a. harmless c (f c a)) \<Longrightarrow> anonymous_route c (ms, ''/services/:id/deployments'', One f)"
  "pat \<in> set PUBLIC_PATHS \<Longrightarrow> anonymous_route c ([''POST''], pat, h)"
  by (simp_all add: anonymous_route_def each_op_def)

lemma public_paths: "''/auth/signup'' \<in> set PUBLIC_PATHS" "''/auth/login'' \<in> set PUBLIC_PATHS" "''/github/webhooks'' \<in> set PUBLIC_PATHS"
  by (simp_all add: PUBLIC_PATHS_def)

lemma anonymous_routes: "list_all (anonymous_route c) ROUTES"
  unfolding ROUTES_def route_tables append_Cons append_Nil list.pred_inject(2)
  by (intro conjI list.pred_inject(1);
    (rule anonymous_cases(1), rule each_op_intros, rule shut_routes
     | rule anonymous_cases(2), rule harmless_deployments | rule anonymous_cases(3), rule public_paths))

lemma match_iff:
  "match_path [] xs = Some args \<longleftrightarrow> xs = [] \<and> args = []"
  "match_path (Literal w # ps) xs = Some args \<longleftrightarrow> (\<exists>ys. xs = w # ys \<and> match_path ps ys = Some args)"
  "match_path (Anything # ps) xs = Some args \<longleftrightarrow>
     (\<exists>y ys rest. xs = y # ys \<and> y \<noteq> [] \<and> args = y # rest \<and> match_path ps ys = Some rest)"
  by (cases xs; auto)+

lemma literal_match: "match_path (map Literal ws) xs = Some args \<Longrightarrow> xs = ws"
  by (induction ws arbitrary: xs args) (auto simp: match_iff)

lemma public_match:
  assumes "pat \<in> set PUBLIC_PATHS" "match_path (pattern_of pat) (str_split CHR ''/'' path) = Some args"
  shows "path = pat"
proof -
  have "list_all (\<lambda>pat. pattern_of pat = map Literal (str_split CHR ''/'' pat)) PUBLIC_PATHS" by code_simp
  then have "pattern_of pat = map Literal (str_split CHR ''/'' pat)" using assms(1) by (simp add: list_all_iff)
  then have "str_split CHR ''/'' path = str_split CHR ''/'' pat" using assms(2) literal_match by metis
  then show ?thesis by (metis join_split)
qed

lemma probe_match:
  assumes "match_path (pattern_of ''/services/:id/deployments'') (str_split CHR ''/'' (call_path c)) = Some args"
  shows "probes_service c"
proof -
  have "pattern_of ''/services/:id/deployments'' = [Literal [], Literal ''services'', Anything, Literal ''deployments'']" by code_simp
  with assms show ?thesis by (auto simp: match_iff probes_service_def)
qed

lemma lift_constant: "constant_op m \<Longrightarrow> \<exists>r. \<forall>s l. lift_store m (s, l) = (r, (s, l))"
  by (auto simp: constant_op_def lift_store_def)

lemma lift_harmless: "(\<And>s. snd (m s) = s) \<Longrightarrow> snd (lift_store m st) = st"
  by (cases st) (simp add: lift_store_def split_beta)

lemma run_constant:
  assumes "each_op (shut c) (\<lambda>_. False) c h" "\<not> is_ok (call_subject c)"
  shows "\<exists>r. \<forall>st. finish_request (run_handler h c args st) = (r, st)"
proof -
  have "\<exists>r. \<forall>s l. run_handler h c args (s, l) = (r, (s, l))"
    using assms by (cases h) (simp_all add: each_op_def shut_def run_handler_def lift_constant)
  then obtain r where "\<forall>s l. run_handler h c args (s, l) = (r, (s, l))" by blast
  then show ?thesis
    by (intro exI[of _ "fst (finish_request (r, ()))"]) (auto simp: finish_request_def split: sum.split)
qed

lemma run_harmless:
  assumes "each_op (harmless c) (\<lambda>_. False) c h" "\<not> is_ok (call_subject c)"
  shows "snd (finish_request (run_handler h c args st)) = st"
  using assms by (cases h) (simp_all add: each_op_def harmless_def run_handler_def lift_harmless)

text \<open>C5: A request that yields no subject changes neither the store nor the limiter, unless it signs up, logs in or
  delivers a webhook; and its answer is the same whatever the store holds, so it learns nothing, except
  that \<open>POST /services/:id/deployments\<close> looks the service up before it asks for the subject.\<close>

theorem anonymous_request:
  assumes "\<not> is_ok (call_subject c)" "\<not> public_request c"
  shows "snd (handle_request c st) = st \<and> (probes_service c \<or> (\<exists>r. \<forall>st. handle_request c st = (r, st)))"
  using handled_by[of c]
proof (elim disjE exE conjE)
  fix ms pat h args
  assume "(ms, pat, h) \<in> set ROUTES" and m: "call_method c \<in> set ms"
    "match_path (pattern_of pat) (str_split CHR ''/'' (call_path c)) = Some args"
    and run: "\<forall>st. handle_request c st = finish_request (run_handler h c args st)"
  then have "anonymous_route c (ms, pat, h)" using anonymous_routes[of c] by (auto simp: list_all_iff)
  then consider "ms = [''POST'']" "pat \<in> set PUBLIC_PATHS" | "each_op (shut c) (\<lambda>_. False) c h"
    | "pat = ''/services/:id/deployments''" "each_op (harmless c) (\<lambda>_. False) c h"
    by (auto simp: anonymous_route_def)
  then show ?thesis
  proof cases
    case 1
    then have "public_request c" using m public_match[OF 1(2) m(2)] by (simp add: public_request_def)
    with assms(2) show ?thesis by blast
  next
    case 2
    from run_constant[OF 2 assms(1), of args] show ?thesis using run by (metis snd_conv)
  next
    case 3
    then show ?thesis using probe_match m(2) run_harmless[OF 3(2) assms(1)] run by metis
  qed
qed (metis snd_conv)

section \<open>Accounts and projects\<close>

interpretation tenant_requests: api_relation tenants_stay
  by unfold_locales (rule tenants_base tenants_deletes tenants_resources tenants_provision tenants_attach
    tenants_deployment_updates tenants_deployments tenants_cancel tenants_jobs tenants_quota tenants_enforce tenants_console
    tenants_environment tenants_github tenants_webhook)+

interpretation standing_requests: api_relation projects_stay
  by unfold_locales (rule tenant_requests.api_ops[THEN tenants_parts(2)])+

interpretation account_requests: api_relation users_same
  by unfold_locales (rule tenant_requests.api_ops[THEN tenants_parts(1)])+

text \<open>A subject with the role \<open>audit:read\<close> that is an administrator or global\<close>

definition is_admin :: "api_call \<Rightarrow> bool" where
  "is_admin c = (\<exists>subject. call_subject c = Inr subject \<and> can (jget subject ''role'') ''audit:read'' = Inr True \<and>
     (jget subject ''userRole'' = JStr ''ADMIN'' \<or> jget subject ''global'' = JBool True))"

definition guarded_accounts :: "api_call \<Rightarrow> store \<Rightarrow> store \<Rightarrow> bool" where
  "guarded_accounts c s s' = (is_admin c \<or> users_same s s')"

lemma authorized_subject:
  "authorizeAction c action = Inr subject \<Longrightarrow> call_subject c = Inr subject \<and> can (jget subject ''role'') action = Inr True"
  by (auto simp: authorizeAction_def rbind_Inr_iff dest: require_action_ok)

lemma guarded_admin: "keeps (guarded_accounts c) (with_admin c f)"
proof (cases "authorizeAction c ''audit:read''")
  case (Inl e)
  then show ?thesis by (simp add: keeps_def with_admin_def with_subject_def guarded_accounts_def)
next
  case (Inr subject)
  from authorized_subject[OF this] show ?thesis
    by (auto simp: keeps_def with_admin_def with_subject_def Inr reply_def guarded_accounts_def is_admin_def)
qed

lemma guarded_decision: "keeps (guarded_accounts c) (post_user_decision c a b)"
  unfolding post_user_decision_def by (rule guarded_admin)

lemma guarded_quiet: "keeps users_same m \<Longrightarrow> keeps (guarded_accounts c) m"
  by (simp add: keeps_def guarded_accounts_def)

definition SIGN_IN_PATHS :: "string list" where
  "SIGN_IN_PATHS = [''/auth/signup'', ''/auth/login'']"

lemma sign_in_paths: "''/auth/signup'' \<in> set SIGN_IN_PATHS" "''/auth/login'' \<in> set SIGN_IN_PATHS"
  "set SIGN_IN_PATHS \<subseteq> set PUBLIC_PATHS"
  by (simp_all add: SIGN_IN_PATHS_def PUBLIC_PATHS_def)

lemma account_routes: "list_all (\<lambda>(ms, pat, h). each_op (keeps (guarded_accounts c)) (limited_keeps (guarded_accounts c)) c h \<or>
    ms = [''POST''] \<and> pat \<in> set SIGN_IN_PATHS) ROUTES"
  unfolding ROUTES_def route_tables append_Cons append_Nil list.pred_inject(2) case_prod_conv
  by (intro conjI list.pred_inject(1);
    (rule disjI1, rule each_op_intros, (rule guarded_decision | rule guarded_quiet, rule account_requests.route_rules
       | rule guarded_quiet, rule account_requests.keeps_delete_route, rule accounts_delete_project)
     | rule disjI2, rule conjI, rule HOL.refl, rule sign_in_paths))

text \<open>C4: Accounts change only by \<open>POST /auth/signup\<close> or \<open>POST /auth/login\<close>, or at the request of an administrator;
  every other request, a webhook among them, leaves all accounts as they are.\<close>

theorem accounts_guarded:
  assumes "\<not> (call_method c = ''POST'' \<and> call_path c \<in> {''/auth/signup'', ''/auth/login''})" "\<not> is_admin c"
  shows "users (fst (snd (handle_request c (s, l)))) = users s"
proof -
  have "guarded_accounts c s (fst (snd (handle_request c (s, l))))"
  proof (rule request_keeps[OF account_routes])
    fix ms pat h args
    assume m: "ms = [''POST''] \<and> pat \<in> set SIGN_IN_PATHS" "call_method c \<in> set ms"
      "match_path (pattern_of pat) (str_split CHR ''/'' (call_path c)) = Some args"
    then have "call_path c = pat" using public_match sign_in_paths(3) by blast
    with assms(1) m show "guarded_accounts c s (fst (snd (run_handler h c args (s, l))))" by (simp add: SIGN_IN_PATHS_def)
  qed (simp add: guarded_accounts_def)
  then show ?thesis using assms(2) by (simp add: guarded_accounts_def users_same_def)
qed

text \<open>Access to a project: of its own scope, or of its organization\<close>

definition has_access :: "jsv \<Rightarrow> jsv \<Rightarrow> jsv \<Rightarrow> bool" where
  "has_access subject projectId project = (unscoped subject \<or> Auth.in_scope subject (JObj [(''projectId'', projectId)]) \<or>
     Auth.in_scope subject (JObj [(''organizationId'', jget project ''organizationId'')]))"

definition may_delete :: "api_call \<Rightarrow> store \<Rightarrow> jsv \<Rightarrow> bool" where
  "may_delete c s p = (\<exists>subject. call_subject c = Inr subject \<and> can (jget subject ''role'') ''project:delete'' = Inr True \<and>
     has_access subject p (mget (projects s) p))"

lemma access_state: "snd (assertProjectAccess i subject s) = s"
  by (simp add: assertProjectAccess_def Let_def stry_def sfind_run sbind_run split: sum.split prod.split)

lemma scope_access:
  "requireScope subject (JObj [(''projectId'', p)]) = Inr b \<Longrightarrow> has_access subject p project"
  "requireScope subject (JObj [(''organizationId'', jget project ''organizationId'')]) = Inr b \<Longrightarrow> has_access subject p project"
  by (auto simp: has_access_def dest: require_scope_ok)

lemma access_granted:
  assumes "assertProjectAccess p subject s = (Inr project, s')"
  shows "has_access subject p (mget (projects s) p)"
proof (cases "everywhere subject")
  case True
  then show ?thesis by (auto simp: everywhere_def has_access_def unscoped_def)
next
  case False
  show ?thesis
  proof (cases "requireScope subject (JObj [(''projectId'', p)])")
    case (Inr b)
    then show ?thesis by (rule scope_access)
  next
    case (Inl e)
    then obtain b where "requireScope subject (JObj [(''organizationId'', jget (mget (projects s) p) ''organizationId'')]) = Inr b"
      using assms False
      by (auto simp: assertProjectAccess_def Let_def stry_def sfind_run sbind_run sbind_Inr notFound_def js_throw_status_def
        split: if_splits sum.splits)
    then show ?thesis by (rule scope_access)
  qed
qed

definition guarded_projects :: "api_call \<Rightarrow> store \<Rightarrow> store \<Rightarrow> bool" where
  "guarded_projects c s s' = (\<forall>p. truthy (mget (projects s) p) \<longrightarrow> may_delete c s p \<or> truthy (mget (projects s') p))"

lemma guarded_delete: "keeps (guarded_projects c) (delete_project c a)"
  unfolding keeps_def
proof
  fix s :: store
  let ?same = "snd (delete_project c a s) = s"
  have same: "guarded_projects c s s" by (simp add: guarded_projects_def)
  show "guarded_projects c s (snd (delete_project c a s))"
  proof (cases "authorizeAction c ''project:delete''")
    case (Inl e)
    then have ?same by (simp add: delete_project_def with_subject_def)
    then show ?thesis using same by simp
  next
    case (Inr subject)
    note subject = authorized_subject[OF this]
    show ?thesis
    proof (cases "decodeURIComponent a")
      case (Inl e)
      with Inr have ?same by (simp add: delete_project_def with_subject_def with_arg_def)
      then show ?thesis using same by simp
    next
      case decoded: (Inr t)
      obtain r s1 where access: "assertProjectAccess (JStr t) subject s = (r, s1)"
        by (cases "assertProjectAccess (JStr t) subject s")
      then have s1: "s1 = s" using access_state[of "JStr t" subject s] by simp
      have run: "delete_project c a s = sbind (assertProjectAccess (JStr t) subject) (\<lambda>_.
          with_row (deleteProject (cWorlds c 0) (JStr t)) ''project_not_found'' (\<lambda>project.
            reply 200 (JObj [(''deleted'', JBool True), (''projectId'', jget project ''id'')]))) s"
        by (simp add: delete_project_def with_subject_def with_arg_def in_project_def Inr decoded)
      show ?thesis
      proof (cases r)
        case (Inl e)
        then have ?same unfolding run by (simp add: sbind_run access s1)
        then show ?thesis using same by simp
      next
        case (Inr project)
        have "may_delete c s (JStr t)"
          using subject access_granted[OF access[unfolded Inr]] by (auto simp: may_delete_def)
        moreover have "snd (delete_project c a s) = snd (deleteProject (cWorlds c 0) (JStr t) s)"
          unfolding run by (simp add: sbind_run access Inr s1 with_row_def reply_def split: prod.split sum.split)
        moreover have "others_stay (JStr t) s (snd (deleteProject (cWorlds c 0) (JStr t) s))"
          using others_delete_project by (simp add: keeps_def)
        ultimately show ?thesis unfolding guarded_projects_def others_stay_def by metis
      qed
    qed
  qed
qed

lemma guarded_standing: "keeps projects_stay m \<Longrightarrow> keeps (guarded_projects c) m"
  "limited_keeps projects_stay f \<Longrightarrow> limited_keeps (guarded_projects c) f"
  by (auto simp: keeps_def limited_keeps_def guarded_projects_def projects_stay_def)

definition deletion_route :: "api_call \<Rightarrow> string list \<Rightarrow> string \<Rightarrow> request_handler \<Rightarrow> bool" where
  "deletion_route c ms pat h = (ms = [''DELETE''] \<and> each_op (keeps (guarded_projects c)) (\<lambda>_. False) c h)"

lemma project_routes: "list_all (\<lambda>(ms, pat, h). each_op (keeps projects_stay) (limited_keeps projects_stay) c h \<or>
    deletion_route c ms pat h) ROUTES"
  unfolding ROUTES_def route_tables append_Cons append_Nil list.pred_inject(2) case_prod_conv
  by (intro conjI list.pred_inject(1);
    (rule disjI1, rule each_op_intros,
       (rule standing_requests.route_rules | rule standing_requests.account_rules(1-3); rule standing_accounts)
     | rule disjI2, unfold deletion_route_def, rule conjI, rule HOL.refl, rule each_op_intros, rule guarded_delete))

text \<open>C3: A project disappears only by a \<open>DELETE\<close> request of a subject whose role may delete projects and that has
  access to it: the subject is global, or the project or its organization is in its scope.\<close>

theorem project_deletion_guarded:
  assumes "truthy (mget (projects s) p)" "\<not> (call_method c = ''DELETE'' \<and> may_delete c s p)"
  shows "truthy (mget (projects (fst (snd (handle_request c (s, l))))) p)"
proof -
  let ?R = "\<lambda>s s'. \<forall>p. truthy (mget (projects s) p) \<longrightarrow> (call_method c = ''DELETE'' \<and> may_delete c s p) \<or> truthy (mget (projects s') p)"
  have kept: "each_op (keeps ?R) (limited_keeps ?R) c h" if "each_op (keeps projects_stay) (limited_keeps projects_stay) c h" for h
    using that by (rule each_op_mono) (auto simp: keeps_def limited_keeps_def projects_stay_def)
  have "?R s (fst (snd (handle_request c (s, l))))"
  proof (rule request_keeps)
    show "list_all (\<lambda>(ms, pat, h). each_op (keeps ?R) (limited_keeps ?R) c h \<or> deletion_route c ms pat h) ROUTES"
      using project_routes[of c] kept unfolding list_all_iff by fast
    fix ms pat h args
    assume d: "deletion_route c ms pat h" "call_method c \<in> set ms"
    then have "each_op (keeps (guarded_projects c)) (limited_keeps (guarded_projects c)) c h"
      unfolding deletion_route_def by (elim conjE) (erule each_op_mono; simp)
    from run_each[OF this, of s args l] show "?R s (fst (snd (run_handler h c args (s, l))))"
      using d unfolding guarded_projects_def by (auto simp: deletion_route_def)
  qed simp
  with assms show ?thesis by blast
qed

section \<open>Requests that show the guarantees apply\<close>

text \<open>A request without credentials, to a control plane with one project and one account\<close>

definition sample_call :: "string \<Rightarrow> string \<Rightarrow> api_call" where
  "sample_call request_method path = \<lparr>cReq = \<lparr>reqMethod = request_method, reqParts = Inr (path, []), reqHeaders = JObj [],
       reqChunks = [], reqAddress = JStr ''10.0.0.1''\<rparr>,
     cWorlds = (\<lambda>_. sample_world), cAuth = JObj [(''jwtSecret'', JStr ''s3'')], cJwt = sample_jwt JNull,
     cParse = (\<lambda>_. Inl ''syntax error''), cYaml = (\<lambda>_. None), cGitUrl = (\<lambda>_. None), cSha = (\<lambda>t. t), cKdf = (\<lambda>_ _ _. None),
     cCompare = (\<lambda>_ _. 0), cDriver = quiet_driver, cSalt = ''salt'', cTokenId = ''t1'', cOauthState = ''o1''\<rparr>"

definition sample_state :: store where
  "sample_state = empty_store\<lparr>projects := [(JStr ''p1'', JObj [(''id'', JStr ''p1'')])],
     users := [(JStr ''u1'', JObj [(''id'', JStr ''u1'')])]\<rparr>"

definition sample_limiter :: rate_limiter where
  "sample_limiter = createFixedWindowRateLimiter None None"

lemma sample_anonymous: "\<not> is_ok (call_subject (sample_call m p))"
  by (simp add: call_subject_def sample_call_def subjectFromRequest_def Let_def bearer_token_def request_value_def
    Auth.unauthorized_def jor_def starts_with_def)

lemma sample_not_admin: "\<not> is_admin (sample_call m p)"
  using sample_anonymous[of m p] by (auto simp: is_admin_def)

lemma sample_not_public: "\<not> public_request (sample_call ''DELETE'' p)"
  by (simp add: public_request_def call_method_def sample_call_def)

theorem anonymous_request_witness:
  "snd (handle_request (sample_call ''DELETE'' ''/projects/p1'') (sample_state, sample_limiter)) = (sample_state, sample_limiter)"
  using anonymous_request[OF sample_anonymous sample_not_public] by blast

theorem accounts_guarded_witness:
  "users (fst (snd (handle_request (sample_call ''POST'' ''/github/webhooks'') (sample_state, sample_limiter)))) = users sample_state"
  by (rule accounts_guarded[OF _ sample_not_admin]) (simp add: call_method_def call_path_def sample_call_def)

theorem project_deletion_guarded_witness:
  "truthy (mget (projects (fst (snd (handle_request (sample_call ''DELETE'' ''/projects/p1'') (sample_state, sample_limiter))))) (JStr ''p1''))"
proof (rule project_deletion_guarded)
  show "truthy (mget (projects sample_state) (JStr ''p1''))" by (simp add: sample_state_def mget_def)
  show "\<not> (call_method (sample_call ''DELETE'' ''/projects/p1'') = ''DELETE'' \<and>
      may_delete (sample_call ''DELETE'' ''/projects/p1'') sample_state (JStr ''p1''))"
    using sample_anonymous[of "''DELETE''" "''/projects/p1''"] unfolding may_delete_def by (metis is_ok_simps(1))
qed

text \<open>Identifiers of accounts lose the punctuation of the address, so one address takes the row of another: a new
  account for \<open>a-b@x.io\<close> sets the password of \<open>a.b@x.io\<close>.\<close>

theorem account_collision:
  "jget (mget (users (outcome (createUser w (JObj [(''email'', JStr ''a-b@x.io''), (''passwordHash'', h)])) s))
     (JStr (stableId ''usr'' [JStr ''a.b@x.io'']))) ''passwordHash'' = jdefault h JNull"
proof -
  have same: "stableId ''usr'' [JStr ''a-b@x.io''] = stableId ''usr'' [JStr ''a.b@x.io'']" by code_simp
  have "is_ok (normalizeAccountType (JStr ''NON_CLUB'') JUndef)" by code_simp
  then obtain v where "normalizeAccountType (JStr ''NON_CLUB'') JUndef = Inr v" by (auto simp: is_ok_def split: sum.splits)
  then show ?thesis by (simp add: outcome_def createUser_def Let_def same sbind_run)
qed

end
