(* ===== verification/PersistRows.thy ===== *)
theory PersistRows
  imports StoreQuota StoreGitHub Config
begin

text \<open>
  The data that \<open>persistence.ts\<close> exchanges with the database: the rows it writes for projects, services,
  resources, deployments, workflow jobs, variables and quotas, how it presents rows, and the choice of the
  repository. A \<open>Date\<close> is its ISO text (\<open>Invalid Date\<close> when it is none); an object that is handed to the
  database with an \<open>undefined\<close> field leaves the column alone.
\<close>

section \<open>Texts, dates and JSON\<close>

definition slugInput :: "jsv \<Rightarrow> string" where
  "slugInput v = (let
     s0 = str_lower (str_trim (to_str (jor v (JStr ''item''))));
     s1 = rreplace (RPlus (RCls (\<lambda>c. \<not> slug_char c))) (\<lambda>_. ''-'') s0;
     s2 = rreplace (RTrim (\<lambda>c. c = dash)) (\<lambda>_. []) s1
   in if s2 = [] then ''item'' else s2)"

definition new_date :: "jsv \<Rightarrow> jsv" where
  "new_date v = (case date_value v of Some t \<Rightarrow> nowIso t | None \<Rightarrow> JStr ''Invalid Date'')"

definition sanitizeJson :: "jsv \<Rightarrow> jsv" where
  "sanitizeJson v = deep_clone (maskSecrets v)"

definition maskLogLine :: "jsv \<Rightarrow> jsv" where
  "maskLogLine v = sanitizeLogRecord (JStr (to_str (jnullish v (JStr []))))"

definition compactData :: "jsv \<Rightarrow> jsv" where
  "compactData input = JObj (filter (\<lambda>(_, v). v \<noteq> JUndef) (entries input))"

definition redactPrismaUser :: "jsv \<Rightarrow> jsv" where
  "redactPrismaUser user = jrest user [''passwordHash'']"

definition organizationScopeArray :: "jsv \<Rightarrow> string list" where
  "organizationScopeArray input = map to_str (filter given_text
     (jget input ''organizationId'' # items (jget input ''organizationIds'')))"

section \<open>Projects, services and resources\<close>

definition projectUpdateData :: "jsv \<Rightarrow> jsv" where
  "projectUpdateData input = (let
     name = jget input ''name''; slug = jget input ''slug''; description = jget input ''description'';
     d1 = jset_if (name \<noteq> JUndef) ''name'' name (JObj []);
     d2 = jset_if (slug \<noteq> JUndef) ''slug'' (JStr (slugInput slug)) d1;
     d3 = jset_if (description \<noteq> JUndef) ''description'' (jor description (JStr [])) d2
   in jset_if (jget input ''status'' \<noteq> JUndef) ''status'' (jget input ''status'') d3)"

definition or_null :: "jsv \<Rightarrow> string \<Rightarrow> string \<times> jsv" where
  "or_null v k = (k, jor (jget v k) JNull)"

definition number_or_null :: "jsv \<Rightarrow> jsv" where
  "number_or_null v = (if truthy v then JNum (to_num v) else JNull)"

definition service_columns :: "jsv \<Rightarrow> jsv" where
  "service_columns safe = JObj ([
     (''type'', jor (jget safe ''type'') (JStr ''web'')),
     (''runtimeType'', jor (jget safe ''runtimeType'') (JStr ''container'')),
     (''sourceType'', jor (jget safe ''sourceType'') (JStr ''github'')),
     (''buildMode'', jor (jget safe ''buildMode'') (JStr ''AUTO''))] @
     map (or_null safe) [''repoUrl'', ''githubRepositoryId'', ''branch'', ''rootDirectory'', ''buildContext'', ''dockerfilePath'',
       ''installCommand'', ''buildCommand'', ''startCommand'', ''outputDirectory'', ''image''] @
     [(''imageUrl'', jor (jget safe ''imageUrl'') (jor (jget safe ''image'') JNull)),
      (''port'', number_or_null (jget safe ''port'')), (''status'', JStr ''created''),
      (''desiredSpec'', sanitizeJson (jor (jget safe ''desiredSpec'') safe)), (''desiredState'', sanitizeJson safe)])"

definition serviceData :: "url_parser \<Rightarrow> jsv \<Rightarrow> jsv \<Rightarrow> jsv res" where
  "serviceData parse_url penv input =
     rbind (sanitizeTenantServiceInput parse_url penv input (JObj [])) (\<lambda>safe. Inr (service_columns safe))"

definition SERVICE_COLUMNS :: "string list" where
  "SERVICE_COLUMNS = [''name'', ''type'', ''runtimeType'', ''sourceType'', ''buildMode'', ''repoUrl'', ''githubRepositoryId'',
     ''branch'', ''rootDirectory'', ''buildContext'', ''dockerfilePath'', ''installCommand'', ''buildCommand'', ''startCommand'',
     ''outputDirectory'', ''image'', ''imageUrl'', ''port'']"

definition blank_null :: "jsv \<Rightarrow> jsv" where
  "blank_null v = (if v = JStr [] then JNull else v)"

definition set_column :: "jsv \<Rightarrow> string \<Rightarrow> jsv \<Rightarrow> jsv" where
  "set_column input key data = (if \<not> has_own input key then data
     else (let v = blank_null (jget input key) in
       jset data key (if key = ''port'' \<and> v \<noteq> JNull \<and> v \<noteq> JUndef then JNum (to_num v) else v)))"

definition service_update_columns :: "jsv \<Rightarrow> jsv" where
  "service_update_columns safe = (let
     image = jget safe ''image''; imageUrl = jget safe ''imageUrl'';
     d0 = fold (set_column safe) SERVICE_COLUMNS (JObj []);
     d1 = jset_if (jget safe ''slug'' \<noteq> JUndef) ''slug'' (JStr (slugInput (jget safe ''slug''))) d0;
     d2 = jset_if (truthy image \<and> \<not> truthy imageUrl) ''imageUrl'' image d1;
     d3 = jset_if (truthy imageUrl \<and> \<not> truthy image) ''image'' imageUrl d2;
     d4 = jset_if (has_own safe ''desiredSpec'') ''desiredSpec'' (sanitizeJson (jor (jget safe ''desiredSpec'') (JObj []))) d3
   in jset_if (entries safe \<noteq> []) ''desiredState'' (sanitizeJson safe) d4)"

definition serviceUpdateData :: "url_parser \<Rightarrow> jsv \<Rightarrow> jsv \<Rightarrow> jsv res" where
  "serviceUpdateData parse_url penv input =
     rbind (sanitizeTenantServiceUpdate parse_url penv input (JObj [])) (\<lambda>safe. Inr (service_update_columns safe))"

definition sqlite_path_of :: "string \<Rightarrow> jsv \<Rightarrow> string \<Rightarrow> jsv \<Rightarrow> jsv" where
  "sqlite_path_of cwd input engine i = (if engine = ''sqlite''
     then jor (jget input ''sqlitePath'') (jor (jget (jget input ''desiredSpec'') ''sqlitePath'') (JStr (providerOwnedSqlitePath cwd i)))
     else JNull)"

definition resourceData :: "string \<Rightarrow> jsv \<Rightarrow> jsv \<Rightarrow> jsv" where
  "resourceData cwd input options = (let
     safe = sanitizeTenantResourceInput input;
     engine = normalizeResourceEngine (jor (jget safe ''engine'') (jor (jget input ''engine'') (jget safe ''type'')));
     i = jor (jget input ''id'') (JStr (stableId ''res'' [jget safe ''projectId'', jget safe ''name'']));
     sqlitePath = sqlite_path_of cwd input engine i;
     spec = jor (jget safe ''desiredSpec'') (JObj []);
     desiredSpec = (if truthy sqlitePath then jwith (JObj (entries spec)) [(''sqlitePath'', sqlitePath)] else spec);
     desiredState = jwith safe [(''engine'', JStr engine), (''desiredSpec'', desiredSpec), (''sqlitePath'', jor sqlitePath JUndef)]
   in JObj [
     (''slug'', jor (jget safe ''slug'') (JStr (slugInput (jget safe ''name'')))),
     (''type'', jor (jget safe ''type'') (JStr (resourceTypeForEngine engine))), (''engine'', JStr engine),
     (''provider'', jor (jget safe ''provider'') (JStr ''shared-provider'')),
     (''plan'', jor (jget safe ''plan'') (JStr ''shared-small'')), (''region'', jor (jget safe ''region'') (JStr ''local'')),
     or_null safe ''version'', (''status'', jor (jget safe ''status'') (JStr ''provisioning'')),
     (''desiredSpec'', sanitizeJson desiredSpec), (''desiredState'', sanitizeJson desiredState),
     (''connectionSecretName'', jor (jget options ''connectionSecretName'') JUndef)])"

section \<open>Deployments\<close>

definition DATE_COLUMNS :: "string list" where
  "DATE_COLUMNS = [''buildStartedAt'', ''buildFinishedAt'', ''deployedAt'', ''finishedAt'']"

definition DEPLOYMENT_COLUMNS :: "string list" where
  "DEPLOYMENT_COLUMNS = [''imageUrl'', ''imageDigest'', ''buildStartedAt'', ''buildFinishedAt'', ''deployedAt'', ''finishedAt'',
     ''errorCode'', ''errorMessage'', ''previewUrl'']"

definition ready_columns :: "jsv \<Rightarrow> jsv \<Rightarrow> jsv \<Rightarrow> jsv \<Rightarrow> jsv" where
  "ready_columns input current now d0 = (let
     d1 = jset_if (\<not> truthy (jget input ''deployedAt'')) ''deployedAt'' (jor (jget current ''deployedAt'') now) d0;
     d2 = jset_if (\<not> truthy (jget input ''finishedAt'')) ''finishedAt'' now d1;
     d3 = jset_if (\<not> has_own input ''errorCode'') ''errorCode'' JNull d2
   in jset_if (\<not> has_own input ''errorMessage'') ''errorMessage'' JNull d3)"

definition status_columns :: "jsv \<Rightarrow> jsv \<Rightarrow> jsv \<Rightarrow> jsv \<Rightarrow> jsv" where
  "status_columns input current now data = (let
     status = normalizeDeploymentStatus (jget input ''status''); d0 = jset data ''status'' status;
     absent = (\<lambda>k. \<not> truthy (jget input k));
     d1 = jset_if (status = JStr ''BUILDING'' \<and> \<not> truthy (jget current ''buildStartedAt'') \<and> absent ''buildStartedAt'')
        ''buildStartedAt'' now d0;
     d2 = jset_if (status = JStr ''IMAGE_READY'' \<and> absent ''buildFinishedAt'') ''buildFinishedAt'' now d1;
     d3 = jset_if (status = JStr ''DEPLOYING'' \<and> \<not> truthy (jget current ''deployedAt'') \<and> absent ''deployedAt'')
        ''deployedAt'' now d2;
     d4 = (if status = JStr ''READY'' then ready_columns input current now d3 else d3)
   in jset_if ((status = JStr ''FAILED'' \<or> status = JStr ''BUILD_FAILED'' \<or> status = JStr ''CANCELLED'') \<and> absent ''finishedAt'')
        ''finishedAt'' now d4)"

definition deployment_column :: "jsv \<Rightarrow> string \<Rightarrow> jsv \<Rightarrow> jsv" where
  "deployment_column input key data = (let v = jget input key in
     if \<not> has_own input key then data
     else if key \<in> set DATE_COLUMNS then jset data key (if truthy v then new_date v else JNull)
     else jset data key (if key = ''errorMessage'' then maskLogLine v else blank_null v))"

definition deploymentUpdateData :: "int \<Rightarrow> jsv \<Rightarrow> jsv \<Rightarrow> jsv" where
  "deploymentUpdateData t input current = (let
     d0 = jset_if (truthy (jget input ''image'') \<and> \<not> truthy (jget input ''imageUrl'')) ''imageUrl'' (jget input ''image'') (JObj []);
     d1 = (if has_own input ''status'' then status_columns input current (nowIso t) d0 else d0)
   in fold (deployment_column input) DEPLOYMENT_COLUMNS d1)"

definition date_or_undefined :: "jsv \<Rightarrow> jsv" where
  "date_or_undefined v = (if truthy v then new_date v else JUndef)"

definition deploymentData :: "jsv \<Rightarrow> jsv res" where
  "deploymentData input = (let commitSha = jget input ''commitSha''; commitHash = jget input ''commitHash'' in
     if \<not> truthy (jget input ''projectId'') then js_throw ''projectId is required for deployment persistence''
     else Inr (compactData (JObj ([
       (''id'', jget input ''id''), (''serviceId'', jget input ''serviceId''), (''projectId'', jget input ''projectId''),
       (''commitSha'', jor commitSha (jor commitHash JNull)), (''commitHash'', jor commitHash (jor commitSha JNull)),
       (''imageUrl'', jor (jget input ''imageUrl'') (jor (jget input ''image'') JNull)), or_null input ''imageDigest'',
       (''status'', normalizeDeploymentStatus (jor (jget input ''status'') (JStr ''queued''))),
       (''deploymentType'', jor (jget input ''deploymentType'') (JStr ''production'')),
       (''triggerType'', jor (jget input ''triggerType'') (JStr ''manual'')),
       (''branch'', jor (jget input ''branch'') (JStr ''main'')),
       (''pullRequestNumber'', number_or_null (jget input ''pullRequestNumber'')),
       or_null input ''previewUrl'', or_null input ''errorCode'',
       (''errorMessage'', if truthy (jget input ''errorMessage'') then maskLogLine (jget input ''errorMessage'') else JNull)] @
       map (\<lambda>k. (k, date_or_undefined (jget input k))) DATE_COLUMNS))))"

section \<open>Workflow jobs, variables and quotas\<close>

definition date_or_now :: "int \<Rightarrow> jsv \<Rightarrow> jsv" where
  "date_or_now t v = (if truthy v then new_date v else nowIso t)"

definition date_or_null :: "jsv \<Rightarrow> jsv" where
  "date_or_null v = (if truthy v then new_date v else JNull)"

definition job_columns :: "int \<Rightarrow> jsv \<Rightarrow> (string \<times> jsv) list" where
  "job_columns t input = [
     (''payload'', sanitizeJson (jor (jget input ''payload'') (JObj []))),
     (''attempts'', JNum (to_num (jor (jget input ''attempts'') (jint 0)))),
     (''maxAttempts'', JNum (to_num (jor (jget input ''maxAttempts'') (jint 3)))),
     (''runAfter'', date_or_now t (jget input ''runAfter'')), or_null input ''lockedBy'',
     (''lockedAt'', date_or_null (jget input ''lockedAt''))]"

definition workflowJobData :: "int \<Rightarrow> jsv \<Rightarrow> jsv" where
  "workflowJobData t input = JObj ([
     (''type'', jor (jget input ''type'') (JStr ''build-and-deploy'')),
     (''status'', jor (jget input ''status'') (JStr ''queued'')),
     (''targetType'', jor (jget input ''targetType'') (JStr ''deployment'')),
     (''targetId'', jor (jget input ''targetId'') (jor (jget input ''deploymentId'') (jget input ''serviceId'')))] @
     job_columns t input)"

definition prismaWorkflowJobUpdateData :: "int \<Rightarrow> jsv \<Rightarrow> jsv" where
  "prismaWorkflowJobUpdateData t input = JObj ((''status'', jget input ''status'') # job_columns t input)"

definition text_of :: "jsv \<Rightarrow> jsv" where
  "text_of v = JStr (to_str (jnullish v (JStr [])))"

definition masked_value :: "bool \<Rightarrow> jsv \<Rightarrow> jsv" where
  "masked_value secret input = jor (jget input ''valueMasked'') (if secret then JStr ''****'' else text_of (jget input ''value''))"

definition envVariableData :: "jsv \<Rightarrow> jsv" where
  "envVariableData input = (let isSecret = (jget input ''isSecret'' = JBool True) in JObj [
     (''projectId'', jget input ''projectId''), (''serviceId'', jget input ''serviceId''), (''key'', jget input ''key''),
     (''value'', if isSecret then JNull else text_of (jget input ''value'')), (''isSecret'', JBool isSecret),
     (''valueMasked'', masked_value isSecret input),
     (''secretRef'', jor (jget input ''secretRef'') (jor (jget input ''secretId'') JNull)),
     (''source'', jor (jget input ''source'') (JStr ''api''))])"

definition maskEnvRow :: "jsv \<Rightarrow> jsv" where
  "maskEnvRow row = (let secret = truthy (jget row ''isSecret'') in JObj [
     (''key'', jget row ''key''), (''isSecret'', JBool (jget row ''isSecret'' = JBool True)),
     (''value'', if secret then JUndef else jget row ''value''), (''valueMasked'', masked_value secret row),
     (''source'', jor (jget row ''source'') (JStr ''api'')), or_null row ''updatedAt''])"

definition QUOTA_COLUMNS :: "string list" where
  "QUOTA_COLUMNS = [''maxProjects'', ''maxServices'', ''maxDeploymentsPerDay'', ''maxPreviewDeployments'', ''maxCpuMillicores'',
     ''maxMemoryMb'', ''maxDbStorageMb'', ''maxObjectStorageMb'', ''maxBuildMinutesPerMonth'', ''maxRuntimeHoursPerMonth'']"

definition quotaData :: "jsv \<Rightarrow> jsv" where
  "quotaData input = JObj (map (\<lambda>k. (k, JNum (to_num (jget input k)))) (filter (\<lambda>k. jget input k \<noteq> JUndef) QUOTA_COLUMNS))"

section \<open>Repositories of GitHub\<close>

definition github_prefix :: rx where
  "github_prefix = RSeqs [RBol, RLit ''https://github.com/'']"

definition git_end :: rx where
  "git_end = RSeqs [RLitI ''.git'', REol]"

definition parsePrismaRepository :: "jsv \<Rightarrow> jsv res" where
  "parsePrismaRepository v = (let
     txt = rreplace1 git_end (\<lambda>_. []) (rreplace1 github_prefix (\<lambda>_. []) (to_str (jor v (JStr []))));
     ps = str_split CHR ''/'' txt; owner = hd ps; repo = (case tl ps of r # _ \<Rightarrow> r | [] \<Rightarrow> [])
   in if owner = [] \<or> repo = [] then js_throw ''invalid repository''
      else Inr (JObj [(''fullName'', JStr (owner @ ''/'' @ repo)),
        (''repoUrl'', JStr (''https://github.com/'' @ owner @ ''/'' @ repo @ ''.git''))]))"

definition normalizePrismaRepositoryId :: "jsv \<Rightarrow> string" where
  "normalizePrismaRepositoryId v = (let txt = str_trim (to_str (jor v (JStr []))) in
     if txt = [] then []
     else (case parsePrismaRepository (JStr txt) of
        Inr r \<Rightarrow> str_lower (to_str (jget r ''fullName''))
      | Inl _ \<Rightarrow> (let l = str_lower txt in if starts_with l ''github:'' then str_from 7 l else l)))"

definition stored_state :: "jsv \<Rightarrow> jsv" where
  "stored_state service = jor (jget service ''desiredState'') (JObj [])"

definition stored_repository :: "jsv \<Rightarrow> jsv" where
  "stored_repository service = jor (jget (stored_state service) ''githubRepository'')
     (jor (jget (jget (stored_state service) ''github'') ''repository'') (jget service ''repoUrl''))"

definition stored_integration :: "jsv \<Rightarrow> string" where
  "stored_integration service = to_str (jor (jget (stored_state service) ''githubIntegrationId'')
     (jor (jget (jget (stored_state service) ''github'') ''integrationId'') (JStr [])))"

definition repository_entry :: "jsv \<Rightarrow> jsv \<Rightarrow> (string \<times> jsv) list \<Rightarrow> (string \<times> jsv) list" where
  "repository_entry service parsed m = (let fullName = to_str (jget parsed ''fullName'') in
     AList.update fullName (case map_of m fullName of
        Some old \<Rightarrow> jwith old [(''serviceIds'', JArr (first_occurrences (items (jget old ''serviceIds'') @ [jget service ''id''])))]
      | None \<Rightarrow> JObj [(''id'', JStr (stableId ''ghr'' [jget parsed ''fullName''])), (''fullName'', jget parsed ''fullName''),
          (''repoUrl'', jget parsed ''repoUrl''), (''defaultBranch'', jor (jget service ''branch'') (JStr ''main'')),
          (''serviceIds'', JArr [jget service ''id''])]) m)"

definition add_service :: "jsv \<Rightarrow> (string \<times> jsv) list \<Rightarrow> (string \<times> jsv) list" where
  "add_service service m = (if \<not> truthy (stored_repository service) then m
     else (case parsePrismaRepository (stored_repository service) of
        Inl _ \<Rightarrow> m | Inr parsed \<Rightarrow> repository_entry service parsed m))"

definition uniquePrismaRepositories :: "jsv list \<Rightarrow> jsv list" where
  "uniquePrismaRepositories rows = map snd (fold add_service rows [])"

definition prisma_in_scope :: "string list \<Rightarrow> jsv \<Rightarrow> bool" where
  "prisma_in_scope ids service = (ids = [] \<or> to_str (jget (jget service ''project'') ''organizationId'') \<in> set ids)"

definition has_repository :: "string \<Rightarrow> jsv \<Rightarrow> bool" where
  "has_repository normalized service =
     (normalizePrismaRepositoryId (jor (stored_repository service) (JStr [])) = normalized)"

section \<open>The choice of the repository\<close>

text \<open>The kind and whether the environment is production.\<close>

definition resolveControlPlaneRepositoryConfig :: "jsv \<Rightarrow> jsv \<Rightarrow> (string \<times> bool) res" where
  "resolveControlPlaneRepositoryConfig options env = (let
     rawKind = str_lower (str_trim (to_str (jor (jget options ''kind'') (jor (jget env ''RAIBITSERVER_PERSISTENCE'') (JStr [])))));
     production = (jget env ''NODE_ENV'' = JStr ''production'');
     kind = (if rawKind \<noteq> [] then rawKind else if production then ''prisma'' else ''memory'')
   in if kind \<notin> set [''memory'', ''prisma''] then js_throw (''unsupported RAIBITSERVER_PERSISTENCE kind: '' @ kind)
      else if production \<and> kind = ''memory'' \<and> jget env ''RAIBITSERVER_ALLOW_MEMORY_PERSISTENCE'' \<noteq> JStr ''1''
        then js_throw ''in-memory persistence is disabled in production; set RAIBITSERVER_PERSISTENCE=prisma with DATABASE_URL''
      else if production \<and> kind = ''prisma'' \<and> \<not> truthy (jget env ''DATABASE_URL'')
        then js_throw ''DATABASE_URL is required for production Prisma persistence''
      else if production \<and> kind = ''prisma'' \<and> \<not> secretEncryptionConfigured env
        then js_throw ''RAIBITSERVER_SECRET_ENCRYPTION_KEY must be at least 32 characters for production Prisma persistence''
      else Inr (kind, production))"

end
