(* ===== verification/Prisma.thy ===== *)
theory Prisma
  imports PersistRows StoreConsole
begin

text \<open>
  The Prisma repository of \<open>persistence.ts\<close>: accounts, projects, services, resources and their connection
  secrets, variables of services. The Prisma client is a parameter, a responder to queries (model, method and
  argument); each operation is a run over it, and a query that fails throws. \<open>create\<close>, \<open>update\<close> and
  \<open>upsert\<close> hand out the row and \<open>findMany\<close> an array of rows. Names that the store uses too end in \<open>P\<close>.
\<close>

section \<open>Queries\<close>

datatype prisma_call =
  Query string string jsv
| BeginTx
| CommitTx
| RollbackTx
| ImportClient string
| NewClient jsv
| ConnectClient
| DisconnectClient

type_synonym prisma = "prisma_call responder"
type_synonym 'a prisma_run = "(prisma_call, 'a) run"

record surroundings = world +
  sUrl :: url_parser
  sDriver :: driver

definition run_lift :: "'a res \<Rightarrow> ('c, 'a) run" where
  "run_lift r = run_ret r"

definition run_val :: "'a \<Rightarrow> ('c, 'a) run" where
  "run_val x = run_ret (Inr x)"

definition run_then :: "('c, 'a) run \<Rightarrow> ('c, 'b) run \<Rightarrow> ('c, 'b) run" where
  "run_then m k = run_bind m (\<lambda>_. k)"

text \<open>\<open>m.catch(() => v)\<close>\<close>

definition run_or :: "'a \<Rightarrow> ('c, 'a) run \<Rightarrow> ('c, 'a) run" where
  "run_or v m = (\<lambda>tr. case m tr of (Inl _, tr') \<Rightarrow> (Inr v, tr') | x \<Rightarrow> x)"

fun run_for :: "('a \<Rightarrow> ('c, 'b) run) \<Rightarrow> 'a list \<Rightarrow> ('c, 'b list) run" where
  "run_for f [] = run_val []"
| "run_for f (x # xs) = run_bind (f x) (\<lambda>y. run_bind (run_for f xs) (\<lambda>ys. run_val (y # ys)))"

text \<open>\<open>prisma.$transaction(async (tx) => ...)\<close>: what throws inside rolls back and is thrown on.\<close>

definition in_transaction :: "prisma \<Rightarrow> 'a prisma_run \<Rightarrow> 'a prisma_run" where
  "in_transaction d m = run_bind (call d BeginTx) (\<lambda>_ tr. case m tr of
      (Inl e, tr') \<Rightarrow> (Inl e, snd (call d RollbackTx tr'))
    | (Inr x, tr') \<Rightarrow> run_bind (call d CommitTx) (\<lambda>_. run_val x) tr')"

definition query :: "prisma \<Rightarrow> string \<Rightarrow> string \<Rightarrow> (string \<times> jsv) list \<Rightarrow> jsv prisma_run" where
  "query d model_name operation args = call d (Query model_name operation (JObj args))"

definition where_id :: "jsv \<Rightarrow> string \<times> jsv" where
  "where_id i = (''where'', JObj [(''id'', i)])"

definition find_unique :: "prisma \<Rightarrow> string \<Rightarrow> jsv \<Rightarrow> jsv prisma_run" where
  "find_unique d model_name i = query d model_name ''findUnique'' [where_id i]"

definition find_many :: "prisma \<Rightarrow> string \<Rightarrow> (string \<times> jsv) list \<Rightarrow> jsv prisma_run" where
  "find_many d model_name filters = query d model_name ''findMany'' [(''where'', JObj filters)]"

definition upsert :: "prisma \<Rightarrow> string \<Rightarrow> (string \<times> jsv) list \<Rightarrow> jsv \<Rightarrow> jsv \<Rightarrow> jsv prisma_run" where
  "upsert d model_name key updated created = query d model_name ''upsert''
     [(''where'', JObj key), (''update'', updated), (''create'', created)]"

definition create_row :: "prisma \<Rightarrow> string \<Rightarrow> jsv \<Rightarrow> jsv prisma_run" where
  "create_row d model_name data = query d model_name ''create'' [(''data'', data)]"

definition update_row :: "prisma \<Rightarrow> string \<Rightarrow> jsv \<Rightarrow> jsv \<Rightarrow> jsv prisma_run" where
  "update_row d model_name i data = query d model_name ''update'' [where_id i, (''data'', data)]"

definition delete_row :: "prisma \<Rightarrow> string \<Rightarrow> jsv \<Rightarrow> jsv prisma_run" where
  "delete_row d model_name i = query d model_name ''delete'' [where_id i]"

definition audit_log :: "prisma \<Rightarrow> jsv \<Rightarrow> string \<Rightarrow> string \<Rightarrow> jsv \<Rightarrow> jsv \<Rightarrow> jsv prisma_run" where
  "audit_log d actor action targetType targetId metadata = create_row d ''auditLog'' (JObj [(''actorUserId'', actor),
     (''action'', JStr action), (''targetType'', JStr targetType), (''targetId'', targetId), (''metadata'', metadata)])"

text \<open>Random draws: the \<open>k\<close>-th one after the queries made so far.\<close>

definition draws :: "surroundings \<Rightarrow> ('c, nat \<Rightarrow> string) run" where
  "draws w = (\<lambda>tr. (Inr (wDraw w (length tr)), tr))"

section \<open>The client\<close>

definition connect :: "prisma \<Rightarrow> jsv \<Rightarrow> jsv prisma_run" where
  "connect d options = run_then (call d (ImportClient (to_str (jor (jget options ''clientModule'') (JStr ''@prisma/client'')))))
     (run_bind (call d (NewClient (jor (jget options ''prismaOptions'') (JObj [])))) (\<lambda>client.
      run_then (run_when (jget options ''connect'' \<noteq> JBool False) (call d ConnectClient)) (run_val client)))"

definition disconnect :: "prisma \<Rightarrow> jsv prisma_run" where
  "disconnect d = call d DisconnectClient"

section \<open>Accounts\<close>

definition slug_or_name :: "jsv \<Rightarrow> jsv" where
  "slug_or_name input = jor (jget input ''slug'') (JStr (slugInput (jget input ''name'')))"

definition createOrganizationP :: "prisma \<Rightarrow> jsv \<Rightarrow> jsv prisma_run" where
  "createOrganizationP d input = (let slug = slug_or_name input; plan = jor (jget input ''plan'') (JStr ''free'');
     name = jget input ''name''
   in upsert d ''organization'' [(''slug'', slug)] (JObj [(''name'', name), (''plan'', plan)])
        (JObj [(''name'', name), (''slug'', slug), (''plan'', plan)]))"

definition findOrganizationBySlugP :: "prisma \<Rightarrow> jsv \<Rightarrow> jsv prisma_run" where
  "findOrganizationBySlugP d slug = query d ''organization'' ''findUnique'' [(''where'', JObj [(''slug'', JStr (slugInput slug))])]"

definition or_undefined :: "jsv \<Rightarrow> string \<Rightarrow> string \<times> jsv" where
  "or_undefined v k = (k, jor (jget v k) JUndef)"

definition createUserP :: "prisma \<Rightarrow> jsv \<Rightarrow> jsv prisma_run" where
  "createUserP d input = (let name = jget input ''name''; email = jget input ''email'' in
     run_bind (run_lift (normalizeAccountType (jget input ''accountType'') JUndef)) (\<lambda>accountType.
     run_bind (upsert d ''user'' [(''email'', email)]
       (JObj [(''name'', name), or_null input ''avatarUrl'', or_null input ''githubId'', or_undefined input ''passwordHash'',
          or_undefined input ''role'', (''accountType'', accountType), or_undefined input ''approvalStatus''])
       (JObj [(''name'', name), (''email'', email), or_null input ''avatarUrl'', or_null input ''githubId'',
          or_null input ''passwordHash'', (''role'', jor (jget input ''role'') (JStr ''USER'')), (''accountType'', accountType),
          (''approvalStatus'', jor (jget input ''approvalStatus'') (JStr ''PENDING''))])) (\<lambda>user.
     run_val (redactPrismaUser user))))"

definition findUserByEmailP :: "prisma \<Rightarrow> jsv \<Rightarrow> jsv prisma_run" where
  "findUserByEmailP d email = query d ''user'' ''findUnique'' [(''where'', JObj [(''email'', JStr (lower_text email))])]"

definition findUserByGitHubIdP :: "prisma \<Rightarrow> jsv \<Rightarrow> jsv prisma_run" where
  "findUserByGitHubIdP d githubId = (let i = str_trim (to_str (jor githubId (JStr []))) in
     if i = [] then run_val JNull
     else query d ''user'' ''findFirst'' [(''where'', JObj [(''githubId'', JStr i)])])"

definition link_data :: "jsv \<Rightarrow> jsv" where
  "link_data input = set_given ''name'' (jget input ''name'') (set_given ''avatarUrl'' (jget input ''avatarUrl'')
     (set_given ''githubId'' (jget input ''githubId'') (JObj [])))"

definition linkGitHubUserP :: "prisma \<Rightarrow> jsv \<Rightarrow> jsv \<Rightarrow> jsv prisma_run" where
  "linkGitHubUserP d userId input = (let githubId = jget input ''githubId''; data = link_data input in
     run_bind (if truthy githubId then findUserByGitHubIdP d githubId else run_val JNull) (\<lambda>existing.
     run_then (run_lift (if truthy existing \<and> \<not> same_text (jget existing ''id'') userId
        then forbidden ''github account is already linked to another user'' else Inr ()))
     (run_bind (if entries data \<noteq> [] then update_row d ''user'' userId data else find_unique d ''user'' userId) (\<lambda>user.
     run_then (run_lift (if truthy user then Inr () else js_throw (''user not found: '' @ to_str userId)))
     (run_then (audit_log d (jor (jget input ''actorUserId'') system) ''user.github:link'' ''user'' userId
        (maskSecrets (JObj [(''githubId'', jor githubId (jor (jget user ''githubId'') JNull)), or_null input ''githubLogin''])))
     (run_val (redactPrismaUser user)))))))"

definition addMemberP :: "prisma \<Rightarrow> jsv \<Rightarrow> jsv prisma_run" where
  "addMemberP d input = (let o_id = (''organizationId'', jget input ''organizationId''); u_id = (''userId'', jget input ''userId'');
     role = (''role'', jor (jget input ''role'') (JStr ''developer''))
   in upsert d ''membership'' [(''organizationId_userId'', JObj [o_id, u_id])] (JObj [role]) (JObj [o_id, u_id, role]))"

definition listMembershipsForUserP :: "prisma \<Rightarrow> jsv \<Rightarrow> jsv prisma_run" where
  "listMembershipsForUserP d userId = find_many d ''membership'' [(''userId'', userId)]"

section \<open>Projects and services\<close>

definition createProjectP :: "prisma \<Rightarrow> jsv \<Rightarrow> jsv prisma_run" where
  "createProjectP d input = (let slug = slug_or_name input; o_id = (''organizationId'', jget input ''organizationId'');
     rest = [(''description'', jor (jget input ''description'') (JStr [])), (''status'', jor (jget input ''status'') (JStr ''active''))];
     name = (''name'', jget input ''name'')
   in upsert d ''project'' [(''organizationId_slug'', JObj [o_id, (''slug'', slug)])] (JObj (name # rest))
        (JObj ([o_id, name, (''slug'', slug)] @ rest)))"

definition updateProjectP :: "prisma \<Rightarrow> jsv \<Rightarrow> jsv \<Rightarrow> jsv prisma_run" where
  "updateProjectP d projectId updates = update_row d ''project'' projectId (projectUpdateData updates)"

definition deleteProjectP :: "prisma \<Rightarrow> jsv \<Rightarrow> jsv prisma_run" where
  "deleteProjectP d projectId = delete_row d ''project'' projectId"

definition service_data :: "surroundings \<Rightarrow> jsv \<Rightarrow> ('c, jsv) run" where
  "service_data w input = run_lift (serviceData (sUrl w) (wEnv w) input)"

definition createServiceP :: "prisma \<Rightarrow> surroundings \<Rightarrow> jsv \<Rightarrow> jsv prisma_run" where
  "createServiceP d w input = (let slug = slug_or_name input; p_id = (''projectId'', jget input ''projectId'') in
     run_bind (service_data w input) (\<lambda>data.
     upsert d ''service'' [(''projectId_slug'', JObj [p_id, (''slug'', slug)])] data
       (jspread (JObj [p_id, (''name'', jget input ''name''), (''slug'', slug)]) data)))"

definition updateServiceP :: "prisma \<Rightarrow> surroundings \<Rightarrow> jsv \<Rightarrow> jsv \<Rightarrow> jsv prisma_run" where
  "updateServiceP d w serviceId updates = run_bind (run_lift (serviceUpdateData (sUrl w) (wEnv w) updates)) (\<lambda>data.
     update_row d ''service'' serviceId data)"

definition deleteServiceP :: "prisma \<Rightarrow> jsv \<Rightarrow> jsv prisma_run" where
  "deleteServiceP d serviceId = delete_row d ''service'' serviceId"

definition getProjectP :: "prisma \<Rightarrow> jsv \<Rightarrow> jsv prisma_run" where
  "getProjectP d projectId = find_unique d ''project'' projectId"

definition getServiceP :: "prisma \<Rightarrow> jsv \<Rightarrow> jsv prisma_run" where
  "getServiceP d serviceId = find_unique d ''service'' serviceId"

definition getResourceP :: "prisma \<Rightarrow> jsv \<Rightarrow> jsv prisma_run" where
  "getResourceP d resourceId = find_unique d ''resource'' resourceId"

definition getDeploymentP :: "prisma \<Rightarrow> jsv \<Rightarrow> jsv prisma_run" where
  "getDeploymentP d deploymentId = find_unique d ''deployment'' deploymentId"

definition listed :: "prisma \<Rightarrow> string \<Rightarrow> string \<times> jsv \<Rightarrow> string \<Rightarrow> string \<Rightarrow> jsv prisma_run" where
  "listed d model_name filter_field order_field direction = query d model_name ''findMany''
     [(''where'', JObj [filter_field]), (''orderBy'', JObj [(order_field, JStr direction)])]"

definition listServicesForProjectP :: "prisma \<Rightarrow> jsv \<Rightarrow> jsv prisma_run" where
  "listServicesForProjectP d projectId = listed d ''service'' (''projectId'', projectId) ''createdAt'' ''asc''"

definition listResourcesForProjectP :: "prisma \<Rightarrow> jsv \<Rightarrow> jsv prisma_run" where
  "listResourcesForProjectP d projectId = listed d ''resource'' (''projectId'', projectId) ''createdAt'' ''asc''"

definition listDeploymentsForServiceP :: "prisma \<Rightarrow> jsv \<Rightarrow> jsv prisma_run" where
  "listDeploymentsForServiceP d serviceId = listed d ''deployment'' (''serviceId'', serviceId) ''createdAt'' ''desc''"

section \<open>Secrets\<close>

text \<open>The row of a secret is sealed anew for the update and for the creation; draws 4 and 5 are their
  initialisation vectors.\<close>

definition seal :: "surroundings \<Rightarrow> nat \<Rightarrow> jsv \<Rightarrow> ('c, jsv) run" where
  "seal w k v = run_bind (draws w) (\<lambda>rnd.
     run_lift (rbind (sealSecret (wCrypto w) (rnd k) (wEnv w) v (JObj [])) (\<lambda>s. Inr (JStr s))))"

definition secret_columns :: "jsv \<Rightarrow> jsv \<Rightarrow> jsv \<Rightarrow> (string \<times> jsv) list" where
  "secret_columns sealed v metadata = [(''sealedValue'', sealed), (''valueMasked'', maskSecretValue v),
     (''metadata'', maskSecrets metadata)]"

definition secret_key :: "string \<Rightarrow> jsv \<Rightarrow> jsv \<Rightarrow> (string \<times> jsv) list" where
  "secret_key scopeType scopeId key = [(''scopeType'', JStr scopeType), (''scopeId'', scopeId), (''key'', key)]"

definition upsert_secret :: "prisma \<Rightarrow> surroundings \<Rightarrow> string \<Rightarrow> jsv \<Rightarrow> jsv \<Rightarrow> jsv \<Rightarrow> jsv \<Rightarrow> jsv prisma_run" where
  "upsert_secret d w scopeType scopeId key v metadata = (let ks = secret_key scopeType scopeId key in
     run_bind (seal w 4 v) (\<lambda>updated. run_bind (seal w 5 v) (\<lambda>created.
     upsert d ''secretValue'' [(''scopeType_scopeId_key'', JObj ks)] (JObj (secret_columns updated v metadata))
       (JObj (ks @ secret_columns created v metadata)))))"

definition provider_env :: "surroundings \<Rightarrow> jsv \<Rightarrow> ('c, jsv) run" where
  "provider_env w row = run_bind (draws w) (\<lambda>rnd.
     run_lift (providerConnectionEnvForResource (wEnv w) (wCwd w) rnd row (JObj [])))"

definition PROVIDER_SCOPE :: string where
  "PROVIDER_SCOPE = ''resource-provider-connection''"

fun upsert_connection :: "prisma \<Rightarrow> surroundings \<Rightarrow> jsv \<Rightarrow> jsv \<Rightarrow> jsv \<Rightarrow> (string \<times> jsv) list \<Rightarrow> jsv prisma_run" where
  "upsert_connection d w resourceId metadata firstSecretId [] = run_val firstSecretId"
| "upsert_connection d w resourceId metadata firstSecretId ((key, v) # es) =
     run_bind (upsert_secret d w PROVIDER_SCOPE resourceId (JStr key) (JStr (to_str v)) metadata) (\<lambda>secret.
     upsert_connection d w resourceId metadata (if truthy firstSecretId then firstSecretId else jget secret ''id'') es)"

definition attachProviderConnectionSecretsP :: "prisma \<Rightarrow> surroundings \<Rightarrow> jsv \<Rightarrow> jsv prisma_run" where
  "attachProviderConnectionSecretsP d w input = (let
     resourceId = jget input ''resourceId''; es = connection_entries (jdefault (jget input ''env'') (JObj []));
     actorUserId = jdefault (jget input ''actorUserId'') (JStr ''provider'');
     providerMode = jdefault (jget input ''providerMode'') (JStr ''provider-contract'');
     metadata = JObj [(''providerOwned'', JBool True), (''live'', JBool (jget input ''live'' = JBool True)),
       (''providerMode'', providerMode)]
   in if es = [] then run_lift (js_throw ''provider connection env is required'')
      else run_bind (getResourceP d resourceId) (\<lambda>resource.
      run_bind (upsert_connection d w resourceId metadata (jor (jget resource ''connectionSecretName'') JNull) es) (\<lambda>firstSecretId.
      run_bind (update_row d ''resource'' resourceId (JObj [(''connectionSecretName'', firstSecretId)])) (\<lambda>updated.
      run_then (audit_log d actorUserId ''resource.provider-connection:attach'' ''resource'' resourceId
        (maskSecrets (JObj [(''connectionSecretName'', firstSecretId), (''envKeys'', JArr (map (\<lambda>(k, _). JStr k) es)),
           (''providerMode'', providerMode)])))
      (run_val updated)))))"

definition attachProviderConnectionSecretP :: "prisma \<Rightarrow> surroundings \<Rightarrow> jsv \<Rightarrow> jsv prisma_run" where
  "attachProviderConnectionSecretP d w input = (let
     v = jor (jget input ''databaseUrl'') (jget input ''connectionUrl''); live = jdefault (jget input ''live'') (JBool True)
   in if \<not> truthy v then run_lift (js_throw ''provider connection URL is required'')
      else attachProviderConnectionSecretsP d w (JObj [(''resourceId'', jget input ''resourceId''),
        (''env'', JObj [(to_str (jdefault (jget input ''key'') (JStr ''DATABASE_URL'')), v)]),
        (''actorUserId'', jdefault (jget input ''actorUserId'') (JStr ''provider'')), (''live'', live),
        (''providerMode'', JStr (if live = JBool False then ''provider-contract'' else ''live-provider''))]))"

end
