(* ===== verification/PrismaWork.thy ===== *)
theory PrismaWork
  imports Prisma StoreWebhook
begin

text \<open>
  The Prisma repository of \<open>persistence.ts\<close>, continued: managed resources, the variables of services,
  deployments, the workflow queue, logs, the database console, quotas and the desired state of a project.
\<close>

section \<open>Resources\<close>

definition by_name :: "jsv \<Rightarrow> jsv \<Rightarrow> (string \<times> jsv) list" where
  "by_name projectId name = [(''projectId_name'', JObj [(''projectId'', projectId), (''name'', name)])]"

definition known_secret :: "prisma \<Rightarrow> jsv \<Rightarrow> jsv \<Rightarrow> jsv prisma_run" where
  "known_secret d projectId name = run_bind (run_or JNull (query d ''resource'' ''findUnique''
       [(''where'', JObj (by_name projectId name)), (''select'', JObj [(''connectionSecretName'', JBool True)])])) (\<lambda>existing.
     run_val (JObj [or_null existing ''connectionSecretName'']))"

definition contract_secrets :: "prisma \<Rightarrow> surroundings \<Rightarrow> jsv \<Rightarrow> jsv \<Rightarrow> jsv prisma_run" where
  "contract_secrets d w resourceId row = run_bind (provider_env w row) (\<lambda>env.
     attachProviderConnectionSecretsP d w (JObj [(''resourceId'', resourceId), (''env'', env), (''actorUserId'', system),
       (''live'', JBool False), (''providerMode'', JStr ''provider-contract'')]))"

definition createResourceP :: "prisma \<Rightarrow> surroundings \<Rightarrow> jsv \<Rightarrow> jsv prisma_run" where
  "createResourceP d w input = (let projectId = jget input ''projectId''; name = jget input ''name'' in
     run_bind (known_secret d projectId name) (\<lambda>known.
     run_bind (upsert d ''resource'' (by_name projectId name) (resourceData (wCwd w) input known)
        (jspread (JObj [(''projectId'', projectId), (''name'', name), (''slug'', slug_or_name input)])
           (resourceData (wCwd w) input (JObj [])))) (\<lambda>row.
     run_then (contract_secrets d w (jget row ''id'') row) (getResourceP d (jget row ''id'')))))"

definition updateResourceP :: "prisma \<Rightarrow> surroundings \<Rightarrow> jsv \<Rightarrow> jsv \<Rightarrow> jsv prisma_run" where
  "updateResourceP d w resourceId updates = run_bind (getResourceP d resourceId) (\<lambda>current.
     if \<not> truthy current then run_val JNull
     else run_bind (update_row d ''resource'' resourceId (resourceData (wCwd w)
          (jwith (jspread (JObj (entries current)) updates) [(''projectId'', jget current ''projectId''),
             (''name'', jor (jget updates ''name'') (jget current ''name''))])
          (JObj [or_null current ''connectionSecretName'']))) (\<lambda>updated.
       run_then (run_when (list_ex (\<lambda>k. truthy (jget updates k)) [''engine'', ''name'', ''provider'', ''desiredSpec''])
          (contract_secrets d w resourceId updated))
       (run_then (audit_log d system ''resource:update'' ''resource'' resourceId (maskSecrets updates))
       (getResourceP d resourceId))))"

definition drop_injected :: "prisma \<Rightarrow> jsv \<Rightarrow> string \<Rightarrow> jsv prisma_run" where
  "drop_injected d attachment key = (let
     unique = (''where'', JObj [(''serviceId_key'', JObj [(''serviceId'', jget attachment ''serviceId''), (''key'', JStr key)])])
   in run_bind (run_or JNull (query d ''environmentVariable'' ''findUnique'' [unique])) (\<lambda>row.
      if jget row ''source'' \<noteq> JStr (''resource:'' @ to_str (jget attachment ''resourceId'')) then run_val JUndef
      else run_then (run_when (truthy (jget row ''secretRef'')) (run_or JNull (delete_row d ''secretValue'' (jget row ''secretRef''))))
        (run_or JNull (query d ''environmentVariable'' ''delete'' [unique]))))"

definition removeResourceInjectedEnvironmentP :: "prisma \<Rightarrow> jsv \<Rightarrow> jsv list prisma_run" where
  "removeResourceInjectedEnvironmentP d attachment =
     run_for (drop_injected d attachment) (map fst (entries (jor (jget attachment ''injectedEnv'') (JObj []))))"

definition deleteResourceP :: "prisma \<Rightarrow> jsv \<Rightarrow> jsv prisma_run" where
  "deleteResourceP d resourceId = run_bind (getResourceP d resourceId) (\<lambda>current.
     if \<not> truthy current then run_val JNull
     else run_bind (run_or (JArr []) (find_many d ''resourceAttachment'' [(''resourceId'', resourceId)])) (\<lambda>attachments.
       run_then (run_for (removeResourceInjectedEnvironmentP d) (items attachments))
       (run_then (run_or JNull (query d ''secretValue'' ''deleteMany''
          [(''where'', JObj [(''scopeType'', JStr PROVIDER_SCOPE), (''scopeId'', resourceId)])]))
       (run_bind (delete_row d ''resource'' resourceId) (\<lambda>deleted.
       run_then (audit_log d system ''resource:delete'' ''resource'' resourceId (maskSecrets
          (JObj [(''projectId'', jget current ''projectId''), (''engine'', jget current ''engine'')])))
       (run_val deleted))))))"

definition found_resource :: "prisma \<Rightarrow> jsv \<Rightarrow> 'a res \<Rightarrow> (jsv \<Rightarrow> 'a prisma_run) \<Rightarrow> 'a prisma_run" where
  "found_resource d resourceId missing f = run_bind (getResourceP d resourceId) (\<lambda>resource.
     if truthy resource then f resource else run_lift missing)"

definition provisionResourceProviderP :: "prisma \<Rightarrow> surroundings \<Rightarrow> jsv \<Rightarrow> jsv prisma_run" where
  "provisionResourceProviderP d w input = (let
     resourceId = jget input ''resourceId''; actorUserId = jdefault (jget input ''actorUserId'') (JStr ''provider'');
     options = jrest input [''resourceId'', ''actorUserId'']
   in found_resource d resourceId (js_throw (''resource not found: '' @ to_str resourceId)) (\<lambda>resource.
      run_bind (draws w) (\<lambda>rnd.
      run_bind (run_lift (provisionResourceProvider (wProcess w) (wEnv w) (wCwd w) rnd resource options)) (\<lambda>result.
      run_bind (if truthy (prConnectionEnv result) then run_val (prConnectionEnv result) else provider_env w resource) (\<lambda>env.
      let view = prView result; dryRun = jget view ''dryRun'' in
      run_bind (attachProviderConnectionSecretsP d w (JObj [(''resourceId'', resourceId), (''env'', env),
         (''actorUserId'', actorUserId), (''live'', JBool (dryRun \<noteq> JBool True)),
         (''providerMode'', JStr (if truthy dryRun then ''provider-contract'' else ''live-provider''))])) (\<lambda>attached.
      run_bind (update_row d ''resource'' resourceId (JObj [(''status'', JStr ''ready''), (''provider'', jget view ''provider''),
         (''desiredState'', maskSecrets (jwith (JObj (entries (jor (jget attached ''desiredState'') (JObj []))))
            [(''providerResult'', jget view ''plan'')]))])) (\<lambda>updated.
      run_then (audit_log d actorUserId ''resource.provider:provision'' ''resource'' resourceId (maskSecrets (JObj
         [(''engine'', jget view ''engine''), (''provider'', jget view ''provider''), (''dryRun'', dryRun),
          (''connectionSecret'', jget view ''connectionSecret'')])))
      (run_val (JObj [(''resource'', updated),
         (''result'', maskSecrets (jwith view [(''databaseUrl'', JUndef), (''connectionEnv'', JUndef)]))])))))))))"

section \<open>Variables of services\<close>

definition is_secret_row :: "jsv \<Rightarrow> bool" where
  "is_secret_row row = truthy (jget row ''isSecret'')"

definition env_view :: "jsv \<Rightarrow> jsv list \<Rightarrow> jsv" where
  "env_view serviceId rows = JObj [(''serviceId'', serviceId), (''entries'', JArr (map maskEnvRow rows)),
     (''plainCount'', jnat (length (filter (\<lambda>r. \<not> is_secret_row r) rows))),
     (''secretCount'', jnat (length (filter is_secret_row rows)))]"

definition upsert_variable :: "prisma \<Rightarrow> surroundings \<Rightarrow> jsv \<Rightarrow> jsv \<Rightarrow> jsv prisma_run" where
  "upsert_variable d w input entry = (let
     serviceId = jget input ''serviceId''; key = jget entry ''key'';
     source = jor (jget entry ''source'') (jor (jget input ''source'') (JStr ''api''))
   in run_bind (if truthy (jget entry ''isSecret'')
        then run_bind (upsert_secret d w ''service'' serviceId key (jget entry ''value'') (JObj [(''source'', source)]))
          (\<lambda>secret. run_val (jget secret ''id''))
        else run_val (jor (jget entry ''secretId'') JNull)) (\<lambda>secretRef.
      let data = envVariableData (jwith entry [(''projectId'', jget input ''projectId''), (''serviceId'', serviceId),
            (''source'', source), (''secretRef'', secretRef)])
      in upsert d ''environmentVariable'' [(''serviceId_key'', JObj [(''serviceId'', serviceId), (''key'', jget data ''key'')])]
           data data))"

definition upsertServiceEnvironmentP :: "prisma \<Rightarrow> surroundings \<Rightarrow> jsv \<Rightarrow> jsv prisma_run" where
  "upsertServiceEnvironmentP d w input = (let serviceId = jget input ''serviceId'' in
     run_bind (run_lift (normalizeEnvEntries (jor (jget input ''entries'') (JArr []))
        (JObj [(''source'', jor (jget input ''source'') (JStr ''api''))]))) (\<lambda>normalized.
     run_bind (run_for (upsert_variable d w input) normalized) (\<lambda>rows.
     run_then (audit_log d (jor (jget input ''actorUserId'') system) ''service.env:upsert'' ''service'' serviceId
        (maskSecrets (JObj [(''keys'', JArr (map (\<lambda>row. jget row ''key'') rows))])))
     (run_val (env_view serviceId rows)))))"

definition importServiceEnvFileP :: "prisma \<Rightarrow> surroundings \<Rightarrow> jsv \<Rightarrow> jsv prisma_run" where
  "importServiceEnvFileP d w input = (let source = jor (jget input ''source'') (JStr ''.env'') in
     run_bind (run_lift (parseDotEnv (JStr (to_str (jor (jget input ''content'') (JStr [])))) (JObj [(''source'', source)]))) (\<lambda>parsed.
     run_bind (upsertServiceEnvironmentP d w (jwith input [(''entries'', jget parsed ''entries'')])) (\<lambda>result.
     run_val (jwith result [(''source'', source), (''parsed'', JObj [(''plainCount'', jget parsed ''plainCount''),
        (''secretCount'', jget parsed ''secretCount''), (''errors'', jget parsed ''errors'')])]))))"

definition listServiceEnvironmentP :: "prisma \<Rightarrow> jsv \<Rightarrow> jsv prisma_run" where
  "listServiceEnvironmentP d input = (let serviceId = jget input ''serviceId'' in
     run_bind (find_many d ''environmentVariable'' [(''serviceId'', serviceId)]) (\<lambda>rows. run_val (env_view serviceId (items rows))))"

section \<open>Logs and events\<close>

definition appendBuildLogP :: "prisma \<Rightarrow> jsv \<Rightarrow> jsv prisma_run" where
  "appendBuildLogP d input = create_row d ''buildLog'' (JObj [(''deploymentId'', jget input ''deploymentId''),
     (''step'', jor (jget input ''step'') (JStr ''build'')), (''line'', maskLogLine (jget input ''line'')),
     (''level'', jor (jget input ''level'') (JStr ''info''))])"

definition appendRuntimeLogP :: "prisma \<Rightarrow> jsv \<Rightarrow> jsv prisma_run" where
  "appendRuntimeLogP d input = create_row d ''runtimeLog'' (JObj [(''serviceId'', jget input ''serviceId''),
     or_null input ''deploymentId'', (''podName'', jor (jget input ''podName'') (JStr ''local-pod'')),
     (''containerName'', jor (jget input ''containerName'') (JStr ''app'')), (''line'', maskLogLine (jget input ''line'')),
     (''level'', jor (jget input ''level'') (JStr ''info''))])"

definition appendDeploymentEventP :: "prisma \<Rightarrow> jsv \<Rightarrow> jsv prisma_run" where
  "appendDeploymentEventP d input = create_row d ''deploymentEvent'' (JObj [(''deploymentId'', jget input ''deploymentId''),
     (''type'', jor (jget input ''type'') (JStr ''deployment.event'')), (''message'', maskLogLine (jget input ''message'')),
     (''metadata'', sanitizeJson (jor (jget input ''metadata'') (JObj [])))])"

definition event_of :: "jsv \<Rightarrow> string \<Rightarrow> string \<Rightarrow> (string \<times> jsv) list \<Rightarrow> jsv" where
  "event_of deploymentId type msg metadata = JObj [(''deploymentId'', deploymentId), (''type'', JStr type),
     (''message'', JStr msg), (''metadata'', JObj metadata)]"

definition listDeploymentLogsP :: "prisma \<Rightarrow> jsv \<Rightarrow> jsv prisma_run" where
  "listDeploymentLogsP d deploymentId = listed d ''buildLog'' (''deploymentId'', deploymentId) ''timestamp'' ''asc''"

definition listRuntimeLogsP :: "prisma \<Rightarrow> jsv \<Rightarrow> jsv prisma_run" where
  "listRuntimeLogsP d serviceId = listed d ''runtimeLog'' (''serviceId'', serviceId) ''timestamp'' ''asc''"

definition listDeploymentEventsP :: "prisma \<Rightarrow> jsv \<Rightarrow> jsv prisma_run" where
  "listDeploymentEventsP d deploymentId = listed d ''deploymentEvent'' (''deploymentId'', deploymentId) ''timestamp'' ''asc''"

section \<open>The workflow queue\<close>

definition enqueueWorkflowJobP :: "prisma \<Rightarrow> surroundings \<Rightarrow> jsv \<Rightarrow> jsv prisma_run" where
  "enqueueWorkflowJobP d w input = create_row d ''workflowJob'' (workflowJobData (wNow w) input)"

definition time_ms :: "jsv \<Rightarrow> jnum" where
  "time_ms v = (case date_value v of Some t \<Rightarrow> Fin (of_int t) | None \<Rightarrow> NaN)"

definition lease_ms :: "jsv \<Rightarrow> jnum" where
  "lease_ms options = to_num (jnullish (jget options ''leaseMs'')
     (JNum (num_scale 1000 (to_num (jor (jget options ''leaseSeconds'') (jint 300))))))"

definition claimable :: "jsv \<Rightarrow> jsv \<Rightarrow> (string \<times> jsv) list" where
  "claimable now expiredBefore = [(''status'', JStr ''queued''), (''runAfter'', JObj [(''lte'', now)]),
     (''OR'', JArr [JObj [(''lockedAt'', JNull)], JObj [(''lockedAt'', JObj [(''lte'', expiredBefore)])]])]"

definition claim_data :: "jsv \<Rightarrow> jsv \<Rightarrow> jsv" where
  "claim_data options now = JObj [(''status'', JStr ''running''), (''attempts'', JObj [(''increment'', jint 1)]),
     (''lockedBy'', worker_name options), (''lockedAt'', now)]"

fun claim_attempts :: "prisma \<Rightarrow> jsv \<Rightarrow> jsv \<Rightarrow> jsv \<Rightarrow> nat \<Rightarrow> jsv prisma_run" where
  "claim_attempts d options now expiredBefore 0 = run_val JNull"
| "claim_attempts d options now expiredBefore (Suc n) =
     run_bind (query d ''workflowJob'' ''findFirst'' [(''where'', JObj (claimable now expiredBefore)),
        (''orderBy'', JArr [JObj [(''runAfter'', JStr ''asc'')], JObj [(''createdAt'', JStr ''asc'')]])]) (\<lambda>job.
     if \<not> truthy job then run_val JNull
     else run_bind (query d ''workflowJob'' ''updateMany'' [
          (''where'', JObj ((''id'', jget job ''id'') # claimable now expiredBefore)), (''data'', claim_data options now)]) (\<lambda>updated.
       if jget updated ''count'' = jint 1 then find_unique d ''workflowJob'' (jget job ''id'')
       else claim_attempts d options now expiredBefore n))"

definition claimNextWorkflowJobP :: "prisma \<Rightarrow> surroundings \<Rightarrow> jsv \<Rightarrow> jsv prisma_run" where
  "claimNextWorkflowJobP d w options = (let at_time = jor (jget options ''now'') (jint (wNow w)) in
     claim_attempts d options (new_date at_time) (new_date (JNum (num_sub (time_ms at_time) (lease_ms options)))) 3)"

definition current_job :: "prisma \<Rightarrow> jsv \<Rightarrow> (jsv \<Rightarrow> jsv prisma_run) \<Rightarrow> jsv prisma_run" where
  "current_job d jobId f = run_bind (find_unique d ''workflowJob'' jobId) (\<lambda>current.
     if truthy current then f current else run_lift (js_throw (''workflow job not found: '' @ to_str jobId)))"

definition store_job :: "prisma \<Rightarrow> surroundings \<Rightarrow> jsv \<Rightarrow> jsv res \<Rightarrow> jsv prisma_run" where
  "store_job d w jobId nxt = run_bind (run_lift nxt) (\<lambda>row.
     update_row d ''workflowJob'' jobId (prismaWorkflowJobUpdateData (wNow w) row))"

definition completeWorkflowJobP :: "prisma \<Rightarrow> surroundings \<Rightarrow> jsv \<Rightarrow> jsv \<Rightarrow> jsv \<Rightarrow> jsv prisma_run" where
  "completeWorkflowJobP d w jobId result options = current_job d jobId (\<lambda>current.
     store_job d w jobId (if truthy (jget options ''record'') then Inr (jget options ''record'')
       else completeWorkflowJobRecord current (jdefault result (JObj [])) options (wNow w)))"

definition failWorkflowJobP :: "prisma \<Rightarrow> surroundings \<Rightarrow> jsv \<Rightarrow> jsv \<Rightarrow> jsv \<Rightarrow> jsv prisma_run" where
  "failWorkflowJobP d w jobId error options = current_job d jobId (\<lambda>current.
     store_job d w jobId (if truthy (jget options ''record'') then Inr (jget options ''record'')
       else failWorkflowJobRecord current error options (wNow w)))"

text \<open>What \<open>processNextWorkflowJob\<close> calls on this repository; the state is the trace of its queries.\<close>

definition as_answer :: "'a res \<times> 'c list \<Rightarrow> ('a \<times> 'c list) res" where
  "as_answer p = (case p of (Inl e, _) \<Rightarrow> Inl e | (Inr x, tr) \<Rightarrow> Inr (x, tr))"

definition prisma_queue :: "prisma \<Rightarrow> surroundings \<Rightarrow> prisma_call list queue_ops" where
  "prisma_queue d w = \<lparr>
     claimFromQueue = (\<lambda>tr options t. rbind (as_answer (claimNextWorkflowJobP d (w\<lparr>wNow := t\<rparr>) options tr))
        (\<lambda>(job, tr'). Inr (if truthy job then Some job else None, tr'))),
     completeInQueue = (\<lambda>tr claimed completed options t. only_effect (completeWorkflowJobP d (w\<lparr>wNow := t\<rparr>)
        (jget claimed ''id'') (jget (jget completed ''payload'') ''lastResult'') (with_record options completed) tr)),
     failInQueue = (\<lambda>tr claimed failed options t. rbind (as_answer (failWorkflowJobP d (w\<lparr>wNow := t\<rparr>)
        (jget claimed ''id'') (jget (jget failed ''payload'') ''lastError'') (with_record options failed) tr)) (\<lambda>(_, tr'). Inr tr'))\<rparr>"

definition processNextWorkflowJobP ::
  "prisma \<Rightarrow> surroundings \<Rightarrow> (string \<times> prisma_call list handler) list \<Rightarrow> jsv \<Rightarrow> prisma_call list \<Rightarrow> (jsv \<times> prisma_call list) res" where
  "processNextWorkflowJobP d w handlers options tr = processNextWorkflowJob (prisma_queue d w) handlers tr options (wNow w)"

end
