(* ===== verification/PrismaDeploy.thy ===== *)
theory PrismaDeploy
  imports PrismaWork
begin

text \<open>
  The Prisma repository of \<open>persistence.ts\<close>, last part: deployments and their workflow, GitHub, the console
  of resources, accounts and quotas, the desired state of a project, and the choice of the repository.
\<close>

section \<open>Deployments\<close>

definition create_deployment :: "prisma \<Rightarrow> jsv \<Rightarrow> jsv prisma_run" where
  "create_deployment d input = run_bind (run_lift (deploymentData input)) (create_row d ''deployment'')"

definition createDeploymentP :: "prisma \<Rightarrow> jsv \<Rightarrow> jsv prisma_run" where
  "createDeploymentP d input = (let projectId = jget input ''projectId''; serviceId = jget input ''serviceId'' in
     run_bind (if \<not> truthy projectId \<and> truthy serviceId
        then run_bind (query d ''service'' ''findUnique'' [where_id serviceId, (''select'', JObj [(''projectId'', JBool True)])])
          (\<lambda>service. run_val (jget service ''projectId''))
        else run_val projectId) (\<lambda>p_id.
     create_deployment d (jwith input [(''projectId'', p_id)])))"

definition found_deployment :: "prisma \<Rightarrow> jsv \<Rightarrow> (jsv \<Rightarrow> jsv prisma_run) \<Rightarrow> jsv prisma_run" where
  "found_deployment d deploymentId f = run_bind (getDeploymentP d deploymentId) (\<lambda>current.
     if truthy current then f current else run_lift (notFound (''deployment not found: '' @ to_str deploymentId)))"

definition deployment_metadata :: "jsv \<Rightarrow> jsv \<Rightarrow> jsv \<Rightarrow> jsv" where
  "deployment_metadata current deployment options = jspread (JObj [
     (''from'', normalizeDeploymentStatus (jget current ''status'')), (''to'', normalizeDeploymentStatus (jget deployment ''status'')),
     (''imageUrl'', jget deployment ''imageUrl''), (''imageDigest'', jget deployment ''imageDigest''),
     (''errorCode'', jget deployment ''errorCode'')]) (jor (jget options ''metadata'') (JObj []))"

definition updateDeploymentP :: "prisma \<Rightarrow> surroundings \<Rightarrow> jsv \<Rightarrow> jsv \<Rightarrow> jsv \<Rightarrow> jsv prisma_run" where
  "updateDeploymentP d w deploymentId updates options = found_deployment d deploymentId (\<lambda>current.
     let data = deploymentUpdateData (wNow w) updates current; from = normalizeDeploymentStatus (jget current ''status'') in
     run_then (run_lift (if has_own updates ''status'' \<and> jget options ''validateTransition'' = JBool True
        then assertDeploymentTransition (jget current ''status'') (jget updates ''status'') else Inr True))
     (run_bind (update_row d ''deployment'' deploymentId data) (\<lambda>deployment.
      let to = normalizeDeploymentStatus (jget deployment ''status'');
          changed = (has_own data ''status'' \<and> \<not> strict_eq from to)
      in run_then (run_when ((changed \<or> truthy (jget options ''eventType'')) \<and> jget options ''appendEvent'' \<noteq> JBool False)
           (appendDeploymentEventP d (JObj [(''deploymentId'', deploymentId),
              (''type'', jor (jget options ''eventType'') (JStr ''deployment.status.changed'')),
              (''message'', jor (jget options ''message'') (JStr (status_change (jget current ''status'') to))),
              (''metadata'', deployment_metadata current deployment options)])))
         (run_val deployment))))"

definition transitionDeploymentP :: "prisma \<Rightarrow> surroundings \<Rightarrow> jsv \<Rightarrow> jsv \<Rightarrow> jsv \<Rightarrow> jsv \<Rightarrow> jsv prisma_run" where
  "transitionDeploymentP d w deploymentId status updates options = found_deployment d deploymentId (\<lambda>current.
     let nextStatus = normalizeDeploymentStatus status in
     run_then (run_lift (assertDeploymentTransition (jget current ''status'') nextStatus))
     (run_bind (updateDeploymentP d w deploymentId (jwith updates [(''status'', nextStatus)])
         (jwith options [(''appendEvent'', JBool False)])) (\<lambda>deployment.
      run_then (appendDeploymentEventP d (JObj [(''deploymentId'', deploymentId),
         (''type'', jor (jget options ''eventType'') (JStr ''deployment.status.changed'')),
         (''message'', jor (jget options ''message'') (JStr (status_change (jget current ''status'') nextStatus))),
         (''metadata'', jspread (JObj [(''from'', normalizeDeploymentStatus (jget current ''status'')), (''to'', nextStatus)])
            (jor (jget options ''metadata'') (JObj [])))]))
      (run_val deployment))))"

definition cancelDeploymentP :: "prisma \<Rightarrow> surroundings \<Rightarrow> jsv \<Rightarrow> jsv \<Rightarrow> jsv prisma_run" where
  "cancelDeploymentP d w deploymentId input = (let
     asked = JStr ''Deployment cancellation requested''; reason = jget input ''reason''
   in run_bind (transitionDeploymentP d w deploymentId (JStr ''CANCELLED'')
        (JObj [(''finishedAt'', nowIso (wNow w)), (''errorCode'', jor (jget input ''errorCode'') (JStr ''DEPLOYMENT_CANCELLED'')),
           (''errorMessage'', jor reason (jor (jget input ''errorMessage'') asked))])
        (JObj [(''eventType'', JStr ''deployment.cancelled''), (''message'', jor reason asked)])) (\<lambda>deployment.
      let i = jget deployment ''id'' in
      run_bind (enqueueWorkflowJobP d w (JObj [(''type'', JStr ''deployment-cancel''), (''targetType'', JStr ''deployment''),
         (''targetId'', i), (''payload'', JObj [(''deploymentId'', i), (''serviceId'', jget deployment ''serviceId''),
            (''projectId'', jget deployment ''projectId''), (''reason'', jor reason (JStr ''requested''))])])) (\<lambda>workflowJob.
      run_val (JObj [(''deployment'', deployment), (''workflowJob'', workflowJob)]))))"

definition previous_query :: "jsv \<Rightarrow> (string \<times> jsv) list" where
  "previous_query current = [(''where'', JObj [(''serviceId'', jget current ''serviceId''),
     (''id'', JObj [(''not'', jget current ''id'')]), (''status'', JStr ''READY''), (''imageUrl'', JObj [(''not'', JNull)])]),
   (''orderBy'', JArr (map (\<lambda>k. JObj [(k, JStr ''desc'')]) [''deployedAt'', ''finishedAt'', ''createdAt'']))]"

definition rollback_row :: "jsv \<Rightarrow> jsv \<Rightarrow> jsv \<Rightarrow> jsv \<Rightarrow> jsv \<Rightarrow> jsv" where
  "rollback_row input current previous imageUrl imageDigest = JObj [
     (''serviceId'', jget current ''serviceId''), (''projectId'', jget current ''projectId''),
     (''commitSha'', jor (jget previous ''commitSha'') (jor (jget current ''commitSha'') JNull)),
     (''imageUrl'', imageUrl), (''imageDigest'', imageDigest), (''status'', JStr ''IMAGE_READY''),
     (''deploymentType'', jor (jget current ''deploymentType'') (JStr ''production'')), (''triggerType'', JStr ''rollback''),
     (''branch'', jor (jget input ''branch'') (jor (jget current ''branch'') (jor (jget previous ''branch'') (JStr ''main''))))]"

definition rollback_events :: "prisma \<Rightarrow> surroundings \<Rightarrow> jsv \<Rightarrow> jsv \<Rightarrow> jsv \<Rightarrow> jsv \<Rightarrow> jsv \<Rightarrow> jsv prisma_run" where
  "rollback_events d w current previous rollback imageUrl imageDigest = (let
     currentId = jget current ''id''; rollbackId = jget rollback ''id'';
     image = [(''previousDeploymentId'', jor (jget previous ''id'') JNull), (''imageUrl'', imageUrl), (''imageDigest'', imageDigest)]
   in run_then (appendDeploymentEventP d (event_of currentId ''deployment.rollback.requested''
        (''Rollback requested to '' @ to_str imageUrl) ((''rollbackDeploymentId'', rollbackId) # image)))
      (run_then (appendDeploymentEventP d (event_of rollbackId ''deployment.rollback.created''
        (''Rollback deployment created from '' @ to_str currentId) ((''rollbackOfDeploymentId'', currentId) # image)))
      (enqueueWorkflowJobP d w (JObj [(''type'', JStr ''rollback-deploy''), (''targetType'', JStr ''deployment''),
        (''targetId'', rollbackId), (''payload'', JObj [(''deploymentId'', rollbackId), (''rollbackOfDeploymentId'', currentId),
          (''previousDeploymentId'', jor (jget previous ''id'') JNull), (''serviceId'', jget rollback ''serviceId''),
          (''projectId'', jget rollback ''projectId''), (''imageUrl'', imageUrl), (''imageDigest'', imageDigest)])]))))"

definition rollbackDeploymentP :: "prisma \<Rightarrow> surroundings \<Rightarrow> jsv \<Rightarrow> jsv \<Rightarrow> jsv prisma_run" where
  "rollbackDeploymentP d w deploymentId input = found_deployment d deploymentId (\<lambda>current.
     run_bind (if truthy (jget input ''previousDeploymentId'')
        then getDeploymentP d (JStr (to_str (jget input ''previousDeploymentId'')))
        else query d ''deployment'' ''findFirst'' (previous_query current)) (\<lambda>previous.
     let imageUrl = jor (jget input ''imageUrl'') (jor (jget previous ''imageUrl'') JNull);
         imageDigest = jor (jget input ''imageDigest'') (jor (jget previous ''imageDigest'') JNull)
     in if \<not> truthy imageUrl
        then run_lift (js_throw_status 409 ''no previous READY deployment image is available for rollback'')
        else run_bind (createDeploymentP d (rollback_row input current previous imageUrl imageDigest)) (\<lambda>rollback.
          run_bind (rollback_events d w current previous rollback imageUrl imageDigest) (\<lambda>workflowJob.
          run_val (JObj [(''deployment'', rollback), (''rollbackOfDeploymentId'', jget current ''id''),
             (''previousDeployment'', jor previous JNull), (''workflowJob'', workflowJob)])))))"

definition workflow_input :: "jsv \<Rightarrow> jsv \<Rightarrow> jsv" where
  "workflow_input workflow deployment = jwith (JObj (entries (jor workflow (JObj [])))) [(''targetType'', JStr ''deployment''),
     (''targetId'', jget deployment ''id''), (''payload'', jwith (JObj (entries (jor (jget workflow ''payload'') (JObj []))))
       [(''deploymentId'', jget deployment ''id'')])]"

definition createDeploymentWorkflowP :: "prisma \<Rightarrow> surroundings \<Rightarrow> jsv \<Rightarrow> jsv prisma_run" where
  "createDeploymentWorkflowP d w input = (let asked = jor (jget input ''deployment'') input in
     in_transaction d (run_bind (getServiceP d (jget asked ''serviceId'')) (\<lambda>service.
       run_bind (create_deployment d (jwith asked
         [(''projectId'', jor (jget asked ''projectId'') (jget service ''projectId''))])) (\<lambda>deployment.
       run_bind (enqueueWorkflowJobP d w (workflow_input (jget input ''workflow'') deployment)) (\<lambda>workflowJob.
       run_val (JObj [(''deployment'', deployment), (''workflowJob'', workflowJob)]))))))"

section \<open>GitHub\<close>

definition createGitHubIntegrationP :: "prisma \<Rightarrow> surroundings \<Rightarrow> jsv \<Rightarrow> jsv prisma_run" where
  "createGitHubIntegrationP d w input = (let summary = githubIntegrationSummary (wGitHub w) input; token = jget input ''token'' in
     run_bind (create_row d ''githubIntegration'' (JObj [(''organizationId'', jget input ''organizationId''),
        or_null input ''userId'', (''accountLogin'', jget summary ''accountLogin''),
        (''installationId'', if truthy (jget summary ''installationId'') then JStr (to_str (jget summary ''installationId'')) else JNull),
        (''tokenPreview'', jget summary ''tokenPreview''), (''tokenFingerprint'', jget summary ''tokenFingerprint''),
        (''scopes'', jget summary ''scopes''), (''defaultBranch'', jor (jget input ''defaultBranch'') (JStr ''main''))])) (\<lambda>created.
     run_bind (if truthy token
        then run_bind (upsert_secret d w ''github-integration'' (jget created ''id'') (JStr ''GITHUB_TOKEN'') token
               (JObj [(''accountLogin'', jget input ''accountLogin'')])) (\<lambda>secret.
             update_row d ''githubIntegration'' (jget created ''id'') (JObj [(''tokenSecretId'', jget secret ''id'')]))
        else run_val created) (\<lambda>row.
     run_then (audit_log d (jor (jget input ''userId'') system) ''github:connect'' ''organization'' (jget input ''organizationId'')
        (maskSecrets (JObj [(''integrationId'', jget row ''id''), (''accountLogin'', jget row ''accountLogin'')])))
     (run_val row))))"

definition listGitHubIntegrationsP :: "prisma \<Rightarrow> jsv \<Rightarrow> jsv prisma_run" where
  "listGitHubIntegrationsP d input = find_many d ''githubIntegration'' [(''organizationId'', jget input ''organizationId'')]"

definition known_integration :: "prisma \<Rightarrow> jsv \<Rightarrow> jsv prisma_run" where
  "known_integration d integrationId =
     (if truthy integrationId then find_unique d ''githubIntegration'' integrationId else run_val JNull)"

definition integration_allowed :: "jsv \<Rightarrow> jsv \<Rightarrow> unit res" where
  "integration_allowed integration project =
     (if truthy integration \<and> truthy project \<and> \<not> same_text (jget integration ''organizationId'') (jget project ''organizationId'')
      then forbidden ''GitHub integration does not belong to project organization'' else Inr ())"

definition github_reply :: "jsv \<Rightarrow> jsv \<Rightarrow> jsv \<Rightarrow> jsv" where
  "github_reply service input repo = JObj [(''service'', service), (''github'', JObj [or_null input ''integrationId'',
     (''repository'', jget repo ''fullName''), (''repoUrl'', jget repo ''repoUrl''),
     (''branch'', jor (jget input ''branch'') (JStr ''main''))])]"

definition github_state_of :: "jsv \<Rightarrow> jsv \<Rightarrow> string \<Rightarrow> (string \<times> jsv) list" where
  "github_state_of input repo how = [(''github'', JObj [(''repository'', jget repo ''fullName''), or_null input ''integrationId'',
     (how, JBool True)])]"

definition attachGitHubRepositoryToServiceP :: "prisma \<Rightarrow> jsv \<Rightarrow> jsv prisma_run" where
  "attachGitHubRepositoryToServiceP d input = (let serviceId = jget input ''serviceId'' in
     run_bind (run_lift (parseGitHubRepository (jget input ''repoUrl''))) (\<lambda>repo.
     run_bind (query d ''service'' ''findUnique'' [where_id serviceId, (''include'', JObj [(''project'', JBool True)])]) (\<lambda>serviceRow.
     run_bind (known_integration d (jget input ''integrationId'')) (\<lambda>integration.
     run_then (run_lift (integration_allowed integration (jget serviceRow ''project'')))
     (run_bind (update_row d ''service'' serviceId (JObj [(''sourceType'', JStr ''github''), (''repoUrl'', jget repo ''repoUrl''),
        (''branch'', jor (jget input ''branch'') (JStr ''main'')), (''desiredState'', sanitizeJson (JObj (github_state_of input repo ''attached'' @
          [(''githubIntegrationId'', jor (jget input ''integrationId'') JNull), (''githubRepository'', jget repo ''fullName'')])))])) (\<lambda>service.
     run_then (audit_log d (jor (jget input ''actorUserId'') system) ''github:attach-repository'' ''service'' serviceId
        (JObj [(''repository'', jget repo ''fullName''), or_null input ''integrationId'']))
     (run_val (github_reply service input repo))))))))"

definition services_with_repository :: "prisma \<Rightarrow> jsv prisma_run" where
  "services_with_repository d = find_many d ''service'' [(''repoUrl'', JObj [(''not'', JNull)])]"

definition installation_view :: "jsv list \<Rightarrow> jsv \<Rightarrow> jsv" where
  "installation_view rows integration = (let i = JStr (to_str (jget integration ''installationId'')) in
     JObj [(''id'', i), (''installationId'', i), (''integrationId'', jget integration ''id''),
       (''accountLogin'', jget integration ''accountLogin''), (''organizationId'', jget integration ''organizationId''),
       (''repositoryCount'', jnat (length (uniquePrismaRepositories
          (filter (\<lambda>service. stored_integration service = to_str (jget integration ''id'')) rows))))])"

definition listGitHubInstallationsP :: "prisma \<Rightarrow> jsv \<Rightarrow> jsv prisma_run" where
  "listGitHubInstallationsP d input = run_bind (find_many d ''githubIntegration''
        [(''organizationId'', jget input ''organizationId''), (''installationId'', JObj [(''not'', JNull)])]) (\<lambda>integrations.
     run_bind (services_with_repository d) (\<lambda>rows.
     run_val (JObj [(''installations'', JArr (map (installation_view (items rows)) (items integrations)))])))"

definition listGitHubInstallationRepositoriesP :: "prisma \<Rightarrow> jsv \<Rightarrow> jsv prisma_run" where
  "listGitHubInstallationRepositoriesP d input = (let
     ids = organizationScopeArray input; i = JStr (to_str (jget input ''installationId''));
     reply = (\<lambda>rows. JObj [(''installationId'', i), (''repositories'', JArr rows)])
   in run_bind (find_many d ''githubIntegration'' ((''installationId'', i) #
        (if ids = [] then [] else [(''organizationId'', JObj [(''in'', JArr (map JStr ids))])]))) (\<lambda>integrations.
      let integrationIds = map (\<lambda>row. to_str (jget row ''id'')) (items integrations) in
      if integrationIds = [] then run_val (reply [])
      else run_bind (services_with_repository d) (\<lambda>rows.
        run_val (reply (uniquePrismaRepositories (filter (\<lambda>service. stored_integration service \<in> set integrationIds) (items rows)))))))"

definition importGitHubRepositoryP :: "prisma \<Rightarrow> surroundings \<Rightarrow> jsv \<Rightarrow> jsv prisma_run" where
  "importGitHubRepositoryP d w input = (let projectId = jget input ''projectId'' in
     run_bind (run_lift (parseGitHubRepository (jor (jget input ''repoUrl'') (jget input ''repository'')))) (\<lambda>repo.
     run_bind (getProjectP d projectId) (\<lambda>project.
     run_bind (known_integration d (jget input ''integrationId'')) (\<lambda>integration.
     run_then (run_lift (integration_allowed integration project))
     (run_bind (createServiceP d w (JObj [(''projectId'', projectId),
        (''name'', jor (jget input ''serviceName'') (jget repo ''repo'')), (''type'', JStr ''web''),
        (''runtimeType'', JStr ''container''), (''sourceType'', JStr ''github''), (''repoUrl'', jget repo ''repoUrl''),
        (''branch'', jor (jget input ''branch'') (JStr ''main'')), (''desiredState'', JObj (github_state_of input repo ''imported'' @
          [(''githubRepository'', jget repo ''fullName''), (''githubIntegrationId'', jor (jget input ''integrationId'') JNull)]))])) (\<lambda>service.
     run_then (audit_log d (jor (jget input ''actorUserId'') system) ''github:import-repository'' ''project'' projectId
        (maskSecrets (JObj [(''repository'', jget repo ''fullName''), or_null input ''integrationId''])))
     (run_val (github_reply service input repo))))))))"

definition servicesForPrismaGitHubRepository :: "prisma \<Rightarrow> jsv \<Rightarrow> string list \<Rightarrow> jsv list prisma_run" where
  "servicesForPrismaGitHubRepository d repo ids = (let normalized = normalizePrismaRepositoryId repo in
     if normalized = [] then run_val []
     else run_bind (query d ''service'' ''findMany'' [(''where'', JObj [(''repoUrl'', JObj [(''not'', JNull)])]),
        (''include'', JObj [(''project'', JObj [(''include'', JObj [(''organization'', JBool True)])])])]) (\<lambda>rows.
       run_val (filter (has_repository normalized) (filter (prisma_in_scope ids) (items rows)))))"

definition syncGitHubRepositoryP :: "prisma \<Rightarrow> surroundings \<Rightarrow> jsv \<Rightarrow> jsv prisma_run" where
  "syncGitHubRepositoryP d w input = (let
     repo = JStr (normalizePrismaRepositoryId (jor (jget input ''repository'') (jor (jget input ''repositoryId'') (JStr []))))
   in run_bind (servicesForPrismaGitHubRepository d repo (organizationScopeArray input)) (\<lambda>rows.
      run_bind (enqueueWorkflowJobP d w (JObj [(''type'', JStr ''github-repository-sync''),
         (''targetType'', JStr ''github-repository''), (''targetId'', repo),
         (''payload'', JObj [(''repository'', repo), (''serviceIds'', JArr (map (\<lambda>r. jget r ''id'') rows))])])) (\<lambda>workflowJob.
      run_then (audit_log d (jor (jget input ''actorUserId'') system) ''github:repository-sync'' ''github-repository'' repo
         (maskSecrets (JObj [(''repository'', repo)])))
      (run_val (JObj [(''repository'', repo), (''services'', JArr rows), (''workflowJob'', workflowJob)])))))"

end
