(* ===== verification/PrismaWebhook.thy ===== *)
theory PrismaWebhook
  imports PrismaDeploy
begin

text \<open>
  The Prisma repository of \<open>persistence.ts\<close>: the GitHub webhook, the console of resources and their
  attachment to services.
\<close>

section \<open>The webhook\<close>

definition webhook_job :: "jsv \<Rightarrow> string \<Rightarrow> jsv \<Rightarrow> jsv \<Rightarrow> (string \<times> jsv) list \<Rightarrow> jsv" where
  "webhook_job service type targetType targetId more_fields = JObj [(''type'', JStr type), (''targetType'', targetType),
     (''targetId'', targetId), (''payload'', JObj ([(''serviceId'', jget service ''id''),
        (''projectId'', jget service ''projectId'')] @ more_fields))]"

definition production_deployP :: "prisma \<Rightarrow> surroundings \<Rightarrow> jsv \<Rightarrow> jsv \<Rightarrow> jsv prisma_run" where
  "production_deployP d w plan service =
     run_bind (createDeploymentP d (JObj [(''serviceId'', jget service ''id''), (''projectId'', jget service ''projectId''),
        (''commitSha'', jget plan ''commitSha''), (''status'', JStr ''queued''), (''deploymentType'', JStr ''production''),
        (''triggerType'', JStr ''github_push''), (''branch'', jget plan ''branch'')])) (\<lambda>deployment.
     let i = jget deployment ''id'' in
     run_bind (enqueueWorkflowJobP d w (webhook_job service ''build-and-deploy'' (JStr ''deployment'') i
        [(''deploymentId'', i), (''repository'', jget plan ''repository''), (''commitSha'', jget plan ''commitSha''),
         (''branch'', jget plan ''branch''), (''source'', JStr ''github-webhook'')])) (\<lambda>workflowJob.
     run_val (JObj [(''type'', JStr ''production-deployment-enqueued''), (''serviceId'', jget service ''id''),
        (''deploymentId'', i), (''workflowJobId'', jget workflowJob ''id'')])))"

definition preview_of_service :: "jsv \<Rightarrow> jsv \<Rightarrow> (string \<times> jsv) list \<Rightarrow> jsv" where
  "preview_of_service service plan more_fields = previewRuntimePlan
     (preview_input service (jget service ''project'', jget (jget service ''project'') ''organization'') plan more_fields)"

definition preview_deployP :: "prisma \<Rightarrow> surroundings \<Rightarrow> jsv \<Rightarrow> jsv \<Rightarrow> jsv prisma_run" where
  "preview_deployP d w plan service = (let number = jget plan ''pullRequestNumber'' in
     run_bind (createDeploymentP d (JObj [(''serviceId'', jget service ''id''), (''projectId'', jget service ''projectId''),
        (''commitSha'', jget plan ''commitSha''), (''status'', JStr ''queued''), (''deploymentType'', JStr ''preview''),
        (''triggerType'', JStr ''github_pull_request''), (''branch'', jget plan ''branch''), (''pullRequestNumber'', number),
        (''previewUrl'', jget (preview_of_service service plan []) ''url'')])) (\<lambda>deployment. let
       i = jget deployment ''id''; preview = preview_of_service service plan [(''deploymentId'', i)];
       kubernetes = jget preview ''kubernetes''
     in run_bind (enqueueWorkflowJobP d w (webhook_job service ''preview-deploy'' (JStr ''deployment'') i
          [(''deploymentId'', i), (''repository'', jget plan ''repository''), (''pullRequestNumber'', number),
           (''commitSha'', jget plan ''commitSha''), (''branch'', jget plan ''branch''), (''source'', JStr ''github-webhook''),
           (''preview'', preview), (''kubernetes'', kubernetes)])) (\<lambda>workflowJob.
        run_then (appendDeploymentEventP d (event_of i ''preview.workload.queued''
          (''Preview Kubernetes workload queued for PR #'' @ to_str number)
          [(''previewUrl'', jget preview ''url''), (''workloadName'', jget kubernetes ''workloadName''),
           (''namespace'', jget kubernetes ''namespace'')]))
        (run_val (JObj [(''type'', JStr ''preview-deployment-enqueued''), (''serviceId'', jget service ''id''),
          (''deploymentId'', i), (''workflowJobId'', jget workflowJob ''id''), (''pullRequestNumber'', number),
          (''previewUrl'', jget preview ''url''), (''previewWorkloadName'', jget kubernetes ''workloadName'')])))))"

definition request_cleanupP :: "prisma \<Rightarrow> jsv \<Rightarrow> jsv \<Rightarrow> jsv \<Rightarrow> jsv prisma_run" where
  "request_cleanupP d plan service deployment = (let
     i = jget deployment ''id'';
     kubernetes = jget (preview_of_service service plan [(''deploymentId'', i), (''action'', JStr ''delete'')]) ''kubernetes''
   in run_then (update_row d ''deployment'' i (JObj [(''status'', JStr ''PREVIEW_CLEANUP_REQUESTED'')]))
      (appendDeploymentEventP d (event_of i ''preview.cleanup.requested''
        (''Preview cleanup requested for PR #'' @ to_str (jget plan ''pullRequestNumber''))
        [(''repository'', jget plan ''repository''), (''workloadName'', jget kubernetes ''workloadName''),
         (''cleanupSelector'', jget kubernetes ''cleanupSelector'')])))"

definition preview_cleanupP :: "prisma \<Rightarrow> surroundings \<Rightarrow> jsv \<Rightarrow> jsv \<Rightarrow> jsv prisma_run" where
  "preview_cleanupP d w plan service = (let
     number = jget plan ''pullRequestNumber''; i = jget service ''id'';
     preview = preview_of_service service plan [(''action'', JStr ''delete'')]
   in run_bind (enqueueWorkflowJobP d w (webhook_job service ''preview-cleanup'' (JStr ''service'') i
        [(''repository'', jget plan ''repository''), (''pullRequestNumber'', number), (''branch'', jget plan ''branch''),
         (''source'', JStr ''github-webhook''), (''preview'', preview), (''kubernetes'', jget preview ''kubernetes'')])) (\<lambda>workflowJob.
      run_bind (find_many d ''deployment'' [(''serviceId'', i), (''deploymentType'', JStr ''preview''),
        (''pullRequestNumber'', JNum (to_num number))]) (\<lambda>rows.
      run_then (run_for (request_cleanupP d plan service) (items rows))
      (run_val (JObj [(''type'', JStr ''preview-cleanup-enqueued''), (''serviceId'', i),
        (''workflowJobId'', jget workflowJob ''id''), (''pullRequestNumber'', number),
        (''deploymentIds'', JArr (map (\<lambda>row. jget row ''id'') (items rows)))])))))"

definition webhook_actionsP :: "prisma \<Rightarrow> surroundings \<Rightarrow> jsv \<Rightarrow> jsv \<Rightarrow> jsv list prisma_run" where
  "webhook_actionsP d w plan service = (let kind = jget plan ''kind''; one = (\<lambda>m. run_bind m (\<lambda>a. run_val [a])) in
     if kind = JStr ''production-deploy'' then one (production_deployP d w plan service)
     else if kind = JStr ''preview-deploy'' then one (preview_deployP d w plan service)
     else if kind = JStr ''preview-cleanup'' then one (preview_cleanupP d w plan service)
     else run_val [])"

definition webhook_secretP :: "surroundings \<Rightarrow> jsv \<Rightarrow> jsv" where
  "webhook_secretP w input = jor (jget input ''secret'') (jor (jget (wEnv w) ''RAIBITSERVER_GITHUB_WEBHOOK_SECRET'')
     (jor (jget (wEnv w) ''GITHUB_WEBHOOK_SECRET'') (JStr [])))"

definition accept_webhookP :: "prisma \<Rightarrow> surroundings \<Rightarrow> jsv \<Rightarrow> jsv prisma_run" where
  "accept_webhookP d w input = (let event = jget input ''event''; i = JStr (webhook_id input) in
     run_bind (run_lift (githubWebhookActionPlan event (webhook_payload input))) (\<lambda>plan.
     run_bind (create_row d ''webhookEvent'' (JObj [(''provider'', JStr ''github''),
        (''eventType'', JStr (to_str (jor event (JStr ''unknown'')))), (''deliveryId'', i),
        (''payload'', sanitizeJson (maskSecrets (webhook_payload input))), (''handled'', JBool True)])) (\<lambda>row.
     run_bind (servicesForPrismaGitHubRepository d (jget plan ''repository'') []) (\<lambda>rows.
     run_bind (run_for (webhook_actionsP d w plan) rows) (\<lambda>taken. let actions = concat taken in
     run_then (run_or JNull (audit_log d (JStr ''github-webhook'') ''github:webhook'' ''github-delivery'' i (maskSecrets (JObj
        [(''event'', event), (''repository'', jget plan ''repository''), (''action'', jget plan ''action''),
         (''actions'', JArr (map (\<lambda>a. jget a ''type'') actions))]))))
     (run_val (JObj [(''accepted'', JBool True), (''duplicate'', JBool False), (''deliveryId'', i), (''event'', event),
        (''repository'', jget plan ''repository''), (''action'', jget plan ''action''),
        (''matchedServiceCount'', jnat (length rows)), (''actions'', JArr actions),
        (''outbound'', githubWebhookOutboundPlan plan actions), (''webhookEvent'', row)])))))))"

definition handleGitHubWebhookP :: "prisma \<Rightarrow> surroundings \<Rightarrow> jsv \<Rightarrow> jsv prisma_run" where
  "handleGitHubWebhookP d w input = (let secret = webhook_secretP w input; i = JStr (webhook_id input) in
     if \<not> truthy secret then run_lift (js_throw_status 503 ''GitHub webhook secret is not configured'')
     else if \<not> verifyGitHubWebhookSignature (wGitHub w) (webhook_body input) (jget input ''signature'') secret
       then run_lift (unauthorized ''invalid GitHub webhook signature'')
     else run_bind (run_or JNull (query d ''webhookEvent'' ''findUnique'' [(''where'', JObj [(''deliveryId'', i)])])) (\<lambda>existing.
       if truthy existing then run_val (JObj [(''accepted'', JBool True), (''duplicate'', JBool True), (''deliveryId'', i),
          (''actions'', JArr [])])
       else accept_webhookP d w input))"

section \<open>The console of a resource\<close>

fun opened_secrets :: "surroundings \<Rightarrow> jsv \<Rightarrow> jsv list \<Rightarrow> jsv \<Rightarrow> bool \<Rightarrow> (jsv \<times> bool) res" where
  "opened_secrets w resourceId [] env live = Inr (env, live)"
| "opened_secrets w resourceId (secret # rest) env live =
     (if \<not> isProviderConnectionSecret secret resourceId then opened_secrets w resourceId rest env live
      else rbind (if truthy (jget secret ''sealedValue'')
          then rbind (openSecret (wCrypto w) (wEnv w) (jget secret ''sealedValue'') (JObj []))
            (\<lambda>v. Inr (jset env (to_str (jget secret ''key'')) (JStr v)))
          else Inr env) (\<lambda>env'.
        opened_secrets w resourceId rest env' (live \<or> jget (jget secret ''metadata'') ''live'' = JBool True)))"

definition resourceForConsoleP :: "prisma \<Rightarrow> surroundings \<Rightarrow> jsv \<Rightarrow> jsv prisma_run" where
  "resourceForConsoleP d w resource = run_bind (find_many d ''secretValue''
       [(''scopeType'', JStr PROVIDER_SCOPE), (''scopeId'', jget resource ''id'')]) (\<lambda>rows.
     run_bind (run_lift (opened_secrets w (jget resource ''id'') (items rows) (JObj []) False)) (\<lambda>(env, live).
     run_val (if entries env = [] then resource
       else jwith resource [(''providerConnection'', providerConnectionFromEnv env (jget resource ''engine'') live)])))"

definition console_runP :: "prisma \<Rightarrow> surroundings \<Rightarrow> jsv \<Rightarrow> (jsv \<Rightarrow> jsv db_run) \<Rightarrow> jsv prisma_run" where
  "console_runP d w resourceId run = found_resource d resourceId (notFound (''resource not found: '' @ to_str resourceId)) (\<lambda>resource.
     run_bind (resourceForConsoleP d w resource) (\<lambda>view. run_lift (fst (run view []))))"

definition runResourceConsoleQueryP :: "prisma \<Rightarrow> surroundings \<Rightarrow> jsv \<Rightarrow> jsv \<Rightarrow> jsv \<Rightarrow> jsv prisma_run" where
  "runResourceConsoleQueryP d w resourceId statement options =
     run_bind (console_runP d w resourceId (\<lambda>view. runDbConsoleQuery (sDriver w) (wCwd w) view statement options)) (\<lambda>result.
     run_then (audit_log d (jor (jget options ''actorUserId'') system) ''resource.console:query'' ''resource'' resourceId
       (maskSecrets (JObj [(''queryPreview'', JStr (redactDbConsoleStatement statement)), (''queryBytes'', statement_bytes statement),
          (''resultRows'', result_rows result)])))
     (run_val result))"

definition runResourceConsoleCommandP :: "prisma \<Rightarrow> surroundings \<Rightarrow> jsv \<Rightarrow> jsv \<Rightarrow> jsv \<Rightarrow> jsv prisma_run" where
  "runResourceConsoleCommandP d w resourceId command options =
     run_bind (console_runP d w resourceId (\<lambda>view. runDbConsoleQuery (sDriver w) (wCwd w) view command
        (jwith options [(''providerCommand'', JBool True)]))) (\<lambda>result.
     run_then (audit_log d (jor (jget options ''actorUserId'') system) ''resource.console:command'' ''resource'' resourceId
       (maskSecrets (JObj [(''commandPreview'', JStr (redactDbConsoleStatement command)), (''commandBytes'', statement_bytes command),
          (''mode'', jget result ''mode'')])))
     (run_val result))"

definition browseResourceConsoleP :: "prisma \<Rightarrow> surroundings \<Rightarrow> jsv \<Rightarrow> jsv \<Rightarrow> jsv prisma_run" where
  "browseResourceConsoleP d w resourceId options =
     console_runP d w resourceId (\<lambda>view. browseDbConsole (sDriver w) (wCwd w) view options)"

definition resourceConsoleViewP :: "prisma \<Rightarrow> surroundings \<Rightarrow> jsv \<Rightarrow> string \<Rightarrow> jsv \<Rightarrow> jsv prisma_run" where
  "resourceConsoleViewP d w resourceId view_name options =
     console_runP d w resourceId (\<lambda>view. resourceConsoleView (sDriver w) (wCwd w) view view_name options)"

definition same_project :: "jsv \<Rightarrow> jsv \<Rightarrow> jsv \<Rightarrow> jsv \<Rightarrow> unit res" where
  "same_project resourceId serviceId resource service =
     (if \<not> truthy resource then notFound (''resource not found: '' @ to_str resourceId)
      else if \<not> truthy service then notFound (''service not found: '' @ to_str serviceId)
      else if \<not> same_text (jget resource ''projectId'') (jget service ''projectId'')
        then forbidden ''resource and service must be in the same project'' else Inr ())"

definition attachResourceP :: "prisma \<Rightarrow> surroundings \<Rightarrow> jsv \<Rightarrow> jsv prisma_run" where
  "attachResourceP d w input = (let
     resourceId = jget input ''resourceId''; serviceId = jget input ''serviceId'';
     envPrefix = jdefault (jget input ''envPrefix'') JNull; actorUserId = jdefault (jget input ''actorUserId'') system;
     source = JStr (''resource:'' @ to_str resourceId); ids = [(''resourceId'', resourceId), (''serviceId'', serviceId)]
   in run_bind (getResourceP d resourceId) (\<lambda>resource.
      run_bind (getServiceP d serviceId) (\<lambda>service.
      run_then (run_lift (same_project resourceId serviceId resource service))
      (run_bind (resourceForConsoleP d w resource) (\<lambda>view.
      run_bind (draws w) (\<lambda>rnd.
      run_bind (run_lift (providerEnvFromConnection (wEnv w) (wCwd w) rnd view resource)) (\<lambda>providerEnv. let
        injected = prefixEnv providerEnv envPrefix;
        changes = [(''envPrefix'', envPrefix), (''injectedEnv'', maskSecrets injected)]
      in run_bind (upsert d ''resourceAttachment'' [(''resourceId_serviceId'', JObj ids)] (JObj changes) (JObj (ids @ changes))) (\<lambda>row.
         run_then (upsertServiceEnvironmentP d w (JObj [(''projectId'', jget service ''projectId''), (''serviceId'', serviceId),
           (''entries'', JArr (map (\<lambda>(k, v). JObj [(''key'', JStr k), (''value'', JStr (to_str v)), (''isSecret'', JBool True),
              (''source'', source)]) (entries injected))), (''actorUserId'', actorUserId), (''source'', source)]))
         (run_then (audit_log d actorUserId ''resource:attach'' ''service'' serviceId (maskSecrets (JObj
           [(''resourceId'', resourceId), (''envPrefix'', envPrefix), (''envKeys'', JArr (map (\<lambda>(k, _). JStr k) (entries injected)))])))
         (run_val row))))))))))"

end
