(* ===== verification/PrismaAccounts.thy ===== *)
theory PrismaAccounts
  imports PrismaWebhook
begin

text \<open>
  The Prisma repository of \<open>persistence.ts\<close>: the approval and the quota of users, the desired state of a
  project, the snapshot, and the creation of a repository.
\<close>

section \<open>Approval and quotas\<close>

definition setQuotaP :: "prisma \<Rightarrow> jsv \<Rightarrow> jsv prisma_run" where
  "setQuotaP d input = run_bind (run_lift (normalizeAccountType (jget input ''accountType'') JUndef)) (\<lambda>accountType. let
       userId = jget input ''userId''; limits = quotaData (jwith input [(''accountType'', accountType)]);
       i = jor (jget input ''id'') (JStr (''quota_'' @ to_str userId @ ''_'' @ to_str accountType))
     in upsert d ''quota'' [(''id'', i)] limits
          (jspread (JObj [(''id'', i), (''userId'', userId), (''accountType'', accountType)]) limits))"

definition approveUserP :: "prisma \<Rightarrow> jsv \<Rightarrow> jsv \<Rightarrow> jsv prisma_run" where
  "approveUserP d userId input = run_bind (find_unique d ''user'' userId) (\<lambda>current.
     run_bind (run_lift (normalizeAccountType (jget input ''accountType'') (jor (jget current ''accountType'') (JStr ''NON_CLUB'')))) (\<lambda>accountType.
     run_bind (update_row d ''user'' userId (JObj [(''approvalStatus'', JStr ''APPROVED''), (''accountType'', accountType),
        or_undefined input ''role''])) (\<lambda>user.
     run_then (run_when (accountType = JStr ''NON_CLUB'') (setQuotaP d (JObj [(''userId'', userId), (''accountType'', accountType)])))
     (run_then (audit_log d (jor (jget input ''actorUserId'') system) ''user:approve'' ''user'' userId
        (maskSecrets (JObj [(''accountType'', accountType)])))
     (run_val (redactPrismaUser user))))))"

definition rejectUserP :: "prisma \<Rightarrow> jsv \<Rightarrow> jsv \<Rightarrow> jsv prisma_run" where
  "rejectUserP d userId input = run_bind (update_row d ''user'' userId (JObj [(''approvalStatus'', JStr ''REJECTED'')])) (\<lambda>user.
     run_then (audit_log d (jor (jget input ''actorUserId'') system) ''user:reject'' ''user'' userId (JObj []))
     (run_val (redactPrismaUser user)))"

definition one_of :: "string \<Rightarrow> jsv list \<Rightarrow> string \<times> jsv" where
  "one_of column vs = (column, JObj [(''in'', JArr vs)])"

definition select_of :: "string list \<Rightarrow> string \<times> jsv" where
  "select_of ks = (''select'', JObj (map (\<lambda>k. (k, JBool True)) ks))"

definition select_many :: "prisma \<Rightarrow> string \<Rightarrow> (string \<times> jsv) list \<Rightarrow> string list \<Rightarrow> jsv list prisma_run" where
  "select_many d model_name filters ks = run_bind (query d model_name ''findMany'' [(''where'', JObj filters), select_of ks])
     (\<lambda>rows. run_val (items rows))"

definition column_of :: "string \<Rightarrow> jsv list \<Rightarrow> jsv list" where
  "column_of k rows = map (\<lambda>row. jget row k) rows"

definition utc_midnight :: "int \<Rightarrow> int" where
  "utc_midnight t = t div 86400000 * 86400000"

definition today_filter :: "int \<Rightarrow> string \<times> jsv" where
  "today_filter t = (''createdAt'', JObj [(''gte'', nowIso (utc_midnight t)), (''lt'', nowIso (utc_midnight t + 86400000))])"

definition no_usage :: jsv where
  "no_usage = JObj (map (\<lambda>k. (k, jint 0)) [''maxProjects'', ''maxServices'', ''maxDeploymentsPerDay'', ''maxPreviewDeployments'',
     ''maxDbStorageMb'', ''maxObjectStorageMb''])"

definition stored_amount :: "string \<Rightarrow> jsv list \<Rightarrow> jnum" where
  "stored_amount metric rows = num_sum (\<lambda>r. resourceStorageMb r True) (filter (\<lambda>r. resourceQuotaMetric r = metric) rows)"

definition usage_view ::
  "int \<Rightarrow> jsv list \<Rightarrow> jsv list \<Rightarrow> jsv list \<Rightarrow> jsv list \<Rightarrow> jsv list \<Rightarrow> jsv list \<Rightarrow> jsv" where
  "usage_view t projectRows serviceRows resourceRows today every usage = (let
     count = (\<lambda>rows. jnat (length rows))
   in JObj [(''maxProjects'', count projectRows), (''maxServices'', count serviceRows),
     (''maxDeploymentsPerDay'', count today),
     (''maxPreviewDeployments'', count (filter (\<lambda>row. jget row ''deploymentType'' = JStr ''preview'') today)),
     (''maxDbStorageMb'', JNum (stored_amount ''maxDbStorageMb'' resourceRows)),
     (''maxObjectStorageMb'', JNum (stored_amount ''maxObjectStorageMb'' resourceRows)),
     (''maxBuildMinutesPerMonth'', JNum (num_add
        (usageMetricSum usage [''build-minutes'', ''build_minutes'', ''buildMinutes'', ''maxBuildMinutesPerMonth''])
        (num_sum deploymentBuildMinutes every))),
     (''maxRuntimeHoursPerMonth'', JNum (num_add
        (usageMetricSum usage [''runtime-hours'', ''runtime_hours'', ''runtimeHours'', ''app-runtime-hours'', ''maxRuntimeHoursPerMonth''])
        (num_sum (deploymentRuntimeHours t) every))),
     (''maxCpuMillicores'', JNum (num_sum serviceCpuMillicores serviceRows)),
     (''maxMemoryMb'', JNum (num_sum serviceMemoryMb serviceRows))])"

definition usage_owners :: "jsv \<Rightarrow> jsv list \<Rightarrow> jsv list \<Rightarrow> jsv list \<Rightarrow> jsv" where
  "usage_owners userId organizationIds projectIds serviceIds = JArr ([JObj [(''userId'', userId)],
     JObj [one_of ''organizationId'' organizationIds], JObj [one_of ''projectId'' projectIds]] @
     (if serviceIds = [] then [] else [JObj [one_of ''serviceId'' serviceIds]]))"

definition quotaUsageForUserP :: "prisma \<Rightarrow> surroundings \<Rightarrow> jsv \<Rightarrow> jsv prisma_run" where
  "quotaUsageForUserP d w userId =
     run_bind (select_many d ''membership'' [(''userId'', userId)] [''organizationId'']) (\<lambda>memberships.
     let organizationIds = column_of ''organizationId'' memberships in
     if organizationIds = [] then run_val (JObj [])
     else run_bind (select_many d ''project'' [one_of ''organizationId'' organizationIds] [''id'']) (\<lambda>projectRows.
     let projectIds = column_of ''id'' projectRows in
     if projectIds = [] then run_val no_usage
     else run_bind (select_many d ''service'' [one_of ''projectId'' projectIds] [''id'', ''desiredSpec'', ''desiredState'']) (\<lambda>serviceRows.
     let serviceIds = column_of ''id'' serviceRows; of_services = one_of ''serviceId'' serviceIds in
     run_bind (select_many d ''resource'' [one_of ''projectId'' projectIds] [''type'', ''engine'', ''desiredSpec'', ''desiredState'']) (\<lambda>resourceRows.
     run_bind (if serviceIds = [] then run_val []
       else select_many d ''deployment'' [of_services, today_filter (wNow w)] [''deploymentType'']) (\<lambda>today.
     run_bind (if serviceIds = [] then run_val []
       else select_many d ''deployment'' [of_services]
         [''buildStartedAt'', ''buildFinishedAt'', ''startedAt'', ''deployedAt'', ''finishedAt'']) (\<lambda>every.
     run_bind (run_or [] (select_many d ''usageRecord'' [(''OR'', usage_owners userId organizationIds projectIds serviceIds)]
       [''metric'', ''value''])) (\<lambda>usage.
     run_val (usage_view (wNow w) projectRows serviceRows resourceRows today every usage))))))))"

definition audit_block :: "prisma \<Rightarrow> jsv \<Rightarrow> jsv \<Rightarrow> (string \<times> jsv) list \<Rightarrow> jsv prisma_run" where
  "audit_block d input target metadata = create_row d ''auditLog'' (JObj [(''actorUserId'', jget input ''userId''),
     (''action'', JStr ''quota:block''), (''targetType'', jor (jget input ''action'') (JStr ''action'')), (''targetId'', target),
     (''metadata'', JObj metadata)])"

definition user_quota :: "prisma \<Rightarrow> jsv \<Rightarrow> jsv \<Rightarrow> jsv prisma_run" where
  "user_quota d userId accountType = (let owner = [(''userId'', userId), (''accountType'', accountType)] in
     run_bind (query d ''quota'' ''findFirst'' [(''where'', JObj owner)]) (\<lambda>quota.
     if truthy quota then run_val quota else setQuotaP d (JObj owner)))"

definition enforceUserCanP :: "prisma \<Rightarrow> surroundings \<Rightarrow> jsv \<Rightarrow> jsv prisma_run" where
  "enforceUserCanP d w input = (let userId = jget input ''userId''; metric = jget input ''metric''; action = jget input ''action'' in
     run_bind (find_unique d ''user'' userId) (\<lambda>user. let
       status = jor (jget user ''approvalStatus'') (JStr ''PENDING''); accountType = jor (jget user ''accountType'') (JStr ''NON_CLUB'')
     in if \<not> truthy user \<or> jget user ''role'' = JStr ''ADMIN'' \<or> jget user ''accountType'' = JStr ''CLUB_MEMBER''
        then run_val (JBool True)
        else if jget user ''approvalStatus'' \<noteq> JStr ''APPROVED''
        then run_then (audit_block d input (jor metric (jor action (JStr ''unknown''))) [(''reason'', status)])
          (run_lift (forbidden (''user '' @ to_str userId @ '' is '' @ to_str status @ '' and cannot '' @ to_str action)))
        else run_bind (user_quota d userId accountType) (\<lambda>quota. let granted = jget quota (to_str metric) in
          if \<not> truthy metric \<or> granted = JUndef then run_val (JBool True)
          else run_bind (quotaUsageForUserP d w userId) (\<lambda>usage. let
            current = to_num (jor (jget usage (to_str metric)) (jint 0));
            increment = to_num (jor (jget input ''increment'') (jint 0)); asked = num_add current increment
          in if num_less (to_num granted) asked
             then run_then (audit_block d input metric [(''current'', JNum current), (''increment'', JNum increment), (''limit'', granted)])
               (run_lift (forbidden (''quota exceeded: '' @ to_str metric @ '' ('' @ num_str asked @ ''/'' @ to_str granted @ '')'')))
             else run_val (JBool True)))))"

section \<open>The desired state of a project\<close>

definition upsert_organization :: "prisma \<Rightarrow> jsv \<Rightarrow> jsv prisma_run" where
  "upsert_organization d desired = (let slug = slug_or_name desired; plan = (''plan'', jor (jget desired ''plan'') (JStr ''free''));
     name = (''name'', jor (jget desired ''name'') (jget desired ''slug''))
   in upsert d ''organization'' [(''slug'', slug)] (JObj [name, plan]) (JObj [name, (''slug'', slug), plan]))"

definition resolveDesiredOrganization :: "prisma \<Rightarrow> jsv \<Rightarrow> jsv \<Rightarrow> jsv \<Rightarrow> jsv prisma_run" where
  "resolveDesiredOrganization d orgInput requestedId organizationSlug = (let fallback = jor organizationSlug (JStr ''default'') in
     if truthy requestedId
     then run_bind (find_unique d ''organization'' (JStr (to_str requestedId))) (\<lambda>byId.
       if truthy byId then run_val byId
       else run_bind (findOrganizationBySlugP d requestedId) (\<lambda>bySlug.
         if truthy bySlug then run_val bySlug
         else run_lift (notFound (''organization not found: '' @ to_str requestedId))))
     else upsert_organization d (jor orgInput (JObj [(''name'', fallback), (''slug'', fallback), (''plan'', JStr ''free'')])))"

definition desired_project :: "jsv \<Rightarrow> jsv" where
  "desired_project spec = (let name = jget spec ''name''; slug = jget spec ''slug'' in
     jor (jget spec ''project'') (JObj [(''name'', jor name (jor slug (JStr ''project''))),
       (''slug'', jor slug (jor name (JStr ''project''))), (''description'', jor (jget spec ''description'') (JStr []))]))"

definition write_project :: "prisma \<Rightarrow> jsv \<Rightarrow> jsv \<Rightarrow> jsv prisma_run" where
  "write_project d organization input = (let
     slug = jor (jget input ''slug'') (JStr (slugInput (jget input ''name''))); o_id = (''organizationId'', jget organization ''id'');
     name = (''name'', jor (jget input ''name'') slug);
     rest = [(''description'', jor (jget input ''description'') (JStr [])), (''status'', jor (jget input ''status'') (JStr ''active''))]
   in upsert d ''project'' [(''organizationId_slug'', JObj [o_id, (''slug'', slug)])] (JObj (name # rest))
        (JObj ([o_id, name, (''slug'', slug)] @ rest)))"

definition write_service :: "prisma \<Rightarrow> surroundings \<Rightarrow> jsv \<Rightarrow> jsv \<Rightarrow> jsv prisma_run" where
  "write_service d w projectId service = (let slug = slug_or_name service in
     run_bind (service_data w (jwith service [(''projectId'', projectId)])) (\<lambda>data.
     upsert d ''service'' [(''projectId_slug'', JObj [(''projectId'', projectId), (''slug'', slug)])] data
       (jspread (JObj [(''projectId'', projectId), (''name'', jget service ''name''), (''slug'', slug)]) data)))"

definition write_resource :: "prisma \<Rightarrow> surroundings \<Rightarrow> jsv \<Rightarrow> jsv \<Rightarrow> jsv prisma_run" where
  "write_resource d w projectId resource = (let name = jget resource ''name''; input = jwith resource [(''projectId'', projectId)] in
     run_bind (known_secret d projectId name) (\<lambda>known.
     upsert d ''resource'' (by_name projectId name) (resourceData (wCwd w) input known)
       (jspread (JObj [(''projectId'', projectId), (''name'', name)]) (resourceData (wCwd w) input (JObj [])))))"

definition write_desired :: "prisma \<Rightarrow> surroundings \<Rightarrow> jsv \<Rightarrow> jsv prisma_run" where
  "write_desired d w spec = (let requestedId = jor (jget spec ''organizationId'') (jget spec ''orgId'') in
     run_bind (resolveDesiredOrganization d (jor (jget spec ''organization'') JNull) requestedId (jget spec ''organizationSlug'')) (\<lambda>organization.
     run_bind (write_project d organization (desired_project spec)) (\<lambda>project. let i = jget project ''id'' in
     run_bind (run_for (write_service d w i) (items (jget spec ''services''))) (\<lambda>serviceRows.
     run_bind (run_for (write_resource d w i) (items (jget spec ''resources''))) (\<lambda>resourceRows.
     run_then (audit_log d system ''desired-state:write'' ''project'' i (maskSecrets spec))
     (run_val (JObj [(''organization'', organization), (''project'', project), (''services'', JArr serviceRows),
        (''resources'', JArr resourceRows)])))))))"

definition writeDesiredProjectP :: "prisma \<Rightarrow> surroundings \<Rightarrow> jsv \<Rightarrow> jsv prisma_run" where
  "writeDesiredProjectP d w spec = in_transaction d (write_desired d w spec)"

section \<open>The snapshot\<close>

text \<open>\<open>Promise.all\<close>: every query is started; the first failure in the order of the list is reported.\<close>

fun run_all :: "('c, 'a) run list \<Rightarrow> ('c, 'a list) run" where
  "run_all [] = run_val []"
| "run_all (m # ms) = (\<lambda>tr. case m tr of (r, tr1) \<Rightarrow> (case run_all ms tr1 of (rs, tr2) \<Rightarrow>
     (rbind r (\<lambda>x. rbind rs (\<lambda>xs. Inr (x # xs))), tr2)))"

definition SNAPSHOT_TABLES :: "(string \<times> string) list" where
  "SNAPSHOT_TABLES = [(''organizations'', ''organization''), (''users'', ''user''), (''members'', ''membership''), (''projects'', ''project''),
     (''services'', ''service''), (''resources'', ''resource''), (''deployments'', ''deployment''), (''auditLogs'', ''auditLog''),
     (''usageRecords'', ''usageRecord''), (''workflowJobs'', ''workflowJob''), (''quotas'', ''quota''), (''domains'', ''domain''),
     (''resourceAttachments'', ''resourceAttachment''), (''buildLogs'', ''buildLog''), (''runtimeLogs'', ''runtimeLog''),
     (''deploymentEvents'', ''deploymentEvent''), (''resourceBackups'', ''resourceBackup'')]"

definition snapshot_rows :: "string \<Rightarrow> jsv \<Rightarrow> jsv" where
  "snapshot_rows name rows = (if name = ''users'' then JArr (map redactPrismaUser (items rows))
     else if name = ''environmentVariables'' then JArr (map maskEnvRow (items rows)) else rows)"

definition read_tables :: "prisma \<Rightarrow> (string \<times> string) list \<Rightarrow> (string \<times> jsv) list prisma_run" where
  "read_tables d tables = run_bind (run_all (map (\<lambda>(_, model_name). call d (Query model_name ''findMany'' JUndef)) tables))
     (\<lambda>rows. run_val (map (\<lambda>((name, _), r). (name, snapshot_rows name r)) (zip tables rows)))"

definition table_order :: "(string \<times> jsv) list \<Rightarrow> (string \<times> jsv) list" where
  "table_order tables = map (\<lambda>k. (k, jget (JObj tables) k)) [''organizations'', ''users'', ''members'', ''projects'', ''services'',
     ''resources'', ''deployments'', ''auditLogs'', ''usageRecords'', ''workflowJobs'', ''quotas'', ''domains'', ''resourceAttachments'',
     ''resourceBackups'', ''buildLogs'', ''runtimeLogs'', ''deploymentEvents'', ''environmentVariables'', ''githubIntegrations'']"

definition snapshotP :: "prisma \<Rightarrow> jsv prisma_run" where
  "snapshotP d = run_bind (read_tables d SNAPSHOT_TABLES) (\<lambda>first.
     run_bind (read_tables d [(''environmentVariables'', ''environmentVariable''), (''githubIntegrations'', ''githubIntegration'')]) (\<lambda>second.
     run_val (deep_clone (JObj (table_order (first @ second))))))"

section \<open>The repository of the control plane\<close>

text \<open>\<open>None\<close> is the repository in memory.\<close>

definition createControlPlaneRepository :: "prisma \<Rightarrow> jsv \<Rightarrow> jsv \<Rightarrow> jsv option prisma_run" where
  "createControlPlaneRepository d options penv = (let env = jor (jget options ''env'') penv in
     run_bind (run_lift (resolveControlPlaneRepositoryConfig options env)) (\<lambda>(kind, _).
     if kind = ''prisma'' then run_bind (connect d options) (\<lambda>client. run_val (Some client)) else run_val None))"

end
