(* ===== verification/PrismaRepository.thy ===== *)
theory PrismaRepository
  imports PrismaAccounts
begin

text \<open>
  The methods of \<open>PrismaControlPlaneRepository\<close> by name, and what all of them have in common: the rows they
  write hold sealed secrets, masked metadata and state, redacted log lines and normal deployment statuses.
\<close>

section \<open>The methods\<close>

type_synonym repository_call = "prisma \<Rightarrow> surroundings \<Rightarrow> jsv list \<Rightarrow> jsv prisma_run"

definition arg :: "nat \<Rightarrow> jsv list \<Rightarrow> jsv" where
  "arg n args = (if n < length args then args ! n else JUndef)"

definition ACCOUNT_METHODS :: "(string \<times> repository_call) list" where
  "ACCOUNT_METHODS = [
     (''createOrganization'', \<lambda>d w a. createOrganizationP d (arg 0 a)), (''findOrganizationBySlug'', \<lambda>d w a. findOrganizationBySlugP d (arg 0 a)),
     (''createUser'', \<lambda>d w a. createUserP d (arg 0 a)), (''findUserByEmail'', \<lambda>d w a. findUserByEmailP d (arg 0 a)),
     (''findUserByGitHubId'', \<lambda>d w a. findUserByGitHubIdP d (arg 0 a)), (''linkGitHubUser'', \<lambda>d w a. linkGitHubUserP d (arg 0 a) (arg 1 a)),
     (''addMember'', \<lambda>d w a. addMemberP d (arg 0 a)), (''listMembershipsForUser'', \<lambda>d w a. listMembershipsForUserP d (arg 0 a)),
     (''approveUser'', \<lambda>d w a. approveUserP d (arg 0 a) (arg 1 a)), (''rejectUser'', \<lambda>d w a. rejectUserP d (arg 0 a) (arg 1 a)),
     (''setQuota'', \<lambda>d w a. setQuotaP d (arg 0 a)), (''enforceUserCan'', \<lambda>d w a. enforceUserCanP d w (arg 0 a)),
     (''quotaUsageForUser'', \<lambda>d w a. quotaUsageForUserP d w (arg 0 a)), (''snapshot'', \<lambda>d w a. snapshotP d)]"

definition PROJECT_METHODS :: "(string \<times> repository_call) list" where
  "PROJECT_METHODS = [
     (''createProject'', \<lambda>d w a. createProjectP d (arg 0 a)), (''updateProject'', \<lambda>d w a. updateProjectP d (arg 0 a) (arg 1 a)),
     (''deleteProject'', \<lambda>d w a. deleteProjectP d (arg 0 a)), (''getProject'', \<lambda>d w a. getProjectP d (arg 0 a)),
     (''writeDesiredProject'', \<lambda>d w a. writeDesiredProjectP d w (arg 0 a)),
     (''createService'', \<lambda>d w a. createServiceP d w (arg 0 a)), (''updateService'', \<lambda>d w a. updateServiceP d w (arg 0 a) (arg 1 a)),
     (''deleteService'', \<lambda>d w a. deleteServiceP d (arg 0 a)), (''getService'', \<lambda>d w a. getServiceP d (arg 0 a)),
     (''listServicesForProject'', \<lambda>d w a. listServicesForProjectP d (arg 0 a)),
     (''upsertServiceEnvironment'', \<lambda>d w a. upsertServiceEnvironmentP d w (arg 0 a)),
     (''importServiceEnvFile'', \<lambda>d w a. importServiceEnvFileP d w (arg 0 a)),
     (''listServiceEnvironment'', \<lambda>d w a. listServiceEnvironmentP d (arg 0 a))]"

definition RESOURCE_METHODS :: "(string \<times> repository_call) list" where
  "RESOURCE_METHODS = [
     (''createResource'', \<lambda>d w a. createResourceP d w (arg 0 a)), (''updateResource'', \<lambda>d w a. updateResourceP d w (arg 0 a) (arg 1 a)),
     (''deleteResource'', \<lambda>d w a. deleteResourceP d (arg 0 a)), (''getResource'', \<lambda>d w a. getResourceP d (arg 0 a)),
     (''listResourcesForProject'', \<lambda>d w a. listResourcesForProjectP d (arg 0 a)),
     (''provisionResourceProvider'', \<lambda>d w a. provisionResourceProviderP d w (arg 0 a)),
     (''attachProviderConnectionSecret'', \<lambda>d w a. attachProviderConnectionSecretP d w (arg 0 a)),
     (''attachProviderConnectionSecrets'', \<lambda>d w a. attachProviderConnectionSecretsP d w (arg 0 a)),
     (''attachResource'', \<lambda>d w a. attachResourceP d w (arg 0 a)),
     (''runResourceConsoleQuery'', \<lambda>d w a. runResourceConsoleQueryP d w (arg 0 a) (arg 1 a) (arg 2 a)),
     (''runResourceConsoleCommand'', \<lambda>d w a. runResourceConsoleCommandP d w (arg 0 a) (arg 1 a) (arg 2 a)),
     (''browseResourceConsole'', \<lambda>d w a. browseResourceConsoleP d w (arg 0 a) (arg 1 a)),
     (''resourceConsoleView'', \<lambda>d w a. resourceConsoleViewP d w (arg 0 a) (to_str (arg 1 a)) (arg 2 a))]"

definition DEPLOYMENT_METHODS :: "(string \<times> repository_call) list" where
  "DEPLOYMENT_METHODS = [
     (''createDeployment'', \<lambda>d w a. createDeploymentP d (arg 0 a)),
     (''updateDeployment'', \<lambda>d w a. updateDeploymentP d w (arg 0 a) (arg 1 a) (arg 2 a)),
     (''transitionDeployment'', \<lambda>d w a. transitionDeploymentP d w (arg 0 a) (arg 1 a) (arg 2 a) (arg 3 a)),
     (''cancelDeployment'', \<lambda>d w a. cancelDeploymentP d w (arg 0 a) (arg 1 a)),
     (''rollbackDeployment'', \<lambda>d w a. rollbackDeploymentP d w (arg 0 a) (arg 1 a)),
     (''createDeploymentWorkflow'', \<lambda>d w a. createDeploymentWorkflowP d w (arg 0 a)),
     (''getDeployment'', \<lambda>d w a. getDeploymentP d (arg 0 a)),
     (''listDeploymentsForService'', \<lambda>d w a. listDeploymentsForServiceP d (arg 0 a)),
     (''appendBuildLog'', \<lambda>d w a. appendBuildLogP d (arg 0 a)), (''appendRuntimeLog'', \<lambda>d w a. appendRuntimeLogP d (arg 0 a)),
     (''appendDeploymentEvent'', \<lambda>d w a. appendDeploymentEventP d (arg 0 a)),
     (''listDeploymentLogs'', \<lambda>d w a. listDeploymentLogsP d (arg 0 a)), (''listRuntimeLogs'', \<lambda>d w a. listRuntimeLogsP d (arg 0 a)),
     (''listDeploymentEvents'', \<lambda>d w a. listDeploymentEventsP d (arg 0 a)),
     (''enqueueWorkflowJob'', \<lambda>d w a. enqueueWorkflowJobP d w (arg 0 a)),
     (''claimNextWorkflowJob'', \<lambda>d w a. claimNextWorkflowJobP d w (arg 0 a)),
     (''completeWorkflowJob'', \<lambda>d w a. completeWorkflowJobP d w (arg 0 a) (arg 1 a) (arg 2 a)),
     (''failWorkflowJob'', \<lambda>d w a. failWorkflowJobP d w (arg 0 a) (arg 1 a) (arg 2 a))]"

definition GITHUB_METHODS :: "(string \<times> repository_call) list" where
  "GITHUB_METHODS = [
     (''createGitHubIntegration'', \<lambda>d w a. createGitHubIntegrationP d w (arg 0 a)),
     (''listGitHubIntegrations'', \<lambda>d w a. listGitHubIntegrationsP d (arg 0 a)),
     (''attachGitHubRepositoryToService'', \<lambda>d w a. attachGitHubRepositoryToServiceP d (arg 0 a)),
     (''listGitHubInstallations'', \<lambda>d w a. listGitHubInstallationsP d (arg 0 a)),
     (''listGitHubInstallationRepositories'', \<lambda>d w a. listGitHubInstallationRepositoriesP d (arg 0 a)),
     (''importGitHubRepository'', \<lambda>d w a. importGitHubRepositoryP d w (arg 0 a)),
     (''syncGitHubRepository'', \<lambda>d w a. syncGitHubRepositoryP d w (arg 0 a)),
     (''handleGitHubWebhook'', \<lambda>d w a. handleGitHubWebhookP d w (arg 0 a))]"

definition METHODS :: "(string \<times> repository_call) list" where
  "METHODS = ACCOUNT_METHODS @ PROJECT_METHODS @ RESOURCE_METHODS @ DEPLOYMENT_METHODS @ GITHUB_METHODS"

text \<open>\<open>repository[name](...args)\<close>\<close>

definition prisma_method :: "prisma \<Rightarrow> surroundings \<Rightarrow> string \<Rightarrow> jsv list \<Rightarrow> jsv prisma_run" where
  "prisma_method d w name args = (case map_of METHODS name of
      Some m \<Rightarrow> m d w args
    | None \<Rightarrow> run_lift (js_throw (''repository.'' @ name @ '' is not a function'')))"

section \<open>Clean rows\<close>

definition sealed_by :: "surroundings \<Rightarrow> jsv \<Rightarrow> bool" where
  "sealed_by w v = (\<exists>iv x s. sealSecret (wCrypto w) iv (wEnv w) x (JObj []) = Inr s \<and> v = JStr s)"

definition masked_tree :: "jsv \<Rightarrow> bool" where
  "masked_tree v = (\<exists>x. v = maskSecrets x \<or> v = deep_clone (maskSecrets x))"

text \<open>The two audit rows whose metadata is written as it is\<close>

definition plain_metadata :: "jsv \<Rightarrow> bool" where
  "plain_metadata v = (\<forall>(k, _) \<in> set (entries v).
     k \<in> {''repository'', ''integrationId'', ''reason'', ''current'', ''increment'', ''limit''})"

definition redacted :: "jsv \<Rightarrow> bool" where
  "redacted v = (v = JNull \<or> (\<exists>x. v = sanitizeLogRecord x))"

definition clean_column :: "surroundings \<Rightarrow> string \<Rightarrow> string \<Rightarrow> jsv \<Rightarrow> bool" where
  "clean_column w model_name k v = (
     (k = ''sealedValue'' \<longrightarrow> sealed_by w v) \<and>
     (k = ''valueMasked'' \<and> model_name = ''secretValue'' \<longrightarrow> (\<exists>x. v = maskSecretValue x)) \<and>
     (k = ''value'' \<longrightarrow> model_name = ''environmentVariable'') \<and>
     (k \<in> {''line'', ''message'', ''errorMessage''} \<longrightarrow> redacted v) \<and>
     (k \<in> {''desiredState'', ''desiredSpec'', ''payload'', ''injectedEnv''} \<longrightarrow> masked_tree v) \<and>
     (k = ''metadata'' \<longrightarrow> masked_tree v \<or> plain_metadata v) \<and>
     (k = ''status'' \<and> model_name = ''deployment'' \<longrightarrow>
        (\<exists>s. v = normalizeDeploymentStatus s) \<or> v = JStr ''PREVIEW_CLEANUP_REQUESTED'') \<and>
     k \<notin> {''token'', ''databaseUrl'', ''connectionUrl'', ''password''})"

definition clean_row :: "surroundings \<Rightarrow> string \<Rightarrow> jsv \<Rightarrow> bool" where
  "clean_row w model_name row = ((\<forall>(k, v) \<in> set (entries row). clean_column w model_name k v) \<and>
     (model_name = ''environmentVariable'' \<and> jget row ''isSecret'' = JBool True \<longrightarrow> jget row ''value'' = JNull))"

definition written_rows :: "string \<Rightarrow> jsv \<Rightarrow> jsv list" where
  "written_rows operation args = (if operation \<in> {''create'', ''update'', ''updateMany''} then [jget args ''data'']
     else if operation = ''upsert'' then [jget args ''update'', jget args ''create''] else [])"

fun clean_query :: "surroundings \<Rightarrow> prisma_call \<Rightarrow> bool" where
  "clean_query w (Query model_name operation args) = list_all (clean_row w model_name) (written_rows operation args)"
| "clean_query w c = True"


lemma masked_tree_mask [simp]: "masked_tree (maskSecrets x)" "masked_tree (sanitizeJson x)"
  by (auto simp: masked_tree_def sanitizeJson_def)

lemma redacted_line [simp]: "redacted (maskLogLine x)" "redacted JNull"
  by (auto simp: redacted_def maskLogLine_def)

definition clean_columns :: "surroundings \<Rightarrow> string \<Rightarrow> jsv \<Rightarrow> bool" where
  "clean_columns w model_name row = (\<forall>(k, v) \<in> set (entries row). clean_column w model_name k v)"

lemma clean_row_other: "model_name \<noteq> ''environmentVariable'' \<Longrightarrow> clean_row w model_name row = clean_columns w model_name row"
  by (simp add: clean_row_def clean_columns_def)

lemma clean_columns_JObj: "clean_columns w m (JObj kvs) = list_all (\<lambda>(k, v). clean_column w m k v) kvs"
  by (simp add: clean_columns_def list_all_iff)

lemma clean_columns_jset: "clean_columns w m row \<Longrightarrow> clean_column w m k v \<Longrightarrow> clean_columns w m (jset row k v)"
  unfolding clean_columns_def entries_jset using set_alist_update_subset[of k v "entries row"] by fastforce

lemma clean_columns_jset_if:
  "clean_columns w m row \<Longrightarrow> (b \<Longrightarrow> clean_column w m k v) \<Longrightarrow> clean_columns w m (jset_if b k v row)"
  by (simp add: jset_if_def clean_columns_jset)

lemma clean_columns_merge:
  "clean_columns w m (JObj a) \<Longrightarrow> clean_columns w m (JObj b) \<Longrightarrow> clean_columns w m (JObj (alist_merge a b))"
proof (induction b arbitrary: a)
  case (Cons p b)
  obtain k v where p: "p = (k, v)" by (cases p)
  have kv: "clean_column w m k v" and b: "clean_columns w m (JObj b)"
    using Cons.prems(2) by (simp_all add: p clean_columns_JObj)
  have "clean_columns w m (JObj (AList.update k v a))"
    using clean_columns_jset[OF Cons.prems(1) kv] by (simp add: jset_def)
  then show ?case using Cons.IH b by (simp add: p)
qed simp

lemma clean_columns_jspread:
  "clean_columns w m a \<Longrightarrow> clean_columns w m b \<Longrightarrow> clean_columns w m (jspread a b)"
  using clean_columns_merge[of w m "entries a" "entries b"] by (simp add: jspread_def clean_columns_def)

section \<open>Clean runs\<close>

lemma clean_run_basic:
  "makes_calls P (run_val x)" "makes_calls P (run_lift r)" "makes_calls P (draws w)"
  by (simp_all add: run_val_def run_lift_def makes_calls_ret) (simp add: draws_def makes_calls_def)

lemma clean_then: "makes_calls P m \<Longrightarrow> makes_calls P n \<Longrightarrow> makes_calls P (run_then m n)"
  by (simp add: run_then_def makes_calls_bind)

lemma clean_or: "makes_calls P m \<Longrightarrow> makes_calls P (run_or v m)"
  unfolding makes_calls_def run_or_def by (simp add: split_beta split: sum.split)

lemma clean_for: "(\<And>x. makes_calls P (f x)) \<Longrightarrow> makes_calls P (run_for f xs)"
  by (induction xs) (auto intro!: makes_calls_bind clean_run_basic)

lemma clean_all: "(\<And>m. m \<in> set ms \<Longrightarrow> makes_calls P m) \<Longrightarrow> makes_calls P (run_all ms)"
proof (induction ms)
  case (Cons m ms)
  have m: "\<exists>cs. snd (m tr) = tr @ cs \<and> list_all P cs" and ms: "\<exists>cs. snd (run_all ms tr) = tr @ cs \<and> list_all P cs" for tr
    using Cons by (simp_all add: makes_calls_def)
  show ?case unfolding makes_calls_def
  proof
    fix tr
    obtain r1 cs1 where 1: "m tr = (r1, tr @ cs1)" "list_all P cs1" using m[of tr] by (metis prod.collapse)
    obtain r2 cs2 where 2: "run_all ms (tr @ cs1) = (r2, (tr @ cs1) @ cs2)" "list_all P cs2"
      using ms[of "tr @ cs1"] by (metis prod.collapse)
    show "\<exists>cs. snd (run_all (m # ms) tr) = tr @ cs \<and> list_all P cs"
      using 1 2 by (intro exI[of _ "cs1 @ cs2"]) simp
  qed
qed (simp add: clean_run_basic)

lemma clean_transaction:
  assumes "makes_calls P m" "P BeginTx" "P CommitTx" "P RollbackTx"
  shows "makes_calls P (in_transaction d m)"
proof -
  have "makes_calls P (\<lambda>tr. case m tr of (Inl e, tr') \<Rightarrow> (Inl e, snd (call d RollbackTx tr'))
    | (Inr x, tr') \<Rightarrow> run_bind (call d CommitTx) (\<lambda>_. run_val x) tr')"
    unfolding makes_calls_def
  proof
    fix tr
    obtain r cs where m: "m tr = (r, tr @ cs)" "list_all P cs"
      using assms(1) unfolding makes_calls_def by (metis prod.collapse)
    show "\<exists>cs. snd (case m tr of (Inl e, tr') \<Rightarrow> (Inl e, snd (call d RollbackTx tr'))
      | (Inr x, tr') \<Rightarrow> run_bind (call d CommitTx) (\<lambda>_. run_val x) tr') = tr @ cs \<and> list_all P cs"
      using m assms(3,4)
      by (cases r) (auto simp: call_def run_bind_def run_val_def run_ret_def split: sum.split)
  qed
  then show ?thesis unfolding in_transaction_def by (intro makes_calls_bind makes_calls_call assms(2))
qed

lemma clean_reads:
  "makes_calls (clean_query w) (find_unique d m i)" "makes_calls (clean_query w) (find_many d m fs)"
  "makes_calls (clean_query w) (delete_row d m i)" "makes_calls (clean_query w) (listed d m f ord direction)"
  unfolding find_unique_def find_many_def delete_row_def listed_def query_def
  by (auto intro!: makes_calls_call simp: written_rows_def)

lemma clean_select: "makes_calls (clean_query w) (select_many d m fs ks)"
  unfolding select_many_def query_def by (intro makes_calls_bind makes_calls_call clean_run_basic) (simp add: written_rows_def)

lemma clean_query_read:
  "operation \<notin> {''create'', ''update'', ''updateMany'', ''upsert''} \<Longrightarrow> makes_calls (clean_query w) (query d m operation args)"
  unfolding query_def by (intro makes_calls_call) (simp add: written_rows_def)

lemma clean_writes:
  "clean_row w m row \<Longrightarrow> makes_calls (clean_query w) (create_row d m row)"
  "clean_row w m row \<Longrightarrow> makes_calls (clean_query w) (update_row d m i row)"
  "clean_row w m row \<Longrightarrow> clean_row w m created \<Longrightarrow> makes_calls (clean_query w) (upsert d m key row created)"
  unfolding create_row_def update_row_def upsert_def query_def
  by (auto intro!: makes_calls_call simp: written_rows_def where_id_def)

lemma clean_audit:
  "masked_tree metadata \<or> plain_metadata metadata \<Longrightarrow>
   makes_calls (clean_query w) (audit_log d actor action targetType targetId metadata)"
  unfolding audit_log_def
  by (intro clean_writes) (simp add: clean_row_other clean_columns_JObj clean_column_def)

lemmas clean_intros = makes_calls_if makes_calls_when clean_then clean_or clean_for clean_transaction clean_run_basic
  makes_calls_bind clean_reads clean_select clean_audit clean_writes

end
