(* ===== verification/PrismaClean.thy ===== *)
theory PrismaClean
  imports PrismaRepository
begin

text \<open>
  Every method of the Prisma repository writes clean rows only: one lemma for each kind of row the code
  builds, one for each operation, composed over the table of methods.
\<close>

section \<open>Rows\<close>

lemmas clean_simps = clean_row_other clean_columns_JObj clean_column_def or_null_def or_undefined_def

lemma clean_service_columns: "clean_row w ''service'' (service_columns safe)"
  by (simp add: clean_simps service_columns_def)

lemma clean_service_data:
  "serviceData u e input = Inr data \<Longrightarrow> clean_row w ''service'' data"
  by (auto simp: serviceData_def rbind_Inr_iff clean_service_columns)

lemma clean_set_column: "clean_columns w m row \<Longrightarrow> k \<in> set SERVICE_COLUMNS \<Longrightarrow> clean_columns w m (set_column input k row)"
proof -
  have "list_all (\<lambda>k. \<forall>v. clean_column w m k v) SERVICE_COLUMNS"
    by (simp add: SERVICE_COLUMNS_def clean_column_def)
  then show "clean_columns w m row \<Longrightarrow> k \<in> set SERVICE_COLUMNS \<Longrightarrow> clean_columns w m (set_column input k row)"
    unfolding set_column_def Let_def by (auto intro!: clean_columns_jset simp: list_all_iff)
qed

lemma fold_clean:
  "(\<And>k row. k \<in> set ks \<Longrightarrow> clean_columns w m row \<Longrightarrow> clean_columns w m (f k row)) \<Longrightarrow> clean_columns w m row \<Longrightarrow>
   clean_columns w m (fold f ks row)"
  by (induction ks arbitrary: row) simp_all

lemma clean_service_update: "clean_row w ''service'' (service_update_columns safe)"
proof -
  have "clean_columns w ''service'' (fold (set_column safe) SERVICE_COLUMNS (JObj []))"
    by (intro fold_clean clean_set_column) (simp_all add: clean_columns_JObj)
  then show ?thesis unfolding service_update_columns_def Let_def
    by (simp add: clean_row_other clean_columns_jset_if clean_column_def)
qed

lemma clean_service_update_data: "serviceUpdateData u e input = Inr data \<Longrightarrow> clean_row w ''service'' data"
  by (auto simp: serviceUpdateData_def rbind_Inr_iff clean_service_update)

lemma clean_resource: "clean_row w ''resource'' (resourceData cwd input options)"
  by (simp add: clean_simps resourceData_def Let_def)

lemma clean_project: "clean_row w ''project'' (projectUpdateData input)"
  by (simp add: clean_row_other projectUpdateData_def Let_def clean_columns_jset_if clean_columns_JObj clean_column_def)

lemma clean_columns_if: "(b \<Longrightarrow> clean_columns w m x) \<Longrightarrow> (\<not> b \<Longrightarrow> clean_columns w m y) \<Longrightarrow> clean_columns w m (if b then x else y)"
  by simp

lemma some_status: "\<exists>s. normalizeDeploymentStatus v = normalizeDeploymentStatus s"
  by blast

lemma clean_status: "clean_column w m ''status'' (normalizeDeploymentStatus v)"
  by (simp add: clean_column_def some_status)

lemma clean_status_columns:
  "clean_columns w ''deployment'' row \<Longrightarrow> clean_columns w ''deployment'' (status_columns input current now row)"
  unfolding status_columns_def ready_columns_def Let_def
  by (intro clean_columns_jset_if clean_columns_jset clean_columns_if clean_status; simp add: clean_column_def)

lemma clean_deployment_column:
  "clean_columns w m row \<Longrightarrow> k \<in> set DEPLOYMENT_COLUMNS \<Longrightarrow> clean_columns w m (deployment_column input k row)"
proof -
  have "list_all (\<lambda>k. k = ''errorMessage'' \<or> (\<forall>v. clean_column w m k v)) DEPLOYMENT_COLUMNS"
    by (simp add: DEPLOYMENT_COLUMNS_def clean_column_def)
  moreover have "''errorMessage'' \<notin> set DATE_COLUMNS" by (simp add: DATE_COLUMNS_def)
  moreover have "clean_column w m ''errorMessage'' (maskLogLine v)" for v by (simp add: clean_column_def)
  ultimately show "clean_columns w m row \<Longrightarrow> k \<in> set DEPLOYMENT_COLUMNS \<Longrightarrow> clean_columns w m (deployment_column input k row)"
    unfolding deployment_column_def Let_def by (auto intro!: clean_columns_jset simp: list_all_iff)
qed

lemma clean_deployment_update: "clean_row w ''deployment'' (deploymentUpdateData t input current)"
proof -
  have "clean_columns w ''deployment'' (jset_if b ''imageUrl'' v (JObj []))" for b v
    by (intro clean_columns_jset_if) (simp_all add: clean_columns_JObj clean_column_def)
  then show ?thesis unfolding deploymentUpdateData_def Let_def
    by (simp add: clean_row_other fold_clean clean_deployment_column clean_status_columns)
qed

lemma clean_compact: "clean_columns w m row \<Longrightarrow> clean_columns w m (compactData row)"
  by (auto simp: clean_columns_def compactData_def)

lemma clean_deployment_data: "deploymentData input = Inr data \<Longrightarrow> clean_row w ''deployment'' data"
  unfolding deploymentData_def Let_def js_throw_def
  by (auto simp: clean_row_other DATE_COLUMNS_def or_null_def clean_columns_JObj clean_column_def some_status
      intro!: clean_compact split: if_splits)

lemma clean_job: "clean_row w ''workflowJob'' (workflowJobData t input)" "clean_row w ''workflowJob'' (prismaWorkflowJobUpdateData t input)"
  by (simp_all add: clean_simps workflowJobData_def prismaWorkflowJobUpdateData_def job_columns_def)

lemma clean_variable: "clean_row w ''environmentVariable'' (envVariableData input)"
  by (simp add: clean_row_def clean_column_def envVariableData_def Let_def)

lemma clean_quota: "clean_columns w m (quotaData input)"
proof -
  have "list_all (\<lambda>k. \<forall>v. clean_column w m k v) QUOTA_COLUMNS"
    by (simp add: QUOTA_COLUMNS_def clean_column_def)
  then show ?thesis by (auto simp: quotaData_def clean_columns_JObj list_all_iff)
qed

section \<open>Operations\<close>

lemma clean_secret:
  assumes "seal w k v tr = (Inr x, tr')"
  shows "sealed_by w x"
  using assms unfolding seal_def sealed_by_def run_lift_def
  by (auto simp: run_bind_Inr run_ret_Inr rbind_Inr_iff)

lemma clean_seal: "makes_calls P (seal w k v)"
  unfolding seal_def by (intro clean_intros)

lemma clean_upsert_secret: "makes_calls (clean_query w) (upsert_secret d w scopeType scopeId key v metadata)"
  unfolding upsert_secret_def Let_def secret_key_def secret_columns_def
  by (intro clean_intros clean_seal) (auto simp: clean_simps dest: clean_secret)

lemma clean_query_find: "makes_calls (clean_query w) (query d m ''findUnique'' a)" "makes_calls (clean_query w) (query d m ''findFirst'' a)"
  "makes_calls (clean_query w) (query d m ''findMany'' a)" "makes_calls (clean_query w) (query d m ''deleteMany'' a)"
  "makes_calls (clean_query w) (query d m ''delete'' a)"
  by (rule clean_query_read; simp)+

lemmas op_intros = clean_intros clean_query_find

lemma clean_accounts:
  "makes_calls (clean_query w) (createOrganizationP d x)" "makes_calls (clean_query w) (findOrganizationBySlugP d x)"
  "makes_calls (clean_query w) (createUserP d x)" "makes_calls (clean_query w) (findUserByEmailP d x)"
  "makes_calls (clean_query w) (findUserByGitHubIdP d x)" "makes_calls (clean_query w) (addMemberP d x)"
  "makes_calls (clean_query w) (listMembershipsForUserP d x)"
  unfolding createOrganizationP_def findOrganizationBySlugP_def createUserP_def findUserByEmailP_def findUserByGitHubIdP_def
    addMemberP_def listMembershipsForUserP_def Let_def
  by (intro op_intros; simp add: clean_simps)+

lemma clean_link: "makes_calls (clean_query w) (linkGitHubUserP d x y)"
  unfolding linkGitHubUserP_def link_data_def Let_def set_given_def
  by (intro op_intros clean_accounts)
    (auto simp: clean_row_other clean_columns_JObj clean_column_def intro!: clean_columns_jset clean_columns_if)

lemma clean_quota_row: "makes_calls (clean_query w) (setQuotaP d x)"
  unfolding setQuotaP_def Let_def
  by (intro op_intros) (simp_all add: clean_row_other clean_quota clean_columns_jspread clean_columns_JObj clean_column_def)

lemma clean_approval:
  "makes_calls (clean_query w) (approveUserP d x y)" "makes_calls (clean_query w) (rejectUserP d x y)"
  unfolding approveUserP_def rejectUserP_def Let_def
  by (intro op_intros clean_quota_row; simp add: clean_simps plain_metadata_def)+

lemma clean_usage: "makes_calls (clean_query w) (quotaUsageForUserP d w x)"
  unfolding quotaUsageForUserP_def Let_def by (intro op_intros)

lemma clean_enforce: "makes_calls (clean_query w) (enforceUserCanP d w x)"
  unfolding enforceUserCanP_def user_quota_def audit_block_def Let_def
  by (intro op_intros clean_usage clean_quota_row) (simp_all add: clean_simps plain_metadata_def)

lemma clean_projects:
  "makes_calls (clean_query w) (createProjectP d x)" "makes_calls (clean_query w) (updateProjectP d x y)"
  "makes_calls (clean_query w) (deleteProjectP d x)" "makes_calls (clean_query w) (getProjectP d x)"
  "makes_calls (clean_query w) (getServiceP d x)" "makes_calls (clean_query w) (getResourceP d x)"
  "makes_calls (clean_query w) (getDeploymentP d x)" "makes_calls (clean_query w) (listServicesForProjectP d x)"
  "makes_calls (clean_query w) (listResourcesForProjectP d x)" "makes_calls (clean_query w) (listDeploymentsForServiceP d x)"
  unfolding createProjectP_def updateProjectP_def deleteProjectP_def getProjectP_def getServiceP_def getResourceP_def
    getDeploymentP_def listServicesForProjectP_def listResourcesForProjectP_def listDeploymentsForServiceP_def Let_def
  by (intro op_intros clean_project; simp add: clean_simps)+

lemma clean_lifted: "run_lift r tr = (Inr x, tr') \<Longrightarrow> r = Inr x"
  by (simp add: run_lift_def run_ret_Inr)

lemma clean_service_run: "makes_calls P (service_data u x)"
  by (simp add: service_data_def clean_run_basic)

lemma clean_service_row:
  "service_data u x tr = (Inr row, tr') \<Longrightarrow> clean_row w ''service'' row"
  "service_data u x tr = (Inr row, tr') \<Longrightarrow> clean_row w ''service'' (jspread (JObj [(''projectId'', a), (''name'', b), (''slug'', c)]) row)"
  using clean_service_data
  by (auto simp: service_data_def clean_row_other clean_columns_JObj clean_column_def dest!: clean_lifted intro!: clean_columns_jspread)

lemma clean_services:
  "makes_calls (clean_query w) (createServiceP d u x)" "makes_calls (clean_query w) (updateServiceP d u x y)"
  "makes_calls (clean_query w) (deleteServiceP d x)" "makes_calls (clean_query w) (write_service d u i x)"
proof -
  show "makes_calls (clean_query w) (createServiceP d u x)" "makes_calls (clean_query w) (write_service d u i x)"
    unfolding createServiceP_def write_service_def Let_def
    by (intro op_intros clean_service_run; erule clean_service_row)+
  show "makes_calls (clean_query w) (updateServiceP d u x y)"
    unfolding updateServiceP_def by (intro op_intros) (auto dest!: clean_lifted clean_service_update_data)
  show "makes_calls (clean_query w) (deleteServiceP d x)"
    unfolding deleteServiceP_def by (intro op_intros)
qed

lemma clean_provider_env: "makes_calls P (provider_env w x)"
  unfolding provider_env_def by (intro clean_intros)

lemma clean_connection: "makes_calls (clean_query w) (upsert_connection d w i metadata f0 es)"
  by (induction es arbitrary: f0) (auto intro!: clean_intros clean_upsert_secret)

lemma clean_attach:
  "makes_calls (clean_query w) (attachProviderConnectionSecretsP d w x)"
  "makes_calls (clean_query w) (attachProviderConnectionSecretP d w x)"
proof -
  show *: "makes_calls (clean_query w) (attachProviderConnectionSecretsP d w x)" for x
    unfolding attachProviderConnectionSecretsP_def Let_def
    by (intro op_intros clean_projects clean_connection; simp add: clean_simps)
  show "makes_calls (clean_query w) (attachProviderConnectionSecretP d w x)"
    unfolding attachProviderConnectionSecretP_def Let_def by (intro op_intros *)
qed

lemma clean_contract: "makes_calls (clean_query w) (contract_secrets d w i row)"
  unfolding contract_secrets_def by (intro op_intros clean_provider_env clean_attach)

lemma clean_known: "makes_calls (clean_query w) (known_secret d i n)"
  unfolding known_secret_def by (intro op_intros)

lemma clean_named_resource:
  "clean_row w ''resource'' (jspread (JObj [(''projectId'', a), (''name'', b)]) (resourceData cwd x y))"
  "clean_row w ''resource'' (jspread (JObj [(''projectId'', a), (''name'', b), (''slug'', c)]) (resourceData cwd x y))"
  using clean_resource by (simp_all add: clean_row_other clean_columns_jspread clean_columns_JObj clean_column_def)

lemma clean_resources:
  "makes_calls (clean_query w) (createResourceP d w x)" "makes_calls (clean_query w) (updateResourceP d w x y)"
  unfolding createResourceP_def updateResourceP_def Let_def
  by (intro op_intros clean_projects clean_known clean_contract clean_resource clean_named_resource; simp)+

lemma clean_removal:
  "makes_calls (clean_query w) (removeResourceInjectedEnvironmentP d x)" "makes_calls (clean_query w) (deleteResourceP d y)"
proof -
  show *: "makes_calls (clean_query w) (removeResourceInjectedEnvironmentP d x)" for x
    unfolding removeResourceInjectedEnvironmentP_def drop_injected_def Let_def by (intro op_intros)
  show "makes_calls (clean_query w) (deleteResourceP d y)"
    unfolding deleteResourceP_def by (intro op_intros clean_projects *; simp)
qed

lemma clean_found: "(\<And>row. makes_calls (clean_query w) (f row)) \<Longrightarrow> makes_calls (clean_query w) (found_resource d i r f)"
  unfolding found_resource_def by (intro op_intros clean_projects)

lemma clean_provision: "makes_calls (clean_query w) (provisionResourceProviderP d w x)"
  unfolding provisionResourceProviderP_def Let_def
  by (intro clean_found op_intros clean_provider_env clean_attach; simp add: clean_simps)

lemma clean_environment:
  "makes_calls (clean_query w) (upsertServiceEnvironmentP d w x)" "makes_calls (clean_query w) (importServiceEnvFileP d w x)"
  "makes_calls (clean_query w) (listServiceEnvironmentP d x)"
proof -
  show *: "makes_calls (clean_query w) (upsertServiceEnvironmentP d w x)" for x
    unfolding upsertServiceEnvironmentP_def upsert_variable_def Let_def
    by (intro op_intros clean_upsert_secret clean_variable; simp)
  show "makes_calls (clean_query w) (importServiceEnvFileP d w x)"
    unfolding importServiceEnvFileP_def Let_def by (intro op_intros *)
  show "makes_calls (clean_query w) (listServiceEnvironmentP d x)"
    unfolding listServiceEnvironmentP_def Let_def by (intro op_intros)
qed

lemma clean_logs:
  "makes_calls (clean_query w) (appendBuildLogP d x)" "makes_calls (clean_query w) (appendRuntimeLogP d x)"
  "makes_calls (clean_query w) (appendDeploymentEventP d x)" "makes_calls (clean_query w) (listDeploymentLogsP d x)"
  "makes_calls (clean_query w) (listRuntimeLogsP d x)" "makes_calls (clean_query w) (listDeploymentEventsP d x)"
  unfolding appendBuildLogP_def appendRuntimeLogP_def appendDeploymentEventP_def listDeploymentLogsP_def listRuntimeLogsP_def
    listDeploymentEventsP_def
  by (intro op_intros; simp add: clean_simps)+

lemma clean_claims: "makes_calls (clean_query w) (claim_attempts d options now expired n)"
proof (induction n)
  case (Suc n)
  have "makes_calls (clean_query w) (query d ''workflowJob'' ''updateMany'' [(''where'', x), (''data'', claim_data options now)])" for x
    unfolding query_def claim_data_def
    by (intro makes_calls_call) (simp add: written_rows_def clean_row_other clean_columns_JObj clean_column_def)
  then show ?case unfolding claim_attempts.simps by (intro op_intros Suc)
qed (simp add: clean_run_basic)

lemma clean_jobs:
  "makes_calls (clean_query w) (enqueueWorkflowJobP d u x)" "makes_calls (clean_query w) (claimNextWorkflowJobP d u x)"
  "makes_calls (clean_query w) (completeWorkflowJobP d u x y z)" "makes_calls (clean_query w) (failWorkflowJobP d u x y z)"
  unfolding enqueueWorkflowJobP_def claimNextWorkflowJobP_def completeWorkflowJobP_def failWorkflowJobP_def current_job_def
    store_job_def Let_def
  by (intro op_intros clean_claims clean_job; simp)+

section \<open>Deployments and GitHub\<close>

lemma clean_create_deployment: "makes_calls (clean_query w) (create_deployment d x)" "makes_calls (clean_query w) (createDeploymentP d x)"
proof -
  show *: "makes_calls (clean_query w) (create_deployment d x)" for x
    unfolding create_deployment_def by (intro op_intros) (auto dest!: clean_lifted clean_deployment_data)
  show "makes_calls (clean_query w) (createDeploymentP d x)"
    unfolding createDeploymentP_def Let_def by (intro op_intros *)
qed

lemma clean_found_deployment:
  "(\<And>row. makes_calls (clean_query w) (f row)) \<Longrightarrow> makes_calls (clean_query w) (found_deployment d i f)"
  unfolding found_deployment_def by (intro op_intros clean_projects)

lemma clean_update_deployment: "makes_calls (clean_query w) (updateDeploymentP d u x y z)"
  unfolding updateDeploymentP_def Let_def
  by (intro clean_found_deployment op_intros clean_deployment_update clean_logs)

lemma clean_transition: "makes_calls (clean_query w) (transitionDeploymentP d u x y z v)"
  unfolding transitionDeploymentP_def Let_def
  by (intro clean_found_deployment op_intros clean_update_deployment clean_logs)

lemma clean_deployments:
  "makes_calls (clean_query w) (cancelDeploymentP d u x y)" "makes_calls (clean_query w) (rollbackDeploymentP d u x y)"
  "makes_calls (clean_query w) (createDeploymentWorkflowP d u x)"
  unfolding cancelDeploymentP_def rollbackDeploymentP_def rollback_events_def createDeploymentWorkflowP_def Let_def
  by (intro clean_found_deployment op_intros clean_transition clean_jobs clean_projects clean_create_deployment clean_logs; simp)+

lemma clean_integration: "makes_calls (clean_query w) (known_integration d x)"
  unfolding known_integration_def by (intro op_intros)

lemma clean_github:
  "makes_calls (clean_query w) (createGitHubIntegrationP d w x)" "makes_calls (clean_query w) (listGitHubIntegrationsP d x)"
  "makes_calls (clean_query w) (attachGitHubRepositoryToServiceP d x)" "makes_calls (clean_query w) (listGitHubInstallationsP d x)"
  "makes_calls (clean_query w) (listGitHubInstallationRepositoriesP d x)" "makes_calls (clean_query w) (importGitHubRepositoryP d u x)"
  unfolding createGitHubIntegrationP_def listGitHubIntegrationsP_def attachGitHubRepositoryToServiceP_def
    listGitHubInstallationsP_def listGitHubInstallationRepositoriesP_def importGitHubRepositoryP_def
    services_with_repository_def Let_def
  by (intro op_intros clean_upsert_secret clean_integration clean_projects clean_services;
      simp add: clean_simps plain_metadata_def)+

lemma clean_repository_services: "makes_calls (clean_query w) (servicesForPrismaGitHubRepository d x ids)"
  unfolding servicesForPrismaGitHubRepository_def Let_def by (intro op_intros)

lemma clean_sync: "makes_calls (clean_query w) (syncGitHubRepositoryP d u x)"
  unfolding syncGitHubRepositoryP_def Let_def
  by (intro op_intros clean_repository_services clean_jobs; simp)

lemma clean_webhook: "makes_calls (clean_query w) (handleGitHubWebhookP d u x)"
proof -
  have actions: "makes_calls (clean_query w) (webhook_actionsP d u plan service)" for plan service
    unfolding webhook_actionsP_def production_deployP_def preview_deployP_def preview_cleanupP_def request_cleanupP_def Let_def
    by (intro op_intros clean_create_deployment clean_jobs clean_logs; simp add: clean_simps)
  have event: "clean_row w ''webhookEvent'' (JObj [(''provider'', a), (''eventType'', b), (''deliveryId'', i),
      (''payload'', sanitizeJson y), (''handled'', h)])" for a b i y h
    by (simp add: clean_simps)
  show ?thesis unfolding handleGitHubWebhookP_def accept_webhookP_def Let_def
    by (intro op_intros clean_repository_services actions event; simp)
qed

section \<open>The console and the desired state\<close>

lemma clean_console_run: "makes_calls (clean_query w) (console_runP d u i f)"
  unfolding console_runP_def resourceForConsoleP_def by (intro clean_found op_intros) (simp add: split_beta clean_run_basic)

lemma clean_console:
  "makes_calls (clean_query w) (runResourceConsoleQueryP d u x y z)" "makes_calls (clean_query w) (runResourceConsoleCommandP d u x y z)"
  "makes_calls (clean_query w) (browseResourceConsoleP d u x y)" "makes_calls (clean_query w) (resourceConsoleViewP d u x v y)"
  unfolding runResourceConsoleQueryP_def runResourceConsoleCommandP_def browseResourceConsoleP_def resourceConsoleViewP_def
  by (intro op_intros clean_console_run; simp)+

lemma clean_attach_resource: "makes_calls (clean_query w) (attachResourceP d w x)"
proof -
  have view: "makes_calls (clean_query w) (resourceForConsoleP d w r)" for r
    unfolding resourceForConsoleP_def by (intro op_intros) (simp add: split_beta clean_run_basic)
  show ?thesis unfolding attachResourceP_def Let_def
    by (intro op_intros view clean_projects clean_environment; simp add: clean_simps)
qed

lemma clean_desired: "makes_calls (clean_query w) (writeDesiredProjectP d u x)"
proof -
  have resource: "makes_calls (clean_query w) (write_resource d u i r)" for i r
    unfolding write_resource_def Let_def by (intro op_intros clean_known clean_resource clean_named_resource)
  have organization: "makes_calls (clean_query w) (resolveDesiredOrganization d a b c)" for a b c
    unfolding resolveDesiredOrganization_def upsert_organization_def Let_def
    by (intro op_intros clean_accounts; simp add: clean_simps)
  have project: "makes_calls (clean_query w) (write_project d a b)" for a b
    unfolding write_project_def Let_def by (intro op_intros; simp add: clean_simps)
  show ?thesis unfolding writeDesiredProjectP_def write_desired_def Let_def
    by (intro op_intros clean_services resource organization project; simp)
qed

lemma clean_snapshot: "makes_calls (clean_query w) (snapshotP d)"
proof -
  have "makes_calls (clean_query w) (read_tables d tables)" for tables
    unfolding read_tables_def
    by (intro op_intros clean_all) (auto intro!: makes_calls_call simp: written_rows_def)
  then show ?thesis unfolding snapshotP_def by (intro op_intros)
qed

lemma clean_method_tables:
  "list_all (\<lambda>(_, m). \<forall>args. makes_calls (clean_query w) (m d w args)) ACCOUNT_METHODS"
  "list_all (\<lambda>(_, m). \<forall>args. makes_calls (clean_query w) (m d w args)) PROJECT_METHODS"
  "list_all (\<lambda>(_, m). \<forall>args. makes_calls (clean_query w) (m d w args)) RESOURCE_METHODS"
  "list_all (\<lambda>(_, m). \<forall>args. makes_calls (clean_query w) (m d w args)) DEPLOYMENT_METHODS"
  "list_all (\<lambda>(_, m). \<forall>args. makes_calls (clean_query w) (m d w args)) GITHUB_METHODS"
  unfolding ACCOUNT_METHODS_def PROJECT_METHODS_def RESOURCE_METHODS_def DEPLOYMENT_METHODS_def GITHUB_METHODS_def
    list.pred_inject(2) case_prod_conv
  by (intro conjI allI list.pred_inject(1) clean_accounts clean_link clean_approval clean_quota_row clean_enforce clean_usage
      clean_snapshot clean_projects clean_desired clean_services clean_environment clean_resources clean_removal clean_provision
      clean_attach clean_attach_resource clean_console clean_deployments clean_create_deployment clean_update_deployment
      clean_transition clean_logs clean_jobs clean_github clean_sync clean_webhook)+

lemma clean_method:
  assumes "map_of METHODS name = Some m"
  shows "makes_calls (clean_query w) (m d w args)"
proof -
  have "list_all (\<lambda>(_, m). \<forall>args. makes_calls (clean_query w) (m d w args)) METHODS"
    unfolding METHODS_def list_all_append using clean_method_tables by blast
  then show ?thesis using map_of_SomeD[OF assms] by (auto simp: list_all_iff)
qed

section \<open>Property\<close>

text \<open>C8: Whatever method of the Prisma repository runs and whatever the database answers, every row it asks to
  write is clean: secrets are sealed and their columns hold nothing else, a secret variable has no value,
  state, specifications, payloads and injected variables went through \<open>maskSecrets\<close> (metadata too, but for the two audit rows
  that hold no more than identifiers and amounts), log lines and messages through \<open>sanitizeLogRecord\<close>, and
  deployments have a normal status or await their clean-up.\<close>

theorem repository_writes_clean:
  "list_all (clean_query w) (snd (prisma_method d w name args []))"
proof (cases "map_of METHODS name")
  case None
  then show ?thesis by (simp add: prisma_method_def run_lift_def run_ret_def)
next
  case (Some m)
  show ?thesis
    using makes_calls_trace[OF clean_method[OF Some, of w d args]] unfolding prisma_method_def Some option.case
    by (metis prod.collapse)
qed

end
