(* ===== verification/PrismaClaims.thy ===== *)
theory PrismaClaims
  imports PrismaRepository
begin

text \<open>
  Workers that claim jobs of the Prisma repository at the same time. The database is shared: a history lists
  the calls of all workers in the order the database executed them, with its answers, and the calls of one
  worker are those of its own run on the answers it got. \<open>database_laws\<close> is what Prisma documents of any table,
  filter and data: a row is known by its id, reading changes nothing, and one \<open>updateMany\<close> is atomic, counts the
  rows it updates, updates only rows that agree with its filter, and all of these.
\<close>

section \<open>Histories\<close>






section \<open>Claims\<close>





definition column_value :: "jsv \<Rightarrow> bool" where
  "column_value v = (v = JNull \<or> scalar v)"


definition updated :: "jsv \<Rightarrow> jsv \<Rightarrow> jsv \<Rightarrow> bool" where
  "updated data row row' = (\<forall>k. if has_own data k then column_value (jget data k) \<longrightarrow> jget row' k = jget data k
     else jget row' k = jget row k)"













lemma claim_data_id: "updated (claim_data options now) r r' \<Longrightarrow> jget r' ''id'' = jget r ''id''"
  by (auto simp: updated_def claim_data_def has_own_def dest!: spec[of _ "''id''"])














section \<open>Property\<close>


section \<open>A database and two workers\<close>


definition job_row :: "string \<times> (string \<times> jsv) list \<Rightarrow> jsv" where
  "job_row p = JObj ((''id'', JStr (fst p)) # snd p)"





lemma job_row_id [simp]: "jget (job_row p) ''id'' = JStr (fst p)"
  by (simp add: job_row_def)
























end
