(* ===== verification/NestService.thy ===== *)
theory NestService
  imports PrismaRepository Quota
begin

text \<open>
  The service behind the production API (\<open>apps/api/src/raibitserver.service.ts\<close>): every operation checks the
  scope of the subject and calls a repository. The repository is a parameter, a method by name and arguments;
  both classes of the code have all methods that are called, but \<open>writeDesiredProject\<close> and
  \<open>quotaUsageForUser\<close>, which only the Prisma repository has. The exceptions of NestJS are errors with their
  status code.
\<close>

section \<open>The repository and the surroundings\<close>

record 'c backend =
  calls :: "string \<Rightarrow> jsv list \<Rightarrow> ('c, jsv) run"
  prismaBacked :: bool

record service_context =
  vEnv :: jsv
  vNow :: int
  vLater :: int
  vKdf :: kdf
  vSalt :: string
  vCompare :: "string \<Rightarrow> string \<Rightarrow> int"
  vJwt :: jwt_lib
  vTokenId :: string
  vOauthState :: string
  vGitUrl :: url_parser

definition denied :: "string \<Rightarrow> 'a res" where
  "denied m = js_throw_status 403 m"

definition missing :: "string \<Rightarrow> jsv \<Rightarrow> 'a res" where
  "missing kind i = js_throw_status 404 (kind @ '' not found: '' @ to_str i)"

section \<open>Access\<close>

definition isGlobalSubject :: "jsv \<Rightarrow> bool" where
  "isGlobalSubject subject = (jget subject ''global'' = JBool True \<or> jget subject ''authMode'' = JStr ''disabled'')"

definition enforceScope :: "jsv \<Rightarrow> jsv \<Rightarrow> unit res" where
  "enforceScope subject scope = (case requireScope subject scope of Inl e \<Rightarrow> denied (message e) | Inr _ \<Rightarrow> Inr ())"

definition project_in :: "jsv \<Rightarrow> jsv \<Rightarrow> jsv option" where
  "project_in snapshot projectId = find (\<lambda>row. same_text (jget row ''id'') projectId) (items (jget snapshot ''projects''))"

definition assertProjectAccessS :: "'c backend \<Rightarrow> jsv \<Rightarrow> jsv \<Rightarrow> ('c, unit) run" where
  "assertProjectAccessS b projectId subject = (if isGlobalSubject subject then run_val ()
     else (case requireScope subject (JObj [(''projectId'', projectId)]) of
        Inr _ \<Rightarrow> run_val ()
      | Inl e \<Rightarrow>
          if \<not> truthy (jget subject ''organizationId'') \<and> \<not> is_jarr (jget subject ''organizationIds'')
          then run_lift (denied (message e))
          else run_bind (calls b ''snapshot'' []) (\<lambda>snapshot. case project_in snapshot projectId of
              None \<Rightarrow> run_lift (missing ''project'' projectId)
            | Some project \<Rightarrow> run_lift (enforceScope subject (JObj [(''organizationId'', jget project ''organizationId'')])))))"

definition found_row :: "'c backend \<Rightarrow> string \<Rightarrow> string \<Rightarrow> jsv \<Rightarrow> ('c, jsv) run" where
  "found_row b getter kind i = run_bind (calls b getter [i]) (\<lambda>row.
     run_lift (if truthy row then Inr row else missing kind i))"

definition assertServiceInProject :: "'c backend \<Rightarrow> jsv \<Rightarrow> jsv \<Rightarrow> ('c, jsv) run" where
  "assertServiceInProject b projectId serviceId = run_bind (found_row b ''getService'' ''service'' serviceId) (\<lambda>service.
     run_lift (if same_text (jget service ''projectId'') projectId then Inr service
       else denied ''service does not belong to project''))"

definition assertAdmin :: "jsv \<Rightarrow> unit res" where
  "assertAdmin subject = (if jget subject ''global'' = JBool True \<or> jget subject ''userRole'' = JStr ''ADMIN'' \<or>
     jget (jget subject ''claims'') ''userRole'' = JStr ''ADMIN'' then Inr () else denied ''admin required'')"

definition assertNestEnvironmentWriteAllowed :: "jsv \<Rightarrow> jsv list \<Rightarrow> unit res" where
  "assertNestEnvironmentWriteAllowed subject rows =
     (case assertEnvironmentWriteAllowed subject rows of Inl e \<Rightarrow> denied (message e) | Inr _ \<Rightarrow> Inr ())"

definition publicUserS :: "jsv \<Rightarrow> jsv" where
  "publicUserS user = (if \<not> truthy user then user else jrest user [''passwordHash''])"

definition usersForRepository :: "'c backend \<Rightarrow> ('c, jsv list) run" where
  "usersForRepository b = (if prismaBacked b
     then run_bind (calls b ''snapshot'' []) (\<lambda>snapshot. run_val (items (jor (jget snapshot ''users'') (JArr []))))
     else run_bind (calls b ''store.users.values'' []) (\<lambda>rows. run_val (items rows)))"

definition jwtSecretOrThrow :: "service_context \<Rightarrow> jsv res" where
  "jwtSecretOrThrow v = (let secret = jget (vEnv v) ''RAIBITSERVER_AUTH_JWT_SECRET'' in
     if truthy secret then Inr secret else js_throw ''RAIBITSERVER_AUTH_JWT_SECRET is required'')"

section \<open>Signing up and logging in\<close>

definition session_of :: "service_context \<Rightarrow> jsv \<Rightarrow> jsv list \<Rightarrow> jsv \<Rightarrow> string res" where
  "session_of v user memberships jwtSecret = createSessionToken (vJwt v) (vEnv v) user memberships jwtSecret
     (JObj [(''issuer'', jor (jget (vEnv v) ''RAIBITSERVER_AUTH_ISSUER'') (JStr ''raibitserver''))]) (vTokenId v) (vNow v)"

text \<open>What both do first: the secret of the tokens, the address, the limiter\<close>

definition attemptS :: "service_context \<Rightarrow> string \<Rightarrow> jsv \<Rightarrow> rate_limiter \<Rightarrow> (jsv \<times> string) res \<times> rate_limiter" where
  "attemptS v purpose input l = (case rbind (jwtSecretOrThrow v) (\<lambda>secret.
       rbind (normalizeEmail (jget input ''email'')) (\<lambda>email. Inr (secret, email))) of
     Inl e \<Rightarrow> (Inl e, l)
   | Inr (secret, email) \<Rightarrow> (case assertRateLimit l (vNow v) (vLater v) (JStr (purpose @ '':'' @ email)) of
       (Inl (e, _), l') \<Rightarrow> (Inl e, l') | (Inr _, l') \<Rightarrow> (Inr (secret, email), l')))"

definition open_account :: "'c backend \<Rightarrow> service_context \<Rightarrow> jsv \<Rightarrow> string \<Rightarrow> string \<Rightarrow> jsv \<Rightarrow> jsv \<Rightarrow> ('c, jsv) run" where
  "open_account b v input email passwordHash slug secret = run_bind (calls b ''createOrganization'' [JObj
       [(''name'', jor (jget input ''organizationName'') slug), (''slug'', slug), (''plan'', jor (jget input ''plan'') (JStr ''free''))]]) (\<lambda>organization.
     run_bind (usersForRepository b) (\<lambda>everyone.
     let policy = signupPolicyForAccount (vEnv v) input (JStr email) (JObj [(''firstUser'', JBool (everyone = []))]) in
     run_bind (calls b ''createUser'' [JObj [(''name'', jor (jget input ''name'') (JStr email)), (''email'', JStr email),
       (''passwordHash'', JStr passwordHash), (''role'', jget policy ''role''), (''accountType'', jget policy ''accountType''),
       (''approvalStatus'', jget policy ''approvalStatus'')]]) (\<lambda>user.
     run_bind (calls b ''addMember'' [JObj [(''organizationId'', jget organization ''id''), (''userId'', jget user ''id''),
       (''role'', JStr ''owner'')]]) (\<lambda>membership.
     run_bind (run_lift (session_of v (jset user ''email'' (JStr email)) [membership] secret)) (\<lambda>token.
     run_val (JObj [(''user'', publicUserS user), (''organization'', organization), (''membership'', membership),
       (''token'', JStr token)]))))))"

definition signup_run :: "'c backend \<Rightarrow> service_context \<Rightarrow> jsv \<Rightarrow> jsv \<Rightarrow> string \<Rightarrow> ('c, jsv) run" where
  "signup_run b v input secret email = run_bind (calls b ''findUserByEmail'' [JStr email]) (\<lambda>known.
     run_then (run_lift (if truthy known then denied ''user already exists'' else Inr ()))
     (run_bind (run_lift (hashPassword (vKdf v) (vSalt v) (jget input ''password'') (JObj []))) (\<lambda>passwordHash.
      let slug = jor (jget input ''organizationSlug'') (JStr (personalOrganizationSlug (JStr email))) in
      run_bind (calls b ''findOrganizationBySlug'' [slug]) (\<lambda>taken.
      run_then (run_lift (if truthy taken then denied ''organization slug already exists'' else Inr ()))
      (open_account b v input email passwordHash slug secret)))))"

definition signup :: "'c backend \<Rightarrow> service_context \<Rightarrow> jsv \<Rightarrow> rate_limiter \<Rightarrow> ('c, jsv) run \<times> rate_limiter" where
  "signup b v input l = (case attemptS v ''signup'' input l of
     (Inl e, l') \<Rightarrow> (run_lift (Inl e), l') | (Inr (secret, email), l') \<Rightarrow> (signup_run b v input secret email, l'))"

definition login_run :: "'c backend \<Rightarrow> service_context \<Rightarrow> jsv \<Rightarrow> string \<Rightarrow> ('c, jsv \<times> jsv) run" where
  "login_run b v input email = run_bind (calls b ''findUserByEmail'' [JStr email]) (\<lambda>user.
     run_bind (run_lift (if truthy user then verifyPassword (vKdf v) (jget input ''password'') (jget user ''passwordHash'') else Inr False)) (\<lambda>valid.
     run_then (run_lift (if valid then Inr () else denied ''invalid credentials''))
     (run_bind (usersForRepository b) (\<lambda>everyone.
     run_bind (if shouldPromoteFirstLogin (vCompare v) (vEnv v) user everyone
       then calls b ''approveUser'' [jget user ''id'', JObj [(''accountType'', JStr ''NON_CLUB''), (''role'', JStr ''ADMIN''),
         (''actorUserId'', JStr ''system'')]]
       else run_val user) (\<lambda>account.
     run_bind (calls b ''listMembershipsForUser'' [jget account ''id'']) (\<lambda>memberships. run_val (account, memberships)))))))"

definition login_answer :: "service_context \<Rightarrow> jsv \<Rightarrow> jsv \<Rightarrow> jsv \<Rightarrow> jsv res" where
  "login_answer v secret user memberships = rbind (session_of v user (items memberships) secret) (\<lambda>token.
     Inr (JObj [(''user'', jrest user [''passwordHash'']), (''memberships'', memberships), (''token'', JStr token)]))"

text \<open>The limiter is reset only when the log-in succeeds.\<close>

definition login ::
  "'c backend \<Rightarrow> service_context \<Rightarrow> jsv \<Rightarrow> rate_limiter \<Rightarrow> 'c list \<Rightarrow> (jsv res \<times> 'c list) \<times> rate_limiter" where
  "login b v input l tr = (case attemptS v ''login'' input l of
     (Inl e, l') \<Rightarrow> ((Inl e, tr), l')
   | (Inr (secret, email), l') \<Rightarrow> (case login_run b v input email tr of
       (Inl e, tr') \<Rightarrow> ((Inl e, tr'), l')
     | (Inr (user, memberships), tr') \<Rightarrow>
         ((login_answer v secret user memberships, tr'), rate_reset l' (JStr (''login:'' @ email)))))"

section \<open>Projects and services\<close>

definition enforce :: "'c backend \<Rightarrow> jsv \<Rightarrow> string \<Rightarrow> string \<Rightarrow> jsv \<Rightarrow> ('c, jsv) run" where
  "enforce b subject action metric increment = calls b ''enforceUserCan'' [JObj [(''userId'', jget subject ''id''),
     (''action'', JStr action), (''metric'', JStr metric), (''increment'', increment)]]"

definition clean_input :: "service_context \<Rightarrow> jsv \<Rightarrow> jsv \<Rightarrow> jsv res" where
  "clean_input v service projectId = rbind (sanitizeTenantServiceInput (vGitUrl v) (vEnv v) service (JObj []))
     (\<lambda>safe. Inr (jwith safe [(''projectId'', projectId)]))"

definition memory_project :: "'c backend \<Rightarrow> service_context \<Rightarrow> jsv \<Rightarrow> jsv \<Rightarrow> ('c, jsv) run" where
  "memory_project b v project organizationId =
     run_bind (calls b ''store.organizations.get'' [organizationId]) (\<lambda>known.
     run_bind (if truthy known then run_val known
       else calls b ''createOrganization'' [JObj [(''name'', organizationId), (''slug'', organizationId),
         (''plan'', jor (jget (jget project ''organization'') ''plan'') (JStr ''free''))]]) (\<lambda>organization.
     run_bind (calls b ''createProject'' [JObj [(''organizationId'', jor (jget organization ''id'') organizationId),
       (''name'', jget project ''name''), (''slug'', jget project ''slug''),
       (''description'', jor (jget project ''description'') (JStr []))]]) (\<lambda>row. let i = jget row ''id'' in
     run_then (run_for (\<lambda>service. run_bind (run_lift (clean_input v service i)) (\<lambda>input. calls b ''createService'' [input]))
       (items (jget project ''services'')))
     (run_then (run_for (\<lambda>resource. calls b ''createResource'' [jwith (sanitizeTenantResourceApiInput resource) [(''projectId'', i)]])
       (items (jget project ''resources'')))
     (run_val row)))))"

definition createProjectS :: "'c backend \<Rightarrow> service_context \<Rightarrow> jsv \<Rightarrow> jsv \<Rightarrow> ('c, jsv) run" where
  "createProjectS b v project subject = (let organizationId = organizationScopeFromProjectInput project subject in
     run_then (run_lift (enforceScope subject (JObj [(''organizationId'', organizationId)])))
     (run_then (enforce b subject ''project:create'' ''maxProjects'' (jint 1))
     (if prismaBacked b
      then run_bind (calls b ''writeDesiredProject'' [jwith project [(''organizationId'', organizationId)]]) (\<lambda>result.
        run_val (jor (jget result ''project'') result))
      else memory_project b v project organizationId)))"

definition subject_organizations :: "jsv \<Rightarrow> string list" where
  "subject_organizations subject = map to_str (filter truthy
     (jget subject ''organizationId'' # items (jget subject ''organizationIds'')))"

definition listProjects :: "'c backend \<Rightarrow> jsv \<Rightarrow> ('c, jsv) run" where
  "listProjects b subject = run_bind (calls b ''snapshot'' []) (\<lambda>snapshot. run_val
     (if isGlobalSubject subject then jget snapshot ''projects''
      else JArr (filter (\<lambda>row. to_str (jget row ''organizationId'') \<in> set (subject_organizations subject))
        (items (jget snapshot ''projects'')))))"

definition in_projectS :: "'c backend \<Rightarrow> jsv \<Rightarrow> jsv \<Rightarrow> ('c, jsv) run \<Rightarrow> ('c, jsv) run" where
  "in_projectS b projectId subject m = run_then (assertProjectAccessS b projectId subject) m"

definition present :: "string \<Rightarrow> jsv \<Rightarrow> jsv \<Rightarrow> jsv res" where
  "present kind i row = (if truthy row then Inr row else missing kind i)"

definition getProjectS :: "'c backend \<Rightarrow> jsv \<Rightarrow> jsv \<Rightarrow> ('c, jsv) run" where
  "getProjectS b projectId subject = in_projectS b projectId subject (found_row b ''getProject'' ''project'' projectId)"

definition updateProjectS :: "'c backend \<Rightarrow> jsv \<Rightarrow> jsv \<Rightarrow> jsv \<Rightarrow> ('c, jsv) run" where
  "updateProjectS b projectId updates subject = in_projectS b projectId subject
     (run_bind (calls b ''updateProject'' [projectId, jor updates (JObj [])]) (\<lambda>row. run_lift (present ''project'' projectId row)))"

definition deleteProjectS :: "'c backend \<Rightarrow> jsv \<Rightarrow> jsv \<Rightarrow> ('c, jsv) run" where
  "deleteProjectS b projectId subject = in_projectS b projectId subject
     (run_bind (calls b ''deleteProject'' [projectId]) (\<lambda>row. run_bind (run_lift (present ''project'' projectId row)) (\<lambda>project.
      run_val (JObj [(''deleted'', JBool True), (''projectId'', jor (jget project ''id'') projectId)]))))"

definition wrapped :: "string \<Rightarrow> ('c, jsv) run \<Rightarrow> ('c, jsv) run" where
  "wrapped k m = run_bind m (\<lambda>x. run_val (JObj [(k, x)]))"

definition listServices :: "'c backend \<Rightarrow> jsv \<Rightarrow> jsv \<Rightarrow> ('c, jsv) run" where
  "listServices b projectId subject = in_projectS b projectId subject
     (wrapped ''services'' (calls b ''listServicesForProject'' [projectId]))"

definition addService :: "'c backend \<Rightarrow> service_context \<Rightarrow> jsv \<Rightarrow> jsv \<Rightarrow> jsv \<Rightarrow> ('c, jsv) run" where
  "addService b v projectId service subject = in_projectS b projectId subject
     (run_then (enforce b subject ''service:create'' ''maxServices'' (jint 1))
     (run_bind (run_lift (clean_input v service projectId)) (\<lambda>input. calls b ''createService'' [input])))"

text \<open>A row, its project and the access to it\<close>

definition owned :: "'c backend \<Rightarrow> string \<Rightarrow> string \<Rightarrow> jsv \<Rightarrow> jsv \<Rightarrow> (jsv \<Rightarrow> ('c, jsv) run) \<Rightarrow> ('c, jsv) run" where
  "owned b getter kind i subject f = run_bind (found_row b getter kind i) (\<lambda>row.
     in_projectS b (jget row ''projectId'') subject (f row))"

abbreviation owned_service :: "'c backend \<Rightarrow> jsv \<Rightarrow> jsv \<Rightarrow> (jsv \<Rightarrow> ('c, jsv) run) \<Rightarrow> ('c, jsv) run" where
  "owned_service b \<equiv> owned b ''getService'' ''service''"

definition getServiceS :: "'c backend \<Rightarrow> jsv \<Rightarrow> jsv \<Rightarrow> ('c, jsv) run" where
  "getServiceS b serviceId subject = owned_service b serviceId subject run_val"

definition updateServiceS :: "'c backend \<Rightarrow> service_context \<Rightarrow> jsv \<Rightarrow> jsv \<Rightarrow> jsv \<Rightarrow> ('c, jsv) run" where
  "updateServiceS b v serviceId updates subject = owned_service b serviceId subject (\<lambda>current.
     run_bind (run_lift (sanitizeTenantServiceUpdate (vGitUrl v) (vEnv v) (jor updates (JObj [])) (JObj []))) (\<lambda>safe.
     run_bind (calls b ''updateService'' [serviceId, safe]) (\<lambda>row. run_lift (present ''service'' serviceId row))))"

definition deleteServiceS :: "'c backend \<Rightarrow> jsv \<Rightarrow> jsv \<Rightarrow> ('c, jsv) run" where
  "deleteServiceS b serviceId subject = owned_service b serviceId subject (\<lambda>current.
     run_bind (calls b ''deleteService'' [serviceId]) (\<lambda>row. run_bind (run_lift (present ''service'' serviceId row)) (\<lambda>service.
     run_val (JObj [(''deleted'', JBool True), (''serviceId'', jor (jget service ''id'') serviceId)]))))"

end
