(* ===== verification/NestWork.thy ===== *)
theory NestWork
  imports NestService
begin

text \<open>
  The service behind the production API (\<open>raibitserver.service.ts\<close>): resources and their console, deployments
  and logs. \<open>repository.method ? repository.method(...) : ...\<close> is the call: both repositories have the method.
\<close>

section \<open>Resources\<close>

definition listResources :: "'c backend \<Rightarrow> jsv \<Rightarrow> jsv \<Rightarrow> ('c, jsv) run" where
  "listResources b projectId subject = in_projectS b projectId subject
     (wrapped ''resources'' (calls b ''listResourcesForProject'' [projectId]))"

definition asked_storage :: "jsv \<Rightarrow> jsv" where
  "asked_storage resource = JNum (to_num (jor (jget resource ''storageMb'') (jor (jget resource ''storageGb'') (jint 1))))"

definition addResource :: "'c backend \<Rightarrow> jsv \<Rightarrow> jsv \<Rightarrow> jsv \<Rightarrow> ('c, jsv) run" where
  "addResource b projectId resource subject = in_projectS b projectId subject
     (run_then (enforce b subject ''resource:create''
        (if lower_text (jget resource ''type'') = ''storage'' then ''maxObjectStorageMb'' else ''maxDbStorageMb'') (asked_storage resource))
     (calls b ''createResource'' [jwith (sanitizeTenantResourceApiInput resource) [(''projectId'', projectId)]]))"

abbreviation owned_resource :: "'c backend \<Rightarrow> jsv \<Rightarrow> jsv \<Rightarrow> (jsv \<Rightarrow> ('c, jsv) run) \<Rightarrow> ('c, jsv) run" where
  "owned_resource b \<equiv> owned b ''getResource'' ''resource''"

definition getResourceS :: "'c backend \<Rightarrow> jsv \<Rightarrow> jsv \<Rightarrow> ('c, jsv) run" where
  "getResourceS b resourceId subject = owned_resource b resourceId subject run_val"

definition updateResourceS :: "'c backend \<Rightarrow> jsv \<Rightarrow> jsv \<Rightarrow> jsv \<Rightarrow> ('c, jsv) run" where
  "updateResourceS b resourceId updates subject = run_bind (getResourceS b resourceId subject) (\<lambda>current.
     run_bind (calls b ''updateResource'' [resourceId, sanitizeTenantResourceApiUpdate updates]) (\<lambda>row.
     run_lift (present ''resource'' resourceId row)))"

definition deleteResourceS :: "'c backend \<Rightarrow> jsv \<Rightarrow> jsv \<Rightarrow> ('c, jsv) run" where
  "deleteResourceS b resourceId subject = run_bind (getResourceS b resourceId subject) (\<lambda>current.
     run_bind (calls b ''deleteResource'' [resourceId]) (\<lambda>row.
     run_then (run_lift (present ''resource'' resourceId row))
     (run_val (JObj [(''deleted'', JBool True), (''resourceId'', jor (jget current ''id'') resourceId)]))))"

definition acting :: "jsv \<Rightarrow> jsv \<Rightarrow> (string \<times> jsv) list \<Rightarrow> jsv" where
  "acting subject input more_fields = jwith input (more_fields @ [(''actorUserId'', jget subject ''id'')])"

definition attachResourceS :: "'c backend \<Rightarrow> jsv \<Rightarrow> jsv \<Rightarrow> jsv \<Rightarrow> ('c, jsv) run" where
  "attachResourceS b resourceId input subject = run_bind (getResourceS b resourceId subject) (\<lambda>resource.
     run_bind (found_row b ''getService'' ''service'' (jget input ''serviceId'')) (\<lambda>service.
     in_projectS b (jget resource ''projectId'') subject
     (run_then (run_lift (if same_text (jget service ''projectId'') (jget resource ''projectId'') then Inr ()
        else denied ''resource and service must be in the same project''))
     (calls b ''attachResource'' [acting subject input [(''resourceId'', resourceId)]]))))"

definition provisionResource :: "'c backend \<Rightarrow> jsv \<Rightarrow> jsv \<Rightarrow> jsv \<Rightarrow> ('c, jsv) run" where
  "provisionResource b resourceId input subject = run_then (getResourceS b resourceId subject)
     (calls b ''provisionResourceProvider'' [acting subject input [(''resourceId'', resourceId)]])"

section \<open>The console of a resource\<close>

definition console_input :: "jsv \<Rightarrow> jsv \<Rightarrow> jsv" where
  "console_input subject input = acting subject input [(''role'', jget subject ''role'')]"

definition queryResource :: "'c backend \<Rightarrow> jsv \<Rightarrow> jsv \<Rightarrow> jsv \<Rightarrow> ('c, jsv) run" where
  "queryResource b resourceId input subject = owned_resource b resourceId subject (\<lambda>resource.
     calls b ''runResourceConsoleQuery'' [resourceId, jget input ''query'', console_input subject input])"

definition commandResource :: "'c backend \<Rightarrow> jsv \<Rightarrow> jsv \<Rightarrow> jsv \<Rightarrow> ('c, jsv) run" where
  "commandResource b resourceId input subject = owned_resource b resourceId subject (\<lambda>resource.
     calls b ''runResourceConsoleCommand'' [resourceId, jor (jget input ''command'') (jget input ''query''),
       console_input subject input])"

definition browseResource :: "'c backend \<Rightarrow> jsv \<Rightarrow> jsv \<Rightarrow> jsv \<Rightarrow> ('c, jsv) run" where
  "browseResource b resourceId input subject = owned_resource b resourceId subject (\<lambda>resource.
     calls b ''browseResourceConsole'' [resourceId, input])"

definition resourceConsoleViewS :: "'c backend \<Rightarrow> jsv \<Rightarrow> string \<Rightarrow> jsv \<Rightarrow> jsv \<Rightarrow> ('c, jsv) run" where
  "resourceConsoleViewS b resourceId view input subject = owned_resource b resourceId subject (\<lambda>resource.
     calls b ''resourceConsoleView'' [resourceId, JStr view, console_input subject input])"

section \<open>Deployments\<close>

definition listDeployments :: "'c backend \<Rightarrow> jsv \<Rightarrow> jsv \<Rightarrow> jsv \<Rightarrow> ('c, jsv) run" where
  "listDeployments b projectId serviceId subject = run_then (assertServiceInProject b projectId serviceId)
     (in_projectS b projectId subject (wrapped ''deployments'' (calls b ''listDeploymentsForService'' [serviceId])))"

definition asked_type :: "jsv \<Rightarrow> jsv" where
  "asked_type input = jor (jget input ''deploymentType'') (jor (jget input ''type'') (JStr ''production''))"

definition blocked_by :: "jsv \<Rightarrow> string" where
  "blocked_by security = ''deployment blocked by security policy: '' @ str_join '', ''
     (map (\<lambda>f. to_str (jget f ''code'')) (filter (\<lambda>f. jget f ''level'' = JStr ''block'') (items (jget security ''findings''))))"

definition deployment_request :: "jsv \<Rightarrow> jsv \<Rightarrow> jsv \<Rightarrow> jsv" where
  "deployment_request projectId serviceId input = (let deploymentType = asked_type input in JObj [
     (''deployment'', jwith (sanitizeTenantDeploymentCreate input) [(''serviceId'', serviceId), (''projectId'', projectId),
        (''status'', JStr ''queued''), (''deploymentType'', deploymentType)]),
     (''workflow'', JObj [
        (''type'', JStr (if deploymentType = JStr ''preview'' then ''preview-deploy'' else ''build-and-deploy'')),
        (''payload'', JObj [(''projectId'', projectId), (''serviceId'', serviceId),
           (''branch'', jor (jget input ''branch'') (JStr ''main'')),
           (''commitSha'', jor (jget input ''commitSha'') (jor (jget input ''commitHash'') JNull))])])])"

definition checked_spec :: "jsv \<Rightarrow> jsv" where
  "checked_spec service = jor (jget service ''desiredState'') (jor (jget service ''desiredSpec'') service)"

definition createDeploymentS :: "'c backend \<Rightarrow> jsv \<Rightarrow> jsv \<Rightarrow> jsv \<Rightarrow> jsv \<Rightarrow> ('c, jsv) run" where
  "createDeploymentS b projectId serviceId input subject = in_projectS b projectId subject
     (run_bind (assertServiceInProject b projectId serviceId) (\<lambda>service.
      run_then (enforce b subject ''deployment:create'' ''maxDeploymentsPerDay'' (jint 1))
      (run_then (run_when (asked_type input = JStr ''preview'')
        (enforce b subject ''deployment:create'' ''maxPreviewDeployments'' (jint 1)))
      (let security = validateServiceSecurity (checked_spec service) in
       run_then (run_lift (if truthy (jget security ''ok'') then Inr () else denied (blocked_by security)))
       (run_bind (calls b ''createDeploymentWorkflow'' [deployment_request projectId serviceId input]) (\<lambda>created.
        run_val (jwith (jget created ''deployment'') [(''projectId'', projectId), (''desiredStateWritten'', JBool True),
          (''workflowJob'', jget created ''workflowJob'')])))))))"

abbreviation owned_deployment :: "'c backend \<Rightarrow> jsv \<Rightarrow> jsv \<Rightarrow> (jsv \<Rightarrow> ('c, jsv) run) \<Rightarrow> ('c, jsv) run" where
  "owned_deployment b \<equiv> owned b ''getDeployment'' ''deployment''"

definition getDeploymentS :: "'c backend \<Rightarrow> jsv \<Rightarrow> jsv \<Rightarrow> ('c, jsv) run" where
  "getDeploymentS b deploymentId subject = owned_deployment b deploymentId subject run_val"

definition status_options :: "jsv \<Rightarrow> jsv \<Rightarrow> jsv" where
  "status_options subject input = JObj [(''actorUserId'', jget subject ''id''), (''eventType'', jget input ''eventType''),
     (''message'', jget input ''message'')]"

definition updateDeploymentStatus :: "'c backend \<Rightarrow> jsv \<Rightarrow> jsv \<Rightarrow> jsv \<Rightarrow> ('c, jsv) run" where
  "updateDeploymentStatus b deploymentId input subject = run_bind (getDeploymentS b deploymentId subject) (\<lambda>deployment.
     run_then (run_lift (assertSystemDeploymentActor subject))
     (let updates = sanitizeDeploymentStatusInput input; options = status_options subject input in
      run_bind (if has_own updates ''status''
        then calls b ''transitionDeployment'' [deploymentId, jget updates ''status'', jrest updates [''status''], options]
        else calls b ''updateDeployment'' [deploymentId, updates, options]) (\<lambda>updated.
      run_val (jwith updated [(''projectId'', jget deployment ''projectId'')]))))"

definition cancelDeploymentS :: "'c backend \<Rightarrow> jsv \<Rightarrow> jsv \<Rightarrow> jsv \<Rightarrow> ('c, jsv) run" where
  "cancelDeploymentS b deploymentId input subject = run_then (getDeploymentS b deploymentId subject)
     (calls b ''cancelDeployment'' [deploymentId, acting subject input []])"

text \<open>An error with status 409 becomes a \<open>ConflictException\<close>, which has that status too.\<close>

definition conflict_of :: "('c, 'a) run \<Rightarrow> ('c, 'a) run" where
  "conflict_of m = (\<lambda>tr. case m tr of
      (Inl e, tr') \<Rightarrow> (if statusCode e = Some 409 then js_throw_status 409 (message e) else Inl e, tr')
    | (Inr x, tr') \<Rightarrow> (Inr x, tr'))"

definition rollbackDeploymentS :: "'c backend \<Rightarrow> jsv \<Rightarrow> jsv \<Rightarrow> jsv \<Rightarrow> ('c, jsv) run" where
  "rollbackDeploymentS b deploymentId input subject = run_then (getDeploymentS b deploymentId subject)
     (conflict_of (calls b ''rollbackDeployment'' [deploymentId, acting subject input []]))"

definition createDeploymentForService :: "'c backend \<Rightarrow> jsv \<Rightarrow> jsv \<Rightarrow> jsv \<Rightarrow> ('c, jsv) run" where
  "createDeploymentForService b serviceId input subject = run_bind (found_row b ''getService'' ''service'' serviceId) (\<lambda>service.
     createDeploymentS b (jget service ''projectId'') serviceId input subject)"

definition listDeploymentsForServiceS :: "'c backend \<Rightarrow> jsv \<Rightarrow> jsv \<Rightarrow> ('c, jsv) run" where
  "listDeploymentsForServiceS b serviceId subject = run_bind (found_row b ''getService'' ''service'' serviceId) (\<lambda>service.
     listDeployments b (jget service ''projectId'') serviceId subject)"

section \<open>Logs\<close>

definition listDeploymentLogsS :: "'c backend \<Rightarrow> jsv \<Rightarrow> jsv \<Rightarrow> ('c, jsv) run" where
  "listDeploymentLogsS b deploymentId subject = owned_deployment b deploymentId subject (\<lambda>deployment.
     wrapped ''logs'' (calls b ''listDeploymentLogs'' [deploymentId]))"

definition listDeploymentEventsS :: "'c backend \<Rightarrow> jsv \<Rightarrow> jsv \<Rightarrow> ('c, jsv) run" where
  "listDeploymentEventsS b deploymentId subject = owned_deployment b deploymentId subject (\<lambda>deployment.
     wrapped ''events'' (calls b ''listDeploymentEvents'' [deploymentId]))"

definition STREAM_MODE :: jsv where
  "STREAM_MODE = JObj [(''mode'', JStr ''sse-snapshot''), (''retryMs'', jint 3000)]"

definition deploymentActivitySnapshot :: "'c backend \<Rightarrow> jsv \<Rightarrow> jsv \<Rightarrow> ('c, jsv) run" where
  "deploymentActivitySnapshot b deploymentId subject = owned_deployment b deploymentId subject (\<lambda>deployment.
     run_bind (calls b ''listDeploymentLogs'' [deploymentId]) (\<lambda>logs.
     run_bind (calls b ''listDeploymentEvents'' [deploymentId]) (\<lambda>events.
     run_val (JObj [(''deployment'', deployment), (''logs'', logs), (''events'', events), (''stream'', STREAM_MODE)]))))"

definition listRuntimeLogsS :: "'c backend \<Rightarrow> jsv \<Rightarrow> jsv \<Rightarrow> ('c, jsv) run" where
  "listRuntimeLogsS b serviceId subject = owned_service b serviceId subject (\<lambda>service.
     wrapped ''logs'' (calls b ''listRuntimeLogs'' [serviceId]))"

definition serviceLogSnapshot :: "'c backend \<Rightarrow> jsv \<Rightarrow> jsv \<Rightarrow> ('c, jsv) run" where
  "serviceLogSnapshot b serviceId subject = owned_service b serviceId subject (\<lambda>service.
     run_bind (calls b ''listRuntimeLogs'' [serviceId]) (\<lambda>logs.
     run_val (JObj [(''service'', service), (''logs'', logs), (''stream'', STREAM_MODE)])))"

end
