(* ===== verification/NestAccounts.thy ===== *)
theory NestAccounts
  imports NestWork
begin

text \<open>
  The service behind the production API (\<open>raibitserver.service.ts\<close>): usage, environments of services, users
  and GitHub.
\<close>

section \<open>Users\<close>

definition row_of_user :: "jsv \<Rightarrow> string \<Rightarrow> jsv \<Rightarrow> jsv option" where
  "row_of_user userId key rows = find (\<lambda>row. same_text (jget row key) userId) (items rows)"

definition or_nothing :: "jsv option \<Rightarrow> jsv" where
  "or_nothing x = (case x of None \<Rightarrow> JNull | Some v \<Rightarrow> v)"

definition unlimited_account :: "jsv \<Rightarrow> bool" where
  "unlimited_account subject = (jget subject ''userRole'' = JStr ''ADMIN'' \<or> jget subject ''accountType'' = JStr ''CLUB_MEMBER'')"

definition usageMe :: "'c backend \<Rightarrow> jsv \<Rightarrow> ('c, jsv) run" where
  "usageMe b subject = run_bind (calls b ''snapshot'' []) (\<lambda>snapshot. let
     i = jget subject ''id''; unlimited = unlimited_account subject;
     usage = filter (\<lambda>row. same_text (jget row ''userId'') i) (items (jget snapshot ''usageRecords''));
     quota = (if unlimited then JNull else or_nothing (row_of_user i ''userId'' (jget snapshot ''quotas'')))
   in run_bind (if prismaBacked b then calls b ''quotaUsageForUser'' [i] else run_val (JObj [])) (\<lambda>current.
      run_val (JObj [(''accountType'', jget subject ''accountType''), (''approvalStatus'', jget subject ''approvalStatus''),
        (''unlimited'', JBool unlimited), (''quota'', quota), (''usage'', JArr usage), (''current'', current),
        (''gauges'', JArr (quotaUsageGauges current quota (JObj []))), (''warnings'', JArr (quotaWarnings current quota (JObj [])))])))"

definition currentUser :: "'c backend \<Rightarrow> jsv \<Rightarrow> ('c, jsv) run" where
  "currentUser b subject = run_bind (calls b ''snapshot'' []) (\<lambda>snapshot.
     run_bind (calls b ''listMembershipsForUser'' [jget subject ''id'']) (\<lambda>memberships.
     run_val (JObj [(''user'', or_nothing (row_of_user (jget subject ''id'') ''id'' (jget snapshot ''users''))),
       (''subject'', subject), (''memberships'', memberships)])))"

definition approveUserS :: "'c backend \<Rightarrow> jsv \<Rightarrow> jsv \<Rightarrow> jsv \<Rightarrow> ('c, jsv) run" where
  "approveUserS b userId input subject = run_then (run_lift (assertAdmin subject))
     (calls b ''approveUser'' [userId, acting subject input []])"

definition rejectUserS :: "'c backend \<Rightarrow> jsv \<Rightarrow> jsv \<Rightarrow> ('c, jsv) run" where
  "rejectUserS b userId subject = run_then (run_lift (assertAdmin subject))
     (calls b ''rejectUser'' [userId, acting subject (JObj []) []])"

definition setUserQuota :: "'c backend \<Rightarrow> jsv \<Rightarrow> jsv \<Rightarrow> jsv \<Rightarrow> ('c, jsv) run" where
  "setUserQuota b userId input subject = run_then (run_lift (assertAdmin subject))
     (calls b ''setQuota'' [jwith input [(''userId'', userId)]])"

section \<open>The environment of a service\<close>

definition in_serviceS :: "'c backend \<Rightarrow> jsv \<Rightarrow> jsv \<Rightarrow> jsv \<Rightarrow> ('c, jsv) run \<Rightarrow> ('c, jsv) run" where
  "in_serviceS b projectId serviceId subject m =
     in_projectS b projectId subject (run_then (assertServiceInProject b projectId serviceId) m)"

definition service_key :: "jsv \<Rightarrow> jsv \<Rightarrow> (string \<times> jsv) list" where
  "service_key projectId serviceId = [(''projectId'', projectId), (''serviceId'', serviceId)]"

definition listEnvironment :: "'c backend \<Rightarrow> jsv \<Rightarrow> jsv \<Rightarrow> jsv \<Rightarrow> ('c, jsv) run" where
  "listEnvironment b projectId serviceId subject = in_serviceS b projectId serviceId subject
     (calls b ''listServiceEnvironment'' [JObj (service_key projectId serviceId)])"

definition write_environment :: "'c backend \<Rightarrow> jsv \<Rightarrow> jsv \<Rightarrow> jsv \<Rightarrow> jsv list \<Rightarrow> jsv \<Rightarrow> ('c, jsv) run" where
  "write_environment b projectId serviceId subject rows source =
     run_then (run_lift (assertNestEnvironmentWriteAllowed subject rows))
     (calls b ''upsertServiceEnvironment'' [JObj (service_key projectId serviceId @ [(''entries'', JArr rows),
        (''actorUserId'', jget subject ''id''), (''source'', source)])])"

definition upsertEnvironment :: "'c backend \<Rightarrow> jsv \<Rightarrow> jsv \<Rightarrow> jsv \<Rightarrow> jsv \<Rightarrow> ('c, jsv) run" where
  "upsertEnvironment b projectId serviceId input subject = in_serviceS b projectId serviceId subject
     (let source = jor (jget input ''source'') (JStr ''api'') in
      run_bind (run_lift (normalizeEnvEntries (jor (jget input ''entries'') (jor (jget input ''environment'') input))
        (JObj [(''source'', source)]))) (\<lambda>rows. write_environment b projectId serviceId subject rows source))"

definition importEnvironmentFile :: "'c backend \<Rightarrow> jsv \<Rightarrow> jsv \<Rightarrow> jsv \<Rightarrow> jsv \<Rightarrow> ('c, jsv) run" where
  "importEnvironmentFile b projectId serviceId input subject = in_serviceS b projectId serviceId subject
     (let source = jor (jget input ''filename'') (JStr ''.env'') in
      run_bind (run_lift (parseDotEnv (JStr (to_str (jor (jget input ''content'') (jor (jget input ''text'') (JStr [])))))
        (JObj [(''source'', source)]))) (\<lambda>parsed.
      run_bind (write_environment b projectId serviceId subject (items (jget parsed ''entries'')) source) (\<lambda>result.
      run_val (jwith result [(''source'', source), (''parsed'', JObj [(''plainCount'', jget parsed ''plainCount''),
        (''secretCount'', jget parsed ''secretCount''), (''errors'', jget parsed ''errors'')])]))))"

section \<open>GitHub\<close>

definition in_organizationS :: "jsv \<Rightarrow> jsv \<Rightarrow> ('c, jsv) run \<Rightarrow> ('c, jsv) run" where
  "in_organizationS organizationId subject m =
     run_then (run_lift (enforceScope subject (JObj [(''organizationId'', organizationId)]))) m"

definition connectGitHub :: "'c backend \<Rightarrow> jsv \<Rightarrow> jsv \<Rightarrow> ('c, jsv) run" where
  "connectGitHub b input subject = (let organizationId = jor (jget input ''organizationId'') (jget subject ''organizationId'') in
     in_organizationS organizationId subject
       (calls b ''createGitHubIntegration'' [jwith input [(''organizationId'', organizationId), (''userId'', jget subject ''id'')]]))"

definition listGitHub :: "'c backend \<Rightarrow> jsv \<Rightarrow> jsv \<Rightarrow> ('c, jsv) run" where
  "listGitHub b organizationId subject = in_organizationS organizationId subject
     (wrapped ''integrations'' (calls b ''listGitHubIntegrations'' [JObj [(''organizationId'', organizationId)]]))"

definition attachGitHub :: "'c backend \<Rightarrow> jsv \<Rightarrow> jsv \<Rightarrow> jsv \<Rightarrow> jsv \<Rightarrow> ('c, jsv) run" where
  "attachGitHub b projectId serviceId input subject = in_serviceS b projectId serviceId subject
     (calls b ''attachGitHubRepositoryToService'' [JObj (service_key projectId serviceId @ [
        (''integrationId'', jget input ''integrationId''), (''repoUrl'', jor (jget input ''repoUrl'') (jget input ''repository'')),
        (''branch'', jor (jget input ''branch'') (JStr ''main'')), (''actorUserId'', jget subject ''id'')])])"

definition githubCallback :: "jsv \<Rightarrow> jsv res" where
  "githubCallback input = (let code = truthy (jget input ''code''); state = jget input ''state'' in
     if code \<and> \<not> truthy state then js_throw_status 400 ''oauth_state_required''
     else Inr (JObj [(''provider'', JStr ''github''), (''received'', JBool True), (''codePresent'', JBool code),
       (''state'', jor state JNull), (''mode'', JStr ''oauth-callback-pending''), (''linked'', JBool False)]))"

definition listGitHubInstallationsS :: "'c backend \<Rightarrow> jsv \<Rightarrow> jsv \<Rightarrow> ('c, jsv) run" where
  "listGitHubInstallationsS b subject organizationId = (let scoped = jor organizationId (jget subject ''organizationId'') in
     in_organizationS scoped subject (calls b ''listGitHubInstallations'' [JObj [(''organizationId'', scoped)]]))"

definition subject_scope :: "jsv \<Rightarrow> (string \<times> jsv) list" where
  "subject_scope subject = [(''actorUserId'', jget subject ''id''), (''organizationId'', jget subject ''organizationId''),
     (''organizationIds'', jget subject ''organizationIds'')]"

definition listGitHubInstallationRepositoriesS :: "'c backend \<Rightarrow> jsv \<Rightarrow> jsv \<Rightarrow> ('c, jsv) run" where
  "listGitHubInstallationRepositoriesS b installationId subject =
     calls b ''listGitHubInstallationRepositories'' [JObj ((''installationId'', installationId) # subject_scope subject)]"

definition importGitHubRepositoryS :: "'c backend \<Rightarrow> jsv \<Rightarrow> jsv \<Rightarrow> ('c, jsv) run" where
  "importGitHubRepositoryS b input subject = in_projectS b (jget input ''projectId'') subject
     (calls b ''importGitHubRepository'' [acting subject input []])"

definition syncGitHubRepositoryS :: "'c backend \<Rightarrow> jsv \<Rightarrow> jsv \<Rightarrow> jsv \<Rightarrow> ('c, jsv) run" where
  "syncGitHubRepositoryS b repositoryId input subject =
     calls b ''syncGitHubRepository'' [jwith input ((''repositoryId'', repositoryId) # subject_scope subject)]"

definition handleGitHubWebhookS :: "'c backend \<Rightarrow> jsv \<Rightarrow> ('c, jsv) run" where
  "handleGitHubWebhookS b input = calls b ''handleGitHubWebhook'' [input]"

end
