(* ===== verification/NestApi.thy ===== *)
theory NestApi
  imports NestAccounts
begin

text \<open>
  The production API (\<open>apps/api/src\<close>): the guard of all requests, the controllers as tables of endpoints (method,
  path, permission, handler) and the dispatch of a request to an endpoint. The routing of Express, the pipes of
  NestJS and its replies to exceptions are not modelled: a request comes with the parameters of its path, its
  query and its body.
\<close>

section \<open>Requests and replies\<close>

record nest_request =
  nHeaders :: jsv
  nParams :: jsv
  nQuery :: jsv
  nBody :: jsv
  nRawBody :: "string option"

datatype nest_reply = NestJson nat jsv | NestStream string

definition param_of :: "nest_request \<Rightarrow> string \<Rightarrow> jsv" where
  "param_of r k = jget (nParams r) k"

definition body_of :: "nest_request \<Rightarrow> jsv" where
  "body_of r = jor (nBody r) (JObj [])"

definition query_of :: "nest_request \<Rightarrow> jsv" where
  "query_of r = jor (nQuery r) (JObj [])"

definition replying :: "nat \<Rightarrow> ('c, jsv) run \<Rightarrow> ('c, nest_reply) run" where
  "replying code m = run_bind m (\<lambda>v. run_val (NestJson code v))"

definition writeSseSnapshot :: "string \<Rightarrow> jsv \<Rightarrow> nest_reply" where
  "writeSseSnapshot event payload = (let newline = [CHR 0x0A] in NestStream (
     ''retry: '' @ to_str (jor (jget (jget payload ''stream'') ''retryMs'') (jint 3000)) @ newline @
     ''event: '' @ event @ newline @ ''data: '' @ json_stringify payload @ newline @ newline))"

definition streaming :: "string \<Rightarrow> ('c, jsv) run \<Rightarrow> ('c, nest_reply) run" where
  "streaming event m = run_bind m (\<lambda>v. run_val (writeSseSnapshot event v))"

section \<open>The guard\<close>

definition guard_config :: "jsv \<Rightarrow> jsv" where
  "guard_config penv = (let mode = safeAuthModeFromEnv penv in JObj [
     (''mode'', JStr mode), (''allowDisabled'', JBool (mode = ''disabled'')),
     (''jwtSecret'', jor (jget penv ''RAIBITSERVER_AUTH_JWT_SECRET'') (JStr [])),
     (''issuer'', jor (jget penv ''RAIBITSERVER_AUTH_ISSUER'') (JStr ''raibitserver'')),
     (''audience'', jor (jget penv ''RAIBITSERVER_AUTH_AUDIENCE'') (JStr ''raibitserver-api'')),
     (''allowDevHeaders'', JBool (devHeaderAuthAllowed penv)),
     (''defaultRole'', jor (jget penv ''RAIBITSERVER_ROLE'') (JStr ''owner''))])"

definition guarded_request :: "nest_request \<Rightarrow> jsv" where
  "guarded_request r = JObj [(''headers'', nHeaders r), (''params'', nParams r)]"

text \<open>The subject is kept in the request; endpoints without permission see none.\<close>

definition canActivate :: "service_context \<Rightarrow> string option \<Rightarrow> nest_request \<Rightarrow> jsv res" where
  "canActivate v permission r = (case permission of None \<Rightarrow> Inr JUndef
     | Some p \<Rightarrow> authorizeRequest (vJwt v) (guarded_request r) p (guard_config (vEnv v)) (JObj []) (vNow v))"

section \<open>Endpoints\<close>

datatype 'c handler =
  Handle "'c backend \<Rightarrow> service_context \<Rightarrow> nest_request \<Rightarrow> jsv \<Rightarrow> ('c, nest_reply) run"
| Attempt "'c backend \<Rightarrow> service_context \<Rightarrow> jsv \<Rightarrow> rate_limiter \<Rightarrow> 'c list \<Rightarrow> (jsv res \<times> 'c list) \<times> rate_limiter"

type_synonym 'c endpoint = "string \<times> string \<times> string option \<times> 'c handler"

definition AUTH_CONTROLLER :: "'c endpoint list" where
  "AUTH_CONTROLLER = [
     (''POST'', ''auth/signup'', None, Attempt (\<lambda>b v input l tr. case signup b v input l of (m, l') \<Rightarrow> (m tr, l'))),
     (''POST'', ''auth/login'', None, Attempt login),
     (''GET'', ''auth/github/login'', None, Handle (\<lambda>b v r s. replying 200
        (run_val (githubOAuthLoginPlan (vEnv v) (vOauthState v) (query_of r))))),
     (''GET'', ''auth/github/callback'', None, Handle (\<lambda>b v r s. replying 200 (run_lift (githubCallback (query_of r))))),
     (''GET'', ''auth/me'', Some ''project:read'', Handle (\<lambda>b v r s. replying 200 (currentUser b s))),
     (''POST'', ''auth/logout'', Some ''project:read'', Handle (\<lambda>b v r s. replying 200 (run_val (JObj [(''ok'', JBool True)]))))]"

definition PROJECTS_CONTROLLER :: "'c endpoint list" where
  "PROJECTS_CONTROLLER = [
     (''GET'', ''projects'', Some ''project:read'', Handle (\<lambda>b v r s. replying 200 (wrapped ''projects'' (listProjects b s)))),
     (''POST'', ''projects'', Some ''project:create'', Handle (\<lambda>b v r s. replying 201 (createProjectS b v (nBody r) s))),
     (''GET'', ''projects/:projectId'', Some ''project:read'', Handle (\<lambda>b v r s. replying 200
        (getProjectS b (param_of r ''projectId'') s))),
     (''PATCH'', ''projects/:projectId'', Some ''project:update'', Handle (\<lambda>b v r s. replying 200
        (updateProjectS b (param_of r ''projectId'') (body_of r) s))),
     (''DELETE'', ''projects/:projectId'', Some ''project:delete'', Handle (\<lambda>b v r s. replying 200
        (deleteProjectS b (param_of r ''projectId'') s)))]"

definition SERVICES_CONTROLLERS :: "'c endpoint list" where
  "SERVICES_CONTROLLERS = [
     (''GET'', ''projects/:projectId/services'', Some ''project:read'', Handle (\<lambda>b v r s. replying 200
        (listServices b (param_of r ''projectId'') s))),
     (''POST'', ''projects/:projectId/services'', Some ''service:create'', Handle (\<lambda>b v r s. replying 201
        (addService b v (param_of r ''projectId'') (nBody r) s))),
     (''GET'', ''services/:serviceId'', Some ''project:read'', Handle (\<lambda>b v r s. replying 200
        (getServiceS b (param_of r ''serviceId'') s))),
     (''PATCH'', ''services/:serviceId'', Some ''service:update'', Handle (\<lambda>b v r s. replying 200
        (updateServiceS b v (param_of r ''serviceId'') (body_of r) s))),
     (''DELETE'', ''services/:serviceId'', Some ''project:delete'', Handle (\<lambda>b v r s. replying 200
        (deleteServiceS b (param_of r ''serviceId'') s)))]"

definition DEPLOYMENTS_CONTROLLERS :: "'c endpoint list" where
  "DEPLOYMENTS_CONTROLLERS = [
     (''GET'', ''projects/:projectId/services/:serviceId/deployments'', Some ''project:read'', Handle (\<lambda>b v r s. replying 200
        (listDeployments b (param_of r ''projectId'') (param_of r ''serviceId'') s))),
     (''POST'', ''projects/:projectId/services/:serviceId/deployments'', Some ''deploy:run'', Handle (\<lambda>b v r s. replying 202
        (createDeploymentS b (param_of r ''projectId'') (param_of r ''serviceId'') (body_of r) s))),
     (''GET'', ''services/:serviceId/deployments'', Some ''project:read'', Handle (\<lambda>b v r s. replying 200
        (listDeploymentsForServiceS b (param_of r ''serviceId'') s))),
     (''POST'', ''services/:serviceId/deployments'', Some ''deploy:run'', Handle (\<lambda>b v r s. replying 202
        (createDeploymentForService b (param_of r ''serviceId'') (body_of r) s))),
     (''GET'', ''deployments/:deploymentId'', Some ''project:read'', Handle (\<lambda>b v r s. replying 200
        (getDeploymentS b (param_of r ''deploymentId'') s))),
     (''PATCH'', ''deployments/:deploymentId/status'', Some ''deploy:run'', Handle (\<lambda>b v r s. replying 200
        (updateDeploymentStatus b (param_of r ''deploymentId'') (body_of r) s))),
     (''POST'', ''deployments/:deploymentId/status'', Some ''deploy:run'', Handle (\<lambda>b v r s. replying 201
        (updateDeploymentStatus b (param_of r ''deploymentId'') (body_of r) s))),
     (''POST'', ''deployments/:deploymentId/cancel'', Some ''deploy:run'', Handle (\<lambda>b v r s. replying 202
        (cancelDeploymentS b (param_of r ''deploymentId'') (body_of r) s))),
     (''POST'', ''deployments/:deploymentId/rollback'', Some ''deploy:run'', Handle (\<lambda>b v r s. replying 202
        (rollbackDeploymentS b (param_of r ''deploymentId'') (body_of r) s)))]"

definition LOGS_CONTROLLER :: "'c endpoint list" where
  "LOGS_CONTROLLER = [
     (''GET'', ''deployments/:deploymentId/logs'', Some ''logs:read'', Handle (\<lambda>b v r s. replying 200
        (listDeploymentLogsS b (param_of r ''deploymentId'') s))),
     (''GET'', ''deployments/:deploymentId/events'', Some ''logs:read'', Handle (\<lambda>b v r s. replying 200
        (listDeploymentEventsS b (param_of r ''deploymentId'') s))),
     (''GET'', ''deployments/:deploymentId/stream'', Some ''logs:read'', Handle (\<lambda>b v r s. streaming ''deployment.snapshot''
        (deploymentActivitySnapshot b (param_of r ''deploymentId'') s))),
     (''GET'', ''services/:serviceId/logs'', Some ''logs:read'', Handle (\<lambda>b v r s. replying 200
        (listRuntimeLogsS b (param_of r ''serviceId'') s))),
     (''GET'', ''services/:serviceId/logs/stream'', Some ''logs:read'', Handle (\<lambda>b v r s. streaming ''service.logs.snapshot''
        (serviceLogSnapshot b (param_of r ''serviceId'') s)))]"

definition RESOURCES_CONTROLLERS :: "'c endpoint list" where
  "RESOURCES_CONTROLLERS = [
     (''GET'', ''projects/:projectId/resources'', Some ''project:read'', Handle (\<lambda>b v r s. replying 200
        (listResources b (param_of r ''projectId'') s))),
     (''POST'', ''projects/:projectId/resources'', Some ''db:create'', Handle (\<lambda>b v r s. replying 201
        (addResource b (param_of r ''projectId'') (nBody r) s))),
     (''GET'', ''resources/:resourceId'', Some ''project:read'', Handle (\<lambda>b v r s. replying 200
        (getResourceS b (param_of r ''resourceId'') s))),
     (''PATCH'', ''resources/:resourceId'', Some ''db:create'', Handle (\<lambda>b v r s. replying 200
        (updateResourceS b (param_of r ''resourceId'') (nBody r) s))),
     (''DELETE'', ''resources/:resourceId'', Some ''db:delete'', Handle (\<lambda>b v r s. replying 200
        (deleteResourceS b (param_of r ''resourceId'') s))),
     (''POST'', ''resources/:resourceId/attach'', Some ''db:create'', Handle (\<lambda>b v r s. replying 201
        (attachResourceS b (param_of r ''resourceId'') (nBody r) s))),
     (''POST'', ''resources/:resourceId/provision'', Some ''db:create'', Handle (\<lambda>b v r s. replying 201
        (provisionResource b (param_of r ''resourceId'') (nBody r) s)))]"

definition console_view :: "string \<Rightarrow> string \<Rightarrow> 'c endpoint" where
  "console_view permission view = (''GET'', ''resources/:resourceId/console/'' @ view, Some permission,
     Handle (\<lambda>b v r s. replying 200 (resourceConsoleViewS b (param_of r ''resourceId'') view (query_of r) s)))"

definition CONSOLE_CONTROLLER :: "'c endpoint list" where
  "CONSOLE_CONTROLLER = [
     console_view ''db:schema:read'' ''schema'', console_view ''db:schema:read'' ''tables'',
     (''GET'', ''resources/:resourceId/console/tables/:table'', Some ''db:data:read'', Handle (\<lambda>b v r s. replying 200
        (resourceConsoleViewS b (param_of r ''resourceId'') ''table'' (jwith (query_of r) [(''table'', param_of r ''table'')]) s))),
     console_view ''db:schema:read'' ''collections'', console_view ''db:schema:read'' ''keys'',
     (''POST'', ''resources/:resourceId/console/query'', Some ''db:data:read'', Handle (\<lambda>b v r s. replying 201
        (queryResource b (param_of r ''resourceId'') (body_of r) s))),
     (''POST'', ''resources/:resourceId/console/command'', Some ''db:query:write'', Handle (\<lambda>b v r s. replying 201
        (commandResource b (param_of r ''resourceId'') (body_of r) s))),
     (''POST'', ''resources/:resourceId/console/browse'', Some ''db:data:read'', Handle (\<lambda>b v r s. replying 201
        (browseResource b (param_of r ''resourceId'') (body_of r) s)))]"

definition ENVIRONMENT_CONTROLLER :: "'c endpoint list" where
  "ENVIRONMENT_CONTROLLER = [
     (''GET'', ''projects/:projectId/services/:serviceId/env'', Some ''env:read'', Handle (\<lambda>b v r s. replying 200
        (listEnvironment b (param_of r ''projectId'') (param_of r ''serviceId'') s))),
     (''POST'', ''projects/:projectId/services/:serviceId/env'', Some ''env:write-limited'', Handle (\<lambda>b v r s. replying 201
        (upsertEnvironment b (param_of r ''projectId'') (param_of r ''serviceId'') (nBody r) s))),
     (''POST'', ''projects/:projectId/services/:serviceId/env-file'', Some ''env:write-limited'', Handle (\<lambda>b v r s. replying 201
        (importEnvironmentFile b (param_of r ''projectId'') (param_of r ''serviceId'') (nBody r) s)))]"

definition nest_webhook_input :: "nest_request \<Rightarrow> jsv" where
  "nest_webhook_input r = JObj [(''event'', jget (nHeaders r) ''x-github-event''),
     (''deliveryId'', jget (nHeaders r) ''x-github-delivery''), (''signature'', jget (nHeaders r) ''x-hub-signature-256''),
     (''body'', JStr (case nRawBody r of Some t \<Rightarrow> t | None \<Rightarrow> json_stringify (body_of r))), (''payload'', nBody r)]"

definition GITHUB_CONTROLLER :: "'c endpoint list" where
  "GITHUB_CONTROLLER = [
     (''GET'', ''github/installations'', Some ''project:read'', Handle (\<lambda>b v r s. replying 200
        (listGitHubInstallationsS b s (jget (nQuery r) ''organizationId'')))),
     (''POST'', ''integrations/github'', Some ''team:invite'', Handle (\<lambda>b v r s. replying 201 (connectGitHub b (nBody r) s))),
     (''GET'', ''integrations/github'', Some ''project:read'', Handle (\<lambda>b v r s. replying 200
        (listGitHub b (jor (jget (nQuery r) ''organizationId'') (jget s ''organizationId'')) s))),
     (''POST'', ''projects/:projectId/services/:serviceId/github'', Some ''deploy:run'', Handle (\<lambda>b v r s. replying 201
        (attachGitHub b (param_of r ''projectId'') (param_of r ''serviceId'') (nBody r) s))),
     (''GET'', ''github/installations/:installationId/repositories'', Some ''project:read'', Handle (\<lambda>b v r s. replying 200
        (listGitHubInstallationRepositoriesS b (param_of r ''installationId'') s))),
     (''POST'', ''github/webhooks'', None, Handle (\<lambda>b v r s. replying 201 (handleGitHubWebhookS b (nest_webhook_input r)))),
     (''POST'', ''github/repositories/import'', Some ''deploy:run'', Handle (\<lambda>b v r s. replying 201
        (importGitHubRepositoryS b (body_of r) s))),
     (''POST'', ''github/repositories/:repositoryId/sync'', Some ''deploy:run'', Handle (\<lambda>b v r s. replying 201
        (syncGitHubRepositoryS b (param_of r ''repositoryId'') (body_of r) s)))]"

definition ADMIN_CONTROLLER :: "'c endpoint list" where
  "ADMIN_CONTROLLER = [
     (''POST'', ''admin/users/:userId/approve'', Some ''audit:read'', Handle (\<lambda>b v r s. replying 201
        (approveUserS b (param_of r ''userId'') (body_of r) s))),
     (''POST'', ''admin/users/:userId/reject'', Some ''audit:read'', Handle (\<lambda>b v r s. replying 201
        (rejectUserS b (param_of r ''userId'') s))),
     (''PATCH'', ''admin/users/:userId/quota'', Some ''audit:read'', Handle (\<lambda>b v r s. replying 200
        (setUserQuota b (param_of r ''userId'') (body_of r) s))),
     (''POST'', ''admin/users/:userId/quota'', Some ''audit:read'', Handle (\<lambda>b v r s. replying 201
        (setUserQuota b (param_of r ''userId'') (body_of r) s)))]"

definition USAGE_CONTROLLER :: "'c endpoint list" where
  "USAGE_CONTROLLER = [(''GET'', ''usage/me'', Some ''metrics:read'', Handle (\<lambda>b v r s. replying 200 (usageMe b s)))]"

definition ENDPOINTS :: "'c endpoint list" where
  "ENDPOINTS = AUTH_CONTROLLER @ PROJECTS_CONTROLLER @ SERVICES_CONTROLLERS @ DEPLOYMENTS_CONTROLLERS @ LOGS_CONTROLLER @
     RESOURCES_CONTROLLERS @ CONSOLE_CONTROLLER @ ENVIRONMENT_CONTROLLER @ GITHUB_CONTROLLER @ ADMIN_CONTROLLER @ USAGE_CONTROLLER"

text \<open>A request that an endpoint got: the guard, then its handler\<close>

definition run_endpoint ::
  "'c backend \<Rightarrow> service_context \<Rightarrow> 'c endpoint \<Rightarrow> nest_request \<Rightarrow> rate_limiter \<Rightarrow> 'c list \<Rightarrow> (nest_reply res \<times> 'c list) \<times> rate_limiter" where
  "run_endpoint b v e r l tr = (case e of (_, _, permission, h) \<Rightarrow> (case canActivate v permission r of
      Inl err \<Rightarrow> ((Inl err, tr), l)
    | Inr subject \<Rightarrow> (case h of Handle f \<Rightarrow> (f b v r subject tr, l)
        | Attempt f \<Rightarrow> (case f b v (nBody r) l tr of ((result, tr'), l') \<Rightarrow>
            ((rbind result (\<lambda>x. Inr (NestJson 201 x)), tr'), l')))))"

end
