(* ===== verification/NestSafety.thy ===== *)
theory NestSafety
  imports NestApi PrismaClean
begin

text \<open>
  What a request can make the production API ask of its repository. The locale \<open>repository_calls\<close> says that the
  reads of a repository stay within a set of calls, and all of its calls do once a subject has access to some
  project; then the requests of that subject stay within the set. It holds for the Prisma repository with the
  clean queries, and for any repository with its reads and whatever the subject has access to.
\<close>

section \<open>The reads of a repository\<close>

definition READ_METHODS :: "string list" where
  "READ_METHODS = [''snapshot'', ''getProject'', ''getService'', ''getResource'', ''getDeployment'', ''listServicesForProject'',
     ''listResourcesForProject'', ''listDeploymentsForService'', ''listDeploymentLogs'', ''listDeploymentEvents'',
     ''listRuntimeLogs'', ''listServiceEnvironment'', ''listGitHubIntegrations'', ''listGitHubInstallations'',
     ''listGitHubInstallationRepositories'', ''listMembershipsForUser'', ''quotaUsageForUser'']"

text \<open>Endpoints that write and belong to no project\<close>

definition OPEN_ENDPOINTS :: "(string \<times> string) list" where
  "OPEN_ENDPOINTS = [(''POST'', ''auth/signup''), (''POST'', ''auth/login''), (''POST'', ''projects''),
     (''POST'', ''integrations/github''), (''POST'', ''github/webhooks''),
     (''POST'', ''github/repositories/:repositoryId/sync''), (''POST'', ''admin/users/:userId/approve''),
     (''POST'', ''admin/users/:userId/reject''), (''PATCH'', ''admin/users/:userId/quota''),
     (''POST'', ''admin/users/:userId/quota'')]"

text \<open>Methods whose rows belong to a project\<close>

definition OWNED_GETTERS :: "string list" where
  "OWNED_GETTERS = [''getService'', ''getResource'', ''getDeployment'']"

text \<open>The project in the path of a request is not empty, nor the one whose repository is imported.\<close>

definition names_project :: "string \<Rightarrow> nest_request \<Rightarrow> bool" where
  "names_project path r = ((starts_with path ''projects/:projectId'' \<longrightarrow> truthy (param_of r ''projectId'')) \<and>
     (path = ''github/repositories/import'' \<longrightarrow> truthy (jget (body_of r) ''projectId'')))"

definition PUBLIC_ENDPOINTS :: "(string \<times> string) list" where
  "PUBLIC_ENDPOINTS = [(''POST'', ''auth/signup''), (''POST'', ''auth/login''), (''GET'', ''auth/github/login''),
     (''GET'', ''auth/github/callback''), (''POST'', ''github/webhooks'')]"

definition all_calls :: "'c backend \<Rightarrow> ('c \<Rightarrow> bool) \<Rightarrow> bool" where
  "all_calls b P = (\<forall>name args. makes_calls P (calls b name args))"

lemma all_callsD: "all_calls b P \<Longrightarrow> makes_calls P (calls b name args)"
  by (simp add: all_calls_def)

definition handler_within :: "'c backend \<Rightarrow> ('c \<Rightarrow> bool) \<Rightarrow> service_context \<Rightarrow> nest_request \<Rightarrow> jsv \<Rightarrow> 'c handler \<Rightarrow> bool" where
  "handler_within b P v r subject h = (case h of
      Handle f \<Rightarrow> makes_calls P (f b v r subject)
    | Attempt f \<Rightarrow> (\<forall>input l tr. \<exists>cs. snd (fst (f b v input l tr)) = tr @ cs \<and> list_all P cs))"

definition endpoint_within :: "'c backend \<Rightarrow> ('c \<Rightarrow> bool) \<Rightarrow> service_context \<Rightarrow> nest_request \<Rightarrow> jsv \<Rightarrow> 'c endpoint \<Rightarrow> bool" where
  "endpoint_within b P v r subject e = (case e of (m, path, permission, h) \<Rightarrow>
     all_calls b P \<or> (m, path) \<notin> set OPEN_ENDPOINTS \<and> names_project path r \<longrightarrow> handler_within b P v r subject h)"

lemma handled: "makes_calls P (f b v r s) \<Longrightarrow> handler_within b P v r s (Handle f)"
  by (simp add: handler_within_def)

lemma makes_calls_conflict: "makes_calls P m \<Longrightarrow> makes_calls P (conflict_of m)"
  unfolding makes_calls_def conflict_of_def by (simp add: split_beta split: sum.split)

section \<open>Requests within a set of calls\<close>

locale repository_calls =
  fixes b :: "'c backend" and P :: "'c \<Rightarrow> bool" and subject :: jsv
  assumes reads: "name \<in> set READ_METHODS \<Longrightarrow> makes_calls P (calls b name args)"
    and writes: "assertProjectAccessS b projectId subject tr = (Inr (), tr') \<Longrightarrow> truthy projectId \<Longrightarrow> all_calls b P"
    and rows: "calls b name args tr = (Inr row, tr') \<Longrightarrow> name \<in> set OWNED_GETTERS \<Longrightarrow> truthy row \<Longrightarrow>
      \<not> all_calls b P \<Longrightarrow> truthy (jget row ''projectId'')"
begin

lemma access: "makes_calls P (assertProjectAccessS b projectId subject)"
  unfolding assertProjectAccessS_def
  by (auto simp: READ_METHODS_def intro!: makes_calls_if clean_run_basic makes_calls_bind reads split: sum.split option.split)

lemma within_project:
  "(all_calls b P \<Longrightarrow> makes_calls P m) \<Longrightarrow> (\<not> all_calls b P \<Longrightarrow> truthy projectId) \<Longrightarrow>
   makes_calls P (in_projectS b projectId subject m)"
  unfolding in_projectS_def run_then_def using access writes by (intro makes_calls_bind) auto

lemma within_row:
  "getter \<in> set READ_METHODS \<Longrightarrow> makes_calls P (found_row b getter kind i)"
  unfolding found_row_def by (intro makes_calls_bind clean_run_basic reads)

lemma found_project:
  "found_row b getter kind i tr = (Inr row, tr') \<Longrightarrow> getter \<in> set OWNED_GETTERS \<Longrightarrow> \<not> all_calls b P \<Longrightarrow>
   truthy (jget row ''projectId'')"
  using rows unfolding found_row_def
  by (auto simp: run_bind_def run_lift_def run_ret_def missing_def js_throw_status_def split: prod.splits sum.splits if_splits)

lemma getters_read: "getter \<in> set OWNED_GETTERS \<Longrightarrow> getter \<in> set READ_METHODS"
  by (auto simp: OWNED_GETTERS_def READ_METHODS_def)

lemma within_owned:
  "getter \<in> set OWNED_GETTERS \<Longrightarrow> (\<And>row. all_calls b P \<Longrightarrow> makes_calls P (f row)) \<Longrightarrow>
   makes_calls P (owned b getter kind i subject f)"
  unfolding owned_def by (intro makes_calls_bind within_row within_project getters_read) (auto dest: found_project)

lemma within_service: "makes_calls P (assertServiceInProject b projectId serviceId)"
  unfolding assertServiceInProject_def by (intro makes_calls_bind within_row clean_run_basic) (simp add: READ_METHODS_def)

lemma within_wrapped: "makes_calls P m \<Longrightarrow> makes_calls P (wrapped k m)"
  unfolding wrapped_def by (intro makes_calls_bind clean_run_basic)

lemma within_services:
  "(all_calls b P \<Longrightarrow> makes_calls P m) \<Longrightarrow> (\<not> all_calls b P \<Longrightarrow> truthy projectId) \<Longrightarrow>
   makes_calls P (in_serviceS b projectId serviceId subject m)"
  unfolding in_serviceS_def by (intro within_project clean_then within_service)

lemma within_organization: "makes_calls P m \<Longrightarrow> makes_calls P (in_organizationS organizationId subject m)"
  unfolding in_organizationS_def by (intro clean_then clean_run_basic)

lemma within_replies: "makes_calls P m \<Longrightarrow> makes_calls P (replying code m)" "makes_calls P m \<Longrightarrow> makes_calls P (streaming event m)"
  unfolding replying_def streaming_def by (intro makes_calls_bind clean_run_basic; assumption)+

lemma within_enforce: "all_calls b P \<Longrightarrow> makes_calls P (enforce b s action metric increment)"
  unfolding enforce_def by (rule all_callsD)

lemmas steps = clean_then makes_calls_bind clean_run_basic makes_calls_when clean_for within_project within_owned within_service within_services
  within_wrapped within_organization within_replies within_enforce within_row makes_calls_conflict

lemmas finishing = READ_METHODS_def OWNED_GETTERS_def

text \<open>The named project is the one of the path, or of the body.\<close>

lemma project_operations:
  assumes named: "\<not> all_calls b P \<Longrightarrow> truthy projectId"
  shows "makes_calls P (getProjectS b projectId subject)" "makes_calls P (updateProjectS b projectId input subject)"
    "makes_calls P (deleteProjectS b projectId subject)" "makes_calls P (listServices b projectId subject)"
    "makes_calls P (addService b v projectId input subject)" "makes_calls P (listResources b projectId subject)"
    "makes_calls P (addResource b projectId input subject)"
  unfolding getProjectS_def updateProjectS_def deleteProjectS_def listServices_def addService_def listResources_def addResource_def
  by (intro steps; (erule all_callsD | simp add: finishing named))+

lemma service_operations:
  "makes_calls P (getServiceS b serviceId subject)" "makes_calls P (updateServiceS b v serviceId input subject)"
  "makes_calls P (deleteServiceS b serviceId subject)" "makes_calls P (listRuntimeLogsS b serviceId subject)"
  "makes_calls P (serviceLogSnapshot b serviceId subject)"
  unfolding getServiceS_def updateServiceS_def deleteServiceS_def listRuntimeLogsS_def serviceLogSnapshot_def
  by (intro steps; (erule all_callsD | simp add: finishing))+

lemma owned_held:
  assumes "owned b getter kind i subject run_val tr = (Inr x, tr')" "getter \<in> set OWNED_GETTERS"
  shows "all_calls b P"
proof (rule ccontr)
  assume no: "\<not> all_calls b P"
  obtain row tr1 where row: "found_row b getter kind i tr = (Inr row, tr1)"
    and rest: "in_projectS b (jget row ''projectId'') subject (run_val row) tr1 = (Inr x, tr')"
    using assms(1) unfolding owned_def run_bind_def by (auto split: prod.splits sum.splits)
  have "truthy (jget row ''projectId'')" using found_project[OF row assms(2) no] .
  moreover obtain tr2 where "assertProjectAccessS b (jget row ''projectId'') subject tr1 = (Inr (), tr2)"
    using rest unfolding in_projectS_def run_then_def run_bind_def by (auto split: prod.splits sum.splits)
  ultimately show False using writes no by blast
qed

lemma resource_operations:
  "makes_calls P (getResourceS b resourceId subject)" "makes_calls P (updateResourceS b resourceId input subject)"
  "makes_calls P (deleteResourceS b resourceId subject)" "makes_calls P (attachResourceS b resourceId input subject)"
  "makes_calls P (provisionResource b resourceId input subject)"
  "makes_calls P (queryResource b resourceId input subject)" "makes_calls P (commandResource b resourceId input subject)"
  "makes_calls P (browseResource b resourceId input subject)" "makes_calls P (resourceConsoleViewS b resourceId view input subject)"
proof -
  show row: "makes_calls P (getResourceS b resourceId subject)" for resourceId
    unfolding getResourceS_def by (intro steps; simp add: finishing)
  have held: "all_calls b P" if "getResourceS b resourceId subject tr = (Inr x, tr')" for resourceId tr x tr'
    using owned_held that unfolding getResourceS_def by (auto simp: OWNED_GETTERS_def)
  show "makes_calls P (updateResourceS b resourceId input subject)" "makes_calls P (deleteResourceS b resourceId subject)"
    "makes_calls P (attachResourceS b resourceId input subject)" "makes_calls P (provisionResource b resourceId input subject)"
    unfolding updateResourceS_def deleteResourceS_def attachResourceS_def provisionResource_def run_then_def
    by (intro steps row; (drule held)?; (erule all_callsD | simp add: finishing))+
qed (unfold queryResource_def commandResource_def browseResource_def resourceConsoleViewS_def;
  intro steps; (erule all_callsD | simp add: finishing))+

lemma deployment_operations:
  assumes named: "\<not> all_calls b P \<Longrightarrow> truthy projectId"
  shows "makes_calls P (listDeployments b projectId serviceId subject)"
    "makes_calls P (createDeploymentS b projectId serviceId input subject)"
  unfolding listDeployments_def createDeploymentS_def Let_def
  by (intro steps; (erule all_callsD | simp add: finishing named))+

lemma service_deployments:
  "makes_calls P (listDeploymentsForServiceS b serviceId subject)" "makes_calls P (createDeploymentForService b serviceId input subject)"
  unfolding listDeploymentsForServiceS_def createDeploymentForService_def
  by (intro makes_calls_bind within_row deployment_operations; (drule found_project)?; simp add: finishing)+

lemma deployment_changes:
  "makes_calls P (getDeploymentS b deploymentId subject)" "makes_calls P (updateDeploymentStatus b deploymentId input subject)"
  "makes_calls P (cancelDeploymentS b deploymentId input subject)" "makes_calls P (rollbackDeploymentS b deploymentId input subject)"
  "makes_calls P (listDeploymentLogsS b deploymentId subject)" "makes_calls P (listDeploymentEventsS b deploymentId subject)"
  "makes_calls P (deploymentActivitySnapshot b deploymentId subject)"
proof -
  show row: "makes_calls P (getDeploymentS b deploymentId subject)" for deploymentId
    unfolding getDeploymentS_def by (intro steps; simp add: finishing)
  have held: "all_calls b P" if "getDeploymentS b deploymentId subject tr = (Inr x, tr')" for deploymentId tr x tr'
    using owned_held that unfolding getDeploymentS_def by (auto simp: OWNED_GETTERS_def)
  show "makes_calls P (updateDeploymentStatus b deploymentId input subject)"
    "makes_calls P (cancelDeploymentS b deploymentId input subject)" "makes_calls P (rollbackDeploymentS b deploymentId input subject)"
    unfolding updateDeploymentStatus_def cancelDeploymentS_def rollbackDeploymentS_def run_then_def Let_def
    by (intro steps makes_calls_if row; drule held; erule all_callsD)+
qed (unfold listDeploymentLogsS_def listDeploymentEventsS_def deploymentActivitySnapshot_def;
  intro steps; (erule all_callsD | simp add: finishing))+

lemma environment_operations:
  assumes named: "\<not> all_calls b P \<Longrightarrow> truthy projectId"
  shows "makes_calls P (listEnvironment b projectId serviceId subject)" "makes_calls P (upsertEnvironment b projectId serviceId input subject)"
    "makes_calls P (importEnvironmentFile b projectId serviceId input subject)"
    "makes_calls P (attachGitHub b projectId serviceId input subject)"
  unfolding listEnvironment_def upsertEnvironment_def importEnvironmentFile_def attachGitHub_def write_environment_def Let_def
  by (intro steps; (erule all_callsD | simp add: named))+

lemma import_operation:
  "(\<not> all_calls b P \<Longrightarrow> truthy (jget input ''projectId'')) \<Longrightarrow> makes_calls P (importGitHubRepositoryS b input subject)"
  unfolding importGitHubRepositoryS_def by (intro steps; (erule all_callsD | simp))

lemma reading_operations:
  "makes_calls P (listProjects b subject)" "makes_calls P (currentUser b subject)" "makes_calls P (usageMe b subject)"
  "makes_calls P (listGitHub b organizationId subject)" "makes_calls P (listGitHubInstallationsS b subject organizationId)"
  "makes_calls P (listGitHubInstallationRepositoriesS b installationId subject)"
  unfolding listProjects_def currentUser_def usageMe_def listGitHub_def listGitHubInstallationsS_def
    listGitHubInstallationRepositoriesS_def Let_def
  by (intro steps makes_calls_if reads; simp add: READ_METHODS_def)+

lemma open_operations:
  assumes free: "all_calls b P"
  shows "makes_calls P (createProjectS b v input subject)" "makes_calls P (connectGitHub b input subject)"
    "makes_calls P (syncGitHubRepositoryS b repositoryId input subject)" "makes_calls P (handleGitHubWebhookS b input)"
    "makes_calls P (approveUserS b userId input subject)" "makes_calls P (rejectUserS b userId subject)"
    "makes_calls P (setUserQuota b userId input subject)"
  unfolding createProjectS_def memory_project_def connectGitHub_def syncGitHubRepositoryS_def handleGitHubWebhookS_def approveUserS_def
    rejectUserS_def setUserQuota_def Let_def
  by (intro steps makes_calls_if all_callsD free)+

lemma account_operations:
  assumes free: "all_calls b P"
  shows "makes_calls P (signup_run b v input secret email)" "makes_calls P (login_run b v input email)"
proof -
  have everyone: "makes_calls P (usersForRepository b)"
    unfolding usersForRepository_def by (intro steps makes_calls_if all_callsD free)
  show "makes_calls P (signup_run b v input secret email)" "makes_calls P (login_run b v input email)"
    unfolding signup_run_def login_run_def open_account_def Let_def
    by (intro steps makes_calls_if everyone all_callsD free)+
qed

lemma attempts:
  assumes free: "all_calls b P"
  shows "handler_within b P v r s (Attempt (\<lambda>b v input l tr. case signup b v input l of (m, l') \<Rightarrow> (m tr, l')))"
    "handler_within b P v r s (Attempt login)"
proof -
  have signing: "\<exists>cs. snd (signup_run b v input secret email tr) = tr @ cs \<and> list_all P cs"
    and entering: "\<exists>cs. snd (login_run b v input email tr) = tr @ cs \<and> list_all P cs" for input secret email tr
    using account_operations[OF free] unfolding makes_calls_def by blast+
  show "handler_within b P v r s (Attempt (\<lambda>b v input l tr. case signup b v input l of (m, l') \<Rightarrow> (m tr, l')))"
    using signing by (auto simp: handler_within_def signup_def run_lift_def run_ret_def split: prod.split sum.split)
  show "handler_within b P v r s (Attempt login)"
    unfolding handler_within_def handler.case
  proof (intro allI)
    fix input l tr
    show "\<exists>cs. snd (fst (login b v input l tr)) = tr @ cs \<and> list_all P cs"
      using entering[of input _ tr] by (auto simp: login_def split: prod.split sum.split) (metis snd_conv)+
  qed
qed

lemmas project_handlers = within_replies clean_run_basic project_operations service_operations resource_operations deployment_operations service_deployments
  deployment_changes environment_operations import_operation reading_operations within_wrapped

lemma within_tables:
  "list_all (endpoint_within b P v r subject) AUTH_CONTROLLER" "list_all (endpoint_within b P v r subject) PROJECTS_CONTROLLER"
  "list_all (endpoint_within b P v r subject) SERVICES_CONTROLLERS"
  "list_all (endpoint_within b P v r subject) DEPLOYMENTS_CONTROLLERS" "list_all (endpoint_within b P v r subject) LOGS_CONTROLLER"
  "list_all (endpoint_within b P v r subject) RESOURCES_CONTROLLERS" "list_all (endpoint_within b P v r subject) CONSOLE_CONTROLLER"
  "list_all (endpoint_within b P v r subject) ENVIRONMENT_CONTROLLER" "list_all (endpoint_within b P v r subject) GITHUB_CONTROLLER"
  "list_all (endpoint_within b P v r subject) ADMIN_CONTROLLER" "list_all (endpoint_within b P v r subject) USAGE_CONTROLLER"
  unfolding AUTH_CONTROLLER_def PROJECTS_CONTROLLER_def SERVICES_CONTROLLERS_def DEPLOYMENTS_CONTROLLERS_def LOGS_CONTROLLER_def
    RESOURCES_CONTROLLERS_def CONSOLE_CONTROLLER_def console_view_def ENVIRONMENT_CONTROLLER_def GITHUB_CONTROLLER_def
    ADMIN_CONTROLLER_def USAGE_CONTROLLER_def list.pred_inject(2) endpoint_within_def case_prod_conv
  by (intro conjI impI list.pred_inject(1) attempts handled project_handlers open_operations;
      simp add: OPEN_ENDPOINTS_def names_project_def starts_with_def)+

lemma within_endpoints: "e \<in> set ENDPOINTS \<Longrightarrow> endpoint_within b P v r subject e"
  using within_tables unfolding ENDPOINTS_def by (auto simp: list_all_iff)

end

end
