(* ===== verification/NestClaims.thy ===== *)
theory NestClaims
  imports NestSafety
begin

text \<open>
  The guarantees of the production API: the guard, what reaches the database, and the projects of other tenants.
\<close>

definition endpoint_name :: "'c endpoint \<Rightarrow> string \<times> string" where
  "endpoint_name e = (fst e, fst (snd e))"

definition endpoint_permission :: "'c endpoint \<Rightarrow> string option" where
  "endpoint_permission e = fst (snd (snd e))"

definition request_subject :: "service_context \<Rightarrow> nest_request \<Rightarrow> jsv res" where
  "request_subject v r = subjectFromRequest (vJwt v) (guarded_request r) (guard_config (vEnv v)) (vNow v)"

lemma run_refused: "canActivate v (endpoint_permission e) r = Inl err \<Longrightarrow> run_endpoint b v e r l tr = ((Inl err, tr), l)"
  by (cases e) (simp add: run_endpoint_def endpoint_permission_def)

lemma guard_passes:
  "canActivate v (Some p) r = Inr subject \<Longrightarrow> request_subject v r = Inr subject \<and> can (jget subject ''role'') p = Inr True \<and>
     is_ok (requireScope subject (jspread (jspread (JObj []) (jor (nParams r) (JObj []))) (JObj [])))"
  by (auto simp: canActivate_def authorizeRequest_def request_subject_def guarded_request_def rbind_Inr_iff is_ok_def
      dest!: require_action_ok)

section \<open>Permissions\<close>

lemma endpoint_permissions:
  "list_all (\<lambda>e. endpoint_permission e = None \<longrightarrow> endpoint_name e \<in> set PUBLIC_ENDPOINTS) ENDPOINTS"
  unfolding ENDPOINTS_def AUTH_CONTROLLER_def PROJECTS_CONTROLLER_def SERVICES_CONTROLLERS_def DEPLOYMENTS_CONTROLLERS_def LOGS_CONTROLLER_def
    RESOURCES_CONTROLLERS_def CONSOLE_CONTROLLER_def console_view_def ENVIRONMENT_CONTROLLER_def GITHUB_CONTROLLER_def
    ADMIN_CONTROLLER_def USAGE_CONTROLLER_def endpoint_permission_def endpoint_name_def
  by (simp add: PUBLIC_ENDPOINTS_def)

lemma project_permissions:
  "list_all (\<lambda>e. starts_with (snd (endpoint_name e)) ''projects/:projectId'' \<longrightarrow> endpoint_permission e \<noteq> None) ENDPOINTS"
  unfolding ENDPOINTS_def AUTH_CONTROLLER_def PROJECTS_CONTROLLER_def SERVICES_CONTROLLERS_def DEPLOYMENTS_CONTROLLERS_def LOGS_CONTROLLER_def
    RESOURCES_CONTROLLERS_def CONSOLE_CONTROLLER_def console_view_def ENVIRONMENT_CONTROLLER_def GITHUB_CONTROLLER_def
    ADMIN_CONTROLLER_def USAGE_CONTROLLER_def endpoint_permission_def endpoint_name_def
  by (simp add: starts_with_def)

text \<open>A sample: headers of the development mode, a subject of the organization \<open>acme\<close>\<close>

definition sample_context :: service_context where
  "sample_context = \<lparr>vEnv = JObj [(''RAIBITSERVER_AUTH_DEV_HEADERS'', JStr ''1''),
       (''RAIBITSERVER_DEV_HEADER_BIND_LOCAL'', JStr ''1'')], vNow = 0, vLater = 0, vKdf = (\<lambda>_ _ _. None),
     vSalt = ''salt'', vCompare = (\<lambda>_ _. 0), vJwt = sample_jwt JNull, vTokenId = ''t1'', vOauthState = ''o1'', vGitUrl = (\<lambda>_. None)\<rparr>"

definition sample_nest_request :: "(string \<times> jsv) list \<Rightarrow> nest_request" where
  "sample_nest_request params = \<lparr>nHeaders = JObj [(''x-raibitserver-user'', JStr ''u1''), (''x-raibitserver-role'', JStr ''owner''),
     (''x-raibitserver-organization'', JStr ''acme'')], nParams = JObj params, nQuery = JObj [], nBody = JObj [], nRawBody = None\<rparr>"

lemma sample_endpoints:
  "endpoint_name (ENDPOINTS ! 8) = (''GET'', ''projects/:projectId'')" "endpoint_name (ENDPOINTS ! 15) = (''DELETE'', ''services/:serviceId'')"
  "endpoint_permission (ENDPOINTS ! 15) = Some ''project:delete''" "15 < length ENDPOINTS" "8 < length ENDPOINTS"
  by (simp_all add: ENDPOINTS_def AUTH_CONTROLLER_def PROJECTS_CONTROLLER_def SERVICES_CONTROLLERS_def DEPLOYMENTS_CONTROLLERS_def
    endpoint_name_def endpoint_permission_def)

lemma sample_subject:
  "request_subject sample_context (sample_nest_request params) = Inr (dev_subject (nHeaders (sample_nest_request [])))"
  by (simp add: request_subject_def sample_context_def sample_nest_request_def guarded_request_def subjectFromRequest_def guard_config_def
    Let_def bearer_token_def jor_def starts_with_def safeAuthModeFromEnv_def unsafeDisabledAuthAllowed_def devHeaderAuthAllowed_def)

section \<open>The Prisma repository behind the API\<close>

definition prisma_backend :: "prisma \<Rightarrow> surroundings \<Rightarrow> prisma_call backend" where
  "prisma_backend d w = \<lparr>calls = (\<lambda>name args. prisma_method d w name args), prismaBacked = True\<rparr>"

lemma prisma_calls: "all_calls (prisma_backend d w) (clean_query w)"
  unfolding all_calls_def prisma_backend_def backend.select_convs prisma_method_def
  by (auto intro: clean_method clean_run_basic split: option.split)

interpretation production: repository_calls "prisma_backend d w" "clean_query w" subject for d w subject
  by unfold_locales (simp_all add: all_callsD prisma_calls)

section \<open>A repository with other tenants\<close>

type_synonym method_call = "string \<times> jsv list"

definition recorder :: "method_call responder \<Rightarrow> bool \<Rightarrow> method_call backend" where
  "recorder R prisma_based = \<lparr>calls = (\<lambda>name args. call R (name, args)), prismaBacked = prisma_based\<rparr>"

definition rows_owned :: "method_call responder \<Rightarrow> bool" where
  "rows_owned R = (\<forall>tr name args row. name \<in> set OWNED_GETTERS \<longrightarrow> answer R tr (name, args) = Inr row \<longrightarrow> truthy row \<longrightarrow>
     truthy (jget row ''projectId''))"

definition admitted :: "method_call responder \<Rightarrow> bool \<Rightarrow> jsv \<Rightarrow> bool" where
  "admitted R prisma_based subject = (\<exists>projectId tr tr'. truthy projectId \<and>
     assertProjectAccessS (recorder R prisma_based) projectId subject tr = (Inr (), tr'))"

definition permitted_call :: "method_call responder \<Rightarrow> bool \<Rightarrow> jsv \<Rightarrow> method_call \<Rightarrow> bool" where
  "permitted_call R prisma_based subject c =
     (fst c \<in> set READ_METHODS \<or> admitted R prisma_based subject \<or> \<not> rows_owned R)"

lemma permitted_free:
  "admitted R q subject \<or> \<not> rows_owned R \<Longrightarrow> all_calls (recorder R q) (permitted_call R q subject)"
  by (auto simp: all_calls_def recorder_def permitted_call_def intro!: makes_calls_call)

interpretation tenant: repository_calls "recorder R q" "permitted_call R q subject" subject for R q subject
proof (unfold_locales, goal_cases)
  case (1 name args)
  then show ?case by (simp add: recorder_def makes_calls_call permitted_call_def)
next
  case (2 projectId tr tr')
  then show ?case by (intro permitted_free) (auto simp: admitted_def)
next
  case (3 name args tr row tr')
  then have "rows_owned R" using permitted_free by blast
  then show ?case using 3 unfolding rows_owned_def by (auto simp: recorder_def call_def)
qed

text \<open>A subject of organizations only, and a repository all of whose projects belong to others\<close>

definition of_organizations :: "jsv \<Rightarrow> bool" where
  "of_organizations subject = (\<not> unscoped subject \<and> \<not> truthy (jget subject ''projectId'') \<and> \<not> is_jarr (jget subject ''projectIds''))"

definition foreign_project :: "jsv \<Rightarrow> jsv \<Rightarrow> bool" where
  "foreign_project subject project = (truthy (jget project ''organizationId'') \<and>
     \<not> matchesScope (jget subject ''organizationId'') (jget subject ''organizationIds'') (jget project ''organizationId''))"

definition all_foreign :: "method_call responder \<Rightarrow> jsv \<Rightarrow> bool" where
  "all_foreign R subject = (\<forall>tr snapshot. answer R tr (''snapshot'', []) = Inr snapshot \<longrightarrow>
     list_all (foreign_project subject) (items (jget snapshot ''projects'')))"

lemma jor_nullish: "jor v JNull = (if truthy v then v else JNull)"
  by (simp add: jor_def)

lemma project_scope_missing:
  "of_organizations subject \<Longrightarrow> truthy projectId \<Longrightarrow> \<exists>e. requireScope subject (JObj [(''projectId'', projectId)]) = Inl e"
  by (simp add: requireScope_def of_organizations_def Let_def jor_nullish matchesScope_def Auth.forbidden_def js_throw_status_def)

lemma jget_spread_params:
  "truthy (jget params k) \<Longrightarrow> distinct (map fst (entries params)) \<Longrightarrow>
   jget (jspread (jspread (JObj []) (jor params (JObj []))) (JObj [])) k = jget params k"
proof -
  assume a: "truthy (jget params k)" "distinct (map fst (entries params))"
  have "has_own params k"
    using a(1) by (cases "map_of (entries params) k") (auto simp: jget_def has_own_def dest!: map_of_SomeD intro: rev_image_eqI)
  moreover from this have "truthy params" by (cases params) (auto simp: has_own_def)
  ultimately show ?thesis using a(2) by (simp add: jor_def jget_jspread_distinct)
qed

lemma params_scope_missing:
  assumes "of_organizations subject" "truthy (param_of r ''projectId'')" "distinct (map fst (entries (nParams r)))"
  shows "\<not> is_ok (requireScope subject (jspread (jspread (JObj []) (jor (nParams r) (JObj []))) (JObj [])))"
  using assms
  by (simp add: requireScope_def of_organizations_def Let_def jor_nullish matchesScope_def Auth.forbidden_def js_throw_status_def
      jget_spread_params param_of_def)

lemma organization_scope_missing:
  "of_organizations subject \<Longrightarrow> foreign_project subject project \<Longrightarrow>
   enforceScope subject (JObj [(''organizationId'', jget project ''organizationId'')]) \<noteq> Inr ()"
  by (auto simp: enforceScope_def requireScope_def of_organizations_def foreign_project_def Let_def jor_def denied_def
    Auth.forbidden_def js_throw_status_def)

lemma project_access_granted:
  fixes b :: "'c backend"
  assumes "assertProjectAccessS b projectId subject tr = (Inr (), tr')" "\<not> isGlobalSubject subject"
    and "requireScope subject (JObj [(''projectId'', projectId)]) = Inl e"
  obtains snapshot project where "fst (calls b ''snapshot'' [] tr) = Inr snapshot" "project_in snapshot projectId = Some project"
    "enforceScope subject (JObj [(''organizationId'', jget project ''organizationId'')]) = Inr ()"
proof -
  define look :: "jsv \<Rightarrow> ('c, unit) run" where "look = (\<lambda>snapshot. case project_in snapshot projectId of
      None \<Rightarrow> run_lift (missing ''project'' projectId)
    | Some project \<Rightarrow> run_lift (enforceScope subject (JObj [(''organizationId'', jget project ''organizationId'')])))"
  have no: "run_lift (denied m) tr \<noteq> (Inr (), tr')" for m by (simp add: run_lift_def run_ret_def denied_def js_throw_status_def)
  then have bound: "run_bind (calls b ''snapshot'' []) look tr = (Inr (), tr')"
    using assms unfolding assertProjectAccessS_def look_def by (auto split: if_splits)
  then obtain snapshot tr1 where s: "calls b ''snapshot'' [] tr = (Inr snapshot, tr1)" "look snapshot tr1 = (Inr (), tr')"
    unfolding run_bind_def by (auto split: prod.splits sum.splits)
  then obtain project where "project_in snapshot projectId = Some project"
    "enforceScope subject (JObj [(''organizationId'', jget project ''organizationId'')]) = Inr ()"
    unfolding look_def by (auto simp: run_lift_def run_ret_def missing_def js_throw_status_def split: option.splits)
  with s(1) show ?thesis by (intro that) simp_all
qed

lemma never_admitted:
  assumes "of_organizations subject" "all_foreign R subject"
  shows "\<not> admitted R q subject"
proof
  assume "admitted R q subject"
  then obtain projectId tr tr' where pid: "truthy projectId"
    and ok: "assertProjectAccessS (recorder R q) projectId subject tr = (Inr (), tr')" unfolding admitted_def by blast
  have global: "\<not> isGlobalSubject subject" using assms(1) by (simp add: of_organizations_def isGlobalSubject_def unscoped_def)
  obtain e where e: "requireScope subject (JObj [(''projectId'', projectId)]) = Inl e"
    using project_scope_missing[OF assms(1) pid] by blast
  obtain snapshot project where s: "fst (calls (recorder R q) ''snapshot'' [] tr) = Inr snapshot"
    and found: "project_in snapshot projectId = Some project"
    and scope: "enforceScope subject (JObj [(''organizationId'', jget project ''organizationId'')]) = Inr ()"
    by (rule project_access_granted[OF ok global e])
  have "foreign_project subject project"
    using assms(2) s found unfolding all_foreign_def project_in_def list_all_iff
    by (auto simp: recorder_def call_def find_Some_iff)
  then show False using organization_scope_missing[OF assms(1)] scope by blast
qed

section \<open>Properties\<close>

lemma run_within:
  assumes "endpoint_within b P v r subject e" "canActivate v (endpoint_permission e) r = Inr subject"
    and "all_calls b P \<or> endpoint_name e \<notin> set OPEN_ENDPOINTS \<and> names_project (snd (endpoint_name e)) r"
  shows "list_all P (snd (fst (run_endpoint b v e r l [])))"
proof (cases e)
  case (fields m path permission h)
  then have h: "handler_within b P v r subject h" and ok: "canActivate v permission r = Inr subject"
    using assms by (auto simp: endpoint_within_def endpoint_name_def endpoint_permission_def)
  show ?thesis
  proof (cases h)
    case (Handle f)
    then have "makes_calls P (f b v r subject)" using h by (simp add: handler_within_def)
    then show ?thesis using makes_calls_trace[of P "f b v r subject"] ok fields Handle
      by (simp add: run_endpoint_def) (metis prod.collapse)
  next
    case (Attempt f)
    have "\<exists>cs. snd (fst (f b v (nBody r) l [])) = [] @ cs \<and> list_all P cs"
      using h unfolding handler_within_def Attempt handler.case by blast
    then obtain cs where "snd (fst (f b v (nBody r) l [])) = [] @ cs" "list_all P cs" by blast
    then show ?thesis using ok fields Attempt by (simp add: run_endpoint_def split: prod.split) (metis fst_conv snd_conv)
  qed
qed

lemma run_within_all:
  assumes "\<And>subject. endpoint_within b P v r subject e" "all_calls b P"
  shows "list_all P (snd (fst (run_endpoint b v e r l [])))"
proof (cases "canActivate v (endpoint_permission e) r")
  case (Inl err)
  then show ?thesis by (simp add: run_refused)
next
  case (Inr subject)
  then show ?thesis using run_within[OF assms(1) Inr] assms(2) by blast
qed

text \<open>C6: The guard of the production API lets a request through only with what the endpoint asks for: but for
  signing up, logging in, the two redirects of GitHub and the webhook, an endpoint runs only for a subject
  whose role holds its permission; any other request is answered by an error, asks nothing of the repository and
  leaves the limiter alone.\<close>

theorem requests_guarded:
  assumes "e \<in> set ENDPOINTS" "endpoint_name e \<notin> set PUBLIC_ENDPOINTS"
  shows "(\<exists>p subject. endpoint_permission e = Some p \<and> request_subject v r = Inr subject \<and>
      can (jget subject ''role'') p = Inr True) \<or> (\<exists>err. run_endpoint b v e r l tr = ((Inl err, tr), l))"
proof -
  obtain p where p: "endpoint_permission e = Some p"
    using endpoint_permissions assms unfolding list_all_iff by blast
  show ?thesis
  proof (cases "canActivate v (Some p) r")
    case (Inl err)
    then have "run_endpoint b v e r l tr = ((Inl err, tr), l)" by (intro run_refused) (simp add: p)
    then show ?thesis by blast
  next
    case (Inr subject)
    then show ?thesis using guard_passes[OF Inr] p by blast
  qed
qed

text \<open>The guard compares the project of the path with the projects of the token before the service looks at
  its organizations: a subject that has organizations only, as every session token has, gets an error from every
  endpoint below \<open>projects/:projectId\<close>, also in its own organization, and the repository is not asked.\<close>

theorem members_refused:
  assumes "e \<in> set ENDPOINTS" "starts_with (snd (endpoint_name e)) ''projects/:projectId''"
    and "request_subject v r = Inr subject" "of_organizations subject"
    and "distinct (map fst (entries (nParams r)))" "truthy (param_of r ''projectId'')"
  shows "\<exists>err. run_endpoint b v e r l tr = ((Inl err, tr), l)"
proof -
  obtain p where p: "endpoint_permission e = Some p"
    using project_permissions assms(1,2) unfolding list_all_iff by blast
  have "canActivate v (Some p) r \<noteq> Inr subject'" for subject'
  proof
    assume pass: "canActivate v (Some p) r = Inr subject'"
    then have "is_ok (requireScope subject (jspread (jspread (JObj []) (jor (nParams r) (JObj []))) (JObj [])))"
      using guard_passes[OF pass] assms(3) by simp
    then show False using params_scope_missing[OF assms(4,6,5)] by blast
  qed
  then obtain err where "canActivate v (Some p) r = Inl err" by (cases "canActivate v (Some p) r") auto
  then show ?thesis using run_refused p by metis
qed

text \<open>C10: With the Prisma repository, whatever a request asks of the production API and whatever the database
  answers, every row written for it is clean.\<close>

theorem production_writes_clean:
  assumes "e \<in> set ENDPOINTS"
  shows "list_all (clean_query w) (snd (fst (run_endpoint (prisma_backend d w) v e r l [])))"
proof (rule run_within_all[OF _ prisma_calls])
  show "endpoint_within (prisma_backend d w) (clean_query w) v r subject e" for subject
    using assms by (rule production.within_endpoints)
qed

text \<open>C7: Tenants are kept apart: a subject that has organizations only, none of which has a project in the
  repository, makes the endpoints that belong to a project ask nothing but reads of the repository, as long as
  rows name their project and the request names one where it must.\<close>

theorem foreign_projects_untouched:
  assumes "e \<in> set ENDPOINTS" "endpoint_name e \<notin> set OPEN_ENDPOINTS" "names_project (snd (endpoint_name e)) r"
    and "canActivate v (endpoint_permission e) r = Inr subject" "of_organizations subject" "all_foreign R subject" "rows_owned R"
  shows "list_all (\<lambda>c. fst c \<in> set READ_METHODS) (snd (fst (run_endpoint (recorder R q) v e r l [])))"
proof -
  have "endpoint_within (recorder R q) (permitted_call R q subject) v r subject e"
    using assms(1) by (rule tenant.within_endpoints)
  then have "list_all (permitted_call R q subject) (snd (fst (run_endpoint (recorder R q) v e r l [])))"
    using run_within assms(2-4) by blast
  then show ?thesis using never_admitted[OF assms(5,6), of q] assms(7) by (simp add: permitted_call_def list_all_iff)
qed

section \<open>Requests that show the guarantees apply\<close>

definition sample_responder :: "method_call responder" where
  "sample_responder = \<lparr>answer = (\<lambda>tr c. Inr (if fst c = ''snapshot''
     then JObj [(''projects'', JArr [JObj [(''id'', JStr ''p1''), (''organizationId'', JStr ''other'')]])]
     else JObj [(''id'', JStr ''s1''), (''projectId'', JStr ''p1'')]))\<rparr>"

definition fresh_limiter :: rate_limiter where
  "fresh_limiter = createFixedWindowRateLimiter None None"

definition closed_context :: service_context where
  "closed_context = sample_context\<lparr>vEnv := JObj []\<rparr>"

lemma sample_tenants: "of_organizations (dev_subject (nHeaders (sample_nest_request [])))"
  "all_foreign sample_responder (dev_subject (nHeaders (sample_nest_request [])))" "rows_owned sample_responder"
  by (auto simp: of_organizations_def is_jarr_def all_foreign_def rows_owned_def sample_responder_def OWNED_GETTERS_def unscoped_def dev_subject_def
    sample_nest_request_def foreign_project_def matchesScope_def jor_def)

lemma sample_active: "canActivate sample_context (Some ''project:delete'') (sample_nest_request [(''serviceId'', JStr ''s1'')]) =
    Inr (dev_subject (nHeaders (sample_nest_request [])))"
  by code_simp

lemma closed_subject: "request_subject closed_context (sample_nest_request []) \<noteq> Inr subject"
  by (simp add: request_subject_def closed_context_def sample_context_def sample_nest_request_def guarded_request_def subjectFromRequest_def
    guard_config_def Let_def bearer_token_def jor_def starts_with_def safeAuthModeFromEnv_def unsafeDisabledAuthAllowed_def
    devHeaderAuthAllowed_def Auth.unauthorized_def js_throw_status_def)

theorem requests_guarded_witness:
  "\<exists>err. run_endpoint (recorder sample_responder True) closed_context (ENDPOINTS ! 15) (sample_nest_request [])
     fresh_limiter [] = ((Inl err, []), fresh_limiter)"
proof -
  have "endpoint_name (ENDPOINTS ! 15 :: method_call endpoint) \<notin> set PUBLIC_ENDPOINTS"
    by (simp add: sample_endpoints PUBLIC_ENDPOINTS_def)
  from requests_guarded[OF nth_mem[OF sample_endpoints(4)] this] show ?thesis using closed_subject by metis
qed

theorem members_refused_witness:
  "\<exists>err. run_endpoint (recorder sample_responder True) sample_context (ENDPOINTS ! 8)
     (sample_nest_request [(''projectId'', JStr ''p1'')]) fresh_limiter [] = ((Inl err, []), fresh_limiter)"
  by (rule members_refused[OF nth_mem[OF sample_endpoints(5)] _ sample_subject sample_tenants(1)])
    (simp_all add: sample_endpoints starts_with_def sample_nest_request_def param_of_def)

theorem production_writes_clean_witness:
  "\<forall>d w. list_all (clean_query w) (snd (fst (run_endpoint (prisma_backend d w) sample_context (ENDPOINTS ! 15)
     (sample_nest_request []) fresh_limiter [])))"
  by (intro allI production_writes_clean[OF nth_mem[OF sample_endpoints(4)]])

theorem foreign_projects_untouched_witness:
  "list_all (\<lambda>c. fst c \<in> set READ_METHODS) (snd (fst (run_endpoint (recorder sample_responder True) sample_context (ENDPOINTS ! 15)
     (sample_nest_request [(''serviceId'', JStr ''s1'')]) fresh_limiter [])))"
proof (rule foreign_projects_untouched[OF nth_mem[OF sample_endpoints(4)] _ _ _ sample_tenants])
  show "endpoint_name (ENDPOINTS ! 15 :: method_call endpoint) \<notin> set OPEN_ENDPOINTS"
    by (simp add: sample_endpoints OPEN_ENDPOINTS_def)
  show "names_project (snd (endpoint_name (ENDPOINTS ! 15 :: method_call endpoint))) (sample_nest_request [(''serviceId'', JStr ''s1'')])"
    by (simp add: sample_endpoints names_project_def starts_with_def)
  show "canActivate sample_context (endpoint_permission (ENDPOINTS ! 15 :: method_call endpoint))
      (sample_nest_request [(''serviceId'', JStr ''s1'')]) = Inr (dev_subject (nHeaders (sample_nest_request [])))"
    by (simp add: sample_endpoints sample_active)
qed

end
