(* ===== verification/Spec2Isabelle.thy ===== *)
theory Spec2Isabelle
  imports StoreInvariants DeploymentWorkflow ApiSafety DbConsole Quota Catalog Config Commands Auth BuildStrategy ResourceSanitizer
    Manifest Provisioner PrismaClean PrismaClaims NestClaims
begin

text \<open>
  A model of the core of RaibitServer, a platform that builds and runs the services of tenants: the TypeScript
  library \<open>packages/core/src\<close> and the production API \<open>apps/api/src\<close>, below \<open>src\<close>. A request passes the
  authorisation rules, its input is sanitized, and an operation of the control plane store, or of the Prisma
  repository, changes rows, queues workflow jobs and writes the audit trail; a worker claims the jobs and runs
  source checkouts, builds, registry pushes, compiled Kubernetes manifests and provider commands.

  Theories and the code they model. Every definition bears the name of its function, with a suffix where the
  name is taken: \<open>P\<close> for the Prisma repository, \<open>S\<close> for the production service. Helpers stand beside it.

  \<^item> \<open>JsPrelude\<close>, \<open>JsValue\<close>, \<open>Json\<close>, \<open>Regex\<close>, \<open>Uri\<close>, \<open>Clock\<close>: the parts of the language the
    code uses. A dynamically typed value is a \<open>jsv\<close>, an object the list of its fields, a thrown error
    the left of a sum. Regular expressions are matched by a backtracking matcher over a small syntax,
    time stamps are computed from the proleptic Gregorian calendar.
  \<^item> \<open>Effects\<close>, \<open>Host\<close>: programs that call what is outside of them, as functions from the trace of the calls made so
    far to a result and a longer trace, and the calls of a host (processes, files, time). A \<open>responder\<close> answers
    calls and is universally quantified; \<open>makes_calls P\<close> says that a program makes only calls in \<open>P\<close>.
  \<^item> \<open>Ids\<close> (\<open>ids.ts\<close>, \<open>scope.ts\<close>, \<open>constants.ts\<close>), \<open>Secrets\<close> (\<open>secrets.ts\<close>, \<open>secret-vault.ts\<close>),
    \<open>Rbac\<close> (\<open>rbac.ts\<close>, \<open>env-policy.ts\<close>), \<open>Sanitize\<close>, \<open>SqlPolicy\<close> and \<open>Security\<close> (\<open>security.ts\<close>),
    \<open>ErrorSpec\<close> (\<open>error-spec.ts\<close>), \<open>Quota\<close> (\<open>quota.ts\<close>), \<open>Catalog\<close> (\<open>catalog.ts\<close>),
    \<open>EnvFile\<close> (\<open>env-file.ts\<close>), \<open>Config\<close> (\<open>config.ts\<close>), \<open>Auth\<close> (\<open>auth.ts\<close>),
    \<open>Identity\<close> (\<open>identity.ts\<close>), \<open>Commands\<close> (\<open>command-runner.ts\<close>).
  \<^item> \<open>Deployments\<close> (\<open>deployments.ts\<close>): the statuses of a deployment and the table of transitions, as
    the step relation \<open>deploy_step\<close> and its runs \<open>deploy_run\<close>.
  \<^item> \<open>Workflows\<close>, \<open>WorkflowQueue\<close> (\<open>workflows.ts\<close>): job records and the array queue; the locale
    \<open>workflow_queue\<close> states what \<open>processNextWorkflowJob\<close> relies on. The array queue and the control
    plane store interpret it.
  \<^item> \<open>ResourceSanitizer\<close>, \<open>EnvInjection\<close>, \<open>Providers\<close>, \<open>Provisioner\<close>: managed resources
    (\<open>resource-sanitizer.ts\<close>, \<open>env-injection.ts\<close>, \<open>resource-providers.ts\<close>, \<open>provisioner.ts\<close>); \<open>DbConsole\<close> their
    console (\<open>db-console.ts\<close>), over a driver that is a parameter.
  \<^item> \<open>BuildStrategy\<close> (\<open>framework-detector.ts\<close>, \<open>build-strategy.ts\<close>), \<open>Manifest\<close>
    (\<open>manifest-compiler.ts\<close>), \<open>DomainRouter\<close> (\<open>domain-router.ts\<close>, \<open>preview-deployments.ts\<close>),
    \<open>GitHub\<close> (\<open>github-integration.ts\<close>), \<open>Compose\<close> (\<open>compose-importer.ts\<close>).
  \<^item> \<open>SourceControl\<close> (\<open>source-control.ts\<close>), \<open>BuildExecutor\<close> (\<open>build-executor.ts\<close>), \<open>Registry\<close> (\<open>registry.ts\<close>),
    \<open>Kubernetes\<close> (\<open>kubernetes.ts\<close>): plans and runs over the host; \<open>DeploymentWorkflow\<close> (\<open>deployment-workflow.ts\<close>)
    composes them with the store.
  \<^item> The control plane store (\<open>store.ts\<close>, \<open>store-helpers.ts\<close>). \<open>Store\<close> holds its state, one field
    for each field of the class, the operations as functions from a state to a result and the next
    state, kept when they throw, and the audit trail; \<open>StoreSecrets\<close>, \<open>StoreJobs\<close>,
    \<open>StoreDeployments\<close>, \<open>StoreResources\<close>, \<open>StoreConsole\<close>, \<open>StoreGitHub\<close>, \<open>StoreWebhook\<close>, \<open>StoreQuota\<close> hold its
    operations; \<open>StoreHistory\<close> makes it a state machine with one rule for every operation that changes
    it (\<open>store_step\<close>, and \<open>evolves\<close> for its runs); \<open>StoreInvariants\<close> proves what holds in every reachable store, with
    the locales \<open>store_relation\<close> (operations respect a preorder) and \<open>store_invariant\<close> (operations keep a
    predicate); \<open>StoreRefinement\<close> relates deployments to the status machine, \<open>StoreTenants\<close> says which operations
    leave projects and accounts alone.
  \<^item> The HTTP API (\<open>api.ts\<close>): \<open>ControlPlane\<close> (\<open>control-plane.ts\<close>, \<open>observability.ts\<close>) the planners behind it, \<open>Http\<close>
    requests and replies, \<open>ApiAccess\<close> the access checks, \<open>ApiPlans\<close> and \<open>ApiRoutes\<close> one handler per route, \<open>Api\<close> the
    table of routes and the dispatch. The locale \<open>api_relation\<close> lifts a relation that the operations of the store
    respect to whole requests; its interpretations are \<open>requests\<close> (every request is a history of store
    operations), and in \<open>ApiSafety\<close> \<open>tenant_requests\<close>, \<open>standing_requests\<close> and \<open>account_requests\<close>.
  \<^item> The Prisma repository (\<open>persistence.ts\<close>): \<open>PersistRows\<close> the rows it writes, \<open>Prisma\<close>, \<open>PrismaWork\<close>, \<open>PrismaDeploy\<close>,
    \<open>PrismaWebhook\<close> and \<open>PrismaAccounts\<close> its methods as runs of queries, \<open>PrismaRepository\<close> the table of its methods,
    \<open>PrismaClean\<close> what every written row satisfies, \<open>PrismaClaims\<close> interleaved workers on one database.
  \<^item> The production API (\<open>apps/api/src\<close>): \<open>NestService\<close>, \<open>NestWork\<close> and \<open>NestAccounts\<close> the operations of its service over
    a repository that is a parameter, \<open>NestApi\<close> the guard and the table of endpoints; \<open>NestSafety\<close> states in the
    locale \<open>repository_calls\<close> which calls the endpoints make, and \<open>NestClaims\<close> interprets it for the Prisma
    repository (\<open>production\<close>) and for repositories with other tenants (\<open>tenant\<close>).

  Parameters. What the code calls outside the repository is an argument: SHA-256, HMAC, AES-GCM,
  \<open>base64url\<close> and random bytes (\<open>crypto_ok\<close> and \<open>lib_ok\<close> state the round trips relied on), \<open>scrypt\<close>,
  the JSON, YAML and URL parsers, \<open>localeCompare\<close>, the host, the database drivers, the Prisma client,
  \<open>process.env\<close>, the working directory and the clock. The store reads one instant per operation and its awaited
  calls are single steps. Request bodies are ASCII.

  Bounds and termination. The matcher of \<open>Regex\<close> terminates because an iteration of a star that
  consumes nothing is not repeated; a global replacement has fuel for one round more than the text has
  characters, and every round consumes one. A claim of the Prisma repository tries three times, as its loop does.
  All other recursions are structural or carry a measure.

  Not modelled: the command line tools, the HTTP client, the dashboard and the development scripts, which call what is
  modelled; the Go services; the routing, the pipes and the exception filter of NestJS and Express; of the command runner
  the handling of a started process (pipes, signals, timers).
\<close>

end
